(* ===== verification/Prelude.thy ===== *)
theory Prelude
  imports Complex_Main
begin

text \<open>
  Shared vocabulary of the development: how a Go function returns (a value, an \<open>error\<close>, or a
  panic), how a 64-bit \<open>int\<close> wraps around, and the generic list lemmas used by the components.
\<close>

section \<open>Outcomes of a Go call\<close>

text \<open>
  A Go function of type \<open>(T, error)\<close> returns a value with a nil error, returns a non-nil
  error, or panics (nil dereference, slice bounds out of range).  \<open>Panic\<close> is kept apart from
  \<open>Fail\<close>: a caller that tests \<open>err != nil\<close> sees the second, never the first.
\<close>

datatype ('e, 'a) outcome = Ret 'a | Fail 'e | Panic

primrec obind :: "('e, 'a) outcome \<Rightarrow> ('a \<Rightarrow> ('e, 'b) outcome) \<Rightarrow> ('e, 'b) outcome" where
  "obind (Ret x) k = k x"
| "obind (Fail e) k = Fail e"
| "obind Panic k = Panic"

text \<open>\<open>errors.Wrap\<close>: the error path maps the error, the other paths are untouched.\<close>

primrec map_fail :: "('e \<Rightarrow> 'f) \<Rightarrow> ('e, 'a) outcome \<Rightarrow> ('f, 'a) outcome" where
  "map_fail w (Ret x) = Ret x"
| "map_fail w (Fail e) = Fail (w e)"
| "map_fail w Panic = Panic"

text \<open>Dereferencing a Go pointer: nil panics.\<close>

definition deref :: "'a option \<Rightarrow> ('e, 'a) outcome" where
  "deref p = (case p of None \<Rightarrow> Panic | Some x \<Rightarrow> Ret x)"

primrec is_ret :: "('e, 'a) outcome \<Rightarrow> bool" where
  "is_ret (Ret x) = True"
| "is_ret (Fail e) = False"
| "is_ret Panic = False"

named_theorems outcome_simps "evaluation of chained Go calls"

lemma obind_eq_Ret [outcome_simps]: "obind m k = Ret y \<longleftrightarrow> (\<exists>x. m = Ret x \<and> k x = Ret y)"
  by (cases m) auto

lemma obind_eq_Fail [outcome_simps]:
  "obind m k = Fail e \<longleftrightarrow> m = Fail e \<or> (\<exists>x. m = Ret x \<and> k x = Fail e)"
  by (cases m) auto

lemma obind_eq_Panic [outcome_simps]:
  "obind m k = Panic \<longleftrightarrow> m = Panic \<or> (\<exists>x. m = Ret x \<and> k x = Panic)"
  by (cases m) auto

lemma obind_assoc: "obind (obind m k) h = obind m (\<lambda>x. obind (k x) h)"
  by (cases m) auto

lemma obind_cong [fundef_cong]:
  "m = m' \<Longrightarrow> (\<And>x. m' = Ret x \<Longrightarrow> k x = k' x) \<Longrightarrow> obind m k = obind m' k'"
  by (cases m') auto

lemma map_fail_eq_Ret [outcome_simps]: "map_fail w m = Ret y \<longleftrightarrow> m = Ret y"
  by (cases m) auto

lemma map_fail_eq_Fail [outcome_simps]: "map_fail w m = Fail e \<longleftrightarrow> (\<exists>f. m = Fail f \<and> e = w f)"
  by (cases m) auto

lemma map_fail_eq_Panic [outcome_simps]: "map_fail w m = Panic \<longleftrightarrow> m = Panic"
  by (cases m) auto

lemma deref_eq_Ret [outcome_simps]: "deref p = Ret x \<longleftrightarrow> p = Some x"
  by (cases p) (auto simp: deref_def)

lemma deref_eq_Fail [outcome_simps]: "deref p \<noteq> Fail e"
  by (cases p) (auto simp: deref_def)

lemma deref_eq_Panic [outcome_simps]: "deref p = Panic \<longleftrightarrow> p = None"
  by (cases p) (auto simp: deref_def)

lemma deref_Some [simp]: "deref (Some x) = Ret x"
  by (simp add: deref_def)

lemma deref_None [simp]: "deref None = Panic"
  by (simp add: deref_def)

lemma is_ret_iff [outcome_simps]: "is_ret m \<longleftrightarrow> (\<exists>x. m = Ret x)"
  by (cases m) auto

section \<open>Go's 64-bit int\<close>

text \<open>
  A Go \<open>int\<close> on the platforms the program is built for has 64 bits.  It is an Isabelle \<open>int\<close>
  here and every operation that can leave the range is followed by \<open>wrap64\<close>, the two's
  complement wrap-around.
\<close>

definition wrap64 :: "int \<Rightarrow> int" where
  "wrap64 n = (n + 2 ^ 63) mod 2 ^ 64 - 2 ^ 63"

definition in64 :: "int \<Rightarrow> bool" where
  "in64 n \<longleftrightarrow> - (2 ^ 63) \<le> n \<and> n < 2 ^ 63"

lemma wrap64_id [simp]: "in64 n \<Longrightarrow> wrap64 n = n"
  by (simp add: wrap64_def in64_def)

lemma in64_wrap64 [simp]: "in64 (wrap64 n)"
  using pos_mod_bound [of "2 ^ 64" "n + 2 ^ 63"] pos_mod_sign [of "2 ^ 64" "n + 2 ^ 63"]
  by (simp add: wrap64_def in64_def)

lemma wrap64_idem [simp]: "wrap64 (wrap64 n) = wrap64 n"
  by simp

lemma wrap64_add_wrap64: "wrap64 (wrap64 a + b) = wrap64 (a + b)"
proof -
  have "wrap64 a + b + 2 ^ 63 = (a + 2 ^ 63) mod 2 ^ 64 + b"
    by (simp add: wrap64_def)
  then show ?thesis
    by (simp add: wrap64_def mod_simps algebra_simps)
qed

lemma in64_abs: "\<bar>n\<bar> < 2 ^ 63 \<Longrightarrow> in64 n"
  by (simp add: in64_def abs_if split: if_splits)

lemma in64_nonneg: "0 \<le> n \<Longrightarrow> n < 2 ^ 63 \<Longrightarrow> in64 n"
  by (simp add: in64_def)

text \<open>Go's integer division truncates towards zero.\<close>

definition go_div :: "int \<Rightarrow> int \<Rightarrow> int" where
  "go_div a b = sgn a * sgn b * (\<bar>a\<bar> div \<bar>b\<bar>)"

lemma go_div_nonneg [simp]: "0 \<le> a \<Longrightarrow> 0 < b \<Longrightarrow> go_div a b = a div b"
  by (cases "a = 0") (simp_all add: go_div_def)

section \<open>Times\<close>

text \<open>
  A \<open>time.Time\<close> is a number of seconds since the epoch in UTC.  \<open>AddDate t n\<close> is
  \<open>t.AddDate(0, 0, n)\<close>; \<open>zero_time\<close> is the value \<open>IsZero\<close> tests for (January 1 of year 1).
\<close>

type_synonym gotime = int

definition date_of :: "gotime \<Rightarrow> int" where
  "date_of t = t div 86400"

definition AddDate :: "gotime \<Rightarrow> int \<Rightarrow> gotime" where
  "AddDate t n = t + 86400 * n"

definition zero_time :: gotime where
  "zero_time = - 62135596800"

text \<open>A row identifier; \<open>uuid_Nil\<close> is \<open>uuid.Nil\<close>.\<close>

type_synonym uuid = nat

definition uuid_Nil :: uuid where
  "uuid_Nil = 0"

section \<open>Lists\<close>

lemma filter_single:
  assumes "distinct rs" "r \<in> set rs" "P r" "\<And>s. s \<in> set rs \<Longrightarrow> P s \<Longrightarrow> s = r"
  shows "filter P rs = [r]"
proof -
  from assms(2) obtain ys zs where rs: "rs = ys @ r # zs" by (auto dest: split_list)
  with assms(1,4) have "\<forall>s \<in> set ys \<union> set zs. \<not> P s" by fastforce
  with assms(3) show ?thesis by (simp add: rs filter_empty_conv)
qed

end
