(* ===== verification/Float64.thy ===== *)
theory Float64
  imports Prelude
begin

text \<open>
  Binary64 arithmetic as the program uses it: a finite double is the rational it denotes, and
  every Go operator on \<open>float64\<close> is the exact rational operation followed by \<open>fl64\<close>, rounding
  to nearest with ties to even on 53 significant bits (with the subnormal quantum below
  \<open>2 powi -1022\<close>).  Infinities, NaN and the sign of zero are not represented: the program only
  multiplies and divides values converted from 64-bit ints by rates, far inside the range.
\<close>

section \<open>Rounding to an integer\<close>

text \<open>Round half to even, the rounding of IEEE significands and of \<open>strconv\<close>.\<close>

definition rne :: "rat \<Rightarrow> int" where
  "rne y = (let n = \<lfloor>y\<rfloor>; r = y - of_int n in
     if r < 1 / 2 then n else if 1 / 2 < r then n + 1 else if even n then n else n + 1)"

text \<open>\<open>math.Round\<close>: half away from zero.\<close>

definition go_round :: "rat \<Rightarrow> int" where
  "go_round x = (if 0 \<le> x then \<lfloor>x + 1 / 2\<rfloor> else - \<lfloor>- x + 1 / 2\<rfloor>)"

text \<open>Go's conversion \<open>int(f)\<close> drops the fraction; out of range it is the amd64 result.\<close>

definition go_trunc :: "rat \<Rightarrow> int" where
  "go_trunc x = (let n = (if 0 \<le> x then \<lfloor>x\<rfloor> else - \<lfloor>- x\<rfloor>) in if in64 n then n else - (2 ^ 63))"

lemma rne_bounds: "\<lfloor>y\<rfloor> \<le> rne y \<and> rne y \<le> \<lfloor>y\<rfloor> + 1"
  by (simp add: rne_def Let_def)

lemma floor_between: "\<exists>n. \<lfloor>y\<rfloor> = n \<and> of_int n \<le> y \<and> y < of_int n + 1" for y :: rat
  using floor_correct [of y] by (intro exI [of _ "\<lfloor>y\<rfloor>"]) simp

lemma rne_err: "\<bar>of_int (rne y) - y\<bar> \<le> 1 / 2"
proof -
  obtain n where "\<lfloor>y\<rfloor> = n" "of_int n \<le> y" "y < of_int n + 1"
    using floor_between by blast
  then show ?thesis by (auto simp: rne_def Let_def abs_le_iff)
qed

lemma rne_of_int [simp]: "rne (of_int n) = n"
  by (simp add: rne_def)

lemma rne_numeral [simp]: "rne (numeral n) = numeral n"
  using rne_of_int [of "numeral n"] by simp

lemma rne_mono: "y \<le> z \<Longrightarrow> rne y \<le> rne z"
proof (cases "\<lfloor>y\<rfloor> = \<lfloor>z\<rfloor>")
  case True
  then show "y \<le> z \<Longrightarrow> ?thesis" by (auto simp: rne_def Let_def)
next
  case False
  show "?thesis" if "y \<le> z"
  proof -
    from that have "\<lfloor>y\<rfloor> \<le> \<lfloor>z\<rfloor>" by (rule floor_mono)
    with False have "\<lfloor>y\<rfloor> + 1 \<le> \<lfloor>z\<rfloor>" by simp
    then show ?thesis using rne_bounds [of y] rne_bounds [of z] by linarith
  qed
qed

lemma rne_unique: "\<bar>y - of_int n\<bar> < 1 / 2 \<Longrightarrow> rne y = n"
proof -
  assume "\<bar>y - of_int n\<bar> < 1 / 2"
  with rne_err [of y] have "\<bar>of_int (rne y) - of_int n :: rat\<bar> < 1" by linarith
  then have "\<bar>rne y - n\<bar> < 1" by linarith
  then show ?thesis by linarith
qed

lemma go_round_err: "\<bar>of_int (go_round x) - x\<bar> \<le> 1 / 2"
proof -
  obtain n where n: "\<lfloor>x + 1 / 2\<rfloor> = n" "of_int n \<le> x + 1 / 2" "x + 1 / 2 < of_int n + 1"
    using floor_between by blast
  obtain m where m: "\<lfloor>- x + 1 / 2\<rfloor> = m" "of_int m \<le> - x + 1 / 2" "- x + 1 / 2 < of_int m + 1"
    using floor_between by blast
  show ?thesis unfolding go_round_def n(1) m(1)
    by (cases "0 \<le> x") (use n(2,3) m(2,3) in \<open>simp only: if_True if_False of_int_minus abs_le_iff, linarith\<close>)+
qed

lemma go_round_of_int [simp]: "go_round (of_int n) = n"
proof -
  have "\<bar>of_int (go_round (of_int n)) - of_int n :: rat\<bar> < 1"
    using go_round_err [of "of_int n"] by linarith
  then show ?thesis by linarith
qed

lemma floor_half [simp]: "\<lfloor>1 / 2 :: rat\<rfloor> = 0"
  by (simp add: floor_eq_iff)

lemma go_round_uminus: "go_round (- x) = - go_round x"
  by (simp add: go_round_def)

lemma go_round_nonneg: "0 \<le> x \<Longrightarrow> 0 \<le> go_round x"
  by (simp add: go_round_def)

lemma go_round_mono: "x \<le> y \<Longrightarrow> go_round x \<le> go_round y"
proof -
  assume le: "x \<le> y"
  consider "0 \<le> x" | "y < 0" | "x < 0" "0 \<le> y" by linarith
  then show ?thesis
  proof cases
    case 1
    with le show ?thesis by (simp add: go_round_def floor_mono)
  next
    case 2
    with le have "\<lfloor>- y + 1 / 2\<rfloor> \<le> \<lfloor>- x + 1 / 2\<rfloor>" by (simp add: floor_mono)
    with 2 le show ?thesis by (simp add: go_round_def)
  next
    case 3
    then have "0 \<le> \<lfloor>- x + 1 / 2\<rfloor>" and "0 \<le> \<lfloor>y + 1 / 2\<rfloor>" by simp_all
    then have "- \<lfloor>- x + 1 / 2\<rfloor> \<le> \<lfloor>y + 1 / 2\<rfloor>" by linarith
    with 3 show ?thesis unfolding go_round_def by (simp only: if_P if_not_P not_le)
  qed
qed

lemma go_round_unique: "\<bar>x - of_int n\<bar> < 1 / 2 \<Longrightarrow> go_round x = n"
proof -
  assume "\<bar>x - of_int n\<bar> < 1 / 2"
  with go_round_err [of x] have "\<bar>of_int (go_round x) - of_int n :: rat\<bar> < 1" by linarith
  then show ?thesis by linarith
qed

lemma go_trunc_of_int: "in64 n \<Longrightarrow> go_trunc (of_int n) = n"
  by (simp add: go_trunc_def Let_def)

lemma go_trunc_int: "go_trunc (of_int n) = (if in64 n then n else - (2 ^ 63))"
  by (simp add: go_trunc_def Let_def)

lemma in64_go_trunc [simp]: "in64 (go_trunc x)"
  by (simp add: go_trunc_def Let_def in64_def)

section \<open>Binary exponents\<close>

text \<open>The number of bits of a non-negative integer.\<close>

function blen :: "int \<Rightarrow> int" where
  "blen n = (if n \<le> 0 then 0 else 1 + blen (n div 2))"
  by pat_completeness auto
termination
  by (relation "measure nat") auto

declare blen.simps [simp del]

lemma blen_nonneg: "0 \<le> blen n"
  by (induction n rule: blen.induct) (subst blen.simps, simp)

lemma blen_bounds: "0 < n \<Longrightarrow> 0 < blen n \<and> 2 ^ nat (blen n - 1) \<le> n \<and> n < 2 ^ nat (blen n)"
proof (induction n rule: blen.induct)
  case (1 n)
  show ?case
  proof (cases "n = 1")
    case True
    have "blen 0 = 0" by (subst blen.simps) simp
    with True show ?thesis by (subst (1 2 3) blen.simps) simp
  next
    case False
    with "1.prems" have m: "0 < n div 2" and b: "blen n = 1 + blen (n div 2)"
      by (auto simp: blen.simps [of n])
    from "1.IH" "1.prems" m have IH: "0 < blen (n div 2)"
      "2 ^ nat (blen (n div 2) - 1) \<le> n div 2" "n div 2 < 2 ^ nat (blen (n div 2))" by auto
    let ?k = "nat (blen (n div 2) - 1)"
    from IH(1) have k: "nat (blen (n div 2)) = Suc ?k" by simp
    then have "nat (blen n - 1) = Suc ?k" and "nat (blen n) = Suc (Suc ?k)" using b by simp_all
    moreover from IH(2) have "2 ^ Suc ?k \<le> n" by simp
    moreover from IH(3) k have "n < 2 ^ Suc (Suc ?k)" by simp
    ultimately show ?thesis using b IH(1) by simp
  qed
qed

text \<open>\<open>ilog2 q\<close> is the exponent of the binade of a positive \<open>q\<close>.\<close>

definition ilog2 :: "rat \<Rightarrow> int" where
  "ilog2 q = (if 1 \<le> q then blen \<lfloor>q\<rfloor> - 1 else - blen (\<lceil>1 / q\<rceil> - 1))"

lemma powi_nat: "0 \<le> e \<Longrightarrow> (2::rat) powi e = of_int (2 ^ nat e)"
  by (simp add: power_int_def)

lemma ilog2_bounds: "0 < q \<Longrightarrow> 2 powi (ilog2 q) \<le> q \<and> q < 2 powi (ilog2 q + 1)"
proof (cases "1 \<le> q")
  case True
  let ?n = "\<lfloor>q\<rfloor>"
  from True have "0 < ?n" by simp
  from blen_bounds [OF this] have b: "0 < blen ?n" "2 ^ nat (blen ?n - 1) \<le> ?n"
    "?n + 1 \<le> 2 ^ nat (blen ?n)" by auto
  have "of_int (2 ^ nat (blen ?n - 1)) \<le> (of_int ?n :: rat)" using b(2) by (simp only: of_int_le_iff)
  moreover have "(of_int (?n + 1) :: rat) \<le> of_int (2 ^ nat (blen ?n))" using b(3) by (simp only: of_int_le_iff)
  moreover have "of_int ?n \<le> q" "q < of_int (?n + 1)" by linarith+
  ultimately have "of_int (2 ^ nat (blen ?n - 1)) \<le> q" "q < of_int (2 ^ nat (blen ?n))" by linarith+
  with True b(1) show ?thesis by (simp add: ilog2_def powi_nat)
next
  case False
  assume q: "0 < q"
  let ?n = "\<lceil>1 / q\<rceil> - 1"
  from False q have "1 < 1 / q" by simp
  then have n: "0 < ?n" by linarith
  from blen_bounds [OF n] have b: "0 < blen ?n" "2 ^ nat (blen ?n - 1) \<le> ?n"
    "?n + 1 \<le> 2 ^ nat (blen ?n)" by auto
  have "of_int (2 ^ nat (blen ?n - 1)) \<le> (of_int ?n :: rat)" using b(2) by (simp only: of_int_le_iff)
  also have "of_int ?n < 1 / q" by linarith
  finally have "2 powi (blen ?n - 1) < 1 / q" using b(1) by (simp add: powi_nat)
  then have up: "q < 2 powi (1 - blen ?n)"
    using q by (simp add: power_int_diff field_simps)
  have "1 / q \<le> (of_int (?n + 1) :: rat)" by linarith
  also have "\<dots> \<le> of_int (2 ^ nat (blen ?n))" using b(3) by (simp only: of_int_le_iff)
  finally have "1 / q \<le> 2 powi (blen ?n)" using b(1) by (simp add: powi_nat)
  then have "2 powi (- blen ?n) \<le> q"
    using q by (simp add: power_int_minus field_simps)
  with up False show ?thesis by (simp add: ilog2_def)
qed

lemma powi_less_cancel: "(2::rat) powi a < 2 powi b \<Longrightarrow> a < b"
proof (rule ccontr)
  assume "2 powi a < (2::rat) powi b" and "\<not> a < b"
  moreover from this(2) have "2 powi b \<le> (2::rat) powi a" by (intro power_int_increasing) auto
  ultimately show False by simp
qed

lemma ilog2_mono: "0 < x \<Longrightarrow> x \<le> y \<Longrightarrow> ilog2 x \<le> ilog2 y"
proof -
  assume x: "0 < x" and "x \<le> y"
  with ilog2_bounds [of x] ilog2_bounds [of y] have "(2::rat) powi ilog2 x < 2 powi (ilog2 y + 1)" by auto
  then show ?thesis using powi_less_cancel by fastforce
qed

section \<open>Rounding to a binary format\<close>

text \<open>
  A format has \<open>p\<close> significant bits and a least quantum \<open>2 powi emin\<close>.  The quantum of a
  number is the weight of the last bit of its binade.
\<close>

definition quantum :: "int \<Rightarrow> int \<Rightarrow> rat \<Rightarrow> int" where
  "quantum p emin q = max (ilog2 q - (p - 1)) emin"

definition fl :: "int \<Rightarrow> int \<Rightarrow> rat \<Rightarrow> rat" where
  "fl p emin q =
     (if q = 0 then 0
      else let e = quantum p emin \<bar>q\<bar> in sgn q * (of_int (rne (\<bar>q\<bar> / 2 powi e)) * 2 powi e))"

definition fl64 :: "rat \<Rightarrow> rat" where
  "fl64 = fl 53 (-1074)"

definition fl32 :: "rat \<Rightarrow> rat" where
  "fl32 = fl 24 (-149)"

locale binary_format =
  fixes p :: int and emin :: int
  assumes p_pos: "0 < p" and emin_neg: "emin \<le> 0"
begin

lemma fl_zero: "fl p emin 0 = 0"
  by (simp add: fl_def)

lemma fl_pos_eq: "0 < x \<Longrightarrow> fl p emin x = of_int (rne (x / 2 powi quantum p emin x)) * 2 powi quantum p emin x"
  by (simp add: fl_def Let_def)

lemma fl_uminus: "fl p emin (- x) = - fl p emin x"
  by (simp add: fl_def Let_def sgn_minus)

lemma fl_nonneg: "0 \<le> x \<Longrightarrow> 0 \<le> fl p emin x"
proof (cases "x = 0")
  case False
  assume "0 \<le> x"
  with False have x: "0 < x" by simp
  have "rne 0 \<le> rne (x / 2 powi quantum p emin x)" using x by (intro rne_mono) simp
  moreover have "rne 0 = 0" using rne_of_int [of 0] by simp
  ultimately show ?thesis using x by (simp add: fl_pos_eq)
qed (simp add: fl_zero)

lemma fl_err: "\<bar>fl p emin x - x\<bar> \<le> 2 powi quantum p emin \<bar>x\<bar> / 2"
proof -
  have pos: "\<bar>fl p emin x - x\<bar> \<le> 2 powi quantum p emin x / 2" if x: "0 < x" for x
  proof -
    let ?u = "2 powi quantum p emin x :: rat"
    have u: "0 < ?u" by simp
    have "fl p emin x - x = (of_int (rne (x / ?u)) - x / ?u) * ?u"
      using u by (simp add: fl_pos_eq [OF x] left_diff_distrib)
    then have "\<bar>fl p emin x - x\<bar> = \<bar>of_int (rne (x / ?u)) - x / ?u\<bar> * ?u"
      using u by (simp add: abs_mult)
    also have "\<dots> \<le> 1 / 2 * ?u" using rne_err u by (intro mult_right_mono) auto
    finally show ?thesis by simp
  qed
  consider "x = 0" | "0 < x" | "0 < - x" by linarith
  then show ?thesis
  proof cases
    case 3
    from pos [OF 3] have "\<bar>- fl p emin x + x\<bar> \<le> 2 powi quantum p emin (- x) / 2"
      by (simp add: fl_uminus)
    with 3 show ?thesis by (simp add: abs_minus_commute add.commute)
  qed (use pos in \<open>simp_all add: fl_zero\<close>)
qed

lemma fl_rel_err:
  assumes "2 powi (emin + (p - 1)) \<le> \<bar>x\<bar>"
  shows "\<bar>fl p emin x - x\<bar> \<le> \<bar>x\<bar> / 2 powi p"
proof -
  have "0 < (2::rat) powi (emin + (p - 1))" by simp
  with assms have x: "0 < \<bar>x\<bar>" by linarith
  note b = ilog2_bounds [OF x]
  from assms b have "(2::rat) powi (emin + (p - 1)) < 2 powi (ilog2 \<bar>x\<bar> + 1)" by linarith
  then have "emin + (p - 1) \<le> ilog2 \<bar>x\<bar>" using powi_less_cancel by fastforce
  then have "quantum p emin \<bar>x\<bar> = ilog2 \<bar>x\<bar> - (p - 1)" by (simp add: quantum_def)
  then have "(2::rat) powi quantum p emin \<bar>x\<bar> / 2 = 2 powi ilog2 \<bar>x\<bar> / 2 powi p"
    by (simp add: power_int_diff)
  also have "\<dots> \<le> \<bar>x\<bar> / 2 powi p" using b by (simp add: divide_right_mono)
  finally show ?thesis using fl_err [of x] by linarith
qed

text \<open>What the format can represent it keeps.\<close>

lemma fl_exact_pos:
  assumes "0 < m" "m < 2 ^ nat p" "emin \<le> e"
  shows "fl p emin (of_int m * 2 powi e) = of_int m * 2 powi e"
proof -
  let ?x = "of_int m * 2 powi e :: rat" and ?q = "quantum p emin (of_int m * 2 powi e)"
  have x: "0 < ?x" using assms(1) by simp
  have "(of_int m :: rat) < of_int (2 ^ nat p)" using assms(2) by (simp only: of_int_less_iff)
  then have "(of_int m :: rat) < 2 powi p" using p_pos by (simp add: powi_nat)
  then have "?x < 2 powi p * 2 powi e" by simp
  then have "?x < 2 powi (p + e)" by (simp add: power_int_add)
  with ilog2_bounds [OF x] have "(2::rat) powi ilog2 ?x < 2 powi (p + e)" by linarith
  then have "ilog2 ?x < p + e" by (rule powi_less_cancel)
  with assms(3) have q: "?q \<le> e" by (simp add: quantum_def)
  have "?x / 2 powi ?q = of_int m * 2 powi (e - ?q)" by (simp add: power_int_diff)
  also have "\<dots> = of_int (m * 2 ^ nat (e - ?q))" using q by (simp add: powi_nat)
  finally have "rne (?x / 2 powi ?q) = m * 2 ^ nat (e - ?q)" by (simp only: rne_of_int)
  then have "fl p emin ?x = of_int (m * 2 ^ nat (e - ?q)) * 2 powi ?q"
    using x by (simp only: fl_pos_eq)
  also have "\<dots> = of_int m * (2 powi (e - ?q) * 2 powi ?q)" using q by (simp add: powi_nat)
  also have "\<dots> = ?x" by (simp flip: power_int_add)
  finally show ?thesis .
qed

lemma fl_exact:
  assumes "\<bar>m\<bar> \<le> 2 ^ nat p" "emin \<le> e"
  shows "fl p emin (of_int m * 2 powi e) = of_int m * 2 powi e"
proof -
  have pos: "fl p emin (of_int m * 2 powi e) = of_int m * 2 powi e" if "0 < m" "m \<le> 2 ^ nat p" for m
  proof (cases "m = 2 ^ nat p")
    case True
    have "nat p = Suc (nat (p - 1))" using p_pos by simp
    with True have m: "m = 2 ^ nat (p - 1) * 2" by simp
    have *: "(of_int m :: rat) * 2 powi e = of_int (2 ^ nat (p - 1)) * 2 powi (e + 1)"
      unfolding m by (simp add: power_int_add)
    show ?thesis unfolding * using assms(2) p_pos by (intro fl_exact_pos) auto
  qed (use that assms(2) in \<open>intro fl_exact_pos, auto\<close>)
  consider "m = 0" | "0 < m" | "0 < - m" by linarith
  then show ?thesis
  proof cases
    case 3
    with pos [of "- m"] assms(1) have "fl p emin (- (of_int m * 2 powi e)) = - (of_int m * 2 powi e)" by simp
    then show ?thesis by (simp only: fl_uminus neg_equal_iff_equal)
  qed (use pos assms(1) in \<open>simp_all add: fl_zero\<close>)
qed

lemma fl_of_int: "\<bar>n\<bar> \<le> 2 ^ nat p \<Longrightarrow> fl p emin (of_int n) = of_int n"
  using fl_exact [of n 0] emin_neg by simp

lemma fl_mono_pos:
  assumes x: "0 < x" and xy: "x \<le> y"
  shows "fl p emin x \<le> fl p emin y"
proof -
  let ?a = "quantum p emin x" and ?b = "quantum p emin y"
  from x xy have y: "0 < y" by simp
  note bx = ilog2_bounds [OF x] and lb = ilog2_bounds [OF y]
  have ab: "?a \<le> ?b" using ilog2_mono [OF x xy] by (simp add: quantum_def)
  show ?thesis
  proof (cases "?a = ?b")
    case True
    with xy have "rne (x / 2 powi ?a) \<le> rne (y / 2 powi ?b)" by (intro rne_mono) (simp add: divide_right_mono)
    with True show ?thesis by (simp add: fl_pos_eq x y)
  next
    case False
    with ab have less: "?a + 1 \<le> ?b" by simp
    then have "?b = ilog2 y - (p - 1)" by (auto simp: quantum_def)
    then have "ilog2 y = ?b + (p - 1)" by simp
    with lb have "2 powi (?b + (p - 1)) \<le> y" by simp
    then have "2 powi (p - 1) * 2 powi ?b \<le> y" by (simp add: power_int_add mult.commute)
    then have "2 powi (p - 1) \<le> y / 2 powi ?b" by (simp add: pos_le_divide_eq)
    then have "of_int (2 ^ nat (p - 1)) \<le> y / 2 powi ?b" using p_pos by (simp add: powi_nat)
    from rne_mono [OF this] have "2 ^ nat (p - 1) \<le> rne (y / 2 powi ?b)" by (simp only: rne_of_int)
    then have "(of_int (2 ^ nat (p - 1)) :: rat) * 2 powi ?b \<le> fl p emin y"
      unfolding fl_pos_eq [OF y] by (intro mult_right_mono) (simp_all only: of_int_le_iff, simp)
    then have hi: "2 powi (p - 1 + ?b) \<le> fl p emin y" using p_pos by (simp add: powi_nat power_int_add)
    have "ilog2 x + 1 \<le> p + ?a" by (simp add: quantum_def)
    then have "(2::rat) powi (ilog2 x + 1) \<le> 2 powi (p + ?a)" by (intro power_int_increasing) auto
    with bx have "x \<le> 2 powi (p + ?a)" by linarith
    then have "x / 2 powi ?a \<le> of_int (2 ^ nat p)"
      using p_pos by (simp add: powi_nat power_int_add field_simps)
    from rne_mono [OF this] have "rne (x / 2 powi ?a) \<le> 2 ^ nat p" by (simp only: rne_of_int)
    then have "fl p emin x \<le> (of_int (2 ^ nat p) :: rat) * 2 powi ?a"
      unfolding fl_pos_eq [OF x] by (intro mult_right_mono) (simp_all only: of_int_le_iff, simp)
    then have "fl p emin x \<le> 2 powi (p + ?a)" using p_pos by (simp add: powi_nat power_int_add)
    also have "\<dots> \<le> 2 powi (p - 1 + ?b)" using less by (intro power_int_increasing) auto
    finally show ?thesis using hi by linarith
  qed
qed

lemma fl_mono:
  assumes "x \<le> y"
  shows "fl p emin x \<le> fl p emin y"
proof -
  consider "0 < x" | "y < 0" | "x \<le> 0" "0 \<le> y" by linarith
  then show ?thesis
  proof cases
    case 1
    then show ?thesis using assms by (rule fl_mono_pos)
  next
    case 2
    with assms fl_mono_pos [of "- y" "- x"] show ?thesis by (simp add: fl_uminus)
  next
    case 3
    with fl_nonneg [of "- x"] fl_nonneg [of y] show ?thesis by (simp add: fl_uminus)
  qed
qed

end

interpretation b64: binary_format 53 "-1074"
  by unfold_locales auto

interpretation b32: binary_format 24 "-149"
  by unfold_locales auto

lemmas fl64_mono = b64.fl_mono [folded fl64_def]
lemmas fl64_nonneg = b64.fl_nonneg [folded fl64_def]
lemmas fl64_uminus = b64.fl_uminus [folded fl64_def]
lemmas fl64_zero [simp] = b64.fl_zero [folded fl64_def]
lemmas fl64_exact = b64.fl_exact [folded fl64_def]

lemma fl64_of_int: "\<bar>n\<bar> \<le> 2 ^ 53 \<Longrightarrow> fl64 (of_int n) = of_int n"
  using b64.fl_of_int [of n] by (simp add: fl64_def)

lemma fl64_rel_err: "2 powi (-1022) \<le> \<bar>x\<bar> \<Longrightarrow> \<bar>fl64 x - x\<bar> \<le> \<bar>x\<bar> / 2 ^ 53"
  using b64.fl_rel_err [of x] by (simp add: fl64_def)

lemma fl64_1 [simp]: "fl64 1 = 1"
  using fl64_of_int [of 1] by simp

text \<open>
  The shape in which the error is used: on results of at least one ten-thousandth (or zero) the
  absolute error stays below any bound that a 53-bit relative error allows.
\<close>

lemma fl64_abs_err:
  assumes "x = 0 \<or> 1 / 10000 \<le> \<bar>x\<bar>"
  shows "\<bar>fl64 x - x\<bar> \<le> \<bar>x\<bar> / 2 ^ 53"
proof (cases "x = 0")
  case False
  have "(2::rat) powi (-1022) \<le> 2 powi (-14)" by (intro power_int_increasing) auto
  also have "\<dots> \<le> 1 / 10000" by (simp add: power_int_def power_divide)
  finally show ?thesis using False assms by (intro fl64_rel_err) auto
qed simp

end
