(* ===== verification/Money.thy ===== *)
theory Money
  imports Float64
begin

text \<open>
  The units of \<open>pkg/unit\<close>: cents and millicents, discount rates, pounds and hundredweights, base
  quantities (ten-thousandths of a unit) and thousandths of an inch, with their conversions as
  the code computes them: on 64-bit ints through doubles.  A value of a Go integer unit type is
  an \<open>int\<close>, a rate is the rational its double denotes.
\<close>

type_synonym Cents = int
type_synonym Millicents = int
type_synonym DiscountRate = rat
type_synonym Pound = int
type_synonym CWT = int
type_synonym BaseQuantity = int
type_synonym ThousandthInches = int

section \<open>Decimal output\<close>

text \<open>\<open>strconv.Itoa\<close> and the verb \<open>%.nf\<close> of \<open>fmt.Sprintf\<close> (correctly rounded, ties to even).\<close>

definition digit_char :: "nat \<Rightarrow> char" where
  "digit_char d = ''0123456789'' ! d"

fun nat_digits :: "nat \<Rightarrow> string" where
  "nat_digits n = (if n < 10 then [digit_char n] else nat_digits (n div 10) @ [digit_char (n mod 10)])"

declare nat_digits.simps [simp del]

primrec fixed_digits :: "nat \<Rightarrow> nat \<Rightarrow> string" where
  "fixed_digits 0 n = []"
| "fixed_digits (Suc k) n = fixed_digits k (n div 10) @ [digit_char (n mod 10)]"

lemma fixed_digits_numeral: "fixed_digits (numeral k) n = fixed_digits (pred_numeral k) (n div 10) @ [digit_char (n mod 10)]"
  by (simp only: numeral_eq_Suc [of k] fixed_digits.simps)

definition go_itoa :: "int \<Rightarrow> string" where
  "go_itoa n = (if n < 0 then ''-'' else '''') @ nat_digits (nat \<bar>n\<bar>)"

definition decimal_string :: "nat \<Rightarrow> int \<Rightarrow> string" where
  "decimal_string k n = (if n < 0 then ''-'' else '''') @ nat_digits (nat \<bar>n\<bar> div 10 ^ k) @ ''.'' @ fixed_digits k (nat \<bar>n\<bar> mod 10 ^ k)"

definition fmt_fixed :: "nat \<Rightarrow> rat \<Rightarrow> string" where
  "fmt_fixed k x = (let n = nat (rne (\<bar>x\<bar> * 10 ^ k)) in
     (if x < 0 then ''-'' else '''') @ nat_digits (n div 10 ^ k) @ ''.'' @ fixed_digits k (n mod 10 ^ k))"

section \<open>Cents and millicents\<close>

definition Cents_Multiply :: "Cents \<Rightarrow> int \<Rightarrow> Cents" where
  "Cents_Multiply c i = wrap64 (i * c)"

definition AddCents :: "Cents \<Rightarrow> Cents \<Rightarrow> Cents" where
  "AddCents c a = wrap64 (c + a)"

definition Cents_MultiplyFloat64 :: "Cents \<Rightarrow> rat \<Rightarrow> Cents" where
  "Cents_MultiplyFloat64 c f = go_trunc (of_int (go_round (fl64 (fl64 (of_int c) * f))))"

definition Cents_String :: "Cents \<Rightarrow> string" where
  "Cents_String c = go_itoa c"

definition ToMillicents :: "Cents \<Rightarrow> Millicents" where
  "ToMillicents c = wrap64 (c * 1000)"

definition Cents_ToDollarFloat :: "Cents \<Rightarrow> rat" where
  "Cents_ToDollarFloat c = fl64 (fl64 (of_int c) / 100)"

definition Cents_ToDollarString :: "Cents \<Rightarrow> string" where
  "Cents_ToDollarString c = CHR ''$'' # fmt_fixed 2 (fl64 (fl64 (of_int c) / 100))"

definition Millicents_MultiplyFloat64 :: "Millicents \<Rightarrow> rat \<Rightarrow> Millicents" where
  "Millicents_MultiplyFloat64 m f = go_trunc (of_int (go_round (fl64 (fl64 (of_int m) * f))))"

definition Millicents_ToDollarString :: "Millicents \<Rightarrow> string" where
  "Millicents_ToDollarString m = CHR ''$'' # fmt_fixed 2 (fl64 (fl64 (of_int m) / 100000))"

definition Millicents_ToDollarFloat :: "Millicents \<Rightarrow> rat" where
  "Millicents_ToDollarFloat m =
     (let d = of_int (go_round (fl64 (fl64 (of_int m) / 1000))) in fl64 (d / 100))"

definition Dollars_ToMillicents :: "rat \<Rightarrow> Millicents" where
  "Dollars_ToMillicents d = go_trunc (fl64 (fl64 (d * 100) * 1000))"

section \<open>Discount rates\<close>

definition Apply :: "DiscountRate \<Rightarrow> Cents \<Rightarrow> Cents" where
  "Apply r c = (let percentOfTariff = fl64 (1 - r) in Cents_MultiplyFloat64 c percentOfTariff)"

definition ApplyToMillicents :: "DiscountRate \<Rightarrow> Millicents \<Rightarrow> Millicents" where
  "ApplyToMillicents r c =
     (let percentOfTariff = fl64 (1 - r) in Millicents_MultiplyFloat64 c percentOfTariff)"

definition NewDiscountRateFromPercent :: "rat \<Rightarrow> DiscountRate" where
  "NewDiscountRateFromPercent input = fl64 (input / 100)"

section \<open>Weights\<close>

definition ToPounds :: "CWT \<Rightarrow> Pound" where
  "ToPounds cwt = wrap64 (cwt * 100)"

definition CWT_String :: "CWT \<Rightarrow> string" where
  "CWT_String cwt = go_itoa cwt @ '' CWT''"

definition ToCWT :: "Pound \<Rightarrow> CWT" where
  "ToCWT pounds = go_trunc (of_int (go_round (fl64 (fl64 (of_int pounds) / 100))))"

definition Pound_Float64 :: "Pound \<Rightarrow> rat" where
  "Pound_Float64 pounds = fl64 (of_int pounds)"

section \<open>Base quantities\<close>

definition BaseQuantityFromInt :: "int \<Rightarrow> BaseQuantity" where
  "BaseQuantityFromInt i = wrap64 (i * 10000)"

definition BaseQuantityFromFloat :: "rat \<Rightarrow> BaseQuantity" where
  "BaseQuantityFromFloat i = go_trunc (fl32 (i * 10000))"

definition BaseQuantityFromThousandthInches :: "ThousandthInches \<Rightarrow> BaseQuantity" where
  "BaseQuantityFromThousandthInches ti = wrap64 (ti * 10)"

definition BaseQuantityFromCents :: "Cents \<Rightarrow> BaseQuantity" where
  "BaseQuantityFromCents c = wrap64 (c * 100)"

definition BaseQuantity_String :: "BaseQuantity \<Rightarrow> string" where
  "BaseQuantity_String bq = go_itoa bq"

definition ToUnitFloat :: "BaseQuantity \<Rightarrow> rat" where
  "ToUnitFloat bq = fl64 (fl64 (of_int bq) / 10000)"

definition ToUnitFloatString :: "BaseQuantity \<Rightarrow> string" where
  "ToUnitFloatString bq = fmt_fixed 4 (fl64 (fl64 (of_int bq) / 10000))"

definition ToUnitDollarString :: "BaseQuantity \<Rightarrow> string" where
  "ToUnitDollarString bq =
     (let d = fl64 (of_int \<lfloor>fl64 (fl64 (of_int bq) / 100)\<rfloor> / 100) in CHR ''$'' # fmt_fixed 2 d)"

definition ToUnitInt :: "BaseQuantity \<Rightarrow> int" where
  "ToUnitInt bq = go_trunc (fl64 (fl64 (of_int bq) / 10000))"

definition IntToBaseQuantity :: "int option \<Rightarrow> BaseQuantity option" where
  "IntToBaseQuantity quantity = (case quantity of None \<Rightarrow> None | Some q \<Rightarrow> Some q)"

section \<open>Dimensions\<close>

definition ThousandthIncheToInches :: "ThousandthInches \<Rightarrow> rat" where
  "ThousandthIncheToInches ti = fl64 (fl64 (of_int ti) / 1000)"

definition IntToThousandthInches :: "int \<Rightarrow> ThousandthInches" where
  "IntToThousandthInches inches = wrap64 (inches * 1000)"

datatype dimension_error = DimensionsNotPositive int int int

definition DimensionToCubicFeet ::
  "ThousandthInches \<Rightarrow> ThousandthInches \<Rightarrow> ThousandthInches \<Rightarrow> (dimension_error, rat) outcome" where
  "DimensionToCubicFeet len width height =
     (if len \<le> 0 \<or> width \<le> 0 \<or> height \<le> 0 then Fail (DimensionsNotPositive len width height)
      else
        let l = ThousandthIncheToInches len; w = ThousandthIncheToInches width;
            h = ThousandthIncheToInches height
        in Ret (fl64 (fl64 (fl64 (l * w) * h) / 1728)))"

section \<open>Rounding through doubles agrees with exact rounding\<close>

text \<open>
  The conversions divide an int by a decimal constant in double arithmetic.  For ints below
  \<open>2 ^ 52\<close> the rounding error of the division is too small to move the quotient across a
  half-integer, so the result is the one exact arithmetic gives.
\<close>

lemma fl64_div_err:
  assumes "\<bar>p\<bar> < 2 ^ 52" "0 < d" "d \<le> 10000"
  shows "\<bar>fl64 (of_int p / of_int d) - of_int p / of_int d\<bar> < 1 / (2 * of_int d)"
proof -
  let ?x = "of_int p / of_int d :: rat"
  have d: "(0::rat) < of_int d" and d': "(of_int d :: rat) \<le> 10000" using assms by auto
  have "?x = 0 \<or> 1 / 10000 \<le> \<bar>?x\<bar>"
  proof (cases "p = 0")
    case False
    then have "(1::rat) \<le> \<bar>of_int p\<bar>" by linarith
    then have "(1::rat) / 10000 \<le> \<bar>of_int p\<bar> / of_int d" using d d' by (intro frac_le) auto
    then show ?thesis using d by (simp add: abs_divide)
  qed simp
  from fl64_abs_err [OF this] have e: "\<bar>fl64 ?x - ?x\<bar> \<le> \<bar>?x\<bar> / 2 ^ 53" .
  have "\<bar>of_int p :: rat\<bar> < of_int (2 ^ 52)" using assms(1) by (simp flip: of_int_abs)
  then have "\<bar>?x\<bar> / 2 ^ 53 < 1 / (2 * of_int d)" using d by (simp add: abs_divide field_simps)
  with e show ?thesis by linarith
qed

lemma fl64_half: "\<bar>n\<bar> \<le> 2 ^ 53 \<Longrightarrow> fl64 (of_int n / 2) = of_int n / 2"
proof -
  assume n: "\<bar>n\<bar> \<le> 2 ^ 53"
  have half: "(of_int n :: rat) * 2 powi (- 1) = of_int n / 2" by (simp add: power_int_def)
  from n show ?thesis using fl64_exact [of n "- 1"] unfolding half by simp
qed

lemma go_round_fl64_div_nonneg:
  assumes "0 \<le> p" "p < 2 ^ 52" "0 < d" "d \<le> 10000"
  shows "go_round (fl64 (of_int p / of_int d)) = go_round (of_int p / of_int d)"
proof -
  let ?x = "of_int p / of_int d :: rat"
  define n where "n = go_round ?x"
  have d: "(1::rat) \<le> of_int d" using assms by auto
  have x0: "0 \<le> ?x" using assms by simp
  then have n: "n = \<lfloor>?x + 1 / 2\<rfloor>" by (simp add: n_def go_round_def)
  then have lo: "of_int n - 1 / 2 \<le> ?x" and up: "?x < of_int n + 1 / 2" by linarith+
  have n0: "0 \<le> n" using x0 by (simp add: n)
  have "?x \<le> of_int p" using d assms(1) by (simp add: divide_le_eq mult_le_cancel_left1)
  with lo have "of_int n < (of_int p + 1 :: rat)" by linarith
  then have np: "n \<le> p" by linarith
  have "of_int (2 * n - 1) / 2 \<le> ?x" using lo by (simp add: diff_divide_distrib)
  then have "fl64 (of_int (2 * n - 1) / 2) \<le> fl64 ?x" by (rule fl64_mono)
  moreover have "fl64 (of_int (2 * n - 1) / 2) = of_int (2 * n - 1) / 2"
    using n0 np assms(2) by (intro fl64_half) simp
  ultimately have lo': "of_int n - 1 / 2 \<le> fl64 ?x" by simp
  have "2 * of_int p < (2 * of_int n + 1) * (of_int d :: rat)"
    using up d by (simp add: field_simps)
  then have "of_int (2 * p) < (of_int ((2 * n + 1) * d) :: rat)" by simp
  then have "2 * p + 1 \<le> (2 * n + 1) * d" by (simp only: of_int_less_iff)
  then have "of_int (2 * p + 1) \<le> (of_int ((2 * n + 1) * d) :: rat)" by (simp only: of_int_le_iff)
  then have "?x + 1 / (2 * of_int d) \<le> of_int n + 1 / 2" using d by (simp add: field_simps)
  with fl64_div_err [of p d] assms have up': "fl64 ?x < of_int n + 1 / 2" by auto
  have "0 \<le> fl64 ?x" using x0 by (rule fl64_nonneg)
  then have "go_round (fl64 ?x) = n" using lo' up' by (simp add: go_round_def floor_eq_iff)
  then show ?thesis by (simp add: n_def)
qed

lemma go_round_fl64_div:
  assumes "\<bar>p\<bar> < 2 ^ 52" "0 < d" "d \<le> 10000"
  shows "go_round (fl64 (of_int p / of_int d)) = go_round (of_int p / of_int d)"
proof (cases "0 \<le> p")
  case True
  with assms show ?thesis by (intro go_round_fl64_div_nonneg) auto
next
  case False
  with assms go_round_fl64_div_nonneg [of "- p" d]
  have "go_round (- fl64 (of_int p / of_int d)) = go_round (- (of_int p / of_int d))"
    by (simp add: fl64_uminus)
  then show ?thesis by (simp only: go_round_uminus neg_equal_iff_equal)
qed

lemma floor_fl64_div:
  assumes "\<bar>p\<bar> < 2 ^ 52" "0 < d" "d \<le> 10000"
  shows "\<lfloor>fl64 (of_int p / of_int d)\<rfloor> = p div d"
proof -
  let ?x = "of_int p / of_int d :: rat"
  have d: "(1::rat) \<le> of_int d" using assms by auto
  have fx: "\<lfloor>?x\<rfloor> = p div d" by (rule floor_divide_of_int_eq)
  then have lo: "of_int (p div d) \<le> ?x" and up: "?x < of_int (p div d + 1)" by linarith+
  have "\<bar>p div d\<bar> \<le> \<bar>p\<bar>" using assms(2)
    by (smt (verit) div_by_1 int_div_less_self nonneg1_imp_zdiv_pos_iff pos_imp_zdiv_neg_iff zdiv_mono2 zdiv_mono2_neg)
  with assms(1) have "fl64 (of_int (p div d)) = of_int (p div d)" by (intro fl64_of_int) simp
  with fl64_mono [OF lo] have lo': "of_int (p div d) \<le> fl64 ?x" by simp
  have "of_int p < (of_int ((p div d + 1) * d) :: rat)" using up d by (simp add: field_simps)
  then have "p + 1 \<le> (p div d + 1) * d" by (simp only: of_int_less_iff)
  then have "of_int (p + 1) \<le> (of_int ((p div d + 1) * d) :: rat)" by (simp only: of_int_le_iff)
  then have "?x + 1 / of_int d \<le> of_int (p div d + 1)" using d by (simp add: field_simps)
  moreover have "1 / (2 * of_int d) \<le> (1 / of_int d :: rat)" using d by (intro divide_left_mono) auto
  ultimately have "fl64 ?x < of_int (p div d) + 1" using fl64_div_err [OF assms] by auto
  with lo' show ?thesis by (simp add: floor_eq_iff)
qed

section \<open>Scaling an amount by a factor between 0 and 1\<close>

text \<open>
  The contract of the two \<open>MultiplyFloat64\<close> methods on which discounts and proration rest, on
  amounts a double holds exactly.
\<close>

definition exact_amount :: "int \<Rightarrow> bool" where
  "exact_amount c \<longleftrightarrow> \<bar>c\<bar> \<le> 2 ^ 53"

locale scaling =
  fixes mul :: "int \<Rightarrow> rat \<Rightarrow> int"
  assumes mul_one: "exact_amount c \<Longrightarrow> mul c 1 = c"
    and mul_zero: "exact_amount c \<Longrightarrow> mul c 0 = 0"
    and mul_mono: "exact_amount c \<Longrightarrow> exact_amount d \<Longrightarrow> 0 \<le> f \<Longrightarrow> f \<le> 1 \<Longrightarrow> c \<le> d \<Longrightarrow> mul c f \<le> mul d f"
    and mul_mono_factor: "exact_amount c \<Longrightarrow> 0 \<le> c \<Longrightarrow> 0 \<le> f \<Longrightarrow> f \<le> g \<Longrightarrow> g \<le> 1 \<Longrightarrow> mul c f \<le> mul c g"
    and mul_near: "exact_amount c \<Longrightarrow> 0 \<le> f \<Longrightarrow> f \<le> 1 \<Longrightarrow> \<bar>of_int (mul c f) - fl64 (of_int c * f)\<bar> \<le> 1 / 2"
begin

text \<open>The discounted amount: what \<open>DiscountRate.Apply\<close> computes with a given scaling.\<close>

lemma scaled_bounds:
  assumes "exact_amount c" "0 \<le> c" "0 \<le> f" "f \<le> 1"
  shows "0 \<le> mul c f \<and> mul c f \<le> c"
  using mul_mono_factor [of c 0 f] mul_mono_factor [of c f 1] assms
  by (simp add: mul_one mul_zero)

lemma keep_bounds: "0 \<le> r \<Longrightarrow> r \<le> 1 \<Longrightarrow> 0 \<le> fl64 (1 - r) \<and> fl64 (1 - r) \<le> 1"
  using fl64_nonneg [of "1 - r"] fl64_mono [of "1 - r" 1] by simp

lemma discounted_bounds:
  assumes "exact_amount c" "0 \<le> c" "0 \<le> r" "r \<le> 1"
  shows "0 \<le> mul c (fl64 (1 - r)) \<and> mul c (fl64 (1 - r)) \<le> c"
  using keep_bounds [of r] assms by (intro scaled_bounds) auto

lemma discounted_mono:
  assumes "exact_amount c" "exact_amount d" "0 \<le> r" "r \<le> 1" "c \<le> d"
  shows "mul c (fl64 (1 - r)) \<le> mul d (fl64 (1 - r))"
  using keep_bounds [of r] assms by (intro mul_mono) auto

lemma discounted_antimono:
  assumes "exact_amount c" "0 \<le> c" "0 \<le> r" "r \<le> s" "s \<le> 1"
  shows "mul c (fl64 (1 - s)) \<le> mul c (fl64 (1 - r))"
  using keep_bounds [of r] keep_bounds [of s] fl64_mono [of "1 - s" "1 - r"] assms
  by (intro mul_mono_factor) auto

lemma discounted_ends: "exact_amount c \<Longrightarrow> mul c (fl64 (1 - 0)) = c \<and> mul c (fl64 (1 - 1)) = 0"
  by (simp add: mul_one mul_zero)

end

lemma fl64_scaled_bounds:
  assumes "exact_amount c" "0 \<le> f" "f \<le> 1"
  shows "\<bar>go_round (fl64 (of_int c * f))\<bar> \<le> \<bar>c\<bar>"
proof -
  have "\<bar>of_int c * f\<bar> \<le> of_int \<bar>c\<bar>" using assms by (simp add: abs_mult mult_left_le)
  then have a: "of_int c * f \<le> of_int \<bar>c\<bar>" "of_int (- \<bar>c\<bar>) \<le> of_int c * f" by (simp_all add: abs_le_iff)
  from assms(1) have e: "fl64 (of_int \<bar>c\<bar>) = of_int \<bar>c\<bar>" "fl64 (of_int (- \<bar>c\<bar>)) = of_int (- \<bar>c\<bar>)"
    by (intro fl64_of_int, simp add: exact_amount_def)+
  from go_round_mono [OF fl64_mono [OF a(1)]] go_round_mono [OF fl64_mono [OF a(2)]]
  show ?thesis unfolding e go_round_of_int by linarith
qed

lemma Cents_MultiplyFloat64_eq:
  assumes "exact_amount c" "0 \<le> f" "f \<le> 1"
  shows "Cents_MultiplyFloat64 c f = go_round (fl64 (of_int c * f))"
proof -
  have "in64 (go_round (fl64 (of_int c * f)))"
    using fl64_scaled_bounds [OF assms] assms(1) by (intro in64_abs) (simp add: exact_amount_def)
  moreover have "fl64 (of_int c) = of_int c" using assms(1) by (intro fl64_of_int) (simp add: exact_amount_def)
  ultimately show ?thesis by (simp add: Cents_MultiplyFloat64_def go_trunc_of_int)
qed

lemma Millicents_MultiplyFloat64_Cents: "Millicents_MultiplyFloat64 = Cents_MultiplyFloat64"
  by (simp add: fun_eq_iff Cents_MultiplyFloat64_def Millicents_MultiplyFloat64_def)

lemma Cents_MultiplyFloat64_scaling: "scaling Cents_MultiplyFloat64"
proof
  fix c d :: int and f g :: rat
  assume c: "exact_amount c"
  then have e: "fl64 (of_int c) = of_int c" by (intro fl64_of_int) (simp add: exact_amount_def)
  show "Cents_MultiplyFloat64 c 1 = c"
    using c by (simp add: Cents_MultiplyFloat64_eq e)
  show "Cents_MultiplyFloat64 c 0 = 0"
    using c go_round_of_int [of 0] by (simp add: Cents_MultiplyFloat64_eq)
  show "\<bar>of_int (Cents_MultiplyFloat64 c f) - fl64 (of_int c * f)\<bar> \<le> 1 / 2" if "0 \<le> f" "f \<le> 1"
    using c that by (simp only: Cents_MultiplyFloat64_eq go_round_err)
  show "Cents_MultiplyFloat64 c f \<le> Cents_MultiplyFloat64 d f"
    if "exact_amount d" "0 \<le> f" "f \<le> 1" "c \<le> d"
    using c that by (simp add: Cents_MultiplyFloat64_eq go_round_mono fl64_mono mult_right_mono)
  show "Cents_MultiplyFloat64 c f \<le> Cents_MultiplyFloat64 c g"
    if "0 \<le> c" "0 \<le> f" "f \<le> g" "g \<le> 1"
    using c that by (simp add: Cents_MultiplyFloat64_eq go_round_mono fl64_mono mult_left_mono)
qed

interpretation cents: scaling Cents_MultiplyFloat64
  by (rule Cents_MultiplyFloat64_scaling)

interpretation millicents: scaling Millicents_MultiplyFloat64
  by (simp add: Millicents_MultiplyFloat64_Cents Cents_MultiplyFloat64_scaling)

lemmas discount_defs = Apply_def ApplyToMillicents_def Let_def

lemma fmt_fixed_decimal:
  assumes "\<bar>c\<bar> < 2 ^ 52" "k \<le> 4"
  shows "fmt_fixed k (fl64 (of_int c / 10 ^ k)) = decimal_string k c"
proof -
  let ?f = "fl64 (of_int c / 10 ^ k)" and ?d = "10 ^ k :: rat"
  have "(10 :: int) ^ k \<le> 10 ^ 4" using assms(2) by (intro power_increasing) auto
  then have e: "\<bar>?f - of_int c / ?d\<bar> < 1 / (2 * ?d)" using fl64_div_err [of c "10 ^ k"] assms(1) by simp
  have p: "0 < ?d" by simp
  have neg: "?f < 0 \<longleftrightarrow> c < 0"
  proof (cases "c < 0")
    case True
    then have "(of_int c :: rat) \<le> - 1" by simp
    then have "of_int c / ?d \<le> - 1 / ?d" using p by (intro divide_right_mono) auto
    moreover have "1 / (2 * ?d) \<le> 1 / ?d" using p by (simp add: field_simps)
    ultimately have "?f < 0" using e by linarith
    with True show ?thesis by simp
  next
    case False
    then have "0 \<le> ?f" by (intro fl64_nonneg) simp
    with False show ?thesis by simp
  qed
  have "\<bar>\<bar>?f\<bar> - \<bar>of_int c / ?d\<bar>\<bar> < 1 / (2 * ?d)" using e abs_triangle_ineq3 [of ?f "of_int c / ?d"] by linarith
  then have "\<bar>\<bar>?f\<bar> - of_int \<bar>c\<bar> / ?d\<bar> * ?d < 1 / (2 * ?d) * ?d" by (intro mult_strict_right_mono p) (simp add: abs_divide)
  moreover have "\<bar>\<bar>?f\<bar> - of_int \<bar>c\<bar> / ?d\<bar> * ?d = \<bar>\<bar>?f\<bar> * ?d - of_int \<bar>c\<bar>\<bar>"
    using abs_mult [of "\<bar>?f\<bar> - of_int \<bar>c\<bar> / ?d" ?d] by (simp add: algebra_simps)
  ultimately have "\<bar>\<bar>?f\<bar> * ?d - of_int \<bar>c\<bar>\<bar> < 1 / 2" by simp
  then have "rne (\<bar>?f\<bar> * ?d) = \<bar>c\<bar>" by (rule rne_unique)
  then show ?thesis by (simp add: fmt_fixed_def decimal_string_def Let_def neg)
qed

lemma fmt_fixed2_cents: "\<bar>c\<bar> < 2 ^ 52 \<Longrightarrow> fmt_fixed 2 (fl64 (of_int c / 100)) = decimal_string 2 c"
  using fmt_fixed_decimal [of c 2] by simp

lemma ToCWT_eq:
  assumes "\<bar>w\<bar> < 2 ^ 52"
  shows "ToCWT w = go_round (of_int w / 100)"
proof -
  have "go_round (fl64 (of_int w / of_int 100)) = go_round (of_int w / of_int 100)"
    using assms by (intro go_round_fl64_div) auto
  moreover have "fl64 (of_int w) = of_int w" using assms by (intro fl64_of_int) simp
  moreover have "in64 (go_round (of_int w / 100))"
  proof (rule in64_abs)
    have "\<bar>of_int (go_round (of_int w / 100)) - of_int w / 100 :: rat\<bar> \<le> 1 / 2" by (rule go_round_err)
    moreover from assms have "\<bar>w\<bar> < 4503599627370496" by simp
    then have "\<bar>of_int w :: rat\<bar> < 4503599627370496" by linarith
    ultimately have "\<bar>of_int (go_round (of_int w / 100)) :: rat\<bar> < 9223372036854775808" by linarith
    then have "\<bar>go_round (of_int w / 100)\<bar> < 9223372036854775808" by linarith
    then show "\<bar>go_round (of_int w / 100)\<bar> < 2 ^ 63" by simp
  qed
  ultimately show ?thesis by (simp add: ToCWT_def go_trunc_of_int)
qed

section \<open>Properties\<close>

text \<open>A discount rate between 0 and 1 never makes a charge negative nor larger than it was,
  keeps it at rate 0 and removes it at rate 1, orders charges as before, and a larger rate never
  gives a larger charge (double arithmetic and rounding included).\<close>

theorem Apply_discount:
  assumes "exact_amount c" "exact_amount d" "0 \<le> c" "c \<le> d" "0 \<le> r" "r \<le> s" "s \<le> 1"
  shows "0 \<le> Apply r c \<and> Apply r c \<le> c \<and> Apply 0 c = c \<and> Apply 1 c = 0
    \<and> Apply r c \<le> Apply r d \<and> Apply s c \<le> Apply r c"
  using cents.discounted_bounds [of c r] cents.discounted_ends [of c] cents.discounted_mono [of c d r]
    cents.discounted_antimono [of c r s] assms
  unfolding discount_defs by force

theorem Apply_discount_witness:
  "0 \<le> Apply (1 / 2) 100 \<and> Apply (1 / 2) 100 \<le> 100 \<and> Apply 0 100 = 100 \<and> Apply 1 100 = 0
    \<and> Apply (1 / 2) 100 \<le> Apply (1 / 2) 250 \<and> Apply (3 / 4) 100 \<le> Apply (1 / 2) 100"
  by (rule Apply_discount) (simp_all add: exact_amount_def)

text \<open>A weight is converted to hundredweights by rounding to the nearest hundred pounds, halves
  away from zero, exactly as if no double were involved, and converting hundredweights to pounds
  and back is the identity.\<close>

theorem ToCWT_nearest:
  assumes "\<bar>w\<bar> < 2 ^ 52" "\<bar>n\<bar> < 2 ^ 40"
  shows "ToCWT w = go_round (of_int w / 100) \<and> ToCWT (ToPounds n) = n"
proof -
  have p: "ToPounds n = n * 100" unfolding ToPounds_def using assms(2) by (intro wrap64_id in64_abs) simp
  then have "ToCWT (ToPounds n) = go_round (of_int (n * 100) / 100)" using assms(2) ToCWT_eq [of "n * 100"] by simp
  also have "of_int (n * 100) / 100 = (of_int n :: rat)" by simp
  finally show ?thesis using assms(1) ToCWT_eq by simp
qed

theorem ToCWT_nearest_witness: "ToCWT 2050 = go_round (of_int 2050 / 100) \<and> ToCWT (ToPounds 20) = 20"
  using ToCWT_nearest [of 2050 20] by simp

text \<open>Amounts are printed and truncated as exact integer arithmetic would: the dollar string of
  cents is the decimal numeral of the cents, the dollar string of a base quantity is the numeral of
  its whole cents (nothing rounds up), and the whole units of a base quantity are its quotient.\<close>

theorem dollar_strings_exact:
  assumes "\<bar>c\<bar> < 2 ^ 52" "0 \<le> q" "q < 2 ^ 52"
  shows "Cents_ToDollarString c = CHR ''$'' # decimal_string 2 c
    \<and> ToUnitDollarString q = CHR ''$'' # decimal_string 2 (q div 100)
    \<and> ToUnitInt q = q div 10000"
proof (intro conjI)
  have c: "fl64 (of_int c) = of_int c" and q: "fl64 (of_int q) = of_int q"
    using assms by (auto intro!: fl64_of_int)
  show "Cents_ToDollarString c = CHR ''$'' # decimal_string 2 c"
    using fmt_fixed2_cents [OF assms(1)] by (simp add: Cents_ToDollarString_def c)
  have fq: "\<lfloor>fl64 (of_int q / of_int d)\<rfloor> = q div d" if "0 < d" "d \<le> 10000" for d
    using that assms by (intro floor_fl64_div) auto
  have q100: "\<bar>q div 100\<bar> < 2 ^ 52" using assms by auto
  show "ToUnitDollarString q = CHR ''$'' # decimal_string 2 (q div 100)"
    using fq [of 100] fmt_fixed2_cents [OF q100] by (simp add: ToUnitDollarString_def q)
  have "0 \<le> fl64 (of_int q / 10000)" using assms(2) by (intro fl64_nonneg) simp
  moreover have "in64 (q div 10000)" using assms by (auto simp: in64_def)
  ultimately show "ToUnitInt q = q div 10000"
    using fq [of 10000] by (simp add: ToUnitInt_def go_trunc_def Let_def q)
qed

theorem dollar_strings_exact_witness:
  "Cents_ToDollarString 10099 = ''$100.99'' \<and> ToUnitDollarString 19999999 = ''$1999.99'' \<and> ToUnitInt 19999 = 1"
proof -
  have "decimal_string 2 10099 = ''100.99''" and "decimal_string 2 199999 = ''1999.99''"
    by (simp_all add: decimal_string_def nat_digits.simps digit_char_def fixed_digits_numeral)
  then show ?thesis
    using dollar_strings_exact [of 10099 19999999, THEN conjunct1]
      dollar_strings_exact [of 10099 19999999, THEN conjunct2, THEN conjunct1]
      dollar_strings_exact [of 0 19999, THEN conjunct2, THEN conjunct2] by simp
qed

text \<open>\<open>Dollars.ToMillicents\<close> truncates a product computed in doubles, so a price of exactly the
  double nearest to 0.29 dollars loses a millicent, although cents convert without loss.\<close>

theorem Dollars_ToMillicents_loses:
  "Dollars_ToMillicents (fl64 (29 / 100)) = 28999 \<and> ToMillicents 29 = 29000
    \<and> Cents_ToDollarFloat 29 = fl64 (29 / 100)"
  by code_simp

end
