(* ===== verification/Errors.thy ===== *)
theory Errors
  imports Prelude
begin

text \<open>
  Error values and the HTTP status a handler answers with.  A Go \<open>error\<close> is built by
  \<open>errors.New\<close> or \<open>fmt.Errorf\<close> (\<open>ErrMsg\<close>, the message without its arguments), by
  \<open>errors.Wrap\<close> (\<open>Wrap\<close>), or is one of the sentinel values of \<open>pkg/models/errors.go\<close>, of the
  uploader, of the SQL driver or of the route planner.
\<close>

datatype route_error_code =
    UnsupportedPostalCode | UnroutableRoute | AddressLookupError | GeocodeResponseDecodingError
  | RoutingResponseDecodingError | UnknownError

datatype goerr =
    ErrMsg string
  | Wrap string goerr
  | NoRows
  | ErrCreateViolatesUniqueConstraint
  | ErrFetchNotFound
  | ErrUserUnauthorized
  | ErrFetchForbidden
  | ErrWriteForbidden
  | ErrWriteConflict
  | ErrDestroyForbidden
  | ErrLocatorGeneration
  | ErrInvalidPatchGate
  | ErrInvalidTransition
  | ErrZeroLengthFile
  | PqError string
  | RouteError route_error_code

text \<open>\<open>errors.Cause\<close> unwraps to the innermost error; \<open>errors.Wrap\<close> of a nil error is nil.\<close>

fun Cause :: "goerr \<Rightarrow> goerr" where
  "Cause (Wrap m e) = Cause e"
| "Cause e = e"

definition errors_Wrap :: "goerr option \<Rightarrow> string \<Rightarrow> goerr option" where
  "errors_Wrap e m = map_option (Wrap m) e"

type_synonym 'a result = "(goerr, 'a) outcome"

text \<open>The first row of a query result: \<open>sql.ErrNoRows\<close> when there is none.\<close>

definition first_row :: "'a list \<Rightarrow> 'a result" where
  "first_row rows = (case rows of [] \<Rightarrow> Fail NoRows | r # _ \<Rightarrow> Ret r)"

lemma first_row_simps [simp]: "first_row [] = Fail NoRows" "first_row (r # rs) = Ret r"
  by (simp_all add: first_row_def)

lemma first_row_eq_Ret [outcome_simps]: "first_row rows = Ret r \<longleftrightarrow> (\<exists>rs. rows = r # rs)"
  by (cases rows) auto

lemma first_row_eq_Fail [outcome_simps]: "first_row rows = Fail e \<longleftrightarrow> rows = [] \<and> e = NoRows"
  by (cases rows) auto

lemma first_row_not_Panic [outcome_simps]: "first_row rows \<noteq> Panic"
  by (cases rows) auto

lemma first_row_filter_Ret: "first_row (filter P rows) = Ret r \<Longrightarrow> r \<in> set rows \<and> P r"
  by (induction rows) (auto split: if_splits)

text \<open>The messages of \<open>validate.Errors\<close> by field; none is \<open>[]\<close>.\<close>

type_synonym verrs = "(string \<times> string list) list"

section \<open>Status codes\<close>

text \<open>An \<open>ErrResponse\<close>: the code and the error whose text is sent to the client.\<close>

record ErrResponse =
  Code :: nat
  Err :: goerr

definition SQLErrMessage :: string where
  "SQLErrMessage = ''Unhandled SQL error encountered''"

definition NilErrMessage :: string where
  "NilErrMessage = ''Nil error passed''"

definition newErrResponse :: "nat \<Rightarrow> goerr \<Rightarrow> ErrResponse" where
  "newErrResponse code e = \<lparr>Code = code, Err = e\<rparr>"

definition responseForBaseError :: "goerr \<Rightarrow> ErrResponse" where
  "responseForBaseError e = (case Cause e of
      ErrFetchNotFound \<Rightarrow> newErrResponse 404 e
    | ErrFetchForbidden \<Rightarrow> newErrResponse 403 e
    | ErrWriteForbidden \<Rightarrow> newErrResponse 403 e
    | ErrWriteConflict \<Rightarrow> newErrResponse 409 e
    | ErrUserUnauthorized \<Rightarrow> newErrResponse 401 e
    | ErrZeroLengthFile \<Rightarrow> newErrResponse 400 e
    | ErrInvalidPatchGate \<Rightarrow> newErrResponse 400 e
    | ErrInvalidTransition \<Rightarrow> newErrResponse 400 e
    | ErrDestroyForbidden \<Rightarrow> newErrResponse 400 e
    | _ \<Rightarrow> newErrResponse 500 e)"

definition ResponseForError :: "goerr option \<Rightarrow> ErrResponse" where
  "ResponseForError err = (case err of
      None \<Rightarrow> newErrResponse 500 (ErrMsg NilErrMessage)
    | Some e \<Rightarrow> (case Cause e of
          RouteError c \<Rightarrow>
            (if c \<in> {UnsupportedPostalCode, UnroutableRoute} then newErrResponse 422 e else newErrResponse 500 e)
        | PqError _ \<Rightarrow> newErrResponse 500 (ErrMsg SQLErrMessage)
        | _ \<Rightarrow> responseForBaseError e))"

text \<open>A validation response carries, per field, the messages joined by a space, in the order of
  the keys; any validation error makes the response a 400 whatever the error is.\<close>

datatype Responder = ValidationResponse "(string \<times> string) list" | ErrorResponse ErrResponse

fun strings_Join :: "string \<Rightarrow> string list \<Rightarrow> string" where
  "strings_Join sep [] = ''''"
| "strings_Join sep [s] = s"
| "strings_Join sep (s # t # ts) = s @ sep @ strings_Join sep (t # ts)"

definition ResponseForVErrors :: "(string \<times> string list) list \<Rightarrow> goerr option \<Rightarrow> Responder" where
  "ResponseForVErrors verrs err =
     (if verrs \<noteq> [] then ValidationResponse (map (\<lambda>(k, ms). (k, strings_Join '' '' ms)) verrs)
      else ErrorResponse (ResponseForError err))"

definition ResponseForCustomErrors :: "goerr \<Rightarrow> nat \<Rightarrow> ErrResponse" where
  "ResponseForCustomErrors e httpStatus = newErrResponse httpStatus e"

definition ResponseForConflictErrors :: "goerr \<Rightarrow> ErrResponse" where
  "ResponseForConflictErrors e = newErrResponse 409 e"

definition status_of :: "Responder \<Rightarrow> nat" where
  "status_of r = (case r of ValidationResponse _ \<Rightarrow> 400 | ErrorResponse e \<Rightarrow> Code e)"

lemma Cause_idem [simp]: "Cause (Cause e) = Cause e"
  by (induction e) auto

lemma Cause_not_Wrap: "Cause e \<noteq> Wrap m f"
  by (induction e) auto

lemma base_code_Wrap [simp]: "Code (responseForBaseError (Wrap m e)) = Code (responseForBaseError e)"
  by (simp add: responseForBaseError_def newErrResponse_def split: goerr.split)

lemma base_Err: "Err (responseForBaseError e) = e"
  by (simp add: responseForBaseError_def newErrResponse_def split: goerr.split)

section \<open>Properties\<close>

text \<open>Wrapping an error any number of times never changes the status code a handler answers
  with, and the text of a database error is never what the client is sent.\<close>

theorem ResponseForError_wrapping:
  "Code (ResponseForError (errors_Wrap (Some e) m)) = Code (ResponseForError (Some e))
   \<and> (\<forall>d. Cause e = PqError d \<longrightarrow> Err (ResponseForError (Some e)) = ErrMsg SQLErrMessage)"
  by (auto simp: ResponseForError_def errors_Wrap_def newErrResponse_def split: goerr.split)

theorem ResponseForError_wrapping_witness:
  "Cause (Wrap ''save'' (PqError ''secret'')) = PqError ''secret''
   \<and> Err (ResponseForError (Some (Wrap ''save'' (PqError ''secret'')))) = ErrMsg SQLErrMessage"
  using ResponseForError_wrapping [of "Wrap ''save'' (PqError ''secret'')" "''x''"] by simp

end
