(* ===== verification/Tariff.thy ===== *)
theory Tariff
  imports Money Errors
begin

text \<open>
  The 400NG tariff tables of \<open>pkg/models/tariff400ng_*.go\<close> and their queries.  A table is the
  list of its rows in the order the database returns them; a query is the filter its SQL text
  says, followed by what the Go code does with the rows (\<open>First\<close>, or \<open>All\<close> and a test that
  exactly one row came back).  A time is a number of seconds since the epoch in UTC; a failing
  database connection is not modelled.
\<close>

section \<open>Rows\<close>

record LinehaulRate =
  lh_DistanceMilesLower :: int
  lh_DistanceMilesUpper :: int
  lh_Type :: string
  lh_WeightLbsLower :: Pound
  lh_WeightLbsUpper :: Pound
  lh_RateCents :: Cents
  lh_EffectiveDateLower :: gotime
  lh_EffectiveDateUpper :: gotime

record ShorthaulRate =
  sh_CwtMilesLower :: int
  sh_CwtMilesUpper :: int
  sh_RateCents :: Cents
  sh_EffectiveDateLower :: gotime
  sh_EffectiveDateUpper :: gotime

record FullPackRate =
  fp_Schedule :: int
  fp_WeightLbsLower :: Pound
  fp_WeightLbsUpper :: Pound
  fp_RateCents :: Cents
  fp_EffectiveDateLower :: gotime
  fp_EffectiveDateUpper :: gotime

record FullUnpackRate =
  fu_Schedule :: int
  fu_RateMillicents :: int
  fu_EffectiveDateLower :: gotime
  fu_EffectiveDateUpper :: gotime

record ItemRate =
  ir_Code :: string
  ir_Schedule :: "int option"
  ir_WeightLbsLower :: Pound
  ir_WeightLbsUpper :: Pound
  ir_RateCents :: Cents
  ir_EffectiveDateLower :: gotime
  ir_EffectiveDateUpper :: gotime

record ServiceArea =
  sa_ServiceArea :: string
  sa_ServicesSchedule :: int
  sa_LinehaulFactor :: Cents
  sa_ServiceChargeCents :: Cents
  sa_EffectiveDateLower :: gotime
  sa_EffectiveDateUpper :: gotime
  sa_SIT185ARateCents :: Cents
  sa_SIT185BRateCents :: Cents
  sa_SITPDSchedule :: int

record Zip3 =
  z3_Zip3 :: string
  z3_ServiceArea :: string
  z3_RateArea :: string
  z3_Region :: string

record Zip5RateArea =
  z5_Zip5 :: string
  z5_RateArea :: string

record FuelEIADieselPrice =
  fe_RateStartDate :: int
  fe_RateEndDate :: int
  fe_EIAPricePerGallonMillicents :: Millicents
  fe_BaselineRate :: int

record tariff_db =
  linehaul_rates :: "LinehaulRate list"
  shorthaul_rates :: "ShorthaulRate list"
  full_pack_rates :: "FullPackRate list"
  full_unpack_rates :: "FullUnpackRate list"
  item_rates :: "ItemRate list"
  service_areas :: "ServiceArea list"
  zip3s :: "Zip3 list"
  zip5_rate_areas :: "Zip5RateArea list"
  fuel_prices :: "FuelEIADieselPrice list"

section \<open>Queries\<close>

definition linehaul_match :: "int \<times> Pound \<times> gotime \<Rightarrow> LinehaulRate \<Rightarrow> bool" where
  "linehaul_match k r = (case k of (mileage, weight, date) \<Rightarrow>
     (lh_DistanceMilesLower r \<le> mileage \<and> mileage < lh_DistanceMilesUpper r)
     \<and> (lh_WeightLbsLower r \<le> weight \<and> weight < lh_WeightLbsUpper r)
     \<and> lh_Type r = ''ConusLinehaul''
     \<and> (lh_EffectiveDateLower r \<le> date \<and> date < lh_EffectiveDateUpper r))"

definition FetchBaseLinehaulRate :: "tariff_db \<Rightarrow> int \<Rightarrow> Pound \<Rightarrow> gotime \<Rightarrow> Cents result" where
  "FetchBaseLinehaulRate db mileage weight date =
     (let linehaulRates = map lh_RateCents (filter (linehaul_match (mileage, weight, date)) (linehaul_rates db))
      in if length linehaulRates \<noteq> 1 then Fail (ErrMsg ''Wanted 1 rate'') else Ret (hd linehaulRates))"

definition shorthaul_match :: "int \<times> gotime \<Rightarrow> ShorthaulRate \<Rightarrow> bool" where
  "shorthaul_match k r = (case k of (cwtMiles, date) \<Rightarrow>
     sh_CwtMilesLower r \<le> cwtMiles \<and> cwtMiles < sh_CwtMilesUpper r
     \<and> sh_EffectiveDateLower r \<le> date \<and> date < sh_EffectiveDateUpper r)"

definition FetchShorthaulRateCents :: "tariff_db \<Rightarrow> int \<Rightarrow> gotime \<Rightarrow> Cents result" where
  "FetchShorthaulRateCents db cwtMiles date =
     (let sh = filter (shorthaul_match (cwtMiles, date)) (shorthaul_rates db)
      in if length sh \<noteq> 1 then Fail (ErrMsg ''Wanted 1 shorthaul rate'') else Ret (sh_RateCents (hd sh)))"

definition full_pack_match :: "int \<times> Pound \<times> gotime \<Rightarrow> FullPackRate \<Rightarrow> bool" where
  "full_pack_match k r = (case k of (schedule, weight, date) \<Rightarrow>
     fp_Schedule r = schedule
     \<and> fp_WeightLbsLower r \<le> weight \<and> weight < fp_WeightLbsUpper r
     \<and> fp_EffectiveDateLower r \<le> date \<and> date < fp_EffectiveDateUpper r)"

definition FetchTariff400ngFullPackRateCents :: "tariff_db \<Rightarrow> Pound \<Rightarrow> int \<Rightarrow> gotime \<Rightarrow> Cents result" where
  "FetchTariff400ngFullPackRateCents db weight schedule date =
     obind (map_fail (Wrap ''could not find a matching Tariff400ngFullPackRate'')
       (first_row (filter (full_pack_match (schedule, weight, date)) (full_pack_rates db))))
       (\<lambda>rate. Ret (fp_RateCents rate))"

definition full_unpack_match :: "int \<times> gotime \<Rightarrow> FullUnpackRate \<Rightarrow> bool" where
  "full_unpack_match k r = (case k of (schedule, date) \<Rightarrow>
     fu_Schedule r = schedule \<and> fu_EffectiveDateLower r \<le> date \<and> date < fu_EffectiveDateUpper r)"

definition FetchTariff400ngFullUnpackRateMillicents :: "tariff_db \<Rightarrow> int \<Rightarrow> gotime \<Rightarrow> int result" where
  "FetchTariff400ngFullUnpackRateMillicents db serviceSchedule date =
     obind (map_fail (Wrap ''could not find a matching Tariff400ngFullUnpackRate'')
       (first_row (filter (full_unpack_match (serviceSchedule, date)) (full_unpack_rates db))))
       (\<lambda>rate. Ret (fu_RateMillicents rate))"

definition item_rate_match :: "string \<times> int \<times> Pound \<times> gotime \<Rightarrow> ItemRate \<Rightarrow> bool" where
  "item_rate_match k r = (case k of (code, schedule, weight, shipDate) \<Rightarrow>
     ir_Code r = code
     \<and> (ir_Schedule r = Some schedule \<or> ir_Schedule r = None)
     \<and> ir_WeightLbsLower r \<le> weight \<and> weight \<le> ir_WeightLbsUpper r
     \<and> ir_EffectiveDateLower r \<le> shipDate \<and> shipDate < ir_EffectiveDateUpper r)"

definition FetchTariff400ngItemRate :: "tariff_db \<Rightarrow> string \<Rightarrow> int \<Rightarrow> Pound \<Rightarrow> gotime \<Rightarrow> ItemRate result" where
  "FetchTariff400ngItemRate db code schedule weight shipDate =
     first_row (filter (item_rate_match (code, schedule, weight, shipDate)) (item_rates db))"

text \<open>The left join pairs every service area with the zip3 rows of the same area; the condition on
  \<open>zip3\<close> leaves out the areas without such a row.\<close>

definition service_area_rows :: "tariff_db \<Rightarrow> (ServiceArea \<times> Zip3) list" where
  "service_area_rows db =
     concat (map (\<lambda>sa. map (Pair sa) (filter (\<lambda>z. z3_ServiceArea z = sa_ServiceArea sa) (zip3s db))) (service_areas db))"

definition FetchTariff400ngServiceAreaForZip3 :: "tariff_db \<Rightarrow> string \<Rightarrow> gotime \<Rightarrow> ServiceArea result" where
  "FetchTariff400ngServiceAreaForZip3 db zip3 date =
     obind (map_fail (Wrap ''could not find a matching Tariff400ngServiceArea'')
       (first_row (filter (\<lambda>(sa, z). z3_Zip3 z = zip3 \<and> sa_EffectiveDateLower sa \<le> date \<and> date < sa_EffectiveDateUpper sa)
          (service_area_rows db))))
       (\<lambda>(sa, z). Ret sa)"

definition FetchRateAreaForZip5 :: "tariff_db \<Rightarrow> string \<Rightarrow> string result" where
  "FetchRateAreaForZip5 db fullZip =
     (if length fullZip < 5 then Fail (ErrMsg ''zip must have a length of at least 5'')
      else
        let zip3 = take 3 fullZip in
        obind (map_fail (Wrap ''could not find zip3'') (first_row (filter (\<lambda>z. z3_Zip3 z = zip3) (zip3s db))))
          (\<lambda>tariffZip3.
            if z3_RateArea tariffZip3 = ''ZIP'' then
              let zip5 = take 5 fullZip in
              obind (map_fail (Wrap ''could not find zip5_rate_area'')
                  (first_row (filter (\<lambda>z. z5_Zip5 z = zip5) (zip5_rate_areas db))))
                (\<lambda>zip5RateArea. Ret (z5_RateArea zip5RateArea))
            else Ret (z3_RateArea tariffZip3)))"

definition FetchRegionForZip5 :: "tariff_db \<Rightarrow> string \<Rightarrow> string result" where
  "FetchRegionForZip5 db fullZip =
     (if length fullZip < 5 then Fail (ErrMsg ''zip must have a length of at least 5'')
      else
        let zip3 = take 3 fullZip in
        obind (map_fail (Wrap ''could not find zip3'') (first_row (filter (\<lambda>z. z3_Zip3 z = zip3) (zip3s db))))
          (\<lambda>tariffZip3. Ret (z3_Region tariffZip3)))"

section \<open>Interval tables\<close>

text \<open>
  The tariff is published with disjoint brackets.  \<open>disjoint_rows\<close> says so of a table, given
  when two rows overlap; then at most one row answers a key, the test for exactly one row and the
  choice of the first row agree, and the answer does not depend on the order of the rows.
\<close>

definition disjoint_rows :: "('r \<Rightarrow> 'r \<Rightarrow> bool) \<Rightarrow> 'r list \<Rightarrow> bool" where
  "disjoint_rows overlap rows \<longleftrightarrow>
     distinct rows \<and> (\<forall>r \<in> set rows. \<forall>s \<in> set rows. r \<noteq> s \<longrightarrow> \<not> overlap r s)"

definition meets :: "int \<Rightarrow> int \<Rightarrow> int \<Rightarrow> int \<Rightarrow> bool" where
  "meets l u l' u' \<longleftrightarrow> max l l' < min u u'"

definition linehaul_overlap :: "LinehaulRate \<Rightarrow> LinehaulRate \<Rightarrow> bool" where
  "linehaul_overlap r s \<longleftrightarrow> lh_Type r = lh_Type s
     \<and> meets (lh_DistanceMilesLower r) (lh_DistanceMilesUpper r) (lh_DistanceMilesLower s) (lh_DistanceMilesUpper s)
     \<and> meets (lh_WeightLbsLower r) (lh_WeightLbsUpper r) (lh_WeightLbsLower s) (lh_WeightLbsUpper s)
     \<and> meets (lh_EffectiveDateLower r) (lh_EffectiveDateUpper r) (lh_EffectiveDateLower s) (lh_EffectiveDateUpper s)"

definition shorthaul_overlap :: "ShorthaulRate \<Rightarrow> ShorthaulRate \<Rightarrow> bool" where
  "shorthaul_overlap r s \<longleftrightarrow>
     meets (sh_CwtMilesLower r) (sh_CwtMilesUpper r) (sh_CwtMilesLower s) (sh_CwtMilesUpper s)
     \<and> meets (sh_EffectiveDateLower r) (sh_EffectiveDateUpper r) (sh_EffectiveDateLower s) (sh_EffectiveDateUpper s)"

definition full_pack_overlap :: "FullPackRate \<Rightarrow> FullPackRate \<Rightarrow> bool" where
  "full_pack_overlap r s \<longleftrightarrow> fp_Schedule r = fp_Schedule s
     \<and> meets (fp_WeightLbsLower r) (fp_WeightLbsUpper r) (fp_WeightLbsLower s) (fp_WeightLbsUpper s)
     \<and> meets (fp_EffectiveDateLower r) (fp_EffectiveDateUpper r) (fp_EffectiveDateLower s) (fp_EffectiveDateUpper s)"

definition full_unpack_overlap :: "FullUnpackRate \<Rightarrow> FullUnpackRate \<Rightarrow> bool" where
  "full_unpack_overlap r s \<longleftrightarrow> fu_Schedule r = fu_Schedule s
     \<and> meets (fu_EffectiveDateLower r) (fu_EffectiveDateUpper r) (fu_EffectiveDateLower s) (fu_EffectiveDateUpper s)"

locale rate_table =
  fixes rows :: "'db \<Rightarrow> 'r list" and matches :: "'k \<Rightarrow> 'r \<Rightarrow> bool" and overlap :: "'r \<Rightarrow> 'r \<Rightarrow> bool"
  assumes match_overlap: "matches k r \<Longrightarrow> matches k s \<Longrightarrow> overlap r s"
begin

lemma filter_unique:
  assumes "disjoint_rows overlap (rows db)" "r \<in> set (rows db)" "matches k r"
  shows "filter (matches k) (rows db) = [r]"
proof (rule filter_single)
  show "s = r" if "s \<in> set (rows db)" "matches k s" for s
    using match_overlap [OF that(2) assms(3)] that(1) assms(1,2) by (auto simp: disjoint_rows_def)
qed (use assms in \<open>auto simp: disjoint_rows_def\<close>)

lemma filter_cases:
  assumes "disjoint_rows overlap (rows db)"
  shows "filter (matches k) (rows db) = [] \<or> (\<exists>r \<in> set (rows db). matches k r \<and> filter (matches k) (rows db) = [r])"
  using filter_unique [OF assms]
  by (cases "\<exists>r \<in> set (rows db). matches k r") (auto simp: filter_empty_conv)

lemma lookup_order:
  assumes "disjoint_rows overlap (rows db)" "set (rows db') = set (rows db)" "distinct (rows db')"
  shows "filter (matches k) (rows db') = filter (matches k) (rows db)"
proof -
  have "disjoint_rows overlap (rows db')" using assms by (simp add: disjoint_rows_def)
  then show ?thesis
    using filter_cases [OF assms(1)] filter_unique assms(2) by (metis filter_empty_conv)
qed

end

lemma meets_point: "l \<le> x \<Longrightarrow> x < u \<Longrightarrow> l' \<le> x \<Longrightarrow> x < u' \<Longrightarrow> meets l u l' u'"
  by (simp add: meets_def)

interpretation linehaul: rate_table linehaul_rates linehaul_match linehaul_overlap
  by unfold_locales (auto simp: linehaul_match_def linehaul_overlap_def intro: meets_point)

interpretation shorthaul: rate_table shorthaul_rates shorthaul_match shorthaul_overlap
  by unfold_locales (auto simp: shorthaul_match_def shorthaul_overlap_def intro: meets_point)

interpretation full_pack: rate_table full_pack_rates full_pack_match full_pack_overlap
  by unfold_locales (auto simp: full_pack_match_def full_pack_overlap_def intro: meets_point)

interpretation full_unpack: rate_table full_unpack_rates full_unpack_match full_unpack_overlap
  by unfold_locales (auto simp: full_unpack_match_def full_unpack_overlap_def intro: meets_point)

section \<open>Properties\<close>

text \<open>When the linehaul table has disjoint brackets, the base linehaul rate of a distance,
  weight and date is the rate of the one bracket that contains them, an error when there is none,
  and does not depend on the order in which the database returns the rows.\<close>

theorem FetchBaseLinehaulRate_bracket:
  assumes wf: "disjoint_rows linehaul_overlap (linehaul_rates db)"
  shows "(\<forall>r \<in> set (linehaul_rates db). linehaul_match (m, w, d) r \<longrightarrow> FetchBaseLinehaulRate db m w d = Ret (lh_RateCents r))
    \<and> ((\<exists>c. FetchBaseLinehaulRate db m w d = Ret c) \<longleftrightarrow> (\<exists>r \<in> set (linehaul_rates db). linehaul_match (m, w, d) r))
    \<and> (\<forall>db'. set (linehaul_rates db') = set (linehaul_rates db) \<and> distinct (linehaul_rates db')
         \<longrightarrow> FetchBaseLinehaulRate db' m w d = FetchBaseLinehaulRate db m w d)"
proof (intro conjI ballI allI impI)
  show "FetchBaseLinehaulRate db m w d = Ret (lh_RateCents r)"
    if "r \<in> set (linehaul_rates db)" "linehaul_match (m, w, d) r" for r
    using linehaul.filter_unique [OF wf that] by (simp add: FetchBaseLinehaulRate_def)
  show "(\<exists>c. FetchBaseLinehaulRate db m w d = Ret c) \<longleftrightarrow> (\<exists>r \<in> set (linehaul_rates db). linehaul_match (m, w, d) r)"
    using linehaul.filter_cases [OF wf, of "(m, w, d)"]
    by (auto simp: FetchBaseLinehaulRate_def filter_empty_conv)
  show "FetchBaseLinehaulRate db' m w d = FetchBaseLinehaulRate db m w d"
    if "set (linehaul_rates db') = set (linehaul_rates db) \<and> distinct (linehaul_rates db')" for db'
    using linehaul.lookup_order [OF wf] that by (simp add: FetchBaseLinehaulRate_def)
qed

definition sample_rates :: "LinehaulRate list" where
  "sample_rates =
    [\<lparr>lh_DistanceMilesLower = 1, lh_DistanceMilesUpper = 100, lh_Type = ''ConusLinehaul'', lh_WeightLbsLower = 1000,
      lh_WeightLbsUpper = 2000, lh_RateCents = 20000, lh_EffectiveDateLower = 0, lh_EffectiveDateUpper = 1000\<rparr>,
     \<lparr>lh_DistanceMilesLower = 100, lh_DistanceMilesUpper = 200, lh_Type = ''ConusLinehaul'', lh_WeightLbsLower = 1000,
      lh_WeightLbsUpper = 2000, lh_RateCents = 30000, lh_EffectiveDateLower = 0, lh_EffectiveDateUpper = 1000\<rparr>]"

definition sample_db :: tariff_db where
  "sample_db = \<lparr>linehaul_rates = sample_rates, shorthaul_rates = [], full_pack_rates = [], full_unpack_rates = [],
     item_rates = [], service_areas = [], zip3s = [], zip5_rate_areas = [], fuel_prices = []\<rparr>"

theorem FetchBaseLinehaulRate_bracket_witness:
  "FetchBaseLinehaulRate sample_db 100 1500 5 = Ret 30000 \<and> (\<nexists>c. FetchBaseLinehaulRate sample_db 200 1500 5 = Ret c)"
proof -
  have wf: "disjoint_rows linehaul_overlap (linehaul_rates sample_db)"
    by (simp add: sample_db_def sample_rates_def disjoint_rows_def linehaul_overlap_def meets_def)
  have "FetchBaseLinehaulRate sample_db 100 1500 5 = Ret 30000"
    using FetchBaseLinehaulRate_bracket [OF wf, of 100 1500 5, THEN conjunct1]
    by (simp add: sample_db_def sample_rates_def linehaul_match_def)
  moreover have "\<not> (\<exists>r \<in> set (linehaul_rates sample_db). linehaul_match (200, 1500, 5) r)"
    by (simp add: sample_db_def sample_rates_def linehaul_match_def)
  ultimately show ?thesis
    using FetchBaseLinehaulRate_bracket [OF wf, of 200 1500 5, THEN conjunct2, THEN conjunct1] by simp
qed

end
