(* ===== verification/RateEngine.thy ===== *)
theory RateEngine
  imports Tariff
begin

text \<open>
  The rate engine of \<open>pkg/rateengine\<close> up to the cost of a personally procured move: linehaul
  and non-linehaul charges, storage in transit, the fuel surcharge and \<open>ComputePPM\<close>.  The
  engine's state is its database connection, here the tariff tables; log calls are left out.
\<close>

section \<open>Results\<close>

record FeeAndRate =
  Fee :: Cents
  Rate :: Millicents

record LinehaulCostComputation =
  BaseLinehaul :: Cents
  OriginLinehaulFactor :: Cents
  DestinationLinehaulFactor :: Cents
  ShorthaulCharge :: Cents
  LinehaulChargeTotal :: Cents
  Mileage :: int
  FuelSurcharge :: FeeAndRate

record NonLinehaulCostComputation =
  OriginService :: FeeAndRate
  DestinationService :: FeeAndRate
  Pack :: FeeAndRate
  Unpack :: FeeAndRate

record SITComputation =
  SITPart :: Cents
  LinehaulPart :: Cents
  NonDiscountedTotal :: Cents

record CostComputation =
  linehaul :: LinehaulCostComputation
  nonLinehaul :: NonLinehaulCostComputation
  SITFee :: Cents
  SITMax :: Cents
  GCC :: Cents
  LHDiscount :: DiscountRate
  SITDiscount :: DiscountRate
  Weight :: Pound
  ShipmentID :: nat

definition noFee :: FeeAndRate where
  "noFee = \<lparr>Fee = 0, Rate = 0\<rparr>"

definition MaxSITDays :: int where
  "MaxSITDays = 90"

section \<open>Scaling\<close>

definition scale_fee :: "rat \<Rightarrow> FeeAndRate \<Rightarrow> FeeAndRate" where
  "scale_fee factor f = f\<lparr>Fee := Cents_MultiplyFloat64 (Fee f) factor\<rparr>"

definition LinehaulCostComputation_Scale :: "rat \<Rightarrow> LinehaulCostComputation \<Rightarrow> LinehaulCostComputation" where
  "LinehaulCostComputation_Scale factor c = c\<lparr>
     BaseLinehaul := Cents_MultiplyFloat64 (BaseLinehaul c) factor,
     OriginLinehaulFactor := Cents_MultiplyFloat64 (OriginLinehaulFactor c) factor,
     DestinationLinehaulFactor := Cents_MultiplyFloat64 (DestinationLinehaulFactor c) factor,
     ShorthaulCharge := Cents_MultiplyFloat64 (ShorthaulCharge c) factor,
     LinehaulChargeTotal := Cents_MultiplyFloat64 (LinehaulChargeTotal c) factor\<rparr>"

definition NonLinehaulCostComputation_Scale :: "rat \<Rightarrow> NonLinehaulCostComputation \<Rightarrow> NonLinehaulCostComputation" where
  "NonLinehaulCostComputation_Scale factor c = c\<lparr>
     OriginService := scale_fee factor (OriginService c),
     DestinationService := scale_fee factor (DestinationService c),
     Pack := scale_fee factor (Pack c),
     Unpack := scale_fee factor (Unpack c)\<rparr>"

definition CostComputation_Scale :: "rat \<Rightarrow> CostComputation \<Rightarrow> CostComputation" where
  "CostComputation_Scale factor c = c\<lparr>
     linehaul := LinehaulCostComputation_Scale factor (linehaul c),
     nonLinehaul := NonLinehaulCostComputation_Scale factor (nonLinehaul c),
     SITFee := Cents_MultiplyFloat64 (SITFee c) factor,
     SITMax := Cents_MultiplyFloat64 (SITMax c) factor,
     GCC := Cents_MultiplyFloat64 (GCC c) factor\<rparr>"

definition ApplyDiscount :: "SITComputation \<Rightarrow> DiscountRate \<Rightarrow> DiscountRate \<Rightarrow> Cents" where
  "ApplyDiscount s linehaulDiscount sitDiscount =
     AddCents (Apply sitDiscount (SITPart s)) (Apply linehaulDiscount (LinehaulPart s))"

section \<open>Linehaul\<close>

text \<open>The slice \<open>zip5[0:3]\<close> panics on a string of fewer than three bytes.\<close>

definition Zip5ToZip3 :: "string \<Rightarrow> string result" where
  "Zip5ToZip3 zip5 = (if length zip5 < 3 then Panic else Ret (take 3 zip5))"

definition baseLinehaul :: "tariff_db \<Rightarrow> int \<Rightarrow> Pound \<Rightarrow> gotime \<Rightarrow> Cents result" where
  "baseLinehaul db mileage weight date = FetchBaseLinehaulRate db mileage weight date"

definition linehaulFactors :: "tariff_db \<Rightarrow> CWT \<Rightarrow> string \<Rightarrow> gotime \<Rightarrow> Cents result" where
  "linehaulFactors db cwt zip3 date =
     obind (FetchTariff400ngServiceAreaForZip3 db zip3 date)
       (\<lambda>serviceArea. Ret (Cents_Multiply (sa_LinehaulFactor serviceArea) cwt))"

definition shorthaulCharge :: "tariff_db \<Rightarrow> int \<Rightarrow> CWT \<Rightarrow> gotime \<Rightarrow> Cents result" where
  "shorthaulCharge db mileage cwt date =
     (if 800 \<le> mileage then Ret 0
      else FetchShorthaulRateCents db (wrap64 (mileage * cwt)) date)"

definition linehaulChargeComputation ::
  "tariff_db \<Rightarrow> Pound \<Rightarrow> string \<Rightarrow> string \<Rightarrow> int \<Rightarrow> gotime \<Rightarrow> LinehaulCostComputation result" where
  "linehaulChargeComputation db weight originZip5 destinationZip5 distanceMiles pickupDate =
     (let cwt = ToCWT weight in
      obind (Zip5ToZip3 originZip5) (\<lambda>originZip3.
      obind (Zip5ToZip3 destinationZip5) (\<lambda>destinationZip3.
      obind (map_fail (Wrap ''Failed to determine base linehaul charge'')
        (baseLinehaul db distanceMiles weight pickupDate)) (\<lambda>blh.
      obind (map_fail (Wrap ''Failed to determine origin linehaul factor'')
        (linehaulFactors db cwt originZip3 pickupDate)) (\<lambda>olf.
      obind (map_fail (Wrap ''Failed to determine destination linehaul factor'')
        (linehaulFactors db cwt destinationZip3 pickupDate)) (\<lambda>dlf.
      obind (map_fail (Wrap ''Failed to determine shorthaul charge'')
        (shorthaulCharge db distanceMiles cwt pickupDate)) (\<lambda>sh.
      Ret \<lparr>BaseLinehaul = blh, OriginLinehaulFactor = olf, DestinationLinehaulFactor = dlf,
           ShorthaulCharge = sh, LinehaulChargeTotal = wrap64 (blh + olf + dlf + sh),
           Mileage = distanceMiles, FuelSurcharge = noFee\<rparr>)))))))"

text \<open>The fuel surcharge takes the first price row whose range holds the booking day; with no such
  row the index \<open>[0]\<close> is out of range, which the code only logs before it panics.\<close>

definition fuelSurchargeComputation :: "tariff_db \<Rightarrow> Cents \<Rightarrow> gotime \<Rightarrow> FeeAndRate result" where
  "fuelSurchargeComputation db totalLinehaulCost bookDate =
     (let bookDay = date_of bookDate;
          rows = filter (\<lambda>p. fe_RateStartDate p \<le> bookDay \<and> bookDay \<le> fe_RateEndDate p) (fuel_prices db)
      in case rows of
           [] \<Rightarrow> Panic
         | p # _ \<Rightarrow>
             (let fuelSurchargePercentage = fl64 (fl64 (of_int (fe_BaselineRate p)) / 100)
              in Ret \<lparr>Fee = Cents_MultiplyFloat64 totalLinehaulCost fuelSurchargePercentage,
                      Rate = fe_EIAPricePerGallonMillicents p\<rparr>))"

section \<open>Non-linehaul charges\<close>

definition serviceFeeCents :: "tariff_db \<Rightarrow> CWT \<Rightarrow> string \<Rightarrow> gotime \<Rightarrow> FeeAndRate result" where
  "serviceFeeCents db cwt zip3 date =
     obind (FetchTariff400ngServiceAreaForZip3 db zip3 date) (\<lambda>serviceArea.
       let rateCents = sa_ServiceChargeCents serviceArea; feeCents = Cents_Multiply rateCents cwt
       in Ret \<lparr>Fee = feeCents, Rate = ToMillicents rateCents\<rparr>)"

definition fullPackCents :: "tariff_db \<Rightarrow> CWT \<Rightarrow> string \<Rightarrow> gotime \<Rightarrow> FeeAndRate result" where
  "fullPackCents db cwt zip3 date =
     obind (FetchTariff400ngServiceAreaForZip3 db zip3 date) (\<lambda>serviceArea.
     obind (FetchTariff400ngFullPackRateCents db (ToPounds cwt) (sa_ServicesSchedule serviceArea) date) (\<lambda>fullPackRate.
     Ret \<lparr>Fee = Cents_Multiply fullPackRate cwt, Rate = ToMillicents fullPackRate\<rparr>))"

definition fullUnpackCents :: "tariff_db \<Rightarrow> CWT \<Rightarrow> string \<Rightarrow> gotime \<Rightarrow> FeeAndRate result" where
  "fullUnpackCents db cwt zip3 date =
     obind (FetchTariff400ngServiceAreaForZip3 db zip3 date) (\<lambda>serviceArea.
     obind (FetchTariff400ngFullUnpackRateMillicents db (sa_ServicesSchedule serviceArea) date) (\<lambda>fullUnpackRate.
     Ret \<lparr>Fee = go_trunc (of_int (go_round (fl64 (fl64 (of_int (wrap64 (cwt * fullUnpackRate))) / 1000)))),
          Rate = fullUnpackRate\<rparr>))"

definition nonLinehaulChargeComputation ::
  "tariff_db \<Rightarrow> Pound \<Rightarrow> string \<Rightarrow> string \<Rightarrow> gotime \<Rightarrow> NonLinehaulCostComputation result" where
  "nonLinehaulChargeComputation db weight originZip5 destinationZip5 date =
     (let cwt = ToCWT weight in
      obind (Zip5ToZip3 originZip5) (\<lambda>originZip3.
      obind (Zip5ToZip3 destinationZip5) (\<lambda>destinationZip3.
      obind (map_fail (Wrap ''Failed to  determine origin service fee'')
        (serviceFeeCents db cwt originZip3 date)) (\<lambda>os.
      obind (map_fail (Wrap ''Failed to  determine destination service fee'')
        (serviceFeeCents db cwt destinationZip3 date)) (\<lambda>ds.
      obind (map_fail (Wrap ''Failed to  determine full pack cost'')
        (fullPackCents db cwt originZip3 date)) (\<lambda>pack.
      obind (map_fail (Wrap ''Failed to  determine full unpack cost'')
        (fullUnpackCents db cwt destinationZip3 date)) (\<lambda>unpack.
      Ret \<lparr>OriginService = os, DestinationService = ds, Pack = pack, Unpack = unpack\<rparr>)))))))"

section \<open>Storage in transit\<close>

definition sit_effective_cwt :: "CWT \<Rightarrow> bool \<Rightarrow> CWT" where
  "sit_effective_cwt cwt isPPM =
     (if \<not> isPPM then (let minCWT = ToCWT 1000 in if cwt < minCWT then minCWT else cwt) else cwt)"

definition SitCharge :: "tariff_db \<Rightarrow> CWT \<Rightarrow> int \<Rightarrow> string \<Rightarrow> gotime \<Rightarrow> bool \<Rightarrow> SITComputation result" where
  "SitCharge db cwt daysInSIT zip3 date isPPM =
     (if daysInSIT = 0 then Ret \<lparr>SITPart = 0, LinehaulPart = 0, NonDiscountedTotal = 0\<rparr>
      else if daysInSIT < 0 then Fail (ErrMsg ''requested SitCharge for negative days in SIT'')
      else
        let effectiveCWT = sit_effective_cwt cwt isPPM in
        obind (FetchTariff400ngServiceAreaForZip3 db zip3 date) (\<lambda>sa.
        let firstDay = Cents_Multiply (sa_SIT185ARateCents sa) effectiveCWT;
            additionalDays = daysInSIT - 1;
            sitPart = (if 0 < additionalDays
              then AddCents firstDay (Cents_Multiply (Cents_Multiply (sa_SIT185BRateCents sa) additionalDays) effectiveCWT)
              else firstDay)
        in if isPPM then
             obind (map_fail (Wrap ''No 210A rate found'')
               (FetchTariff400ngItemRate db ''210A'' (sa_SITPDSchedule sa) (ToPounds effectiveCWT) date)) (\<lambda>rate210A.
             let sitPart = AddCents sitPart (ir_RateCents rate210A) in
             obind (map_fail (Wrap ''No 225A rate found'')
               (FetchTariff400ngItemRate db ''225A'' (sa_ServicesSchedule sa) (ToPounds effectiveCWT) date)) (\<lambda>rate225A.
             let linehaulPart = ir_RateCents rate225A in
             Ret \<lparr>SITPart = sitPart, LinehaulPart = linehaulPart, NonDiscountedTotal = AddCents sitPart linehaulPart\<rparr>))
           else
             Ret \<lparr>SITPart = sitPart, LinehaulPart = 0, NonDiscountedTotal = AddCents sitPart 0\<rparr>))"

section \<open>The cost of a PPM\<close>

definition discount_fee :: "DiscountRate \<Rightarrow> FeeAndRate \<Rightarrow> FeeAndRate" where
  "discount_fee r f = f\<lparr>Fee := Apply r (Fee f)\<rparr>"

definition discount_nonlinehaul :: "DiscountRate \<Rightarrow> NonLinehaulCostComputation \<Rightarrow> NonLinehaulCostComputation" where
  "discount_nonlinehaul r c = c\<lparr>
     OriginService := discount_fee r (OriginService c),
     DestinationService := discount_fee r (DestinationService c),
     Pack := discount_fee r (Pack c),
     Unpack := discount_fee r (Unpack c)\<rparr>"

definition gcc_total :: "LinehaulCostComputation \<Rightarrow> NonLinehaulCostComputation \<Rightarrow> Cents" where
  "gcc_total lh nlh = wrap64 (LinehaulChargeTotal lh + Fee (OriginService nlh) + Fee (DestinationService nlh)
     + Fee (Pack nlh) + Fee (Unpack nlh))"

text \<open>Weights below 1000 pounds are priced at 1000 pounds and scaled down at the end.\<close>

definition prorate :: "Pound \<Rightarrow> rat \<times> Pound" where
  "prorate weight = (if weight < 1000 then (fl64 (Pound_Float64 weight / 1000), 1000) else (1, weight))"

definition ppm_cost ::
  "LinehaulCostComputation \<Rightarrow> NonLinehaulCostComputation \<Rightarrow> SITComputation \<Rightarrow> SITComputation \<Rightarrow> DiscountRate \<Rightarrow> DiscountRate \<Rightarrow> Pound \<Rightarrow> CostComputation" where
  "ppm_cost lh0 nlh0 sitComputation maxSITComputation lhDiscount sitDiscount weight =
     (let lh = lh0\<lparr>LinehaulChargeTotal := Apply lhDiscount (LinehaulChargeTotal lh0)\<rparr>;
          nlh = discount_nonlinehaul lhDiscount nlh0
      in \<lparr>linehaul = lh, nonLinehaul = nlh,
          SITFee = ApplyDiscount sitComputation lhDiscount sitDiscount,
          SITMax = ApplyDiscount maxSITComputation lhDiscount sitDiscount,
          GCC = gcc_total lh nlh, LHDiscount = lhDiscount, SITDiscount = sitDiscount,
          Weight = weight, ShipmentID = 0\<rparr>)"

definition ComputePPM ::
  "tariff_db \<Rightarrow> Pound \<Rightarrow> string \<Rightarrow> string \<Rightarrow> int \<Rightarrow> gotime \<Rightarrow> int \<Rightarrow> DiscountRate \<Rightarrow> DiscountRate \<Rightarrow> CostComputation result" where
  "ComputePPM db weight0 originZip5 destinationZip5 distanceMiles date daysInSIT lhDiscount sitDiscount =
     (case prorate weight0 of (prorateFactor, weight) \<Rightarrow>
      obind (linehaulChargeComputation db weight originZip5 destinationZip5 distanceMiles date) (\<lambda>lh0.
      obind (nonLinehaulChargeComputation db weight originZip5 destinationZip5 date) (\<lambda>nlh0.
      obind (Zip5ToZip3 destinationZip5) (\<lambda>destinationZip3.
      obind (SitCharge db (ToCWT weight) daysInSIT destinationZip3 date True) (\<lambda>sitComputation.
      obind (SitCharge db (ToCWT weight) MaxSITDays destinationZip3 date True) (\<lambda>maxSITComputation.
      Ret (CostComputation_Scale prorateFactor
        (ppm_cost lh0 nlh0 sitComputation maxSITComputation lhDiscount sitDiscount weight))))))))"

section \<open>No panic but for short zip codes\<close>

named_theorems no_panic "calls that return a value or an error, never panic"

lemma fetch_no_panic [no_panic]:
  "FetchBaseLinehaulRate db m w d \<noteq> Panic"
  "FetchShorthaulRateCents db n d \<noteq> Panic"
  "FetchTariff400ngFullPackRateCents db w sched d \<noteq> Panic"
  "FetchTariff400ngFullUnpackRateMillicents db sched d \<noteq> Panic"
  "FetchTariff400ngItemRate db code sched w d \<noteq> Panic"
  "FetchTariff400ngServiceAreaForZip3 db z d \<noteq> Panic"
  by (auto simp: FetchBaseLinehaulRate_def FetchShorthaulRateCents_def FetchTariff400ngFullPackRateCents_def
      FetchTariff400ngFullUnpackRateMillicents_def FetchTariff400ngItemRate_def
      FetchTariff400ngServiceAreaForZip3_def Let_def outcome_simps split: prod.splits)

lemma charges_no_panic [no_panic]:
  "linehaulFactors db cwt z d \<noteq> Panic" "shorthaulCharge db m cwt d \<noteq> Panic"
  "serviceFeeCents db cwt z d \<noteq> Panic" "fullPackCents db cwt z d \<noteq> Panic" "fullUnpackCents db cwt z d \<noteq> Panic"
  by (auto simp: linehaulFactors_def shorthaulCharge_def serviceFeeCents_def fullPackCents_def
      fullUnpackCents_def Let_def outcome_simps no_panic)

lemma SitCharge_no_panic [no_panic]: "SitCharge db cwt days z d ppm \<noteq> Panic"
  by (auto simp: SitCharge_def Let_def outcome_simps no_panic)

lemma Zip5ToZip3_simps [outcome_simps]:
  "Zip5ToZip3 z = Ret y \<longleftrightarrow> 3 \<le> length z \<and> y = take 3 z"
  "Zip5ToZip3 z = Panic \<longleftrightarrow> length z < 3" "Zip5ToZip3 z \<noteq> Fail e"
  by (auto simp: Zip5ToZip3_def)

lemma linehaulChargeComputation_panic:
  "linehaulChargeComputation db w o5 d5 m d = Panic \<longleftrightarrow> length o5 < 3 \<or> length d5 < 3"
  by (auto simp: linehaulChargeComputation_def baseLinehaul_def Let_def outcome_simps no_panic)

lemma nonLinehaulChargeComputation_panic:
  "nonLinehaulChargeComputation db w o5 d5 d = Panic \<longleftrightarrow> length o5 < 3 \<or> length d5 < 3"
  by (auto simp: nonLinehaulChargeComputation_def Let_def outcome_simps no_panic)

lemma linehaul_not_panic_zips:
  "linehaulChargeComputation db w o5 d5 m d = Ret lh \<Longrightarrow> 3 \<le> length o5 \<and> 3 \<le> length d5"
  using linehaulChargeComputation_panic [of db w o5 d5 m d] by (auto simp: not_less)

section \<open>Charges from a bounded tariff\<close>

text \<open>
  A tariff whose rates are non-negative and below ten million cents keeps every intermediate
  amount of a shipment of at most a million pounds far below \<open>2 ^ 53\<close>: no wrap-around, and the
  doubles are exact.
\<close>

definition bounded_rate :: "int \<Rightarrow> bool" where
  "bounded_rate c \<longleftrightarrow> 0 \<le> c \<and> c \<le> 10 ^ 7"

definition bounded_tariff :: "tariff_db \<Rightarrow> bool" where
  "bounded_tariff db \<longleftrightarrow>
     (\<forall>r \<in> set (linehaul_rates db). bounded_rate (lh_RateCents r))
     \<and> (\<forall>r \<in> set (shorthaul_rates db). bounded_rate (sh_RateCents r))
     \<and> (\<forall>r \<in> set (full_pack_rates db). bounded_rate (fp_RateCents r))
     \<and> (\<forall>r \<in> set (full_unpack_rates db). bounded_rate (fu_RateMillicents r))
     \<and> (\<forall>r \<in> set (item_rates db). bounded_rate (ir_RateCents r))
     \<and> (\<forall>r \<in> set (service_areas db). bounded_rate (sa_LinehaulFactor r) \<and> bounded_rate (sa_ServiceChargeCents r)
          \<and> bounded_rate (sa_SIT185ARateCents r) \<and> bounded_rate (sa_SIT185BRateCents r))"

lemma service_area_member:
  assumes "FetchTariff400ngServiceAreaForZip3 db z d = Ret sa"
  shows "sa \<in> set (service_areas db)"
proof -
  from assms obtain zr where "first_row (filter (\<lambda>(sa, zr). z3_Zip3 zr = z \<and> sa_EffectiveDateLower sa \<le> d
      \<and> d < sa_EffectiveDateUpper sa) (service_area_rows db)) = Ret (sa, zr)"
    by (auto simp: FetchTariff400ngServiceAreaForZip3_def obind_eq_Ret map_fail_eq_Ret split: prod.splits)
  from first_row_filter_Ret [OF this] show ?thesis by (auto simp: service_area_rows_def)
qed

lemma bounded_service_area:
  assumes "bounded_tariff db" "FetchTariff400ngServiceAreaForZip3 db z d = Ret sa"
  shows "bounded_rate (sa_LinehaulFactor sa)" "bounded_rate (sa_ServiceChargeCents sa)"
    "bounded_rate (sa_SIT185ARateCents sa)" "bounded_rate (sa_SIT185BRateCents sa)"
  using service_area_member [OF assms(2)] assms(1) by (auto simp: bounded_tariff_def)

lemma bounded_rates:
  assumes "bounded_tariff db"
  shows "FetchBaseLinehaulRate db m w d = Ret c \<Longrightarrow> bounded_rate c"
    and "FetchShorthaulRateCents db n d = Ret c \<Longrightarrow> bounded_rate c"
    and "FetchTariff400ngFullPackRateCents db w sched d = Ret c \<Longrightarrow> bounded_rate c"
    and "FetchTariff400ngFullUnpackRateMillicents db sched d = Ret c \<Longrightarrow> bounded_rate c"
    and "FetchTariff400ngItemRate db code sched w d = Ret r \<Longrightarrow> bounded_rate (ir_RateCents r)"
proof -
  have single: "\<exists>x \<in> set rows. filter P rows = [x]" if "length (filter P rows) = Suc 0" for P and rows :: "'x list"
    using that by (metis Cons_eq_filterD in_set_conv_decomp length_0_conv length_Suc_conv)
  show "FetchBaseLinehaulRate db m w d = Ret c \<Longrightarrow> bounded_rate c"
    using assms single [of "linehaul_match (m, w, d)" "linehaul_rates db"]
    by (auto simp: FetchBaseLinehaulRate_def Let_def bounded_tariff_def split: if_splits)
  show "FetchShorthaulRateCents db n d = Ret c \<Longrightarrow> bounded_rate c"
    using assms single [of "shorthaul_match (n, d)" "shorthaul_rates db"]
    by (auto simp: FetchShorthaulRateCents_def Let_def bounded_tariff_def split: if_splits)
  show "FetchTariff400ngFullPackRateCents db w sched d = Ret c \<Longrightarrow> bounded_rate c"
    using assms by (auto simp: FetchTariff400ngFullPackRateCents_def obind_eq_Ret map_fail_eq_Ret bounded_tariff_def
        dest!: first_row_filter_Ret)
  show "FetchTariff400ngFullUnpackRateMillicents db sched d = Ret c \<Longrightarrow> bounded_rate c"
    using assms by (auto simp: FetchTariff400ngFullUnpackRateMillicents_def obind_eq_Ret map_fail_eq_Ret bounded_tariff_def
        dest!: first_row_filter_Ret)
  show "FetchTariff400ngItemRate db code sched w d = Ret r \<Longrightarrow> bounded_rate (ir_RateCents r)"
    using assms by (auto simp: FetchTariff400ngItemRate_def bounded_tariff_def dest!: first_row_filter_Ret)
qed

definition bounded_cwt :: "CWT \<Rightarrow> bool" where
  "bounded_cwt n \<longleftrightarrow> 0 \<le> n \<and> n \<le> 10 ^ 4"

lemma bounded_ToCWT: "0 \<le> w \<Longrightarrow> w \<le> 10 ^ 6 \<Longrightarrow> bounded_cwt (ToCWT w)"
proof -
  assume w: "0 \<le> w" "w \<le> 10 ^ 6"
  then have "ToCWT w = go_round (of_int w / 100)"
    using ToCWT_eq [of w] by simp
  moreover have "go_round (of_int 0) \<le> go_round (of_int w / 100)"
    "go_round (of_int w / 100) \<le> go_round (of_int (10 ^ 4))"
    using w by (intro go_round_mono; simp)+
  ultimately show ?thesis unfolding bounded_cwt_def go_round_of_int by simp
qed

lemma Cents_Multiply_bounded:
  assumes "bounded_rate c" "0 \<le> n" "n \<le> 10 ^ 10"
  shows "Cents_Multiply c n = n * c" "0 \<le> Cents_Multiply c n" "Cents_Multiply c n \<le> n * 10 ^ 7"
proof -
  have "0 \<le> n * c" "n * c \<le> n * 10 ^ 7" using assms by (auto simp: bounded_rate_def intro: mult_left_mono)
  moreover from this(2) assms have "n * c < 2 ^ 63" by simp
  ultimately show "Cents_Multiply c n = n * c" "0 \<le> Cents_Multiply c n" "Cents_Multiply c n \<le> n * 10 ^ 7"
    by (auto simp: Cents_Multiply_def in64_nonneg)
qed

text \<open>A charge is an amount small enough that five of them still add up exactly.\<close>

definition charge :: "int \<Rightarrow> bool" where
  "charge c \<longleftrightarrow> 0 \<le> c \<and> c \<le> 10 ^ 15"

lemma charge_exact: "charge c \<Longrightarrow> exact_amount c"
  by (simp add: charge_def exact_amount_def)

lemma charge_0 [simp]: "charge 0"
  by (simp add: charge_def)

lemma bounded_rate_charge: "bounded_rate c \<Longrightarrow> charge c"
  by (simp add: bounded_rate_def charge_def)

lemma Apply_charge:
  assumes "charge c" "0 \<le> r" "r \<le> 1"
  shows "charge (Apply r c)" "Apply r c \<le> c" "Apply 0 c = c"
  using cents.discounted_bounds [of c r] cents.discounted_ends [of c] charge_exact [OF assms(1)] assms
  by (auto simp: discount_defs charge_def)

lemma Apply_mono_charge: "charge c \<Longrightarrow> charge d \<Longrightarrow> 0 \<le> r \<Longrightarrow> r \<le> 1 \<Longrightarrow> c \<le> d \<Longrightarrow> Apply r c \<le> Apply r d"
  using cents.discounted_mono [of c d r] charge_exact by (auto simp: discount_defs)

lemma Multiply_charge: "bounded_rate c \<Longrightarrow> bounded_cwt n \<Longrightarrow> charge (Cents_Multiply c n) \<and> Cents_Multiply c n \<le> 10 ^ 11"
  using Cents_Multiply_bounded [of c n] by (auto simp: bounded_cwt_def charge_def)

lemma linehaul_charges:
  assumes db: "bounded_tariff db" and w: "0 \<le> w" "w \<le> 10 ^ 6"
    and ret: "linehaulChargeComputation db w o5 d5 m d = Ret lh"
  shows "charge (LinehaulChargeTotal lh)"
    and "LinehaulChargeTotal lh = BaseLinehaul lh + OriginLinehaulFactor lh + DestinationLinehaulFactor lh + ShorthaulCharge lh"
    and "exact_amount (BaseLinehaul lh)" "exact_amount (OriginLinehaulFactor lh)"
      "exact_amount (DestinationLinehaulFactor lh)" "exact_amount (ShorthaulCharge lh)"
proof -
  note cwt = bounded_ToCWT [OF w]
  have "0 \<le> BaseLinehaul lh" "BaseLinehaul lh \<le> 10 ^ 7" "0 \<le> ShorthaulCharge lh" "ShorthaulCharge lh \<le> 10 ^ 7"
    using ret bounded_rates (1,2) [OF db]
    by (auto simp: linehaulChargeComputation_def baseLinehaul_def shorthaulCharge_def Let_def obind_eq_Ret
        map_fail_eq_Ret bounded_rate_def split: if_splits)
  moreover have "0 \<le> OriginLinehaulFactor lh" "OriginLinehaulFactor lh \<le> 10 ^ 11"
    "0 \<le> DestinationLinehaulFactor lh" "DestinationLinehaulFactor lh \<le> 10 ^ 11"
    using ret Multiply_charge [OF bounded_service_area(1) [OF db] cwt]
    by (auto simp: linehaulChargeComputation_def linehaulFactors_def Let_def obind_eq_Ret map_fail_eq_Ret charge_def)
  moreover have "LinehaulChargeTotal lh =
      wrap64 (BaseLinehaul lh + OriginLinehaulFactor lh + DestinationLinehaulFactor lh + ShorthaulCharge lh)"
    using ret by (auto simp: linehaulChargeComputation_def Let_def obind_eq_Ret)
  ultimately show "charge (LinehaulChargeTotal lh)"
    and "LinehaulChargeTotal lh = BaseLinehaul lh + OriginLinehaulFactor lh + DestinationLinehaulFactor lh + ShorthaulCharge lh"
    and "exact_amount (BaseLinehaul lh)" "exact_amount (OriginLinehaulFactor lh)"
      "exact_amount (DestinationLinehaulFactor lh)" "exact_amount (ShorthaulCharge lh)"
    by (simp_all add: charge_def exact_amount_def in64_nonneg)
qed

lemma round_thousandth_charge:
  assumes "0 \<le> q" "q \<le> 10 ^ 11"
  shows "charge (go_trunc (of_int (go_round (fl64 (fl64 (of_int q) / 1000)))))"
proof -
  have f: "fl64 (of_int q) = of_int q" using assms by (intro fl64_of_int) simp
  have "of_int q / 1000 \<le> (of_int (10 ^ 11) :: rat)" using assms by simp
  from go_round_mono [OF fl64_mono [OF this]]
  have "go_round (fl64 (of_int q / 1000)) \<le> 10 ^ 11"
    using fl64_of_int [of "10 ^ 11"] go_round_of_int [of "10 ^ 11"] by simp
  moreover have "0 \<le> go_round (fl64 (of_int q / 1000))"
    using assms by (intro go_round_nonneg fl64_nonneg) simp
  ultimately show ?thesis by (simp add: f go_trunc_of_int charge_def in64_nonneg)
qed

lemma unpack_charge:
  assumes "bounded_cwt n" "bounded_rate r"
  shows "charge (go_trunc (of_int (go_round (fl64 (fl64 (of_int (wrap64 (n * r))) / 1000)))))"
proof -
  have p: "0 \<le> n * r" "n * r \<le> 10 ^ 11"
    using assms mult_mono [of n "10 ^ 4" r "10 ^ 7"] by (auto simp: bounded_cwt_def bounded_rate_def)
  then have "wrap64 (n * r) = n * r" by (intro wrap64_id in64_nonneg) auto
  then show ?thesis using round_thousandth_charge [OF p] by simp
qed

lemma nonLinehaul_charges:
  assumes db: "bounded_tariff db" and w: "0 \<le> w" "w \<le> 10 ^ 6"
    and ret: "nonLinehaulChargeComputation db w o5 d5 d = Ret nlh"
  shows "charge (Fee (OriginService nlh))" "charge (Fee (DestinationService nlh))"
    "charge (Fee (Pack nlh))" "charge (Fee (Unpack nlh))"
  using ret Multiply_charge [OF bounded_service_area(2) [OF db] bounded_ToCWT [OF w]]
    Multiply_charge [OF bounded_rates(3) [OF db] bounded_ToCWT [OF w]]
    unpack_charge [OF bounded_ToCWT [OF w] bounded_rates(4) [OF db]]
  by (auto simp: nonLinehaulChargeComputation_def serviceFeeCents_def fullPackCents_def fullUnpackCents_def
      Let_def obind_eq_Ret map_fail_eq_Ret)

text \<open>The daily part of storage in transit grows with the days, the rest does not depend on them.\<close>

definition ppm_sit :: "ServiceArea \<Rightarrow> CWT \<Rightarrow> int \<Rightarrow> ItemRate \<Rightarrow> ItemRate \<Rightarrow> SITComputation" where
  "ppm_sit sa cwt days a b =
     (let part = AddCents (if 1 < days then AddCents (Cents_Multiply (sa_SIT185ARateCents sa) cwt)
             (Cents_Multiply (Cents_Multiply (sa_SIT185BRateCents sa) (days - 1)) cwt)
           else Cents_Multiply (sa_SIT185ARateCents sa) cwt) (ir_RateCents a)
      in \<lparr>SITPart = part, LinehaulPart = ir_RateCents b, NonDiscountedTotal = AddCents part (ir_RateCents b)\<rparr>)"

lemma SitCharge_pos:
  assumes "0 < days"
  shows "SitCharge db cwt days z d True = obind (FetchTariff400ngServiceAreaForZip3 db z d) (\<lambda>sa.
    obind (map_fail (Wrap ''No 210A rate found'') (FetchTariff400ngItemRate db ''210A'' (sa_SITPDSchedule sa) (ToPounds cwt) d)) (\<lambda>a.
    obind (map_fail (Wrap ''No 225A rate found'') (FetchTariff400ngItemRate db ''225A'' (sa_ServicesSchedule sa) (ToPounds cwt) d)) (\<lambda>b.
    Ret (ppm_sit sa cwt days a b))))"
  using assms by (simp add: SitCharge_def sit_effective_cwt_def ppm_sit_def Let_def)

lemma sit_part_eq:
  assumes A: "bounded_rate a" and B: "bounded_rate b" and R: "bounded_rate r" and n: "bounded_cwt n"
    and days: "0 < days" "days \<le> 90"
  shows "AddCents (if 1 < days then AddCents (Cents_Multiply a n) (Cents_Multiply (Cents_Multiply b (days - 1)) n)
      else Cents_Multiply a n) r = n * a + n * ((days - 1) * b) + r"
    and "charge (n * a + n * ((days - 1) * b) + r)"
proof -
  have a: "Cents_Multiply a n = n * a" "0 \<le> n * a" "n * a \<le> 10 ^ 11"
    using Cents_Multiply_bounded [OF A, of n] n by (auto simp: bounded_cwt_def)
  have b: "Cents_Multiply b (days - 1) = (days - 1) * b" "0 \<le> (days - 1) * b" "(days - 1) * b \<le> 10 ^ 9"
    using Cents_Multiply_bounded [OF B, of "days - 1"] days by auto
  then have nb: "0 \<le> n * ((days - 1) * b)" "n * ((days - 1) * b) \<le> 10 ^ 13"
    using n mult_mono [of n "10 ^ 4" "(days - 1) * b" "10 ^ 9"] by (auto simp: bounded_cwt_def)
  then have m: "Cents_Multiply ((days - 1) * b) n = n * ((days - 1) * b)"
    by (auto simp: Cents_Multiply_def intro!: wrap64_id in64_nonneg)
  have r: "0 \<le> r" "r \<le> 10 ^ 7" using R by (auto simp: bounded_rate_def)
  show "charge (n * a + n * ((days - 1) * b) + r)"
    using a nb r by (simp add: charge_def)
  have add: "AddCents x y = x + y" if "0 \<le> x" "x \<le> 10 ^ 14" "0 \<le> y" "y \<le> 10 ^ 14" for x y
    using that by (simp add: AddCents_def in64_nonneg)
  show "AddCents (if 1 < days then AddCents (Cents_Multiply a n) (Cents_Multiply (Cents_Multiply b (days - 1)) n)
      else Cents_Multiply a n) r = n * a + n * ((days - 1) * b) + r"
  proof (cases "days = 1")
    case True
    then show ?thesis using add [of "n * a" r] a r by simp
  next
    case False
    with days have "1 < days" by simp
    moreover have "AddCents (n * a) (n * ((days - 1) * b)) = n * a + n * ((days - 1) * b)"
      using a nb by (intro add) auto
    moreover have "AddCents (n * a + n * ((days - 1) * b)) r = n * a + n * ((days - 1) * b) + r"
      using a nb r by (intro add) auto
    ultimately show ?thesis by (simp only: if_True a(1) b(1) m)
  qed
qed

lemma SitCharge_charges:
  assumes db: "bounded_tariff db" and cwt: "bounded_cwt cwt" and days: "0 \<le> days" "days \<le> 90"
    and ret: "SitCharge db cwt days z d True = Ret sc" and max: "SitCharge db cwt 90 z d True = Ret msc"
  shows "charge (SITPart sc)" "charge (LinehaulPart sc)" "charge (SITPart msc)" "charge (LinehaulPart msc)"
    "SITPart sc \<le> SITPart msc" "LinehaulPart sc \<le> LinehaulPart msc"
proof -
  from max obtain sa a b where m: "FetchTariff400ngServiceAreaForZip3 db z d = Ret sa"
      "FetchTariff400ngItemRate db ''210A'' (sa_SITPDSchedule sa) (ToPounds cwt) d = Ret a"
      "FetchTariff400ngItemRate db ''225A'' (sa_ServicesSchedule sa) (ToPounds cwt) d = Ret b"
    and msc: "msc = ppm_sit sa cwt 90 a b"
    by (auto simp: SitCharge_pos obind_eq_Ret map_fail_eq_Ret)
  note sa = bounded_service_area(3,4) [OF db m(1)] and a = bounded_rates(5) [OF db m(2)] and b = bounded_rates(5) [OF db m(3)]
  note part = sit_part_eq [OF sa a cwt]
  have parts: "SITPart (ppm_sit sa cwt k a b) = cwt * sa_SIT185ARateCents sa + cwt * ((k - 1) * sa_SIT185BRateCents sa) + ir_RateCents a"
    "LinehaulPart (ppm_sit sa cwt k a b) = ir_RateCents b" "charge (SITPart (ppm_sit sa cwt k a b))"
    if "0 < k" "k \<le> 90" for k
    using part [OF that] by (simp_all only: ppm_sit_def Let_def SITComputation.simps)
  show "charge (SITPart msc)" "charge (LinehaulPart msc)"
    using parts [of 90] b by (auto simp: msc intro: bounded_rate_charge)
  have "charge (SITPart sc) \<and> charge (LinehaulPart sc) \<and> SITPart sc \<le> SITPart msc \<and> LinehaulPart sc \<le> LinehaulPart msc"
  proof (cases "days = 0")
    case True
    with ret have "SITPart sc = 0" "LinehaulPart sc = 0" by (auto simp: SitCharge_def)
    then show ?thesis using parts [of 90] b by (simp add: msc charge_def bounded_rate_def)
  next
    case False
    with days have pos: "0 < days" by simp
    have sc: "sc = ppm_sit sa cwt days a b"
      using ret by (simp add: SitCharge_pos [OF pos] m)
    have "cwt * ((days - 1) * sa_SIT185BRateCents sa) \<le> cwt * (89 * sa_SIT185BRateCents sa)"
      using days sa(2) cwt by (intro mult_left_mono mult_right_mono) (auto simp: bounded_rate_def bounded_cwt_def)
    then show ?thesis using parts [OF pos days(2)] parts [of 90] b by (simp add: sc msc bounded_rate_charge)
  qed
  then show "charge (SITPart sc)" "charge (LinehaulPart sc)" "SITPart sc \<le> SITPart msc" "LinehaulPart sc \<le> LinehaulPart msc"
    by auto
qed

section \<open>Scaling a cost\<close>

lemmas scale_defs = CostComputation_Scale_def LinehaulCostComputation_Scale_def NonLinehaulCostComputation_Scale_def
  scale_fee_def ppm_cost_def discount_nonlinehaul_def discount_fee_def gcc_total_def Let_def

lemma ComputePPM_Ret:
  "ComputePPM db w o5 d5 m d days r s = Ret c \<longleftrightarrow>
    (\<exists>f w' lh nlh sc msc. prorate w = (f, w')
      \<and> linehaulChargeComputation db w' o5 d5 m d = Ret lh \<and> nonLinehaulChargeComputation db w' o5 d5 d = Ret nlh
      \<and> SitCharge db (ToCWT w') days (take 3 d5) d True = Ret sc \<and> SitCharge db (ToCWT w') 90 (take 3 d5) d True = Ret msc
      \<and> 3 \<le> length d5 \<and> c = CostComputation_Scale f (ppm_cost lh nlh sc msc r s w'))"
  by (auto simp: ComputePPM_def MaxSITDays_def obind_eq_Ret Zip5ToZip3_simps split: prod.splits)

text \<open>The charges of a successful run with a full weight, before and after the discounts.\<close>

lemma prorate_ge: "1000 \<le> w \<Longrightarrow> prorate w = (1, w)"
  by (simp add: prorate_def)

lemma prorate_less: "w < 1000 \<Longrightarrow> prorate w = (fl64 (Pound_Float64 w / 1000), 1000)"
  by (simp add: prorate_def)

lemma five_charges:
  assumes "charge a" "charge b" "charge c" "charge d" "charge e"
  shows "wrap64 (a + b + c + d + e) = a + b + c + d + e" "exact_amount (a + b + c + d + e)"
  using assms by (auto simp: charge_def exact_amount_def in64_nonneg)

lemma ApplyDiscount_charges:
  assumes "charge (SITPart sc)" "charge (LinehaulPart sc)" "0 \<le> r" "r \<le> 1" "0 \<le> s" "s \<le> 1"
  shows "ApplyDiscount sc r s = Apply s (SITPart sc) + Apply r (LinehaulPart sc)"
    and "0 \<le> ApplyDiscount sc r s" "exact_amount (ApplyDiscount sc r s)"
proof -
  have "charge (Apply s (SITPart sc))" "charge (Apply r (LinehaulPart sc))"
    using assms by (auto intro: Apply_charge)
  then show "ApplyDiscount sc r s = Apply s (SITPart sc) + Apply r (LinehaulPart sc)"
    and "0 \<le> ApplyDiscount sc r s" "exact_amount (ApplyDiscount sc r s)"
    by (auto simp: ApplyDiscount_def AddCents_def charge_def exact_amount_def in64_nonneg)
qed

lemma ppm_cost_scaled:
  assumes lh: "charge (LinehaulChargeTotal lh)"
    and nlh: "charge (Fee (OriginService nlh))" "charge (Fee (DestinationService nlh))"
      "charge (Fee (Pack nlh))" "charge (Fee (Unpack nlh))"
    and sit: "charge (SITPart sc)" "charge (LinehaulPart sc)" "charge (SITPart msc)" "charge (LinehaulPart msc)"
    and r: "0 \<le> r" "r \<le> 1" and s: "0 \<le> s" "s \<le> 1"
    and c: "c = CostComputation_Scale 1 (ppm_cost lh nlh sc msc r s w)"
  shows "LinehaulChargeTotal (linehaul c) = Apply r (LinehaulChargeTotal lh)"
    "Fee (OriginService (nonLinehaul c)) = Apply r (Fee (OriginService nlh))"
    "Fee (DestinationService (nonLinehaul c)) = Apply r (Fee (DestinationService nlh))"
    "Fee (Pack (nonLinehaul c)) = Apply r (Fee (Pack nlh))"
    "Fee (Unpack (nonLinehaul c)) = Apply r (Fee (Unpack nlh))"
    "GCC c = Apply r (LinehaulChargeTotal lh) + Apply r (Fee (OriginService nlh)) + Apply r (Fee (DestinationService nlh))
       + Apply r (Fee (Pack nlh)) + Apply r (Fee (Unpack nlh))"
    "SITFee c = Apply s (SITPart sc) + Apply r (LinehaulPart sc)"
    "SITMax c = Apply s (SITPart msc) + Apply r (LinehaulPart msc)"
proof -
  have ch: "charge (Apply r x)" if "charge x" for x using that r by (rule Apply_charge)
  note five = five_charges [OF ch [OF lh] ch [OF nlh(1)] ch [OF nlh(2)] ch [OF nlh(3)] ch [OF nlh(4)]]
  note one = cents.mul_one [OF charge_exact [OF ch]]
  show "LinehaulChargeTotal (linehaul c) = Apply r (LinehaulChargeTotal lh)"
    "Fee (OriginService (nonLinehaul c)) = Apply r (Fee (OriginService nlh))"
    "Fee (DestinationService (nonLinehaul c)) = Apply r (Fee (DestinationService nlh))"
    "Fee (Pack (nonLinehaul c)) = Apply r (Fee (Pack nlh))"
    "Fee (Unpack (nonLinehaul c)) = Apply r (Fee (Unpack nlh))"
    using lh nlh by (simp_all add: c scale_defs one)
  show "GCC c = Apply r (LinehaulChargeTotal lh) + Apply r (Fee (OriginService nlh)) + Apply r (Fee (DestinationService nlh))
       + Apply r (Fee (Pack nlh)) + Apply r (Fee (Unpack nlh))"
    using five by (simp add: c scale_defs cents.mul_one)
  show "SITFee c = Apply s (SITPart sc) + Apply r (LinehaulPart sc)"
    "SITMax c = Apply s (SITPart msc) + Apply r (LinehaulPart msc)"
    using ApplyDiscount_charges [OF sit(1,2) r s] ApplyDiscount_charges [OF sit(3,4) r s]
    by (simp_all add: c scale_defs cents.mul_one)
qed

lemma ppm_cost_scale_1:
  assumes db: "bounded_tariff db" and w: "0 \<le> w" "w \<le> 10 ^ 6" and days: "0 \<le> days" "days \<le> 90"
    and r: "0 \<le> r" "r \<le> 1" and s: "0 \<le> s" "s \<le> 1"
    and lh: "linehaulChargeComputation db w o5 d5 m d = Ret lh" and nlh: "nonLinehaulChargeComputation db w o5 d5 d = Ret nlh"
    and sc: "SitCharge db (ToCWT w) days z d True = Ret sc" and msc: "SitCharge db (ToCWT w) 90 z d True = Ret msc"
  shows "CostComputation_Scale 1 (ppm_cost lh nlh sc msc r s w) = ppm_cost lh nlh sc msc r s w"
proof -
  note L = linehaul_charges [OF db w lh] and N = nonLinehaul_charges [OF db w nlh]
    and S = SitCharge_charges [OF db bounded_ToCWT [OF w] days sc msc]
  have ch: "charge (Apply r x)" if "charge x" for x using that r by (rule Apply_charge)
  note five = five_charges [OF ch [OF L(1)] ch [OF N(1)] ch [OF N(2)] ch [OF N(3)] ch [OF N(4)]]
  show ?thesis
    using L N five ApplyDiscount_charges [OF S(1,2) r s] ApplyDiscount_charges [OF S(3,4) r s]
    by (simp add: scale_defs cents.mul_one charge_exact [OF ch])
qed

text \<open>A small complete tariff for the witnesses: one bracket per table.\<close>

definition sample_tariff :: tariff_db where
  "sample_tariff = \<lparr>
     linehaul_rates = [\<lparr>lh_DistanceMilesLower = 0, lh_DistanceMilesUpper = 3000, lh_Type = ''ConusLinehaul'',
       lh_WeightLbsLower = 1000, lh_WeightLbsUpper = 4000, lh_RateCents = 200000, lh_EffectiveDateLower = 0, lh_EffectiveDateUpper = 1000\<rparr>],
     shorthaul_rates = [\<lparr>sh_CwtMilesLower = 0, sh_CwtMilesUpper = 90000, sh_RateCents = 15000, sh_EffectiveDateLower = 0, sh_EffectiveDateUpper = 1000\<rparr>],
     full_pack_rates = [\<lparr>fp_Schedule = 1, fp_WeightLbsLower = 0, fp_WeightLbsUpper = 16000, fp_RateCents = 5000, fp_EffectiveDateLower = 0, fp_EffectiveDateUpper = 1000\<rparr>],
     full_unpack_rates = [\<lparr>fu_Schedule = 1, fu_RateMillicents = 542900, fu_EffectiveDateLower = 0, fu_EffectiveDateUpper = 1000\<rparr>],
     item_rates = [
       \<lparr>ir_Code = ''210A'', ir_Schedule = Some 1, ir_WeightLbsLower = 0, ir_WeightLbsUpper = 16000, ir_RateCents = 57600, ir_EffectiveDateLower = 0, ir_EffectiveDateUpper = 1000\<rparr>,
       \<lparr>ir_Code = ''225A'', ir_Schedule = Some 1, ir_WeightLbsLower = 0, ir_WeightLbsUpper = 16000, ir_RateCents = 9900, ir_EffectiveDateLower = 0, ir_EffectiveDateUpper = 1000\<rparr>],
     service_areas = [\<lparr>sa_ServiceArea = ''56'', sa_ServicesSchedule = 1, sa_LinehaulFactor = 263, sa_ServiceChargeCents = 489,
       sa_EffectiveDateLower = 0, sa_EffectiveDateUpper = 1000, sa_SIT185ARateCents = 1447, sa_SIT185BRateCents = 51, sa_SITPDSchedule = 1\<rparr>],
     zip3s = [\<lparr>z3_Zip3 = ''902'', z3_ServiceArea = ''56'', z3_RateArea = ''US88'', z3_Region = ''1''\<rparr>,
              \<lparr>z3_Zip3 = ''303'', z3_ServiceArea = ''56'', z3_RateArea = ''US45'', z3_Region = ''13''\<rparr>],
     zip5_rate_areas = [],
     fuel_prices = []\<rparr>"

lemma sample_bounded: "bounded_tariff sample_tariff"
  by (simp add: bounded_tariff_def sample_tariff_def bounded_rate_def)

lemmas charge_defs = linehaulChargeComputation_def baseLinehaul_def linehaulFactors_def shorthaulCharge_def
  nonLinehaulChargeComputation_def serviceFeeCents_def fullPackCents_def fullUnpackCents_def

lemmas fetch_defs = FetchBaseLinehaulRate_def linehaul_match_def FetchShorthaulRateCents_def shorthaul_match_def
  FetchTariff400ngFullPackRateCents_def full_pack_match_def FetchTariff400ngFullUnpackRateMillicents_def
  full_unpack_match_def FetchTariff400ngItemRate_def item_rate_match_def
  FetchTariff400ngServiceAreaForZip3_def service_area_rows_def Zip5ToZip3_def

lemma sample_ToCWT: "ToCWT 2000 = 20" "ToCWT 1000 = 10" "ToPounds 20 = 2000" "ToPounds 10 = 1000"
  "wrap64 10000 = 10000" "wrap64 5000 = 5000"
  using ToCWT_eq [of 2000] ToCWT_eq [of 1000] go_round_of_int [of 20] go_round_of_int [of 10]
  by (simp_all add: ToPounds_def in64_def)

lemma sample_ppm: "\<exists>c. ComputePPM sample_tariff 2000 ''90210'' ''30301'' 500 5 10 (1 / 2) (1 / 4) = Ret c"
  by (simp add: ComputePPM_def prorate_ge charge_defs fetch_defs sample_tariff_def sample_ToCWT Let_def
      SitCharge_pos MaxSITDays_def)

lemma sample_light_ppm: "\<exists>c. ComputePPM sample_tariff 500 ''90210'' ''30301'' 500 5 10 (1 / 2) (1 / 4) = Ret c"
  by (simp add: ComputePPM_def prorate_less charge_defs fetch_defs sample_tariff_def sample_ToCWT Let_def
      SitCharge_pos MaxSITDays_def)

lemma ComputePPM_total:
  assumes db: "bounded_tariff db" and w: "1000 \<le> w" "w \<le> 10 ^ 6" and days: "0 \<le> days" "days \<le> 90"
    and r: "0 \<le> r" "r \<le> 1" and s: "0 \<le> s" "s \<le> 1"
    and ret: "ComputePPM db w o5 d5 m d days r s = Ret c"
  shows "GCC c = LinehaulChargeTotal (linehaul c) + Fee (OriginService (nonLinehaul c)) + Fee (DestinationService (nonLinehaul c))
      + Fee (Pack (nonLinehaul c)) + Fee (Unpack (nonLinehaul c))"
proof -
  from ret w obtain lh nlh sc msc where
    lh: "linehaulChargeComputation db w o5 d5 m d = Ret lh" and nlh: "nonLinehaulChargeComputation db w o5 d5 d = Ret nlh"
    and sc: "SitCharge db (ToCWT w) days (take 3 d5) d True = Ret sc" and msc: "SitCharge db (ToCWT w) 90 (take 3 d5) d True = Ret msc"
    and c: "c = CostComputation_Scale 1 (ppm_cost lh nlh sc msc r s w)"
    by (auto simp: ComputePPM_Ret prorate_ge)
  have w0: "0 \<le> w" using w by simp
  note C = ppm_cost_scaled [OF linehaul_charges(1) [OF db w0 w(2) lh] nonLinehaul_charges [OF db w0 w(2) nlh]
      SitCharge_charges(1-4) [OF db bounded_ToCWT [OF w0 w(2)] days sc msc] r s c]
  show ?thesis unfolding C(1-6) by simp
qed

lemma ComputePPM_full_weight:
  assumes db: "bounded_tariff db" and w: "1000 \<le> w" "w \<le> 10 ^ 6" and days: "0 \<le> days" "days \<le> 90"
    and r: "0 \<le> r" "r \<le> 1" and s: "0 \<le> s" "s \<le> 1"
    and ret: "ComputePPM db w o5 d5 m d days r s = Ret c"
  shows "\<exists>c0. ComputePPM db w o5 d5 m d days 0 0 = Ret c0
    \<and> GCC c = LinehaulChargeTotal (linehaul c) + Fee (OriginService (nonLinehaul c)) + Fee (DestinationService (nonLinehaul c))
        + Fee (Pack (nonLinehaul c)) + Fee (Unpack (nonLinehaul c))
    \<and> 0 \<le> GCC c \<and> GCC c \<le> GCC c0 \<and> 0 \<le> SITFee c \<and> SITFee c \<le> SITMax c \<and> SITMax c \<le> SITMax c0"
proof -
  from ret w obtain lh nlh sc msc where
    lh: "linehaulChargeComputation db w o5 d5 m d = Ret lh" and nlh: "nonLinehaulChargeComputation db w o5 d5 d = Ret nlh"
    and sc: "SitCharge db (ToCWT w) days (take 3 d5) d True = Ret sc" and msc: "SitCharge db (ToCWT w) 90 (take 3 d5) d True = Ret msc"
    and d5: "3 \<le> length d5" and c: "c = CostComputation_Scale 1 (ppm_cost lh nlh sc msc r s w)"
    by (auto simp: ComputePPM_Ret prorate_ge)
  define c0 where "c0 = CostComputation_Scale 1 (ppm_cost lh nlh sc msc 0 0 w)"
  have "ComputePPM db w o5 d5 m d days 0 0 = Ret c0"
    using w lh nlh sc msc d5 by (auto simp: ComputePPM_Ret prorate_ge c0_def)
  moreover
  have w0: "0 \<le> w" using w by simp
  note L = linehaul_charges(1) [OF db w0 w(2) lh] and N = nonLinehaul_charges [OF db w0 w(2) nlh]
    and S = SitCharge_charges [OF db bounded_ToCWT [OF w0 w(2)] days sc msc]
  note C = ppm_cost_scaled [OF L N S(1-4) r s c]
    and C0 = ppm_cost_scaled [OF L N S(1-4) _ _ _ _ c0_def, simplified]
  have app: "0 \<le> Apply r x \<and> Apply r x \<le> x \<and> Apply 0 x = x" if "charge x" for x
    using Apply_charge [OF that r] by (simp add: charge_def)
  have apps: "0 \<le> Apply s x \<and> Apply s x \<le> x \<and> Apply 0 x = x" if "charge x" for x
    using Apply_charge [OF that s] by (simp add: charge_def)
  have "0 \<le> GCC c" "GCC c \<le> GCC c0"
    using app [OF L] app [OF N(1)] app [OF N(2)] app [OF N(3)] app [OF N(4)] unfolding C(6) C0(6) by linarith+
  moreover have "Apply s (SITPart sc) \<le> Apply s (SITPart msc)" "Apply r (LinehaulPart sc) \<le> Apply r (LinehaulPart msc)"
    using S r s by (auto intro: Apply_mono_charge)
  then have "0 \<le> SITFee c" "SITFee c \<le> SITMax c" "SITMax c \<le> SITMax c0"
    using apps [OF S(1)] app [OF S(2)] apps [OF S(3)] app [OF S(4)] unfolding C(7,8) C0(8) by linarith+
  ultimately show ?thesis unfolding C(1-6) by blast
qed

text \<open>With a bounded tariff, a PPM below 1000 pounds costs what one of 1000 pounds does, scaled by
  the weight over 1000 (and fails or panics exactly when that one does).\<close>

theorem ComputePPM_prorated:
  assumes db: "bounded_tariff db" and w: "w < 1000" and days: "0 \<le> days" "days \<le> 90"
    and r: "0 \<le> r" "r \<le> 1" and s: "0 \<le> s" "s \<le> 1"
  shows "ComputePPM db w o5 d5 m d days r s =
    obind (ComputePPM db 1000 o5 d5 m d days r s) (\<lambda>c. Ret (CostComputation_Scale (fl64 (Pound_Float64 w / 1000)) c))"
  unfolding ComputePPM_def prorate_less [OF w] prorate_ge [of 1000, simplified] prod.case obind_assoc obind.simps MaxSITDays_def
  by (intro obind_cong refl) (simp add: ppm_cost_scale_1 [OF db _ _ days r s])

text \<open>The factor of a weight below 1000 pounds, and a charge that is scaled by it: half a cent of rounding and the error
  of one multiplication.\<close>

lemma prorate_factor:
  assumes "0 \<le> w" "w < 1000"
  shows "0 \<le> fl64 (Pound_Float64 w / 1000)" "fl64 (Pound_Float64 w / 1000) \<le> 1"
    "fl64 (Pound_Float64 w / 1000) = 0 \<or> 1 / 2000 \<le> fl64 (Pound_Float64 w / 1000)"
proof -
  have p: "Pound_Float64 w = of_int w" using assms by (simp add: Pound_Float64_def fl64_of_int)
  show "0 \<le> fl64 (Pound_Float64 w / 1000)" using assms by (simp add: p fl64_nonneg)
  show "fl64 (Pound_Float64 w / 1000) \<le> 1" using fl64_mono [of "of_int w / 1000" 1] assms by (simp add: p)
  show "fl64 (Pound_Float64 w / 1000) = 0 \<or> 1 / 2000 \<le> fl64 (Pound_Float64 w / 1000)"
  proof (cases "w = 0")
    case False
    then have w: "(1 :: rat) \<le> of_int w" using assms by simp
    then have "of_int w / 1000 = (0 :: rat) \<or> 1 / 10000 \<le> \<bar>of_int w / 1000 :: rat\<bar>" by simp
    from fl64_abs_err [OF this] have "\<bar>fl64 (of_int w / 1000) - of_int w / 1000\<bar> \<le> (of_int w / 1000) / 2 ^ 53" using w by simp
    moreover have "(of_int w / 1000 :: rat) / 2 ^ 53 \<le> of_int w / 1000 / 2" using w by simp
    moreover have "(1 / 1000 :: rat) \<le> of_int w / 1000" using w by simp
    ultimately have "1 / 2000 \<le> fl64 (of_int w / 1000 :: rat)" by linarith
    then show ?thesis by (simp only: p simp_thms)
  qed (simp add: Pound_Float64_def)
qed

lemma prorated_near:
  assumes w: "0 \<le> w" "w < 1000" and x: "0 \<le> x" "x \<le> b" "b \<le> 2 ^ 53"
  shows "\<bar>of_int (Cents_MultiplyFloat64 x (fl64 (Pound_Float64 w / 1000))) - of_int x * fl64 (Pound_Float64 w / 1000)\<bar>
    \<le> 1 / 2 + of_int b / 2 ^ 53"
proof -
  define f where "f = fl64 (Pound_Float64 w / 1000)"
  note f = prorate_factor [OF w, folded f_def]
  have e: "exact_amount x" using x by (simp add: exact_amount_def)
  have small: "of_int x * f = 0 \<or> 1 / 10000 \<le> \<bar>of_int x * f\<bar>"
  proof (cases "x = 0 \<or> f = 0")
    case False
    then have "1 * (1 / 2000) \<le> of_int x * f" using x f by (intro mult_mono) auto
    then show ?thesis by simp
  qed auto
  have "of_int x * f \<le> of_int b * 1" using x f by (intro mult_mono) auto
  moreover have "0 \<le> of_int x * f" using x f by simp
  ultimately have "\<bar>fl64 (of_int x * f) - of_int x * f\<bar> \<le> of_int b / 2 ^ 53" using fl64_abs_err [OF small] by simp
  moreover have "\<bar>of_int (Cents_MultiplyFloat64 x f) - fl64 (of_int x * f)\<bar> \<le> 1 / 2" by (rule cents.mul_near [OF e f(1,2)])
  ultimately show ?thesis unfolding f_def [symmetric] by linarith
qed

text \<open>The parts of a PPM of 1000 pounds are charges.\<close>

lemma ComputePPM_parts:
  assumes db: "bounded_tariff db" and days: "0 \<le> days" "days \<le> 90"
    and r: "0 \<le> r" "r \<le> 1" and s: "0 \<le> s" "s \<le> 1" and ret: "ComputePPM db 1000 o5 d5 m d days r s = Ret c"
  shows "charge (LinehaulChargeTotal (linehaul c))" "charge (Fee (OriginService (nonLinehaul c)))"
    "charge (Fee (DestinationService (nonLinehaul c)))" "charge (Fee (Pack (nonLinehaul c)))" "charge (Fee (Unpack (nonLinehaul c)))"
    "SITMax c \<le> 2 * 10 ^ 15"
proof -
  from ret obtain lh nlh sc msc where
    lh: "linehaulChargeComputation db 1000 o5 d5 m d = Ret lh" and nlh: "nonLinehaulChargeComputation db 1000 o5 d5 d = Ret nlh"
    and sc: "SitCharge db (ToCWT 1000) days (take 3 d5) d True = Ret sc" and msc: "SitCharge db (ToCWT 1000) 90 (take 3 d5) d True = Ret msc"
    and c: "c = CostComputation_Scale 1 (ppm_cost lh nlh sc msc r s 1000)"
    by (auto simp: ComputePPM_Ret prorate_ge)
  have w: "(0 :: int) \<le> 1000" "(1000 :: int) \<le> 10 ^ 6" by simp_all
  note L = linehaul_charges(1) [OF db w lh] and N = nonLinehaul_charges [OF db w nlh]
    and S = SitCharge_charges [OF db bounded_ToCWT [OF w] days sc msc]
  note C = ppm_cost_scaled [OF L N S(1-4) r s c]
  show "charge (LinehaulChargeTotal (linehaul c))" "charge (Fee (OriginService (nonLinehaul c)))"
    "charge (Fee (DestinationService (nonLinehaul c)))" "charge (Fee (Pack (nonLinehaul c)))" "charge (Fee (Unpack (nonLinehaul c)))"
    unfolding C(1-5) using L N r by (auto intro: Apply_charge)
  show "SITMax c \<le> 2 * 10 ^ 15" unfolding C(8) using Apply_charge(1) [OF S(3) s] Apply_charge(1) [OF S(4) r] by (simp add: charge_def)
qed

lemma ComputePPM_light:
  assumes db: "bounded_tariff db" and w: "0 \<le> w" "w < 1000" and days: "0 \<le> days" "days \<le> 90"
    and r: "0 \<le> r" "r \<le> 1" and s: "0 \<le> s" "s \<le> 1"
    and ret: "ComputePPM db w o5 d5 m d days r s = Ret c"
  shows "\<exists>c0. ComputePPM db w o5 d5 m d days 0 0 = Ret c0
    \<and> \<bar>GCC c - (LinehaulChargeTotal (linehaul c) + Fee (OriginService (nonLinehaul c)) + Fee (DestinationService (nonLinehaul c))
        + Fee (Pack (nonLinehaul c)) + Fee (Unpack (nonLinehaul c)))\<bar> \<le> 4
    \<and> 0 \<le> GCC c \<and> GCC c \<le> GCC c0 \<and> 0 \<le> SITFee c \<and> SITFee c \<le> SITMax c \<and> SITMax c \<le> SITMax c0"
proof -
  define f where "f = fl64 (Pound_Float64 w / 1000)"
  note f = prorate_factor(1,2) [OF w, folded f_def]
  obtain t where t: "ComputePPM db 1000 o5 d5 m d days r s = Ret t" "c = CostComputation_Scale f t"
    using ret unfolding ComputePPM_prorated [OF db w(2) days r s] f_def by (auto simp: obind_eq_Ret)
  have w1: "(1000 :: int) \<le> 1000" "(1000 :: int) \<le> 10 ^ 6" by simp_all
  obtain t0 where t0: "ComputePPM db 1000 o5 d5 m d days 0 0 = Ret t0"
    and total: "GCC t = LinehaulChargeTotal (linehaul t) + Fee (OriginService (nonLinehaul t)) + Fee (DestinationService (nonLinehaul t))
        + Fee (Pack (nonLinehaul t)) + Fee (Unpack (nonLinehaul t))"
    and b: "0 \<le> GCC t" "GCC t \<le> GCC t0" "0 \<le> SITFee t" "SITFee t \<le> SITMax t" "SITMax t \<le> SITMax t0"
    using ComputePPM_full_weight [OF db w1 days r s t(1)] by blast
  have z: "(0 :: rat) \<le> 0" "(0 :: rat) \<le> 1" by simp_all
  have c0: "ComputePPM db w o5 d5 m d days 0 0 = Ret (CostComputation_Scale f t0)"
    unfolding ComputePPM_prorated [OF db w(2) days z z] f_def by (simp add: t0)
  note P = ComputePPM_parts [OF db days r s t(1), unfolded charge_def] and P0 = ComputePPM_parts [OF db days z z t0, unfolded charge_def]
  obtain t1 where "GCC t0 = LinehaulChargeTotal (linehaul t0) + Fee (OriginService (nonLinehaul t0)) + Fee (DestinationService (nonLinehaul t0))
        + Fee (Pack (nonLinehaul t0)) + Fee (Unpack (nonLinehaul t0))" "t1 = t0"
    using ComputePPM_full_weight [OF db w1 days z z t0] by blast
  then have top: "GCC t0 \<le> 5 * 10 ^ 15" using P0 by simp
  have ex: "exact_amount (GCC t)" "exact_amount (GCC t0)" "exact_amount (SITFee t)" "exact_amount (SITMax t)" "exact_amount (SITMax t0)"
    using b top P0(6) by (simp_all add: exact_amount_def)
  have bounds: "0 \<le> Cents_MultiplyFloat64 (GCC t) f" "Cents_MultiplyFloat64 (GCC t) f \<le> Cents_MultiplyFloat64 (GCC t0) f"
    "0 \<le> Cents_MultiplyFloat64 (SITFee t) f" "Cents_MultiplyFloat64 (SITFee t) f \<le> Cents_MultiplyFloat64 (SITMax t) f"
    "Cents_MultiplyFloat64 (SITMax t) f \<le> Cents_MultiplyFloat64 (SITMax t0) f"
    using b f ex cents.scaled_bounds [of "GCC t" f] cents.scaled_bounds [of "SITFee t" f] cents.mul_mono by auto
  let ?M = "\<lambda>x. of_int (Cents_MultiplyFloat64 x f) :: rat"
  have near: "\<bar>?M x - of_int x * f\<bar> \<le> 1 / 2 + 1 / 9" if "0 \<le> x" "x \<le> 10 ^ 15" for x
    using prorated_near [OF w that, folded f_def] by simp
  have near_total: "\<bar>?M (GCC t) - of_int (GCC t) * f\<bar> \<le> 1 / 2 + 5 / 9"
    using prorated_near [OF w b(1), of "5 * 10 ^ 15", folded f_def] b(2) top by simp
  let ?a = "LinehaulChargeTotal (linehaul t)" and ?b = "Fee (OriginService (nonLinehaul t))" and ?c = "Fee (DestinationService (nonLinehaul t))"
    and ?d = "Fee (Pack (nonLinehaul t))" and ?e = "Fee (Unpack (nonLinehaul t))"
  have "of_int (GCC t) * f = of_int ?a * f + of_int ?b * f + of_int ?c * f + of_int ?d * f + of_int ?e * f"
    by (simp add: total ring_distribs)
  then have "\<bar>?M (GCC t) - (?M ?a + ?M ?b + ?M ?c + ?M ?d + ?M ?e)\<bar> < 5"
    using near_total near [of ?a] near [of ?b] near [of ?c] near [of ?d] near [of ?e] P(1-5) by linarith
  then have "\<bar>of_int (Cents_MultiplyFloat64 (GCC t) f - (Cents_MultiplyFloat64 ?a f + Cents_MultiplyFloat64 ?b f + Cents_MultiplyFloat64 ?c f
      + Cents_MultiplyFloat64 ?d f + Cents_MultiplyFloat64 ?e f)) :: rat\<bar> < of_int 5" by simp
  then have sum: "\<bar>Cents_MultiplyFloat64 (GCC t) f - (Cents_MultiplyFloat64 ?a f + Cents_MultiplyFloat64 ?b f + Cents_MultiplyFloat64 ?c f
      + Cents_MultiplyFloat64 ?d f + Cents_MultiplyFloat64 ?e f)\<bar> \<le> 4"
    unfolding of_int_abs [symmetric] of_int_less_iff by simp
  show ?thesis using c0 bounds sum by (simp add: t(2) scale_defs scale_fee_def)
qed

section \<open>Properties\<close>

text \<open>C2: with a bounded tariff, discounts between 0 and 1, 0 to 90 days in storage and a weight of up to a million
  pounds, the cost of a PPM is never negative and never above the undiscounted cost, and the storage fee never exceeds
  the reported maximum storage fee.  From 1000 pounds on the cost is the exact sum of its discounted parts; below, where
  the cost of 1000 pounds is prorated and every part is rounded on its own, it is at most four cents off that sum.\<close>

theorem ComputePPM_bounds:
  assumes db: "bounded_tariff db" and w: "0 \<le> w" "w \<le> 10 ^ 6" and days: "0 \<le> days" "days \<le> 90"
    and r: "0 \<le> r" "r \<le> 1" and s: "0 \<le> s" "s \<le> 1"
    and ret: "ComputePPM db w o5 d5 m d days r s = Ret c"
  shows "\<exists>c0. ComputePPM db w o5 d5 m d days 0 0 = Ret c0
    \<and> \<bar>GCC c - (LinehaulChargeTotal (linehaul c) + Fee (OriginService (nonLinehaul c)) + Fee (DestinationService (nonLinehaul c))
        + Fee (Pack (nonLinehaul c)) + Fee (Unpack (nonLinehaul c)))\<bar> \<le> (if 1000 \<le> w then 0 else 4)
    \<and> 0 \<le> GCC c \<and> GCC c \<le> GCC c0 \<and> 0 \<le> SITFee c \<and> SITFee c \<le> SITMax c \<and> SITMax c \<le> SITMax c0"
proof (cases "1000 \<le> w")
  case True
  then show ?thesis using ComputePPM_full_weight [OF db True w(2) days r s ret] by auto
next
  case False
  then show ?thesis using ComputePPM_light [OF db w(1) _ days r s ret] by simp
qed

theorem ComputePPM_bounds_witness:
  "(\<exists>c c0. ComputePPM sample_tariff 2000 ''90210'' ''30301'' 500 5 10 (1 / 2) (1 / 4) = Ret c
    \<and> ComputePPM sample_tariff 2000 ''90210'' ''30301'' 500 5 10 0 0 = Ret c0
    \<and> 0 \<le> GCC c \<and> GCC c \<le> GCC c0 \<and> SITFee c \<le> SITMax c)
   \<and> (\<exists>c c0. ComputePPM sample_tariff 500 ''90210'' ''30301'' 500 5 10 (1 / 2) (1 / 4) = Ret c
    \<and> ComputePPM sample_tariff 500 ''90210'' ''30301'' 500 5 10 0 0 = Ret c0
    \<and> 0 \<le> GCC c \<and> GCC c \<le> GCC c0 \<and> SITFee c \<le> SITMax c)"
proof -
  obtain c where c: "ComputePPM sample_tariff 2000 ''90210'' ''30301'' 500 5 10 (1 / 2) (1 / 4) = Ret c"
    using sample_ppm by blast
  obtain t where t: "ComputePPM sample_tariff 500 ''90210'' ''30301'' 500 5 10 (1 / 2) (1 / 4) = Ret t"
    using sample_light_ppm by blast
  from ComputePPM_bounds [OF sample_bounded _ _ _ _ _ _ _ _ c] ComputePPM_bounds [OF sample_bounded _ _ _ _ _ _ _ _ t]
  show ?thesis using c t by force
qed

text \<open>The prorated cost at a sample.\<close>

theorem ComputePPM_prorated_witness:
  "ComputePPM sample_tariff 500 ''90210'' ''30301'' 500 5 10 (1 / 2) (1 / 4) =
    obind (ComputePPM sample_tariff 1000 ''90210'' ''30301'' 500 5 10 (1 / 2) (1 / 4))
      (\<lambda>c. Ret (CostComputation_Scale (fl64 (Pound_Float64 500 / 1000)) c))"
  by (rule ComputePPM_prorated [OF sample_bounded]) simp_all

text \<open>Pricing a PPM panics exactly when one of the zip codes has fewer than three characters; every
  missing tariff row is an error, never a panic.\<close>

theorem ComputePPM_panic:
  "ComputePPM db w o5 d5 m d days r s = Panic \<longleftrightarrow> length o5 < 3 \<or> length d5 < 3"
proof -
  have "3 \<le> length d5" if "linehaulChargeComputation db w' o5 d5 m d = Ret lh" for w' lh
    using linehaul_not_panic_zips [OF that] by simp
  then show ?thesis
    by (force simp: ComputePPM_def obind_eq_Panic linehaulChargeComputation_panic nonLinehaulChargeComputation_panic
        Zip5ToZip3_simps no_panic split: prod.splits)
qed

text \<open>The fuel surcharge panics exactly when no diesel price covers the booking day (the code logs
  the empty result and then reads its first row).\<close>

theorem fuelSurchargeComputation_panic:
  "fuelSurchargeComputation db linehaulCost bookDate = Panic \<longleftrightarrow>
    \<not> (\<exists>p \<in> set (fuel_prices db). fe_RateStartDate p \<le> date_of bookDate \<and> date_of bookDate \<le> fe_RateEndDate p)"
  by (auto simp: fuelSurchargeComputation_def Let_def filter_empty_conv split: list.splits dest!: filter_eq_ConsD)

end
