(* ===== verification/Records.thy ===== *)
theory Records
  imports Money Errors
begin

text \<open>
  The records of \<open>pkg/models\<close> that several components share: addresses, traffic distribution lists,
  providers and their performance, 400NG items, line items, distances.  A pointer field is an
  option.  The \<open>CreatedAt\<close> and \<open>UpdatedAt\<close> columns, which only the database layer writes, are left
  out (save those the recalculation of a shipment reads), and so are back references that no modelled code follows (a line item's shipment is passed
  next to the line item).
\<close>

section \<open>Addresses and distances\<close>

record Address =
  ad_ID :: uuid
  ad_StreetAddress1 :: string
  ad_StreetAddress2 :: "string option"
  ad_StreetAddress3 :: "string option"
  ad_City :: string
  ad_State :: string
  ad_PostalCode :: string
  ad_Country :: "string option"

definition zero_address :: Address where
  "zero_address = \<lparr>ad_ID = uuid_Nil, ad_StreetAddress1 = '''', ad_StreetAddress2 = None,
     ad_StreetAddress3 = None, ad_City = '''', ad_State = '''', ad_PostalCode = '''', ad_Country = None\<rparr>"

definition GetAddressID :: "Address option \<Rightarrow> uuid option" where
  "GetAddressID address = map_option ad_ID address"

definition nonempty_part :: "string option \<Rightarrow> string list" where
  "nonempty_part p = (case p of None \<Rightarrow> [] | Some s \<Rightarrow> if 0 < length s then [s] else [])"

definition Address_Format :: "Address \<Rightarrow> string" where
  "Address_Format a = strings_Join ''\<newline>''
     ([ad_StreetAddress1 a] @ nonempty_part (ad_StreetAddress2 a) @ nonempty_part (ad_StreetAddress3 a)
      @ [ad_City a @ '', '' @ ad_State a @ '' '' @ ad_PostalCode a])"

definition Address_LineFormat :: "Address \<Rightarrow> string" where
  "Address_LineFormat a = strings_Join '', ''
     (concat (map nonempty_part [Some (ad_StreetAddress1 a), ad_StreetAddress2 a, ad_StreetAddress3 a,
        Some (ad_City a), Some (ad_State a), Some (ad_PostalCode a), ad_Country a]))"

record DistanceCalculation =
  dc_ID :: uuid
  dc_OriginAddressID :: uuid
  dc_OriginAddress :: Address
  dc_DestinationAddressID :: uuid
  dc_DestinationAddress :: Address
  dc_DistanceMiles :: int

text \<open>The route planner is a web service: its two operations are parameters.\<close>

record distanceCalculator =
  Zip5TransitDistance :: "string \<Rightarrow> string \<Rightarrow> int result"
  TransitDistance :: "Address \<Rightarrow> Address \<Rightarrow> int result"

definition NewDistanceCalculation ::
    "distanceCalculator \<Rightarrow> Address \<Rightarrow> Address \<Rightarrow> bool \<Rightarrow> DistanceCalculation result" where
  "NewDistanceCalculation planner origin destination useZipOnly =
     obind (if useZipOnly then Zip5TransitDistance planner (ad_PostalCode origin) (ad_PostalCode destination)
            else TransitDistance planner origin destination) (\<lambda>distanceMiles.
     Ret \<lparr>dc_ID = uuid_Nil, dc_OriginAddressID = ad_ID origin, dc_OriginAddress = origin,
       dc_DestinationAddressID = ad_ID destination, dc_DestinationAddress = destination,
       dc_DistanceMiles = distanceMiles\<rparr>)"

section \<open>Providers\<close>

record TrafficDistributionList =
  tdl_ID :: uuid
  tdl_SourceRateArea :: string
  tdl_DestinationRegion :: string
  tdl_CodeOfService :: string

record TransportationServiceProvider =
  tsp_ID :: uuid
  tsp_StandardCarrierAlphaCode :: string
  tsp_Enrolled :: bool
  tsp_Name :: "string option"
  tsp_SupplierID :: "string option"

record TSPPerformance =
  tspp_ID :: uuid
  tspp_PerformancePeriodStart :: gotime
  tspp_PerformancePeriodEnd :: gotime
  tspp_RateCycleStart :: gotime
  tspp_RateCycleEnd :: gotime
  tspp_TrafficDistributionListID :: uuid
  tspp_TransportationServiceProviderID :: uuid
  tspp_TransportationServiceProvider :: TransportationServiceProvider
  tspp_QualityBand :: "int option"
  tspp_BestValueScore :: rat
  tspp_LinehaulRate :: DiscountRate
  tspp_SITRate :: DiscountRate
  tspp_OfferCount :: int

record ShipmentOffer =
  of_ID :: uuid
  of_ShipmentID :: uuid
  of_TransportationServiceProviderID :: uuid
  of_TransportationServiceProvider :: TransportationServiceProvider
  of_TransportationServiceProviderPerformanceID :: uuid
  of_TransportationServiceProviderPerformance :: TSPPerformance
  of_AdministrativeShipment :: bool
  of_Accepted :: "bool option"
  of_RejectionReason :: "string option"

section \<open>400NG items and line items\<close>

datatype ItemAllowedLocation =
    ItemAllowedLocationORIGIN | ItemAllowedLocationDESTINATION | ItemAllowedLocationNEITHER
  | ItemAllowedLocationEITHER

datatype ItemDiscountType =
    ItemDiscountTypeHHG | ItemDiscountTypeHHGLINEHAUL50 | ItemDiscountTypeSIT | ItemDiscountTypeNONE

datatype ItemRateRefCode =
    ItemRateRefCodeDATEDELIVERED | ItemRateRefCodeFUELSURCHARGE | ItemRateRefCodeMILES
  | ItemRateRefCodePACKPERCENTAGE | ItemRateRefCodePOINTSCHEDULE | ItemRateRefCodeTARIFFSECTION
  | ItemRateRefCodeNONE

text \<open>A unit is any string; these are the named ones.\<close>

type_synonym ItemMeasurementUnit = string

abbreviation ItemMeasurementUnitWEIGHT :: ItemMeasurementUnit where
  "ItemMeasurementUnitWEIGHT \<equiv> ''BW''"

abbreviation ItemMeasurementUnitCUBICFOOT :: ItemMeasurementUnit where
  "ItemMeasurementUnitCUBICFOOT \<equiv> ''CF''"

abbreviation ItemMeasurementUnitEACH :: ItemMeasurementUnit where
  "ItemMeasurementUnitEACH \<equiv> ''EA''"

abbreviation ItemMeasurementUnitFLATRATE :: ItemMeasurementUnit where
  "ItemMeasurementUnitFLATRATE \<equiv> ''FR''"

abbreviation ItemMeasurementUnitFUELPERCENTAGE :: ItemMeasurementUnit where
  "ItemMeasurementUnitFUELPERCENTAGE \<equiv> ''FP''"

abbreviation ItemMeasurementUnitCONTAINER :: ItemMeasurementUnit where
  "ItemMeasurementUnitCONTAINER \<equiv> ''NR''"

abbreviation ItemMeasurementUnitMONETARYVALUE :: ItemMeasurementUnit where
  "ItemMeasurementUnitMONETARYVALUE \<equiv> ''MV''"

abbreviation ItemMeasurementUnitDAYS :: ItemMeasurementUnit where
  "ItemMeasurementUnitDAYS \<equiv> ''TD''"

abbreviation ItemMeasurementUnitHOURS :: ItemMeasurementUnit where
  "ItemMeasurementUnitHOURS \<equiv> ''TH''"

abbreviation ItemMeasurementUnitNONE :: ItemMeasurementUnit where
  "ItemMeasurementUnitNONE \<equiv> ''NONE''"

record Tariff400ngItem =
  it_ID :: uuid
  it_Code :: string
  it_Item :: string
  it_DiscountType :: ItemDiscountType
  it_AllowedLocation :: ItemAllowedLocation
  it_MeasurementUnit1 :: ItemMeasurementUnit
  it_MeasurementUnit2 :: ItemMeasurementUnit
  it_RateRefCode :: ItemRateRefCode
  it_RequiresPreApproval :: bool

definition FetchTariff400ngItems :: "Tariff400ngItem list \<Rightarrow> bool \<Rightarrow> Tariff400ngItem list" where
  "FetchTariff400ngItems items onlyRequiresPreApproval =
     (if onlyRequiresPreApproval then filter it_RequiresPreApproval items else items)"

definition FetchTariff400ngItem :: "Tariff400ngItem list \<Rightarrow> uuid \<Rightarrow> Tariff400ngItem result" where
  "FetchTariff400ngItem items i = first_row (filter (\<lambda>it. it_ID it = i) items)"

definition FetchTariff400ngItemByCode :: "Tariff400ngItem list \<Rightarrow> string \<Rightarrow> Tariff400ngItem result" where
  "FetchTariff400ngItemByCode items code = first_row (filter (\<lambda>it. it_Code it = code) items)"

datatype ShipmentLineItemStatus =
    LineItemStatusSUBMITTED | LineItemStatusAPPROVED | LineItemStatusCONDITIONALLYAPPROVED

text \<open>A line item location is a string: a conversion from an item's allowed location may also give
  \<open>EITHER\<close>, which validation refuses.\<close>

type_synonym ShipmentLineItemLocation = ItemAllowedLocation

record ShipmentLineItemDimensions =
  dim_ID :: uuid
  dim_Length :: int
  dim_Width :: int
  dim_Height :: int

record ShipmentLineItem =
  li_ID :: uuid
  li_ShipmentID :: uuid
  li_Tariff400ngItemID :: uuid
  li_Tariff400ngItem :: Tariff400ngItem
  li_Location :: ShipmentLineItemLocation
  li_Quantity1 :: BaseQuantity
  li_Quantity2 :: BaseQuantity
  li_Notes :: string
  li_Status :: ShipmentLineItemStatus
  li_InvoiceID :: "uuid option"
  li_EstimateAmountCents :: "Cents option"
  li_ActualAmountCents :: "Cents option"
  li_AmountCents :: "Cents option"
  li_AppliedRate :: "Millicents option"
  li_SubmittedDate :: gotime
  li_ApprovedDate :: gotime
  li_ItemDimensionsID :: "uuid option"
  li_ItemDimensions :: ShipmentLineItemDimensions
  li_CrateDimensionsID :: "uuid option"
  li_CrateDimensions :: ShipmentLineItemDimensions
  li_Description :: "string option"
  li_Reason :: "string option"
  li_Date :: "gotime option"
  li_Time :: "string option"
  li_AddressID :: "uuid option"
  li_Address :: Address
  li_UpdatedAt :: gotime

section \<open>Branches of service\<close>

datatype ServiceMemberAffiliation = AffiliationARMY | AffiliationNAVY | AffiliationMARINES | AffiliationAIRFORCE
  | AffiliationCOASTGUARD

primrec affiliation_string :: "ServiceMemberAffiliation \<Rightarrow> string" where
  "affiliation_string AffiliationARMY = ''ARMY''"
| "affiliation_string AffiliationNAVY = ''NAVY''"
| "affiliation_string AffiliationMARINES = ''MARINES''"
| "affiliation_string AffiliationAIRFORCE = ''AIR_FORCE''"
| "affiliation_string AffiliationCOASTGUARD = ''COAST_GUARD''"

section \<open>Zero values and sample rows\<close>

definition zero_tsp :: TransportationServiceProvider where
  "zero_tsp = \<lparr>tsp_ID = uuid_Nil, tsp_StandardCarrierAlphaCode = '''', tsp_Enrolled = False, tsp_Name = None, tsp_SupplierID = None\<rparr>"

definition zero_tspp :: TSPPerformance where
  "zero_tspp = \<lparr>tspp_ID = uuid_Nil, tspp_PerformancePeriodStart = zero_time, tspp_PerformancePeriodEnd = zero_time,
     tspp_RateCycleStart = zero_time, tspp_RateCycleEnd = zero_time, tspp_TrafficDistributionListID = uuid_Nil,
     tspp_TransportationServiceProviderID = uuid_Nil, tspp_TransportationServiceProvider = zero_tsp, tspp_QualityBand = None,
     tspp_BestValueScore = 0, tspp_LinehaulRate = 0, tspp_SITRate = 0, tspp_OfferCount = 0\<rparr>"

definition zero_dims :: ShipmentLineItemDimensions where
  "zero_dims = \<lparr>dim_ID = uuid_Nil, dim_Length = 0, dim_Width = 0, dim_Height = 0\<rparr>"

text \<open>\<open>ShipmentLineItem{}\<close>.  The status of a zero line item is the empty string, which no status of the
  model is; it is set before anything reads it.\<close>

definition zero_item :: Tariff400ngItem where
  "zero_item = \<lparr>it_ID = uuid_Nil, it_Code = '''', it_Item = '''', it_DiscountType = ItemDiscountTypeNONE,
     it_AllowedLocation = ItemAllowedLocationNEITHER, it_MeasurementUnit1 = '''',
     it_MeasurementUnit2 = '''', it_RateRefCode = ItemRateRefCodeNONE,
     it_RequiresPreApproval = False\<rparr>"

definition zero_line_item :: ShipmentLineItem where
  "zero_line_item = \<lparr>li_ID = uuid_Nil, li_ShipmentID = uuid_Nil, li_Tariff400ngItemID = uuid_Nil,
     li_Tariff400ngItem = zero_item, li_Location = ItemAllowedLocationNEITHER, li_Quantity1 = 0, li_Quantity2 = 0,
     li_Notes = '''', li_Status = LineItemStatusSUBMITTED, li_InvoiceID = None, li_EstimateAmountCents = None,
     li_ActualAmountCents = None, li_AmountCents = None, li_AppliedRate = None, li_SubmittedDate = zero_time,
     li_ApprovedDate = zero_time, li_ItemDimensionsID = None, li_ItemDimensions = zero_dims,
     li_CrateDimensionsID = None, li_CrateDimensions = zero_dims, li_Description = None, li_Reason = None,
     li_Date = None, li_Time = None, li_AddressID = None, li_Address = zero_address, li_UpdatedAt = zero_time\<rparr>"

definition sample_address :: "uuid \<Rightarrow> string \<Rightarrow> Address" where
  "sample_address i z = zero_address\<lparr>ad_ID := i, ad_PostalCode := z\<rparr>"

definition sample_tsp :: TransportationServiceProvider where
  "sample_tsp = \<lparr>tsp_ID = 21, tsp_StandardCarrierAlphaCode = ''ABBV'', tsp_Enrolled = True, tsp_Name = None, tsp_SupplierID = Some ''AAA01''\<rparr>"

definition sample_offer :: ShipmentOffer where
  "sample_offer = \<lparr>of_ID = 20, of_ShipmentID = 7, of_TransportationServiceProviderID = 21,
     of_TransportationServiceProvider = sample_tsp, of_TransportationServiceProviderPerformanceID = 22,
     of_TransportationServiceProviderPerformance = \<lparr>tspp_ID = 22, tspp_PerformancePeriodStart = 0,
       tspp_PerformancePeriodEnd = 10, tspp_RateCycleStart = 0, tspp_RateCycleEnd = 10, tspp_TrafficDistributionListID = 23,
       tspp_TransportationServiceProviderID = 21, tspp_TransportationServiceProvider = sample_tsp, tspp_QualityBand = None,
       tspp_BestValueScore = 0, tspp_LinehaulRate = 1 / 2, tspp_SITRate = 1 / 4, tspp_OfferCount = 0\<rparr>,
     of_AdministrativeShipment = False, of_Accepted = Some True, of_RejectionReason = None\<rparr>"

lemma FetchTariff400ngItemByCode_Ret:
  "FetchTariff400ngItemByCode items c = Ret it \<Longrightarrow> it \<in> set items \<and> it_Code it = c"
  unfolding FetchTariff400ngItemByCode_def by (rule first_row_filter_Ret)

end
