(* ===== verification/Machines.thy ===== *)
theory Machines
  imports Errors
begin

text \<open>
  Methods with a pointer receiver.  A call returns the receiver as the method leaves it and the
  error it returns, so that a method that mutates before it fails is visible as such.  The locale
  \<open>status_machine\<close> states what the program's state machines promise: an accepted call follows an edge
  of the status graph, a refused call changes nothing and says \<open>ErrInvalidTransition\<close>.  Its lemmas
  carry this to any sequence of attempted calls.
\<close>

type_synonym 's call = "'s \<times> goerr option"

text \<open>\<open>return errors.Wrap(ErrInvalidTransition, m)\<close>\<close>

definition refuse :: "'s \<Rightarrow> string \<Rightarrow> 's call" where
  "refuse s m = (s, errors_Wrap (Some ErrInvalidTransition) m)"

definition accept :: "'s \<Rightarrow> 's call" where
  "accept s = (s, None)"

lemma refuse_simps [simp]: "fst (refuse s m) = s" "snd (refuse s m) = Some (Wrap m ErrInvalidTransition)"
  by (simp_all add: refuse_def errors_Wrap_def)

lemma accept_simps [simp]: "fst (accept s) = s" "snd (accept s) = None"
  by (simp_all add: accept_def)

lemma refuse_eq [simp]: "refuse s m = (s', e) \<longleftrightarrow> s' = s \<and> e = Some (Wrap m ErrInvalidTransition)"
  by (auto simp: refuse_def errors_Wrap_def)

lemma accept_eq [simp]: "accept s = (s', e) \<longleftrightarrow> s' = s \<and> e = None"
  by (auto simp: accept_def)

text \<open>A loop that calls a method on each element and returns at the first error.\<close>

fun run_each :: "('s \<Rightarrow> 's call) \<Rightarrow> 's list \<Rightarrow> 's list call" where
  "run_each f [] = ([], None)"
| "run_each f (x # xs) = (case f x of
      (x', Some e) \<Rightarrow> (x' # xs, Some e)
    | (x', None) \<Rightarrow> (case run_each f xs of (xs', e) \<Rightarrow> (x' # xs', e)))"

lemma run_each_ok: "snd (run_each f xs) = None \<longleftrightarrow> (\<forall>x \<in> set xs. snd (f x) = None)"
  by (induction xs) (auto split: prod.splits option.splits)

lemma run_each_map: "snd (run_each f xs) = None \<Longrightarrow> fst (run_each f xs) = map (fst \<circ> f) xs"
  by (induction xs) (auto split: prod.splits option.splits)

lemma run_each_all: "(\<And>x. x \<in> set xs \<Longrightarrow> f x = (g x, None)) \<Longrightarrow> run_each f xs = (map g xs, None)"
  by (induction xs) auto

lemma run_each_fails:
  assumes "snd (run_each f xs) = Some e"
  obtains ys x zs where "xs = ys @ x # zs" "snd (f x) = Some e" "\<forall>y \<in> set ys. snd (f y) = None"
    "fst (run_each f xs) = map (fst \<circ> f) ys @ fst (f x) # zs"
  using assms
proof (induction xs arbitrary: thesis)
  case (Cons y ys)
  obtain y' r where y: "f y = (y', r)" by fastforce
  show ?case
  proof (cases r)
    case None
    have e: "snd (run_each f ys) = Some e" using Cons.prems(2) y None by (auto split: prod.splits)
    show ?thesis
    proof (rule Cons.IH [OF _ e])
      fix as x bs
      assume "ys = as @ x # bs" "snd (f x) = Some e" "\<forall>y \<in> set as. snd (f y) = None"
        "fst (run_each f ys) = map (fst \<circ> f) as @ fst (f x) # bs"
      then show thesis
        using Cons.prems(1) [of "y # as" x bs] y None by (auto simp: case_prod_beta comp_def)
    qed
  next
    case (Some d)
    then show ?thesis using Cons.prems(1) [of "[]" y ys] Cons.prems(2) y by auto
  qed
qed simp

text \<open>What a sequence of attempted calls reaches, whether each succeeds or not.\<close>

inductive reaches :: "('ev \<Rightarrow> 's \<Rightarrow> 's call) \<Rightarrow> 's \<Rightarrow> 's \<Rightarrow> bool" for step where
  reaches_refl: "reaches step s s"
| reaches_call: "reaches step s t \<Longrightarrow> step ev t = (u, e) \<Longrightarrow> reaches step s u"

inductive_cases reachesE: "reaches step s t"

lemma reaches_trans: "reaches step s t \<Longrightarrow> reaches step t u \<Longrightarrow> reaches step s u"
  by (rotate_tac, induction rule: reaches.induct) (auto intro: reaches.intros)

locale status_machine =
  fixes step :: "'ev \<Rightarrow> 's \<Rightarrow> 's call" and status :: "'s \<Rightarrow> 'st" and edge :: "'st \<Rightarrow> 'st \<Rightarrow> bool"
  assumes follows: "step ev s = (t, None) \<Longrightarrow> edge (status s) (status t)"
    and refuses: "step ev s = (t, Some e) \<Longrightarrow> t = s \<and> Cause e = ErrInvalidTransition"
begin

lemma reaches_status: "reaches step s t \<Longrightarrow> edge\<^sup>*\<^sup>* (status s) (status t)"
proof (induction rule: reaches.induct)
  case (reaches_call s t ev u e)
  then show ?case
    by (cases e) (auto dest: refuses follows intro: rtranclp.rtrancl_into_rtrancl)
qed simp

lemma stuck:
  assumes "reaches step s t" "\<And>x. \<not> edge (status s) x"
  shows "t = s"
  using assms
proof (induction rule: reaches.induct)
  case (reaches_call s t ev u e)
  then show ?case by (cases e) (auto dest: refuses follows)
qed simp

end

text \<open>A machine whose statuses are ranked: no accepted call goes back.\<close>

locale ranked_machine = status_machine +
  fixes rank :: "'c \<Rightarrow> nat"
  assumes climbs: "edge a b \<Longrightarrow> a = b \<or> rank a < rank b"
begin

lemma reaches_rank: "reaches step s t \<Longrightarrow> status t = status s \<or> rank (status s) < rank (status t)"
proof (induction rule: reaches.induct)
  case (reaches_call s t ev u e)
  then show ?case
    by (cases e) (auto dest!: refuses follows climbs)
qed simp

lemma never_back:
  assumes "reaches step s t" "reaches step t u" "status t \<noteq> status s"
  shows "status u \<noteq> status s"
  using reaches_rank [OF assms(1)] reaches_rank [OF assms(2)] assms(3) by auto

end

end
