(* ===== verification/Lifecycle.thy ===== *)
theory Lifecycle
  imports Records Machines
begin

text \<open>
  The state machines of \<open>pkg/models\<close>: reimbursements, personally procured moves (PPMs), orders,
  shipment offers, storage in transit, shipments, line items and moves.  Each method is a function
  from the receiver to the receiver it leaves and the error it returns; \<open>now\<close> stands for the
  \<open>time.Now()\<close> of a call.  A move's methods cascade to its PPMs, shipments, advances and orders.
\<close>

section \<open>Reimbursements\<close>

datatype MethodOfReceipt = MethodOfReceiptMILPAY | MethodOfReceiptOTHERDD | MethodOfReceiptGTCC

datatype ReimbursementStatus =
    ReimbursementStatusDRAFT | ReimbursementStatusREQUESTED | ReimbursementStatusAPPROVED
  | ReimbursementStatusREJECTED | ReimbursementStatusPAID

record Reimbursement =
  rb_ID :: uuid
  rb_RequestedAmount :: Cents
  rb_MethodOfReceipt :: MethodOfReceipt
  rb_Status :: ReimbursementStatus
  rb_RequestedDate :: "gotime option"

definition Reimbursement_Request :: "gotime \<Rightarrow> Reimbursement \<Rightarrow> Reimbursement call" where
  "Reimbursement_Request now r =
     (if rb_Status r \<noteq> ReimbursementStatusDRAFT then refuse r ''Request''
      else accept (r\<lparr>rb_Status := ReimbursementStatusREQUESTED, rb_RequestedDate := Some now\<rparr>))"

definition Reimbursement_Approve :: "Reimbursement \<Rightarrow> Reimbursement call" where
  "Reimbursement_Approve r =
     (if rb_Status r \<noteq> ReimbursementStatusREQUESTED then refuse r ''Approve''
      else accept (r\<lparr>rb_Status := ReimbursementStatusAPPROVED\<rparr>))"

definition Reimbursement_Reject :: "Reimbursement \<Rightarrow> Reimbursement call" where
  "Reimbursement_Reject r =
     (if rb_Status r \<noteq> ReimbursementStatusREQUESTED then refuse r ''Reject''
      else accept (r\<lparr>rb_Status := ReimbursementStatusREJECTED\<rparr>))"

definition Reimbursement_Pay :: "Reimbursement \<Rightarrow> Reimbursement call" where
  "Reimbursement_Pay r =
     (if rb_Status r \<noteq> ReimbursementStatusAPPROVED then refuse r ''Pay''
      else accept (r\<lparr>rb_Status := ReimbursementStatusPAID\<rparr>))"

definition BuildDraftReimbursement :: "Cents \<Rightarrow> MethodOfReceipt \<Rightarrow> Reimbursement" where
  "BuildDraftReimbursement requestedAmount methodOfReceipt =
     \<lparr>rb_ID = uuid_Nil, rb_RequestedAmount = requestedAmount, rb_MethodOfReceipt = methodOfReceipt,
      rb_Status = ReimbursementStatusDRAFT, rb_RequestedDate = None\<rparr>"

definition BuildRequestedReimbursement :: "gotime \<Rightarrow> Cents \<Rightarrow> MethodOfReceipt \<Rightarrow> Reimbursement" where
  "BuildRequestedReimbursement now requestedAmount methodOfReceipt =
     \<lparr>rb_ID = uuid_Nil, rb_RequestedAmount = requestedAmount, rb_MethodOfReceipt = methodOfReceipt,
      rb_Status = ReimbursementStatusREQUESTED, rb_RequestedDate = Some now\<rparr>"

datatype reimbursement_op = RbRequest gotime | RbApprove | RbReject | RbPay

primrec reimbursement_step :: "reimbursement_op \<Rightarrow> Reimbursement \<Rightarrow> Reimbursement call" where
  "reimbursement_step (RbRequest now) r = Reimbursement_Request now r"
| "reimbursement_step RbApprove r = Reimbursement_Approve r"
| "reimbursement_step RbReject r = Reimbursement_Reject r"
| "reimbursement_step RbPay r = Reimbursement_Pay r"

section \<open>Personally procured moves\<close>

datatype PPMStatus =
    PPMStatusDRAFT | PPMStatusSUBMITTED | PPMStatusAPPROVED | PPMStatusPAYMENTREQUESTED
  | PPMStatusCOMPLETED | PPMStatusCANCELED

record PersonallyProcuredMove =
  pp_ID :: uuid
  pp_Status :: PPMStatus
  pp_SubmitDate :: "gotime option"
  pp_ApproveDate :: "gotime option"
  pp_HasRequestedAdvance :: bool
  pp_AdvanceID :: "uuid option"
  pp_Advance :: "Reimbursement option"
  pp_MoveID :: uuid
  pp_OriginalMoveDate :: "gotime option"
  pp_NetWeight :: "Pound option"
  pp_Size :: "string option"
  pp_WeightEstimate :: "Pound option"
  pp_ActualMoveDate :: "gotime option"
  pp_PickupPostalCode :: "string option"
  pp_HasAdditionalPostalCode :: "bool option"
  pp_AdditionalPickupPostalCode :: "string option"
  pp_DestinationPostalCode :: "string option"
  pp_HasSit :: "bool option"
  pp_DaysInStorage :: "int option"
  pp_EstimatedStorageReimbursement :: "string option"
  pp_Mileage :: "int option"
  pp_PlannedSITMax :: "Cents option"
  pp_SITMax :: "Cents option"
  pp_IncentiveEstimateMin :: "Cents option"
  pp_IncentiveEstimateMax :: "Cents option"
  pp_TotalSITCost :: "Cents option"

definition PPM_Submit :: "gotime \<Rightarrow> PersonallyProcuredMove \<Rightarrow> PersonallyProcuredMove call" where
  "PPM_Submit submitDate p =
     (if pp_Status p \<noteq> PPMStatusDRAFT then refuse p ''Submit - status change''
      else if pp_SubmitDate p \<noteq> None then refuse p ''Submit - submit date change''
      else accept (p\<lparr>pp_Status := PPMStatusSUBMITTED, pp_SubmitDate := Some submitDate\<rparr>))"

definition PPM_Approve :: "gotime \<Rightarrow> PersonallyProcuredMove \<Rightarrow> PersonallyProcuredMove call" where
  "PPM_Approve approveDate p =
     (if \<not> (pp_Status p = PPMStatusSUBMITTED \<or> pp_Status p = PPMStatusDRAFT) then refuse p ''Approve - status change''
      else if pp_ApproveDate p \<noteq> None then refuse p ''Approve - approve date change''
      else accept (p\<lparr>pp_Status := PPMStatusAPPROVED, pp_ApproveDate := Some approveDate\<rparr>))"

definition PPM_RequestPayment :: "PersonallyProcuredMove \<Rightarrow> PersonallyProcuredMove call" where
  "PPM_RequestPayment p =
     (if pp_Status p \<noteq> PPMStatusPAYMENTREQUESTED \<and> pp_Status p \<noteq> PPMStatusAPPROVED then refuse p ''RequestPayment''
      else accept (p\<lparr>pp_Status := PPMStatusPAYMENTREQUESTED\<rparr>))"

definition PPM_Complete :: "PersonallyProcuredMove \<Rightarrow> PersonallyProcuredMove call" where
  "PPM_Complete p =
     (if pp_Status p \<noteq> PPMStatusPAYMENTREQUESTED then refuse p ''Complete''
      else accept (p\<lparr>pp_Status := PPMStatusCOMPLETED\<rparr>))"

definition PPM_Cancel :: "PersonallyProcuredMove \<Rightarrow> PersonallyProcuredMove call" where
  "PPM_Cancel p =
     (if pp_Status p = PPMStatusCOMPLETED \<or> pp_Status p = PPMStatusCANCELED then refuse p ''Cancel''
      else accept (p\<lparr>pp_Status := PPMStatusCANCELED\<rparr>))"

datatype ppm_op = PpSubmit gotime | PpApprove gotime | PpRequestPayment | PpComplete | PpCancel

primrec ppm_step :: "ppm_op \<Rightarrow> PersonallyProcuredMove \<Rightarrow> PersonallyProcuredMove call" where
  "ppm_step (PpSubmit d) p = PPM_Submit d p"
| "ppm_step (PpApprove d) p = PPM_Approve d p"
| "ppm_step PpRequestPayment p = PPM_RequestPayment p"
| "ppm_step PpComplete p = PPM_Complete p"
| "ppm_step PpCancel p = PPM_Cancel p"

section \<open>Orders\<close>

datatype OrderStatus = OrderStatusDRAFT | OrderStatusSUBMITTED | OrderStatusAPPROVED | OrderStatusCANCELED

record Order =
  or_ID :: uuid
  or_ServiceMemberID :: uuid
  or_HasDependents :: bool
  or_SpouseHasProGear :: bool
  or_NewDutyStationID :: uuid
  or_NewDutyStationAddress :: Address
  or_OrdersTypeDetail :: "string option"
  or_OrdersNumber :: "string option"
  or_Status :: OrderStatus
  or_TAC :: "string option"
  or_SAC :: "string option"
  or_DepartmentIndicator :: "string option"
  or_OrdersType :: string
  or_IssueDate :: gotime

definition Order_Submit :: "Order \<Rightarrow> Order call" where
  "Order_Submit ord =
     (if or_Status ord \<noteq> OrderStatusDRAFT then refuse ord ''Submit''
      else accept (ord\<lparr>or_Status := OrderStatusSUBMITTED\<rparr>))"

definition Order_Cancel :: "Order \<Rightarrow> Order call" where
  "Order_Cancel ord =
     (if or_Status ord = OrderStatusCANCELED then refuse ord ''Cancel''
      else accept (ord\<lparr>or_Status := OrderStatusCANCELED\<rparr>))"

definition IsComplete :: "Order \<Rightarrow> bool" where
  "IsComplete ord = (if or_OrdersTypeDetail ord = None then False
     else if or_OrdersNumber ord = None then False
     else if or_DepartmentIndicator ord = None then False
     else if or_TAC ord = None then False
     else if or_SAC ord = None then False else True)"

definition IsCompleteForGBL :: "Order \<Rightarrow> bool" where
  "IsCompleteForGBL ord = (if or_DepartmentIndicator ord = None then False
     else if or_TAC ord = None then False
     else if or_SAC ord = None then False else True)"

datatype order_op = OrSubmit | OrCancel

primrec order_step :: "order_op \<Rightarrow> Order \<Rightarrow> Order call" where
  "order_step OrSubmit ord = Order_Submit ord"
| "order_step OrCancel ord = Order_Cancel ord"

section \<open>Shipment offers\<close>

definition ShipmentOffer_Accept :: "ShipmentOffer \<Rightarrow> ShipmentOffer call" where
  "ShipmentOffer_Accept so =
     (if of_Accepted so \<noteq> None then refuse so ''Accept''
      else accept (so\<lparr>of_Accepted := Some True\<rparr>))"

definition ShipmentOffer_Reject :: "string \<Rightarrow> ShipmentOffer \<Rightarrow> ShipmentOffer call" where
  "ShipmentOffer_Reject rejectionReason so =
     (if of_Accepted so \<noteq> None then refuse so ''Reject''
      else accept (so\<lparr>of_Accepted := Some False, of_RejectionReason := Some rejectionReason\<rparr>))"

text \<open>The accepted offers of a list; the provider of the first accepted offer that lacks an ID, a
  SCAC or a supplier ID is an error.\<close>

definition offer_tsp :: "ShipmentOffer \<Rightarrow> TransportationServiceProvider" where
  "offer_tsp offer = tspp_TransportationServiceProvider (of_TransportationServiceProviderPerformance offer)"

fun Accepted :: "ShipmentOffer list \<Rightarrow> ShipmentOffer list result" where
  "Accepted [] = Ret []"
| "Accepted (offer # offers) =
     (if of_Accepted offer = Some True then
        (if tsp_ID (offer_tsp offer) = uuid_Nil then
           Fail (ErrMsg ''Accepted shipment offer is missing Transportation Service Provider'')
         else if tsp_StandardCarrierAlphaCode (offer_tsp offer) = '''' then
           Fail (ErrMsg ''Accepted shipment offer TSP is missing SCAC for TSP ID: %s'')
         else if tsp_SupplierID (offer_tsp offer) \<in> {None, Some ''''} then
           Fail (ErrMsg ''Accepted shipment offer TSP is missing SupplierID for TSP ID: %s'')
         else obind (Accepted offers) (\<lambda>acceptedOffers. Ret (offer # acceptedOffers)))
      else Accepted offers)"

definition SCAC :: "ShipmentOffer \<Rightarrow> string result" where
  "SCAC so = (let scac = tsp_StandardCarrierAlphaCode (offer_tsp so)
     in if scac = '''' then Fail (ErrMsg ''SCAC for TSP is missing with TSP ID: '') else Ret scac)"

definition SupplierID :: "ShipmentOffer \<Rightarrow> string result" where
  "SupplierID so = (case tsp_SupplierID (offer_tsp so) of
      None \<Rightarrow> Fail (ErrMsg ''SupplierID for TSP is missing with TSP ID '')
    | Some supplierID \<Rightarrow> Ret supplierID)"

definition FetchShipmentOfferByTSP :: "ShipmentOffer list \<Rightarrow> uuid \<Rightarrow> uuid \<Rightarrow> ShipmentOffer result" where
  "FetchShipmentOfferByTSP offers tspID shipmentID =
     (case filter (\<lambda>so. of_TransportationServiceProviderID so = tspID \<and> of_ShipmentID so = shipmentID) offers of
        [so] \<Rightarrow> Ret so | _ \<Rightarrow> Fail ErrFetchNotFound)"

section \<open>Storage in transit\<close>

datatype StorageInTransitStatus =
    SITStatusREQUESTED | SITStatusAPPROVED | SITStatusDENIED | SITStatusINSIT | SITStatusRELEASED
  | SITStatusDELIVERED

datatype StorageInTransitLocation = SITLocationORIGIN | SITLocationDESTINATION

record StorageInTransit =
  si_ID :: uuid
  si_ShipmentID :: uuid
  si_SITNumber :: "string option"
  si_Status :: StorageInTransitStatus
  si_Location :: StorageInTransitLocation
  si_EstimatedStartDate :: gotime
  si_AuthorizedStartDate :: "gotime option"
  si_ActualStartDate :: "gotime option"
  si_OutDate :: "gotime option"
  si_Notes :: "string option"
  si_AuthorizationNotes :: "string option"
  si_WarehouseID :: string
  si_WarehouseName :: string
  si_WarehouseAddressID :: uuid
  si_WarehousePhone :: "string option"
  si_WarehouseEmail :: "string option"
  si_StorageInTransitDistanceID :: "uuid option"
  si_StorageInTransitDistance :: "DistanceCalculation option"
  si_WarehouseAddress :: Address

definition StorageInTransit_Deliver :: "gotime \<Rightarrow> StorageInTransit \<Rightarrow> StorageInTransit call" where
  "StorageInTransit_Deliver deliveryDate s =
     (if \<not> (si_Status s = SITStatusINSIT \<and> si_Location s = SITLocationDESTINATION) then (s, Some ErrWriteConflict)
      else accept (s\<lparr>si_Status := SITStatusDELIVERED, si_OutDate := Some deliveryDate\<rparr>))"

section \<open>Line items\<close>

definition line_item_now :: "gotime \<Rightarrow> ShipmentLineItem \<Rightarrow> ShipmentLineItem" where
  "line_item_now now s = (if li_ApprovedDate s = zero_time then s\<lparr>li_ApprovedDate := now\<rparr> else s)"

definition ShipmentLineItem_Approve :: "gotime \<Rightarrow> ShipmentLineItem \<Rightarrow> ShipmentLineItem call" where
  "ShipmentLineItem_Approve now s =
     (if \<not> (li_Status s = LineItemStatusSUBMITTED
           \<or> it_Code (li_Tariff400ngItem s) = ''35A'' \<and> li_Status s = LineItemStatusCONDITIONALLYAPPROVED)
      then refuse s ''func Approve(): Current ShipmentLineItem status is []''
      else accept (line_item_now now (s\<lparr>li_Status := LineItemStatusAPPROVED\<rparr>)))"

definition ShipmentLineItem_ConditionallyApprove :: "gotime \<Rightarrow> ShipmentLineItem \<Rightarrow> ShipmentLineItem call" where
  "ShipmentLineItem_ConditionallyApprove now s =
     (if \<not> (li_Status s = LineItemStatusSUBMITTED
           \<or> it_Code (li_Tariff400ngItem s) = ''35A'' \<and> li_Status s = LineItemStatusAPPROVED)
      then refuse s ''func ConditionallyApprove(): Current ShipmentLineItem status is []''
      else accept (line_item_now now (s\<lparr>li_Status := LineItemStatusCONDITIONALLYAPPROVED\<rparr>)))"

datatype line_item_op = LiApprove gotime | LiConditionallyApprove gotime

primrec line_item_step :: "line_item_op \<Rightarrow> ShipmentLineItem \<Rightarrow> ShipmentLineItem call" where
  "line_item_step (LiApprove now) s = ShipmentLineItem_Approve now s"
| "line_item_step (LiConditionallyApprove now) s = ShipmentLineItem_ConditionallyApprove now s"

section \<open>Shipments\<close>

datatype ShipmentStatus =
    ShipmentStatusDRAFT | ShipmentStatusSUBMITTED | ShipmentStatusAWARDED | ShipmentStatusACCEPTED
  | ShipmentStatusAPPROVED | ShipmentStatusINTRANSIT | ShipmentStatusDELIVERED

record Shipment =
  shp_ID :: uuid
  shp_Status :: ShipmentStatus
  shp_SourceGBLOC :: "string option"
  shp_DestinationGBLOC :: "string option"
  shp_GBLNumber :: "string option"
  shp_Market :: "string option"
  shp_TrafficDistributionListID :: "uuid option"
  shp_TrafficDistributionList :: "TrafficDistributionList option"
  shp_ServiceMemberID :: uuid
  shp_MoveID :: uuid
  shp_NewDutyStationAddress :: Address
  shp_ShipmentOffers :: "ShipmentOffer list"
  shp_ShipmentLineItems :: "ShipmentLineItem list"
  shp_StorageInTransits :: "StorageInTransit list"
  shp_ActualPickupDate :: "gotime option"
  shp_ActualPackDate :: "gotime option"
  shp_ActualDeliveryDate :: "gotime option"
  shp_BookDate :: "gotime option"
  shp_RequestedPickupDate :: "gotime option"
  shp_OriginalDeliveryDate :: "gotime option"
  shp_OriginalPackDate :: "gotime option"
  shp_ApproveDate :: "gotime option"
  shp_SubmitDate :: "gotime option"
  shp_EstimatedPackDays :: "int option"
  shp_EstimatedTransitDays :: "int option"
  shp_PickupAddressID :: "uuid option"
  shp_PickupAddress :: "Address option"
  shp_HasDeliveryAddress :: bool
  shp_DeliveryAddress :: "Address option"
  shp_DestinationAddressOnAcceptance :: "Address option"
  shp_NetWeight :: "Pound option"
  shp_ShippingDistanceID :: "uuid option"
  shp_ShippingDistance :: "DistanceCalculation option"
  shp_CreatedAt :: gotime
  shp_HasSecondaryPickupAddress :: bool
  shp_SecondaryPickupAddressID :: "uuid option"
  shp_SecondaryPickupAddress :: "Address option"
  shp_DeliveryAddressID :: "uuid option"
  shp_HasPartialSITDeliveryAddress :: bool
  shp_PartialSITDeliveryAddressID :: "uuid option"
  shp_PartialSITDeliveryAddress :: "Address option"
  shp_DestinationAddressOnAcceptanceID :: "uuid option"
  shp_WeightEstimate :: "Pound option"
  shp_ProgearWeightEstimate :: "Pound option"
  shp_SpouseProgearWeightEstimate :: "Pound option"
  shp_GrossWeight :: "Pound option"
  shp_TareWeight :: "Pound option"
  shp_PmSurveyConductedDate :: "gotime option"
  shp_PmSurveyCompletedAt :: "gotime option"
  shp_PmSurveyPlannedPackDate :: "gotime option"
  shp_PmSurveyPlannedPickupDate :: "gotime option"
  shp_PmSurveyPlannedDeliveryDate :: "gotime option"
  shp_PmSurveyWeightEstimate :: "Pound option"
  shp_PmSurveyProgearWeightEstimate :: "Pound option"
  shp_PmSurveySpouseProgearWeightEstimate :: "Pound option"
  shp_PmSurveyNotes :: "string option"
  shp_PmSurveyMethod :: string

definition CurrentTransportationServiceProviderID :: "Shipment \<Rightarrow> uuid" where
  "CurrentTransportationServiceProviderID s =
     (if 0 < length (shp_ShipmentOffers s)
      then of_TransportationServiceProviderID (shp_ShipmentOffers s ! (length (shp_ShipmentOffers s) - 1))
      else uuid_Nil)"

definition Shipment_Submit :: "gotime \<Rightarrow> gotime \<Rightarrow> Shipment \<Rightarrow> Shipment call" where
  "Shipment_Submit now hhgSubmitDate s =
     (if shp_Status s \<noteq> ShipmentStatusDRAFT then refuse s ''Submit''
      else accept (s\<lparr>shp_BookDate := Some now, shp_SubmitDate := Some hhgSubmitDate,
        shp_Status := ShipmentStatusSUBMITTED\<rparr>))"

definition Shipment_Award :: "Shipment \<Rightarrow> Shipment call" where
  "Shipment_Award s =
     (if shp_Status s \<noteq> ShipmentStatusSUBMITTED then refuse s ''Award''
      else accept (s\<lparr>shp_Status := ShipmentStatusAWARDED\<rparr>))"

definition Shipment_Accept :: "Shipment \<Rightarrow> Shipment call" where
  "Shipment_Accept s =
     (if shp_Status s \<noteq> ShipmentStatusAWARDED then refuse s ''Accept''
      else accept (s\<lparr>shp_Status := ShipmentStatusACCEPTED\<rparr>))"

definition Shipment_Reject :: "Shipment \<Rightarrow> Shipment call" where
  "Shipment_Reject s =
     (if shp_Status s \<noteq> ShipmentStatusAWARDED then refuse s ''Reject''
      else accept (s\<lparr>shp_Status := ShipmentStatusSUBMITTED\<rparr>))"

definition Shipment_Approve :: "gotime \<Rightarrow> Shipment \<Rightarrow> Shipment call" where
  "Shipment_Approve approveDate s =
     (if shp_Status s \<noteq> ShipmentStatusACCEPTED then refuse s ''Approve - status change''
      else if shp_ApproveDate s \<noteq> None then refuse s ''Approve - approve date change''
      else accept (s\<lparr>shp_Status := ShipmentStatusAPPROVED, shp_ApproveDate := Some approveDate\<rparr>))"

definition Shipment_Transport :: "gotime \<Rightarrow> Shipment \<Rightarrow> Shipment call" where
  "Shipment_Transport actualPickupDate s =
     (if shp_Status s \<noteq> ShipmentStatusAPPROVED then refuse s ''In Transit''
      else accept (s\<lparr>shp_Status := ShipmentStatusINTRANSIT, shp_ActualPickupDate := Some actualPickupDate\<rparr>))"

definition Shipment_Pack :: "gotime \<Rightarrow> Shipment \<Rightarrow> Shipment call" where
  "Shipment_Pack actualPackDate s =
     (if shp_Status s \<noteq> ShipmentStatusAPPROVED then refuse s ''Approved''
      else accept (s\<lparr>shp_ActualPackDate := Some actualPackDate\<rparr>))"

text \<open>The loop of \<open>Deliver\<close>: only a DESTINATION SIT that is IN_SIT is delivered, the others are kept;
  at an error the shipment keeps its old SITs.\<close>

definition deliver_sit :: "gotime \<Rightarrow> StorageInTransit \<Rightarrow> StorageInTransit call" where
  "deliver_sit actualDeliveryDate sit =
     (if si_Status sit = SITStatusINSIT \<and> si_Location sit = SITLocationDESTINATION
      then StorageInTransit_Deliver actualDeliveryDate sit else accept sit)"

definition Shipment_Deliver :: "gotime \<Rightarrow> Shipment \<Rightarrow> Shipment call" where
  "Shipment_Deliver actualDeliveryDate s =
     (if shp_Status s \<noteq> ShipmentStatusINTRANSIT then refuse s ''Deliver of shipment''
      else (let s = s\<lparr>shp_Status := ShipmentStatusDELIVERED, shp_ActualDeliveryDate := Some actualDeliveryDate\<rparr>
        in case run_each (deliver_sit actualDeliveryDate) (shp_StorageInTransits s) of
             (sits, Some e) \<Rightarrow> (s, Some e)
           | (sits, None) \<Rightarrow> accept (s\<lparr>shp_StorageInTransits := sits\<rparr>)))"

datatype shipment_op =
    ShSubmit gotime gotime | ShAward | ShAccept | ShReject | ShApprove gotime | ShTransport gotime
  | ShPack gotime | ShDeliver gotime

primrec shipment_step :: "shipment_op \<Rightarrow> Shipment \<Rightarrow> Shipment call" where
  "shipment_step (ShSubmit now d) s = Shipment_Submit now d s"
| "shipment_step ShAward s = Shipment_Award s"
| "shipment_step ShAccept s = Shipment_Accept s"
| "shipment_step ShReject s = Shipment_Reject s"
| "shipment_step (ShApprove d) s = Shipment_Approve d s"
| "shipment_step (ShTransport d) s = Shipment_Transport d s"
| "shipment_step (ShPack d) s = Shipment_Pack d s"
| "shipment_step (ShDeliver d) s = Shipment_Deliver d s"

definition requireAnAcceptedTSP :: "Shipment \<Rightarrow> bool" where
  "requireAnAcceptedTSP s \<longleftrightarrow> shp_Status s = ShipmentStatusACCEPTED \<or> shp_Status s = ShipmentStatusAPPROVED
     \<or> shp_Status s = ShipmentStatusINTRANSIT \<or> shp_Status s = ShipmentStatusDELIVERED"

text \<open>A nil offer with a nil error is \<open>Ret None\<close>.\<close>

definition AcceptedShipmentOffer :: "Shipment \<Rightarrow> ShipmentOffer option result" where
  "AcceptedShipmentOffer s = obind (Accepted (shp_ShipmentOffers s)) (\<lambda>acceptedOffers.
     if 1 < length acceptedOffers then Fail (ErrMsg ''Found %d accepted shipment offers'')
     else if requireAnAcceptedTSP s then
       (case acceptedOffers of [] \<Rightarrow> Fail (ErrMsg ''No accepted shipment offer found'') | offer # _ \<Rightarrow> Ret (Some offer))
     else (case acceptedOffers of [] \<Rightarrow> Ret None | offer # _ \<Rightarrow> Ret (Some offer)))"

section \<open>Moves\<close>

datatype MoveStatus = MoveStatusDRAFT | MoveStatusSUBMITTED | MoveStatusAPPROVED | MoveStatusCANCELED

record Move =
  mv_ID :: uuid
  mv_Locator :: string
  mv_OrdersID :: uuid
  mv_Orders :: Order
  mv_PersonallyProcuredMoves :: "PersonallyProcuredMove list"
  mv_Shipments :: "Shipment list"
  mv_Status :: MoveStatus
  mv_CancelReason :: "string option"
  mv_SelectedMoveType :: "string option"
  mv_Show :: "bool option"

text \<open>One statement after another: the second runs when the first returned no error.\<close>

definition and_then :: "'s call \<Rightarrow> ('s \<Rightarrow> 's call) \<Rightarrow> 's call" where
  "and_then c k = (case c of (s, Some e) \<Rightarrow> (s, Some e) | (s, None) \<Rightarrow> k s)"

definition each_ppm :: "(PersonallyProcuredMove \<Rightarrow> PersonallyProcuredMove call) \<Rightarrow> Move \<Rightarrow> Move call" where
  "each_ppm f m = (case run_each f (mv_PersonallyProcuredMoves m) of
      (ps, e) \<Rightarrow> (m\<lparr>mv_PersonallyProcuredMoves := ps\<rparr>, e))"

definition each_shipment :: "(Shipment \<Rightarrow> Shipment call) \<Rightarrow> Move \<Rightarrow> Move call" where
  "each_shipment f m = (case run_each f (mv_Shipments m) of (ss, e) \<Rightarrow> (m\<lparr>mv_Shipments := ss\<rparr>, e))"

definition request_advance :: "gotime \<Rightarrow> PersonallyProcuredMove \<Rightarrow> PersonallyProcuredMove call" where
  "request_advance now ppm = (case pp_Advance ppm of
      None \<Rightarrow> accept ppm
    | Some a \<Rightarrow> (case Reimbursement_Request now a of (a', e) \<Rightarrow> (ppm\<lparr>pp_Advance := Some a'\<rparr>, e)))"

definition Move_Submit :: "gotime \<Rightarrow> gotime \<Rightarrow> Move \<Rightarrow> Move call" where
  "Move_Submit now submitDate m =
     (if mv_Status m \<noteq> MoveStatusDRAFT then refuse m ''Submit''
      else and_then (and_then
        (each_ppm (PPM_Submit submitDate) (m\<lparr>mv_Status := MoveStatusSUBMITTED\<rparr>))
        (each_shipment (Shipment_Submit now submitDate)))
        (each_ppm (request_advance now)))"

definition Move_Approve :: "Move \<Rightarrow> Move call" where
  "Move_Approve m =
     (if mv_Status m \<noteq> MoveStatusSUBMITTED then refuse m ''Approve''
      else accept (m\<lparr>mv_Status := MoveStatusAPPROVED\<rparr>))"

definition cancel_orders :: "Move \<Rightarrow> Move call" where
  "cancel_orders m = (case Order_Cancel (mv_Orders m) of (ord, e) \<Rightarrow> (m\<lparr>mv_Orders := ord\<rparr>, e))"

definition Move_Cancel :: "string \<Rightarrow> Move \<Rightarrow> Move call" where
  "Move_Cancel reason m =
     (if mv_Status m = MoveStatusCANCELED then refuse m ''Cancel''
      else let m = m\<lparr>mv_Status := MoveStatusCANCELED\<rparr>;
               m = (if reason \<noteq> '''' then m\<lparr>mv_CancelReason := Some reason\<rparr> else m)
           in and_then (each_ppm PPM_Cancel m) cancel_orders)"

datatype move_op = MvSubmit gotime gotime | MvApprove | MvCancel string

primrec move_step :: "move_op \<Rightarrow> Move \<Rightarrow> Move call" where
  "move_step (MvSubmit now d) m = Move_Submit now d m"
| "move_step MvApprove m = Move_Approve m"
| "move_step (MvCancel reason) m = Move_Cancel reason m"

section \<open>The machines keep their contract\<close>

lemmas reimbursement_defs =
  Reimbursement_Request_def Reimbursement_Approve_def Reimbursement_Reject_def Reimbursement_Pay_def
lemmas ppm_defs = PPM_Submit_def PPM_Approve_def PPM_RequestPayment_def PPM_Complete_def PPM_Cancel_def
lemmas order_defs = Order_Submit_def Order_Cancel_def
lemmas shipment_defs =
  Shipment_Submit_def Shipment_Award_def Shipment_Accept_def Shipment_Reject_def Shipment_Approve_def
  Shipment_Transport_def Shipment_Pack_def

fun reimbursement_edge :: "ReimbursementStatus \<Rightarrow> ReimbursementStatus \<Rightarrow> bool" where
  "reimbursement_edge ReimbursementStatusDRAFT t = (t = ReimbursementStatusREQUESTED)"
| "reimbursement_edge ReimbursementStatusREQUESTED t =
     (t = ReimbursementStatusAPPROVED \<or> t = ReimbursementStatusREJECTED)"
| "reimbursement_edge ReimbursementStatusAPPROVED t = (t = ReimbursementStatusPAID)"
| "reimbursement_edge ReimbursementStatusREJECTED t = False"
| "reimbursement_edge ReimbursementStatusPAID t = False"

primrec reimbursement_rank :: "ReimbursementStatus \<Rightarrow> nat" where
  "reimbursement_rank ReimbursementStatusDRAFT = 0"
| "reimbursement_rank ReimbursementStatusREQUESTED = 1"
| "reimbursement_rank ReimbursementStatusAPPROVED = 2"
| "reimbursement_rank ReimbursementStatusREJECTED = 3"
| "reimbursement_rank ReimbursementStatusPAID = 3"

interpretation rb: ranked_machine reimbursement_step rb_Status reimbursement_edge reimbursement_rank
proof
  show "reimbursement_edge (rb_Status s) (rb_Status t)" if "reimbursement_step ev s = (t, None)" for ev s t
    using that by (cases ev) (auto simp: reimbursement_defs split: if_splits)
  show "t = s \<and> Cause e = ErrInvalidTransition" if "reimbursement_step ev s = (t, Some e)" for ev s t e
    using that by (cases ev) (auto simp: reimbursement_defs split: if_splits)
  show "a = b \<or> reimbursement_rank a < reimbursement_rank b" if "reimbursement_edge a b" for a b
    using that by (cases a) auto
qed

fun ppm_edge :: "PPMStatus \<Rightarrow> PPMStatus \<Rightarrow> bool" where
  "ppm_edge PPMStatusDRAFT t = (t \<in> {PPMStatusSUBMITTED, PPMStatusAPPROVED, PPMStatusCANCELED})"
| "ppm_edge PPMStatusSUBMITTED t = (t \<in> {PPMStatusAPPROVED, PPMStatusCANCELED})"
| "ppm_edge PPMStatusAPPROVED t = (t \<in> {PPMStatusPAYMENTREQUESTED, PPMStatusCANCELED})"
| "ppm_edge PPMStatusPAYMENTREQUESTED t =
     (t \<in> {PPMStatusPAYMENTREQUESTED, PPMStatusCOMPLETED, PPMStatusCANCELED})"
| "ppm_edge PPMStatusCOMPLETED t = False"
| "ppm_edge PPMStatusCANCELED t = False"

primrec ppm_rank :: "PPMStatus \<Rightarrow> nat" where
  "ppm_rank PPMStatusDRAFT = 0"
| "ppm_rank PPMStatusSUBMITTED = 1"
| "ppm_rank PPMStatusAPPROVED = 2"
| "ppm_rank PPMStatusPAYMENTREQUESTED = 3"
| "ppm_rank PPMStatusCOMPLETED = 4"
| "ppm_rank PPMStatusCANCELED = 4"

lemma ppm_step_edge:
  assumes "ppm_step ev s = (t, None)"
  shows "ppm_edge (pp_Status s) (pp_Status t)"
  using assms by (cases ev; cases "pp_Status s") (auto simp: ppm_defs split: if_splits)

interpretation pp: ranked_machine ppm_step pp_Status ppm_edge ppm_rank
proof
  show "ppm_edge (pp_Status s) (pp_Status t)" if "ppm_step ev s = (t, None)" for ev s t
    using that by (rule ppm_step_edge)
  show "t = s \<and> Cause e = ErrInvalidTransition" if "ppm_step ev s = (t, Some e)" for ev s t e
    using that by (cases ev) (auto simp: ppm_defs split: if_splits)
  show "a = b \<or> ppm_rank a < ppm_rank b" if "ppm_edge a b" for a b
    using that by (cases a) auto
qed

fun order_edge :: "OrderStatus \<Rightarrow> OrderStatus \<Rightarrow> bool" where
  "order_edge OrderStatusDRAFT t = (t = OrderStatusSUBMITTED \<or> t = OrderStatusCANCELED)"
| "order_edge OrderStatusSUBMITTED t = (t = OrderStatusCANCELED)"
| "order_edge OrderStatusAPPROVED t = (t = OrderStatusCANCELED)"
| "order_edge OrderStatusCANCELED t = False"

primrec order_rank :: "OrderStatus \<Rightarrow> nat" where
  "order_rank OrderStatusDRAFT = 0"
| "order_rank OrderStatusSUBMITTED = 1"
| "order_rank OrderStatusAPPROVED = 1"
| "order_rank OrderStatusCANCELED = 2"

interpretation ord: ranked_machine order_step or_Status order_edge order_rank
proof
  show "order_edge (or_Status s) (or_Status t)" if "order_step ev s = (t, None)" for ev s t
    using that by (cases ev; cases "or_Status s") (auto simp: order_defs)
  show "t = s \<and> Cause e = ErrInvalidTransition" if "order_step ev s = (t, Some e)" for ev s t e
    using that by (cases ev) (auto simp: order_defs split: if_splits)
  show "a = b \<or> order_rank a < order_rank b" if "order_edge a b" for a b
    using that by (cases a) auto
qed

datatype offer_op = OfAccept | OfReject string

primrec offer_step :: "offer_op \<Rightarrow> ShipmentOffer \<Rightarrow> ShipmentOffer call" where
  "offer_step OfAccept so = ShipmentOffer_Accept so"
| "offer_step (OfReject reason) so = ShipmentOffer_Reject reason so"

definition offer_edge :: "bool option \<Rightarrow> bool option \<Rightarrow> bool" where
  "offer_edge a b \<longleftrightarrow> a = None \<and> b \<noteq> None"

interpretation offer: status_machine offer_step of_Accepted offer_edge
proof
  show "offer_edge (of_Accepted s) (of_Accepted t)" if "offer_step ev s = (t, None)" for ev s t
    using that by (cases ev) (auto simp: ShipmentOffer_Accept_def ShipmentOffer_Reject_def offer_edge_def split: if_splits)
  show "t = s \<and> Cause e = ErrInvalidTransition" if "offer_step ev s = (t, Some e)" for ev s t e
    using that by (cases ev) (auto simp: ShipmentOffer_Accept_def ShipmentOffer_Reject_def split: if_splits)
qed

text \<open>A line item's status moves with its code: only 35A goes back and forth.\<close>

definition line_item_edge :: "string \<times> ShipmentLineItemStatus \<Rightarrow> string \<times> ShipmentLineItemStatus \<Rightarrow> bool" where
  "line_item_edge a b \<longleftrightarrow> fst b = fst a \<and> snd b \<noteq> LineItemStatusSUBMITTED
     \<and> (snd a = LineItemStatusSUBMITTED \<or> fst a = ''35A'' \<and> snd a \<noteq> snd b)"

definition line_item_key :: "ShipmentLineItem \<Rightarrow> string \<times> ShipmentLineItemStatus" where
  "line_item_key s = (it_Code (li_Tariff400ngItem s), li_Status s)"

interpretation li: status_machine line_item_step line_item_key line_item_edge
proof
  show "line_item_edge (line_item_key s) (line_item_key t)" if "line_item_step ev s = (t, None)" for ev s t
    using that by (cases ev)
      (auto simp: ShipmentLineItem_Approve_def ShipmentLineItem_ConditionallyApprove_def line_item_now_def
        line_item_edge_def line_item_key_def split: if_splits)
  show "t = s \<and> Cause e = ErrInvalidTransition" if "line_item_step ev s = (t, Some e)" for ev s t e
    using that by (cases ev)
      (auto simp: ShipmentLineItem_Approve_def ShipmentLineItem_ConditionallyApprove_def split: if_splits)
qed

text \<open>Delivering the SITs of a shipment cannot fail, since the loop tests what \<open>Deliver\<close> tests.\<close>

definition delivered_sit :: "gotime \<Rightarrow> StorageInTransit \<Rightarrow> StorageInTransit" where
  "delivered_sit d sit = (if si_Status sit = SITStatusINSIT \<and> si_Location sit = SITLocationDESTINATION
     then sit\<lparr>si_Status := SITStatusDELIVERED, si_OutDate := Some d\<rparr> else sit)"

lemma deliver_sits: "run_each (deliver_sit d) sits = (map (delivered_sit d) sits, None)"
  by (rule run_each_all) (auto simp: deliver_sit_def StorageInTransit_Deliver_def delivered_sit_def)

lemma Shipment_Deliver_eq:
  "Shipment_Deliver d s = (if shp_Status s \<noteq> ShipmentStatusINTRANSIT then refuse s ''Deliver of shipment''
     else accept (s\<lparr>shp_Status := ShipmentStatusDELIVERED, shp_ActualDeliveryDate := Some d,
       shp_StorageInTransits := map (delivered_sit d) (shp_StorageInTransits s)\<rparr>))"
  by (simp add: Shipment_Deliver_def deliver_sits Let_def)

fun shipment_edge :: "ShipmentStatus \<Rightarrow> ShipmentStatus \<Rightarrow> bool" where
  "shipment_edge ShipmentStatusDRAFT t = (t = ShipmentStatusSUBMITTED)"
| "shipment_edge ShipmentStatusSUBMITTED t = (t = ShipmentStatusAWARDED)"
| "shipment_edge ShipmentStatusAWARDED t = (t = ShipmentStatusACCEPTED \<or> t = ShipmentStatusSUBMITTED)"
| "shipment_edge ShipmentStatusACCEPTED t = (t = ShipmentStatusAPPROVED)"
| "shipment_edge ShipmentStatusAPPROVED t = (t = ShipmentStatusINTRANSIT \<or> t = ShipmentStatusAPPROVED)"
| "shipment_edge ShipmentStatusINTRANSIT t = (t = ShipmentStatusDELIVERED)"
| "shipment_edge ShipmentStatusDELIVERED t = False"

interpretation shp: status_machine shipment_step shp_Status shipment_edge
proof
  show "shipment_edge (shp_Status s) (shp_Status t)" if "shipment_step ev s = (t, None)" for ev s t
    using that by (cases ev) (auto simp: shipment_defs Shipment_Deliver_eq split: if_splits)
  show "t = s \<and> Cause e = ErrInvalidTransition" if "shipment_step ev s = (t, Some e)" for ev s t e
    using that by (cases ev) (auto simp: shipment_defs Shipment_Deliver_eq split: if_splits)
qed

section \<open>Invariants of a shipment\<close>

text \<open>The dates a shipment carries tell its status; a shipment starts as a draft without dates.\<close>

definition fresh_shipment :: "Shipment \<Rightarrow> bool" where
  "fresh_shipment s \<longleftrightarrow> shp_Status s = ShipmentStatusDRAFT \<and> shp_BookDate s = None \<and> shp_SubmitDate s = None
     \<and> shp_ApproveDate s = None \<and> shp_ActualPickupDate s = None \<and> shp_ActualPackDate s = None
     \<and> shp_ActualDeliveryDate s = None"

definition shipment_dates_ok :: "Shipment \<Rightarrow> bool" where
  "shipment_dates_ok s \<longleftrightarrow>
     (shp_BookDate s \<noteq> None \<longleftrightarrow> shp_Status s \<noteq> ShipmentStatusDRAFT)
     \<and> (shp_SubmitDate s \<noteq> None \<longleftrightarrow> shp_Status s \<noteq> ShipmentStatusDRAFT)
     \<and> (shp_ApproveDate s \<noteq> None \<longleftrightarrow>
          shp_Status s \<in> {ShipmentStatusAPPROVED, ShipmentStatusINTRANSIT, ShipmentStatusDELIVERED})
     \<and> (shp_ActualPickupDate s \<noteq> None \<longleftrightarrow> shp_Status s \<in> {ShipmentStatusINTRANSIT, ShipmentStatusDELIVERED})
     \<and> (shp_ActualPackDate s \<noteq> None \<longrightarrow>
          shp_Status s \<in> {ShipmentStatusAPPROVED, ShipmentStatusINTRANSIT, ShipmentStatusDELIVERED})
     \<and> (shp_ActualDeliveryDate s \<noteq> None \<longleftrightarrow> shp_Status s = ShipmentStatusDELIVERED)
     \<and> (shp_Status s = ShipmentStatusDELIVERED \<longrightarrow> (\<forall>sit \<in> set (shp_StorageInTransits s).
          \<not> (si_Status sit = SITStatusINSIT \<and> si_Location sit = SITLocationDESTINATION)))"

lemma shipment_dates_step:
  assumes "shipment_dates_ok s" "shipment_step ev s = (t, e)"
  shows "shipment_dates_ok t"
proof (cases e)
  case (Some d)
  with assms show ?thesis using shp.refuses [of ev s t d] by simp
next
  case None
  with assms show ?thesis
    by (cases ev) (auto simp: shipment_defs Shipment_Deliver_eq shipment_dates_ok_def delivered_sit_def split: if_splits)
qed

lemma shipment_dates_reach: "reaches shipment_step s t \<Longrightarrow> shipment_dates_ok s \<Longrightarrow> shipment_dates_ok t"
  by (induction rule: reaches.induct) (auto intro: shipment_dates_step)

lemma fresh_shipment_ok: "fresh_shipment s \<Longrightarrow> shipment_dates_ok s"
  by (auto simp: fresh_shipment_def shipment_dates_ok_def)

text \<open>Once accepted, a shipment stays accepted or later.\<close>

definition tsp_status :: "ShipmentStatus \<Rightarrow> bool" where
  "tsp_status s \<longleftrightarrow> s \<in> {ShipmentStatusACCEPTED, ShipmentStatusAPPROVED, ShipmentStatusINTRANSIT, ShipmentStatusDELIVERED}"

lemma tsp_status_edge: "shipment_edge a b \<Longrightarrow> tsp_status a \<Longrightarrow> tsp_status b"
  by (cases a) (auto simp: tsp_status_def)

lemma tsp_status_star: "shipment_edge\<^sup>*\<^sup>* a b \<Longrightarrow> tsp_status a \<Longrightarrow> tsp_status b"
  by (induction rule: rtranclp_induct) (auto intro: tsp_status_edge)

lemma tsp_status_require: "requireAnAcceptedTSP s = tsp_status (shp_Status s)"
  by (auto simp: requireAnAcceptedTSP_def tsp_status_def)

section \<open>Accepted offers\<close>

definition offer_complete :: "ShipmentOffer \<Rightarrow> bool" where
  "offer_complete offer \<longleftrightarrow> tsp_ID (offer_tsp offer) \<noteq> uuid_Nil \<and> tsp_StandardCarrierAlphaCode (offer_tsp offer) \<noteq> ''''
     \<and> tsp_SupplierID (offer_tsp offer) \<noteq> None \<and> tsp_SupplierID (offer_tsp offer) \<noteq> Some ''''"

abbreviation accepted_offers :: "ShipmentOffer list \<Rightarrow> ShipmentOffer list" where
  "accepted_offers offers \<equiv> filter (\<lambda>so. of_Accepted so = Some True) offers"

lemma Accepted_complete:
  "list_all offer_complete (accepted_offers offers) \<Longrightarrow> Accepted offers = Ret (accepted_offers offers)"
  by (induction offers) (auto simp: offer_complete_def)

lemma Accepted_incomplete:
  "\<not> list_all offer_complete (accepted_offers offers) \<Longrightarrow> \<exists>e. Accepted offers = Fail e"
  by (induction offers) (fastforce simp: offer_complete_def Accepted_complete split: if_splits)+

lemma Accepted_Ret:
  "Accepted offers = Ret xs \<longleftrightarrow> xs = accepted_offers offers \<and> list_all offer_complete xs"
proof (cases "list_all offer_complete (accepted_offers offers)")
  case True
  then show ?thesis by (simp only: Accepted_complete outcome.inject) auto
next
  case False
  then obtain e where "Accepted offers = Fail e" using Accepted_incomplete by blast
  with False show ?thesis by auto
qed

lemma Accepted_no_Panic: "Accepted offers \<noteq> Panic"
  using Accepted_complete [of offers] Accepted_incomplete [of offers] by fastforce

lemma AcceptedShipmentOffer_no_Panic: "AcceptedShipmentOffer s \<noteq> Panic"
  by (auto simp: AcceptedShipmentOffer_def outcome_simps Accepted_no_Panic split: if_splits list.splits)

section \<open>Cascades of a move\<close>

lemma and_then_simps [simp]:
  "and_then (s, None) k = k s" "and_then (s, Some e) k = (s, Some e)"
  by (simp_all add: and_then_def)

lemma and_then_ok: "snd (and_then c k) = None \<longleftrightarrow> snd c = None \<and> snd (k (fst c)) = None"
  by (cases c; cases "snd c") auto

lemma and_then_fst: "snd c = None \<Longrightarrow> and_then c k = k (fst c)"
  by (cases c) auto

lemma each_ppm_simps [simp]:
  "snd (each_ppm f m) = snd (run_each f (mv_PersonallyProcuredMoves m))"
  "fst (each_ppm f m) = m\<lparr>mv_PersonallyProcuredMoves := fst (run_each f (mv_PersonallyProcuredMoves m))\<rparr>"
  by (simp_all add: each_ppm_def case_prod_beta)

lemma each_shipment_simps [simp]:
  "snd (each_shipment f m) = snd (run_each f (mv_Shipments m))"
  "fst (each_shipment f m) = m\<lparr>mv_Shipments := fst (run_each f (mv_Shipments m))\<rparr>"
  by (simp_all add: each_shipment_def case_prod_beta)

definition ppm_submittable :: "PersonallyProcuredMove \<Rightarrow> bool" where
  "ppm_submittable p \<longleftrightarrow> pp_Status p = PPMStatusDRAFT \<and> pp_SubmitDate p = None
     \<and> (\<forall>a. pp_Advance p = Some a \<longrightarrow> rb_Status a = ReimbursementStatusDRAFT)"

lemma PPM_Submit_ok: "snd (PPM_Submit d p) = None \<longleftrightarrow> pp_Status p = PPMStatusDRAFT \<and> pp_SubmitDate p = None"
  by (simp add: PPM_Submit_def)

lemma PPM_Submit_Advance: "pp_Advance (fst (PPM_Submit d p)) = pp_Advance p"
  by (simp add: PPM_Submit_def)

lemma Shipment_Submit_ok: "snd (Shipment_Submit now d s) = None \<longleftrightarrow> shp_Status s = ShipmentStatusDRAFT"
  by (simp add: Shipment_Submit_def)

lemma request_advance_ok:
  "snd (request_advance now p) = None \<longleftrightarrow> (\<forall>a. pp_Advance p = Some a \<longrightarrow> rb_Status a = ReimbursementStatusDRAFT)"
  by (auto simp: request_advance_def Reimbursement_Request_def case_prod_beta split: option.splits)

lemma Move_Submit_ok:
  "snd (Move_Submit now d m) = None \<longleftrightarrow> mv_Status m = MoveStatusDRAFT
     \<and> (\<forall>p \<in> set (mv_PersonallyProcuredMoves m). ppm_submittable p)
     \<and> (\<forall>s \<in> set (mv_Shipments m). shp_Status s = ShipmentStatusDRAFT)"
proof (cases "mv_Status m = MoveStatusDRAFT")
  case True
  then show ?thesis
    by (auto simp: Move_Submit_def and_then_ok and_then_fst run_each_ok run_each_map PPM_Submit_ok
        Shipment_Submit_ok request_advance_ok PPM_Submit_Advance ppm_submittable_def)
qed (simp add: Move_Submit_def)

lemma Move_Submit_result:
  assumes "snd (Move_Submit now d m) = None"
  shows "fst (Move_Submit now d m) = m\<lparr>mv_Status := MoveStatusSUBMITTED,
    mv_PersonallyProcuredMoves := map (\<lambda>p. fst (request_advance now (fst (PPM_Submit d p)))) (mv_PersonallyProcuredMoves m),
    mv_Shipments := map (\<lambda>s. fst (Shipment_Submit now d s)) (mv_Shipments m)\<rparr>"
proof -
  have "mv_Status m = MoveStatusDRAFT" using assms by (simp add: Move_Submit_ok)
  with assms show ?thesis
    by (auto simp: Move_Submit_def and_then_ok and_then_fst run_each_map)
qed

lemma PPM_Cancel_ok: "snd (PPM_Cancel p) = None \<longleftrightarrow> pp_Status p \<notin> {PPMStatusCOMPLETED, PPMStatusCANCELED}"
  by (simp add: PPM_Cancel_def)

lemma Move_Cancel_ok:
  "snd (Move_Cancel reason m) = None \<longleftrightarrow> mv_Status m \<noteq> MoveStatusCANCELED
     \<and> (\<forall>p \<in> set (mv_PersonallyProcuredMoves m). pp_Status p \<notin> {PPMStatusCOMPLETED, PPMStatusCANCELED})
     \<and> or_Status (mv_Orders m) \<noteq> OrderStatusCANCELED"
  by (auto simp: Move_Cancel_def and_then_ok and_then_fst run_each_ok PPM_Cancel_ok cancel_orders_def
      Order_Cancel_def Let_def case_prod_beta)

lemma and_then_status:
  assumes "\<And>x. mv_Status (fst (k x)) = mv_Status x"
  shows "mv_Status (fst (and_then c k)) = mv_Status (fst c)"
  using assms by (cases c; cases "snd c") auto

lemma Move_Submit_status:
  "mv_Status m = MoveStatusDRAFT \<Longrightarrow> mv_Status (fst (Move_Submit now d m)) = MoveStatusSUBMITTED"
  by (simp add: Move_Submit_def and_then_status)

lemma Move_Cancel_status: "mv_Status (fst (Move_Cancel reason m)) = MoveStatusCANCELED"
  by (auto simp: Move_Cancel_def Let_def and_then_status cancel_orders_def case_prod_beta)

section \<open>Properties\<close>

text \<open>C8: through any sequence of attempted transitions, accepted or refused, the dates of a shipment
  tell its status: it is booked and submitted exactly when it left draft, approved exactly from
  APPROVED on, picked up exactly from IN_TRANSIT on, delivered exactly when DELIVERED, packed only
  from APPROVED on, and a delivered shipment has no destination SIT left in SIT.\<close>

theorem shipment_dates_invariant:
  assumes "fresh_shipment s" "reaches shipment_step s t"
  shows "shipment_dates_ok t"
  using assms shipment_dates_reach fresh_shipment_ok by blast

definition sample_shipment :: Shipment where
  "sample_shipment = Shipment.make 7 ShipmentStatusDRAFT None None None None None None 1 2 zero_address
     [] [] [] None None None None None None None None None None None None None False None None None None None 0 False None None None False None None None
     None None None None None None None None None None None None None None ''''"

lemma sample_submitted:
  "reaches shipment_step sample_shipment (fst (Shipment_Submit 5 9 sample_shipment))"
  by (rule reaches_call [OF reaches_refl, where ev = "ShSubmit 5 9" and e = None])
    (simp add: Shipment_Submit_def sample_shipment_def Shipment.defs prod_eq_iff)

theorem shipment_dates_invariant_witness:
  "shp_Status (fst (Shipment_Submit 5 9 sample_shipment)) = ShipmentStatusSUBMITTED
   \<and> shipment_dates_ok (fst (Shipment_Submit 5 9 sample_shipment))"
  using shipment_dates_invariant [OF _ sample_submitted]
  by (simp add: fresh_shipment_def sample_shipment_def Shipment.defs Shipment_Submit_def)

text \<open>A delivered shipment never changes again, a shipment accepted by a provider is never
  submitted or awarded again, and every shipment reached follows the graph of accepted transitions.\<close>

theorem shipment_progress:
  assumes "reaches shipment_step s t"
  shows "shipment_edge\<^sup>*\<^sup>* (shp_Status s) (shp_Status t)
    \<and> (shp_Status s = ShipmentStatusDELIVERED \<longrightarrow> t = s)
    \<and> (requireAnAcceptedTSP s \<longrightarrow> requireAnAcceptedTSP t)"
  using shp.reaches_status [OF assms] shp.stuck [OF assms] tsp_status_star
  by (auto simp: tsp_status_require)

theorem shipment_progress_witness:
  "shipment_edge\<^sup>*\<^sup>* ShipmentStatusDRAFT ShipmentStatusSUBMITTED"
  using shipment_progress [OF sample_submitted]
  by (simp add: sample_shipment_def Shipment.defs Shipment_Submit_def)

text \<open>A shipment can be delivered exactly when it is in transit; delivery sets its date, delivers
  with that date exactly the destination SITs that are in SIT, keeps every other SIT as it is, and
  otherwise nothing changes.\<close>

theorem Shipment_Deliver_functional:
  "Shipment_Deliver d s = (if shp_Status s = ShipmentStatusINTRANSIT
     then (s\<lparr>shp_Status := ShipmentStatusDELIVERED, shp_ActualDeliveryDate := Some d,
        shp_StorageInTransits := map (\<lambda>sit. if si_Status sit = SITStatusINSIT \<and> si_Location sit = SITLocationDESTINATION
          then sit\<lparr>si_Status := SITStatusDELIVERED, si_OutDate := Some d\<rparr> else sit) (shp_StorageInTransits s)\<rparr>, None)
     else (s, Some (Wrap ''Deliver of shipment'' ErrInvalidTransition)))"
  by (simp add: Shipment_Deliver_eq delivered_sit_def accept_def refuse_def errors_Wrap_def cong: map_cong)

text \<open>A personally procured move, a reimbursement and orders never come back to a status they
  left, whatever calls are attempted, and neither an accepted nor a rejected offer changes again.\<close>

theorem lifecycles_never_return:
  "(reaches ppm_step p q \<and> reaches ppm_step q r \<and> pp_Status q \<noteq> pp_Status p \<longrightarrow> pp_Status r \<noteq> pp_Status p)
   \<and> (reaches reimbursement_step a b \<and> reaches reimbursement_step b c \<and> rb_Status b \<noteq> rb_Status a
        \<longrightarrow> rb_Status c \<noteq> rb_Status a)
   \<and> (reaches order_step u v \<and> reaches order_step v w \<and> or_Status v \<noteq> or_Status u \<longrightarrow> or_Status w \<noteq> or_Status u)
   \<and> (reaches offer_step x y \<and> of_Accepted x \<noteq> None \<longrightarrow> y = x)"
  using pp.never_back [of p q r] rb.never_back [of a b c] ord.never_back [of u v w] offer.stuck [of x y]
  by (auto simp: offer_edge_def)

theorem lifecycles_never_return_witness:
  "rb_Status (fst (Reimbursement_Approve (BuildRequestedReimbursement 3 100 MethodOfReceiptMILPAY))) = ReimbursementStatusAPPROVED
   \<and> rb_Status (fst (Reimbursement_Pay (fst (Reimbursement_Approve (BuildRequestedReimbursement 3 100 MethodOfReceiptMILPAY)))))
        \<noteq> ReimbursementStatusREQUESTED"
proof -
  let ?a = "BuildRequestedReimbursement 3 100 MethodOfReceiptMILPAY" and ?b = "fst (Reimbursement_Approve (BuildRequestedReimbursement 3 100 MethodOfReceiptMILPAY))"
  have "reaches reimbursement_step ?a ?b"
    by (rule reaches_call [OF reaches_refl, where ev = RbApprove and e = None])
      (simp add: Reimbursement_Approve_def BuildRequestedReimbursement_def prod_eq_iff)
  moreover have "reaches reimbursement_step ?b (fst (Reimbursement_Pay ?b))"
    by (rule reaches_call [OF reaches_refl, where ev = RbPay and e = None])
      (simp add: Reimbursement_Approve_def Reimbursement_Pay_def BuildRequestedReimbursement_def prod_eq_iff)
  ultimately show ?thesis
    using lifecycles_never_return [THEN conjunct2, THEN conjunct1, of ?a ?b "fst (Reimbursement_Pay ?b)"]
    by (auto simp: Reimbursement_Approve_def BuildRequestedReimbursement_def)
qed

text \<open>C7: submitting a move succeeds exactly when the move, every PPM, every shipment and every
  advance is a draft (and no PPM has a submit date); then all of them are submitted or requested.
  When it fails after the move's own check, the move in memory is SUBMITTED all the same.\<close>

theorem Move_Submit_cascade:
  "(snd (Move_Submit now d m) = None \<longleftrightarrow> mv_Status m = MoveStatusDRAFT
      \<and> (\<forall>p \<in> set (mv_PersonallyProcuredMoves m). ppm_submittable p)
      \<and> (\<forall>s \<in> set (mv_Shipments m). shp_Status s = ShipmentStatusDRAFT))
   \<and> (snd (Move_Submit now d m) = None \<longrightarrow>
        (\<forall>p \<in> set (mv_PersonallyProcuredMoves (fst (Move_Submit now d m))). pp_Status p = PPMStatusSUBMITTED
          \<and> pp_SubmitDate p = Some d
          \<and> (\<forall>a. pp_Advance p = Some a \<longrightarrow> rb_Status a = ReimbursementStatusREQUESTED \<and> rb_RequestedDate a = Some now))
        \<and> (\<forall>s \<in> set (mv_Shipments (fst (Move_Submit now d m))). shp_Status s = ShipmentStatusSUBMITTED
          \<and> shp_BookDate s = Some now \<and> shp_SubmitDate s = Some d))
   \<and> (mv_Status m = MoveStatusDRAFT \<longrightarrow> mv_Status (fst (Move_Submit now d m)) = MoveStatusSUBMITTED)"
proof (intro conjI impI)
  assume ok: "snd (Move_Submit now d m) = None"
  note c = ok [unfolded Move_Submit_ok] and r = Move_Submit_result [OF ok]
  show "\<forall>p \<in> set (mv_PersonallyProcuredMoves (fst (Move_Submit now d m))). pp_Status p = PPMStatusSUBMITTED
      \<and> pp_SubmitDate p = Some d
      \<and> (\<forall>a. pp_Advance p = Some a \<longrightarrow> rb_Status a = ReimbursementStatusREQUESTED \<and> rb_RequestedDate a = Some now)"
    using c by (auto simp: r ppm_submittable_def PPM_Submit_def request_advance_def Reimbursement_Request_def
        accept_def split: option.splits)
  show "\<forall>s \<in> set (mv_Shipments (fst (Move_Submit now d m))). shp_Status s = ShipmentStatusSUBMITTED
      \<and> shp_BookDate s = Some now \<and> shp_SubmitDate s = Some d"
    using c by (auto simp: r Shipment_Submit_def)
qed (use Move_Submit_ok Move_Submit_status in auto)

definition sample_orders :: Order where
  "sample_orders = Order.make 1 1 False False 1 zero_address None None OrderStatusDRAFT None None None '''' 0"

definition sample_ppm :: PersonallyProcuredMove where
  "sample_ppm = \<lparr>pp_ID = 3, pp_Status = PPMStatusDRAFT, pp_SubmitDate = None, pp_ApproveDate = None,
     pp_HasRequestedAdvance = True, pp_AdvanceID = None, pp_Advance = Some (BuildDraftReimbursement 100 MethodOfReceiptMILPAY),
     pp_MoveID = 2, pp_OriginalMoveDate = None, pp_NetWeight = None, pp_Size = None, pp_WeightEstimate = None,
     pp_ActualMoveDate = None, pp_PickupPostalCode = None, pp_HasAdditionalPostalCode = None,
     pp_AdditionalPickupPostalCode = None, pp_DestinationPostalCode = None, pp_HasSit = None, pp_DaysInStorage = None,
     pp_EstimatedStorageReimbursement = None, pp_Mileage = None, pp_PlannedSITMax = None, pp_SITMax = None,
     pp_IncentiveEstimateMin = None, pp_IncentiveEstimateMax = None, pp_TotalSITCost = None\<rparr>"

definition sample_move :: Move where
  "sample_move = Move.make 2 ''ABC'' 1 sample_orders
     [sample_ppm]
     [sample_shipment] MoveStatusDRAFT None None None"

theorem Move_Submit_cascade_witness:
  "snd (Move_Submit 4 6 sample_move) = None
   \<and> list_all (\<lambda>s. shp_SubmitDate s = Some 6) (mv_Shipments (fst (Move_Submit 4 6 sample_move)))"
  unfolding list_all_iff using Move_Submit_cascade [of 4 6 sample_move]
  by (auto simp: sample_move_def Move.defs sample_ppm_def sample_shipment_def Shipment.defs
      ppm_submittable_def BuildDraftReimbursement_def)

text \<open>C31: a move can be canceled exactly when neither it nor its orders nor any of its PPMs is
  already canceled and no PPM is completed; then its PPMs and its orders are canceled.  Whatever
  happens, the move in memory is CANCELED afterwards.\<close>

theorem Move_Cancel_cascade:
  "(snd (Move_Cancel reason m) = None \<longleftrightarrow> mv_Status m \<noteq> MoveStatusCANCELED
      \<and> (\<forall>p \<in> set (mv_PersonallyProcuredMoves m). pp_Status p \<notin> {PPMStatusCOMPLETED, PPMStatusCANCELED})
      \<and> or_Status (mv_Orders m) \<noteq> OrderStatusCANCELED)
   \<and> (snd (Move_Cancel reason m) = None \<longrightarrow>
        (\<forall>p \<in> set (mv_PersonallyProcuredMoves (fst (Move_Cancel reason m))). pp_Status p = PPMStatusCANCELED)
        \<and> or_Status (mv_Orders (fst (Move_Cancel reason m))) = OrderStatusCANCELED)
   \<and> mv_Status (fst (Move_Cancel reason m)) = MoveStatusCANCELED"
proof (intro conjI impI)
  assume ok: "snd (Move_Cancel reason m) = None"
  note c = ok [unfolded Move_Cancel_ok]
  show "\<forall>p \<in> set (mv_PersonallyProcuredMoves (fst (Move_Cancel reason m))). pp_Status p = PPMStatusCANCELED"
    "or_Status (mv_Orders (fst (Move_Cancel reason m))) = OrderStatusCANCELED"
    using c by (auto simp: Move_Cancel_def Let_def and_then_fst run_each_ok PPM_Cancel_ok run_each_map
        cancel_orders_def Order_Cancel_def case_prod_beta PPM_Cancel_def)
qed (use Move_Cancel_ok Move_Cancel_status in auto)

theorem Move_Cancel_cascade_witness:
  "snd (Move_Cancel ''late'' sample_move) = None
   \<and> or_Status (mv_Orders (fst (Move_Cancel ''late'' sample_move))) = OrderStatusCANCELED"
  using Move_Cancel_cascade [of "''late''" sample_move]
  by (auto simp: sample_move_def Move.defs sample_ppm_def sample_orders_def Order.defs)

text \<open>The accepted offer of a shipment is its one accepted offer, whose provider has an ID, a SCAC
  and a supplier ID; none is returned only for a shipment without accepted offers whose status does
  not require a provider; two accepted offers or an incomplete provider are errors.\<close>

theorem AcceptedShipmentOffer_functional:
  "(AcceptedShipmentOffer s = Ret (Some so) \<longleftrightarrow> accepted_offers (shp_ShipmentOffers s) = [so] \<and> offer_complete so)
   \<and> (AcceptedShipmentOffer s = Ret None \<longleftrightarrow> accepted_offers (shp_ShipmentOffers s) = [] \<and> \<not> requireAnAcceptedTSP s)
   \<and> AcceptedShipmentOffer s \<noteq> Panic"
  using AcceptedShipmentOffer_no_Panic [of s]
  by (auto simp: AcceptedShipmentOffer_def outcome_simps Accepted_Ret split: if_splits list.splits)

end
