(* ===== verification/Numbering.thy ===== *)
theory Numbering
  imports Lifecycle
begin

text \<open>
  Generated numbers: the GBL number of a shipment (\<open>AssignGBLNumber\<close> in \<open>pkg/models/shipment.go\<close>)
  and the storage in transit number
  (\<open>pkg/services/storage_in_transit/generate_storage_in_transit_number.go\<close>), with the sequence
  trackers they increment in the database and the civil calendar (year and day of the year) of a
  UTC time.
\<close>

section \<open>The civil calendar\<close>

text \<open>Days from the first of January of year 0 to the first of January of a year.\<close>

definition jan1 :: "int \<Rightarrow> int" where
  "jan1 y = 365 * y + (y + 3) div 4 - (y + 99) div 100 + (y + 399) div 400"

definition epoch_day :: int where
  "epoch_day = jan1 1970"

definition year_of_day :: "int \<Rightarrow> int" where
  "year_of_day n = (let y = (400 * n) div 146097
     in if n < jan1 y then y - 1 else if jan1 (y + 1) \<le> n then y + 1 else y)"

definition time_Year :: "gotime \<Rightarrow> int" where
  "time_Year t = year_of_day (date_of t + epoch_day)"

definition time_YearDay :: "gotime \<Rightarrow> int" where
  "time_YearDay t = date_of t + epoch_day - jan1 (time_Year t) + 1"

lemma div_bounds:
  fixes k n :: int
  assumes "0 < k"
  shows "n - (k - 1) \<le> k * (n div k)" "k * (n div k) \<le> n"
  using pos_mod_bound [OF assms, of n] pos_mod_sign [OF assms, of n] minus_mod_eq_mult_div [of n k] by linarith+

lemma jan1_bounds_aux:
  fixes y a b c :: int
  assumes "y \<le> 4 * a" "4 * a \<le> y + 3" "y \<le> 100 * b" "100 * b \<le> y + 99" "y \<le> 400 * c" "400 * c \<le> y + 399"
  shows "146097 * y - 400 \<le> 400 * (365 * y + a - b + c) \<and> 400 * (365 * y + a - b + c) \<le> 146097 * y + 800"
proof -
  have e: "400 * (365 * y + a - b + c) = 146000 * y + 100 * (4 * a) - 4 * (100 * b) + 400 * c" by (simp add: algebra_simps)
  show ?thesis unfolding e using assms by linarith
qed

lemma jan1_bounds: "146097 * y - 400 \<le> 400 * jan1 y \<and> 400 * jan1 y \<le> 146097 * y + 800"
  unfolding jan1_def
proof (rule jan1_bounds_aux)
  show "y \<le> 4 * ((y + 3) div 4)" "4 * ((y + 3) div 4) \<le> y + 3" using div_bounds [of 4 "y + 3"] by simp_all
  show "y \<le> 100 * ((y + 99) div 100)" "100 * ((y + 99) div 100) \<le> y + 99" using div_bounds [of 100 "y + 99"] by simp_all
  show "y \<le> 400 * ((y + 399) div 400)" "400 * ((y + 399) div 400) \<le> y + 399" using div_bounds [of 400 "y + 399"] by simp_all
qed

lemma year_of_day: "jan1 (year_of_day n) \<le> n \<and> n < jan1 (year_of_day n + 1)"
proof -
  define y where "y = (400 * n) div 146097"
  have y: "146097 * y \<le> 400 * n" "400 * n \<le> 146097 * y + 146096"
    unfolding y_def using div_bounds [of 146097 "400 * n"] by simp_all
  have "jan1 (y - 1) \<le> n" using jan1_bounds [of "y - 1"] y by simp
  moreover have "n < jan1 (y + 2)" using jan1_bounds [of "y + 2"] y by simp
  moreover have e: "year_of_day n = (if n < jan1 y then y - 1 else if jan1 (y + 1) \<le> n then y + 1 else y)"
    by (simp only: year_of_day_def y_def Let_def)
  moreover have "1 + (y + 1) = y + 2" "y - 1 + 1 = y" by simp_all
  ultimately show ?thesis by (auto simp only: add.commute [of _ 1] not_less not_le split: if_splits)
qed

lemma div_next:
  fixes j k y :: int
  assumes "0 < k" "k = j + 1"
  shows "(y + 1 + j) div k = (y + j) div k + (if k dvd y then 1 else 0)"
proof (cases "k dvd y")
  case True
  then obtain q where q: "y = k * q" by (auto elim: dvdE)
  have "j div k = 0" using assms by (intro div_pos_pos_trivial) auto
  then have "(y + j) div k = q" using assms(1) by (simp add: q)
  moreover have "y + 1 + j = k * (q + 1)" using assms(2) by (simp add: q algebra_simps)
  ultimately show ?thesis using True assms(1) by simp
next
  case False
  define q r where "q = y div k" and "r = y mod k"
  have y: "y = k * q + r" by (simp add: q_def r_def)
  have r: "0 < r" "r < k" using False assms pos_mod_bound [of k y] pos_mod_sign [of k y]
    by (auto simp: r_def dvd_eq_mod_eq_0 less_le)
  have "(r - 1) div k = 0" "r div k = 0" using r by (auto intro!: div_pos_pos_trivial)
  moreover have "y + j = (r - 1) + k * (q + 1)" "y + 1 + j = r + k * (q + 1)" by (simp_all add: y assms(2) algebra_simps)
  ultimately have "(y + j) div k = q + 1" "(y + 1 + j) div k = q + 1" using assms(1) by (simp_all only: div_mult_self2 [of k])
  then show ?thesis using False by simp
qed

lemma jan1_diff:
  fixes A B C :: int
  shows "365 * (y + 1) + (A + a) - (B + b) + (C + c) - (365 * y + A - B + C) = 365 + a - b + c"
  by simp

lemma jan1_next: "365 \<le> jan1 (y + 1) - jan1 y \<and> jan1 (y + 1) - jan1 y \<le> 366"
proof -
  have d: "(y + 1 + 3) div 4 = (y + 3) div 4 + (if 4 dvd y then 1 else 0)"
    "(y + 1 + 99) div 100 = (y + 99) div 100 + (if 100 dvd y then 1 else 0)"
    "(y + 1 + 399) div 400 = (y + 399) div 400 + (if 400 dvd y then 1 else 0)"
    by (rule div_next; simp)+
  have "jan1 (y + 1) - jan1 y = 365 + (if 4 dvd y then 1 else 0) - (if 100 dvd y then 1 else 0) + (if 400 dvd y then 1 else 0)"
    unfolding jan1_def d by (rule jan1_diff)
  moreover have "100 dvd y \<Longrightarrow> 4 dvd y" "400 dvd y \<Longrightarrow> 100 dvd y" 
    using dvd_trans [of 4 100 y] dvd_trans [of 100 400 y] by simp_all
  ultimately show ?thesis by (auto split: if_splits)
qed

lemma time_YearDay_bounds: "1 \<le> time_YearDay t \<and> time_YearDay t \<le> 366"
  using year_of_day [of "date_of t + epoch_day"] jan1_next [of "time_Year t"]
  by (auto simp: time_YearDay_def time_Year_def)

lemma jan1_mono: "y \<le> z \<Longrightarrow> jan1 y \<le> jan1 z"
proof -
  assume "y \<le> z"
  then show ?thesis
  proof (induction z rule: int_ge_induct)
    case (step z)
    then show ?case using jan1_next [of z] by linarith
  qed simp
qed

lemma year_day_unique:
  assumes "time_Year s = time_Year t" "time_YearDay s = time_YearDay t"
  shows "date_of s = date_of t"
  using assms by (simp add: time_YearDay_def)

section \<open>Formatting with leading zeros\<close>

text \<open>\<open>fmt.Sprintf("%0kd", n)\<close> of a non-negative number: at least \<open>k\<close> digits.\<close>

definition zero_padded :: "nat \<Rightarrow> nat \<Rightarrow> string" where
  "zero_padded k n = (if n < 10 ^ k then fixed_digits k n else nat_digits n)"

section \<open>Sequence trackers\<close>

text \<open>\<open>INSERT ... ON CONFLICT DO UPDATE SET sequence_number = sequence_number + 1 RETURNING\<close>: the
  first number of a key is 1, every further one its successor.\<close>

type_synonym 'k tracker = "'k \<rightharpoonup> int"

definition next_sequence :: "'k tracker \<Rightarrow> 'k \<Rightarrow> 'k tracker \<times> int" where
  "next_sequence tr k = (let n = (case tr k of None \<Rightarrow> 1 | Some m \<Rightarrow> m + 1) in (tr(k \<mapsto> n), n))"

definition generateSequenceNumber ::
    "(int \<times> int) tracker \<Rightarrow> int \<Rightarrow> int \<Rightarrow> (int \<times> int) tracker \<times> int result" where
  "generateSequenceNumber tr year dayOfYear =
     (if year \<le> 0 then (tr, Fail (ErrMsg ''Year (%d) must be non-negative''))
      else if dayOfYear \<le> 0 then (tr, Fail (ErrMsg ''Day of year (%d) must be non-negative''))
      else (case next_sequence tr (year, dayOfYear) of (tr', n) \<Rightarrow> (tr', Ret n)))"

definition sit_number :: "int \<Rightarrow> int \<Rightarrow> int \<Rightarrow> string" where
  "sit_number year dayOfYear sequenceNumber =
     zero_padded 2 (nat (year mod 100)) @ zero_padded 3 (nat dayOfYear) @ zero_padded 4 (nat sequenceNumber)"

definition GenerateStorageInTransitNumber ::
    "(int \<times> int) tracker \<Rightarrow> gotime \<Rightarrow> (int \<times> int) tracker \<times> string result" where
  "GenerateStorageInTransitNumber tr placeInSitTime =
     (let fullYear = time_Year placeInSitTime; dayOfYear = time_YearDay placeInSitTime
      in case generateSequenceNumber tr fullYear dayOfYear of
           (tr', r) \<Rightarrow> (tr', obind (map_fail (Wrap ''Could not generate storage in transit number'') r)
             (\<lambda>n. Ret (sit_number fullYear dayOfYear n))))"

definition AssignGBLNumber :: "string tracker \<Rightarrow> Shipment \<Rightarrow> string tracker \<times> Shipment call" where
  "AssignGBLNumber tr s = (case shp_SourceGBLOC s of
      None \<Rightarrow> (tr, s, Some (ErrMsg ''Shipment must have a SourceBLOC to be assigned a GBL number''))
    | Some gbloc \<Rightarrow>
        (if shp_GBLNumber s \<noteq> None then (tr, s, Some (ErrMsg ''Shipment already has GBL number assigned''))
         else (case next_sequence tr gbloc of
             (tr', sequenceNumber) \<Rightarrow>
               (tr', s\<lparr>shp_GBLNumber := Some (gbloc @ ''7'' @ zero_padded 6 (nat sequenceNumber))\<rparr>, None))))"

section \<open>Reading numerals back\<close>

definition digit_value :: "char \<Rightarrow> nat" where
  "digit_value c = of_char c - 48"

definition digits_value :: "string \<Rightarrow> nat" where
  "digits_value s = foldl (\<lambda>a c. 10 * a + digit_value c) 0 s"

lemma digit_value_char: "d < 10 \<Longrightarrow> digit_value (digit_char d) = d"
proof -
  assume "d < 10"
  then have "d \<in> set [0, 1, 2, 3, 4, 5, 6, 7, 8, 9]" by (simp add: less_Suc_eq numeral_eq_Suc)
  then show ?thesis by (auto simp: digit_value_def digit_char_def)
qed

lemma digits_value_snoc [simp]: "digits_value (s @ [c]) = 10 * digits_value s + digit_value c"
  by (simp add: digits_value_def)

lemma digits_value_Nil [simp]: "digits_value [] = 0"
  by (simp add: digits_value_def)

lemma length_fixed_digits [simp]: "length (fixed_digits k n) = k"
  by (induction k arbitrary: n) auto

lemma digits_value_fixed: "digits_value (fixed_digits k n) = n mod 10 ^ k"
proof (induction k arbitrary: n)
  case (Suc k)
  have "n mod 10 ^ Suc k = 10 * (n div 10 mod 10 ^ k) + n mod 10"
    by (simp add: mod_mult2_eq)
  then show ?case using Suc by (simp add: digit_value_char)
qed simp

lemma digits_value_nat: "digits_value (nat_digits n) = n"
proof (induction n rule: nat_digits.induct)
  case (1 n)
  show ?case
  proof (cases "n < 10")
    case True
    then show ?thesis using digits_value_snoc [of "[]" "digit_char n"]
      by (subst nat_digits.simps) (simp add: digit_value_char)
  next
    case False
    with 1 show ?thesis by (subst nat_digits.simps) (simp add: digit_value_char)
  qed
qed

lemma digits_value_padded [simp]: "digits_value (zero_padded k n) = n"
  by (simp add: zero_padded_def digits_value_fixed digits_value_nat)

lemma zero_padded_inject: "zero_padded k m = zero_padded k n \<longleftrightarrow> m = n"
  by (metis digits_value_padded)

lemma length_zero_padded: "n < 10 ^ k \<Longrightarrow> length (zero_padded k n) = k"
  by (simp add: zero_padded_def)

section \<open>Numbers are never issued twice\<close>

fun issue :: "('k \<Rightarrow> int \<Rightarrow> string) \<Rightarrow> 'k tracker \<Rightarrow> 'k list \<Rightarrow> string list" where
  "issue fmt tr [] = []"
| "issue fmt tr (k # ks) = (case next_sequence tr k of (tr', n) \<Rightarrow> fmt k n # issue fmt tr' ks)"

definition tracker_ok :: "'k tracker \<Rightarrow> bool" where
  "tracker_ok tr \<longleftrightarrow> (\<forall>k n. tr k = Some n \<longrightarrow> 0 < n)"

lemma next_sequence_facts:
  assumes "tracker_ok tr" "next_sequence tr k = (tr', n)"
  shows "0 < n" "\<forall>m. tr k = Some m \<longrightarrow> m < n" "tr' = tr(k \<mapsto> n)"
proof -
  have "0 < m" if "tr k = Some m" for m using assms(1) that by (simp add: tracker_ok_def)
  then show "0 < n" "\<forall>m. tr k = Some m \<longrightarrow> m < n" "tr' = tr(k \<mapsto> n)"
    using assms(2) by (force simp: next_sequence_def Let_def split: option.splits)+
qed

lemma next_sequence_ok: "tracker_ok tr \<Longrightarrow> next_sequence tr k = (tr', n) \<Longrightarrow> tracker_ok tr'"
  using next_sequence_facts [of tr k tr' n] by (auto simp: tracker_ok_def)

text \<open>What a numbering owes to its users: over the keys in use, key and sequence number can be told
  from the text.\<close>

locale numbering =
  fixes fmt :: "'k \<Rightarrow> int \<Rightarrow> string" and valid :: "'k \<Rightarrow> bool"
  assumes told_apart: "valid k \<Longrightarrow> valid l \<Longrightarrow> 0 < m \<Longrightarrow> 0 < n \<Longrightarrow> fmt k m = fmt l n \<Longrightarrow> k = l \<and> m = n"
begin

lemma issued_later:
  assumes "x \<in> set (issue fmt tr ks)" "tracker_ok tr"
  shows "\<exists>k n. k \<in> set ks \<and> x = fmt k n \<and> 0 < n \<and> (\<forall>m. tr k = Some m \<longrightarrow> m < n)"
  using assms
proof (induction ks arbitrary: tr)
  case (Cons k ks)
  obtain tr' n where nx: "next_sequence tr k = (tr', n)" by fastforce
  note n = next_sequence_facts [OF Cons.prems(2) nx] and ok = next_sequence_ok [OF Cons.prems(2) nx]
  show ?case
  proof (cases "x = fmt k n")
    case True
    with n show ?thesis by auto
  next
    case False
    with Cons.prems(1) nx have "x \<in> set (issue fmt tr' ks)" by simp
    from Cons.IH [OF this ok] obtain l m where l: "l \<in> set ks" "x = fmt l m" "0 < m" "\<forall>i. tr' l = Some i \<longrightarrow> i < m"
      by blast
    have "\<forall>i. tr l = Some i \<longrightarrow> i < m"
    proof (cases "l = k")
      case True
      then have "n < m" using l(4) n(3) by simp
      then show ?thesis using n(2) True by auto
    next
      case False
      then show ?thesis using l(4) n(3) by simp
    qed
    with l show ?thesis by auto
  qed
qed simp

lemma distinct_issued:
  assumes "\<forall>k \<in> set ks. valid k" "tracker_ok tr"
  shows "distinct (issue fmt tr ks)"
  using assms
proof (induction ks arbitrary: tr)
  case (Cons k ks)
  obtain tr' n where nx: "next_sequence tr k = (tr', n)" by fastforce
  note n = next_sequence_facts [OF Cons.prems(2) nx] and ok = next_sequence_ok [OF Cons.prems(2) nx]
  have "fmt k n \<notin> set (issue fmt tr' ks)"
  proof
    assume "fmt k n \<in> set (issue fmt tr' ks)"
    from issued_later [OF this ok] obtain l m where l: "l \<in> set ks" "fmt k n = fmt l m" "0 < m"
      "\<forall>i. tr' l = Some i \<longrightarrow> i < m" by blast
    have "k = l \<and> n = m" using told_apart [of k l n m] Cons.prems(1) l n(1) by auto
    with l(4) n(3) show False by simp
  qed
  moreover have "distinct (issue fmt tr' ks)" using Cons ok by simp
  ultimately show ?case using nx by simp
qed simp

end

lemma issued_sit_numbers_parts:
  assumes "0 \<le> y" "1 \<le> d" "d \<le> 366" "0 < n"
  shows "take 2 (sit_number y d n) = zero_padded 2 (nat (y mod 100))"
    "take 3 (drop 2 (sit_number y d n)) = zero_padded 3 (nat d)"
    "drop 5 (sit_number y d n) = zero_padded 4 (nat n)"
proof -
  have "nat (y mod 100) < 10 ^ 2" "nat d < 10 ^ 3" using assms by auto
  then have "length (zero_padded 2 (nat (y mod 100))) = 2" "length (zero_padded 3 (nat d)) = 3"
    by (auto simp: length_zero_padded)
  then show "take 2 (sit_number y d n) = zero_padded 2 (nat (y mod 100))"
    "take 3 (drop 2 (sit_number y d n)) = zero_padded 3 (nat d)"
    "drop 5 (sit_number y d n) = zero_padded 4 (nat n)"
    by (simp_all add: sit_number_def)
qed

text \<open>The keys of one century: a year and a day of the year.\<close>

definition day_in_century :: "int \<Rightarrow> int \<times> int \<Rightarrow> bool" where
  "day_in_century c k \<longleftrightarrow> 0 \<le> fst k \<and> fst k div 100 = c \<and> 1 \<le> snd k \<and> snd k \<le> 366"

interpretation sits: numbering "\<lambda>k. sit_number (fst k) (snd k)" "day_in_century c" for c
proof
  fix k l :: "int \<times> int" and m n :: int
  assume k: "day_in_century c k" and l: "day_in_century c l" and mn: "0 < m" "0 < n"
    and eq: "sit_number (fst k) (snd k) m = sit_number (fst l) (snd l) n"
  note K = k [unfolded day_in_century_def] and L = l [unfolded day_in_century_def]
  note pk = issued_sit_numbers_parts [of "fst k" "snd k" m] and pl = issued_sit_numbers_parts [of "fst l" "snd l" n]
  have "zero_padded 2 (nat (fst k mod 100)) = zero_padded 2 (nat (fst l mod 100))"
    "zero_padded 3 (nat (snd k)) = zero_padded 3 (nat (snd l))" "zero_padded 4 (nat m) = zero_padded 4 (nat n)"
    using pk pl K L mn eq by metis+
  then have "nat (fst k mod 100) = nat (fst l mod 100)" "nat (snd k) = nat (snd l)" "nat m = nat n"
    by (simp_all only: zero_padded_inject)
  moreover have "0 \<le> snd k" "0 \<le> snd l" "0 \<le> m" "0 \<le> n" using K L mn by simp_all
  ultimately have "fst k mod 100 = fst l mod 100" "snd k = snd l" "m = n"
    by (simp_all only: eq_nat_nat_iff pos_mod_sign zero_less_numeral)
  moreover have "100 * (fst k div 100) + fst k mod 100 = fst k" "100 * (fst l div 100) + fst l mod 100 = fst l"
    by (rule mult_div_mod_eq)+
  ultimately show "k = l \<and> m = n" using K L by (simp add: prod_eq_iff)
qed

definition gbl_number :: "string \<Rightarrow> int \<Rightarrow> string" where
  "gbl_number gbloc n = gbloc @ ''7'' @ zero_padded 6 (nat n)"

interpretation gbls: numbering gbl_number "\<lambda>g. length g = k" for k
  by unfold_locales (auto simp: gbl_number_def zero_padded_inject)

definition sit_key :: "gotime \<Rightarrow> int \<times> int" where
  "sit_key t = (time_Year t, time_YearDay t)"

lemma GenerateStorageInTransitNumber_issue:
  assumes "0 < time_Year t" "next_sequence tr (sit_key t) = (tr', n)"
  shows "GenerateStorageInTransitNumber tr t = (tr', Ret (sit_number (fst (sit_key t)) (snd (sit_key t)) n))"
  using assms time_YearDay_bounds [of t]
  by (simp add: GenerateStorageInTransitNumber_def generateSequenceNumber_def sit_key_def Let_def)

fun generate_all :: "(int \<times> int) tracker \<Rightarrow> gotime list \<Rightarrow> string result list" where
  "generate_all tr [] = []"
| "generate_all tr (t # ts) = (case GenerateStorageInTransitNumber tr t of (tr', r) \<Rightarrow> r # generate_all tr' ts)"

lemma generate_all_issue:
  "\<forall>t \<in> set ts. 0 < time_Year t \<Longrightarrow>
   generate_all tr ts = map Ret (issue (\<lambda>k. sit_number (fst k) (snd k)) tr (map sit_key ts))"
proof (induction ts arbitrary: tr)
  case (Cons t ts)
  obtain tr' n where nx: "next_sequence tr (sit_key t) = (tr', n)" by fastforce
  have "GenerateStorageInTransitNumber tr t = (tr', Ret (sit_number (fst (sit_key t)) (snd (sit_key t)) n))"
    using Cons.prems by (intro GenerateStorageInTransitNumber_issue nx) simp
  then show ?case using Cons nx by simp
qed simp

section \<open>Properties\<close>

text \<open>Storage in transit numbers issued for any sequence of placements within one century are
  all generated and pairwise different, and while a day has fewer than ten thousand of them a number
  has nine digits from which year, day of the year and sequence number can be read back.\<close>

theorem sit_numbers_distinct:
  assumes "\<forall>t \<in> set ts. 0 < time_Year t \<and> time_Year t div 100 = c" "tracker_ok tr"
  shows "\<exists>ns. generate_all tr ts = map Ret ns \<and> distinct ns
    \<and> (\<forall>t \<in> set ts. \<forall>n \<in> {1..9999}. length (sit_number (time_Year t) (time_YearDay t) n) = 9
        \<and> int (digits_value (take 2 (sit_number (time_Year t) (time_YearDay t) n))) = time_Year t mod 100
        \<and> int (digits_value (take 3 (drop 2 (sit_number (time_Year t) (time_YearDay t) n)))) = time_YearDay t
        \<and> int (digits_value (drop 5 (sit_number (time_Year t) (time_YearDay t) n))) = n)"
proof (intro exI conjI)
  let ?ns = "issue (\<lambda>k. sit_number (fst k) (snd k)) tr (map sit_key ts)"
  show "generate_all tr ts = map Ret ?ns" using assms(1) by (intro generate_all_issue) auto
  show "distinct ?ns"
    using assms time_YearDay_bounds
    by (intro sits.distinct_issued [of _ c]) (auto simp: sit_key_def day_in_century_def)
  show "\<forall>t \<in> set ts. \<forall>n \<in> {1..9999}. length (sit_number (time_Year t) (time_YearDay t) n) = 9
      \<and> int (digits_value (take 2 (sit_number (time_Year t) (time_YearDay t) n))) = time_Year t mod 100
      \<and> int (digits_value (take 3 (drop 2 (sit_number (time_Year t) (time_YearDay t) n)))) = time_YearDay t
      \<and> int (digits_value (drop 5 (sit_number (time_Year t) (time_YearDay t) n))) = n"
  proof (intro ballI)
    fix t n
    assume t: "t \<in> set ts" and n: "n \<in> {1..9999 :: int}"
    have y: "0 \<le> time_Year t" "1 \<le> time_YearDay t" "time_YearDay t \<le> 366" "0 < n"
      using assms(1) t n time_YearDay_bounds [of t] by auto
    note p = issued_sit_numbers_parts [OF y]
    have "length (zero_padded 2 (nat (time_Year t mod 100))) = 2" "length (zero_padded 3 (nat (time_YearDay t))) = 3"
      "length (zero_padded 4 (nat n)) = 4"
      using y n by (auto intro!: length_zero_padded)
    then show "length (sit_number (time_Year t) (time_YearDay t) n) = 9
        \<and> int (digits_value (take 2 (sit_number (time_Year t) (time_YearDay t) n))) = time_Year t mod 100
        \<and> int (digits_value (take 3 (drop 2 (sit_number (time_Year t) (time_YearDay t) n)))) = time_YearDay t
        \<and> int (digits_value (drop 5 (sit_number (time_Year t) (time_YearDay t) n))) = n"
      unfolding p using y by (simp add: sit_number_def)
  qed
qed

theorem sit_numbers_distinct_witness:
  "\<exists>ns. generate_all Map.empty [1546300800, 1546300801, 1577750400] = map Ret ns \<and> distinct ns"
proof -
  have "\<forall>t \<in> set [1546300800, 1546300801, 1577750400]. 0 < time_Year t \<and> time_Year t div 100 = 20"
    by (simp add: time_Year_def year_of_day_def date_of_def epoch_day_def jan1_def)
  from sit_numbers_distinct [OF this, of Map.empty] show ?thesis
    unfolding tracker_ok_def by blast
qed

text \<open>A shipment gets a GBL number at most once and only with a source GBLOC; the numbers issued
  to any sequence of shipments whose GBLOCs have one length are pairwise different.\<close>

theorem gbl_numbers_distinct:
  assumes "\<forall>g \<in> set gs. length g = k" "tracker_ok tr"
  shows "distinct (issue gbl_number tr gs)
    \<and> (case AssignGBLNumber tr s of (tr', t, e) \<Rightarrow>
        if shp_SourceGBLOC s = None \<or> shp_GBLNumber s \<noteq> None then tr' = tr \<and> t = s \<and> e \<noteq> None
        else e = None \<and> (\<exists>g n. shp_SourceGBLOC s = Some g \<and> next_sequence tr g = (tr', n)
          \<and> t = s\<lparr>shp_GBLNumber := Some (gbl_number g n)\<rparr>))"
  using gbls.distinct_issued [OF assms]
  by (auto simp: AssignGBLNumber_def gbl_number_def split: option.splits prod.splits)

theorem gbl_numbers_distinct_witness:
  "distinct (issue gbl_number Map.empty [''AGFM'', ''KKFA'', ''AGFM''])"
  using gbl_numbers_distinct [of "[''AGFM'', ''KKFA'', ''AGFM'']" 4 Map.empty sample_shipment]
  by (auto simp: tracker_ok_def)

end
