(* ===== verification/Session.thy ===== *)
theory Session
  imports Prelude
begin

text \<open>
  The session of a logged-in user (\<open>pkg/auth/session.go\<close>) and the predicates that handlers and
  services authorize with.  Storing the session in a request context is not modelled.
\<close>

datatype Application = TspApp | OfficeApp | MilApp | AdminApp

record Session =
  ss_ApplicationName :: Application
  ss_Hostname :: string
  ss_IDToken :: string
  ss_UserID :: uuid
  ss_Email :: string
  ss_FirstName :: string
  ss_Middle :: string
  ss_LastName :: string
  ss_ServiceMemberID :: uuid
  ss_OfficeUserID :: uuid
  ss_TspUserID :: uuid
  ss_AdminUserID :: uuid
  ss_AdminUserRole :: string
  ss_DpsUserID :: uuid

definition IsTspApp :: "Session \<Rightarrow> bool" where
  "IsTspApp s \<longleftrightarrow> ss_ApplicationName s = TspApp"

definition IsOfficeApp :: "Session \<Rightarrow> bool" where
  "IsOfficeApp s \<longleftrightarrow> ss_ApplicationName s = OfficeApp"

definition IsMilApp :: "Session \<Rightarrow> bool" where
  "IsMilApp s \<longleftrightarrow> ss_ApplicationName s = MilApp"

definition IsAdminApp :: "Session \<Rightarrow> bool" where
  "IsAdminApp s \<longleftrightarrow> ss_ApplicationName s = AdminApp"

definition IsServiceMember :: "Session \<Rightarrow> bool" where
  "IsServiceMember s \<longleftrightarrow> ss_ServiceMemberID s \<noteq> uuid_Nil"

definition IsOfficeUser :: "Session \<Rightarrow> bool" where
  "IsOfficeUser s \<longleftrightarrow> ss_OfficeUserID s \<noteq> uuid_Nil"

definition IsTspUser :: "Session \<Rightarrow> bool" where
  "IsTspUser s \<longleftrightarrow> ss_TspUserID s \<noteq> uuid_Nil"

definition IsAdminUser :: "Session \<Rightarrow> bool" where
  "IsAdminUser s \<longleftrightarrow> ss_AdminUserID s \<noteq> uuid_Nil"

definition IsSystemAdmin :: "Session \<Rightarrow> bool" where
  "IsSystemAdmin s \<longleftrightarrow> IsAdminUser s \<and> ss_AdminUserRole s = ''SYSTEM_ADMIN''"

definition IsProgramAdmin :: "Session \<Rightarrow> bool" where
  "IsProgramAdmin s \<longleftrightarrow> IsAdminUser s \<and> ss_AdminUserRole s = ''PROGRAM_ADMIN''"

definition IsDpsUser :: "Session \<Rightarrow> bool" where
  "IsDpsUser s \<longleftrightarrow> ss_DpsUserID s \<noteq> uuid_Nil"

end
