(* ===== verification/StorageService.thy ===== *)
theory StorageService
  imports Numbering Session
begin

text \<open>
  The storage in transit services (\<open>pkg/services/storage_in_transit\<close>): authorization of a request,
  and the operations that request, approve, deny, place into SIT, release, patch, delete and read a
  SIT.  The database is \<open>sit_world\<close>: the tables of SITs, shipments and offers in row order, the
  provider of each TSP user, the service member of each move's orders, the number tracker, and what
  the code does not decide (package pop): the validation errors and the database error of saving a
  SIT, an address or a shipment and of destroying a SIT, and the identifiers new rows get.  A
  successful save inserts a row without identifier and replaces the row with the same identifier; a
  failed one changes nothing.
\<close>

record sit_world =
  w_sits :: "StorageInTransit list"
  w_tsp_users :: "uuid \<rightharpoonup> uuid"
  w_offers :: "(uuid \<times> uuid) list"
  w_shipments :: "Shipment list"
  w_owner :: "uuid \<rightharpoonup> uuid"
  w_tracker :: "(int \<times> int) tracker"
  w_save :: "StorageInTransit \<Rightarrow> verrs \<times> goerr option"
  w_save_address :: "Address \<Rightarrow> verrs \<times> goerr option"
  w_save_shipment :: "Shipment \<Rightarrow> verrs \<times> goerr option"
  w_destroy :: "StorageInTransit \<Rightarrow> goerr option"
  w_new_id :: uuid
  w_new_address_id :: uuid

text \<open>What a service returns: a SIT or nil, the validation errors, the error; and how it runs.\<close>

type_synonym sit_reply = "StorageInTransit option \<times> verrs \<times> goerr option"
type_synonym sit_run = "(sit_world \<times> sit_reply) result"

section \<open>Fetching and authorizing\<close>

text \<open>Rows of the join of shipments and offers: exactly one must match.\<close>

definition FetchShipmentByTSP :: "sit_world \<Rightarrow> uuid \<Rightarrow> uuid \<Rightarrow> Shipment result" where
  "FetchShipmentByTSP w tspID shipmentID =
     (case concat (map (\<lambda>s. map (\<lambda>_. s) (filter (\<lambda>(t, i). i = shp_ID s \<and> t = tspID \<and> shp_ID s = shipmentID) (w_offers w)))
        (w_shipments w)) of
        [s] \<Rightarrow> Ret s | _ \<Rightarrow> Fail ErrFetchNotFound)"

definition FetchTspUserByID :: "sit_world \<Rightarrow> uuid \<Rightarrow> uuid result" where
  "FetchTspUserByID w i = (case w_tsp_users w i of None \<Rightarrow> Fail NoRows | Some tsp \<Rightarrow> Ret tsp)"

definition FetchShipmentForVerifiedTSPUser :: "sit_world \<Rightarrow> uuid \<Rightarrow> uuid \<Rightarrow> Shipment result" where
  "FetchShipmentForVerifiedTSPUser w tspUserID shipmentID =
     (case FetchTspUserByID w tspUserID of
        Fail _ \<Rightarrow> Fail ErrUserUnauthorized
      | Panic \<Rightarrow> Panic
      | Ret tspID \<Rightarrow> map_fail (\<lambda>_. ErrFetchForbidden) (FetchShipmentByTSP w tspID shipmentID))"

definition authorizeStorageInTransitHTTPRequest :: "sit_world \<Rightarrow> Session \<Rightarrow> uuid \<Rightarrow> bool \<Rightarrow> bool result" where
  "authorizeStorageInTransitHTTPRequest w session shipmentID allowOffice =
     (if IsTspUser session then
        obind (FetchShipmentForVerifiedTSPUser w (ss_TspUserID session) shipmentID) (\<lambda>_. Ret True)
      else if IsOfficeUser session \<and> allowOffice then Ret True
      else Fail ErrFetchForbidden)"

definition FetchStorageInTransitByID :: "sit_world \<Rightarrow> uuid \<Rightarrow> StorageInTransit result" where
  "FetchStorageInTransitByID w storageInTransitID =
     map_fail (\<lambda>_. ErrFetchNotFound) (first_row (filter (\<lambda>s. si_ID s = storageInTransitID) (w_sits w)))"

text \<open>\<open>FetchShipment\<close> looks up the shipment, then its move and the orders of the move, which a
  session of the customer application must own.\<close>

definition FetchShipment :: "sit_world \<Rightarrow> Session \<Rightarrow> uuid \<Rightarrow> Shipment result" where
  "FetchShipment w session i =
     obind (map_fail (\<lambda>_. ErrFetchNotFound) (first_row (filter (\<lambda>s. shp_ID s = i) (w_shipments w)))) (\<lambda>shipment.
     case w_owner w (shp_MoveID shipment) of
       None \<Rightarrow> Fail ErrFetchNotFound
     | Some serviceMemberID \<Rightarrow>
         (if IsMilApp session \<and> serviceMemberID \<noteq> ss_ServiceMemberID session then Fail ErrFetchForbidden
          else Ret shipment))"

text \<open>\<open>ORDER BY location DESC, estimated_start_date\<close>: ORIGIN sorts after DESTINATION.\<close>

definition location_desc :: "StorageInTransitLocation \<Rightarrow> nat" where
  "location_desc l = (case l of SITLocationORIGIN \<Rightarrow> 0 | SITLocationDESTINATION \<Rightarrow> 1)"

definition FetchStorageInTransitsOnShipment :: "StorageInTransit list \<Rightarrow> uuid \<Rightarrow> StorageInTransit list" where
  "FetchStorageInTransitsOnShipment rows shipmentID =
     sort_key (\<lambda>s. location_desc (si_Location s)) (sort_key si_EstimatedStartDate
       (filter (\<lambda>s. si_ShipmentID s = shipmentID) rows))"

text \<open>\<open>ValidateAndSave\<close> and what every service does with its result.\<close>

definition put_sit :: "StorageInTransit \<Rightarrow> StorageInTransit list \<Rightarrow> StorageInTransit list" where
  "put_sit sit rows = map (\<lambda>r. if si_ID r = si_ID sit then sit else r) rows"

definition save_sit :: "sit_world \<Rightarrow> StorageInTransit \<Rightarrow> sit_run" where
  "save_sit w sit = (case w_save w sit of (ve, err) \<Rightarrow>
     if ve \<noteq> [] \<or> err \<noteq> None then Ret (w, None, ve, err)
     else Ret (w\<lparr>w_sits := put_sit sit (w_sits w)\<rparr>, Some sit, [], None))"

definition fail_with :: "sit_world \<Rightarrow> goerr \<Rightarrow> sit_run" where
  "fail_with w e = Ret (w, None, [], Some e)"

text \<open>\<open>if err != nil { return nil, returnVerrs, err }\<close> after a call.\<close>

definition on_ret :: "sit_world \<Rightarrow> 'a result \<Rightarrow> ('a \<Rightarrow> sit_run) \<Rightarrow> sit_run" where
  "on_ret w r k = (case r of Ret x \<Rightarrow> k x | Fail e \<Rightarrow> fail_with w e | Panic \<Rightarrow> Panic)"

section \<open>Changing the status of a SIT\<close>

definition ApproveStorageInTransit ::
    "string option \<times> gotime \<Rightarrow> uuid \<Rightarrow> Session \<Rightarrow> uuid \<Rightarrow> sit_world \<Rightarrow> sit_run" where
  "ApproveStorageInTransit payload shipmentID session storageInTransitID w =
     (if \<not> IsOfficeUser session then fail_with w ErrFetchForbidden
      else on_ret w (map_fail (\<lambda>_. ErrFetchNotFound) (FetchStorageInTransitByID w storageInTransitID)) (\<lambda>sit.
        if shipmentID \<noteq> si_ShipmentID sit then fail_with w ErrFetchForbidden
        else if si_Status sit = SITStatusDELIVERED then fail_with w ErrWriteConflict
        else save_sit w (sit\<lparr>si_Status := SITStatusAPPROVED, si_AuthorizationNotes := fst payload,
          si_AuthorizedStartDate := Some (snd payload)\<rparr>)))"

definition DenyStorageInTransit ::
    "string \<Rightarrow> uuid \<Rightarrow> Session \<Rightarrow> uuid \<Rightarrow> sit_world \<Rightarrow> sit_run" where
  "DenyStorageInTransit authorizationNotes shipmentID session storageInTransitID w =
     (if \<not> IsOfficeUser session then fail_with w ErrFetchForbidden
      else on_ret w (map_fail (\<lambda>_. ErrFetchNotFound) (FetchStorageInTransitByID w storageInTransitID)) (\<lambda>sit.
        if shipmentID \<noteq> si_ShipmentID sit then fail_with w ErrFetchForbidden
        else if si_Status sit = SITStatusDELIVERED then fail_with w ErrWriteConflict
        else save_sit w (sit\<lparr>si_Status := SITStatusDENIED, si_AuthorizationNotes := Some authorizationNotes\<rparr>)))"

text \<open>The number is drawn before the row is saved: a failed save leaves a gap in the numbers.\<close>

definition PlaceIntoSITStorageInTransit ::
    "gotime \<Rightarrow> uuid \<Rightarrow> Session \<Rightarrow> uuid \<Rightarrow> sit_world \<Rightarrow> sit_run" where
  "PlaceIntoSITStorageInTransit actualStartDate shipmentID session storageInTransitID w =
     on_ret w (authorizeStorageInTransitHTTPRequest w session shipmentID False) (\<lambda>isUserAuthorized.
     if \<not> isUserAuthorized then Ret (w, None, [], None)
     else on_ret w (FetchStorageInTransitByID w storageInTransitID) (\<lambda>sit.
       if shipmentID \<noteq> si_ShipmentID sit then fail_with w ErrFetchForbidden
       else if \<not> si_Status sit = SITStatusAPPROVED then fail_with w ErrWriteConflict
       else (case GenerateStorageInTransitNumber (w_tracker w) actualStartDate of
          (tr, r) \<Rightarrow> (let w' = w\<lparr>w_tracker := tr\<rparr> in
            on_ret w' r (\<lambda>number. save_sit w' (sit\<lparr>si_Status := SITStatusINSIT,
              si_ActualStartDate := Some actualStartDate, si_SITNumber := Some number\<rparr>))))))"

definition ReleaseStorageInTransit ::
    "gotime \<Rightarrow> uuid \<Rightarrow> Session \<Rightarrow> uuid \<Rightarrow> sit_world \<Rightarrow> sit_run" where
  "ReleaseStorageInTransit releasedOn shipmentID session storageInTransitID w =
     on_ret w (authorizeStorageInTransitHTTPRequest w session shipmentID False) (\<lambda>isAuthorized.
     if \<not> isAuthorized then fail_with w ErrFetchForbidden
     else on_ret w (FetchStorageInTransitByID w storageInTransitID) (\<lambda>sit.
       if si_Location sit \<noteq> SITLocationORIGIN then fail_with w ErrInvalidTransition
       else if \<not> si_Status sit = SITStatusINSIT \<and> \<not> si_Status sit = SITStatusDELIVERED
       then fail_with w ErrWriteConflict
       else save_sit w (sit\<lparr>si_Status := SITStatusRELEASED, si_OutDate := Some releasedOn\<rparr>)))"

section \<open>Creating, patching, deleting and reading\<close>

text \<open>A request payload; its pointers are options.  A nil location, warehouse ID or address line that
  the code dereferences panics.\<close>

record address_payload =
  ap_StreetAddress1 :: "string option"
  ap_StreetAddress2 :: "string option"
  ap_StreetAddress3 :: "string option"
  ap_City :: "string option"
  ap_State :: "string option"
  ap_PostalCode :: "string option"
  ap_Country :: "string option"

record sit_payload =
  py_Location :: "string option"
  py_EstimatedStartDate :: "gotime option"
  py_Notes :: "string option"
  py_WarehouseID :: "string option"
  py_WarehouseName :: "string option"
  py_WarehouseAddress :: "address_payload option"
  py_WarehousePhone :: "string option"
  py_WarehouseEmail :: "string option"
  py_ActualStartDate :: "gotime option"
  py_OutDate :: "gotime option"

definition updateAddressWithPayload :: "Address \<Rightarrow> address_payload \<Rightarrow> Address result" where
  "updateAddressWithPayload a payload =
     obind (deref (ap_StreetAddress1 payload)) (\<lambda>street1.
     obind (deref (ap_City payload)) (\<lambda>city.
     obind (deref (ap_State payload)) (\<lambda>state.
     obind (deref (ap_PostalCode payload)) (\<lambda>postalCode.
     Ret (a\<lparr>ad_StreetAddress1 := street1, ad_StreetAddress2 := ap_StreetAddress2 payload,
       ad_StreetAddress3 := ap_StreetAddress3 payload, ad_City := city, ad_State := state,
       ad_PostalCode := postalCode, ad_Country := ap_Country payload\<rparr>)))))"

definition payloadForAddressModel :: "Address option \<Rightarrow> address_payload option" where
  "payloadForAddressModel a = (case a of None \<Rightarrow> None | Some a \<Rightarrow>
     if ad_ID a = uuid_Nil then None
     else Some \<lparr>ap_StreetAddress1 = Some (ad_StreetAddress1 a), ap_StreetAddress2 = ad_StreetAddress2 a,
       ap_StreetAddress3 = ad_StreetAddress3 a, ap_City = Some (ad_City a), ap_State = Some (ad_State a),
       ap_PostalCode = Some (ad_PostalCode a), ap_Country = ad_Country a\<rparr>)"

definition payload_location :: "string \<Rightarrow> StorageInTransitLocation" where
  "payload_location l = (if l = ''ORIGIN'' then SITLocationORIGIN else SITLocationDESTINATION)"

definition processStorageInTransitInput :: "uuid \<Rightarrow> sit_payload \<Rightarrow> StorageInTransit result" where
  "processStorageInTransitInput shipmentID payload =
     obind (deref (py_Location payload)) (\<lambda>incomingLocation.
     obind (case py_WarehouseAddress payload of None \<Rightarrow> Ret zero_address
            | Some p \<Rightarrow> updateAddressWithPayload zero_address p) (\<lambda>warehouseAddress.
     obind (deref (py_WarehouseID payload)) (\<lambda>warehouseID.
     Ret \<lparr>si_ID = uuid_Nil, si_ShipmentID = shipmentID, si_SITNumber = None, si_Status = SITStatusREQUESTED,
       si_Location = payload_location incomingLocation,
       si_EstimatedStartDate = (case py_EstimatedStartDate payload of None \<Rightarrow> zero_time | Some t \<Rightarrow> t),
       si_AuthorizedStartDate = None, si_ActualStartDate = None, si_OutDate = None,
       si_Notes = py_Notes payload, si_AuthorizationNotes = None, si_WarehouseID = warehouseID,
       si_WarehouseName = (case py_WarehouseName payload of None \<Rightarrow> '''' | Some n \<Rightarrow> n),
       si_WarehouseAddressID = ad_ID warehouseAddress, si_WarehousePhone = py_WarehousePhone payload,
       si_WarehouseEmail = py_WarehouseEmail payload, si_StorageInTransitDistanceID = None,
       si_StorageInTransitDistance = None, si_WarehouseAddress = warehouseAddress\<rparr>)))"

text \<open>A blank string becomes nil (\<open>handlers.FmtStringPtrNonEmpty\<close>, ASCII white space).\<close>

definition blank :: "string \<Rightarrow> bool" where
  "blank s \<longleftrightarrow> list_all (\<lambda>c. c = CHR '' '' \<or> (9 \<le> (of_char c :: nat) \<and> (of_char c :: nat) \<le> 13)) s"

definition FmtStringPtrNonEmpty :: "string option \<Rightarrow> string option" where
  "FmtStringPtrNonEmpty s = (case s of None \<Rightarrow> None | Some t \<Rightarrow> if blank t then None else Some t)"

definition patchStorageInTransitWithPayload :: "StorageInTransit \<Rightarrow> sit_payload \<Rightarrow> StorageInTransit result" where
  "patchStorageInTransitWithPayload sit payload =
     obind (deref (py_Location payload)) (\<lambda>l.
     obind (case py_WarehouseAddress payload of None \<Rightarrow> Ret (si_WarehouseAddress sit)
            | Some p \<Rightarrow> updateAddressWithPayload (si_WarehouseAddress sit) p) (\<lambda>warehouseAddress.
     Ret (sit\<lparr>si_Location := payload_location l,
       si_EstimatedStartDate := (case py_EstimatedStartDate payload of None \<Rightarrow> si_EstimatedStartDate sit | Some t \<Rightarrow> t),
       si_Notes := FmtStringPtrNonEmpty (py_Notes payload),
       si_WarehouseID := (case py_WarehouseID payload of None \<Rightarrow> si_WarehouseID sit | Some i \<Rightarrow> i),
       si_WarehouseName := (case py_WarehouseName payload of None \<Rightarrow> si_WarehouseName sit | Some n \<Rightarrow> n),
       si_WarehouseAddress := warehouseAddress,
       si_WarehousePhone := FmtStringPtrNonEmpty (py_WarehousePhone payload),
       si_WarehouseEmail := FmtStringPtrNonEmpty (py_WarehouseEmail payload),
       si_ActualStartDate := py_ActualStartDate payload, si_OutDate := py_OutDate payload\<rparr>)))"

text \<open>\<open>SaveStorageInTransitAndAddress\<close>: the address, then the SIT, in one transaction.\<close>

definition SaveStorageInTransitAndAddress :: "sit_world \<Rightarrow> StorageInTransit \<Rightarrow> sit_run" where
  "SaveStorageInTransitAndAddress w sit =
     (case w_save_address w (si_WarehouseAddress sit) of (ve, err) \<Rightarrow>
      if ve \<noteq> [] \<or> err \<noteq> None then Ret (w, None, ve, errors_Wrap err ''Error saving warehouse address'')
      else let a = si_WarehouseAddress sit;
               a = (if ad_ID a = uuid_Nil then a\<lparr>ad_ID := w_new_address_id w\<rparr> else a);
               sit = sit\<lparr>si_WarehouseAddress := a, si_WarehouseAddressID := ad_ID a\<rparr>
           in case w_save w sit of (ve, err) \<Rightarrow>
              if ve \<noteq> [] \<or> err \<noteq> None then Ret (w, None, ve, errors_Wrap err ''Error saving storage in transit'')
              else if si_ID sit = uuid_Nil
              then (let sit = sit\<lparr>si_ID := w_new_id w\<rparr> in Ret (w\<lparr>w_sits := w_sits w @ [sit]\<rparr>, Some sit, [], None))
              else Ret (w\<lparr>w_sits := put_sit sit (w_sits w)\<rparr>, Some sit, [], None))"

definition CreateStorageInTransit :: "sit_payload \<Rightarrow> uuid \<Rightarrow> Session \<Rightarrow> sit_world \<Rightarrow> sit_run" where
  "CreateStorageInTransit payload shipmentID session w =
     on_ret w (authorizeStorageInTransitHTTPRequest w session shipmentID False) (\<lambda>isUserAuthorized.
     if \<not> isUserAuthorized then Ret (w, None, [], None)
     else on_ret w (processStorageInTransitInput shipmentID payload) (\<lambda>sit.
       SaveStorageInTransitAndAddress w sit))"

text \<open>The new out date becomes the delivery date of the SIT's shipment.  A failed \<open>FetchShipment\<close>
  returns no error at all.\<close>

definition SaveActualDeliveryDateAsOutDate ::
    "sit_world \<Rightarrow> Session \<Rightarrow> gotime \<Rightarrow> StorageInTransit \<Rightarrow> sit_world \<times> verrs \<times> goerr option" where
  "SaveActualDeliveryDateAsOutDate w session newOutDate sit =
     (case FetchShipment w session (si_ShipmentID sit) of
        Ret shipment \<Rightarrow> (let shipment = shipment\<lparr>shp_ActualDeliveryDate := Some newOutDate\<rparr>
          in case w_save_shipment w shipment of (ve, err) \<Rightarrow>
             if ve \<noteq> [] \<or> err \<noteq> None then (w, ve, errors_Wrap err ''Error saving shipment'')
             else (w\<lparr>w_shipments := map (\<lambda>s. if shp_ID s = shp_ID shipment then shipment else s) (w_shipments w)\<rparr>, [], None))
      | _ \<Rightarrow> (w, [], None))"

definition PatchStorageInTransit :: "sit_payload \<Rightarrow> uuid \<Rightarrow> uuid \<Rightarrow> Session \<Rightarrow> sit_world \<Rightarrow> sit_run" where
  "PatchStorageInTransit payload shipmentID storageInTransitID session w =
     on_ret w (authorizeStorageInTransitHTTPRequest w session shipmentID True) (\<lambda>isAuthorized.
     if \<not> isAuthorized then fail_with w ErrFetchForbidden
     else on_ret w (FetchStorageInTransitByID w storageInTransitID) (\<lambda>sit.
       on_ret w (patchStorageInTransitWithPayload sit payload) (\<lambda>sit.
       obind (SaveStorageInTransitAndAddress w sit) (\<lambda>(w', saved, ve, err).
         case saved of
           None \<Rightarrow> Ret (w', None, ve, err)
         | Some sit \<Rightarrow>
             (if IsTspUser session then
                obind (deref (py_OutDate payload)) (\<lambda>outDate.
                case SaveActualDeliveryDateAsOutDate w' session outDate sit of (w'', ve, err) \<Rightarrow>
                  Ret (w'', Some sit, ve, err))
              else Ret (w', Some sit, [], None))))))"

definition DeleteStorageInTransit :: "uuid \<Rightarrow> uuid \<Rightarrow> Session \<Rightarrow> sit_world \<Rightarrow> sit_run" where
  "DeleteStorageInTransit shipmentID storageInTransitID session w =
     on_ret w (authorizeStorageInTransitHTTPRequest w session shipmentID False) (\<lambda>isAuthorized.
     if \<not> isAuthorized then fail_with w ErrFetchForbidden
     else on_ret w (FetchStorageInTransitByID w storageInTransitID) (\<lambda>sit.
       case w_destroy w sit of
         Some e \<Rightarrow> fail_with w e
       | None \<Rightarrow> Ret (w\<lparr>w_sits := filter (\<lambda>r. si_ID r \<noteq> si_ID sit) (w_sits w)\<rparr>, Some sit, [], None)))"

definition FetchStorageInTransitService :: "uuid \<Rightarrow> uuid \<Rightarrow> Session \<Rightarrow> sit_world \<Rightarrow> StorageInTransit result" where
  "FetchStorageInTransitService storageInTransitID shipmentID session w =
     obind (authorizeStorageInTransitHTTPRequest w session shipmentID True) (\<lambda>isAuthorized.
     if \<not> isAuthorized then Fail ErrFetchForbidden else FetchStorageInTransitByID w storageInTransitID)"

definition IndexStorageInTransits :: "uuid \<Rightarrow> Session \<Rightarrow> sit_world \<Rightarrow> StorageInTransit list result" where
  "IndexStorageInTransits shipmentID session w =
     obind (authorizeStorageInTransitHTTPRequest w session shipmentID True) (\<lambda>isUserAuthorized.
     if \<not> isUserAuthorized then Fail ErrFetchForbidden else Ret (FetchStorageInTransitsOnShipment (w_sits w) shipmentID))"

section \<open>The contract of a service\<close>

text \<open>
  What a service that works on one SIT promises: a run that reports an error or validation errors
  leaves the SIT table as it was, and a run changes no row but the one it was asked for.
\<close>

definition other_rows :: "uuid \<Rightarrow> StorageInTransit list \<Rightarrow> StorageInTransit list" where
  "other_rows i rows = filter (\<lambda>r. si_ID r \<noteq> i) rows"

locale sit_service =
  fixes run :: "'arg \<Rightarrow> uuid \<Rightarrow> sit_world \<Rightarrow> sit_run"
  assumes failed: "run a i w = Ret (w', None, ve, err) \<Longrightarrow> w_sits w' = w_sits w"
    and frame: "run a i w = Ret (w', r, ve, err) \<Longrightarrow> other_rows i (w_sits w') = other_rows i (w_sits w)"
begin

lemma unchanged_row: "run a i w = Ret (w', r, ve, err) \<Longrightarrow> si_ID s \<noteq> i \<Longrightarrow> s \<in> set (w_sits w') \<longleftrightarrow> s \<in> set (w_sits w)"
  using frame [of a i w w' r ve err] by (auto simp: other_rows_def dest!: arg_cong [of _ _ set])

end

lemma other_rows_put: "si_ID sit = i \<Longrightarrow> other_rows i (put_sit sit rows) = other_rows i rows"
  by (induction rows) (auto simp: other_rows_def put_sit_def)

lemma fail_with_eq [simp]: "fail_with w e = Ret (w', r, ve, err) \<longleftrightarrow> w' = w \<and> r = None \<and> ve = [] \<and> err = Some e"
  by (auto simp: fail_with_def)

lemma on_ret_eq: "on_ret w r k = Ret y \<longleftrightarrow> (\<exists>x. r = Ret x \<and> k x = Ret y) \<or> (\<exists>e. r = Fail e \<and> y = (w, None, [], Some e))"
  by (auto simp: on_ret_def fail_with_def split: outcome.split)

lemma save_sit_eq: "save_sit w sit = Ret (w', r, ve, err) \<longleftrightarrow>
    w_save w sit = ([], None) \<and> w' = w\<lparr>w_sits := put_sit sit (w_sits w)\<rparr> \<and> r = Some sit \<and> ve = [] \<and> err = None
    \<or> w_save w sit \<noteq> ([], None) \<and> w' = w \<and> r = None \<and> w_save w sit = (ve, err)"
  by (auto simp: save_sit_def split: prod.splits)

lemma fetched_sit: "FetchStorageInTransitByID w i = Ret s \<Longrightarrow> s \<in> set (w_sits w) \<and> si_ID s = i"
  unfolding FetchStorageInTransitByID_def map_fail_eq_Ret by (rule first_row_filter_Ret)

lemma authorize_True: "authorizeStorageInTransitHTTPRequest w ss sh office = Ret b \<Longrightarrow> b"
  by (auto simp: authorizeStorageInTransitHTTPRequest_def outcome_simps split: if_splits)

lemmas service_simps = on_ret_eq save_sit_eq outcome_simps

interpretation approve: sit_service "\<lambda>(p, sh, ss). ApproveStorageInTransit p sh ss"
  by unfold_locales
    (auto simp: ApproveStorageInTransit_def service_simps other_rows_put dest!: fetched_sit authorize_True split: if_splits)

interpretation deny: sit_service "\<lambda>(p, sh, ss). DenyStorageInTransit p sh ss"
  by unfold_locales
    (auto simp: DenyStorageInTransit_def service_simps other_rows_put dest!: fetched_sit authorize_True split: if_splits)

lemma PlaceIntoSIT_cases:
  assumes "PlaceIntoSITStorageInTransit t sh ss i w = Ret (w', r, ve, err)"
  obtains (refused) "w_sits w' = w_sits w" "r = None"
  | (saved) sit tr n where "FetchStorageInTransitByID w i = Ret sit" "si_ShipmentID sit = sh" "si_Status sit = SITStatusAPPROVED"
      "authorizeStorageInTransitHTTPRequest w ss sh False = Ret True"
      "GenerateStorageInTransitNumber (w_tracker w) t = (tr, Ret n)"
      "w' = w\<lparr>w_tracker := tr, w_sits := put_sit (sit\<lparr>si_Status := SITStatusINSIT,
         si_ActualStartDate := Some t, si_SITNumber := Some n\<rparr>) (w_sits w)\<rparr>"
      "r = Some (sit\<lparr>si_Status := SITStatusINSIT, si_ActualStartDate := Some t, si_SITNumber := Some n\<rparr>)"
      "ve = []" "err = None"
proof (cases "authorizeStorageInTransitHTTPRequest w ss sh False")
  case (Ret b)
  then have b: "authorizeStorageInTransitHTTPRequest w ss sh False = Ret True" using authorize_True [OF Ret] Ret by simp
  show ?thesis
  proof (cases "FetchStorageInTransitByID w i")
    case (Ret sit)
    obtain tr x where g: "GenerateStorageInTransitNumber (w_tracker w) t = (tr, x)" by fastforce
    show ?thesis
      using assms saved [OF Ret _ _ b] refused
      by (cases x) (auto simp: PlaceIntoSITStorageInTransit_def on_ret_def b Ret g save_sit_eq split: if_splits)
  qed (use assms refused in \<open>auto simp: PlaceIntoSITStorageInTransit_def on_ret_def b\<close>)
qed (use assms refused in \<open>auto simp: PlaceIntoSITStorageInTransit_def on_ret_def\<close>)

lemma place_rows:
  assumes "PlaceIntoSITStorageInTransit t sh ss i w = Ret (w', r, ve, err)"
  shows "w_sits w' = w_sits w \<and> r = None
    \<or> (\<exists>sit. w_sits w' = put_sit sit (w_sits w) \<and> r = Some sit \<and> si_ID sit = i)"
  using assms by (cases rule: PlaceIntoSIT_cases) (auto dest: fetched_sit)

interpretation place: sit_service "\<lambda>(p, sh, ss). PlaceIntoSITStorageInTransit p sh ss"
  by unfold_locales (auto simp: other_rows_put dest: place_rows)

interpretation release: sit_service "\<lambda>(p, sh, ss). ReleaseStorageInTransit p sh ss"
  by unfold_locales
    (auto simp: ReleaseStorageInTransit_def service_simps other_rows_put dest!: fetched_sit authorize_True split: if_splits)

interpretation delete: sit_service "\<lambda>(sh, ss) i. DeleteStorageInTransit sh i ss"
  by unfold_locales
    (auto simp: DeleteStorageInTransit_def service_simps other_rows_def dest!: fetched_sit authorize_True split: if_splits option.splits)

lemma Approve_cases:
  assumes "ApproveStorageInTransit p sh ss i w = Ret (w', Some t, ve, err)"
  obtains sit where "IsOfficeUser ss" "FetchStorageInTransitByID w i = Ret sit" "si_ShipmentID sit = sh"
    "si_Status sit \<noteq> SITStatusDELIVERED" "w' = w\<lparr>w_sits := put_sit t (w_sits w)\<rparr>"
    "t = sit\<lparr>si_Status := SITStatusAPPROVED, si_AuthorizationNotes := fst p, si_AuthorizedStartDate := Some (snd p)\<rparr>"
  using assms by (auto simp: ApproveStorageInTransit_def on_ret_eq save_sit_eq outcome_simps split: if_splits)

lemma Deny_cases:
  assumes "DenyStorageInTransit p sh ss i w = Ret (w', Some t, ve, err)"
  obtains sit where "IsOfficeUser ss" "FetchStorageInTransitByID w i = Ret sit" "si_ShipmentID sit = sh"
    "si_Status sit \<noteq> SITStatusDELIVERED" "w' = w\<lparr>w_sits := put_sit t (w_sits w)\<rparr>"
    "t = sit\<lparr>si_Status := SITStatusDENIED, si_AuthorizationNotes := Some p\<rparr>"
  using assms by (auto simp: DenyStorageInTransit_def on_ret_eq save_sit_eq outcome_simps split: if_splits)

lemma Release_cases:
  assumes "ReleaseStorageInTransit d sh ss i w = Ret (w', Some t, ve, err)"
  obtains sit where "authorizeStorageInTransitHTTPRequest w ss sh False = Ret True"
    "FetchStorageInTransitByID w i = Ret sit" "si_Location sit = SITLocationORIGIN"
    "si_Status sit = SITStatusINSIT \<or> si_Status sit = SITStatusDELIVERED"
    "w' = w\<lparr>w_sits := put_sit t (w_sits w)\<rparr>" "t = sit\<lparr>si_Status := SITStatusRELEASED, si_OutDate := Some d\<rparr>"
proof (cases "authorizeStorageInTransitHTTPRequest w ss sh False")
  case (Ret b)
  then have "authorizeStorageInTransitHTTPRequest w ss sh False = Ret True" using authorize_True [OF Ret] Ret by simp
  with assms that show ?thesis
    by (auto simp: ReleaseStorageInTransit_def on_ret_eq save_sit_eq outcome_simps split: if_splits)
qed (use assms in \<open>auto simp: ReleaseStorageInTransit_def on_ret_def fail_with_def\<close>)

text \<open>An authorized TSP request: the user's provider was offered the shipment.\<close>

definition tsp_authorized :: "sit_world \<Rightarrow> Session \<Rightarrow> uuid \<Rightarrow> bool" where
  "tsp_authorized w ss sh \<longleftrightarrow> IsTspUser ss \<and> (\<exists>tsp s. w_tsp_users w (ss_TspUserID ss) = Some tsp
     \<and> s \<in> set (w_shipments w) \<and> shp_ID s = sh \<and> (tsp, sh) \<in> set (w_offers w))"

lemma FetchShipmentByTSP_offered:
  assumes "FetchShipmentByTSP w tsp sh = Ret s"
  shows "s \<in> set (w_shipments w) \<and> shp_ID s = sh \<and> (tsp, sh) \<in> set (w_offers w)"
proof -
  have "concat (map (\<lambda>s. map (\<lambda>_. s) (filter (\<lambda>(t, i). i = shp_ID s \<and> t = tsp \<and> shp_ID s = sh) (w_offers w)))
      (w_shipments w)) = [s]" (is "?l = _")
    using assms unfolding FetchShipmentByTSP_def by (simp split: list.split_asm)
  then have "s \<in> set ?l" by (simp only: list.set) simp
  then show ?thesis by auto
qed

lemma authorize_tsp:
  assumes "authorizeStorageInTransitHTTPRequest w ss sh False = Ret True"
  shows "tsp_authorized w ss sh"
  using assms
  by (auto simp: authorizeStorageInTransitHTTPRequest_def FetchShipmentForVerifiedTSPUser_def FetchTspUserByID_def
      tsp_authorized_def outcome_simps split: if_splits option.splits dest!: FetchShipmentByTSP_offered)

text \<open>A delivered SIT is a destination SIT.\<close>

definition delivered_at_destination :: "StorageInTransit list \<Rightarrow> bool" where
  "delivered_at_destination rows \<longleftrightarrow>
     (\<forall>s \<in> set rows. si_Status s = SITStatusDELIVERED \<longrightarrow> si_Location s = SITLocationDESTINATION)"

lemma delivered_put:
  assumes "delivered_at_destination rows" "si_Status t \<noteq> SITStatusDELIVERED"
  shows "delivered_at_destination (put_sit t rows)"
  using assms by (auto simp: delivered_at_destination_def put_sit_def)

lemma service_reply_cases:
  assumes "sit_service run" "run a i w = Ret (w', r, ve, err)"
    "\<And>t. r = Some t \<Longrightarrow> w_sits w' = put_sit t (w_sits w) \<and> si_Status t \<noteq> SITStatusDELIVERED"
    "delivered_at_destination (w_sits w)"
  shows "delivered_at_destination (w_sits w')"
proof (cases r)
  case None
  then show ?thesis using assms(2,4) sit_service.failed [OF assms(1), of a i w w' ve err] by simp
next
  case (Some t)
  with assms(3,4) show ?thesis by (simp add: delivered_put)
qed

lemma approve_delivered:
  assumes "ApproveStorageInTransit p sh ss i w = Ret (w', r, ve, err)" "delivered_at_destination (w_sits w)"
  shows "delivered_at_destination (w_sits w')"
  using assms Approve_cases [of p sh ss i w w' _ ve err]
  by (intro service_reply_cases [OF approve.sit_service_axioms, of "(p, sh, ss)" i w w' r ve err]) fastforce+

lemma deny_delivered:
  assumes "DenyStorageInTransit p sh ss i w = Ret (w', r, ve, err)" "delivered_at_destination (w_sits w)"
  shows "delivered_at_destination (w_sits w')"
  using assms Deny_cases [of p sh ss i w w' _ ve err]
  by (intro service_reply_cases [OF deny.sit_service_axioms, of "(p, sh, ss)" i w w' r ve err]) fastforce+

lemma release_delivered:
  assumes "ReleaseStorageInTransit p sh ss i w = Ret (w', r, ve, err)" "delivered_at_destination (w_sits w)"
  shows "delivered_at_destination (w_sits w')"
  using assms Release_cases [of p sh ss i w w' _ ve err]
  by (intro service_reply_cases [OF release.sit_service_axioms, of "(p, sh, ss)" i w w' r ve err]) fastforce+

lemma place_delivered:
  assumes "PlaceIntoSITStorageInTransit p sh ss i w = Ret (w', r, ve, err)" "delivered_at_destination (w_sits w)"
  shows "delivered_at_destination (w_sits w')"
  using assms(1)
  by (cases rule: PlaceIntoSIT_cases) (use assms(2) in \<open>auto intro!: delivered_put\<close>)

section \<open>Steps of the SIT table\<close>

text \<open>One run of a service other than Patch, or the delivery of a shipment (\<open>Shipment.Deliver\<close>,
  whose SITs are then saved).\<close>

inductive sit_step :: "sit_world \<Rightarrow> sit_world \<Rightarrow> bool" where
  step_create: "CreateStorageInTransit p sh ss w = Ret (w', r) \<Longrightarrow> sit_step w w'"
| step_approve: "ApproveStorageInTransit p sh ss i w = Ret (w', r) \<Longrightarrow> sit_step w w'"
| step_deny: "DenyStorageInTransit n sh ss i w = Ret (w', r) \<Longrightarrow> sit_step w w'"
| step_place: "PlaceIntoSITStorageInTransit t sh ss i w = Ret (w', r) \<Longrightarrow> sit_step w w'"
| step_release: "ReleaseStorageInTransit t sh ss i w = Ret (w', r) \<Longrightarrow> sit_step w w'"
| step_delete: "DeleteStorageInTransit sh i ss w = Ret (w', r) \<Longrightarrow> sit_step w w'"
| step_deliver: "w' = w\<lparr>w_sits := map (\<lambda>r. if si_ShipmentID r = sh then fst (deliver_sit d r) else r) (w_sits w)\<rparr>
    \<Longrightarrow> sit_step w w'"

inductive_cases sit_stepE: "sit_step w w'"

lemma create_rows:
  assumes "CreateStorageInTransit p sh ss w = Ret (w', r)" "delivered_at_destination (w_sits w)"
  shows "delivered_at_destination (w_sits w')"
proof -
  have new: "si_Status sit = SITStatusREQUESTED" if "processStorageInTransitInput sh p = Ret sit" for sit
    using that by (auto simp: processStorageInTransitInput_def outcome_simps)
  have saved: "delivered_at_destination (w_sits w')"
    if "SaveStorageInTransitAndAddress w sit = Ret (w', r)" "si_Status sit = SITStatusREQUESTED" for sit
    using that assms(2)
    by (auto simp: SaveStorageInTransitAndAddress_def Let_def delivered_at_destination_def put_sit_def
        split: prod.splits if_splits)
  show ?thesis
  proof (cases "authorizeStorageInTransitHTTPRequest w ss sh False")
    case (Ret b)
    then have b: "authorizeStorageInTransitHTTPRequest w ss sh False = Ret True" using authorize_True [OF Ret] Ret by simp
    show ?thesis
      using assms(1) saved new assms(2)
      by (cases "processStorageInTransitInput sh p")
        (auto simp: CreateStorageInTransit_def on_ret_def b fail_with_def)
  qed (use assms in \<open>auto simp: CreateStorageInTransit_def on_ret_def fail_with_def\<close>)
qed

lemma delete_rows:
  assumes "DeleteStorageInTransit sh i ss w = Ret (w', r)" "delivered_at_destination (w_sits w)"
  shows "delivered_at_destination (w_sits w')"
  using assms
  by (auto simp: DeleteStorageInTransit_def on_ret_def fail_with_def delivered_at_destination_def
      split: outcome.splits option.splits if_splits)

lemma sit_step_delivered: "sit_step w w' \<Longrightarrow> delivered_at_destination (w_sits w) \<Longrightarrow> delivered_at_destination (w_sits w')"
proof (induction rule: sit_step.induct)
  case (step_deliver w' w sh d)
  then show ?case
    by (auto simp: delivered_at_destination_def deliver_sit_def StorageInTransit_Deliver_def)
next
  case (step_create p sh ss w w' r)
  then show ?case by (rule create_rows)
next
  case (step_approve p sh ss i w w' r)
  then show ?case by (cases r) (auto intro: approve_delivered)
next
  case (step_deny n sh ss i w w' r)
  then show ?case by (cases r) (auto intro: deny_delivered)
next
  case (step_place t sh ss i w w' r)
  then show ?case by (cases r) (auto intro: place_delivered)
next
  case (step_release t sh ss i w w' r)
  then show ?case by (cases r) (auto intro: release_delivered)
next
  case (step_delete sh i ss w w' r)
  then show ?case by (rule delete_rows)
qed

lemma sit_steps_delivered:
  "sit_step\<^sup>*\<^sup>* w w' \<Longrightarrow> delivered_at_destination (w_sits w) \<Longrightarrow> delivered_at_destination (w_sits w')"
  by (induction rule: rtranclp_induct) (auto intro: sit_step_delivered)

section \<open>Properties\<close>

text \<open>C4: a SIT is approved or denied only by an office user, and placed into SIT only by a user of a
  provider that was offered its shipment, and only for the shipment the SIT belongs to; approval and
  denial apply to every SIT that is not delivered, placement to approved ones, and a run that returns
  no SIT leaves the table unchanged.\<close>

theorem sit_status_authorized:
  "(ApproveStorageInTransit p sh ss i w = Ret (w', Some t, ve, err) \<or> DenyStorageInTransit n sh ss i w = Ret (w', Some t, ve, err)
      \<longrightarrow> IsOfficeUser ss \<and> si_ShipmentID t = sh \<and> w_sits w' = put_sit t (w_sits w)
        \<and> (\<exists>s \<in> set (w_sits w). si_ID s = i \<and> si_Status s \<noteq> SITStatusDELIVERED))
   \<and> (PlaceIntoSITStorageInTransit d sh ss i w = Ret (w', Some t, ve, err)
      \<longrightarrow> tsp_authorized w ss sh \<and> si_ShipmentID t = sh \<and> w_sits w' = put_sit t (w_sits w) \<and> si_Status t = SITStatusINSIT
        \<and> (\<exists>s \<in> set (w_sits w). si_ID s = i \<and> si_Status s = SITStatusAPPROVED))
   \<and> (ApproveStorageInTransit p sh ss i w = Ret (w', None, ve, err) \<or> DenyStorageInTransit n sh ss i w = Ret (w', None, ve, err)
        \<or> PlaceIntoSITStorageInTransit d sh ss i w = Ret (w', None, ve, err)
      \<longrightarrow> w_sits w' = w_sits w)"
proof (intro conjI impI)
  assume "ApproveStorageInTransit p sh ss i w = Ret (w', None, ve, err) \<or> DenyStorageInTransit n sh ss i w = Ret (w', None, ve, err)
    \<or> PlaceIntoSITStorageInTransit d sh ss i w = Ret (w', None, ve, err)"
  then show "w_sits w' = w_sits w"
    using approve.failed [of "(p, sh, ss)" i w w' ve err] deny.failed [of "(n, sh, ss)" i w w' ve err]
      place.failed [of "(d, sh, ss)" i w w' ve err] by auto
qed (auto elim!: Approve_cases Deny_cases PlaceIntoSIT_cases dest: authorize_tsp fetched_sit)

text \<open>As long as SITs change only through deliveries and the services other than
  Patch (a patch may move a SIT to the other location), no SIT at origin is ever delivered, so
  releasing a SIT never undoes a delivery: it succeeds only for a SIT that is in SIT, and the case of
  a delivered SIT in its condition never applies.\<close>

theorem release_never_undoes_delivery:
  assumes "sit_step\<^sup>*\<^sup>* w0 w" "w_sits w0 = []"
  shows "(\<forall>s \<in> set (w_sits w). si_Status s = SITStatusDELIVERED \<longrightarrow> si_Location s = SITLocationDESTINATION)
    \<and> (ReleaseStorageInTransit d sh ss i w = Ret (w', Some t, ve, err) \<longrightarrow>
         (\<exists>s \<in> set (w_sits w). si_ID s = i \<and> si_Status s = SITStatusINSIT \<and> si_Location s = SITLocationORIGIN))"
proof -
  have inv: "delivered_at_destination (w_sits w)"
    using sit_steps_delivered [OF assms(1)] assms(2) by (simp add: delivered_at_destination_def)
  then show ?thesis
    by (auto simp: delivered_at_destination_def elim!: Release_cases dest!: fetched_sit)
qed

definition sample_sit :: StorageInTransit where
  "sample_sit = \<lparr>si_ID = 3, si_ShipmentID = 8, si_SITNumber = None, si_Status = SITStatusINSIT,
     si_Location = SITLocationORIGIN, si_EstimatedStartDate = 0, si_AuthorizedStartDate = Some 0,
     si_ActualStartDate = Some 0, si_OutDate = None, si_Notes = None, si_AuthorizationNotes = None,
     si_WarehouseID = ''W'', si_WarehouseName = ''N'', si_WarehouseAddressID = 1, si_WarehousePhone = None,
     si_WarehouseEmail = None, si_StorageInTransitDistanceID = None, si_StorageInTransitDistance = None,
     si_WarehouseAddress = zero_address\<rparr>"

definition sample_tsp_session :: Session where
  "sample_tsp_session = \<lparr>ss_ApplicationName = TspApp, ss_Hostname = '''', ss_IDToken = '''', ss_UserID = 4,
     ss_Email = '''', ss_FirstName = '''', ss_Middle = '''', ss_LastName = '''', ss_ServiceMemberID = 0,
     ss_OfficeUserID = 0, ss_TspUserID = 5, ss_AdminUserID = 0, ss_AdminUserRole = '''', ss_DpsUserID = 0\<rparr>"

definition sample_office_session :: Session where
  "sample_office_session = sample_tsp_session\<lparr>ss_ApplicationName := OfficeApp, ss_OfficeUserID := 6, ss_TspUserID := 0\<rparr>"

definition sample_world :: sit_world where
  "sample_world = \<lparr>w_sits = [sample_sit], w_tsp_users = Map.empty(5 \<mapsto> 9), w_offers = [(9, 7)],
     w_shipments = [sample_shipment, sample_shipment\<lparr>shp_ID := 8\<rparr>], w_owner = Map.empty, w_tracker = Map.empty,
     w_save = (\<lambda>_. ([], None)), w_save_address = (\<lambda>_. ([], None)), w_save_shipment = (\<lambda>_. ([], None)),
     w_destroy = (\<lambda>_. None), w_new_id = 20, w_new_address_id = 21\<rparr>"

lemma sample_world_simps:
  "FetchStorageInTransitByID sample_world 3 = Ret sample_sit"
  "authorizeStorageInTransitHTTPRequest sample_world sample_tsp_session 7 office = Ret True"
  "w_sits sample_world = [sample_sit]" "w_save sample_world = (\<lambda>_. ([], None))" "w_destroy sample_world = (\<lambda>_. None)"
  "\<not> tsp_authorized sample_world sample_tsp_session 8"
  by (simp_all add: sample_world_def FetchStorageInTransitByID_def sample_sit_def authorizeStorageInTransitHTTPRequest_def
      FetchShipmentForVerifiedTSPUser_def FetchTspUserByID_def FetchShipmentByTSP_def sample_tsp_session_def
      sample_shipment_def Shipment.defs IsTspUser_def uuid_Nil_def tsp_authorized_def)

theorem sit_status_authorized_witness:
  "\<exists>w'. ApproveStorageInTransit (None, 5) 8 sample_office_session 3 sample_world =
      Ret (w', Some (sample_sit\<lparr>si_Status := SITStatusAPPROVED, si_AuthorizationNotes := None, si_AuthorizedStartDate := Some 5\<rparr>), [], None)
    \<and> w_sits w' = [sample_sit\<lparr>si_Status := SITStatusAPPROVED, si_AuthorizationNotes := None, si_AuthorizedStartDate := Some 5\<rparr>]"
proof -
  let ?t = "sample_sit\<lparr>si_Status := SITStatusAPPROVED, si_AuthorizationNotes := None, si_AuthorizedStartDate := Some 5\<rparr>"
  let ?w = "sample_world\<lparr>w_sits := put_sit ?t [sample_sit]\<rparr>"
  have run: "ApproveStorageInTransit (None, 5) 8 sample_office_session 3 sample_world = Ret (?w, Some ?t, [], None)"
    by (simp add: ApproveStorageInTransit_def on_ret_def sample_world_simps save_sit_def IsOfficeUser_def
        sample_office_session_def sample_tsp_session_def uuid_Nil_def) (simp add: sample_sit_def)
  have "w_sits ?w = put_sit ?t (w_sits sample_world)"
    using sit_status_authorized [THEN conjunct1, of "(None, 5)" 8 sample_office_session 3 sample_world ?w ?t "[]" None] run
    by blast
  then show ?thesis using run by (intro exI [of _ ?w]) (simp add: put_sit_def sample_sit_def sample_world_simps)
qed

definition sample_request :: sit_payload where
  "sample_request = \<lparr>py_Location = Some ''ORIGIN'', py_EstimatedStartDate = None, py_Notes = None,
     py_WarehouseID = Some ''W'', py_WarehouseName = None, py_WarehouseAddress = None, py_WarehousePhone = None,
     py_WarehouseEmail = None, py_ActualStartDate = None, py_OutDate = None\<rparr>"

theorem release_never_undoes_delivery_witness:
  "\<exists>w t. CreateStorageInTransit sample_request 7 sample_tsp_session (sample_world\<lparr>w_sits := []\<rparr>) = Ret (w, Some t, [], None)
     \<and> w_sits w = [t] \<and> list_all (\<lambda>s. si_Status s = SITStatusDELIVERED \<longrightarrow> si_Location s = SITLocationDESTINATION) (w_sits w)"
proof -
  let ?w0 = "sample_world\<lparr>w_sits := []\<rparr>"
  have auth: "authorizeStorageInTransitHTTPRequest ?w0 sample_tsp_session 7 False = Ret True"
    by (simp add: sample_world_def authorizeStorageInTransitHTTPRequest_def
        FetchShipmentForVerifiedTSPUser_def FetchTspUserByID_def FetchShipmentByTSP_def sample_tsp_session_def
        sample_shipment_def Shipment.defs IsTspUser_def uuid_Nil_def)
  obtain sit where new: "processStorageInTransitInput 7 sample_request = Ret sit" "si_ID sit = uuid_Nil"
    by (simp add: processStorageInTransitInput_def sample_request_def)
  have saves: "w_save ?w0 = (\<lambda>_. ([], None))" "w_save_address ?w0 = (\<lambda>_. ([], None))" by (simp_all add: sample_world_def)
  obtain w t where run: "CreateStorageInTransit sample_request 7 sample_tsp_session ?w0 = Ret (w, Some t, [], None)"
    and w: "w_sits w = [t]"
    by (simp add: CreateStorageInTransit_def on_ret_def auth new SaveStorageInTransitAndAddress_def saves Let_def)
  have "sit_step\<^sup>*\<^sup>* ?w0 w" by (rule r_into_rtranclp, rule step_create [OF run])
  then show ?thesis
    using release_never_undoes_delivery [of ?w0 w, THEN conjunct1] run w by (auto simp: list_all_iff)
qed

text \<open>Releasing and deleting a SIT do not test that it belongs to the shipment of the request: a
  provider's user who is authorized for any one shipment can release every origin SIT that is in SIT,
  and delete every SIT, of any other shipment.\<close>

theorem sit_of_another_shipment:
  assumes "authorizeStorageInTransitHTTPRequest w ss sh False = Ret True" "FetchStorageInTransitByID w i = Ret sit"
    "w_save w (sit\<lparr>si_Status := SITStatusRELEASED, si_OutDate := Some d\<rparr>) = ([], None)" "w_destroy w sit = None"
    "si_Location sit = SITLocationORIGIN" "si_Status sit = SITStatusINSIT"
  shows "ReleaseStorageInTransit d sh ss i w = Ret (w\<lparr>w_sits := put_sit (sit\<lparr>si_Status := SITStatusRELEASED, si_OutDate := Some d\<rparr>) (w_sits w)\<rparr>,
      Some (sit\<lparr>si_Status := SITStatusRELEASED, si_OutDate := Some d\<rparr>), [], None)
    \<and> DeleteStorageInTransit sh i ss w = Ret (w\<lparr>w_sits := other_rows i (w_sits w)\<rparr>, Some sit, [], None)"
  using assms fetched_sit [OF assms(2)]
  by (simp add: ReleaseStorageInTransit_def DeleteStorageInTransit_def on_ret_def save_sit_def other_rows_def)

theorem sit_of_another_shipment_witness:
  "\<not> tsp_authorized sample_world sample_tsp_session (si_ShipmentID sample_sit)
   \<and> DeleteStorageInTransit 7 3 sample_tsp_session sample_world = Ret (sample_world\<lparr>w_sits := []\<rparr>, Some sample_sit, [], None)"
proof -
  have "DeleteStorageInTransit 7 3 sample_tsp_session sample_world
      = Ret (sample_world\<lparr>w_sits := other_rows 3 (w_sits sample_world)\<rparr>, Some sample_sit, [], None)"
    using sit_of_another_shipment [OF sample_world_simps(2,1), of 0]
    by (simp add: sample_world_simps) (simp add: sample_sit_def)
  then show ?thesis by (simp add: sample_world_simps other_rows_def sample_sit_def)
qed

lemma SaveStorageInTransitAndAddress_ok:
  assumes "w_save_address w = (\<lambda>_. ([], None))" "w_save w = (\<lambda>_. ([], None))"
  shows "\<exists>w' t. SaveStorageInTransitAndAddress w sit = Ret (w', Some t, [], None)"
  using assms by (auto simp: SaveStorageInTransitAndAddress_def Let_def)

text \<open>A provider's user who patches a SIT without an out date gets a panic (the date is dereferenced
  once the SIT is saved), where an office user's patch with the same payload succeeds.\<close>

theorem patch_without_out_date:
  assumes "authorizeStorageInTransitHTTPRequest w ss sh True = Ret True" "FetchStorageInTransitByID w i = Ret sit"
    "patchStorageInTransitWithPayload sit p = Ret sit'" "py_OutDate p = None"
    "w_save_address w = (\<lambda>_. ([], None))" "w_save w = (\<lambda>_. ([], None))"
  shows "if IsTspUser ss then PatchStorageInTransit p sh i ss w = Panic
    else (\<exists>w' t. PatchStorageInTransit p sh i ss w = Ret (w', Some t, [], None))"
  using assms SaveStorageInTransitAndAddress_ok [OF assms(5,6), of sit']
  by (auto simp: PatchStorageInTransit_def on_ret_def)

definition sample_payload :: sit_payload where
  "sample_payload = \<lparr>py_Location = Some ''ORIGIN'', py_EstimatedStartDate = None, py_Notes = Some ''moved'',
     py_WarehouseID = None, py_WarehouseName = None, py_WarehouseAddress = None, py_WarehousePhone = None,
     py_WarehouseEmail = None, py_ActualStartDate = None, py_OutDate = None\<rparr>"

theorem patch_without_out_date_witness:
  "PatchStorageInTransit sample_payload 7 3 sample_tsp_session sample_world = Panic"
proof -
  obtain sit' where "patchStorageInTransitWithPayload sample_sit sample_payload = Ret sit'"
    by (simp add: patchStorageInTransitWithPayload_def sample_payload_def)
  moreover have "IsTspUser sample_tsp_session" by (simp add: IsTspUser_def sample_tsp_session_def uuid_Nil_def)
  moreover have "w_save_address sample_world = (\<lambda>_. ([], None))" by (simp add: sample_world_def)
  moreover have "py_OutDate sample_payload = None" by (simp add: sample_payload_def)
  ultimately show ?thesis
    using patch_without_out_date [OF sample_world_simps(2,1) _ _ _ sample_world_simps(4), of sample_payload sit'] by simp
qed

end
