(* ===== verification/LineItems.thy ===== *)
theory LineItems
  imports StorageService "HOL-Library.Multiset"
begin

text \<open>
  The line items of a shipment (\<open>pkg/models/shipment_line_item.go\<close>, the line item operations of
  \<open>shipment.go\<close> and \<open>robust_accessorial_line_item.go\<close>): the base and the storage in transit codes,
  the set of base items a priced shipment must have, creation, update, deletion and the saving of a
  priced shipment.  The database is \<open>li_world\<close>: the tables, the identifier the next new row gets, and
  what package pop decides: the validation errors and the error of saving or loading a row and the
  error of destroying one.  A transaction whose body fails leaves the tables as they were.
\<close>

section \<open>Codes and the base items\<close>

definition StorageInTransitLineItemCodes :: "string list" where
  "StorageInTransitLineItemCodes = [''185A'', ''185B'', ''210A'', ''210B'', ''210C'', ''210F'']"

definition BaseShipmentLineItemCodes :: "string list" where
  "BaseShipmentLineItemCodes = [''LHS'', ''135A'', ''135B'', ''105A'', ''105C'', ''16A'']"

definition FindBaseShipmentLineItem :: "string \<Rightarrow> bool" where
  "FindBaseShipmentLineItem code \<longleftrightarrow> list_ex (\<lambda>item. code = item) BaseShipmentLineItemCodes"

definition FindStorageInTransitShipmentLineItem :: "string \<Rightarrow> bool" where
  "FindStorageInTransitShipmentLineItem code \<longleftrightarrow> list_ex (\<lambda>base. code = base) StorageInTransitLineItemCodes"

abbreviation li_Code :: "ShipmentLineItem \<Rightarrow> string" where
  "li_Code s \<equiv> it_Code (li_Tariff400ngItem s)"

text \<open>The counters of the map \<open>m\<close>; a missing key does not occur, every counted code is a base code.\<close>

definition count_item :: "(string \<times> int) list \<Rightarrow> ShipmentLineItem \<Rightarrow> (string \<times> int) list" where
  "count_item m item =
     (if \<not> it_RequiresPreApproval (li_Tariff400ngItem item) \<and> FindBaseShipmentLineItem (li_Code item)
      then map (\<lambda>(c, n). (c, if c = li_Code item then n + 1 else n)) m else m)"

text \<open>Go visits the map in no fixed order, so which of several wrong codes the error names is not
  determined; here it is the first of the list.\<close>

primrec check_counts :: "(string \<times> int) list \<Rightarrow> unit result" where
  "check_counts [] = Ret ()"
| "check_counts (e # m) = (case e of (code, n) \<Rightarrow>
     if n \<noteq> 1
     then Fail (ErrMsg (''incorrect count for Base Shipment Line Item '' @ code
       @ '' expected count: 1, actual count: '' @ go_itoa n))
     else check_counts m)"

definition VerifyBaseShipmentLineItems :: "ShipmentLineItem list \<Rightarrow> unit result" where
  "VerifyBaseShipmentLineItems lineItems =
     check_counts (foldl count_item (map (\<lambda>code. (code, 0)) BaseShipmentLineItemCodes) lineItems)"

section \<open>The database\<close>

record li_world =
  lw_items :: "Tariff400ngItem list"
  lw_line_items :: "ShipmentLineItem list"
  lw_dims :: "ShipmentLineItemDimensions list"
  lw_addresses :: "Address list"
  lw_distances :: "DistanceCalculation list"
  lw_shipments :: "Shipment list"
  lw_sits :: "StorageInTransit list"
  lw_recalculated :: "uuid list"
  lw_fresh :: uuid
  lw_save_line_item :: "ShipmentLineItem \<Rightarrow> verrs \<times> goerr option"
  lw_save_dims :: "ShipmentLineItemDimensions \<Rightarrow> verrs \<times> goerr option"
  lw_save_address :: "Address \<Rightarrow> verrs \<times> goerr option"
  lw_save_distance :: "DistanceCalculation \<Rightarrow> verrs \<times> goerr option"
  lw_save_shipment :: "Shipment \<Rightarrow> verrs \<times> goerr option"
  lw_save_sits :: "StorageInTransit list \<Rightarrow> verrs \<times> goerr option"
  lw_load :: "ShipmentLineItem \<Rightarrow> goerr option"
  lw_destroy :: "uuid \<Rightarrow> goerr option"

text \<open>What a save leaves: the tables, the row as the caller's variable holds it, and what it returns.\<close>

type_synonym 'a saved = "li_world \<times> 'a \<times> verrs \<times> goerr option"

abbreviation rejected :: "verrs \<times> goerr option \<Rightarrow> bool" where
  "rejected r \<equiv> fst r \<noteq> [] \<or> snd r \<noteq> None"

definition create_line_item :: "li_world \<Rightarrow> ShipmentLineItem \<Rightarrow> ShipmentLineItem saved" where
  "create_line_item w li = (if rejected (lw_save_line_item w li) then (w, li, lw_save_line_item w li)
     else let li = li\<lparr>li_ID := lw_fresh w\<rparr>
          in (w\<lparr>lw_line_items := lw_line_items w @ [li], lw_fresh := lw_fresh w + 1\<rparr>, li, [], None))"

definition update_line_item :: "li_world \<Rightarrow> ShipmentLineItem \<Rightarrow> ShipmentLineItem saved" where
  "update_line_item w li = (if rejected (lw_save_line_item w li) then (w, li, lw_save_line_item w li)
     else (w\<lparr>lw_line_items := map (\<lambda>r. if li_ID r = li_ID li then li else r) (lw_line_items w)\<rparr>, li, [], None))"

definition save_line_item :: "li_world \<Rightarrow> ShipmentLineItem \<Rightarrow> ShipmentLineItem saved" where
  "save_line_item w li = (if li_ID li = uuid_Nil then create_line_item w li else update_line_item w li)"

definition create_dims :: "li_world \<Rightarrow> ShipmentLineItemDimensions \<Rightarrow> ShipmentLineItemDimensions saved" where
  "create_dims w d = (if rejected (lw_save_dims w d) then (w, d, lw_save_dims w d)
     else let d = d\<lparr>dim_ID := lw_fresh w\<rparr>
          in (w\<lparr>lw_dims := lw_dims w @ [d], lw_fresh := lw_fresh w + 1\<rparr>, d, [], None))"

definition update_dims :: "li_world \<Rightarrow> ShipmentLineItemDimensions \<Rightarrow> ShipmentLineItemDimensions saved" where
  "update_dims w d = (if rejected (lw_save_dims w d) then (w, d, lw_save_dims w d)
     else (w\<lparr>lw_dims := map (\<lambda>r. if dim_ID r = dim_ID d then d else r) (lw_dims w)\<rparr>, d, [], None))"

definition create_address :: "li_world \<Rightarrow> Address \<Rightarrow> Address saved" where
  "create_address w a = (if rejected (lw_save_address w a) then (w, a, lw_save_address w a)
     else let a = a\<lparr>ad_ID := lw_fresh w\<rparr>
          in (w\<lparr>lw_addresses := lw_addresses w @ [a], lw_fresh := lw_fresh w + 1\<rparr>, a, [], None))"

definition update_address :: "li_world \<Rightarrow> Address \<Rightarrow> Address saved" where
  "update_address w a = (if rejected (lw_save_address w a) then (w, a, lw_save_address w a)
     else (w\<lparr>lw_addresses := map (\<lambda>r. if ad_ID r = ad_ID a then a else r) (lw_addresses w)\<rparr>, a, [], None))"

definition save_distance :: "li_world \<Rightarrow> DistanceCalculation \<Rightarrow> DistanceCalculation saved" where
  "save_distance w d = (if rejected (lw_save_distance w d) then (w, d, lw_save_distance w d)
     else if dc_ID d = uuid_Nil
     then (let d = d\<lparr>dc_ID := lw_fresh w\<rparr>
           in (w\<lparr>lw_distances := lw_distances w @ [d], lw_fresh := lw_fresh w + 1\<rparr>, d, [], None))
     else (w\<lparr>lw_distances := map (\<lambda>r. if dc_ID r = dc_ID d then d else r) (lw_distances w)\<rparr>, d, [], None))"

definition save_shipment :: "li_world \<Rightarrow> Shipment \<Rightarrow> Shipment saved" where
  "save_shipment w s = (if rejected (lw_save_shipment w s) then (w, s, lw_save_shipment w s)
     else (w\<lparr>lw_shipments := map (\<lambda>r. if shp_ID r = shp_ID s then s else r) (lw_shipments w)\<rparr>, s, [], None))"

definition SaveShipment :: "li_world \<Rightarrow> Shipment \<Rightarrow> Shipment saved" where
  "SaveShipment w s = (case save_shipment w s of (w', s', ve, err) \<Rightarrow>
     if ve \<noteq> [] \<or> err \<noteq> None then (w', s', ve, errors_Wrap err ''Error saving shipment'') else (w', s', ve, None))"

section \<open>Destroying a line item\<close>

definition BeforeDestroy :: "ShipmentLineItem \<Rightarrow> goerr option" where
  "BeforeDestroy s = (if li_InvoiceID s \<noteq> None then Some ErrDestroyForbidden else None)"

definition destroy_dims :: "ShipmentLineItemDimensions \<Rightarrow> li_world \<Rightarrow> li_world call" where
  "destroy_dims d w = (case lw_destroy w (dim_ID d) of Some e \<Rightarrow> (w, Some e)
     | None \<Rightarrow> (w\<lparr>lw_dims := filter (\<lambda>r. dim_ID r \<noteq> dim_ID d) (lw_dims w)\<rparr>, None))"

definition destroy_address :: "Address \<Rightarrow> li_world \<Rightarrow> li_world call" where
  "destroy_address a w = (case lw_destroy w (ad_ID a) of Some e \<Rightarrow> (w, Some e)
     | None \<Rightarrow> (w\<lparr>lw_addresses := filter (\<lambda>r. ad_ID r \<noteq> ad_ID a) (lw_addresses w)\<rparr>, None))"

definition AfterDestroy :: "ShipmentLineItem \<Rightarrow> li_world \<Rightarrow> li_world call" where
  "AfterDestroy s w =
     and_then (and_then
       (if li_ItemDimensionsID s \<noteq> None then destroy_dims (li_ItemDimensions s) w else (w, None))
       (\<lambda>w. if li_CrateDimensionsID s \<noteq> None then destroy_dims (li_CrateDimensions s) w else (w, None)))
       (\<lambda>w. if li_AddressID s \<noteq> None then destroy_address (li_Address s) w else (w, None))"

text \<open>\<open>tx.Destroy\<close>: the hook before, the row, the hook after.\<close>

definition destroy_line_item :: "ShipmentLineItem \<Rightarrow> li_world \<Rightarrow> li_world call" where
  "destroy_line_item s w =
     (case BeforeDestroy s of Some e \<Rightarrow> (w, Some e)
      | None \<Rightarrow> (case lw_destroy w (li_ID s) of Some e \<Rightarrow> (w, Some e)
        | None \<Rightarrow> AfterDestroy s (w\<lparr>lw_line_items := filter (\<lambda>r. li_ID r \<noteq> li_ID s) (lw_line_items w)\<rparr>)))"

text \<open>The loop of both deletions: an item that stays, or the destruction of one that goes.\<close>

primrec delete_line_items ::
    "(ShipmentLineItem \<Rightarrow> bool) \<Rightarrow> string \<Rightarrow> ShipmentLineItem list \<Rightarrow> li_world \<Rightarrow> ShipmentLineItem list
      \<Rightarrow> (li_world \<times> ShipmentLineItem list) call" where
  "delete_line_items deletes m [] w updatedShipmentLines = ((w, updatedShipmentLines), None)"
| "delete_line_items deletes m (item # items) w updatedShipmentLines =
     (if \<not> deletes item then delete_line_items deletes m items w (updatedShipmentLines @ [item])
      else (case destroy_line_item item w of
          (w', Some e) \<Rightarrow> ((w', updatedShipmentLines), errors_Wrap (Some e) (m @ li_Code item))
        | (w', None) \<Rightarrow> delete_line_items deletes m items w' updatedShipmentLines))"

text \<open>The transaction around it: a failed destruction rolls back; the shipment is then saved outside of
  the transaction.  When the save only has validation errors the wrapped error is nil, so the
  transaction commits and the caller sees no error.\<close>

definition delete_and_save ::
    "(ShipmentLineItem \<Rightarrow> bool) \<Rightarrow> string \<Rightarrow> string \<Rightarrow> Shipment \<Rightarrow> li_world \<Rightarrow> (li_world \<times> Shipment) call" where
  "delete_and_save deletes m1 m2 s w =
     (case delete_line_items deletes m1 (shp_ShipmentLineItems s) w [] of
        (_, Some e) \<Rightarrow> ((w, s), Some e)
      | ((w', kept), None) \<Rightarrow> (let s' = s\<lparr>shp_ShipmentLineItems := kept\<rparr> in
          case SaveShipment w' s' of (w'', _, verrs, saveShipmentErr) \<Rightarrow>
            if verrs \<noteq> [] \<or> saveShipmentErr \<noteq> None
            then (case errors_Wrap (errors_Wrap saveShipmentErr m2) (strings_Join '', '' (map fst verrs)) of
                Some e \<Rightarrow> ((w, s'), Some e) | None \<Rightarrow> ((w'', s'), None))
            else ((w'', s'), None)))"

definition base_deletable :: "ShipmentLineItem \<Rightarrow> bool" where
  "base_deletable item \<longleftrightarrow> \<not> it_RequiresPreApproval (li_Tariff400ngItem item) \<and> \<not> li_InvoiceID item \<noteq> None
     \<and> FindBaseShipmentLineItem (li_Code item)"

definition DeleteBaseShipmentLineItems :: "Shipment \<Rightarrow> li_world \<Rightarrow> (li_world \<times> Shipment) call" where
  "DeleteBaseShipmentLineItems = delete_and_save base_deletable
     ''rollback: Error deleting base shipment line item '' ''Error saving shipment for DeleteBaseShipmentLineItems''"

definition sit_deletable :: "ShipmentLineItem \<Rightarrow> bool" where
  "sit_deletable item \<longleftrightarrow> \<not> li_InvoiceID item \<noteq> None \<and> FindStorageInTransitShipmentLineItem (li_Code item)"

definition DeleteStorageInTransitLineItems :: "Shipment \<Rightarrow> li_world \<Rightarrow> (li_world \<times> Shipment) call" where
  "DeleteStorageInTransitLineItems = delete_and_save sit_deletable
     ''rollback: Error deleting storage in transit shipment line item ''
     ''Error saving shipment for DeleteStorageInTransitLineItems''"

section \<open>Item codes with a form of their own\<close>

record BaseShipmentLineItemParams =
  bp_Tariff400ngItemID :: uuid
  bp_Tariff400ngItemCode :: string
  bp_Quantity1 :: "BaseQuantity option"
  bp_Quantity2 :: "BaseQuantity option"
  bp_Location :: ShipmentLineItemLocation
  bp_Notes :: "string option"

record AdditionalLineItemDimensions =
  ald_Length :: ThousandthInches
  ald_Width :: ThousandthInches
  ald_Height :: ThousandthInches

record AdditionalShipmentLineItemParams =
  xp_Description :: "string option"
  xp_ItemDimensions :: "AdditionalLineItemDimensions option"
  xp_CrateDimensions :: "AdditionalLineItemDimensions option"
  xp_Reason :: "string option"
  xp_EstimateAmountCents :: "Cents option"
  xp_ActualAmountCents :: "Cents option"
  xp_Date :: "gotime option"
  xp_Time :: "string option"
  xp_Address :: "Address option"

text \<open>What an upsert leaves and returns.  The validation errors are a pointer: a nil pointer is
  \<open>None\<close>, and \<open>HasAny\<close>, which reads the map of its receiver, panics on it.\<close>

type_synonym upsert = "(li_world \<times> ShipmentLineItem \<times> verrs option \<times> goerr option) result"

definition HasAny :: "verrs option \<Rightarrow> bool result" where
  "HasAny verrs = obind (deref verrs) (\<lambda>v. Ret (v \<noteq> []))"

text \<open>\<open>if verrs.HasAny() || err != nil { ... return }\<close> after a call, else the rest.\<close>

definition after_save :: "'a saved \<Rightarrow> (li_world \<Rightarrow> 'a \<Rightarrow> ShipmentLineItem) \<Rightarrow> string \<Rightarrow> (li_world \<Rightarrow> 'a \<Rightarrow> upsert) \<Rightarrow> upsert" where
  "after_save c failed m k = (case c of (w, x, ve, err) \<Rightarrow>
     if ve \<noteq> [] \<or> err \<noteq> None then Ret (w, failed w x, Some ve, errors_Wrap err m) else k w x)"

definition set_dims :: "ShipmentLineItemDimensions \<Rightarrow> AdditionalLineItemDimensions \<Rightarrow> ShipmentLineItemDimensions" where
  "set_dims d a = d\<lparr>dim_Length := ald_Length a, dim_Width := ald_Width a, dim_Height := ald_Height a\<rparr>"

definition createShipmentLineItemDimensions ::
    "li_world \<Rightarrow> AdditionalShipmentLineItemParams \<Rightarrow> ShipmentLineItem \<Rightarrow> upsert" where
  "createShipmentLineItemDimensions w additionalParams li =
     obind (deref (xp_ItemDimensions additionalParams)) (\<lambda>a.
     after_save (create_dims w (set_dims zero_dims a)) (\<lambda>_ d. li\<lparr>li_ItemDimensions := d\<rparr>)
       ''Error creating item dimensions for shipment line item'' (\<lambda>w d.
     let li = li\<lparr>li_ItemDimensions := d\<rparr> in
     obind (deref (xp_CrateDimensions additionalParams)) (\<lambda>a.
     after_save (create_dims w (set_dims zero_dims a)) (\<lambda>_ d. li\<lparr>li_CrateDimensions := d\<rparr>)
       ''Error creating crate dimensions for shipment line item'' (\<lambda>w d.
     let li = li\<lparr>li_CrateDimensions := d\<rparr> in
     Ret (w, li\<lparr>li_ItemDimensionsID := Some (dim_ID (li_ItemDimensions li)),
       li_CrateDimensionsID := Some (dim_ID (li_CrateDimensions li))\<rparr>, Some [], None)))))"

definition updateShipmentLineItemDimensions ::
    "li_world \<Rightarrow> AdditionalShipmentLineItemParams \<Rightarrow> ShipmentLineItem \<Rightarrow> upsert" where
  "updateShipmentLineItemDimensions w additionalParams li =
     obind (deref (xp_ItemDimensions additionalParams)) (\<lambda>a.
     after_save (update_dims w (set_dims (li_ItemDimensions li) a)) (\<lambda>_ d. li\<lparr>li_ItemDimensions := d\<rparr>)
       ''Error updating item dimensions for shipment line item'' (\<lambda>w d.
     let li = li\<lparr>li_ItemDimensions := d\<rparr> in
     obind (deref (xp_CrateDimensions additionalParams)) (\<lambda>a.
     after_save (update_dims w (set_dims (li_CrateDimensions li) a)) (\<lambda>_ d. li\<lparr>li_CrateDimensions := d\<rparr>)
       ''Error updating crate dimensions for shipment line item'' (\<lambda>w d.
     Ret (w, li\<lparr>li_CrateDimensions := d\<rparr>, Some [], None)))))"

definition is105Item :: "string \<Rightarrow> AdditionalShipmentLineItemParams \<Rightarrow> bool" where
  "is105Item itemCode p \<longleftrightarrow> (itemCode = ''105B'' \<or> itemCode = ''105E'')
     \<and> (xp_ItemDimensions p \<noteq> None \<or> xp_CrateDimensions p \<noteq> None)"

text \<open>The crate volume in cubic feet, as a single precision number, becomes the quantity.  A dimension
  that is not positive returns nil validation errors.\<close>

definition upsertItemCode105Dependency ::
    "li_world \<Rightarrow> AdditionalShipmentLineItemParams \<Rightarrow> ShipmentLineItem \<Rightarrow> upsert" where
  "upsertItemCode105Dependency w p li =
     (if xp_ItemDimensions p = None \<or> xp_CrateDimensions p = None
      then Ret (w, li, Some [], Some (ErrMsg ''Must have both item and crate dimensions params''))
      else
        let new = dim_ID (li_ItemDimensions li) = uuid_Nil \<or> dim_ID (li_CrateDimensions li) = uuid_Nil in
        obind (if new then createShipmentLineItemDimensions w p li else updateShipmentLineItemDimensions w p li)
          (\<lambda>(w, li, verrs, err).
        obind (HasAny verrs) (\<lambda>any.
        if any \<or> err \<noteq> None
        then Ret (w, li, verrs, errors_Wrap err (if new then ''Error creating shipment line item dimensions''
               else ''Error updating shipment line item dimensions''))
        else
          obind (deref (xp_CrateDimensions p)) (\<lambda>crate.
          case DimensionToCubicFeet (ald_Length crate) (ald_Width crate) (ald_Height crate) of
            Ret crateVolume \<Rightarrow> Ret (w, li\<lparr>li_Quantity1 := BaseQuantityFromFloat (fl32 crateVolume),
              li_Description := xp_Description p\<rparr>, Some [], None)
          | Fail _ \<Rightarrow> Ret (w, li, None, Some (Wrap ''Dimension units must be greater than 0''
              (ErrMsg ''dimensions must be positive'')))
          | Panic \<Rightarrow> Panic))))"

definition is35AItem :: "string \<Rightarrow> AdditionalShipmentLineItemParams \<Rightarrow> bool" where
  "is35AItem itemCode p \<longleftrightarrow> itemCode = ''35A''
     \<and> (xp_Reason p \<noteq> None \<or> xp_EstimateAmountCents p \<noteq> None \<or> xp_ActualAmountCents p \<noteq> None)"

text \<open>The quantity is the actual amount, at most the estimate, and 0 without an actual amount.\<close>

definition quantity_35A :: "li_world \<Rightarrow> ShipmentLineItem \<Rightarrow> upsert" where
  "quantity_35A w li =
     (case li_ActualAmountCents li of
        None \<Rightarrow> Ret (w, li\<lparr>li_Quantity1 := BaseQuantityFromInt 0\<rparr>, Some [], None)
      | Some actual \<Rightarrow> obind (deref (li_EstimateAmountCents li)) (\<lambda>estimate.
          Ret (w, li\<lparr>li_Quantity1 := (if actual \<le> estimate then BaseQuantityFromCents actual
            else BaseQuantityFromCents estimate)\<rparr>, Some [], None)))"

definition upsertItemCode35ADependency ::
    "li_world \<Rightarrow> AdditionalShipmentLineItemParams \<Rightarrow> ShipmentLineItem \<Rightarrow> upsert" where
  "upsertItemCode35ADependency w p li =
     (if li_ID li \<noteq> uuid_Nil \<and> li_Status li = LineItemStatusAPPROVED
      then quantity_35A w (li\<lparr>li_ActualAmountCents := xp_ActualAmountCents p\<rparr>)
      else if xp_Description p = None \<or> xp_Reason p = None \<or> xp_EstimateAmountCents p = None
      then Ret (w, li, Some [], Some (ErrMsg ''Must have Description, Reason and EstimateAmountCents params''))
      else quantity_35A w (li\<lparr>li_Description := xp_Description p, li_Reason := xp_Reason p,
        li_EstimateAmountCents := xp_EstimateAmountCents p, li_ActualAmountCents := xp_ActualAmountCents p\<rparr>))"

definition is226AItem :: "string \<Rightarrow> AdditionalShipmentLineItemParams \<Rightarrow> bool" where
  "is226AItem itemCode p \<longleftrightarrow> itemCode = ''226A''
     \<and> (xp_Description p \<noteq> None \<or> xp_Reason p \<noteq> None \<or> xp_ActualAmountCents p \<noteq> None)"

definition upsertItemCode226ADependency ::
    "li_world \<Rightarrow> AdditionalShipmentLineItemParams \<Rightarrow> ShipmentLineItem \<Rightarrow> upsert" where
  "upsertItemCode226ADependency w p li =
     (if xp_Description p = None \<or> xp_Reason p = None \<or> xp_ActualAmountCents p = None
      then Ret (w, li, Some [], Some (ErrMsg ''Must have Description, Reason and ActualAmountCents params''))
      else obind (deref (xp_ActualAmountCents p)) (\<lambda>actual.
        Ret (w, li\<lparr>li_Description := xp_Description p, li_Reason := xp_Reason p,
          li_ActualAmountCents := xp_ActualAmountCents p, li_Quantity1 := BaseQuantityFromCents actual\<rparr>, Some [], None)))"

definition is125Item :: "string \<Rightarrow> AdditionalShipmentLineItemParams \<Rightarrow> bool" where
  "is125Item itemCode p \<longleftrightarrow> take 3 itemCode = ''125''
     \<and> (xp_Reason p \<noteq> None \<or> xp_Date p \<noteq> None \<or> xp_Time p \<noteq> None \<or> xp_Address p \<noteq> None)"

definition upsertItemCode125Dependency ::
    "li_world \<Rightarrow> AdditionalShipmentLineItemParams \<Rightarrow> ShipmentLineItem \<Rightarrow> upsert" where
  "upsertItemCode125Dependency w p li =
     (if xp_Reason p = None \<or> xp_Date p = None \<or> xp_Address p = None
      then Ret (w, li, Some [], Some (ErrMsg ''Must have Reason, Date and Address params''))
      else obind (deref (xp_Address p)) (\<lambda>address.
        let finish = (\<lambda>w li. Ret (w, li\<lparr>li_Reason := xp_Reason p, li_Date := xp_Date p, li_Time := xp_Time p,
              li_Quantity1 := BaseQuantityFromInt 1\<rparr>, Some [], None)) in
        case li_AddressID li of
          None \<Rightarrow> after_save (create_address w address) (\<lambda>_ a. li\<lparr>li_Address := a\<rparr>)
            ''Error creating shipment line item address''
            (\<lambda>w a. finish w (li\<lparr>li_Address := a, li_AddressID := Some (ad_ID a)\<rparr>))
        | Some i \<Rightarrow> after_save (update_address w (address\<lparr>ad_ID := i\<rparr>)) (\<lambda>_ a. li\<lparr>li_Address := a\<rparr>)
            ''Error updating shipment line item address'' (\<lambda>w a. finish w (li\<lparr>li_Address := a\<rparr>))))"

definition upsertDefaultDependency ::
    "li_world \<Rightarrow> BaseShipmentLineItemParams \<Rightarrow> ShipmentLineItem \<Rightarrow> upsert" where
  "upsertDefaultDependency w b li =
     (case bp_Quantity1 b of
        None \<Rightarrow> Ret (w, li, Some [], Some (ErrMsg (''Quantity1 required for tariff400ngItemCode: '' @ bp_Tariff400ngItemCode b)))
      | Some q \<Rightarrow> Ret (w, li\<lparr>li_Quantity1 := q\<rparr>, Some [], None))"

definition upsertItemCodeDependency ::
    "li_world \<Rightarrow> BaseShipmentLineItemParams \<Rightarrow> AdditionalShipmentLineItemParams \<Rightarrow> ShipmentLineItem \<Rightarrow> upsert" where
  "upsertItemCodeDependency w b p li =
     (let itemCode = bp_Tariff400ngItemCode b in
      if is105Item itemCode p then upsertItemCode105Dependency w p li
      else if is35AItem itemCode p then upsertItemCode35ADependency w p li
      else if is226AItem itemCode p then upsertItemCode226ADependency w p li
      else if is125Item itemCode p then upsertItemCode125Dependency w p li
      else upsertDefaultDependency w b li)"

section \<open>Creating and updating a line item\<close>

text \<open>\<open>connection.Load\<close> reads the associated 400NG item.\<close>

definition load_line_item :: "li_world \<Rightarrow> ShipmentLineItem \<Rightarrow> ShipmentLineItem" where
  "load_line_item w li = (case FetchTariff400ngItem (lw_items w) (li_Tariff400ngItemID li) of
     Ret it \<Rightarrow> li\<lparr>li_Tariff400ngItem := it\<rparr> | _ \<Rightarrow> li)"

text \<open>The body of both transactions after the item codes: the common fields, the save, the load.  A
  failure rolls the tables back, not the line item in memory.\<close>

definition save_and_load ::
    "li_world \<Rightarrow> ShipmentLineItem saved \<Rightarrow> string \<Rightarrow> (ShipmentLineItem saved) result" where
  "save_and_load w c m = (case c of (w', li, ve, err) \<Rightarrow>
     if ve \<noteq> [] \<or> err \<noteq> None then Ret (w, li, ve, errors_Wrap err m)
     else (case lw_load w' li of
         Some e \<Rightarrow> Ret (w, li, [], Some (Wrap ''Error loading shipment line item'' e))
       | None \<Rightarrow> Ret (w', load_line_item w' li, [], None)))"

definition with_dependency ::
    "li_world \<Rightarrow> BaseShipmentLineItemParams \<Rightarrow> AdditionalShipmentLineItemParams \<Rightarrow> ShipmentLineItem
      \<Rightarrow> (li_world \<Rightarrow> ShipmentLineItem \<Rightarrow> (ShipmentLineItem saved) result) \<Rightarrow> (ShipmentLineItem saved) result" where
  "with_dependency w b p li k =
     obind (upsertItemCodeDependency w b p li) (\<lambda>(w', li, verrs, err).
     obind (HasAny verrs) (\<lambda>any.
       if any \<or> err \<noteq> None
       then Ret (w, li, (case verrs of None \<Rightarrow> [] | Some v \<Rightarrow> v),
         errors_Wrap err (''Error setting up item code dependency: '' @ bp_Tariff400ngItemCode b))
       else k w' li))"

definition CreateShipmentLineItem ::
    "Shipment \<Rightarrow> gotime \<Rightarrow> li_world \<Rightarrow> BaseShipmentLineItemParams \<Rightarrow> AdditionalShipmentLineItemParams
      \<Rightarrow> (ShipmentLineItem saved) result" where
  "CreateShipmentLineItem s now w b p =
     with_dependency w b p zero_line_item (\<lambda>w' li.
       save_and_load w (create_line_item w' (li\<lparr>li_ShipmentID := shp_ID s,
           li_Tariff400ngItemID := bp_Tariff400ngItemID b,
           li_Quantity2 := (case bp_Quantity2 b of None \<Rightarrow> 0 | Some q \<Rightarrow> q),
           li_Location := bp_Location b, li_Notes := (case bp_Notes b of None \<Rightarrow> '''' | Some n \<Rightarrow> n),
           li_SubmittedDate := now, li_Status := LineItemStatusSUBMITTED\<rparr>))
         ''Error creating shipment line item'')"

definition UpdateShipmentLineItem ::
    "li_world \<Rightarrow> BaseShipmentLineItemParams \<Rightarrow> AdditionalShipmentLineItemParams \<Rightarrow> ShipmentLineItem
      \<Rightarrow> (ShipmentLineItem saved) result" where
  "UpdateShipmentLineItem w b p shipmentLineItem =
     with_dependency w b p shipmentLineItem (\<lambda>w' li.
       save_and_load w (update_line_item w' (if li_Status li \<noteq> LineItemStatusAPPROVED
           then li\<lparr>li_Tariff400ngItemID := bp_Tariff400ngItemID b,
             li_Quantity2 := (case bp_Quantity2 b of None \<Rightarrow> li_Quantity2 li | Some q \<Rightarrow> q),
             li_Location := bp_Location b,
             li_Notes := (case bp_Notes b of None \<Rightarrow> li_Notes li | Some n \<Rightarrow> n)\<rparr>
           else li))
         ''Error updating shipment line item'')"

section \<open>Fetching\<close>

text \<open>A nil identifier returns no items and, since wrapping a nil error gives nil, no error.\<close>

definition FetchLineItemsByShipmentID :: "li_world \<Rightarrow> uuid option \<Rightarrow> ShipmentLineItem list \<times> goerr option" where
  "FetchLineItemsByShipmentID w shipmentID =
     (case shipmentID of
        None \<Rightarrow> ([], errors_Wrap None ''Missing shipmentID'')
      | Some i \<Rightarrow> (map (load_line_item w) (filter (\<lambda>r. li_ShipmentID r = i) (lw_line_items w)), None))"

definition FetchApprovedPreapprovalRequestsByShipment :: "li_world \<Rightarrow> Shipment \<Rightarrow> ShipmentLineItem list" where
  "FetchApprovedPreapprovalRequestsByShipment w s =
     filter (\<lambda>r. li_ShipmentID r = shp_ID s \<and> li_Status r = LineItemStatusAPPROVED
         \<and> it_RequiresPreApproval (li_Tariff400ngItem r) \<and> \<not> li_Code r \<in> set StorageInTransitLineItemCodes)
       (map (load_line_item w) (lw_line_items w))"

definition FetchShipmentLineItemByID :: "li_world \<Rightarrow> uuid option \<Rightarrow> ShipmentLineItem \<times> goerr option" where
  "FetchShipmentLineItemByID w i =
     (case i of
        None \<Rightarrow> (zero_line_item, errors_Wrap None ''Missing shipmentLineItemID'')
      | Some i \<Rightarrow> (case first_row (filter (\<lambda>r. li_ID r = i) (lw_line_items w)) of
            Ret r \<Rightarrow> (load_line_item w r, None)
          | Fail e \<Rightarrow> (zero_line_item, errors_Wrap (Some e) ''Shipment line items query failed'')
          | Panic \<Rightarrow> (zero_line_item, None)))"

definition FetchShipmentLineItemsByItemID :: "li_world \<Rightarrow> Shipment \<Rightarrow> uuid \<Rightarrow> ShipmentLineItem list" where
  "FetchShipmentLineItemsByItemID w s tariff400ngItemID =
     filter (\<lambda>r. li_ShipmentID r = shp_ID s \<and> li_Tariff400ngItemID r = tariff400ngItemID) (lw_line_items w)"

section \<open>Saving a priced shipment\<close>

definition createUniqueShipmentLineItem :: "Shipment \<Rightarrow> li_world \<Rightarrow> ShipmentLineItem \<Rightarrow> ShipmentLineItem saved" where
  "createUniqueShipmentLineItem s w lineItem =
     (if 0 < length (FetchShipmentLineItemsByItemID w s (li_Tariff400ngItemID lineItem))
      then (w, lineItem, [], Some (ErrMsg (''Line item already exists for item ''
        @ (if 0 < length (li_Code lineItem) then li_Code lineItem else go_itoa (int (li_Tariff400ngItemID lineItem))))))
      else create_line_item w lineItem)"

primrec save_items :: "(li_world \<Rightarrow> ShipmentLineItem \<Rightarrow> ShipmentLineItem saved) \<Rightarrow> ShipmentLineItem list \<Rightarrow> li_world
    \<Rightarrow> li_world \<times> verrs \<times> goerr option" where
  "save_items f [] w = (w, [], None)"
| "save_items f (lineItem # items) w = (case f w lineItem of (w', _, verrs, err) \<Rightarrow>
     if err \<noteq> None \<or> verrs \<noteq> [] then (w', verrs, Some (ErrMsg ''rollback'')) else save_items f items w')"

text \<open>The body sets \<open>responseError\<close> to the wrapped cause and returns the error \<open>rollback\<close>, which then
  replaces \<open>responseError\<close>.  \<open>in_tx\<close> tells whether the caller already runs a transaction; otherwise a
  failure rolls the tables back here.\<close>

definition save_and_price ::
    "Shipment \<Rightarrow> ShipmentLineItem list \<Rightarrow> ShipmentLineItem list \<Rightarrow> DistanceCalculation \<Rightarrow> li_world
      \<Rightarrow> li_world \<times> Shipment \<times> verrs \<times> goerr option" where
  "save_and_price s baselineLineItems generalLineItems distanceCalculation w =
     (case save_distance w distanceCalculation of (w, d, verrs, err) \<Rightarrow>
      if err \<noteq> None \<or> verrs \<noteq> [] then (w, s, verrs, Some (ErrMsg ''rollback''))
      else let s = s\<lparr>shp_ShippingDistance := Some d, shp_ShippingDistanceID := Some (dc_ID d)\<rparr> in
      case save_shipment w s of (w, s, verrs, err) \<Rightarrow>
      if err \<noteq> None \<or> verrs \<noteq> [] then (w, s, verrs, Some (ErrMsg ''rollback''))
      else case save_items (createUniqueShipmentLineItem s) baselineLineItems w of (w, verrs, err) \<Rightarrow>
      if err \<noteq> None then (w, s, verrs, err)
      else case save_items save_line_item generalLineItems w of (w, verrs, err) \<Rightarrow> (w, s, verrs, err))"

definition SaveShipmentAndPricingInfo ::
    "bool \<Rightarrow> Shipment \<Rightarrow> ShipmentLineItem list \<Rightarrow> ShipmentLineItem list \<Rightarrow> DistanceCalculation \<Rightarrow> li_world
      \<Rightarrow> li_world \<times> Shipment \<times> verrs \<times> goerr option" where
  "SaveShipmentAndPricingInfo in_tx s baselineLineItems generalLineItems distanceCalculation w =
     (case save_and_price s baselineLineItems generalLineItems distanceCalculation w of (w', s', verrs, err) \<Rightarrow>
        if in_tx \<or> err = None then (w', s', verrs, err) else (w, s', verrs, err))"

section \<open>The base items are exactly the base codes\<close>

definition base_item :: "ShipmentLineItem \<Rightarrow> bool" where
  "base_item i \<longleftrightarrow> \<not> it_RequiresPreApproval (li_Tariff400ngItem i) \<and> FindBaseShipmentLineItem (li_Code i)"

lemma count_items:
  "foldl count_item m items = map (\<lambda>(c, n). (c, n + int (count (mset (map li_Code (filter base_item items))) c))) m"
  by (induction items arbitrary: m) (auto simp: count_item_def base_item_def case_prod_beta)

lemma check_counts_ok: "check_counts m = Ret () \<longleftrightarrow> list_all (\<lambda>(c, n). n = 1) m"
  by (induction m) (auto split: if_splits)

lemma base_codes_distinct: "distinct BaseShipmentLineItemCodes"
  by (simp add: BaseShipmentLineItemCodes_def)

lemma base_codes_set: "FindBaseShipmentLineItem c \<longleftrightarrow> c \<in> set BaseShipmentLineItemCodes"
  by (auto simp: FindBaseShipmentLineItem_def list_ex_iff)

lemma sit_codes_set: "FindStorageInTransitShipmentLineItem c \<longleftrightarrow> c \<in> set StorageInTransitLineItemCodes"
  by (auto simp: FindStorageInTransitShipmentLineItem_def list_ex_iff)

lemma check_counts_cases: "check_counts m = Ret () \<or> (\<exists>e. check_counts m = Fail (ErrMsg e))"
proof (induction m)
  case (Cons a m)
  then show ?case by (cases a) auto
qed simp

lemma verified_codes:
  "VerifyBaseShipmentLineItems items = Ret () \<longleftrightarrow>
     mset (map li_Code (filter base_item items)) = mset BaseShipmentLineItemCodes"
proof -
  let ?M = "mset (map li_Code (filter base_item items))"
  have "VerifyBaseShipmentLineItems items = Ret () \<longleftrightarrow> (\<forall>c \<in> set BaseShipmentLineItemCodes. count ?M c = 1)"
    by (simp add: VerifyBaseShipmentLineItems_def count_items check_counts_ok list_all_iff)
  also have "\<dots> \<longleftrightarrow> (\<forall>c. count ?M c = count (mset BaseShipmentLineItemCodes) c)"
  proof -
    have "count ?M c = 0" if "c \<notin> set BaseShipmentLineItemCodes" for c
      using that by (auto simp: count_eq_zero_iff base_item_def base_codes_set)
    then show ?thesis
      using base_codes_distinct by (auto simp: distinct_count_atmost_1)
  qed
  finally show ?thesis by (simp add: multiset_eq_iff)
qed

text \<open>The check of the base items passes exactly when the codes of the items that need no approval
  and have a base code are, as a multiset, the six base codes; otherwise it is an error, never a panic.\<close>

theorem VerifyBaseShipmentLineItems_exact:
  "(VerifyBaseShipmentLineItems items = Ret () \<longleftrightarrow>
      mset (map li_Code (filter base_item items)) = mset BaseShipmentLineItemCodes)
   \<and> VerifyBaseShipmentLineItems items \<noteq> Panic"
proof (intro conjI verified_codes)
  show "VerifyBaseShipmentLineItems items \<noteq> Panic"
    using check_counts_cases [of "foldl count_item (map (\<lambda>code. (code, 0)) BaseShipmentLineItemCodes) items"]
    by (auto simp: VerifyBaseShipmentLineItems_def)
qed

section \<open>Deleting items before a shipment is priced again\<close>

lemma destroy_rows:
  assumes "destroy_line_item s w = (w', None)"
  shows "lw_line_items w' = filter (\<lambda>r. li_ID r \<noteq> li_ID s) (lw_line_items w)" "lw_destroy w' = lw_destroy w"
    "lw_save_shipment w' = lw_save_shipment w" "lw_shipments w' = lw_shipments w"
  using assms
  by (auto simp: destroy_line_item_def AfterDestroy_def destroy_dims_def destroy_address_def and_then_def
      split: option.splits if_splits)

lemma SaveShipment_rows:
  assumes "SaveShipment w s = (w', s', ve, err)"
  shows "lw_line_items w' = lw_line_items w" "s' = s" "lw_save_shipment w' = lw_save_shipment w"
    "err = None \<Longrightarrow> snd (lw_save_shipment w s) = None"
  using assms
  by (auto simp: SaveShipment_def save_shipment_def errors_Wrap_def split: if_splits prod.splits)

text \<open>The interface of a deletion: the items it deletes have no invoice and one of its codes, and it
  deletes every item of these codes that has no invoice and that it does not spare.\<close>

locale item_deletion =
  fixes deletes :: "ShipmentLineItem \<Rightarrow> bool" and codes :: "string list" and spares :: "ShipmentLineItem \<Rightarrow> bool"
  assumes deletes_iff: "deletes i \<longleftrightarrow> li_InvoiceID i = None \<and> li_Code i \<in> set codes \<and> \<not> spares i"
begin

lemma loop:
  "delete_line_items deletes m items w kept = ((w', kept'), None) \<Longrightarrow>
     kept' = kept @ filter (\<lambda>i. \<not> deletes i) items
     \<and> lw_line_items w' = filter (\<lambda>r. li_ID r \<notin> li_ID ` set (filter deletes items)) (lw_line_items w)
     \<and> lw_save_shipment w' = lw_save_shipment w \<and> lw_shipments w' = lw_shipments w"
proof (induction items arbitrary: w kept)
  case (Cons i items)
  show ?case
  proof (cases "deletes i")
    case True
    then obtain v where v: "destroy_line_item i w = (v, None)"
      and rest: "delete_line_items deletes m items v kept = ((w', kept'), None)"
      using Cons.prems by (auto simp: errors_Wrap_def split: prod.splits option.splits)
    show ?thesis
      using Cons.IH [OF rest] destroy_rows [OF v] True by (auto intro!: filter_cong)
  next
    case False
    then show ?thesis using Cons.prems Cons.IH [of w "kept @ [i]"] by simp
  qed
qed simp

lemma run:
  assumes "delete_and_save deletes m1 m2 s w = ((w', s'), None)"
  shows "shp_ShipmentLineItems s' = filter (\<lambda>i. \<not> deletes i) (shp_ShipmentLineItems s)"
    "lw_line_items w' = filter (\<lambda>r. li_ID r \<notin> li_ID ` set (filter deletes (shp_ShipmentLineItems s))) (lw_line_items w)"
  using assms
  by (auto simp: delete_and_save_def Let_def dest!: loop SaveShipment_rows(1) split: prod.splits option.splits if_splits)

lemma rolled_back:
  assumes "delete_and_save deletes m1 m2 s w = ((w', s'), Some e)"
  shows "w' = w"
  using assms by (auto simp: delete_and_save_def Let_def split: prod.splits option.splits if_splits)

lemma deletes_exactly:
  assumes "delete_and_save deletes m1 m2 s w = ((w', s'), None)"
    "distinct (map li_ID (lw_line_items w))" "set (shp_ShipmentLineItems s) \<subseteq> set (lw_line_items w)"
  shows "r \<in> set (lw_line_items w') \<longleftrightarrow> r \<in> set (lw_line_items w) \<and> \<not> (r \<in> set (shp_ShipmentLineItems s) \<and> deletes r)"
proof -
  have "i = r" if "li_ID r = li_ID i" "i \<in> set (shp_ShipmentLineItems s)" "r \<in> set (lw_line_items w)" for i
    using that assms(2,3) by (auto simp: distinct_map inj_on_def)
  then show ?thesis by (auto simp: run(2) [OF assms(1)])
qed

end

interpretation base_del: item_deletion base_deletable BaseShipmentLineItemCodes
  "\<lambda>i. it_RequiresPreApproval (li_Tariff400ngItem i)"
  by unfold_locales (auto simp: base_deletable_def base_codes_set)

interpretation sit_del: item_deletion sit_deletable StorageInTransitLineItemCodes "\<lambda>i. False"
  by unfold_locales (auto simp: sit_deletable_def sit_codes_set)

text \<open>Deleting the items of a shipment before it is priced again, first the base then the storage in
  transit items, removes from the shipment and from the table exactly its items without invoice that
  have a storage in transit code, or a base code and need no approval; a deletion that returns an
  error leaves the table as it was.\<close>

theorem repricing_deletions:
  assumes "distinct (map li_ID (lw_line_items w))" "set (shp_ShipmentLineItems s) \<subseteq> set (lw_line_items w)"
    "DeleteBaseShipmentLineItems s w = ((w1, s1), e1)" "DeleteStorageInTransitLineItems s1 w1 = ((w2, s2), e2)"
  shows "if e1 = None \<and> e2 = None
    then shp_ShipmentLineItems s2 = filter (\<lambda>i. \<not> (base_deletable i \<or> sit_deletable i)) (shp_ShipmentLineItems s)
      \<and> (\<forall>r. r \<in> set (lw_line_items w2) \<longleftrightarrow> r \<in> set (lw_line_items w)
            \<and> \<not> (r \<in> set (shp_ShipmentLineItems s) \<and> (base_deletable r \<or> sit_deletable r)))
    else (e1 \<noteq> None \<longrightarrow> w1 = w) \<and> (e2 \<noteq> None \<longrightarrow> w2 = w1)"
proof (cases "e1 = None \<and> e2 = None")
  case True
  have one: "delete_and_save base_deletable ''rollback: Error deleting base shipment line item ''
        ''Error saving shipment for DeleteBaseShipmentLineItems'' s w = ((w1, s1), None)"
    and two: "delete_and_save sit_deletable ''rollback: Error deleting storage in transit shipment line item ''
        ''Error saving shipment for DeleteStorageInTransitLineItems'' s1 w1 = ((w2, s2), None)"
    using True assms(3,4) by (simp_all add: DeleteBaseShipmentLineItems_def DeleteStorageInTransitLineItems_def)
  note first = base_del.deletes_exactly [OF one assms(1,2)]
  have loaded: "set (shp_ShipmentLineItems s1) \<subseteq> set (lw_line_items w1)"
    using assms(2) by (auto simp: first base_del.run(1) [OF one])
  have "distinct (map li_ID (lw_line_items w1))"
    using assms(1) by (auto simp: base_del.run(2) [OF one] distinct_map inj_on_def)
  note second = sit_del.deletes_exactly [OF two this loaded]
  have "shp_ShipmentLineItems s2 = filter (\<lambda>i. \<not> (base_deletable i \<or> sit_deletable i)) (shp_ShipmentLineItems s)"
    by (simp add: sit_del.run(1) [OF two] base_del.run(1) [OF one] conj_commute)
  moreover have "r \<in> set (lw_line_items w2) \<longleftrightarrow> r \<in> set (lw_line_items w)
      \<and> \<not> (r \<in> set (shp_ShipmentLineItems s) \<and> (base_deletable r \<or> sit_deletable r))" for r
    using base_del.run(1) [OF one] by (auto simp: first second)
  ultimately show ?thesis using True by auto
next
  case False
  then show ?thesis
    using assms(3,4) unfolding DeleteBaseShipmentLineItems_def DeleteStorageInTransitLineItems_def
    by (auto dest: base_del.rolled_back sit_del.rolled_back)
qed

section \<open>Third party services and crates\<close>

lemma HasAny_simps [simp]: "HasAny None = Panic" "HasAny (Some v) = Ret (v \<noteq> [])"
  by (simp_all add: HasAny_def)

lemma save_and_load_Ret [simp]: "save_and_load w c m \<noteq> Panic" "save_and_load w c m \<noteq> Fail e"
  by (auto simp: save_and_load_def split: prod.splits option.splits)

lemma save_and_load_ok:
  "save_and_load w c m = Ret (w', li', [], None) \<longleftrightarrow>
     (\<exists>li. c = (w', li, [], None) \<and> lw_load w' li = None \<and> li' = load_line_item w' li)"
  by (auto simp: save_and_load_def errors_Wrap_def split: prod.splits option.splits)

lemma update_line_item_ok:
  "update_line_item w li = (w', li', [], None) \<longleftrightarrow> lw_save_line_item w li = ([], None) \<and> li' = li
     \<and> w' = w\<lparr>lw_line_items := map (\<lambda>r. if li_ID r = li_ID li then li else r) (lw_line_items w)\<rparr>"
  by (cases "lw_save_line_item w li") (auto simp: update_line_item_def)

definition amount :: "Cents \<Rightarrow> bool" where
  "amount c \<longleftrightarrow> \<bar>c\<bar> \<le> 10 ^ 16"

lemma quantity_of_amount: "amount c \<Longrightarrow> BaseQuantityFromCents c = 100 * c"
  unfolding BaseQuantityFromCents_def amount_def by (subst wrap64_id) (auto simp: in64_def)

text \<open>Updating an approved third party service charge (35A) changes nothing but its actual amount
  and its quantity, which is the actual amount but never more than the approved estimate (0 without
  an actual amount); it panics exactly when there is an actual amount and no estimate.\<close>

theorem approved_35A_update:
  assumes "li_ID li \<noteq> uuid_Nil" "li_Status li = LineItemStatusAPPROVED" "is35AItem (bp_Tariff400ngItemCode b) p"
    "pred_option amount (xp_ActualAmountCents p)" "pred_option amount (li_EstimateAmountCents li)"
  shows "(UpdateShipmentLineItem w b p li = Ret (w', li', [], None) \<longrightarrow>
      li' = load_line_item w' (li\<lparr>li_ActualAmountCents := xp_ActualAmountCents p,
        li_Quantity1 := (case xp_ActualAmountCents p of None \<Rightarrow> 0
          | Some a \<Rightarrow> 100 * min a (the (li_EstimateAmountCents li)))\<rparr>))
    \<and> (UpdateShipmentLineItem w b p li = Panic \<longleftrightarrow> xp_ActualAmountCents p \<noteq> None \<and> li_EstimateAmountCents li = None)"
proof -
  have code: "\<not> is105Item (bp_Tariff400ngItemCode b) p" using assms(3) by (auto simp: is35AItem_def is105Item_def)
  have ups: "upsertItemCodeDependency w b p li = quantity_35A w (li\<lparr>li_ActualAmountCents := xp_ActualAmountCents p\<rparr>)"
    using assms(1-3) code by (simp add: upsertItemCodeDependency_def upsertItemCode35ADependency_def)
  show ?thesis
  proof (cases "xp_ActualAmountCents p")
    case None
    then show ?thesis
      using assms(2) by (auto simp: UpdateShipmentLineItem_def with_dependency_def ups quantity_35A_def save_and_load_ok
          update_line_item_ok BaseQuantityFromInt_def wrap64_def)
  next
    case (Some a)
    show ?thesis
    proof (cases "li_EstimateAmountCents li")
      case None
      then show ?thesis using Some by (simp add: UpdateShipmentLineItem_def with_dependency_def ups quantity_35A_def)
    next
      case e: (Some e)
      have "upsertItemCodeDependency w b p li =
          Ret (w, li\<lparr>li_ActualAmountCents := Some a, li_Quantity1 := 100 * min a e\<rparr>, Some [], None)"
        using Some e assms(4,5) by (simp add: ups quantity_35A_def quantity_of_amount min_def)
      then show ?thesis
        using Some e assms(2) by (auto simp: UpdateShipmentLineItem_def with_dependency_def save_and_load_ok update_line_item_ok)
    qed
  qed
qed

lemma positive_dims:
  "DimensionToCubicFeet l w h = Fail e \<Longrightarrow> l \<le> 0 \<or> w \<le> 0 \<or> h \<le> 0"
  "DimensionToCubicFeet l w h \<noteq> Panic"
  "l \<le> 0 \<or> w \<le> 0 \<or> h \<le> 0 \<Longrightarrow> \<exists>e. DimensionToCubicFeet l w h = Fail e"
  by (auto simp: DimensionToCubicFeet_def Let_def split: if_splits)

lemma create_dims_ok:
  assumes "lw_save_dims w = (\<lambda>_. ([], None))"
  obtains v d' where "create_dims w d = (v, d', [], None)" "lw_save_dims v = (\<lambda>_. ([], None))"
  using assms by (auto simp: create_dims_def Let_def)

text \<open>Creating a crating item (105B or 105E) whose dimensions the database accepts panics exactly when
  a crate dimension is not positive: the check returns nil validation errors next to its error, and
  the caller first asks these for their count.\<close>

theorem crate_dimensions_panic:
  assumes "is105Item (bp_Tariff400ngItemCode b) p" "xp_ItemDimensions p = Some item" "xp_CrateDimensions p = Some crate"
    "lw_save_dims w = (\<lambda>_. ([], None))"
  shows "CreateShipmentLineItem s now w b p = Panic
    \<longleftrightarrow> ald_Length crate \<le> 0 \<or> ald_Width crate \<le> 0 \<or> ald_Height crate \<le> 0"
proof -
  obtain v d where v: "create_dims w (set_dims zero_dims item) = (v, d, [], None)" "lw_save_dims v = (\<lambda>_. ([], None))"
    using create_dims_ok [OF assms(4)] .
  obtain u c where u: "create_dims v (set_dims zero_dims crate) = (u, c, [], None)"
    using create_dims_ok [OF v(2)] .
  have new: "dim_ID (li_ItemDimensions zero_line_item) = uuid_Nil"
    by (simp add: zero_line_item_def zero_dims_def)
  obtain li where li: "createShipmentLineItemDimensions w p zero_line_item = Ret (u, li, Some [], None)"
    using assms(2,3) v u by (simp add: createShipmentLineItemDimensions_def after_save_def Let_def)
  show ?thesis
    using assms(1-3) positive_dims [of "ald_Length crate" "ald_Width crate" "ald_Height crate"]
    by (cases "DimensionToCubicFeet (ald_Length crate) (ald_Width crate) (ald_Height crate)")
      (auto simp: CreateShipmentLineItem_def with_dependency_def upsertItemCodeDependency_def
        upsertItemCode105Dependency_def new li)
qed

section \<open>The base items of a priced shipment are unique\<close>

text \<open>The view of the table the uniqueness is about: shipment and 400NG item of each row.\<close>

abbreviation row_key :: "ShipmentLineItem \<Rightarrow> uuid \<times> uuid" where
  "row_key r \<equiv> (li_ShipmentID r, li_Tariff400ngItemID r)"

abbreviation row_keys :: "li_world \<Rightarrow> (uuid \<times> uuid) list" where
  "row_keys w \<equiv> map row_key (lw_line_items w)"

text \<open>A line item that is a priced copy of a row of the table.\<close>

definition copy_of_row :: "li_world \<Rightarrow> ShipmentLineItem \<Rightarrow> bool" where
  "copy_of_row w g \<longleftrightarrow> li_ID g \<noteq> uuid_Nil \<and> li_ID g < lw_fresh w
     \<and> list_all (\<lambda>r. li_ID r = li_ID g \<longrightarrow> row_key r = row_key g) (lw_line_items w)"

lemma createUnique_ok:
  "createUniqueShipmentLineItem s w i = (v, i', [], None) \<longleftrightarrow>
     FetchShipmentLineItemsByItemID w s (li_Tariff400ngItemID i) = [] \<and> lw_save_line_item w i = ([], None)
     \<and> i' = i\<lparr>li_ID := lw_fresh w\<rparr>
     \<and> v = w\<lparr>lw_line_items := lw_line_items w @ [i\<lparr>li_ID := lw_fresh w\<rparr>], lw_fresh := lw_fresh w + 1\<rparr>"
  by (cases "lw_save_line_item w i") (auto simp: createUniqueShipmentLineItem_def create_line_item_def Let_def)

lemma save_items_Cons_ok:
  assumes "save_items f (i # items) w = (w', ve, None)"
  obtains v i' where "f w i = (v, i', [], None)" "save_items f items v = (w', ve, None)"
  using assms by (auto split: prod.splits if_splits)

lemma save_base_items:
  "save_items (createUniqueShipmentLineItem s) items w = (w', ve, None) \<Longrightarrow> list_all (\<lambda>i. li_ShipmentID i = shp_ID s) items \<Longrightarrow>
     ve = [] \<and> row_keys w' = row_keys w @ map row_key items \<and> distinct (map li_Tariff400ngItemID items)
     \<and> list_all (\<lambda>i. row_key i \<notin> set (row_keys w)) items
     \<and> (\<forall>g. copy_of_row w g \<longrightarrow> copy_of_row w' g)"
proof (induction items arbitrary: w)
  case (Cons i items)
  obtain v i' where c: "createUniqueShipmentLineItem s w i = (v, i', [], None)"
    and rest: "save_items (createUniqueShipmentLineItem s) items v = (w', ve, None)"
    using Cons.prems(1) by (rule save_items_Cons_ok)
  have v: "v = w\<lparr>lw_line_items := lw_line_items w @ [i\<lparr>li_ID := lw_fresh w\<rparr>], lw_fresh := lw_fresh w + 1\<rparr>"
    and none: "FetchShipmentLineItemsByItemID w s (li_Tariff400ngItemID i) = []"
    using c by (simp_all add: createUnique_ok)
  have "row_key i \<notin> set (row_keys w)"
    using none Cons.prems(2) by (auto simp: FetchShipmentLineItemsByItemID_def filter_empty_conv)
  moreover have "copy_of_row w g \<longrightarrow> copy_of_row v g" for g
    by (auto simp: copy_of_row_def v)
  ultimately show ?case
    using Cons.IH [OF rest] Cons.prems(2) by (auto simp: v list_all_iff)
qed simp

lemma save_copies:
  "save_items save_line_item items w = (w', ve, None) \<Longrightarrow> list_all (copy_of_row w) items \<Longrightarrow> ve = [] \<and> row_keys w' = row_keys w"
proof (induction items arbitrary: w)
  case (Cons g items)
  obtain v g' where c: "save_line_item w g = (v, g', [], None)" and rest: "save_items save_line_item items v = (w', ve, None)"
    using Cons.prems(1) by (rule save_items_Cons_ok)
  have v: "v = w\<lparr>lw_line_items := map (\<lambda>r. if li_ID r = li_ID g then g else r) (lw_line_items w)\<rparr>"
    using c Cons.prems(2) by (simp add: save_line_item_def update_line_item_ok copy_of_row_def)
  have keys: "row_keys v = row_keys w" "list_all (copy_of_row v) items"
    using Cons.prems(2) by (auto simp: v copy_of_row_def list_all_iff)
  then show ?case using Cons.IH [OF rest] by simp
qed simp

lemma save_items_error: "save_items f items w = (w', ve, Some e) \<Longrightarrow> e = ErrMsg ''rollback''"
  by (induction items arbitrary: w) (auto split: prod.splits if_splits)

lemma save_distance_rows:
  "save_distance w d = (w', d', ve, err) \<Longrightarrow> lw_line_items w' = lw_line_items w \<and> (copy_of_row w g \<longrightarrow> copy_of_row w' g)"
  by (auto simp: save_distance_def Let_def copy_of_row_def split: if_splits)

lemma save_shipment_rows:
  "save_shipment w s = (w', s', ve, err) \<Longrightarrow> lw_line_items w' = lw_line_items w \<and> s' = s \<and> (copy_of_row w g \<longrightarrow> copy_of_row w' g)"
  by (auto simp: save_shipment_def copy_of_row_def split: if_splits)

text \<open>A run of saves that stops early has saved the items before the one that failed.\<close>

lemma save_base_prefix:
  "save_items (createUniqueShipmentLineItem s) items w = (w', ve, err) \<Longrightarrow>
     \<exists>k \<le> length items. row_keys w' = row_keys w @ map row_key (take k items)"
proof (induction items arbitrary: w)
  case (Cons i items)
  obtain v i' ve1 err1 where c: "createUniqueShipmentLineItem s w i = (v, i', ve1, err1)" by (metis prod_cases4)
  show ?case
  proof (cases "err1 \<noteq> None \<or> ve1 \<noteq> []")
    case True
    then have "w' = w" using c Cons.prems
      by (auto simp: createUniqueShipmentLineItem_def create_line_item_def Let_def split: if_splits)
    then show ?thesis by (intro exI [of _ 0]) simp
  next
    case False
    then have v: "row_keys v = row_keys w @ [row_key i]" using c by (auto simp: createUnique_ok)
    from False have "save_items (createUniqueShipmentLineItem s) items v = (w', ve, err)" using c Cons.prems by simp
    from Cons.IH [OF this] obtain k where "k \<le> length items" "row_keys w' = row_keys v @ map row_key (take k items)" by blast
    then show ?thesis using v by (intro exI [of _ "Suc k"]) simp
  qed
qed simp

lemma save_copies_keys:
  "save_items save_line_item items w = (w', ve, err) \<Longrightarrow> list_all (copy_of_row w) items \<Longrightarrow> row_keys w' = row_keys w"
proof (induction items arbitrary: w)
  case (Cons g items)
  obtain v g' ve1 err1 where c: "save_line_item w g = (v, g', ve1, err1)" by (metis prod_cases4)
  have g: "copy_of_row w g" using Cons.prems(2) by simp
  then have v: "v = w \<or> v = w\<lparr>lw_line_items := map (\<lambda>r. if li_ID r = li_ID g then g else r) (lw_line_items w)\<rparr>"
    using c by (auto simp: save_line_item_def update_line_item_def copy_of_row_def split: if_splits)
  then have keys: "row_keys v = row_keys w" using g by (auto simp: copy_of_row_def list_all_iff)
  have copies: "list_all (copy_of_row v) items" using v g Cons.prems(2) by (auto simp: copy_of_row_def list_all_iff)
  show ?case
  proof (cases "err1 \<noteq> None \<or> ve1 \<noteq> []")
    case True
    then have "w' = v" using c Cons.prems(1) by auto
    then show ?thesis using keys by simp
  next
    case False
    then show ?thesis using c Cons.prems(1) Cons.IH [OF _ copies] keys by simp
  qed
qed simp

lemma save_and_price_failed:
  assumes "save_and_price s base general d w = (w', s', ve, Some e)" "list_all (\<lambda>i. li_ShipmentID i = shp_ID s) base"
    "list_all (copy_of_row w) general"
  shows "e = ErrMsg ''rollback'' \<and> (\<exists>k \<le> length base. row_keys w' = row_keys w @ map row_key (take k base))"
proof -
  obtain w1 d1 ve1 err1 where s1: "save_distance w d = (w1, d1, ve1, err1)" by (metis prod_cases4)
  obtain w2 s2 ve2 err2 where
    s2: "save_shipment w1 (s\<lparr>shp_ShippingDistance := Some d1, shp_ShippingDistanceID := Some (dc_ID d1)\<rparr>) = (w2, s2, ve2, err2)"
    by (metis prod_cases4)
  obtain w3 ve3 err3 where s3: "save_items (createUniqueShipmentLineItem s2) base w2 = (w3, ve3, err3)" by (metis prod_cases3)
  obtain w4 ve4 err4 where s4: "save_items save_line_item general w3 = (w4, ve4, err4)" by (metis prod_cases3)
  have same: "row_keys w1 = row_keys w" "row_keys w2 = row_keys w"
    using save_distance_rows [OF s1] save_shipment_rows [OF s2] by simp_all
  obtain k where k: "k \<le> length base" "row_keys w3 = row_keys w @ map row_key (take k base)"
    using save_base_prefix [OF s3] same(2) by auto
  have id: "list_all (\<lambda>i. li_ShipmentID i = shp_ID s2) base" using assms(2) save_shipment_rows [OF s2] by auto
  consider "w' = w1" "e = ErrMsg ''rollback''" | "w' = w2" "e = ErrMsg ''rollback''" | "w' = w3" "err3 = Some e"
    | "w' = w4" "err4 = Some e" "err3 = None"
    using assms(1) s1 s2 s3 s4 by (auto simp: save_and_price_def Let_def split: if_splits)
  then show ?thesis
  proof cases
    case 4
    have "list_all (copy_of_row w3) general"
      using assms(3) save_distance_rows [OF s1] save_shipment_rows [OF s2] save_base_items [OF s3 [unfolded 4(3)] id]
      by (auto simp: list_all_iff)
    then have "row_keys w' = row_keys w3" using save_copies_keys [OF s4] 4(1) by simp
    then show ?thesis using k save_items_error [OF s4 [unfolded 4(2)]] by auto
  qed (use same k save_items_error s3 in \<open>auto intro: exI [of _ 0]\<close>)
qed

text \<open>C9: saving the prices of a shipment, when it succeeds, adds one row for every base item, none of whose 400NG items
  the shipment had a row for, all different, and keeps the shipment and 400NG item of every other row; this holds both
  inside and outside a transaction of the caller.  When it fails the error is \<open>rollback\<close> whatever the cause was; outside a
  transaction the tables are as they were, inside one the rows of the first few base items stay for the caller to roll back.\<close>

theorem priced_shipment_saved:
  assumes "list_all (\<lambda>i. li_ShipmentID i = shp_ID s) base" "list_all (copy_of_row w) general"
    "SaveShipmentAndPricingInfo in_tx s base general d w = (w', s', ve, err)"
  shows "if err = None
    then row_keys w' = row_keys w @ map row_key base \<and> distinct (map row_key base)
      \<and> list_all (\<lambda>i. row_key i \<notin> set (row_keys w)) base
    else err = Some (ErrMsg ''rollback'')
      \<and> (if in_tx then \<exists>k \<le> length base. row_keys w' = row_keys w @ map row_key (take k base) else w' = w)"
proof (cases err)
  case None
  obtain w1 d1 w2 w3 s2 ve3 where
    s1: "save_distance w d = (w1, d1, [], None)" and
    s2: "save_shipment w1 (s\<lparr>shp_ShippingDistance := Some d1, shp_ShippingDistanceID := Some (dc_ID d1)\<rparr>) = (w2, s2, [], None)" and
    s3: "save_items (createUniqueShipmentLineItem s2) base w2 = (w3, ve3, None)" and
    s4: "save_items save_line_item general w3 = (w', ve, None)"
    using assms(3) None by (auto simp: SaveShipmentAndPricingInfo_def save_and_price_def Let_def split: prod.splits if_splits)
  have id: "shp_ID s2 = shp_ID s" using save_shipment_rows [OF s2] by auto
  have b: "list_all (\<lambda>i. li_ShipmentID i = shp_ID s2) base" using assms(1) by (simp add: id)
  have rows: "row_keys w2 = row_keys w" using save_distance_rows [OF s1] save_shipment_rows [OF s2] by simp
  have g: "list_all (copy_of_row w3) general"
    using assms(2) save_distance_rows [OF s1] save_shipment_rows [OF s2] save_base_items [OF s3 b] by (auto simp: list_all_iff)
  have "distinct (map row_key base)"
    using save_base_items [OF s3 b] by (auto simp: distinct_map inj_on_def)
  then show ?thesis
    using None save_base_items [OF s3 b] save_copies [OF s4 g] rows by simp
next
  case (Some e)
  obtain v ve' where run: "save_and_price s base general d w = (v, s', ve, Some e)" and w': "w' = (if in_tx then v else w)"
    using assms(3) Some by (auto simp: SaveShipmentAndPricingInfo_def split: prod.splits if_splits)
  show ?thesis using save_and_price_failed [OF run assms(1,2)] Some w' by auto
qed

section \<open>Samples\<close>

definition sample_item :: "nat \<Rightarrow> string \<Rightarrow> bool \<Rightarrow> ShipmentLineItem" where
  "sample_item i code approval = zero_line_item\<lparr>li_ID := i, li_ShipmentID := 7, li_Tariff400ngItemID := i + 100,
     li_Tariff400ngItem := zero_item\<lparr>it_ID := i + 100, it_Code := code, it_RequiresPreApproval := approval\<rparr>\<rparr>"

definition sample_rows :: "ShipmentLineItem list" where
  "sample_rows = [sample_item 1 ''LHS'' False, (sample_item 2 ''16A'' False)\<lparr>li_InvoiceID := Some 5\<rparr>,
     sample_item 3 ''210A'' False, sample_item 4 ''105B'' True]"

definition sample_li_world :: li_world where
  "sample_li_world = \<lparr>lw_items = [], lw_line_items = sample_rows, lw_dims = [], lw_addresses = [], lw_distances = [],
     lw_shipments = [], lw_sits = [], lw_recalculated = [], lw_fresh = 50, lw_save_line_item = (\<lambda>_. ([], None)), lw_save_dims = (\<lambda>_. ([], None)),
     lw_save_address = (\<lambda>_. ([], None)), lw_save_distance = (\<lambda>_. ([], None)), lw_save_shipment = (\<lambda>_. ([], None)),
     lw_save_sits = (\<lambda>_. ([], None)), lw_load = (\<lambda>_. None), lw_destroy = (\<lambda>_. None)\<rparr>"

lemmas sample_items = sample_li_world_def sample_rows_def sample_item_def zero_line_item_def zero_item_def

text \<open>A database that destroys and saves without error lets both deletions succeed.\<close>

definition lets_delete :: "li_world \<Rightarrow> bool" where
  "lets_delete w \<longleftrightarrow> lw_destroy w = (\<lambda>_. None) \<and> lw_save_shipment w = (\<lambda>_. ([], None))"

lemma destroy_part_succeeds:
  "lets_delete w \<Longrightarrow> \<exists>v. destroy_dims d w = (v, None) \<and> lets_delete v"
  "lets_delete w \<Longrightarrow> \<exists>v. destroy_address a w = (v, None) \<and> lets_delete v"
  by (simp_all add: destroy_dims_def destroy_address_def lets_delete_def)

lemma destroy_succeeds:
  assumes "lets_delete w" "li_InvoiceID i = None"
  shows "\<exists>v. destroy_line_item i w = (v, None) \<and> lets_delete v"
proof -
  let ?w = "w\<lparr>lw_line_items := filter (\<lambda>r. li_ID r \<noteq> li_ID i) (lw_line_items w)\<rparr>"
  have w: "lets_delete ?w" using assms(1) by (simp add: lets_delete_def)
  obtain v1 where v1: "(if li_ItemDimensionsID i \<noteq> None then destroy_dims (li_ItemDimensions i) ?w else (?w, None)) = (v1, None)"
    "lets_delete v1" using destroy_part_succeeds(1) [OF w, of "li_ItemDimensions i"] w by (cases "li_ItemDimensionsID i = None") auto
  obtain v2 where v2: "(if li_CrateDimensionsID i \<noteq> None then destroy_dims (li_CrateDimensions i) v1 else (v1, None)) = (v2, None)"
    "lets_delete v2" using destroy_part_succeeds(1) [OF v1(2), of "li_CrateDimensions i"] v1 by (cases "li_CrateDimensionsID i = None") auto
  obtain v3 where v3: "(if li_AddressID i \<noteq> None then destroy_address (li_Address i) v2 else (v2, None)) = (v3, None)"
    "lets_delete v3" using destroy_part_succeeds(2) [OF v2(2), of "li_Address i"] v2 by (cases "li_AddressID i = None") auto
  have "AfterDestroy i ?w = (v3, None)" unfolding AfterDestroy_def v1(1) and_then_simps v2(1) v3(1) ..
  then show ?thesis
    using assms v3(2) by (simp add: destroy_line_item_def BeforeDestroy_def lets_delete_def)
qed

lemma delete_loop_succeeds:
  "lets_delete w \<Longrightarrow> \<forall>i. P i \<longrightarrow> li_InvoiceID i = None \<Longrightarrow>
     \<exists>v k'. delete_line_items P m items w k = ((v, k'), None) \<and> lets_delete v"
proof (induction items arbitrary: w k)
  case (Cons i items)
  show ?case
  proof (cases "P i")
    case True
    then obtain v where "destroy_line_item i w = (v, None)" "lets_delete v"
      using destroy_succeeds Cons.prems by blast
    then show ?thesis using True Cons.IH [of v] Cons.prems(2) by simp
  qed (use Cons in simp)
qed simp

lemma delete_and_save_succeeds:
  assumes "lets_delete w" "\<forall>i. P i \<longrightarrow> li_InvoiceID i = None"
  shows "\<exists>w' s'. delete_and_save P m1 m2 s w = ((w', s'), None) \<and> lets_delete w'"
  using delete_loop_succeeds [OF assms, of m1 "shp_ShipmentLineItems s" "[]"]
  by (auto simp: delete_and_save_def Let_def SaveShipment_def save_shipment_def lets_delete_def)

theorem repricing_deletions_witness:
  "\<exists>w1 s1 w2 s2. DeleteBaseShipmentLineItems (sample_shipment\<lparr>shp_ShipmentLineItems := sample_rows\<rparr>) sample_li_world = ((w1, s1), None)
    \<and> DeleteStorageInTransitLineItems s1 w1 = ((w2, s2), None)
    \<and> map li_ID (shp_ShipmentLineItems s2) = [2, 4]"
proof -
  let ?s = "sample_shipment\<lparr>shp_ShipmentLineItems := sample_rows\<rparr>"
  have w: "lets_delete sample_li_world" by (simp add: lets_delete_def sample_li_world_def)
  have free: "\<forall>i. base_deletable i \<longrightarrow> li_InvoiceID i = None" "\<forall>i. sit_deletable i \<longrightarrow> li_InvoiceID i = None"
    by (simp_all add: base_deletable_def sit_deletable_def)
  obtain w1 s1 where one: "DeleteBaseShipmentLineItems ?s sample_li_world = ((w1, s1), None)" and w1: "lets_delete w1"
    unfolding DeleteBaseShipmentLineItems_def using delete_and_save_succeeds [OF w free(1)] by blast
  obtain w2 s2 where two: "DeleteStorageInTransitLineItems s1 w1 = ((w2, s2), None)"
    unfolding DeleteStorageInTransitLineItems_def using delete_and_save_succeeds [OF w1 free(2)] by blast
  have "shp_ShipmentLineItems s2 = filter (\<lambda>i. \<not> (base_deletable i \<or> sit_deletable i)) sample_rows"
    using repricing_deletions [of sample_li_world ?s, OF _ _ one two] by (simp add: sample_items)
  then show ?thesis
    using one two by (auto simp: sample_items base_deletable_def sit_deletable_def FindBaseShipmentLineItem_def
        FindStorageInTransitShipmentLineItem_def BaseShipmentLineItemCodes_def StorageInTransitLineItemCodes_def)
qed

definition sample_params :: "string \<Rightarrow> BaseShipmentLineItemParams" where
  "sample_params code = \<lparr>bp_Tariff400ngItemID = 103, bp_Tariff400ngItemCode = code, bp_Quantity1 = None, bp_Quantity2 = None,
     bp_Location = ItemAllowedLocationORIGIN, bp_Notes = None\<rparr>"

definition no_additional :: AdditionalShipmentLineItemParams where
  "no_additional = \<lparr>xp_Description = None, xp_ItemDimensions = None, xp_CrateDimensions = None, xp_Reason = None,
     xp_EstimateAmountCents = None, xp_ActualAmountCents = None, xp_Date = None, xp_Time = None, xp_Address = None\<rparr>"

theorem approved_35A_update_witness:
  "\<exists>w' li'. UpdateShipmentLineItem sample_li_world (sample_params ''35A'') (no_additional\<lparr>xp_ActualAmountCents := Some 900\<rparr>)
      ((sample_item 3 ''35A'' True)\<lparr>li_Status := LineItemStatusAPPROVED, li_EstimateAmountCents := Some 500\<rparr>) = Ret (w', li', [], None)
    \<and> li_Quantity1 li' = 50000"
proof -
  let ?li = "(sample_item 3 ''35A'' True)\<lparr>li_Status := LineItemStatusAPPROVED, li_EstimateAmountCents := Some 500\<rparr>"
  let ?p = "no_additional\<lparr>xp_ActualAmountCents := Some 900\<rparr>"
  obtain w' li' where run: "UpdateShipmentLineItem sample_li_world (sample_params ''35A'') ?p ?li = Ret (w', li', [], None)"
    by (simp add: UpdateShipmentLineItem_def with_dependency_def upsertItemCodeDependency_def is105Item_def is35AItem_def
        upsertItemCode35ADependency_def quantity_35A_def sample_params_def no_additional_def sample_item_def
        zero_line_item_def uuid_Nil_def save_and_load_def update_line_item_def)
      (simp add: sample_li_world_def)
  have "li' = load_line_item w' (?li\<lparr>li_ActualAmountCents := Some 900, li_Quantity1 := 50000\<rparr>)"
    using approved_35A_update [of ?li "sample_params ''35A''" ?p sample_li_world w' li'] run
    by (simp add: is35AItem_def sample_params_def no_additional_def sample_item_def uuid_Nil_def amount_def)
  then have "li_Quantity1 li' = 50000" by (simp add: load_line_item_def split: outcome.split)
  then show ?thesis using run by blast
qed

theorem crate_dimensions_panic_witness:
  "CreateShipmentLineItem sample_shipment 0 sample_li_world (sample_params ''105B'')
     (no_additional\<lparr>xp_ItemDimensions := Some \<lparr>ald_Length = 1000, ald_Width = 1000, ald_Height = 1000\<rparr>,
        xp_CrateDimensions := Some \<lparr>ald_Length = 0, ald_Width = 1000, ald_Height = 1000\<rparr>\<rparr>) = Panic"
  by (subst crate_dimensions_panic) (auto simp: is105Item_def sample_params_def no_additional_def sample_li_world_def)

theorem priced_shipment_saved_witness:
  "\<forall>in_tx. \<exists>w'. fst (SaveShipmentAndPricingInfo in_tx sample_shipment [(sample_item 9 ''135A'' False)] [sample_item 4 ''105B'' True]
      \<lparr>dc_ID = 0, dc_OriginAddressID = 0, dc_OriginAddress = zero_address, dc_DestinationAddressID = 0,
        dc_DestinationAddress = zero_address, dc_DistanceMiles = 300\<rparr> sample_li_world) = w'
    \<and> row_keys w' = [(7, 101), (7, 102), (7, 103), (7, 104), (7, 109)]"
proof
  fix in_tx
  let ?d = "\<lparr>dc_ID = 0, dc_OriginAddressID = 0, dc_OriginAddress = zero_address, dc_DestinationAddressID = 0,
        dc_DestinationAddress = zero_address, dc_DistanceMiles = 300\<rparr>"
  obtain w' s' ve err where run: "SaveShipmentAndPricingInfo in_tx sample_shipment [(sample_item 9 ''135A'' False)]
      [sample_item 4 ''105B'' True] ?d sample_li_world = (w', s', ve, err)" by (metis prod_cases4)
  then have "err = None"
    by (auto simp: SaveShipmentAndPricingInfo_def save_and_price_def save_distance_def save_shipment_def Let_def
        createUniqueShipmentLineItem_def FetchShipmentLineItemsByItemID_def create_line_item_def save_line_item_def
        update_line_item_def sample_items sample_shipment_def Shipment.defs split: if_splits)
  then show "\<exists>w'. fst (SaveShipmentAndPricingInfo in_tx sample_shipment [(sample_item 9 ''135A'' False)] [sample_item 4 ''105B'' True] ?d
      sample_li_world) = w' \<and> row_keys w' = [(7, 101), (7, 102), (7, 103), (7, 104), (7, 109)]"
    using priced_shipment_saved [OF _ _ run] run
    by (simp add: copy_of_row_def sample_items sample_shipment_def Shipment.defs uuid_Nil_def)
qed

end
