(* ===== verification/Pricing.thy ===== *)
theory Pricing
  imports RateEngine LineItems
begin

text \<open>
  Pricing a delivered shipment: the pricers and the charge of one line item
  (\<open>pkg/rateengine/pricers.go\<close>, \<open>accessorials.go\<close>), the cost of an HHG shipment
  (\<open>rateengine.go\<close>), the base line items (\<open>line_items.go\<close>), the storage in transit line items
  (\<open>create_storage_in_transit_line_items.go\<close>) and the services that deliver, price and recalculate a
  shipment (\<open>pkg/services/shipment\<close>).  The tariff tables and the route planner are arguments.
\<close>

section \<open>Pricers\<close>

datatype pricer = basicQuantityPricer | minimumQuantityPricer int
  | minimumQuantityHundredweightPricer int | flatRatePricer

definition at_least :: "int \<Rightarrow> BaseQuantity \<Rightarrow> BaseQuantity" where
  "at_least m q1 = (if ToUnitFloat q1 < of_int m then BaseQuantityFromInt m else q1)"

definition calculated_rate :: "pricer \<Rightarrow> Cents \<Rightarrow> BaseQuantity \<Rightarrow> Cents" where
  "calculated_rate p rate q1 = (case p of
      basicQuantityPricer \<Rightarrow> Cents_MultiplyFloat64 rate (ToUnitFloat q1)
    | minimumQuantityPricer m \<Rightarrow> Cents_MultiplyFloat64 rate (ToUnitFloat (at_least m q1))
    | minimumQuantityHundredweightPricer m \<Rightarrow> Cents_MultiplyFloat64 rate (fl64 (ToUnitFloat (at_least m q1) / 100))
    | flatRatePricer \<Rightarrow> rate)"

definition apply_discount :: "DiscountRate option \<Rightarrow> Cents \<Rightarrow> Cents" where
  "apply_discount discount c = (case discount of None \<Rightarrow> c | Some d \<Rightarrow> Apply d c)"

definition price :: "pricer \<Rightarrow> Cents \<Rightarrow> BaseQuantity \<Rightarrow> DiscountRate option \<Rightarrow> Cents" where
  "price p rate q1 discount = apply_discount discount (calculated_rate p rate q1)"

definition tariff400ngItemPricing :: "string \<Rightarrow> pricer option" where
  "tariff400ngItemPricing = map_of
     [(''4A'', basicQuantityPricer), (''4B'', basicQuantityPricer),
      (''28A'', basicQuantityPricer), (''28B'', basicQuantityPricer), (''28C'', basicQuantityPricer),
      (''35A'', basicQuantityPricer), (''35B'', flatRatePricer),
      (''105B'', minimumQuantityPricer 4), (''105E'', minimumQuantityPricer 4), (''105D'', basicQuantityPricer),
      (''120A'', basicQuantityPricer), (''120B'', basicQuantityPricer), (''120C'', basicQuantityPricer),
      (''120D'', basicQuantityPricer), (''120E'', basicQuantityPricer), (''120F'', basicQuantityPricer),
      (''125A'', flatRatePricer), (''125B'', flatRatePricer), (''125C'', flatRatePricer), (''125D'', flatRatePricer),
      (''130A'', basicQuantityPricer), (''130B'', basicQuantityPricer), (''130C'', basicQuantityPricer),
      (''130D'', basicQuantityPricer), (''130E'', basicQuantityPricer), (''130F'', basicQuantityPricer),
      (''130G'', basicQuantityPricer), (''130H'', basicQuantityPricer), (''130I'', basicQuantityPricer),
      (''130J'', basicQuantityPricer), (''175A'', minimumQuantityPricer 1000),
      (''210A'', flatRatePricer), (''210B'', flatRatePricer), (''210C'', flatRatePricer),
      (''225A'', flatRatePricer), (''225B'', flatRatePricer), (''226A'', basicQuantityPricer)]"

definition tariff400ngItemRateMap :: "string \<Rightarrow> string option" where
  "tariff400ngItemRateMap = map_of [(''17A'', ''210A''), (''17D'', ''185A''), (''17E'', ''210D'')]"

definition tariff400ngWeightBasedItems :: "string \<Rightarrow> bool" where
  "tariff400ngWeightBasedItems code \<longleftrightarrow> code \<in> {''17D'', ''175A'', ''185A''}"

section \<open>The charge of a line item\<close>

text \<open>The rate in cents.  For 210C the error of the linehaul query is only logged, and the rate is what
  the query left: 0.\<close>

definition item_rate :: "tariff_db \<Rightarrow> ServiceArea \<Rightarrow> Shipment \<Rightarrow> ShipmentLineItem \<Rightarrow> Pound \<Rightarrow> gotime \<Rightarrow> Cents result" where
  "item_rate db serviceArea shipment li netWeight shipDate =
     (let itemCode = li_Code li in
      if itemCode = ''185A'' then Ret (sa_SIT185ARateCents serviceArea)
      else if itemCode = ''185B'' then Ret (sa_SIT185BRateCents serviceArea)
      else if itemCode = ''226A'' then Ret 100
      else if itemCode = ''35A'' then Ret 100
      else if itemCode = ''210C'' then
        obind (deref (shp_ActualPickupDate shipment)) (\<lambda>actualPickupDate.
        case FetchBaseLinehaulRate db (ToUnitInt (li_Quantity1 li)) netWeight actualPickupDate of
          Ret linehaul210CRate \<Rightarrow> Ret linehaul210CRate | Fail _ \<Rightarrow> Ret 0 | Panic \<Rightarrow> Panic)
      else
        let effectiveItemCode = (case tariff400ngItemRateMap itemCode of Some mappedCode \<Rightarrow> mappedCode | None \<Rightarrow> itemCode) in
        obind (map_fail (Wrap (''Fetching 400ng item rate from db for item code '' @ itemCode))
          (FetchTariff400ngItemRate db effectiveItemCode (sa_ServicesSchedule serviceArea) netWeight shipDate))
          (\<lambda>rate. Ret (ir_RateCents rate)))"

text \<open>The discount: an index into the offers panics when there are none.\<close>

definition first_offer :: "Shipment \<Rightarrow> TSPPerformance result" where
  "first_offer shipment = (case shp_ShipmentOffers shipment of [] \<Rightarrow> Panic
     | o1 # _ \<Rightarrow> Ret (of_TransportationServiceProviderPerformance o1))"

definition item_discount :: "Shipment \<Rightarrow> ShipmentLineItem \<Rightarrow> DiscountRate option result" where
  "item_discount shipment li =
     (let discountType = it_DiscountType (li_Tariff400ngItem li) in
      if discountType = ItemDiscountTypeHHG
      then obind (first_offer shipment) (\<lambda>p. Ret (Some (tspp_LinehaulRate p)))
      else if discountType = ItemDiscountTypeSIT \<or> li_Code li = ''210C''
      then obind (first_offer shipment) (\<lambda>p. Ret (Some (tspp_SITRate p)))
      else Ret None)"

definition no_tspp :: "Shipment \<Rightarrow> bool" where
  "no_tspp shipment \<longleftrightarrow> length (shp_ShipmentOffers shipment) = 0
     \<or> tspp_ID (of_TransportationServiceProviderPerformance (shp_ShipmentOffers shipment ! 0)) = uuid_Nil"

definition ComputeShipmentLineItemCharge :: "tariff_db \<Rightarrow> Shipment \<Rightarrow> ShipmentLineItem \<Rightarrow> FeeAndRate result" where
  "ComputeShipmentLineItemCharge db shipment li =
     (case shp_NetWeight shipment of
        None \<Rightarrow> Fail (ErrMsg ''Can't price a shipment line item for a shipment without NetWeight'')
      | Some netWeight \<Rightarrow>
          obind (deref (shp_PickupAddress shipment)) (\<lambda>pickup.
          obind (Zip5ToZip3 (ad_PostalCode pickup)) (\<lambda>pickupZip.
          obind (if li_Location li = ItemAllowedLocationDESTINATION
                 then Zip5ToZip3 (ad_PostalCode (shp_NewDutyStationAddress shipment)) else Ret pickupZip) (\<lambda>zip3.
          obind (deref (shp_BookDate shipment)) (\<lambda>shipDate.
          obind (map_fail (Wrap (''Fetching 400ng service area from db for zip '' @ zip3))
            (FetchTariff400ngServiceAreaForZip3 db zip3 shipDate)) (\<lambda>serviceArea.
          obind (item_rate db serviceArea shipment li netWeight shipDate) (\<lambda>rateCents.
          if it_DiscountType (li_Tariff400ngItem li) \<noteq> ItemDiscountTypeNONE \<and> no_tspp shipment
          then Fail (ErrMsg ''No TSPP provided for Shipment, something is very wrong'')
          else obind (item_discount shipment li) (\<lambda>discountRate.
            let appliedQuantity = (if tariff400ngWeightBasedItems (li_Code li)
                  then BaseQuantityFromInt netWeight else li_Quantity1 li);
                appliedRate = apply_discount discountRate rateCents
            in case tariff400ngItemPricing (li_Code li) of
                 Some itemPricer \<Rightarrow> Ret \<lparr>Fee = price itemPricer rateCents appliedQuantity discountRate,
                   Rate = ToMillicents appliedRate\<rparr>
               | None \<Rightarrow> Fail (ErrMsg ''Could not find pricing function for given code'')))))))))"

definition PriceAdditionalRequest :: "tariff_db \<Rightarrow> Shipment \<Rightarrow> ShipmentLineItem \<Rightarrow> ShipmentLineItem result" where
  "PriceAdditionalRequest db shipment li =
     obind (ComputeShipmentLineItemCharge db shipment li) (\<lambda>feeAndRate.
     Ret (li\<lparr>li_AmountCents := Some (Fee feeAndRate), li_AppliedRate := Some (Rate feeAndRate)\<rparr>))"

text \<open>A loop that stops at the first error or panic.\<close>

primrec mapM :: "('a \<Rightarrow> 'b result) \<Rightarrow> 'a list \<Rightarrow> 'b list result" where
  "mapM f [] = Ret []"
| "mapM f (x # xs) = obind (f x) (\<lambda>y. obind (mapM f xs) (\<lambda>ys. Ret (y # ys)))"

definition PriceAdditionalRequestsForShipment ::
    "tariff_db \<Rightarrow> li_world \<Rightarrow> Shipment \<Rightarrow> ShipmentLineItem list \<Rightarrow> ShipmentLineItem list result" where
  "PriceAdditionalRequestsForShipment db w shipment storageInTransitLineItems =
     mapM (PriceAdditionalRequest db shipment)
       (FetchApprovedPreapprovalRequestsByShipment w shipment @ storageInTransitLineItems)"

section \<open>The cost of an HHG shipment\<close>

record CostByShipment =
  cs_Shipment :: Shipment
  cs_Cost :: CostComputation

text \<open>The rates are discounted in whole cents, but for the unpack rate, which has millicents.\<close>

definition discount_rate_cents :: "DiscountRate \<Rightarrow> FeeAndRate \<Rightarrow> FeeAndRate" where
  "discount_rate_cents d f = f\<lparr>Rate := wrap64 (ApplyToMillicents d (go_div (Rate f) 1000) * 1000)\<rparr>"

definition discount_rate_millicents :: "DiscountRate \<Rightarrow> FeeAndRate \<Rightarrow> FeeAndRate" where
  "discount_rate_millicents d f = f\<lparr>Rate := ApplyToMillicents d (Rate f)\<rparr>"

definition discount_rates :: "DiscountRate \<Rightarrow> NonLinehaulCostComputation \<Rightarrow> NonLinehaulCostComputation" where
  "discount_rates d c = c\<lparr>OriginService := discount_rate_cents d (OriginService c),
     DestinationService := discount_rate_cents d (DestinationService c), Pack := discount_rate_cents d (Pack c),
     Unpack := discount_rate_millicents d (Unpack c)\<rparr>"

definition shipment_cost ::
  "LinehaulCostComputation \<Rightarrow> NonLinehaulCostComputation \<Rightarrow> SITComputation \<Rightarrow> SITComputation \<Rightarrow> DiscountRate \<Rightarrow> DiscountRate
    \<Rightarrow> Pound \<Rightarrow> uuid \<Rightarrow> CostComputation" where
  "shipment_cost lh nlh sitComputation maxSITComputation lhDiscount sitDiscount weight shipmentID =
     \<lparr>linehaul = lh, nonLinehaul = nlh, SITFee = ApplyDiscount sitComputation lhDiscount sitDiscount,
      SITMax = ApplyDiscount maxSITComputation lhDiscount sitDiscount, GCC = gcc_total lh nlh,
      LHDiscount = lhDiscount, SITDiscount = sitDiscount, Weight = weight, ShipmentID = shipmentID\<rparr>"

definition ComputeShipment ::
  "tariff_db \<Rightarrow> Shipment \<Rightarrow> DistanceCalculation \<Rightarrow> int \<Rightarrow> DiscountRate \<Rightarrow> DiscountRate \<Rightarrow> CostComputation result" where
  "ComputeShipment db shipment distanceCalculation daysInSIT lhDiscount sitDiscount =
     obind (deref (shp_NetWeight shipment)) (\<lambda>netWeight.
     case prorate netWeight of (prorateFactor, weight) \<Rightarrow>
     obind (deref (shp_ActualPickupDate shipment)) (\<lambda>pickupDate.
     obind (deref (shp_BookDate shipment)) (\<lambda>bookDate.
     let originZip = ad_PostalCode (dc_OriginAddress distanceCalculation);
         destinationZip = ad_PostalCode (dc_DestinationAddress distanceCalculation) in
     obind (linehaulChargeComputation db weight originZip destinationZip (dc_DistanceMiles distanceCalculation) pickupDate) (\<lambda>lh0.
     obind (nonLinehaulChargeComputation db weight originZip destinationZip pickupDate) (\<lambda>nlh0.
     let lh1 = lh0\<lparr>LinehaulChargeTotal := Apply lhDiscount (LinehaulChargeTotal lh0)\<rparr>;
         nlh = discount_rates lhDiscount (discount_nonlinehaul lhDiscount nlh0) in
     obind (map_fail (Wrap ''Failed to calculate fuel surcharge'')
       (fuelSurchargeComputation db (LinehaulChargeTotal lh1) bookDate)) (\<lambda>fuel.
     let lh = lh1\<lparr>FuelSurcharge := fuel\<rparr> in
     obind (Zip5ToZip3 destinationZip) (\<lambda>destinationZip3.
     obind (SitCharge db (ToCWT weight) daysInSIT destinationZip3 pickupDate True) (\<lambda>sitComputation.
     obind (SitCharge db (ToCWT weight) MaxSITDays destinationZip3 pickupDate True) (\<lambda>maxSITComputation.
     Ret (CostComputation_Scale prorateFactor
       (shipment_cost lh nlh sitComputation maxSITComputation lhDiscount sitDiscount weight (shp_ID shipment))))))))))))"

text \<open>\<open>s[0:5]\<close> panics on a string of fewer than five bytes.\<close>

definition zip5_slice :: "string \<Rightarrow> string result" where
  "zip5_slice s = (if length s < 5 then Panic else Ret (take 5 s))"

text \<open>The offers of a shipment that was not loaded with them are nil, here the empty list.  With no
  accepted offer the nil error of \<open>AcceptedShipmentOffer\<close> is wrapped to nil, so the zero cost of a
  zero shipment is returned without an error (\<open>None\<close>).\<close>

definition HandleRunOnShipment :: "tariff_db \<Rightarrow> Shipment \<Rightarrow> DistanceCalculation \<Rightarrow> CostByShipment option result" where
  "HandleRunOnShipment db shipment distanceCalculation =
     (case shp_PickupAddress shipment of
        None \<Rightarrow> Fail (ErrMsg ''PickupAddress is nil'')
      | Some pickup \<Rightarrow>
          if shp_ShipmentOffers shipment = [] then Fail (ErrMsg ''ShipmentOffers is nil'')
          else obind (map_fail (Wrap ''Error retrieving ACCEPTED ShipmentOffer in rateengine'')
            (AcceptedShipmentOffer shipment)) (\<lambda>acceptedOffer.
          case acceptedOffer of
            None \<Rightarrow> Ret None
          | Some offer \<Rightarrow>
              let tspp = of_TransportationServiceProviderPerformance offer in
              if tspp_ID tspp = uuid_Nil then Fail (ErrMsg ''TransportationServiceProviderPerformance is nil'')
              else if shp_NetWeight shipment = None then Fail (ErrMsg ''NetWeight is nil'')
              else if shp_ActualPickupDate shipment = None then Fail (ErrMsg ''ActualPickupDate is nil'')
              else obind (zip5_slice (ad_PostalCode pickup)) (\<lambda>originZip5.
                obind (zip5_slice (ad_PostalCode (shp_NewDutyStationAddress shipment))) (\<lambda>stationZip5.
                if originZip5 = stationZip5
                then Fail (ErrMsg ''PickupAddress cannot have the same PostalCode as the NewDutyStation PostalCode'')
                else obind (ComputeShipment db shipment distanceCalculation 0 (tspp_LinehaulRate tspp) 0) (\<lambda>cost.
                  Ret (Some \<lparr>cs_Shipment = shipment, cs_Cost = cost\<rparr>))))))"

section \<open>The base line items\<close>

definition base_line_item ::
    "Shipment \<Rightarrow> gotime \<Rightarrow> BaseQuantity \<Rightarrow> Tariff400ngItem \<Rightarrow> BaseQuantity \<Rightarrow> Cents \<Rightarrow> Millicents \<Rightarrow> ShipmentLineItem" where
  "base_line_item shipment now bqNetWeight it quantity2 cents rate =
     zero_line_item\<lparr>li_ShipmentID := shp_ID shipment, li_Tariff400ngItemID := it_ID it, li_Tariff400ngItem := it,
       li_Location := it_AllowedLocation it, li_Quantity1 := bqNetWeight, li_Quantity2 := quantity2,
       li_Status := LineItemStatusSUBMITTED, li_AmountCents := Some cents, li_AppliedRate := Some rate,
       li_SubmittedDate := now\<rparr>"

definition CreateBaseShipmentLineItems ::
    "Tariff400ngItem list \<Rightarrow> gotime \<Rightarrow> CostByShipment \<Rightarrow> ShipmentLineItem list result" where
  "CreateBaseShipmentLineItems items now costByShipment =
     (let shipment = cs_Shipment costByShipment; cost = cs_Cost costByShipment;
          lh = linehaul cost; nlh = nonLinehaul cost in
     obind (deref (shp_NetWeight shipment)) (\<lambda>netWeight.
     let bqNetWeight = BaseQuantityFromInt netWeight; item = base_line_item shipment now bqNetWeight in
     obind (FetchTariff400ngItemByCode items ''LHS'') (\<lambda>linehaulItem.
     let linehaulCharge = item linehaulItem (BaseQuantityFromInt (Mileage lh)) (LinehaulChargeTotal lh) 0 in
     obind (FetchTariff400ngItemByCode items ''135A'') (\<lambda>originServiceFeeItem.
     let originService = item originServiceFeeItem 0 (Fee (OriginService nlh)) (Rate (OriginService nlh)) in
     obind (FetchTariff400ngItemByCode items ''135B'') (\<lambda>destinationServiceFeeItem.
     let destinationService = item destinationServiceFeeItem 0 (Fee (DestinationService nlh)) (Rate (DestinationService nlh)) in
     obind (FetchTariff400ngItemByCode items ''105A'') (\<lambda>fullPackItem.
     let fullPack = item fullPackItem 0 (Fee (Pack nlh)) (Rate (Pack nlh)) in
     obind (FetchTariff400ngItemByCode items ''105C'') (\<lambda>fullUnpackItem.
     let fullUnpack = item fullUnpackItem 0 (Fee (Unpack nlh)) (Rate (Unpack nlh)) in
     obind (FetchTariff400ngItemByCode items ''16A'') (\<lambda>fuelSurchargeItem.
     let fuelSurcharge = item fuelSurchargeItem (BaseQuantityFromInt (Mileage lh)) (Fee (FuelSurcharge lh)) (Rate (FuelSurcharge lh));
         lineItems = [linehaulCharge, originService, destinationService, fullPack, fullUnpack, fuelSurcharge] in
     obind (VerifyBaseShipmentLineItems lineItems) (\<lambda>_. Ret lineItems)))))))))"

section \<open>Runs on the tables\<close>

text \<open>A run leaves the tables as they are when it returns, also when it returns an error: only a
  caller's transaction takes them back.\<close>

type_synonym 'a run = "li_world \<Rightarrow> li_world \<times> 'a result"

definition run_then :: "'a run \<Rightarrow> ('a \<Rightarrow> 'b run) \<Rightarrow> 'b run" where
  "run_then m k w = (case m w of (w', Ret x) \<Rightarrow> k x w' | (w', Fail e) \<Rightarrow> (w', Fail e) | (w', Panic) \<Rightarrow> (w', Panic))"

definition calc :: "'a result \<Rightarrow> 'a run" where
  "calc r w = (w, r)"

definition wrap_run :: "string \<Rightarrow> 'a run \<Rightarrow> 'a run" where
  "wrap_run m r w = (case r w of (w', x) \<Rightarrow> (w', map_fail (Wrap m) x))"

section \<open>The line items of a storage in transit\<close>

text \<open>The two ends of the trip; a result \<open>None\<close> without an error stands for the nil distance that is
  returned when the save had validation errors only, because the wrapped nil error is nil.\<close>

definition sit_addresses :: "StorageInTransit \<Rightarrow> Shipment \<Rightarrow> (Address \<times> Address) result" where
  "sit_addresses sit shipment = (case si_Location sit of
       SITLocationDESTINATION \<Rightarrow> Ret (si_WarehouseAddress sit,
         (case shp_DestinationAddressOnAcceptance shipment of Some a \<Rightarrow> a | None \<Rightarrow> shp_NewDutyStationAddress shipment))
     | SITLocationORIGIN \<Rightarrow> (case shp_PickupAddress shipment of
           Some pickup \<Rightarrow> Ret (pickup, si_WarehouseAddress sit)
         | None \<Rightarrow> Fail (ErrMsg ''StorageInTransit PickupAddress not provided'')))"

definition save_sit_distance :: "DistanceCalculation \<Rightarrow> DistanceCalculation option run" where
  "save_sit_distance distanceCalculation w = (case save_distance w distanceCalculation of (w', d, verrs, err) \<Rightarrow>
     if verrs \<noteq> [] \<or> err \<noteq> None
     then (w', case errors_Wrap err ''Error saving storage in transit distance'' of Some e \<Rightarrow> Fail e | None \<Rightarrow> Ret None)
     else (w', Ret (Some d)))"

definition storageInTransitDistance ::
    "distanceCalculator \<Rightarrow> StorageInTransit \<Rightarrow> Shipment \<Rightarrow> DistanceCalculation option run" where
  "storageInTransitDistance planner sit shipment =
     run_then (calc (sit_addresses sit shipment)) (\<lambda>(origin, destination).
     if ad_ID origin = uuid_Nil then calc (Fail (ErrMsg ''StorageInTransit PickupAddress not provided''))
     else if ad_ID destination = uuid_Nil then calc (Fail (ErrMsg ''StorageInTransit Destination address not provided''))
     else run_then (wrap_run ''Error creating StorageInTransit DistanceCalculation model''
       (calc (NewDistanceCalculation planner origin destination False))) save_sit_distance)"

definition shipmentItemLocation :: "StorageInTransitLocation \<Rightarrow> ShipmentLineItemLocation" where
  "shipmentItemLocation location = (case location of SITLocationORIGIN \<Rightarrow> ItemAllowedLocationORIGIN
     | SITLocationDESTINATION \<Rightarrow> ItemAllowedLocationDESTINATION)"

text \<open>Here too a save with validation errors only reports no error: the item is returned unsaved.\<close>

definition saveLineItem :: "ShipmentLineItem \<Rightarrow> ShipmentLineItem run" where
  "saveLineItem li w = (case create_line_item w li of (w', li', verrs, err) \<Rightarrow>
     if err \<noteq> None \<or> verrs \<noteq> []
     then (w', case errors_Wrap err ''Error saving storage in transit line item'' of Some e \<Rightarrow> Fail e | None \<Rightarrow> Ret li')
     else (w', Ret li'))"

definition sit_line_item :: "Shipment \<Rightarrow> StorageInTransit \<Rightarrow> int \<Rightarrow> gotime \<Rightarrow> Tariff400ngItem \<Rightarrow> ShipmentLineItem" where
  "sit_line_item shipment sit distanceMiles currentTime tariffItem =
     zero_line_item\<lparr>li_ShipmentID := shp_ID shipment, li_Tariff400ngItemID := it_ID tariffItem,
       li_Tariff400ngItem := tariffItem, li_Location := shipmentItemLocation (si_Location sit),
       li_Quantity1 := BaseQuantityFromInt distanceMiles, li_Status := LineItemStatusAPPROVED,
       li_SubmittedDate := currentTime, li_Address := si_WarehouseAddress sit,
       li_AddressID := Some (si_WarehouseAddressID sit)\<rparr>"

definition createShipmentLineItem ::
    "Shipment \<Rightarrow> StorageInTransit \<Rightarrow> int \<Rightarrow> gotime \<Rightarrow> string \<Rightarrow> ShipmentLineItem run" where
  "createShipmentLineItem shipment sit distanceMiles currentTime itemCode =
     run_then (wrap_run (''Error fetching item code '' @ itemCode)
       (\<lambda>w. (w, FetchTariff400ngItemByCode (lw_items w) itemCode))) (\<lambda>tariffItem.
     wrap_run (''Error saving line item '' @ itemCode)
       (saveLineItem (sit_line_item shipment sit distanceMiles currentTime tariffItem)))"

text \<open>The codes a SIT is charged with, in the order they are created.\<close>

definition sit_codes_for :: "int \<Rightarrow> string list" where
  "sit_codes_for distanceMiles = (if 50 < distanceMiles then [''210C'']
     else (if 30 < distanceMiles then [''210B''] else []) @ [''210A''])"

primrec run_all :: "('a \<Rightarrow> 'b run) \<Rightarrow> 'a list \<Rightarrow> 'b list run" where
  "run_all f [] = calc (Ret [])"
| "run_all f (x # xs) = run_then (f x) (\<lambda>y. run_then (run_all f xs) (\<lambda>ys. calc (Ret (y # ys))))"

definition create_sit_items :: "Shipment \<Rightarrow> StorageInTransit \<Rightarrow> int \<Rightarrow> gotime \<Rightarrow> ShipmentLineItem list run" where
  "create_sit_items shipment sit miles now =
     run_all (\<lambda>code. wrap_run (''Error creating shipment line item for '' @ code)
       (createShipmentLineItem shipment sit miles now code)) (sit_codes_for miles)"

text \<open>The loop over the SITs.  A nil distance without an error ends the call with no items and no error
  (\<open>None\<close>).\<close>

primrec sit_items_loop ::
    "distanceCalculator \<Rightarrow> Shipment \<Rightarrow> gotime \<Rightarrow> StorageInTransit list \<Rightarrow> ShipmentLineItem list option run" where
  "sit_items_loop planner shipment now [] = calc (Ret (Some []))"
| "sit_items_loop planner shipment now (sit # sits) =
     (if si_Status sit \<noteq> SITStatusDELIVERED \<and> si_Status sit \<noteq> SITStatusRELEASED
      then sit_items_loop planner shipment now sits
      else run_then (wrap_run ''Error finding the distance calculation for Storage In Transit''
          (storageInTransitDistance planner sit shipment)) (\<lambda>distanceCalculation.
        case distanceCalculation of None \<Rightarrow> calc (Ret None)
        | Some d \<Rightarrow>
          run_then (create_sit_items shipment sit (dc_DistanceMiles d) now) (\<lambda>items.
          run_then (sit_items_loop planner shipment now sits) (\<lambda>rest. calc (Ret (map_option ((@) items) rest))))))"

definition CreateStorageInTransitLineItems ::
    "distanceCalculator \<Rightarrow> gotime \<Rightarrow> CostByShipment \<Rightarrow> ShipmentLineItem list run" where
  "CreateStorageInTransitLineItems planner now costByShipment w =
     run_then (sit_items_loop planner (cs_Shipment costByShipment) now
         (FetchStorageInTransitsOnShipment (lw_sits w) (shp_ID (cs_Shipment costByShipment))))
       (\<lambda>items. calc (Ret (case items of None \<Rightarrow> [] | Some l \<Rightarrow> l))) w"

section \<open>Pricing, delivering and recalculating a shipment\<close>

datatype PricingType = ShipmentPriceNEW | ShipmentPriceRECALCULATE

text \<open>The shipment as the call leaves it, the validation errors and the error.\<close>

type_synonym pricing_reply = "Shipment \<times> verrs \<times> goerr option"

definition give_up :: "Shipment \<Rightarrow> 'a run \<Rightarrow> ('a \<Rightarrow> pricing_reply run) \<Rightarrow> pricing_reply run" where
  "give_up s m k w = (case m w of (w', Ret x) \<Rightarrow> k x w' | (w', Fail e) \<Rightarrow> (w', Ret (s, [], Some e)) | (w', Panic) \<Rightarrow> (w', Panic))"

definition reply :: "Shipment \<Rightarrow> verrs \<Rightarrow> goerr option \<Rightarrow> pricing_reply run" where
  "reply s verrs err w = (w, Ret (s, verrs, err))"

definition delete_for_recalculation :: "Shipment \<Rightarrow> li_world \<Rightarrow> li_world \<times> pricing_reply" where
  "delete_for_recalculation s w =
     (case DeleteBaseShipmentLineItems s w of
        ((w, s), Some e) \<Rightarrow> (w, s, [], Some e)
      | ((w, s), None) \<Rightarrow> (case DeleteStorageInTransitLineItems s w of
          ((w, s), Some e) \<Rightarrow> (w, s, [], Some e)
        | ((w, s), None) \<Rightarrow> (case SaveShipment w s of (w, s, verrs, saveShipmentErr) \<Rightarrow>
            if verrs \<noteq> [] \<or> saveShipmentErr \<noteq> None
            then (w, s, verrs, errors_Wrap saveShipmentErr ''Error saving shipment for ShipmentPriceRECALCULATE'')
            else (w, s, [], None))))"

text \<open>The part after the deletions: the items are created and priced, everything is saved, a
  recalculation is logged.  Without a cost (see \<open>HandleRunOnShipment\<close>) the net weight of the zero
  shipment is dereferenced.\<close>

definition price_items ::
    "tariff_db \<Rightarrow> distanceCalculator \<Rightarrow> gotime \<Rightarrow> bool \<Rightarrow> PricingType \<Rightarrow> DistanceCalculation \<Rightarrow> CostByShipment option
      \<Rightarrow> Shipment \<Rightarrow> pricing_reply run" where
  "price_items db planner now in_tx pr distanceCalculation shipmentCost shipment =
     (case shipmentCost of
        None \<Rightarrow> calc Panic
      | Some cost \<Rightarrow>
          give_up shipment (\<lambda>w. (w, CreateBaseShipmentLineItems (lw_items w) now cost)) (\<lambda>baseLineItems.
          give_up shipment (CreateStorageInTransitLineItems planner now cost) (\<lambda>storageInTransitLineItems.
          give_up shipment (\<lambda>w. (w, PriceAdditionalRequestsForShipment db w shipment storageInTransitLineItems))
            (\<lambda>additionalLineItems w.
          case SaveShipmentAndPricingInfo in_tx shipment baseLineItems additionalLineItems distanceCalculation w of
            (w', shipment', verrs, err) \<Rightarrow>
              if err \<noteq> None \<or> verrs \<noteq> [] then reply shipment' verrs err w'
              else reply shipment' [] None (if pr = ShipmentPriceRECALCULATE
                then w'\<lparr>lw_recalculated := lw_recalculated w' @ [shp_ID shipment']\<rparr> else w')))))"

definition PriceShipment ::
    "tariff_db \<Rightarrow> distanceCalculator \<Rightarrow> gotime \<Rightarrow> bool \<Rightarrow> PricingType \<Rightarrow> Shipment \<Rightarrow> pricing_reply run" where
  "PriceShipment db planner now in_tx pr shipment =
     (case shp_PickupAddress shipment of
        None \<Rightarrow> reply shipment [] (Some (ErrMsg ''PickupAddress not provided''))
      | Some origin \<Rightarrow>
          if ad_ID origin = uuid_Nil then reply shipment [] (Some (ErrMsg ''PickupAddress not provided''))
          else
            let destination = (case shp_DestinationAddressOnAcceptance shipment of
                  Some a \<Rightarrow> a | None \<Rightarrow> shp_NewDutyStationAddress shipment) in
            if ad_ID destination = uuid_Nil then reply shipment [] (Some (ErrMsg ''Destination address not provided''))
            else
              give_up shipment (wrap_run ''Error creating DistanceCalculation model''
                (calc (NewDistanceCalculation planner origin destination True))) (\<lambda>distanceCalculation.
              give_up shipment (calc (HandleRunOnShipment db shipment distanceCalculation)) (\<lambda>shipmentCost w.
              case (if pr = ShipmentPriceRECALCULATE then delete_for_recalculation shipment w
                    else (w, shipment, [], None)) of
                (w', shipment', verrs, err) \<Rightarrow>
                  if verrs \<noteq> [] \<or> err \<noteq> None then reply shipment' verrs err w'
                  else price_items db planner now in_tx pr distanceCalculation shipmentCost shipment' w')))"

definition save_sits :: "StorageInTransit list \<Rightarrow> li_world \<Rightarrow> li_world \<times> verrs \<times> goerr option" where
  "save_sits sits w = (if rejected (lw_save_sits w sits) then (w, lw_save_sits w sits)
     else (w\<lparr>lw_sits := foldl (\<lambda>rows sit. put_sit sit rows) (lw_sits w) sits\<rparr>, [], None))"

text \<open>One transaction: an error or a panic takes every change back, but for the shipment in memory.\<close>

definition tx_error :: "verrs \<Rightarrow> goerr option \<Rightarrow> string \<Rightarrow> goerr option" where
  "tx_error verrs err m = (case err of Some e \<Rightarrow> Some e | None \<Rightarrow> if verrs \<noteq> [] then Some (ErrMsg m) else None)"

definition DeliverAndPriceShipment ::
    "tariff_db \<Rightarrow> distanceCalculator \<Rightarrow> gotime \<Rightarrow> gotime \<Rightarrow> Shipment \<Rightarrow> pricing_reply run" where
  "DeliverAndPriceShipment db planner now deliveryDate shipment w =
     (case Shipment_Deliver deliveryDate shipment of
        (s, Some e) \<Rightarrow> reply s [] (Some e) w
      | (s, None) \<Rightarrow> (case save_shipment w s of (w1, s, verrs, err) \<Rightarrow>
          if tx_error verrs err ''error saving shipment'' \<noteq> None
          then reply s verrs (tx_error verrs err ''error saving shipment'') w
          else (case save_sits (shp_StorageInTransits s) w1 of (w2, verrs, err) \<Rightarrow>
            if tx_error verrs err ''error saving storage in transits'' \<noteq> None
            then reply s verrs (tx_error verrs err ''error saving storage in transits'') w
            else (case PriceShipment db planner now True ShipmentPriceNEW s w2 of
                (w3, Ret (s, verrs, err)) \<Rightarrow>
                  (if tx_error verrs err ''error saving shipment line items'' \<noteq> None
                   then reply s verrs (tx_error verrs err ''error saving shipment line items'') w
                   else reply s verrs None w3)
              | (w3, Fail e) \<Rightarrow> (w, Fail e)
              | (w3, Panic) \<Rightarrow> (w, Panic)))))"

definition RecalculateShipment ::
    "tariff_db \<Rightarrow> distanceCalculator \<Rightarrow> gotime \<Rightarrow> Shipment \<Rightarrow> pricing_reply run" where
  "RecalculateShipment db planner now shipment = PriceShipment db planner now False ShipmentPriceRECALCULATE shipment"

record ShipmentRecalculate =
  sr_ID :: uuid
  sr_ShipmentUpdatedBefore :: gotime
  sr_ShipmentUpdatedAfter :: gotime
  sr_Active :: bool

definition FetchShipmentRecalculateDates :: "ShipmentRecalculate list \<Rightarrow> ShipmentRecalculate result" where
  "FetchShipmentRecalculateDates rows =
     (let recalculate = filter sr_Active rows in
      if 1 < length recalculate then Fail (ErrMsg ''Too many active re-calculate date records'')
      else if length recalculate = 1 then Ret (recalculate ! 0)
      else Fail (ErrMsg ''No active records for re-calculate dates''))"

definition updatedInDateRange :: "gotime \<Rightarrow> ShipmentRecalculate \<Rightarrow> bool" where
  "updatedInDateRange update dates \<longleftrightarrow> sr_ShipmentUpdatedAfter dates < update \<and> update < sr_ShipmentUpdatedBefore dates"

definition hasAllBaseLineItems :: "ShipmentLineItem list \<Rightarrow> bool" where
  "hasAllBaseLineItems lineItems = is_ret (VerifyBaseShipmentLineItems lineItems)"

definition shipmentLineItemsUpdatedInDateRange :: "ShipmentLineItem list \<Rightarrow> ShipmentRecalculate \<Rightarrow> bool" where
  "shipmentLineItemsUpdatedInDateRange lineItems dates = list_ex (\<lambda>item. updatedInDateRange (li_UpdatedAt item) dates) lineItems"

text \<open>\<open>ProcessRecalculateShipment.Call\<close>: whether the caller must read the items again, and the error.\<close>

definition ProcessRecalculateShipment ::
    "tariff_db \<Rightarrow> distanceCalculator \<Rightarrow> gotime \<Rightarrow> ShipmentRecalculate list \<Rightarrow> Shipment \<Rightarrow> ShipmentLineItem list
      \<Rightarrow> (bool \<times> goerr option) run" where
  "ProcessRecalculateShipment db planner now rows shipment lineItems =
     (case FetchShipmentRecalculateDates rows of
        Ret dates \<Rightarrow>
          if shp_Status shipment \<noteq> ShipmentStatusDELIVERED then calc (Ret (False, None))
          else if \<not> updatedInDateRange (shp_CreatedAt shipment) dates then calc (Ret (False, None))
          else if hasAllBaseLineItems lineItems \<and> \<not> shipmentLineItemsUpdatedInDateRange lineItems dates
          then calc (Ret (False, None))
          else run_then (RecalculateShipment db planner now shipment) (\<lambda>(_, verrs, err).
            if verrs \<noteq> [] \<or> err \<noteq> None
            then calc (Ret (True, Some (ErrMsg ''Error saving shipment for RecalculateShipment'')))
            else calc (Ret (True, None)))
      | _ \<Rightarrow> calc (Ret (False, None)))"

section \<open>The line item services\<close>

definition line_item_access :: "sit_world \<Rightarrow> Session \<Rightarrow> uuid \<Rightarrow> unit result" where
  "line_item_access sw session shipmentID =
     (if IsTspUser session
      then obind (FetchShipmentForVerifiedTSPUser sw (ss_TspUserID session) shipmentID) (\<lambda>_. Ret ())
      else if \<not> IsOfficeUser session then Fail ErrFetchForbidden else Ret ())"

definition GetShipmentLineItemsByShipmentID :: "sit_world \<Rightarrow> uuid \<Rightarrow> Session \<Rightarrow> ShipmentLineItem list run" where
  "GetShipmentLineItemsByShipmentID sw shipmentID session =
     run_then (calc (line_item_access sw session shipmentID)) (\<lambda>_ w.
       case FetchLineItemsByShipmentID w (Some shipmentID) of
         (items, Some e) \<Rightarrow> (w, Fail e) | (items, None) \<Rightarrow> (w, Ret items))"

text \<open>\<open>FetchShipmentForInvoice.Call\<close>: the shipment with its items that are approved or need no approval
  and have no invoice.\<close>

definition FetchShipmentForInvoice :: "li_world \<Rightarrow> uuid \<Rightarrow> Shipment result" where
  "FetchShipmentForInvoice w shipmentID =
     obind (first_row (filter (\<lambda>s. shp_ID s = shipmentID) (lw_shipments w))) (\<lambda>shipment.
     Ret (shipment\<lparr>shp_ShipmentLineItems :=
       filter (\<lambda>r. (li_Status r = LineItemStatusAPPROVED \<or> \<not> it_RequiresPreApproval (li_Tariff400ngItem r))
           \<and> li_InvoiceID r = None \<and> li_ShipmentID r = shipmentID)
         (map (load_line_item w) (lw_line_items w))\<rparr>))"

definition RecalculateShipmentLineItems ::
    "tariff_db \<Rightarrow> distanceCalculator \<Rightarrow> gotime \<Rightarrow> ShipmentRecalculate list \<Rightarrow> sit_world \<Rightarrow> uuid \<Rightarrow> Session
      \<Rightarrow> ShipmentLineItem list run" where
  "RecalculateShipmentLineItems db planner now rows sw shipmentID session =
     run_then (calc (line_item_access sw session shipmentID)) (\<lambda>_ w.
       let shipmentLineItems = fst (FetchLineItemsByShipmentID w (Some shipmentID)) in
       if list_ex (\<lambda>item. li_InvoiceID item \<noteq> None) shipmentLineItems then (w, Ret [])
       else run_then (calc (FetchShipmentForInvoice w shipmentID)) (\<lambda>shipment.
         run_then (ProcessRecalculateShipment db planner now rows shipment shipmentLineItems) (\<lambda>(update, err) w.
           case err of Some e \<Rightarrow> (w, Fail e)
           | None \<Rightarrow> if \<not> update then (w, Ret [])
             else (case FetchLineItemsByShipmentID w (Some shipmentID) of
               (items, Some e) \<Rightarrow> (w, Fail e) | (items, None) \<Rightarrow> (w, Ret items)))) w)"

section \<open>An HHG shipment costs what the same PPM costs\<close>

definition fees :: "CostComputation \<Rightarrow> Cents list" where
  "fees c = [LinehaulChargeTotal (linehaul c), Fee (OriginService (nonLinehaul c)), Fee (DestinationService (nonLinehaul c)),
     Fee (Pack (nonLinehaul c)), Fee (Unpack (nonLinehaul c)), SITFee c, SITMax c, GCC c]"

lemma fees_Scale: "fees (CostComputation_Scale f c) = map (\<lambda>x. Cents_MultiplyFloat64 x f) (fees c)"
  by (simp add: fees_def CostComputation_Scale_def LinehaulCostComputation_Scale_def NonLinehaulCostComputation_Scale_def
      scale_fee_def)

lemma fuel_of_Scale: "FuelSurcharge (linehaul (CostComputation_Scale f c)) = FuelSurcharge (linehaul c)"
  by (simp add: CostComputation_Scale_def LinehaulCostComputation_Scale_def)

lemma fees_shipment_cost:
  "fees (shipment_cost (lh\<lparr>LinehaulChargeTotal := Apply d (LinehaulChargeTotal lh), FuelSurcharge := fuel\<rparr>)
      (discount_rates d (discount_nonlinehaul d nlh)) sit msit d e weight i)
   = fees (ppm_cost lh nlh sit msit d e weight)"
  by (simp add: fees_def shipment_cost_def ppm_cost_def discount_rates_def discount_rate_cents_def
      discount_rate_millicents_def discount_nonlinehaul_def gcc_total_def Let_def)

lemma Weight_simps:
  "Weight (CostComputation_Scale f c) = Weight c" "Weight (shipment_cost lh nlh sit msit d e weight i) = weight"
  "Weight (ppm_cost lh nlh sit msit d e weight) = weight"
  by (simp_all add: CostComputation_Scale_def shipment_cost_def ppm_cost_def Let_def)

text \<open>Whether a fuel price covers a booking time.\<close>

definition fuel_price_at :: "tariff_db \<Rightarrow> gotime \<Rightarrow> bool" where
  "fuel_price_at db t \<longleftrightarrow> list_ex (\<lambda>p. fe_RateStartDate p \<le> date_of t \<and> date_of t \<le> fe_RateEndDate p) (fuel_prices db)"

lemma fuel_price_Ret: "(\<exists>f. fuelSurchargeComputation db c t = Ret f) \<longleftrightarrow> fuel_price_at db t"
  "fuelSurchargeComputation db c t \<noteq> Fail e"
proof -
  have "list_ex P xs \<longleftrightarrow> filter P xs \<noteq> []" for P and xs :: "FuelEIADieselPrice list" by (induction xs) auto
  then show "(\<exists>f. fuelSurchargeComputation db c t = Ret f) \<longleftrightarrow> fuel_price_at db t"
    by (auto simp: fuelSurchargeComputation_def fuel_price_at_def Let_def split: list.split)
qed (simp add: fuelSurchargeComputation_def Let_def split: list.split)

lemma ComputeShipment_Ret:
  assumes "shp_NetWeight s = Some w" "shp_ActualPickupDate s = Some d" "shp_BookDate s = Some b"
    "o5 = ad_PostalCode (dc_OriginAddress dc)" "z5 = ad_PostalCode (dc_DestinationAddress dc)" "m = dc_DistanceMiles dc"
  shows "ComputeShipment db s dc days ld sd = Ret c \<longleftrightarrow> (\<exists>lh nlh fuel sit msit.
      linehaulChargeComputation db (snd (prorate w)) o5 z5 m d = Ret lh \<and>
      nonLinehaulChargeComputation db (snd (prorate w)) o5 z5 d = Ret nlh \<and>
      fuelSurchargeComputation db (Apply ld (LinehaulChargeTotal lh)) b = Ret fuel \<and> 3 \<le> length z5 \<and>
      SitCharge db (ToCWT (snd (prorate w))) days (take 3 z5) d True = Ret sit \<and>
      SitCharge db (ToCWT (snd (prorate w))) MaxSITDays (take 3 z5) d True = Ret msit \<and>
      c = CostComputation_Scale (fst (prorate w)) (shipment_cost
        (lh\<lparr>LinehaulChargeTotal := Apply ld (LinehaulChargeTotal lh), FuelSurcharge := fuel\<rparr>)
        (discount_rates ld (discount_nonlinehaul ld nlh)) sit msit ld sd (snd (prorate w)) (shp_ID s)))"
  using assms by (auto simp: ComputeShipment_def outcome_simps Let_def split: prod.splits)

lemma ComputeShipment_ppm:
  assumes "shp_NetWeight s = Some w" "shp_ActualPickupDate s = Some d" "shp_BookDate s = Some b"
    "o5 = ad_PostalCode (dc_OriginAddress dc)" "z5 = ad_PostalCode (dc_DestinationAddress dc)" "m = dc_DistanceMiles dc"
    "ComputeShipment db s dc days ld sd = Ret c"
  shows "\<exists>p. ComputePPM db w o5 z5 m d days ld sd = Ret p \<and> fees c = fees p \<and> Weight c = Weight p"
  using assms(7) unfolding ComputeShipment_Ret [OF assms(1-6)]
  by (auto simp: ComputePPM_def outcome_simps fees_Scale fees_shipment_cost Weight_simps split: prod.splits)

text \<open>C10: an HHG shipment is charged exactly what the rate engine's computation for a PPM of the same
  weight, ends, distance, pickup time, days and discounts gives, line by line and in total; it can be
  priced whenever the PPM can and a fuel price covers its booking; but its fuel surcharge below 1000
  pounds is the one of 1000 pounds, the only charge that is not prorated.\<close>

theorem shipment_cost_agrees_with_ppm:
  assumes "shp_NetWeight s = Some w" "shp_ActualPickupDate s = Some d" "shp_BookDate s = Some b"
    "o5 = ad_PostalCode (dc_OriginAddress dc)" "z5 = ad_PostalCode (dc_DestinationAddress dc)" "m = dc_DistanceMiles dc"
  shows "(ComputeShipment db s dc days ld sd = Ret c \<longrightarrow>
        (\<exists>p. ComputePPM db w o5 z5 m d days ld sd = Ret p \<and> fees c = fees p \<and> Weight c = Weight p))
    \<and> (ComputePPM db w o5 z5 m d days ld sd = Ret p \<and> fuel_price_at db b \<longrightarrow> (\<exists>c. ComputeShipment db s dc days ld sd = Ret c))
    \<and> (ComputeShipment db s dc days ld sd = Ret c \<and> w < 1000
        \<and> ComputeShipment db (s\<lparr>shp_NetWeight := Some 1000\<rparr>) dc days ld sd = Ret c1 \<longrightarrow>
        FuelSurcharge (linehaul c) = FuelSurcharge (linehaul c1))"
proof (intro conjI impI)
  assume "ComputeShipment db s dc days ld sd = Ret c"
  then show "\<exists>p. ComputePPM db w o5 z5 m d days ld sd = Ret p \<and> fees c = fees p \<and> Weight c = Weight p"
    by (rule ComputeShipment_ppm [OF assms])
next
  assume "ComputePPM db w o5 z5 m d days ld sd = Ret p \<and> fuel_price_at db b"
  then show "\<exists>c. ComputeShipment db s dc days ld sd = Ret c"
    unfolding ComputeShipment_Ret [OF assms]
    by (auto simp: ComputePPM_def outcome_simps fuel_price_Ret(1) split: prod.splits)
next
  assume run: "ComputeShipment db s dc days ld sd = Ret c \<and> w < 1000
        \<and> ComputeShipment db (s\<lparr>shp_NetWeight := Some 1000\<rparr>) dc days ld sd = Ret c1"
  have s1: "shp_NetWeight (s\<lparr>shp_NetWeight := Some 1000\<rparr>) = Some 1000"
    "shp_ActualPickupDate (s\<lparr>shp_NetWeight := Some 1000\<rparr>) = Some d"
    "shp_BookDate (s\<lparr>shp_NetWeight := Some 1000\<rparr>) = Some b" using assms(2,3) by simp_all
  show "FuelSurcharge (linehaul c) = FuelSurcharge (linehaul c1)"
    using run unfolding ComputeShipment_Ret [OF assms] ComputeShipment_Ret [OF s1 assms(4-6)]
    by (auto simp: prorate_def fuel_of_Scale shipment_cost_def)
qed

section \<open>The base line items add up to the total\<close>

lemma CreateBase_Ret:
  assumes "CreateBaseShipmentLineItems items now \<lparr>cs_Shipment = s, cs_Cost = c\<rparr> = Ret ls"
  shows "map li_Code ls = BaseShipmentLineItemCodes"
    and "map li_AmountCents ls = map Some [LinehaulChargeTotal (linehaul c), Fee (OriginService (nonLinehaul c)),
      Fee (DestinationService (nonLinehaul c)), Fee (Pack (nonLinehaul c)), Fee (Unpack (nonLinehaul c)), Fee (FuelSurcharge (linehaul c))]"
    and "list_all (\<lambda>i. li_ShipmentID i = shp_ID s \<and> li_Tariff400ngItem i \<in> set items
      \<and> li_Tariff400ngItemID i = it_ID (li_Tariff400ngItem i) \<and> li_InvoiceID i = None \<and> base_item i) ls"
proof -
  have codes: "it_Code it = code" "it \<in> set items" if "FetchTariff400ngItemByCode items code = Ret it" for it code
    using FetchTariff400ngItemByCode_Ret [OF that] by auto
  obtain net a b d e f g where items: "FetchTariff400ngItemByCode items ''LHS'' = Ret a" "FetchTariff400ngItemByCode items ''135A'' = Ret b"
      "FetchTariff400ngItemByCode items ''135B'' = Ret d" "FetchTariff400ngItemByCode items ''105A'' = Ret e"
      "FetchTariff400ngItemByCode items ''105C'' = Ret f" "FetchTariff400ngItemByCode items ''16A'' = Ret g"
    and v: "VerifyBaseShipmentLineItems ls = Ret ()" and n: "shp_NetWeight s = Some net"
    and run: "[base_line_item s now (BaseQuantityFromInt net) a (BaseQuantityFromInt (Mileage (linehaul c))) (LinehaulChargeTotal (linehaul c)) 0,
        base_line_item s now (BaseQuantityFromInt net) b 0 (Fee (OriginService (nonLinehaul c))) (Rate (OriginService (nonLinehaul c))),
        base_line_item s now (BaseQuantityFromInt net) d 0 (Fee (DestinationService (nonLinehaul c))) (Rate (DestinationService (nonLinehaul c))),
        base_line_item s now (BaseQuantityFromInt net) e 0 (Fee (Pack (nonLinehaul c))) (Rate (Pack (nonLinehaul c))),
        base_line_item s now (BaseQuantityFromInt net) f 0 (Fee (Unpack (nonLinehaul c))) (Rate (Unpack (nonLinehaul c))),
        base_line_item s now (BaseQuantityFromInt net) g (BaseQuantityFromInt (Mileage (linehaul c))) (Fee (FuelSurcharge (linehaul c))) (Rate (FuelSurcharge (linehaul c)))] = ls"
    using assms unfolding CreateBaseShipmentLineItems_def Let_def obind_eq_Ret deref_eq_Ret
    by (elim exE conjE) (rule that, simp_all)
  note ls = run [symmetric] and code = items [THEN codes(1)] and mem = items [THEN codes(2)]
  show "map li_Code ls = BaseShipmentLineItemCodes"
    by (simp add: ls base_line_item_def code BaseShipmentLineItemCodes_def)
  show "map li_AmountCents ls = map Some [LinehaulChargeTotal (linehaul c), Fee (OriginService (nonLinehaul c)),
      Fee (DestinationService (nonLinehaul c)), Fee (Pack (nonLinehaul c)), Fee (Unpack (nonLinehaul c)), Fee (FuelSurcharge (linehaul c))]"
    by (simp add: ls base_line_item_def)
  have "size (mset (map li_Code (filter base_item ls))) = size (mset BaseShipmentLineItemCodes)"
    using v verified_codes by metis
  then have "length (filter base_item ls) = length ls" by (simp add: ls BaseShipmentLineItemCodes_def)
  then have "list_all base_item ls" using length_filter_less [of _ ls base_item] by (fastforce simp: list_all_iff)
  then show "list_all (\<lambda>i. li_ShipmentID i = shp_ID s \<and> li_Tariff400ngItem i \<in> set items
      \<and> li_Tariff400ngItemID i = it_ID (li_Tariff400ngItem i) \<and> li_InvoiceID i = None \<and> base_item i) ls"
    by (simp add: ls base_line_item_def mem zero_line_item_def)
qed

lemma ComputeShipment_dates:
  "ComputeShipment db s dc days ld sd = Ret c \<Longrightarrow> \<exists>w d b. shp_NetWeight s = Some w \<and> shp_ActualPickupDate s = Some d \<and> shp_BookDate s = Some b"
  by (cases "shp_NetWeight s"; cases "shp_ActualPickupDate s"; cases "shp_BookDate s")
    (auto simp: ComputeShipment_def split: prod.splits)

text \<open>The base line items of a shipment of at least 1000 pounds are one for each of the six codes, in
  their order, and the amounts of all of them but the fuel surcharge add up, without rounding, to the
  total cost the rate engine reports.\<close>

theorem base_line_items_total:
  assumes "bounded_tariff db" "shp_NetWeight s = Some w" "1000 \<le> w" "w \<le> 10 ^ 6" "0 \<le> ld" "ld \<le> 1"
    "ComputeShipment db s dc 0 ld 0 = Ret c"
    "CreateBaseShipmentLineItems items now \<lparr>cs_Shipment = s, cs_Cost = c\<rparr> = Ret ls"
  shows "map li_Code ls = BaseShipmentLineItemCodes
    \<and> (\<exists>amounts fuel. map li_AmountCents ls = map Some (amounts @ [fuel]) \<and> sum_list amounts = GCC c)"
proof -
  obtain d b where db: "shp_ActualPickupDate s = Some d" "shp_BookDate s = Some b"
    using ComputeShipment_dates [OF assms(7)] by blast
  obtain p where p: "ComputePPM db w (ad_PostalCode (dc_OriginAddress dc)) (ad_PostalCode (dc_DestinationAddress dc))
      (dc_DistanceMiles dc) d 0 ld 0 = Ret p" "fees c = fees p"
    using ComputeShipment_ppm [OF assms(2) db refl refl refl assms(7)] by blast
  have "GCC p = sum_list (take 5 (fees p))"
    using ComputePPM_total [OF assms(1,3,4) _ _ assms(5,6) _ _ p(1)] by (simp add: fees_def)
  then have "sum_list (take 5 (fees c)) = GCC c" using p(2) by (simp add: fees_def)
  then have "sum_list [LinehaulChargeTotal (linehaul c), Fee (OriginService (nonLinehaul c)),
      Fee (DestinationService (nonLinehaul c)), Fee (Pack (nonLinehaul c)), Fee (Unpack (nonLinehaul c))] = GCC c"
    by (simp add: fees_def)
  then show ?thesis
    using CreateBase_Ret(1,2) [OF assms(8)] by (metis append_Cons append_Nil)
qed

section \<open>Runs keep the tables well-formed\<close>

text \<open>Rows have different identifiers below the next one, and so do the 400NG items.\<close>

definition li_wf :: "li_world \<Rightarrow> bool" where
  "li_wf w \<longleftrightarrow> distinct (map li_ID (lw_line_items w)) \<and> 0 < lw_fresh w
     \<and> list_all (\<lambda>r. li_ID r \<noteq> uuid_Nil \<and> li_ID r < lw_fresh w) (lw_line_items w) \<and> distinct (map it_ID (lw_items w))"

text \<open>What creating rows keeps.\<close>

definition grows :: "li_world \<Rightarrow> li_world \<Rightarrow> bool" where
  "grows w w' \<longleftrightarrow> lw_items w' = lw_items w \<and> (li_wf w \<longrightarrow> li_wf w') \<and> (\<forall>g. copy_of_row w g \<longrightarrow> copy_of_row w' g)"

lemma grows_refl [simp]: "grows w w"
  by (simp add: grows_def)

lemma grows_trans: "grows w v \<Longrightarrow> grows v u \<Longrightarrow> grows w u"
  by (auto simp: grows_def)

lemma create_grows: "create_line_item w li = (w', li', ve, err) \<Longrightarrow> grows w w'"
  by (fastforce simp: create_line_item_def grows_def li_wf_def copy_of_row_def Let_def uuid_Nil_def list_all_iff
      less_Suc_eq split: if_splits)

lemma save_distance_grows: "save_distance w d = (w', d', ve, err) \<Longrightarrow> grows w w'"
  by (auto simp: save_distance_def grows_def li_wf_def copy_of_row_def Let_def list_all_iff less_Suc_eq split: if_splits)

lemma save_sit_distance_grows: "save_sit_distance d w = (w', r) \<Longrightarrow> grows w w'"
  by (auto simp: save_sit_distance_def split: prod.splits if_splits dest: save_distance_grows)

lemma save_shipment_grows: "save_shipment w s = (w', s', ve, err) \<Longrightarrow> grows w w'"
  by (auto simp: save_shipment_def grows_def li_wf_def copy_of_row_def split: if_splits)

lemma save_sits_grows: "save_sits sits w = (w', ve, err) \<Longrightarrow> grows w w'"
  by (auto simp: save_sits_def grows_def li_wf_def copy_of_row_def split: if_splits)

text \<open>Steps of a run, and what a successful one consists of.\<close>

lemma run_then_Ret: "run_then m k w = (w', Ret y) \<longleftrightarrow> (\<exists>v x. m w = (v, Ret x) \<and> k x v = (w', Ret y))"
  by (auto simp: run_then_def split: prod.splits outcome.splits)

lemma wrap_run_Ret: "wrap_run m r w = (w', Ret y) \<longleftrightarrow> r w = (w', Ret y)"
  by (auto simp: wrap_run_def map_fail_eq_Ret split: prod.splits)

lemma calc_eq: "calc r w = (w', r') \<longleftrightarrow> w = w' \<and> r = r'"
  by (auto simp: calc_def)

lemma give_up_ok: "give_up s m k w = (w', Ret (s', [], None)) \<longleftrightarrow> (\<exists>v x. m w = (v, Ret x) \<and> k x v = (w', Ret (s', [], None)))"
  by (auto simp: give_up_def split: prod.splits outcome.splits)

lemmas run_simps = run_then_Ret wrap_run_Ret calc_eq

section \<open>The rows of a storage in transit\<close>

text \<open>An item of a SIT: a row of the table, or (when only validation failed) an unsaved item with one of
  the three codes.\<close>

definition sit_item_ok :: "uuid \<Rightarrow> li_world \<Rightarrow> ShipmentLineItem \<Rightarrow> bool" where
  "sit_item_ok sid w i \<longleftrightarrow> copy_of_row w i
     \<or> li_ID i = uuid_Nil \<and> li_ShipmentID i = sid \<and> (\<exists>it \<in> set (lw_items w). li_Tariff400ngItemID i = it_ID it
         \<and> it_Code it \<in> {''210A'', ''210B'', ''210C''})"

lemma sit_item_grows: "grows w w' \<Longrightarrow> sit_item_ok sid w i \<Longrightarrow> sit_item_ok sid w' i"
  by (auto simp: sit_item_ok_def grows_def)

lemma created_row: "li_wf w \<Longrightarrow> create_line_item w li = (w', li', [], None) \<Longrightarrow> copy_of_row w' li'"
  by (fastforce simp: create_line_item_def copy_of_row_def li_wf_def Let_def list_all_iff uuid_Nil_def split: if_splits)

lemma saveLineItem_run:
  assumes "saveLineItem li w = (w', Ret li')" "li_wf w" "li_ID li = uuid_Nil"
  shows "grows w w' \<and> (copy_of_row w' li' \<or> li' = li)"
proof -
  obtain v i ve err where c: "create_line_item w li = (v, i, ve, err)" by (metis prod_cases4)
  have "w' = v" "li' = i"
    using assms(1) c by (auto simp: saveLineItem_def errors_Wrap_def split: if_splits option.splits)
  moreover have "copy_of_row v i \<or> i = li"
    using c created_row [OF assms(2), of li v i] by (auto simp: create_line_item_def Let_def split: if_splits)
  ultimately show ?thesis using create_grows [OF c] by simp
qed

lemma createShipmentLineItem_run:
  assumes "createShipmentLineItem s sit miles now code w = (w', Ret i)" "li_wf w" "code \<in> {''210A'', ''210B'', ''210C''}"
  shows "grows w w' \<and> sit_item_ok (shp_ID s) w' i"
proof -
  obtain it where it: "FetchTariff400ngItemByCode (lw_items w) code = Ret it"
    and run: "saveLineItem (sit_line_item s sit miles now it) w = (w', Ret i)"
    using assms(1) by (auto simp: createShipmentLineItem_def run_simps)
  have "li_ID (sit_line_item s sit miles now it) = uuid_Nil" by (simp add: sit_line_item_def zero_line_item_def)
  note r = saveLineItem_run [OF run assms(2) this]
  have "it \<in> set (lw_items w')" "it_Code it = code"
    using FetchTariff400ngItemByCode_Ret [OF it] r by (auto simp: grows_def)
  then show ?thesis
    using r assms(3) by (auto simp: sit_item_ok_def sit_line_item_def zero_line_item_def)
qed

lemma run_all_sit:
  assumes "run_all (\<lambda>code. wrap_run (m code) (createShipmentLineItem s sit miles now code)) codes w = (w', Ret is)"
    "li_wf w" "set codes \<subseteq> {''210A'', ''210B'', ''210C''}"
  shows "grows w w' \<and> list_all (sit_item_ok (shp_ID s) w') is"
  using assms
proof (induction codes arbitrary: w "is")
  case (Cons code codes)
  then obtain v i js where i: "createShipmentLineItem s sit miles now code w = (v, Ret i)" and js: "is = i # js"
    and rest: "run_all (\<lambda>code. wrap_run (m code) (createShipmentLineItem s sit miles now code)) codes v = (w', Ret js)"
    by (auto simp: run_simps)
  have v: "grows w v" "sit_item_ok (shp_ID s) v i"
    using createShipmentLineItem_run [OF i Cons.prems(2)] Cons.prems(3) by auto
  then have "li_wf v" using Cons.prems(2) by (simp add: grows_def)
  from Cons.IH [OF rest this] have "grows v w' \<and> list_all (sit_item_ok (shp_ID s) w') js"
    using Cons.prems(3) by simp
  then show ?case
    using v js by (auto intro: grows_trans sit_item_grows)
qed (simp add: calc_eq)

lemma sit_codes_listed: "set (sit_codes_for miles) \<subseteq> {''210A'', ''210B'', ''210C''}"
  by (auto simp: sit_codes_for_def)

lemma sit_loop_run:
  assumes "sit_items_loop planner s now sits w = (w', Ret r)" "li_wf w"
  shows "grows w w' \<and> (case r of None \<Rightarrow> True | Some is \<Rightarrow> list_all (sit_item_ok (shp_ID s) w') is)"
  using assms
proof (induction sits arbitrary: w r)
  case (Cons sit sits)
  show ?case
  proof (cases "si_Status sit \<noteq> SITStatusDELIVERED \<and> si_Status sit \<noteq> SITStatusRELEASED")
    case False
    obtain v dcopt where v: "storageInTransitDistance planner sit s w = (v, Ret dcopt)"
      and k: "(case dcopt of None \<Rightarrow> calc (Ret None) | Some d \<Rightarrow>
          run_then (create_sit_items s sit (dc_DistanceMiles d) now) (\<lambda>items.
          run_then (sit_items_loop planner s now sits) (\<lambda>rest. calc (Ret (map_option ((@) items) rest))))) v = (w', Ret r)"
      using Cons.prems(1) False by (auto simp: run_simps)
    have g: "grows w v"
      using v by (auto simp: storageInTransitDistance_def run_simps split: if_splits dest: save_sit_distance_grows)
    then have wv: "li_wf v" using Cons.prems(2) by (simp add: grows_def)
    show ?thesis
    proof (cases dcopt)
      case None
      then show ?thesis using k g by (auto simp: calc_eq)
    next
      case (Some d)
      obtain u items rest where u: "create_sit_items s sit (dc_DistanceMiles d) now v = (u, Ret items)"
        and l: "sit_items_loop planner s now sits u = (w', Ret rest)" and r: "r = map_option ((@) items) rest"
        using k Some by (auto simp: run_simps)
      have gu: "grows v u \<and> list_all (sit_item_ok (shp_ID s) u) items"
        using run_all_sit [OF u [unfolded create_sit_items_def] wv sit_codes_listed] .
      then have "li_wf u" using wv by (simp add: grows_def)
      from Cons.IH [OF l this] show ?thesis
        using g gu r by (auto simp: list_all_iff split: option.splits intro: grows_trans sit_item_grows)
    qed
  qed (use Cons in auto)
qed (simp add: calc_eq)

section \<open>Saving the items of a priced shipment\<close>

text \<open>An additional item that changes no row of the keys \<open>K\<close>.\<close>

definition harmless :: "(uuid \<times> uuid) set \<Rightarrow> li_world \<Rightarrow> ShipmentLineItem \<Rightarrow> bool" where
  "harmless K w g \<longleftrightarrow> copy_of_row w g \<or> li_ID g = uuid_Nil \<and> row_key g \<notin> K"

lemma update_copies:
  assumes "copy_of_row w g" "copy_of_row w h"
  shows "copy_of_row (w\<lparr>lw_line_items := map (\<lambda>r. if li_ID r = li_ID g then g else r) (lw_line_items w)\<rparr>) h"
  using assms by (auto simp: copy_of_row_def list_all_iff)

lemma save_harmless:
  "save_items save_line_item items w = (w', ve, None) \<Longrightarrow> list_all (harmless K w) items \<Longrightarrow>
     filter (\<lambda>k. k \<in> K) (row_keys w') = filter (\<lambda>k. k \<in> K) (row_keys w)"
proof (induction items arbitrary: w)
  case (Cons g items)
  obtain v g' where c: "save_line_item w g = (v, g', [], None)" and rest: "save_items save_line_item items v = (w', ve, None)"
    using Cons.prems(1) by (rule save_items_Cons_ok)
  show ?case
  proof (cases "li_ID g = uuid_Nil")
    case True
    then have cr: "create_line_item w g = (v, g', [], None)" using c by (simp add: save_line_item_def)
    have "list_all (harmless K v) items"
      using Cons.prems(2) create_grows [OF cr] by (auto simp: harmless_def list_all_iff grows_def)
    moreover have "row_keys v = row_keys w @ [row_key g]" "row_key g \<notin> K"
      using cr Cons.prems(2) True by (auto simp: create_line_item_def Let_def harmless_def copy_of_row_def split: if_splits)
    ultimately show ?thesis using Cons.IH [OF rest] by simp
  next
    case False
    then have g: "copy_of_row w g" using Cons.prems(2) by (auto simp: harmless_def)
    have v: "v = w\<lparr>lw_line_items := map (\<lambda>r. if li_ID r = li_ID g then g else r) (lw_line_items w)\<rparr>"
      using c False by (simp add: save_line_item_def update_line_item_ok)
    have "list_all (harmless K v) items"
      using Cons.prems(2) update_copies [OF g] by (auto simp: harmless_def list_all_iff v)
    moreover have "row_keys v = row_keys w" using g by (auto simp: v copy_of_row_def list_all_iff)
    ultimately show ?thesis using Cons.IH [OF rest] by simp
  qed
qed simp

lemma save_and_price_rows:
  assumes "save_and_price s base general d w = (w', s', ve, None)"
    "list_all (\<lambda>i. li_ShipmentID i = shp_ID s) base" "list_all (harmless (row_key ` set base) w) general" "k \<in> row_key ` set base"
  shows "count (mset (row_keys w')) k = 1 \<and> s' = s\<lparr>shp_ShippingDistance := shp_ShippingDistance s', shp_ShippingDistanceID := shp_ShippingDistanceID s'\<rparr>"
proof -
  let ?K = "row_key ` set base"
  obtain w1 d1 w2 w3 s2 ve3 where
    s1: "save_distance w d = (w1, d1, [], None)" and
    s2: "save_shipment w1 (s\<lparr>shp_ShippingDistance := Some d1, shp_ShippingDistanceID := Some (dc_ID d1)\<rparr>) = (w2, s2, [], None)" and
    s3: "save_items (createUniqueShipmentLineItem s2) base w2 = (w3, ve3, None)" and
    s4: "save_items save_line_item general w3 = (w', ve, None)" and s': "s' = s2"
    using assms(1) by (auto simp: save_and_price_def Let_def split: prod.splits if_splits)
  have s2': "s2 = s\<lparr>shp_ShippingDistance := Some d1, shp_ShippingDistanceID := Some (dc_ID d1)\<rparr>"
    using save_shipment_rows [OF s2] by simp
  have b: "list_all (\<lambda>i. li_ShipmentID i = shp_ID s2) base" using assms(2) by (simp add: s2')
  note B = save_base_items [OF s3 b]
  have "list_all (harmless ?K w3) general"
    using assms(3) B save_distance_grows [OF s1] save_shipment_grows [OF s2] by (auto simp: harmless_def list_all_iff grows_def)
  then have keys: "filter (\<lambda>k. k \<in> ?K) (row_keys w') = filter (\<lambda>k. k \<in> ?K) (row_keys w3)"
    by (rule save_harmless [OF s4])
  have "distinct (map row_key base)" using B by (auto simp: distinct_map inj_on_def)
  moreover have "count (mset (row_keys w2)) k = 0"
    using B assms(4) by (auto simp: list_all_iff count_eq_zero_iff)
  ultimately have one: "count (mset (row_keys w3)) k = 1"
    using B assms(4) by (auto simp: distinct_count_atmost_1)
  have "count (mset xs) k = count (mset (filter (\<lambda>k. k \<in> ?K) xs)) k" for xs using assms(4) by simp
  note c = this [of "row_keys w'"] this [of "row_keys w3"]
  have "count (mset (row_keys w')) k = 1"
    using one unfolding c keys .
  then show ?thesis by (simp add: s' s2')
qed

lemma mapM_same:
  assumes "mapM (PriceAdditionalRequest db s) items = Ret ys"
  shows "list_all2 (\<lambda>x y. li_ID y = li_ID x \<and> row_key y = row_key x) items ys"
  using assms by (induction items arbitrary: ys) (auto simp: PriceAdditionalRequest_def outcome_simps)

lemma harmless_cong: "li_ID y = li_ID x \<Longrightarrow> row_key y = row_key x \<Longrightarrow> harmless K w x \<Longrightarrow> harmless K w y"
  by (auto simp: harmless_def copy_of_row_def)

lemma preapproval_copy:
  assumes "li_wf w" "r \<in> set (FetchApprovedPreapprovalRequestsByShipment w s)"
  shows "copy_of_row w r"
proof -
  obtain q where "q \<in> set (lw_line_items w)" "r = load_line_item w q"
    using assms(2) by (auto simp: FetchApprovedPreapprovalRequestsByShipment_def)
  moreover have "li_ID (load_line_item w q) = li_ID q" "row_key (load_line_item w q) = row_key q"
    by (auto simp: load_line_item_def split: outcome.splits)
  ultimately show ?thesis
    using assms(1) by (auto simp: copy_of_row_def li_wf_def list_all_iff distinct_map inj_on_def)
qed

section \<open>A delivered shipment is priced in one piece\<close>

lemma HandleRun_Some:
  "HandleRunOnShipment db s dc = Ret (Some cost) \<Longrightarrow> cs_Shipment cost = s"
  by (auto simp: HandleRunOnShipment_def outcome_simps Let_def split: option.splits if_splits)

lemma PriceShipment_NEW_ok:
  assumes "PriceShipment db planner now in_tx ShipmentPriceNEW s w = (w', Ret (s', [], None))"
  shows "\<exists>dc cost. HandleRunOnShipment db s dc = Ret cost
    \<and> price_items db planner now in_tx ShipmentPriceNEW dc cost s w = (w', Ret (s', [], None))"
  using assms
  by (auto simp: PriceShipment_def reply_def give_up_ok run_simps Let_def split: option.splits if_splits)

lemma price_items_parts:
  assumes "price_items db planner now True ShipmentPriceNEW dc cost s w = (w', Ret (s', [], None))"
  shows "\<exists>c base v sititems add. cost = Some c \<and> CreateBaseShipmentLineItems (lw_items w) now c = Ret base
    \<and> CreateStorageInTransitLineItems planner now c w = (v, Ret sititems)
    \<and> PriceAdditionalRequestsForShipment db v s sititems = Ret add \<and> save_and_price s base add dc v = (w', s', [], None)"
proof (cases cost)
  case (Some c)
  obtain base v sititems add where parts: "CreateBaseShipmentLineItems (lw_items w) now c = Ret base"
      "CreateStorageInTransitLineItems planner now c w = (v, Ret sititems)"
      "PriceAdditionalRequestsForShipment db v s sititems = Ret add"
    and k: "(case SaveShipmentAndPricingInfo True s base add dc v of
        (w', shipment', verrs, err) \<Rightarrow> if err \<noteq> None \<or> verrs \<noteq> [] then reply shipment' verrs err w' else reply shipment' [] None w')
      = (w', Ret (s', [], None))"
    using assms Some by (auto simp: price_items_def give_up_ok cong: if_cong)
  have "save_and_price s base add dc v = (w', s', [], None)"
    using k by (auto simp: SaveShipmentAndPricingInfo_def reply_def split: prod.splits if_splits)
  then show ?thesis using Some parts by blast
qed (use assms in \<open>simp add: price_items_def calc_def\<close>)

lemma sit_item_new:
  assumes "sit_item_ok sid v i" "\<not> copy_of_row v i"
  shows "\<exists>it \<in> set (lw_items v). li_Tariff400ngItemID i = it_ID it \<and> it_Code it \<in> {''210A'', ''210B'', ''210C''}"
  using assms unfolding sit_item_ok_def by blast

lemma price_items_ok:
  assumes "price_items db planner now True ShipmentPriceNEW dc cost s w = (w', Ret (s', [], None))" "li_wf w"
    "HandleRunOnShipment db s dc = Ret cost"
  shows "s' = s\<lparr>shp_ShippingDistance := shp_ShippingDistance s', shp_ShippingDistanceID := shp_ShippingDistanceID s'\<rparr>"
    and "code \<in> set BaseShipmentLineItemCodes \<Longrightarrow>
      \<exists>it \<in> set (lw_items w). it_Code it = code \<and> count (mset (row_keys w')) (shp_ID s, it_ID it) = 1"
proof -
  obtain c base v sititems add where cost: "cost = Some c"
    and base: "CreateBaseShipmentLineItems (lw_items w) now c = Ret base"
    and sit: "CreateStorageInTransitLineItems planner now c w = (v, Ret sititems)"
    and add: "PriceAdditionalRequestsForShipment db v s sititems = Ret add"
    and save: "save_and_price s base add dc v = (w', s', [], None)"
    using assms(1) price_items_parts by blast
  have cs: "cs_Shipment c = s" using HandleRun_Some assms(3) cost by blast
  have base': "CreateBaseShipmentLineItems (lw_items w) now \<lparr>cs_Shipment = s, cs_Cost = cs_Cost c\<rparr> = Ret base"
    using base cs by (metis CostByShipment.surjective old.unit.exhaust)
  note B = CreateBase_Ret [OF base']
  obtain r where loop: "sit_items_loop planner s now (FetchStorageInTransitsOnShipment (lw_sits w) (shp_ID s)) w = (v, Ret r)"
    and r: "sititems = (case r of None \<Rightarrow> [] | Some l \<Rightarrow> l)"
    using sit by (auto simp: CreateStorageInTransitLineItems_def cs run_simps)
  have g: "grows w v" and S: "list_all (sit_item_ok (shp_ID s) v) sititems"
    using sit_loop_run [OF loop assms(2)] r by (auto split: option.splits)
  have wf: "li_wf v" and items: "lw_items v = lw_items w" using g assms(2) by (auto simp: grows_def)
  let ?K = "row_key ` set base"
  have apart: "row_key i \<notin> ?K" if "i \<in> set sititems" "li_ID i = uuid_Nil" for i
  proof
    assume "row_key i \<in> ?K"
    then obtain b where b: "b \<in> set base" "row_key b = row_key i" by auto
    have "\<not> copy_of_row v i" using that(2) by (simp add: copy_of_row_def)
    then have "\<exists>it \<in> set (lw_items v). li_Tariff400ngItemID i = it_ID it \<and> it_Code it \<in> {''210A'', ''210B'', ''210C''}"
      using sit_item_new S that(1) unfolding list_all_iff by blast
    then obtain it where it: "it \<in> set (lw_items w)" "li_Tariff400ngItemID i = it_ID it" "it_Code it \<in> {''210A'', ''210B'', ''210C''}"
      unfolding items by blast
    have "li_Tariff400ngItem b = it"
      using B(3) b it(1,2) assms(2) by (auto simp: list_all_iff li_wf_def distinct_map inj_on_def)
    moreover have "li_Code b \<in> set BaseShipmentLineItemCodes" using B(1) b(1) by (metis image_eqI image_set)
    ultimately show False using it(3) by (auto simp: BaseShipmentLineItemCodes_def)
  qed
  have sits: "harmless ?K v i" if "i \<in> set sititems" for i
  proof (cases "copy_of_row v i")
    case False
    then have "li_ID i = uuid_Nil" using S that by (auto simp: list_all_iff sit_item_ok_def)
    then show ?thesis using apart [OF that] unfolding harmless_def by blast
  qed (simp add: harmless_def)
  have "list_all (harmless ?K v) (FetchApprovedPreapprovalRequestsByShipment v s @ sititems)"
    using preapproval_copy [OF wf] sits by (auto simp: list_all_iff harmless_def)
  moreover have "list_all2 (\<lambda>x y. li_ID y = li_ID x \<and> row_key y = row_key x) (FetchApprovedPreapprovalRequestsByShipment v s @ sititems) add"
    using add by (auto simp: PriceAdditionalRequestsForShipment_def dest: mapM_same)
  ultimately have add_ok: "list_all (harmless ?K v) add"
    by (auto simp: list_all_length list_all2_conv_all_nth intro: harmless_cong)
  have base_s: "list_all (\<lambda>i. li_ShipmentID i = shp_ID s) base" using B(3) by (auto simp: list_all_iff)
  note R = save_and_price_rows [OF save base_s add_ok]
  have "base \<noteq> []" using B(1) by (auto simp: BaseShipmentLineItemCodes_def)
  then have "row_key (hd base) \<in> ?K" by simp
  from R [OF this] show "s' = s\<lparr>shp_ShippingDistance := shp_ShippingDistance s', shp_ShippingDistanceID := shp_ShippingDistanceID s'\<rparr>"
    by (rule conjunct2)
  assume "code \<in> set BaseShipmentLineItemCodes"
  then obtain b where b: "b \<in> set base" "li_Code b = code" using B(1) by (metis imageE image_set)
  then have "li_Tariff400ngItem b \<in> set (lw_items w)" "row_key b = (shp_ID s, it_ID (li_Tariff400ngItem b))"
    using B(3) by (auto simp: list_all_iff)
  moreover have "count (mset (row_keys w')) (row_key b) = 1"
    using R [of "row_key b"] b(1) by (blast intro: imageI)
  ultimately show "\<exists>it \<in> set (lw_items w). it_Code it = code \<and> count (mset (row_keys w')) (shp_ID s, it_ID it) = 1"
    using b(2) by metis
qed

text \<open>C1: delivering and pricing a shipment is all or nothing: with an error the tables are as they were;
  without one the shipment is delivered at the given time and the table has, for each of the six base
  codes, exactly one row of the shipment.\<close>

theorem delivered_and_priced:
  assumes "li_wf w" "DeliverAndPriceShipment db planner now t s w = (w', Ret (s', verrs, err))"
  shows "if err = None
    then shp_Status s' = ShipmentStatusDELIVERED \<and> shp_ActualDeliveryDate s' = Some t
      \<and> list_all (\<lambda>code. \<exists>it \<in> set (lw_items w). it_Code it = code
          \<and> count_list (row_keys w') (shp_ID s, it_ID it) = 1) BaseShipmentLineItemCodes
    else w' = w"
proof (cases err)
  case None
  define d where "d = s\<lparr>shp_Status := ShipmentStatusDELIVERED, shp_ActualDeliveryDate := Some t,
       shp_StorageInTransits := map (delivered_sit t) (shp_StorageInTransits s)\<rparr>"
  obtain w1 w2 where s1: "save_shipment w d = (w1, d, [], None)" and s2: "save_sits (shp_StorageInTransits d) w1 = (w2, [], None)"
    and p: "PriceShipment db planner now True ShipmentPriceNEW d w2 = (w', Ret (s', [], None))"
    using assms(2) None
    by (auto simp: DeliverAndPriceShipment_def Shipment_Deliver_eq refuse_def accept_def errors_Wrap_def tx_error_def reply_def d_def
        dest: save_shipment_rows split: if_splits prod.splits option.splits outcome.splits)
  have g: "grows w w2" using save_shipment_grows [OF s1] save_sits_grows [OF s2] by (rule grows_trans)
  then have wf: "li_wf w2" and items: "lw_items w2 = lw_items w" using assms(1) by (auto simp: grows_def)
  obtain dc cost where h: "HandleRunOnShipment db d dc = Ret cost"
    and pi: "price_items db planner now True ShipmentPriceNEW dc cost d w2 = (w', Ret (s', [], None))"
    using PriceShipment_NEW_ok [OF p] by blast
  have s': "shp_Status s' = shp_Status d" "shp_ActualDeliveryDate s' = shp_ActualDeliveryDate d"
    by (subst price_items_ok(1) [OF pi wf h], simp)+
  have "\<exists>it \<in> set (lw_items w). it_Code it = code \<and> count_list (row_keys w') (shp_ID s, it_ID it) = 1"
    if "code \<in> set BaseShipmentLineItemCodes" for code
    using price_items_ok(2) [OF pi wf h that] unfolding items count_mset by (simp add: d_def)
  then show ?thesis
    using None s' by (simp add: d_def list_all_iff del: One_nat_def)
qed (use assms(2) in \<open>auto simp: DeliverAndPriceShipment_def tx_error_def reply_def
    split: if_splits prod.splits option.splits outcome.splits\<close>)

section \<open>A sample shipment\<close>

definition sample_hhg :: Shipment where
  "sample_hhg = sample_shipment\<lparr>shp_Status := ShipmentStatusINTRANSIT, shp_NetWeight := Some 2000, shp_ActualPickupDate := Some 5,
     shp_BookDate := Some 5, shp_PickupAddress := Some (sample_address 11 ''90210''),
     shp_NewDutyStationAddress := sample_address 12 ''30301'', shp_ShipmentOffers := [sample_offer]\<rparr>"

definition sample_fuel_db :: tariff_db where
  "sample_fuel_db = sample_tariff\<lparr>fuel_prices := [\<lparr>fe_RateStartDate = 0, fe_RateEndDate = 1000,
     fe_EIAPricePerGallonMillicents = 320700, fe_BaselineRate = 6\<rparr>]\<rparr>"

definition sample_planner :: distanceCalculator where
  "sample_planner = \<lparr>Zip5TransitDistance = (\<lambda>_ _. Ret 500), TransitDistance = (\<lambda>_ _. Ret 500)\<rparr>"

definition sample_trip :: DistanceCalculation where
  "sample_trip = \<lparr>dc_ID = uuid_Nil, dc_OriginAddressID = 11, dc_OriginAddress = sample_address 11 ''90210'',
     dc_DestinationAddressID = 12, dc_DestinationAddress = sample_address 12 ''30301'', dc_DistanceMiles = 500\<rparr>"

definition sample_base_items :: "Tariff400ngItem list" where
  "sample_base_items = map2 (\<lambda>i code. zero_item\<lparr>it_ID := i, it_Code := code\<rparr>) [301, 302, 303, 304, 305, 306] BaseShipmentLineItemCodes"

definition sample_pricing_world :: li_world where
  "sample_pricing_world = sample_li_world\<lparr>lw_items := sample_base_items, lw_line_items := [], lw_shipments := [sample_hhg]\<rparr>"

lemmas sample_hhg_simps = sample_hhg_def sample_shipment_def Shipment.defs sample_offer_def sample_address_def

lemma sample_fuel_db_bounded: "bounded_tariff sample_fuel_db"
  using sample_bounded by (simp add: bounded_tariff_def sample_fuel_db_def)

lemma sample_fuel: "fuel_price_at sample_fuel_db 5"
  by (simp add: fuel_price_at_def sample_fuel_db_def date_of_def)

lemma sample_fuel_db_ppm: "0 \<le> days \<Longrightarrow> \<exists>c. ComputePPM sample_fuel_db 2000 ''90210'' ''30301'' 500 5 days (1 / 2) e = Ret c"
  by (cases "days = 0") (simp_all add: ComputePPM_def prorate_ge charge_defs fetch_defs sample_fuel_db_def sample_tariff_def sample_ToCWT Let_def
      SitCharge_def sit_effective_cwt_def MaxSITDays_def)

lemma sample_hhg_fields:
  "shp_NetWeight sample_hhg = Some 2000" "shp_ActualPickupDate sample_hhg = Some 5" "shp_BookDate sample_hhg = Some 5"
  "''90210'' = ad_PostalCode (dc_OriginAddress sample_trip)" "''30301'' = ad_PostalCode (dc_DestinationAddress sample_trip)"
  "500 = dc_DistanceMiles sample_trip"
  by (simp_all add: sample_hhg_def sample_trip_def sample_address_def)

lemma sample_hhg_cost: "\<exists>c. ComputeShipment sample_fuel_db sample_hhg sample_trip 0 (1 / 2) 0 = Ret c"
proof -
  obtain p where "ComputePPM sample_fuel_db 2000 ''90210'' ''30301'' 500 5 0 (1 / 2) 0 = Ret p" using sample_fuel_db_ppm by auto
  then show ?thesis
    using sample_fuel unfolding ComputeShipment_Ret [OF sample_hhg_fields]
    by (auto simp: ComputePPM_def outcome_simps fuel_price_Ret(1) split: prod.splits)
qed

lemma sample_hhg_run:
  assumes "shp_ShippingDistance s = None" "s = sample_hhg\<lparr>shp_Status := shp_Status s, shp_ActualDeliveryDate := shp_ActualDeliveryDate s\<rparr>"
  shows "\<exists>c. HandleRunOnShipment sample_fuel_db s sample_trip = Ret (Some \<lparr>cs_Shipment = s, cs_Cost = c\<rparr>)"
proof -
  have f: "shp_NetWeight s = Some 2000" "shp_ActualPickupDate s = Some 5" "shp_BookDate s = Some 5"
    by (subst assms(2), simp add: sample_hhg_def)+
  have o: "shp_PickupAddress s = Some (sample_address 11 ''90210'')" "shp_ShipmentOffers s = [sample_offer]"
    "shp_NewDutyStationAddress s = sample_address 12 ''30301''" "shp_ID s = shp_ID sample_hhg"
    by (subst assms(2), simp add: sample_hhg_def)+
  obtain c where "ComputeShipment sample_fuel_db sample_hhg sample_trip 0 (1 / 2) 0 = Ret c" using sample_hhg_cost by blast
  then have "\<exists>c. ComputeShipment sample_fuel_db s sample_trip 0 (1 / 2) 0 = Ret c"
    unfolding ComputeShipment_Ret [OF sample_hhg_fields] ComputeShipment_Ret [OF f sample_hhg_fields(4-6)] by blast
  then show ?thesis
    by (auto simp: HandleRunOnShipment_def f o AcceptedShipmentOffer_def sample_offer_def sample_address_def zip5_slice_def
        uuid_Nil_def sample_tsp_def offer_tsp_def)
qed

lemma sample_base_run:
  assumes "shp_NetWeight s = Some 2000"
  shows "\<exists>ls. CreateBaseShipmentLineItems sample_base_items now \<lparr>cs_Shipment = s, cs_Cost = c\<rparr> = Ret ls
    \<and> map row_key ls = map (Pair (shp_ID s)) [301, 302, 303, 304, 305, 306]"
  using assms by (simp add: CreateBaseShipmentLineItems_def FetchTariff400ngItemByCode_def sample_base_items_def Let_def
      BaseShipmentLineItemCodes_def zero_item_def VerifyBaseShipmentLineItems_def base_line_item_def zero_line_item_def
      count_item_def FindBaseShipmentLineItem_def)

theorem shipment_cost_agrees_with_ppm_witness:
  "\<exists>c p. ComputeShipment sample_fuel_db sample_hhg sample_trip 10 (1 / 2) (1 / 4) = Ret c
    \<and> ComputePPM sample_fuel_db 2000 ''90210'' ''30301'' 500 5 10 (1 / 2) (1 / 4) = Ret p \<and> fees c = fees p"
  using shipment_cost_agrees_with_ppm [OF sample_hhg_fields, of sample_fuel_db 10 "1 / 2" "1 / 4"] sample_fuel_db_ppm [of 10 "1 / 4"] sample_fuel
  by force

theorem base_line_items_total_witness:
  "\<exists>c ls. ComputeShipment sample_fuel_db sample_hhg sample_trip 0 (1 / 2) 0 = Ret c
    \<and> CreateBaseShipmentLineItems sample_base_items 9 \<lparr>cs_Shipment = sample_hhg, cs_Cost = c\<rparr> = Ret ls
    \<and> map li_Code ls = BaseShipmentLineItemCodes
    \<and> (\<exists>amounts fuel. map li_AmountCents ls = map Some (amounts @ [fuel]) \<and> sum_list amounts = GCC c)"
proof -
  obtain c where c: "ComputeShipment sample_fuel_db sample_hhg sample_trip 0 (1 / 2) 0 = Ret c" using sample_hhg_cost by blast
  obtain ls where ls: "CreateBaseShipmentLineItems sample_base_items 9 \<lparr>cs_Shipment = sample_hhg, cs_Cost = c\<rparr> = Ret ls"
    using sample_base_run sample_hhg_fields(1) by blast
  show ?thesis
    using base_line_items_total [OF sample_fuel_db_bounded sample_hhg_fields(1) _ _ _ _ c ls] c ls by auto
qed

definition sample_delivered :: Shipment where
  "sample_delivered = sample_hhg\<lparr>shp_Status := ShipmentStatusDELIVERED, shp_ActualDeliveryDate := Some 9\<rparr>"

lemma sample_address_ID: "ad_ID (sample_address i z) = i"
  by (simp add: sample_address_def)

lemma sample_delivered_rows:
  "shp_ID sample_delivered = 7" "shp_NetWeight sample_delivered = Some 2000"
  "shp_PickupAddress sample_delivered = Some (sample_address 11 ''90210'')"
  "shp_NewDutyStationAddress sample_delivered = sample_address 12 ''30301''"
  "shp_DestinationAddressOnAcceptance sample_delivered = None" "shp_StorageInTransits sample_delivered = []"
  by (simp_all add: sample_delivered_def sample_hhg_simps)

lemma save_base_succeeds:
  assumes "lw_save_line_item w = (\<lambda>_. ([], None))" "distinct (map row_key base)"
    "list_all (\<lambda>i. li_ShipmentID i = shp_ID s \<and> row_key i \<notin> set (row_keys w)) base"
  shows "\<exists>w'. save_items (createUniqueShipmentLineItem s) base w = (w', [], None)"
  using assms
proof (induction base arbitrary: w)
  case (Cons i base)
  have no: "FetchShipmentLineItemsByItemID w s (li_Tariff400ngItemID i) = []"
    using Cons.prems(3) by (auto simp: FetchShipmentLineItemsByItemID_def filter_empty_conv image_iff)
  obtain v j where c: "create_line_item w i = (v, j, [], None)" "lw_save_line_item v = lw_save_line_item w"
    "row_keys v = row_keys w @ [row_key i]"
    using Cons.prems(1) by (auto simp: create_line_item_def Let_def)
  then have "list_all (\<lambda>i. li_ShipmentID i = shp_ID s \<and> row_key i \<notin> set (row_keys v)) base"
    using Cons.prems(2,3) by (auto simp: list_all_iff image_iff)
  then show ?case using Cons.IH [of v] Cons.prems(1,2) c no by (simp add: createUniqueShipmentLineItem_def)
qed simp

lemma save_distance_accepts:
  "lw_save_distance w = (\<lambda>_. ([], None)) \<Longrightarrow> \<exists>v e. save_distance w d = (v, e, [], None) \<and> lw_save_line_item v = lw_save_line_item w
    \<and> lw_line_items v = lw_line_items w \<and> lw_save_shipment v = lw_save_shipment w"
  by (simp add: save_distance_def Let_def)

lemma sample_delivery:
  "\<exists>w' s'. DeliverAndPriceShipment sample_fuel_db sample_planner 8 9 sample_hhg sample_pricing_world = (w', Ret (s', [], None))"
proof -
  let ?w = "sample_pricing_world\<lparr>lw_shipments := [sample_delivered]\<rparr>"
  have deliver: "Shipment_Deliver 9 sample_hhg = (sample_delivered, None)"
    by (simp add: Shipment_Deliver_def accept_def sample_delivered_def sample_hhg_simps)
  have save: "save_shipment sample_pricing_world sample_delivered = (?w, sample_delivered, [], None)" "save_sits [] ?w = (?w, [], None)"
    by (simp_all add: save_shipment_def save_sits_def sample_pricing_world_def sample_li_world_def sample_delivered_def sample_hhg_simps)
  have trip: "NewDistanceCalculation sample_planner (sample_address 11 ''90210'') (sample_address 12 ''30301'') True = Ret sample_trip"
    by (simp add: NewDistanceCalculation_def sample_planner_def sample_trip_def sample_address_def)
  obtain c where run: "HandleRunOnShipment sample_fuel_db sample_delivered sample_trip = Ret (Some \<lparr>cs_Shipment = sample_delivered, cs_Cost = c\<rparr>)"
    using sample_hhg_run [of sample_delivered] by (auto simp: sample_delivered_def sample_hhg_simps)
  obtain ls where base: "CreateBaseShipmentLineItems sample_base_items 8 \<lparr>cs_Shipment = sample_delivered, cs_Cost = c\<rparr> = Ret ls"
    and keys: "map row_key ls = map (Pair 7) [301, 302, 303, 304, 305, 306]"
    using sample_base_run [OF sample_delivered_rows(2)] unfolding sample_delivered_rows(1) by blast
  have tables: "lw_items ?w = sample_base_items" "lw_sits ?w = []" "lw_line_items ?w = []"
    by (simp_all add: sample_pricing_world_def sample_li_world_def)
  have saved: "\<exists>w' s'. save_and_price sample_delivered ls [] sample_trip ?w = (w', s', [], None)"
  proof -
    obtain v d where d: "save_distance ?w sample_trip = (v, d, [], None)" "lw_save_line_item v = (\<lambda>_. ([], None))" "lw_line_items v = []"
        "lw_save_shipment v = (\<lambda>_. ([], None))"
      using save_distance_accepts [of ?w sample_trip] by (auto simp: sample_pricing_world_def sample_li_world_def)
    let ?s = "sample_delivered\<lparr>shp_ShippingDistance := Some d, shp_ShippingDistanceID := Some (dc_ID d)\<rparr>"
    obtain u where u: "save_shipment v ?s = (u, ?s, [], None)" "lw_save_line_item u = (\<lambda>_. ([], None))" "lw_line_items u = []"
      using d(2-4) by (auto simp: save_shipment_def)
    have "list_all (\<lambda>i. row_key i \<in> set (map row_key ls)) ls" by (simp add: list_all_iff)
    then have "list_all (\<lambda>i. li_ShipmentID i = 7) ls" unfolding keys by (auto simp: list_all_iff)
    then have "\<exists>w'. save_items (createUniqueShipmentLineItem ?s) ls u = (w', [], None)"
      using u keys sample_delivered_rows(1) by (intro save_base_succeeds) (simp_all add: list_all_iff)
    then show ?thesis using d(1) u(1) by (auto simp: save_and_price_def)
  qed
  have sits: "CreateStorageInTransitLineItems sample_planner 8 \<lparr>cs_Shipment = sample_delivered, cs_Cost = c\<rparr> ?w = (?w, Ret [])"
    "PriceAdditionalRequestsForShipment sample_fuel_db ?w sample_delivered [] = Ret []"
    by (simp_all add: CreateStorageInTransitLineItems_def tables FetchStorageInTransitsOnShipment_def run_then_def calc_def
        PriceAdditionalRequestsForShipment_def FetchApprovedPreapprovalRequestsByShipment_def)
  obtain w' s' where items: "price_items sample_fuel_db sample_planner 8 True ShipmentPriceNEW sample_trip
      (Some \<lparr>cs_Shipment = sample_delivered, cs_Cost = c\<rparr>) sample_delivered ?w = (w', Ret (s', [], None))"
    using saved by (auto simp: price_items_def give_up_def tables base sits SaveShipmentAndPricingInfo_def reply_def)
  have "PriceShipment sample_fuel_db sample_planner 8 True ShipmentPriceNEW sample_delivered ?w = (w', Ret (s', [], None))"
    by (simp add: PriceShipment_def sample_delivered_rows sample_address_ID uuid_Nil_def trip run give_up_def wrap_run_def calc_def items)
  then show ?thesis
    by (simp add: DeliverAndPriceShipment_def deliver save tx_error_def sample_delivered_rows reply_def)
qed

theorem delivered_and_priced_witness:
  "\<exists>w' s'. DeliverAndPriceShipment sample_fuel_db sample_planner 8 9 sample_hhg sample_pricing_world = (w', Ret (s', [], None))
    \<and> shp_Status s' = ShipmentStatusDELIVERED \<and> list_all (\<lambda>it. count_list (row_keys w') (7, it_ID it) = 1) sample_base_items"
proof -
  obtain w' s' where run: "DeliverAndPriceShipment sample_fuel_db sample_planner 8 9 sample_hhg sample_pricing_world = (w', Ret (s', [], None))"
    using sample_delivery by blast
  have "li_wf sample_pricing_world"
    by (simp add: li_wf_def sample_pricing_world_def sample_li_world_def sample_base_items_def BaseShipmentLineItemCodes_def zero_item_def)
  from delivered_and_priced [OF this run] show ?thesis
    using run by (simp add: sample_pricing_world_def sample_li_world_def sample_base_items_def BaseShipmentLineItemCodes_def
        zero_item_def sample_hhg_simps)
qed

section \<open>A 210C item whose rate is missing\<close>

lemma Apply_zero: "Apply d 0 = 0"
  by (simp add: Apply_def Cents_MultiplyFloat64_def go_trunc_def go_round_def in64_def)

lemma charge_210C_without_rate:
  assumes "li_Code li = ''210C''" "shp_NetWeight s = Some w" "shp_ActualPickupDate s = Some d"
    "FetchBaseLinehaulRate db (ToUnitInt (li_Quantity1 li)) w d = Fail e" "ComputeShipmentLineItemCharge db s li = Ret f"
  shows "Fee f = 0"
proof -
  have "item_rate db a s li w t = Ret 0" for a t
    using assms(1,3,4) by (simp add: item_rate_def)
  moreover have "price flatRatePricer 0 q r = 0" for q r
    by (simp add: price_def calculated_rate_def apply_discount_def Apply_zero split: option.split)
  ultimately show ?thesis
    using assms(1,2,5)
    by (auto simp: ComputeShipmentLineItemCharge_def outcome_simps Let_def tariff400ngItemPricing_def split: if_splits)
qed

end
