(* ===== verification/AwardQueue.thy ===== *)
theory AwardQueue
  imports Lifecycle Tariff "HOL-Library.Multiset"
begin

text \<open>
  The award queue (\<open>pkg/awardqueue/awardqueue.go\<close>) with the provider performances it works on
  (\<open>pkg/models/transportation_service_provider_performance.go\<close>), blackout dates, shipment offers and
  the award of a shipment: quality bands are assigned, and each submitted shipment without an offer is
  offered to the next provider of its traffic distribution list, round after round, until one has no
  blackout.
\<close>

section \<open>Tables\<close>

record BlackoutDate =
  bo_ID :: uuid
  bo_TransportationServiceProviderID :: uuid
  bo_StartBlackoutDate :: gotime
  bo_EndBlackoutDate :: gotime
  bo_TrafficDistributionListID :: "uuid option"
  bo_Market :: "string option"
  bo_SourceGBLOC :: "string option"
  bo_Zip3 :: "int option"
  bo_VolumeMove :: "bool option"

text \<open>What validation and the database answer to a save are parameters of the world.\<close>

record award_world =
  aw_tdls :: "TrafficDistributionList list"
  aw_tsps :: "TransportationServiceProvider list"
  aw_tspps :: "TSPPerformance list"
  aw_blackouts :: "BlackoutDate list"
  aw_shipments :: "Shipment list"
  aw_offers :: "ShipmentOffer list"
  aw_fresh :: uuid
  aw_save_offer :: "ShipmentOffer \<Rightarrow> bool \<times> goerr option"
  aw_save_tspp :: "TSPPerformance \<Rightarrow> bool \<times> goerr option"
  aw_save_shipment :: "Shipment \<Rightarrow> bool \<times> goerr option"

text \<open>The first component of a save's answer is \<open>HasAny()\<close> of the validation errors; a row is written
  when there are none and no error.\<close>

abbreviation saved :: "bool \<times> goerr option \<Rightarrow> bool" where
  "saved answer \<equiv> answer = (False, None)"

section \<open>The next provider performance\<close>

definition qualityBands :: "int list" where
  "qualityBands = [1, 2, 3, 4]"

text \<open>A missing key of the Go map reads as 0.\<close>

definition OffersPerQualityBand :: "int \<Rightarrow> int" where
  "OffersPerQualityBand band = (if band \<in> set qualityBands then 1 else 0)"

definition enrolled :: "award_world \<Rightarrow> TSPPerformance \<Rightarrow> bool" where
  "enrolled w p \<longleftrightarrow> list_ex (\<lambda>t. tsp_ID t = tspp_TransportationServiceProviderID p \<and> tsp_Enrolled t) (aw_tsps w)"

text \<open>The periods and cycles are columns of type \<open>date\<close>, so the times compared with them count as dates.\<close>

definition date_between :: "gotime \<Rightarrow> gotime \<Rightarrow> gotime \<Rightarrow> bool" where
  "date_between t a b \<longleftrightarrow> date_of a \<le> date_of t \<and> date_of t \<le> date_of b"

definition next_match :: "award_world \<Rightarrow> uuid \<Rightarrow> gotime \<Rightarrow> gotime \<Rightarrow> TSPPerformance \<Rightarrow> bool" where
  "next_match w tdlID bookDate requestedPickupDate p \<longleftrightarrow> tspp_TrafficDistributionListID p = tdlID
     \<and> date_between bookDate (tspp_PerformancePeriodStart p) (tspp_PerformancePeriodEnd p)
     \<and> date_between requestedPickupDate (tspp_RateCycleStart p) (tspp_RateCycleEnd p) \<and> enrolled w p"

definition offer_order :: "TSPPerformance list \<Rightarrow> TSPPerformance list" where
  "offer_order rows = sort_key tspp_OfferCount (sort_key (\<lambda>p. - tspp_BestValueScore p) rows)"

definition NextTSPPerformanceInQualityBand ::
    "award_world \<Rightarrow> uuid \<Rightarrow> int \<Rightarrow> gotime \<Rightarrow> gotime \<Rightarrow> TSPPerformance result" where
  "NextTSPPerformanceInQualityBand w tdlID qualityBand bookDate requestedPickupDate =
     first_row (offer_order (filter (\<lambda>p. next_match w tdlID bookDate requestedPickupDate p
       \<and> tspp_QualityBand p = Some qualityBand) (aw_tspps w)))"

text \<open>The Go map is an association list here, filled in the order of the bands.  The only error of the
  query is that there is no row.\<close>

primrec gather_bands ::
    "award_world \<Rightarrow> uuid \<Rightarrow> gotime \<Rightarrow> gotime \<Rightarrow> int list \<Rightarrow> (int \<times> TSPPerformance) list" where
  "gather_bands w tdlID bookDate requestedPickupDate [] = []"
| "gather_bands w tdlID bookDate requestedPickupDate (band # bands) =
     (case NextTSPPerformanceInQualityBand w tdlID band bookDate requestedPickupDate of
        Ret p \<Rightarrow> (band, p) # gather_bands w tdlID bookDate requestedPickupDate bands
      | _ \<Rightarrow> gather_bands w tdlID bookDate requestedPickupDate bands)"

definition GatherNextEligibleTSPPerformances ::
    "award_world \<Rightarrow> uuid \<Rightarrow> gotime \<Rightarrow> gotime \<Rightarrow> (int \<times> TSPPerformance) list result" where
  "GatherNextEligibleTSPPerformances w tdlID bookDate requestedPickupDate =
     (let tspPerformances = gather_bands w tdlID bookDate requestedPickupDate qualityBands;
          qualityBandsWithoutTSPs = length qualityBands - length tspPerformances in
      if length qualityBands \<le> qualityBandsWithoutTSPs
      then Fail (ErrMsg ''Could not find any TSPs to fill quality bands in TDL'') else Ret tspPerformances)"

definition sortedMapIntKeys :: "(int \<times> TSPPerformance) list \<Rightarrow> int list" where
  "sortedMapIntKeys m = sort (map fst m)"

definition lookup_band :: "(int \<times> TSPPerformance) list \<Rightarrow> int \<Rightarrow> TSPPerformance" where
  "lookup_band m band = (case map_of m band of Some p \<Rightarrow> p | None \<Rightarrow> zero_tspp)"

definition rounds :: "(int \<times> TSPPerformance) list \<Rightarrow> int \<Rightarrow> rat" where
  "rounds m band = fl64 (fl64 (of_int (tspp_OfferCount (lookup_band m band))) / fl64 (of_int (OffersPerQualityBand band)))"

primrec select_loop :: "(int \<times> TSPPerformance) list \<Rightarrow> TSPPerformance \<Rightarrow> rat \<Rightarrow> int list \<Rightarrow> TSPPerformance" where
  "select_loop m first previousRounds [] = first"
| "select_loop m first previousRounds (band # bands) =
     (if rounds m band < previousRounds then lookup_band m band else select_loop m first (rounds m band) bands)"

text \<open>\<open>bands[0]\<close> panics when there is no band.\<close>

definition SelectNextTSPPerformance :: "(int \<times> TSPPerformance) list \<Rightarrow> TSPPerformance result" where
  "SelectNextTSPPerformance m = (case sortedMapIntKeys m of
      [] \<Rightarrow> Panic
    | band0 # _ \<Rightarrow> Ret (select_loop m (lookup_band m band0) (of_int \<lceil>rounds m band0\<rceil>) (sortedMapIntKeys m)))"

definition NextEligibleTSPPerformance :: "award_world \<Rightarrow> uuid \<Rightarrow> gotime \<Rightarrow> gotime \<Rightarrow> TSPPerformance result" where
  "NextEligibleTSPPerformance w tdlID bookDate requestedPickupDate =
     obind (GatherNextEligibleTSPPerformances w tdlID bookDate requestedPickupDate) SelectNextTSPPerformance"

section \<open>Writing performances and offers\<close>

definition update_tspp :: "award_world \<Rightarrow> TSPPerformance \<Rightarrow> award_world" where
  "update_tspp w p = w\<lparr>aw_tspps := map (\<lambda>r. if tspp_ID r = tspp_ID p then p else r) (aw_tspps w)\<rparr>"

definition IncrementTSPPerformanceOfferCount :: "award_world \<Rightarrow> uuid \<Rightarrow> award_world \<times> TSPPerformance \<times> goerr option" where
  "IncrementTSPPerformanceOfferCount w i =
     (case first_row (filter (\<lambda>p. tspp_ID p = i) (aw_tspps w)) of
        Ret row \<Rightarrow>
          (let p = row\<lparr>tspp_OfferCount := wrap64 (tspp_OfferCount row + 1)\<rparr> in
           case aw_save_tspp w p of
             (_, Some databaseErr) \<Rightarrow> (w, p, Some databaseErr)
           | (True, None) \<Rightarrow> (w, p, Some (ErrMsg ''Validation failure''))
           | (False, None) \<Rightarrow> (update_tspp w p, p, None))
      | Fail e \<Rightarrow> (w, zero_tspp, Some e)
      | Panic \<Rightarrow> (w, zero_tspp, None))"

text \<open>Validation errors of the offer are dropped: it is then not saved, and no error returned.\<close>

definition CreateShipmentOffer :: "award_world \<Rightarrow> uuid \<Rightarrow> uuid \<Rightarrow> uuid \<Rightarrow> bool \<Rightarrow> award_world \<times> ShipmentOffer \<times> goerr option" where
  "CreateShipmentOffer w shipmentID tspID tsppID administrativeShipment =
     (let offer = \<lparr>of_ID = uuid_Nil, of_ShipmentID = shipmentID, of_TransportationServiceProviderID = tspID,
            of_TransportationServiceProvider = zero_tsp, of_TransportationServiceProviderPerformanceID = tsppID,
            of_TransportationServiceProviderPerformance = zero_tspp, of_AdministrativeShipment = administrativeShipment,
            of_Accepted = None, of_RejectionReason = None\<rparr> in
      if saved (aw_save_offer w offer)
      then (let offer = offer\<lparr>of_ID := aw_fresh w\<rparr>
            in (w\<lparr>aw_offers := aw_offers w @ [offer], aw_fresh := aw_fresh w + 1\<rparr>, offer, None))
      else (w, offer, snd (aw_save_offer w offer)))"

definition AwardShipment :: "award_world \<Rightarrow> uuid \<Rightarrow> award_world \<times> unit result" where
  "AwardShipment w shipmentID =
     (case first_row (filter (\<lambda>s. shp_ID s = shipmentID) (aw_shipments w)) of
        Ret row \<Rightarrow> (case Shipment_Award row of
            (s, Some e) \<Rightarrow> (w, Fail e)
          | (s, None) \<Rightarrow> (case aw_save_shipment w s of
                (_, Some e) \<Rightarrow> (w, Fail e)
              | (True, None) \<Rightarrow> (w, Fail (ErrMsg ''Validation failure''))
              | (False, None) \<Rightarrow> (w\<lparr>aw_shipments := map (\<lambda>r. if shp_ID r = shp_ID s then s else r) (aw_shipments w)\<rparr>, Ret ())))
      | Fail e \<Rightarrow> (w, Fail e)
      | Panic \<Rightarrow> (w, Panic))"

section \<open>Blackouts\<close>

text \<open>A nil pickup date is SQL's NULL, which no row matches; so is a NULL column of a row.\<close>

definition FetchTSPBlackoutDates :: "award_world \<Rightarrow> uuid \<Rightarrow> Shipment \<Rightarrow> BlackoutDate list" where
  "FetchTSPBlackoutDates w tspID shipment =
     filter (\<lambda>b. bo_TransportationServiceProviderID b = tspID
         \<and> (case shp_ActualPickupDate shipment of None \<Rightarrow> False
            | Some d \<Rightarrow> bo_StartBlackoutDate b \<le> d \<and> d \<le> bo_EndBlackoutDate b)
         \<and> (shp_Market shipment \<noteq> None \<longrightarrow> bo_Market b = shp_Market shipment)
         \<and> (shp_SourceGBLOC shipment \<noteq> None \<longrightarrow> bo_SourceGBLOC b = shp_SourceGBLOC shipment)) (aw_blackouts w)"

definition ShipmentWithinBlackoutDates :: "award_world \<Rightarrow> uuid \<Rightarrow> Shipment \<Rightarrow> bool" where
  "ShipmentWithinBlackoutDates w tspID shipment \<longleftrightarrow> length (FetchTSPBlackoutDates w tspID shipment) \<noteq> 0"

section \<open>Offering a shipment\<close>

definition validateShipmentForAward :: "Shipment \<Rightarrow> unit result" where
  "validateShipmentForAward shipment =
     (if shp_TrafficDistributionListID shipment = None then Fail (ErrMsg ''shipment id has a nil TDL'')
      else if shp_BookDate shipment = None then Fail (ErrMsg ''shipment id has a nil BookDate'')
      else if shp_RequestedPickupDate shipment = None then Fail (ErrMsg ''shipment id has a nil RequestedPickupDate'')
      else Ret ())"

text \<open>One pass of the loop up to the question whether an available provider was found.  \<open>Fail\<close> is the
  error the pass returns with; an error of the offer or of the count is only logged.\<close>

definition offer_round ::
    "Shipment \<Rightarrow> award_world \<Rightarrow> TSPPerformance \<Rightarrow> ShipmentOffer option \<Rightarrow> award_world \<times> (TSPPerformance \<times> ShipmentOffer option \<times> bool) result" where
  "offer_round shipment w tspPerformance shipmentOffer =
     (case first_row (filter (\<lambda>t. tsp_ID t = tspp_TransportationServiceProviderID tspPerformance) (aw_tsps w)) of
        Ret tsp \<Rightarrow>
          (let isAdministrativeShipment = ShipmentWithinBlackoutDates w (tsp_ID tsp) shipment in
           case CreateShipmentOffer w (shp_ID shipment) (tsp_ID tsp) (tspp_ID tspPerformance) isAdministrativeShipment of
             (w, offer, Some _) \<Rightarrow> (w, Ret (tspPerformance, Some offer, False))
           | (w, offer, None) \<Rightarrow> (case IncrementTSPPerformanceOfferCount w (tspp_ID tspPerformance) of
               (w, p, Some _) \<Rightarrow> (w, Ret (p, Some offer, False))
             | (w, p, None) \<Rightarrow>
                 if isAdministrativeShipment then (w, Ret (p, Some offer, False))
                 else (case AwardShipment w (shp_ID shipment) of
                     (w, Ret _) \<Rightarrow> (w, Ret (p, Some offer, True))
                   | (w, Fail e) \<Rightarrow> (w, Fail e)
                   | (w, Panic) \<Rightarrow> (w, Panic))))
      | _ \<Rightarrow> (w, Ret (tspPerformance, shipmentOffer, False)))"

text \<open>One pass of the loop: it ends with a result or goes on with the next performance.  \<open>loopCount\<close> is
  only compared with 0.\<close>

type_synonym attempt_state = "award_world \<times> TSPPerformance \<times> ShipmentOffer option \<times> int"
type_synonym attempt_result = "award_world \<times> ShipmentOffer option result"

definition attempt_pass :: "Shipment \<Rightarrow> uuid \<Rightarrow> gotime \<Rightarrow> gotime \<Rightarrow> uuid \<Rightarrow> attempt_state \<Rightarrow> attempt_result + attempt_state" where
  "attempt_pass shipment tdlID bookDate requestedPickupDate firstTSPid st =
     (case st of (w, tspPerformance, shipmentOffer, loopCount) \<Rightarrow>
      if loopCount \<noteq> 0 \<and> tspp_ID tspPerformance = firstTSPid
      then Inl (w, Fail (ErrMsg ''could not find a TSP without blackout dates in %d tries''))
      else case offer_round shipment w tspPerformance shipmentOffer of
        (w, Fail e) \<Rightarrow> Inl (w, Fail e)
      | (w, Panic) \<Rightarrow> Inl (w, Panic)
      | (w, Ret (p, offer, foundAvailableTSP)) \<Rightarrow>
          if foundAvailableTSP then Inl (w, Ret offer)
          else (case NextEligibleTSPPerformance w tdlID bookDate requestedPickupDate of
              Ret p \<Rightarrow> Inr (w, p, offer, loopCount + 1)
            | Fail e \<Rightarrow> Inl (w, Fail e)
            | Panic \<Rightarrow> Inl (w, Panic)))"

text \<open>The loop may run forever: then its value is \<open>None\<close>.\<close>

partial_function (option) attempt_loop ::
    "Shipment \<Rightarrow> uuid \<Rightarrow> gotime \<Rightarrow> gotime \<Rightarrow> uuid \<Rightarrow> attempt_state \<Rightarrow> attempt_result option" where
  "attempt_loop shipment tdlID bookDate requestedPickupDate firstTSPid st =
     (case attempt_pass shipment tdlID bookDate requestedPickupDate firstTSPid st of
        Inl r \<Rightarrow> Some r
      | Inr st' \<Rightarrow> attempt_loop shipment tdlID bookDate requestedPickupDate firstTSPid st')"

definition not_awarded :: "attempt_result \<Rightarrow> attempt_result" where
  "not_awarded r = (case r of (w, Ret None) \<Rightarrow> (w, Fail (ErrMsg ''shipment not awarded; no TSPs found'')) | _ \<Rightarrow> r)"

definition attemptShipmentOffer :: "award_world \<Rightarrow> Shipment \<Rightarrow> attempt_result option" where
  "attemptShipmentOffer w shipment =
     (case validateShipmentForAward shipment of
        Ret _ \<Rightarrow>
          (let tdlID = the (shp_TrafficDistributionListID shipment);
               bookDate = the (shp_BookDate shipment); requestedPickupDate = the (shp_RequestedPickupDate shipment) in
           case map_fail (Wrap ''Cannot find TDL in database'') (first_row (filter (\<lambda>t. tdl_ID t = tdlID) (aw_tdls w))) of
             Ret tdl \<Rightarrow> (case NextEligibleTSPPerformance w (tdl_ID tdl) bookDate requestedPickupDate of
                 Ret p \<Rightarrow> map_option not_awarded
                   (attempt_loop shipment (tdl_ID tdl) bookDate requestedPickupDate (tspp_ID p) (w, p, None, 0))
               | Fail e \<Rightarrow> Some (w, Fail e)
               | Panic \<Rightarrow> Some (w, Panic))
           | Fail e \<Rightarrow> Some (w, Fail e)
           | Panic \<Rightarrow> Some (w, Panic))
      | Fail e \<Rightarrow> Some (w, Fail e)
      | Panic \<Rightarrow> Some (w, Panic))"

definition FetchUnofferedShipments :: "award_world \<Rightarrow> Shipment list" where
  "FetchUnofferedShipments w = filter (\<lambda>s. shp_Status s = ShipmentStatusSUBMITTED
     \<and> filter (\<lambda>o1. of_ShipmentID o1 = shp_ID s) (aw_offers w) = []) (aw_shipments w)"

text \<open>The errors of single shipments are only logged and counted, so a pass over the shipments always
  ends without an error, unless an attempt panics or does not return.\<close>

primrec assign_each :: "Shipment list \<Rightarrow> award_world \<Rightarrow> (award_world \<times> unit result) option" where
  "assign_each [] w = Some (w, Ret ())"
| "assign_each (shipment # shipments) w = (case attemptShipmentOffer w shipment of
      None \<Rightarrow> None
    | Some (w', Panic) \<Rightarrow> Some (w', Panic)
    | Some (w', _) \<Rightarrow> assign_each shipments w')"

definition assignShipments :: "award_world \<Rightarrow> (award_world \<times> unit result) option" where
  "assignShipments w = assign_each (FetchUnofferedShipments w) w"

section \<open>Quality bands\<close>

definition numQualBands :: nat where
  "numQualBands = 4"

definition mps :: rat where
  "mps = 0"

primrec inc_first :: "nat \<Rightarrow> int list \<Rightarrow> int list" where
  "inc_first n [] = []"
| "inc_first n (b # bs) = (case n of 0 \<Rightarrow> b # bs | Suc m \<Rightarrow> (b + 1) # inc_first m bs)"

definition getTSPsPerBand :: "int \<Rightarrow> int list" where
  "getTSPsPerBand tsps =
     (let base = go_trunc (of_int \<lfloor>fl64 (fl64 (of_int tsps) / fl64 (of_nat numQualBands))\<rfloor>);
          bands = replicate numQualBands base
      in inc_first (nat (sgn tsps * (\<bar>tsps\<bar> mod int numQualBands))) bands)"

record TSPPerformanceGroup =
  pg_TrafficDistributionListID :: uuid
  pg_PerformancePeriodStart :: gotime
  pg_PerformancePeriodEnd :: gotime
  pg_RateCycleStart :: gotime
  pg_RateCycleEnd :: gotime

definition group_of :: "TSPPerformance \<Rightarrow> TSPPerformanceGroup" where
  "group_of perf = \<lparr>pg_TrafficDistributionListID = tspp_TrafficDistributionListID perf,
     pg_PerformancePeriodStart = tspp_PerformancePeriodStart perf, pg_PerformancePeriodEnd = tspp_PerformancePeriodEnd perf,
     pg_RateCycleStart = tspp_RateCycleStart perf, pg_RateCycleEnd = tspp_RateCycleEnd perf\<rparr>"

text \<open>The groups in the order of list, period and cycle; groups that differ in an end only keep the order
  of the rows.\<close>

definition FetchUnbandedTSPPerformanceGroups :: "award_world \<Rightarrow> TSPPerformanceGroup list" where
  "FetchUnbandedTSPPerformanceGroups w =
     sort_key pg_TrafficDistributionListID (sort_key pg_PerformancePeriodStart (sort_key pg_RateCycleStart
       (remdups (map group_of (filter (\<lambda>p. tspp_QualityBand p = None \<and> enrolled w p) (aw_tspps w))))))"

definition FetchTSPPerformancesForQualityBandAssignment :: "award_world \<Rightarrow> TSPPerformanceGroup \<Rightarrow> rat \<Rightarrow> TSPPerformance list" where
  "FetchTSPPerformancesForQualityBandAssignment w perfGroup minimum =
     sort_key (\<lambda>p. - tspp_BestValueScore p)
       (filter (\<lambda>p. group_of p = perfGroup \<and> minimum < tspp_BestValueScore p \<and> enrolled w p) (aw_tspps w))"

definition AssignQualityBandToTSPPerformance :: "award_world \<Rightarrow> int \<Rightarrow> uuid \<Rightarrow> award_world \<times> goerr option" where
  "AssignQualityBandToTSPPerformance w band i =
     (case first_row (filter (\<lambda>p. tspp_ID p = i) (aw_tspps w)) of
        Ret row \<Rightarrow>
          (let performance = row\<lparr>tspp_QualityBand := Some band\<rparr> in
           case aw_save_tspp w performance of
             (_, Some err) \<Rightarrow> (w, Some err)
           | (True, None) \<Rightarrow> (w, Some (ErrMsg ''could not update quality band''))
           | (False, None) \<Rightarrow> (update_tspp w performance, None))
      | Fail e \<Rightarrow> (w, Some e)
      | Panic \<Rightarrow> (w, None))"

text \<open>The two nested loops visit the performances in order, with the band of each.\<close>

definition banded :: "int list \<Rightarrow> int list" where
  "banded bands = concat (map (\<lambda>(band, n). replicate (nat n) (band + 1)) (zip [0..int (length bands) - 1] bands))"

primrec assign_bands :: "(int \<times> TSPPerformance) list \<Rightarrow> award_world \<Rightarrow> award_world \<times> goerr option" where
  "assign_bands [] w = (w, None)"
| "assign_bands (e # es) w = (case AssignQualityBandToTSPPerformance w (fst e) (tspp_ID (snd e)) of
      (w', Some err) \<Rightarrow> (w', Some err) | (w', None) \<Rightarrow> assign_bands es w')"

text \<open>\<open>perfs[perfsIndex]\<close> would panic if the bands counted more performances than there are.\<close>

definition assignPerformanceBandsForTSPPerformanceGroup ::
    "award_world \<Rightarrow> TSPPerformanceGroup \<Rightarrow> (award_world \<times> goerr option) result" where
  "assignPerformanceBandsForTSPPerformanceGroup w perfGroup =
     (let perfs = FetchTSPPerformancesForQualityBandAssignment w perfGroup mps;
          bands = banded (getTSPsPerBand (int (length perfs)));
          r = assign_bands (zip bands perfs) w in
      if length perfs < length bands \<and> snd r = None then Panic else Ret r)"

primrec assign_groups :: "TSPPerformanceGroup list \<Rightarrow> award_world \<Rightarrow> (award_world \<times> goerr option) result" where
  "assign_groups [] w = Ret (w, None)"
| "assign_groups (g # gs) w = obind (assignPerformanceBandsForTSPPerformanceGroup w g) (\<lambda>(w', err).
     if err \<noteq> None then Ret (w', err) else assign_groups gs w')"

definition assignPerformanceBands :: "award_world \<Rightarrow> (award_world \<times> goerr option) result" where
  "assignPerformanceBands w = assign_groups (FetchUnbandedTSPPerformanceGroups w) w"

text \<open>One transaction under the advisory lock, which is taken to be granted; an error takes all back.\<close>

definition Run :: "award_world \<Rightarrow> (award_world \<times> unit result) option" where
  "Run w = (case assignPerformanceBands w of
      Ret (w1, Some e) \<Rightarrow> Some (w, Fail e)
    | Ret (w1, None) \<Rightarrow> (case assignShipments w1 of
          None \<Rightarrow> None | Some (w2, Panic) \<Rightarrow> Some (w, Panic) | Some (w2, r) \<Rightarrow> Some (w2, r))
    | Fail e \<Rightarrow> Some (w, Fail e)
    | Panic \<Rightarrow> Some (w, Panic))"

section \<open>Discount rates\<close>

text \<open>The performances of the channel over the date, the best value score first.\<close>

definition FetchDiscountRates ::
    "tariff_db \<Rightarrow> award_world \<Rightarrow> string \<Rightarrow> string \<Rightarrow> string \<Rightarrow> gotime \<Rightarrow> (DiscountRate \<times> DiscountRate) result" where
  "FetchDiscountRates db w originZip destinationZip codeOfService date =
     obind (map_fail (\<lambda>_. Wrap ''could not find a rate area for zip'' ErrFetchNotFound) (FetchRateAreaForZip5 db originZip)) (\<lambda>rateArea.
     obind (map_fail (\<lambda>_. Wrap ''could not find a region for zip'' ErrFetchNotFound) (FetchRegionForZip5 db destinationZip)) (\<lambda>region.
     obind (map_fail (\<lambda>_. ErrFetchNotFound) (first_row (sort_key (\<lambda>p. - tspp_BestValueScore p)
       (filter (\<lambda>p. list_ex (\<lambda>tdl. tdl_ID tdl = tspp_TrafficDistributionListID p \<and> tdl_SourceRateArea tdl = rateArea
             \<and> tdl_DestinationRegion tdl = region \<and> tdl_CodeOfService tdl = codeOfService) (aw_tdls w)
           \<and> date_between date (tspp_PerformancePeriodStart p) (tspp_PerformancePeriodEnd p)) (aw_tspps w)))))
       (\<lambda>tspPerformance. Ret (tspp_LinehaulRate tspPerformance, tspp_SITRate tspPerformance))))"

definition PPMDiscountFetch ::
    "tariff_db \<Rightarrow> award_world \<Rightarrow> string \<Rightarrow> string \<Rightarrow> gotime \<Rightarrow> (DiscountRate \<times> DiscountRate) result" where
  "PPMDiscountFetch db w originZip destZip moveDate =
     (case FetchDiscountRates db w originZip destZip ''D'' moveDate of
        Fail e \<Rightarrow> if e \<noteq> ErrFetchNotFound then Fail e else FetchDiscountRates db w originZip destZip ''2'' moveDate
      | r \<Rightarrow> r)"

section \<open>Traffic distribution lists\<close>

definition FetchTDL :: "award_world \<Rightarrow> string \<Rightarrow> string \<Rightarrow> string \<Rightarrow> TrafficDistributionList result" where
  "FetchTDL w rateArea region codeOfService =
     map_fail (\<lambda>_. ErrFetchNotFound) (first_row (filter (\<lambda>t. tdl_SourceRateArea t = rateArea
       \<and> tdl_DestinationRegion t = region \<and> tdl_CodeOfService t = codeOfService) (aw_tdls w)))"

definition FetchOrCreateTDL ::
    "(TrafficDistributionList \<Rightarrow> bool \<times> goerr option) \<Rightarrow> award_world \<Rightarrow> string \<Rightarrow> string \<Rightarrow> string
      \<Rightarrow> award_world \<times> TrafficDistributionList result" where
  "FetchOrCreateTDL save_tdl w rateArea region codeOfService =
     (case FetchTDL w rateArea region codeOfService of
        Ret t \<Rightarrow> (w, Ret t)
      | Fail e \<Rightarrow>
          if e = ErrFetchNotFound then
            (let t = \<lparr>tdl_ID = uuid_Nil, tdl_SourceRateArea = rateArea, tdl_DestinationRegion = region,
                   tdl_CodeOfService = codeOfService\<rparr> in
             case save_tdl t of
               (_, Some err) \<Rightarrow> (w, Fail err)
             | (True, None) \<Rightarrow> (w, Fail (ErrMsg ''Validation error on TDL''))
             | (False, None) \<Rightarrow> (let t = t\<lparr>tdl_ID := aw_fresh w\<rparr>
                 in (w\<lparr>aw_tdls := aw_tdls w @ [t], aw_fresh := aw_fresh w + 1\<rparr>, Ret t)))
          else (w, Fail e)
      | Panic \<Rightarrow> (w, Panic))"

section \<open>The sizes of the bands\<close>

lemma band_base:
  assumes "\<bar>n\<bar> < 2 ^ 53"
  shows "go_trunc (of_int \<lfloor>fl64 (fl64 (of_int n) / fl64 (of_nat numQualBands))\<rfloor>) = n div 4"
proof -
  have "fl64 (of_int n) = of_int n" "fl64 4 = 4"
    using fl64_of_int [of n] fl64_of_int [of 4] assms by simp_all
  moreover have "fl64 (of_int n / 4) = of_int n / 4"
    using fl64_exact [of n "- 2"] assms by (simp add: power_int_minus field_simps)
  ultimately have "fl64 (fl64 (of_int n) / fl64 (of_nat numQualBands)) = of_int n / 4"
    by (simp add: numQualBands_def)
  moreover have "\<lfloor>of_int n / (4 :: rat)\<rfloor> = n div 4"
    using floor_divide_of_int_eq [of n 4, where ?'a = rat] by simp
  moreover have "- (2 ^ 53) \<le> n div 4 \<and> n div 4 < 2 ^ 53" using assms by linarith
  then have "go_trunc (of_int (n div 4)) = n div 4" by (intro go_trunc_of_int) (simp add: in64_def)
  ultimately show ?thesis by metis
qed

lemma four_cases: "n = 4 * (n div 4) \<or> n = 4 * (n div 4) + 1 \<or> n = 4 * (n div 4) + 2 \<or> n = 4 * (n div 4) + (3 :: int)"
proof -
  have "n mod 4 = 0 \<or> n mod 4 = 1 \<or> n mod 4 = 2 \<or> n mod 4 = 3" by presburger
  then show ?thesis using div_mult_mod_eq [of n 4] by linarith
qed

lemma band_sum: "(n + 3) div 4 + (n + 2) div 4 + (n + 1) div 4 + n div 4 = (n :: int)"
proof -
  define q where "q = n div 4"
  consider "n = 4 * q" | "n = 4 * q + 1" | "n = 4 * q + 2" | "n = 4 * q + 3" using four_cases [of n] unfolding q_def by blast
  then show ?thesis by cases simp_all
qed

lemma getTSPsPerBand_eq:
  assumes "0 \<le> n" "n < 2 ^ 53"
  shows "getTSPsPerBand n = [(n + 3) div 4, (n + 2) div 4, (n + 1) div 4, n div 4]"
proof -
  have r: "nat (sgn n * (\<bar>n\<bar> mod int numQualBands)) = nat (n mod 4)"
    using assms(1) by (cases "n = 0") (simp_all add: numQualBands_def)
  have b: "getTSPsPerBand n = inc_first (nat (n mod 4)) [n div 4, n div 4, n div 4, n div 4]"
    using band_base [of n] assms unfolding getTSPsPerBand_def Let_def r by (simp add: numQualBands_def numeral_eq_Suc)
  define q where "q = n div 4"
  have small: "nat 1 = Suc 0" "nat 2 = Suc (Suc 0)" "nat 3 = Suc (Suc (Suc 0))" by simp_all
  consider "n = 4 * q" | "n = 4 * q + 1" | "n = 4 * q + 2" | "n = 4 * q + 3" using four_cases [of n] unfolding q_def by blast
  then show ?thesis unfolding b by cases (simp_all add: small)
qed

lemma zip_upto: "zip [0..3] [a, b, c, d] = [(0, a), (1, b), (2, c), (3, d :: int)]"
  by (simp add: upto.simps)

lemma banded_eq:
  assumes "0 \<le> n" "n < 2 ^ 53"
  shows "banded (getTSPsPerBand n) = replicate (nat ((n + 3) div 4)) 1 @ replicate (nat ((n + 2) div 4)) 2
    @ replicate (nat ((n + 1) div 4)) 3 @ replicate (nat (n div 4)) 4"
  by (simp add: getTSPsPerBand_eq [OF assms] banded_def zip_upto)

lemma banded_facts:
  assumes "0 \<le> n" "n < 2 ^ 53"
  shows "length (banded (getTSPsPerBand n)) = nat n" "sorted (banded (getTSPsPerBand n))"
    "set (banded (getTSPsPerBand n)) \<subseteq> {1..4}"
proof -
  have "0 \<le> (n + 3) div 4" "0 \<le> (n + 2) div 4" "0 \<le> (n + 1) div 4" "0 \<le> n div 4" using assms(1) by simp_all
  then have "int (length (banded (getTSPsPerBand n))) = n"
    using band_sum [of n] by (simp add: banded_eq [OF assms] del: pos_imp_zdiv_nonneg_iff)
  then show "length (banded (getTSPsPerBand n)) = nat n" by simp
  show "sorted (banded (getTSPsPerBand n))" by (simp add: banded_eq [OF assms] sorted_append) auto
  show "set (banded (getTSPsPerBand n)) \<subseteq> {1..4}" by (auto simp: banded_eq [OF assms])
qed

section \<open>Assigning the bands\<close>

definition in_band :: "TSPPerformance \<Rightarrow> int \<Rightarrow> TSPPerformance" where
  "in_band p band = p\<lparr>tspp_QualityBand := Some band\<rparr>"

lemma in_band_simps [simp]: "tspp_ID (in_band p b) = tspp_ID p"
  by (simp add: in_band_def)

lemma distinct_key: "distinct (map f xs) \<Longrightarrow> x \<in> set xs \<Longrightarrow> y \<in> set xs \<Longrightarrow> f x = f y \<Longrightarrow> x = y"
  by (auto simp: distinct_map inj_on_def)

lemma update_tspp_row:
  assumes "distinct (map tspp_ID (aw_tspps w))" "row \<in> set (aw_tspps w)" "\<And>p. tspp_ID (f p) = tspp_ID p"
  shows "aw_tspps (update_tspp w (f row)) = map (\<lambda>r. if tspp_ID r = tspp_ID row then f r else r) (aw_tspps w)"
  using distinct_key [OF assms(1) _ assms(2)] by (auto simp: update_tspp_def assms(3))

lemma assign_band_ok:
  assumes "distinct (map tspp_ID (aw_tspps w))" "AssignQualityBandToTSPPerformance w b i = (w', None)"
  shows "aw_tspps w' = map (\<lambda>r. if tspp_ID r = i then in_band r b else r) (aw_tspps w)"
proof -
  obtain row where row: "first_row (filter (\<lambda>p. tspp_ID p = i) (aw_tspps w)) = Ret row"
    using assms(2) first_row_not_Panic by (cases "first_row (filter (\<lambda>p. tspp_ID p = i) (aw_tspps w))")
      (fastforce simp: AssignQualityBandToTSPPerformance_def)+
  have "w' = update_tspp w (in_band row b)"
    using assms(2) by (auto simp: AssignQualityBandToTSPPerformance_def row in_band_def Let_def
        split: prod.splits bool.splits option.splits)
  then show ?thesis
    using update_tspp_row [OF assms(1), of row "\<lambda>p. in_band p b"] first_row_filter_Ret [OF row] by simp
qed

definition band_in :: "(int \<times> TSPPerformance) list \<Rightarrow> TSPPerformance \<Rightarrow> TSPPerformance" where
  "band_in es r = (case map_of (map (\<lambda>e. (tspp_ID (snd e), fst e)) es) (tspp_ID r) of Some b \<Rightarrow> in_band r b | None \<Rightarrow> r)"

lemma assign_bands_ok:
  assumes "distinct (map tspp_ID (aw_tspps w))" "distinct (map (tspp_ID \<circ> snd) es)" "assign_bands es w = (w', None)"
  shows "aw_tspps w' = map (band_in es) (aw_tspps w)"
  using assms
proof (induction es arbitrary: w)
  case Nil
  then show ?case by (simp add: band_in_def)
next
  case (Cons e es)
  obtain v where v: "AssignQualityBandToTSPPerformance w (fst e) (tspp_ID (snd e)) = (v, None)" and rest: "assign_bands es v = (w', None)"
    using Cons.prems(3) by (auto split: prod.splits option.splits)
  note rows = assign_band_ok [OF Cons.prems(1) v]
  have "distinct (map tspp_ID (aw_tspps v))"
    using Cons.prems(1) by (simp add: rows comp_def if_distrib cong: if_cong)
  then have IH: "aw_tspps w' = map (band_in es) (aw_tspps v)" using Cons.IH [OF _ _ rest] Cons.prems(2) by simp
  have "map_of (map (\<lambda>e. (tspp_ID (snd e), fst e)) es) (tspp_ID (snd e)) = None"
    using Cons.prems(2) by (force simp: map_of_eq_None_iff)
  then show ?case by (auto simp: IH rows band_in_def)
qed

text \<open>The performances of a group that get a band.\<close>

definition rated :: "award_world \<Rightarrow> TSPPerformanceGroup \<Rightarrow> TSPPerformance \<Rightarrow> bool" where
  "rated w g p \<longleftrightarrow> group_of p = g \<and> 0 < tspp_BestValueScore p \<and> enrolled w p"

lemma length_filter_mset: "mset xs = mset ys \<Longrightarrow> length (filter P xs) = length (filter P ys)"
  by (metis mset_filter size_mset)

lemma assign_group_run:
  fixes g :: TSPPerformanceGroup
  assumes "distinct (map tspp_ID (aw_tspps w))" "int (length (aw_tspps w)) < 2 ^ 53"
  defines "n \<equiv> int (length (filter (rated w g) (aw_tspps w)))"
  obtains perfs bands where "perfs = FetchTSPPerformancesForQualityBandAssignment w g mps" "mset perfs = mset (filter (rated w g) (aw_tspps w))"
    "sorted (map (\<lambda>p. - tspp_BestValueScore p) perfs)" "bands = banded (getTSPsPerBand n)" "0 \<le> n" "n < 2 ^ 53"
    "length bands = length perfs" "distinct (map tspp_ID perfs)"
    "assignPerformanceBandsForTSPPerformanceGroup w g = Ret (assign_bands (zip bands perfs) w)"
proof -
  define perfs where "perfs = FetchTSPPerformancesForQualityBandAssignment w g mps"
  have m: "mset perfs = mset (filter (rated w g) (aw_tspps w))" and s: "sorted (map (\<lambda>p. - tspp_BestValueScore p) perfs)"
    by (simp_all add: perfs_def FetchTSPPerformancesForQualityBandAssignment_def mps_def rated_def)
  have l: "length perfs = length (filter (rated w g) (aw_tspps w))" using m by (metis size_mset)
  have n: "0 \<le> n" "n < 2 ^ 53" using assms(2) length_filter_le [of "rated w g" "aw_tspps w"] unfolding n_def by linarith+
  have lb: "length (banded (getTSPsPerBand n)) = length perfs" using banded_facts(1) [OF n] by (simp add: l n_def)
  have "distinct (map tspp_ID (filter (rated w g) (aw_tspps w)))" using assms(1) by (rule distinct_map_filter)
  then have d: "distinct (map tspp_ID perfs)" using m by (metis mset_eq_imp_distinct_iff mset_map)
  have "assignPerformanceBandsForTSPPerformanceGroup w g = Ret (assign_bands (zip (banded (getTSPsPerBand n)) perfs) w)"
    using lb by (simp add: assignPerformanceBandsForTSPPerformanceGroup_def Let_def perfs_def [symmetric] l n_def)
  then show ?thesis using that [OF perfs_def m s refl n lb d] by blast
qed

lemma band_of_zip:
  assumes "length bands = length perfs" "distinct (map tspp_ID perfs)" "i < length perfs"
  shows "map_of (map (\<lambda>e. (tspp_ID (snd e), fst e)) (zip bands perfs)) (tspp_ID (perfs ! i)) = Some (bands ! i)"
proof -
  have e: "map (\<lambda>e. (tspp_ID (snd e), fst e)) (zip bands perfs) = zip (map tspp_ID perfs) bands"
    using assms(1) by (intro nth_equalityI) simp_all
  have "map_of (zip (map tspp_ID perfs) bands) (map tspp_ID perfs ! i) = Some (bands ! i)"
    using assms by (intro map_of_zip_nth) simp_all
  then show ?thesis unfolding e using assms(3) by simp
qed

lemma filter_in_band: "length (filter (\<lambda>p. f p = b) xs) = count_list (map f xs) b"
  by (induction xs) auto

lemma band_sizes:
  assumes "0 \<le> n" "n < 2 ^ 53" "1 \<le> b" "b \<le> 4"
  shows "int (count_list (banded (getTSPsPerBand n)) b) = (n + 4 - b) div 4"
proof -
  have "count_list (replicate k x) b = (if x = b then k else 0)" for k and x :: int by (induction k) auto
  moreover have "b = 1 \<or> b = 2 \<or> b = 3 \<or> b = 4" using assms(3,4) by arith
  ultimately show ?thesis using assms(1) by (auto simp: banded_eq [OF assms(1,2)])
qed

definition band_of :: "int list \<Rightarrow> TSPPerformance list \<Rightarrow> TSPPerformance \<Rightarrow> int" where
  "band_of bands perfs p = the (map_of (map (\<lambda>e. (tspp_ID (snd e), fst e)) (zip bands perfs)) (tspp_ID p))"

lemma band_of_nth:
  "length bands = length perfs \<Longrightarrow> distinct (map tspp_ID perfs) \<Longrightarrow> i < length perfs \<Longrightarrow> band_of bands perfs (perfs ! i) = bands ! i"
  by (simp add: band_of_def band_of_zip)

lemma band_in_rows:
  assumes "length bands = length perfs" "distinct (map tspp_ID rows)" "distinct (map tspp_ID perfs)" "set perfs \<subseteq> set rows" "p \<in> set rows"
  shows "band_in (zip bands perfs) p = (if p \<in> set perfs then in_band p (band_of bands perfs p) else p)"
proof (cases "p \<in> set perfs")
  case True
  then obtain i where "i < length perfs" "perfs ! i = p" by (metis in_set_conv_nth)
  then show ?thesis using band_of_zip [OF assms(1,3), of i] True by (simp add: band_in_def band_of_def)
next
  case False
  have "tspp_ID p \<notin> tspp_ID ` set perfs" using distinct_key [OF assms(2,5)] assms(4) False by fastforce
  then have "map_of (map (\<lambda>e. (tspp_ID (snd e), fst e)) (zip bands perfs)) (tspp_ID p) = None"
    by (auto simp: map_of_eq_None_iff dest: set_zip_rightD)
  then show ?thesis using False by (simp add: band_in_def)
qed

lemma band_of_mono:
  assumes "length bands = length perfs" "distinct (map tspp_ID perfs)" "sorted bands" "sorted (map (\<lambda>p. - tspp_BestValueScore p) perfs)"
    "p \<in> set perfs" "q \<in> set perfs" "tspp_BestValueScore q < tspp_BestValueScore p"
  shows "band_of bands perfs p \<le> band_of bands perfs q"
proof -
  obtain i j where ij: "i < length perfs" "perfs ! i = p" "j < length perfs" "perfs ! j = q" using assms(5,6) by (metis in_set_conv_nth)
  have "i \<le> j"
  proof (rule ccontr)
    assume "\<not> i \<le> j"
    then have "- tspp_BestValueScore q \<le> - tspp_BestValueScore p" using sorted_nth_mono [OF assms(4), of j i] ij by simp
    then show False using assms(7) by simp
  qed
  then have "bands ! i \<le> bands ! j" using sorted_nth_mono [OF assms(3)] ij assms(1) by simp
  then show ?thesis using band_of_nth [OF assms(1,2)] ij by metis
qed

text \<open>C11: assigning the quality bands of a group never panics; when it reports no error, exactly the
  enrolled performances of the group with a positive score have got a band from 1 to 4, a better score
  never a worse band, the four bands have the sizes \<open>n div 4\<close> with the remainder from the top, and
  nothing else of any row has changed.\<close>

theorem quality_bands_assigned:
  assumes "distinct (map tspp_ID (aw_tspps w))" "int (length (aw_tspps w)) < 2 ^ 53"
  shows "\<exists>w' err. assignPerformanceBandsForTSPPerformanceGroup w g = Ret (w', err) \<and> (err = None \<longrightarrow>
    (\<exists>band. aw_tspps w' = map (\<lambda>p. if rated w g p then in_band p (band p) else p) (aw_tspps w)
      \<and> (\<forall>p \<in> set (aw_tspps w). \<forall>q \<in> set (aw_tspps w). rated w g p \<and> rated w g q \<and> tspp_BestValueScore q < tspp_BestValueScore p
           \<longrightarrow> band p \<le> band q)
      \<and> (\<forall>b. 1 \<le> b \<and> b \<le> 4 \<longrightarrow> int (length (filter (\<lambda>p. rated w g p \<and> band p = b) (aw_tspps w)))
           = (int (length (filter (rated w g) (aw_tspps w))) + 4 - b) div 4)))"
proof -
  let ?n = "int (length (filter (rated w g) (aw_tspps w)))"
  obtain perfs bands where perfs: "mset perfs = mset (filter (rated w g) (aw_tspps w))" "sorted (map (\<lambda>p. - tspp_BestValueScore p) perfs)"
    and bands: "bands = banded (getTSPsPerBand ?n)" "0 \<le> ?n" "?n < 2 ^ 53" and len: "length bands = length perfs" "distinct (map tspp_ID perfs)"
    and run: "assignPerformanceBandsForTSPPerformanceGroup w g = Ret (assign_bands (zip bands perfs) w)"
    using assign_group_run [OF assms] by metis
  obtain w' err where r: "assign_bands (zip bands perfs) w = (w', err)" by fastforce
  let ?band = "band_of bands perfs"
  have mem: "p \<in> set perfs \<longleftrightarrow> p \<in> set (aw_tspps w) \<and> rated w g p" for p
    using mset_eq_setD [OF perfs(1)] by auto
  have "map (tspp_ID \<circ> snd) (zip bands perfs) = map tspp_ID perfs" using len(1) by (simp flip: map_map)
  then have "aw_tspps w' = map (band_in (zip bands perfs)) (aw_tspps w)" if "err = None"
    using assign_bands_ok [OF assms(1) _ r [unfolded that]] len(2) by simp
  then have rows: "aw_tspps w' = map (\<lambda>p. if rated w g p then in_band p (?band p) else p) (aw_tspps w)" if "err = None"
    using band_in_rows [OF len(1) assms(1) len(2)] that mem by (simp add: subset_iff cong: map_cong)
  have "sorted bands" using banded_facts(2) [OF bands(2,3)] bands(1) by simp
  then have better: "\<forall>p \<in> set (aw_tspps w). \<forall>q \<in> set (aw_tspps w). rated w g p \<and> rated w g q \<and> tspp_BestValueScore q < tspp_BestValueScore p
      \<longrightarrow> ?band p \<le> ?band q"
    using band_of_mono [OF len _ perfs(2)] mem by blast
  have "map ?band perfs = bands" using band_of_nth [OF len] len(1) by (intro nth_equalityI) simp_all
  moreover have "length (filter (\<lambda>p. rated w g p \<and> ?band p = b) (aw_tspps w)) = length (filter (\<lambda>p. ?band p = b) perfs)" for b
    using length_filter_mset [OF perfs(1)] by (simp add: conj_commute)
  ultimately have "\<forall>b. 1 \<le> b \<and> b \<le> 4 \<longrightarrow> int (length (filter (\<lambda>p. rated w g p \<and> ?band p = b) (aw_tspps w))) = (?n + 4 - b) div 4"
    using band_sizes [OF bands(2,3)] by (simp add: filter_in_band bands(1))
  with run r rows better show ?thesis by auto
qed

section \<open>Which performance is next\<close>

abbreviation oc :: "TSPPerformance \<Rightarrow> int" where
  "oc p \<equiv> tspp_OfferCount p"

text \<open>The performances a shipment can be offered to.\<close>

definition eligible :: "award_world \<Rightarrow> uuid \<Rightarrow> gotime \<Rightarrow> gotime \<Rightarrow> TSPPerformance \<Rightarrow> bool" where
  "eligible w t b d p \<longleftrightarrow> p \<in> set (aw_tspps w) \<and> next_match w t b d p \<and> tspp_QualityBand p \<in> Some ` set qualityBands"

definition band_rows :: "award_world \<Rightarrow> uuid \<Rightarrow> gotime \<Rightarrow> gotime \<Rightarrow> int \<Rightarrow> TSPPerformance list" where
  "band_rows w t b d q = filter (\<lambda>p. next_match w t b d p \<and> tspp_QualityBand p = Some q) (aw_tspps w)"

lemma hd_sort_key:
  assumes "sort_key f xs = y # ys"
  shows "y \<in> set xs \<and> (\<forall>x \<in> set xs. f y \<le> f x)"
proof -
  have "set xs = insert y (set ys)" using assms set_sort [of f xs] by simp
  moreover have "\<forall>x \<in> set ys. f y \<le> f x" using assms sorted_sort_key [of f xs] by simp
  ultimately show ?thesis by simp
qed

lemma next_in_band:
  "NextTSPPerformanceInQualityBand w t q b d = Ret p \<Longrightarrow> p \<in> set (band_rows w t b d q) \<and> (\<forall>r \<in> set (band_rows w t b d q). oc p \<le> oc r)"
  "band_rows w t b d q \<noteq> [] \<Longrightarrow> \<exists>p. NextTSPPerformanceInQualityBand w t q b d = Ret p"
  "NextTSPPerformanceInQualityBand w t q b d \<noteq> Panic"
proof -
  have n: "NextTSPPerformanceInQualityBand w t q b d = first_row (offer_order (band_rows w t b d q))"
    by (simp add: NextTSPPerformanceInQualityBand_def band_rows_def)
  show "p \<in> set (band_rows w t b d q) \<and> (\<forall>r \<in> set (band_rows w t b d q). oc p \<le> oc r)"
    if "NextTSPPerformanceInQualityBand w t q b d = Ret p"
    using that hd_sort_key [of tspp_OfferCount "sort_key (\<lambda>p. - tspp_BestValueScore p) (band_rows w t b d q)" p]
    by (auto simp: n offer_order_def first_row_eq_Ret)
  show "\<exists>p. NextTSPPerformanceInQualityBand w t q b d = Ret p" if "band_rows w t b d q \<noteq> []"
  proof -
    have "set (offer_order (band_rows w t b d q)) = set (band_rows w t b d q)" by (simp add: offer_order_def)
    then have "offer_order (band_rows w t b d q) \<noteq> []" using that by (metis set_empty)
    then show ?thesis by (cases "offer_order (band_rows w t b d q)") (simp_all add: n)
  qed
qed (simp add: NextTSPPerformanceInQualityBand_def first_row_not_Panic)

lemma gather_keys: "map fst (gather_bands w t b d bands) = filter (\<lambda>q. band_rows w t b d q \<noteq> []) bands"
proof (induction bands)
  case (Cons q bands)
  show ?case
  proof (cases "band_rows w t b d q = []")
    case True
    then have "NextTSPPerformanceInQualityBand w t q b d = Fail NoRows"
      by (simp add: NextTSPPerformanceInQualityBand_def band_rows_def offer_order_def)
    then show ?thesis using Cons True by simp
  next
    case False
    then obtain p where "NextTSPPerformanceInQualityBand w t q b d = Ret p" using next_in_band(2) by blast
    then show ?thesis using Cons False by simp
  qed
qed simp

lemma gather_rows:
  "(q, p) \<in> set (gather_bands w t b d bands) \<Longrightarrow> p \<in> set (band_rows w t b d q) \<and> (\<forall>r \<in> set (band_rows w t b d q). oc p \<le> oc r)"
  by (induction bands) (auto split: outcome.splits dest: next_in_band(1))

text \<open>The walk over the bands on the counts alone: the first descent, or the first band.\<close>

fun descent :: "int \<Rightarrow> TSPPerformance \<Rightarrow> TSPPerformance list \<Rightarrow> TSPPerformance" where
  "descent prev first [] = first"
| "descent prev first (p # ps) = (if oc p < prev then p else descent (oc p) first ps)"

lemma descent_cases:
  "descent prev first ps = r \<Longrightarrow> r = first \<and> sorted (prev # map oc ps)
     \<or> (\<exists>xs ys. ps = xs @ r # ys \<and> oc r < last (prev # map oc xs))"
proof (induction ps arbitrary: prev)
  case (Cons p ps)
  show ?case
  proof (cases "oc p < prev")
    case True
    then have "r = p" using Cons.prems by simp
    then have "p # ps = [] @ r # ps \<and> oc r < last (prev # map oc [])" using True by simp
    then show ?thesis by blast
  next
    case False
    then consider "r = first" "sorted (oc p # map oc ps)" | xs ys where "ps = xs @ r # ys" "oc r < last (oc p # map oc xs)"
      using Cons.IH [of "oc p"] Cons.prems by auto
    then show ?thesis
    proof cases
      case 2
      then have "p # ps = (p # xs) @ r # ys \<and> oc r < last (prev # map oc (p # xs))" by simp
      then show ?thesis by blast
    qed (use False in auto)
  qed
qed simp

definition small_counts :: "award_world \<Rightarrow> bool" where
  "small_counts w \<longleftrightarrow> list_all (\<lambda>p. \<bar>oc p\<bar> \<le> 2 ^ 53) (aw_tspps w)"

lemma rounds_eq:
  assumes "map_of m q = Some p" "\<bar>oc p\<bar> \<le> 2 ^ 53" "q \<in> set qualityBands"
  shows "rounds m q = of_int (oc p)" "lookup_band m q = p"
  using assms by (simp_all add: rounds_def lookup_band_def OffersPerQualityBand_def fl64_of_int)

lemma select_loop_descent:
  assumes "distinct (map fst m)" "set es \<subseteq> set m" "\<forall>(q, p) \<in> set es. \<bar>oc p\<bar> \<le> 2 ^ 53 \<and> q \<in> set qualityBands"
  shows "select_loop m first (of_int prev) (map fst es) = descent prev first (map snd es)"
  using assms(2,3)
proof (induction es arbitrary: prev)
  case (Cons e es)
  obtain q p where e: "e = (q, p)" by fastforce
  have "map_of m q = Some p" using assms(1) Cons.prems(1) e by auto
  then have "rounds m q = of_int (oc p)" "lookup_band m q = p" using rounds_eq Cons.prems(2) e by auto
  then show ?case using Cons by (simp add: e)
qed simp

definition candidates :: "award_world \<Rightarrow> uuid \<Rightarrow> gotime \<Rightarrow> gotime \<Rightarrow> (int \<times> TSPPerformance) list" where
  "candidates w t b d = gather_bands w t b d qualityBands"

lemma candidates_keys: "map fst (candidates w t b d) = filter (\<lambda>q. band_rows w t b d q \<noteq> []) qualityBands"
  by (simp add: candidates_def gather_keys)

lemma candidates_sorted: "sorted (map fst (candidates w t b d))" "distinct (map fst (candidates w t b d))"
  unfolding candidates_keys by (simp_all add: qualityBands_def)

lemma candidate_row:
  assumes "(q, p) \<in> set (candidates w t b d)"
  shows "eligible w t b d p" "tspp_QualityBand p = Some q" "q \<in> set qualityBands"
    "r \<in> set (band_rows w t b d q) \<Longrightarrow> oc p \<le> oc r"
proof -
  have "q \<in> set (map fst (candidates w t b d))" using assms by force
  then show q: "q \<in> set qualityBands" unfolding candidates_keys by simp
  show "eligible w t b d p" "tspp_QualityBand p = Some q" "r \<in> set (band_rows w t b d q) \<Longrightarrow> oc p \<le> oc r"
    using gather_rows [OF assms [unfolded candidates_def]] q by (auto simp: eligible_def band_rows_def)
qed

lemma eligible_candidate:
  assumes "eligible w t b d r"
  shows "\<exists>q p. (q, p) \<in> set (candidates w t b d) \<and> tspp_QualityBand r = Some q \<and> oc p \<le> oc r"
proof -
  obtain q where q: "tspp_QualityBand r = Some q" "q \<in> set qualityBands" "r \<in> set (band_rows w t b d q)"
    using assms by (auto simp: eligible_def band_rows_def)
  then have "q \<in> set (map fst (candidates w t b d))" unfolding candidates_keys by auto
  then obtain p where p: "(q, p) \<in> set (candidates w t b d)" by auto
  then show ?thesis using candidate_row(4) [OF p q(3)] q(1) by blast
qed

lemma next_eligible_Ret:
  assumes "small_counts w" "NextEligibleTSPPerformance w t b d = Ret r"
  shows "(\<exists>band rest. candidates w t b d = (band, r) # rest \<and> sorted (map (oc \<circ> snd) (candidates w t b d)))
    \<or> (\<exists>xs q ys. map snd (candidates w t b d) = xs @ q # r # ys \<and> oc r < oc q)"
proof -
  let ?m = "candidates w t b d"
  have sel: "SelectNextTSPPerformance ?m = Ret r"
    using assms(2) by (auto simp: NextEligibleTSPPerformance_def GatherNextEligibleTSPPerformances_def candidates_def Let_def outcome_simps
        split: if_splits)
  have keys: "sortedMapIntKeys ?m = map fst ?m"
    unfolding sortedMapIntKeys_def by (rule sorted_sort_id [OF candidates_sorted(1)])
  obtain band f rest where m: "?m = (band, f) # rest"
    using sel keys by (cases ?m) (auto simp: SelectNextTSPPerformance_def)
  have small: "\<forall>(q, p) \<in> set ?m. \<bar>oc p\<bar> \<le> 2 ^ 53 \<and> q \<in> set qualityBands"
    using assms(1) candidate_row(1,3) by (fastforce simp: small_counts_def list_all_iff eligible_def)
  have "map_of ?m band = Some f" using m by simp
  then have b0: "rounds ?m band = of_int (oc f)" "lookup_band ?m band = f"
    using rounds_eq small m by auto
  have "select_loop ?m f (of_int (oc f)) (map fst ?m) = r"
    using sel keys m b0 by (simp add: SelectNextTSPPerformance_def)
  then have "descent (oc f) f (map snd ?m) = r"
    using select_loop_descent [OF candidates_sorted(2) subset_refl small] by simp
  then consider "r = f" "sorted (oc f # map oc (map snd ?m))" | xs ys where "map snd ?m = xs @ r # ys" "oc r < last (oc f # map oc xs)"
    using descent_cases by blast
  then show ?thesis
  proof cases
    case 1
    then show ?thesis using m by (auto simp: comp_def)
  next
    case 2
    then have "xs \<noteq> []" using m by auto
    then obtain ws q where "xs = ws @ [q]" by (metis rev_exhaust)
    then have "map snd ?m = ws @ q # r # ys \<and> oc r < oc q" using 2 by simp
    then show ?thesis by blast
  qed
qed

lemma next_is_candidate:
  assumes "small_counts w" "NextEligibleTSPPerformance w t b d = Ret r"
  shows "\<exists>q. (q, r) \<in> set (candidates w t b d)"
proof -
  consider rest band where "candidates w t b d = (band, r) # rest" | xs q ys where "map snd (candidates w t b d) = xs @ q # r # ys"
    using next_eligible_Ret [OF assms] by blast
  then have "r \<in> set (map snd (candidates w t b d))" by cases simp_all
  then show ?thesis by auto
qed

lemma next_below:
  assumes "small_counts w" "NextEligibleTSPPerformance w t b d = Ret r"
    "\<And>p. eligible w t b d p \<Longrightarrow> oc p \<le> N" "eligible w t b d p" "oc p < N"
  shows "oc r < N"
proof -
  consider rest band where "candidates w t b d = (band, r) # rest" "sorted (map (oc \<circ> snd) (candidates w t b d))"
    | xs q ys where "map snd (candidates w t b d) = xs @ q # r # ys" "oc r < oc q"
    using next_eligible_Ret [OF assms(1,2)] by blast
  then show ?thesis
  proof cases
    case 1
    obtain q c where c: "(q, c) \<in> set (candidates w t b d)" "oc c \<le> oc p" using eligible_candidate [OF assms(4)] by blast
    then have "oc r \<le> oc c" using 1 by fastforce
    then show ?thesis using c(2) assms(5) by simp
  next
    case 2
    then have "q \<in> set (map snd (candidates w t b d))" by simp
    then have "eligible w t b d q" using candidate_row(1) by fastforce
    then show ?thesis using assms(3) 2(2) by fastforce
  qed
qed

section \<open>The loop returns\<close>

definition accepting :: "award_world \<Rightarrow> bool" where
  "accepting w \<longleftrightarrow> aw_save_offer w = (\<lambda>_. (False, None)) \<and> aw_save_tspp w = (\<lambda>_. (False, None))"

definition offered :: "uuid \<Rightarrow> TSPPerformance \<Rightarrow> TSPPerformance" where
  "offered i r = (if tspp_ID r = i then r\<lparr>tspp_OfferCount := oc r + 1\<rparr> else r)"

lemma offered_simps [simp]:
  "tspp_ID (offered i r) = tspp_ID r" "tspp_QualityBand (offered i r) = tspp_QualityBand r"
  "oc (offered i r) = (if tspp_ID r = i then oc r + 1 else oc r)"
  by (simp_all add: offered_def)

lemma offered_match [simp]: "next_match w t b d (offered i r) = next_match w t b d r"
  by (simp add: next_match_def enrolled_def offered_def)

lemma next_match_cong: "aw_tsps w' = aw_tsps w \<Longrightarrow> next_match w' t b d = next_match w t b d"
  by (auto simp: next_match_def enrolled_def)

lemma increment_row:
  assumes "accepting w" "distinct (map tspp_ID (aw_tspps w))" "p \<in> set (aw_tspps w)" "\<bar>oc p\<bar> \<le> 2 ^ 53"
  shows "IncrementTSPPerformanceOfferCount w (tspp_ID p)
    = (w\<lparr>aw_tspps := map (offered (tspp_ID p)) (aw_tspps w)\<rparr>, offered (tspp_ID p) p, None)"
proof -
  have f: "filter (\<lambda>q. tspp_ID q = tspp_ID p) (aw_tspps w) = [p]"
    using assms(2,3) by (intro filter_single) (auto simp: distinct_map dest: distinct_key [OF assms(2)])
  have wrap: "wrap64 (oc p + 1) = oc p + 1" using assms(4) by (intro wrap64_id) (simp add: in64_def abs_le_iff)
  have "aw_tspps (update_tspp w (offered (tspp_ID p) p)) = map (offered (tspp_ID p)) (aw_tspps w)"
    using update_tspp_row [OF assms(2,3), of "offered (tspp_ID p)"] by (auto simp: offered_def)
  moreover have "update_tspp w q = w\<lparr>aw_tspps := aw_tspps (update_tspp w q)\<rparr>" for q by (simp add: update_tspp_def)
  ultimately have u: "update_tspp w (offered (tspp_ID p) p) = w\<lparr>aw_tspps := map (offered (tspp_ID p)) (aw_tspps w)\<rparr>" by metis
  have "p\<lparr>tspp_OfferCount := oc p + 1\<rparr> = offered (tspp_ID p) p" by (simp add: offered_def)
  then show ?thesis
    using assms(1) by (simp add: IncrementTSPPerformanceOfferCount_def f accepting_def Let_def wrap u)
qed

lemma AwardShipment_frame:
  "AwardShipment w i = (w', r) \<Longrightarrow> aw_tspps w' = aw_tspps w \<and> aw_tsps w' = aw_tsps w \<and> aw_blackouts w' = aw_blackouts w"
  by (auto simp: AwardShipment_def split: outcome.splits prod.splits option.splits bool.splits)

lemma find_tsp:
  assumes "enrolled w p"
  shows "\<exists>tsp. first_row (filter (\<lambda>t. tsp_ID t = tspp_TransportationServiceProviderID p) (aw_tsps w)) = Ret tsp"
proof -
  have "filter (\<lambda>t. tsp_ID t = tspp_TransportationServiceProviderID p) (aw_tsps w) \<noteq> []"
    using assms by (auto simp: enrolled_def list_ex_iff filter_empty_conv)
  then show ?thesis by (cases "filter (\<lambda>t. tsp_ID t = tspp_TransportationServiceProviderID p) (aw_tsps w)") auto
qed

lemma round_again:
  assumes "accepting w" "distinct (map tspp_ID (aw_tspps w))" "p \<in> set (aw_tspps w)" "\<bar>oc p\<bar> \<le> 2 ^ 53" "enrolled w p"
    "offer_round s w p o1 = (w', Ret (p', o2, False))"
  shows "accepting w'" "aw_tsps w' = aw_tsps w" "aw_tspps w' = map (offered (tspp_ID p)) (aw_tspps w)"
proof -
  obtain tsp where tsp: "first_row (filter (\<lambda>t. tsp_ID t = tspp_TransportationServiceProviderID p) (aw_tsps w)) = Ret tsp"
    using find_tsp [OF assms(5)] by blast
  let ?a = "ShipmentWithinBlackoutDates w (tsp_ID tsp) s"
  obtain v o3 where v: "CreateShipmentOffer w (shp_ID s) (tsp_ID tsp) (tspp_ID p) ?a = (v, o3, None)"
      "v = w\<lparr>aw_offers := aw_offers v, aw_fresh := aw_fresh v\<rparr>"
    using assms(1) by (simp add: CreateShipmentOffer_def accepting_def Let_def)
  have "accepting v" "aw_tspps v = aw_tspps w" using assms(1) by (subst v(2), simp add: accepting_def)+
  then have i: "IncrementTSPPerformanceOfferCount v (tspp_ID p)
      = (v\<lparr>aw_tspps := map (offered (tspp_ID p)) (aw_tspps w)\<rparr>, offered (tspp_ID p) p, None)"
    using increment_row [of v p] assms(2-4) by simp
  have "w' = v\<lparr>aw_tspps := map (offered (tspp_ID p)) (aw_tspps w)\<rparr>"
    using assms(6) unfolding offer_round_def tsp v(1)
    by (auto simp: v(1) i split: if_splits prod.splits outcome.splits)
  moreover have "aw_tsps v = aw_tsps w" by (subst v(2), simp)
  ultimately show "accepting w'" "aw_tsps w' = aw_tsps w" "aw_tspps w' = map (offered (tspp_ID p)) (aw_tspps w)"
    using \<open>accepting v\<close> by (simp_all add: accepting_def)
qed

text \<open>How many more offers fit below a bound.\<close>

definition room :: "int \<Rightarrow> TSPPerformance list \<Rightarrow> nat" where
  "room N rows = sum_list (map (\<lambda>p. nat (N - oc p)) rows)"

lemma room_le: "room N (map (offered i) rows) \<le> room N rows"
  by (induction rows) (auto simp: room_def intro!: add_mono)

lemma room_less: "p \<in> set rows \<Longrightarrow> oc p < N \<Longrightarrow> room N (map (offered (tspp_ID p)) rows) < room N rows"
proof (induction rows)
  case (Cons r rows)
  show ?case
  proof (cases "p = r")
    case True
    then show ?thesis using room_le [of N "tspp_ID p" rows] Cons.prems(2) by (simp add: room_def)
  next
    case False
    then have "room N (map (offered (tspp_ID p)) rows) < room N rows" using Cons by simp
    moreover have "nat (N - oc (offered (tspp_ID p) r)) \<le> nat (N - oc r)" by (simp add: nat_mono)
    ultimately show ?thesis by (simp add: room_def del: offered_simps)
  qed
qed simp

definition eligible_rows :: "award_world \<Rightarrow> uuid \<Rightarrow> gotime \<Rightarrow> gotime \<Rightarrow> TSPPerformance list" where
  "eligible_rows w t b d = filter (\<lambda>p. next_match w t b d p \<and> tspp_QualityBand p \<in> Some ` set qualityBands) (aw_tspps w)"

lemma eligible_rows_set: "p \<in> set (eligible_rows w t b d) \<longleftrightarrow> eligible w t b d p"
  by (simp add: eligible_rows_def eligible_def)

lemma eligible_rows_offered:
  assumes "aw_tsps w' = aw_tsps w" "aw_tspps w' = map (offered i) (aw_tspps w)"
  shows "eligible_rows w' t b d = map (offered i) (eligible_rows w t b d)"
  unfolding eligible_rows_def assms(2) next_match_cong [OF assms(1)] by (simp add: filter_map comp_def)

definition counts_within :: "int \<Rightarrow> award_world \<Rightarrow> bool" where
  "counts_within N w \<longleftrightarrow> list_all (\<lambda>p. - (2 ^ 53) \<le> oc p \<and> oc p \<le> N) (aw_tspps w)"

lemma counts_small: "counts_within N w \<Longrightarrow> N \<le> 2 ^ 53 \<Longrightarrow> small_counts w"
  by (fastforce simp: counts_within_def small_counts_def list_all_iff abs_le_iff)

text \<open>While the loop goes on, some eligible performance stays below the bound: all of them before the
  first offer, the first one after it.\<close>

definition below :: "int \<Rightarrow> uuid \<Rightarrow> uuid \<Rightarrow> gotime \<Rightarrow> gotime \<Rightarrow> award_world \<Rightarrow> int \<Rightarrow> bool" where
  "below N f t b d w n \<longleftrightarrow> (if n = 0 then counts_within (N - 2) w \<and> (\<exists>p. eligible w t b d p)
     else counts_within N w \<and> (\<exists>p. eligible w t b d p \<and> tspp_ID p = f \<and> oc p < N))"

lemma below_step:
  assumes "below N f t b d w n" "n = 0 \<longrightarrow> tspp_ID p = f" "n \<noteq> 0 \<longrightarrow> tspp_ID p \<noteq> f" "0 \<le> n" "eligible w t b d p" "oc p < N"
    "distinct (map tspp_ID (aw_tspps w))" "aw_tsps w' = aw_tsps w" "aw_tspps w' = map (offered (tspp_ID p)) (aw_tspps w)"
  shows "below N f t b d w' (n + 1)"
proof -
  have p: "p \<in> set (aw_tspps w)" using assms(5) by (simp add: eligible_def)
  have el: "eligible w' t b d (offered (tspp_ID p) q)" if "eligible w t b d q" for q
    using that assms(8,9) by (auto simp: eligible_def next_match_cong [OF assms(8)])
  have "counts_within N w" using assms(1) by (auto simp: below_def counts_within_def list_all_iff split: if_splits)
  then have c: "counts_within N w'"
    using assms(6) distinct_key [OF assms(7) _ p] by (fastforce simp: counts_within_def list_all_iff assms(9))
  show ?thesis
  proof (cases "n = 0")
    case True
    then have "oc p \<le> N - 2" using assms(1) p by (auto simp: below_def counts_within_def list_all_iff)
    then show ?thesis using c el [OF assms(5)] assms(2) True by (auto simp: below_def intro!: exI [of _ "offered (tspp_ID p) p"])
  next
    case False
    then obtain q where "eligible w t b d q" "tspp_ID q = f" "oc q < N" using assms(1) by (auto simp: below_def)
    then show ?thesis using c el [of q] assms(3,4) False by (auto simp: below_def intro!: exI [of _ "offered (tspp_ID p) q"])
  qed
qed

lemma below_next:
  assumes "below N f t b d w n" "N \<le> 2 ^ 53" "NextEligibleTSPPerformance w t b d = Ret p"
  shows "eligible w t b d p" "oc p < N" "\<bar>oc p\<bar> \<le> 2 ^ 53"
proof -
  have c: "counts_within N w" using assms(1) by (auto simp: below_def counts_within_def list_all_iff split: if_splits)
  then have small: "small_counts w" by (rule counts_small [OF _ assms(2)])
  show e: "eligible w t b d p" using next_is_candidate [OF small assms(3)] candidate_row(1) by blast
  have "\<exists>q. eligible w t b d q \<and> oc q < N"
    using assms(1) by (fastforce simp: below_def counts_within_def list_all_iff eligible_def split: if_splits)
  moreover have "oc q \<le> N" if "eligible w t b d q" for q
    using that c by (auto simp: counts_within_def list_all_iff eligible_def)
  ultimately show "oc p < N" using next_below [OF small assms(3)] by blast
  show "\<bar>oc p\<bar> \<le> 2 ^ 53" using e small by (simp add: small_counts_def list_all_iff eligible_def)
qed

lemma loop_returns:
  assumes "accepting w" "distinct (map tspp_ID (aw_tspps w))" "below N f t b d w n" "N \<le> 2 ^ 53" "0 \<le> n"
    "NextEligibleTSPPerformance w t b d = Ret p" "n = 0 \<longrightarrow> tspp_ID p = f"
  shows "\<exists>r. attempt_loop s t b d f (w, p, o1, n) = Some r"
  using assms
proof (induction "room N (eligible_rows w t b d)" arbitrary: w p o1 n rule: less_induct)
  case less
  note P = below_next [OF less.prems(3,4,6)]
  have row: "p \<in> set (aw_tspps w)" "enrolled w p" using P(1) by (auto simp: eligible_def next_match_def)
  show ?case
  proof (cases "attempt_pass s t b d f (w, p, o1, n)")
    case (Inl r)
    then show ?thesis by (subst attempt_loop.simps) simp
  next
    case (Inr st)
    obtain w' p' o2 where rnd: "offer_round s w p o1 = (w', Ret (p', o2, False))" and not_f: "n \<noteq> 0 \<longrightarrow> tspp_ID p \<noteq> f"
      and q: "case NextEligibleTSPPerformance w' t b d of Ret q \<Rightarrow> st = (w', q, o2, n + 1) | _ \<Rightarrow> False"
      using Inr by (auto simp: attempt_pass_def split: if_splits prod.splits outcome.splits)
    obtain q where q: "NextEligibleTSPPerformance w' t b d = Ret q" "st = (w', q, o2, n + 1)"
      using q by (auto split: outcome.splits)
    note R = round_again [OF less.prems(1,2) row(1) P(3) row(2) rnd]
    have B: "below N f t b d w' (n + 1)"
      by (rule below_step [OF less.prems(3,7) not_f less.prems(5) P(1,2) less.prems(2) R(2,3)])
    have "room N (eligible_rows w' t b d) < room N (eligible_rows w t b d)"
      unfolding eligible_rows_offered [OF R(2,3)] using room_less [of p] P by (simp add: eligible_rows_set)
    moreover have "distinct (map tspp_ID (aw_tspps w'))" using less.prems(2) by (simp add: R(3) comp_def)
    ultimately have "\<exists>r. attempt_loop s t b d f (w', q, o2, n + 1) = Some r"
      using less.hyps [OF _ R(1) _ B less.prems(4) _ q(1)] less.prems(5) by simp
    then show ?thesis by (subst attempt_loop.simps) (simp add: Inr q(2))
  qed
qed

text \<open>C3: when the database accepts what the queue writes, trying to offer a shipment returns after
  finitely many offers: the provider tried first comes up again at the latest when every other
  performance of the list has as many offers.\<close>

theorem attempt_returns:
  assumes "accepting w" "distinct (map tspp_ID (aw_tspps w))" "list_all (\<lambda>p. \<bar>oc p\<bar> \<le> 2 ^ 52) (aw_tspps w)"
  shows "\<exists>r. attemptShipmentOffer w s = Some r"
proof -
  have c: "counts_within (2 ^ 52 + 2 - 2) w"
    using assms(3) by (auto simp: counts_within_def list_all_iff abs_le_iff)
  then have small: "small_counts w" by (rule counts_small) simp
  have "\<exists>r. attempt_loop s t b d (tspp_ID p) (w, p, None, 0) = Some r"
    if n: "NextEligibleTSPPerformance w t b d = Ret p" for t b d p
  proof (rule loop_returns [OF assms(1,2) _ _ _ n])
    show "below (2 ^ 52 + 2) (tspp_ID p) t b d w 0"
      using c next_is_candidate [OF small n] candidate_row(1) by (auto simp: below_def intro: exI [of _ p])
  qed simp_all
  moreover have "\<exists>t b d p. NextEligibleTSPPerformance w t b d = Ret p \<and> attempt_loop s t b d (tspp_ID p) (w, p, None, 0) = None"
    if "attemptShipmentOffer w s = None"
    using that by (auto simp: attemptShipmentOffer_def Let_def split: outcome.splits)
  ultimately have "attemptShipmentOffer w s \<noteq> None" by (metis option.distinct(1))
  then show ?thesis by blast
qed

section \<open>The offers go round\<close>

abbreviation qb :: "TSPPerformance \<Rightarrow> int" where
  "qb p \<equiv> the (tspp_QualityBand p)"

text \<open>A round in progress: everybody has \<open>c\<close> offers or one more, the higher bands first.\<close>

definition fair :: "int \<Rightarrow> TSPPerformance list \<Rightarrow> bool" where
  "fair c rows \<longleftrightarrow> list_all (\<lambda>p. (oc p = c \<or> oc p = c + 1)
     \<and> list_all (\<lambda>q. oc q = c + 1 \<and> qb p < qb q \<longrightarrow> oc p = c + 1) rows) rows"

lemma fairD:
  "fair c rows \<Longrightarrow> p \<in> set rows \<Longrightarrow> oc p = c \<or> oc p = c + 1"
  "fair c rows \<Longrightarrow> p \<in> set rows \<Longrightarrow> q \<in> set rows \<Longrightarrow> oc q = c + 1 \<Longrightarrow> qb p < qb q \<Longrightarrow> oc p = c + 1"
  unfolding fair_def list_all_iff by blast+

lemma fair_offered:
  assumes "fair c rows" "p \<in> set rows" "distinct (map tspp_ID rows)" "oc p = c"
    "\<And>x. x \<in> set rows \<Longrightarrow> qb x < qb p \<Longrightarrow> oc x = c + 1"
  shows "fair c (map (offered (tspp_ID p)) rows)"
proof -
  let ?f = "offered (tspp_ID p)"
  have f: "oc (?f x) = (if x = p then c + 1 else oc x)" if "x \<in> set rows" for x
    using distinct_key [OF assms(3) that assms(2)] assms(4) by auto
  have "oc (?f x) = c \<or> oc (?f x) = c + 1" if "x \<in> set rows" for x
    using f [OF that] fairD(1) [OF assms(1) that] by auto
  moreover have "oc (?f x) = c + 1" if "x \<in> set rows" "y \<in> set rows" "oc (?f y) = c + 1" "qb x < qb y" for x y
  proof (cases "y = p")
    case True
    then have "x \<noteq> p" "oc x = c + 1" using that assms(5) by auto
    then show ?thesis using f that(1) by simp
  next
    case False
    then have "oc x = c + 1" using fairD(2) [OF assms(1) that(1,2)] f [OF that(2)] that(3,4) by simp
    then show ?thesis using f [OF that(1)] by simp
  qed
  ultimately show ?thesis
    unfolding fair_def list_all_iff set_map ball_simps(9) offered_simps(2) by blast
qed

lemma next_is_behind:
  assumes "small_counts w" "NextEligibleTSPPerformance w t b d = Ret p" "fair c (eligible_rows w t b d)"
    "r \<in> set (eligible_rows w t b d)" "oc r = c"
  shows "oc p = c" "x \<in> set (eligible_rows w t b d) \<Longrightarrow> qb x < qb p \<Longrightarrow> oc x = c + 1"
proof -
  let ?m = "candidates w t b d"
  note E = eligible_rows_set
  obtain bp where bp: "(bp, p) \<in> set ?m" using next_is_candidate [OF assms(1,2)] by blast
  have fp: "oc p = c \<or> oc p = c + 1" and qp: "qb p = bp"
    using fairD(1) [OF assms(3)] candidate_row(1,2) [OF bp] by (auto simp: E)
  consider band rest where "?m = (band, p) # rest" "sorted (map (oc \<circ> snd) ?m)"
    | xs q ys where "map snd ?m = xs @ q # p # ys" "oc p < oc q"
    using next_eligible_Ret [OF assms(1,2)] by blast
  then have "oc p = c \<and> (\<forall>x \<in> set (eligible_rows w t b d). qb x < qb p \<longrightarrow> oc x = c + 1)"
  proof cases
    case 1
    have least: "qb p \<le> qb x" if "eligible w t b d x" for x
    proof -
      obtain qx y where y: "(qx, y) \<in> set ?m" "tspp_QualityBand x = Some qx" using eligible_candidate [OF \<open>eligible w t b d x\<close>] by blast
      moreover have "band = bp" using candidate_row(2) [OF bp] candidate_row(2) [of band p w t b d] 1(1) by simp
      ultimately show ?thesis using candidates_sorted(1) [of w t b d] 1(1) qp by force
    qed
    obtain q y where "(q, y) \<in> set ?m" "oc y \<le> oc r" using eligible_candidate [OF assms(4) [unfolded E]] by blast
    then have "oc p \<le> oc r" using 1 by fastforce
    then show ?thesis using fp assms(5) least by (fastforce simp: E)
  next
    case 2
    obtain es1 bq bp' es2 where m: "?m = es1 @ (bq, q) # (bp', p) # es2"
      using 2(1) by (auto simp: map_eq_append_conv Cons_eq_map_conv)
    have q: "eligible w t b d q" "tspp_QualityBand q = Some bq" "tspp_QualityBand p = Some bp'"
      using candidate_row(1,2) [of bq q w t b d] candidate_row(2) [of bp' p w t b d] m by auto
    then have oc: "oc q = c + 1" "oc p = c" using fairD(1) [OF assms(3), of q] fp 2(2) by (auto simp: E)
    have "oc x = c + 1" if x: "eligible w t b d x" "qb x < qb p" for x
    proof -
      obtain bx y where y: "(bx, y) \<in> set ?m" "tspp_QualityBand x = Some bx" "oc y \<le> oc x" using eligible_candidate [OF x(1)] by blast
      have "bx \<le> bq" using candidates_sorted(1) [of w t b d] y(1) x(2) q(3) y(2) by (force simp: m sorted_append)
      then consider "bx = bq" | "bx < bq" by linarith
      then show ?thesis
      proof cases
        case 1
        then have "y = q" using candidates_sorted(2) [of w t b d] y(1) m by (metis eq_key_imp_eq_value in_set_conv_decomp)
        then show ?thesis using y(3) oc(1) fairD(1) [OF assms(3), of x] x(1) by (auto simp: E)
      next
        case 2
        then show ?thesis using fairD(2) [OF assms(3), of x q] x(1) q oc(1) y(2) by (simp add: E)
      qed
    qed
    then show ?thesis using oc(2) by (simp add: E)
  qed
  then show "oc p = c" "x \<in> set (eligible_rows w t b d) \<Longrightarrow> qb x < qb p \<Longrightarrow> oc x = c + 1" by simp_all
qed

lemma fair_low:
  assumes "fair c rows" "rows \<noteq> []"
  shows "\<exists>c' r. fair c' rows \<and> r \<in> set rows \<and> oc r = c' \<and> (c' = c \<or> c' = c + 1)"
proof (cases "\<exists>r \<in> set rows. oc r = c")
  case False
  then have "\<forall>r \<in> set rows. oc r = c + 1" using fairD(1) [OF assms(1)] by blast
  moreover obtain r where "r \<in> set rows" using assms(2) by (cases rows) auto
  moreover have "fair (c + 1) rows" using calculation(1) by (simp add: fair_def list_all_iff)
  ultimately show ?thesis by blast
qed (use assms in blast)

text \<open>C6: the offers are fair: when no performance a shipment can be offered to is more than one offer
  ahead, and those ahead are in the higher bands, then the next offer goes to one that is behind, and
  so it stays after the offer is counted.\<close>

theorem offers_stay_fair:
  assumes "accepting w" "distinct (map tspp_ID (aw_tspps w))" "small_counts w" "fair c (eligible_rows w t b d)"
    "NextEligibleTSPPerformance w t b d = Ret p" "IncrementTSPPerformanceOfferCount w (tspp_ID p) = (w', p', err)"
  shows "err = None \<and> list_all (\<lambda>q. oc p \<le> oc q) (eligible_rows w t b d)
    \<and> (fair c (eligible_rows w' t b d) \<or> fair (c + 1) (eligible_rows w' t b d))"
proof -
  let ?rows = "eligible_rows w t b d"
  have p: "p \<in> set ?rows" using next_is_candidate [OF assms(3,5)] candidate_row(1) by (auto simp: eligible_rows_set)
  then obtain c' r where c': "fair c' ?rows" "r \<in> set ?rows" "oc r = c'" "c' = c \<or> c' = c + 1"
    using fair_low [OF assms(4)] by fastforce
  note N = next_is_behind [OF assms(3,5) c'(1-3)]
  have small: "\<bar>oc p\<bar> \<le> 2 ^ 53" "p \<in> set (aw_tspps w)" using p assms(3) by (auto simp: small_counts_def list_all_iff eligible_rows_def)
  have w': "w' = w\<lparr>aw_tspps := map (offered (tspp_ID p)) (aw_tspps w)\<rparr>" "err = None"
    using increment_row [OF assms(1,2) small(2,1)] assms(6) by simp_all
  have "distinct (map tspp_ID ?rows)" unfolding eligible_rows_def using assms(2) by (rule distinct_map_filter)
  then have "fair c' (map (offered (tspp_ID p)) ?rows)" using fair_offered [OF c'(1) p] N by blast
  moreover have "eligible_rows w' t b d = map (offered (tspp_ID p)) ?rows" by (rule eligible_rows_offered) (simp_all add: w')
  moreover have "list_all (\<lambda>q. oc p \<le> oc q) ?rows" using fairD(1) [OF c'(1)] N(1) by (fastforce simp: list_all_iff)
  ultimately show ?thesis using c'(4) w'(2) by auto
qed

section \<open>Only an available provider is awarded the shipment\<close>

lemma CreateShipmentOffer_frame:
  "CreateShipmentOffer w sid tid pid adm = (v, o1, e) \<Longrightarrow> of_AdministrativeShipment o1 = adm \<and> of_ShipmentID o1 = sid
    \<and> of_TransportationServiceProviderID o1 = tid \<and> of_TransportationServiceProviderPerformanceID o1 = pid
    \<and> aw_blackouts v = aw_blackouts w \<and> aw_shipments v = aw_shipments w"
  by (auto simp: CreateShipmentOffer_def Let_def split: if_splits)

lemma Increment_frame:
  "IncrementTSPPerformanceOfferCount w i = (v, p, e) \<Longrightarrow> aw_blackouts v = aw_blackouts w \<and> aw_shipments v = aw_shipments w"
  by (auto simp: IncrementTSPPerformanceOfferCount_def update_tspp_def Let_def split: outcome.splits prod.splits option.splits bool.splits)

lemma blackouts_cong: "aw_blackouts v = aw_blackouts w \<Longrightarrow> ShipmentWithinBlackoutDates v t s = ShipmentWithinBlackoutDates w t s"
  by (simp add: ShipmentWithinBlackoutDates_def FetchTSPBlackoutDates_def)

lemma round_frame:
  "offer_round s w p o1 = (w', Ret (p', o2, False)) \<Longrightarrow> aw_blackouts w' = aw_blackouts w \<and> aw_shipments w' = aw_shipments w"
  by (auto simp: offer_round_def Let_def split: outcome.splits prod.splits option.splits if_splits
      dest!: CreateShipmentOffer_frame Increment_frame)

lemma AwardShipment_ok:
  assumes "AwardShipment w i = (w', Ret u)"
  shows "\<exists>row. row \<in> set (aw_shipments w) \<and> shp_ID row = i \<and> shp_Status row = ShipmentStatusSUBMITTED
    \<and> aw_shipments w' = map (\<lambda>r. if shp_ID r = i then row\<lparr>shp_Status := ShipmentStatusAWARDED\<rparr> else r) (aw_shipments w)"
proof -
  obtain row where row: "first_row (filter (\<lambda>s. shp_ID s = i) (aw_shipments w)) = Ret row"
    using assms by (auto simp: AwardShipment_def split: outcome.splits)
  note in_table = first_row_filter_Ret [OF row]
  have "shp_Status row = ShipmentStatusSUBMITTED"
    "aw_shipments w' = map (\<lambda>r. if shp_ID r = i then row\<lparr>shp_Status := ShipmentStatusAWARDED\<rparr> else r) (aw_shipments w)"
    using assms in_table by (auto simp: AwardShipment_def row Shipment_Award_def accept_def refuse_def errors_Wrap_def split: if_splits prod.splits option.splits bool.splits)
  then show ?thesis using in_table by blast
qed

definition awarded :: "Shipment \<Rightarrow> award_world \<Rightarrow> award_world \<Rightarrow> ShipmentOffer \<Rightarrow> bool" where
  "awarded s w w' offer \<longleftrightarrow> \<not> of_AdministrativeShipment offer \<and> of_ShipmentID offer = shp_ID s
     \<and> \<not> ShipmentWithinBlackoutDates w (of_TransportationServiceProviderID offer) s
     \<and> list_ex (\<lambda>row. shp_ID row = shp_ID s \<and> shp_Status row = ShipmentStatusSUBMITTED
         \<and> aw_shipments w' = map (\<lambda>r. if shp_ID r = shp_ID s then row\<lparr>shp_Status := ShipmentStatusAWARDED\<rparr> else r) (aw_shipments w))
         (aw_shipments w)"

lemma awarded_cong: "aw_blackouts v = aw_blackouts w \<Longrightarrow> aw_shipments v = aw_shipments w \<Longrightarrow> awarded s v w' o1 \<Longrightarrow> awarded s w w' o1"
  by (simp add: awarded_def blackouts_cong [of v w])

lemma round_found:
  assumes "offer_round s w p o1 = (w', Ret (p', o2, True))"
  shows "\<exists>o3. o2 = Some o3 \<and> awarded s w w' o3"
proof -
  obtain tid v u o3 where c: "CreateShipmentOffer w (shp_ID s) tid (tspp_ID p) False = (v, o3, None)"
    and i: "IncrementTSPPerformanceOfferCount v (tspp_ID p) = (u, p', None)" and a: "\<not> ShipmentWithinBlackoutDates w tid s"
    and aw: "AwardShipment u (shp_ID s) = (w', Ret ())" and o2: "o2 = Some o3"
    using assms by (auto simp: offer_round_def Let_def split: outcome.splits prod.splits option.splits if_splits)
  have "aw_shipments u = aw_shipments w" using CreateShipmentOffer_frame [OF c] Increment_frame [OF i] by simp
  then have "awarded s w w' o3"
    using CreateShipmentOffer_frame [OF c] a AwardShipment_ok [OF aw] by (auto simp: awarded_def list_ex_iff)
  then show ?thesis using o2 by blast
qed

lemma pass_frame:
  assumes "attempt_pass s t b d f (w, p, o1, n) = st"
  shows "case st of Inl (w', Ret x) \<Rightarrow> (\<exists>o3. x = Some o3 \<and> awarded s w w' o3)
    | Inr (v, q) \<Rightarrow> aw_blackouts v = aw_blackouts w \<and> aw_shipments v = aw_shipments w | _ \<Rightarrow> True"
  using assms round_found [of s w p o1] round_frame [of s w p o1]
  by (auto simp: attempt_pass_def split: if_splits prod.splits outcome.splits)

lemma loop_awards:
  assumes "attempt_loop s t b d f st = Some r"
  shows "case r of (w', Ret x) \<Rightarrow> (\<exists>o3. x = Some o3 \<and> awarded s (fst st) w' o3) | _ \<Rightarrow> True"
proof (rule attempt_loop.raw_induct [where P = "\<lambda>s t b d f st r. case r of (w', Ret x) \<Rightarrow> (\<exists>o3. x = Some o3 \<and> awarded s (fst st) w' o3) | _ \<Rightarrow> True", OF _ assms])
  fix loop s t b d f st r
  assume IH: "\<And>s t b d f st r. loop s t b d f st = Some r \<Longrightarrow>
      case r of (w', Ret x) \<Rightarrow> (\<exists>o3. x = Some o3 \<and> awarded s (fst st) w' o3) | _ \<Rightarrow> True"
    and run: "(case attempt_pass s t b d f st of Inl r \<Rightarrow> Some r | Inr st' \<Rightarrow> loop s t b d f st') = Some r"
  obtain w p o1 n where st: "st = (w, p, o1, n)" by (metis prod_cases4)
  show "case r of (w', Ret x) \<Rightarrow> (\<exists>o3. x = Some o3 \<and> awarded s (fst st) w' o3) | _ \<Rightarrow> True"
  proof (cases "attempt_pass s t b d f st")
    case (Inl r')
    then show ?thesis using run pass_frame [of s t b d f w p o1 n "Inl r'"] by (auto simp: st split: prod.splits outcome.splits)
  next
    case (Inr st')
    then have "aw_blackouts (fst st') = aw_blackouts w" "aw_shipments (fst st') = aw_shipments w"
      using pass_frame [of s t b d f w p o1 n "Inr st'"] by (auto simp: st split: prod.splits)
    moreover have "case r of (w', Ret x) \<Rightarrow> (\<exists>o3. x = Some o3 \<and> awarded s (fst st') w' o3) | _ \<Rightarrow> True"
      using run Inr IH by simp
    ultimately show ?thesis using awarded_cong [of "fst st'" w s] by (auto simp: st split: prod.splits outcome.splits)
  qed
qed

text \<open>C32: whenever trying to offer a shipment reports success, it returns an offer of that shipment that is
  not administrative, to a provider without a blackout over it, and the shipment was submitted and is
  awarded now; success without an offer does not occur.\<close>

theorem offer_awards_available:
  assumes "attemptShipmentOffer w s = Some (w', Ret x)"
  shows "\<exists>offer. x = Some offer \<and> awarded s w w' offer"
proof -
  obtain t b d p r where loop: "attempt_loop s t b d (tspp_ID p) (w, p, None, 0) = Some r" and r: "not_awarded r = (w', Ret x)"
    using assms by (auto simp: attemptShipmentOffer_def Let_def split: outcome.splits)
  then have "r = (w', Ret x)" by (auto simp: not_awarded_def split: prod.splits outcome.splits option.splits)
  then show ?thesis using loop_awards [OF loop] by simp
qed

section \<open>Blackouts and the state of a shipment\<close>

lemma no_pickup_no_blackout: "shp_ActualPickupDate s = None \<Longrightarrow> \<not> ShipmentWithinBlackoutDates w t s"
  by (simp add: ShipmentWithinBlackoutDates_def FetchTSPBlackoutDates_def)

text \<open>Blackout dates never keep a shipment from a provider: they are compared with the actual pickup
  date, and every shipment the queue takes up has none, since it is recorded when a shipment goes in
  transit, long after it was awarded.\<close>

theorem blackouts_never_apply:
  assumes "fresh_shipment s0" "reaches shipment_step s0 s" "s \<in> set (FetchUnofferedShipments w)"
  shows "\<not> ShipmentWithinBlackoutDates w tspID s"
proof -
  have "shipment_dates_ok s" using shipment_dates_reach [OF assms(2) fresh_shipment_ok [OF assms(1)]] .
  then have "shp_ActualPickupDate s = None" using assms(3) by (auto simp: shipment_dates_ok_def FetchUnofferedShipments_def)
  then show ?thesis by (rule no_pickup_no_blackout)
qed

section \<open>Sample queues\<close>

definition award_tsp :: "uuid \<Rightarrow> TransportationServiceProvider" where
  "award_tsp i = zero_tsp\<lparr>tsp_ID := i, tsp_Enrolled := True\<rparr>"

definition award_tspp :: "uuid \<Rightarrow> uuid \<Rightarrow> int \<Rightarrow> int \<Rightarrow> TSPPerformance" where
  "award_tspp i t band n = zero_tspp\<lparr>tspp_ID := i, tspp_TransportationServiceProviderID := t, tspp_TrafficDistributionListID := 5,
     tspp_PerformancePeriodStart := 0, tspp_PerformancePeriodEnd := 100, tspp_RateCycleStart := 0, tspp_RateCycleEnd := 100,
     tspp_QualityBand := Some band, tspp_BestValueScore := 10, tspp_OfferCount := n\<rparr>"

definition award_shipment :: Shipment where
  "award_shipment = sample_shipment\<lparr>shp_Status := ShipmentStatusSUBMITTED, shp_TrafficDistributionListID := Some 5,
     shp_BookDate := Some 10, shp_RequestedPickupDate := Some 20\<rparr>"

definition award_blackout :: "uuid \<Rightarrow> BlackoutDate" where
  "award_blackout t = \<lparr>bo_ID = 40, bo_TransportationServiceProviderID = t, bo_StartBlackoutDate = 0, bo_EndBlackoutDate = 100,
     bo_TrafficDistributionListID = None, bo_Market = None, bo_SourceGBLOC = None, bo_Zip3 = None, bo_VolumeMove = None\<rparr>"

definition award_queue :: "TSPPerformance list \<Rightarrow> BlackoutDate list \<Rightarrow> award_world" where
  "award_queue rows blackouts = \<lparr>aw_tdls = [\<lparr>tdl_ID = 5, tdl_SourceRateArea = ''US88'', tdl_DestinationRegion = ''2'', tdl_CodeOfService = ''D''\<rparr>],
     aw_tsps = [award_tsp 1, award_tsp 2], aw_tspps = rows, aw_blackouts = blackouts, aw_shipments = [award_shipment],
     aw_offers = [], aw_fresh = 50, aw_save_offer = (\<lambda>_. (False, None)), aw_save_tspp = (\<lambda>_. (False, None)),
     aw_save_shipment = (\<lambda>_. (False, None))\<rparr>"

lemmas award_samples = award_queue_def award_tsp_def award_tspp_def zero_tsp_def zero_tspp_def award_shipment_def sample_shipment_def
  Shipment.defs award_blackout_def date_between_def date_of_def

lemmas next_defs = NextEligibleTSPPerformance_def GatherNextEligibleTSPPerformances_def NextTSPPerformanceInQualityBand_def
  qualityBands_def offer_order_def next_match_def enrolled_def SelectNextTSPPerformance_def sortedMapIntKeys_def lookup_band_def
  rounds_def OffersPerQualityBand_def

lemma award_next:
  "aw_tsps w = [award_tsp 1, award_tsp 2] \<Longrightarrow> aw_tspps w = [award_tspp 31 1 1 m, award_tspp 32 2 2 n] \<Longrightarrow> \<bar>m\<bar> \<le> 2 ^ 53 \<Longrightarrow> \<bar>n\<bar> \<le> 2 ^ 53 \<Longrightarrow>
    NextEligibleTSPPerformance w 5 10 20 = Ret (if n < m then award_tspp 32 2 2 n else award_tspp 31 1 1 m)"
  by (simp add: next_defs award_tsp_def award_tspp_def zero_tsp_def zero_tspp_def date_between_def date_of_def fl64_of_int)

definition picked_up :: Shipment where
  "picked_up = award_shipment\<lparr>shp_ActualPickupDate := Some 30\<rparr>"

lemma award_start:
  assumes "s = award_shipment \<or> s = picked_up" "NextEligibleTSPPerformance (award_queue rows bs) 5 10 20 = Ret p"
  shows "attemptShipmentOffer (award_queue rows bs) s
    = map_option not_awarded (attempt_loop s 5 10 20 (tspp_ID p) (award_queue rows bs, p, None, 0))"
  using assms by (auto simp: attemptShipmentOffer_def validateShipmentForAward_def picked_up_def award_queue_def award_shipment_def Let_def)

text \<open>The queue gives a shipment up although a provider without a blackout could take it: when a
  provider of a lower band is two offers behind and has a blackout, its second turn comes before the
  first turn of the band above, and the queue takes that for the end of a round.\<close>

theorem award_gives_up_early:
  assumes "1 < m" "m \<le> 2 ^ 53"
  defines "w \<equiv> award_queue [award_tspp 31 1 1 m, award_tspp 32 2 2 0] [award_blackout 2]"
  shows "(\<exists>w'. attemptShipmentOffer w picked_up = Some (w', Fail (ErrMsg ''could not find a TSP without blackout dates in %d tries'')))
    \<and> eligible w 5 10 20 (award_tspp 31 1 1 m) \<and> \<not> ShipmentWithinBlackoutDates w 1 picked_up"
proof (intro conjI)
  have n0: "NextEligibleTSPPerformance w 5 10 20 = Ret (award_tspp 32 2 2 0)"
    using award_next [of w m 0] assms(1,2) by (simp add: w_def award_queue_def)
  have b: "ShipmentWithinBlackoutDates w 2 picked_up"
    by (simp add: w_def picked_up_def ShipmentWithinBlackoutDates_def FetchTSPBlackoutDates_def award_samples)
  obtain w1 o1 where rnd: "offer_round picked_up w (award_tspp 32 2 2 0) None = (w1, Ret (award_tspp 32 2 2 1, Some o1, False))"
      "aw_tsps w1 = [award_tsp 1, award_tsp 2]" "aw_tspps w1 = [award_tspp 31 1 1 m, award_tspp 32 2 2 1]"
    using b by (auto simp: offer_round_def w_def award_queue_def award_tsp_def award_tspp_def zero_tspp_def zero_tsp_def CreateShipmentOffer_def
        Let_def IncrementTSPPerformanceOfferCount_def update_tspp_def in64_def)
  have n1: "NextEligibleTSPPerformance w1 5 10 20 = Ret (award_tspp 32 2 2 1)"
    using award_next [OF rnd(2,3)] assms(1,2) by simp
  have "attempt_loop picked_up 5 10 20 32 (w, award_tspp 32 2 2 0, None, 0)
      = Some (w1, Fail (ErrMsg ''could not find a TSP without blackout dates in %d tries''))"
    by (subst attempt_loop.simps, simp add: attempt_pass_def rnd(1) n1, subst attempt_loop.simps)
      (simp add: attempt_pass_def award_tspp_def)
  then show "\<exists>w'. attemptShipmentOffer w picked_up = Some (w', Fail (ErrMsg ''could not find a TSP without blackout dates in %d tries''))"
    using award_start [of picked_up "[award_tspp 31 1 1 m, award_tspp 32 2 2 0]" "[award_blackout 2]"] n0
    by (simp add: w_def not_awarded_def award_tspp_def)
  show "eligible w 5 10 20 (award_tspp 31 1 1 m)"
    by (simp add: eligible_def w_def award_samples next_match_def enrolled_def qualityBands_def)
  show "\<not> ShipmentWithinBlackoutDates w 1 picked_up"
    by (simp add: w_def picked_up_def ShipmentWithinBlackoutDates_def FetchTSPBlackoutDates_def award_samples)
qed

definition invalid_tspp :: "TSPPerformance \<Rightarrow> bool \<times> goerr option" where
  "invalid_tspp p = (tspp_ID p = 32, None)"

text \<open>The first provider has a blackout, the second a performance that does not pass validation.\<close>

definition stuck :: "award_world \<Rightarrow> int \<Rightarrow> bool" where
  "stuck w m \<longleftrightarrow> aw_tsps w = [award_tsp 1, award_tsp 2] \<and> aw_tspps w = [award_tspp 31 1 1 m, award_tspp 32 2 2 0]
     \<and> aw_blackouts w = [award_blackout 1] \<and> aw_save_offer w = (\<lambda>_. (False, None)) \<and> aw_save_tspp w = invalid_tspp"

lemma stuck_pass:
  assumes "stuck w 1" "0 < n"
  shows "\<exists>v o2. attempt_pass picked_up 5 10 20 31 (w, award_tspp 32 2 2 0, o1, n) = Inr (v, award_tspp 32 2 2 0, o2, n + 1) \<and> stuck v 1"
proof -
  obtain v p o2 where rnd: "offer_round picked_up w (award_tspp 32 2 2 0) o1 = (v, Ret (p, Some o2, False))" "stuck v 1"
    using assms(1) by (auto simp: stuck_def offer_round_def award_tsp_def award_tspp_def zero_tspp_def zero_tsp_def CreateShipmentOffer_def
        Let_def IncrementTSPPerformanceOfferCount_def invalid_tspp_def)
  have "NextEligibleTSPPerformance v 5 10 20 = Ret (award_tspp 32 2 2 0)"
    using award_next [of v 1 0] rnd(2) by (simp add: stuck_def)
  then show ?thesis using rnd by (simp add: attempt_pass_def) (simp add: award_tspp_def)
qed

lemma stuck_loop:
  assumes "attempt_loop s t b d f st = Some r" "s = picked_up" "t = 5" "b = 10" "d = 20" "f = 31" "st = (w, award_tspp 32 2 2 0, o1, n)"
    "stuck w 1" "0 < n"
  shows False
proof -
  have "\<forall>w o1 n. s = picked_up \<and> t = 5 \<and> b = 10 \<and> d = 20 \<and> f = 31 \<and> st = (w, award_tspp 32 2 2 0, o1, n) \<and> 0 < n \<longrightarrow> \<not> stuck w 1"
  proof (rule attempt_loop.raw_induct [where P = "\<lambda>s t b d f st r. \<forall>w o1 n. s = picked_up \<and> t = 5 \<and> b = 10 \<and> d = 20 \<and> f = 31
      \<and> st = (w, award_tspp 32 2 2 0, o1, n) \<and> 0 < n \<longrightarrow> \<not> stuck w 1", OF _ assms(1)], intro allI impI notI, elim conjE)
    fix loop s t b d f st r w o1 n
    assume IH: "\<And>s t b d f st r. loop s t b d f st = Some r \<Longrightarrow> \<forall>w o1 n. s = picked_up \<and> t = 5 \<and> b = 10 \<and> d = 20 \<and> f = 31
        \<and> st = (w, award_tspp 32 2 2 0, o1, n) \<and> 0 < n \<longrightarrow> \<not> stuck w 1"
      and run: "(case attempt_pass s t b d f st of Inl r \<Rightarrow> Some r | Inr st' \<Rightarrow> loop s t b d f st') = Some r"
      and eqs: "s = picked_up" "t = 5" "b = 10" "d = 20" "f = 31" "st = (w, award_tspp 32 2 2 0, o1, n)" "0 < n" "stuck w 1"
    obtain v o2 where "attempt_pass s t b d f st = Inr (v, award_tspp 32 2 2 0, o2, n + 1)" "stuck v 1"
      using stuck_pass [OF eqs(8,7)] eqs(1-6) by blast
    then show False using IH [of s t b d f "(v, award_tspp 32 2 2 0, o2, n + 1)" r] run eqs by simp
  qed
  then show False using assms by blast
qed

text \<open>The loop does not guard against a performance whose count cannot be saved: after a first
  provider with a blackout, an enrolled provider with an invalid performance is tried for ever (and gets
  an offer every time), so the queue never returns.\<close>

theorem award_diverges:
  "attemptShipmentOffer (award_queue [award_tspp 31 1 1 0, award_tspp 32 2 2 0] [award_blackout 1]
     \<lparr>aw_save_tspp := invalid_tspp\<rparr>) picked_up = None"
proof -
  let ?w = "award_queue [award_tspp 31 1 1 0, award_tspp 32 2 2 0] [award_blackout 1]\<lparr>aw_save_tspp := invalid_tspp\<rparr>"
  have n0: "NextEligibleTSPPerformance ?w 5 10 20 = Ret (award_tspp 31 1 1 0)"
    using award_next [of ?w 0 0] by (simp add: award_queue_def)
  have b: "ShipmentWithinBlackoutDates ?w 1 picked_up"
    by (simp add: picked_up_def ShipmentWithinBlackoutDates_def FetchTSPBlackoutDates_def award_samples)
  obtain w1 p o1 where rnd: "offer_round picked_up ?w (award_tspp 31 1 1 0) None = (w1, Ret (p, Some o1, False))" "stuck w1 1"
    using b by (auto simp: offer_round_def award_queue_def award_tsp_def award_tspp_def zero_tspp_def zero_tsp_def CreateShipmentOffer_def
        Let_def IncrementTSPPerformanceOfferCount_def update_tspp_def in64_def invalid_tspp_def stuck_def)
  have "NextEligibleTSPPerformance w1 5 10 20 = Ret (award_tspp 32 2 2 0)"
    using award_next [of w1 1 0] rnd(2) by (simp add: stuck_def)
  then have "attempt_loop picked_up 5 10 20 31 (?w, award_tspp 31 1 1 0, None, 0)
      = attempt_loop picked_up 5 10 20 31 (w1, award_tspp 32 2 2 0, Some o1, 1)"
    by (subst attempt_loop.simps) (simp add: attempt_pass_def rnd(1) del: One_nat_def)
  also have "\<dots> = None" using stuck_loop [OF _ refl refl refl refl refl refl rnd(2), of "Some o1" 1]
    by (cases "attempt_loop picked_up 5 10 20 31 (w1, award_tspp 32 2 2 0, Some o1, 1)") simp_all
  finally show ?thesis
    using n0 by (simp add: attemptShipmentOffer_def validateShipmentForAward_def picked_up_def award_queue_def award_shipment_def Let_def award_tspp_def)
qed

section \<open>Instances\<close>

abbreviation two_rows :: "TSPPerformance list" where
  "two_rows \<equiv> [award_tspp 31 1 1 0, award_tspp 32 2 2 0]"

lemma two_rows_facts:
  "accepting (award_queue two_rows bs)" "distinct (map tspp_ID (aw_tspps (award_queue two_rows bs)))"
  "list_all (\<lambda>p. \<bar>oc p\<bar> \<le> 2 ^ 52) (aw_tspps (award_queue two_rows bs))" "small_counts (award_queue two_rows bs)"
  "int (length (aw_tspps (award_queue two_rows bs))) < 2 ^ 53" "aw_tspps (award_queue two_rows bs) = two_rows"
  by (simp_all add: award_queue_def accepting_def award_tspp_def small_counts_def)

lemma two_rows_rated: "rated (award_queue two_rows bs) (group_of (award_tspp 31 1 1 0)) p" if "p \<in> set two_rows"
  using that by (auto simp: rated_def award_samples group_of_def enrolled_def)

lemma two_bands: "\<exists>w'. assignPerformanceBandsForTSPPerformanceGroup (award_queue two_rows []) (group_of (award_tspp 31 1 1 0)) = Ret (w', None)"
proof -
  have f: "FetchTSPPerformancesForQualityBandAssignment (award_queue two_rows []) (group_of (award_tspp 31 1 1 0)) mps = two_rows"
    by (simp add: FetchTSPPerformancesForQualityBandAssignment_def award_samples group_of_def enrolled_def mps_def)
  have b: "banded (getTSPsPerBand 2) = [1, 2]" using banded_eq [of 2] by simp
  have "\<exists>w'. assign_bands (zip [1, 2] two_rows) (award_queue two_rows []) = (w', None)"
    by (simp add: AssignQualityBandToTSPPerformance_def update_tspp_def award_queue_def award_tspp_def)
  then show ?thesis
    unfolding assignPerformanceBandsForTSPPerformanceGroup_def f Let_def using b by auto
qed

theorem quality_bands_assigned_witness:
  "\<exists>w' band. assignPerformanceBandsForTSPPerformanceGroup (award_queue two_rows []) (group_of (award_tspp 31 1 1 0)) = Ret (w', None)
    \<and> aw_tspps w' = map (\<lambda>p. in_band p (band p)) two_rows \<and> length (filter (\<lambda>p. band p = 1) two_rows) = 1"
proof -
  let ?w = "award_queue two_rows []" and ?g = "group_of (award_tspp 31 1 1 0)"
  obtain w' where w': "assignPerformanceBandsForTSPPerformanceGroup ?w ?g = Ret (w', None)" using two_bands by blast
  obtain band where rows: "aw_tspps w' = map (\<lambda>p. if rated ?w ?g p then in_band p (band p) else p) (aw_tspps ?w)"
    and size: "\<forall>b. 1 \<le> b \<and> b \<le> 4 \<longrightarrow> int (length (filter (\<lambda>p. rated ?w ?g p \<and> band p = b) (aw_tspps ?w)))
      = (int (length (filter (rated ?w ?g) (aw_tspps ?w))) + 4 - b) div 4"
    using quality_bands_assigned [OF two_rows_facts(2,5) [where bs = "[]"], where g = ?g] unfolding w' by blast
  have all: "filter (rated ?w ?g) two_rows = two_rows" "filter (\<lambda>p. rated ?w ?g p \<and> P p) two_rows = filter P two_rows" for P
    using two_rows_rated by (simp_all only: filter_id_conv simp_thms cong: filter_cong) blast
  have "int (length (filter (\<lambda>p. band p = 1) two_rows)) = 1"
    using size [rule_format, of 1] unfolding two_rows_facts(6) all by simp
  moreover have "aw_tspps w' = map (\<lambda>p. in_band p (band p)) two_rows"
    unfolding rows two_rows_facts(6) by (rule map_cong [OF refl]) (simp only: two_rows_rated if_True)
  ultimately show ?thesis using w' unfolding of_nat_eq_1_iff by blast
qed

theorem attempt_returns_witness:
  "\<exists>r. attemptShipmentOffer (award_queue two_rows [award_blackout 1, award_blackout 2]) picked_up = Some r"
  by (rule attempt_returns [OF two_rows_facts(1-3)])

lemma two_rows_next: "NextEligibleTSPPerformance (award_queue two_rows bs) 5 10 20 = Ret (award_tspp 31 1 1 0)"
  using award_next [of "award_queue two_rows bs" 0 0] by (simp add: award_queue_def)

theorem offers_stay_fair_witness:
  "\<exists>w' p'. IncrementTSPPerformanceOfferCount (award_queue two_rows []) 31 = (w', p', None)
    \<and> list_all (\<lambda>q. 0 \<le> oc q) (eligible_rows (award_queue two_rows []) 5 10 20)
    \<and> list_ex (\<lambda>c. fair c (eligible_rows w' 5 10 20)) [0, 1]"
proof -
  have fair: "fair 0 (eligible_rows (award_queue two_rows []) 5 10 20)"
    by (simp add: fair_def list_all_iff eligible_rows_def award_queue_def award_tspp_def)
  obtain w' p' err where r: "IncrementTSPPerformanceOfferCount (award_queue two_rows []) (tspp_ID (award_tspp 31 1 1 0)) = (w', p', err)"
    by (metis prod_cases3)
  show ?thesis
    using offers_stay_fair [OF two_rows_facts(1,2,4) fair two_rows_next r] r by (auto simp: award_tspp_def)
qed

lemma two_rows_offer: "\<exists>w' x. attemptShipmentOffer (award_queue two_rows []) award_shipment = Some (w', Ret x)"
proof -
  let ?w = "award_queue two_rows []"
  have b: "\<not> ShipmentWithinBlackoutDates ?w 1 award_shipment"
    by (rule no_pickup_no_blackout) (simp add: award_shipment_def sample_shipment_def Shipment.defs)
  have "\<exists>w1 p o1. offer_round award_shipment ?w (award_tspp 31 1 1 0) None = (w1, Ret (p, Some o1, True))"
    using b by (simp add: offer_round_def award_queue_def award_tsp_def award_tspp_def zero_tspp_def zero_tsp_def CreateShipmentOffer_def
        Let_def IncrementTSPPerformanceOfferCount_def update_tspp_def in64_def AwardShipment_def Shipment_Award_def accept_def
        award_shipment_def sample_shipment_def Shipment.defs)
  then obtain w1 p o1 where "offer_round award_shipment ?w (award_tspp 31 1 1 0) None = (w1, Ret (p, Some o1, True))" by blast
  then have "attempt_loop award_shipment 5 10 20 31 (?w, award_tspp 31 1 1 0, None, 0) = Some (w1, Ret (Some o1))"
    by (subst attempt_loop.simps) (simp add: attempt_pass_def)
  then show ?thesis
    using award_start [OF disjI1 [OF refl] two_rows_next] by (simp add: not_awarded_def award_tspp_def)
qed

theorem offer_awards_available_witness:
  "\<exists>w' offer. attemptShipmentOffer (award_queue two_rows []) award_shipment = Some (w', Ret (Some offer))
    \<and> awarded award_shipment (award_queue two_rows []) w' offer"
proof -
  obtain w' x where run: "attemptShipmentOffer (award_queue two_rows []) award_shipment = Some (w', Ret x)" using two_rows_offer by blast
  show ?thesis using offer_awards_available [OF run] run by blast
qed

theorem blackouts_never_apply_witness:
  "\<not> ShipmentWithinBlackoutDates (award_queue two_rows [award_blackout 1]\<lparr>aw_shipments := [fst (Shipment_Submit 5 9 sample_shipment)]\<rparr>) 1
     (fst (Shipment_Submit 5 9 sample_shipment))"
  by (rule blackouts_never_apply [OF _ sample_submitted])
    (simp_all add: fresh_shipment_def sample_shipment_def Shipment.defs Shipment_Submit_def FetchUnofferedShipments_def award_queue_def accept_def)

theorem award_gives_up_early_witness:
  "eligible (award_queue [award_tspp 31 1 1 2, award_tspp 32 2 2 0] [award_blackout 2]) 5 10 20 (award_tspp 31 1 1 2)
    \<and> \<not> ShipmentWithinBlackoutDates (award_queue [award_tspp 31 1 1 2, award_tspp 32 2 2 0] [award_blackout 2]) 1 picked_up"
  using award_gives_up_early [of 2] by simp

end
