(* ===== verification/EDI.thy ===== *)
theory EDI
  imports Lifecycle Numbering
begin

text \<open>
  The EDI side of an invoice: the X12 segments of \<open>pkg/edi/segment\<close> with the arrays they are written
  as and parsed from, the writer of \<open>pkg/edi/edi.go\<close>, and the 858C transaction set that
  \<open>pkg/edi/invoice/generator.go\<close> builds from a priced shipment.  Strings are strings of bytes.
\<close>

section \<open>Numbers in segments\<close>

text \<open>\<open>strconv.FormatFloat(x, 'f', k, 64)\<close>; without decimals there is no point.\<close>

definition FormatFloat :: "nat \<Rightarrow> rat \<Rightarrow> string" where
  "FormatFloat k x = (if k = 0 then (if x < 0 then ''-'' else '''') @ nat_digits (nat (rne \<bar>x\<bar>)) else fmt_fixed k x)"

definition is_digit :: "char \<Rightarrow> bool" where
  "is_digit c \<longleftrightarrow> c \<in> set ''0123456789''"

text \<open>An optional sign: whether it is a minus, and the rest.\<close>

fun read_sign :: "string \<Rightarrow> bool \<times> string" where
  "read_sign [] = (False, [])"
| "read_sign (c # s) = (if c = CHR ''-'' then (True, s) else if c = CHR ''+'' then (False, s) else (False, c # s))"

definition ErrSyntax :: goerr where
  "ErrSyntax = ErrMsg ''invalid syntax''"

text \<open>\<open>strconv.ParseInt(s, 10, 64)\<close> and \<open>strconv.Atoi\<close>.\<close>

definition ParseInt :: "string \<Rightarrow> int result" where
  "ParseInt s = (case read_sign s of (neg, t) \<Rightarrow>
     if t = [] \<or> \<not> list_all is_digit t then Fail ErrSyntax
     else (let n = (if neg then - int (digits_value t) else int (digits_value t))
           in if in64 n then Ret n else Fail (ErrMsg ''value out of range'')))"

text \<open>\<open>strconv.ParseFloat(s, 64)\<close> of decimal numerals with an optional point and exponent, correctly
  rounded; the texts of infinities and of NaN, which no segment carries, count as errors.\<close>

definition split_at_any :: "char list \<Rightarrow> string \<Rightarrow> string \<times> string option" where
  "split_at_any cs s = (let a = takeWhile (\<lambda>c. c \<notin> set cs) s
     in (a, if length a = length s then None else Some (drop (Suc (length a)) s)))"

definition ParseFloat :: "string \<Rightarrow> rat result" where
  "ParseFloat s = (case read_sign s of (neg, t) \<Rightarrow> case split_at_any ''eE'' t of (mantissa, e) \<Rightarrow>
     case split_at_any ''.'' mantissa of (ipart, fpart) \<Rightarrow>
     let f = (case fpart of None \<Rightarrow> [] | Some f \<Rightarrow> f); digits = ipart @ f in
     if digits = [] \<or> \<not> list_all is_digit digits then Fail ErrSyntax
     else obind (case e of None \<Rightarrow> Ret 0
         | Some x \<Rightarrow> (case read_sign x of (eneg, d) \<Rightarrow>
             if d = [] \<or> \<not> list_all is_digit d then Fail ErrSyntax
             else Ret (if eneg then - int (digits_value d) else int (digits_value d)))) (\<lambda>ex.
       let v = of_nat (digits_value digits) * 10 powi (ex - int (length f));
           r = fl64 (if neg then - v else v)
       in if \<bar>r\<bar> < 2 ^ 1024 then Ret r else Fail (ErrMsg ''value out of range'')))"

definition NxToFloat :: "string \<Rightarrow> nat \<Rightarrow> rat result" where
  "NxToFloat s x = obind (ParseFloat s) (\<lambda>f. Ret (fl64 (f / 10 ^ x)))"

definition FloatToNx :: "rat \<Rightarrow> nat \<Rightarrow> string" where
  "FloatToNx n x = FormatFloat 0 (fl64 (n * 10 ^ x))"

section \<open>Segments\<close>

record BX =
  bx_TransactionSetPurposeCode :: string
  bx_TransactionMethodTypeCode :: string
  bx_ShipmentMethodOfPayment :: string
  bx_ShipmentIdentificationNumber :: string
  bx_StandardCarrierAlphaCode :: string
  bx_WeightUnitCode :: string
  bx_ShipmentQualifier :: string

record FA1 = fa1_AgencyQualifierCode :: string

record FA2 =
  fa2_BreakdownStructureDetailCode :: string
  fa2_FinancialInformationCode :: string

record GE =
  ge_NumberOfTransactionSetsIncluded :: int
  ge_GroupControlNumber :: int

record GS =
  gs_FunctionalIdentifierCode :: string
  gs_ApplicationSendersCode :: string
  gs_ApplicationReceiversCode :: string
  gs_Date :: string
  gs_Time :: string
  gs_GroupControlNumber :: int
  gs_ResponsibleAgencyCode :: string
  gs_Version :: string

record HL =
  hl_HierarchicalIDNumber :: string
  hl_HierarchicalParentIDNumber :: string
  hl_HierarchicalLevelCode :: string

record IEA =
  iea_NumberOfIncludedFunctionalGroups :: int
  iea_InterchangeControlNumber :: int

record ISA =
  isa_AuthorizationInformationQualifier :: string
  isa_AuthorizationInformation :: string
  isa_SecurityInformationQualifier :: string
  isa_SecurityInformation :: string
  isa_InterchangeSenderIDQualifier :: string
  isa_InterchangeSenderID :: string
  isa_InterchangeReceiverIDQualifier :: string
  isa_InterchangeReceiverID :: string
  isa_InterchangeDate :: string
  isa_InterchangeTime :: string
  isa_InterchangeControlStandards :: string
  isa_InterchangeControlVersionNumber :: string
  isa_InterchangeControlNumber :: int
  isa_AcknowledgementRequested :: int
  isa_UsageIndicator :: string
  isa_ComponentElementSeparator :: string

record L0 =
  l0_LadingLineItemNumber :: int
  l0_BilledRatedAsQuantity :: rat
  l0_BilledRatedAsQualifier :: string
  l0_Weight :: rat
  l0_WeightQualifier :: string
  l0_WeightUnitCode :: string

record L1 =
  l1_LadingLineItemNumber :: int
  l1_FreightRate :: rat
  l1_RateValueQualifier :: string
  l1_Charge :: rat
  l1_SpecialChargeDescription :: string

record L10 =
  l10_Weight :: rat
  l10_WeightQualifier :: string
  l10_WeightUnitCode :: string

record L7 =
  l7_LadingLineItemNumber :: int
  l7_TariffNumber :: string
  l7_TariffItemNumber :: string
  l7_TariffDistance :: int

record LX = lx_AssignedNumber :: int

record MEA =
  mea_MeasurementReferenceIDCode :: string
  mea_MeasurementQualifier :: string
  mea_MeasurementValue :: rat

record N1 =
  n1_EntityIdentifierCode :: string
  n1_Name :: string
  n1_IdentificationCodeQualifier :: string
  n1_IdentificationCode :: string

record N3 =
  n3_AddressInformation1 :: string
  n3_AddressInformation2 :: string

record N4 =
  n4_CityName :: string
  n4_StateOrProvinceCode :: string
  n4_PostalCode :: string
  n4_CountryCode :: string
  n4_LocationQualifier :: string
  n4_LocationIdentifier :: string

record N9 =
  n9_ReferenceIdentificationQualifier :: string
  n9_ReferenceIdentification :: string
  n9_FreeFormDescription :: string
  n9_Date :: string

record NTE =
  nte_NoteReferenceCode :: string
  nte_Description :: string

record SE =
  se_NumberOfIncludedSegments :: int
  se_TransactionSetControlNumber :: string

record ST =
  st_TransactionSetIdentifierCode :: string
  st_TransactionSetControlNumber :: string

text \<open>The interface \<open>Segment\<close> and the types that have its methods (\<open>L7\<close> has not).\<close>

datatype Segment = SegBX BX | SegFA1 FA1 | SegFA2 FA2 | SegGE GE | SegGS GS | SegHL HL | SegIEA IEA | SegISA ISA
  | SegL0 L0 | SegL1 L1 | SegL10 L10 | SegLX LX | SegMEA MEA | SegN1 N1 | SegN3 N3 | SegN4 N4 | SegN9 N9
  | SegNTE NTE | SegSE SE | SegST ST

text \<open>\<open>fmt.Sprintf("%0kd", n)\<close>: the sign counts for the width.\<close>

definition padded :: "nat \<Rightarrow> int \<Rightarrow> string" where
  "padded k n = (if n < 0 then CHR ''-'' # zero_padded (k - 1) (nat (- n)) else zero_padded k (nat n))"

definition blank_zero :: "rat \<Rightarrow> string" where
  "blank_zero x = (if x = 0 then '''' else FormatFloat 3 x)"

definition L7_String :: "L7 \<Rightarrow> string \<Rightarrow> string" where
  "L7_String s delimiter = strings_Join delimiter [''L7'', go_itoa (l7_LadingLineItemNumber s), '''', l7_TariffNumber s, '''',
     l7_TariffItemNumber s, '''', '''', '''', '''', '''', '''', '''', go_itoa (l7_TariffDistance s)]"

section \<open>Writing segments\<close>

definition BX_StringArray :: "BX \<Rightarrow> string list" where
  "BX_StringArray s =
    [''BX'', bx_TransactionSetPurposeCode s, bx_TransactionMethodTypeCode s, bx_ShipmentMethodOfPayment s,
    bx_ShipmentIdentificationNumber s, bx_StandardCarrierAlphaCode s, bx_WeightUnitCode s, bx_ShipmentQualifier s]"

definition FA1_StringArray :: "FA1 \<Rightarrow> string list" where
  "FA1_StringArray s =
    [''FA1'', fa1_AgencyQualifierCode s]"

definition FA2_StringArray :: "FA2 \<Rightarrow> string list" where
  "FA2_StringArray s =
    [''FA2'', fa2_BreakdownStructureDetailCode s, fa2_FinancialInformationCode s]"

definition GE_StringArray :: "GE \<Rightarrow> string list" where
  "GE_StringArray s =
    [''GE'', go_itoa (ge_NumberOfTransactionSetsIncluded s), go_itoa (ge_GroupControlNumber s)]"

definition GS_StringArray :: "GS \<Rightarrow> string list" where
  "GS_StringArray s =
    [''GS'', gs_FunctionalIdentifierCode s, gs_ApplicationSendersCode s, gs_ApplicationReceiversCode s, gs_Date s, gs_Time
    s, go_itoa (gs_GroupControlNumber s), gs_ResponsibleAgencyCode s, gs_Version s]"

definition HL_StringArray :: "HL \<Rightarrow> string list" where
  "HL_StringArray s =
    [''HL'', hl_HierarchicalIDNumber s, hl_HierarchicalParentIDNumber s, hl_HierarchicalLevelCode s]"

definition IEA_StringArray :: "IEA \<Rightarrow> string list" where
  "IEA_StringArray s =
    [''IEA'', go_itoa (iea_NumberOfIncludedFunctionalGroups s), padded 9 (iea_InterchangeControlNumber s)]"

definition ISA_StringArray :: "ISA \<Rightarrow> string list" where
  "ISA_StringArray s =
    [''ISA'', isa_AuthorizationInformationQualifier s, isa_AuthorizationInformation s, isa_SecurityInformationQualifier s,
    isa_SecurityInformation s, isa_InterchangeSenderIDQualifier s, isa_InterchangeSenderID s,
    isa_InterchangeReceiverIDQualifier s, isa_InterchangeReceiverID s, isa_InterchangeDate s, isa_InterchangeTime s,
    isa_InterchangeControlStandards s, isa_InterchangeControlVersionNumber s, padded 9 (isa_InterchangeControlNumber s),
    go_itoa (isa_AcknowledgementRequested s), isa_UsageIndicator s, isa_ComponentElementSeparator s]"

definition L0_StringArray :: "L0 \<Rightarrow> string list" where
  "L0_StringArray s =
    [''L0'', go_itoa (l0_LadingLineItemNumber s), blank_zero (l0_BilledRatedAsQuantity s), l0_BilledRatedAsQualifier s,
    blank_zero (l0_Weight s), l0_WeightQualifier s, '''', '''', '''', '''', '''', l0_WeightUnitCode s]"

definition L1_StringArray :: "L1 \<Rightarrow> string list" where
  "L1_StringArray s =
    [''L1'', go_itoa (l1_LadingLineItemNumber s), FormatFloat 2 (l1_FreightRate s), l1_RateValueQualifier s, FloatToNx
    (l1_Charge s) 2, '''', '''', '''', '''', '''', '''', '''', l1_SpecialChargeDescription s]"

definition L10_StringArray :: "L10 \<Rightarrow> string list" where
  "L10_StringArray s =
    [''L10'', FormatFloat 3 (l10_Weight s), l10_WeightQualifier s, l10_WeightUnitCode s]"

definition LX_StringArray :: "LX \<Rightarrow> string list" where
  "LX_StringArray s =
    [''LX'', go_itoa (lx_AssignedNumber s)]"

definition MEA_StringArray :: "MEA \<Rightarrow> string list" where
  "MEA_StringArray s =
    [''MEA'', mea_MeasurementReferenceIDCode s, mea_MeasurementQualifier s, FormatFloat 3 (mea_MeasurementValue s)]"

definition N1_StringArray :: "N1 \<Rightarrow> string list" where
  "N1_StringArray s =
    [''N1'', n1_EntityIdentifierCode s, n1_Name s, n1_IdentificationCodeQualifier s, n1_IdentificationCode s]"

definition N3_StringArray :: "N3 \<Rightarrow> string list" where
  "N3_StringArray s =
    [''N3'', n3_AddressInformation1 s, n3_AddressInformation2 s]"

definition N4_StringArray :: "N4 \<Rightarrow> string list" where
  "N4_StringArray s =
    [''N4'', n4_CityName s, n4_StateOrProvinceCode s, n4_PostalCode s, n4_CountryCode s, n4_LocationQualifier s,
    n4_LocationIdentifier s]"

definition N9_StringArray :: "N9 \<Rightarrow> string list" where
  "N9_StringArray s =
    [''N9'', n9_ReferenceIdentificationQualifier s, n9_ReferenceIdentification s, n9_FreeFormDescription s, n9_Date s]"

definition NTE_StringArray :: "NTE \<Rightarrow> string list" where
  "NTE_StringArray s =
    [''NTE'', nte_NoteReferenceCode s, nte_Description s]"

definition SE_StringArray :: "SE \<Rightarrow> string list" where
  "SE_StringArray s =
    [''SE'', go_itoa (se_NumberOfIncludedSegments s), se_TransactionSetControlNumber s]"

definition ST_StringArray :: "ST \<Rightarrow> string list" where
  "ST_StringArray s =
    [''ST'', st_TransactionSetIdentifierCode s, st_TransactionSetControlNumber s]"

fun StringArray :: "Segment \<Rightarrow> string list" where
  "StringArray (SegBX s) = BX_StringArray s"
| "StringArray (SegFA1 s) = FA1_StringArray s"
| "StringArray (SegFA2 s) = FA2_StringArray s"
| "StringArray (SegGE s) = GE_StringArray s"
| "StringArray (SegGS s) = GS_StringArray s"
| "StringArray (SegHL s) = HL_StringArray s"
| "StringArray (SegIEA s) = IEA_StringArray s"
| "StringArray (SegISA s) = ISA_StringArray s"
| "StringArray (SegL0 s) = L0_StringArray s"
| "StringArray (SegL1 s) = L1_StringArray s"
| "StringArray (SegL10 s) = L10_StringArray s"
| "StringArray (SegLX s) = LX_StringArray s"
| "StringArray (SegMEA s) = MEA_StringArray s"
| "StringArray (SegN1 s) = N1_StringArray s"
| "StringArray (SegN3 s) = N3_StringArray s"
| "StringArray (SegN4 s) = N4_StringArray s"
| "StringArray (SegN9 s) = N9_StringArray s"
| "StringArray (SegNTE s) = NTE_StringArray s"
| "StringArray (SegSE s) = SE_StringArray s"
| "StringArray (SegST s) = ST_StringArray s"

section \<open>Parsing segments\<close>

text \<open>
  \<open>Parse\<close> assigns to the fields of its receiver from the elements after the segment's name.  The
  receiver a failed call leaves behind, which no caller reads, is not kept.
\<close>

definition wrong_number :: "string \<Rightarrow> 'a result" where
  "wrong_number seg = Fail (ErrMsg (seg @ '': Wrong number of elements''))"

definition BX_Parse :: "BX \<Rightarrow> string list \<Rightarrow> BX result" where
  "BX_Parse s e = (if length e \<noteq> 7 then wrong_number ''BX'' else
    Ret (s\<lparr>bx_TransactionSetPurposeCode := e ! 1, bx_ShipmentMethodOfPayment := e ! 2,
    bx_ShipmentIdentificationNumber := e ! 3, bx_StandardCarrierAlphaCode := e ! 4, bx_WeightUnitCode := e ! 5,
    bx_ShipmentQualifier := e ! 6\<rparr>))"

definition FA1_Parse :: "FA1 \<Rightarrow> string list \<Rightarrow> FA1 result" where
  "FA1_Parse s e = (if length e \<noteq> 1 then wrong_number ''FA1'' else
    Ret (s\<lparr>fa1_AgencyQualifierCode := e ! 0\<rparr>))"

definition FA2_Parse :: "FA2 \<Rightarrow> string list \<Rightarrow> FA2 result" where
  "FA2_Parse s e = (if length e \<noteq> 2 then wrong_number ''FA2'' else
    Ret (s\<lparr>fa2_BreakdownStructureDetailCode := e ! 0, fa2_FinancialInformationCode := e ! 1\<rparr>))"

definition GE_Parse :: "GE \<Rightarrow> string list \<Rightarrow> GE result" where
  "GE_Parse s e = (if length e \<noteq> 2 then wrong_number ''GE'' else
    obind (ParseInt (e ! 0)) (\<lambda>x. obind (ParseInt (e ! 1)) (\<lambda>y. Ret
    (s\<lparr>ge_NumberOfTransactionSetsIncluded := x, ge_GroupControlNumber := y\<rparr>))))"

definition GS_Parse :: "GS \<Rightarrow> string list \<Rightarrow> GS result" where
  "GS_Parse s e = (if length e \<noteq> 8 then wrong_number ''GS'' else
    obind (ParseInt (e ! 5)) (\<lambda>x. Ret (s\<lparr>gs_FunctionalIdentifierCode := e ! 0, gs_ApplicationSendersCode := e
    ! 1, gs_ApplicationReceiversCode := e ! 2, gs_Date := e ! 3, gs_Time := e ! 4, gs_GroupControlNumber := x,
    gs_ResponsibleAgencyCode := e ! 6, gs_Version := e ! 7\<rparr>)))"

definition HL_Parse :: "HL \<Rightarrow> string list \<Rightarrow> HL result" where
  "HL_Parse s e = (if length e \<noteq> 3 then wrong_number ''HL'' else
    Ret (s\<lparr>hl_HierarchicalIDNumber := e ! 0, hl_HierarchicalParentIDNumber := e ! 1, hl_HierarchicalLevelCode := e !
    2\<rparr>))"

definition IEA_Parse :: "IEA \<Rightarrow> string list \<Rightarrow> IEA result" where
  "IEA_Parse s e = (if length e \<noteq> 2 then wrong_number ''IEA'' else
    obind (ParseInt (e ! 0)) (\<lambda>x. obind (ParseInt (e ! 1)) (\<lambda>y. Ret
    (s\<lparr>iea_NumberOfIncludedFunctionalGroups := x, iea_InterchangeControlNumber := y\<rparr>))))"

definition ISA_Parse :: "ISA \<Rightarrow> string list \<Rightarrow> ISA result" where
  "ISA_Parse s e = (if length e \<noteq> 16 then wrong_number ''ISA'' else
    obind (ParseInt (e ! 12)) (\<lambda>x. obind (ParseInt (e ! 13)) (\<lambda>y. Ret
    (s\<lparr>isa_AuthorizationInformationQualifier := e ! 0, isa_AuthorizationInformation := e ! 1,
    isa_SecurityInformationQualifier := e ! 2, isa_SecurityInformation := e ! 3, isa_InterchangeSenderIDQualifier := e ! 4,
    isa_InterchangeSenderID := e ! 5, isa_InterchangeReceiverIDQualifier := e ! 6, isa_InterchangeReceiverID := e ! 7,
    isa_InterchangeDate := e ! 8, isa_InterchangeTime := e ! 9, isa_InterchangeControlStandards := e ! 10,
    isa_InterchangeControlVersionNumber := e ! 11, isa_InterchangeControlNumber := x, isa_AcknowledgementRequested := y,
    isa_UsageIndicator := e ! 14, isa_ComponentElementSeparator := e ! 15\<rparr>))))"

definition L0_Parse :: "L0 \<Rightarrow> string list \<Rightarrow> L0 result" where
  "L0_Parse s e = (if length e \<noteq> 3 \<and> length e \<noteq> 11 then wrong_number ''L0'' else
    obind (ParseInt (e ! 0)) (\<lambda>x. obind (ParseFloat (e ! 1)) (\<lambda>y.
    let s1 = s\<lparr>l0_LadingLineItemNumber := x, l0_BilledRatedAsQuantity := y, l0_BilledRatedAsQualifier := e ! 2\<rparr> in
    if length e = 11 then obind (ParseFloat (e ! 3)) (\<lambda>z.
      Ret (s1\<lparr>l0_Weight := z, l0_WeightQualifier := e ! 4, l0_WeightUnitCode := e ! 10\<rparr>))
    else Ret s1)))"

definition L1_Parse :: "L1 \<Rightarrow> string list \<Rightarrow> L1 result" where
  "L1_Parse s e = (if length e \<noteq> 12 then wrong_number ''L1'' else
    obind (ParseInt (e ! 0)) (\<lambda>x. obind (ParseFloat (e ! 1)) (\<lambda>y. obind (NxToFloat (e ! 3) 2) (\<lambda>z.
    Ret (s\<lparr>l1_LadingLineItemNumber := x, l1_FreightRate := y, l1_RateValueQualifier := e ! 2, l1_Charge := z,
    l1_SpecialChargeDescription := e ! 11\<rparr>)))))"

definition L10_Parse :: "L10 \<Rightarrow> string list \<Rightarrow> L10 result" where
  "L10_Parse s e = (if length e \<noteq> 3 then wrong_number ''L10'' else
    obind (ParseFloat (e ! 0)) (\<lambda>x. Ret (s\<lparr>l10_Weight := x, l10_WeightQualifier := e ! 1, l10_WeightUnitCode
    := e ! 2\<rparr>)))"

definition L7_Parse :: "L7 \<Rightarrow> string list \<Rightarrow> L7 result" where
  "L7_Parse s e = (if length e \<noteq> 5 \<and> length e \<noteq> 13 then wrong_number ''L7'' else
    obind (ParseInt (e ! 0)) (\<lambda>x.
    let s1 = s\<lparr>l7_LadingLineItemNumber := x, l7_TariffNumber := e ! 2, l7_TariffItemNumber := e ! 4\<rparr> in
    if length e = 13 then obind (ParseInt (e ! 12)) (\<lambda>y. Ret (s1\<lparr>l7_TariffDistance := y\<rparr>)) else Ret s1))"

definition LX_Parse :: "LX \<Rightarrow> string list \<Rightarrow> LX result" where
  "LX_Parse s e = (if length e \<noteq> 1 then wrong_number ''LX'' else
    obind (ParseInt (e ! 0)) (\<lambda>x. Ret (s\<lparr>lx_AssignedNumber := x\<rparr>)))"

definition MEA_Parse :: "MEA \<Rightarrow> string list \<Rightarrow> MEA result" where
  "MEA_Parse s e = (if length e \<noteq> 3 then wrong_number ''MEA'' else
    obind (ParseFloat (e ! 2)) (\<lambda>x. Ret (s\<lparr>mea_MeasurementReferenceIDCode := e ! 0, mea_MeasurementQualifier
    := e ! 1, mea_MeasurementValue := x\<rparr>)))"

definition N1_Parse :: "N1 \<Rightarrow> string list \<Rightarrow> N1 result" where
  "N1_Parse s e = (if length e \<noteq> 2 \<and> length e \<noteq> 4 then wrong_number ''N1'' else
    let s1 = s\<lparr>n1_EntityIdentifierCode := e ! 0, n1_Name := e ! 1\<rparr> in
    Ret (if length e = 4 then s1\<lparr>n1_IdentificationCodeQualifier := e ! 2, n1_IdentificationCode := e ! 3\<rparr> else s1))"

definition N3_Parse :: "N3 \<Rightarrow> string list \<Rightarrow> N3 result" where
  "N3_Parse s e = (if length e \<noteq> 2 then wrong_number ''N3'' else
    Ret (s\<lparr>n3_AddressInformation1 := e ! 0, n3_AddressInformation2 := e ! 1\<rparr>))"

definition N4_Parse :: "N4 \<Rightarrow> string list \<Rightarrow> N4 result" where
  "N4_Parse s e = (if length e \<noteq> 6 then wrong_number ''N4'' else
    Ret (s\<lparr>n4_CityName := e ! 0, n4_StateOrProvinceCode := e ! 1, n4_PostalCode := e ! 2, n4_CountryCode := e ! 3,
    n4_LocationQualifier := e ! 4, n4_LocationIdentifier := e ! 5\<rparr>))"

definition N9_Parse :: "N9 \<Rightarrow> string list \<Rightarrow> N9 result" where
  "N9_Parse s e = (if length e \<noteq> 2 \<and> length e \<noteq> 3 \<and> length e \<noteq> 4 then wrong_number ''N9'' else
    let s1 = s\<lparr>n9_ReferenceIdentificationQualifier := e ! 0, n9_ReferenceIdentification := e ! 1\<rparr>;
        s2 = (if length e > 2 then s1\<lparr>n9_FreeFormDescription := e ! 2\<rparr> else s1)
    in Ret (if length e > 3 then s2\<lparr>n9_Date := e ! 3\<rparr> else s2))"

definition NTE_Parse :: "NTE \<Rightarrow> string list \<Rightarrow> NTE result" where
  "NTE_Parse s e = (if length e \<noteq> 2 then wrong_number ''NTE'' else
    Ret (s\<lparr>nte_NoteReferenceCode := e ! 0, nte_Description := e ! 1\<rparr>))"

definition SE_Parse :: "SE \<Rightarrow> string list \<Rightarrow> SE result" where
  "SE_Parse s e = (if length e \<noteq> 2 then wrong_number ''SE'' else
    obind (ParseInt (e ! 0)) (\<lambda>x. Ret (s\<lparr>se_NumberOfIncludedSegments := x, se_TransactionSetControlNumber :=
    e ! 1\<rparr>)))"

definition ST_Parse :: "ST \<Rightarrow> string list \<Rightarrow> ST result" where
  "ST_Parse s e = (if length e \<noteq> 2 then wrong_number ''ST'' else
    Ret (s\<lparr>st_TransactionSetIdentifierCode := e ! 0, st_TransactionSetControlNumber := e ! 1\<rparr>))"

fun map_ret :: "('a \<Rightarrow> 'b) \<Rightarrow> 'a result \<Rightarrow> 'b result" where
  "map_ret f r = obind r (\<lambda>x. Ret (f x))"

fun Parse :: "Segment \<Rightarrow> string list \<Rightarrow> Segment result" where
  "Parse (SegBX s) e = map_ret SegBX (BX_Parse s e)"
| "Parse (SegFA1 s) e = map_ret SegFA1 (FA1_Parse s e)"
| "Parse (SegFA2 s) e = map_ret SegFA2 (FA2_Parse s e)"
| "Parse (SegGE s) e = map_ret SegGE (GE_Parse s e)"
| "Parse (SegGS s) e = map_ret SegGS (GS_Parse s e)"
| "Parse (SegHL s) e = map_ret SegHL (HL_Parse s e)"
| "Parse (SegIEA s) e = map_ret SegIEA (IEA_Parse s e)"
| "Parse (SegISA s) e = map_ret SegISA (ISA_Parse s e)"
| "Parse (SegL0 s) e = map_ret SegL0 (L0_Parse s e)"
| "Parse (SegL1 s) e = map_ret SegL1 (L1_Parse s e)"
| "Parse (SegL10 s) e = map_ret SegL10 (L10_Parse s e)"
| "Parse (SegLX s) e = map_ret SegLX (LX_Parse s e)"
| "Parse (SegMEA s) e = map_ret SegMEA (MEA_Parse s e)"
| "Parse (SegN1 s) e = map_ret SegN1 (N1_Parse s e)"
| "Parse (SegN3 s) e = map_ret SegN3 (N3_Parse s e)"
| "Parse (SegN4 s) e = map_ret SegN4 (N4_Parse s e)"
| "Parse (SegN9 s) e = map_ret SegN9 (N9_Parse s e)"
| "Parse (SegNTE s) e = map_ret SegNTE (NTE_Parse s e)"
| "Parse (SegSE s) e = map_ret SegSE (SE_Parse s e)"
| "Parse (SegST s) e = map_ret SegST (ST_Parse s e)"

section \<open>The writer\<close>

text \<open>\<open>csv.Writer\<close> with \<open>Comma = '*'\<close>: a field is quoted when it holds the separator, a quote or a line
  break, begins with white space, or is \<open>\.\<close>; quotes inside are doubled.\<close>

definition fieldNeedsQuotes :: "string \<Rightarrow> bool" where
  "fieldNeedsQuotes field = (case field of [] \<Rightarrow> False
     | c # _ \<Rightarrow> field = [CHR 0x5C, CHR ''.''] \<or> list_ex (\<lambda>x. x \<in> set [CHR ''*'', CHR 0x22, CHR 0x0D, CHR 0x0A]) field
         \<or> c \<in> set [CHR '' '', CHR 0x09, CHR 0x0A, CHR 0x0B, CHR 0x0C, CHR 0x0D])"

definition quote_field :: "string \<Rightarrow> string" where
  "quote_field field = (if \<not> fieldNeedsQuotes field then field
     else CHR 0x22 # concat (map (\<lambda>c. if c = CHR 0x22 then [c, c] else [c]) field) @ [CHR 0x22])"

definition write_record :: "string list \<Rightarrow> string" where
  "write_record record = strings_Join ''*'' (map quote_field record) @ [CHR 0x0A]"

definition WriteAll :: "string list list \<Rightarrow> string" where
  "WriteAll records = concat (map write_record records)"

section \<open>Dates\<close>

text \<open>\<open>time.Time.Format\<close> with the layouts of the generator, in UTC.\<close>

definition month_lengths :: "int \<Rightarrow> int list" where
  "month_lengths y = [31, if jan1 (y + 1) - jan1 y = 366 then 29 else 28, 31, 30, 31, 30, 31, 31, 30, 31, 30, 31]"

fun month_day :: "int list \<Rightarrow> int \<Rightarrow> int \<Rightarrow> int \<times> int" where
  "month_day [] m d = (m, d)"
| "month_day (l # ls) m d = (if d \<le> l then (m, d) else month_day ls (m + 1) (d - l))"

definition format_month_day :: "gotime \<Rightarrow> string" where
  "format_month_day t = (case month_day (month_lengths (time_Year t)) 1 (time_YearDay t) of
     (m, d) \<Rightarrow> padded 2 m @ padded 2 d)"

definition format_date :: "gotime \<Rightarrow> string" where
  "format_date t = padded 4 (time_Year t) @ format_month_day t"

definition format_short_date :: "gotime \<Rightarrow> string" where
  "format_short_date t = padded 2 (time_Year t mod 100) @ format_month_day t"

definition format_time :: "gotime \<Rightarrow> string" where
  "format_time t = padded 2 (t mod 86400 div 3600) @ padded 2 (t mod 3600 div 60)"

section \<open>The 858C transaction set\<close>

primrec AffiliationToAgency :: "ServiceMemberAffiliation \<Rightarrow> string" where
  "AffiliationToAgency AffiliationARMY = ''DZ''"
| "AffiliationToAgency AffiliationNAVY = ''DN''"
| "AffiliationToAgency AffiliationMARINES = ''DX''"
| "AffiliationToAgency AffiliationAIRFORCE = ''DY''"
| "AffiliationToAgency AffiliationCOASTGUARD = ''''"

text \<open>What the generator reads of the shipment and its associations; \<open>is_Shipment\<close> carries the line
  items and the offers.\<close>

record invoice_shipment =
  is_Shipment :: Shipment
  is_LastName :: "string option"
  is_Affiliation :: "ServiceMemberAffiliation option"
  is_OriginOfficeName :: string
  is_DestinationOfficeName :: string
  is_Orders :: Order

text \<open>A nil \<open>*L0\<close> among the segments is \<open>None\<close>: its \<open>StringArray\<close> panics.\<close>

record Invoice858C =
  inv_ISA :: ISA
  inv_GS :: GS
  inv_Shipment :: "Segment option list"
  inv_GE :: GE
  inv_IEA :: IEA

fun string_arrays :: "Segment option list \<Rightarrow> string list list result" where
  "string_arrays [] = Ret []"
| "string_arrays (line # lines) =
     obind (deref line) (\<lambda>seg. obind (string_arrays lines) (\<lambda>rest. Ret (StringArray seg # rest)))"

definition Segments :: "Invoice858C \<Rightarrow> string list list result" where
  "Segments invoice = obind (string_arrays (inv_Shipment invoice)) (\<lambda>lines.
     Ret ([ISA_StringArray (inv_ISA invoice), GS_StringArray (inv_GS invoice)] @ lines
       @ [GE_StringArray (inv_GE invoice)] @ [IEA_StringArray (inv_IEA invoice)]))"

definition EDIString :: "Invoice858C \<Rightarrow> string result" where
  "EDIString invoice = obind (Segments invoice) (\<lambda>records. Ret (WriteAll records))"

definition weight_centi :: "Pound \<Rightarrow> rat" where
  "weight_centi weightLbs = fl64 (fl64 (of_int weightLbs) / 100)"

definition zero_L0 :: L0 where
  "zero_L0 = \<lparr>l0_LadingLineItemNumber = 0, l0_BilledRatedAsQuantity = 0, l0_BilledRatedAsQualifier = '''',
     l0_Weight = 0, l0_WeightQualifier = '''', l0_WeightUnitCode = ''''\<rparr>"

definition MakeHLSegment :: "ShipmentLineItem \<Rightarrow> HL" where
  "MakeHLSegment lineItem = \<lparr>hl_HierarchicalIDNumber = (case li_Location lineItem of
       ItemAllowedLocationORIGIN \<Rightarrow> ''303'' | ItemAllowedLocationDESTINATION \<Rightarrow> ''304''
     | ItemAllowedLocationNEITHER \<Rightarrow> ''303'' | ItemAllowedLocationEITHER \<Rightarrow> ''''),
     hl_HierarchicalParentIDNumber = '''', hl_HierarchicalLevelCode = ''SS''\<rparr>"

definition unitBasedMeasurementUnits :: "ItemMeasurementUnit list" where
  "unitBasedMeasurementUnits = [ItemMeasurementUnitFLATRATE, ItemMeasurementUnitEACH, ItemMeasurementUnitHOURS,
     ItemMeasurementUnitDAYS, ItemMeasurementUnitCUBICFOOT, ItemMeasurementUnitFUELPERCENTAGE,
     ItemMeasurementUnitCONTAINER, ItemMeasurementUnitMONETARYVALUE, ItemMeasurementUnitNONE]"

definition weightBasedMeasurements :: "ItemMeasurementUnit list" where
  "weightBasedMeasurements = [ItemMeasurementUnitWEIGHT]"

definition MakeL0Segment :: "ShipmentLineItem \<Rightarrow> rat \<Rightarrow> L0 option" where
  "MakeL0Segment lineItem netCentiWeight =
     (let item = li_Tariff400ngItem lineItem; measurementUnit = it_MeasurementUnit1 item in
      if measurementUnit \<in> set unitBasedMeasurementUnits then
        Some (zero_L0\<lparr>l0_LadingLineItemNumber := 1,
          l0_BilledRatedAsQuantity := (if measurementUnit \<noteq> ItemMeasurementUnitFLATRATE then ToUnitFloat (li_Quantity1 lineItem) else 1),
          l0_BilledRatedAsQualifier := measurementUnit\<rparr>)
      else if measurementUnit \<in> set weightBasedMeasurements then
        Some (zero_L0\<lparr>l0_LadingLineItemNumber := 1,
          l0_Weight := (if it_RequiresPreApproval item then ToUnitFloat (li_Quantity1 lineItem) else netCentiWeight),
          l0_WeightQualifier := ''B'', l0_WeightUnitCode := ''L''\<rparr>)
      else None)"

definition MakeL1Segment :: "ShipmentLineItem \<Rightarrow> L1 result" where
  "MakeL1Segment lineItem = obind (deref (li_AmountCents lineItem)) (\<lambda>cents.
     Ret \<lparr>l1_LadingLineItemNumber = 0, l1_FreightRate = 0, l1_RateValueQualifier = ''RC'',
       l1_Charge = Cents_ToDollarFloat cents, l1_SpecialChargeDescription = it_Code (li_Tariff400ngItem lineItem)\<rparr>)"

fun line_item_segments :: "rat \<Rightarrow> ShipmentLineItem list \<Rightarrow> Segment option list result" where
  "line_item_segments netCentiWeight [] = Ret []"
| "line_item_segments netCentiWeight (lineItem # lineItems) =
     obind (MakeL1Segment lineItem) (\<lambda>l1Segment. obind (line_item_segments netCentiWeight lineItems) (\<lambda>segments.
       Ret ([Some (SegHL (MakeHLSegment lineItem)), map_option SegL0 (MakeL0Segment lineItem netCentiWeight),
         Some (SegL1 l1Segment)] @ segments)))"

definition getLineItemSegments :: "invoice_shipment \<Rightarrow> Segment option list result" where
  "getLineItemSegments shipment = (case shp_NetWeight (is_Shipment shipment) of
      None \<Rightarrow> Fail (ErrMsg ''Shipment is missing the NetWeight'')
    | Some weightLbs \<Rightarrow> line_item_segments (weight_centi weightLbs) (shp_ShipmentLineItems (is_Shipment shipment)))"

definition opt_string :: "string \<Rightarrow> string option \<Rightarrow> string" where
  "opt_string fallback p = (case p of None \<Rightarrow> fallback | Some s \<Rightarrow> s)"

text \<open>A required pointer: nil is an error.\<close>

definition required :: "string \<Rightarrow> 'a option \<Rightarrow> 'a result" where
  "required msg p = (case p of None \<Rightarrow> Fail (ErrMsg msg) | Some x \<Rightarrow> Ret x)"

definition required_name :: "string \<Rightarrow> unit result" where
  "required_name name = (if name = '''' then Fail (ErrMsg ''Transportation Office Name is missing (for N102)'') else Ret ())"

definition simple_N9 :: "string \<Rightarrow> string \<Rightarrow> N9" where
  "simple_N9 qualifier reference = \<lparr>n9_ReferenceIdentificationQualifier = qualifier, n9_ReferenceIdentification = reference,
     n9_FreeFormDescription = '''', n9_Date = ''''\<rparr>"

text \<open>The thirteen segments of the heading, once everything they need is there.\<close>

definition heading_segments :: "invoice_shipment \<Rightarrow> string \<Rightarrow> Address \<Rightarrow> string \<Rightarrow> string \<Rightarrow> ServiceMemberAffiliation
    \<Rightarrow> string \<Rightarrow> Pound \<Rightarrow> string \<Rightarrow> string \<Rightarrow> string \<Rightarrow> Segment list" where
  "heading_segments shipment invoiceNumber pickup ordersNumber tac affiliation GBL weightLbs scac supplierID gbloc =
    [SegBX \<lparr>bx_TransactionSetPurposeCode = ''00'', bx_TransactionMethodTypeCode = ''J'', bx_ShipmentMethodOfPayment = ''PP'',
       bx_ShipmentIdentificationNumber = GBL, bx_StandardCarrierAlphaCode = scac, bx_WeightUnitCode = '''',
       bx_ShipmentQualifier = ''4''\<rparr>,
     SegN9 (simple_N9 ''DY'' ''SC''),
     SegN9 (simple_N9 ''CN'' invoiceNumber),
     SegN9 (simple_N9 ''PQ'' supplierID),
     SegN9 ((simple_N9 ''OQ'' ordersNumber)\<lparr>n9_FreeFormDescription := affiliation_string affiliation,
       n9_Date := format_date (or_IssueDate (is_Orders shipment))\<rparr>),
     SegN1 \<lparr>n1_EntityIdentifierCode = ''SF'', n1_Name = opt_string '''' (is_LastName shipment),
       n1_IdentificationCodeQualifier = '''', n1_IdentificationCode = ''''\<rparr>,
     SegN3 \<lparr>n3_AddressInformation1 = ad_StreetAddress1 pickup,
       n3_AddressInformation2 = opt_string '''' (ad_StreetAddress2 pickup)\<rparr>,
     SegN4 \<lparr>n4_CityName = ad_City pickup, n4_StateOrProvinceCode = ad_State pickup, n4_PostalCode = ad_PostalCode pickup,
       n4_CountryCode = opt_string ''US'' (ad_Country pickup), n4_LocationQualifier = '''', n4_LocationIdentifier = ''''\<rparr>,
     SegN1 \<lparr>n1_EntityIdentifierCode = ''RG'', n1_Name = is_OriginOfficeName shipment,
       n1_IdentificationCodeQualifier = ''27'', n1_IdentificationCode = ''DDSAOFM''\<rparr>,
     SegN1 \<lparr>n1_EntityIdentifierCode = ''RH'', n1_Name = is_DestinationOfficeName shipment,
       n1_IdentificationCodeQualifier = ''27'', n1_IdentificationCode = gbloc\<rparr>,
     SegFA1 \<lparr>fa1_AgencyQualifierCode = AffiliationToAgency affiliation\<rparr>,
     SegFA2 \<lparr>fa2_BreakdownStructureDetailCode = ''TA'', fa2_FinancialInformationCode = tac\<rparr>,
     SegL10 \<lparr>l10_Weight = weight_centi weightLbs, l10_WeightQualifier = ''B'', l10_WeightUnitCode = ''L''\<rparr>]"

text \<open>Without an accepted offer \<open>errors.Wrap\<close> of the nil error is nil: no segments and no error.\<close>

definition getHeadingSegments :: "invoice_shipment \<Rightarrow> uuid \<Rightarrow> string \<Rightarrow> Segment list result" where
  "getHeadingSegments shipment invoiceID invoiceNumber =
     (let s = is_Shipment shipment in
      obind (required ''Shipment is missing pick up address'' (shp_PickupAddress s)) (\<lambda>pickup.
      obind (required ''Orders is missing orders number'' (or_OrdersNumber (is_Orders shipment))) (\<lambda>ordersNumber.
      obind (required ''Orders is missing TAC'' (or_TAC (is_Orders shipment))) (\<lambda>tac.
      obind (required ''Service member is missing affiliation'' (is_Affiliation shipment)) (\<lambda>affiliation.
      obind (required ''GBL Number is missing for Shipment Identification Number (BX04)'' (shp_GBLNumber s)) (\<lambda>GBL.
      obind (required_name (is_OriginOfficeName shipment)) (\<lambda>_.
      obind (required_name (is_DestinationOfficeName shipment)) (\<lambda>_.
      obind (required ''Shipment is missing the NetWeight'' (shp_NetWeight s)) (\<lambda>weightLbs.
      obind (map_fail (Wrap ''Error retrieving ACCEPTED ShipmentOffer for EDI generator'') (AcceptedShipmentOffer s)) (\<lambda>accepted.
      case accepted of None \<Rightarrow> Ret []
      | Some acceptedOffer \<Rightarrow>
      obind (SCAC acceptedOffer) (\<lambda>scac.
      obind (SupplierID acceptedOffer) (\<lambda>supplierID.
      if invoiceID = uuid_Nil then Fail (ErrMsg ''Invalid invoice model for shipment'') else
      obind (deref (shp_DestinationGBLOC s)) (\<lambda>gbloc.
      Ret (heading_segments shipment invoiceNumber pickup ordersNumber tac affiliation GBL weightLbs scac supplierID gbloc))))))))))))))"

definition generate858CShipment :: "invoice_shipment \<Rightarrow> uuid \<Rightarrow> string \<Rightarrow> int \<Rightarrow> Segment option list result" where
  "generate858CShipment shipment invoiceID invoiceNumber sequenceNum =
     (let transactionNumber = padded 4 sequenceNum;
          st = SegST \<lparr>st_TransactionSetIdentifierCode = ''858'', st_TransactionSetControlNumber = transactionNumber\<rparr> in
      obind (getHeadingSegments shipment invoiceID invoiceNumber) (\<lambda>headingSegments.
      obind (getLineItemSegments shipment) (\<lambda>lineItemSegments.
      let segments = [Some st] @ map Some headingSegments @ lineItemSegments in
      Ret (segments @ [Some (SegSE \<lparr>se_NumberOfIncludedSegments = int (length segments) + 1,
        se_TransactionSetControlNumber = transactionNumber\<rparr>)]))))"

definition senderCode :: string where
  "senderCode = ''MYMOVE''"

definition receiverCode :: string where
  "receiverCode = ''8004171844''"

text \<open>\<open>fmt.Sprintf("%-15s", s)\<close>.\<close>

definition pad_right :: "nat \<Rightarrow> string \<Rightarrow> string" where
  "pad_right k s = s @ replicate (k - length s) (CHR '' '')"

text \<open>The control number of the sequence is an argument; the time is that of the clock.\<close>

definition Generate858C :: "invoice_shipment \<Rightarrow> uuid \<Rightarrow> string \<Rightarrow> bool \<Rightarrow> int result \<Rightarrow> gotime \<Rightarrow> Invoice858C result" where
  "Generate858C shipment invoiceID invoiceNumber sendProductionInvoice nextVal now =
     obind (map_fail (Wrap ''Failed to get next Interchange Control Number'') nextVal) (\<lambda>interchangeControlNumber.
     obind (generate858CShipment shipment invoiceID invoiceNumber 1) (\<lambda>shipmentSegments.
     Ret \<lparr>inv_ISA = \<lparr>isa_AuthorizationInformationQualifier = ''00'', isa_AuthorizationInformation = padded 10 0,
         isa_SecurityInformationQualifier = ''00'', isa_SecurityInformation = padded 10 0,
         isa_InterchangeSenderIDQualifier = ''ZZ'', isa_InterchangeSenderID = pad_right 15 senderCode,
         isa_InterchangeReceiverIDQualifier = ''12'', isa_InterchangeReceiverID = pad_right 15 receiverCode,
         isa_InterchangeDate = format_short_date now, isa_InterchangeTime = format_time now,
         isa_InterchangeControlStandards = ''U'', isa_InterchangeControlVersionNumber = ''00401'',
         isa_InterchangeControlNumber = interchangeControlNumber, isa_AcknowledgementRequested = 1,
         isa_UsageIndicator = (if sendProductionInvoice then ''P'' else ''T''), isa_ComponentElementSeparator = ''|''\<rparr>,
       inv_GS = \<lparr>gs_FunctionalIdentifierCode = ''SI'', gs_ApplicationSendersCode = senderCode,
         gs_ApplicationReceiversCode = receiverCode, gs_Date = format_date now, gs_Time = format_time now,
         gs_GroupControlNumber = interchangeControlNumber, gs_ResponsibleAgencyCode = ''X'', gs_Version = ''004010''\<rparr>,
       inv_Shipment = shipmentSegments,
       inv_GE = \<lparr>ge_NumberOfTransactionSetsIncluded = 1, ge_GroupControlNumber = interchangeControlNumber\<rparr>,
       inv_IEA = \<lparr>iea_NumberOfIncludedFunctionalGroups = 1, iea_InterchangeControlNumber = interchangeControlNumber\<rparr>\<rparr>))"

section \<open>Numbers survive\<close>

lemma is_digit_char: "d < 10 \<Longrightarrow> is_digit (digit_char d)"
  unfolding is_digit_def digit_char_def by (rule nth_mem) simp

lemma nat_digits_digits: "list_all is_digit (nat_digits n) \<and> nat_digits n \<noteq> []"
proof (induction n rule: nat_digits.induct)
  case (1 n)
  then show ?case by (subst (1 2) nat_digits.simps) (simp add: is_digit_char)
qed

lemma fixed_digits_digits: "list_all is_digit (fixed_digits k n)"
  by (induction k arbitrary: n) (simp_all add: is_digit_char)

lemma zero_padded_digits: "0 < k \<Longrightarrow> list_all is_digit (zero_padded k n) \<and> zero_padded k n \<noteq> []"
  using nat_digits_digits [of n] by (auto simp: zero_padded_def fixed_digits_digits simp flip: length_greater_0_conv)

lemma digits_no_sign:
  assumes "list_all is_digit s"
  shows "read_sign s = (False, s)"
  using assms by (cases s) (auto simp: is_digit_def)

lemma split_at_any_none: "\<forall>x \<in> set s. x \<notin> set cs \<Longrightarrow> split_at_any cs s = (s, None)"
proof -
  assume "\<forall>x \<in> set s. x \<notin> set cs"
  then have "takeWhile (\<lambda>c. c \<notin> set cs) s = s" unfolding takeWhile_eq_all_conv .
  then show ?thesis by (simp only: split_at_any_def Let_def) simp
qed

lemma split_at_any_hit: "\<forall>x \<in> set s. x \<notin> set cs \<Longrightarrow> c \<in> set cs \<Longrightarrow> split_at_any cs (s @ c # t) = (s, Some t)"
  by (simp add: split_at_any_def takeWhile_append2)

lemma digits_none_of: "list_all is_digit s \<Longrightarrow> list_all (\<lambda>c. \<not> is_digit c) cs \<Longrightarrow> \<forall>x \<in> set s. x \<notin> set cs"
  by (auto simp: list_all_iff)

lemma digits_value_append: "digits_value (s @ t) = digits_value s * 10 ^ length t + digits_value t"
  by (induction t rule: rev_induct) (simp_all add: algebra_simps digits_value_snoc [unfolded append_assoc] flip: append_assoc)

lemma ParseInt_digits: "list_all is_digit s \<Longrightarrow> s \<noteq> [] \<Longrightarrow> in64 (int (digits_value s)) \<Longrightarrow> ParseInt s = Ret (int (digits_value s))"
  by (simp add: ParseInt_def digits_no_sign)

lemma ParseInt_minus:
  "list_all is_digit s \<Longrightarrow> s \<noteq> [] \<Longrightarrow> in64 (- int (digits_value s)) \<Longrightarrow> ParseInt (CHR ''-'' # s) = Ret (- int (digits_value s))"
  by (simp add: ParseInt_def)

lemma ParseInt_go_itoa [simp]: "in64 n \<Longrightarrow> ParseInt (go_itoa n) = Ret n"
proof (cases "n < 0")
  case True
  assume "in64 n"
  with True show ?thesis using nat_digits_digits [of "nat \<bar>n\<bar>"] ParseInt_minus [of "nat_digits (nat \<bar>n\<bar>)"]
    by (simp add: go_itoa_def digits_value_nat)
next
  case False
  assume "in64 n"
  with False show ?thesis using nat_digits_digits [of "nat n"] ParseInt_digits [of "nat_digits (nat n)"]
    by (simp add: go_itoa_def digits_value_nat)
qed

lemma ParseInt_padded [simp]: "in64 n \<Longrightarrow> 1 < k \<Longrightarrow> ParseInt (padded k n) = Ret n"
  using zero_padded_digits [of "k - 1" "nat (- n)"] zero_padded_digits [of k "nat n"]
    ParseInt_minus [of "zero_padded (k - 1) (nat (- n))"] ParseInt_digits [of "zero_padded k (nat n)"]
  by (cases "n < 0") (simp_all add: padded_def)

lemma fl64_small: "\<bar>x\<bar> \<le> 2 ^ 53 \<Longrightarrow> \<bar>fl64 x\<bar> < 2 ^ 1024"
proof -
  assume "\<bar>x\<bar> \<le> 2 ^ 53"
  then have "fl64 x \<le> fl64 (of_int (2 ^ 53))" "fl64 (of_int (- (2 ^ 53))) \<le> fl64 x" by (intro fl64_mono; simp)+
  moreover have "fl64 (of_int (2 ^ 53)) = of_int (2 ^ 53)" "fl64 (of_int (- (2 ^ 53))) = of_int (- (2 ^ 53))"
    by (rule fl64_of_int; simp)+
  ultimately show ?thesis by simp
qed

text \<open>A numeral without a sign, a point before its last \<open>k\<close> digits.\<close>

lemma split_digits:
  assumes "list_all is_digit a" "list_all is_digit b"
  shows "split_at_any ''eE'' (a @ CHR ''.'' # b) = (a @ CHR ''.'' # b, None)"
    "split_at_any ''.'' (a @ CHR ''.'' # b) = (a, Some b)" "split_at_any ''eE'' a = (a, None)" "split_at_any ''.'' a = (a, None)"
proof -
  have n: "list_all (\<lambda>c. \<not> is_digit c) ''eE''" "list_all (\<lambda>c. \<not> is_digit c) ''.''" by (simp_all add: is_digit_def)
  note d = digits_none_of [OF assms(1) n(1)] digits_none_of [OF assms(1) n(2)] digits_none_of [OF assms(2) n(1)]
  show "split_at_any ''eE'' a = (a, None)" by (rule split_at_any_none [OF d(1)])
  show "split_at_any ''.'' a = (a, None)" by (rule split_at_any_none [OF d(2)])
  show "split_at_any ''.'' (a @ CHR ''.'' # b) = (a, Some b)" by (rule split_at_any_hit [OF d(2)]) simp
  show "split_at_any ''eE'' (a @ CHR ''.'' # b) = (a @ CHR ''.'' # b, None)"
  proof (rule split_at_any_none)
    show "\<forall>x \<in> set (a @ CHR ''.'' # b). x \<notin> set ''eE''" unfolding set_append using d(1,3) by (simp only: ball_Un set_simps) simp
  qed
qed

text \<open>A decimal numeral with \<open>k\<close> places is read as the double nearest to it.\<close>

lemma ParseFloat_decimal:
  assumes "\<bar>c\<bar> < 2 ^ 53" "0 < k"
  shows "ParseFloat (decimal_string k c) = Ret (fl64 (of_int c / 10 ^ k))"
proof -
  let ?a = "nat_digits (nat \<bar>c\<bar> div 10 ^ k)" and ?b = "fixed_digits k (nat \<bar>c\<bar> mod 10 ^ k)"
  have d: "list_all is_digit ?a" "list_all is_digit ?b" "?a \<noteq> []" using nat_digits_digits fixed_digits_digits by blast+
  have sign: "read_sign (decimal_string k c) = (c < 0, ?a @ CHR ''.'' # ?b)"
    using digits_no_sign [OF d(1)] d(3) by (cases "?a") (auto simp: decimal_string_def)
  have v: "digits_value (?a @ ?b) = nat \<bar>c\<bar>" by (simp add: digits_value_append digits_value_nat digits_value_fixed div_mult_mod_eq)
  have x: "(of_int c :: rat) * 10 powi (- int k) = of_int c / 10 ^ k" by (simp add: power_int_minus divide_inverse)
  have "\<bar>of_int c :: rat\<bar> * 1 \<le> \<bar>of_int c\<bar> * 10 ^ k" by (intro mult_left_mono one_le_power) auto
  then have "\<bar>of_int c / 10 ^ k\<bar> \<le> \<bar>of_int c :: rat\<bar>" by (simp add: abs_divide field_simps)
  moreover have "\<bar>of_int c :: rat\<bar> \<le> of_int (2 ^ 53)" using assms(1) unfolding of_int_abs [symmetric] of_int_le_iff by simp
  ultimately have small: "\<bar>fl64 (of_int c / 10 ^ k)\<bar> < 2 ^ 1024" by (intro fl64_small) simp
  show ?thesis
    unfolding ParseFloat_def sign using split_digits [OF d(1,2)] d small
    by (simp add: Let_def v x)
qed

lemma ParseFloat_go_itoa:
  assumes "\<bar>c\<bar> < 2 ^ 53"
  shows "ParseFloat (go_itoa c) = Ret (of_int c)"
proof -
  let ?a = "nat_digits (nat \<bar>c\<bar>)"
  have d: "list_all is_digit ?a" "?a \<noteq> []" using nat_digits_digits by blast+
  have sign: "read_sign (go_itoa c) = (c < 0, ?a)"
    using digits_no_sign [OF d(1)] by (cases "c < 0") (simp_all add: go_itoa_def)
  have f: "fl64 (of_int c) = of_int c" using assms by (intro fl64_of_int) simp
  have "\<bar>of_int c :: rat\<bar> \<le> of_int (2 ^ 53)" using assms unfolding of_int_abs [symmetric] of_int_le_iff by simp
  then have small: "\<bar>of_int c :: rat\<bar> < 2 ^ 1024" using fl64_small [of "of_int c"] f by simp
  then have "- of_int c < (2 ^ 1024 :: rat)" "c < 2 ^ 1024" using assms by simp_all
  note small = small this
  show ?thesis
    unfolding ParseFloat_def sign using split_digits [OF d(1), of "[]"] d small f
    by (simp add: Let_def digits_value_nat fl64_uminus)
qed

text \<open>Any double, written with \<open>k\<close> places or as whole cents, is read as the double nearest to what was written.\<close>

definition signed :: "bool \<Rightarrow> rat \<Rightarrow> rat" where
  "signed neg r = (if neg then - r else r)"

definition to_places :: "nat \<Rightarrow> rat \<Rightarrow> rat" where
  "to_places k x = signed (x < 0) (fl64 (of_int (rne (\<bar>x\<bar> * 10 ^ k)) / 10 ^ k))"

definition to_cents :: "rat \<Rightarrow> rat" where
  "to_cents x = signed (fl64 (x * 100) < 0) (fl64 (of_int (rne \<bar>fl64 (x * 100)\<bar>) / 100))"

lemma ParseFloat_signed_decimal:
  assumes "n < 2 ^ 53" "0 < k"
  shows "ParseFloat ((if neg then ''-'' else '''') @ nat_digits (n div 10 ^ k) @ ''.'' @ fixed_digits k (n mod 10 ^ k))
    = Ret (signed neg (fl64 (of_nat n / 10 ^ k)))"
proof -
  have c: "\<bar>int n\<bar> < 2 ^ 53" "\<bar>- int n\<bar> < 2 ^ 53" using assms(1) by simp_all
  show ?thesis
  proof (cases "neg \<and> n = 0")
    case True
    have d: "list_all is_digit (nat_digits 0)" "list_all is_digit (fixed_digits k 0)" "nat_digits 0 \<noteq> []"
      using nat_digits_digits fixed_digits_digits by blast+
    have v: "digits_value (nat_digits 0 @ fixed_digits k 0) = 0"
      using digits_value_fixed [of k 0] by (simp add: digits_value_append digits_value_nat)
    show ?thesis using True split_digits [OF d(1,2)] d by (simp add: ParseFloat_def Let_def v signed_def)
  next
    case False
    show ?thesis
    proof (cases neg)
      case True
      with False show ?thesis using ParseFloat_decimal [OF c(2) assms(2)] by (simp add: decimal_string_def signed_def fl64_uminus)
    next
      case False
      then show ?thesis using ParseFloat_decimal [OF c(1) assms(2)] by (simp add: decimal_string_def signed_def)
    qed
  qed
qed

lemma rne_small: "\<bar>x\<bar> < 2 ^ 52 \<Longrightarrow> nat (rne \<bar>x\<bar>) < 2 ^ 53 \<and> 0 \<le> rne \<bar>x\<bar>"
proof -
  assume x: "\<bar>x\<bar> < 2 ^ 52"
  have "rne (of_int 0) \<le> rne \<bar>x\<bar>" "rne \<bar>x\<bar> \<le> rne (of_int (2 ^ 52))" using x by (intro rne_mono; simp)+
  then have "0 \<le> rne \<bar>x\<bar>" "rne \<bar>x\<bar> \<le> 2 ^ 52" unfolding rne_of_int .
  then show ?thesis by (simp add: nat_less_iff)
qed

lemma ParseFloat_written:
  assumes "\<bar>x * 10 ^ k\<bar> < 2 ^ 52" "0 < k"
  shows "ParseFloat (FormatFloat k x) = Ret (to_places k x)"
proof -
  have a: "\<bar>x * 10 ^ k\<bar> = \<bar>x\<bar> * 10 ^ k" by (simp add: abs_mult)
  note n = rne_small [OF assms(1), unfolded a]
  have "(of_nat (nat (rne (\<bar>x\<bar> * 10 ^ k))) :: rat) = of_int (rne (\<bar>x\<bar> * 10 ^ k))" using n by simp
  with ParseFloat_signed_decimal [of "nat (rne (\<bar>x\<bar> * 10 ^ k))" k "x < 0"] n assms(2) show ?thesis
    by (simp add: FormatFloat_def fmt_fixed_def Let_def to_places_def)
qed

lemma ParseFloat_whole:
  assumes "n < 2 ^ 53"
  shows "ParseFloat ((if neg then ''-'' else '''') @ nat_digits n) = Ret (signed neg (of_nat n))"
proof -
  have c: "\<bar>int n\<bar> < 2 ^ 53" "\<bar>- int n\<bar> < 2 ^ 53" using assms by simp_all
  show ?thesis
  proof (cases "neg \<and> n = 0")
    case True
    have d: "list_all is_digit (nat_digits 0)" "nat_digits 0 \<noteq> []" using nat_digits_digits by blast+
    show ?thesis using True split_digits [OF d(1), of "[]"] d by (simp add: ParseFloat_def Let_def digits_value_nat signed_def)
  next
    case False
    then show ?thesis using ParseFloat_go_itoa [OF c(1)] ParseFloat_go_itoa [OF c(2)] by (auto simp: go_itoa_def signed_def)
  qed
qed

lemma NxToFloat_written:
  assumes "\<bar>fl64 (x * 100)\<bar> < 2 ^ 52"
  shows "NxToFloat (FloatToNx x 2) 2 = Ret (to_cents x)"
proof -
  define y where "y = fl64 (x * 100)"
  note n = rne_small [OF assms [folded y_def]]
  have "(of_nat (nat (rne \<bar>y\<bar>)) :: rat) = of_int (rne \<bar>y\<bar>)" using n by simp
  with ParseFloat_whole [of "nat (rne \<bar>y\<bar>)" "y < 0"] n show ?thesis
    by (simp add: NxToFloat_def FloatToNx_def FormatFloat_def to_cents_def y_def [symmetric] signed_def flip: fl64_uminus)
qed

text \<open>A double that is a decimal with \<open>k\<close> places.\<close>

definition is_decimal :: "nat \<Rightarrow> rat \<Rightarrow> bool" where
  "is_decimal k x \<longleftrightarrow> (let m = rne (x * 10 ^ k) in \<bar>m\<bar> < 2 ^ 50 \<and> x = fl64 (of_int m / 10 ^ k))"

lemma ParseFloat_FormatFloat:
  assumes "is_decimal k x" "0 < k" "k \<le> 4"
  shows "ParseFloat (FormatFloat k x) = Ret x"
proof -
  define m where "m = rne (x * 10 ^ k)"
  have m: "\<bar>m\<bar> < 2 ^ 50" "x = fl64 (of_int m / 10 ^ k)" using assms(1) by (simp_all add: is_decimal_def Let_def m_def)
  then have "FormatFloat k x = decimal_string k m" using assms fmt_fixed_decimal [of m k] by (simp add: FormatFloat_def)
  then show ?thesis using ParseFloat_decimal [of m k] assms(2) m by simp
qed

text \<open>Dollars with two places times 100, rounded to the nearest double, are less than half a cent off.\<close>

lemma dollars_times_100:
  assumes "\<bar>m\<bar> < 2 ^ 50"
  shows "\<bar>fl64 (fl64 (of_int m / 100) * 100) - of_int m\<bar> < 1 / 2"
proof -
  let ?x = "of_int m / 100 :: rat" and ?y = "fl64 (of_int m / 100)"
  have mm: "\<bar>of_int m :: rat\<bar> < 2 ^ 50" using assms by (simp flip: of_int_abs)
  have one: "m = 0 \<or> (1 :: rat) \<le> \<bar>of_int m\<bar>" by (cases "m = 0") (simp_all flip: of_int_abs)
  then have "?x = 0 \<or> 1 / 10000 \<le> \<bar>?x\<bar>" by (auto simp: abs_divide)
  from fl64_abs_err [OF this] have e: "\<bar>?y - ?x\<bar> \<le> \<bar>?x\<bar> / 2 ^ 53" .
  then have e2: "\<bar>?y * 100 - of_int m\<bar> \<le> \<bar>of_int m\<bar> / 2 ^ 53" by (simp add: abs_divide abs_if split: if_splits)
  have b: "\<bar>of_int m :: rat\<bar> / 2 ^ 53 < 1 / 8" using mm by simp
  have "?y * 100 = 0 \<or> 1 / 10000 \<le> \<bar>?y * 100\<bar>"
  proof (cases "m = 0")
    case False
    with one have "(1 :: rat) \<le> \<bar>of_int m\<bar>" by simp
    then have "1 / 10000 \<le> \<bar>?y * 100\<bar>" using e2 b by linarith
    then show ?thesis ..
  qed simp
  from fl64_abs_err [OF this] have "\<bar>fl64 (?y * 100) - ?y * 100\<bar> \<le> \<bar>?y * 100\<bar> / 2 ^ 53" .
  moreover have "\<bar>?y * 100\<bar> < 2 ^ 50 + 1" using e2 b mm by linarith
  then have "\<bar>?y * 100\<bar> / 2 ^ 53 < 1 / 4" by simp
  ultimately show ?thesis using e2 b by linarith
qed

lemma FloatToNx_cents:
  assumes "\<bar>m\<bar> < 2 ^ 50"
  shows "FloatToNx (fl64 (of_int m / 100)) 2 = go_itoa m"
proof -
  let ?z = "fl64 (fl64 (of_int m / 100) * 100)"
  have e: "\<bar>?z - of_int m\<bar> < 1 / 2" by (rule dollars_times_100 [OF assms])
  have neg: "?z < 0 \<longleftrightarrow> m < 0"
  proof (cases "m < 0")
    case True
    then have "(of_int m :: rat) \<le> - 1" by simp
    with e show ?thesis using True by linarith
  next
    case False
    then have "0 \<le> ?z" by (intro fl64_nonneg) (simp add: fl64_nonneg)
    with False show ?thesis by simp
  qed
  have "\<bar>\<bar>?z\<bar> - of_int \<bar>m\<bar>\<bar> < 1 / 2" using e abs_triangle_ineq3 [of ?z "of_int m"] by simp
  then have "rne \<bar>?z\<bar> = \<bar>m\<bar>" by (rule rne_unique)
  then show ?thesis by (simp add: FloatToNx_def FormatFloat_def go_itoa_def neg)
qed

lemma NxToFloat_FloatToNx:
  assumes "is_decimal 2 x"
  shows "NxToFloat (FloatToNx x 2) 2 = Ret x"
proof -
  define m where "m = rne (x * 10 ^ 2)"
  have m: "\<bar>m\<bar> < 2 ^ 50" "x = fl64 (of_int m / 10 ^ 2)" using assms by (simp_all add: is_decimal_def Let_def m_def)
  then show ?thesis using FloatToNx_cents [of m] ParseFloat_go_itoa [of m] by (simp add: NxToFloat_def)
qed

section \<open>Segments survive\<close>

text \<open>
  What a segment must be like to be read back: its ints have 64 bits and its floats are below 2 to the 52 in units of the
  last place that is written.  An empty quantity or weight of an \<open>L0\<close> is not read, and the parser of \<open>BX\<close>
  overwrites the purpose code with the method type code.
\<close>

definition fits :: "nat \<Rightarrow> rat \<Rightarrow> bool" where
  "fits k x \<longleftrightarrow> \<bar>x * 10 ^ k\<bar> < 2 ^ 52"

definition parsable :: "Segment \<Rightarrow> bool" where
  "parsable seg = (case seg of SegBX s \<Rightarrow> False
     | SegGE s \<Rightarrow> in64 (ge_NumberOfTransactionSetsIncluded s) \<and> in64 (ge_GroupControlNumber s)
     | SegGS s \<Rightarrow> in64 (gs_GroupControlNumber s)
     | SegIEA s \<Rightarrow> in64 (iea_NumberOfIncludedFunctionalGroups s) \<and> in64 (iea_InterchangeControlNumber s)
     | SegISA s \<Rightarrow> in64 (isa_InterchangeControlNumber s) \<and> in64 (isa_AcknowledgementRequested s)
     | SegL0 s \<Rightarrow> in64 (l0_LadingLineItemNumber s) \<and> fits 3 (l0_BilledRatedAsQuantity s) \<and> l0_BilledRatedAsQuantity s \<noteq> 0
         \<and> fits 3 (l0_Weight s) \<and> l0_Weight s \<noteq> 0
     | SegL1 s \<Rightarrow> in64 (l1_LadingLineItemNumber s) \<and> fits 2 (l1_FreightRate s) \<and> \<bar>fl64 (l1_Charge s * 100)\<bar> < 2 ^ 52
     | SegL10 s \<Rightarrow> fits 3 (l10_Weight s)
     | SegLX s \<Rightarrow> in64 (lx_AssignedNumber s)
     | SegMEA s \<Rightarrow> fits 3 (mea_MeasurementValue s)
     | SegSE s \<Rightarrow> in64 (se_NumberOfIncludedSegments s)
     | _ \<Rightarrow> True)"

text \<open>A segment as it is read back: its floats are those of the decimals they were written as.\<close>

definition as_written :: "Segment \<Rightarrow> Segment" where
  "as_written seg = (case seg of
       SegL0 s \<Rightarrow> SegL0 (s\<lparr>l0_BilledRatedAsQuantity := to_places 3 (l0_BilledRatedAsQuantity s), l0_Weight := to_places 3 (l0_Weight s)\<rparr>)
     | SegL1 s \<Rightarrow> SegL1 (s\<lparr>l1_FreightRate := to_places 2 (l1_FreightRate s), l1_Charge := to_cents (l1_Charge s)\<rparr>)
     | SegL10 s \<Rightarrow> SegL10 (s\<lparr>l10_Weight := to_places 3 (l10_Weight s)\<rparr>)
     | SegMEA s \<Rightarrow> SegMEA (s\<lparr>mea_MeasurementValue := to_places 3 (mea_MeasurementValue s)\<rparr>)
     | _ \<Rightarrow> seg)"

text \<open>A segment whose floats are decimals with the places that are written.\<close>

definition decimal_segment :: "Segment \<Rightarrow> bool" where
  "decimal_segment seg = (case seg of
       SegL0 s \<Rightarrow> is_decimal 3 (l0_BilledRatedAsQuantity s) \<and> is_decimal 3 (l0_Weight s)
     | SegL1 s \<Rightarrow> is_decimal 2 (l1_FreightRate s) \<and> is_decimal 2 (l1_Charge s)
     | SegL10 s \<Rightarrow> is_decimal 3 (l10_Weight s)
     | SegMEA s \<Rightarrow> is_decimal 3 (mea_MeasurementValue s)
     | _ \<Rightarrow> True)"

lemma decimal_to_places:
  assumes "is_decimal k x" "0 < k" "k \<le> 4" "fits k x"
  shows "to_places k x = x"
  using ParseFloat_FormatFloat [OF assms(1-3)] ParseFloat_written [OF assms(4) [unfolded fits_def] assms(2)] by simp

lemma decimal_to_cents:
  assumes "is_decimal 2 x" "\<bar>fl64 (x * 100)\<bar> < 2 ^ 52"
  shows "to_cents x = x"
  using NxToFloat_FloatToNx [OF assms(1)] NxToFloat_written [OF assms(2)] by simp

lemma FA1_roundtrip: "FA1_Parse r (tl (FA1_StringArray s)) = Ret s"
  by (cases s; cases r; simp add: FA1_Parse_def FA1_StringArray_def)

lemma FA2_roundtrip: "FA2_Parse r (tl (FA2_StringArray s)) = Ret s"
  by (cases s; cases r; simp add: FA2_Parse_def FA2_StringArray_def)

lemma GE_roundtrip: "in64 (ge_NumberOfTransactionSetsIncluded s) \<Longrightarrow> in64 (ge_GroupControlNumber s) \<Longrightarrow> GE_Parse r (tl (GE_StringArray s)) = Ret s"
  by (cases s; cases r; simp add: GE_Parse_def GE_StringArray_def)

lemma GS_roundtrip: "in64 (gs_GroupControlNumber s) \<Longrightarrow> GS_Parse r (tl (GS_StringArray s)) = Ret s"
  by (cases s; cases r; simp add: GS_Parse_def GS_StringArray_def)

lemma HL_roundtrip: "HL_Parse r (tl (HL_StringArray s)) = Ret s"
  by (cases s; cases r; simp add: HL_Parse_def HL_StringArray_def)

lemma IEA_roundtrip: "in64 (iea_NumberOfIncludedFunctionalGroups s) \<Longrightarrow> in64 (iea_InterchangeControlNumber s) \<Longrightarrow> IEA_Parse r (tl (IEA_StringArray s)) = Ret s"
  by (cases s; cases r; simp add: IEA_Parse_def IEA_StringArray_def)

lemma ISA_roundtrip: "in64 (isa_InterchangeControlNumber s) \<Longrightarrow> in64 (isa_AcknowledgementRequested s) \<Longrightarrow> ISA_Parse r (tl (ISA_StringArray s)) = Ret s"
  by (cases s; cases r; simp add: ISA_Parse_def ISA_StringArray_def)

lemma L0_roundtrip:
  "in64 (l0_LadingLineItemNumber s) \<Longrightarrow> fits 3 (l0_BilledRatedAsQuantity s) \<Longrightarrow> l0_BilledRatedAsQuantity s \<noteq> 0 \<Longrightarrow>
     fits 3 (l0_Weight s) \<Longrightarrow> l0_Weight s \<noteq> 0 \<Longrightarrow> L0_Parse r (tl (L0_StringArray s))
       = Ret (s\<lparr>l0_BilledRatedAsQuantity := to_places 3 (l0_BilledRatedAsQuantity s), l0_Weight := to_places 3 (l0_Weight s)\<rparr>)"
  by (cases s; cases r; simp add: L0_Parse_def L0_StringArray_def ParseFloat_written fits_def blank_zero_def Let_def)

lemma L1_roundtrip:
  "in64 (l1_LadingLineItemNumber s) \<Longrightarrow> fits 2 (l1_FreightRate s) \<Longrightarrow> \<bar>fl64 (l1_Charge s * 100)\<bar> < 2 ^ 52 \<Longrightarrow>
     L1_Parse r (tl (L1_StringArray s)) = Ret (s\<lparr>l1_FreightRate := to_places 2 (l1_FreightRate s), l1_Charge := to_cents (l1_Charge s)\<rparr>)"
  by (cases s; cases r; simp add: L1_Parse_def L1_StringArray_def ParseFloat_written fits_def NxToFloat_written)

lemma L10_roundtrip:
  "fits 3 (l10_Weight s) \<Longrightarrow> L10_Parse r (tl (L10_StringArray s)) = Ret (s\<lparr>l10_Weight := to_places 3 (l10_Weight s)\<rparr>)"
  by (cases s; cases r; simp add: L10_Parse_def L10_StringArray_def ParseFloat_written fits_def)

lemma LX_roundtrip: "in64 (lx_AssignedNumber s) \<Longrightarrow> LX_Parse r (tl (LX_StringArray s)) = Ret s"
  by (cases s; cases r; simp add: LX_Parse_def LX_StringArray_def)

lemma MEA_roundtrip:
  "fits 3 (mea_MeasurementValue s) \<Longrightarrow>
     MEA_Parse r (tl (MEA_StringArray s)) = Ret (s\<lparr>mea_MeasurementValue := to_places 3 (mea_MeasurementValue s)\<rparr>)"
  by (cases s; cases r; simp add: MEA_Parse_def MEA_StringArray_def ParseFloat_written fits_def)

lemma N1_roundtrip: "N1_Parse r (tl (N1_StringArray s)) = Ret s"
  by (cases s; cases r; simp add: N1_Parse_def N1_StringArray_def Let_def)

lemma N3_roundtrip: "N3_Parse r (tl (N3_StringArray s)) = Ret s"
  by (cases s; cases r; simp add: N3_Parse_def N3_StringArray_def)

lemma N4_roundtrip: "N4_Parse r (tl (N4_StringArray s)) = Ret s"
  by (cases s; cases r; simp add: N4_Parse_def N4_StringArray_def)

lemma N9_roundtrip: "N9_Parse r (tl (N9_StringArray s)) = Ret s"
  by (cases s; cases r; simp add: N9_Parse_def N9_StringArray_def Let_def)

lemma NTE_roundtrip: "NTE_Parse r (tl (NTE_StringArray s)) = Ret s"
  by (cases s; cases r; simp add: NTE_Parse_def NTE_StringArray_def)

lemma SE_roundtrip: "in64 (se_NumberOfIncludedSegments s) \<Longrightarrow> SE_Parse r (tl (SE_StringArray s)) = Ret s"
  by (cases s; cases r; simp add: SE_Parse_def SE_StringArray_def)

lemma ST_roundtrip: "ST_Parse r (tl (ST_StringArray s)) = Ret s"
  by (cases s; cases r; simp add: ST_Parse_def ST_StringArray_def)

lemmas segment_roundtrips = FA1_roundtrip FA2_roundtrip GE_roundtrip GS_roundtrip HL_roundtrip IEA_roundtrip ISA_roundtrip L0_roundtrip L1_roundtrip L10_roundtrip LX_roundtrip MEA_roundtrip N1_roundtrip N3_roundtrip N4_roundtrip N9_roundtrip NTE_roundtrip SE_roundtrip ST_roundtrip

lemmas StringArray_defs = BX_StringArray_def FA1_StringArray_def FA2_StringArray_def GE_StringArray_def GS_StringArray_def HL_StringArray_def IEA_StringArray_def ISA_StringArray_def L0_StringArray_def L1_StringArray_def L10_StringArray_def LX_StringArray_def MEA_StringArray_def N1_StringArray_def N3_StringArray_def N4_StringArray_def N9_StringArray_def NTE_StringArray_def SE_StringArray_def ST_StringArray_def

text \<open>C12: every segment but \<open>BX\<close>, and those \<open>L0\<close> that have both a quantity and a weight, is read back from
  the array it is written as, whatever the receiver held before: its texts and its 64-bit ints as they were, its floats
  (below 2 to the 52 in units of the last place) as the doubles nearest to the two or three places that are written.  So a
  segment whose floats are such decimals is read back unchanged.\<close>

theorem segments_roundtrip:
  assumes "parsable seg" "hd (StringArray recv) = hd (StringArray seg)"
  shows "Parse recv (tl (StringArray seg)) = Ret (as_written seg) \<and> (decimal_segment seg \<longrightarrow> as_written seg = seg)"
proof
  show "Parse recv (tl (StringArray seg)) = Ret (as_written seg)"
    using assms
    by (cases seg; cases recv; simp add: parsable_def as_written_def StringArray_defs segment_roundtrips [unfolded StringArray_defs list.sel])
  show "decimal_segment seg \<longrightarrow> as_written seg = seg"
    using assms(1) by (cases seg) (simp_all add: parsable_def as_written_def decimal_segment_def decimal_to_places decimal_to_cents)
qed

text \<open>An \<open>L1\<close> with a negative charge, an \<open>L0\<close> with both numbers, and a measurement between two thousandths.\<close>

definition sample_L1 :: L1 where
  "sample_L1 = \<lparr>l1_LadingLineItemNumber = - 1, l1_FreightRate = 3, l1_RateValueQualifier = ''RC'', l1_Charge = - 5,
     l1_SpecialChargeDescription = ''LHS''\<rparr>"

definition sample_L0 :: L0 where
  "sample_L0 = \<lparr>l0_LadingLineItemNumber = 1, l0_BilledRatedAsQuantity = 2, l0_BilledRatedAsQualifier = ''FR'', l0_Weight = 12,
     l0_WeightQualifier = ''B'', l0_WeightUnitCode = ''L''\<rparr>"

definition sample_MEA :: MEA where
  "sample_MEA = \<lparr>mea_MeasurementReferenceIDCode = ''AA'', mea_MeasurementQualifier = ''B'', mea_MeasurementValue = 1 / 16\<rparr>"

lemma is_decimal_int: "\<bar>n * 10 ^ k\<bar> < 2 ^ 50 \<Longrightarrow> \<bar>n\<bar> \<le> 2 ^ 53 \<Longrightarrow> is_decimal k (of_int n)"
  using rne_of_int [of "n * 10 ^ k"] fl64_of_int [of n] by (simp add: is_decimal_def)

theorem segments_roundtrip_witness:
  "Parse (SegL1 (sample_L1\<lparr>l1_Charge := 0\<rparr>)) (tl (StringArray (SegL1 sample_L1))) = Ret (SegL1 sample_L1)
   \<and> Parse (SegL0 zero_L0) (tl (StringArray (SegL0 sample_L0))) = Ret (SegL0 sample_L0)
   \<and> Parse (SegMEA sample_MEA) (tl (StringArray (SegMEA sample_MEA)))
       = Ret (SegMEA (sample_MEA\<lparr>mea_MeasurementValue := fl64 (62 / 1000)\<rparr>))"
proof (intro conjI)
  have charge: "fl64 (- 500) = - 500" using fl64_of_int [of "- 500"] by simp
  show "Parse (SegL1 (sample_L1\<lparr>l1_Charge := 0\<rparr>)) (tl (StringArray (SegL1 sample_L1))) = Ret (SegL1 sample_L1)"
    using segments_roundtrip [of "SegL1 sample_L1" "SegL1 (sample_L1\<lparr>l1_Charge := 0\<rparr>)"] is_decimal_int [of 3 2] is_decimal_int [of "- 5" 2]
    by (simp add: parsable_def decimal_segment_def fits_def in64_def charge sample_L1_def L1_StringArray_def)
  show "Parse (SegL0 zero_L0) (tl (StringArray (SegL0 sample_L0))) = Ret (SegL0 sample_L0)"
    using segments_roundtrip [of "SegL0 sample_L0" "SegL0 zero_L0"] is_decimal_int [of 2 3] is_decimal_int [of 12 3]
    by (simp add: parsable_def decimal_segment_def fits_def in64_def sample_L0_def L0_StringArray_def)
  have "\<lfloor>125 / 2 :: rat\<rfloor> = 62" by (intro floor_unique) simp_all
  then have h: "rne (125 / 2) = 62" by (simp add: rne_def Let_def)
  show "Parse (SegMEA sample_MEA) (tl (StringArray (SegMEA sample_MEA))) = Ret (SegMEA (sample_MEA\<lparr>mea_MeasurementValue := fl64 (62 / 1000)\<rparr>))"
    using segments_roundtrip [of "SegMEA sample_MEA" "SegMEA sample_MEA"]
    by (simp add: parsable_def fits_def sample_MEA_def as_written_def to_places_def signed_def h)
qed

section \<open>The text of an invoice\<close>

text \<open>\<open>strings.Split(s, string(c))\<close>.\<close>

fun split_on :: "char \<Rightarrow> string \<Rightarrow> string list" where
  "split_on c [] = [[]]"
| "split_on c (x # s) = (if x = c then [] # split_on c s
     else (case split_on c s of [] \<Rightarrow> [[x]] | f # fs \<Rightarrow> (x # f) # fs))"

lemma split_on_none: "c \<notin> set a \<Longrightarrow> split_on c a = [a]"
  by (induction a) auto

lemma split_on_hit: "c \<notin> set a \<Longrightarrow> split_on c (a @ c # t) = a # split_on c t"
  by (induction a) auto

lemma split_on_Join: "fs \<noteq> [] \<Longrightarrow> \<forall>f \<in> set fs. c \<notin> set f \<Longrightarrow> split_on c (strings_Join [c] fs) = fs"
proof (induction "[c]" fs rule: strings_Join.induct)
  case (3 s t ss)
  then show ?case by (simp add: split_on_hit)
qed (simp_all add: split_on_none)

text \<open>A record none of whose fields has to be quoted.\<close>

definition plain_record :: "string list \<Rightarrow> bool" where
  "plain_record record \<longleftrightarrow> record \<noteq> [] \<and> list_all (\<lambda>f. \<not> fieldNeedsQuotes f) record"

lemma plain_field: "\<not> fieldNeedsQuotes f \<Longrightarrow> CHR ''*'' \<notin> set f \<and> CHR 0x0A \<notin> set f"
  by (cases f) (auto simp: fieldNeedsQuotes_def list_ex_iff)

lemma Join_no_newline: "\<forall>f \<in> set fs. x \<notin> set f \<Longrightarrow> x \<notin> set sep \<Longrightarrow> x \<notin> set (strings_Join sep fs)"
  by (induction sep fs rule: strings_Join.induct) auto

lemma write_plain:
  assumes "plain_record r"
  shows "\<exists>line. write_record r = line @ [CHR 0x0A] \<and> CHR 0x0A \<notin> set line \<and> split_on (CHR ''*'') line = r"
proof -
  have "map quote_field r = r" using assms by (auto simp: plain_record_def quote_field_def list_all_iff intro: map_idI)
  moreover have "\<forall>f \<in> set r. CHR ''*'' \<notin> set f" "\<forall>f \<in> set r. CHR 0x0A \<notin> set f"
    using assms plain_field by (auto simp: plain_record_def list_all_iff)
  ultimately show ?thesis using assms split_on_Join [of r "CHR ''*''"] Join_no_newline [of r "CHR 0x0A" "''*''"]
    by (simp add: write_record_def plain_record_def)
qed

lemma WriteAll_read:
  "list_all plain_record rs \<Longrightarrow> map (split_on (CHR ''*'')) (butlast (split_on (CHR 0x0A) (WriteAll rs))) = rs"
proof (induction rs)
  case (Cons r rs)
  then obtain line where "write_record r = line @ [CHR 0x0A]" "CHR 0x0A \<notin> set line" "split_on (CHR ''*'') line = r"
    using write_plain [of r] by auto
  moreover have "split_on (CHR 0x0A) (WriteAll rs) \<noteq> []" by (cases "WriteAll rs") (auto split: list.splits)
  ultimately show ?case using Cons by (simp add: WriteAll_def split_on_hit)
qed (simp add: WriteAll_def)

text \<open>The text of an invoice, cut at its line breaks and asterisks, gives back the arrays of its
  segments when no field of them has to be quoted.\<close>

theorem edi_text_roundtrip:
  assumes "Segments invoice = Ret rs" "list_all plain_record rs"
  shows "\<exists>txt. EDIString invoice = Ret txt \<and> map (split_on (CHR ''*'')) (butlast (split_on (CHR 0x0A) txt)) = rs"
  using assms WriteAll_read [of rs] by (simp add: EDIString_def)

section \<open>What a generated invoice holds\<close>

text \<open>The units the generator knows; an item with another one has no \<open>L0\<close>.\<close>

definition known_unit :: "ShipmentLineItem \<Rightarrow> bool" where
  "known_unit lineItem \<longleftrightarrow> it_MeasurementUnit1 (li_Tariff400ngItem lineItem) \<in> {ItemMeasurementUnitWEIGHT, ItemMeasurementUnitCUBICFOOT,
     ItemMeasurementUnitEACH, ItemMeasurementUnitFLATRATE, ItemMeasurementUnitFUELPERCENTAGE, ItemMeasurementUnitCONTAINER,
     ItemMeasurementUnitMONETARYVALUE, ItemMeasurementUnitDAYS, ItemMeasurementUnitHOURS, ItemMeasurementUnitNONE}"

lemma MakeL0Segment_known: "MakeL0Segment lineItem w \<noteq> None \<longleftrightarrow> known_unit lineItem"
  by (auto simp: MakeL0Segment_def known_unit_def unitBasedMeasurementUnits_def weightBasedMeasurements_def Let_def)

definition item_segments :: "rat \<Rightarrow> ShipmentLineItem \<Rightarrow> Segment list" where
  "item_segments w lineItem = [SegHL (MakeHLSegment lineItem), SegL0 (the (MakeL0Segment lineItem w)),
     SegL1 \<lparr>l1_LadingLineItemNumber = 0, l1_FreightRate = 0, l1_RateValueQualifier = ''RC'',
       l1_Charge = Cents_ToDollarFloat (the (li_AmountCents lineItem)),
       l1_SpecialChargeDescription = it_Code (li_Tariff400ngItem lineItem)\<rparr>]"

text \<open>The lines of an item: those segments, but nothing for an \<open>L0\<close> that is nil.\<close>

definition item_lines :: "rat \<Rightarrow> ShipmentLineItem \<Rightarrow> Segment option list" where
  "item_lines w lineItem = [Some (item_segments w lineItem ! 0), map_option SegL0 (MakeL0Segment lineItem w),
     Some (item_segments w lineItem ! 2)]"

lemma line_item_segments_Ret:
  "line_item_segments w items = Ret segs \<longleftrightarrow>
     list_all (\<lambda>li. li_AmountCents li \<noteq> None) items \<and> segs = concat (map (item_lines w) items)"
  by (induction items arbitrary: segs) (auto simp: outcome_simps MakeL1Segment_def item_segments_def item_lines_def)

lemma obind_Ret: "obind r Ret = r"
  by (cases r) simp_all

lemma string_arrays_append [simp]:
  "string_arrays (a @ b) = obind (string_arrays a) (\<lambda>x. obind (string_arrays b) (\<lambda>y. Ret (x @ y)))"
  by (induction a) (auto simp: obind_assoc obind_Ret)

lemma string_arrays_item:
  "string_arrays (item_lines w li) = (if known_unit li then Ret (map StringArray (item_segments w li)) else Panic)"
  using MakeL0Segment_known [of li w] by (cases "MakeL0Segment li w") (simp_all add: item_lines_def item_segments_def)

lemma string_arrays_items:
  "string_arrays (concat (map (item_lines w) items)) =
     (if list_all known_unit items then Ret (map StringArray (concat (map (item_segments w) items))) else Panic)"
  by (induction items) (simp_all add: string_arrays_item)

lemma string_arrays_Some [simp]: "string_arrays (map Some segs) = Ret (map StringArray segs)"
  by (induction segs) auto

lemma heading_lengths:
  "getHeadingSegments shipment i number = Ret segs \<Longrightarrow> list_all (\<lambda>s. hd (StringArray s) \<noteq> ''L1'' \<and> hd (StringArray s) \<noteq> ''L0'') segs
     \<and> (length segs = 13 \<longleftrightarrow> AcceptedShipmentOffer (is_Shipment shipment) \<noteq> Ret None) \<and> length segs \<in> {0, 13}"
  by (auto simp: getHeadingSegments_def Let_def outcome_simps heading_segments_def StringArray_defs split: option.splits if_splits)

lemma item_lines_length: "length (concat (map (item_lines w) items)) = length (concat (map (item_segments w) items))"
  by (induction items) (simp_all add: item_lines_def item_segments_def)

text \<open>The arrays of a generated invoice.\<close>

definition transaction_arrays :: "Invoice858C \<Rightarrow> Segment list \<Rightarrow> string list list" where
  "transaction_arrays invoice body = [ISA_StringArray (inv_ISA invoice), GS_StringArray (inv_GS invoice), [''ST'', ''858'', padded 4 1]]
     @ map StringArray body
     @ [[''SE'', go_itoa (int (length body) + 2), padded 4 1], GE_StringArray (inv_GE invoice), IEA_StringArray (inv_IEA invoice)]"

lemma Generate858C_arrays:
  assumes "Generate858C shipment i number production nextVal now = Ret invoice"
  shows "\<exists>heading icn weightLbs. nextVal = Ret icn \<and> getHeadingSegments shipment i number = Ret heading
     \<and> shp_NetWeight (is_Shipment shipment) = Some weightLbs
     \<and> list_all (\<lambda>li. li_AmountCents li \<noteq> None) (shp_ShipmentLineItems (is_Shipment shipment))
     \<and> Segments invoice = (if list_all known_unit (shp_ShipmentLineItems (is_Shipment shipment))
         then Ret (transaction_arrays invoice
           (heading @ concat (map (item_segments (weight_centi weightLbs)) (shp_ShipmentLineItems (is_Shipment shipment)))))
         else Panic)
     \<and> isa_InterchangeControlNumber (inv_ISA invoice) = icn \<and> gs_GroupControlNumber (inv_GS invoice) = icn
     \<and> inv_GE invoice = \<lparr>ge_NumberOfTransactionSetsIncluded = 1, ge_GroupControlNumber = icn\<rparr>
     \<and> inv_IEA invoice = \<lparr>iea_NumberOfIncludedFunctionalGroups = 1, iea_InterchangeControlNumber = icn\<rparr>"
proof -
  from assms obtain icn segs where n: "nextVal = Ret icn" and g: "generate858CShipment shipment i number 1 = Ret segs"
    and inv: "inv_Shipment invoice = segs" "isa_InterchangeControlNumber (inv_ISA invoice) = icn"
      "gs_GroupControlNumber (inv_GS invoice) = icn" "inv_GE invoice = \<lparr>ge_NumberOfTransactionSetsIncluded = 1, ge_GroupControlNumber = icn\<rparr>"
      "inv_IEA invoice = \<lparr>iea_NumberOfIncludedFunctionalGroups = 1, iea_InterchangeControlNumber = icn\<rparr>"
    by (auto simp: Generate858C_def outcome_simps)
  from g obtain heading weightLbs where h: "getHeadingSegments shipment i number = Ret heading"
    and w: "shp_NetWeight (is_Shipment shipment) = Some weightLbs"
    and a: "list_all (\<lambda>li. li_AmountCents li \<noteq> None) (shp_ShipmentLineItems (is_Shipment shipment))"
    and s: "segs = map Some (SegST \<lparr>st_TransactionSetIdentifierCode = ''858'', st_TransactionSetControlNumber = padded 4 1\<rparr> # heading)
        @ concat (map (item_lines (weight_centi weightLbs)) (shp_ShipmentLineItems (is_Shipment shipment)))
        @ [Some (SegSE \<lparr>se_NumberOfIncludedSegments = int (length (heading @ concat (map (item_segments (weight_centi weightLbs))
             (shp_ShipmentLineItems (is_Shipment shipment))))) + 2, se_TransactionSetControlNumber = padded 4 1\<rparr>)]"
    by (auto simp: generate858CShipment_def getLineItemSegments_def Let_def outcome_simps line_item_segments_Ret item_lines_length
        split: option.splits)
  have "Segments invoice = (if list_all known_unit (shp_ShipmentLineItems (is_Shipment shipment))
      then Ret (transaction_arrays invoice
        (heading @ concat (map (item_segments (weight_centi weightLbs)) (shp_ShipmentLineItems (is_Shipment shipment)))))
      else Panic)"
    unfolding Segments_def inv(1) s string_arrays_append string_arrays_Some string_arrays_items
    by (simp add: transaction_arrays_def ST_StringArray_def SE_StringArray_def)
  with n h w a inv show ?thesis by blast
qed

text \<open>The envelope rules of X12: the interchange, the group and the transaction set are closed by the
  numbers they were opened with, and \<open>SE\<close> counts the segments from \<open>ST\<close> to itself.\<close>

definition envelope_ok :: "string list list \<Rightarrow> bool" where
  "envelope_ok rs \<longleftrightarrow> (let n = length rs in 6 \<le> n
     \<and> map hd (take 3 rs) = [''ISA'', ''GS'', ''ST''] \<and> map hd (drop (n - 3) rs) = [''SE'', ''GE'', ''IEA'']
     \<and> rs ! 0 ! 13 = rs ! (n - 1) ! 2 \<and> rs ! 1 ! 6 = rs ! (n - 2) ! 2 \<and> rs ! 2 ! 2 = rs ! (n - 3) ! 2
     \<and> rs ! (n - 1) ! 1 = ''1'' \<and> rs ! (n - 2) ! 1 = ''1'' \<and> rs ! (n - 3) ! 1 = go_itoa (int n - 4))"

text \<open>The charges of an invoice: the fourth elements of its \<open>L1\<close> segments.\<close>

definition charges_of :: "string list list \<Rightarrow> string list" where
  "charges_of rs = map (\<lambda>r. r ! 4) (filter (\<lambda>r. hd r = ''L1'') rs)"

lemma envelope_transaction:
  assumes "isa_InterchangeControlNumber (inv_ISA invoice) = icn" "gs_GroupControlNumber (inv_GS invoice) = icn"
    "inv_GE invoice = \<lparr>ge_NumberOfTransactionSetsIncluded = 1, ge_GroupControlNumber = icn\<rparr>"
    "inv_IEA invoice = \<lparr>iea_NumberOfIncludedFunctionalGroups = 1, iea_InterchangeControlNumber = icn\<rparr>"
  shows "envelope_ok (transaction_arrays invoice body)"
proof -
  have one: "go_itoa 1 = ''1''" by (simp add: go_itoa_def nat_digits.simps digit_char_def)
  show ?thesis using assms
    by (simp add: envelope_ok_def transaction_arrays_def Let_def ISA_StringArray_def GS_StringArray_def GE_StringArray_def
        IEA_StringArray_def one nth_Cons nth_append add.commute [of _ 2])
qed

text \<open>C33: an invoice the generator returns can be written exactly when every line item has one of the ten named measurement
  units (an item with another unit gives a nil \<open>L0\<close>, which panics when it is written), and then its arrays keep the
  envelope rules of X12: matching control numbers and the right number of segments.\<close>

theorem invoice_envelope:
  assumes "Generate858C shipment invoiceID number production nextVal now = Ret invoice"
  shows "if list_all known_unit (shp_ShipmentLineItems (is_Shipment shipment))
    then \<exists>rs. Segments invoice = Ret rs \<and> envelope_ok rs
    else Segments invoice = Panic"
  using Generate858C_arrays [OF assms] envelope_transaction by auto

lemma charges_of_items:
  assumes "list_all (\<lambda>li. li_AmountCents li \<noteq> None \<and> \<bar>the (li_AmountCents li)\<bar> < 2 ^ 50) items"
  shows "charges_of (map StringArray (concat (map (item_segments w) items))) = map (\<lambda>li. go_itoa (the (li_AmountCents li))) items"
  using assms
proof (induction items)
  case (Cons li items)
  then have "fl64 (of_int (the (li_AmountCents li))) = of_int (the (li_AmountCents li))" by (intro fl64_of_int) simp
  with Cons show ?case
    by (simp add: charges_of_def item_segments_def HL_StringArray_def L0_StringArray_def L1_StringArray_def
        Cents_ToDollarFloat_def FloatToNx_cents)
qed (simp add: charges_of_def)

lemma charges_of_none: "list_all (\<lambda>s. hd (StringArray s) \<noteq> ''L1'' \<and> P s) segs \<Longrightarrow> charges_of (map StringArray segs) = []"
  by (auto simp: charges_of_def list_all_iff filter_empty_conv)

lemma charges_of_append: "charges_of (a @ b) = charges_of a @ charges_of b"
  by (simp add: charges_of_def)

lemma charges_of_envelope: "charges_of (transaction_arrays invoice body) = charges_of (map StringArray body)"
  by (simp add: charges_of_def transaction_arrays_def ISA_StringArray_def GS_StringArray_def GE_StringArray_def IEA_StringArray_def)

text \<open>C5: every line item of a shipment whose invoice was generated has its amount, and the charges of the written invoice
  are, in order, the exact cents of the line items.  Writing it panics when a line item has none of the ten named units.\<close>

theorem invoice_charges:
  assumes "Generate858C shipment invoiceID number production nextVal now = Ret invoice"
    and "list_all (\<lambda>li. \<bar>the (li_AmountCents li)\<bar> < 2 ^ 50) (shp_ShipmentLineItems (is_Shipment shipment))"
  shows "list_all (\<lambda>li. li_AmountCents li \<noteq> None) (shp_ShipmentLineItems (is_Shipment shipment))
    \<and> (if list_all known_unit (shp_ShipmentLineItems (is_Shipment shipment))
       then \<exists>rs. Segments invoice = Ret rs
         \<and> charges_of rs = map (\<lambda>li. go_itoa (the (li_AmountCents li))) (shp_ShipmentLineItems (is_Shipment shipment))
       else Segments invoice = Panic)"
proof -
  let ?items = "shp_ShipmentLineItems (is_Shipment shipment)"
  from Generate858C_arrays [OF assms(1)] obtain heading weightLbs where h: "getHeadingSegments shipment invoiceID number = Ret heading"
    and a: "list_all (\<lambda>li. li_AmountCents li \<noteq> None) ?items"
    and s: "Segments invoice = (if list_all known_unit ?items
      then Ret (transaction_arrays invoice (heading @ concat (map (item_segments (weight_centi weightLbs)) ?items))) else Panic)"
    by blast
  have i: "list_all (\<lambda>li. li_AmountCents li \<noteq> None \<and> \<bar>the (li_AmountCents li)\<bar> < 2 ^ 50) ?items"
    using a assms(2) by (simp add: list_all_iff)
  have "list_all (\<lambda>s. hd (StringArray s) \<noteq> ''L1'' \<and> hd (StringArray s) \<noteq> ''L0'') heading" using heading_lengths [OF h] by blast
  note n = charges_of_none [OF this]
  have "charges_of (transaction_arrays invoice (heading @ concat (map (item_segments (weight_centi weightLbs)) ?items)))
      = map (\<lambda>li. go_itoa (the (li_AmountCents li))) ?items"
    unfolding charges_of_envelope map_append charges_of_append n charges_of_items [OF i] append_Nil ..
  with s a show ?thesis by simp
qed

lemma ParseFloat_empty: "ParseFloat '''' = Fail ErrSyntax"
  by (simp add: ParseFloat_def split_at_any_def)

lemma L0_Parse_blank:
  assumes "l0_BilledRatedAsQuantity s = 0 \<or> l0_Weight s = 0"
  shows "\<not> is_ret (L0_Parse r (tl (L0_StringArray s)))"
  using assms by (auto simp: L0_Parse_def L0_StringArray_def Let_def is_ret_iff outcome_simps blank_zero_def ParseFloat_empty)

text \<open>No \<open>L0\<close> segment that the generator makes can be read back: one of its two numbers is zero,
  written as an empty element, which the parser refuses; a \<open>BX\<close> comes back with the method type code as
  its purpose code.\<close>

theorem generated_segments_misread:
  assumes "MakeL0Segment lineItem netCentiWeight = Some s"
  shows "\<not> is_ret (L0_Parse r (tl (L0_StringArray s)))
    \<and> BX_Parse b' (tl (BX_StringArray b)) = Ret (b\<lparr>bx_TransactionSetPurposeCode := bx_TransactionMethodTypeCode b,
         bx_TransactionMethodTypeCode := bx_TransactionMethodTypeCode b'\<rparr>)"
proof
  show "\<not> is_ret (L0_Parse r (tl (L0_StringArray s)))"
    using assms by (intro L0_Parse_blank) (auto simp: MakeL0Segment_def zero_L0_def Let_def split: if_splits)
  show "BX_Parse b' (tl (BX_StringArray b)) = Ret (b\<lparr>bx_TransactionSetPurposeCode := bx_TransactionMethodTypeCode b,
      bx_TransactionMethodTypeCode := bx_TransactionMethodTypeCode b'\<rparr>)"
    by (cases b; cases b'; simp add: BX_Parse_def BX_StringArray_def)
qed

section \<open>A sample invoice\<close>

definition sample_priced_item :: "nat \<Rightarrow> string \<Rightarrow> ItemMeasurementUnit \<Rightarrow> Cents \<Rightarrow> ShipmentLineItem" where
  "sample_priced_item i code unit cents = zero_line_item\<lparr>li_ID := i, li_ShipmentID := 7, li_AmountCents := Some cents,
     li_Quantity1 := 20000000, li_Tariff400ngItem := zero_item\<lparr>it_Code := code, it_MeasurementUnit1 := unit\<rparr>\<rparr>"

definition sample_invoice_shipment :: invoice_shipment where
  "sample_invoice_shipment = \<lparr>is_Shipment = sample_shipment\<lparr>shp_Status := ShipmentStatusDELIVERED, shp_NetWeight := Some 2000,
       shp_PickupAddress := Some (sample_address 11 ''90210''), shp_GBLNumber := Some ''KKFA7000001'', shp_DestinationGBLOC := Some ''HAFC'',
       shp_ShipmentOffers := [sample_offer],
       shp_ShipmentLineItems := [sample_priced_item 41 ''LHS'' ItemMeasurementUnitFLATRATE 123456, sample_priced_item 42 ''135A'' ItemMeasurementUnitWEIGHT 5000]\<rparr>,
     is_LastName = Some ''Doe'', is_Affiliation = Some AffiliationARMY, is_OriginOfficeName = ''JPPSO'',
     is_DestinationOfficeName = ''PPPO'', is_Orders = sample_orders\<lparr>or_OrdersNumber := Some ''1234'', or_TAC := Some ''E01A'', or_IssueDate := 1552521600\<rparr>\<rparr>"

lemma sample_generated_at: "0 < i \<Longrightarrow> \<exists>invoice. Generate858C sample_invoice_shipment i n False (Ret 100000001) 1552521600 = Ret invoice"
  by (simp add: Generate858C_def generate858CShipment_def getHeadingSegments_def getLineItemSegments_def sample_invoice_shipment_def
      Let_def required_def required_name_def sample_orders_def Order.defs AcceptedShipmentOffer_def sample_offer_def sample_tsp_def offer_tsp_def uuid_Nil_def
      SCAC_def SupplierID_def requireAnAcceptedTSP_def sample_priced_item_def MakeL1Segment_def sample_shipment_def Shipment.defs)

lemma sample_generated: "\<exists>invoice. Generate858C sample_invoice_shipment 9 ''ABBV190001'' False (Ret 100000001) 1552521600 = Ret invoice"
  by (rule sample_generated_at) simp

lemma sample_units: "list_all known_unit (shp_ShipmentLineItems (is_Shipment sample_invoice_shipment))"
  by (simp add: sample_invoice_shipment_def sample_priced_item_def known_unit_def)

text \<open>The same shipment with a line item whose 400NG item has no unit.\<close>

definition unitless_shipment :: invoice_shipment where
  "unitless_shipment = sample_invoice_shipment\<lparr>is_Shipment := (is_Shipment sample_invoice_shipment)
     \<lparr>shp_ShipmentLineItems := [sample_priced_item 41 ''LHS'' '''' 123456]\<rparr>\<rparr>"

lemma unitless_generated: "\<exists>invoice. Generate858C unitless_shipment 9 ''ABBV190001'' False (Ret 100000001) 1552521600 = Ret invoice"
  by (simp add: Generate858C_def generate858CShipment_def getHeadingSegments_def getLineItemSegments_def sample_invoice_shipment_def
      unitless_shipment_def Let_def required_def required_name_def sample_orders_def Order.defs AcceptedShipmentOffer_def sample_offer_def
      sample_tsp_def offer_tsp_def uuid_Nil_def SCAC_def SupplierID_def requireAnAcceptedTSP_def sample_priced_item_def MakeL1Segment_def
      sample_shipment_def Shipment.defs)

theorem invoice_envelope_witness:
  "(\<exists>invoice rs. Generate858C sample_invoice_shipment 9 ''ABBV190001'' False (Ret 100000001) 1552521600 = Ret invoice
     \<and> Segments invoice = Ret rs \<and> envelope_ok rs)
   \<and> (\<exists>invoice. Generate858C unitless_shipment 9 ''ABBV190001'' False (Ret 100000001) 1552521600 = Ret invoice \<and> Segments invoice = Panic)"
proof -
  have "\<not> list_all known_unit (shp_ShipmentLineItems (is_Shipment unitless_shipment))"
    by (simp add: unitless_shipment_def sample_priced_item_def known_unit_def)
  then show ?thesis using sample_generated unitless_generated sample_units invoice_envelope by metis
qed

theorem invoice_charges_witness:
  "\<exists>invoice rs. Generate858C sample_invoice_shipment 9 ''ABBV190001'' False (Ret 100000001) 1552521600 = Ret invoice
     \<and> Segments invoice = Ret rs \<and> charges_of rs = [''123456'', ''5000'']"
proof -
  from sample_generated obtain invoice where g: "Generate858C sample_invoice_shipment 9 ''ABBV190001'' False (Ret 100000001) 1552521600 = Ret invoice" ..
  have "list_all (\<lambda>li. \<bar>the (li_AmountCents li)\<bar> < 2 ^ 50) (shp_ShipmentLineItems (is_Shipment sample_invoice_shipment))"
    by (simp add: sample_invoice_shipment_def sample_priced_item_def)
  from invoice_charges [OF g this] sample_units
  have "\<exists>rs. Segments invoice = Ret rs
    \<and> charges_of rs = map (\<lambda>li. go_itoa (the (li_AmountCents li))) (shp_ShipmentLineItems (is_Shipment sample_invoice_shipment))"
    by simp
  moreover have "map (\<lambda>li. go_itoa (the (li_AmountCents li))) (shp_ShipmentLineItems (is_Shipment sample_invoice_shipment)) = [''123456'', ''5000'']"
    by (simp add: sample_invoice_shipment_def sample_priced_item_def go_itoa_def nat_digits.simps digit_char_def)
  ultimately show ?thesis using g by auto
qed

definition sample_invoice :: Invoice858C where
  "sample_invoice = \<lparr>inv_ISA = \<lparr>isa_AuthorizationInformationQualifier = ''00'', isa_AuthorizationInformation = ''0000000000'',
       isa_SecurityInformationQualifier = ''00'', isa_SecurityInformation = ''0000000000'',
       isa_InterchangeSenderIDQualifier = ''ZZ'', isa_InterchangeSenderID = ''MYMOVE         '',
       isa_InterchangeReceiverIDQualifier = ''12'', isa_InterchangeReceiverID = ''8004171844     '',
       isa_InterchangeDate = ''190314'', isa_InterchangeTime = ''0000'', isa_InterchangeControlStandards = ''U'',
       isa_InterchangeControlVersionNumber = ''00401'', isa_InterchangeControlNumber = 7, isa_AcknowledgementRequested = 1,
       isa_UsageIndicator = ''T'', isa_ComponentElementSeparator = ''|''\<rparr>,
     inv_GS = \<lparr>gs_FunctionalIdentifierCode = ''SI'', gs_ApplicationSendersCode = senderCode, gs_ApplicationReceiversCode = receiverCode,
       gs_Date = ''20190314'', gs_Time = ''0000'', gs_GroupControlNumber = 7, gs_ResponsibleAgencyCode = ''X'', gs_Version = ''004010''\<rparr>,
     inv_Shipment = [Some (SegN3 \<lparr>n3_AddressInformation1 = ''12 A St'', n3_AddressInformation2 = ''''\<rparr>)],
     inv_GE = \<lparr>ge_NumberOfTransactionSetsIncluded = 1, ge_GroupControlNumber = 7\<rparr>,
     inv_IEA = \<lparr>iea_NumberOfIncludedFunctionalGroups = 1, iea_InterchangeControlNumber = 7\<rparr>\<rparr>"

definition sample_arrays :: "string list list" where
  "sample_arrays = [[''ISA'', ''00'', ''0000000000'', ''00'', ''0000000000'', ''ZZ'', ''MYMOVE         '', ''12'', ''8004171844     '',
     ''190314'', ''0000'', ''U'', ''00401'', ''000000007'', ''1'', ''T'', ''|''],
    [''GS'', ''SI'', ''MYMOVE'', ''8004171844'', ''20190314'', ''0000'', ''7'', ''X'', ''004010''],
    [''N3'', ''12 A St'', ''''], [''GE'', ''1'', ''7''], [''IEA'', ''1'', ''000000007'']]"

lemma sample_segments: "Segments sample_invoice = Ret sample_arrays"
proof -
  have n: "go_itoa 7 = ''7''" "go_itoa 1 = ''1''" "padded 9 7 = ''000000007''"
    by (simp_all add: go_itoa_def nat_digits.simps digit_char_def padded_def zero_padded_def fixed_digits_numeral)
  show ?thesis
    by (simp add: Segments_def sample_invoice_def sample_arrays_def ISA_StringArray_def GS_StringArray_def GE_StringArray_def
        IEA_StringArray_def N3_StringArray_def senderCode_def receiverCode_def n)
qed

theorem edi_text_roundtrip_witness:
  "\<exists>txt. EDIString sample_invoice = Ret txt
     \<and> map (split_on (CHR ''*'')) (butlast (split_on (CHR 0x0A) txt)) = sample_arrays"
  by (rule edi_text_roundtrip [OF sample_segments])
    (simp add: sample_arrays_def plain_record_def fieldNeedsQuotes_def)

theorem generated_segments_misread_witness:
  "\<exists>s. MakeL0Segment (sample_priced_item 42 ''135A'' ItemMeasurementUnitWEIGHT 5000) 20 = Some s
     \<and> \<not> is_ret (L0_Parse zero_L0 (tl (L0_StringArray s)))"
proof -
  have "known_unit (sample_priced_item 42 ''135A'' ItemMeasurementUnitWEIGHT 5000)" by (simp add: known_unit_def sample_priced_item_def)
  then obtain s where "MakeL0Segment (sample_priced_item 42 ''135A'' ItemMeasurementUnitWEIGHT 5000) 20 = Some s"
    using MakeL0Segment_known by blast
  then show ?thesis using generated_segments_misread by blast
qed

end
