(* ===== verification/Entitlements.thy ===== *)
theory Entitlements
  imports Prelude Errors
begin

text \<open>
  Weight entitlements (\<open>pkg/models/entitlements.go\<close>): the allotment of each rank and the total
  entitlement of a service member.  A rank is one of the constants of
  \<open>pkg/models/service_member_rank.go\<close> or any other string (\<open>RankOther\<close>, which a row of the
  database may hold).
\<close>

datatype ServiceMemberRank =
    RankE1
  | RankE2
  | RankE3
  | RankE4
  | RankE5
  | RankE6
  | RankE7
  | RankE8
  | RankE9
  | RankO1ACADEMYGRADUATE
  | RankO2
  | RankO3
  | RankO4
  | RankO5
  | RankO6
  | RankO7
  | RankO8
  | RankO9
  | RankO10
  | RankW1
  | RankW2
  | RankW3
  | RankW4
  | RankW5
  | RankAVIATIONCADET
  | RankCIVILIANEMPLOYEE
  | RankACADEMYCADET
  | RankMIDSHIPMAN
  | RankOther string

record WeightAllotment =
  wa_TotalWeightSelf :: int
  wa_TotalWeightSelfPlusDependents :: int
  wa_ProGearWeight :: int
  wa_ProGearWeightSpouse :: int

abbreviation allotment :: "int \<Rightarrow> int \<Rightarrow> int \<Rightarrow> int \<Rightarrow> WeightAllotment" where
  "allotment s d p q \<equiv> \<lparr>wa_TotalWeightSelf = s, wa_TotalWeightSelfPlusDependents = d,
     wa_ProGearWeight = p, wa_ProGearWeightSpouse = q\<rparr>"

section \<open>The allotments\<close>

definition allot_midshipman :: WeightAllotment where
  "allot_midshipman = allotment 350 350 0 0"

definition allot_aviationCadet :: WeightAllotment where
  "allot_aviationCadet = allotment 7000 8000 2000 500"

definition allot_E1 :: WeightAllotment where
  "allot_E1 = allotment 5000 8000 2000 500"

definition allot_E2 :: WeightAllotment where
  "allot_E2 = allotment 5000 8000 2000 500"

definition allot_E3 :: WeightAllotment where
  "allot_E3 = allotment 5000 8000 2000 500"

definition allot_E4 :: WeightAllotment where
  "allot_E4 = allotment 7000 8000 2000 500"

definition allot_E5 :: WeightAllotment where
  "allot_E5 = allotment 7000 9000 2000 500"

definition allot_E6 :: WeightAllotment where
  "allot_E6 = allotment 8000 11000 2000 500"

definition allot_E7 :: WeightAllotment where
  "allot_E7 = allotment 11000 13000 2000 500"

definition allot_E8 :: WeightAllotment where
  "allot_E8 = allotment 12000 14000 2000 500"

definition allot_E9 :: WeightAllotment where
  "allot_E9 = allotment 13000 15000 2000 500"

definition allot_O1W1AcademyGraduate :: WeightAllotment where
  "allot_O1W1AcademyGraduate = allotment 10000 12000 2000 500"

definition allot_O2W2 :: WeightAllotment where
  "allot_O2W2 = allotment 12500 13500 2000 500"

definition allot_O3W3 :: WeightAllotment where
  "allot_O3W3 = allotment 13000 14500 2000 500"

definition allot_O4W4 :: WeightAllotment where
  "allot_O4W4 = allotment 14000 17000 2000 500"

definition allot_O5W5 :: WeightAllotment where
  "allot_O5W5 = allotment 16000 17500 2000 500"

definition allot_O6 :: WeightAllotment where
  "allot_O6 = allotment 18000 18000 2000 500"

definition allot_O7 :: WeightAllotment where
  "allot_O7 = allotment 18000 18000 2000 500"

definition allot_O8 :: WeightAllotment where
  "allot_O8 = allotment 18000 18000 2000 500"

definition allot_O9 :: WeightAllotment where
  "allot_O9 = allotment 18000 18000 2000 500"

definition allot_O10 :: WeightAllotment where
  "allot_O10 = allotment 18000 18000 2000 500"

definition allot_civilianEmployee :: WeightAllotment where
  "allot_civilianEmployee = allotment 18000 18000 2000 500"

lemmas allotment_defs = allot_midshipman_def allot_aviationCadet_def allot_E1_def allot_E2_def allot_E3_def allot_E4_def allot_E5_def allot_E6_def allot_E7_def allot_E8_def allot_E9_def allot_O1W1AcademyGraduate_def allot_O2W2_def allot_O3W3_def allot_O4W4_def allot_O5W5_def allot_O6_def allot_O7_def allot_O8_def allot_O9_def allot_O10_def allot_civilianEmployee_def

definition makeEntitlements :: "ServiceMemberRank \<rightharpoonup> WeightAllotment" where
  "makeEntitlements = [
     RankACADEMYCADET \<mapsto> allot_midshipman,
     RankAVIATIONCADET \<mapsto> allot_aviationCadet,
     RankE1 \<mapsto> allot_E1,
     RankE2 \<mapsto> allot_E2,
     RankE3 \<mapsto> allot_E3,
     RankE4 \<mapsto> allot_E4,
     RankE5 \<mapsto> allot_E5,
     RankE6 \<mapsto> allot_E6,
     RankE7 \<mapsto> allot_E7,
     RankE8 \<mapsto> allot_E8,
     RankE9 \<mapsto> allot_E9,
     RankMIDSHIPMAN \<mapsto> allot_midshipman,
     RankO1ACADEMYGRADUATE \<mapsto> allot_O1W1AcademyGraduate,
     RankO2 \<mapsto> allot_O2W2,
     RankO3 \<mapsto> allot_O3W3,
     RankO4 \<mapsto> allot_O4W4,
     RankO5 \<mapsto> allot_O5W5,
     RankO6 \<mapsto> allot_O6,
     RankO7 \<mapsto> allot_O7,
     RankO8 \<mapsto> allot_O8,
     RankO9 \<mapsto> allot_O9,
     RankO10 \<mapsto> allot_O10,
     RankW1 \<mapsto> allot_O1W1AcademyGraduate,
     RankW2 \<mapsto> allot_O2W2,
     RankW3 \<mapsto> allot_O3W3,
     RankW4 \<mapsto> allot_O4W4,
     RankW5 \<mapsto> allot_O5W5,
     RankCIVILIANEMPLOYEE \<mapsto> allot_civilianEmployee]"

definition AllWeightAllotments :: "ServiceMemberRank \<rightharpoonup> WeightAllotment" where
  "AllWeightAllotments = makeEntitlements"

text \<open>A Go map read without the second result gives the zero value for a missing key.\<close>

definition GetWeightAllotment :: "ServiceMemberRank \<Rightarrow> WeightAllotment" where
  "GetWeightAllotment rank = (case makeEntitlements rank of Some a \<Rightarrow> a | None \<Rightarrow> allotment 0 0 0 0)"

definition GetEntitlement :: "ServiceMemberRank \<Rightarrow> bool \<Rightarrow> bool \<Rightarrow> int result" where
  "GetEntitlement rank hasDependents spouseHasProGear =
     (case makeEntitlements rank of
        None \<Rightarrow> Fail (ErrMsg ''Rank %s not found in entitlement map'')
      | Some selfEntitlement \<Rightarrow>
          (let spouseProGear = (if hasDependents \<and> spouseHasProGear then wa_ProGearWeightSpouse selfEntitlement else 0);
               weight = (if hasDependents then wa_TotalWeightSelfPlusDependents selfEntitlement
                         else wa_TotalWeightSelf selfEntitlement)
           in Ret (weight + wa_ProGearWeight selfEntitlement + spouseProGear)))"

lemma makeEntitlements_None: "makeEntitlements rank = None \<longleftrightarrow> (\<exists>s. rank = RankOther s)"
  by (cases rank) (simp_all add: makeEntitlements_def)

definition allotment_ok :: "WeightAllotment \<Rightarrow> bool" where
  "allotment_ok a \<longleftrightarrow> 0 < wa_TotalWeightSelf a \<and> wa_TotalWeightSelf a \<le> wa_TotalWeightSelfPlusDependents a
     \<and> wa_TotalWeightSelfPlusDependents a \<le> 18000 \<and> 0 \<le> wa_ProGearWeight a \<and> wa_ProGearWeight a \<le> 2000
     \<and> 0 \<le> wa_ProGearWeightSpouse a \<and> wa_ProGearWeightSpouse a \<le> 500"

lemma makeEntitlements_ok: "makeEntitlements rank = Some a \<Longrightarrow> allotment_ok a"
  by (cases rank) (auto simp: makeEntitlements_def allotment_defs allotment_ok_def)

section \<open>Properties\<close>

text \<open>The entitlement is defined exactly for the ranks the program names, lies between 1 and
  20500 pounds, having dependents never lowers it, and the spouse's gear counts only with dependents
  and never lowers it; a rank without an entry has the zero allotment.\<close>

theorem GetEntitlement_bounds:
  "(case GetEntitlement rank dep spouse of
      Ret w \<Rightarrow> (\<forall>s. rank \<noteq> RankOther s) \<and> 0 < w \<and> w \<le> 20500
        \<and> GetEntitlement rank False True = GetEntitlement rank False False
        \<and> (\<exists>u v z. GetEntitlement rank False spouse = Ret u \<and> GetEntitlement rank True False = Ret v
             \<and> GetEntitlement rank True True = Ret z \<and> u \<le> v \<and> v \<le> z
             \<and> z - v = wa_ProGearWeightSpouse (GetWeightAllotment rank))
    | Fail e \<Rightarrow> (\<exists>s. rank = RankOther s) \<and> GetWeightAllotment rank = allotment 0 0 0 0
    | Panic \<Rightarrow> False)"
proof (cases "makeEntitlements rank")
  case None
  then show ?thesis
    using makeEntitlements_None [of rank] by (auto simp: GetEntitlement_def GetWeightAllotment_def)
next
  case (Some a)
  moreover from Some have "\<forall>s. rank \<noteq> RankOther s" using makeEntitlements_None [of rank] by auto
  moreover have "allotment_ok a" using Some by (rule makeEntitlements_ok)
  ultimately show ?thesis
    by (auto simp: GetEntitlement_def GetWeightAllotment_def allotment_ok_def)
qed

end
