(* ===== verification/Access.thy ===== *)
theory Access
  imports Lifecycle Session Entitlements
begin

text \<open>
  The rows a user may read: service members, orders, moves, PPMs, documents, uploads, move documents
  and certifications (\<open>pkg/models\<close>), with the fetch functions through which the handlers authorize a
  session.  The tables are a record; what the code cannot know (a read of an expense or weight ticket
  table that fails) is a function of it.  A row is found by its identifier; rows come in the order
  they were created, so that \<open>created_at desc\<close> is the reverse.
\<close>

section \<open>Rows\<close>

record ServiceMember =
  sm_ID :: uuid
  sm_UserID :: uuid
  sm_Edipi :: "string option"
  sm_Affiliation :: "ServiceMemberAffiliation option"
  sm_Rank :: "ServiceMemberRank option"
  sm_FirstName :: "string option"
  sm_MiddleName :: "string option"
  sm_LastName :: "string option"
  sm_Suffix :: "string option"
  sm_Telephone :: "string option"
  sm_SecondaryTelephone :: "string option"
  sm_PersonalEmail :: "string option"
  sm_PhoneIsPreferred :: "bool option"
  sm_TextMessageIsPreferred :: "bool option"
  sm_EmailIsPreferred :: "bool option"
  sm_ResidentialAddressID :: "uuid option"
  sm_ResidentialAddress :: "Address option"
  sm_BackupMailingAddressID :: "uuid option"
  sm_BackupMailingAddress :: "Address option"
  sm_SocialSecurityNumberID :: "uuid option"
  sm_BackupContacts :: "string list"
  sm_DutyStationID :: "uuid option"

record Document =
  doc_ID :: uuid
  doc_ServiceMemberID :: uuid

record Upload =
  up_ID :: uuid
  up_DocumentID :: "uuid option"
  up_UploaderID :: uuid
  up_Filename :: string
  up_Bytes :: int
  up_ContentType :: string
  up_Checksum :: string
  up_StorageKey :: string

datatype SignedCertificationType =
  SignedCertificationTypePPM | SignedCertificationTypePPMPAYMENT | SignedCertificationTypeHHG

record SignedCertification =
  sc_ID :: uuid
  sc_SubmittingUserID :: uuid
  sc_MoveID :: uuid
  sc_PersonallyProcuredMoveID :: "uuid option"
  sc_ShipmentID :: "uuid option"
  sc_CertificationType :: "SignedCertificationType option"
  sc_CertificationText :: string
  sc_Signature :: string
  sc_Date :: gotime

datatype MoveDocumentStatus = MoveDocumentStatusAWAITINGREVIEW | MoveDocumentStatusOK | MoveDocumentStatusHASISSUE

datatype MoveDocumentType =
    MoveDocumentTypeOTHER | MoveDocumentTypeWEIGHTTICKET | MoveDocumentTypeWEIGHTTICKETREWEIGH
  | MoveDocumentTypeSTORAGEEXPENSE | MoveDocumentTypeSHIPMENTSUMMARY | MoveDocumentTypeEXPENSE
  | MoveDocumentTypeWEIGHTTICKETSET | MoveDocumentTypeGOVBILLOFLADING | MoveDocumentTypeORIGINPACKET
  | MoveDocumentTypeORIGIN619 | MoveDocumentTypeORIGININVENTORY | MoveDocumentTypeDESTINATIONPACKET
  | MoveDocumentTypeDESTINATION619 | MoveDocumentTypeDESTINATION6191 | MoveDocumentTypeDESTINATIONINVENTORY
  | MoveDocumentTypeTHIRDPARTYINVOICE | MoveDocumentTypeTHIRDPARTYESTIMATE | MoveDocumentTypeNOTICEOFLOSSORDAMAGE
  | MoveDocumentTypeFIREARMSCHAINOFCUSTODY | MoveDocumentTypePHOTO

datatype MovingExpenseType =
    MovingExpenseTypeCONTRACTEDEXPENSE | MovingExpenseTypeRENTALEQUIPMENT | MovingExpenseTypePACKINGMATERIALS
  | MovingExpenseTypeWEIGHINGFEES | MovingExpenseTypeGAS | MovingExpenseTypeTOLLS | MovingExpenseTypeOIL
  | MovingExpenseTypeSTORAGE | MovingExpenseTypeOTHER

record MovingExpenseDocument =
  me_ID :: uuid
  me_MoveDocumentID :: uuid
  me_MovingExpenseType :: MovingExpenseType
  me_RequestedAmountCents :: Cents
  me_PaymentMethod :: string
  me_ReceiptMissing :: bool
  me_StorageStartDate :: "gotime option"
  me_StorageEndDate :: "gotime option"

record WeightTicketSetDocument =
  wt_ID :: uuid
  wt_MoveDocumentID :: uuid
  wt_EmptyWeight :: "Pound option"
  wt_EmptyWeightTicketMissing :: bool
  wt_FullWeight :: "Pound option"
  wt_FullWeightTicketMissing :: bool
  wt_VehicleNickname :: string
  wt_VehicleOptions :: string
  wt_WeightTicketDate :: "gotime option"
  wt_TrailerOwnershipMissing :: bool

text \<open>The document, the PPM and the shipment of a move document are loaded by their identifiers; the
  model keeps those that saving reads.\<close>

record MoveDocument =
  md_ID :: uuid
  md_DocumentID :: uuid
  md_MoveID :: uuid
  md_PersonallyProcuredMoveID :: "uuid option"
  md_PersonallyProcuredMove :: "PersonallyProcuredMove option"
  md_ShipmentID :: "uuid option"
  md_Shipment :: "Shipment option"
  md_Title :: string
  md_Status :: MoveDocumentStatus
  md_MoveDocumentType :: MoveDocumentType
  md_MovingExpenseDocument :: "MovingExpenseDocument option"
  md_Notes :: "string option"
  md_WeightTicketSetDocument :: "WeightTicketSetDocument option"

record tables =
  tb_members :: "ServiceMember list"
  tb_orders :: "Order list"
  tb_moves :: "Move list"
  tb_ppms :: "PersonallyProcuredMove list"
  tb_reimbursements :: "Reimbursement list"
  tb_shipments :: "Shipment list"
  tb_addresses :: "Address list"
  tb_documents :: "Document list"
  tb_uploads :: "Upload list"
  tb_move_documents :: "MoveDocument list"
  tb_expenses :: "MovingExpenseDocument list"
  tb_weight_tickets :: "WeightTicketSetDocument list"
  tb_certifications :: "SignedCertification list"
  tb_tsp_users :: "uuid \<rightharpoonup> uuid"
  tb_offers :: "ShipmentOffer list"
  tb_expense_error :: "uuid \<Rightarrow> goerr option"
  tb_weight_ticket_error :: "uuid \<Rightarrow> goerr option"

section \<open>Service members\<close>

definition IsProfileComplete :: "ServiceMember \<Rightarrow> bool" where
  "IsProfileComplete s = (if sm_Edipi s = None then False
     else if sm_Affiliation s = None then False
     else if sm_Rank s = None then False
     else if sm_FirstName s = None then False
     else if sm_LastName s = None then False
     else if sm_Telephone s = None then False
     else if sm_PersonalEmail s = None then False
     else if sm_PhoneIsPreferred s = None \<and> sm_TextMessageIsPreferred s = None \<and> sm_EmailIsPreferred s = None then False
     else if sm_ResidentialAddressID s = None then False
     else if sm_BackupMailingAddressID s = None then False
     else if sm_SocialSecurityNumberID s = None then False
     else if sm_DutyStationID s = None then False
     else if length (sm_BackupContacts s) = 0 then False
     else True)"

definition ReverseNameLineFormat :: "ServiceMember \<Rightarrow> string" where
  "ReverseNameLineFormat s = strings_Join '', '' (nonempty_part (sm_FirstName s) @ nonempty_part (sm_LastName s)
     @ nonempty_part (sm_MiddleName s))"

section \<open>Fetching for a session\<close>

text \<open>\<open>db.Find\<close>, with the answer of the fetch functions to \<open>sql: no rows in result set\<close>.\<close>

definition find_row :: "('a \<Rightarrow> uuid) \<Rightarrow> 'a list \<Rightarrow> uuid \<Rightarrow> 'a result" where
  "find_row key rows i = map_fail (\<lambda>_. ErrFetchNotFound) (first_row (filter (\<lambda>r. key r = i) rows))"

text \<open>The identifier of an eagerly loaded association: that of a zero struct when the row is missing.\<close>

definition loaded_ID :: "('a \<Rightarrow> uuid) \<Rightarrow> 'a list \<Rightarrow> uuid \<Rightarrow> uuid" where
  "loaded_ID key rows i = (if list_ex (\<lambda>r. key r = i) rows then i else uuid_Nil)"

definition keep_if :: "'b option \<Rightarrow> 'a option \<Rightarrow> 'a option" where
  "keep_if i x = (if i = None then None else x)"

text \<open>The rows of the query that ties a TSP user to a service member by an offer that is not rejected.\<close>

definition tsp_serves :: "tables \<Rightarrow> uuid \<Rightarrow> uuid \<Rightarrow> bool" where
  "tsp_serves w tspUserID memberID = list_ex (\<lambda>so. tb_tsp_users w tspUserID = Some (of_TransportationServiceProviderID so)
     \<and> of_Accepted so \<noteq> Some False
     \<and> list_ex (\<lambda>s. shp_ID s = of_ShipmentID so \<and> shp_ServiceMemberID s = memberID) (tb_shipments w)) (tb_offers w)"

definition FetchServiceMemberForUser :: "tables \<Rightarrow> Session \<Rightarrow> uuid \<Rightarrow> ServiceMember result" where
  "FetchServiceMemberForUser w session i = obind (find_row sm_ID (tb_members w) i) (\<lambda>m.
     if IsMilApp session \<and> sm_ID m \<noteq> ss_ServiceMemberID session then Fail ErrFetchForbidden
     else if IsTspApp session \<and> \<not> tsp_serves w (ss_TspUserID session) (sm_ID m) then Fail ErrFetchForbidden
     else Ret (m\<lparr>sm_ResidentialAddress := keep_if (sm_ResidentialAddressID m) (sm_ResidentialAddress m),
       sm_BackupMailingAddress := keep_if (sm_BackupMailingAddressID m) (sm_BackupMailingAddress m)\<rparr>))"

definition FetchServiceMember :: "tables \<Rightarrow> uuid \<Rightarrow> ServiceMember result" where
  "FetchServiceMember w i = find_row sm_ID (tb_members w) i"

definition FetchOrderForUser :: "tables \<Rightarrow> Session \<Rightarrow> uuid \<Rightarrow> Order result" where
  "FetchOrderForUser w session i = obind (find_row or_ID (tb_orders w) i) (\<lambda>order.
     if IsMilApp session \<and> loaded_ID sm_ID (tb_members w) (or_ServiceMemberID order) \<noteq> ss_ServiceMemberID session
     then Fail ErrFetchForbidden else Ret order)"

definition FetchOrder :: "tables \<Rightarrow> uuid \<Rightarrow> Order result" where
  "FetchOrder w i = find_row or_ID (tb_orders w) i"

text \<open>\<open>FetchLatestOrder\<close>: the newest order of a service member.\<close>

definition FetchLatestOrder :: "tables \<Rightarrow> ServiceMember \<Rightarrow> Order result" where
  "FetchLatestOrder w s = map_fail (\<lambda>_. ErrFetchNotFound)
     (first_row (rev (filter (\<lambda>order. or_ServiceMemberID order = sm_ID s) (tb_orders w))))"

definition find_option :: "('a \<Rightarrow> uuid) \<Rightarrow> 'a list \<Rightarrow> uuid option \<Rightarrow> 'a option" where
  "find_option key rows i = (case i of None \<Rightarrow> None
     | Some i \<Rightarrow> (case first_row (filter (\<lambda>r. key r = i) rows) of Ret r \<Rightarrow> Some r | _ \<Rightarrow> None))"

text \<open>An address that is not found leaves what eager loading gave; the model's rows carry none.\<close>

definition load_addresses :: "tables \<Rightarrow> Shipment \<Rightarrow> Shipment" where
  "load_addresses w s = s\<lparr>shp_PickupAddress := find_option ad_ID (tb_addresses w) (shp_PickupAddressID s),
     shp_SecondaryPickupAddress := (if shp_HasSecondaryPickupAddress s
        then find_option ad_ID (tb_addresses w) (shp_SecondaryPickupAddressID s) else None),
     shp_DeliveryAddress := (if shp_HasDeliveryAddress s
        then find_option ad_ID (tb_addresses w) (shp_DeliveryAddressID s) else None)\<rparr>"

definition load_advance :: "tables \<Rightarrow> PersonallyProcuredMove \<Rightarrow> PersonallyProcuredMove" where
  "load_advance w p = p\<lparr>pp_Advance := find_option rb_ID (tb_reimbursements w) (pp_AdvanceID p)\<rparr>"

definition load_move :: "tables \<Rightarrow> Move \<Rightarrow> Move" where
  "load_move w m = m\<lparr>
     mv_Orders := (case find_row or_ID (tb_orders w) (mv_OrdersID m) of Ret order \<Rightarrow> order | _ \<Rightarrow> mv_Orders m),
     mv_PersonallyProcuredMoves := rev (map (load_advance w) (filter (\<lambda>p. pp_MoveID p = mv_ID m) (tb_ppms w))),
     mv_Shipments := map (load_addresses w) (filter (\<lambda>s. shp_MoveID s = mv_ID m) (tb_shipments w))\<rparr>"

definition FetchMove :: "tables \<Rightarrow> Session \<Rightarrow> uuid \<Rightarrow> Move result" where
  "FetchMove w session i = obind (find_row mv_ID (tb_moves w) i) (\<lambda>move.
     obind (FetchOrderForUser w session (mv_OrdersID move)) (\<lambda>_. Ret (load_move w move)))"

text \<open>The service member behind a PPM: \<open>ppm.Move.Orders.ServiceMember.ID\<close>.\<close>

definition move_owner :: "tables \<Rightarrow> uuid \<Rightarrow> uuid" where
  "move_owner w i = (case find_row mv_ID (tb_moves w) i of
      Ret move \<Rightarrow> (case find_row or_ID (tb_orders w) (mv_OrdersID move) of
         Ret order \<Rightarrow> loaded_ID sm_ID (tb_members w) (or_ServiceMemberID order) | _ \<Rightarrow> uuid_Nil)
    | _ \<Rightarrow> uuid_Nil)"

definition FetchPersonallyProcuredMove :: "tables \<Rightarrow> Session \<Rightarrow> uuid \<Rightarrow> PersonallyProcuredMove result" where
  "FetchPersonallyProcuredMove w session i = obind (find_row pp_ID (tb_ppms w) i) (\<lambda>ppm.
     if IsMilApp session \<and> move_owner w (pp_MoveID ppm) \<noteq> ss_ServiceMemberID session then Fail ErrFetchForbidden
     else Ret (load_advance w ppm))"

definition FetchDocument :: "tables \<Rightarrow> Session \<Rightarrow> uuid \<Rightarrow> Document result" where
  "FetchDocument w session i = obind (find_row doc_ID (tb_documents w) i) (\<lambda>document.
     obind (FetchServiceMemberForUser w session (doc_ServiceMemberID document)) (\<lambda>_. Ret document))"

definition FetchUpload :: "tables \<Rightarrow> Session \<Rightarrow> uuid \<Rightarrow> Upload result" where
  "FetchUpload w session i = obind (map_fail (Wrap ''error fetching upload'') (find_row up_ID (tb_uploads w) i)) (\<lambda>upload.
     case up_DocumentID upload of
       Some d \<Rightarrow> obind (FetchDocument w session d) (\<lambda>_. Ret upload)
     | None \<Rightarrow> if up_UploaderID upload \<noteq> ss_UserID session
         then Fail (Wrap ''user ID doesn't match uploader ID'' ErrFetchNotFound) else Ret upload)"

text \<open>Reading the one row of an optional association: its error, no row, or the row.\<close>

definition has_one :: "goerr option \<Rightarrow> 'a list \<Rightarrow> ('a option, goerr) sum" where
  "has_one err rows = (case err of Some e \<Rightarrow> Inr e
     | None \<Rightarrow> Inl (case rows of [] \<Rightarrow> None | r # _ \<Rightarrow> Some r))"

text \<open>\<open>FetchMoveDocument\<close>.  When reading the expense or the weight ticket fails, the code returns
  \<open>nil, err\<close> with the \<open>err\<close> of the first query, which is nil: \<open>Ret None\<close>.\<close>

definition FetchMoveDocument :: "tables \<Rightarrow> Session \<Rightarrow> uuid \<Rightarrow> MoveDocument option result" where
  "FetchMoveDocument w session i =
     (if IsOfficeApp session \<and> ss_OfficeUserID session = uuid_Nil then Fail ErrFetchForbidden
      else obind (find_row md_ID (tb_move_documents w) i) (\<lambda>doc.
        case has_one (tb_expense_error w i) (filter (\<lambda>e. me_MoveDocumentID e = i) (tb_expenses w)) of
          Inr e \<Rightarrow> Ret None
        | Inl expense \<Rightarrow>
        (case has_one (tb_weight_ticket_error w i) (filter (\<lambda>t. wt_MoveDocumentID t = i) (tb_weight_tickets w)) of
          Inr e \<Rightarrow> Ret None
        | Inl ticket \<Rightarrow>
          if IsMilApp session \<and> (case find_row doc_ID (tb_documents w) (md_DocumentID doc) of
                Ret document \<Rightarrow> doc_ServiceMemberID document | _ \<Rightarrow> uuid_Nil) \<noteq> ss_ServiceMemberID session
          then Fail ErrFetchForbidden
          else Ret (Some (doc\<lparr>md_PersonallyProcuredMove := find_option pp_ID (tb_ppms w) (md_PersonallyProcuredMoveID doc),
            md_Shipment := find_option shp_ID (tb_shipments w) (md_ShipmentID doc),
            md_MovingExpenseDocument := expense, md_WeightTicketSetDocument := ticket\<rparr>)))))"

definition FetchSignedCertificationsPPMPayment :: "tables \<Rightarrow> Session \<Rightarrow> uuid \<Rightarrow> SignedCertification result" where
  "FetchSignedCertificationsPPMPayment w session moveID =
     obind (map_fail (\<lambda>_. Wrap ''signed_certification: not found'' ErrFetchNotFound)
       (first_row (filter (\<lambda>c. sc_MoveID c = moveID \<and> sc_CertificationType c = Some SignedCertificationTypePPMPAYMENT)
         (tb_certifications w)))) (\<lambda>certification.
     obind (map_fail (\<lambda>_. Wrap ''signed_certification: unauthorized access'' ErrFetchForbidden) (FetchMove w session moveID)) (\<lambda>_.
     Ret certification))"

definition FetchSignedCertifications :: "tables \<Rightarrow> Session \<Rightarrow> uuid \<Rightarrow> SignedCertification list result" where
  "FetchSignedCertifications w session moveID =
     obind (map_fail (\<lambda>_. Wrap ''signed_certification: unauthorized access'' ErrFetchForbidden) (FetchMove w session moveID)) (\<lambda>_.
     Ret (filter (\<lambda>c. sc_MoveID c = moveID) (tb_certifications w)))"

text \<open>\<open>FetchMovingExpenseDocuments\<close>: the expenses of a PPM, optionally of one status; a failing read of an
  expense row is an error here.\<close>

fun load_expenses :: "tables \<Rightarrow> MoveDocument list \<Rightarrow> MoveDocument list result" where
  "load_expenses w [] = Ret []"
| "load_expenses w (doc # docs) =
     (case has_one (tb_expense_error w (md_ID doc)) (filter (\<lambda>e. me_MoveDocumentID e = md_ID doc) (tb_expenses w)) of
        Inr e \<Rightarrow> Fail e
      | Inl expense \<Rightarrow> obind (load_expenses w docs) (\<lambda>rest. Ret (doc\<lparr>md_MovingExpenseDocument := expense\<rparr> # rest)))"

definition FetchMovingExpenseDocuments ::
    "tables \<Rightarrow> Session \<Rightarrow> uuid \<Rightarrow> MoveDocumentStatus option \<Rightarrow> MoveDocument list result" where
  "FetchMovingExpenseDocuments w session ppmID status =
     (if IsOfficeApp session \<and> ss_OfficeUserID session = uuid_Nil then Fail ErrFetchForbidden
      else obind (map_fail (\<lambda>_. ErrFetchForbidden) (FetchPersonallyProcuredMove w session ppmID)) (\<lambda>_.
        load_expenses w (filter (\<lambda>doc. md_MoveDocumentType doc = MoveDocumentTypeEXPENSE
          \<and> md_PersonallyProcuredMoveID doc = Some ppmID
          \<and> (case status of None \<Rightarrow> True | Some s \<Rightarrow> md_Status doc = s)) (tb_move_documents w))))"

definition IsExpenseModelDocumentType :: "MoveDocumentType \<Rightarrow> bool" where
  "IsExpenseModelDocumentType docType \<longleftrightarrow> docType \<in> set [MoveDocumentTypeEXPENSE]"

section \<open>Reviewing a move document\<close>

definition MoveDocument_Approve :: "MoveDocument \<Rightarrow> MoveDocument call" where
  "MoveDocument_Approve m = (if md_Status m = MoveDocumentStatusOK then refuse m ''Approve''
     else accept (m\<lparr>md_Status := MoveDocumentStatusOK\<rparr>))"

definition MoveDocument_Reject :: "MoveDocument \<Rightarrow> MoveDocument call" where
  "MoveDocument_Reject m = (if md_Status m = MoveDocumentStatusHASISSUE then refuse m ''Reject''
     else accept (m\<lparr>md_Status := MoveDocumentStatusHASISSUE\<rparr>))"

definition AttemptTransition :: "MoveDocumentStatus \<Rightarrow> MoveDocument \<Rightarrow> MoveDocument call" where
  "AttemptTransition targetStatus m = (if targetStatus = md_Status m then accept m
     else case targetStatus of
       MoveDocumentStatusOK \<Rightarrow> MoveDocument_Approve m
     | MoveDocumentStatusHASISSUE \<Rightarrow> MoveDocument_Reject m
     | MoveDocumentStatusAWAITINGREVIEW \<Rightarrow> refuse m ''AWAITING_REVIEW'')"

section \<open>A service member reads no one else's rows\<close>

lemma find_row_Ret: "find_row key rows i = Ret r \<Longrightarrow> r \<in> set rows \<and> key r = i"
  unfolding find_row_def map_fail_eq_Ret by (drule first_row_filter_Ret) simp

lemma loaded_ID_member: "loaded_ID key rows i = j \<Longrightarrow> j \<noteq> uuid_Nil \<Longrightarrow> i = j"
  by (simp add: loaded_ID_def split: if_splits)

text \<open>The interface of a guarded fetch: in the app of the service members, what is fetched is the
  session's own.\<close>

locale guarded_fetch =
  fixes fetch :: "tables \<Rightarrow> Session \<Rightarrow> uuid \<Rightarrow> ('e, 'a) outcome"
    and owns :: "tables \<Rightarrow> Session \<Rightarrow> uuid \<Rightarrow> bool"
  assumes guarded: "IsMilApp s \<Longrightarrow> IsServiceMember s \<Longrightarrow> fetch w s i = Ret x \<Longrightarrow> owns w s i"
    and exclusive: "owns w s i \<Longrightarrow> owns w t i \<Longrightarrow> ss_ServiceMemberID s = ss_ServiceMemberID t \<or> ss_UserID s = ss_UserID t"
begin

lemma isolated:
  assumes "IsMilApp s" "IsServiceMember s" "IsMilApp t" "IsServiceMember t"
    "ss_ServiceMemberID s \<noteq> ss_ServiceMemberID t" "ss_UserID s \<noteq> ss_UserID t"
  shows "\<not> (is_ret (fetch w s i) \<and> is_ret (fetch w t i))"
proof
  assume "is_ret (fetch w s i) \<and> is_ret (fetch w t i)"
  then obtain x y where "fetch w s i = Ret x" "fetch w t i = Ret y" by (auto simp: is_ret_iff)
  from exclusive [OF guarded [OF assms(1,2) this(1)] guarded [OF assms(3,4) this(2)]] assms(5,6) show False by blast
qed

end

definition owns_member :: "tables \<Rightarrow> Session \<Rightarrow> uuid \<Rightarrow> bool" where
  "owns_member w s i \<longleftrightarrow> i = ss_ServiceMemberID s"

definition owns_order :: "tables \<Rightarrow> Session \<Rightarrow> uuid \<Rightarrow> bool" where
  "owns_order w s i \<longleftrightarrow> (\<exists>order. find_row or_ID (tb_orders w) i = Ret order \<and> or_ServiceMemberID order = ss_ServiceMemberID s)"

definition owns_move :: "tables \<Rightarrow> Session \<Rightarrow> uuid \<Rightarrow> bool" where
  "owns_move w s i \<longleftrightarrow> (\<exists>move. find_row mv_ID (tb_moves w) i = Ret move \<and> owns_order w s (mv_OrdersID move))"

definition owns_ppm :: "tables \<Rightarrow> Session \<Rightarrow> uuid \<Rightarrow> bool" where
  "owns_ppm w s i \<longleftrightarrow> (\<exists>ppm. find_row pp_ID (tb_ppms w) i = Ret ppm \<and> owns_move w s (pp_MoveID ppm))"

definition owns_document :: "tables \<Rightarrow> Session \<Rightarrow> uuid \<Rightarrow> bool" where
  "owns_document w s i \<longleftrightarrow> (\<exists>d. find_row doc_ID (tb_documents w) i = Ret d \<and> doc_ServiceMemberID d = ss_ServiceMemberID s)"

definition owns_upload :: "tables \<Rightarrow> Session \<Rightarrow> uuid \<Rightarrow> bool" where
  "owns_upload w s i \<longleftrightarrow> (\<exists>u. find_row up_ID (tb_uploads w) i = Ret u
     \<and> (case up_DocumentID u of Some d \<Rightarrow> owns_document w s d | None \<Rightarrow> up_UploaderID u = ss_UserID s))"

definition owns_move_document :: "tables \<Rightarrow> Session \<Rightarrow> uuid \<Rightarrow> bool" where
  "owns_move_document w s i \<longleftrightarrow> (\<exists>doc. find_row md_ID (tb_move_documents w) i = Ret doc \<and> owns_document w s (md_DocumentID doc))"

lemmas owns_defs = owns_member_def owns_order_def owns_move_def owns_ppm_def owns_document_def owns_upload_def owns_move_document_def

lemma owns_order_same: "owns_order w s i \<Longrightarrow> owns_order w t i \<Longrightarrow> ss_ServiceMemberID s = ss_ServiceMemberID t"
  by (auto simp: owns_order_def)

lemma owns_move_same: "owns_move w s i \<Longrightarrow> owns_move w t i \<Longrightarrow> ss_ServiceMemberID s = ss_ServiceMemberID t"
  by (auto simp: owns_move_def dest: owns_order_same)

lemma owns_document_same: "owns_document w s i \<Longrightarrow> owns_document w t i \<Longrightarrow> ss_ServiceMemberID s = ss_ServiceMemberID t"
  by (auto simp: owns_document_def)

lemma move_owner_member:
  assumes "move_owner w i = j" "j \<noteq> uuid_Nil"
  shows "\<exists>move order. find_row mv_ID (tb_moves w) i = Ret move \<and> find_row or_ID (tb_orders w) (mv_OrdersID move) = Ret order
    \<and> or_ServiceMemberID order = j"
proof (cases "find_row mv_ID (tb_moves w) i")
  case (Ret move)
  with assms show ?thesis
    by (cases "find_row or_ID (tb_orders w) (mv_OrdersID move)") (auto simp: move_owner_def loaded_ID_def split: if_splits)
qed (use assms in \<open>simp_all add: move_owner_def\<close>)

interpretation member_fetch: guarded_fetch FetchServiceMemberForUser owns_member
  by unfold_locales (auto simp: FetchServiceMemberForUser_def owns_member_def outcome_simps dest!: find_row_Ret split: if_splits)

interpretation order_fetch: guarded_fetch FetchOrderForUser owns_order
  by unfold_locales (auto simp: FetchOrderForUser_def owns_order_def outcome_simps IsServiceMember_def dest: loaded_ID_member split: if_splits)

interpretation move_fetch: guarded_fetch FetchMove owns_move
  by unfold_locales (auto simp: FetchMove_def owns_move_def outcome_simps dest: order_fetch.guarded owns_order_same)

interpretation ppm_fetch: guarded_fetch FetchPersonallyProcuredMove owns_ppm
proof unfold_locales
  fix s w i x
  assume "IsMilApp s" "IsServiceMember s" "FetchPersonallyProcuredMove w s i = Ret x"
  then show "owns_ppm w s i"
    by (auto simp: FetchPersonallyProcuredMove_def owns_defs outcome_simps IsServiceMember_def dest!: move_owner_member split: if_splits)
qed (auto simp: owns_ppm_def dest: owns_move_same)

interpretation document_fetch: guarded_fetch FetchDocument owns_document
  by unfold_locales (auto simp: FetchDocument_def outcome_simps owns_document_def dest!: member_fetch.guarded simp: owns_member_def)

interpretation upload_fetch: guarded_fetch FetchUpload owns_upload
proof unfold_locales
  fix s w i x
  assume m: "IsMilApp s" "IsServiceMember s" and f: "FetchUpload w s i = Ret x"
  from f have u: "find_row up_ID (tb_uploads w) i = Ret x"
    by (auto simp: FetchUpload_def outcome_simps split: option.splits if_splits)
  have "case up_DocumentID x of Some d \<Rightarrow> owns_document w s d | None \<Rightarrow> up_UploaderID x = ss_UserID s"
    using f u document_fetch.guarded [OF m] by (auto simp: FetchUpload_def outcome_simps split: option.splits if_splits)
  with u show "owns_upload w s i" unfolding owns_upload_def by blast
qed (auto simp: owns_upload_def dest: owns_document_same split: option.splits)

interpretation certification_fetch: guarded_fetch FetchSignedCertifications owns_move
  by unfold_locales (auto simp: FetchSignedCertifications_def outcome_simps dest: move_fetch.guarded owns_move_same)

interpretation payment_fetch: guarded_fetch FetchSignedCertificationsPPMPayment owns_move
  by unfold_locales (auto simp: FetchSignedCertificationsPPMPayment_def outcome_simps dest: move_fetch.guarded owns_move_same)

interpretation expenses_fetch: guarded_fetch "\<lambda>w s i. FetchMovingExpenseDocuments w s i status" owns_ppm
  by unfold_locales (auto simp: FetchMovingExpenseDocuments_def outcome_simps owns_ppm_def dest: ppm_fetch.guarded owns_move_same
      split: if_splits)

text \<open>A caller of \<open>FetchMoveDocument\<close> dereferences what it returns.\<close>

lemma FetchMoveDocument_Some:
  assumes "FetchMoveDocument w s i = Ret (Some x)" "IsMilApp s" "IsServiceMember s"
  shows "owns_move_document w s i"
proof (cases "find_row md_ID (tb_move_documents w) i")
  case (Ret doc)
  obtain expense ticket where "has_one (tb_expense_error w i) (filter (\<lambda>e. me_MoveDocumentID e = i) (tb_expenses w)) = Inl expense"
    "has_one (tb_weight_ticket_error w i) (filter (\<lambda>t. wt_MoveDocumentID t = i) (tb_weight_tickets w)) = Inl ticket"
    using assms(1) by (auto simp: FetchMoveDocument_def Ret split: if_splits sum.splits)
  with assms(1,2) have "(case find_row doc_ID (tb_documents w) (md_DocumentID doc) of Ret document \<Rightarrow> doc_ServiceMemberID document | _ \<Rightarrow> uuid_Nil)
      = ss_ServiceMemberID s"
    by (simp add: FetchMoveDocument_def Ret split: if_splits)
  with assms(3) have "owns_document w s (md_DocumentID doc)"
    by (auto simp: owns_document_def IsServiceMember_def split: outcome.splits)
  with Ret show ?thesis unfolding owns_move_document_def by blast
qed (use assms(1) in \<open>simp_all add: FetchMoveDocument_def split: if_splits\<close>)

interpretation move_document_fetch: guarded_fetch "\<lambda>w s i. obind (FetchMoveDocument w s i) deref" owns_move_document
proof unfold_locales
  fix s w i and x :: MoveDocument
  assume m: "IsMilApp s" "IsServiceMember s" and "obind (FetchMoveDocument w s i) deref = Ret x"
  then have "FetchMoveDocument w s i = Ret (Some x)" by (auto simp: outcome_simps)
  then show "owns_move_document w s i" using FetchMoveDocument_Some m by blast
qed (auto simp: owns_move_document_def dest: owns_document_same)

text \<open>C13: two service members who are different users never both read the same record through the fetches of
  the models: service member, orders, move, PPM, document, upload, move document, certifications or expenses.\<close>

theorem service_members_isolated:
  assumes s: "IsMilApp s" "IsServiceMember s" and t: "IsMilApp t" "IsServiceMember t"
    and different: "ss_ServiceMemberID s \<noteq> ss_ServiceMemberID t" "ss_UserID s \<noteq> ss_UserID t"
  shows "\<not> (is_ret (FetchServiceMemberForUser w s i) \<and> is_ret (FetchServiceMemberForUser w t i))
    \<and> \<not> (is_ret (FetchOrderForUser w s i) \<and> is_ret (FetchOrderForUser w t i))
    \<and> \<not> (is_ret (FetchMove w s i) \<and> is_ret (FetchMove w t i))
    \<and> \<not> (is_ret (FetchPersonallyProcuredMove w s i) \<and> is_ret (FetchPersonallyProcuredMove w t i))
    \<and> \<not> (is_ret (FetchDocument w s i) \<and> is_ret (FetchDocument w t i))
    \<and> \<not> (is_ret (FetchUpload w s i) \<and> is_ret (FetchUpload w t i))
    \<and> \<not> (is_ret (obind (FetchMoveDocument w s i) deref) \<and> is_ret (obind (FetchMoveDocument w t i) deref))
    \<and> \<not> (is_ret (FetchSignedCertifications w s i) \<and> is_ret (FetchSignedCertifications w t i))
    \<and> \<not> (is_ret (FetchSignedCertificationsPPMPayment w s i) \<and> is_ret (FetchSignedCertificationsPPMPayment w t i))
    \<and> \<not> (is_ret (FetchMovingExpenseDocuments w s i status) \<and> is_ret (FetchMovingExpenseDocuments w t i status))"
  by (intro conjI member_fetch.isolated order_fetch.isolated move_fetch.isolated ppm_fetch.isolated document_fetch.isolated
      upload_fetch.isolated move_document_fetch.isolated certification_fetch.isolated payment_fetch.isolated
      expenses_fetch.isolated s t different)

text \<open>The session of a service member in the app of the service members.\<close>

definition member_session :: "uuid \<Rightarrow> uuid \<Rightarrow> Session" where
  "member_session user member = \<lparr>ss_ApplicationName = MilApp, ss_Hostname = '''', ss_IDToken = '''', ss_UserID = user, ss_Email = '''',
     ss_FirstName = '''', ss_Middle = '''', ss_LastName = '''', ss_ServiceMemberID = member, ss_OfficeUserID = 0, ss_TspUserID = 0,
     ss_AdminUserID = 0, ss_AdminUserRole = '''', ss_DpsUserID = 0\<rparr>"

definition one_upload :: tables where
  "one_upload = \<lparr>tb_members = [], tb_orders = [], tb_moves = [], tb_ppms = [], tb_reimbursements = [],
     tb_shipments = [], tb_addresses = [], tb_documents = [],
     tb_uploads = [\<lparr>up_ID = 8, up_DocumentID = None, up_UploaderID = 104, up_Filename = '''', up_Bytes = 0, up_ContentType = '''',
       up_Checksum = '''', up_StorageKey = ''''\<rparr>],
     tb_move_documents = [], tb_expenses = [], tb_weight_tickets = [], tb_certifications = [],
     tb_tsp_users = Map.empty, tb_offers = [], tb_expense_error = (\<lambda>_. None), tb_weight_ticket_error = (\<lambda>_. None)\<rparr>"

theorem service_members_isolated_witness:
  "is_ret (FetchUpload one_upload (member_session 104 4) 8) \<and> \<not> is_ret (FetchUpload one_upload (member_session 105 5) 8)"
proof -
  have "is_ret (FetchUpload one_upload (member_session 104 4) 8)"
    by (simp add: FetchUpload_def one_upload_def find_row_def member_session_def)
  with service_members_isolated [of "member_session 104 4" "member_session 105 5" one_upload 8]
  show ?thesis by (simp add: member_session_def IsMilApp_def IsServiceMember_def uuid_Nil_def)
qed

end
