(* ===== verification/MoveStore.thy ===== *)
theory MoveStore
  imports Access Numbering
begin

text \<open>
  Writing moves and what hangs on them (\<open>pkg/models/move.go\<close>, \<open>personally_procured_move.go\<close>,
  \<open>move_document.go\<close>, \<open>service_member.go\<close>): new orders and new moves with their locators, PPMs with
  their advances, documents of a move, and the submitted move with its GBLOCs and GBL numbers.

  A transaction is a function from the store that commits a new one, rolls back with the validation
  errors and the error the function answers with, or panics.  Whether a row passes validation and is
  accepted by the database is a function of the store, save for the unique locators, which are
  checked against the rows.  Objects a failed call leaves modified in memory are not kept.
\<close>

section \<open>The store and its transactions\<close>

record store =
  st_tables :: tables
  st_fresh :: uuid
  st_gbl_tracker :: "string tracker"
  st_duty_stations :: "(uuid \<times> string option) list"
  st_save_order :: "Order \<Rightarrow> verrs \<times> goerr option"
  st_save_move :: "Move \<Rightarrow> verrs \<times> goerr option"
  st_save_ppm :: "PersonallyProcuredMove \<Rightarrow> verrs \<times> goerr option"
  st_save_reimbursement :: "Reimbursement \<Rightarrow> verrs \<times> goerr option"
  st_save_shipment :: "Shipment \<Rightarrow> verrs \<times> goerr option"
  st_save_document :: "Document \<Rightarrow> verrs \<times> goerr option"
  st_save_upload :: "Upload \<Rightarrow> verrs \<times> goerr option"
  st_save_move_document :: "MoveDocument \<Rightarrow> verrs \<times> goerr option"
  st_save_expense :: "MovingExpenseDocument \<Rightarrow> verrs \<times> goerr option"
  st_save_weight_ticket :: "WeightTicketSetDocument \<Rightarrow> verrs \<times> goerr option"
  st_destroy :: "uuid \<Rightarrow> goerr option"

datatype ('a, 's) tx_result = Commit 'a 's | Rollback verrs "goerr option" | Crash

type_synonym 'a tx = "store \<Rightarrow> ('a, store) tx_result"

definition tx_return :: "'a \<Rightarrow> 'a tx" where
  "tx_return x w = Commit x w"

definition tx_bind :: "'a tx \<Rightarrow> ('a \<Rightarrow> 'b tx) \<Rightarrow> 'b tx" where
  "tx_bind m k w = (case m w of Commit x w' \<Rightarrow> k x w' | Rollback verrs err \<Rightarrow> Rollback verrs err | Crash \<Rightarrow> Crash)"

lemma tx_bind_Commit [simp]: "tx_bind m k w = Commit y w2 \<longleftrightarrow> (\<exists>x w1. m w = Commit x w1 \<and> k x w1 = Commit y w2)"
  by (simp add: tx_bind_def split: tx_result.split)

lemma tx_return_Commit [simp]: "tx_return x w = Commit y w' \<longleftrightarrow> x = y \<and> w = w'"
  by (simp add: tx_return_def)

definition each :: "('a \<Rightarrow> 'b tx) \<Rightarrow> 'a list \<Rightarrow> 'b list tx" where
  "each f xs = foldr (\<lambda>x rest. tx_bind (f x) (\<lambda>y. tx_bind rest (\<lambda>ys. tx_return (y # ys)))) xs (tx_return [])"

lemma each_simps [simp]:
  "each f [] = tx_return []"
  "each f (x # xs) = tx_bind (f x) (\<lambda>y. tx_bind (each f xs) (\<lambda>ys. tx_return (y # ys)))"
  by (simp_all add: each_def)

text \<open>\<open>ValidateAndSave\<close>: any validation error or error ends the function with the given answer; a row
  without identifier is inserted under a new one, one with an identifier is replaced.\<close>

definition write_row :: "('a \<Rightarrow> uuid) \<Rightarrow> (uuid \<Rightarrow> 'a \<Rightarrow> 'a) \<Rightarrow> (('a list \<Rightarrow> 'a list) \<Rightarrow> tables \<Rightarrow> tables) \<Rightarrow> 'a \<Rightarrow> store \<Rightarrow> 'a \<times> store" where
  "write_row key set_key upd x w =
     (if key x = uuid_Nil
      then (let y = set_key (st_fresh w) x
        in (y, w\<lparr>st_fresh := st_fresh w + 1, st_tables := upd (\<lambda>rows. rows @ [y]) (st_tables w)\<rparr>))
      else (x, w\<lparr>st_tables := upd (map (\<lambda>q. if key q = key x then x else q)) (st_tables w)\<rparr>))"

definition save :: "(store \<Rightarrow> 'a \<Rightarrow> verrs \<times> goerr option) \<Rightarrow> ('a \<Rightarrow> store \<Rightarrow> 'a \<times> store) \<Rightarrow> (goerr option \<Rightarrow> goerr option) \<Rightarrow> 'a \<Rightarrow> 'a tx" where
  "save answer write wrap x w = (case answer w x of (verrs, err) \<Rightarrow>
     if verrs \<noteq> [] \<or> err \<noteq> None then Rollback verrs (wrap err)
     else (case write x w of (y, w') \<Rightarrow> Commit y w'))"

definition wrapped :: "string \<Rightarrow> goerr option \<Rightarrow> goerr option" where
  "wrapped m err = errors_Wrap err m"

definition save_order :: "(goerr option \<Rightarrow> goerr option) \<Rightarrow> Order \<Rightarrow> Order tx" where
  "save_order = save st_save_order (write_row or_ID (\<lambda>i. or_ID_update (\<lambda>_. i)) tb_orders_update)"

definition save_move :: "(goerr option \<Rightarrow> goerr option) \<Rightarrow> Move \<Rightarrow> Move tx" where
  "save_move = save st_save_move (write_row mv_ID (\<lambda>i. mv_ID_update (\<lambda>_. i)) tb_moves_update)"

definition save_ppm :: "(goerr option \<Rightarrow> goerr option) \<Rightarrow> PersonallyProcuredMove \<Rightarrow> PersonallyProcuredMove tx" where
  "save_ppm = save st_save_ppm (write_row pp_ID (\<lambda>i. pp_ID_update (\<lambda>_. i)) tb_ppms_update)"

definition save_reimbursement :: "(goerr option \<Rightarrow> goerr option) \<Rightarrow> Reimbursement \<Rightarrow> Reimbursement tx" where
  "save_reimbursement = save st_save_reimbursement (write_row rb_ID (\<lambda>i. rb_ID_update (\<lambda>_. i)) tb_reimbursements_update)"

definition save_shipment_row :: "(goerr option \<Rightarrow> goerr option) \<Rightarrow> Shipment \<Rightarrow> Shipment tx" where
  "save_shipment_row = save st_save_shipment (write_row shp_ID (\<lambda>i. shp_ID_update (\<lambda>_. i)) tb_shipments_update)"

definition save_document :: "(goerr option \<Rightarrow> goerr option) \<Rightarrow> Document \<Rightarrow> Document tx" where
  "save_document = save st_save_document (write_row doc_ID (\<lambda>i. doc_ID_update (\<lambda>_. i)) tb_documents_update)"

definition save_upload :: "(goerr option \<Rightarrow> goerr option) \<Rightarrow> Upload \<Rightarrow> Upload tx" where
  "save_upload = save st_save_upload (write_row up_ID (\<lambda>i. up_ID_update (\<lambda>_. i)) tb_uploads_update)"

definition save_move_document :: "(goerr option \<Rightarrow> goerr option) \<Rightarrow> MoveDocument \<Rightarrow> MoveDocument tx" where
  "save_move_document = save st_save_move_document (write_row md_ID (\<lambda>i. md_ID_update (\<lambda>_. i)) tb_move_documents_update)"

definition save_expense :: "(goerr option \<Rightarrow> goerr option) \<Rightarrow> MovingExpenseDocument \<Rightarrow> MovingExpenseDocument tx" where
  "save_expense = save st_save_expense (write_row me_ID (\<lambda>i. me_ID_update (\<lambda>_. i)) tb_expenses_update)"

definition save_weight_ticket :: "(goerr option \<Rightarrow> goerr option) \<Rightarrow> WeightTicketSetDocument \<Rightarrow> WeightTicketSetDocument tx" where
  "save_weight_ticket = save st_save_weight_ticket (write_row wt_ID (\<lambda>i. wt_ID_update (\<lambda>_. i)) tb_weight_tickets_update)"

text \<open>\<open>db.Destroy\<close>.\<close>

definition destroy :: "((tables \<Rightarrow> tables)) \<Rightarrow> uuid \<Rightarrow> string \<Rightarrow> unit tx" where
  "destroy remove i m w = (case st_destroy w i of
      Some e \<Rightarrow> Rollback [] (Some (Wrap m e))
    | None \<Rightarrow> Commit () (w\<lparr>st_tables := remove (st_tables w)\<rparr>))"

text \<open>\<open>db.Transaction\<close>: the store, the result, the validation errors and the error; a panic leaves the
  caller without an answer.\<close>

definition transaction :: "'a tx \<Rightarrow> store \<Rightarrow> (store \<times> 'a option \<times> verrs \<times> goerr option) result" where
  "transaction f w = (case f w of
      Commit x w' \<Rightarrow> Ret (w', Some x, [], None)
    | Rollback verrs err \<Rightarrow> Ret (w, None, verrs, err)
    | Crash \<Rightarrow> Panic)"

section \<open>Orders and new moves\<close>

text \<open>\<open>CreateOrder\<close> opens a transaction but writes through the outer connection \<open>db\<close>, so that nothing
  it has written is rolled back: each write lasts.\<close>

definition lasting :: "'a tx \<Rightarrow> store \<Rightarrow> store \<times> 'a option \<times> verrs \<times> goerr option" where
  "lasting f w = (case f w of
      Commit x w' \<Rightarrow> (w', Some x, [], None)
    | Rollback verrs err \<Rightarrow> (w, None, verrs, err)
    | Crash \<Rightarrow> (w, None, [], None))"

definition CreateOrder :: "ServiceMember \<Rightarrow> Order \<Rightarrow> store \<Rightarrow> store \<times> Order option \<times> verrs \<times> goerr option" where
  "CreateOrder s order w =
     (case lasting (save_document id \<lparr>doc_ID = uuid_Nil, doc_ServiceMemberID = sm_ID s\<rparr>) w of
        (w1, None, verrs, err) \<Rightarrow> (w1, None, verrs, err)
      | (w1, Some uploadedOrders, _) \<Rightarrow>
          lasting (save_order id (order\<lparr>or_ID := uuid_Nil, or_ServiceMemberID := sm_ID s, or_Status := OrderStatusDRAFT\<rparr>)) w1)"

definition maxLocatorAttempts :: nat where
  "maxLocatorAttempts = 3"

definition locatorLength :: nat where
  "locatorLength = 6"

definition locatorLetters :: string where
  "locatorLetters = ''346789BCDFGHJKMPQRTVWXY''"

text \<open>The letters of the bytes of the hash.\<close>

definition GenerateLocator :: "nat list \<Rightarrow> string" where
  "GenerateLocator scrambledBytes = map (\<lambda>idx. locatorLetters ! (scrambledBytes ! idx mod length locatorLetters)) [0..<locatorLength]"

record MoveOptions =
  mo_SelectedType :: "string option"
  mo_Show :: "bool option"

text \<open>\<open>ValidateAndCreate\<close> of a move: a locator that is taken violates the unique constraint.\<close>

definition create_move :: "Move \<Rightarrow> store \<Rightarrow> store \<times> Move \<times> verrs \<times> goerr option" where
  "create_move move w = (case st_save_move w move of (verrs, err) \<Rightarrow>
     if verrs \<noteq> [] then (w, move, verrs, None)
     else if err \<noteq> None then (w, move, [], err)
     else if list_ex (\<lambda>m. mv_Locator m = mv_Locator move) (tb_moves (st_tables w))
       then (w, move, [], Some ErrCreateViolatesUniqueConstraint)
     else (let y = move\<lparr>mv_ID := st_fresh w\<rparr> in
       (w\<lparr>st_fresh := st_fresh w + 1, st_tables := tb_moves_update (\<lambda>rows. rows @ [y]) (st_tables w)\<rparr>, y, [], None)))"

definition new_move :: "Order \<Rightarrow> MoveOptions \<Rightarrow> string \<Rightarrow> Move" where
  "new_move orders moveOptions locator = \<lparr>mv_ID = uuid_Nil, mv_Locator = locator, mv_OrdersID = or_ID orders, mv_Orders = orders,
     mv_PersonallyProcuredMoves = [], mv_Shipments = [], mv_Status = MoveStatusDRAFT, mv_CancelReason = None,
     mv_SelectedMoveType = Some (case mo_SelectedType moveOptions of None \<Rightarrow> '''' | Some t \<Rightarrow> t),
     mv_Show = (case mo_Show moveOptions of None \<Rightarrow> Some True | Some b \<Rightarrow> Some b)\<rparr>"

text \<open>The attempts left and the hashes drawn for them.\<close>

fun create_attempts :: "nat \<Rightarrow> nat list list \<Rightarrow> Order \<Rightarrow> MoveOptions \<Rightarrow> store \<Rightarrow> store \<times> Move option \<times> verrs \<times> goerr option" where
  "create_attempts 0 hashes orders moveOptions w = (w, None, [], Some ErrLocatorGeneration)"
| "create_attempts (Suc i) hashes orders moveOptions w =
     (case create_move (new_move orders moveOptions (GenerateLocator (hd hashes))) w of (w', move, verrs, err) \<Rightarrow>
        if verrs \<noteq> [] then (w', None, verrs, None)
        else (case err of
            Some e \<Rightarrow> (if Cause e = ErrCreateViolatesUniqueConstraint
              then create_attempts i (tl hashes) orders moveOptions w' else (w', None, verrs, Some e))
          | None \<Rightarrow> (w', Some move, verrs, None)))"

definition createNewMove :: "nat list list \<Rightarrow> Order \<Rightarrow> MoveOptions \<Rightarrow> store \<Rightarrow> store \<times> Move option \<times> verrs \<times> goerr option" where
  "createNewMove = create_attempts maxLocatorAttempts"

section \<open>PPMs and their advances\<close>

definition remove_reimbursement :: "uuid \<Rightarrow> tables \<Rightarrow> tables" where
  "remove_reimbursement i = tb_reimbursements_update (filter (\<lambda>r. rb_ID r \<noteq> i))"

text \<open>The advance before the PPM itself is saved: the PPM that is then saved.\<close>

definition settle_advance :: "PersonallyProcuredMove \<Rightarrow> PersonallyProcuredMove tx" where
  "settle_advance ppm w =
     (if pp_HasRequestedAdvance ppm then
        (case pp_Advance ppm of
           Some advance \<Rightarrow>
             (if rb_MethodOfReceipt advance = MethodOfReceiptGTCC
              then Rollback [(''MethodOfReceipt'', [''GTCC is not a valid receipt method for PPM Advances.''])] None
              else tx_bind (save_reimbursement (wrapped ''Error Saving Advance'') advance)
                (\<lambda>advance. tx_return (ppm\<lparr>pp_Advance := Some advance, pp_AdvanceID := Some (rb_ID advance)\<rparr>)) w)
         | None \<Rightarrow> (if pp_AdvanceID ppm = None then Rollback [] (Some ErrInvalidPatchGate) else Commit ppm w))
      else (case pp_AdvanceID ppm of
           None \<Rightarrow> Commit ppm w
         | Some i \<Rightarrow>
             (case (case pp_Advance ppm of Some advance \<Rightarrow> Ret advance
                | None \<Rightarrow> first_row (filter (\<lambda>r. rb_ID r = i) (tb_reimbursements (st_tables w)))) of
                Ret advance \<Rightarrow> tx_bind (destroy (remove_reimbursement (rb_ID advance)) (rb_ID advance) ''Error Deleting Advance record'')
                  (\<lambda>_. tx_return (ppm\<lparr>pp_AdvanceID := None, pp_Advance := None\<rparr>)) w
              | Fail e \<Rightarrow> Rollback [] (Some (Wrap ''Error finding Advance for Advance ID'' e))
              | Panic \<Rightarrow> Crash)))"

definition SavePersonallyProcuredMove ::
    "PersonallyProcuredMove \<Rightarrow> store \<Rightarrow> (store \<times> PersonallyProcuredMove option \<times> verrs \<times> goerr option) result" where
  "SavePersonallyProcuredMove ppm = transaction (tx_bind (settle_advance ppm) (save_ppm (wrapped ''Error Saving PPM'')))"

section \<open>Documents of a move\<close>

definition SelectedMoveTypeHHG :: string where
  "SelectedMoveTypeHHG = ''HHG''"

definition createMoveDocumentWithoutTransaction ::
    "Move \<Rightarrow> Upload list \<Rightarrow> uuid option \<Rightarrow> MoveDocumentType \<Rightarrow> string \<Rightarrow> string option \<Rightarrow> string \<Rightarrow> MoveDocument tx" where
  "createMoveDocumentWithoutTransaction m uploads modelID moveDocumentType title notes moveType =
     tx_bind (save_document (wrapped ''Error creating document for move document'')
       \<lparr>doc_ID = uuid_Nil, doc_ServiceMemberID = or_ServiceMemberID (mv_Orders m)\<rparr>) (\<lambda>newDoc.
     tx_bind (each (\<lambda>upload. save_upload (wrapped ''Error updating upload'') (upload\<lparr>up_DocumentID := Some (doc_ID newDoc)\<rparr>)) uploads) (\<lambda>_.
     save_move_document (wrapped ''Error creating move document'')
       \<lparr>md_ID = uuid_Nil, md_DocumentID = doc_ID newDoc, md_MoveID = mv_ID m,
         md_PersonallyProcuredMoveID = (if moveType = SelectedMoveTypeHHG then None else modelID),
         md_PersonallyProcuredMove = None,
         md_ShipmentID = (if moveType = SelectedMoveTypeHHG then modelID else None), md_Shipment = None,
         md_Title = title, md_Status = MoveDocumentStatusAWAITINGREVIEW, md_MoveDocumentType = moveDocumentType,
         md_MovingExpenseDocument = None, md_Notes = (if moveType = SelectedMoveTypeHHG then None else notes),
         md_WeightTicketSetDocument = None\<rparr>))"

definition CreateMoveDocument ::
    "Move \<Rightarrow> Upload list \<Rightarrow> uuid option \<Rightarrow> MoveDocumentType \<Rightarrow> string \<Rightarrow> string option \<Rightarrow> string \<Rightarrow> store
      \<Rightarrow> (store \<times> MoveDocument option \<times> verrs \<times> goerr option) result" where
  "CreateMoveDocument m uploads modelID moveDocumentType title notes moveType =
     transaction (createMoveDocumentWithoutTransaction m uploads modelID moveDocumentType title notes moveType)"

definition CreateMovingExpenseDocument ::
    "Move \<Rightarrow> Upload list \<Rightarrow> uuid option \<Rightarrow> MoveDocumentType \<Rightarrow> string \<Rightarrow> string option \<Rightarrow> MovingExpenseDocument \<Rightarrow> string \<Rightarrow> store
      \<Rightarrow> (store \<times> MovingExpenseDocument option \<times> verrs \<times> goerr option) result" where
  "CreateMovingExpenseDocument m uploads ppmID moveDocumentType title notes expenseDocument moveType =
     transaction (tx_bind (createMoveDocumentWithoutTransaction m uploads ppmID moveDocumentType title notes moveType) (\<lambda>newMoveDocument.
       save_expense (wrapped ''Error creating moving expense document'')
         (expenseDocument\<lparr>me_ID := uuid_Nil, me_MoveDocumentID := md_ID newMoveDocument\<rparr>)))"

definition CreateWeightTicketSetDocument ::
    "Move \<Rightarrow> Upload list \<Rightarrow> uuid option \<Rightarrow> WeightTicketSetDocument \<Rightarrow> string \<Rightarrow> store
      \<Rightarrow> (store \<times> WeightTicketSetDocument option \<times> verrs \<times> goerr option) result" where
  "CreateWeightTicketSetDocument m uploads ppmID ticket moveType =
     transaction (tx_bind (createMoveDocumentWithoutTransaction m uploads ppmID MoveDocumentTypeWEIGHTTICKETSET
         ''weight_ticket_set'' (Some (wt_VehicleNickname ticket)) moveType) (\<lambda>newMoveDocument.
       save_weight_ticket (wrapped ''Error creating moving expense document'')
         (ticket\<lparr>wt_ID := uuid_Nil, wt_MoveDocumentID := md_ID newMoveDocument\<rparr>)))"

text \<open>The save actions; the third value is the empty string.\<close>

datatype save_action = SaveModel | DeleteModel | NoAction

text \<open>A nil document handed to the database layer panics.\<close>

definition save_expense_action :: "save_action \<Rightarrow> MoveDocument \<Rightarrow> MoveDocument tx" where
  "save_expense_action action doc = (case action of
      NoAction \<Rightarrow> tx_return doc
    | SaveModel \<Rightarrow> (case md_MovingExpenseDocument doc of None \<Rightarrow> (\<lambda>_. Crash)
        | Some e \<Rightarrow> tx_bind (save_expense (wrapped ''Error Creating Moving Expense Document'') e)
            (\<lambda>e. tx_return (doc\<lparr>md_MovingExpenseDocument := Some e\<rparr>)))
    | DeleteModel \<Rightarrow> (case md_MovingExpenseDocument doc of None \<Rightarrow> (\<lambda>_. Crash)
        | Some e \<Rightarrow> tx_bind (destroy (tb_expenses_update (filter (\<lambda>r. me_ID r \<noteq> me_ID e))) (me_ID e) ''Error Deleting Moving Expense Document'')
            (\<lambda>_. tx_return (doc\<lparr>md_MovingExpenseDocument := None\<rparr>))))"

definition save_ticket_action :: "save_action \<Rightarrow> MoveDocument \<Rightarrow> MoveDocument tx" where
  "save_ticket_action action doc = (case action of
      NoAction \<Rightarrow> tx_return doc
    | SaveModel \<Rightarrow> (case md_WeightTicketSetDocument doc of None \<Rightarrow> (\<lambda>_. Crash)
        | Some t \<Rightarrow> tx_bind (save_weight_ticket (wrapped ''Error Creating Moving Expense Document'') t)
            (\<lambda>t. tx_return (doc\<lparr>md_WeightTicketSetDocument := Some t\<rparr>)))
    | DeleteModel \<Rightarrow> (case md_WeightTicketSetDocument doc of None \<Rightarrow> (\<lambda>_. Crash)
        | Some t \<Rightarrow> tx_bind (destroy (tb_weight_tickets_update (filter (\<lambda>r. wt_ID r \<noteq> wt_ID t))) (wt_ID t) ''Error Deleting Moving Expense Document'')
            (\<lambda>_. tx_return (doc\<lparr>md_WeightTicketSetDocument := None\<rparr>))))"

text \<open>The row behind an identifier that was not loaded is a zero struct, which validation refuses.\<close>

definition save_loaded :: "uuid option \<Rightarrow> 'a option \<Rightarrow> ('a \<Rightarrow> 'a tx) \<Rightarrow> unit tx" where
  "save_loaded i x save_it = (case i of None \<Rightarrow> tx_return ()
    | Some _ \<Rightarrow> (case x of None \<Rightarrow> (\<lambda>_. Rollback [(''status'', [''Status can not be blank.''])] None)
        | Some x \<Rightarrow> tx_bind (save_it x) (\<lambda>_. tx_return ())))"

definition SaveMoveDocument ::
    "MoveDocument \<Rightarrow> save_action \<Rightarrow> save_action \<Rightarrow> store \<Rightarrow> (store \<times> MoveDocument option \<times> verrs \<times> goerr option) result" where
  "SaveMoveDocument moveDocument saveExpenseAction saveWeightTicketSetAction = transaction (
     tx_bind (save_expense_action saveExpenseAction moveDocument) (\<lambda>doc.
     tx_bind (save_ticket_action saveWeightTicketSetAction doc) (\<lambda>doc.
     tx_bind (save_loaded (md_PersonallyProcuredMoveID doc) (md_PersonallyProcuredMove doc)
       (save_ppm (wrapped ''Error Saving Move Document's PPM''))) (\<lambda>_.
     tx_bind (save_loaded (md_ShipmentID doc) (md_Shipment doc)
       (save_shipment_row (wrapped ''Error Saving Move Document's Shipment''))) (\<lambda>_.
     save_move_document (wrapped ''Error Saving Move Document'') doc)))))"

section \<open>Saving a submitted move\<close>

definition getGbloc :: "(uuid \<times> string option) list \<Rightarrow> uuid \<Rightarrow> string result" where
  "getGbloc dutyStations i = map_fail (Wrap ''could not load transportation office for duty station'')
     (obind (first_row (filter (\<lambda>d. fst d = i) dutyStations)) (\<lambda>d. case snd d of
        None \<Rightarrow> Fail ErrFetchNotFound | Some gbloc \<Rightarrow> Ret gbloc))"

text \<open>A call in a transaction: its error is wrapped, its panic is a panic.\<close>

definition calling :: "string \<Rightarrow> 'a result \<Rightarrow> 'a tx" where
  "calling m r w = (case r of Ret x \<Rightarrow> Commit x w | Fail e \<Rightarrow> Rollback [] (Some (Wrap m e)) | Panic \<Rightarrow> Crash)"

lemma calling_Commit [simp]: "calling m r w = Commit x w' \<longleftrightarrow> r = Ret x \<and> w' = w"
  by (auto simp: calling_def split: outcome.splits)

definition assign_gbl :: "Shipment \<Rightarrow> Shipment tx" where
  "assign_gbl shipment w = (case AssignGBLNumber (st_gbl_tracker w) shipment of
     (tr, s, err) \<Rightarrow> (case err of None \<Rightarrow> Commit s (w\<lparr>st_gbl_tracker := tr\<rparr>)
       | Some e \<Rightarrow> Rollback [] (Some (Wrap ''Error assigning GBL number for shipment'' e))))"

definition save_submitted_shipment :: "Order \<Rightarrow> Shipment \<Rightarrow> Shipment tx" where
  "save_submitted_shipment orders shipment w =
     tx_bind (calling ''Error fetching service member'' (FetchServiceMember (st_tables w) (shp_ServiceMemberID shipment))) (\<lambda>serviceMember.
     tx_bind (calling ''Error getting shipment destination GBLOC'' (getGbloc (st_duty_stations w) (or_NewDutyStationID orders))) (\<lambda>destinationGbloc.
     tx_bind (calling ''Error getting shipment destination GBLOC'' (obind (deref (sm_DutyStationID serviceMember)) (getGbloc (st_duty_stations w)))) (\<lambda>sourceGbloc.
     tx_bind (assign_gbl (shipment\<lparr>shp_DestinationGBLOC := Some destinationGbloc, shp_SourceGBLOC := Some sourceGbloc\<rparr>))
       (save_shipment_row (wrapped ''Error Saving Shipment''))))) w"

definition save_ppm_and_advance :: "PersonallyProcuredMove \<Rightarrow> PersonallyProcuredMove tx" where
  "save_ppm_and_advance ppm = tx_bind
     (case pp_Advance ppm of None \<Rightarrow> tx_return () | Some advance \<Rightarrow>
       tx_bind (save_reimbursement (wrapped ''Error Saving Advance'') advance) (\<lambda>_. tx_return ()))
     (\<lambda>_. save_ppm (wrapped ''Error Saving PPM'') ppm)"

definition save_submitted_shipments :: "Move \<Rightarrow> Shipment list tx" where
  "save_submitted_shipments move w =
     (if mv_Status move \<noteq> MoveStatusSUBMITTED then Commit [] w
      else tx_bind (calling ''Error fetching orders'' (FetchOrder (st_tables w) (mv_OrdersID move)))
        (\<lambda>orders. each (save_submitted_shipment orders) (mv_Shipments move)) w)"

definition SaveMoveDependencies :: "Move \<Rightarrow> store \<Rightarrow> (store \<times> Move option \<times> verrs \<times> goerr option) result" where
  "SaveMoveDependencies move = transaction (
     tx_bind (each save_ppm_and_advance (mv_PersonallyProcuredMoves move)) (\<lambda>_.
     tx_bind (save_submitted_shipments move) (\<lambda>_.
     tx_bind (save_order (wrapped ''Error Saving Orders'') (mv_Orders move)) (\<lambda>_.
     save_move (wrapped ''Error Saving Move'') move))))"

section \<open>Locators\<close>

lemma length_locatorLetters: "length locatorLetters = 23"
  by (simp add: locatorLetters_def)

lemma GenerateLocator_letters: "length (GenerateLocator bytes) = locatorLength \<and> set (GenerateLocator bytes) \<subseteq> set locatorLetters"
  by (auto simp: GenerateLocator_def length_locatorLetters intro!: nth_mem)

definition move_locators :: "store \<Rightarrow> string list" where
  "move_locators w = map mv_Locator (tb_moves (st_tables w))"

lemma create_move_cases:
  assumes "create_move move w = (w', y, verrs, err)"
  shows "(verrs = [] \<and> err = None \<and> y = move\<lparr>mv_ID := st_fresh w\<rparr> \<and> mv_Locator move \<notin> set (move_locators w)
      \<and> tb_moves (st_tables w') = tb_moves (st_tables w) @ [y])
    \<or> (w' = w \<and> verrs \<noteq> [] \<and> err = None)
    \<or> (w' = w \<and> verrs = [] \<and> err = Some ErrCreateViolatesUniqueConstraint \<and> mv_Locator move \<in> set (move_locators w))
    \<or> (w' = w \<and> verrs = [] \<and> err \<noteq> None \<and> snd (st_save_move w move) = err)"
proof (cases "st_save_move w move")
  case (Pair ve e)
  show ?thesis
  proof (cases "ve = [] \<and> e = None")
    case True
    show ?thesis
    proof (cases "mv_Locator move \<in> set (move_locators w)")
      case taken: True
      then have "list_ex (\<lambda>m. mv_Locator m = mv_Locator move) (tb_moves (st_tables w))"
        by (auto simp: move_locators_def list_ex_iff)
      then show ?thesis using assms True taken by (simp add: create_move_def Pair)
    next
      case free: False
      then have "\<not> list_ex (\<lambda>m. mv_Locator m = mv_Locator move) (tb_moves (st_tables w))"
        by (auto simp: move_locators_def list_ex_iff image_iff)
      then show ?thesis using assms True free by (auto simp: create_move_def Pair Let_def)
    qed
  next
    case False
    then show ?thesis using assms by (auto simp: create_move_def Pair split: if_splits)
  qed
qed

text \<open>Without an error of the database of its own a move fails only when all attempts met a taken locator.\<close>

lemma create_attempts_result:
  assumes "create_attempts n hashes orders opts w = (w', r, verrs, err)" "n \<le> length hashes"
    "\<forall>m. snd (st_save_move w m) = None"
  shows "(case r of
      Some move \<Rightarrow> verrs = [] \<and> err = None \<and> mv_Locator move \<in> GenerateLocator ` set (take n hashes)
        \<and> mv_Locator move \<notin> set (move_locators w) \<and> tb_moves (st_tables w') = tb_moves (st_tables w) @ [move]
        \<and> mv_OrdersID move = or_ID orders \<and> mv_Status move = MoveStatusDRAFT
    | None \<Rightarrow> w' = w \<and> (verrs = [] \<longrightarrow> err = Some ErrLocatorGeneration
        \<and> GenerateLocator ` set (take n hashes) \<subseteq> set (move_locators w)))"
  using assms
proof (induction n arbitrary: hashes)
  case (Suc n)
  then obtain h hs where hashes: "hashes = h # hs" by (cases hashes) auto
  obtain w1 y ve e where c: "create_move (new_move orders opts (GenerateLocator h)) w = (w1, y, ve, e)" by (metis prod_cases4)
  have loc: "mv_Locator (new_move orders opts l) = l" for l by (simp add: new_move_def)
  consider (made) "ve = []" "e = None" "y = (new_move orders opts (GenerateLocator h))\<lparr>mv_ID := st_fresh w\<rparr>"
      "GenerateLocator h \<notin> set (move_locators w)" "tb_moves (st_tables w1) = tb_moves (st_tables w) @ [y]"
    | (invalid) "w1 = w" "ve \<noteq> []" "e = None"
    | (taken) "w1 = w" "ve = []" "e = Some ErrCreateViolatesUniqueConstraint" "GenerateLocator h \<in> set (move_locators w)"
    using create_move_cases [OF c, unfolded loc] Suc.prems(3) [rule_format, of "new_move orders opts (GenerateLocator h)"] by fastforce
  then show ?case
  proof cases
    case made
    then have "w' = w1 \<and> r = Some y \<and> verrs = [] \<and> err = None" using Suc.prems(1) c by (simp add: hashes)
    then show ?thesis using made by (simp add: hashes new_move_def)
  next
    case invalid
    then show ?thesis using Suc.prems(1) c by (auto simp: hashes)
  next
    case taken
    then have "create_attempts n hs orders opts w = (w', r, verrs, err)" using Suc.prems(1) c by (simp add: hashes)
    from Suc.IH [OF this] Suc.prems(2,3) taken(4) show ?thesis by (auto simp: hashes split: option.splits)
  qed
qed auto

text \<open>Locators stay unique: a new move gets a locator that no move had, of six letters of the
  alphabet, from at most three attempts; when none is free and nothing else fails, the store is unchanged
  and the error is the locator error.\<close>

theorem new_move_locator:
  assumes "createNewMove hashes orders opts w = (w', r, verrs, err)" "length hashes = 3"
    "\<forall>m. snd (st_save_move w m) = None" "distinct (move_locators w)"
  shows "distinct (move_locators w') \<and> (case r of
      Some move \<Rightarrow> mv_Locator move \<notin> set (move_locators w) \<and> move_locators w' = move_locators w @ [mv_Locator move]
        \<and> length (mv_Locator move) = 6 \<and> set (mv_Locator move) \<subseteq> set locatorLetters \<and> mv_Status move = MoveStatusDRAFT
    | None \<Rightarrow> w' = w \<and> (verrs = [] \<longrightarrow> err = Some ErrLocatorGeneration
        \<and> list_all (\<lambda>h. GenerateLocator h \<in> set (move_locators w)) hashes))"
proof -
  have "create_attempts 3 hashes orders opts w = (w', r, verrs, err)" using assms(1) by (simp add: createNewMove_def maxLocatorAttempts_def)
  note r = create_attempts_result [OF this] 
  show ?thesis
  proof (cases r)
    case None
    with r assms show ?thesis by (auto simp: list_all_iff)
  next
    case (Some move)
    with r assms(2,3) obtain h where "mv_Locator move = GenerateLocator h" by auto
    then have "length (mv_Locator move) = 6 \<and> set (mv_Locator move) \<subseteq> set locatorLetters"
      using GenerateLocator_letters [of h] by (simp add: locatorLength_def)
    with r Some assms show ?thesis by (simp add: move_locators_def)
  qed
qed

section \<open>Advances\<close>

definition loaded_advance :: "PersonallyProcuredMove \<Rightarrow> bool" where
  "loaded_advance p \<longleftrightarrow> (case (pp_AdvanceID p, pp_Advance p) of (Some i, Some a) \<Rightarrow> rb_ID a = i | _ \<Rightarrow> True)"

lemma transaction_Some:
  "transaction f w = Ret (w', Some x, verrs, err) \<longleftrightarrow> f w = Commit x w' \<and> verrs = [] \<and> err = None"
  by (auto simp: transaction_def split: tx_result.splits)

lemma save_Commit:
  "save answer write wrap x w = Commit y w' \<longleftrightarrow> answer w x = ([], None) \<and> write x w = (y, w')"
  by (auto simp: save_def split: prod.splits if_splits)

lemma write_row_field:
  assumes "write_row key set_key upd x w = (y, w')" "\<And>i. f (set_key i x) = f x"
  shows "f y = f x"
  using assms by (auto simp: write_row_def Let_def split: if_splits)

lemma save_ppm_facts:
  assumes "save_ppm wrap p w = Commit q w'"
  shows "pp_HasRequestedAdvance q = pp_HasRequestedAdvance p" "pp_AdvanceID q = pp_AdvanceID p" "pp_Advance q = pp_Advance p"
    "tb_reimbursements (st_tables w') = tb_reimbursements (st_tables w)"
  using assms by (auto simp: save_ppm_def save_Commit write_row_def Let_def split: if_splits)

lemma settle_advance_facts:
  assumes "settle_advance p w = Commit q w1" "loaded_advance p"
  shows "pp_HasRequestedAdvance q = pp_HasRequestedAdvance p
    \<and> (pp_HasRequestedAdvance q \<longleftrightarrow> pp_AdvanceID q \<noteq> None)
    \<and> (pp_HasRequestedAdvance q \<longrightarrow> (case pp_Advance q of None \<Rightarrow> True
        | Some a \<Rightarrow> rb_MethodOfReceipt a \<noteq> MethodOfReceiptGTCC \<and> pp_AdvanceID q = Some (rb_ID a)))
    \<and> (\<not> pp_HasRequestedAdvance q \<longrightarrow> (case pp_AdvanceID p of None \<Rightarrow> True
        | Some i \<Rightarrow> i \<notin> set (map rb_ID (tb_reimbursements (st_tables w1)))))"
proof (cases "pp_HasRequestedAdvance p")
  case True
  then show ?thesis using assms(1)
    by (auto simp: settle_advance_def save_reimbursement_def save_Commit write_row_def Let_def split: option.splits if_splits)
next
  case False
  show ?thesis
  proof (cases "pp_AdvanceID p")
    case None
    with False assms(1) show ?thesis by (simp add: settle_advance_def)
  next
    case (Some i)
    let ?found = "case pp_Advance p of Some advance \<Rightarrow> Ret advance
      | None \<Rightarrow> first_row (filter (\<lambda>r. rb_ID r = i) (tb_reimbursements (st_tables w)))"
    obtain a where a: "?found = Ret a" "tx_bind (destroy (remove_reimbursement (rb_ID a)) (rb_ID a) ''Error Deleting Advance record'')
        (\<lambda>_. tx_return (p\<lparr>pp_AdvanceID := None, pp_Advance := None\<rparr>)) w = Commit q w1"
      using assms(1) False Some by (simp add: settle_advance_def split: outcome.splits)
    have "rb_ID a = i"
    proof (cases "pp_Advance p")
      case None
      with a(1) show ?thesis by (auto dest: first_row_filter_Ret)
    next
      case (Some b)
      with a(1) assms(2) \<open>pp_AdvanceID p = Some i\<close> show ?thesis by (simp add: loaded_advance_def)
    qed
    with a(2) False Some show ?thesis by (auto simp: destroy_def remove_reimbursement_def split: option.splits)
  qed
qed

text \<open>After a PPM has been saved it has an advance row exactly when it requests an advance; an
  advance just saved is not received by GTCC, and an advance no longer requested is deleted.\<close>

theorem advance_settled:
  assumes "SavePersonallyProcuredMove ppm w = Ret (w', Some p, verrs, err)" "loaded_advance ppm"
  shows "pp_HasRequestedAdvance p = pp_HasRequestedAdvance ppm
    \<and> (pp_HasRequestedAdvance p \<longleftrightarrow> pp_AdvanceID p \<noteq> None)
    \<and> (pp_HasRequestedAdvance p \<longrightarrow> (case pp_Advance p of None \<Rightarrow> True
        | Some a \<Rightarrow> rb_MethodOfReceipt a \<noteq> MethodOfReceiptGTCC \<and> pp_AdvanceID p = Some (rb_ID a)))
    \<and> (\<not> pp_HasRequestedAdvance p \<longrightarrow> (case pp_AdvanceID ppm of None \<Rightarrow> True
        | Some i \<Rightarrow> i \<notin> set (map rb_ID (tb_reimbursements (st_tables w')))))"
proof -
  from assms(1) obtain q w1 where q: "settle_advance ppm w = Commit q w1" and s: "save_ppm (wrapped ''Error Saving PPM'') q w1 = Commit p w'"
    by (auto simp: SavePersonallyProcuredMove_def transaction_Some)
  show ?thesis using settle_advance_facts [OF q assms(2)] unfolding save_ppm_facts [OF s] .
qed

section \<open>The numbers of a submitted move\<close>

text \<open>What saving a shipment of a submitted move does: the shipment gets the GBLOCs and a GBL number.\<close>

definition numbered :: "string \<Rightarrow> string \<Rightarrow> int \<Rightarrow> Shipment \<Rightarrow> Shipment" where
  "numbered destination source n s = s\<lparr>shp_DestinationGBLOC := Some destination, shp_SourceGBLOC := Some source,
     shp_GBLNumber := Some (gbl_number source n)\<rparr>"

lemma numbered_fields [simp]:
  "shp_ID (numbered d g n s) = shp_ID s" "shp_Status (numbered d g n s) = shp_Status s"
  "shp_GBLNumber (numbered d g n s) = Some (gbl_number g n)"
  by (simp_all add: numbered_def)

definition put_shipment :: "Shipment \<Rightarrow> Shipment list \<Rightarrow> Shipment list" where
  "put_shipment t = map (\<lambda>q. if shp_ID q = shp_ID t then t else q)"

lemma put_shipment_in: "shp_ID t \<in> shp_ID ` set rows \<Longrightarrow> t \<in> set (put_shipment t rows)"
  by (force simp: put_shipment_def)

lemma put_shipment_other: "s \<in> set rows \<Longrightarrow> shp_ID s \<noteq> shp_ID t \<Longrightarrow> s \<in> set (put_shipment t rows)"
  by (force simp: put_shipment_def)

lemma put_shipment_IDs: "shp_ID ` set (put_shipment t rows) = shp_ID ` set rows"
proof -
  have "map shp_ID (put_shipment t rows) = map shp_ID rows" by (simp add: put_shipment_def)
  then show ?thesis by (metis list.set_map)
qed

lemma assign_gbl_Commit:
  assumes "assign_gbl s w = Commit t w'"
  shows "\<exists>g n. shp_SourceGBLOC s = Some g \<and> shp_GBLNumber s = None \<and> next_sequence (st_gbl_tracker w) g = (st_gbl_tracker w', n)
    \<and> t = s\<lparr>shp_GBLNumber := Some (gbl_number g n)\<rparr> \<and> st_duty_stations w' = st_duty_stations w \<and> st_tables w' = st_tables w"
proof (cases "shp_SourceGBLOC s")
  case None
  with assms show ?thesis by (simp add: assign_gbl_def AssignGBLNumber_def)
next
  case (Some g)
  obtain tr n where nx: "next_sequence (st_gbl_tracker w) g = (tr, n)" by fastforce
  show ?thesis using assms
    by (cases "shp_GBLNumber s") (auto simp: assign_gbl_def AssignGBLNumber_def Some nx gbl_number_def)
qed

lemma save_submitted_shipment_facts:
  assumes "save_submitted_shipment orders s w = Commit t w'" "shp_ID s \<noteq> uuid_Nil"
  shows "\<exists>d g n. shp_GBLNumber s = None \<and> t = numbered d g n s \<and> next_sequence (st_gbl_tracker w) g = (st_gbl_tracker w', n)
    \<and> (\<exists>i. getGbloc (st_duty_stations w) i = Ret g) \<and> st_duty_stations w' = st_duty_stations w
    \<and> tb_shipments (st_tables w') = put_shipment t (tb_shipments (st_tables w))"
proof -
  from assms(1) obtain d g i u w1 where g: "getGbloc (st_duty_stations w) i = Ret g"
    and a: "assign_gbl (s\<lparr>shp_DestinationGBLOC := Some d, shp_SourceGBLOC := Some g\<rparr>) w = Commit u w1"
    and sv: "save_shipment_row (wrapped ''Error Saving Shipment'') u w1 = Commit t w'"
    by (auto simp: save_submitted_shipment_def outcome_simps)
  from assign_gbl_Commit [OF a] obtain n where n: "shp_GBLNumber s = None" "next_sequence (st_gbl_tracker w) g = (st_gbl_tracker w1, n)"
    "u = numbered d g n s" "st_duty_stations w1 = st_duty_stations w" "st_tables w1 = st_tables w"
    by (auto simp: numbered_def)
  have "t = u \<and> w' = w1\<lparr>st_tables := tb_shipments_update (put_shipment u) (st_tables w1)\<rparr>"
    using sv assms(2) by (auto simp: save_shipment_row_def save_Commit write_row_def n(3) put_shipment_def)
  with g n show ?thesis by auto
qed

lemma getGbloc_length: "getGbloc ds i = Ret g \<Longrightarrow> list_all (\<lambda>d. case snd d of None \<Rightarrow> True | Some g \<Rightarrow> length g = k) ds \<Longrightarrow> length g = k"
proof -
  assume g: "getGbloc ds i = Ret g" and all: "list_all (\<lambda>d. case snd d of None \<Rightarrow> True | Some g \<Rightarrow> length g = k) ds"
  from g obtain d where d: "first_row (filter (\<lambda>d. fst d = i) ds) = Ret d" "snd d = Some g"
    unfolding getGbloc_def map_fail_eq_Ret obind_eq_Ret by (auto split: option.splits)
  from first_row_filter_Ret [OF d(1)] all d(2) show ?thesis by (auto simp: list_all_iff)
qed

lemma save_all_shipments:
  assumes "each (save_submitted_shipment orders) ss w = Commit ts w'"
    "list_all (\<lambda>s. shp_ID s \<noteq> uuid_Nil) ss" "distinct (map shp_ID ss)"
    "set (map shp_ID ss) \<subseteq> shp_ID ` set (tb_shipments (st_tables w))"
    "list_all (\<lambda>d. case snd d of None \<Rightarrow> True | Some g \<Rightarrow> length g = k) (st_duty_stations w)"
  shows "\<exists>gs. list_all2 (\<lambda>s t. shp_GBLNumber s = None \<and> (\<exists>d g n. t = numbered d g n s)) ss ts
    \<and> list_all (\<lambda>g. length g = k) gs \<and> map shp_GBLNumber ts = map Some (issue gbl_number (st_gbl_tracker w) gs)
    \<and> set ts \<subseteq> set (tb_shipments (st_tables w'))
    \<and> (\<forall>r \<in> set (tb_shipments (st_tables w)). shp_ID r \<notin> set (map shp_ID ss) \<longrightarrow> r \<in> set (tb_shipments (st_tables w')))"
  using assms
proof (induction ss arbitrary: w ts)
  case (Cons s ss)
  from Cons.prems(1) obtain t w1 us where t: "save_submitted_shipment orders s w = Commit t w1"
    and us: "each (save_submitted_shipment orders) ss w1 = Commit us w'" and ts: "ts = t # us" by auto
  from Cons.prems(2) have "shp_ID s \<noteq> uuid_Nil" by simp
  from save_submitted_shipment_facts [OF t this] obtain d g n i where f: "shp_GBLNumber s = None" "t = numbered d g n s"
    "next_sequence (st_gbl_tracker w) g = (st_gbl_tracker w1, n)" "getGbloc (st_duty_stations w) i = Ret g"
    "st_duty_stations w1 = st_duty_stations w" "tb_shipments (st_tables w1) = put_shipment t (tb_shipments (st_tables w))" by blast
  have "length g = k" using getGbloc_length [OF f(4) Cons.prems(5)] .
  have ID: "shp_ID t = shp_ID s" by (simp add: f(2))
  have "set (map shp_ID ss) \<subseteq> shp_ID ` set (tb_shipments (st_tables w1))"
    using Cons.prems(4) by (simp add: f(6) put_shipment_IDs)
  from Cons.IH [OF us _ _ this] Cons.prems(2,3,5) f(5) obtain gs where
    IH: "list_all2 (\<lambda>s t. shp_GBLNumber s = None \<and> (\<exists>d g n. t = numbered d g n s)) ss us"
      "list_all (\<lambda>g. length g = k) gs" "map shp_GBLNumber us = map Some (issue gbl_number (st_gbl_tracker w1) gs)"
      "set us \<subseteq> set (tb_shipments (st_tables w'))"
      "\<forall>r \<in> set (tb_shipments (st_tables w1)). shp_ID r \<notin> set (map shp_ID ss) \<longrightarrow> r \<in> set (tb_shipments (st_tables w'))"
    by auto
  have "shp_ID s \<notin> set (map shp_ID ss)" using Cons.prems(3) by simp
  moreover have "t \<in> set (tb_shipments (st_tables w1))" unfolding f(6) using Cons.prems(4) by (intro put_shipment_in) (simp add: ID)
  ultimately have "t \<in> set (tb_shipments (st_tables w'))" using IH(5) ID by simp
  moreover have "\<forall>r \<in> set (tb_shipments (st_tables w)). shp_ID r \<notin> set (map shp_ID (s # ss)) \<longrightarrow> r \<in> set (tb_shipments (st_tables w'))"
  proof (intro ballI impI)
    fix r assume r: "r \<in> set (tb_shipments (st_tables w))" "shp_ID r \<notin> set (map shp_ID (s # ss))"
    then have "r \<in> set (tb_shipments (st_tables w1))" unfolding f(6) by (intro put_shipment_other) (simp_all add: ID)
    with IH(5) r(2) show "r \<in> set (tb_shipments (st_tables w'))" by simp
  qed
  ultimately show ?case using f IH \<open>length g = k\<close> ts by (intro exI [of _ "g # gs"]) auto
qed (auto intro!: exI [of _ "[]"])

text \<open>What the saves of PPMs, orders and moves leave alone.\<close>

definition same_shipments :: "store \<Rightarrow> store \<Rightarrow> bool" where
  "same_shipments w w' \<longleftrightarrow> tb_shipments (st_tables w') = tb_shipments (st_tables w)
     \<and> st_gbl_tracker w' = st_gbl_tracker w \<and> st_duty_stations w' = st_duty_stations w"

lemma same_shipments_trans: "same_shipments w w1 \<Longrightarrow> same_shipments w1 w2 \<Longrightarrow> same_shipments w w2"
  by (simp add: same_shipments_def)

lemma save_same_shipments:
  "save_ppm wrap p w = Commit q w' \<Longrightarrow> same_shipments w w'"
  "save_reimbursement wrap r w = Commit r' w' \<Longrightarrow> same_shipments w w'"
  "save_order wrap ord w = Commit ord' w' \<Longrightarrow> same_shipments w w'"
  "save_move wrap m w = Commit m' w' \<Longrightarrow> same_shipments w w'"
  by (auto simp: save_ppm_def save_reimbursement_def save_order_def save_move_def save_Commit write_row_def same_shipments_def
      Let_def split: if_splits)

lemma save_ppm_and_advance_same: "save_ppm_and_advance p w = Commit q w' \<Longrightarrow> same_shipments w w'"
  by (cases "pp_Advance p") (auto simp: save_ppm_and_advance_def dest!: save_same_shipments intro: same_shipments_trans)

lemma each_ppm_same: "each save_ppm_and_advance ps w = Commit qs w' \<Longrightarrow> same_shipments w w'"
proof (induction ps arbitrary: w qs)
  case (Cons p ps)
  then obtain q w1 rs where "save_ppm_and_advance p w = Commit q w1" "each save_ppm_and_advance ps w1 = Commit rs w'" by auto
  with Cons.IH show ?case using save_ppm_and_advance_same same_shipments_trans by blast
qed (simp add: same_shipments_def)

lemma numbered_all:
  assumes "list_all2 (\<lambda>s t. shp_GBLNumber s = None \<and> (\<exists>d g n. t = numbered d g n s)) ss ts"
  shows "map shp_ID ts = map shp_ID ss \<and> map shp_Status ts = map shp_Status ss \<and> list_all (\<lambda>s. shp_GBLNumber s = None) ss
    \<and> list_all (\<lambda>t. shp_SourceGBLOC t \<noteq> None \<and> shp_DestinationGBLOC t \<noteq> None) ts"
  using assms by (induction rule: list_all2_induct) (auto simp: numbered_def)

lemma Shipment_Submit_fields:
  "snd (Shipment_Submit now d s) = None \<Longrightarrow> shp_Status (fst (Shipment_Submit now d s)) = ShipmentStatusSUBMITTED"
  "shp_ID (fst (Shipment_Submit now d s)) = shp_ID s" "shp_GBLNumber (fst (Shipment_Submit now d s)) = shp_GBLNumber s"
  by (auto simp: Shipment_Submit_def accept_def refuse_def errors_Wrap_def split: if_splits)

lemma list_all_key:
  assumes "map f xs = map f ys" "list_all (\<lambda>x. P (f x)) ys"
  shows "list_all (\<lambda>x. P (f x)) xs"
proof -
  have "list_all (\<lambda>x. P (f x)) zs = list_all P (map f zs)" for zs by (simp add: list_all_iff)
  with assms show ?thesis by metis
qed

text \<open>C14: when a move has been submitted and saved with what depends on it, every shipment of it had no GBL
  number, and its row is submitted, has both GBLOCs and a GBL number that no other shipment of the move has.\<close>

theorem submitted_move_numbered:
  assumes submit: "Move_Submit now d m = (m', None)"
    and saved: "SaveMoveDependencies m' w = Ret (w', Some m'', verrs, err)"
    and rows: "list_all (\<lambda>s. shp_ID s \<noteq> uuid_Nil) (mv_Shipments m)" "distinct (map shp_ID (mv_Shipments m))"
      "set (map shp_ID (mv_Shipments m)) \<subseteq> shp_ID ` set (tb_shipments (st_tables w))"
    and gblocs: "list_all (\<lambda>d. case snd d of None \<Rightarrow> True | Some g \<Rightarrow> length g = k) (st_duty_stations w)"
    and tracker: "tracker_ok (st_gbl_tracker w)"
  shows "\<exists>ts. map shp_ID ts = map shp_ID (mv_Shipments m) \<and> set ts \<subseteq> set (tb_shipments (st_tables w'))
    \<and> list_all (\<lambda>s. shp_GBLNumber s = None) (mv_Shipments m)
    \<and> list_all (\<lambda>t. shp_Status t = ShipmentStatusSUBMITTED \<and> shp_SourceGBLOC t \<noteq> None \<and> shp_DestinationGBLOC t \<noteq> None) ts
    \<and> (\<exists>ns. map shp_GBLNumber ts = map Some ns \<and> distinct ns)"
proof -
  have ok: "snd (Move_Submit now d m) = None" and m': "m' = fst (Move_Submit now d m)" using submit by simp_all
  have ss: "mv_Shipments m' = map (\<lambda>s. fst (Shipment_Submit now d s)) (mv_Shipments m)" "mv_Status m' = MoveStatusSUBMITTED"
    unfolding m' Move_Submit_result [OF ok] by simp_all
  have draft: "\<forall>s \<in> set (mv_Shipments m). shp_Status s = ShipmentStatusDRAFT" using ok [unfolded Move_Submit_ok] by blast
  have fields: "map shp_ID (mv_Shipments m') = map shp_ID (mv_Shipments m)"
    "map shp_GBLNumber (mv_Shipments m') = map shp_GBLNumber (mv_Shipments m)"
    "list_all (\<lambda>s. shp_Status s = ShipmentStatusSUBMITTED) (mv_Shipments m')"
    using draft by (auto simp: ss Shipment_Submit_fields list_all_iff Shipment_Submit_def)
  from saved obtain ps os w1 w2 w3 ts ord where run: "each save_ppm_and_advance (mv_PersonallyProcuredMoves m') w = Commit ps w1"
      "each (save_submitted_shipment os) (mv_Shipments m') w1 = Commit ts w2"
      "save_order (wrapped ''Error Saving Orders'') (mv_Orders m') w2 = Commit ord w3"
      "save_move (wrapped ''Error Saving Move'') m' w3 = Commit m'' w'"
    by (auto simp: SaveMoveDependencies_def transaction_Some save_submitted_shipments_def ss(2))
  note s1 = each_ppm_same [OF run(1), unfolded same_shipments_def]
    and s2 = same_shipments_trans [OF save_same_shipments(3) [OF run(3)] save_same_shipments(4) [OF run(4)], unfolded same_shipments_def]
  have "list_all (\<lambda>s. shp_ID s \<noteq> uuid_Nil) (mv_Shipments m')" using rows(1) by (simp add: ss Shipment_Submit_fields list_all_iff)
  from save_all_shipments [OF run(2) this, of k] rows(2,3) gblocs s1 fields(1) obtain gs where
    num: "list_all2 (\<lambda>s t. shp_GBLNumber s = None \<and> (\<exists>d g n. t = numbered d g n s)) (mv_Shipments m') ts"
      "list_all (\<lambda>g. length g = k) gs" "map shp_GBLNumber ts = map Some (issue gbl_number (st_gbl_tracker w) gs)"
      "set ts \<subseteq> set (tb_shipments (st_tables w2))" by auto
  note all = numbered_all [OF num(1)]
  have "distinct (issue gbl_number (st_gbl_tracker w) gs)"
    using num(2) tracker by (intro gbls.distinct_issued [of _ k]) (auto simp: list_all_iff)
  moreover have "list_all (\<lambda>t. shp_Status t = ShipmentStatusSUBMITTED) ts"
    using list_all_key [of shp_Status ts _ "\<lambda>x. x = ShipmentStatusSUBMITTED"] all fields(3) by blast
  moreover have "list_all (\<lambda>s. shp_GBLNumber s = None) (mv_Shipments m)"
    using list_all_key [OF fields(2) [symmetric], of "\<lambda>x. x = None"] all by blast
  ultimately show ?thesis using all num(3,4) s2 fields(1) by (intro exI [of _ ts]) (auto simp: list_all_iff)
qed

section \<open>New orders\<close>

text \<open>When saving new orders fails after their document was created, the document stays: the
  transaction of \<open>CreateOrder\<close> is not the connection it writes through.\<close>

theorem create_order_leaves_document:
  assumes "st_save_document w \<lparr>doc_ID = uuid_Nil, doc_ServiceMemberID = sm_ID s\<rparr> = ([], None)"
    "st_save_order w (order\<lparr>or_ID := uuid_Nil, or_ServiceMemberID := sm_ID s, or_Status := OrderStatusDRAFT\<rparr>) = (verrs, err)"
    "verrs \<noteq> [] \<or> err \<noteq> None"
  shows "\<exists>w'. CreateOrder s order w = (w', None, verrs, err) \<and> tb_orders (st_tables w') = tb_orders (st_tables w)
    \<and> tb_documents (st_tables w') = tb_documents (st_tables w) @ [\<lparr>doc_ID = st_fresh w, doc_ServiceMemberID = sm_ID s\<rparr>]"
  using assms by (auto simp: CreateOrder_def lasting_def save_document_def save_order_def save_def write_row_def Let_def)

section \<open>A sample store\<close>

definition sample_member :: "uuid \<Rightarrow> ServiceMember" where
  "sample_member i = \<lparr>sm_ID = i, sm_UserID = i + 100, sm_Edipi = None, sm_Affiliation = None, sm_Rank = None, sm_FirstName = Some ''Ann'',
     sm_MiddleName = None, sm_LastName = Some ''Lee'', sm_Suffix = None, sm_Telephone = None, sm_SecondaryTelephone = None,
     sm_PersonalEmail = None, sm_PhoneIsPreferred = None, sm_TextMessageIsPreferred = None, sm_EmailIsPreferred = None,
     sm_ResidentialAddressID = None, sm_ResidentialAddress = None, sm_BackupMailingAddressID = None, sm_BackupMailingAddress = None,
     sm_SocialSecurityNumberID = None, sm_BackupContacts = [], sm_DutyStationID = Some 31\<rparr>"

definition sample_tables :: tables where
  "sample_tables = \<lparr>tb_members = [sample_member 1], tb_orders = [sample_orders], tb_moves = [sample_move], tb_ppms = [], tb_reimbursements = [],
     tb_shipments = [sample_shipment], tb_addresses = [], tb_documents = [\<lparr>doc_ID = 40, doc_ServiceMemberID = 1\<rparr>],
     tb_uploads = [], tb_move_documents = [], tb_expenses = [], tb_weight_tickets = [], tb_certifications = [],
     tb_tsp_users = Map.empty, tb_offers = [], tb_expense_error = (\<lambda>_. None), tb_weight_ticket_error = (\<lambda>_. None)\<rparr>"

definition sample_store :: store where
  "sample_store = \<lparr>st_tables = sample_tables, st_fresh = 50, st_gbl_tracker = Map.empty, st_duty_stations = [(1, Some ''HAFC''), (31, Some ''KKFA'')],
     st_save_order = (\<lambda>_. ([], None)), st_save_move = (\<lambda>_. ([], None)), st_save_ppm = (\<lambda>_. ([], None)), st_save_reimbursement = (\<lambda>_. ([], None)),
     st_save_shipment = (\<lambda>_. ([], None)), st_save_document = (\<lambda>_. ([], None)), st_save_upload = (\<lambda>_. ([], None)),
     st_save_move_document = (\<lambda>_. ([], None)), st_save_expense = (\<lambda>_. ([], None)), st_save_weight_ticket = (\<lambda>_. ([], None)),
     st_destroy = (\<lambda>_. None)\<rparr>"

theorem create_order_leaves_document_witness:
  "\<exists>w'. CreateOrder (sample_member 1) sample_orders (sample_store\<lparr>st_save_order := (\<lambda>_. ([], Some (ErrMsg ''db'')))\<rparr>) = (w', None, [], Some (ErrMsg ''db''))
     \<and> length (tb_documents (st_tables w')) = 2"
  using create_order_leaves_document [of "sample_store\<lparr>st_save_order := (\<lambda>_. ([], Some (ErrMsg ''db'')))\<rparr>" "sample_member 1" sample_orders "[]" "Some (ErrMsg ''db'')"]
  by (auto simp: sample_store_def sample_tables_def)

theorem new_move_locator_witness:
  "\<exists>w' move verrs err. createNewMove [[0, 0, 0, 0, 0, 0], [4, 5, 6, 7, 8, 9], [0, 0, 0, 0, 0, 0]] sample_orders \<lparr>mo_SelectedType = None, mo_Show = None\<rparr>
      (sample_store\<lparr>st_tables := sample_tables\<lparr>tb_moves := [sample_move\<lparr>mv_Locator := ''333333''\<rparr>]\<rparr>\<rparr>) = (w', Some move, verrs, err)
     \<and> move_locators w' = [''333333'', ''89BCDF'']"
proof -
  let ?hs = "[[0, 0, 0, 0, 0, 0], [4, 5, 6, 7, 8, 9], [0, 0, 0, 0, 0, 0]]"
  let ?w = "sample_store\<lparr>st_tables := sample_tables\<lparr>tb_moves := [sample_move\<lparr>mv_Locator := ''333333''\<rparr>]\<rparr>\<rparr>"
  let ?o = "\<lparr>mo_SelectedType = None, mo_Show = None\<rparr>"
  have l: "GenerateLocator [0, 0, 0, 0, 0, 0] = ''333333''" "GenerateLocator [4, 5, 6, 7, 8, 9] = ''89BCDF''"
    by (simp_all add: GenerateLocator_def locatorLength_def locatorLetters_def upt_rec)
  obtain w' move where r: "createNewMove ?hs sample_orders ?o ?w = (w', Some move, [], None)" "mv_Locator move = ''89BCDF''"
    by (simp add: createNewMove_def maxLocatorAttempts_def numeral_3_eq_3 create_move_def new_move_def l sample_store_def sample_tables_def Let_def)
  have "move_locators ?w = [''333333'']" by (simp add: move_locators_def)
  with new_move_locator [OF r(1)] r show ?thesis by (auto simp: sample_store_def)
qed

theorem advance_settled_witness:
  "\<exists>w' p verrs err. SavePersonallyProcuredMove sample_ppm sample_store = Ret (w', Some p, verrs, err)
     \<and> pp_AdvanceID p \<noteq> None"
proof -
  obtain w' p where r: "SavePersonallyProcuredMove sample_ppm sample_store = Ret (w', Some p, [], None)"
    by (simp add: SavePersonallyProcuredMove_def transaction_def tx_bind_def settle_advance_def sample_ppm_def BuildDraftReimbursement_def
        save_reimbursement_def save_ppm_def save_def write_row_def sample_store_def Let_def uuid_Nil_def tx_return_def)
  from advance_settled [OF this] show ?thesis using r by (auto simp: loaded_advance_def sample_ppm_def)
qed

lemma sample_submits: "snd (Move_Submit 4 6 sample_move) = None"
  unfolding Move_Submit_ok
  by (simp add: sample_move_def Move.defs sample_ppm_def sample_shipment_def Shipment.defs ppm_submittable_def
      BuildDraftReimbursement_def)

lemma sample_saved:
  "\<exists>w' m. SaveMoveDependencies (fst (Move_Submit 4 6 sample_move)) sample_store = Ret (w', Some m, [], None)"
proof -
  have m: "fst (Move_Submit 4 6 sample_move) = sample_move\<lparr>mv_Status := MoveStatusSUBMITTED,
      mv_PersonallyProcuredMoves := [sample_ppm\<lparr>pp_Status := PPMStatusSUBMITTED, pp_SubmitDate := Some 6,
        pp_Advance := Some (BuildRequestedReimbursement 4 100 MethodOfReceiptMILPAY)\<rparr>],
      mv_Shipments := [sample_shipment\<lparr>shp_Status := ShipmentStatusSUBMITTED, shp_BookDate := Some 4, shp_SubmitDate := Some 6\<rparr>]\<rparr>"
    unfolding Move_Submit_result [OF sample_submits]
    by (simp add: sample_move_def Move.defs sample_shipment_def Shipment.defs Shipment_Submit_def accept_def
        request_advance_def Reimbursement_Request_def PPM_Submit_def sample_ppm_def BuildDraftReimbursement_def
        BuildRequestedReimbursement_def)
  have f: "find_row or_ID [sample_orders] 1 = Ret sample_orders" "find_row sm_ID [sample_member 1] 1 = Ret (sample_member 1)"
    "or_ID sample_orders = 1" "mv_OrdersID sample_move = 1" "sm_DutyStationID (sample_member 1) = Some 31"
    "or_NewDutyStationID sample_orders = 1" "shp_ServiceMemberID sample_shipment = 1"
    "shp_GBLNumber sample_shipment = None"
    "getGbloc [(1, Some ''HAFC''), (31, Some ''KKFA'')] 1 = Ret ''HAFC''" "getGbloc [(1, Some ''HAFC''), (31, Some ''KKFA'')] 31 = Ret ''KKFA''"
    by (simp_all add: find_row_def sample_orders_def sample_member_def sample_move_def Order.defs Move.defs sample_shipment_def
        Shipment.defs getGbloc_def)
  show ?thesis unfolding m
    by (simp add: SaveMoveDependencies_def transaction_def tx_bind_def save_submitted_shipments_def calling_def tx_return_def
        save_order_def save_move_def save_shipment_row_def save_def write_row_def sample_store_def sample_tables_def
        FetchOrder_def FetchServiceMember_def f save_ppm_and_advance_def save_ppm_def save_reimbursement_def
        BuildRequestedReimbursement_def uuid_Nil_def save_submitted_shipment_def
        assign_gbl_def AssignGBLNumber_def next_sequence_def Let_def
        del: One_nat_def)
qed

theorem submitted_move_numbered_witness:
  "\<exists>w' m ts. SaveMoveDependencies (fst (Move_Submit 4 6 sample_move)) sample_store = Ret (w', Some m, [], None)
     \<and> map shp_ID ts = [7] \<and> set ts \<subseteq> set (tb_shipments (st_tables w'))
     \<and> list_all (\<lambda>t. shp_Status t = ShipmentStatusSUBMITTED \<and> shp_SourceGBLOC t \<noteq> None \<and> shp_DestinationGBLOC t \<noteq> None) ts"
proof -
  obtain w' m where r: "SaveMoveDependencies (fst (Move_Submit 4 6 sample_move)) sample_store = Ret (w', Some m, [], None)"
    using sample_saved by blast
  have s: "Move_Submit 4 6 sample_move = (fst (Move_Submit 4 6 sample_move), None)" using sample_submits by (simp add: prod_eq_iff)
  have IDs: "map shp_ID (mv_Shipments sample_move) = [7]"
    by (simp add: sample_move_def Move.defs sample_shipment_def Shipment.defs)
  have h: "list_all (\<lambda>s. shp_ID s \<noteq> uuid_Nil) (mv_Shipments sample_move)" "distinct (map shp_ID (mv_Shipments sample_move))"
    "set (map shp_ID (mv_Shipments sample_move)) \<subseteq> shp_ID ` set (tb_shipments (st_tables sample_store))"
    "list_all (\<lambda>d. case snd d of None \<Rightarrow> True | Some g \<Rightarrow> length g = 4) (st_duty_stations sample_store)"
    "tracker_ok (st_gbl_tracker sample_store)"
    by (simp_all add: sample_move_def Move.defs sample_store_def sample_tables_def sample_shipment_def Shipment.defs uuid_Nil_def
        tracker_ok_def)
  from submitted_move_numbered [OF s r h] obtain ts where "map shp_ID ts = map shp_ID (mv_Shipments sample_move)"
    "set ts \<subseteq> set (tb_shipments (st_tables w'))"
    "list_all (\<lambda>t. shp_Status t = ShipmentStatusSUBMITTED \<and> shp_SourceGBLOC t \<noteq> None \<and> shp_DestinationGBLOC t \<noteq> None) ts"
    by blast
  with r show ?thesis unfolding IDs by (intro exI conjI)
qed

end
