(* ===== verification/PPMHandlers.thy ===== *)
theory PPMHandlers
  imports MoveStore RateEngine
begin

text \<open>
  Personally procured moves as the handlers of \<open>pkg/handlers/internalapi/personally_procured_move*.go\<close> serve
  them: the discounts a PPM is priced with, the estimates shown and stored, creating, patching, submitting and
  requesting payment for a PPM, and the summary of its expenses.  The payload of an answer is the row it is
  rendered from; the advance worksheet, whose rendering asks the file storage for links, is not modelled.
\<close>

section \<open>What a handler answers\<close>

datatype 'a reply = Reply nat 'a | Bare nat | Refusal Responder | Crashed

definition on_success :: "'a result \<Rightarrow> ('a \<Rightarrow> 'b reply) \<Rightarrow> 'b reply" where
  "on_success r k = (case r of Ret x \<Rightarrow> k x | Fail e \<Rightarrow> Refusal (ErrorResponse (ResponseForError (Some e))) | Panic \<Rightarrow> Crashed)"

lemma on_success_simps [simp]:
  "on_success (Ret x) k = k x" "on_success (Fail e) k = Refusal (ErrorResponse (ResponseForError (Some e)))"
  "on_success Panic k = Crashed"
  by (simp_all add: on_success_def)

text \<open>The same with the store in hand.\<close>

definition continue :: "store \<Rightarrow> 'a result \<Rightarrow> ('a \<Rightarrow> store \<times> 'b reply) \<Rightarrow> store \<times> 'b reply" where
  "continue w r k = (case r of Ret x \<Rightarrow> k x
     | Fail e \<Rightarrow> (w, Refusal (ErrorResponse (ResponseForError (Some e)))) | Panic \<Rightarrow> (w, Crashed))"

lemma continue_simps [simp]:
  "continue w (Ret x) k = k x" "continue w (Fail e) k = (w, Refusal (ErrorResponse (ResponseForError (Some e))))"
  "continue w Panic k = (w, Crashed)"
  by (simp_all add: continue_def)

definition after_save :: "store \<Rightarrow> (store \<times> 'a option \<times> verrs \<times> goerr option) result \<Rightarrow> (store \<Rightarrow> 'a \<Rightarrow> store \<times> 'b reply) \<Rightarrow> store \<times> 'b reply" where
  "after_save w r k = continue w r (\<lambda>(w', x, verrs, err). case x of
      None \<Rightarrow> (w', Refusal (ResponseForVErrors verrs err)) | Some x \<Rightarrow> k w' x)"

section \<open>Discounts\<close>

record rate_context =
  rc_tariff :: tariff_db
  rc_tdls :: "TrafficDistributionList list"
  rc_performances :: "TSPPerformance list"
  rc_planner :: distanceCalculator

definition in_channel :: "TrafficDistributionList list \<Rightarrow> string \<Rightarrow> string \<Rightarrow> string \<Rightarrow> gotime \<Rightarrow> TSPPerformance \<Rightarrow> bool" where
  "in_channel tdls rateArea region service date p \<longleftrightarrow>
     list_ex (\<lambda>t. tdl_ID t = tspp_TrafficDistributionListID p \<and> tdl_SourceRateArea t = rateArea
       \<and> tdl_DestinationRegion t = region \<and> tdl_CodeOfService t = service) tdls
     \<and> tspp_PerformancePeriodStart p \<le> date \<and> date \<le> tspp_PerformancePeriodEnd p"

definition FetchDiscountRates :: "rate_context \<Rightarrow> string \<Rightarrow> string \<Rightarrow> string \<Rightarrow> gotime \<Rightarrow> (DiscountRate \<times> DiscountRate) result" where
  "FetchDiscountRates rc originZip destinationZip service date =
     obind (map_fail (\<lambda>_. Wrap ''could not find a rate area for zip'' ErrFetchNotFound)
       (FetchRateAreaForZip5 (rc_tariff rc) originZip)) (\<lambda>rateArea.
     obind (map_fail (\<lambda>_. Wrap ''could not find a region for zip'' ErrFetchNotFound)
       (FetchRegionForZip5 (rc_tariff rc) destinationZip)) (\<lambda>region.
     obind (map_fail (\<lambda>_. ErrFetchNotFound)
       (first_row (sort_key (\<lambda>p. - tspp_BestValueScore p)
         (filter (in_channel (rc_tdls rc) rateArea region service date) (rc_performances rc))))) (\<lambda>tspPerformance.
     Ret (tspp_LinehaulRate tspPerformance, tspp_SITRate tspPerformance))))"

definition PPMDiscountFetch :: "rate_context \<Rightarrow> string \<Rightarrow> string \<Rightarrow> gotime \<Rightarrow> (DiscountRate \<times> DiscountRate) result" where
  "PPMDiscountFetch rc originZip destZip moveDate =
     (case FetchDiscountRates rc originZip destZip ''D'' moveDate of
        Ret discounts \<Rightarrow> Ret discounts
      | Fail e \<Rightarrow> if e \<noteq> ErrFetchNotFound then Fail e else FetchDiscountRates rc originZip destZip ''2'' moveDate
      | Panic \<Rightarrow> Panic)"

definition ComputePPMIncludingLHDiscount ::
    "rate_context \<Rightarrow> Pound \<Rightarrow> string \<Rightarrow> string \<Rightarrow> int \<Rightarrow> gotime \<Rightarrow> int \<Rightarrow> CostComputation result" where
  "ComputePPMIncludingLHDiscount rc weight originZip5 destinationZip5 distanceMiles date daysInSIT =
     obind (PPMDiscountFetch rc originZip5 destinationZip5 date) (\<lambda>(lhDiscount, sitDiscount).
     ComputePPM (rc_tariff rc) weight originZip5 destinationZip5 distanceMiles date daysInSIT lhDiscount sitDiscount)"

section \<open>Estimates that are shown\<close>

definition ShowPPMEstimate :: "rate_context \<Rightarrow> string \<Rightarrow> string \<Rightarrow> gotime \<Rightarrow> int \<Rightarrow> (Cents \<times> Cents) reply" where
  "ShowPPMEstimate rc originZip destinationZip originalMoveDate weightEstimate =
     on_success (PPMDiscountFetch rc originZip destinationZip originalMoveDate) (\<lambda>(lhDiscount, _).
     on_success (Zip5TransitDistance (rc_planner rc) originZip destinationZip) (\<lambda>distanceMiles.
     on_success (ComputePPM (rc_tariff rc) weightEstimate originZip destinationZip distanceMiles originalMoveDate 0 lhDiscount 0) (\<lambda>cost.
     Reply 200 (Cents_MultiplyFloat64 (GCC cost) (fl64 (95 / 100)), Cents_MultiplyFloat64 (GCC cost) (fl64 (105 / 100))))))"

definition ShowPPMIncentive :: "rate_context \<Rightarrow> Session \<Rightarrow> string \<Rightarrow> string \<Rightarrow> gotime \<Rightarrow> int \<Rightarrow> (Cents \<times> Cents) reply" where
  "ShowPPMIncentive rc session originZip destinationZip originalMoveDate weight =
     (if \<not> IsOfficeUser session then Bare 403 else
     on_success (PPMDiscountFetch rc originZip destinationZip originalMoveDate) (\<lambda>(lhDiscount, _).
     on_success (Zip5TransitDistance (rc_planner rc) originZip destinationZip) (\<lambda>distanceMiles.
     on_success (ComputePPM (rc_tariff rc) weight originZip destinationZip distanceMiles originalMoveDate 0 lhDiscount 0) (\<lambda>cost.
     Reply 200 (GCC cost, Cents_MultiplyFloat64 (GCC cost) (fl64 (95 / 100)))))))"

definition ShowPPMSitEstimate :: "rate_context \<Rightarrow> string \<Rightarrow> string \<Rightarrow> gotime \<Rightarrow> int \<Rightarrow> int \<Rightarrow> Cents reply" where
  "ShowPPMSitEstimate rc originZip destinationZip originalMoveDate weightEstimate daysInStorage =
     on_success (Zip5ToZip3 destinationZip) (\<lambda>sitZip3.
     on_success (PPMDiscountFetch rc originZip destinationZip originalMoveDate) (\<lambda>(lhDiscount, sitDiscount).
     on_success (SitCharge (rc_tariff rc) (ToCWT weightEstimate) daysInStorage sitZip3 originalMoveDate True) (\<lambda>sitComputation.
     Reply 200 (ApplyDiscount sitComputation lhDiscount sitDiscount))))"

section \<open>Patching a PPM\<close>

record PatchPPMPayload =
  pa_Size :: "string option"
  pa_WeightEstimate :: "int option"
  pa_NetWeight :: "int option"
  pa_OriginalMoveDate :: "gotime option"
  pa_ActualMoveDate :: "gotime option"
  pa_PickupPostalCode :: "string option"
  pa_HasAdditionalPostalCode :: "bool option"
  pa_AdditionalPickupPostalCode :: "string option"
  pa_DestinationPostalCode :: "string option"
  pa_HasSit :: "bool option"
  pa_TotalSitCost :: "int option"
  pa_DaysInStorage :: "int option"
  pa_HasRequestedAdvance :: "bool option"
  pa_Advance :: "(Cents \<times> MethodOfReceipt) option"

definition empty_patch :: PatchPPMPayload where
  "empty_patch = \<lparr>pa_Size = None, pa_WeightEstimate = None, pa_NetWeight = None, pa_OriginalMoveDate = None,
     pa_ActualMoveDate = None, pa_PickupPostalCode = None, pa_HasAdditionalPostalCode = None, pa_AdditionalPickupPostalCode = None,
     pa_DestinationPostalCode = None, pa_HasSit = None, pa_TotalSitCost = None, pa_DaysInStorage = None,
     pa_HasRequestedAdvance = None, pa_Advance = None\<rparr>"

definition given :: "'a option \<Rightarrow> 'a option \<Rightarrow> 'a option" where
  "given new old = (case new of None \<Rightarrow> old | Some v \<Rightarrow> Some v)"

lemma given_simps [simp]: "given None old = old" "given (Some v) old = Some v"
  by (simp_all add: given_def)

definition patch_advance :: "gotime \<Rightarrow> (Cents \<times> MethodOfReceipt) option \<Rightarrow> PersonallyProcuredMove \<Rightarrow> PersonallyProcuredMove" where
  "patch_advance now asked ppm =
     (if \<not> pp_HasRequestedAdvance ppm then ppm
      else case asked of None \<Rightarrow> ppm
      | Some (requestedAmount, methodOfReceipt) \<Rightarrow> ppm\<lparr>pp_Advance := Some (case pp_Advance ppm of
            Some advance \<Rightarrow> advance\<lparr>rb_MethodOfReceipt := methodOfReceipt, rb_RequestedAmount := requestedAmount\<rparr>
          | None \<Rightarrow> if pp_Status ppm = PPMStatusDRAFT then BuildDraftReimbursement requestedAmount methodOfReceipt
              else BuildRequestedReimbursement now requestedAmount methodOfReceipt)\<rparr>)"

definition patchPPMWithPayload :: "gotime \<Rightarrow> PersonallyProcuredMove \<Rightarrow> PatchPPMPayload \<Rightarrow> PersonallyProcuredMove" where
  "patchPPMWithPayload now ppm payload = patch_advance now (pa_Advance payload) (ppm\<lparr>
     pp_Size := given (pa_Size payload) (pp_Size ppm),
     pp_WeightEstimate := given (pa_WeightEstimate payload) (pp_WeightEstimate ppm),
     pp_NetWeight := given (pa_NetWeight payload) (pp_NetWeight ppm),
     pp_OriginalMoveDate := given (pa_OriginalMoveDate payload) (pp_OriginalMoveDate ppm),
     pp_ActualMoveDate := given (pa_ActualMoveDate payload) (pp_ActualMoveDate ppm),
     pp_PickupPostalCode := given (pa_PickupPostalCode payload) (pp_PickupPostalCode ppm),
     pp_AdditionalPickupPostalCode := (case pa_HasAdditionalPostalCode payload of None \<Rightarrow> pp_AdditionalPickupPostalCode ppm
       | Some False \<Rightarrow> None | Some True \<Rightarrow> pa_AdditionalPickupPostalCode payload),
     pp_HasAdditionalPostalCode := given (pa_HasAdditionalPostalCode payload) (pp_HasAdditionalPostalCode ppm),
     pp_DestinationPostalCode := given (pa_DestinationPostalCode payload) (pp_DestinationPostalCode ppm),
     pp_HasSit := given (pa_HasSit payload) (pp_HasSit ppm),
     pp_TotalSITCost := given (pa_TotalSitCost payload) (pp_TotalSITCost ppm),
     pp_DaysInStorage := given (pa_DaysInStorage payload) (pp_DaysInStorage ppm),
     pp_HasRequestedAdvance := (case pa_HasRequestedAdvance payload of Some asked \<Rightarrow> asked
       | None \<Rightarrow> pa_Advance payload \<noteq> None \<or> pp_HasRequestedAdvance ppm)\<rparr>)"

text \<open>The value to compute with, whether it changed, and whether there is one.  For dates the code returns
  \<open>previousValue.Equal(*newValue)\<close> as the second component.\<close>

definition stringForComparison :: "string option \<Rightarrow> string option \<Rightarrow> string \<times> bool \<times> bool" where
  "stringForComparison previousValue newValue = (case newValue of
      Some new \<Rightarrow> (case previousValue of Some previous \<Rightarrow> (new, previous \<noteq> new, True) | None \<Rightarrow> (new, True, True))
    | None \<Rightarrow> (case previousValue of Some previous \<Rightarrow> (previous, False, True) | None \<Rightarrow> ('''', False, False)))"

definition int64ForComparison :: "int option \<Rightarrow> int option \<Rightarrow> int \<times> bool \<times> bool" where
  "int64ForComparison previousValue newValue = (case newValue of
      Some new \<Rightarrow> (case previousValue of Some previous \<Rightarrow> (new, previous \<noteq> new, True) | None \<Rightarrow> (new, True, True))
    | None \<Rightarrow> (case previousValue of Some previous \<Rightarrow> (previous, False, True) | None \<Rightarrow> (0, False, False)))"

definition dateForComparison :: "gotime option \<Rightarrow> gotime option \<Rightarrow> gotime \<times> bool \<times> bool" where
  "dateForComparison previousValue newValue = (case newValue of
      Some new \<Rightarrow> (case previousValue of Some previous \<Rightarrow> (new, previous = new, True) | None \<Rightarrow> (new, True, True))
    | None \<Rightarrow> (case previousValue of Some previous \<Rightarrow> (previous, False, True) | None \<Rightarrow> (zero_time, False, False)))"

definition ppmNeedsEstimatesRecalculated :: "PersonallyProcuredMove \<Rightarrow> PatchPPMPayload \<Rightarrow> bool" where
  "ppmNeedsEstimatesRecalculated ppm patch =
     (case stringForComparison (pp_PickupPostalCode ppm) (pa_PickupPostalCode patch) of (origin, originChanged, originOK) \<Rightarrow>
      case stringForComparison (pp_DestinationPostalCode ppm) (pa_DestinationPostalCode patch) of (destination, destinationChanged, destinationOK) \<Rightarrow>
      case int64ForComparison (pp_WeightEstimate ppm) (pa_WeightEstimate patch) of (weight, weightChanged, weightOK) \<Rightarrow>
      case dateForComparison (pp_OriginalMoveDate ppm) (pa_OriginalMoveDate patch) of (date, dateChanged, dateOK) \<Rightarrow>
      case int64ForComparison (pp_DaysInStorage ppm) (pa_DaysInStorage patch) of (daysInStorage, daysChanged, _) \<Rightarrow>
      (originOK \<and> destinationOK \<and> weightOK \<and> dateOK)
      \<and> (originChanged \<or> destinationChanged \<or> weightChanged \<or> dateChanged \<or> daysChanged))"

definition days_in_sit :: "PersonallyProcuredMove \<Rightarrow> int" where
  "days_in_sit ppm = (if pp_HasSit ppm = Some True then (case pp_DaysInStorage ppm of Some days \<Rightarrow> days | None \<Rightarrow> 0) else 0)"

definition sit_reimbursement :: "rate_context \<Rightarrow> PersonallyProcuredMove \<Rightarrow> DiscountRate \<Rightarrow> DiscountRate \<Rightarrow> PersonallyProcuredMove result" where
  "sit_reimbursement rc ppm lhDiscount sitDiscount =
     (if pp_HasSit ppm = Some True then
        obind (deref (pp_WeightEstimate ppm)) (\<lambda>weight.
        obind (deref (pp_DestinationPostalCode ppm)) (\<lambda>destination.
        obind (Zip5ToZip3 destination) (\<lambda>sitZip3.
        obind (deref (pp_OriginalMoveDate ppm)) (\<lambda>date.
        obind (SitCharge (rc_tariff rc) (ToCWT weight) (days_in_sit ppm) sitZip3 date True) (\<lambda>sitComputation.
        Ret (ppm\<lparr>pp_EstimatedStorageReimbursement := Some (CHR ''$'' #
          fmt_fixed 2 (fl64 (fl64 (of_int (ApplyDiscount sitComputation lhDiscount sitDiscount)) / 100)))\<rparr>))))))
      else Ret ppm)"

definition updateEstimates :: "rate_context \<Rightarrow> PersonallyProcuredMove \<Rightarrow> PersonallyProcuredMove result" where
  "updateEstimates rc ppm =
     obind (deref (pp_PickupPostalCode ppm)) (\<lambda>origin.
     obind (deref (pp_DestinationPostalCode ppm)) (\<lambda>destination.
     obind (deref (pp_OriginalMoveDate ppm)) (\<lambda>date.
     obind (PPMDiscountFetch rc origin destination date) (\<lambda>(lhDiscount, sitDiscount).
     obind (sit_reimbursement rc ppm lhDiscount sitDiscount) (\<lambda>ppm.
     obind (Zip5TransitDistance (rc_planner rc) origin destination) (\<lambda>distanceMiles.
     obind (deref (pp_WeightEstimate ppm)) (\<lambda>weight.
     obind (ComputePPM (rc_tariff rc) weight origin destination distanceMiles date (days_in_sit ppm) lhDiscount sitDiscount) (\<lambda>cost.
     Ret (ppm\<lparr>pp_Mileage := Some (Mileage (linehaul cost)), pp_PlannedSITMax := Some (SITFee cost), pp_SITMax := Some (SITMax cost),
       pp_IncentiveEstimateMin := Some (Cents_MultiplyFloat64 (GCC cost) (fl64 (95 / 100))),
       pp_IncentiveEstimateMax := Some (Cents_MultiplyFloat64 (GCC cost) (fl64 (105 / 100)))\<rparr>)))))))))"

section \<open>Handlers\<close>

text \<open>Create, patch, submit and request payment.  \<open>now\<close> is the time the handler reads for a requested advance.\<close>

definition save_and_reply :: "nat \<Rightarrow> PersonallyProcuredMove \<Rightarrow> store \<Rightarrow> store \<times> PersonallyProcuredMove reply" where
  "save_and_reply code ppm w = after_save w (SavePersonallyProcuredMove ppm w) (\<lambda>w' p. (w', Reply code p))"

record CreatePPMPayload =
  cp_Size :: "string option"
  cp_WeightEstimate :: "Pound option"
  cp_OriginalMoveDate :: "gotime option"
  cp_PickupPostalCode :: "string option"
  cp_HasAdditionalPostalCode :: "bool option"
  cp_AdditionalPickupPostalCode :: "string option"
  cp_DestinationPostalCode :: "string option"
  cp_HasSit :: "bool option"
  cp_DaysInStorage :: "int option"
  cp_EstimatedStorageReimbursement :: "string option"
  cp_HasRequestedAdvance :: bool
  cp_Advance :: "(Cents \<times> MethodOfReceipt) option"

definition new_ppm :: "Move \<Rightarrow> CreatePPMPayload \<Rightarrow> Reimbursement option \<Rightarrow> PersonallyProcuredMove" where
  "new_ppm m payload advance = \<lparr>pp_ID = uuid_Nil, pp_Status = PPMStatusDRAFT, pp_SubmitDate = None, pp_ApproveDate = None,
     pp_HasRequestedAdvance = cp_HasRequestedAdvance payload, pp_AdvanceID = None, pp_Advance = advance, pp_MoveID = mv_ID m,
     pp_OriginalMoveDate = cp_OriginalMoveDate payload, pp_NetWeight = None, pp_Size = cp_Size payload,
     pp_WeightEstimate = cp_WeightEstimate payload, pp_ActualMoveDate = None, pp_PickupPostalCode = cp_PickupPostalCode payload,
     pp_HasAdditionalPostalCode = cp_HasAdditionalPostalCode payload,
     pp_AdditionalPickupPostalCode = cp_AdditionalPickupPostalCode payload, pp_DestinationPostalCode = cp_DestinationPostalCode payload,
     pp_HasSit = cp_HasSit payload, pp_DaysInStorage = cp_DaysInStorage payload,
     pp_EstimatedStorageReimbursement = cp_EstimatedStorageReimbursement payload, pp_Mileage = None, pp_PlannedSITMax = None,
     pp_SITMax = None, pp_IncentiveEstimateMin = None, pp_IncentiveEstimateMax = None, pp_TotalSITCost = None\<rparr>"

definition CreatePPM :: "Move \<Rightarrow> CreatePPMPayload \<Rightarrow> Reimbursement option \<Rightarrow> store
    \<Rightarrow> (store \<times> PersonallyProcuredMove option \<times> verrs \<times> goerr option) result" where
  "CreatePPM m payload advance w = SavePersonallyProcuredMove (new_ppm m payload advance) w"

definition CreatePersonallyProcuredMove :: "Session \<Rightarrow> uuid \<Rightarrow> CreatePPMPayload \<Rightarrow> store \<Rightarrow> store \<times> PersonallyProcuredMove reply" where
  "CreatePersonallyProcuredMove session moveID payload w =
     continue w (FetchMove (st_tables w) session moveID) (\<lambda>move.
     after_save w (CreatePPM move payload (map_option (\<lambda>(a, r). BuildDraftReimbursement a r) (cp_Advance payload)) w) (\<lambda>w' p. (w', Reply 201 p)))"

definition IndexPersonallyProcuredMoves :: "Session \<Rightarrow> uuid \<Rightarrow> store \<Rightarrow> PersonallyProcuredMove list reply" where
  "IndexPersonallyProcuredMoves session moveID w =
     on_success (FetchMove (st_tables w) session moveID) (\<lambda>move. Reply 200 (mv_PersonallyProcuredMoves move))"

definition PatchPersonallyProcuredMove ::
    "gotime \<Rightarrow> rate_context \<Rightarrow> Session \<Rightarrow> uuid \<Rightarrow> uuid \<Rightarrow> PatchPPMPayload \<Rightarrow> store \<Rightarrow> store \<times> PersonallyProcuredMove reply" where
  "PatchPersonallyProcuredMove now rc session moveID ppmID payload w =
     continue w (FetchPersonallyProcuredMove (st_tables w) session ppmID) (\<lambda>ppm.
     if pp_MoveID ppm \<noteq> moveID then (w, Bare 400) else
     continue w (if ppmNeedsEstimatesRecalculated ppm payload then updateEstimates rc (patchPPMWithPayload now ppm payload)
         else Ret (patchPPMWithPayload now ppm payload)) (\<lambda>ppm.
     save_and_reply 200 ppm w))"

text \<open>The error of \<open>ppm.Submit\<close> is overwritten by that of the save before anything looks at it.\<close>

definition SubmitPersonallyProcuredMove :: "Session \<Rightarrow> uuid \<Rightarrow> gotime option \<Rightarrow> store \<Rightarrow> store \<times> PersonallyProcuredMove reply" where
  "SubmitPersonallyProcuredMove session ppmID submitDate w =
     continue w (FetchPersonallyProcuredMove (st_tables w) session ppmID) (\<lambda>ppm.
     save_and_reply 200 (fst (PPM_Submit (case submitDate of Some d \<Rightarrow> d | None \<Rightarrow> zero_time) ppm)) w)"

definition RequestPPMPayment :: "Session \<Rightarrow> uuid \<Rightarrow> store \<Rightarrow> store \<times> PersonallyProcuredMove reply" where
  "RequestPPMPayment session ppmID w =
     continue w (FetchPersonallyProcuredMove (st_tables w) session ppmID) (\<lambda>ppm.
     case PPM_RequestPayment ppm of (ppm, err) \<Rightarrow> (case err of
         Some e \<Rightarrow> (w, Refusal (ErrorResponse (ResponseForError (Some e))))
       | None \<Rightarrow> save_and_reply 200 ppm w))"

section \<open>The summary of expenses\<close>

text \<open>Totals by payment method (\<open>OTHER\<close>, \<open>GTCC\<close>) and over all; the payload lists the categories in the random
  order of Go's map iteration, so they are a map here.\<close>

record expense_totals =
  et_OTHER :: int
  et_GTCC :: int
  et_Total :: int

definition add_expense :: "expense_totals \<Rightarrow> MovingExpenseDocument \<Rightarrow> expense_totals" where
  "add_expense t doc = (let amt = me_RequestedAmountCents doc in
     t\<lparr>et_OTHER := (if me_PaymentMethod doc = ''OTHER'' then wrap64 (et_OTHER t + amt) else et_OTHER t),
       et_GTCC := (if me_PaymentMethod doc = ''GTCC'' then wrap64 (et_GTCC t + amt) else et_GTCC t),
       et_Total := wrap64 (et_Total t + amt)\<rparr>)"

definition no_expenses :: expense_totals where
  "no_expenses = \<lparr>et_OTHER = 0, et_GTCC = 0, et_Total = 0\<rparr>"

definition first_expense :: "MovingExpenseDocument \<Rightarrow> expense_totals" where
  "first_expense doc = \<lparr>et_OTHER = (if me_PaymentMethod doc = ''OTHER'' then me_RequestedAmountCents doc else 0),
     et_GTCC = (if me_PaymentMethod doc = ''GTCC'' then me_RequestedAmountCents doc else 0),
     et_Total = me_RequestedAmountCents doc\<rparr>"

definition add_to_category :: "(MovingExpenseType \<rightharpoonup> expense_totals) \<Rightarrow> MovingExpenseDocument \<Rightarrow> (MovingExpenseType \<rightharpoonup> expense_totals)" where
  "add_to_category catMap doc = (case catMap (me_MovingExpenseType doc) of
      Some t \<Rightarrow> catMap(me_MovingExpenseType doc \<mapsto> add_expense t doc)
    | None \<Rightarrow> catMap(me_MovingExpenseType doc \<mapsto> first_expense doc))"

fun expense_loop :: "MoveDocument list \<Rightarrow> expense_totals \<Rightarrow> (MovingExpenseType \<rightharpoonup> expense_totals)
    \<Rightarrow> (expense_totals \<times> (MovingExpenseType \<rightharpoonup> expense_totals)) result" where
  "expense_loop [] grandTotal catMap = Ret (grandTotal, catMap)"
| "expense_loop (moveDoc # moveDocs) grandTotal catMap =
     obind (deref (md_MovingExpenseDocument moveDoc)) (\<lambda>expenseDoc.
     expense_loop moveDocs (add_expense grandTotal expenseDoc) (add_to_category catMap expenseDoc))"

definition buildExpenseSummaryPayload :: "MoveDocument list \<Rightarrow> (expense_totals \<times> (MovingExpenseType \<rightharpoonup> expense_totals)) result" where
  "buildExpenseSummaryPayload moveDocsExpense = expense_loop moveDocsExpense no_expenses Map.empty"

definition RequestPPMExpenseSummary :: "Session \<Rightarrow> uuid \<Rightarrow> store \<Rightarrow> (expense_totals \<times> (MovingExpenseType \<rightharpoonup> expense_totals)) reply" where
  "RequestPPMExpenseSummary session ppmID w =
     on_success (FetchMovingExpenseDocuments (st_tables w) session ppmID (Some MoveDocumentStatusOK)) (\<lambda>moveDocsExpense.
     on_success (buildExpenseSummaryPayload moveDocsExpense) (Reply 200))"

section \<open>The best value score decides the discount\<close>

lemma first_row_sort_key:
  assumes "first_row (sort_key f (filter P xs)) = Ret p"
  shows "p \<in> set xs \<and> P p \<and> list_all (\<lambda>q. P q \<longrightarrow> f p \<le> f q) xs"
proof -
  obtain ps where ps: "sort_key f (filter P xs) = p # ps"
    using assms by (cases "sort_key f (filter P xs)") auto
  then have s: "set (p # ps) = {q \<in> set xs. P q}" by (metis set_filter set_sort)
  have "sorted (map f (p # ps))" by (metis ps sorted_sort_key)
  then have "\<forall>q \<in> set (p # ps). f p \<le> f q" by auto
  with s show ?thesis by (auto simp: list_all_iff)
qed

lemma first_row_sort_key_Fail: "first_row (sort_key f (filter P xs)) = Fail e \<Longrightarrow> list_all (\<lambda>q. \<not> P q) xs"
proof -
  assume "first_row (sort_key f (filter P xs)) = Fail e"
  then have "sort_key f (filter P xs) = []" by (cases "sort_key f (filter P xs)") auto
  then have "filter P xs = []" by (metis length_0_conv length_sort)
  then show ?thesis by (simp add: filter_empty_conv list_all_iff)
qed

definition best_in_channel :: "rate_context \<Rightarrow> string \<Rightarrow> string \<Rightarrow> string \<Rightarrow> gotime \<Rightarrow> TSPPerformance \<Rightarrow> bool" where
  "best_in_channel rc rateArea region service date p \<longleftrightarrow> p \<in> set (rc_performances rc)
     \<and> in_channel (rc_tdls rc) rateArea region service date p
     \<and> list_all (\<lambda>q. in_channel (rc_tdls rc) rateArea region service date q \<longrightarrow> tspp_BestValueScore q \<le> tspp_BestValueScore p)
         (rc_performances rc)"

lemma FetchDiscountRates_cases:
  assumes "FetchRateAreaForZip5 (rc_tariff rc) z1 = Ret rateArea" "FetchRegionForZip5 (rc_tariff rc) z2 = Ret region"
  obtains (found) p where "FetchDiscountRates rc z1 z2 service date = Ret (tspp_LinehaulRate p, tspp_SITRate p)"
      "best_in_channel rc rateArea region service date p"
    | (missing) "FetchDiscountRates rc z1 z2 service date = Fail ErrFetchNotFound"
      "list_all (\<lambda>q. \<not> in_channel (rc_tdls rc) rateArea region service date q) (rc_performances rc)"
proof -
  let ?r = "first_row (sort_key (\<lambda>p. - tspp_BestValueScore p)
    (filter (in_channel (rc_tdls rc) rateArea region service date) (rc_performances rc)))"
  have d: "FetchDiscountRates rc z1 z2 service date
    = obind (map_fail (\<lambda>_. ErrFetchNotFound) ?r) (\<lambda>p. Ret (tspp_LinehaulRate p, tspp_SITRate p))"
    by (simp add: FetchDiscountRates_def assms)
  show thesis
  proof (cases ?r)
    case (Ret p)
    with first_row_sort_key [OF Ret] show thesis by (intro found) (auto simp: d best_in_channel_def list_all_iff)
  next
    case (Fail e)
    with first_row_sort_key_Fail [OF Fail] show thesis by (intro missing) (simp_all add: d)
  next
    case Panic
    then show thesis by (simp add: outcome_simps)
  qed
qed

text \<open>For zip codes with a rate area and a region, a PPM is priced with the discounts of a performance that
  has the best value score among those of the channel and the date for code of service D, or for code 2 when
  there is none for D; when there is none for either, the error is that nothing was found.\<close>

theorem ppm_discount_best:
  assumes "FetchRateAreaForZip5 (rc_tariff rc) originZip = Ret rateArea" "FetchRegionForZip5 (rc_tariff rc) destZip = Ret region"
  shows "case PPMDiscountFetch rc originZip destZip date of
      Ret (lh, sit) \<Rightarrow> (\<exists>p service. best_in_channel rc rateArea region service date p
        \<and> lh = tspp_LinehaulRate p \<and> sit = tspp_SITRate p
        \<and> (service = ''D'' \<or> service = ''2''
          \<and> list_all (\<lambda>q. \<not> in_channel (rc_tdls rc) rateArea region ''D'' date q) (rc_performances rc)))
    | Fail e \<Rightarrow> e = ErrFetchNotFound
        \<and> list_all (\<lambda>q. \<not> in_channel (rc_tdls rc) rateArea region ''D'' date q
            \<and> \<not> in_channel (rc_tdls rc) rateArea region ''2'' date q) (rc_performances rc)
    | Panic \<Rightarrow> False"
proof -
  let ?none = "\<lambda>service. list_all (\<lambda>q. \<not> in_channel (rc_tdls rc) rateArea region service date q) (rc_performances rc)"
  show ?thesis
  proof (rule FetchDiscountRates_cases [OF assms, of "''D''" date])
    assume D: "FetchDiscountRates rc originZip destZip ''D'' date = Fail ErrFetchNotFound" "?none ''D''"
    show ?thesis
    proof (rule FetchDiscountRates_cases [OF assms, of "''2''" date])
      fix p assume "FetchDiscountRates rc originZip destZip ''2'' date = Ret (tspp_LinehaulRate p, tspp_SITRate p)"
        "best_in_channel rc rateArea region ''2'' date p"
      with D show ?thesis by (auto simp: PPMDiscountFetch_def)
    next
      assume "FetchDiscountRates rc originZip destZip ''2'' date = Fail ErrFetchNotFound" "?none ''2''"
      with D show ?thesis by (auto simp: PPMDiscountFetch_def list_all_iff)
    qed
  qed (auto simp: PPMDiscountFetch_def)
qed

section \<open>Stored estimates are the ones shown\<close>

lemma SitCharge_zero [simp]: "SitCharge db cwt 0 z d ppm = Ret \<lparr>SITPart = 0, LinehaulPart = 0, NonDiscountedTotal = 0\<rparr>"
  by (simp add: SitCharge_def)

lemma ComputePPM_without_sit:
  assumes "ComputePPM db w z1 z2 m d days lh s = Ret c"
  shows "\<exists>c'. ComputePPM db w z1 z2 m d 0 lh 0 = Ret c' \<and> GCC c' = GCC c"
  using assms by (auto simp: ComputePPM_def outcome_simps CostComputation_Scale_def ppm_cost_def Let_def split: prod.splits)

lemma sit_reimbursement_same:
  "sit_reimbursement rc ppm lh s = Ret p \<Longrightarrow> pp_WeightEstimate p = pp_WeightEstimate ppm"
  by (auto simp: sit_reimbursement_def outcome_simps split: if_splits)

text \<open>C28: when the estimates of a PPM are updated, the incentive stored is the range the estimate endpoint shows
  for the weight, the zip codes and the date of the PPM, storage or not.\<close>

theorem stored_range_is_shown:
  assumes "updateEstimates rc ppm = Ret p"
  shows "\<exists>origin destination date weight low high.
      (pp_PickupPostalCode ppm, pp_DestinationPostalCode ppm, pp_OriginalMoveDate ppm, pp_WeightEstimate ppm)
        = (Some origin, Some destination, Some date, Some weight)
    \<and> (pp_IncentiveEstimateMin p, pp_IncentiveEstimateMax p) = (Some low, Some high)
    \<and> ShowPPMEstimate rc origin destination date weight = Reply 200 (low, high)"
proof -
  from assms obtain origin destination date lh s q m weight cost where
    f: "pp_PickupPostalCode ppm = Some origin" "pp_DestinationPostalCode ppm = Some destination" "pp_OriginalMoveDate ppm = Some date"
    and r: "PPMDiscountFetch rc origin destination date = Ret (lh, s)" "sit_reimbursement rc ppm lh s = Ret q"
      "Zip5TransitDistance (rc_planner rc) origin destination = Ret m" "pp_WeightEstimate q = Some weight"
      "ComputePPM (rc_tariff rc) weight origin destination m date (days_in_sit q) lh s = Ret cost"
    and p: "pp_IncentiveEstimateMin p = Some (Cents_MultiplyFloat64 (GCC cost) (fl64 (95 / 100)))"
      "pp_IncentiveEstimateMax p = Some (Cents_MultiplyFloat64 (GCC cost) (fl64 (105 / 100)))"
    by (auto simp: updateEstimates_def outcome_simps)
  have w: "pp_WeightEstimate ppm = Some weight" using sit_reimbursement_same [OF r(2)] r(4) by simp
  from ComputePPM_without_sit [OF r(5)] r f p w show ?thesis by (auto simp: ShowPPMEstimate_def)
qed

section \<open>Percentages of a cost\<close>

lemma percent_nearest:
  assumes c: "\<bar>c\<bar> \<le> 2 ^ 40" and n: "0 < n" "n \<le> 200"
  shows "\<bar>100 * Cents_MultiplyFloat64 c (fl64 (of_int n / 100)) - n * c\<bar> \<le> 50"
proof -
  define q where "q = (of_int n / 100 :: rat)"
  define f where "f = fl64 q"
  define z where "z = (of_int c :: rat)"
  have q: "1 / 100 \<le> q" "q \<le> 2"
    using n by (simp_all add: q_def field_simps)
  have e: "\<bar>f - q\<bar> \<le> 2 / 2 ^ 53" using fl64_abs_err [of q] q unfolding f_def by simp
  have "\<bar>f - q\<bar> \<le> 1 / 1024" by (rule order_trans [OF e]) simp
  then have f: "1 / 200 \<le> f" "f \<le> 3" using q unfolding abs_le_iff by linarith+
  have "\<bar>of_int c\<bar> \<le> (of_int (2 ^ 40) :: rat)" using c unfolding of_int_abs [symmetric] of_int_le_iff .
  then have z: "\<bar>z\<bar> \<le> 2 ^ 40" by (simp add: z_def)
  have "\<bar>z * f - z * q\<bar> = \<bar>z\<bar> * \<bar>f - q\<bar>" by (simp add: right_diff_distrib [symmetric] abs_mult)
  also have "\<dots> \<le> 2 ^ 40 * (2 / 2 ^ 53)" using z e by (intro mult_mono) auto
  finally have e1: "\<bar>z * f - z * q\<bar> \<le> 1 / 4096" by simp
  have "\<bar>z * f\<bar> = \<bar>z\<bar> * f" using f by (simp add: abs_mult)
  also have "\<dots> \<le> 2 ^ 40 * 3" using z f by (intro mult_mono) auto
  finally have b: "\<bar>z * f\<bar> \<le> 2 ^ 40 * 3" .
  have "z * f = 0 \<or> 1 / 10000 \<le> \<bar>z * f\<bar>"
  proof (cases "c = 0")
    case False
    then have "(1::rat) \<le> \<bar>z\<bar>" unfolding z_def by (metis Ints_of_int Ints_nonzero_abs_ge1 of_int_0_eq_iff)
    then have "1 * (1 / 200) \<le> \<bar>z\<bar> * f" using f by (intro mult_mono) auto
    then show ?thesis using f by (simp add: abs_mult)
  qed (simp add: z_def)
  note this [THEN fl64_abs_err]
  also have "\<bar>z * f\<bar> / 2 ^ 53 \<le> 3 / 8192" using b by simp
  finally have e2: "\<bar>fl64 (z * f) - z * f\<bar> \<le> 3 / 8192" .
  define r where "r = go_round (fl64 (z * f))"
  have e3: "\<bar>of_int r - fl64 (z * f)\<bar> \<le> 1 / 2" unfolding r_def by (rule go_round_err)
  have near: "\<bar>of_int r - z * q\<bar> \<le> 1 / 2 + 1 / 1024" using e1 e2 e3 unfolding abs_le_iff by linarith
  have "\<bar>z * q\<bar> \<le> 2 ^ 40 * 2" unfolding abs_mult using z q by (intro mult_mono) auto
  then have "\<bar>z * q\<bar> \<le> 2199023255552" by simp
  with near have "\<bar>of_int r\<bar> \<le> (4398046511104 :: rat)" unfolding abs_le_iff by linarith
  then have "\<bar>of_int r\<bar> \<le> (2 ^ 42 :: rat)" by simp
  then have "\<bar>r\<bar> \<le> 2 ^ 42" by (metis of_int_abs of_int_le_iff of_int_numeral of_int_power)
  then have "in64 r" by (intro in64_abs) simp
  moreover have "fl64 (of_int c) = z" unfolding z_def using c by (intro fl64_of_int) simp
  ultimately have R: "Cents_MultiplyFloat64 c (fl64 (of_int n / 100)) = r"
    by (simp add: Cents_MultiplyFloat64_def go_trunc_of_int r_def f_def q_def)
  have "of_int (100 * r - n * c) = 100 * (of_int r - z * q)" by (simp add: z_def q_def algebra_simps)
  then have "\<bar>of_int (100 * r - n * c)\<bar> = 100 * \<bar>of_int r - z * q\<bar>" by (simp only: abs_mult abs_numeral)
  also have "\<dots> \<le> 100 * (1 / 2 + 1 / 1024)" using near by (intro mult_left_mono) auto
  also have "\<dots> < (51 :: rat)" by simp
  finally have "\<bar>of_int (100 * r - n * c)\<bar> < (51 :: rat)" .
  then have "\<bar>100 * r - n * c\<bar> < 51" by (metis of_int_abs of_int_less_iff of_int_numeral)
  then show ?thesis unfolding R by simp
qed

text \<open>The estimate that is shown is 95 and 105 percent of the cost of the PPM without storage, each rounded to
  the nearest cent, as long as the cost is at most 2 to the 40 cents.\<close>

theorem estimate_range_nearest:
  assumes "ShowPPMEstimate rc originZip destinationZip date weight = Reply 200 (low, high)"
  shows "\<exists>lh s m cost. PPMDiscountFetch rc originZip destinationZip date = Ret (lh, s)
    \<and> Zip5TransitDistance (rc_planner rc) originZip destinationZip = Ret m
    \<and> ComputePPM (rc_tariff rc) weight originZip destinationZip m date 0 lh 0 = Ret cost
    \<and> (\<bar>GCC cost\<bar> \<le> 2 ^ 40 \<longrightarrow> \<bar>100 * low - 95 * GCC cost\<bar> \<le> 50 \<and> \<bar>100 * high - 105 * GCC cost\<bar> \<le> 50)"
proof -
  from assms obtain lh s m cost where r: "PPMDiscountFetch rc originZip destinationZip date = Ret (lh, s)"
      "Zip5TransitDistance (rc_planner rc) originZip destinationZip = Ret m"
      "ComputePPM (rc_tariff rc) weight originZip destinationZip m date 0 lh 0 = Ret cost"
    and p: "low = Cents_MultiplyFloat64 (GCC cost) (fl64 (95 / 100))" "high = Cents_MultiplyFloat64 (GCC cost) (fl64 (105 / 100))"
    by (auto simp: ShowPPMEstimate_def on_success_def split: outcome.splits)
  have "\<bar>100 * low - 95 * GCC cost\<bar> \<le> 50 \<and> \<bar>100 * high - 105 * GCC cost\<bar> \<le> 50" if "\<bar>GCC cost\<bar> \<le> 2 ^ 40"
    using percent_nearest [OF that, of 95] percent_nearest [OF that, of 105] unfolding p by simp
  with r show ?thesis by blast
qed

section \<open>What makes the estimates be recalculated\<close>

lemma patch_nothing_advance: "patch_advance now None ppm = ppm"
  by (simp add: patch_advance_def)

lemma patch_date: "patchPPMWithPayload now ppm (empty_patch\<lparr>pa_OriginalMoveDate := Some d\<rparr>) = ppm\<lparr>pp_OriginalMoveDate := Some d\<rparr>"
  by (simp add: patchPPMWithPayload_def empty_patch_def patch_nothing_advance)

lemma comparisons_without_new:
  "snd (stringForComparison old None) = (False, old \<noteq> None)" "snd (int64ForComparison n None) = (False, n \<noteq> None)"
  by (auto simp: stringForComparison_def int64ForComparison_def split: option.splits)

lemma recalculated_for_date:
  "ppmNeedsEstimatesRecalculated ppm (empty_patch\<lparr>pa_OriginalMoveDate := Some d\<rparr>)
    \<longleftrightarrow> pp_PickupPostalCode ppm \<noteq> None \<and> pp_DestinationPostalCode ppm \<noteq> None \<and> pp_WeightEstimate ppm \<noteq> None
      \<and> (case pp_OriginalMoveDate ppm of None \<Rightarrow> True | Some old \<Rightarrow> old = d)"
  using comparisons_without_new(1) [of "pp_PickupPostalCode ppm"] comparisons_without_new(1) [of "pp_DestinationPostalCode ppm"]
    comparisons_without_new(2) [of "pp_WeightEstimate ppm"] comparisons_without_new(2) [of "pp_DaysInStorage ppm"]
  by (auto simp: ppmNeedsEstimatesRecalculated_def empty_patch_def dateForComparison_def split: prod.splits option.splits)

lemma recalculated_for_sit: "\<not> ppmNeedsEstimatesRecalculated ppm (empty_patch\<lparr>pa_HasSit := b\<rparr>)"
  using comparisons_without_new(1) [of "pp_PickupPostalCode ppm"] comparisons_without_new(1) [of "pp_DestinationPostalCode ppm"]
    comparisons_without_new(2) [of "pp_WeightEstimate ppm"] comparisons_without_new(2) [of "pp_DaysInStorage ppm"]
  by (auto simp: ppmNeedsEstimatesRecalculated_def empty_patch_def dateForComparison_def split: prod.splits option.splits)

text \<open>Moving the date of a PPM that already has one saves the new date with the estimates of the old one;
  sending the old date again recalculates them, if the PPM has what it takes; and a change of the storage wish is
  never a reason to recalculate.\<close>

theorem date_change_keeps_estimates:
  assumes "FetchPersonallyProcuredMove (st_tables w) session ppmID = Ret ppm" "pp_MoveID ppm = moveID"
    "pp_OriginalMoveDate ppm = Some old" "new \<noteq> old"
  shows "PatchPersonallyProcuredMove now rc session moveID ppmID (empty_patch\<lparr>pa_OriginalMoveDate := Some new\<rparr>) w
      = save_and_reply 200 (ppm\<lparr>pp_OriginalMoveDate := Some new\<rparr>) w
    \<and> (ppmNeedsEstimatesRecalculated ppm (empty_patch\<lparr>pa_OriginalMoveDate := Some old\<rparr>)
      \<longleftrightarrow> pp_PickupPostalCode ppm \<noteq> None \<and> pp_DestinationPostalCode ppm \<noteq> None \<and> pp_WeightEstimate ppm \<noteq> None)
    \<and> \<not> ppmNeedsEstimatesRecalculated ppm (empty_patch\<lparr>pa_HasSit := b\<rparr>)"
  using assms
  by (simp add: PatchPersonallyProcuredMove_def recalculated_for_date recalculated_for_sit patch_date)

text \<open>Submitting a PPM that is no draft, or has been submitted before, is not refused: it is saved as it is and
  answered as a success.\<close>

theorem resubmitted_ppm_accepted:
  assumes "FetchPersonallyProcuredMove (st_tables w) session ppmID = Ret ppm"
    "pp_Status ppm \<noteq> PPMStatusDRAFT \<or> pp_SubmitDate ppm \<noteq> None"
  shows "SubmitPersonallyProcuredMove session ppmID submitDate w = save_and_reply 200 ppm w"
  using assms by (auto simp: SubmitPersonallyProcuredMove_def PPM_Submit_def refuse_def)

section \<open>Who may change a PPM\<close>

lemma continue_unchanged: "fst (continue w r k) \<noteq> w \<Longrightarrow> \<exists>x. r = Ret x \<and> fst (k x) \<noteq> w"
  by (cases r) auto

text \<open>In the app of the service members, a handler that changes anything works on a PPM or a move of the
  session's own service member.\<close>

theorem ppm_handlers_guarded:
  assumes "IsMilApp session" "IsServiceMember session"
  shows "(fst (PatchPersonallyProcuredMove now rc session moveID ppmID payload w) \<noteq> w
        \<or> fst (SubmitPersonallyProcuredMove session ppmID submitDate w) \<noteq> w
        \<or> fst (RequestPPMPayment session ppmID w) \<noteq> w \<longrightarrow> owns_ppm (st_tables w) session ppmID)
    \<and> (fst (CreatePersonallyProcuredMove session moveID create w) \<noteq> w \<longrightarrow> owns_move (st_tables w) session moveID)"
proof (intro conjI impI, elim disjE)
  note own = ppm_fetch.guarded [OF assms]
  show "owns_ppm (st_tables w) session ppmID" if "fst (PatchPersonallyProcuredMove now rc session moveID ppmID payload w) \<noteq> w"
    using continue_unchanged [OF that [unfolded PatchPersonallyProcuredMove_def]] own by blast
  show "owns_ppm (st_tables w) session ppmID" if "fst (SubmitPersonallyProcuredMove session ppmID submitDate w) \<noteq> w"
    using continue_unchanged [OF that [unfolded SubmitPersonallyProcuredMove_def]] own by blast
  show "owns_ppm (st_tables w) session ppmID" if "fst (RequestPPMPayment session ppmID w) \<noteq> w"
    using continue_unchanged [OF that [unfolded RequestPPMPayment_def]] own by blast
  show "owns_move (st_tables w) session moveID" if "fst (CreatePersonallyProcuredMove session moveID create w) \<noteq> w"
    using continue_unchanged [OF that [unfolded CreatePersonallyProcuredMove_def]] move_fetch.guarded [OF assms] by blast
qed

section \<open>Sums of expenses\<close>

definition sum_of :: "(MovingExpenseDocument \<Rightarrow> bool) \<Rightarrow> MovingExpenseDocument list \<Rightarrow> int" where
  "sum_of P es = sum_list (map me_RequestedAmountCents (filter P es))"

definition wrapped_totals :: "MovingExpenseDocument list \<Rightarrow> expense_totals" where
  "wrapped_totals es = \<lparr>et_OTHER = wrap64 (sum_of (\<lambda>e. me_PaymentMethod e = ''OTHER'') es),
     et_GTCC = wrap64 (sum_of (\<lambda>e. me_PaymentMethod e = ''GTCC'') es), et_Total = wrap64 (sum_of (\<lambda>_. True) es)\<rparr>"

definition exact_totals :: "MovingExpenseDocument list \<Rightarrow> expense_totals" where
  "exact_totals es = \<lparr>et_OTHER = sum_of (\<lambda>e. me_PaymentMethod e = ''OTHER'') es,
     et_GTCC = sum_of (\<lambda>e. me_PaymentMethod e = ''GTCC'') es, et_Total = sum_of (\<lambda>_. True) es\<rparr>"

definition by_category :: "(MovingExpenseDocument list \<Rightarrow> expense_totals) \<Rightarrow> MovingExpenseDocument list \<Rightarrow> (MovingExpenseType \<rightharpoonup> expense_totals)" where
  "by_category f es = (\<lambda>t. if list_ex (\<lambda>e. me_MovingExpenseType e = t) es
     then Some (f (filter (\<lambda>e. me_MovingExpenseType e = t) es)) else None)"

lemma sum_of_simps [simp]:
  "sum_of P [] = 0" "sum_of P (es @ [e]) = sum_of P es + (if P e then me_RequestedAmountCents e else 0)"
  by (simp_all add: sum_of_def)

lemma add_wrapped: "add_expense (wrapped_totals es) e = wrapped_totals (es @ [e])"
  by (simp add: add_expense_def wrapped_totals_def Let_def wrap64_add_wrap64)

lemma first_wrapped: "in64 (me_RequestedAmountCents e) \<Longrightarrow> first_expense e = wrapped_totals [e]"
  by (auto simp: first_expense_def wrapped_totals_def sum_of_def in64_def)

lemma add_category_wrapped:
  "in64 (me_RequestedAmountCents e) \<Longrightarrow> add_to_category (by_category wrapped_totals es) e = by_category wrapped_totals (es @ [e])"
  by (auto simp: add_to_category_def by_category_def add_wrapped first_wrapped fun_eq_iff list_ex_iff filter_empty_conv
      split: option.splits)

lemma expense_loop_sums:
  "list_all (\<lambda>e. in64 (me_RequestedAmountCents e)) es \<Longrightarrow> map md_MovingExpenseDocument docs = map Some es \<Longrightarrow>
   expense_loop docs (wrapped_totals seen) (by_category wrapped_totals seen)
     = Ret (wrapped_totals (seen @ es), by_category wrapped_totals (seen @ es))"
proof (induction docs arbitrary: es seen)
  case (Cons doc docs)
  then obtain e es' where e: "es = e # es'" "md_MovingExpenseDocument doc = Some e" "map md_MovingExpenseDocument docs = map Some es'"
    by (cases es) auto
  with Cons.prems Cons.IH [of es' "seen @ [e]"] show ?case by (simp add: add_wrapped add_category_wrapped)
qed simp

lemma sum_of_bounded:
  "\<bar>sum_of P es\<bar> \<le> sum_list (map (\<lambda>e. \<bar>me_RequestedAmountCents e\<bar>) es)"
  by (induction es) (auto simp: sum_of_def)

lemma wrapped_exact:
  assumes "sum_list (map (\<lambda>e. \<bar>me_RequestedAmountCents e\<bar>) es) < 2 ^ 63"
  shows "wrapped_totals es = exact_totals es"
proof -
  have "wrap64 (sum_of P es) = sum_of P es" for P
    by (rule wrap64_id [OF in64_abs [OF le_less_trans [OF sum_of_bounded assms]]])
  then show ?thesis by (simp add: wrapped_totals_def exact_totals_def)
qed

lemma filtered_abs:
  "sum_list (map (\<lambda>e. \<bar>me_RequestedAmountCents e\<bar>) (filter P es)) \<le> sum_list (map (\<lambda>e. \<bar>me_RequestedAmountCents e\<bar>) es)"
  by (induction es) auto

lemma categories_exact:
  assumes "sum_list (map (\<lambda>e. \<bar>me_RequestedAmountCents e\<bar>) es) < 2 ^ 63"
  shows "by_category wrapped_totals es = by_category exact_totals es"
  using le_less_trans [OF filtered_abs assms] by (simp add: by_category_def fun_eq_iff wrapped_exact)

lemma member_abs_le: "e \<in> set es \<Longrightarrow> \<bar>me_RequestedAmountCents e\<bar> \<le> sum_list (map (\<lambda>e. \<bar>me_RequestedAmountCents e\<bar>) es)"
  by (metis (mono_tags, lifting) abs_ge_zero imageE in_set_conv_nth length_map list.set_map member_le_sum_list nth_map)

text \<open>The summary of documents that all have their expense gives, in all and for each category that occurs, the
  exact sums of the amounts by payment method and over all methods, as long as 64 bits hold them.\<close>

theorem expense_summary_exact:
  assumes "map md_MovingExpenseDocument docs = map Some es"
    "sum_list (map (\<lambda>e. \<bar>me_RequestedAmountCents e\<bar>) es) < 2 ^ 63"
  shows "buildExpenseSummaryPayload docs = Ret (exact_totals es, by_category exact_totals es)"
proof -
  have "list_all (\<lambda>e. in64 (me_RequestedAmountCents e)) es"
    unfolding list_all_iff using le_less_trans [OF member_abs_le assms(2)] in64_abs by blast
  from expense_loop_sums [OF this assms(1), of "[]"]
  have "expense_loop docs no_expenses Map.empty = Ret (wrapped_totals es, by_category wrapped_totals es)"
    by (simp add: wrapped_totals_def no_expenses_def by_category_def in64_def)
  then show ?thesis by (simp add: buildExpenseSummaryPayload_def wrapped_exact [OF assms(2)] categories_exact [OF assms(2)])
qed

section \<open>A sample\<close>

definition sample_channel :: "string \<Rightarrow> TSPPerformance list \<Rightarrow> rate_context" where
  "sample_channel service ps = \<lparr>rc_tariff = sample_tariff,
     rc_tdls = [\<lparr>tdl_ID = 23, tdl_SourceRateArea = ''US88'', tdl_DestinationRegion = ''13'', tdl_CodeOfService = service\<rparr>],
     rc_performances = ps, rc_planner = \<lparr>Zip5TransitDistance = (\<lambda>_ _. Ret 500), TransitDistance = (\<lambda>_ _. Ret 500)\<rparr>\<rparr>"

definition sample_performance :: "uuid \<Rightarrow> rat \<Rightarrow> DiscountRate \<Rightarrow> TSPPerformance" where
  "sample_performance i score r = zero_tspp\<lparr>tspp_ID := i, tspp_PerformancePeriodStart := 0, tspp_PerformancePeriodEnd := 10,
     tspp_TrafficDistributionListID := 23, tspp_BestValueScore := score, tspp_LinehaulRate := r, tspp_SITRate := 1 / 4\<rparr>"

lemma sample_zips: "FetchRateAreaForZip5 sample_tariff ''90210'' = Ret ''US88''" "FetchRegionForZip5 sample_tariff ''30301'' = Ret ''13''"
  by (simp_all add: FetchRateAreaForZip5_def FetchRegionForZip5_def sample_tariff_def)

lemma sample_discounts:
  "PPMDiscountFetch (sample_channel ''2'' [sample_performance 4 60 (1 / 8), sample_performance 5 90 (1 / 2)]) ''90210'' ''30301'' 5
    = Ret (1 / 2, 1 / 4)"
  by (simp add: PPMDiscountFetch_def FetchDiscountRates_def sample_channel_def sample_zips in_channel_def sample_performance_def)

theorem ppm_discount_best_witness:
  "\<exists>p service. best_in_channel (sample_channel ''2'' [sample_performance 4 60 (1 / 8), sample_performance 5 90 (1 / 2)]) ''US88'' ''13'' service 5 p
     \<and> tspp_LinehaulRate p = 1 / 2"
proof -
  let ?rc = "sample_channel ''2'' [sample_performance 4 60 (1 / 8), sample_performance 5 90 (1 / 2)]"
  have z: "FetchRateAreaForZip5 (rc_tariff ?rc) ''90210'' = Ret ''US88''" "FetchRegionForZip5 (rc_tariff ?rc) ''30301'' = Ret ''13''"
    using sample_zips by (simp_all add: sample_channel_def)
  from ppm_discount_best [OF z, of 5, unfolded sample_discounts] show ?thesis by auto
qed

definition priced_ppm :: PersonallyProcuredMove where
  "priced_ppm = sample_ppm\<lparr>pp_PickupPostalCode := Some ''90210'', pp_DestinationPostalCode := Some ''30301'',
     pp_OriginalMoveDate := Some 5, pp_WeightEstimate := Some 2000\<rparr>"

lemma sample_updated:
  "\<exists>p. updateEstimates (sample_channel ''2'' [sample_performance 4 60 (1 / 8), sample_performance 5 90 (1 / 2)]) priced_ppm = Ret p"
proof -
  have "\<exists>c. ComputePPM sample_tariff 2000 ''90210'' ''30301'' 500 5 0 (1 / 2) (1 / 4) = Ret c"
    by (simp add: ComputePPM_def prorate_ge charge_defs fetch_defs sample_tariff_def sample_ToCWT Let_def SitCharge_pos MaxSITDays_def)
  then show ?thesis
    using sample_discounts by (auto simp: updateEstimates_def priced_ppm_def sample_ppm_def sit_reimbursement_def days_in_sit_def sample_channel_def)
qed

theorem stored_range_is_shown_witness:
  "\<exists>low high. ShowPPMEstimate (sample_channel ''2'' [sample_performance 4 60 (1 / 8), sample_performance 5 90 (1 / 2)])
     ''90210'' ''30301'' 5 2000 = Reply 200 (low, high)"
proof -
  obtain p where "updateEstimates (sample_channel ''2'' [sample_performance 4 60 (1 / 8), sample_performance 5 90 (1 / 2)]) priced_ppm = Ret p"
    using sample_updated by blast
  from stored_range_is_shown [OF this] show ?thesis by (auto simp: priced_ppm_def)
qed

theorem estimate_range_nearest_witness:
  "\<exists>low high lh cost. ShowPPMEstimate (sample_channel ''2'' [sample_performance 4 60 (1 / 8), sample_performance 5 90 (1 / 2)])
     ''90210'' ''30301'' 5 2000 = Reply 200 (low, high)
     \<and> ComputePPM sample_tariff 2000 ''90210'' ''30301'' 500 5 0 lh 0 = Ret cost"
proof -
  have "\<exists>c. ComputePPM sample_tariff 2000 ''90210'' ''30301'' 500 5 0 (1 / 2) 0 = Ret c"
    by (simp add: ComputePPM_def prorate_ge charge_defs fetch_defs sample_tariff_def sample_ToCWT Let_def SitCharge_pos MaxSITDays_def)
  then obtain low high where r: "ShowPPMEstimate (sample_channel ''2'' [sample_performance 4 60 (1 / 8), sample_performance 5 90 (1 / 2)])
     ''90210'' ''30301'' 5 2000 = Reply 200 (low, high)"
    using sample_discounts by (auto simp: ShowPPMEstimate_def sample_channel_def)
  from estimate_range_nearest [OF r] r show ?thesis by (auto simp: sample_channel_def)
qed

text \<open>A store with one priced PPM, and the session of its service member.\<close>

definition priced_store :: store where
  "priced_store = sample_store\<lparr>st_tables := sample_tables\<lparr>tb_ppms := [priced_ppm\<lparr>pp_Advance := None, pp_HasRequestedAdvance := False\<rparr>]\<rparr>\<rparr>"

lemma priced_fetched:
  "FetchPersonallyProcuredMove (st_tables priced_store) (member_session 104 1) 3
    = Ret (priced_ppm\<lparr>pp_Advance := None, pp_HasRequestedAdvance := False\<rparr>)"
  by (simp add: FetchPersonallyProcuredMove_def priced_store_def sample_store_def sample_tables_def find_row_def priced_ppm_def
      sample_ppm_def member_session_def move_owner_def loaded_ID_def sample_move_def Move.defs sample_orders_def Order.defs
      load_advance_def find_option_def IsMilApp_def sample_member_def uuid_Nil_def del: One_nat_def)

lemma fields_of_priced: "pp_OriginalMoveDate priced_ppm = Some 5" "pp_MoveID priced_ppm = 2" "pp_Status priced_ppm = PPMStatusDRAFT"
  by (simp_all add: priced_ppm_def sample_ppm_def)

theorem date_change_keeps_estimates_witness:
  "PatchPersonallyProcuredMove 7 (sample_channel ''2'' []) (member_session 104 1) 2 3 (empty_patch\<lparr>pa_OriginalMoveDate := Some 9\<rparr>) priced_store
    = save_and_reply 200 (priced_ppm\<lparr>pp_Advance := None, pp_HasRequestedAdvance := False, pp_OriginalMoveDate := Some 9\<rparr>) priced_store"
  using date_change_keeps_estimates [OF priced_fetched, of 2 5 9 7 "sample_channel ''2'' []"]
  by (simp add: fields_of_priced)

theorem ppm_handlers_guarded_witness:
  "\<not> owns_ppm (st_tables priced_store) (member_session 105 5) 3
   \<and> fst (SubmitPersonallyProcuredMove (member_session 105 5) 3 (Some 6) priced_store) = priced_store"
proof -
  have "\<not> owns_ppm (st_tables priced_store) (member_session 105 5) 3"
    by (auto simp: owns_defs priced_store_def sample_store_def sample_tables_def find_row_def priced_ppm_def sample_ppm_def
        member_session_def sample_move_def Move.defs sample_orders_def Order.defs outcome_simps)
  with ppm_handlers_guarded [of "member_session 105 5" 0 "sample_channel ''2'' []" 0 3 empty_patch priced_store "Some 6"]
  show ?thesis by (auto simp: member_session_def IsMilApp_def IsServiceMember_def uuid_Nil_def)
qed

definition sample_expense :: "uuid \<Rightarrow> MovingExpenseType \<Rightarrow> Cents \<Rightarrow> string \<Rightarrow> MovingExpenseDocument" where
  "sample_expense i t amt method = \<lparr>me_ID = i, me_MoveDocumentID = i, me_MovingExpenseType = t, me_RequestedAmountCents = amt,
     me_PaymentMethod = method, me_ReceiptMissing = False, me_StorageStartDate = None, me_StorageEndDate = None\<rparr>"

definition sample_expense_document :: "MovingExpenseDocument \<Rightarrow> MoveDocument" where
  "sample_expense_document e = \<lparr>md_ID = me_MoveDocumentID e, md_DocumentID = 40, md_MoveID = 2, md_PersonallyProcuredMoveID = Some 3,
     md_PersonallyProcuredMove = None, md_ShipmentID = None, md_Shipment = None, md_Title = '''', md_Status = MoveDocumentStatusOK,
     md_MoveDocumentType = MoveDocumentTypeEXPENSE, md_MovingExpenseDocument = Some e, md_Notes = None, md_WeightTicketSetDocument = None\<rparr>"

theorem expense_summary_exact_witness:
  "\<exists>categories. buildExpenseSummaryPayload (map sample_expense_document
       [sample_expense 6 MovingExpenseTypeGAS 500 ''GTCC'', sample_expense 7 MovingExpenseTypeTOLLS 200 ''OTHER'',
        sample_expense 8 MovingExpenseTypeGAS 100 ''OTHER''])
     = Ret (\<lparr>et_OTHER = 300, et_GTCC = 500, et_Total = 800\<rparr>, categories)
     \<and> categories MovingExpenseTypeGAS = Some \<lparr>et_OTHER = 100, et_GTCC = 500, et_Total = 600\<rparr> \<and> categories MovingExpenseTypeOIL = None"
proof -
  let ?es = "[sample_expense 6 MovingExpenseTypeGAS 500 ''GTCC'', sample_expense 7 MovingExpenseTypeTOLLS 200 ''OTHER'',
        sample_expense 8 MovingExpenseTypeGAS 100 ''OTHER'']"
  have "buildExpenseSummaryPayload (map sample_expense_document ?es) = Ret (exact_totals ?es, by_category exact_totals ?es)"
    by (rule expense_summary_exact) (simp_all add: sample_expense_document_def sample_expense_def)
  moreover have "exact_totals ?es = \<lparr>et_OTHER = 300, et_GTCC = 500, et_Total = 800\<rparr>"
    "by_category exact_totals ?es MovingExpenseTypeGAS = Some \<lparr>et_OTHER = 100, et_GTCC = 500, et_Total = 600\<rparr>"
    "by_category exact_totals ?es MovingExpenseTypeOIL = None"
    by (simp_all add: exact_totals_def by_category_def sum_of_def sample_expense_def)
  ultimately show ?thesis by (intro exI [of _ "by_category exact_totals ?es"]) simp
qed

definition submitted_store :: store where
  "submitted_store = priced_store\<lparr>st_tables := (st_tables priced_store)\<lparr>tb_ppms :=
     [priced_ppm\<lparr>pp_Advance := None, pp_HasRequestedAdvance := False, pp_Status := PPMStatusSUBMITTED\<rparr>]\<rparr>\<rparr>"

theorem resubmitted_ppm_accepted_witness:
  "SubmitPersonallyProcuredMove (member_session 104 1) 3 (Some 6) submitted_store
    = save_and_reply 200 (priced_ppm\<lparr>pp_Advance := None, pp_HasRequestedAdvance := False, pp_Status := PPMStatusSUBMITTED\<rparr>) submitted_store"
proof -
  have "FetchPersonallyProcuredMove (st_tables submitted_store) (member_session 104 1) 3
    = Ret (priced_ppm\<lparr>pp_Advance := None, pp_HasRequestedAdvance := False, pp_Status := PPMStatusSUBMITTED\<rparr>)"
    by (simp add: FetchPersonallyProcuredMove_def submitted_store_def priced_store_def sample_store_def sample_tables_def find_row_def
        priced_ppm_def sample_ppm_def member_session_def move_owner_def loaded_ID_def sample_move_def Move.defs sample_orders_def
        Order.defs load_advance_def find_option_def IsMilApp_def sample_member_def uuid_Nil_def del: One_nat_def)
  from resubmitted_ppm_accepted [OF this] show ?thesis by simp
qed

end
