(* ===== verification/DocumentHandlers.thy ===== *)
theory DocumentHandlers
  imports PPMHandlers
begin

text \<open>
  Documents of a move as the handlers of \<open>pkg/handlers/internalapi\<close> serve them: the documents that are created
  for a move, for its expenses and its weight tickets, the review of a document with what it does to the PPM,
  signed certifications, and the plain documents uploads belong to.
\<close>

section \<open>Shipments a user may read\<close>

definition FetchShipment :: "tables \<Rightarrow> Session \<Rightarrow> uuid \<Rightarrow> Shipment result" where
  "FetchShipment w session i = obind (find_row shp_ID (tb_shipments w) i) (\<lambda>shipment.
     obind (FetchMove w session (shp_MoveID shipment)) (\<lambda>move.
     if IsMilApp session \<and> or_ServiceMemberID (mv_Orders move) \<noteq> ss_ServiceMemberID session then Fail ErrFetchForbidden
     else Ret shipment))"

definition owns_shipment :: "tables \<Rightarrow> Session \<Rightarrow> uuid \<Rightarrow> bool" where
  "owns_shipment w s i \<longleftrightarrow> (\<exists>shipment. find_row shp_ID (tb_shipments w) i = Ret shipment \<and> owns_move w s (shp_MoveID shipment))"

interpretation shipment_fetch: guarded_fetch FetchShipment owns_shipment
  by unfold_locales (auto simp: FetchShipment_def owns_shipment_def outcome_simps dest: move_fetch.guarded owns_move_same split: if_splits)

section \<open>Signed certifications\<close>

record CertificationPayload =
  ce_PersonallyProcuredMoveID :: "uuid option"
  ce_ShipmentID :: "uuid option"
  ce_CertificationType :: "SignedCertificationType option"
  ce_CertificationText :: string
  ce_Signature :: string
  ce_Date :: gotime

definition CreateSignedCertificationModel ::
    "Move \<Rightarrow> uuid \<Rightarrow> string \<Rightarrow> string \<Rightarrow> gotime \<Rightarrow> uuid option \<Rightarrow> uuid option \<Rightarrow> SignedCertificationType option \<Rightarrow> SignedCertification" where
  "CreateSignedCertificationModel m submittingUserID certificationText signature date ppmID shipmentID certificationType =
     \<lparr>sc_ID = uuid_Nil, sc_SubmittingUserID = submittingUserID, sc_MoveID = mv_ID m, sc_PersonallyProcuredMoveID = ppmID,
      sc_ShipmentID = shipmentID, sc_CertificationType = certificationType, sc_CertificationText = certificationText,
      sc_Signature = signature, sc_Date = date\<rparr>"

text \<open>The handler checks that the PPM and the shipment are the user's, but its \<open>ppmID, err :=\<close> and
  \<open>shipmentID, err :=\<close> declare new variables: the outer ones, which the certification is created with, stay nil.
  \<open>answer\<close> is what the database answers to the new row.\<close>

definition CreateSignedCertification ::
    "(SignedCertification \<Rightarrow> verrs \<times> goerr option) \<Rightarrow> Session \<Rightarrow> uuid \<Rightarrow> CertificationPayload \<Rightarrow> store \<Rightarrow> store \<times> SignedCertification reply" where
  "CreateSignedCertification answer session moveID payload w =
     continue w (case ce_PersonallyProcuredMoveID payload of None \<Rightarrow> Ret ()
       | Some i \<Rightarrow> obind (FetchPersonallyProcuredMove (st_tables w) session i) (\<lambda>_. Ret ())) (\<lambda>_.
     continue w (case ce_ShipmentID payload of None \<Rightarrow> Ret ()
       | Some i \<Rightarrow> obind (FetchShipment (st_tables w) session i) (\<lambda>_. Ret ())) (\<lambda>_.
     continue w (FetchMove (st_tables w) session moveID) (\<lambda>move.
     let certification = CreateSignedCertificationModel move (ss_UserID session) (ce_CertificationText payload) (ce_Signature payload)
         (ce_Date payload) None None (ce_CertificationType payload) in
     case answer certification of (verrs, err) \<Rightarrow>
       if verrs \<noteq> [] \<or> err \<noteq> None then (w, Refusal (ResponseForVErrors verrs err))
       else (case write_row sc_ID (\<lambda>i. sc_ID_update (\<lambda>_. i)) tb_certifications_update certification w of
         (c, w') \<Rightarrow> (w', Reply 201 c)))))"

definition IndexSignedCertifications :: "Session \<Rightarrow> uuid \<Rightarrow> store \<Rightarrow> SignedCertification list reply" where
  "IndexSignedCertifications session moveID w =
     on_success (FetchMove (st_tables w) session moveID) (\<lambda>_.
     on_success (FetchSignedCertifications (st_tables w) session moveID) (Reply 200))"

section \<open>Plain documents\<close>

definition CreateDocument :: "Session \<Rightarrow> uuid \<Rightarrow> store \<Rightarrow> store \<times> Document reply" where
  "CreateDocument session serviceMemberID w =
     continue w (FetchServiceMemberForUser (st_tables w) session serviceMemberID) (\<lambda>serviceMember.
     let newDocument = \<lparr>doc_ID = uuid_Nil, doc_ServiceMemberID = sm_ID serviceMember\<rparr> in
     case st_save_document w newDocument of (verrs, err) \<Rightarrow>
       if err \<noteq> None then (w, Bare 500)
       else if verrs \<noteq> [] then (w, Bare 400)
       else (case write_row doc_ID (\<lambda>i. doc_ID_update (\<lambda>_. i)) tb_documents_update newDocument w of
         (d, w') \<Rightarrow> (w', Reply 201 d)))"

definition ShowDocument :: "Session \<Rightarrow> uuid \<Rightarrow> store \<Rightarrow> Document reply" where
  "ShowDocument session documentID w = on_success (FetchDocument (st_tables w) session documentID) (Reply 200)"

section \<open>New documents of a move\<close>

fun fetch_uploads :: "tables \<Rightarrow> Session \<Rightarrow> uuid list \<Rightarrow> Upload list result" where
  "fetch_uploads w session [] = Ret []"
| "fetch_uploads w session (i # is) = obind (FetchUpload w session i) (\<lambda>upload.
     obind (fetch_uploads w session is) (\<lambda>uploads. Ret (upload # uploads)))"

text \<open>The PPM a document is for must belong to the move: a bad request (\<open>Ret False\<close>) otherwise.\<close>

definition ppm_of_move :: "tables \<Rightarrow> Session \<Rightarrow> uuid \<Rightarrow> uuid option \<Rightarrow> bool result" where
  "ppm_of_move w session moveID i = (case i of None \<Rightarrow> Ret True
     | Some i \<Rightarrow> obind (FetchPersonallyProcuredMove w session i) (\<lambda>ppm. Ret (pp_MoveID ppm = moveID)))"

record NewDocumentPayload =
  nd_UploadIds :: "uuid list"
  nd_PersonallyProcuredMoveID :: "uuid option"
  nd_MoveDocumentType :: MoveDocumentType
  nd_Title :: string
  nd_Notes :: "string option"

definition CreateGenericMoveDocument :: "Session \<Rightarrow> uuid \<Rightarrow> NewDocumentPayload \<Rightarrow> store \<Rightarrow> store \<times> MoveDocument reply" where
  "CreateGenericMoveDocument session moveID payload w =
     continue w (FetchMove (st_tables w) session moveID) (\<lambda>move.
     if nd_UploadIds payload = [] then (w, Bare 400) else
     continue w (fetch_uploads (st_tables w) session (nd_UploadIds payload)) (\<lambda>uploads.
     continue w (ppm_of_move (st_tables w) session moveID (nd_PersonallyProcuredMoveID payload)) (\<lambda>ours.
     if \<not> ours then (w, Bare 400) else
     continue w (deref (mv_SelectedMoveType move)) (\<lambda>moveType.
     after_save w (CreateMoveDocument move uploads (nd_PersonallyProcuredMoveID payload) (nd_MoveDocumentType payload)
         (nd_Title payload) (nd_Notes payload) moveType w) (\<lambda>w' d. (w', Reply 200 d))))))"

definition CreateMovingExpenseDocumentHandler ::
    "Session \<Rightarrow> uuid \<Rightarrow> NewDocumentPayload \<Rightarrow> MovingExpenseDocument \<Rightarrow> store \<Rightarrow> store \<times> MovingExpenseDocument reply" where
  "CreateMovingExpenseDocumentHandler session moveID payload expense w =
     continue w (FetchMove (st_tables w) session moveID) (\<lambda>move.
     if nd_UploadIds payload = [] \<and> \<not> me_ReceiptMissing expense then (w, Bare 400) else
     continue w (fetch_uploads (st_tables w) session (nd_UploadIds payload)) (\<lambda>uploads.
     continue w (ppm_of_move (st_tables w) session moveID (nd_PersonallyProcuredMoveID payload)) (\<lambda>ours.
     if \<not> ours then (w, Bare 400) else
     continue w (deref (mv_SelectedMoveType move)) (\<lambda>moveType.
     after_save w (CreateMovingExpenseDocument move uploads (nd_PersonallyProcuredMoveID payload) (nd_MoveDocumentType payload)
         (nd_Title payload) (nd_Notes payload) expense moveType w) (\<lambda>w' d. (w', Reply 200 d))))))"

definition CreateWeightTicketSetDocumentHandler ::
    "Session \<Rightarrow> uuid \<Rightarrow> uuid list \<Rightarrow> uuid \<Rightarrow> WeightTicketSetDocument \<Rightarrow> store \<Rightarrow> store \<times> WeightTicketSetDocument reply" where
  "CreateWeightTicketSetDocumentHandler session moveID uploadIds ppmID ticket w =
     continue w (FetchMove (st_tables w) session moveID) (\<lambda>move.
     continue w (fetch_uploads (st_tables w) session uploadIds) (\<lambda>uploads.
     continue w (ppm_of_move (st_tables w) session moveID (Some ppmID)) (\<lambda>ours.
     if \<not> ours then (w, Bare 400) else
     continue w (deref (mv_SelectedMoveType move)) (\<lambda>moveType.
     after_save w (CreateWeightTicketSetDocument move uploads (Some ppmID) ticket moveType w) (\<lambda>w' d. (w', Reply 200 d))))))"

section \<open>The review of a document\<close>

record UpdateMoveDocumentPayload =
  um_PersonallyProcuredMoveID :: "uuid option"
  um_Title :: string
  um_Notes :: "string option"
  um_MoveDocumentType :: MoveDocumentType
  um_Status :: MoveDocumentStatus
  um_MovingExpenseType :: MovingExpenseType
  um_RequestedAmountCents :: int
  um_PaymentMethod :: string
  um_EmptyWeight :: "int option"
  um_FullWeight :: "int option"
  um_VehicleNickname :: string
  um_VehicleOptions :: string
  um_WeightTicketDate :: "gotime option"
  um_TrailerOwnershipMissing :: "bool option"

text \<open>An approved shipment summary completes the PPM.  A PPM that was not loaded is a zero struct, which has no
  status to complete from.\<close>

definition complete_ppm :: "MoveDocumentStatus \<Rightarrow> MoveDocument \<Rightarrow> MoveDocument result" where
  "complete_ppm newStatus doc =
     (if newStatus = MoveDocumentStatusOK \<and> md_MoveDocumentType doc = MoveDocumentTypeSHIPMENTSUMMARY then
        if md_PersonallyProcuredMoveID doc = None then Fail (ErrMsg ''No PPM loaded for Approved Move Doc'')
        else (case md_PersonallyProcuredMove doc of
            None \<Rightarrow> Fail (Wrap ''Complete'' ErrInvalidTransition)
          | Some ppm \<Rightarrow> if pp_Status ppm = PPMStatusCOMPLETED then Ret doc
              else (case PPM_Complete ppm of (p, err) \<Rightarrow> (case err of
                  Some e \<Rightarrow> Fail e | None \<Rightarrow> Ret (doc\<lparr>md_PersonallyProcuredMove := Some p\<rparr>))))
      else Ret doc)"

definition new_sit_cost :: "MoveDocumentStatus \<Rightarrow> MoveDocumentStatus \<Rightarrow> Cents option \<Rightarrow> Cents \<Rightarrow> Cents result" where
  "new_sit_cost oldStatus newStatus total_cost storageRequestedAmt =
     (if newStatus = MoveDocumentStatusOK then Ret (case total_cost of
          None \<Rightarrow> storageRequestedAmt | Some t \<Rightarrow> wrap64 (t + storageRequestedAmt))
      else if oldStatus = MoveDocumentStatusOK then obind (deref total_cost) (\<lambda>t. Ret (wrap64 (t - storageRequestedAmt)))
      else Ret 0)"

definition storage_expense :: "MoveDocument \<Rightarrow> bool result" where
  "storage_expense doc = (if md_MoveDocumentType doc = MoveDocumentTypeEXPENSE
     then obind (deref (md_MovingExpenseDocument doc)) (\<lambda>e. Ret (me_MovingExpenseType e = MovingExpenseTypeSTORAGE)) else Ret False)"

definition storage_cost :: "MoveDocumentStatus \<Rightarrow> MoveDocumentStatus \<Rightarrow> int \<Rightarrow> MoveDocument \<Rightarrow> MoveDocument result" where
  "storage_cost oldStatus newStatus requested doc = obind (storage_expense doc) (\<lambda>storage.
     if \<not> storage then Ret doc
     else if md_PersonallyProcuredMoveID doc = None then Fail (ErrMsg ''No PPM loaded for Approved Move Doc'')
     else obind (new_sit_cost oldStatus newStatus (Option.bind (md_PersonallyProcuredMove doc) pp_TotalSITCost) requested) (\<lambda>newCost.
       Ret (doc\<lparr>md_PersonallyProcuredMove := map_option (\<lambda>p. p\<lparr>pp_TotalSITCost := Some newCost\<rparr>) (md_PersonallyProcuredMove doc)\<rparr>)))"

definition change_status :: "int \<Rightarrow> MoveDocumentStatus \<Rightarrow> MoveDocument \<Rightarrow> MoveDocument result" where
  "change_status requested newStatus moveDoc =
     (let oldStatus = md_Status moveDoc in
      if newStatus = oldStatus then Ret moveDoc
      else (case AttemptTransition newStatus moveDoc of (doc, err) \<Rightarrow> (case err of
          Some e \<Rightarrow> Fail e
        | None \<Rightarrow> obind (complete_ppm newStatus doc) (storage_cost oldStatus newStatus requested))))"

definition update_expense :: "UpdateMoveDocumentPayload \<Rightarrow> MoveDocument \<Rightarrow> MoveDocument \<times> save_action" where
  "update_expense payload doc =
     (if IsExpenseModelDocumentType (um_MoveDocumentType payload) then
        (doc\<lparr>md_MovingExpenseDocument := Some (case md_MovingExpenseDocument doc of
            None \<Rightarrow> \<lparr>me_ID = uuid_Nil, me_MoveDocumentID = md_ID doc, me_MovingExpenseType = um_MovingExpenseType payload,
               me_RequestedAmountCents = um_RequestedAmountCents payload, me_PaymentMethod = um_PaymentMethod payload,
               me_ReceiptMissing = False, me_StorageStartDate = None, me_StorageEndDate = None\<rparr>
          | Some e \<Rightarrow> e\<lparr>me_MovingExpenseType := um_MovingExpenseType payload,
               me_RequestedAmountCents := um_RequestedAmountCents payload, me_PaymentMethod := um_PaymentMethod payload\<rparr>)\<rparr>, SaveModel)
      else (doc, if md_MovingExpenseDocument doc \<noteq> None then DeleteModel else NoAction))"

definition update_ticket :: "UpdateMoveDocumentPayload \<Rightarrow> MoveDocument \<Rightarrow> MoveDocument \<times> save_action" where
  "update_ticket payload doc =
     (if um_MoveDocumentType payload = MoveDocumentTypeWEIGHTTICKETSET then
        (doc\<lparr>md_WeightTicketSetDocument := Some (case md_WeightTicketSetDocument doc of
            None \<Rightarrow> \<lparr>wt_ID = uuid_Nil, wt_MoveDocumentID = md_ID doc, wt_EmptyWeight = um_EmptyWeight payload,
               wt_EmptyWeightTicketMissing = False, wt_FullWeight = um_FullWeight payload, wt_FullWeightTicketMissing = False,
               wt_VehicleNickname = um_VehicleNickname payload, wt_VehicleOptions = um_VehicleOptions payload,
               wt_WeightTicketDate = um_WeightTicketDate payload,
               wt_TrailerOwnershipMissing = (um_TrailerOwnershipMissing payload = Some True)\<rparr>
          | Some t \<Rightarrow> t\<lparr>wt_EmptyWeight := um_EmptyWeight payload, wt_FullWeight := um_FullWeight payload\<rparr>)\<rparr>, SaveModel)
      else (doc, if md_WeightTicketSetDocument doc \<noteq> None then DeleteModel else NoAction))"

definition UpdateMoveDocument :: "Session \<Rightarrow> uuid \<Rightarrow> UpdateMoveDocumentPayload \<Rightarrow> store \<Rightarrow> store \<times> MoveDocument reply" where
  "UpdateMoveDocument session moveDocID payload w =
     continue w (obind (FetchMoveDocument (st_tables w) session moveDocID) deref) (\<lambda>moveDoc.
     continue w (change_status (um_RequestedAmountCents payload) (um_Status payload) (moveDoc\<lparr>
         md_PersonallyProcuredMoveID := given (um_PersonallyProcuredMoveID payload) (md_PersonallyProcuredMoveID moveDoc),
         md_Title := um_Title payload, md_Notes := um_Notes payload, md_MoveDocumentType := um_MoveDocumentType payload\<rparr>)) (\<lambda>doc.
     case update_expense payload doc of (doc, saveExpenseAction) \<Rightarrow>
     case update_ticket payload doc of (doc, saveWeightTicketSetAction) \<Rightarrow>
     after_save w (SaveMoveDocument doc saveExpenseAction saveWeightTicketSetAction w) (\<lambda>w' d. (w', Reply 200 d))))"

section \<open>Certifications refer to no PPM and no shipment\<close>

lemma continue_Reply: "continue w r k = (w', Reply code x) \<longleftrightarrow> (\<exists>y. r = Ret y \<and> k y = (w', Reply code x))"
  by (cases r) auto

lemma after_save_Reply: "after_save w r k = (w', Reply code x) \<longleftrightarrow>
    (\<exists>w1 y verrs err. r = Ret (w1, Some y, verrs, err) \<and> k w1 y = (w', Reply code x))"
  by (cases r) (auto simp: after_save_def split: option.splits prod.splits)

lemma FetchMove_ID: "FetchMove w s i = Ret m \<Longrightarrow> mv_ID m = i"
  by (auto simp: FetchMove_def load_move_def outcome_simps dest: find_row_Ret)

text \<open>A signed certification that is created is stored for the move and the user, and it refers to no PPM and no
  shipment, whichever the payload names.\<close>

theorem certification_without_links:
  assumes "CreateSignedCertification answer session moveID payload w = (w', Reply code c)"
  shows "sc_PersonallyProcuredMoveID c = None \<and> sc_ShipmentID c = None \<and> sc_MoveID c = moveID
    \<and> sc_SubmittingUserID c = ss_UserID session \<and> tb_certifications (st_tables w') = tb_certifications (st_tables w) @ [c]"
proof -
  from assms obtain move where m: "FetchMove (st_tables w) session moveID = Ret move"
    and r: "(case answer (CreateSignedCertificationModel move (ss_UserID session) (ce_CertificationText payload) (ce_Signature payload)
         (ce_Date payload) None None (ce_CertificationType payload)) of (verrs, err) \<Rightarrow>
       if verrs \<noteq> [] \<or> err \<noteq> None then (w, Refusal (ResponseForVErrors verrs err))
       else (case write_row sc_ID (\<lambda>i. sc_ID_update (\<lambda>_. i)) tb_certifications_update
           (CreateSignedCertificationModel move (ss_UserID session) (ce_CertificationText payload) (ce_Signature payload)
             (ce_Date payload) None None (ce_CertificationType payload)) w of (c, w') \<Rightarrow> (w', Reply 201 c))) = (w', Reply code c)"
    unfolding CreateSignedCertification_def continue_Reply Let_def by blast
  let ?c = "CreateSignedCertificationModel move (ss_UserID session) (ce_CertificationText payload) (ce_Signature payload)
    (ce_Date payload) None None (ce_CertificationType payload)"
  have "write_row sc_ID (\<lambda>i. sc_ID_update (\<lambda>_. i)) tb_certifications_update ?c w = (c, w')"
    using r by (simp split: prod.splits if_splits)
  then show ?thesis using FetchMove_ID [OF m]
    by (auto simp: write_row_def CreateSignedCertificationModel_def Let_def)
qed

section \<open>Who may create documents\<close>

text \<open>In the app of the service members, a handler that adds a document, a move document or a certification does so
  for the session's own service member or move.\<close>

theorem document_handlers_guarded:
  assumes "IsMilApp session" "IsServiceMember session"
  shows "(fst (CreateDocument session memberID w) \<noteq> w \<longrightarrow> memberID = ss_ServiceMemberID session)
    \<and> (fst (CreateGenericMoveDocument session moveID payload w) \<noteq> w \<or> fst (CreateMovingExpenseDocumentHandler session moveID payload expense w) \<noteq> w
       \<or> fst (CreateWeightTicketSetDocumentHandler session moveID uploadIds ppmID ticket w) \<noteq> w
       \<or> fst (CreateSignedCertification answer session moveID certification w) \<noteq> w \<longrightarrow> owns_move (st_tables w) session moveID)
    \<and> (fst (UpdateMoveDocument session docID update w) \<noteq> w \<longrightarrow> owns_move_document (st_tables w) session docID)"
proof (intro conjI impI, goal_cases)
  case 1
  then show ?case using continue_unchanged [OF 1 [unfolded CreateDocument_def]] member_fetch.guarded [OF assms]
    by (auto simp: owns_member_def)
next
  case 2
  have "\<exists>m. FetchMove (st_tables w) session moveID = Ret m" using 2
    by (auto simp: CreateGenericMoveDocument_def CreateMovingExpenseDocumentHandler_def CreateWeightTicketSetDocumentHandler_def
        CreateSignedCertification_def dest!: continue_unchanged)
  then show ?case using move_fetch.guarded [OF assms] by blast
next
  case 3
  from continue_unchanged [OF 3 [unfolded UpdateMoveDocument_def]] show ?case using move_document_fetch.guarded [OF assms] by blast
qed

section \<open>The total cost of storage\<close>

lemma SaveMoveDocument_ppms:
  assumes "SaveMoveDocument doc expense ticket w = Ret (w', Some d, verrs, err)"
    "md_PersonallyProcuredMoveID doc = Some i" "md_PersonallyProcuredMove doc = Some p" "pp_ID p \<noteq> uuid_Nil"
  shows "tb_ppms (st_tables w') = map (\<lambda>q. if pp_ID q = pp_ID p then p else q) (tb_ppms (st_tables w))"
proof -
  from assms(1) obtain d1 w1 d2 w2 w3 w4 u v where
    1: "save_expense_action expense doc w = Commit d1 w1" and 2: "save_ticket_action ticket d1 w1 = Commit d2 w2"
    and 3: "save_loaded (md_PersonallyProcuredMoveID d2) (md_PersonallyProcuredMove d2)
        (save_ppm (wrapped ''Error Saving Move Document's PPM'')) w2 = Commit u w3"
    and 4: "save_loaded (md_ShipmentID d2) (md_Shipment d2)
        (save_shipment_row (wrapped ''Error Saving Move Document's Shipment'')) w3 = Commit v w4"
    and 5: "save_move_document (wrapped ''Error Saving Move Document'') d2 w4 = Commit d w'"
    by (auto simp: SaveMoveDocument_def transaction_Some)
  have s1: "tb_ppms (st_tables w1) = tb_ppms (st_tables w)" "md_PersonallyProcuredMoveID d1 = Some i" "md_PersonallyProcuredMove d1 = Some p"
    using 1 assms(2,3) by (auto simp: save_expense_action_def save_expense_def save_Commit write_row_def destroy_def Let_def
        split: save_action.splits option.splits if_splits)
  have s2: "tb_ppms (st_tables w2) = tb_ppms (st_tables w1)" "md_PersonallyProcuredMoveID d2 = Some i" "md_PersonallyProcuredMove d2 = Some p"
    using 2 s1(2,3) by (auto simp: save_ticket_action_def save_weight_ticket_def save_Commit write_row_def destroy_def Let_def
        split: save_action.splits option.splits if_splits)
  have s3: "tb_ppms (st_tables w3) = map (\<lambda>q. if pp_ID q = pp_ID p then p else q) (tb_ppms (st_tables w2))"
    using 3 assms(4) by (auto simp: s2(2,3) save_loaded_def save_ppm_def save_Commit write_row_def)
  have s4: "tb_ppms (st_tables w4) = tb_ppms (st_tables w3)"
    using 4 by (auto simp: save_loaded_def save_shipment_row_def save_Commit write_row_def Let_def split: option.splits if_splits)
  have s5: "tb_ppms (st_tables w') = tb_ppms (st_tables w4)"
    using 5 by (auto simp: save_move_document_def save_Commit write_row_def Let_def split: if_splits)
  show ?thesis using s1(1) s2(1) s3 s4 s5 by simp
qed

lemma AttemptTransition_fields:
  assumes "AttemptTransition s doc = (d, None)"
  shows "md_MoveDocumentType d = md_MoveDocumentType doc \<and> md_MovingExpenseDocument d = md_MovingExpenseDocument doc
    \<and> md_PersonallyProcuredMove d = md_PersonallyProcuredMove doc \<and> md_PersonallyProcuredMoveID d = md_PersonallyProcuredMoveID doc"
  using assms by (auto simp: AttemptTransition_def MoveDocument_Approve_def MoveDocument_Reject_def accept_def refuse_def
      split: if_splits MoveDocumentStatus.splits)

text \<open>What a review makes of the total: the requested amount is added on approval and subtracted when an approval is
  taken back; any other change of the status makes it zero.\<close>

definition reviewed_total :: "MoveDocumentStatus \<Rightarrow> MoveDocumentStatus \<Rightarrow> Cents option \<Rightarrow> Cents \<Rightarrow> Cents option" where
  "reviewed_total old new t amt =
     (if new = old then t
      else if new = MoveDocumentStatusOK then Some (case t of None \<Rightarrow> amt | Some c \<Rightarrow> wrap64 (c + amt))
      else if old = MoveDocumentStatusOK then map_option (\<lambda>c. wrap64 (c - amt)) t
      else Some 0)"

lemma change_status_storage:
  assumes "change_status amt new doc = Ret d" "md_MoveDocumentType doc = MoveDocumentTypeEXPENSE"
    "md_MovingExpenseDocument doc = Some e" "me_MovingExpenseType e = MovingExpenseTypeSTORAGE"
    "md_PersonallyProcuredMoveID doc = Some i" "md_PersonallyProcuredMove doc = Some p"
  shows "md_PersonallyProcuredMoveID d = Some i
    \<and> md_PersonallyProcuredMove d = Some (p\<lparr>pp_TotalSITCost := reviewed_total (md_Status doc) new (pp_TotalSITCost p) amt\<rparr>)"
proof (cases "new = md_Status doc")
  case False
  obtain d1 where a: "AttemptTransition new doc = (d1, None)"
    using assms(1) False by (auto simp: change_status_def Let_def split: prod.splits option.splits)
  note f = AttemptTransition_fields [OF a]
  have "storage_cost (md_Status doc) new amt d1 = Ret d"
    using assms(1,2) False f by (simp add: change_status_def Let_def a complete_ppm_def)
  then show ?thesis using assms(2-6) f False
    by (auto simp: storage_cost_def storage_expense_def new_sit_cost_def reviewed_total_def outcome_simps split: if_splits)
qed (use assms in \<open>auto simp: change_status_def reviewed_total_def\<close>)

lemma update_keeps_ppm:
  assumes "update_expense payload doc = (d1, a1)" "update_ticket payload d1 = (d2, a2)"
  shows "md_PersonallyProcuredMoveID d2 = md_PersonallyProcuredMoveID doc \<and> md_PersonallyProcuredMove d2 = md_PersonallyProcuredMove doc"
  using assms by (auto simp: update_expense_def update_ticket_def split: if_splits)

lemma storage_total_reviewed:
  assumes fetched: "FetchMoveDocument (st_tables w) session docID = Ret (Some doc)"
    and storage: "md_MovingExpenseDocument doc = Some e" "me_MovingExpenseType e = MovingExpenseTypeSTORAGE"
    and ppm: "md_PersonallyProcuredMoveID doc = Some i" "md_PersonallyProcuredMove doc = Some p" "pp_ID p \<noteq> uuid_Nil"
    and payload: "um_MoveDocumentType payload = MoveDocumentTypeEXPENSE" "um_PersonallyProcuredMoveID payload = None"
    and updated: "UpdateMoveDocument session docID payload w = (w', Reply code d)"
  shows "tb_ppms (st_tables w') = map (\<lambda>q. if pp_ID q = pp_ID p then p\<lparr>pp_TotalSITCost :=
      reviewed_total (md_Status doc) (um_Status payload) (pp_TotalSITCost p) (um_RequestedAmountCents payload)\<rparr> else q) (tb_ppms (st_tables w))"
proof -
  define doc' where "doc' = doc\<lparr>md_PersonallyProcuredMoveID := given (um_PersonallyProcuredMoveID payload) (md_PersonallyProcuredMoveID doc),
    md_Title := um_Title payload, md_Notes := um_Notes payload, md_MoveDocumentType := um_MoveDocumentType payload\<rparr>"
  let ?p = "p\<lparr>pp_TotalSITCost := reviewed_total (md_Status doc) (um_Status payload) (pp_TotalSITCost p) (um_RequestedAmountCents payload)\<rparr>"
  from updated obtain d0 where c: "change_status (um_RequestedAmountCents payload) (um_Status payload) doc' = Ret d0"
    and k: "(case update_expense payload d0 of (doc, saveExpenseAction) \<Rightarrow> case update_ticket payload doc of (doc, saveWeightTicketSetAction) \<Rightarrow>
      after_save w (SaveMoveDocument doc saveExpenseAction saveWeightTicketSetAction w) (\<lambda>w' d. (w', Reply 200 d))) = (w', Reply code d)"
    unfolding UpdateMoveDocument_def fetched obind.simps deref_Some continue_simps(1) doc'_def [symmetric] continue_Reply by blast
  obtain d1 a1 where u1: "update_expense payload d0 = (d1, a1)" by fastforce
  obtain d2 a2 where u2: "update_ticket payload d1 = (d2, a2)" by fastforce
  note u = u1 u2
  from k u obtain w1 y verrs err where s: "SaveMoveDocument d2 a1 a2 w = Ret (w1, Some y, verrs, err)" "w1 = w'"
    by (auto simp: after_save_Reply)
  have "md_PersonallyProcuredMoveID d0 = Some i \<and> md_PersonallyProcuredMove d0 = Some ?p"
    using change_status_storage [OF c] storage ppm(1,2) payload by (simp add: doc'_def)
  with update_keeps_ppm [OF u] have "md_PersonallyProcuredMoveID d2 = Some i" "md_PersonallyProcuredMove d2 = Some ?p" by simp_all
  from SaveMoveDocument_ppms [OF s(1) this] ppm(3) s(2) show ?thesis by simp
qed

text \<open>C34: rejecting a storage expense that was never approved sets the total storage cost of its PPM to zero,
  whatever the approved storage expenses of the PPM add up to.\<close>

theorem rejected_storage_wipes_total:
  assumes "FetchMoveDocument (st_tables w) session docID = Ret (Some doc)"
    "md_MovingExpenseDocument doc = Some e" "me_MovingExpenseType e = MovingExpenseTypeSTORAGE"
    "md_PersonallyProcuredMoveID doc = Some i" "md_PersonallyProcuredMove doc = Some p" "pp_ID p \<noteq> uuid_Nil"
    "um_MoveDocumentType payload = MoveDocumentTypeEXPENSE" "um_PersonallyProcuredMoveID payload = None"
    "UpdateMoveDocument session docID payload w = (w', Reply code d)"
    "md_Status doc = MoveDocumentStatusAWAITINGREVIEW" "um_Status payload = MoveDocumentStatusHASISSUE"
  shows "tb_ppms (st_tables w') = map (\<lambda>q. if pp_ID q = pp_ID p then p\<lparr>pp_TotalSITCost := Some 0\<rparr> else q) (tb_ppms (st_tables w))"
  using storage_total_reviewed [OF assms(1-9)] assms(10,11) by (simp add: reviewed_total_def)

text \<open>C63: approving a storage expense adds its amount to the total storage cost of the PPM, and taking the approval back
  with the same amount restores the total.\<close>

theorem storage_approval_undone:
  assumes "FetchMoveDocument (st_tables w) session docID = Ret (Some doc)"
    "md_MovingExpenseDocument doc = Some e" "me_MovingExpenseType e = MovingExpenseTypeSTORAGE"
    "md_PersonallyProcuredMoveID doc = Some i" "md_PersonallyProcuredMove doc = Some p" "pp_ID p \<noteq> uuid_Nil"
    "um_MoveDocumentType payload = MoveDocumentTypeEXPENSE" "um_PersonallyProcuredMoveID payload = None"
    "UpdateMoveDocument session docID payload w = (w', Reply code d)"
    "md_Status doc = MoveDocumentStatusOK" "um_Status payload \<noteq> MoveDocumentStatusOK"
    "pp_TotalSITCost p = reviewed_total old MoveDocumentStatusOK (Some t) (um_RequestedAmountCents payload)" "old \<noteq> MoveDocumentStatusOK" "in64 t"
  shows "tb_ppms (st_tables w') = map (\<lambda>q. if pp_ID q = pp_ID p then p\<lparr>pp_TotalSITCost := Some t\<rparr> else q) (tb_ppms (st_tables w))"
proof -
  have "wrap64 (wrap64 (t + a) - a) = t" for a
    using wrap64_add_wrap64 [of "t + a" "- a"] assms(14) by simp
  then show ?thesis using storage_total_reviewed [OF assms(1-9)] assms(10-13) by (simp add: reviewed_total_def)
qed

section \<open>A sample review\<close>

definition storage_document :: MoveDocument where
  "storage_document = \<lparr>md_ID = 60, md_DocumentID = 40, md_MoveID = 2, md_PersonallyProcuredMoveID = Some 3, md_PersonallyProcuredMove = None,
     md_ShipmentID = None, md_Shipment = None, md_Title = ''storage'', md_Status = MoveDocumentStatusAWAITINGREVIEW,
     md_MoveDocumentType = MoveDocumentTypeEXPENSE, md_MovingExpenseDocument = None, md_Notes = None, md_WeightTicketSetDocument = None\<rparr>"

definition storage_row :: MovingExpenseDocument where
  "storage_row = \<lparr>me_ID = 61, me_MoveDocumentID = 60, me_MovingExpenseType = MovingExpenseTypeSTORAGE, me_RequestedAmountCents = 300,
     me_PaymentMethod = ''OTHER'', me_ReceiptMissing = False, me_StorageStartDate = None, me_StorageEndDate = None\<rparr>"

definition stored_ppm :: PersonallyProcuredMove where
  "stored_ppm = priced_ppm\<lparr>pp_TotalSITCost := Some 700\<rparr>"

definition review_store :: store where
  "review_store = sample_store\<lparr>st_tables := sample_tables\<lparr>tb_ppms := [stored_ppm], tb_move_documents := [storage_document],
     tb_expenses := [storage_row]\<rparr>\<rparr>"

definition rejection :: UpdateMoveDocumentPayload where
  "rejection = \<lparr>um_PersonallyProcuredMoveID = None, um_Title = ''storage'', um_Notes = None, um_MoveDocumentType = MoveDocumentTypeEXPENSE,
     um_Status = MoveDocumentStatusHASISSUE, um_MovingExpenseType = MovingExpenseTypeSTORAGE, um_RequestedAmountCents = 300,
     um_PaymentMethod = ''OTHER'', um_EmptyWeight = None, um_FullWeight = None, um_VehicleNickname = '''', um_VehicleOptions = '''',
     um_WeightTicketDate = None, um_TrailerOwnershipMissing = None\<rparr>"

lemma review_fetched:
  "FetchMoveDocument (st_tables review_store) (member_session 104 1) 60
    = Ret (Some (storage_document\<lparr>md_PersonallyProcuredMove := Some stored_ppm, md_MovingExpenseDocument := Some storage_row\<rparr>))"
  by (simp add: FetchMoveDocument_def review_store_def sample_store_def sample_tables_def find_row_def storage_document_def
      storage_row_def has_one_def member_session_def IsMilApp_def find_option_def stored_ppm_def priced_ppm_def sample_ppm_def
      IsOfficeApp_def del: One_nat_def)

lemma review_runs: "\<exists>w' d. UpdateMoveDocument (member_session 104 1) 60 rejection review_store = (w', Reply 200 d)"
proof -
  let ?d = "storage_document\<lparr>md_PersonallyProcuredMove := Some (stored_ppm\<lparr>pp_TotalSITCost := Some 0\<rparr>), md_MovingExpenseDocument := Some storage_row,
    md_Status := MoveDocumentStatusHASISSUE\<rparr>"
  have c: "change_status 300 MoveDocumentStatusHASISSUE
      (storage_document\<lparr>md_PersonallyProcuredMove := Some stored_ppm, md_MovingExpenseDocument := Some storage_row\<rparr>) = Ret ?d"
    by (simp add: change_status_def storage_document_def AttemptTransition_def MoveDocument_Reject_def accept_def complete_ppm_def
        storage_cost_def storage_expense_def storage_row_def new_sit_cost_def)
  have u: "update_expense rejection ?d = (?d, SaveModel)" "update_ticket rejection ?d = (?d, NoAction)"
    by (simp_all add: update_expense_def update_ticket_def rejection_def IsExpenseModelDocumentType_def storage_document_def storage_row_def)
  have "\<exists>w' d. SaveMoveDocument ?d SaveModel NoAction review_store = Ret (w', Some d, [], None)"
    by (simp add: SaveMoveDocument_def transaction_def tx_bind_def tx_return_def save_expense_action_def save_ticket_action_def
        storage_document_def storage_row_def save_expense_def save_ppm_def save_loaded_def save_move_document_def save_def write_row_def
        review_store_def sample_store_def sample_tables_def uuid_Nil_def stored_ppm_def priced_ppm_def sample_ppm_def Let_def)
  then obtain w' d where "SaveMoveDocument ?d SaveModel NoAction review_store = Ret (w', Some d, [], None)" by blast
  moreover have "storage_document\<lparr>md_PersonallyProcuredMove := Some stored_ppm, md_MovingExpenseDocument := Some storage_row,
      md_Title := um_Title rejection, md_Notes := um_Notes rejection,
      md_MoveDocumentType := um_MoveDocumentType rejection\<rparr>
    = storage_document\<lparr>md_PersonallyProcuredMove := Some stored_ppm, md_MovingExpenseDocument := Some storage_row\<rparr>"
    "um_PersonallyProcuredMoveID rejection = None" "um_Status rejection = MoveDocumentStatusHASISSUE" "um_RequestedAmountCents rejection = 300"
    "md_PersonallyProcuredMoveID storage_document = Some 3"
    by (simp_all add: storage_document_def rejection_def)
  ultimately show ?thesis using c u by (simp add: UpdateMoveDocument_def review_fetched after_save_def del: One_nat_def)
qed

theorem rejected_storage_wipes_total_witness:
  "\<exists>w' d. UpdateMoveDocument (member_session 104 1) 60 rejection review_store = (w', Reply 200 d)
     \<and> map pp_TotalSITCost (tb_ppms (st_tables review_store)) = [Some 700] \<and> map pp_TotalSITCost (tb_ppms (st_tables w')) = [Some 0]"
proof -
  obtain w' d where r: "UpdateMoveDocument (member_session 104 1) 60 rejection review_store = (w', Reply 200 d)" using review_runs by blast
  have f: "pp_ID stored_ppm = 3" "tb_ppms (st_tables review_store) = [stored_ppm]" "pp_TotalSITCost stored_ppm = Some 700"
    by (simp_all add: stored_ppm_def priced_ppm_def sample_ppm_def review_store_def sample_store_def)
  have "tb_ppms (st_tables w') = map (\<lambda>q. if pp_ID q = pp_ID stored_ppm then stored_ppm\<lparr>pp_TotalSITCost := Some 0\<rparr> else q) (tb_ppms (st_tables review_store))"
    by (rule rejected_storage_wipes_total [OF review_fetched _ _ _ _ _ _ _ r, where e = storage_row and i = 3])
      (simp_all add: storage_document_def storage_row_def rejection_def f uuid_Nil_def)
  with r f show ?thesis by auto
qed

definition sample_certification :: CertificationPayload where
  "sample_certification = \<lparr>ce_PersonallyProcuredMoveID = Some 3, ce_ShipmentID = None, ce_CertificationType = Some SignedCertificationTypePPM,
     ce_CertificationText = ''I agree'', ce_Signature = ''Ann Lee'', ce_Date = 6\<rparr>"

lemma certification_runs:
  "\<exists>w' c. CreateSignedCertification (\<lambda>_. ([], None)) (member_session 104 1) 2 sample_certification priced_store = (w', Reply 201 c)"
  by (simp add: CreateSignedCertification_def sample_certification_def priced_fetched FetchMove_def FetchOrderForUser_def priced_store_def
      sample_store_def sample_tables_def find_row_def sample_move_def Move.defs sample_orders_def Order.defs member_session_def
      loaded_ID_def IsMilApp_def sample_member_def uuid_Nil_def write_row_def CreateSignedCertificationModel_def Let_def
      FetchPersonallyProcuredMove_def move_owner_def priced_ppm_def sample_ppm_def load_advance_def
      del: One_nat_def)

theorem certification_without_links_witness:
  "\<exists>w' c. CreateSignedCertification (\<lambda>_. ([], None)) (member_session 104 1) 2 sample_certification priced_store = (w', Reply 201 c)
     \<and> ce_PersonallyProcuredMoveID sample_certification = Some 3 \<and> sc_PersonallyProcuredMoveID c = None"
proof -
  obtain w' c where "CreateSignedCertification (\<lambda>_. ([], None)) (member_session 104 1) 2 sample_certification priced_store = (w', Reply 201 c)"
    using certification_runs by blast
  with certification_without_links [OF this] show ?thesis by (auto simp: sample_certification_def)
qed

theorem document_handlers_guarded_witness:
  "fst (CreateDocument (member_session 105 5) 4 priced_store) = priced_store"
  using document_handlers_guarded [of "member_session 105 5" 4 priced_store]
  by (auto simp: member_session_def IsMilApp_def IsServiceMember_def uuid_Nil_def)

end
