(* ===== verification/MoveHandlers.thy ===== *)
theory MoveHandlers
  imports DocumentHandlers
begin

text \<open>
  Moves and orders as the handlers of \<open>pkg/handlers/internalapi\<close> (\<open>moves.go\<close>, \<open>office.go\<close>, \<open>orders.go\<close>) serve
  them: showing, patching, submitting, approving and canceling moves, approving PPMs and reimbursements, and
  creating orders with their move.  \<open>notify\<close> is what sending the e-mail answers.  The award queue that a
  submitted move with shipments starts in the background is the theory \<open>AwardQueue\<close>; its interleaving with later
  requests is not modelled.
\<close>

section \<open>Updating single rows\<close>

text \<open>\<open>ValidateAndUpdate\<close> outside of a transaction.\<close>

definition updating :: "'a tx \<Rightarrow> store \<Rightarrow> (store \<Rightarrow> 'a \<Rightarrow> store \<times> 'b reply) \<Rightarrow> store \<times> 'b reply" where
  "updating f w k = (case f w of Commit x w' \<Rightarrow> k w' x
     | Rollback verrs err \<Rightarrow> (w, Refusal (ResponseForVErrors verrs err)) | Crash \<Rightarrow> (w, Crashed))"

lemma updating_simps [simp]:
  "f w = Commit x w' \<Longrightarrow> updating f w k = k w' x"
  "f w = Rollback verrs err \<Longrightarrow> updating f w k = (w, Refusal (ResponseForVErrors verrs err))"
  "f w = Crash \<Longrightarrow> updating f w k = (w, Crashed)"
  by (simp_all add: updating_def)

text \<open>A change of status: the error of a refused transition is answered.\<close>

definition transition :: "'a call \<Rightarrow> 'a result" where
  "transition c = (case c of (x, None) \<Rightarrow> Ret x | (x, Some e) \<Rightarrow> Fail e)"

lemma transition_Ret: "transition c = Ret x \<longleftrightarrow> c = (x, None)"
  by (auto simp: transition_def split: prod.splits option.splits)

lemma transition_simps [simp]: "transition (accept x) = Ret x" "transition (refuse x m) = Fail (Wrap m ErrInvalidTransition)"
  by (simp_all add: transition_def accept_def refuse_def errors_Wrap_def)

definition after_notify :: "goerr option \<Rightarrow> store \<Rightarrow> 'a reply \<Rightarrow> store \<times> 'a reply" where
  "after_notify notify w r = (w, case notify of None \<Rightarrow> r | Some e \<Rightarrow> Refusal (ErrorResponse (ResponseForError (Some e))))"

section \<open>Moves\<close>

definition ShowMove :: "Session \<Rightarrow> uuid \<Rightarrow> store \<Rightarrow> (Move \<times> Order) reply" where
  "ShowMove session moveID w =
     on_success (FetchMove (st_tables w) session moveID) (\<lambda>move.
     on_success (FetchOrderForUser (st_tables w) session (mv_OrdersID move)) (\<lambda>orders. Reply 200 (move, orders)))"

definition PatchMove :: "Session \<Rightarrow> uuid \<Rightarrow> string option \<Rightarrow> store \<Rightarrow> store \<times> Move reply" where
  "PatchMove session moveID newSelectedMoveType w =
     continue w (FetchMove (st_tables w) session moveID) (\<lambda>move.
     continue w (FetchOrderForUser (st_tables w) session (mv_OrdersID move)) (\<lambda>orders.
     updating (save_move id (move\<lparr>mv_SelectedMoveType := given newSelectedMoveType (mv_SelectedMoveType move)\<rparr>)) w
       (\<lambda>w' m. (w', Reply 201 m))))"

definition SubmitMove :: "goerr option \<Rightarrow> gotime \<Rightarrow> Session \<Rightarrow> uuid \<Rightarrow> gotime \<Rightarrow> store \<Rightarrow> store \<times> Move reply" where
  "SubmitMove notify now session moveID submitDate w =
     continue w (FetchMove (st_tables w) session moveID) (\<lambda>move.
     continue w (transition (Move_Submit now submitDate move)) (\<lambda>move.
     after_save w (SaveMoveDependencies move w) (\<lambda>w' _.
     after_notify notify w' (Reply 200 move))))"

section \<open>The office\<close>

definition ApproveMove :: "Session \<Rightarrow> uuid \<Rightarrow> store \<Rightarrow> store \<times> Move reply" where
  "ApproveMove session moveID w =
     (if \<not> IsOfficeUser session then (w, Bare 403) else
     continue w (FetchMove (st_tables w) session moveID) (\<lambda>move.
     continue w (FetchOrder (st_tables w) (mv_OrdersID move)) (\<lambda>orders.
     if \<not> IsComplete orders then (w, Bare 400) else
     continue w (transition (Move_Approve move)) (\<lambda>move.
     updating (save_move id move) w (\<lambda>w' m. (w', Reply 200 m))))))"

definition CancelMove :: "goerr option \<Rightarrow> Session \<Rightarrow> uuid \<Rightarrow> string \<Rightarrow> store \<Rightarrow> store \<times> Move reply" where
  "CancelMove notify session moveID reason w =
     (if \<not> IsOfficeUser session then (w, Bare 403) else
     continue w (FetchMove (st_tables w) session moveID) (\<lambda>move.
     continue w (transition (Move_Cancel reason move)) (\<lambda>move.
     after_save w (SaveMoveDependencies move w) (\<lambda>w' _.
     after_notify notify w' (Reply 200 move)))))"

definition ApprovePPM :: "goerr option \<Rightarrow> Session \<Rightarrow> uuid \<Rightarrow> gotime option \<Rightarrow> store \<Rightarrow> store \<times> PersonallyProcuredMove reply" where
  "ApprovePPM notify session ppmID approveDate w =
     (if \<not> IsOfficeUser session then (w, Bare 403) else
     continue w (FetchPersonallyProcuredMove (st_tables w) session ppmID) (\<lambda>ppm.
     continue w (transition (PPM_Approve (case approveDate of Some d \<Rightarrow> d | None \<Rightarrow> zero_time) ppm)) (\<lambda>ppm.
     updating (save_ppm id ppm) w (\<lambda>w' p. after_notify notify w' (Reply 200 p)))))"

definition FetchReimbursement :: "tables \<Rightarrow> uuid \<Rightarrow> Reimbursement result" where
  "FetchReimbursement w i = find_row rb_ID (tb_reimbursements w) i"

definition ApproveReimbursement :: "Session \<Rightarrow> uuid \<Rightarrow> store \<Rightarrow> store \<times> Reimbursement reply" where
  "ApproveReimbursement session reimbursementID w =
     (if \<not> IsOfficeUser session then (w, Bare 403) else
     continue w (FetchReimbursement (st_tables w) reimbursementID) (\<lambda>reimbursement.
     continue w (transition (Reimbursement_Approve reimbursement)) (\<lambda>reimbursement.
     updating (save_reimbursement id reimbursement) w (\<lambda>w' r. (w', Reply 200 r)))))"

section \<open>Orders\<close>

text \<open>\<open>FetchDutyStation\<close> hands out the error of the query as it is.\<close>

definition FetchDutyStation :: "store \<Rightarrow> uuid \<Rightarrow> (uuid \<times> string option) result" where
  "FetchDutyStation w i = first_row (filter (\<lambda>d. fst d = i) (st_duty_stations w))"

definition CreateOrders :: "nat list list \<Rightarrow> Session \<Rightarrow> uuid \<Rightarrow> uuid \<Rightarrow> Order \<Rightarrow> store \<Rightarrow> store \<times> (Order \<times> Move) reply" where
  "CreateOrders hashes session serviceMemberID stationID payload w =
     continue w (FetchServiceMemberForUser (st_tables w) session serviceMemberID) (\<lambda>serviceMember.
     continue w (FetchDutyStation w stationID) (\<lambda>dutyStation.
     case CreateOrder serviceMember (payload\<lparr>or_NewDutyStationID := fst dutyStation\<rparr>) w of
       (w1, None, verrs, err) \<Rightarrow> (w1, Refusal (ResponseForVErrors verrs err))
     | (w1, Some newOrder, _) \<Rightarrow>
         (case createNewMove hashes newOrder \<lparr>mo_SelectedType = None, mo_Show = Some True\<rparr> w1 of
            (w2, None, verrs, err) \<Rightarrow> (w2, Refusal (ResponseForVErrors verrs err))
          | (w2, Some newMove, _) \<Rightarrow> (w2, Reply 201 (newOrder, newMove)))))"

section \<open>Who may do what, and what an answer tells of the store\<close>

lemma continue_changed: "fst (continue w r k) = w \<longleftrightarrow> (\<forall>x. r = Ret x \<longrightarrow> fst (k x) = w)"
  by (cases r) auto

text \<open>Only office users approve moves, PPMs and reimbursements or cancel moves; and in the app of the service
  members only a move of the session's own service member is patched or submitted.\<close>

theorem move_handlers_authorized:
  shows "(\<not> IsOfficeUser session \<longrightarrow> ApproveMove session i w = (w, Bare 403) \<and> CancelMove notify session i reason w = (w, Bare 403)
        \<and> ApprovePPM notify session i approveDate w = (w, Bare 403) \<and> ApproveReimbursement session i w = (w, Bare 403))
    \<and> (IsMilApp session \<and> IsServiceMember session
        \<and> (fst (PatchMove session i selected w) \<noteq> w \<or> fst (SubmitMove notify now session i submitDate w) \<noteq> w)
      \<longrightarrow> owns_move (st_tables w) session i)"
proof (intro conjI impI, goal_cases)
  case 5
  then have "\<exists>m. FetchMove (st_tables w) session i = Ret m"
    by (auto simp: PatchMove_def SubmitMove_def continue_changed)
  with 5 show ?case using move_fetch.guarded by blast
qed (simp_all add: ApproveMove_def CancelMove_def ApprovePPM_def ApproveReimbursement_def)

lemma updating_changed:
  "updating f w (\<lambda>w' m. (w', Reply code m)) = (w', Reply c m) \<longleftrightarrow> c = code \<and> f w = Commit m w'"
  "fst (updating f w k) \<noteq> w \<Longrightarrow> \<exists>x w'. f w = Commit x w'"
  by (cases "f w"; auto)+

text \<open>Approving a move is answered with a success exactly when an office user approves a submitted move whose
  orders are complete and the database takes the row as approved; any other answer leaves the store as it was.\<close>

theorem approve_move_exact:
  "(ApproveMove session i w = (w', Reply code m) \<longleftrightarrow> code = 200 \<and> IsOfficeUser session
      \<and> (\<exists>move orders. FetchMove (st_tables w) session i = Ret move \<and> mv_Status move = MoveStatusSUBMITTED
         \<and> FetchOrder (st_tables w) (mv_OrdersID move) = Ret orders \<and> IsComplete orders
         \<and> save_move id (move\<lparr>mv_Status := MoveStatusAPPROVED\<rparr>) w = Commit m w'))
   \<and> (fst (ApproveMove session i w) \<noteq> w \<longrightarrow> (\<exists>m. snd (ApproveMove session i w) = Reply 200 m))"
proof (cases "IsOfficeUser session")
  case True
  show ?thesis
  proof (cases "FetchMove (st_tables w) session i")
    case (Ret move)
    note m = Ret
    show ?thesis
    proof (cases "FetchOrder (st_tables w) (mv_OrdersID move)")
      case (Ret orders)
      show ?thesis
        by (cases "save_move id (move\<lparr>mv_Status := MoveStatusAPPROVED\<rparr>) w")
          (auto simp: ApproveMove_def True m Ret Move_Approve_def updating_changed)
    qed (simp_all add: ApproveMove_def True m)
  qed (simp_all add: ApproveMove_def True)
qed (simp add: ApproveMove_def)

lemma committed:
  assumes "after_save w (transaction f w) (\<lambda>w1 _. after_notify notify w1 r) = (w', r')" "w' \<noteq> w"
  shows "(\<exists>x. transaction f w = Ret (w', Some x, [], None))
    \<and> r' = (case notify of None \<Rightarrow> r | Some e \<Rightarrow> Refusal (ErrorResponse (ResponseForError (Some e))))"
  using assms by (auto simp: after_save_def transaction_def after_notify_def split: tx_result.splits)

text \<open>C72: when the store changes although submitting or canceling a move is answered with an error, what failed is
  the notification, after everything was committed.\<close>

theorem committed_before_notification:
  assumes "CancelMove notify session i reason w = (w', r) \<or> SubmitMove notify now session i submitDate w = (w', r)" "w' \<noteq> w"
  shows "(case notify of None \<Rightarrow> (\<exists>m. r = Reply 200 m)
      | Some e \<Rightarrow> r = Refusal (ErrorResponse (ResponseForError (Some e))))
    \<and> (\<exists>move m. SaveMoveDependencies move w = Ret (w', Some m, [], None))"
proof -
  from assms have "\<exists>move. after_save w (SaveMoveDependencies move w) (\<lambda>w1 _. after_notify notify w1 (Reply 200 move)) = (w', r)"
    by (auto simp: CancelMove_def SubmitMove_def continue_def split: if_splits outcome.splits)
  then obtain move where "after_save w (SaveMoveDependencies move w) (\<lambda>w1 _. after_notify notify w1 (Reply 200 move)) = (w', r)" ..
  from committed [OF this [unfolded SaveMoveDependencies_def] assms(2)] show ?thesis
    unfolding SaveMoveDependencies_def by (cases notify) auto
qed

lemma create_attempts_None: "create_attempts n hashes orders opts w = (w', None, verrs, err) \<Longrightarrow> w' = w"
proof (induction n arbitrary: hashes w)
  case (Suc n)
  obtain w1 move vs e where c: "create_move (new_move orders opts (GenerateLocator (hd hashes))) w = (w1, move, vs, e)"
    by (metis prod_cases4)
  then have "vs \<noteq> [] \<or> e \<noteq> None \<Longrightarrow> w1 = w" by (auto simp: create_move_def Let_def split: prod.splits if_splits)
  with Suc c show ?case by (auto split: if_splits option.splits)
qed simp

text \<open>When no move is created for new orders, as when none of the locators drawn is free, the orders stay behind
  without a move, and the answer is an error.\<close>

theorem orders_without_move:
  assumes "FetchServiceMemberForUser (st_tables w) session serviceMemberID = Ret serviceMember"
    "FetchDutyStation w stationID = Ret dutyStation"
    "CreateOrder serviceMember (payload\<lparr>or_NewDutyStationID := fst dutyStation\<rparr>) w = (w1, Some newOrder, verrs, err)"
    "createNewMove hashes newOrder \<lparr>mo_SelectedType = None, mo_Show = Some True\<rparr> w1 = (w2, None, verrs', err')"
  shows "CreateOrders hashes session serviceMemberID stationID payload w = (w2, Refusal (ResponseForVErrors verrs' err'))
    \<and> tb_orders (st_tables w2) = tb_orders (st_tables w) @ [newOrder] \<and> tb_moves (st_tables w2) = tb_moves (st_tables w)"
proof -
  have "tb_orders (st_tables w1) = tb_orders (st_tables w) @ [newOrder] \<and> tb_moves (st_tables w1) = tb_moves (st_tables w)"
    using assms(3) by (auto simp: CreateOrder_def lasting_def save_document_def save_order_def save_def write_row_def Let_def
        split: prod.splits if_splits)
  moreover have "w2 = w1" using create_attempts_None assms(4) unfolding createNewMove_def by blast
  ultimately show ?thesis using assms by (simp add: CreateOrders_def)
qed

section \<open>Samples\<close>

definition office_session :: Session where
  "office_session = (member_session 200 0)\<lparr>ss_ApplicationName := OfficeApp, ss_OfficeUserID := 9\<rparr>"

theorem move_handlers_authorized_witness:
  "ApproveMove (member_session 104 4) 2 sample_store = (sample_store, Bare 403)
   \<and> fst (PatchMove (member_session 105 5) 2 (Some ''HHG'') sample_store) = sample_store"
proof -
  have "\<not> owns_move (st_tables sample_store) (member_session 105 5) 2"
    by (auto simp: owns_defs sample_store_def sample_tables_def find_row_def member_session_def sample_move_def Move.defs
        sample_orders_def Order.defs)
  with move_handlers_authorized [of "member_session 104 4" 2 sample_store None "''''" None "Some ''HHG''" 0 0]
    move_handlers_authorized [of "member_session 105 5" 2 sample_store None "''''" None "Some ''HHG''" 0 0]
  show ?thesis by (auto simp: member_session_def IsMilApp_def IsServiceMember_def IsOfficeUser_def uuid_Nil_def)
qed

definition complete_orders :: Order where
  "complete_orders = sample_orders\<lparr>or_OrdersTypeDetail := Some ''HHG_PERMITTED'', or_OrdersNumber := Some ''7'',
     or_DepartmentIndicator := Some ''AIR_FORCE'', or_TAC := Some ''F8E1'', or_SAC := Some ''N002''\<rparr>"

definition approvable :: store where
  "approvable = sample_store\<lparr>st_tables := sample_tables\<lparr>tb_orders := [complete_orders],
     tb_moves := [sample_move\<lparr>mv_Status := MoveStatusSUBMITTED, mv_Shipments := [], mv_PersonallyProcuredMoves := []\<rparr>]\<rparr>\<rparr>"

lemma approvable_fetched:
  "\<exists>m. FetchMove (st_tables approvable) office_session 2 = Ret m \<and> mv_ID m = 2 \<and> mv_OrdersID m = 1 \<and> mv_Status m = MoveStatusSUBMITTED
     \<and> FetchOrder (st_tables approvable) 1 = Ret complete_orders \<and> IsComplete complete_orders"
  by (simp add: FetchMove_def FetchOrderForUser_def FetchOrder_def approvable_def sample_store_def sample_tables_def find_row_def
      sample_move_def Move.defs complete_orders_def sample_orders_def Order.defs office_session_def member_session_def loaded_ID_def
      IsMilApp_def sample_member_def uuid_Nil_def load_move_def IsComplete_def del: One_nat_def)

theorem approve_move_exact_witness:
  "\<exists>w' m. ApproveMove office_session 2 approvable = (w', Reply 200 m) \<and> mv_ID m = 2"
proof -
  obtain m where m: "FetchMove (st_tables approvable) office_session 2 = Ret m" "mv_ID m = 2" "mv_OrdersID m = 1" "mv_Status m = MoveStatusSUBMITTED"
    and o: "FetchOrder (st_tables approvable) 1 = Ret complete_orders" "IsComplete complete_orders"
    using approvable_fetched by blast
  obtain w' where "save_move id (m\<lparr>mv_Status := MoveStatusAPPROVED\<rparr>) approvable = Commit (m\<lparr>mv_Status := MoveStatusAPPROVED\<rparr>) w'"
    using m(2) by (simp add: save_move_def save_def write_row_def approvable_def sample_store_def uuid_Nil_def)
  then have "ApproveMove office_session 2 approvable = (w', Reply 200 (m\<lparr>mv_Status := MoveStatusAPPROVED\<rparr>))"
    using approve_move_exact [of office_session 2 approvable w' 200 "m\<lparr>mv_Status := MoveStatusAPPROVED\<rparr>"] m o
    by (auto simp: office_session_def IsOfficeUser_def uuid_Nil_def)
  then show ?thesis using m(2) by (intro exI [of _ w'] exI [of _ "m\<lparr>mv_Status := MoveStatusAPPROVED\<rparr>"]) simp
qed

theorem orders_without_move_witness:
  "\<exists>w2 r. CreateOrders [[0, 0, 0, 0, 0, 0], [0, 0, 0, 0, 0, 0], [0, 0, 0, 0, 0, 0]] (member_session 101 1) 1 31 sample_orders
       (sample_store\<lparr>st_tables := sample_tables\<lparr>tb_moves := [sample_move\<lparr>mv_Locator := ''333333''\<rparr>]\<rparr>\<rparr>)
     = (w2, Refusal r) \<and> length (tb_orders (st_tables w2)) = 2"
proof -
  let ?hs = "[[0, 0, 0, 0, 0, 0], [0, 0, 0, 0, 0, 0], [0, 0, 0, 0, 0, 0]]"
  let ?w = "sample_store\<lparr>st_tables := sample_tables\<lparr>tb_moves := [sample_move\<lparr>mv_Locator := ''333333''\<rparr>]\<rparr>\<rparr>"
  have m: "FetchServiceMemberForUser (st_tables ?w) (member_session 101 1) 1 = Ret (sample_member 1)"
    by (simp add: FetchServiceMemberForUser_def sample_store_def sample_tables_def find_row_def sample_member_def member_session_def
        IsMilApp_def IsTspApp_def IsOfficeApp_def uuid_Nil_def keep_if_def del: One_nat_def)
  have d: "FetchDutyStation ?w 31 = Ret (31, Some ''KKFA'')" by (simp add: FetchDutyStation_def sample_store_def)
  obtain w1 newOrder where o: "CreateOrder (sample_member 1) (sample_orders\<lparr>or_NewDutyStationID := fst (31, Some ''KKFA'')\<rparr>) ?w = (w1, Some newOrder, [], None)"
    and w1: "tb_moves (st_tables w1) = [sample_move\<lparr>mv_Locator := ''333333''\<rparr>]" "st_save_move w1 = (\<lambda>_. ([], None))"
    by (simp add: CreateOrder_def lasting_def save_document_def save_order_def save_def write_row_def Let_def sample_store_def)
  have l: "GenerateLocator [0, 0, 0, 0, 0, 0] = ''333333''" by (simp add: GenerateLocator_def locatorLength_def locatorLetters_def upt_rec)
  have "createNewMove ?hs newOrder \<lparr>mo_SelectedType = None, mo_Show = Some True\<rparr> w1 = (w1, None, [], Some ErrLocatorGeneration)"
    by (simp add: createNewMove_def maxLocatorAttempts_def numeral_3_eq_3 create_move_def new_move_def l w1)
  from orders_without_move [OF m d o this] show ?thesis by (auto simp: sample_store_def sample_tables_def)
qed

end
