(* ===== verification/Ledger.thy ===== *)
theory Ledger
  imports MoveStore
begin

text \<open>
  The tables as finite maps.  The rows of a table with distinct identifiers are the map from identifiers to
  rows (\<open>by_key\<close>), inserting and replacing a row is an update of that map (locale \<open>keyed_table\<close>, interpreted on
  the ten tables whose rows \<open>MoveStore\<close> saves and replaces), and saving a PPM with its advance (\<open>SavePersonallyProcuredMove\<close> of
  \<open>pkg/models/personally_procured_move.go\<close>) refines an operation on two such maps.
\<close>

section \<open>Tables as maps\<close>

definition by_key :: "('a \<Rightarrow> uuid) \<Rightarrow> 'a list \<Rightarrow> uuid \<Rightarrow> 'a option" where
  "by_key key rows = map_of (map (\<lambda>r. (key r, r)) rows)"

text \<open>The identifiers are distinct, and none is nil or still to be given out.\<close>

definition keyed :: "('a \<Rightarrow> uuid) \<Rightarrow> 'a list \<Rightarrow> uuid \<Rightarrow> bool" where
  "keyed key rows n \<longleftrightarrow> distinct (map key rows) \<and> uuid_Nil < n \<and> (\<forall>r\<in>set rows. uuid_Nil < key r \<and> key r < n)"

text \<open>Saving in a map: a new row under the next identifier, or the row of a known one.\<close>

definition put :: "('a \<Rightarrow> uuid) \<Rightarrow> (uuid \<Rightarrow> 'a \<Rightarrow> 'a) \<Rightarrow> 'a \<Rightarrow> uuid \<times> (uuid \<Rightarrow> 'a option) \<Rightarrow> 'a \<times> uuid \<times> (uuid \<Rightarrow> 'a option)" where
  "put key set_key x = (\<lambda>(n, m). if key x = uuid_Nil then (set_key n x, n + 1, m(n \<mapsto> set_key n x))
     else (x, n, if m (key x) = None then m else m(key x \<mapsto> x)))"

lemma by_key_simps [simp]: "by_key key [] = Map.empty" "by_key key (r # rs) = (by_key key rs)(key r \<mapsto> r)"
  by (simp_all add: by_key_def)

lemma by_key_None [simp]: "by_key key rows i = None \<longleftrightarrow> i \<notin> key ` set rows"
  by (induction rows) auto

lemma by_key_append: "key r \<notin> key ` set rows \<Longrightarrow> by_key key (rows @ [r]) = (by_key key rows)(key r \<mapsto> r)"
  by (induction rows) (auto simp: fun_eq_iff)

lemma by_key_filter: "by_key key (filter (\<lambda>r. key r \<noteq> i) rows) = (by_key key rows)(i := None)"
  by (induction rows) (auto simp: fun_eq_iff)

lemma map_unchanged: "key x \<notin> key ` set rows \<Longrightarrow> map (\<lambda>q. if key q = key x then x else q) rows = rows"
  by (induction rows) auto

lemma by_key_replace:
  "distinct (map key rows) \<Longrightarrow> key x \<in> key ` set rows
    \<Longrightarrow> by_key key (map (\<lambda>q. if key q = key x then x else q) rows) = (by_key key rows)(key x \<mapsto> x)"
proof (induction rows)
  case (Cons r rs)
  show ?case
  proof (cases "key r = key x")
    case True
    with Cons.prems have "key x \<notin> key ` set rs" by auto
    with True show ?thesis by (auto simp: map_unchanged fun_eq_iff)
  next
    case False
    have ih: "by_key key (map (\<lambda>q. if key q = key x then x else q) rs) = (by_key key rs)(key x \<mapsto> x)"
      by (intro Cons.IH) (use Cons.prems False in auto)
    from False show ?thesis by (intro ext) (simp add: ih)
  qed
qed simp

lemma first_row_by_key: "first_row (filter (\<lambda>r. key r = i) rows) = (case by_key key rows i of None \<Rightarrow> Fail NoRows | Some r \<Rightarrow> Ret r)"
  by (induction rows) (auto split: option.splits simp del: by_key_None)

lemma find_row_by_key: "find_row key rows i = (case by_key key rows i of None \<Rightarrow> Fail ErrFetchNotFound | Some r \<Rightarrow> Ret r)"
  by (cases "by_key key rows i") (simp_all add: find_row_def first_row_by_key del: by_key_None)

lemma keyed_mono: "keyed key rows n \<Longrightarrow> n \<le> k \<Longrightarrow> keyed key rows k"
  by (auto simp: keyed_def)

lemma keyed_filter: "keyed key rows n \<Longrightarrow> keyed key (filter P rows) n"
  by (auto simp: keyed_def distinct_map_filter)

lemma keys_replace: "map key (map (\<lambda>q. if key q = key x then x else q) rows) = map key rows"
  by simp

locale keyed_table =
  fixes key :: "'a \<Rightarrow> uuid" and set_key :: "uuid \<Rightarrow> 'a \<Rightarrow> 'a"
    and rows :: "tables \<Rightarrow> 'a list" and upd :: "('a list \<Rightarrow> 'a list) \<Rightarrow> tables \<Rightarrow> tables"
  assumes key_set: "key (set_key i x) = i"
    and rows_upd: "rows (upd f t) = f (rows t)"
begin

abbreviation stored :: "store \<Rightarrow> uuid \<Rightarrow> 'a option" where
  "stored w \<equiv> by_key key (rows (st_tables w))"

abbreviation well_keyed :: "store \<Rightarrow> bool" where
  "well_keyed w \<equiv> keyed key (rows (st_tables w)) (st_fresh w)"

lemma write_row_put:
  assumes "well_keyed w" "write_row key set_key upd x w = (y, w')"
  shows "put key set_key x (st_fresh w, stored w) = (y, st_fresh w', stored w')"
proof (cases "key x = uuid_Nil")
  case True
  moreover have "st_fresh w \<notin> key ` set (rows (st_tables w))" using assms(1) by (force simp: keyed_def)
  ultimately show ?thesis using assms
    by (auto simp: write_row_def put_def Let_def rows_upd key_set by_key_append)
next
  case False
  have "distinct (map key (rows (st_tables w)))" using assms(1) by (simp add: keyed_def)
  note by_key_replace [OF this, of x] map_unchanged [of key x "rows (st_tables w)"]
  with False show ?thesis using assms(2) unfolding write_row_def put_def rows_upd
    by (cases "key x \<in> key ` set (rows (st_tables w))") (auto simp: rows_upd)
qed

lemma write_row_keyed:
  assumes "well_keyed w" "write_row key set_key upd x w = (y, w')"
  shows "well_keyed w'"
proof (cases "key x = uuid_Nil")
  case True
  moreover have "st_fresh w \<notin> key ` set (rows (st_tables w))" using assms(1) by (force simp: keyed_def)
  ultimately show ?thesis using assms
    by (auto simp: write_row_def Let_def keyed_def rows_upd key_set less_Suc_eq)
next
  case False
  then have w': "rows (st_tables w') = map (\<lambda>q. if key q = key x then x else q) (rows (st_tables w))" "st_fresh w' = st_fresh w"
    using assms by (auto simp: write_row_def rows_upd)
  then have "map key (rows (st_tables w')) = map key (rows (st_tables w))" by (simp only: keys_replace)
  then show ?thesis using assms(1) w'(2) unfolding keyed_def by (metis (no_types, lifting) in_set_conv_nth length_map nth_map nth_mem)
qed

lemma write_row_fresh: "write_row key set_key upd x w = (y, w') \<Longrightarrow> st_fresh w \<le> st_fresh w'"
  by (auto simp: write_row_def Let_def split: if_splits)

text \<open>What was saved is what is read, and every other row is read as before.\<close>

lemma write_then_find:
  assumes "well_keyed w" "write_row key set_key upd x w = (y, w')" "key x = uuid_Nil \<or> stored w (key x) \<noteq> None"
  shows "find_row key (rows (st_tables w')) (key y) = Ret y"
    and "i \<noteq> key y \<Longrightarrow> find_row key (rows (st_tables w')) i = find_row key (rows (st_tables w)) i"
proof -
  from write_row_put [OF assms(1,2)] assms(3) have "stored w' = (stored w)(key y \<mapsto> y)"
    by (auto simp: put_def key_set split: if_splits)
  then show "find_row key (rows (st_tables w')) (key y) = Ret y"
    and "i \<noteq> key y \<Longrightarrow> find_row key (rows (st_tables w')) i = find_row key (rows (st_tables w)) i"
    by (simp_all add: find_row_by_key)
qed

end

interpretation order_table: keyed_table or_ID "\<lambda>i. or_ID_update (\<lambda>_. i)" tb_orders tb_orders_update
  by unfold_locales simp_all

interpretation move_table: keyed_table mv_ID "\<lambda>i. mv_ID_update (\<lambda>_. i)" tb_moves tb_moves_update
  by unfold_locales simp_all

interpretation ppm_table: keyed_table pp_ID "\<lambda>i. pp_ID_update (\<lambda>_. i)" tb_ppms tb_ppms_update
  by unfold_locales simp_all

interpretation reimbursement_table: keyed_table rb_ID "\<lambda>i. rb_ID_update (\<lambda>_. i)" tb_reimbursements tb_reimbursements_update
  by unfold_locales simp_all

interpretation shipment_table: keyed_table shp_ID "\<lambda>i. shp_ID_update (\<lambda>_. i)" tb_shipments tb_shipments_update
  by unfold_locales simp_all

interpretation document_table: keyed_table doc_ID "\<lambda>i. doc_ID_update (\<lambda>_. i)" tb_documents tb_documents_update
  by unfold_locales simp_all

interpretation upload_table: keyed_table up_ID "\<lambda>i. up_ID_update (\<lambda>_. i)" tb_uploads tb_uploads_update
  by unfold_locales simp_all

interpretation move_document_table: keyed_table md_ID "\<lambda>i. md_ID_update (\<lambda>_. i)" tb_move_documents tb_move_documents_update
  by unfold_locales simp_all

interpretation expense_table: keyed_table me_ID "\<lambda>i. me_ID_update (\<lambda>_. i)" tb_expenses tb_expenses_update
  by unfold_locales simp_all

interpretation weight_ticket_table: keyed_table wt_ID "\<lambda>i. wt_ID_update (\<lambda>_. i)" tb_weight_tickets tb_weight_tickets_update
  by unfold_locales simp_all

section \<open>PPMs and their advances\<close>

text \<open>The abstract state: the PPMs and the reimbursements by identifier, the next identifier, and what the
  database answers.\<close>

record ledger =
  lg_ppms :: "uuid \<Rightarrow> PersonallyProcuredMove option"
  lg_reimbursements :: "uuid \<Rightarrow> Reimbursement option"
  lg_next :: uuid
  lg_take_ppm :: "PersonallyProcuredMove \<Rightarrow> verrs \<times> goerr option"
  lg_take_reimbursement :: "Reimbursement \<Rightarrow> verrs \<times> goerr option"
  lg_drop :: "uuid \<Rightarrow> goerr option"

definition ledger_of :: "store \<Rightarrow> ledger" where
  "ledger_of w = \<lparr>lg_ppms = by_key pp_ID (tb_ppms (st_tables w)), lg_reimbursements = by_key rb_ID (tb_reimbursements (st_tables w)),
     lg_next = st_fresh w, lg_take_ppm = st_save_ppm w, lg_take_reimbursement = st_save_reimbursement w, lg_drop = st_destroy w\<rparr>"

definition well_keyed :: "store \<Rightarrow> bool" where
  "well_keyed w \<longleftrightarrow> ppm_table.well_keyed w \<and> reimbursement_table.well_keyed w"

text \<open>What is wrong with a row, if anything.\<close>

definition refused :: "verrs \<times> goerr option \<Rightarrow> bool" where
  "refused a \<longleftrightarrow> a \<noteq> ([], None)"

definition put_reimbursement :: "Reimbursement \<Rightarrow> ledger \<Rightarrow> Reimbursement \<times> ledger" where
  "put_reimbursement r l = (case put rb_ID (\<lambda>i. rb_ID_update (\<lambda>_. i)) r (lg_next l, lg_reimbursements l) of
     (r', n, m) \<Rightarrow> (r', l\<lparr>lg_next := n, lg_reimbursements := m\<rparr>))"

definition put_ppm :: "PersonallyProcuredMove \<Rightarrow> ledger \<Rightarrow> PersonallyProcuredMove \<times> ledger" where
  "put_ppm p l = (case put pp_ID (\<lambda>i. pp_ID_update (\<lambda>_. i)) p (lg_next l, lg_ppms l) of
     (p', n, m) \<Rightarrow> (p', l\<lparr>lg_next := n, lg_ppms := m\<rparr>))"

text \<open>The specification: the advance is saved or dropped and the PPM refers to it, or nothing changes and the
  reason is answered.\<close>

definition ledger_advance :: "PersonallyProcuredMove \<Rightarrow> ledger \<Rightarrow> (PersonallyProcuredMove \<times> ledger, verrs \<times> goerr option) sum" where
  "ledger_advance ppm l = (case (pp_HasRequestedAdvance ppm, pp_Advance ppm, pp_AdvanceID ppm) of
      (True, Some advance, _) \<Rightarrow>
        (if rb_MethodOfReceipt advance = MethodOfReceiptGTCC
         then Inr ([(''MethodOfReceipt'', [''GTCC is not a valid receipt method for PPM Advances.''])], None)
         else if refused (lg_take_reimbursement l advance)
         then Inr (apsnd (wrapped ''Error Saving Advance'') (lg_take_reimbursement l advance))
         else (case put_reimbursement advance l of (a, l1) \<Rightarrow> Inl (ppm\<lparr>pp_Advance := Some a, pp_AdvanceID := Some (rb_ID a)\<rparr>, l1)))
    | (True, None, None) \<Rightarrow> Inr ([], Some ErrInvalidPatchGate)
    | (True, None, Some _) \<Rightarrow> Inl (ppm, l)
    | (False, _, None) \<Rightarrow> Inl (ppm, l)
    | (False, advance, Some i) \<Rightarrow>
        (case (case advance of Some a \<Rightarrow> Some (rb_ID a) | None \<Rightarrow> map_option (\<lambda>_. i) (lg_reimbursements l i)) of
           None \<Rightarrow> Inr ([], Some (Wrap ''Error finding Advance for Advance ID'' NoRows))
         | Some k \<Rightarrow> (case lg_drop l k of
              Some e \<Rightarrow> Inr ([], Some (Wrap ''Error Deleting Advance record'' e))
            | None \<Rightarrow> Inl (ppm\<lparr>pp_AdvanceID := None, pp_Advance := None\<rparr>, l\<lparr>lg_reimbursements := (lg_reimbursements l)(k := None)\<rparr>))))"

definition ledger_save :: "PersonallyProcuredMove \<Rightarrow> ledger \<Rightarrow> ledger \<times> PersonallyProcuredMove option \<times> verrs \<times> goerr option" where
  "ledger_save ppm l = (case ledger_advance ppm l of
      Inr (verrs, err) \<Rightarrow> (l, None, verrs, err)
    | Inl (ppm', l1) \<Rightarrow>
        (if refused (lg_take_ppm l1 ppm') then (l, None, apsnd (wrapped ''Error Saving PPM'') (lg_take_ppm l1 ppm'))
         else (case put_ppm ppm' l1 of (p, l2) \<Rightarrow> (l2, Some p, [], None))))"


lemma settle_refines:
  assumes "well_keyed w"
  shows "case settle_advance ppm w of
      Commit q w1 \<Rightarrow> ledger_advance ppm (ledger_of w) = Inl (q, ledger_of w1) \<and> well_keyed w1 \<and> pp_ID q = pp_ID ppm
    | Rollback verrs err \<Rightarrow> ledger_advance ppm (ledger_of w) = Inr (verrs, err)
    | Crash \<Rightarrow> False"
proof (cases "pp_HasRequestedAdvance ppm")
  case True
  show ?thesis
  proof (cases "pp_Advance ppm")
    case (Some advance)
    obtain a w1 where wr: "write_row rb_ID (\<lambda>i. rb_ID_update (\<lambda>_. i)) tb_reimbursements_update advance w = (a, w1)" by fastforce
    have k: "ppm_table.well_keyed w" "reimbursement_table.well_keyed w" using assms by (auto simp: well_keyed_def)
    have f: "tb_ppms (st_tables w1) = tb_ppms (st_tables w)" "st_save_ppm w1 = st_save_ppm w" "st_save_reimbursement w1 = st_save_reimbursement w"
      "st_destroy w1 = st_destroy w" using wr by (auto simp: write_row_def Let_def split: if_splits)
    have "put_reimbursement advance (ledger_of w) = (a, ledger_of w1)"
      using reimbursement_table.write_row_put [OF k(2) wr] f by (simp add: put_reimbursement_def ledger_of_def)
    moreover have "well_keyed w1"
      using reimbursement_table.write_row_keyed [OF k(2) wr] keyed_mono [OF k(1) reimbursement_table.write_row_fresh [OF wr]] f
      by (simp add: well_keyed_def)
    ultimately show ?thesis using True Some wr
      by (auto simp: settle_advance_def ledger_advance_def save_reimbursement_def save_def refused_def ledger_of_def tx_bind_def
          tx_return_def split: prod.splits)
  qed (use True assms in \<open>simp add: settle_advance_def ledger_advance_def split: option.splits\<close>)
next
  case False
  have d: "ledger_of (w\<lparr>st_tables := remove_reimbursement k (st_tables w)\<rparr>)
      = (ledger_of w)\<lparr>lg_reimbursements := (lg_reimbursements (ledger_of w))(k := None)\<rparr>"
    "well_keyed (w\<lparr>st_tables := remove_reimbursement k (st_tables w)\<rparr>)" for k
    using assms by (auto simp: ledger_of_def remove_reimbursement_def by_key_filter well_keyed_def keyed_filter)
  have l: "first_row (filter (\<lambda>r. rb_ID r = i) (tb_reimbursements (st_tables w)))
      = (case lg_reimbursements (ledger_of w) i of None \<Rightarrow> Fail NoRows | Some r \<Rightarrow> Ret r)" for i
    by (simp add: first_row_by_key ledger_of_def)
  have i: "lg_reimbursements (ledger_of w) i = Some r \<Longrightarrow> rb_ID r = i" for i r
    by (auto simp: ledger_of_def by_key_def dest: map_of_SomeD)
  have dr: "lg_drop (ledger_of w) = st_destroy w" by (simp add: ledger_of_def)
  show ?thesis
    using False assms by (auto simp: settle_advance_def ledger_advance_def destroy_def tx_bind_def tx_return_def l d dr
        split: option.splits dest!: i)
qed

text \<open>C15: saving a PPM refines the operation on the two maps.\<close>

theorem save_ppm_refines:
  assumes "well_keyed w"
  shows "\<exists>w' x verrs err. SavePersonallyProcuredMove ppm w = Ret (w', x, verrs, err)
    \<and> ledger_save ppm (ledger_of w) = (ledger_of w', x, verrs, err) \<and> well_keyed w'"
proof (cases "settle_advance ppm w")
  case (Commit q w1)
  then have a: "ledger_advance ppm (ledger_of w) = Inl (q, ledger_of w1)" "well_keyed w1"
    using settle_refines [OF assms, of ppm] by simp_all
  obtain p w2 where wr: "write_row pp_ID (\<lambda>i. pp_ID_update (\<lambda>_. i)) tb_ppms_update q w1 = (p, w2)" by fastforce
  have k: "ppm_table.well_keyed w1" "reimbursement_table.well_keyed w1" using a(2) by (auto simp: well_keyed_def)
  have f: "tb_reimbursements (st_tables w2) = tb_reimbursements (st_tables w1)" "st_save_ppm w2 = st_save_ppm w1"
    "st_save_reimbursement w2 = st_save_reimbursement w1" "st_destroy w2 = st_destroy w1"
    using wr by (auto simp: write_row_def Let_def split: if_splits)
  have p: "put_ppm q (ledger_of w1) = (p, ledger_of w2)"
    using ppm_table.write_row_put [OF k(1) wr] f by (simp add: put_ppm_def ledger_of_def)
  have w2: "well_keyed w2"
    using ppm_table.write_row_keyed [OF k(1) wr] keyed_mono [OF k(2) ppm_table.write_row_fresh [OF wr]] f by (simp add: well_keyed_def)
  have t: "lg_take_ppm (ledger_of w1) = st_save_ppm w1" by (simp add: ledger_of_def)
  show ?thesis using Commit a(1) assms p w2 wr
    by (auto simp: SavePersonallyProcuredMove_def transaction_def tx_bind_def save_ppm_def save_def ledger_save_def refused_def t
        split: prod.splits)
next
  case (Rollback verrs err)
  then have "ledger_advance ppm (ledger_of w) = Inr (verrs, err)" using settle_refines [OF assms, of ppm] by simp
  with Rollback assms show ?thesis
    by (simp add: SavePersonallyProcuredMove_def transaction_def tx_bind_def ledger_save_def)
qed (use settle_refines [OF assms, of ppm] in simp)


lemma advance_keeps_ppms:
  "ledger_advance ppm l = Inl (q, l1) \<Longrightarrow> lg_ppms l1 = lg_ppms l \<and> pp_ID q = pp_ID ppm"
  by (auto simp: ledger_advance_def put_reimbursement_def split: bool.splits option.splits if_splits prod.splits)

text \<open>A PPM that is new or known is read back as it was saved, and every other PPM is read as before.\<close>

theorem saved_ppm_read_back:
  assumes "well_keyed w" "SavePersonallyProcuredMove ppm w = Ret (w', Some p, verrs, err)"
    "pp_ID ppm = uuid_Nil \<or> pp_ID ppm \<in> pp_ID ` set (tb_ppms (st_tables w))"
  shows "find_row pp_ID (tb_ppms (st_tables w')) (pp_ID p) = Ret p
    \<and> (i \<noteq> pp_ID p \<longrightarrow> find_row pp_ID (tb_ppms (st_tables w')) i = find_row pp_ID (tb_ppms (st_tables w)) i)"
proof -
  from assms(2) obtain q w1 where c: "settle_advance ppm w = Commit q w1" and s: "save_ppm (wrapped ''Error Saving PPM'') q w1 = Commit p w'"
    by (auto simp: SavePersonallyProcuredMove_def transaction_Some)
  from s have wr: "write_row pp_ID (\<lambda>i. pp_ID_update (\<lambda>_. i)) tb_ppms_update q w1 = (p, w')" by (simp add: save_ppm_def save_Commit)
  have a: "ledger_advance ppm (ledger_of w) = Inl (q, ledger_of w1)" "well_keyed w1"
    using settle_refines [OF assms(1), of ppm] c by simp_all
  from advance_keeps_ppms [OF a(1)] have m: "by_key pp_ID (tb_ppms (st_tables w1)) = by_key pp_ID (tb_ppms (st_tables w))" "pp_ID q = pp_ID ppm"
    by (simp_all add: ledger_of_def)
  have "pp_ID q = uuid_Nil \<or> ppm_table.stored w1 (pp_ID q) \<noteq> None" using assms(3) m by (auto simp: m)
  with a(2) show ?thesis using ppm_table.write_then_find [OF _ wr] by (auto simp: well_keyed_def find_row_by_key m(1))
qed

section \<open>Samples\<close>

lemma sample_well_keyed: "well_keyed sample_store"
  by (simp add: well_keyed_def keyed_def sample_store_def sample_tables_def uuid_Nil_def)

lemma sample_ppm_saved: "\<exists>w' p. SavePersonallyProcuredMove sample_ppm sample_store = Ret (w', Some p, [], None)"
  by (simp add: SavePersonallyProcuredMove_def transaction_def tx_bind_def settle_advance_def sample_ppm_def BuildDraftReimbursement_def
      save_reimbursement_def save_ppm_def save_def write_row_def sample_store_def Let_def uuid_Nil_def tx_return_def)

theorem save_ppm_refines_witness:
  "\<exists>w' x. SavePersonallyProcuredMove sample_ppm sample_store = Ret (w', Some x, [], None)
    \<and> ledger_save sample_ppm (ledger_of sample_store) = (ledger_of w', Some x, [], None)"
  using save_ppm_refines [OF sample_well_keyed, of sample_ppm] sample_ppm_saved by auto

theorem saved_ppm_read_back_witness:
  "\<exists>w' p. SavePersonallyProcuredMove (sample_ppm\<lparr>pp_ID := uuid_Nil\<rparr>) sample_store = Ret (w', Some p, [], None)
    \<and> find_row pp_ID (tb_ppms (st_tables w')) (pp_ID p) = Ret p"
proof -
  have "\<exists>w' p. SavePersonallyProcuredMove (sample_ppm\<lparr>pp_ID := uuid_Nil\<rparr>) sample_store = Ret (w', Some p, [], None)"
    by (simp add: SavePersonallyProcuredMove_def transaction_def tx_bind_def settle_advance_def sample_ppm_def BuildDraftReimbursement_def
        save_reimbursement_def save_ppm_def save_def write_row_def sample_store_def Let_def uuid_Nil_def tx_return_def)
  then obtain w' p where "SavePersonallyProcuredMove (sample_ppm\<lparr>pp_ID := uuid_Nil\<rparr>) sample_store = Ret (w', Some p, [], None)" by blast
  with saved_ppm_read_back [OF sample_well_keyed this, of 0] show ?thesis by auto
qed

end
