(* ===== verification/WorksheetFormats.thy ===== *)
theory WorksheetFormats
  imports EDI Access
begin

text \<open>
  How the shipment summary worksheet writes words, dates, weights, dollars, names and statuses (the formatting
  functions of \<open>pkg/models/shipment_summary_worksheet.go\<close>).  Strings are strings of bytes; the functions of the
  package \<open>strings\<close> are modelled on ASCII.  The English number printer of \<open>golang.org/x/text/message\<close> is a
  parameter: \<open>english_printer\<close> states what its documentation promises, digits in groups of three and the
  correctly rounded decimals.
\<close>

section \<open>Words\<close>

definition upper_char :: "char \<Rightarrow> char" where
  "upper_char c = (if 97 \<le> (of_char c :: nat) \<and> (of_char c :: nat) \<le> 122 then char_of ((of_char c :: nat) - 32) else c)"

definition lower_char :: "char \<Rightarrow> char" where
  "lower_char c = (if 65 \<le> (of_char c :: nat) \<and> (of_char c :: nat) \<le> 90 then char_of ((of_char c :: nat) + 32) else c)"

text \<open>The separators of \<open>strings.Title\<close>: all but letters, digits and the underscore.\<close>

definition isSeparator :: "char \<Rightarrow> bool" where
  "isSeparator c = (let n = (of_char c :: nat) in
     \<not> (48 \<le> n \<and> n \<le> 57 \<or> 97 \<le> n \<and> n \<le> 122 \<or> 65 \<le> n \<and> n \<le> 90 \<or> n = 95))"

fun title_from :: "char \<Rightarrow> string \<Rightarrow> string" where
  "title_from prev [] = []"
| "title_from prev (c # cs) = (if isSeparator prev then upper_char c else c) # title_from c cs"

definition Title :: "string \<Rightarrow> string" where
  "Title = title_from CHR '' ''"

definition replace_char :: "char \<Rightarrow> string \<Rightarrow> string \<Rightarrow> string" where
  "replace_char c new s = concat (map (\<lambda>d. if d = c then new else [d]) s)"

definition FormatEnum :: "string \<Rightarrow> string \<Rightarrow> string" where
  "FormatEnum s outSep =
     (let words = replace_char CHR ''_'' '' '' (map lower_char s) in replace_char CHR '' '' outSep (Title words))"

definition derefStringTypes :: "string option \<Rightarrow> string" where
  "derefStringTypes st = (case st of Some v \<Rightarrow> v | None \<Rightarrow> '''')"

definition is_space :: "char \<Rightarrow> bool" where
  "is_space c \<longleftrightarrow> c \<in> set (map char_of [9, 10, 11, 12, 13, 32 :: nat])"

definition TrimSpace :: "string \<Rightarrow> string" where
  "TrimSpace s = rev (dropWhile is_space (rev (dropWhile is_space s)))"

lemma format_examples:
  "FormatEnum ''IN_TRANSIT'' '' '' = ''In Transit''"
  "FormatEnum ''CONTRACTED_EXPENSE'' '''' = ''ContractedExpense''"
  "TrimSpace '' Lee, Ann '' = ''Lee, Ann''"
  by code_simp+

section \<open>Numbers\<close>

record printer =
  pr_int :: "int \<Rightarrow> string"
  pr_dollars :: "rat \<Rightarrow> string"

fun group3 :: "string \<Rightarrow> string" where
  "group3 (a # b # c # d # s) = a # b # c # CHR '','' # group3 (d # s)"
| "group3 s = s"

definition grouped :: "string \<Rightarrow> string" where
  "grouped s = rev (group3 (rev s))"

text \<open>The dollars of an amount of cents.\<close>

definition dollars :: "int \<Rightarrow> string" where
  "dollars c = CHR ''$'' # grouped (nat_digits (nat c div 100)) @ ''.'' @ fixed_digits 2 (nat c mod 100)"

definition english_printer :: "printer \<Rightarrow> bool" where
  "english_printer p \<longleftrightarrow> (\<forall>n. pr_int p n = (if n < 0 then ''-'' else '''') @ grouped (nat_digits (nat \<bar>n\<bar>)))
     \<and> (\<forall>x. 0 \<le> x \<longrightarrow> pr_dollars p x = dollars (rne (x * 100)))"

definition FormatWeights :: "printer \<Rightarrow> Pound \<Rightarrow> string" where
  "FormatWeights p wtg = pr_int p wtg"

definition FormatDollars :: "printer \<Rightarrow> rat \<Rightarrow> string" where
  "FormatDollars p d = pr_dollars p d"

lemma FormatDollars_near:
  assumes "english_printer p" "0 \<le> x" "\<bar>x - of_int c / 100\<bar> < 1 / 200"
  shows "FormatDollars p x = dollars c"
proof -
  have "\<bar>x * 100 - of_int c\<bar> < 1 / 2" using assms(3) by (simp add: abs_less_iff field_simps)
  then have "rne (x * 100) = c" by (rule rne_unique)
  with assms(1,2) show ?thesis by (simp add: FormatDollars_def english_printer_def)
qed

lemma dollars_examples: "dollars 0 = ''$0.00''" "dollars 123456789 = ''$1,234,567.89''"
  by (simp_all add: dollars_def grouped_def nat_digits.simps digit_char_def fixed_digits_numeral)

section \<open>Dates\<close>

definition month_abbreviation :: "int \<Rightarrow> string" where
  "month_abbreviation m = [''Jan'', ''Feb'', ''Mar'', ''Apr'', ''May'', ''Jun'', ''Jul'', ''Aug'', ''Sep'', ''Oct'', ''Nov'', ''Dec''] ! nat (m - 1)"

definition FormatDate :: "gotime \<Rightarrow> string" where
  "FormatDate date = (case month_day (month_lengths (time_Year date)) 1 (time_YearDay date) of
     (m, d) \<Rightarrow> padded 2 d @ ''-'' @ month_abbreviation m @ ''-'' @ padded 4 (time_Year date))"

text \<open>The layout \<open>02 Jan 2006 at 3:04pm\<close>.\<close>

definition format_signed :: "gotime \<Rightarrow> string" where
  "format_signed date = (case month_day (month_lengths (time_Year date)) 1 (time_YearDay date) of
     (m, d) \<Rightarrow> (let hour = date mod 86400 div 3600 in
       padded 2 d @ '' '' @ month_abbreviation m @ '' '' @ padded 4 (time_Year date) @ '' at ''
       @ go_itoa (if hour mod 12 = 0 then 12 else hour mod 12) @ '':'' @ padded 2 (date mod 3600 div 60)
       @ (if 12 \<le> hour then ''pm'' else ''am'')))"

end
