(* ===== verification/Worksheet.thy ===== *)
theory Worksheet
  imports WorksheetFormats PPMHandlers
begin

text \<open>
  The shipment summary worksheet of a move (\<open>pkg/models/shipment_summary_worksheet.go\<close> and
  \<open>pkg/paperwork/shipment_summary.go\<close>): the data that is fetched for it, the weight entitlement, the obligations
  computed with the rate engine, the subtotals of the moving expenses and the values of both pages.  Filling the
  PDF form is not modelled.  The decoder of \<open>mapstructure\<close>, which copies the entries of a map to the fields of
  the same name and leaves the others alone, is a parameter.
\<close>

section \<open>Weights\<close>

record SSWMaxWeightEntitlement =
  en_Entitlement :: Pound
  en_ProGear :: Pound
  en_SpouseProGear :: Pound
  en_TotalWeight :: Pound

text \<open>The field is set by its name; a name that is no field changes nothing.\<close>

definition addLineItem :: "string \<Rightarrow> int \<Rightarrow> SSWMaxWeightEntitlement \<Rightarrow> SSWMaxWeightEntitlement" where
  "addLineItem field v wa =
     (if field = ''Entitlement'' then wa\<lparr>en_Entitlement := v, en_TotalWeight := en_TotalWeight wa + v\<rparr>
      else if field = ''ProGear'' then wa\<lparr>en_ProGear := v, en_TotalWeight := en_TotalWeight wa + v\<rparr>
      else if field = ''SpouseProGear'' then wa\<lparr>en_SpouseProGear := v, en_TotalWeight := en_TotalWeight wa + v\<rparr>
      else if field = ''TotalWeight'' then wa\<lparr>en_TotalWeight := v + v\<rparr>
      else wa)"

definition no_entitlement :: SSWMaxWeightEntitlement where
  "no_entitlement = \<lparr>en_Entitlement = 0, en_ProGear = 0, en_SpouseProGear = 0, en_TotalWeight = 0\<rparr>"

definition SSWGetEntitlement :: "ServiceMemberRank \<Rightarrow> bool \<Rightarrow> bool \<Rightarrow> SSWMaxWeightEntitlement" where
  "SSWGetEntitlement rank hasDependents spouseHasProGear =
     (let entitlements = GetWeightAllotment rank;
          ssw = addLineItem ''ProGear'' (wa_ProGearWeight entitlements) no_entitlement
      in if \<not> hasDependents then addLineItem ''Entitlement'' (wa_TotalWeightSelf entitlements) ssw
         else (let ssw = addLineItem ''Entitlement'' (wa_TotalWeightSelfPlusDependents entitlements) ssw
           in if spouseHasProGear then addLineItem ''SpouseProGear'' (wa_ProGearWeightSpouse entitlements) ssw else ssw))"

definition first_net_weight :: "('a \<Rightarrow> Pound option) \<Rightarrow> string \<Rightarrow> 'a list \<Rightarrow> Pound result" where
  "first_net_weight weight msg xs = (case xs of [] \<Rightarrow> Ret 0
     | x # _ \<Rightarrow> (case weight x of None \<Rightarrow> Fail (ErrMsg msg) | Some n \<Rightarrow> Ret n))"

definition CalculateRemainingPPMEntitlement :: "Move \<Rightarrow> Pound \<Rightarrow> Pound result" where
  "CalculateRemainingPPMEntitlement move totalEntitlement =
     obind (first_net_weight shp_NetWeight ''Shipment %s does not have NetWeight'' (mv_Shipments move)) (\<lambda>hhgActualWeight.
     obind (first_net_weight pp_NetWeight ''PPM %s does not have NetWeight'' (mv_PersonallyProcuredMoves move)) (\<lambda>ppmActualWeight.
     let ppmRemainingEntitlement = totalEntitlement - hhgActualWeight in
     Ret (if ppmActualWeight < ppmRemainingEntitlement then ppmActualWeight
       else if ppmRemainingEntitlement < 0 then 0 else ppmRemainingEntitlement)))"

section \<open>Obligations\<close>

record Obligation =
  ob_Gcc :: Cents
  ob_SIT :: Cents

record Obligations =
  MaxObligation :: Obligation
  ActualObligation :: Obligation

definition GCC100 :: "Obligation \<Rightarrow> rat" where
  "GCC100 obligation = Cents_ToDollarFloat (ob_Gcc obligation)"

definition GCC95 :: "Obligation \<Rightarrow> rat" where
  "GCC95 obligation = Cents_ToDollarFloat (Cents_MultiplyFloat64 (ob_Gcc obligation) (fl64 (95 / 100)))"

definition FormatSIT :: "Obligation \<Rightarrow> rat" where
  "FormatSIT obligation = Cents_ToDollarFloat (ob_SIT obligation)"

definition MaxAdvance :: "Obligation \<Rightarrow> rat" where
  "MaxAdvance obligation = Cents_ToDollarFloat (Cents_MultiplyFloat64 (ob_Gcc obligation) (fl64 (60 / 100)))"

section \<open>The data of the worksheet\<close>

record DutyStation =
  ds_ID :: uuid
  ds_Name :: string
  ds_Address :: Address

definition zero_station :: DutyStation where
  "zero_station = \<lparr>ds_ID = uuid_Nil, ds_Name = '''', ds_Address = zero_address\<rparr>"

record ShipmentSummaryFormData =
  fd_ServiceMember :: ServiceMember
  fd_Order :: Order
  fd_CurrentDutyStation :: DutyStation
  fd_NewDutyStation :: DutyStation
  fd_WeightAllotment :: SSWMaxWeightEntitlement
  fd_Shipments :: "Shipment list"
  fd_PersonallyProcuredMoves :: "PersonallyProcuredMove list"
  fd_PreparationDate :: gotime
  fd_Obligations :: Obligations
  fd_MovingExpenseDocuments :: "MovingExpenseDocument list"
  fd_PPMRemainingEntitlement :: Pound
  fd_SignedCertification :: SignedCertification

definition zero_obligations :: Obligations where
  "zero_obligations = \<lparr>MaxObligation = \<lparr>ob_Gcc = 0, ob_SIT = 0\<rparr>, ActualObligation = \<lparr>ob_Gcc = 0, ob_SIT = 0\<rparr>\<rparr>"

text \<open>The move with its orders, shipments and PPMs; the advances of the PPMs are not loaded with them.  The
  associations come in the order of the tables, as the query sets none.\<close>

definition worksheet_move :: "tables \<Rightarrow> Move \<Rightarrow> Move" where
  "worksheet_move w m = m\<lparr>
     mv_Orders := (case find_row or_ID (tb_orders w) (mv_OrdersID m) of Ret order \<Rightarrow> order | _ \<Rightarrow> mv_Orders m),
     mv_Shipments := filter (\<lambda>s. shp_MoveID s = mv_ID m) (tb_shipments w),
     mv_PersonallyProcuredMoves := map (\<lambda>p. p\<lparr>pp_Advance := None\<rparr>) (filter (\<lambda>p. pp_MoveID p = mv_ID m) (tb_ppms w))\<rparr>"

text \<open>The loop over the PPMs: an advance that is approved or paid is kept.\<close>

fun keep_advances :: "tables \<Rightarrow> Session \<Rightarrow> PersonallyProcuredMove list \<Rightarrow> PersonallyProcuredMove list result" where
  "keep_advances w session [] = Ret []"
| "keep_advances w session (ppm # ppms) =
     obind (FetchPersonallyProcuredMove w session (pp_ID ppm)) (\<lambda>ppmDetails.
     obind (keep_advances w session ppms) (\<lambda>rest.
     Ret ((case pp_Advance ppmDetails of
         Some advance \<Rightarrow> if rb_Status advance = ReimbursementStatusAPPROVED \<or> rb_Status advance = ReimbursementStatusPAID
           then ppm\<lparr>pp_Advance := Some advance\<rparr> else ppm
       | None \<Rightarrow> ppm) # rest)))"

definition FetchMovingExpensesShipmentSummaryWorksheet :: "tables \<Rightarrow> Session \<Rightarrow> Move \<Rightarrow> MovingExpenseDocument list result" where
  "FetchMovingExpensesShipmentSummaryWorksheet w session move = (case mv_PersonallyProcuredMoves move of
      [] \<Rightarrow> Ret []
    | ppm # _ \<Rightarrow> obind (FetchMovingExpenseDocuments w session (pp_ID ppm) None) (\<lambda>moveDocuments.
        Ret (List.map_filter md_MovingExpenseDocument moveDocuments)))"

definition station_of :: "DutyStation list \<Rightarrow> uuid option \<Rightarrow> DutyStation" where
  "station_of stations i = (case find_option ds_ID stations i of Some s \<Rightarrow> s | None \<Rightarrow> zero_station)"

definition zero_member :: ServiceMember where
  "zero_member = \<lparr>sm_ID = uuid_Nil, sm_UserID = uuid_Nil, sm_Edipi = None, sm_Affiliation = None, sm_Rank = None,
     sm_FirstName = None, sm_MiddleName = None, sm_LastName = None, sm_Suffix = None, sm_Telephone = None,
     sm_SecondaryTelephone = None, sm_PersonalEmail = None, sm_PhoneIsPreferred = None, sm_TextMessageIsPreferred = None,
     sm_EmailIsPreferred = None, sm_ResidentialAddressID = None, sm_ResidentialAddress = None,
     sm_BackupMailingAddressID = None, sm_BackupMailingAddress = None, sm_SocialSecurityNumberID = None,
     sm_BackupContacts = [], sm_DutyStationID = None\<rparr>"

definition FetchDataShipmentSummaryWorksheetFormData ::
    "DutyStation list \<Rightarrow> tables \<Rightarrow> Session \<Rightarrow> uuid \<Rightarrow> ShipmentSummaryFormData result" where
  "FetchDataShipmentSummaryWorksheetFormData stations w session moveID =
     obind (find_row mv_ID (tb_moves w) moveID) (\<lambda>m. let move = worksheet_move w m in
     obind (keep_advances w session (mv_PersonallyProcuredMoves move)) (\<lambda>ppms.
     let move = move\<lparr>mv_PersonallyProcuredMoves := ppms\<rparr> in
     obind (FetchOrderForUser w session (mv_OrdersID move)) (\<lambda>_.
     let serviceMember = (case find_row sm_ID (tb_members w) (or_ServiceMemberID (mv_Orders move)) of Ret m \<Rightarrow> m | _ \<Rightarrow> zero_member);
         weightAllotment = (case sm_Rank serviceMember of
             Some rank \<Rightarrow> SSWGetEntitlement rank (or_HasDependents (mv_Orders move)) (or_SpouseHasProGear (mv_Orders move))
           | None \<Rightarrow> no_entitlement) in
     obind (FetchMovingExpensesShipmentSummaryWorksheet w session move) (\<lambda>movingExpenses.
     obind (CalculateRemainingPPMEntitlement move (en_TotalWeight weightAllotment)) (\<lambda>ppmRemainingEntitlement.
     obind (FetchSignedCertificationsPPMPayment w session moveID) (\<lambda>signedCertification.
     Ret \<lparr>fd_ServiceMember = serviceMember, fd_Order = mv_Orders move,
       fd_CurrentDutyStation = station_of stations (sm_DutyStationID serviceMember),
       fd_NewDutyStation = station_of stations (Some (or_NewDutyStationID (mv_Orders move))),
       fd_WeightAllotment = weightAllotment, fd_Shipments = mv_Shipments move,
       fd_PersonallyProcuredMoves = mv_PersonallyProcuredMoves move, fd_PreparationDate = zero_time,
       fd_Obligations = zero_obligations, fd_MovingExpenseDocuments = movingExpenses,
       fd_PPMRemainingEntitlement = ppmRemainingEntitlement, fd_SignedCertification = signedCertification\<rparr>))))))"

section \<open>Computing the obligations\<close>

text \<open>\<open>ppmComputer\<close>, the interface to the rate engine.\<close>

type_synonym ppmComputer = "Pound \<Rightarrow> string \<Rightarrow> string \<Rightarrow> int \<Rightarrow> gotime \<Rightarrow> int \<Rightarrow> CostComputation result"

definition nilCheckPPM :: "ShipmentSummaryFormData \<Rightarrow> PersonallyProcuredMove result" where
  "nilCheckPPM ssfd = (case fd_PersonallyProcuredMoves ssfd of
      [] \<Rightarrow> Fail (ErrMsg ''missing ppm'')
    | firstPPM # _ \<Rightarrow>
        if pp_PickupPostalCode firstPPM = None \<or> pp_DestinationPostalCode firstPPM = None
        then Fail (ErrMsg ''missing required address parameter'')
        else if pp_ActualMoveDate firstPPM = None then Fail (ErrMsg ''missing required actual move date parameter'')
        else Ret firstPPM)"

definition ComputeObligations :: "ppmComputer \<Rightarrow> distanceCalculator \<Rightarrow> ShipmentSummaryFormData \<Rightarrow> Obligations result" where
  "ComputeObligations compute planner ssfd =
     obind (nilCheckPPM ssfd) (\<lambda>firstPPM.
     obind (deref (pp_PickupPostalCode firstPPM)) (\<lambda>pickup.
     obind (deref (pp_DestinationPostalCode firstPPM)) (\<lambda>destination.
     obind (map_fail (\<lambda>_. ErrMsg ''error calculating distance'') (Zip5TransitDistance planner pickup destination)) (\<lambda>distanceMiles.
     obind (deref (pp_ActualMoveDate firstPPM)) (\<lambda>date.
     obind (map_fail (\<lambda>_. ErrMsg ''error calculating PPM max obligations'')
       (compute (en_TotalWeight (fd_WeightAllotment ssfd)) pickup destination distanceMiles date 0)) (\<lambda>maxCost.
     obind (map_fail (\<lambda>_. ErrMsg ''error calculating PPM actual obligations'')
       (compute (fd_PPMRemainingEntitlement ssfd) pickup destination distanceMiles date 0)) (\<lambda>actualCost.
     let actualSIT = (case pp_TotalSITCost firstPPM of Some c \<Rightarrow> c | None \<Rightarrow> 0);
         actualSIT = (if SITMax maxCost < actualSIT then SITMax maxCost else actualSIT) in
     Ret \<lparr>MaxObligation = \<lparr>ob_Gcc = GCC maxCost, ob_SIT = SITMax maxCost\<rparr>,
       ActualObligation = \<lparr>ob_Gcc = GCC actualCost, ob_SIT = actualSIT\<rparr>\<rparr>)))))))"


section \<open>Moving expenses\<close>

record FormattedMovingExpenses =
  ContractedExpenseMemberPaid :: string
  ContractedExpenseGTCCPaid :: string
  RentalEquipmentMemberPaid :: string
  RentalEquipmentGTCCPaid :: string
  PackingMaterialsMemberPaid :: string
  PackingMaterialsGTCCPaid :: string
  WeighingFeesMemberPaid :: string
  WeighingFeesGTCCPaid :: string
  GasMemberPaid :: string
  GasGTCCPaid :: string
  TollsMemberPaid :: string
  TollsGTCCPaid :: string
  OilMemberPaid :: string
  OilGTCCPaid :: string
  OtherMemberPaid :: string
  OtherGTCCPaid :: string
  TotalMemberPaid :: string
  TotalGTCCPaid :: string
  TotalMemberPaidRepeated :: string
  TotalGTCCPaidRepeated :: string

type_synonym decoder = "(string \<Rightarrow> string option) \<Rightarrow> FormattedMovingExpenses \<Rightarrow> FormattedMovingExpenses result"

text \<open>The entry of a name, or what the field held.\<close>

definition entry :: "(string \<Rightarrow> string option) \<Rightarrow> string \<Rightarrow> string \<Rightarrow> string" where
  "entry m field old = (case m field of Some v \<Rightarrow> v | None \<Rightarrow> old)"

definition copy_fields :: "(string \<Rightarrow> string option) \<Rightarrow> FormattedMovingExpenses \<Rightarrow> FormattedMovingExpenses" where
  "copy_fields m e = \<lparr>
     ContractedExpenseMemberPaid = entry m ''ContractedExpenseMemberPaid'' (ContractedExpenseMemberPaid e),
     ContractedExpenseGTCCPaid = entry m ''ContractedExpenseGTCCPaid'' (ContractedExpenseGTCCPaid e),
     RentalEquipmentMemberPaid = entry m ''RentalEquipmentMemberPaid'' (RentalEquipmentMemberPaid e),
     RentalEquipmentGTCCPaid = entry m ''RentalEquipmentGTCCPaid'' (RentalEquipmentGTCCPaid e),
     PackingMaterialsMemberPaid = entry m ''PackingMaterialsMemberPaid'' (PackingMaterialsMemberPaid e),
     PackingMaterialsGTCCPaid = entry m ''PackingMaterialsGTCCPaid'' (PackingMaterialsGTCCPaid e),
     WeighingFeesMemberPaid = entry m ''WeighingFeesMemberPaid'' (WeighingFeesMemberPaid e),
     WeighingFeesGTCCPaid = entry m ''WeighingFeesGTCCPaid'' (WeighingFeesGTCCPaid e),
     GasMemberPaid = entry m ''GasMemberPaid'' (GasMemberPaid e),
     GasGTCCPaid = entry m ''GasGTCCPaid'' (GasGTCCPaid e),
     TollsMemberPaid = entry m ''TollsMemberPaid'' (TollsMemberPaid e),
     TollsGTCCPaid = entry m ''TollsGTCCPaid'' (TollsGTCCPaid e),
     OilMemberPaid = entry m ''OilMemberPaid'' (OilMemberPaid e),
     OilGTCCPaid = entry m ''OilGTCCPaid'' (OilGTCCPaid e),
     OtherMemberPaid = entry m ''OtherMemberPaid'' (OtherMemberPaid e),
     OtherGTCCPaid = entry m ''OtherGTCCPaid'' (OtherGTCCPaid e),
     TotalMemberPaid = entry m ''TotalMemberPaid'' (TotalMemberPaid e),
     TotalGTCCPaid = entry m ''TotalGTCCPaid'' (TotalGTCCPaid e),
     TotalMemberPaidRepeated = entry m ''TotalMemberPaidRepeated'' (TotalMemberPaidRepeated e),
     TotalGTCCPaidRepeated = entry m ''TotalGTCCPaidRepeated'' (TotalGTCCPaidRepeated e)\<rparr>"

definition expense_fields :: "string list" where
  "expense_fields = concat (map (\<lambda>f. [f @ ''MemberPaid'', f @ ''GTCCPaid''])
      [''ContractedExpense'', ''RentalEquipment'', ''PackingMaterials'', ''WeighingFees'', ''Gas'', ''Tolls'', ''Oil'', ''Other'', ''Total''])
    @ [''TotalMemberPaidRepeated'', ''TotalGTCCPaidRepeated'']"

text \<open>What is documented of the decoder, for a map without a key that matches the name of a field only up to
  the case of its letters.\<close>

definition copying :: "decoder \<Rightarrow> bool" where
  "copying decode \<longleftrightarrow> (\<forall>m e. (\<forall>k f. m k \<noteq> None \<longrightarrow> f \<in> set expense_fields \<longrightarrow> map lower_char k = map lower_char f \<longrightarrow> k = f)
     \<longrightarrow> decode m e = Ret (copy_fields m e))"

primrec expense_type_string :: "MovingExpenseType \<Rightarrow> string" where
  "expense_type_string MovingExpenseTypeCONTRACTEDEXPENSE = ''CONTRACTED_EXPENSE''"
| "expense_type_string MovingExpenseTypeRENTALEQUIPMENT = ''RENTAL_EQUIPMENT''"
| "expense_type_string MovingExpenseTypePACKINGMATERIALS = ''PACKING_MATERIALS''"
| "expense_type_string MovingExpenseTypeWEIGHINGFEES = ''WEIGHING_FEES''"
| "expense_type_string MovingExpenseTypeGAS = ''GAS''"
| "expense_type_string MovingExpenseTypeTOLLS = ''TOLLS''"
| "expense_type_string MovingExpenseTypeOIL = ''OIL''"
| "expense_type_string MovingExpenseTypeSTORAGE = ''STORAGE''"
| "expense_type_string MovingExpenseTypeOTHER = ''OTHER''"

definition getExpenseType :: "MovingExpenseDocument \<Rightarrow> string" where
  "getExpenseType expense = (let expenseType = FormatEnum (expense_type_string (me_MovingExpenseType expense)) '''' in
     if me_PaymentMethod expense = ''GTCC'' then expenseType @ ''GTCCPaid'' else expenseType @ ''MemberPaid'')"

definition HasSuffix :: "string \<Rightarrow> string \<Rightarrow> bool" where
  "HasSuffix s suffix \<longleftrightarrow> length suffix \<le> length s \<and> drop (length s - length suffix) s = suffix"

definition add_total :: "string \<Rightarrow> rat \<Rightarrow> (string \<Rightarrow> rat option) \<Rightarrow> string \<Rightarrow> rat option" where
  "add_total key amt totals = totals(key \<mapsto> fl64 ((case totals key of Some t \<Rightarrow> t | None \<Rightarrow> 0) + amt))"

definition addToGrandTotal :: "(string \<Rightarrow> rat option) \<Rightarrow> string \<Rightarrow> rat \<Rightarrow> string \<Rightarrow> rat option" where
  "addToGrandTotal totals key expenseDollarAmt =
     (if HasSuffix key ''GTCCPaid'' then add_total ''TotalGTCCPaid'' expenseDollarAmt totals
      else add_total ''TotalMemberPaid'' expenseDollarAmt totals)"

definition SubTotalExpenses :: "MovingExpenseDocument list \<Rightarrow> string \<Rightarrow> rat option" where
  "SubTotalExpenses expenseDocuments = foldl (\<lambda>totals expense.
     let expenseType = getExpenseType expense; expenseDollarAmt = Cents_ToDollarFloat (me_RequestedAmountCents expense) in
     addToGrandTotal (add_total expenseType expenseDollarAmt totals) expenseType expenseDollarAmt) Map.empty expenseDocuments"

definition zero_expenses :: "printer \<Rightarrow> FormattedMovingExpenses" where
  "zero_expenses p = (let z = FormatDollars p 0 in \<lparr>
     ContractedExpenseMemberPaid = z, ContractedExpenseGTCCPaid = z, RentalEquipmentMemberPaid = z, RentalEquipmentGTCCPaid = z,
     PackingMaterialsMemberPaid = z, PackingMaterialsGTCCPaid = z, WeighingFeesMemberPaid = z, WeighingFeesGTCCPaid = z,
     GasMemberPaid = z, GasGTCCPaid = z, TollsMemberPaid = z, TollsGTCCPaid = z, OilMemberPaid = z, OilGTCCPaid = z,
     OtherMemberPaid = z, OtherGTCCPaid = z, TotalMemberPaid = z, TotalGTCCPaid = z,
     TotalMemberPaidRepeated = '''', TotalGTCCPaidRepeated = ''''\<rparr>)"

definition FormatMovingExpenses :: "printer \<Rightarrow> decoder \<Rightarrow> MovingExpenseDocument list \<Rightarrow> FormattedMovingExpenses result" where
  "FormatMovingExpenses p decode movingExpenseDocuments =
     decode (\<lambda>key. map_option (FormatDollars p) (SubTotalExpenses movingExpenseDocuments key)) (zero_expenses p)"

section \<open>Names, statuses and shipments\<close>

definition FormatRank :: "ServiceMemberRank option \<Rightarrow> string" where
  "FormatRank rank = (case rank of None \<Rightarrow> '''' | Some r \<Rightarrow> (case r of
      RankE1 \<Rightarrow> ''E-1'' | RankE2 \<Rightarrow> ''E-2'' | RankE3 \<Rightarrow> ''E-3'' | RankE4 \<Rightarrow> ''E-4'' | RankE5 \<Rightarrow> ''E-5''
    | RankE6 \<Rightarrow> ''E-6'' | RankE7 \<Rightarrow> ''E-7'' | RankE8 \<Rightarrow> ''E-8'' | RankE9 \<Rightarrow> ''E-9''
    | RankO1ACADEMYGRADUATE \<Rightarrow> ''O-1/Service Academy Graduate'' | RankO2 \<Rightarrow> ''O-2'' | RankO3 \<Rightarrow> ''O-3''
    | RankO4 \<Rightarrow> ''O-4'' | RankO5 \<Rightarrow> ''O-5'' | RankO6 \<Rightarrow> ''O-6'' | RankO7 \<Rightarrow> ''O-7'' | RankO8 \<Rightarrow> ''O-8''
    | RankO9 \<Rightarrow> ''O-9'' | RankO10 \<Rightarrow> ''O-10'' | RankW1 \<Rightarrow> ''W-1'' | RankW2 \<Rightarrow> ''W-2'' | RankW3 \<Rightarrow> ''W-3''
    | RankW4 \<Rightarrow> ''W-4'' | RankW5 \<Rightarrow> ''W-5'' | RankAVIATIONCADET \<Rightarrow> ''Aviation Cadet''
    | RankCIVILIANEMPLOYEE \<Rightarrow> ''Civilian Employee'' | RankACADEMYCADET \<Rightarrow> ''Service Academy Cadet''
    | RankMIDSHIPMAN \<Rightarrow> ''Midshipman'' | RankOther _ \<Rightarrow> ''''))"

definition FormatSignature :: "ShipmentSummaryFormData \<Rightarrow> string" where
  "FormatSignature ssfd = derefStringTypes (sm_FirstName (fd_ServiceMember ssfd)) @ '' '' @ derefStringTypes (sm_LastName (fd_ServiceMember ssfd))
     @ '' electronically signed on '' @ format_signed (sc_Date (fd_SignedCertification ssfd))"

definition FormatLocation :: "DutyStation \<Rightarrow> string" where
  "FormatLocation dutyStation = ds_Name dutyStation @ '', '' @ ad_State (ds_Address dutyStation) @ '' '' @ ad_PostalCode (ds_Address dutyStation)"

definition FormatServiceMemberFullName :: "ServiceMember \<Rightarrow> string" where
  "FormatServiceMemberFullName serviceMember =
     (let lastName = derefStringTypes (sm_LastName serviceMember); suffix = derefStringTypes (sm_Suffix serviceMember);
          firstName = derefStringTypes (sm_FirstName serviceMember); middleName = derefStringTypes (sm_MiddleName serviceMember)
      in if suffix \<noteq> '''' then lastName @ '' '' @ suffix @ '', '' @ firstName @ '' '' @ middleName
         else TrimSpace (lastName @ '', '' @ firstName @ '' '' @ middleName))"

primrec shipment_status_string :: "ShipmentStatus \<Rightarrow> string" where
  "shipment_status_string ShipmentStatusDRAFT = ''DRAFT''"
| "shipment_status_string ShipmentStatusSUBMITTED = ''SUBMITTED''"
| "shipment_status_string ShipmentStatusAWARDED = ''AWARDED''"
| "shipment_status_string ShipmentStatusACCEPTED = ''ACCEPTED''"
| "shipment_status_string ShipmentStatusAPPROVED = ''APPROVED''"
| "shipment_status_string ShipmentStatusINTRANSIT = ''IN_TRANSIT''"
| "shipment_status_string ShipmentStatusDELIVERED = ''DELIVERED''"

primrec ppm_status_string :: "PPMStatus \<Rightarrow> string" where
  "ppm_status_string PPMStatusDRAFT = ''DRAFT''"
| "ppm_status_string PPMStatusSUBMITTED = ''SUBMITTED''"
| "ppm_status_string PPMStatusAPPROVED = ''APPROVED''"
| "ppm_status_string PPMStatusPAYMENTREQUESTED = ''PAYMENT_REQUESTED''"
| "ppm_status_string PPMStatusCOMPLETED = ''COMPLETED''"
| "ppm_status_string PPMStatusCANCELED = ''CANCELED''"

definition FormatCurrentShipmentStatus :: "Shipment \<Rightarrow> string" where
  "FormatCurrentShipmentStatus shipment = FormatEnum (shipment_status_string (shp_Status shipment)) '' ''"

definition FormatCurrentPPMStatus :: "PersonallyProcuredMove \<Rightarrow> string" where
  "FormatCurrentPPMStatus ppm = (if ppm_status_string (pp_Status ppm) = ''PAYMENT_REQUESTED'' then ''At destination''
     else FormatEnum (ppm_status_string (pp_Status ppm)) '' '')"

definition FormatShipmentNumberAndType :: "int \<Rightarrow> string" where
  "FormatShipmentNumberAndType i = padded 2 (i + 1) @ '' - HHG (GBL)''"

definition FormatPPMNumberAndType :: "int \<Rightarrow> string" where
  "FormatPPMNumberAndType i = padded 2 (i + 1) @ '' - PPM''"

definition FormatShipmentWeight :: "printer \<Rightarrow> Shipment \<Rightarrow> string" where
  "FormatShipmentWeight p shipment = (case shp_NetWeight shipment of Some n \<Rightarrow> FormatWeights p n @ '' lbs - FINAL'' | None \<Rightarrow> '''')"

definition FormatShipmentPickupDate :: "Shipment \<Rightarrow> string" where
  "FormatShipmentPickupDate shipment = (case shp_ActualPickupDate shipment of Some d \<Rightarrow> FormatDate d | None \<Rightarrow> '''')"

definition FormatPPMWeight :: "printer \<Rightarrow> PersonallyProcuredMove \<Rightarrow> string" where
  "FormatPPMWeight p ppm = (case pp_NetWeight ppm of Some n \<Rightarrow> FormatWeights p n @ '' lbs - FINAL'' | None \<Rightarrow> '''')"

definition FormatPPMPickupDate :: "PersonallyProcuredMove \<Rightarrow> string" where
  "FormatPPMPickupDate ppm = (case pp_OriginalMoveDate ppm of Some d \<Rightarrow> FormatDate d | None \<Rightarrow> '''')"

record ShipmentSummaryWorkSheetShipments =
  ws_ShipmentNumberAndTypes :: string
  ws_PickUpDates :: string
  ws_ShipmentWeights :: string
  ws_CurrentShipmentStatuses :: string

fun Join :: "string \<Rightarrow> string list \<Rightarrow> string" where
  "Join sep [] = ''''"
| "Join sep [s] = s"
| "Join sep (s # ss) = s @ sep @ Join sep ss"

text \<open>The lines of a column: those of the shipments, then those of the PPMs, numbered through.\<close>

definition column :: "(int \<Rightarrow> Shipment \<Rightarrow> string) \<Rightarrow> (int \<Rightarrow> PersonallyProcuredMove \<Rightarrow> string) \<Rightarrow> PersonallyProcuredMove list \<Rightarrow> Shipment list \<Rightarrow> string" where
  "column f g ppms shipments = Join [CHR 0x0A, CHR 0x0A]
     (map (\<lambda>(i, s). f (int i) s) (enumerate 0 shipments) @ map (\<lambda>(i, q). g (int i) q) (enumerate (length shipments) ppms))"

definition FormatAllShipments :: "printer \<Rightarrow> PersonallyProcuredMove list \<Rightarrow> Shipment list \<Rightarrow> ShipmentSummaryWorkSheetShipments" where
  "FormatAllShipments p ppms shipments = \<lparr>
     ws_ShipmentNumberAndTypes = column (\<lambda>i _. FormatShipmentNumberAndType i) (\<lambda>i _. FormatPPMNumberAndType i) ppms shipments,
     ws_PickUpDates = column (\<lambda>_. FormatShipmentPickupDate) (\<lambda>_. FormatPPMPickupDate) ppms shipments,
     ws_ShipmentWeights = column (\<lambda>_. FormatShipmentWeight p) (\<lambda>_. FormatPPMWeight p) ppms shipments,
     ws_CurrentShipmentStatuses = column (\<lambda>_. FormatCurrentShipmentStatus) (\<lambda>_. FormatCurrentPPMStatus) ppms shipments\<rparr>"

definition FormatServiceMemberAffiliation :: "ServiceMemberAffiliation option \<Rightarrow> string" where
  "FormatServiceMemberAffiliation affiliation = (case affiliation of Some a \<Rightarrow> FormatEnum (affiliation_string a) '' '' | None \<Rightarrow> '''')"

definition FormatOrdersType :: "Order \<Rightarrow> string" where
  "FormatOrdersType order = (if or_OrdersType order = ''PERMANENT_CHANGE_OF_STATION'' then ''PCS'' else '''')"

definition FormatOrdersTypeAndOrdersNumber :: "Order \<Rightarrow> string" where
  "FormatOrdersTypeAndOrdersNumber order = FormatOrdersType order @ ''/'' @ derefStringTypes (or_OrdersNumber order)"

section \<open>The pages\<close>

definition formatActualObligationAdvance :: "printer \<Rightarrow> ShipmentSummaryFormData \<Rightarrow> string" where
  "formatActualObligationAdvance p ssfd = (case fd_PersonallyProcuredMoves ssfd of
      [] \<Rightarrow> FormatDollars p 0
    | ppm # _ \<Rightarrow> (case pp_Advance ppm of Some advance \<Rightarrow> FormatDollars p (Cents_ToDollarFloat (rb_RequestedAmount advance))
        | None \<Rightarrow> FormatDollars p 0))"

record ShipmentSummaryWorksheetPage1Values =
  p1_ServiceMemberName :: string
  p1_MaxSITStorageEntitlement :: string
  p1_PreferredPhoneNumber :: string
  p1_PreferredEmail :: string
  p1_DODId :: string
  p1_ServiceBranch :: string
  p1_RankGrade :: string
  p1_IssuingBranchOrAgency :: string
  p1_OrdersIssueDate :: string
  p1_OrdersTypeAndOrdersNumber :: string
  p1_AuthorizedOrigin :: string
  p1_AuthorizedDestination :: string
  p1_NewDutyAssignment :: string
  p1_WeightAllotment :: string
  p1_WeightAllotmentProgear :: string
  p1_WeightAllotmentProgearSpouse :: string
  p1_TotalWeightAllotment :: string
  p1_POVAuthorized :: string
  p1_TAC :: string
  p1_SAC :: string
  p1_ShipmentNumberAndTypes :: string
  p1_ShipmentPickUpDates :: string
  p1_ShipmentWeights :: string
  p1_ShipmentCurrentShipmentStatuses :: string
  p1_PreparationDate :: string
  p1_MaxObligationGCC100 :: string
  p1_TotalWeightAllotmentRepeat :: string
  p1_MaxObligationGCC95 :: string
  p1_MaxObligationSIT :: string
  p1_MaxObligationGCCMaxAdvance :: string
  p1_PPMRemainingEntitlement :: string
  p1_ActualObligationGCC100 :: string
  p1_ActualObligationGCC95 :: string
  p1_ActualObligationAdvance :: string
  p1_ActualObligationSIT :: string

definition FormatValuesShipmentSummaryWorksheetFormPage1 :: "printer \<Rightarrow> ShipmentSummaryFormData \<Rightarrow> ShipmentSummaryWorksheetPage1Values" where
  "FormatValuesShipmentSummaryWorksheetFormPage1 p ssfd =
     (let sm = fd_ServiceMember ssfd; order = fd_Order ssfd; allotment = fd_WeightAllotment ssfd;
          shipments = FormatAllShipments p (fd_PersonallyProcuredMoves ssfd) (fd_Shipments ssfd);
          maxObligations = MaxObligation (fd_Obligations ssfd); actualObligations = ActualObligation (fd_Obligations ssfd)
      in \<lparr>p1_ServiceMemberName = FormatServiceMemberFullName sm,
          p1_MaxSITStorageEntitlement = ''90 days per each shipment'',
          p1_PreferredPhoneNumber = derefStringTypes (sm_Telephone sm),
          p1_PreferredEmail = derefStringTypes (sm_PersonalEmail sm),
          p1_DODId = derefStringTypes (sm_Edipi sm),
          p1_ServiceBranch = FormatServiceMemberAffiliation (sm_Affiliation sm),
          p1_RankGrade = FormatRank (sm_Rank sm),
          p1_IssuingBranchOrAgency = FormatServiceMemberAffiliation (sm_Affiliation sm),
          p1_OrdersIssueDate = FormatDate (or_IssueDate order),
          p1_OrdersTypeAndOrdersNumber = FormatOrdersTypeAndOrdersNumber order,
          p1_AuthorizedOrigin = FormatLocation (fd_CurrentDutyStation ssfd),
          p1_AuthorizedDestination = FormatLocation (fd_NewDutyStation ssfd),
          p1_NewDutyAssignment = FormatLocation (fd_NewDutyStation ssfd),
          p1_WeightAllotment = FormatWeights p (en_Entitlement allotment),
          p1_WeightAllotmentProgear = FormatWeights p (en_ProGear allotment),
          p1_WeightAllotmentProgearSpouse = FormatWeights p (en_SpouseProGear allotment),
          p1_TotalWeightAllotment = FormatWeights p (en_TotalWeight allotment),
          p1_POVAuthorized = ''No'',
          p1_TAC = derefStringTypes (or_TAC order),
          p1_SAC = derefStringTypes (or_SAC order),
          p1_ShipmentNumberAndTypes = ws_ShipmentNumberAndTypes shipments,
          p1_ShipmentPickUpDates = ws_PickUpDates shipments,
          p1_ShipmentWeights = ws_ShipmentWeights shipments,
          p1_ShipmentCurrentShipmentStatuses = ws_CurrentShipmentStatuses shipments,
          p1_PreparationDate = FormatDate (fd_PreparationDate ssfd),
          p1_MaxObligationGCC100 = FormatDollars p (GCC100 maxObligations),
          p1_TotalWeightAllotmentRepeat = FormatWeights p (en_TotalWeight allotment),
          p1_MaxObligationGCC95 = FormatDollars p (GCC95 maxObligations),
          p1_MaxObligationSIT = FormatDollars p (FormatSIT maxObligations),
          p1_MaxObligationGCCMaxAdvance = FormatDollars p (MaxAdvance maxObligations),
          p1_PPMRemainingEntitlement = FormatWeights p (fd_PPMRemainingEntitlement ssfd),
          p1_ActualObligationGCC100 = FormatDollars p (GCC100 actualObligations),
          p1_ActualObligationGCC95 = FormatDollars p (GCC95 actualObligations),
          p1_ActualObligationAdvance = formatActualObligationAdvance p ssfd,
          p1_ActualObligationSIT = FormatDollars p (FormatSIT actualObligations)\<rparr>)"

record ShipmentSummaryWorksheetPage2Values =
  p2_PreparationDate :: string
  p2_Expenses :: FormattedMovingExpenses
  p2_ServiceMemberSignature :: string

definition FormatValuesShipmentSummaryWorksheetFormPage2 ::
    "printer \<Rightarrow> decoder \<Rightarrow> ShipmentSummaryFormData \<Rightarrow> ShipmentSummaryWorksheetPage2Values result" where
  "FormatValuesShipmentSummaryWorksheetFormPage2 p decode ssfd =
     obind (FormatMovingExpenses p decode (fd_MovingExpenseDocuments ssfd)) (\<lambda>e.
     Ret \<lparr>p2_PreparationDate = FormatDate (fd_PreparationDate ssfd),
       p2_Expenses = e\<lparr>TotalMemberPaidRepeated := TotalMemberPaid e, TotalGTCCPaidRepeated := TotalGTCCPaid e\<rparr>,
       p2_ServiceMemberSignature = FormatSignature ssfd\<rparr>)"

definition FormatValuesShipmentSummaryWorksheet ::
    "printer \<Rightarrow> decoder \<Rightarrow> ShipmentSummaryFormData \<Rightarrow> (ShipmentSummaryWorksheetPage1Values \<times> ShipmentSummaryWorksheetPage2Values) result" where
  "FormatValuesShipmentSummaryWorksheet p decode ssfd =
     obind (FormatValuesShipmentSummaryWorksheetFormPage2 p decode ssfd) (\<lambda>page2.
     Ret (FormatValuesShipmentSummaryWorksheetFormPage1 p ssfd, page2))"

text \<open>The handler up to the PDF.\<close>

definition ShowShipmentSummaryWorksheet ::
    "printer \<Rightarrow> decoder \<Rightarrow> rate_context \<Rightarrow> DutyStation list \<Rightarrow> tables \<Rightarrow> Session \<Rightarrow> uuid \<Rightarrow> gotime
      \<Rightarrow> (ShipmentSummaryWorksheetPage1Values \<times> ShipmentSummaryWorksheetPage2Values) reply" where
  "ShowShipmentSummaryWorksheet p decode rc stations w session moveID preparationDate =
     on_success (FetchDataShipmentSummaryWorksheetFormData stations w session moveID) (\<lambda>ssfd.
     let ssfd = ssfd\<lparr>fd_PreparationDate := preparationDate\<rparr> in
     on_success (ComputeObligations (ComputePPMIncludingLHDiscount rc) (rc_planner rc) ssfd) (\<lambda>obligations.
     on_success (FormatValuesShipmentSummaryWorksheet p decode (ssfd\<lparr>fd_Obligations := obligations\<rparr>)) (Reply 200)))"


section \<open>The weight entitlement\<close>

text \<open>The total weight of the worksheet is the entitlement of the service member, for every rank that has one.\<close>

theorem ssw_entitlement_agrees:
  "(case GetEntitlement rank dep spouse of
      Ret n \<Rightarrow> en_TotalWeight (SSWGetEntitlement rank dep spouse) = n
    | _ \<Rightarrow> SSWGetEntitlement rank dep spouse = no_entitlement)
   \<and> en_TotalWeight (SSWGetEntitlement rank dep spouse)
     = en_Entitlement (SSWGetEntitlement rank dep spouse) + en_ProGear (SSWGetEntitlement rank dep spouse) + en_SpouseProGear (SSWGetEntitlement rank dep spouse)"
  by (cases "makeEntitlements rank")
    (simp_all add: GetEntitlement_def SSWGetEntitlement_def GetWeightAllotment_def addLineItem_def no_entitlement_def Let_def)

text \<open>The remaining entitlement is what the first shipment leaves of the total, at most the weight of the first
  PPM and never negative; it is an error exactly when one of the two has no net weight.\<close>

theorem remaining_entitlement:
  assumes "list_all (\<lambda>q. case pp_NetWeight q of Some n \<Rightarrow> 0 \<le> n | None \<Rightarrow> True) (take 1 (mv_PersonallyProcuredMoves move))"
  shows "case CalculateRemainingPPMEntitlement move totalEntitlement of
      Ret n \<Rightarrow> (\<exists>hhg ppm. (mv_Shipments move = [] \<and> hhg = 0 \<or> mv_Shipments move \<noteq> [] \<and> shp_NetWeight (hd (mv_Shipments move)) = Some hhg)
        \<and> (mv_PersonallyProcuredMoves move = [] \<and> ppm = 0
            \<or> mv_PersonallyProcuredMoves move \<noteq> [] \<and> pp_NetWeight (hd (mv_PersonallyProcuredMoves move)) = Some ppm)
        \<and> n = max 0 (min ppm (totalEntitlement - hhg)))
    | Fail _ \<Rightarrow> mv_Shipments move \<noteq> [] \<and> shp_NetWeight (hd (mv_Shipments move)) = None
        \<or> mv_PersonallyProcuredMoves move \<noteq> [] \<and> pp_NetWeight (hd (mv_PersonallyProcuredMoves move)) = None
    | Panic \<Rightarrow> False"
proof (cases "first_net_weight shp_NetWeight ''Shipment %s does not have NetWeight'' (mv_Shipments move)")
  case (Ret hhg)
  note h = Ret
  show ?thesis
  proof (cases "first_net_weight pp_NetWeight ''PPM %s does not have NetWeight'' (mv_PersonallyProcuredMoves move)")
    case (Ret ppm)
    then have "0 \<le> ppm" using assms by (auto simp: first_net_weight_def split: list.splits option.splits)
    with h Ret show ?thesis
      by (auto simp: CalculateRemainingPPMEntitlement_def first_net_weight_def Let_def split: list.splits option.splits)
  qed (use h in \<open>auto simp: CalculateRemainingPPMEntitlement_def first_net_weight_def split: list.splits option.splits\<close>)
qed (auto simp: CalculateRemainingPPMEntitlement_def first_net_weight_def split: list.splits option.splits)

section \<open>Sums of dollars\<close>

definition dollar_sum :: "rat list \<Rightarrow> rat" where
  "dollar_sum xs = foldl (\<lambda>t x. fl64 (t + x)) 0 xs"

definition small_amount :: "Cents \<Rightarrow> bool" where
  "small_amount c \<longleftrightarrow> 0 \<le> c \<and> c \<le> 10 ^ 8"

lemma rat_upper: "c \<le> n \<Longrightarrow> (of_int c :: rat) \<le> of_int n"
  by simp

lemma dollar_err:
  assumes "small_amount c"
  shows "\<bar>Cents_ToDollarFloat c - of_int c / 100\<bar> \<le> 1 / 10 ^ 9" "0 \<le> Cents_ToDollarFloat c" "c = 0 \<Longrightarrow> Cents_ToDollarFloat c = 0"
    "\<bar>Cents_ToDollarFloat c - of_int c / 100\<bar> < 1 / 200"
proof -
  have "\<bar>c\<bar> \<le> 2 ^ 53" using assms by (simp add: small_amount_def)
  then have d: "Cents_ToDollarFloat c = fl64 (of_int c / 100)" by (simp add: Cents_ToDollarFloat_def fl64_of_int)
  have c: "0 \<le> (of_int c :: rat)" "(of_int c :: rat) \<le> 10 ^ 8" using assms rat_upper [of c "10 ^ 8"] by (auto simp: small_amount_def)
  have "c = 0 \<or> 1 \<le> c" using assms by (auto simp: small_amount_def)
  then have "of_int c / 100 = (0 :: rat) \<or> 1 / 10000 \<le> \<bar>of_int c / 100 :: rat\<bar>"
  proof
    assume "1 \<le> c"
    then have "1 \<le> (of_int c :: rat)" by simp
    then show ?thesis by simp
  qed simp
  from fl64_abs_err [OF this] have e: "\<bar>fl64 (of_int c / 100) - of_int c / 100\<bar> \<le> of_int c / 100 / 2 ^ 53" using c by simp
  have "(of_int c :: rat) / 100 / 2 ^ 53 \<le> 10 ^ 8 / 100 / 2 ^ 53" using c by (intro divide_right_mono) auto
  also have "\<dots> \<le> 1 / 10 ^ 9" by simp
  finally have "(of_int c :: rat) / 100 / 2 ^ 53 \<le> 1 / 10 ^ 9" .
  with e show e': "\<bar>Cents_ToDollarFloat c - of_int c / 100\<bar> \<le> 1 / 10 ^ 9" unfolding d by linarith
  then show "\<bar>Cents_ToDollarFloat c - of_int c / 100\<bar> < 1 / 200" by (rule order_le_less_trans) simp
  show "0 \<le> Cents_ToDollarFloat c" unfolding d using c by (intro fl64_nonneg) simp
  show "c = 0 \<Longrightarrow> Cents_ToDollarFloat c = 0" by (simp add: Cents_ToDollarFloat_def)
qed

lemma dollar_sum_step:
  fixes t x :: rat
  assumes t: "\<bar>t - S / 100\<bar> \<le> 1 / 1000" "0 \<le> t" and S: "0 \<le> S" "S \<le> 10 ^ 11"
    and x: "\<bar>x - c / 100\<bar> \<le> 1 / 10 ^ 9" "0 \<le> x" and c: "0 \<le> c" "c \<le> 10 ^ 8"
    and pos: "t + x = 0 \<or> 1 \<le> S + c"
  shows "\<bar>fl64 (t + x) - (S + c) / 100\<bar> \<le> \<bar>t - S / 100\<bar> + 1 / 10 ^ 6" "0 \<le> fl64 (t + x)"
proof -
  show "0 \<le> fl64 (t + x)" using t(2) x(2) by (intro fl64_nonneg) simp
  have "t \<le> 1 / 1000 + S / 100" "x \<le> 1 / 10 ^ 9 + c / 100" using t(1) x(1) unfolding abs_le_iff by linarith+
  moreover have "S / 100 \<le> 10 ^ 9" "c / 100 \<le> 10 ^ 6" using S c by simp_all
  moreover have "1 / 1000 + 10 ^ 9 + (1 / 10 ^ 9 + 10 ^ 6) \<le> (1001 * 10 ^ 6 + 1 :: rat)" by simp
  ultimately have tx: "t + x \<le> 1001 * 10 ^ 6 + 1" by linarith
  have "t + x = 0 \<or> 1 / 10000 \<le> \<bar>t + x\<bar>"
    using pos
  proof
    assume "1 \<le> S + c"
    moreover have "S / 100 - 1 / 1000 \<le> t" "c / 100 - 1 / 10 ^ 9 \<le> x" using t(1) x(1) unfolding abs_le_iff by linarith+
    moreover have "1 / 10000 \<le> 1 / 100 - 1 / 1000 - (1 / 10 ^ 9 :: rat)" by simp
    ultimately have "1 / 10000 \<le> t + x" by linarith
    then show ?thesis by linarith
  qed simp
  from fl64_abs_err [OF this] have e: "\<bar>fl64 (t + x) - (t + x)\<bar> \<le> (t + x) / 2 ^ 53" using t(2) x(2) by simp
  have "(t + x) / 2 ^ 53 \<le> (1001 * 10 ^ 6 + 1) / 2 ^ 53" using tx by (intro divide_right_mono) auto
  also have "\<dots> \<le> 1 / 10 ^ 6 - 1 / 10 ^ 9" by simp
  finally have "\<bar>fl64 (t + x) - (t + x)\<bar> \<le> 1 / 10 ^ 6 - 1 / 10 ^ 9" using e by linarith
  moreover have "(S + c) / 100 = S / 100 + c / 100" by (simp add: add_divide_distrib)
  ultimately show "\<bar>fl64 (t + x) - (S + c) / 100\<bar> \<le> \<bar>t - S / 100\<bar> + 1 / 10 ^ 6"
    using x(1) unfolding abs_le_iff by linarith
qed

lemma sum_small: "list_all small_amount cs \<Longrightarrow> 0 \<le> sum_list cs \<and> sum_list cs \<le> 10 ^ 8 * int (length cs)"
  by (induction cs) (auto simp: small_amount_def algebra_simps)

lemma dollar_sum_err:
  assumes "list_all small_amount cs" "length cs \<le> 1000"
  shows "\<bar>dollar_sum (map Cents_ToDollarFloat cs) - of_int (sum_list cs) / 100\<bar> \<le> of_nat (length cs) / 10 ^ 6
    \<and> 0 \<le> dollar_sum (map Cents_ToDollarFloat cs)
    \<and> (sum_list cs = 0 \<longrightarrow> dollar_sum (map Cents_ToDollarFloat cs) = 0)"
  using assms
proof (induction cs rule: rev_induct)
  case (snoc c cs)
  let ?t = "dollar_sum (map Cents_ToDollarFloat cs)" and ?x = "Cents_ToDollarFloat c"
  from snoc have sm: "list_all small_amount cs" "small_amount c" "length cs \<le> 999" by auto
  from snoc.IH sm have ih: "\<bar>?t - of_int (sum_list cs) / 100\<bar> \<le> of_nat (length cs) / 10 ^ 6" "0 \<le> ?t" "sum_list cs = 0 \<Longrightarrow> ?t = 0" by auto
  have s: "0 \<le> sum_list cs" "sum_list cs \<le> 10 ^ 11" using sum_small [OF sm(1)] sm(3) by auto
  have c: "0 \<le> c" "c \<le> 10 ^ 8" using sm(2) by (auto simp: small_amount_def)
  have eq: "dollar_sum (map Cents_ToDollarFloat (cs @ [c])) = fl64 (?t + ?x)" by (simp add: dollar_sum_def)
  have z: "?t + ?x = 0" if "sum_list cs + c = 0"
  proof -
    from that s(1) c(1) have "sum_list cs = 0" "c = 0" by linarith+
    then show ?thesis using ih(3) dollar_err(3) [OF sm(2)] by simp
  qed
  have l: "of_nat (length cs) / 10 ^ 6 \<le> (1 / 1000 :: rat)" using sm(3) by simp
  have pos: "?t + ?x = 0 \<or> (1 :: rat) \<le> of_int (sum_list cs) + of_int c"
  proof (cases "sum_list cs + c = 0")
    case False
    then have "1 \<le> sum_list cs + c" using s(1) c(1) by linarith
    then have "(1 :: rat) \<le> of_int (sum_list cs + c)" by simp
    then show ?thesis by simp
  qed (use z in simp)
  have S: "0 \<le> (of_int (sum_list cs) :: rat)" "(of_int (sum_list cs) :: rat) \<le> 10 ^ 11" "0 \<le> (of_int c :: rat)" "(of_int c :: rat) \<le> 10 ^ 8"
    using s c rat_upper [OF s(2)] rat_upper [OF c(2)] by auto
  note st = dollar_sum_step [OF order_trans [OF ih(1) l] ih(2) S(1,2) dollar_err(1,2) [OF sm(2)] S(3,4) pos]
  have "of_nat (length (cs @ [c])) / 10 ^ 6 = of_nat (length cs) / 10 ^ 6 + (1 / 10 ^ 6 :: rat)" by (simp add: add_divide_distrib)
  with st(1) ih(1) have "\<bar>fl64 (?t + ?x) - of_int (sum_list (cs @ [c])) / 100\<bar> \<le> of_nat (length (cs @ [c])) / 10 ^ 6" by simp
  then show ?case unfolding eq using st(2) z by simp
qed (simp add: dollar_sum_def)

lemma FormatDollars_sum:
  assumes "english_printer p" "list_all small_amount cs" "length cs \<le> 1000"
  shows "FormatDollars p (dollar_sum (map Cents_ToDollarFloat cs)) = dollars (sum_list cs)"
proof -
  note e = dollar_sum_err [OF assms(2,3)]
  have "of_nat (length cs) / 10 ^ 6 < (1 / 200 :: rat)" using assms(3) by simp
  with e show ?thesis by (intro FormatDollars_near [OF assms(1)]) auto
qed


section \<open>The subtotals of the worksheet\<close>

primrec expense_words :: "MovingExpenseType \<Rightarrow> string" where
  "expense_words MovingExpenseTypeCONTRACTEDEXPENSE = ''ContractedExpense''"
| "expense_words MovingExpenseTypeRENTALEQUIPMENT = ''RentalEquipment''"
| "expense_words MovingExpenseTypePACKINGMATERIALS = ''PackingMaterials''"
| "expense_words MovingExpenseTypeWEIGHINGFEES = ''WeighingFees''"
| "expense_words MovingExpenseTypeGAS = ''Gas''"
| "expense_words MovingExpenseTypeTOLLS = ''Tolls''"
| "expense_words MovingExpenseTypeOIL = ''Oil''"
| "expense_words MovingExpenseTypeSTORAGE = ''Storage''"
| "expense_words MovingExpenseTypeOTHER = ''Other''"

definition paid_key :: "bool \<Rightarrow> string" where
  "paid_key gtcc = (if gtcc then ''GTCCPaid'' else ''MemberPaid'')"

definition by_gtcc :: "MovingExpenseDocument \<Rightarrow> bool" where
  "by_gtcc d \<longleftrightarrow> me_PaymentMethod d = ''GTCC''"

lemma FormatEnum_expense_type: "FormatEnum (expense_type_string t) '''' = expense_words t"
  by (cases t; simp; code_simp)

lemma getExpenseType_words: "getExpenseType d = expense_words (me_MovingExpenseType d) @ paid_key (by_gtcc d)"
  by (simp add: getExpenseType_def FormatEnum_expense_type paid_key_def by_gtcc_def Let_def)

lemma expense_keys:
  "expense_words t @ paid_key g = expense_words u @ paid_key h \<longleftrightarrow> t = u \<and> g = h"
  "expense_words t @ paid_key g \<noteq> ''Total'' @ paid_key h"
  "HasSuffix (expense_words t @ paid_key g) ''GTCCPaid'' \<longleftrightarrow> g"
  by (cases t; cases u; cases g; cases h; simp add: paid_key_def)
    (cases t; cases g; cases h; simp add: paid_key_def HasSuffix_def)+

lemma grand_total_key:
  "addToGrandTotal totals (getExpenseType d) x = add_total (''Total'' @ paid_key (by_gtcc d)) x totals"
  by (simp add: addToGrandTotal_def getExpenseType_words expense_keys) (simp add: paid_key_def)

text \<open>What a key of the totals sums.\<close>

definition counts_for :: "string \<Rightarrow> MovingExpenseDocument \<Rightarrow> bool" where
  "counts_for key d \<longleftrightarrow> key = getExpenseType d \<or> key = ''Total'' @ paid_key (by_gtcc d)"

lemma counts_for_keys:
  "counts_for (expense_words t @ paid_key g) d \<longleftrightarrow> me_MovingExpenseType d = t \<and> by_gtcc d = g"
  "counts_for (''Total'' @ paid_key g) d \<longleftrightarrow> by_gtcc d = g"
  unfolding counts_for_def getExpenseType_words
  by (simp_all only: expense_keys expense_keys(2) [THEN not_sym] simp_thms) (auto simp: paid_key_def)

lemma SubTotalExpenses_eq:
  "SubTotalExpenses docs key = (let ds = filter (counts_for key) docs in
     if ds = [] then None else Some (dollar_sum (map (Cents_ToDollarFloat \<circ> me_RequestedAmountCents) ds)))"
proof (induction docs rule: rev_induct)
  case (snoc d docs)
  let ?x = "Cents_ToDollarFloat (me_RequestedAmountCents d)"
  have step: "SubTotalExpenses (docs @ [d])
      = add_total (''Total'' @ paid_key (by_gtcc d)) ?x (add_total (getExpenseType d) ?x (SubTotalExpenses docs))"
    by (simp add: SubTotalExpenses_def grand_total_key Let_def)
  have ne: "getExpenseType d \<noteq> ''Total'' @ paid_key (by_gtcc d)" by (simp only: getExpenseType_words expense_keys) simp
  show ?case
  proof (cases "counts_for key d")
    case True
    then have "SubTotalExpenses (docs @ [d]) key = Some (fl64 ((case SubTotalExpenses docs key of Some t \<Rightarrow> t | None \<Rightarrow> 0) + ?x))"
      using ne unfolding step by (auto simp: add_total_def counts_for_def)
    with True snoc.IH show ?thesis by (auto simp: Let_def dollar_sum_def)
  next
    case False
    then have "SubTotalExpenses (docs @ [d]) key = SubTotalExpenses docs key"
      unfolding step by (auto simp: add_total_def counts_for_def)
    with False snoc.IH show ?thesis by (simp add: Let_def)
  qed
qed (simp add: SubTotalExpenses_def)

definition cents_of :: "(MovingExpenseDocument \<Rightarrow> bool) \<Rightarrow> MovingExpenseDocument list \<Rightarrow> Cents" where
  "cents_of P docs = sum_list (map me_RequestedAmountCents (filter P docs))"

lemma printed_entry:
  assumes "english_printer p" "list_all (\<lambda>d. small_amount (me_RequestedAmountCents d)) docs" "length docs \<le> 1000"
  shows "entry (\<lambda>key. map_option (FormatDollars p) (SubTotalExpenses docs key)) key (FormatDollars p 0) = dollars (cents_of (counts_for key) docs)"
proof -
  let ?cs = "map me_RequestedAmountCents (filter (counts_for key) docs)"
  have "list_all small_amount ?cs" using assms(2) by (auto simp: list_all_iff)
  moreover have "length ?cs \<le> 1000" using le_trans [OF length_filter_le assms(3)] by simp
  ultimately have "FormatDollars p (dollar_sum (map Cents_ToDollarFloat ?cs)) = dollars (sum_list ?cs)"
    by (rule FormatDollars_sum [OF assms(1)])
  moreover have "FormatDollars p 0 = dollars 0" using FormatDollars_near [OF assms(1), of 0 0] by simp
  ultimately show ?thesis by (auto simp: entry_def SubTotalExpenses_eq Let_def cents_of_def)
qed

text \<open>The line of the worksheet for a type of expense; storage has none.\<close>

primrec printed_line :: "FormattedMovingExpenses \<Rightarrow> bool \<Rightarrow> MovingExpenseType \<Rightarrow> string option" where
  "printed_line e g MovingExpenseTypeCONTRACTEDEXPENSE = Some (if g then ContractedExpenseGTCCPaid e else ContractedExpenseMemberPaid e)"
| "printed_line e g MovingExpenseTypeRENTALEQUIPMENT = Some (if g then RentalEquipmentGTCCPaid e else RentalEquipmentMemberPaid e)"
| "printed_line e g MovingExpenseTypePACKINGMATERIALS = Some (if g then PackingMaterialsGTCCPaid e else PackingMaterialsMemberPaid e)"
| "printed_line e g MovingExpenseTypeWEIGHINGFEES = Some (if g then WeighingFeesGTCCPaid e else WeighingFeesMemberPaid e)"
| "printed_line e g MovingExpenseTypeGAS = Some (if g then GasGTCCPaid e else GasMemberPaid e)"
| "printed_line e g MovingExpenseTypeTOLLS = Some (if g then TollsGTCCPaid e else TollsMemberPaid e)"
| "printed_line e g MovingExpenseTypeOIL = Some (if g then OilGTCCPaid e else OilMemberPaid e)"
| "printed_line e g MovingExpenseTypeSTORAGE = None"
| "printed_line e g MovingExpenseTypeOTHER = Some (if g then OtherGTCCPaid e else OtherMemberPaid e)"

lemma copied_line:
  "printed_line (copy_fields m (zero_expenses p)) g t = (if t = MovingExpenseTypeSTORAGE then None
     else Some (entry m (expense_words t @ paid_key g) (FormatDollars p 0)))"
  "TotalMemberPaid (copy_fields m (zero_expenses p)) = entry m (''Total'' @ paid_key False) (FormatDollars p 0)"
  "TotalGTCCPaid (copy_fields m (zero_expenses p)) = entry m (''Total'' @ paid_key True) (FormatDollars p 0)"
  by (cases t; cases g; simp add: copy_fields_def zero_expenses_def paid_key_def Let_def)
    (simp_all add: copy_fields_def zero_expenses_def paid_key_def Let_def)

lemma lower_keys_distinct:
  "distinct (map (map lower_char) (''StorageMemberPaid'' # ''StorageGTCCPaid'' # expense_fields))"
  by code_simp

lemma expense_key_known:
  assumes "SubTotalExpenses docs key \<noteq> None"
  shows "key \<in> set (''StorageMemberPaid'' # ''StorageGTCCPaid'' # expense_fields)"
proof -
  from assms obtain d where "counts_for key d" by (auto simp: SubTotalExpenses_eq Let_def filter_empty_conv split: if_splits)
  then consider "key = expense_words (me_MovingExpenseType d) @ paid_key (by_gtcc d)" | "key = ''Total'' @ paid_key (by_gtcc d)"
    by (auto simp: counts_for_def getExpenseType_words)
  then show ?thesis
  proof cases
    case 1
    then show ?thesis by (cases "me_MovingExpenseType d"; cases "by_gtcc d") (simp_all add: paid_key_def expense_fields_def)
  next
    case 2
    then show ?thesis by (cases "by_gtcc d") (simp_all add: paid_key_def expense_fields_def)
  qed
qed

text \<open>C27: the lines and totals of the worksheet are the exact sums of the cents by type and payment method, and
  the storage expenses, which have no line, are part of the totals.\<close>

theorem worksheet_expenses_exact:
  assumes "english_printer p" "copying decode" "list_all (\<lambda>d. small_amount (me_RequestedAmountCents d)) docs" "length docs \<le> 1000"
  shows "\<exists>e. FormatMovingExpenses p decode docs = Ret e
    \<and> (\<forall>g t. printed_line e g t = (if t = MovingExpenseTypeSTORAGE then None
         else Some (dollars (cents_of (\<lambda>d. me_MovingExpenseType d = t \<and> by_gtcc d = g) docs))))
    \<and> TotalMemberPaid e = dollars (cents_of (\<lambda>d. \<not> by_gtcc d) docs)
    \<and> TotalGTCCPaid e = dollars (cents_of by_gtcc docs)"
proof -
  let ?m = "\<lambda>key. map_option (FormatDollars p) (SubTotalExpenses docs key)"
  have "k = f" if "?m k \<noteq> None" "f \<in> set expense_fields" "map lower_char k = map lower_char f" for k f
  proof -
    have "SubTotalExpenses docs k \<noteq> None" using that(1) by auto
    with expense_key_known have "k \<in> set (''StorageMemberPaid'' # ''StorageGTCCPaid'' # expense_fields)" .
    moreover have "inj_on (map lower_char) (set (''StorageMemberPaid'' # ''StorageGTCCPaid'' # expense_fields))"
      using lower_keys_distinct unfolding distinct_map by (rule conjunct2)
    moreover have "f \<in> set (''StorageMemberPaid'' # ''StorageGTCCPaid'' # expense_fields)" using that(2) by simp
    ultimately show ?thesis using that(3) by (meson inj_onD)
  qed
  then have "FormatMovingExpenses p decode docs = Ret (copy_fields ?m (zero_expenses p))"
    unfolding FormatMovingExpenses_def by (rule assms(2) [unfolded copying_def, rule_format])
  moreover have "counts_for (expense_words t @ paid_key g) = (\<lambda>d. me_MovingExpenseType d = t \<and> by_gtcc d = g)"
    "counts_for (''Total'' @ paid_key False) = (\<lambda>d. \<not> by_gtcc d)" "counts_for (''Total'' @ paid_key True) = by_gtcc" for t g
    by (rule ext, simp only: counts_for_keys simp_thms)+
  ultimately show ?thesis
    using printed_entry [OF assms(1,3,4)]
    by (intro exI [of _ "copy_fields ?m (zero_expenses p)"]) (simp add: copied_line del: append_Cons)
qed

section \<open>The obligations\<close>

text \<open>What the worksheet relies on the computer of PPM costs for: in a context it is good for, costs are neither
  negative nor above the exact range of the arithmetic.\<close>

locale ppm_computer =
  fixes compute :: "'c \<Rightarrow> ppmComputer" and good :: "'c \<Rightarrow> bool"
  assumes cost_charged: "good c \<Longrightarrow> 0 \<le> w \<Longrightarrow> w \<le> 10 ^ 6 \<Longrightarrow> compute c w o5 d5 m d 0 = Ret cost
    \<Longrightarrow> 0 \<le> GCC cost \<and> GCC cost \<le> 5 * 10 ^ 15 \<and> 0 \<le> SITMax cost \<and> SITMax cost \<le> 5 * 10 ^ 15"
begin

lemma obligations_charged:
  assumes "good c" "ComputeObligations (compute c) planner ssfd = Ret obligations"
    "0 \<le> en_TotalWeight (fd_WeightAllotment ssfd)" "en_TotalWeight (fd_WeightAllotment ssfd) \<le> 10 ^ 6"
    "0 \<le> fd_PPMRemainingEntitlement ssfd" "fd_PPMRemainingEntitlement ssfd \<le> 10 ^ 6"
  shows "list_all (\<lambda>ob. 0 \<le> ob_Gcc ob \<and> ob_Gcc ob \<le> 5 * 10 ^ 15) [MaxObligation obligations, ActualObligation obligations]
    \<and> 0 \<le> ob_SIT (MaxObligation obligations) \<and> ob_SIT (MaxObligation obligations) \<le> 5 * 10 ^ 15
    \<and> ob_SIT (ActualObligation obligations) \<le> ob_SIT (MaxObligation obligations)"
  using assms(2) cost_charged [OF assms(1,3,4)] cost_charged [OF assms(1,5,6)]
  by (auto simp: ComputeObligations_def obind_eq_Ret map_fail_eq_Ret Let_def)

end

lemma advance_below:
  assumes "0 \<le> ob_Gcc ob" "ob_Gcc ob \<le> 5 * 10 ^ 15"
  shows "0 \<le> MaxAdvance ob \<and> MaxAdvance ob \<le> GCC95 ob \<and> GCC95 ob \<le> GCC100 ob"
proof -
  have e: "exact_amount (ob_Gcc ob)" using assms by (simp add: exact_amount_def)
  have f: "0 \<le> fl64 (60 / 100)" "fl64 (60 / 100) \<le> fl64 (95 / 100)" "fl64 (95 / 100) \<le> 1"
    using fl64_nonneg [of "60 / 100"] fl64_mono [of "60 / 100" "95 / 100"] fl64_mono [of "95 / 100" 1] by auto
  have m: "0 \<le> Cents_MultiplyFloat64 (ob_Gcc ob) (fl64 (60 / 100))"
    "Cents_MultiplyFloat64 (ob_Gcc ob) (fl64 (60 / 100)) \<le> Cents_MultiplyFloat64 (ob_Gcc ob) (fl64 (95 / 100))"
    "Cents_MultiplyFloat64 (ob_Gcc ob) (fl64 (95 / 100)) \<le> ob_Gcc ob"
    using cents.scaled_bounds [OF e assms(1), of "fl64 (60 / 100)"] cents.scaled_bounds [OF e assms(1), of "fl64 (95 / 100)"]
      cents.mul_mono_factor [OF e assms(1) f] f by linarith+
  have mono: "Cents_ToDollarFloat a \<le> Cents_ToDollarFloat b" if "a \<le> b" for a b
    unfolding Cents_ToDollarFloat_def using that by (intro fl64_mono divide_right_mono) auto
  have "0 = Cents_ToDollarFloat 0" by (simp add: Cents_ToDollarFloat_def)
  with mono [OF m(1)] mono [OF m(2)] mono [OF m(3)] show ?thesis by (simp add: MaxAdvance_def GCC95_def GCC100_def)
qed

lemma prorate_bounds:
  assumes "0 \<le> w" "w \<le> 10 ^ 6" "prorate w = (f, w')"
  shows "0 \<le> f" "f \<le> 1" "0 \<le> w'" "w' \<le> 10 ^ 6"
proof -
  have "0 \<le> f \<and> f \<le> 1 \<and> 0 \<le> w' \<and> w' \<le> 10 ^ 6"
  proof (cases "w < 1000")
    case True
    then have "0 \<le> Pound_Float64 w / 1000" "Pound_Float64 w / 1000 \<le> 1"
      using assms(1) fl64_of_int [of w] by (auto simp: Pound_Float64_def)
    from fl64_nonneg [OF this(1)] fl64_mono [OF this(2)] True assms(3) show ?thesis by (auto simp: prorate_less)
  qed (use assms in \<open>auto simp: prorate_ge\<close>)
  then show "0 \<le> f" "f \<le> 1" "0 \<le> w'" "w' \<le> 10 ^ 6" by auto
qed

text \<open>A rate engine on bounded tariffs with discounts between 0 and 1.\<close>

definition good_context :: "rate_context \<Rightarrow> bool" where
  "good_context rc \<longleftrightarrow> bounded_tariff (rc_tariff rc)
     \<and> (\<forall>q \<in> set (rc_performances rc). 0 \<le> tspp_LinehaulRate q \<and> tspp_LinehaulRate q \<le> 1 \<and> 0 \<le> tspp_SITRate q \<and> tspp_SITRate q \<le> 1)"


lemma ppm_cost_charged:
  assumes db: "bounded_tariff db" and w: "0 \<le> w" "w \<le> 10 ^ 6" and days: "0 \<le> days" "days \<le> 90"
    and r: "0 \<le> r" "r \<le> 1" and s: "0 \<le> s" "s \<le> 1" and ret: "ComputePPM db w o5 d5 m d days r s = Ret c"
  shows "0 \<le> GCC c \<and> GCC c \<le> 5 * 10 ^ 15 \<and> 0 \<le> SITMax c \<and> SITMax c \<le> 5 * 10 ^ 15"
proof -
  from ret obtain f w' lh nlh sc msc where f: "prorate w = (f, w')"
    and lh: "linehaulChargeComputation db w' o5 d5 m d = Ret lh" and nlh: "nonLinehaulChargeComputation db w' o5 d5 d = Ret nlh"
    and sc: "SitCharge db (ToCWT w') days (take 3 d5) d True = Ret sc" and msc: "SitCharge db (ToCWT w') 90 (take 3 d5) d True = Ret msc"
    and c: "c = CostComputation_Scale f (ppm_cost lh nlh sc msc r s w')"
    by (auto simp: ComputePPM_Ret)
  define c1 where "c1 = CostComputation_Scale 1 (ppm_cost lh nlh sc msc r s w')"
  note f' = prorate_bounds [OF w f]
  note L = linehaul_charges(1) [OF db f'(3,4) lh] and N = nonLinehaul_charges [OF db f'(3,4) nlh]
    and S = SitCharge_charges [OF db bounded_ToCWT [OF f'(3,4)] days sc msc]
  note C = ppm_cost_scaled [OF L N S(1-4) r s c1_def]
  have ch: "0 \<le> Apply q x \<and> Apply q x \<le> 10 ^ 15" if "charge x" "0 \<le> q" "q \<le> 1" for q x
    using Apply_charge [OF that] that by (simp add: charge_def)
  have g: "0 \<le> GCC c1 \<and> GCC c1 \<le> 5 * 10 ^ 15"
    using ch [OF L r] ch [OF N(1) r] ch [OF N(2) r] ch [OF N(3) r] ch [OF N(4) r] unfolding C(6) by linarith
  have t: "0 \<le> SITMax c1 \<and> SITMax c1 \<le> 5 * 10 ^ 15"
    using ch [OF S(3) s] ch [OF S(4) r] unfolding C(8) by linarith
  have "ppm_cost lh nlh sc msc r s w' = c1" unfolding c1_def
    using ppm_cost_scale_1 [OF db f'(3,4) days r s lh nlh sc msc] by simp
  then have e: "GCC c = Cents_MultiplyFloat64 (GCC c1) f" "SITMax c = Cents_MultiplyFloat64 (SITMax c1) f"
    by (simp_all add: c CostComputation_Scale_def)
  have ex: "exact_amount (GCC c1)" "exact_amount (SITMax c1)" using g t by (simp_all add: exact_amount_def)
  show ?thesis using cents.scaled_bounds [OF ex(1) _ f'(1,2)] cents.scaled_bounds [OF ex(2) _ f'(1,2)] g t unfolding e by linarith
qed

lemma discounts_good:
  assumes "good_context rc" "PPMDiscountFetch rc o5 d5 d = Ret (r, s)"
  shows "0 \<le> r \<and> r \<le> 1 \<and> 0 \<le> s \<and> s \<le> 1"
proof -
  have "\<exists>service. FetchDiscountRates rc o5 d5 service d = Ret (r, s)"
    using assms(2) by (auto simp: PPMDiscountFetch_def split: outcome.splits if_splits)
  then obtain q where "q \<in> set (rc_performances rc)" "tspp_LinehaulRate q = r" "tspp_SITRate q = s"
    by (auto simp: FetchDiscountRates_def obind_eq_Ret map_fail_eq_Ret dest!: first_row_sort_key)
  with assms(1) show ?thesis by (auto simp: good_context_def)
qed

interpretation engine: ppm_computer ComputePPMIncludingLHDiscount good_context
proof unfold_locales
  fix rc w o5 d5 m d cost
  assume g: "good_context rc" and w: "0 \<le> w" "w \<le> 10 ^ 6" and c: "ComputePPMIncludingLHDiscount rc w o5 d5 m d 0 = Ret cost"
  from c obtain r s where d: "PPMDiscountFetch rc o5 d5 d = Ret (r, s)" and p: "ComputePPM (rc_tariff rc) w o5 d5 m d 0 r s = Ret cost"
    by (auto simp: ComputePPMIncludingLHDiscount_def obind_eq_Ret)
  have "bounded_tariff (rc_tariff rc)" using g by (simp add: good_context_def)
  from ppm_cost_charged [OF this w _ _ _ _ _ _ p] discounts_good [OF g d]
  show "0 \<le> GCC cost \<and> GCC cost \<le> 5 * 10 ^ 15 \<and> 0 \<le> SITMax cost \<and> SITMax cost \<le> 5 * 10 ^ 15" by simp
qed

text \<open>With a good rate engine, the advance of the worksheet is at most its 95 percent line, which is at most
  the full cost, none is negative, and the storage charged is at most the maximum.\<close>

theorem obligations_bounded:
  assumes "good_context rc" "ComputeObligations (ComputePPMIncludingLHDiscount rc) planner ssfd = Ret obligations"
    "0 \<le> en_TotalWeight (fd_WeightAllotment ssfd)" "en_TotalWeight (fd_WeightAllotment ssfd) \<le> 10 ^ 6"
    "0 \<le> fd_PPMRemainingEntitlement ssfd" "fd_PPMRemainingEntitlement ssfd \<le> 10 ^ 6"
  shows "list_all (\<lambda>ob. 0 \<le> MaxAdvance ob \<and> MaxAdvance ob \<le> GCC95 ob \<and> GCC95 ob \<le> GCC100 ob)
      [MaxObligation obligations, ActualObligation obligations]
    \<and> FormatSIT (ActualObligation obligations) \<le> FormatSIT (MaxObligation obligations)"
proof -
  note e = engine.obligations_charged [OF assms]
  have "FormatSIT (ActualObligation obligations) \<le> FormatSIT (MaxObligation obligations)"
    unfolding FormatSIT_def Cents_ToDollarFloat_def using e by (intro fl64_mono divide_right_mono) auto
  with e advance_below show ?thesis by auto
qed

section \<open>Whose worksheet it is\<close>

interpretation worksheet_fetch: guarded_fetch "FetchDataShipmentSummaryWorksheetFormData stations" owns_move for stations
proof unfold_locales
  fix s w i x
  assume "IsMilApp s" "IsServiceMember s" "FetchDataShipmentSummaryWorksheetFormData stations w s i = Ret x"
  then show "owns_move w s i"
    by (auto simp: FetchDataShipmentSummaryWorksheetFormData_def outcome_simps Let_def dest!: payment_fetch.guarded [rotated 2])
qed (auto dest: owns_move_same)

lemma keep_advances_ok:
  assumes "keep_advances w session ppms = Ret qs" "list_all (\<lambda>p. pp_Advance p = None) ppms"
  shows "list_all (\<lambda>q. \<forall>a. pp_Advance q = Some a \<longrightarrow> rb_Status a = ReimbursementStatusAPPROVED \<or> rb_Status a = ReimbursementStatusPAID) qs"
  using assms
  by (induction ppms arbitrary: qs) (auto simp: outcome_simps split: option.splits if_splits)

lemma worksheet_parts:
  assumes "FetchDataShipmentSummaryWorksheetFormData stations w session moveID = Ret ssfd"
  shows "\<exists>move. keep_advances w session (mv_PersonallyProcuredMoves (worksheet_move w move)) = Ret (fd_PersonallyProcuredMoves ssfd)"
    and "FetchSignedCertificationsPPMPayment w session moveID = Ret (fd_SignedCertification ssfd)"
  using assms by (auto simp: FetchDataShipmentSummaryWorksheetFormData_def outcome_simps Let_def)

text \<open>A service member sees the worksheet of no one else's move, the worksheet shows only advances that
  are approved or paid, and it carries a payment certification of the move.\<close>

theorem worksheet_guarded:
  assumes "FetchDataShipmentSummaryWorksheetFormData stations w session moveID = Ret ssfd"
  shows "(IsMilApp session \<and> IsServiceMember session \<longrightarrow> owns_move w session moveID)
    \<and> list_all (\<lambda>q. \<forall>a. pp_Advance q = Some a \<longrightarrow> rb_Status a = ReimbursementStatusAPPROVED \<or> rb_Status a = ReimbursementStatusPAID)
        (fd_PersonallyProcuredMoves ssfd)
    \<and> sc_MoveID (fd_SignedCertification ssfd) = moveID
    \<and> sc_CertificationType (fd_SignedCertification ssfd) = Some SignedCertificationTypePPMPAYMENT"
proof -
  have c: "FetchSignedCertificationsPPMPayment w session moveID = Ret (fd_SignedCertification ssfd)" by (rule worksheet_parts(2) [OF assms])
  obtain move where k: "keep_advances w session (mv_PersonallyProcuredMoves (worksheet_move w move)) = Ret (fd_PersonallyProcuredMoves ssfd)"
    using worksheet_parts(1) [OF assms] ..
  have "list_all (\<lambda>p. pp_Advance p = None) (mv_PersonallyProcuredMoves (worksheet_move w move))"
    by (simp add: worksheet_move_def list_all_iff)
  from keep_advances_ok [OF k this] c worksheet_fetch.guarded [OF _ _ assms] show ?thesis
    by (auto simp: FetchSignedCertificationsPPMPayment_def obind_eq_Ret map_fail_eq_Ret dest!: first_row_filter_Ret)
qed


section \<open>Samples\<close>

definition weighed_move :: "Pound option \<Rightarrow> Move" where
  "weighed_move n = sample_move\<lparr>mv_Shipments := [sample_shipment\<lparr>shp_NetWeight := n\<rparr>],
     mv_PersonallyProcuredMoves := [sample_ppm\<lparr>pp_NetWeight := Some 3000\<rparr>]\<rparr>"

theorem remaining_entitlement_witness:
  "CalculateRemainingPPMEntitlement (weighed_move (Some 4000)) 6000 = Ret 2000
   \<and> (\<exists>e. CalculateRemainingPPMEntitlement (weighed_move None) 6000 = Fail e)"
proof -
  have w: "list_all (\<lambda>q. case pp_NetWeight q of Some n \<Rightarrow> 0 \<le> n | None \<Rightarrow> True) (take 1 (mv_PersonallyProcuredMoves (weighed_move n)))" for n
    by (simp add: weighed_move_def)
  from remaining_entitlement [OF w [of "Some 4000"], of 6000] remaining_entitlement [OF w [of None], of 6000] show ?thesis
    by (simp add: weighed_move_def split: outcome.splits)
qed

definition english :: printer where
  "english = \<lparr>pr_int = (\<lambda>n. (if n < 0 then ''-'' else '''') @ grouped (nat_digits (nat \<bar>n\<bar>))), pr_dollars = (\<lambda>x. dollars (rne (x * 100)))\<rparr>"

definition paid_expense :: "uuid \<Rightarrow> MovingExpenseType \<Rightarrow> Cents \<Rightarrow> string \<Rightarrow> MovingExpenseDocument" where
  "paid_expense i t c method = \<lparr>me_ID = i, me_MoveDocumentID = i, me_MovingExpenseType = t, me_RequestedAmountCents = c,
     me_PaymentMethod = method, me_ReceiptMissing = False, me_StorageStartDate = None, me_StorageEndDate = None\<rparr>"

theorem worksheet_expenses_exact_witness:
  "\<exists>e. FormatMovingExpenses english (\<lambda>m e. Ret (copy_fields m e))
      [paid_expense 71 MovingExpenseTypeGAS 10 ''OTHER'', paid_expense 72 MovingExpenseTypeGAS 20 ''OTHER'',
       paid_expense 73 MovingExpenseTypeSTORAGE 12345678 ''OTHER'', paid_expense 74 MovingExpenseTypeTOLLS 5 ''GTCC''] = Ret e
    \<and> GasMemberPaid e = ''$0.30'' \<and> TotalMemberPaid e = ''$123,457.08'' \<and> TotalGTCCPaid e = ''$0.05''"
proof -
  let ?docs = "[paid_expense 71 MovingExpenseTypeGAS 10 ''OTHER'', paid_expense 72 MovingExpenseTypeGAS 20 ''OTHER'',
       paid_expense 73 MovingExpenseTypeSTORAGE 12345678 ''OTHER'', paid_expense 74 MovingExpenseTypeTOLLS 5 ''GTCC'']"
  have p: "english_printer english" by (simp add: english_printer_def english_def)
  have d: "copying (\<lambda>m e. Ret (copy_fields m e))" by (simp add: copying_def)
  have s: "list_all (\<lambda>d. small_amount (me_RequestedAmountCents d)) ?docs" "length ?docs \<le> 1000"
    by (simp_all add: small_amount_def paid_expense_def)
  from worksheet_expenses_exact [OF p d s] obtain e where
    e: "FormatMovingExpenses english (\<lambda>m e. Ret (copy_fields m e)) ?docs = Ret e"
      "TotalMemberPaid e = dollars (cents_of (\<lambda>d. \<not> by_gtcc d) ?docs)" "TotalGTCCPaid e = dollars (cents_of by_gtcc ?docs)"
      "\<forall>g t. printed_line e g t = (if t = MovingExpenseTypeSTORAGE then None
         else Some (dollars (cents_of (\<lambda>d. me_MovingExpenseType d = t \<and> by_gtcc d = g) ?docs)))"
    by blast
  have l: "printed_line e False MovingExpenseTypeGAS = Some (dollars (cents_of (\<lambda>d. me_MovingExpenseType d = MovingExpenseTypeGAS \<and> by_gtcc d = False) ?docs))"
    using e(4) [rule_format, of False MovingExpenseTypeGAS] by (simp only: MovingExpenseType.distinct if_False)
  have c: "cents_of (\<lambda>d. \<not> by_gtcc d) ?docs = 12345708" "cents_of by_gtcc ?docs = 5"
    "cents_of (\<lambda>d. me_MovingExpenseType d = MovingExpenseTypeGAS \<and> by_gtcc d = False) ?docs = 30"
    by (simp_all add: cents_of_def by_gtcc_def paid_expense_def)
  have "dollars 12345708 = ''$123,457.08''" "dollars 5 = ''$0.05''" "dollars 30 = ''$0.30''"
    by (simp_all add: dollars_def grouped_def nat_digits.simps digit_char_def fixed_digits_numeral)
  with l c have "GasMemberPaid e = ''$0.30''" by simp
  with e(1-3) c \<open>dollars 12345708 = _\<close> \<open>dollars 5 = _\<close> show ?thesis by (intro exI [of _ e]) simp
qed

definition sample_worksheet :: ShipmentSummaryFormData where
  "sample_worksheet = \<lparr>fd_ServiceMember = zero_member, fd_Order = sample_orders, fd_CurrentDutyStation = zero_station,
     fd_NewDutyStation = zero_station,
     fd_WeightAllotment = \<lparr>en_Entitlement = 2000, en_ProGear = 0, en_SpouseProGear = 0, en_TotalWeight = 2000\<rparr>,
     fd_Shipments = [], fd_PersonallyProcuredMoves = [priced_ppm\<lparr>pp_ActualMoveDate := Some 5\<rparr>], fd_PreparationDate = 0,
     fd_Obligations = zero_obligations, fd_MovingExpenseDocuments = [], fd_PPMRemainingEntitlement = 2000,
     fd_SignedCertification = \<lparr>sc_ID = 60, sc_SubmittingUserID = 101, sc_MoveID = 2, sc_PersonallyProcuredMoveID = None,
       sc_ShipmentID = None, sc_CertificationType = Some SignedCertificationTypePPMPAYMENT, sc_CertificationText = '''',
       sc_Signature = '''', sc_Date = 5\<rparr>\<rparr>"

definition worksheet_rates :: rate_context where
  "worksheet_rates = sample_channel ''2'' [sample_performance 4 60 (1 / 8), sample_performance 5 90 (1 / 2)]"

theorem obligations_bounded_witness:
  "\<exists>obligations. ComputeObligations (ComputePPMIncludingLHDiscount worksheet_rates) (rc_planner worksheet_rates) sample_worksheet = Ret obligations
     \<and> MaxAdvance (MaxObligation obligations) \<le> GCC95 (MaxObligation obligations)"
proof -
  have g: "good_context worksheet_rates"
    using sample_bounded by (simp add: good_context_def worksheet_rates_def sample_channel_def sample_performance_def)
  obtain c where "ComputePPM sample_tariff 2000 ''90210'' ''30301'' 500 5 0 (1 / 2) (1 / 4) = Ret c"
    by (simp add: ComputePPM_def prorate_ge charge_defs fetch_defs sample_tariff_def sample_ToCWT Let_def SitCharge_pos MaxSITDays_def)
  then have "ComputePPMIncludingLHDiscount worksheet_rates 2000 ''90210'' ''30301'' 500 5 0 = Ret c"
    using sample_discounts by (simp add: ComputePPMIncludingLHDiscount_def worksheet_rates_def) (simp add: sample_channel_def)
  then obtain obligations where o: "ComputeObligations (ComputePPMIncludingLHDiscount worksheet_rates) (rc_planner worksheet_rates) sample_worksheet = Ret obligations"
    by (simp add: ComputeObligations_def nilCheckPPM_def sample_worksheet_def priced_ppm_def deref_def Let_def)
      (simp add: worksheet_rates_def sample_channel_def Let_def)
  from obligations_bounded [OF g o] o show ?thesis by (simp add: sample_worksheet_def)
qed

definition worksheet_tables :: tables where
  "worksheet_tables = sample_tables\<lparr>tb_ppms := [priced_ppm\<lparr>pp_Advance := None, pp_NetWeight := Some 1500\<rparr>], tb_shipments := [],
     tb_certifications := [fd_SignedCertification sample_worksheet]\<rparr>"

theorem worksheet_guarded_witness:
  "\<exists>ssfd. FetchDataShipmentSummaryWorksheetFormData [] worksheet_tables (member_session 104 1) 2 = Ret ssfd
     \<and> sc_MoveID (fd_SignedCertification ssfd) = 2"
proof -
  have "\<exists>ssfd. FetchDataShipmentSummaryWorksheetFormData [] worksheet_tables (member_session 104 1) 2 = Ret ssfd"
    by (simp add: FetchDataShipmentSummaryWorksheetFormData_def worksheet_tables_def sample_tables_def find_row_def sample_move_def Move.defs
        worksheet_move_def priced_ppm_def sample_ppm_def FetchPersonallyProcuredMove_def member_session_def move_owner_def loaded_ID_def
        sample_orders_def Order.defs load_advance_def find_option_def IsMilApp_def sample_member_def uuid_Nil_def FetchOrderForUser_def
        FetchMovingExpensesShipmentSummaryWorksheet_def FetchMovingExpenseDocuments_def IsOfficeApp_def
        CalculateRemainingPPMEntitlement_def first_net_weight_def Let_def FetchSignedCertificationsPPMPayment_def sample_worksheet_def
        FetchMove_def del: One_nat_def)
  then obtain ssfd where "FetchDataShipmentSummaryWorksheetFormData [] worksheet_tables (member_session 104 1) 2 = Ret ssfd" ..
  with worksheet_guarded [OF this] show ?thesis by auto
qed

end
