(* ===== verification/Uploads.thy ===== *)
theory Uploads
  imports DocumentHandlers Ledger EDI
begin

text \<open>
  Uploaded files: the uploader (\<open>pkg/uploader/uploader.go\<close>), the hook that gives a new upload its storage key
  (\<open>pkg/models/upload.go\<close>) and the handlers that create and delete uploads
  (\<open>pkg/handlers/internalapi/uploads.go\<close>).  The file storage (S3 or a directory behind \<open>storage.FileStorer\<close>) is a
  map from keys to contents; whether it takes or deletes a file, the content types it detects, its checksums and
  the text of an identifier are parameters.
\<close>

section \<open>The uploader\<close>

record storer =
  sr_content_type :: "string \<Rightarrow> string result"
  sr_checksum :: "string \<Rightarrow> string result"
  sr_store :: "string \<Rightarrow> goerr option"
  sr_delete :: "string \<Rightarrow> goerr option"
  sr_uuid_text :: "uuid \<Rightarrow> string"

type_synonym files = "string \<Rightarrow> string option"

definition AllowedTypesServiceMember :: "string list" where
  "AllowedTypesServiceMember = [''image/jpeg'', ''image/png'', ''application/pdf'']"

definition AllowedTypesText :: "string list" where
  "AllowedTypesText = [''text/plain'', ''text/plain; charset=utf-8'']"

text \<open>\<open>AllowedFileTypes.Contains\<close> and the check of \<open>StringInList\<close>.\<close>

definition Contains :: "string list \<Rightarrow> string \<Rightarrow> bool" where
  "Contains aft fileType \<longleftrightarrow> aft = [''*''] \<or> fileType \<in> set aft"

definition not_in_list :: "string list \<Rightarrow> string \<Rightarrow> string" where
  "not_in_list aft v = CHR 0x27 # v @ CHR 0x27 # '' is not in the list ['' @
     (case aft of [] \<Rightarrow> '''' | t # ts \<Rightarrow> t @ concat (map (\<lambda>t. '', '' @ t) ts)) @ ''].''"

text \<open>\<open>BeforeCreate\<close>: the storage key of an upload that has none.\<close>

definition default_key :: "storer \<Rightarrow> uuid \<Rightarrow> uuid \<Rightarrow> string" where
  "default_key sr uploader i = ''user/'' @ sr_uuid_text sr uploader @ ''/uploads/'' @ sr_uuid_text sr i"

definition new_upload :: "storer \<Rightarrow> string \<Rightarrow> uuid \<Rightarrow> uuid option \<Rightarrow> uuid \<Rightarrow> string \<Rightarrow> string \<Rightarrow> string \<Rightarrow> string \<Rightarrow> Upload" where
  "new_upload sr key i documentID userID name content contentType checksum =
     \<lparr>up_ID = i, up_DocumentID = documentID, up_UploaderID = userID, up_Filename = name, up_Bytes = int (length content),
       up_ContentType = contentType, up_Checksum = checksum,
       up_StorageKey = (if key = '''' then default_key sr userID i else key)\<rparr>"

text \<open>The row is created and the file stored in one transaction; \<open>key\<close> is the storage key that was set.\<close>

definition CreateUploadForDocument ::
    "storer \<Rightarrow> string \<Rightarrow> uuid option \<Rightarrow> uuid \<Rightarrow> string \<Rightarrow> string \<Rightarrow> string list \<Rightarrow> store \<times> files
      \<Rightarrow> ((store \<times> files) \<times> Upload option \<times> verrs \<times> goerr option) result" where
  "CreateUploadForDocument sr key documentID userID name content allowedTypes ws =
     (if content = '''' then Ret (ws, None, [], Some ErrZeroLengthFile)
      else case sr_content_type sr content of
        Panic \<Rightarrow> Panic
      | Fail e \<Rightarrow> Ret (ws, None, [], Some e)
      | Ret contentType \<Rightarrow>
          if \<not> Contains allowedTypes contentType then Ret (ws, None, [(''content_type'', [not_in_list allowedTypes contentType])], None)
          else case sr_checksum sr content of
            Panic \<Rightarrow> Panic
          | Fail e \<Rightarrow> Ret (ws, None, [], Some e)
          | Ret checksum \<Rightarrow>
              (case ws of (w, fs) \<Rightarrow>
                let newUpload = new_upload sr key (st_fresh w) documentID userID name content contentType checksum in
                case st_save_upload w newUpload of (verrs, err) \<Rightarrow>
                  if verrs \<noteq> [] \<or> err \<noteq> None
                  then Ret (ws, None, verrs, wrapped ''could not create upload'' (wrapped ''Error creating new upload'' err))
                  else (case sr_store sr (up_StorageKey newUpload) of
                      Some e \<Rightarrow> Ret (ws, None, [], Some (Wrap ''could not create upload'' (Wrap ''failed to store object'' e)))
                    | None \<Rightarrow> Ret ((w\<lparr>st_fresh := st_fresh w + 1, st_tables := tb_uploads_update (\<lambda>rows. rows @ [newUpload]) (st_tables w)\<rparr>,
                        fs(up_StorageKey newUpload \<mapsto> content)), Some newUpload, [], None))))"

text \<open>The file is deleted before the row.\<close>

definition DeleteUpload :: "storer \<Rightarrow> Upload \<Rightarrow> store \<times> files \<Rightarrow> (store \<times> files) \<times> goerr option" where
  "DeleteUpload sr upload ws = (case ws of (w, fs) \<Rightarrow>
     case sr_delete sr (up_StorageKey upload) of
       Some e \<Rightarrow> ((w, fs), Some e)
     | None \<Rightarrow> (let fs = fs(up_StorageKey upload := None) in
         case st_destroy w (up_ID upload) of
           Some e \<Rightarrow> ((w, fs), Some e)
         | None \<Rightarrow> ((w\<lparr>st_tables := tb_uploads_update (filter (\<lambda>u. up_ID u \<noteq> up_ID upload)) (st_tables w)\<rparr>, fs), None)))"

section \<open>The handlers\<close>

definition CreateUpload :: "storer \<Rightarrow> Session \<Rightarrow> uuid option \<Rightarrow> string \<Rightarrow> string \<Rightarrow> store \<times> files \<Rightarrow> (store \<times> files) \<times> Upload reply" where
  "CreateUpload sr session documentID name content ws =
     (case (case documentID of None \<Rightarrow> Ret None | Some d \<Rightarrow> obind (FetchDocument (st_tables (fst ws)) session d) (\<lambda>document. Ret (Some (doc_ID document)))) of
        Fail e \<Rightarrow> (ws, Refusal (ErrorResponse (ResponseForError (Some e))))
      | Panic \<Rightarrow> (ws, Crashed)
      | Ret docID \<Rightarrow>
          (case CreateUploadForDocument sr '''' docID (ss_UserID session) name content AllowedTypesServiceMember ws of
             Ret (ws', Some newUpload, verrs, err) \<Rightarrow> (ws', Reply 201 newUpload)
           | Ret (ws', None, verrs, err) \<Rightarrow> (ws', Refusal (ResponseForVErrors verrs err))
           | Fail e \<Rightarrow> (ws, Crashed)
           | Panic \<Rightarrow> (ws, Crashed)))"

definition DeleteUploadHandler :: "storer \<Rightarrow> Session \<Rightarrow> uuid \<Rightarrow> store \<times> files \<Rightarrow> (store \<times> files) \<times> unit reply" where
  "DeleteUploadHandler sr session uploadID ws =
     (case FetchUpload (st_tables (fst ws)) session uploadID of
        Fail e \<Rightarrow> (ws, Refusal (ErrorResponse (ResponseForError (Some e))))
      | Panic \<Rightarrow> (ws, Crashed)
      | Ret upload \<Rightarrow> (case DeleteUpload sr upload ws of
            (ws', Some e) \<Rightarrow> (ws', Refusal (ErrorResponse (ResponseForError (Some e))))
          | (ws', None) \<Rightarrow> (ws', Bare 204)))"

fun DeleteUploads :: "storer \<Rightarrow> Session \<Rightarrow> uuid list \<Rightarrow> store \<times> files \<Rightarrow> (store \<times> files) \<times> unit reply" where
  "DeleteUploads sr session [] ws = (ws, Bare 204)"
| "DeleteUploads sr session (i # is) ws = (case DeleteUploadHandler sr session i ws of
      (ws', Bare n) \<Rightarrow> DeleteUploads sr session is ws'
    | (ws', r) \<Rightarrow> (ws', r))"


section \<open>Every upload has its file\<close>

definition uuid_texts :: "storer \<Rightarrow> bool" where
  "uuid_texts sr \<longleftrightarrow> (\<forall>i j. sr_uuid_text sr i = sr_uuid_text sr j \<longrightarrow> i = j) \<and> (\<forall>i. CHR ''/'' \<notin> set (sr_uuid_text sr i))"

definition backed :: "storer \<Rightarrow> store \<times> files \<Rightarrow> bool" where
  "backed sr ws \<longleftrightarrow> keyed up_ID (tb_uploads (st_tables (fst ws))) (st_fresh (fst ws))
     \<and> (\<forall>u \<in> set (tb_uploads (st_tables (fst ws))). up_StorageKey u = default_key sr (up_UploaderID u) (up_ID u)
         \<and> (\<exists>content. snd ws (up_StorageKey u) = Some content \<and> up_Bytes u = int (length content)))"

lemma before_slash: "CHR ''/'' \<notin> set s \<Longrightarrow> dropWhile (\<lambda>c. c \<noteq> CHR ''/'') (s @ CHR ''/'' # t) = CHR ''/'' # t"
  by (induction s) auto

lemma default_key_inject:
  assumes "uuid_texts sr" "default_key sr a i = default_key sr b j"
  shows "i = j"
proof -
  have n: "CHR ''/'' \<notin> set (sr_uuid_text sr a)" "CHR ''/'' \<notin> set (sr_uuid_text sr b)" using assms(1) by (auto simp: uuid_texts_def)
  have "sr_uuid_text sr a @ CHR ''/'' # (''uploads/'' @ sr_uuid_text sr i) = sr_uuid_text sr b @ CHR ''/'' # (''uploads/'' @ sr_uuid_text sr j)"
    using assms(2) by (simp add: default_key_def)
  from arg_cong [OF this, of "dropWhile (\<lambda>c. c \<noteq> CHR ''/'')"] have "sr_uuid_text sr i = sr_uuid_text sr j"
    unfolding before_slash [OF n(1)] before_slash [OF n(2)] by simp
  with assms(1) show ?thesis by (simp add: uuid_texts_def)
qed

lemma CreateUploadForDocument_Ret:
  assumes "CreateUploadForDocument sr key d u n content ts (w, fs) = Ret (ws', up, verrs, err)" "up \<noteq> None \<or> ws' \<noteq> (w, fs)"
  shows "\<exists>contentType checksum. content \<noteq> '''' \<and> Contains ts contentType \<and> sr_content_type sr content = Ret contentType
    \<and> (let upload = new_upload sr key (st_fresh w) d u n content contentType checksum in
         up = Some upload \<and> ws' = (w\<lparr>st_fresh := st_fresh w + 1, st_tables := tb_uploads_update (\<lambda>rows. rows @ [upload]) (st_tables w)\<rparr>,
           fs(up_StorageKey upload \<mapsto> content)))"
  using assms by (auto simp: CreateUploadForDocument_def Let_def split: if_splits outcome.splits option.splits prod.splits)

lemma create_backed:
  assumes t: "uuid_texts sr" and b: "backed sr (w, fs)"
    and c: "CreateUploadForDocument sr '''' d u n content ts (w, fs) = Ret (ws', up, verrs, err)"
  shows "backed sr ws'"
proof (cases "ws' = (w, fs)")
  case False
  let ?rows = "tb_uploads (st_tables w)"
  from CreateUploadForDocument_Ret [OF c] False obtain ct cs where
    w': "ws' = (w\<lparr>st_fresh := st_fresh w + 1, st_tables := tb_uploads_update (\<lambda>rows. rows @ [new_upload sr '''' (st_fresh w) d u n content ct cs]) (st_tables w)\<rparr>,
      fs(default_key sr u (st_fresh w) \<mapsto> content))"
    by (auto simp: Let_def new_upload_def)
  have k: "keyed up_ID ?rows (st_fresh w)" using b by (simp add: backed_def)
  then have f: "\<forall>v \<in> set ?rows. up_ID v < st_fresh w" by (simp add: keyed_def)
  have "default_key sr (up_UploaderID v) (up_ID v) \<noteq> default_key sr u (st_fresh w)" if "v \<in> set ?rows" for v
    using default_key_inject [OF t] f that by fastforce
  with b k f show ?thesis unfolding w'
    by (fastforce simp: backed_def keyed_def new_upload_def less_Suc_eq)
qed (use b in simp)

lemma delete_backed:
  assumes t: "uuid_texts sr" and b: "backed sr (w, fs)" and ok: "st_destroy w (up_ID upload) = None"
    and m: "upload \<in> set (tb_uploads (st_tables w))" and d: "DeleteUpload sr upload (w, fs) = (ws', err)"
  shows "backed sr ws'"
proof (cases "sr_delete sr (up_StorageKey upload)")
  case None
  with d ok have w': "ws' = (w\<lparr>st_tables := tb_uploads_update (filter (\<lambda>u. up_ID u \<noteq> up_ID upload)) (st_tables w)\<rparr>, fs(up_StorageKey upload := None))"
    by (simp add: DeleteUpload_def Let_def)
  have "up_StorageKey v \<noteq> up_StorageKey upload" if "v \<in> set (tb_uploads (st_tables w))" "up_ID v \<noteq> up_ID upload" for v
    using b m that default_key_inject [OF t] by (auto simp: backed_def)
  with b show ?thesis unfolding w' by (auto simp: backed_def keyed_filter)
qed (use b d in \<open>simp add: DeleteUpload_def\<close>)

inductive upload_run :: "storer \<Rightarrow> store \<times> files \<Rightarrow> store \<times> files \<Rightarrow> bool" for sr where
  start: "upload_run sr ws ws"
| created: "upload_run sr ws ws1 \<Longrightarrow> CreateUpload sr session d name content ws1 = (ws2, r) \<Longrightarrow> upload_run sr ws ws2"
| deleted: "upload_run sr ws ws1 \<Longrightarrow> DeleteUploads sr session is ws1 = (ws2, r) \<Longrightarrow> upload_run sr ws ws2"

lemma handler_delete_backed:
  assumes "uuid_texts sr" "backed sr ws" "st_destroy (fst ws) = (\<lambda>_. None)" "DeleteUploadHandler sr session i ws = (ws', r)"
  shows "backed sr ws' \<and> st_destroy (fst ws') = (\<lambda>_. None)"
proof (cases "FetchUpload (st_tables (fst ws)) session i")
  case (Ret upload)
  then have m: "upload \<in> set (tb_uploads (st_tables (fst ws)))"
    by (auto simp: FetchUpload_def outcome_simps dest!: find_row_Ret split: option.splits if_splits)
  obtain ws1 err where d: "DeleteUpload sr upload (fst ws, snd ws) = (ws1, err)" by fastforce
  then have "ws' = ws1" using assms(4) Ret by (auto simp: DeleteUploadHandler_def split: option.splits)
  moreover have "st_destroy (fst ws1) = st_destroy (fst ws)"
    using d by (cases ws) (auto simp: DeleteUpload_def Let_def split: option.splits)
  ultimately show ?thesis using delete_backed [OF assms(1) _ _ m d] assms(2,3) by simp
qed (use assms in \<open>auto simp: DeleteUploadHandler_def\<close>)

lemma deletes_backed:
  assumes "uuid_texts sr" "backed sr ws" "st_destroy (fst ws) = (\<lambda>_. None)" "DeleteUploads sr session is ws = (ws', r)"
  shows "backed sr ws' \<and> st_destroy (fst ws') = (\<lambda>_. None)"
  using assms(2-)
proof (induction "is" arbitrary: ws)
  case (Cons i "is")
  obtain ws1 r1 where h: "DeleteUploadHandler sr session i ws = (ws1, r1)" by fastforce
  note b = handler_delete_backed [OF assms(1) Cons.prems(1,2) h]
  show ?case using Cons.IH [of ws1] Cons.prems(3) b h by (cases r1) auto
qed simp

text \<open>C35: as long as the database deletes the rows it is told to, every upload has its file, with the size that is
  recorded, through every sequence of requests that create and delete uploads.\<close>

theorem uploads_backed:
  assumes "uuid_texts sr" "upload_run sr ws ws'" "backed sr ws" "st_destroy (fst ws) = (\<lambda>_. None)"
  shows "backed sr ws'"
proof -
  from assms(2-) have "backed sr ws' \<and> st_destroy (fst ws') = (\<lambda>_. None)"
  proof (induction rule: upload_run.induct)
    case (created ws ws1 session d name content ws2 r)
    then have b: "backed sr (fst ws1, snd ws1)" "st_destroy (fst ws1) = (\<lambda>_. None)" by simp_all
    have "ws2 = ws1 \<or> (\<exists>docID up verrs err. CreateUploadForDocument sr '''' docID (ss_UserID session) name content AllowedTypesServiceMember
        (fst ws1, snd ws1) = Ret (ws2, up, verrs, err))"
      using created.hyps(2) by (force simp: CreateUpload_def split: outcome.splits option.splits)
    then show ?case
    proof
      assume "\<exists>docID up verrs err. CreateUploadForDocument sr '''' docID (ss_UserID session) name content AllowedTypesServiceMember
        (fst ws1, snd ws1) = Ret (ws2, up, verrs, err)"
      then obtain docID up verrs err where c: "CreateUploadForDocument sr '''' docID (ss_UserID session) name content AllowedTypesServiceMember
        (fst ws1, snd ws1) = Ret (ws2, up, verrs, err)" by blast
      have "st_destroy (fst ws2) = st_destroy (fst ws1)"
        using CreateUploadForDocument_Ret [OF c] by (cases "ws2 = ws1") (auto simp: Let_def)
      with create_backed [OF assms(1) b(1) c] b(2) show ?thesis by simp
    qed (use b in simp)
  next
    case (deleted ws ws1 session "is" ws2 r)
    then show ?case using deletes_backed [OF assms(1)] by blast
  qed simp
  then show ?thesis ..
qed

text \<open>When the database refuses to delete the row of an upload, its file is gone already: the answer is an error
  and the row stays without a file.\<close>

theorem refused_delete_loses_file:
  assumes "FetchUpload (st_tables w) session i = Ret upload" "sr_delete sr (up_StorageKey upload) = None" "st_destroy w (up_ID upload) = Some e"
  shows "DeleteUploadHandler sr session i (w, fs) = ((w, fs(up_StorageKey upload := None)), Refusal (ErrorResponse (ResponseForError (Some e))))
    \<and> upload \<in> set (tb_uploads (st_tables w))"
proof -
  have "upload \<in> set (tb_uploads (st_tables w))"
    using assms(1) by (auto simp: FetchUpload_def outcome_simps dest!: find_row_Ret split: option.splits if_splits)
  with assms show ?thesis by (simp add: DeleteUploadHandler_def DeleteUpload_def Let_def)
qed

text \<open>In the app of the service members an upload is deleted only by its owner, and created only on a document
  of the session's own service member.\<close>

theorem uploads_guarded:
  assumes "IsMilApp session" "IsServiceMember session"
  shows "(fst (DeleteUploadHandler sr session i ws) \<noteq> ws \<longrightarrow> owns_upload (st_tables (fst ws)) session i)
    \<and> (fst (CreateUpload sr session (Some d) name content ws) \<noteq> ws \<longrightarrow> owns_document (st_tables (fst ws)) session d)"
proof (intro conjI impI)
  assume "fst (DeleteUploadHandler sr session i ws) \<noteq> ws"
  then have "\<exists>u. FetchUpload (st_tables (fst ws)) session i = Ret u" by (auto simp: DeleteUploadHandler_def split: outcome.splits)
  with upload_fetch.guarded [OF assms] show "owns_upload (st_tables (fst ws)) session i" by blast
next
  assume "fst (CreateUpload sr session (Some d) name content ws) \<noteq> ws"
  then have "\<exists>x. FetchDocument (st_tables (fst ws)) session d = Ret x"
    by (cases "FetchDocument (st_tables (fst ws)) session d") (auto simp: CreateUpload_def)
  with document_fetch.guarded [OF assms] show "owns_document (st_tables (fst ws)) session d" by blast
qed


section \<open>Samples\<close>

definition sample_storer :: storer where
  "sample_storer = \<lparr>sr_content_type = (\<lambda>_. Ret ''image/png''), sr_checksum = (\<lambda>c. Ret (nat_digits (length c))),
     sr_store = (\<lambda>_. None), sr_delete = (\<lambda>_. None), sr_uuid_text = nat_digits\<rparr>"

lemma sample_uuid_texts: "uuid_texts sample_storer"
proof -
  have "i = j" if "nat_digits i = nat_digits j" for i j using that digits_value_nat by metis
  moreover have "CHR ''/'' \<notin> set (nat_digits i)" for i
    using nat_digits_digits [of i] by (auto simp: list_all_iff is_digit_def)
  ultimately show ?thesis by (auto simp: uuid_texts_def sample_storer_def)
qed

theorem uploads_backed_witness:
  "\<exists>ws r. CreateUpload sample_storer (member_session 101 1) None ''a.png'' ''xyz'' (sample_store, Map.empty) = (ws, Reply 201 r)
     \<and> snd ws (up_StorageKey r) = Some ''xyz'' \<and> backed sample_storer ws"
proof -
  have b: "backed sample_storer (sample_store, Map.empty)" by (simp add: backed_def keyed_def sample_store_def sample_tables_def uuid_Nil_def)
  obtain ws r where c: "CreateUpload sample_storer (member_session 101 1) None ''a.png'' ''xyz'' (sample_store, Map.empty) = (ws, Reply 201 r)"
    and f: "snd ws (up_StorageKey r) = Some ''xyz''"
    by (simp add: CreateUpload_def CreateUploadForDocument_def Contains_def AllowedTypesServiceMember_def sample_storer_def sample_store_def
        Let_def new_upload_def)
  have "upload_run sample_storer (sample_store, Map.empty) ws" by (rule upload_run.created [OF upload_run.start c])
  from uploads_backed [OF sample_uuid_texts this b] c f show ?thesis by (auto simp: sample_store_def)
qed

definition uploaded :: store where
  "uploaded = sample_store\<lparr>st_tables := sample_tables\<lparr>tb_uploads := [new_upload sample_storer '''' 44 None 101 ''a.png'' ''xyz'' ''image/png'' ''3'']\<rparr>,
     st_destroy := (\<lambda>_. Some (ErrMsg ''db''))\<rparr>"

theorem refused_delete_loses_file_witness:
  "\<exists>e. DeleteUploadHandler sample_storer (member_session 101 1) 44 (uploaded, [default_key sample_storer 101 44 \<mapsto> ''xyz''])
     = ((uploaded, Map.empty), Refusal e)"
proof -
  have f: "FetchUpload (st_tables uploaded) (member_session 101 1) 44 = Ret (new_upload sample_storer '''' 44 None 101 ''a.png'' ''xyz'' ''image/png'' ''3'')"
    by (simp add: FetchUpload_def uploaded_def find_row_def new_upload_def member_session_def)
  from refused_delete_loses_file [OF f, of sample_storer "ErrMsg ''db''" "[default_key sample_storer 101 44 \<mapsto> ''xyz'']"]
  show ?thesis by (simp add: sample_storer_def uploaded_def new_upload_def)
qed

theorem uploads_guarded_witness:
  "fst (DeleteUploadHandler sample_storer (member_session 105 5) 44 (uploaded, Map.empty)) = (uploaded, Map.empty)"
proof -
  have "\<not> owns_upload (st_tables uploaded) (member_session 105 5) 44"
    by (auto simp: owns_defs uploaded_def find_row_def new_upload_def member_session_def)
  with uploads_guarded [of "member_session 105 5" sample_storer 44 "(uploaded, Map.empty)" 0 "''''" "''''"] show ?thesis
    by (auto simp: member_session_def IsMilApp_def IsServiceMember_def uuid_Nil_def)
qed

end
