(* ===== verification/Invoicing.thy ===== *)
theory Invoicing
  imports Uploads WorksheetFormats StorageService
begin

text \<open>
  Invoices of delivered shipments (\<open>pkg/services/invoice\<close>, \<open>pkg/models/invoice.go\<close>, the handlers of
  \<open>pkg/handlers/internalapi/shipments.go\<close> and \<open>pkg/handlers/publicapi/invoices.go\<close>): the shipment with the line items to
  bill, the invoice number, creating the invoice, sending its EDI to GEX, recording the outcome on the invoice and
  its line items, and storing the EDI as an upload.  What the outside answers in one request (the database, GEX,
  the file storage, the sequence of control numbers, the clock) is an environment, a new one for each request; a
  panic leaves what was written before it.
\<close>

section \<open>Invoices and their world\<close>

datatype InvoiceStatus = InvoiceStatusDRAFT | InvoiceStatusINPROCESS | InvoiceStatusSUBMITTED
  | InvoiceStatusSUBMISSIONFAILURE | InvoiceStatusUPDATEFAILURE

record Invoice =
  in_ID :: uuid
  in_ApproverID :: uuid
  in_Status :: InvoiceStatus
  in_InvoiceNumber :: string
  in_InvoicedDate :: gotime
  in_ShipmentID :: uuid
  in_UploadID :: "uuid option"
  in_Upload :: "Upload option"

record inv_world =
  iw_store :: store
  iw_files :: files
  iw_shipments :: "invoice_shipment list"
  iw_line_items :: "ShipmentLineItem list"
  iw_invoices :: "Invoice list"
  iw_trackers :: "(string \<times> int) tracker"
  iw_office_users :: "uuid list"
  iw_fresh :: uuid
  iw_sent :: "string list"

record inv_env =
  ev_read :: "string \<Rightarrow> goerr option"
  ev_save_invoice :: "Invoice \<Rightarrow> verrs \<times> goerr option"
  ev_save_items :: "ShipmentLineItem list \<Rightarrow> verrs \<times> goerr option"
  ev_commits :: bool
  ev_gex :: "string \<Rightarrow> string \<Rightarrow> nat option result"
  ev_next_icn :: "int result"
  ev_now :: gotime
  ev_production :: bool
  ev_storer :: storer

definition reading :: "inv_env \<Rightarrow> string \<Rightarrow> 'a \<Rightarrow> 'a result" where
  "reading env what x = (case ev_read env what of Some e \<Rightarrow> Fail e | None \<Rightarrow> Ret x)"

definition bad :: "verrs \<times> goerr option \<Rightarrow> bool" where
  "bad answer \<longleftrightarrow> fst answer \<noteq> [] \<or> snd answer \<noteq> None"

section \<open>What is billed\<close>

text \<open>Line items that are approved or need no approval, without an invoice yet.\<close>

definition billable :: "uuid \<Rightarrow> ShipmentLineItem \<Rightarrow> bool" where
  "billable shipmentID li \<longleftrightarrow> (li_Status li = LineItemStatusAPPROVED \<or> \<not> it_RequiresPreApproval (li_Tariff400ngItem li))
     \<and> li_InvoiceID li = None \<and> li_ShipmentID li = shipmentID"

definition FetchShipmentForInvoice :: "inv_env \<Rightarrow> inv_world \<Rightarrow> uuid \<Rightarrow> invoice_shipment result" where
  "FetchShipmentForInvoice env w shipmentID =
     obind (first_row (filter (\<lambda>s. shp_ID (is_Shipment s) = shipmentID) (iw_shipments w))) (\<lambda>shipment.
     obind (reading env ''line items'' (filter (billable shipmentID) (iw_line_items w))) (\<lambda>lineItems.
     Ret (shipment\<lparr>is_Shipment := (is_Shipment shipment)\<lparr>shp_ShipmentLineItems := lineItems\<rparr>\<rparr>)))"

definition FetchInvoicesForShipment :: "inv_env \<Rightarrow> inv_world \<Rightarrow> uuid \<Rightarrow> Invoice list result" where
  "FetchInvoicesForShipment env w shipmentID = reading env ''invoices'' (filter (\<lambda>i. in_ShipmentID i = shipmentID) (iw_invoices w))"

definition FetchOfficeUserByID :: "inv_world \<Rightarrow> uuid \<Rightarrow> uuid result" where
  "FetchOfficeUserByID w i = first_row (filter (\<lambda>u. u = i) (iw_office_users w))"

section \<open>Invoice numbers\<close>

definition base_number :: "string \<times> int \<Rightarrow> int \<Rightarrow> string" where
  "base_number k sequenceNumber = fst k @ padded 2 (snd k mod 100) @ padded 4 sequenceNumber"

definition generateBaseInvoiceNumber :: "inv_env \<Rightarrow> string \<Rightarrow> int \<Rightarrow> inv_world \<Rightarrow> inv_world \<times> string result" where
  "generateBaseInvoiceNumber env scac year w =
     (if scac = '''' then (w, Fail (ErrMsg ''SCAC cannot be nil or empty string''))
      else if year \<le> 0 then (w, Fail (ErrMsg ''Year (%d) must be non-negative''))
      else (case ev_read env ''invoice number trackers'' of
          Some e \<Rightarrow> (w, Fail (Wrap ''Error when incrementing invoice sequence number for %s/%d'' e))
        | None \<Rightarrow> (case next_sequence (iw_trackers w) (scac, year) of
            (tr, n) \<Rightarrow> (w\<lparr>iw_trackers := tr\<rparr>, Ret (base_number (scac, year) n)))))"

definition createInvoiceNumber :: "inv_env \<Rightarrow> Shipment \<Rightarrow> inv_world \<Rightarrow> inv_world \<times> string result" where
  "createInvoiceNumber env shipment w =
     (case FetchInvoicesForShipment env w (shp_ID shipment) of
        Fail e \<Rightarrow> (w, Fail e) | Panic \<Rightarrow> (w, Panic)
      | Ret invoices \<Rightarrow>
          if invoices \<noteq> []
          then (w, Ret (takeWhile (\<lambda>c. c \<noteq> CHR ''-'') (in_InvoiceNumber (last invoices)) @ ''-'' @ padded 2 (int (length invoices))))
          else (case Accepted (shp_ShipmentOffers shipment) of
              Fail e \<Rightarrow> (w, Fail e) | Panic \<Rightarrow> (w, Panic)
            | Ret acceptedOffers \<Rightarrow>
                (case acceptedOffers of
                   [] \<Rightarrow> (w, Fail (ErrMsg ''No accepted shipment offer found''))
                 | [acceptedOffer] \<Rightarrow>
                     (case generateBaseInvoiceNumber env (tsp_StandardCarrierAlphaCode (offer_tsp acceptedOffer)) (time_Year (shp_CreatedAt shipment)) w of
                        (w', r) \<Rightarrow> (w', map_fail (Wrap ''Could not generate invoice number'') r))
                 | _ \<Rightarrow> (w, Fail (ErrMsg ''Found %d accepted shipment offers'')))))"

section \<open>Saving invoices\<close>

text \<open>The number of an invoice is unique in the database.\<close>

definition create_invoice :: "inv_env \<Rightarrow> Invoice \<Rightarrow> inv_world \<Rightarrow> inv_world \<times> Invoice \<times> verrs \<times> goerr option" where
  "create_invoice env invoice w = (case ev_save_invoice env invoice of (verrs, err) \<Rightarrow>
     if bad (verrs, err) then (w, invoice, verrs, err)
     else if list_ex (\<lambda>i. in_InvoiceNumber i = in_InvoiceNumber invoice) (iw_invoices w)
       then (w, invoice, [], Some (PqError ''unique_violation''))
     else (let y = invoice\<lparr>in_ID := iw_fresh w\<rparr> in (w\<lparr>iw_fresh := iw_fresh w + 1, iw_invoices := iw_invoices w @ [y]\<rparr>, y, [], None)))"

definition put_invoice :: "Invoice \<Rightarrow> inv_world \<Rightarrow> inv_world" where
  "put_invoice invoice w = w\<lparr>iw_invoices := map (\<lambda>i. if in_ID i = in_ID invoice then invoice else i) (iw_invoices w)\<rparr>"

definition CreateInvoice :: "inv_env \<Rightarrow> uuid \<Rightarrow> Shipment \<Rightarrow> inv_world \<Rightarrow> inv_world \<times> Invoice option \<times> verrs \<times> goerr option" where
  "CreateInvoice env approver shipment w = (case createInvoiceNumber env shipment w of
      (w', Panic) \<Rightarrow> (w', None, [], None)
    | (w', Fail e) \<Rightarrow> (w', None, [], Some (Wrap ''Could not create invoice number'' e))
    | (w', Ret invoiceNumber) \<Rightarrow>
        (case create_invoice env \<lparr>in_ID = uuid_Nil, in_ApproverID = approver, in_Status = InvoiceStatusINPROCESS,
            in_InvoiceNumber = invoiceNumber, in_InvoicedDate = ev_now env, in_ShipmentID = shp_ID shipment,
            in_UploadID = None, in_Upload = None\<rparr> w' of
           (w2, invoice, verrs, err) \<Rightarrow> (w2, Some invoice, verrs, err)))"

section \<open>Sending an invoice\<close>

text \<open>The body that is posted ends with one newline.\<close>

definition gex_body :: "string \<Rightarrow> string" where
  "gex_body edi = TrimSpace edi @ [CHR 0x0A]"

definition SendToGex :: "inv_env \<Rightarrow> string \<Rightarrow> string \<Rightarrow> inv_world \<Rightarrow> inv_world \<times> nat option result" where
  "SendToGex env edi transactionName w = (w\<lparr>iw_sent := iw_sent w @ [gex_body edi]\<rparr>, ev_gex env (gex_body edi) transactionName)"

definition generateAndSendInvoiceData ::
    "inv_env \<Rightarrow> Invoice \<Rightarrow> invoice_shipment \<Rightarrow> inv_world \<Rightarrow> inv_world \<times> (string option \<times> goerr option) result" where
  "generateAndSendInvoiceData env invoice shipment w =
     (case Generate858C shipment (in_ID invoice) (in_InvoiceNumber invoice) (ev_production env) (ev_next_icn env) (ev_now env) of
        Panic \<Rightarrow> (w, Panic)
      | Fail e \<Rightarrow> (w, Ret (None, Some e))
      | Ret invoice858C \<Rightarrow>
          (case EDIString invoice858C of
             Panic \<Rightarrow> (w, Panic)
           | Fail e \<Rightarrow> (w, Ret (None, Some e))
           | Ret s \<Rightarrow>
               (case SendToGex env s ''placeholder'' w of
                  (w', Panic) \<Rightarrow> (w', Panic)
                | (w', Fail e) \<Rightarrow> (w', Ret (Some s, Some e))
                | (w', Ret resp) \<Rightarrow>
                    (w', Ret (Some s, case resp of Some code \<Rightarrow> if code \<noteq> 200
                        then Some (ErrMsg ''Invoice POST request to GEX failed: response status code %d'') else None
                      | None \<Rightarrow> None)))))"

text \<open>Two errors at once: an error of its own.\<close>

definition multierror_Append :: "goerr \<Rightarrow> goerr \<Rightarrow> goerr" where
  "multierror_Append err cause = ErrMsg ''errors occurred''"

definition updateInvoiceFailed ::
    "inv_env \<Rightarrow> Invoice \<Rightarrow> InvoiceStatus \<Rightarrow> verrs \<Rightarrow> goerr option \<Rightarrow> inv_world \<Rightarrow> inv_world \<times> Invoice \<times> verrs \<times> goerr option" where
  "updateInvoiceFailed env invoice invoiceStatus causeVerrs cause w =
     (let invoice = invoice\<lparr>in_Status := invoiceStatus\<rparr> in
      case ev_save_invoice env invoice of (verrs, err) \<Rightarrow>
        if bad (verrs, err)
        then (w, invoice, verrs @ causeVerrs, case err of Some e \<Rightarrow> Some (case cause of Some c \<Rightarrow> multierror_Append e c | None \<Rightarrow> e) | None \<Rightarrow> cause)
        else (put_invoice invoice w, invoice, causeVerrs, cause))"

definition put_items :: "ShipmentLineItem list \<Rightarrow> inv_world \<Rightarrow> inv_world" where
  "put_items items w = w\<lparr>iw_line_items := map (\<lambda>li. case find (\<lambda>x. li_ID x = li_ID li) items of Some x \<Rightarrow> x | None \<Rightarrow> li) (iw_line_items w)\<rparr>"

text \<open>A transaction whose commit fails is rolled back, and the caller gets neither validation errors nor an error.\<close>

definition UpdateInvoiceSubmitted :: "inv_env \<Rightarrow> Invoice \<Rightarrow> ShipmentLineItem list \<Rightarrow> inv_world \<Rightarrow> inv_world \<times> Invoice \<times> verrs \<times> goerr option" where
  "UpdateInvoiceSubmitted env invoice shipmentLineItems w =
     (let invoice = invoice\<lparr>in_Status := InvoiceStatusSUBMITTED\<rparr> in
      case ev_save_invoice env invoice of (verrs, err) \<Rightarrow>
        if bad (verrs, err) then (w, invoice, verrs, err)
        else (let items = map (\<lambda>li. li\<lparr>li_InvoiceID := Some (in_ID invoice)\<rparr>) shipmentLineItems in
          case ev_save_items env items of (verrs, err) \<Rightarrow>
            if bad (verrs, err) then (w, invoice, verrs, err)
            else (if ev_commits env then put_items items (put_invoice invoice w) else w, invoice, [], None)))"

definition ProcessInvoice ::
    "inv_env \<Rightarrow> Invoice \<Rightarrow> invoice_shipment \<Rightarrow> inv_world \<Rightarrow> inv_world \<times> (Invoice \<times> string option \<times> verrs \<times> goerr option) result" where
  "ProcessInvoice env invoice shipment w =
     (case generateAndSendInvoiceData env invoice shipment w of
        (w1, Panic) \<Rightarrow> (w1, Panic)
      | (w1, Fail e) \<Rightarrow> (w1, Fail e)
      | (w1, Ret (ediString, Some e)) \<Rightarrow>
          (case updateInvoiceFailed env invoice InvoiceStatusSUBMISSIONFAILURE [] (Some e) w1 of
             (w2, invoice, verrs, err) \<Rightarrow> (w2, Ret (invoice, ediString, verrs, err)))
      | (w1, Ret (ediString, None)) \<Rightarrow>
          (case UpdateInvoiceSubmitted env invoice (shp_ShipmentLineItems (is_Shipment shipment)) w1 of
             (w2, invoice, verrs, err) \<Rightarrow>
               if bad (verrs, err)
               then (case updateInvoiceFailed env invoice InvoiceStatusUPDATEFAILURE verrs err w2 of
                   (w3, invoice, verrs, err) \<Rightarrow> (w3, Ret (invoice, ediString, verrs, err)))
               else (w2, Ret (invoice, ediString, [], None))))"

section \<open>Storing the EDI\<close>

text \<open>\<open>errors.Wrapf\<close> of a nil error is nil: validation errors alone are no error here.\<close>

definition saveInvoice :: "inv_env \<Rightarrow> Invoice \<Rightarrow> inv_world \<Rightarrow> inv_world \<times> goerr option" where
  "saveInvoice env invoice w = (case ev_save_invoice env invoice of (verrs, err) \<Rightarrow>
     if bad (verrs, err) then (w, errors_Wrap err ''error saving invoice with ID: '') else (put_invoice invoice w, None))"

text \<open>The previous upload: whether the invoice was saved without it is not looked at.\<close>

definition DeleteInvoiceUpload :: "inv_env \<Rightarrow> Invoice \<Rightarrow> inv_world \<Rightarrow> inv_world \<times> Invoice \<times> goerr option" where
  "DeleteInvoiceUpload env invoice w = (case in_Upload invoice of
      None \<Rightarrow> (w, invoice, None)
    | Some deleteUpload \<Rightarrow>
        (if up_StorageKey deleteUpload = '''' then (w, invoice, None)
         else (let invoice = invoice\<lparr>in_UploadID := None, in_Upload := None\<rparr>; w = fst (saveInvoice env invoice w) in
           case DeleteUpload (ev_storer env) deleteUpload (iw_store w, iw_files w) of
             ((st, fs), err) \<Rightarrow> (w\<lparr>iw_store := st, iw_files := fs\<rparr>, invoice, wrapped ''Failed to DeleteUpload for Upload.ID [%s] and StorageKey [%s]'' err))))"

definition UpdateInvoiceUpload :: "inv_env \<Rightarrow> Invoice \<Rightarrow> Upload \<Rightarrow> inv_world \<Rightarrow> inv_world \<times> Invoice \<times> goerr option" where
  "UpdateInvoiceUpload env invoice upload w =
     (let invoice = invoice\<lparr>in_Upload := Some upload, in_UploadID := Some (up_ID upload)\<rparr> in
      case saveInvoice env invoice w of
        (w', err) \<Rightarrow> (w', invoice, errors_Wrap err ''Could not save Invoice for UpdateInvoiceUpload -- save new upload''))"

definition edi_path :: "inv_env \<Rightarrow> uuid \<Rightarrow> string" where
  "edi_path env invoiceID = ''/app/invoice/'' @ sr_uuid_text (ev_storer env) invoiceID @ ''.edi''"

definition StoreInvoice858C :: "inv_env \<Rightarrow> string \<Rightarrow> Invoice \<Rightarrow> uuid \<Rightarrow> inv_world \<Rightarrow> inv_world \<times> (Invoice \<times> verrs \<times> goerr option) result" where
  "StoreInvoice858C env edi invoice userID w =
     (let ediTmpFile = edi_path env (in_ID invoice) in
      case DeleteInvoiceUpload env invoice w of (w1, invoice, _) \<Rightarrow>
      case CreateUploadForDocument (ev_storer env) ediTmpFile None userID ediTmpFile edi AllowedTypesText (iw_store w1, iw_files w1) of
        Panic \<Rightarrow> (w1, Panic) | Fail e \<Rightarrow> (w1, Fail e)
      | Ret ((st, fs), upload, verrs, err) \<Rightarrow>
          (let w2 = w1\<lparr>iw_store := st, iw_files := fs\<rparr> in
           case err of Some e \<Rightarrow> (w2, Ret (invoice, verrs, Some (Wrap ''Failed to Create Upload for StoreInvoice858C(), invoice ID: %s'' e)))
           | None \<Rightarrow> (case upload of
               None \<Rightarrow> (w2, Ret (invoice, verrs, Some (ErrMsg ''Failed to Create and Save new Upload object in database, invoice ID: '')))
             | Some upload \<Rightarrow>
                 (case UpdateInvoiceUpload env invoice upload w2 of
                    (w3, invoice, Some e) \<Rightarrow> (w3, Ret (invoice, verrs, Some (ErrMsg ''Failed to save Upload to Invoice: '')))
                  | (w3, invoice, None) \<Rightarrow> (w3, Ret (invoice, verrs, None))))))"

section \<open>The handlers\<close>

text \<open>\<open>ShipmentInvoiceHandler.Handle\<close>, in three parts: the checks, from the creation of the invoice on, and from the
  answer of \<open>ProcessInvoice\<close> on.\<close>

definition invoice_processed :: "inv_env \<Rightarrow> Session \<Rightarrow> inv_world \<times> (Invoice \<times> string option \<times> verrs \<times> goerr option) result \<Rightarrow> inv_world \<times> Invoice reply" where
  "invoice_processed env session outcome = (case snd outcome of
      Panic \<Rightarrow> (fst outcome, Crashed) | Fail e \<Rightarrow> (fst outcome, Crashed)
    | Ret answer \<Rightarrow> (case answer of (invoice, ediString, verrs, err) \<Rightarrow>
        if bad (verrs, err) then (fst outcome, Refusal (ResponseForVErrors verrs err))
        else (case ediString of None \<Rightarrow> (fst outcome, Crashed)
          | Some edi \<Rightarrow> (case StoreInvoice858C env edi invoice (ss_UserID session) (fst outcome) of
              (w, r) \<Rightarrow> (w, case r of Ret stored \<Rightarrow> Reply 200 (fst stored) | _ \<Rightarrow> Crashed)))))"

definition invoice_approved :: "inv_env \<Rightarrow> Session \<Rightarrow> invoice_shipment \<Rightarrow> uuid \<Rightarrow> inv_world \<Rightarrow> inv_world \<times> Invoice reply" where
  "invoice_approved env session shipment approver w =
     (case CreateInvoice env approver (is_Shipment shipment) w of (w1, created, verrs, err) \<Rightarrow>
        if bad (verrs, err) then (w1, Refusal (ResponseForVErrors verrs err))
        else (case created of None \<Rightarrow> (w1, Crashed)
          | Some invoice \<Rightarrow> invoice_processed env session (ProcessInvoice env invoice shipment w1)))"

definition ShipmentInvoice :: "inv_env \<Rightarrow> Session \<Rightarrow> uuid \<Rightarrow> inv_world \<Rightarrow> inv_world \<times> Invoice reply" where
  "ShipmentInvoice env session shipmentID w =
     (if \<not> IsOfficeUser session then (w, Bare 403) else
      case FetchShipmentForInvoice env w shipmentID of
        Panic \<Rightarrow> (w, Crashed) | Fail e \<Rightarrow> (w, Refusal (ErrorResponse (ResponseForError (Some e))))
      | Ret shipment \<Rightarrow>
      if shp_Status (is_Shipment shipment) \<noteq> ShipmentStatusDELIVERED then (w, Bare 412) else
      case FetchInvoicesForShipment env w shipmentID of
        Panic \<Rightarrow> (w, Crashed) | Fail e \<Rightarrow> (w, Refusal (ErrorResponse (ResponseForError (Some e))))
      | Ret existingInvoices \<Rightarrow>
      case find (\<lambda>i. in_Status i \<noteq> InvoiceStatusSUBMISSIONFAILURE) existingInvoices of
        Some i \<Rightarrow> (w, Reply 409 i)
      | None \<Rightarrow>
      case FetchOfficeUserByID w (ss_OfficeUserID session) of
        Panic \<Rightarrow> (w, Crashed) | Fail e \<Rightarrow> (w, Refusal (ErrorResponse (ResponseForError (Some e))))
      | Ret approver \<Rightarrow> invoice_approved env session shipment approver w)"

definition FetchInvoice :: "sit_world \<Rightarrow> inv_world \<Rightarrow> Session \<Rightarrow> uuid \<Rightarrow> Invoice result" where
  "FetchInvoice sw w session i = obind (find_row in_ID (iw_invoices w) i) (\<lambda>invoice.
     if IsTspUser session then obind (FetchShipmentForVerifiedTSPUser sw (ss_TspUserID session) (in_ShipmentID invoice)) (\<lambda>_. Ret invoice)
     else if \<not> IsOfficeUser session then Fail ErrFetchForbidden else Ret invoice)"

definition GetInvoice :: "sit_world \<Rightarrow> inv_world \<Rightarrow> Session option \<Rightarrow> uuid \<Rightarrow> Invoice reply" where
  "GetInvoice sw w session i = (case session of None \<Rightarrow> Bare 401 | Some session \<Rightarrow> on_success (FetchInvoice sw w session i) (Reply 200))"

end
