(* ===== verification/Billing.thy ===== *)
theory Billing
  imports Invoicing
begin

text \<open>
  What the invoices of \<open>Invoicing\<close> come to over any sequence of requests: a shipment has at most one invoice that is
  not a failed submission, a line item is billed once and only by a submitted invoice of its own shipment, the
  numbers of all invoices are different, and a reply of 200 means that everything billable was billed.  The lemmas
  follow one request through number, creation, sending and recording; they are composed at the handler.
\<close>

section \<open>One request, step by step\<close>

text \<open>A request takes at most one number from the trackers.\<close>

definition advanced :: "'k tracker \<Rightarrow> 'k tracker \<Rightarrow> bool" where
  "advanced tr tr' \<longleftrightarrow> tr' = tr \<or> (\<exists>k. tr' = fst (next_sequence tr k))"

lemma advanced_refl [simp]: "advanced tr tr"
  by (simp add: advanced_def)

lemma advanced_ok: "advanced tr tr' \<Longrightarrow> tracker_ok tr \<Longrightarrow> tracker_ok tr'"
  by (metis advanced_def next_sequence_ok prod.collapse)

lemma advanced_mono: "advanced tr tr' \<Longrightarrow> tr k = Some m \<Longrightarrow> \<exists>n. tr' k = Some n \<and> m \<le> n"
  by (auto simp: advanced_def next_sequence_def Let_def)

lemma createInvoiceNumber_world:
  "createInvoiceNumber env shipment w = (w', r) \<Longrightarrow> \<exists>tr. w' = w\<lparr>iw_trackers := tr\<rparr> \<and> advanced (iw_trackers w) tr"
proof -
  have same: "\<exists>tr. w = w\<lparr>iw_trackers := tr\<rparr> \<and> advanced (iw_trackers w) tr"
    by (rule exI [of _ "iw_trackers w"]) simp
  have next_number: "\<exists>t. w\<lparr>iw_trackers := fst (next_sequence (iw_trackers w) k)\<rparr> = w\<lparr>iw_trackers := t\<rparr> \<and> advanced (iw_trackers w) t" for k
    unfolding advanced_def by blast
  show "createInvoiceNumber env shipment w = (w', r) \<Longrightarrow> \<exists>tr. w' = w\<lparr>iw_trackers := tr\<rparr> \<and> advanced (iw_trackers w) tr"
    using same next_number
    by (auto simp: createInvoiceNumber_def generateBaseInvoiceNumber_def case_prod_beta
      split: outcome.splits if_splits list.splits option.splits)
qed

definition new_invoice :: "inv_env \<Rightarrow> uuid \<Rightarrow> uuid \<Rightarrow> string \<Rightarrow> uuid \<Rightarrow> Invoice" where
  "new_invoice env approver shipmentID n i = \<lparr>in_ID = i, in_ApproverID = approver, in_Status = InvoiceStatusINPROCESS,
     in_InvoiceNumber = n, in_InvoicedDate = ev_now env, in_ShipmentID = shipmentID, in_UploadID = None, in_Upload = None\<rparr>"

lemma CreateInvoice_cases:
  assumes "CreateInvoice env approver shipment w = (w', created, verrs, err)"
  obtains (none) tr where "w' = w\<lparr>iw_trackers := tr\<rparr>" "advanced (iw_trackers w) tr" "\<not> bad (verrs, err) \<Longrightarrow> created = None"
  | (made) tr n where "createInvoiceNumber env shipment w = (w\<lparr>iw_trackers := tr\<rparr>, Ret n)" "advanced (iw_trackers w) tr"
      "n \<notin> in_InvoiceNumber ` set (iw_invoices w)"
      "created = Some (new_invoice env approver (shp_ID shipment) n (iw_fresh w))" "\<not> bad (verrs, err)"
      "w' = w\<lparr>iw_trackers := tr, iw_fresh := iw_fresh w + 1,
        iw_invoices := iw_invoices w @ [new_invoice env approver (shp_ID shipment) n (iw_fresh w)]\<rparr>"
proof -
  obtain w1 r where num: "createInvoiceNumber env shipment w = (w1, r)" by fastforce
  obtain tr where w1: "w1 = w\<lparr>iw_trackers := tr\<rparr>" "advanced (iw_trackers w) tr" using createInvoiceNumber_world [OF num] by blast
  show thesis
  proof (cases r)
    case (Ret n)
    show ?thesis
    proof (cases "\<not> bad (verrs, err)")
      case True
      then show ?thesis using made [of tr n] assms num w1 Ret
        by (auto simp: CreateInvoice_def create_invoice_def new_invoice_def bad_def Let_def list_ex_iff split: if_splits prod.splits)
    next
      case False
      then have "w' = w\<lparr>iw_trackers := tr\<rparr>" using assms num w1 Ret
        by (auto simp: CreateInvoice_def create_invoice_def bad_def Let_def split: if_splits prod.splits)
      with False w1 show ?thesis using none by blast
    qed
  qed (use none [of tr] assms num w1 in \<open>auto simp: CreateInvoice_def\<close>)
qed

lemma generateAndSend_world:
  "generateAndSendInvoiceData env invoice shipment w = (w', r) \<Longrightarrow> \<exists>s. w' = w\<lparr>iw_sent := s\<rparr>"
proof -
  have id: "\<exists>s. w = w\<lparr>iw_sent := s\<rparr>" by (rule exI [of _ "iw_sent w"]) simp
  show "generateAndSendInvoiceData env invoice shipment w = (w', r) \<Longrightarrow> \<exists>s. w' = w\<lparr>iw_sent := s\<rparr>"
    using id
    by (auto simp: generateAndSendInvoiceData_def SendToGex_def split: outcome.splits option.splits prod.splits)
qed

lemma generateAndSend_sent:
  assumes "generateAndSendInvoiceData env invoice shipment w = (w', Ret (edi, None))"
  shows "\<exists>e. edi = Some e \<and> w' = w\<lparr>iw_sent := iw_sent w @ [gex_body e]\<rparr>
    \<and> snd (SendToGex env e ''placeholder'' w) \<in> {Ret None, Ret (Some 200)}"
  using assms by (auto simp: generateAndSendInvoiceData_def SendToGex_def split: outcome.splits option.splits if_splits)

text \<open>The invoice under way is the last one.\<close>

lemma put_last_invoice:
  "in_ID z = in_ID y \<Longrightarrow> \<forall>i \<in> set invs. in_ID i \<noteq> in_ID y \<Longrightarrow> iw_invoices w = invs @ [y] \<Longrightarrow>
   put_invoice z w = w\<lparr>iw_invoices := invs @ [z]\<rparr>"
proof -
  assume a: "in_ID z = in_ID y" "\<forall>i \<in> set invs. in_ID i \<noteq> in_ID y" "iw_invoices w = invs @ [y]"
  have "map (\<lambda>i. if in_ID i = in_ID z then z else i) invs = invs" using a by (intro map_idI) auto
  then show ?thesis using a by (simp add: put_invoice_def)
qed

definition tie :: "uuid \<Rightarrow> (ShipmentLineItem \<Rightarrow> bool) \<Rightarrow> ShipmentLineItem list \<Rightarrow> ShipmentLineItem list" where
  "tie i P items = map (\<lambda>li. if P li then li\<lparr>li_InvoiceID := Some i\<rparr> else li) items"

lemma find_tied:
  assumes "distinct (map li_ID items)" "li \<in> set items"
  shows "find (\<lambda>x. li_ID x = li_ID li) (map (\<lambda>li. li\<lparr>li_InvoiceID := Some i\<rparr>) (filter P items))
    = (if P li then Some (li\<lparr>li_InvoiceID := Some i\<rparr>) else None)"
  using assms
proof (induction items)
  case (Cons x items)
  have absent: "find (\<lambda>x. li_ID x = li_ID li) (map (\<lambda>li. li\<lparr>li_InvoiceID := Some i\<rparr>) (filter P items)) = None"
    if "li = x"
    using Cons.prems that by (auto simp: find_None_iff) (metis imageI)
  show ?case
  proof (cases "li = x")
    case True
    with absent show ?thesis by simp
  next
    case False
    with Cons.prems have "li \<in> set items" "li_ID x \<noteq> li_ID li" by (auto simp: rev_image_eqI)
    with Cons show ?thesis by simp
  qed
qed simp

lemma put_tied_items:
  assumes "distinct (map li_ID (iw_line_items w))"
  shows "put_items (map (\<lambda>li. li\<lparr>li_InvoiceID := Some i\<rparr>) (filter P (iw_line_items w))) w
    = w\<lparr>iw_line_items := tie i P (iw_line_items w)\<rparr>"
  by (auto simp: put_items_def tie_def find_tied [OF assms] intro!: inv_world.equality)

lemma updateInvoiceFailed_cases:
  assumes "updateInvoiceFailed env z st causeVerrs cause w = (w', iv, verrs, err)"
    and "in_ID z = in_ID y" "\<forall>i \<in> set invs. in_ID i \<noteq> in_ID y" "iw_invoices w = invs @ [y]"
  shows "iv = z\<lparr>in_Status := st\<rparr> \<and> (w' = w \<or> w' = w\<lparr>iw_invoices := invs @ [iv]\<rparr>) \<and> (bad (causeVerrs, cause) \<longrightarrow> bad (verrs, err))"
proof -
  have put: "put_invoice (z\<lparr>in_Status := st\<rparr>) w = w\<lparr>iw_invoices := invs @ [z\<lparr>in_Status := st\<rparr>]\<rparr>"
    using assms by (intro put_last_invoice) auto
  show ?thesis using assms(1) put
    by (auto simp: updateInvoiceFailed_def Let_def bad_def split: prod.splits if_splits option.splits)
qed

lemma UpdateInvoiceSubmitted_cases:
  assumes run: "UpdateInvoiceSubmitted env y (filter P (iw_line_items w)) w = (w', iv, verrs, err)"
    and fresh: "\<forall>i \<in> set invs. in_ID i \<noteq> in_ID y" "iw_invoices w = invs @ [y]" and d: "distinct (map li_ID (iw_line_items w))"
  shows "iv = y\<lparr>in_Status := InvoiceStatusSUBMITTED\<rparr>
    \<and> w' = (if bad (verrs, err) \<or> \<not> ev_commits env then w
        else w\<lparr>iw_invoices := invs @ [iv], iw_line_items := tie (in_ID y) P (iw_line_items w)\<rparr>)"
proof -
  let ?y = "y\<lparr>in_Status := InvoiceStatusSUBMITTED\<rparr>" and ?w = "w\<lparr>iw_invoices := invs @ [y\<lparr>in_Status := InvoiceStatusSUBMITTED\<rparr>]\<rparr>"
  have put: "put_invoice ?y w = ?w" using fresh by (intro put_last_invoice) auto
  have items: "put_items (map (\<lambda>li. li\<lparr>li_InvoiceID := Some (in_ID y)\<rparr>) (filter P (iw_line_items w))) ?w
      = ?w\<lparr>iw_line_items := tie (in_ID y) P (iw_line_items w)\<rparr>"
    using put_tied_items [of ?w "in_ID y" P] d by simp
  show ?thesis using run put items
    by (auto simp: UpdateInvoiceSubmitted_def Let_def split: prod.splits if_splits) (auto simp: bad_def)
qed

text \<open>What \<open>ProcessInvoice\<close> may leave of the books: the invoice with a status, and the line items either as they
  were or, under a submitted invoice, billed.\<close>

lemma ProcessInvoice_cases:
  assumes run: "ProcessInvoice env y shipment w = (w', r)" and bill: "shp_ShipmentLineItems (is_Shipment shipment) = filter P (iw_line_items w)"
    and fresh: "\<forall>i \<in> set invs. in_ID i \<noteq> in_ID y" "iw_invoices w = invs @ [y]" and d: "distinct (map li_ID (iw_line_items w))"
  obtains (unbilled) s st where "w' = w\<lparr>iw_sent := s, iw_invoices := invs @ [y\<lparr>in_Status := st\<rparr>]\<rparr>"
      "\<And>iv edi verrs err. r = Ret (iv, edi, verrs, err) \<Longrightarrow> \<not> bad (verrs, err) \<Longrightarrow>
        iv = y\<lparr>in_Status := InvoiceStatusSUBMITTED\<rparr> \<and> \<not> ev_commits env \<and> st = in_Status y
        \<and> (\<exists>e. s = iw_sent w @ [gex_body e] \<and> snd (SendToGex env e ''placeholder'' w) \<in> {Ret None, Ret (Some 200)})"
  | (billed) edi where "w' = w\<lparr>iw_sent := iw_sent w @ [gex_body edi], iw_invoices := invs @ [y\<lparr>in_Status := InvoiceStatusSUBMITTED\<rparr>],
        iw_line_items := tie (in_ID y) P (iw_line_items w)\<rparr>"
      "r = Ret (y\<lparr>in_Status := InvoiceStatusSUBMITTED\<rparr>, Some edi, [], None)" "ev_commits env"
      "snd (SendToGex env edi ''placeholder'' w) \<in> {Ret None, Ret (Some 200)}"
proof -
  obtain w1 g where gen: "generateAndSendInvoiceData env y shipment w = (w1, g)" by fastforce
  obtain s where w1: "w1 = w\<lparr>iw_sent := s\<rparr>" using generateAndSend_world [OF gen] by blast
  have last1: "iw_invoices w1 = invs @ [y]" and items1: "iw_line_items w1 = iw_line_items w" using fresh w1 by simp_all
  have same: "w\<lparr>iw_sent := s, iw_invoices := invs @ [y\<lparr>in_Status := in_Status y\<rparr>]\<rparr> = w1" using fresh w1 by simp
  show thesis
  proof (cases "\<exists>edi. g = Ret (edi, None)")
    case False
    then consider (stop) "w' = w1" "\<not> is_ret r"
      | (failed) e edi where "g = Ret (edi, Some e)" by (cases g) (use run gen in \<open>auto simp: ProcessInvoice_def is_ret_iff\<close>)
    then show thesis
    proof cases
      case stop
      then show thesis using unbilled [of "in_Status y" s] same by (auto simp: is_ret_iff)
    next
      case (failed e edi)
      obtain w2 iv verrs err where u: "updateInvoiceFailed env y InvoiceStatusSUBMISSIONFAILURE [] (Some e) w1 = (w2, iv, verrs, err)"
        by (metis prod_cases4)
      have r: "w' = w2" "r = Ret (iv, edi, verrs, err)" using run gen failed u by (auto simp: ProcessInvoice_def)
      note c = updateInvoiceFailed_cases [OF u refl fresh(1) last1]
      then have "bad (verrs, err)" by (simp add: bad_def)
      with c r show thesis
        using unbilled [of "in_Status y" s] unbilled [of InvoiceStatusSUBMISSIONFAILURE s] same w1 by auto
    qed
  next
    case True
    then obtain edi where g: "g = Ret (edi, None)" by blast
    obtain w2 iv verrs err where u: "UpdateInvoiceSubmitted env y (filter P (iw_line_items w1)) w1 = (w2, iv, verrs, err)"
      by (metis prod_cases4)
    note c = UpdateInvoiceSubmitted_cases [OF u fresh(1) last1, unfolded items1, OF d]
    show thesis
    proof (cases "bad (verrs, err)")
      case bad: True
      obtain w3 iv2 verrs2 err2 where f: "updateInvoiceFailed env iv InvoiceStatusUPDATEFAILURE verrs err w2 = (w3, iv2, verrs2, err2)"
        by (metis prod_cases4)
      have r: "w' = w3" "r = Ret (iv2, edi, verrs2, err2)" using run gen g u f bad bill items1 by (auto simp: ProcessInvoice_def)
      have w2: "w2 = w1" and iv: "in_ID iv = in_ID y" using c bad by auto
      note c3 = updateInvoiceFailed_cases [OF f iv fresh(1) last1 [folded w2]]
      have y2: "iv2 = y\<lparr>in_Status := InvoiceStatusUPDATEFAILURE\<rparr>" using c c3 by simp
      show thesis using c3 bad r w2 y2
        using unbilled [of "in_Status y" s] unbilled [of InvoiceStatusUPDATEFAILURE s] same w1 by auto
    next
      case good: False
      have r: "w' = w2" "r = Ret (iv, edi, [], None)" using run gen g u good bill items1 by (auto simp: ProcessInvoice_def)
      obtain e where e: "edi = Some e" "w1 = w\<lparr>iw_sent := iw_sent w @ [gex_body e]\<rparr>"
          "snd (SendToGex env e ''placeholder'' w) \<in> {Ret None, Ret (Some 200)}"
        using generateAndSend_sent [OF gen [unfolded g]] by blast
      show thesis
      proof (cases "ev_commits env")
        case False
        have s: "s = iw_sent w @ [gex_body e]" using w1 e(2) by (metis inv_world.select_convs(9) inv_world.surjective inv_world.update_convs(9))
        have "w' = w\<lparr>iw_sent := s, iw_invoices := invs @ [y\<lparr>in_Status := in_Status y\<rparr>]\<rparr>" using same c good r(1) False by simp
        then show thesis by (rule unbilled [of "in_Status y" s]) (use c False r(2) s e(3) in auto)
      next
        case True
        show thesis using True c good r e billed [of e] by auto
      qed
    qed
  qed
qed

lemma StoreInvoice858C_cases:
  assumes run: "StoreInvoice858C env edi z userID w = (w', r)" and z: "in_ID z = in_ID y" "in_Upload z = None"
    and fresh: "\<forall>i \<in> set invs. in_ID i \<noteq> in_ID y" "iw_invoices w = invs @ [y]"
  obtains st fs y' where "w' = w\<lparr>iw_store := st, iw_files := fs, iw_invoices := invs @ [y']\<rparr>"
    "y' = y \<or> (\<exists>up. y' = z\<lparr>in_Upload := Some up, in_UploadID := Some (up_ID up)\<rparr>)"
    "\<And>stored. r = Ret stored \<Longrightarrow> in_ID (fst stored) = in_ID y"
proof -
  have same: "w\<lparr>iw_store := st, iw_files := fs, iw_invoices := invs @ [y]\<rparr> = w\<lparr>iw_store := st, iw_files := fs\<rparr>" for st fs
    using fresh by (intro inv_world.equality) simp_all
  have none: "DeleteInvoiceUpload env z w = (w, z, None)" using z by (simp add: DeleteInvoiceUpload_def)
  define c where "c = CreateUploadForDocument (ev_storer env) (edi_path env (in_ID z)) None userID (edi_path env (in_ID z)) edi
    AllowedTypesText (iw_store w, iw_files w)"
  show thesis
  proof (cases "\<exists>st fs up verrs. c = Ret ((st, fs), Some up, verrs, None)")
    case False
    have "\<exists>st fs. w' = w\<lparr>iw_store := st, iw_files := fs\<rparr>"
    proof (cases "is_ret c")
      case True
      then obtain st fs x where "c = Ret ((st, fs), x)" by (auto simp: is_ret_iff)
      then have "w' = w\<lparr>iw_store := st, iw_files := fs\<rparr>" using run none False
        by (cases x) (auto simp: StoreInvoice858C_def c_def [symmetric] Let_def split: option.splits)
      then show ?thesis by blast
    next
      case False
      then have "w' = w" using run none by (cases c) (auto simp: StoreInvoice858C_def c_def [symmetric] Let_def)
      then have "w' = w\<lparr>iw_store := iw_store w, iw_files := iw_files w\<rparr>" by simp
      then show ?thesis by blast
    qed
    then obtain st fs where "w' = w\<lparr>iw_store := st, iw_files := fs\<rparr>" by blast
    moreover have "fst stored = z" if "r = Ret stored" for stored
      using run none False that
      by (auto simp: StoreInvoice858C_def c_def [symmetric] Let_def split: outcome.splits option.splits prod.splits)
    ultimately show thesis using that [of y fs st] same z by simp
  next
    case True
    then obtain st fs up verrs where c: "c = Ret ((st, fs), Some up, verrs, None)" by blast
    let ?w = "w\<lparr>iw_store := st, iw_files := fs\<rparr>" and ?z = "z\<lparr>in_Upload := Some up, in_UploadID := Some (up_ID up)\<rparr>"
    have put: "put_invoice ?z ?w = ?w\<lparr>iw_invoices := invs @ [?z]\<rparr>" using z fresh by (intro put_last_invoice) auto
    obtain w3 iv e where u: "UpdateInvoiceUpload env z up ?w = (w3, iv, e)" by (metis prod_cases3)
    have w3: "iv = ?z \<and> (w3 = ?w \<or> w3 = ?w\<lparr>iw_invoices := invs @ [?z]\<rparr>)"
      using u put by (auto simp: UpdateInvoiceUpload_def saveInvoice_def Let_def split: prod.splits if_splits)
    have "w' = w3 \<and> (\<exists>v e. r = Ret (iv, v, e))"
      using run none c u by (cases e) (auto simp: StoreInvoice858C_def c_def [symmetric] Let_def)
    then obtain v e where r: "w' = w3" "r = Ret (iv, v, e)" by blast
    have ex: "?z = y \<or> (\<exists>u. ?z = z\<lparr>in_Upload := Some u, in_UploadID := Some (up_ID u)\<rparr>)" by blast
    show thesis
    proof (cases "w3 = ?w")
      case True
      then show thesis using that [of y fs st] r w3 z same by simp
    next
      case False
      then show thesis using that [OF _ ex, of fs st] r w3 z by simp
    qed
  qed
qed

section \<open>The whole request\<close>

definition ids_fresh :: "inv_world \<Rightarrow> bool" where
  "ids_fresh w \<longleftrightarrow> (\<forall>i \<in> set (iw_invoices w). in_ID i < iw_fresh w) \<and> distinct (map li_ID (iw_line_items w))"

text \<open>What a request may leave behind once an invoice was created, and what a reply of 200 says about it.\<close>

definition billing :: "inv_env \<Rightarrow> uuid \<Rightarrow> inv_world \<Rightarrow> inv_world \<Rightarrow> Invoice \<Rightarrow> bool" where
  "billing env s w w' z \<longleftrightarrow> iw_invoices w' = iw_invoices w @ [z] \<and> in_ID z = iw_fresh w \<and> in_ShipmentID z = s
     \<and> iw_fresh w' = iw_fresh w + 1 \<and> iw_shipments w' = iw_shipments w
     \<and> (iw_line_items w' = iw_line_items w
        \<or> in_Status z = InvoiceStatusSUBMITTED \<and> iw_line_items w' = tie (iw_fresh w) (billable s) (iw_line_items w))"

definition billed_and_sent :: "inv_env \<Rightarrow> uuid \<Rightarrow> inv_world \<Rightarrow> inv_world \<Rightarrow> Invoice \<Rightarrow> bool" where
  "billed_and_sent env s w w' z \<longleftrightarrow>
     (if ev_commits env
      then in_Status z = InvoiceStatusSUBMITTED \<and> iw_line_items w' = tie (iw_fresh w) (billable s) (iw_line_items w)
      else in_Status z \<in> {InvoiceStatusINPROCESS, InvoiceStatusSUBMITTED} \<and> iw_line_items w' = iw_line_items w)
     \<and> (\<exists>edi. iw_sent w' = iw_sent w @ [gex_body edi] \<and> ev_gex env (gex_body edi) ''placeholder'' \<in> {Ret None, Ret (Some 200)})"

lemma invoice_processed_cases:
  assumes run: "invoice_processed env session (w2, r) = (w', reply)" and last: "iw_invoices w2 = invs @ [y]"
    and fresh: "\<forall>i \<in> set invs. in_ID i \<noteq> in_ID y"
    and good: "\<And>iv edi verrs err. r = Ret (iv, edi, verrs, err) \<Longrightarrow> \<not> bad (verrs, err) \<Longrightarrow> in_ID iv = in_ID y \<and> in_Upload iv = None"
  obtains (stop) "w' = w2" "\<And>i. reply \<noteq> Reply 200 i"
  | (stored) st fs y' iv edi verrs err where "r = Ret (iv, Some edi, verrs, err)" "\<not> bad (verrs, err)"
      "w' = w2\<lparr>iw_store := st, iw_files := fs, iw_invoices := invs @ [y']\<rparr>"
      "y' = y \<or> (\<exists>up. y' = iv\<lparr>in_Upload := Some up, in_UploadID := Some (up_ID up)\<rparr>)" "\<And>i. reply = Reply 200 i \<Longrightarrow> in_ID i = in_ID y"
proof (cases "\<exists>iv edi verrs err. r = Ret (iv, Some edi, verrs, err) \<and> \<not> bad (verrs, err)")
  case False
  then show thesis using run stop by (auto simp: invoice_processed_def split: outcome.splits if_splits option.splits prod.splits)
next
  case True
  then obtain iv edi verrs err where r: "r = Ret (iv, Some edi, verrs, err)" "\<not> bad (verrs, err)" by blast
  obtain w3 q where q: "StoreInvoice858C env edi iv (ss_UserID session) w2 = (w3, q)" by fastforce
  have w': "w' = w3" "reply = (case q of Ret stored \<Rightarrow> Reply 200 (fst stored) | _ \<Rightarrow> Crashed)"
    using run r q by (simp_all add: invoice_processed_def)
  from q good [OF r, THEN conjunct1] good [OF r, THEN conjunct2] fresh last show thesis
  proof (cases rule: StoreInvoice858C_cases)
    case (1 st fs y')
    show thesis
      by (rule stored [OF r 1(1) [folded w'(1)] 1(2)]) (use w'(2) 1(3) in \<open>auto split: outcome.splits\<close>)
  qed
qed

lemma invoice_approved_cases:
  assumes run: "invoice_approved env session shipment approver w = (w', reply)" and s: "shp_ID (is_Shipment shipment) = s"
    and bill: "shp_ShipmentLineItems (is_Shipment shipment) = filter (billable s) (iw_line_items w)" and ok: "ids_fresh w"
  obtains (refused) tr where "w' = w\<lparr>iw_trackers := tr\<rparr>" "advanced (iw_trackers w) tr" "\<And>i. reply \<noteq> Reply 200 i"
  | (made) z tr where "createInvoiceNumber env (is_Shipment shipment) w = (w\<lparr>iw_trackers := tr\<rparr>, Ret (in_InvoiceNumber z))"
      "advanced (iw_trackers w) tr" "iw_trackers w' = tr" "in_InvoiceNumber z \<notin> in_InvoiceNumber ` set (iw_invoices w)"
      "billing env s w w' z" "\<And>i. reply = Reply 200 i \<Longrightarrow> in_ID i = iw_fresh w \<and> billed_and_sent env s w w' z"
proof -
  obtain w1 created verrs err where c: "CreateInvoice env approver (is_Shipment shipment) w = (w1, created, verrs, err)" by (metis prod_cases4)
  note conclude = made
  from c show thesis
  proof (cases rule: CreateInvoice_cases)
    case (none tr)
    then show thesis using run c refused [of tr] by (auto simp: invoice_approved_def split: if_splits option.splits)
  next
    case (made tr n)
    let ?y = "new_invoice env approver s n (iw_fresh w)"
    note made = made [unfolded s]
    obtain w2 r where p: "ProcessInvoice env ?y shipment w1 = (w2, r)" by fastforce
    have run1: "invoice_processed env session (w2, r) = (w', reply)" using run c made(4,5) p by (simp add: invoice_approved_def)
    have fresh: "\<forall>i \<in> set (iw_invoices w). in_ID i \<noteq> in_ID ?y" using ok by (auto simp: ids_fresh_def new_invoice_def)
    have at1: "iw_invoices w1 = iw_invoices w @ [?y]" "iw_line_items w1 = iw_line_items w" "iw_sent w1 = iw_sent w" "iw_shipments w1 = iw_shipments w"
      using made(6) by simp_all
    have y: "in_ID ?y = iw_fresh w" "in_ShipmentID ?y = s" "in_Upload ?y = None" "in_InvoiceNumber ?y = n" by (simp_all add: new_invoice_def)
    note step = ProcessInvoice_cases [OF p bill [folded at1(2)] fresh at1(1), unfolded at1, OF ok [unfolded ids_fresh_def, THEN conjunct2]]
    have finish: thesis
      if z: "in_ID z = iw_fresh w" "in_ShipmentID z = s" "in_InvoiceNumber z = n"
        and w': "iw_invoices w' = iw_invoices w @ [z]" "iw_fresh w' = iw_fresh w + 1" "iw_shipments w' = iw_shipments w" "iw_trackers w' = tr"
        and items: "iw_line_items w' = iw_line_items w \<or> in_Status z = InvoiceStatusSUBMITTED \<and> iw_line_items w' = tie (iw_fresh w) (billable s) (iw_line_items w)"
        and reply: "\<And>i. reply = Reply 200 i \<Longrightarrow> in_ID i = iw_fresh w \<and> billed_and_sent env s w w' z" for z
      using made(1-3) z w' items reply by (intro conclude [of tr z]) (auto simp: billing_def)
    show thesis
    proof (cases rule: step [case_names unbilled billed])
      case (unbilled sent st)
      let ?z = "?y\<lparr>in_Status := st\<rparr>"
      have last2: "iw_invoices w2 = iw_invoices w @ [?z]" using unbilled by simp
      have w2: "iw_fresh w2 = iw_fresh w + 1" "iw_shipments w2 = iw_shipments w" "iw_trackers w2 = tr" "iw_line_items w2 = iw_line_items w"
        using unbilled(1) made(6) by simp_all
      have z: "in_ID ?z = iw_fresh w" "in_ShipmentID ?z = s" "in_InvoiceNumber ?z = n" using y by simp_all
      have good: "iv = ?y\<lparr>in_Status := InvoiceStatusSUBMITTED\<rparr> \<and> \<not> ev_commits env \<and> st = in_Status ?y
          \<and> (\<exists>e. sent = iw_sent w @ [gex_body e] \<and> ev_gex env (gex_body e) ''placeholder'' \<in> {Ret None, Ret (Some 200)})"
        if "r = Ret (iv, edi, v, e)" "\<not> bad (v, e)" for iv edi v e
        using unbilled(2) [OF that] by (simp add: SendToGex_def)
      have kept: "in_ID iv = in_ID ?z \<and> in_Upload iv = None"
        if "r = Ret (iv, edi, v, e)" "\<not> bad (v, e)" for iv edi v e
        using good [OF that] y by simp
      have fresh2: "\<forall>i \<in> set (iw_invoices w). in_ID i \<noteq> in_ID ?z" using fresh by simp
      show thesis
      proof (rule invoice_processed_cases [OF run1 last2 fresh2 kept], assumption, assumption, goal_cases)
        case 1
        show thesis
          by (rule finish [OF z 1(1) [THEN arg_cong, of iw_invoices, unfolded last2]]) (use 1 w2 in simp_all)
      next
        case (2 st' fs y' iv edi v e)
        note g = good [OF 2(1,2)]
        have y': "in_ID y' = iw_fresh w" "in_ShipmentID y' = s" "in_InvoiceNumber y' = n"
            "in_Status y' \<in> {InvoiceStatusINPROCESS, InvoiceStatusSUBMITTED}"
          using 2(4) g y by (auto simp: new_invoice_def)
        have w': "iw_line_items w' = iw_line_items w" "iw_sent w' = sent" using 2(3) w2 unbilled(1) by simp_all
        have sent: "billed_and_sent env s w w' y'" using g y'(4) w' by (auto simp: billed_and_sent_def)
        show thesis
          by (rule finish [OF y'(1-3)]) (use 2(3,5) w2 y(1) sent in simp_all)
      qed
    next
      case (billed edi)
      let ?z = "?y\<lparr>in_Status := InvoiceStatusSUBMITTED\<rparr>"
      have last2: "iw_invoices w2 = iw_invoices w @ [?z]" using billed by simp
      have w2: "iw_fresh w2 = iw_fresh w + 1" "iw_shipments w2 = iw_shipments w" "iw_trackers w2 = tr"
          "iw_line_items w2 = tie (iw_fresh w) (billable s) (iw_line_items w)" "iw_sent w2 = iw_sent w @ [gex_body edi]"
        using billed(1) made(6) y(1) by simp_all
      have z: "in_ID ?z = iw_fresh w" "in_ShipmentID ?z = s" "in_InvoiceNumber ?z = n" using y by simp_all
      have gex: "ev_gex env (gex_body edi) ''placeholder'' \<in> {Ret None, Ret (Some 200)}" using billed(4) by (simp add: SendToGex_def)
      have kept: "in_ID iv = in_ID ?z \<and> in_Upload iv = None" if "r = Ret (iv, edi', v, e)" "\<not> bad (v, e)" for iv edi' v e
      proof -
        have "iv = ?z" using that(1) billed(2) by simp
        with y show ?thesis by simp
      qed
      have fresh2: "\<forall>i \<in> set (iw_invoices w). in_ID i \<noteq> in_ID ?z" using fresh by simp
      show thesis
      proof (rule invoice_processed_cases [OF run1 last2 fresh2 kept], assumption, assumption, goal_cases)
        case 1
        show thesis
          by (rule finish [OF z 1(1) [THEN arg_cong, of iw_invoices, unfolded last2]]) (use 1 w2 in simp_all)
      next
        case (2 st' fs y' iv edi' v e)
        have iv: "iv = ?z" using 2(1) billed(2) by simp
        have y': "in_ID y' = iw_fresh w" "in_ShipmentID y' = s" "in_InvoiceNumber y' = n" "in_Status y' = InvoiceStatusSUBMITTED"
          using 2(4) iv y by auto
        have w': "iw_invoices w' = iw_invoices w @ [y']" "iw_fresh w' = iw_fresh w + 1" "iw_shipments w' = iw_shipments w" "iw_trackers w' = tr"
            "iw_line_items w' = tie (iw_fresh w) (billable s) (iw_line_items w)" "iw_sent w' = iw_sent w @ [gex_body edi]"
          using 2(3) w2 by simp_all
        have sent: "billed_and_sent env s w w' y'" unfolding billed_and_sent_def using billed(3) y'(4) w'(5,6) gex by auto
        show thesis
          by (rule finish [OF y'(1-3)]) (use 2(5) w' y(1) y'(4) sent in simp_all)
      qed
    qed
  qed
qed

lemma ShipmentInvoice_cases:
  assumes run: "ShipmentInvoice env session s w = (w', reply)" and ok: "ids_fresh w"
  obtains (refused) tr where "w' = w\<lparr>iw_trackers := tr\<rparr>" "advanced (iw_trackers w) tr" "\<And>i. reply \<noteq> Reply 200 i"
  | (made) z tr shipment lineItems where "IsOfficeUser session" "shipment \<in> set (iw_shipments w)"
      "shp_ID (is_Shipment shipment) = s" "shp_Status (is_Shipment shipment) = ShipmentStatusDELIVERED"
      "\<forall>i \<in> set (iw_invoices w). in_ShipmentID i = s \<longrightarrow> in_Status i = InvoiceStatusSUBMISSIONFAILURE"
      "createInvoiceNumber env ((is_Shipment shipment)\<lparr>shp_ShipmentLineItems := lineItems\<rparr>) w
        = (w\<lparr>iw_trackers := tr\<rparr>, Ret (in_InvoiceNumber z))"
      "advanced (iw_trackers w) tr" "iw_trackers w' = tr" "in_InvoiceNumber z \<notin> in_InvoiceNumber ` set (iw_invoices w)"
      "billing env s w w' z" "\<And>i. reply = Reply 200 i \<Longrightarrow> in_ID i = iw_fresh w \<and> billed_and_sent env s w w' z"
proof (cases "w' = w \<and> (\<forall>i. reply \<noteq> Reply 200 i)")
  case True
  then show thesis using refused [of "iw_trackers w"] by simp
next
  case False
  then obtain shipment approver where sh: "IsOfficeUser session" "FetchShipmentForInvoice env w s = Ret shipment"
      "shp_Status (is_Shipment shipment) = ShipmentStatusDELIVERED"
      "\<forall>i \<in> set (iw_invoices w). in_ShipmentID i = s \<longrightarrow> in_Status i = InvoiceStatusSUBMISSIONFAILURE"
      "invoice_approved env session shipment approver w = (w', reply)"
    using run by (auto simp: ShipmentInvoice_def FetchInvoicesForShipment_def reading_def find_None_iff split: if_splits outcome.splits option.splits)
  from sh(2) obtain row where row: "row \<in> set (iw_shipments w)" "shp_ID (is_Shipment row) = s"
      "shipment = row\<lparr>is_Shipment := (is_Shipment row)\<lparr>shp_ShipmentLineItems := filter (billable s) (iw_line_items w)\<rparr>\<rparr>"
    by (auto simp: FetchShipmentForInvoice_def reading_def obind_eq_Ret dest!: first_row_filter_Ret split: option.splits)
  have bill: "shp_ID (is_Shipment shipment) = s" "shp_ShipmentLineItems (is_Shipment shipment) = filter (billable s) (iw_line_items w)"
    using row by simp_all
  from sh(5) bill ok show thesis
  proof (cases rule: invoice_approved_cases)
    case (refused tr)
    then show thesis by (rule that(1))
  next
    case made: (made z tr)
    show thesis
      by (rule that(2) [OF sh(1) row(1,2) _ sh(4) _ made(2-5)]) (use sh(3) row(3) made(1,6) in simp_all)
  qed
qed

section \<open>Any number of requests\<close>

definition live :: "Invoice \<Rightarrow> bool" where
  "live i \<longleftrightarrow> in_Status i \<noteq> InvoiceStatusSUBMISSIONFAILURE"

definition books_ok :: "inv_world \<Rightarrow> bool" where
  "books_ok w \<longleftrightarrow> ids_fresh w \<and> distinct (map in_ID (iw_invoices w))
     \<and> (\<forall>i \<in> set (iw_invoices w). \<forall>j \<in> set (iw_invoices w). live i \<and> live j \<and> in_ShipmentID i = in_ShipmentID j \<longrightarrow> i = j)
     \<and> (\<forall>li \<in> set (iw_line_items w). \<forall>n. li_InvoiceID li = Some n \<longrightarrow>
          (\<exists>i \<in> set (iw_invoices w). in_ID i = n \<and> in_ShipmentID i = li_ShipmentID li \<and> in_Status i = InvoiceStatusSUBMITTED))"

text \<open>What may have become of a line item: it is as it was, or it was not billed and now is.\<close>

definition item_kept :: "uuid \<Rightarrow> ShipmentLineItem \<Rightarrow> ShipmentLineItem \<Rightarrow> bool" where
  "item_kept k li li' \<longleftrightarrow> li' = li \<or> li_InvoiceID li = None \<and> (\<exists>n \<ge> k. li' = li\<lparr>li_InvoiceID := Some n\<rparr>)"

lemma item_kept_trans: "item_kept k x y \<Longrightarrow> item_kept l y z \<Longrightarrow> k \<le> l \<Longrightarrow> item_kept k x z"
proof -
  assume a: "item_kept k x y" "item_kept l y z" "k \<le> l"
  have later: "\<exists>n \<ge> k. x\<lparr>li_InvoiceID := Some m\<rparr> = x\<lparr>li_InvoiceID := Some n\<rparr>" if "l \<le> m" for m
    by (rule exI [of _ m]) (use that a(3) in simp)
  show "item_kept k x z" using a later by (auto simp: item_kept_def)
qed

lemma tie_kept: "list_all2 (item_kept i) items (tie i (billable s) items)"
  by (auto simp: tie_def list_all2_map2 item_kept_def billable_def intro!: list_all2_refl)

text \<open>What one request or many do to the books: new invoices, for shipments without a live one.\<close>

definition progress :: "inv_world \<Rightarrow> inv_world \<Rightarrow> bool" where
  "progress w w' \<longleftrightarrow> (\<exists>more. iw_invoices w' = iw_invoices w @ more
       \<and> (\<forall>i \<in> set (iw_invoices w). live i \<longrightarrow> (\<forall>j \<in> set more. in_ShipmentID j \<noteq> in_ShipmentID i)))
     \<and> list_all2 (item_kept (iw_fresh w)) (iw_line_items w) (iw_line_items w') \<and> iw_fresh w \<le> iw_fresh w'
     \<and> iw_shipments w' = iw_shipments w"

lemma progress_refl: "progress w w"
  by (auto simp: progress_def item_kept_def intro!: list_all2_refl)

lemma progress_trans: "progress w w1 \<Longrightarrow> progress w1 w2 \<Longrightarrow> progress w w2"
  unfolding progress_def
  by (auto 0 3 intro: list_all2_trans [of "item_kept (iw_fresh w)" "item_kept (iw_fresh w1)", rotated] item_kept_trans)

lemma books_tracker [simp]:
  "books_ok (w\<lparr>iw_trackers := tr\<rparr>) = books_ok w" "progress w (w'\<lparr>iw_trackers := tr\<rparr>) = progress w w'"
  by (simp_all add: books_ok_def ids_fresh_def progress_def)

lemma ShipmentInvoice_books:
  assumes run: "ShipmentInvoice env session s w = (w', reply)" and ok: "books_ok w"
  shows "books_ok w' \<and> progress w w'"
proof -
  have ids: "ids_fresh w" using ok by (simp add: books_ok_def)
  from run ids show ?thesis
  proof (cases rule: ShipmentInvoice_cases)
    case (refused tr)
    with ok progress_refl [of w] show ?thesis by simp
  next
    case (made z tr shipment lineItems)
    note b = made(10) [unfolded billing_def]
    have new: "\<forall>i \<in> set (iw_invoices w). in_ID i < in_ID z" using ids b by (simp add: ids_fresh_def)
    have same: "map li_ID (iw_line_items w') = map li_ID (iw_line_items w)" using b by (auto simp: tie_def)
    have kept: "list_all2 (item_kept (iw_fresh w)) (iw_line_items w) (iw_line_items w')"
      using b tie_kept [of "iw_fresh w" "iw_line_items w" s] by (auto simp: item_kept_def intro!: list_all2_refl)
    have tied: "\<exists>i \<in> set (iw_invoices w'). in_ID i = n \<and> in_ShipmentID i = li_ShipmentID li \<and> in_Status i = InvoiceStatusSUBMITTED"
      if li: "li \<in> set (iw_line_items w')" "li_InvoiceID li = Some n" for li n
    proof (cases "li \<in> set (iw_line_items w)")
      case True
      with ok li(2) b show ?thesis by (fastforce simp: books_ok_def)
    next
      case False
      with li b show ?thesis by (auto simp: tie_def billable_def)
    qed
    have "books_ok w'" unfolding books_ok_def ids_fresh_def
    proof (intro conjI)
      show "\<forall>i \<in> set (iw_invoices w'). in_ID i < iw_fresh w'" using new b by auto
      show "distinct (map li_ID (iw_line_items w'))" using ids same by (simp add: ids_fresh_def)
      show "distinct (map in_ID (iw_invoices w'))" using new b ok by (auto simp: books_ok_def)
      show "\<forall>i \<in> set (iw_invoices w'). \<forall>j \<in> set (iw_invoices w'). live i \<and> live j \<and> in_ShipmentID i = in_ShipmentID j \<longrightarrow> i = j"
        using made(5) b ok by (auto simp: books_ok_def live_def)
      show "\<forall>li \<in> set (iw_line_items w'). \<forall>n. li_InvoiceID li = Some n \<longrightarrow>
          (\<exists>i \<in> set (iw_invoices w'). in_ID i = n \<and> in_ShipmentID i = li_ShipmentID li \<and> in_Status i = InvoiceStatusSUBMITTED)"
        using tied by blast
    qed
    moreover have "progress w w'" using kept made(5) b by (auto simp: progress_def live_def)
    ultimately show ?thesis ..
  qed
qed

fun invoice_all :: "(inv_env \<times> Session \<times> uuid) list \<Rightarrow> inv_world \<Rightarrow> inv_world" where
  "invoice_all [] w = w"
| "invoice_all (q # qs) w = (case q of (env, session, s) \<Rightarrow> invoice_all qs (fst (ShipmentInvoice env session s w)))"

lemma invoice_all_books: "books_ok w \<Longrightarrow> books_ok (invoice_all qs w) \<and> progress w (invoice_all qs w)"
proof (induction qs arbitrary: w)
  case (Cons q qs)
  obtain env session s where q: "q = (env, session, s)" by (cases q)
  note step = ShipmentInvoice_books [OF prod.collapse [symmetric] Cons.prems, of env session s]
  then show ?case using Cons.IH [of "fst (ShipmentInvoice env session s w)"] q by (auto intro: progress_trans)
qed (simp add: progress_refl)

text \<open>C16: over any sequence of invoice requests, by whoever, for whatever shipments, and whatever the database, GEX and
  the file storage answer in each, every shipment keeps at most one invoice that is not a failed submission, and once it
  has one no further invoice is made for it; a line item that was billed stays billed on the same invoice, which is a
  submitted one of its own shipment, and nothing else about a line item changes.\<close>

theorem invoiced_once:
  assumes "books_ok w"
  shows "books_ok (invoice_all qs w) \<and> progress w (invoice_all qs w)"
  using invoice_all_books [OF assms] .

lemma tie_nth:
  "j < length items \<Longrightarrow> tie i P items ! j = (if P (items ! j) then (items ! j)\<lparr>li_InvoiceID := Some i\<rparr> else items ! j)"
  by (simp add: tie_def)

text \<open>C17: a reply of 200 to an office user means that the shipment is delivered and had only failed invoices, that one
  EDI text was sent and GEX did not refuse it, and that one new invoice of this shipment is stored.  When the transaction
  that marks it as submitted commits, the invoice is stored as submitted and exactly the billable line items of the
  shipment are now billed on it; when that commit fails, the reply is 200 all the same, no line item is billed, and the
  new invoice is not a failed one, so that no further invoice of the shipment can be made.\<close>

theorem shipment_billed:
  assumes "ShipmentInvoice env session s w = (w', Reply 200 i)" "ids_fresh w"
  shows "\<exists>shipment z edi. IsOfficeUser session \<and> shipment \<in> set (iw_shipments w) \<and> shp_ID (is_Shipment shipment) = s
    \<and> shp_Status (is_Shipment shipment) = ShipmentStatusDELIVERED
    \<and> (\<forall>i \<in> set (iw_invoices w). in_ShipmentID i = s \<longrightarrow> in_Status i = InvoiceStatusSUBMISSIONFAILURE)
    \<and> iw_sent w' = iw_sent w @ [gex_body edi] \<and> ev_gex env (gex_body edi) ''placeholder'' \<in> {Ret None, Ret (Some 200)}
    \<and> iw_invoices w' = iw_invoices w @ [z] \<and> in_ID z = iw_fresh w \<and> in_ID i = in_ID z \<and> in_ShipmentID z = s
    \<and> (if ev_commits env
       then in_Status z = InvoiceStatusSUBMITTED
         \<and> iw_line_items w' = map (\<lambda>li. if billable s li then li\<lparr>li_InvoiceID := Some (in_ID z)\<rparr> else li) (iw_line_items w)
       else in_Status z \<noteq> InvoiceStatusSUBMISSIONFAILURE \<and> iw_line_items w' = iw_line_items w)"
  using assms
proof (cases rule: ShipmentInvoice_cases)
  case (made z tr shipment lineItems)
  have "in_ID i = iw_fresh w" "billed_and_sent env s w w' z" using made(11) [OF refl] by simp_all
  then obtain edi where edi: "iw_sent w' = iw_sent w @ [gex_body edi]" "ev_gex env (gex_body edi) ''placeholder'' \<in> {Ret None, Ret (Some 200)}"
    and i: "in_ID i = iw_fresh w" and z: "if ev_commits env
      then in_Status z = InvoiceStatusSUBMITTED \<and> iw_line_items w' = tie (iw_fresh w) (billable s) (iw_line_items w)
      else in_Status z \<noteq> InvoiceStatusSUBMISSIONFAILURE \<and> iw_line_items w' = iw_line_items w"
    unfolding billed_and_sent_def by (auto split: if_splits)
  show ?thesis
    by (intro exI [of _ shipment] exI [of _ z] exI [of _ edi]) (use made(1-5,10) edi i z in \<open>simp add: billing_def tie_def\<close>)
next
  case (refused tr)
  then show ?thesis by blast
qed

section \<open>Invoice numbers\<close>

text \<open>Carriers whose code has neither digits nor a dash, and years of one century.\<close>

definition number_key :: "int \<Rightarrow> string \<times> int \<Rightarrow> bool" where
  "number_key c k \<longleftrightarrow> list_all (\<lambda>ch. \<not> is_digit ch \<and> ch \<noteq> CHR ''-'') (fst k) \<and> 0 < snd k \<and> snd k div 100 = c"

lemma split_at:
  "\<forall>a \<in> set xs. P a \<Longrightarrow> \<not> P x \<Longrightarrow> takeWhile P (xs @ x # ys) = xs \<and> dropWhile P (xs @ x # ys) = x # ys"
  by (induction xs) auto

lemma base_number_parts:
  assumes "number_key c k" "0 < n"
  shows "takeWhile (\<lambda>ch. \<not> is_digit ch) (base_number k n) = fst k"
    "dropWhile (\<lambda>ch. \<not> is_digit ch) (base_number k n) = zero_padded 2 (nat (snd k mod 100)) @ zero_padded 4 (nat n)"
    "CHR ''-'' \<notin> set (base_number k n)"
proof -
  let ?d = "zero_padded 2 (nat (snd k mod 100)) @ zero_padded 4 (nat n)"
  have "0 \<le> snd k mod 100" by simp
  then have b: "base_number k n = fst k @ ?d" using assms(2) by (simp add: base_number_def padded_def not_less [symmetric])
  have key: "\<forall>ch \<in> set (fst k). \<not> is_digit ch \<and> ch \<noteq> CHR ''-''" using assms(1) by (simp add: number_key_def list_all_iff)
  have digits: "\<forall>ch \<in> set ?d. is_digit ch" "?d \<noteq> []"
    using zero_padded_digits [of 2] zero_padded_digits [of 4] by (simp_all add: list_all_iff ball_Un)
  then obtain x xs where d: "?d = x # xs" by (cases ?d) auto
  with digits have x: "is_digit x" by simp
  show "takeWhile (\<lambda>ch. \<not> is_digit ch) (base_number k n) = fst k" "dropWhile (\<lambda>ch. \<not> is_digit ch) (base_number k n) = ?d"
    unfolding b d using split_at [of "fst k" "\<lambda>ch. \<not> is_digit ch" x xs] key x by blast+
  have "\<not> is_digit (CHR ''-'')" by (simp add: is_digit_def)
  then show "CHR ''-'' \<notin> set (base_number k n)" unfolding b using key digits by auto
qed

interpretation invoice_numbers: numbering base_number "number_key c" for c
proof
  fix k l :: "string \<times> int" and m n :: int
  assume k: "number_key c k" and l: "number_key c l" and mn: "0 < m" "0 < n" and eq: "base_number k m = base_number l n"
  note pk = base_number_parts [OF k mn(1)] and pl = base_number_parts [OF l mn(2)]
  have scac: "fst k = fst l" using pk(1) pl(1) eq by simp
  have "zero_padded 2 (nat (snd k mod 100)) @ zero_padded 4 (nat m) = zero_padded 2 (nat (snd l mod 100)) @ zero_padded 4 (nat n)"
    using pk(2) pl(2) eq by simp
  moreover have "length (zero_padded 2 (nat (snd k mod 100))) = length (zero_padded 2 (nat (snd l mod 100)))"
    by (simp add: length_zero_padded)
  ultimately have nats: "nat (snd k mod 100) = nat (snd l mod 100)" "nat m = nat n" by (simp_all add: zero_padded_inject)
  have "0 \<le> snd k mod 100" "0 \<le> snd l mod 100" "0 \<le> m" "0 \<le> n" using mn by simp_all
  with nats have "snd k mod 100 = snd l mod 100" "m = n" by (simp_all only: eq_nat_nat_iff)
  moreover have "100 * (snd k div 100) + snd k mod 100 = snd k" "100 * (snd l div 100) + snd l mod 100 = snd l"
    by (rule mult_div_mod_eq)+
  ultimately show "k = l \<and> m = n" using scac k [unfolded number_key_def] l [unfolded number_key_def] by (simp only: prod_eq_iff)
qed

definition issued :: "int \<Rightarrow> (string \<times> int) tracker \<Rightarrow> string \<Rightarrow> bool" where
  "issued c tr b \<longleftrightarrow> (\<exists>k n m. number_key c k \<and> 0 < n \<and> b = base_number k n \<and> tr k = Some m \<and> n \<le> m)"

definition number_base :: "string \<Rightarrow> string" where
  "number_base n = takeWhile (\<lambda>ch. ch \<noteq> CHR ''-'') n"

definition suffix :: "nat \<Rightarrow> string" where
  "suffix j = (if j = 0 then '''' else ''-'' @ padded 2 (int j))"

definition of_shipment :: "uuid \<Rightarrow> inv_world \<Rightarrow> Invoice list" where
  "of_shipment s w = filter (\<lambda>i. in_ShipmentID i = s) (iw_invoices w)"

text \<open>The first invoice of a shipment has a number from the trackers, its further ones the same with a count; two
  shipments never share it.\<close>

definition numbers_ok :: "int \<Rightarrow> inv_world \<Rightarrow> bool" where
  "numbers_ok c w \<longleftrightarrow> tracker_ok (iw_trackers w)
     \<and> (\<forall>s. of_shipment s w \<noteq> [] \<longrightarrow> (\<exists>b. issued c (iw_trackers w) b
          \<and> map in_InvoiceNumber (of_shipment s w) = map (\<lambda>j. b @ suffix j) [0..<length (of_shipment s w)]))
     \<and> (\<forall>i \<in> set (iw_invoices w). \<forall>j \<in> set (iw_invoices w).
          number_base (in_InvoiceNumber i) = number_base (in_InvoiceNumber j) \<longrightarrow> in_ShipmentID i = in_ShipmentID j)"

lemma suffix_inject: "suffix i = suffix j \<longleftrightarrow> i = j"
  by (auto simp: suffix_def padded_def zero_padded_inject)

lemma issued_no_dash: "issued c tr b \<Longrightarrow> CHR ''-'' \<notin> set b"
  unfolding issued_def using base_number_parts(3) by blast

lemma number_base_suffix: "CHR ''-'' \<notin> set b \<Longrightarrow> number_base (b @ suffix j) = b"
proof -
  assume b: "CHR ''-'' \<notin> set b"
  show "number_base (b @ suffix j) = b"
  proof (cases "j = 0")
    case True
    with b show ?thesis by (auto simp: number_base_def suffix_def takeWhile_eq_all_conv)
  next
    case False
    then have "b @ suffix j = b @ CHR ''-'' # padded 2 (int j)" by (simp add: suffix_def)
    moreover have "\<forall>ch \<in> set b. ch \<noteq> CHR ''-''" using b by auto
    note split_at [OF this, of "CHR ''-''" "padded 2 (int j)"]
    ultimately show ?thesis by (simp add: number_base_def)
  qed
qed

lemma numbers_base:
  assumes "map in_InvoiceNumber xs = map (\<lambda>j. b @ suffix j) [0..<length xs]" "CHR ''-'' \<notin> set b" "i \<in> set xs"
  shows "number_base (in_InvoiceNumber i) = b"
proof -
  have "in_InvoiceNumber i \<in> set (map in_InvoiceNumber xs)" using assms(3) by simp
  then show ?thesis unfolding assms(1) using number_base_suffix [OF assms(2)] by auto
qed

lemma numbers_ok_distinct:
  assumes "numbers_ok c w"
  shows "distinct (map in_InvoiceNumber (iw_invoices w))"
proof -
  have within: "distinct (map in_InvoiceNumber (of_shipment s w))" for s
  proof (cases "of_shipment s w = []")
    case False
    then obtain b where "map in_InvoiceNumber (of_shipment s w) = map (\<lambda>j. b @ suffix j) [0..<length (of_shipment s w)]"
      using assms unfolding numbers_ok_def by blast
    then show ?thesis by (simp add: distinct_map inj_on_def suffix_inject)
  qed simp
  have across: "in_ShipmentID i = in_ShipmentID j"
    if "i \<in> set (iw_invoices w)" "j \<in> set (iw_invoices w)" "in_InvoiceNumber i = in_InvoiceNumber j" for i j
    using assms [unfolded numbers_ok_def, THEN conjunct2, THEN conjunct2, THEN bspec, OF that(1), THEN bspec, OF that(2)] that(3) by simp
  have "distinct (map in_InvoiceNumber xs)"
    if "\<And>s. distinct (map in_InvoiceNumber (filter (\<lambda>i. in_ShipmentID i = s) xs))"
      "\<And>i j. i \<in> set xs \<Longrightarrow> j \<in> set xs \<Longrightarrow> in_InvoiceNumber i = in_InvoiceNumber j \<Longrightarrow> in_ShipmentID i = in_ShipmentID j" for xs :: "Invoice list"
    using that
  proof (induction xs)
    case (Cons x xs)
    have "in_InvoiceNumber x \<notin> in_InvoiceNumber ` set xs"
    proof
      assume "in_InvoiceNumber x \<in> in_InvoiceNumber ` set xs"
      then obtain y where y: "y \<in> set xs" "in_InvoiceNumber x = in_InvoiceNumber y" by blast
      then have "in_ShipmentID y = in_ShipmentID x" using Cons.prems(2) [of y x] by simp
      with y(1) have "y \<in> set (filter (\<lambda>i. in_ShipmentID i = in_ShipmentID x) xs)" by simp
      then have "in_InvoiceNumber y \<in> in_InvoiceNumber ` set (filter (\<lambda>i. in_ShipmentID i = in_ShipmentID x) xs)" by (rule imageI)
      with y(2) Cons.prems(1) [of "in_ShipmentID x"] show False by simp
    qed
    moreover
    have "distinct (map in_InvoiceNumber (filter (\<lambda>i. in_ShipmentID i = s) xs))" for s
      using Cons.prems(1) [of s] by (simp split: if_splits)
    then have "distinct (map in_InvoiceNumber xs)"
      by (rule Cons.IH) (rule Cons.prems(2); simp)
    ultimately show ?case by simp
  qed simp
  from this [of "iw_invoices w", OF within [unfolded of_shipment_def] across] show ?thesis .
qed

lemma issued_advanced: "issued c tr b \<Longrightarrow> advanced tr tr' \<Longrightarrow> issued c tr' b"
  unfolding issued_def using advanced_mono by (metis order_trans)

definition carriers_ok :: "int \<Rightarrow> inv_world \<Rightarrow> bool" where
  "carriers_ok c w \<longleftrightarrow> (\<forall>shipment \<in> set (iw_shipments w). \<forall>offer \<in> set (shp_ShipmentOffers (is_Shipment shipment)).
     number_key c (tsp_StandardCarrierAlphaCode (offer_tsp offer), time_Year (shp_CreatedAt (is_Shipment shipment))))"

lemma Accepted_subset: "Accepted offers = Ret acc \<Longrightarrow> set acc \<subseteq> set offers"
  by (induction offers arbitrary: acc) (auto simp: obind_eq_Ret split: if_splits)

lemma tracker_inject: "w\<lparr>iw_trackers := a\<rparr> = w\<lparr>iw_trackers := b\<rparr> \<Longrightarrow> a = b"
  by (drule arg_cong [of _ _ iw_trackers]) simp

text \<open>A number is either a counted one of the shipment's, or a first one, new from the trackers.\<close>

lemma createInvoiceNumber_Ret:
  assumes num: "createInvoiceNumber env shipment w = (w\<lparr>iw_trackers := tr\<rparr>, Ret n)" and s: "shp_ID shipment = s"
    and keys: "\<forall>offer \<in> set (shp_ShipmentOffers shipment). number_key c (tsp_StandardCarrierAlphaCode (offer_tsp offer), time_Year (shp_CreatedAt shipment))"
    and ok: "tracker_ok (iw_trackers w)"
  obtains (counted) "of_shipment s w \<noteq> []" "n = number_base (in_InvoiceNumber (last (of_shipment s w))) @ suffix (length (of_shipment s w))" "tr = iw_trackers w"
  | (first) k m where "of_shipment s w = []" "number_key c k" "next_sequence (iw_trackers w) k = (tr, m)" "n = base_number k m"
proof (cases "of_shipment s w = []")
  case False
  have eq: "w\<lparr>iw_trackers := tr\<rparr> = w \<and> n = number_base (in_InvoiceNumber (last (of_shipment s w))) @ suffix (length (of_shipment s w))"
    using num False s
    by (auto simp: createInvoiceNumber_def FetchInvoicesForShipment_def reading_def of_shipment_def number_base_def suffix_def
      split: option.splits)
  have "iw_trackers (w\<lparr>iw_trackers := tr\<rparr>) = iw_trackers w" by (simp only: eq [THEN conjunct1])
  with eq show thesis using counted False by simp
next
  case True
  then obtain offers where acc: "Accepted (shp_ShipmentOffers shipment) = Ret offers"
    using num s by (auto simp: createInvoiceNumber_def FetchInvoicesForShipment_def reading_def of_shipment_def split: option.splits outcome.splits)
  then obtain offer where o: "offers = [offer]"
    using num s True by (auto simp: createInvoiceNumber_def FetchInvoicesForShipment_def reading_def of_shipment_def split: option.splits list.splits)
  let ?k = "(tsp_StandardCarrierAlphaCode (offer_tsp offer), time_Year (shp_CreatedAt shipment))"
  obtain t m where nx: "next_sequence (iw_trackers w) ?k = (t, m)" by fastforce
  have "generateBaseInvoiceNumber env (fst ?k) (snd ?k) w = (w\<lparr>iw_trackers := tr\<rparr>, Ret n)"
    using num s True acc o
    by (auto simp: createInvoiceNumber_def FetchInvoicesForShipment_def reading_def of_shipment_def map_fail_eq_Ret split: option.splits prod.splits)
  then have g: "tr = t" "n = base_number ?k m"
    using nx by (auto simp: generateBaseInvoiceNumber_def dest!: tracker_inject split: if_splits option.splits)
  have "number_key c ?k" using keys Accepted_subset [OF acc] o by auto
  then show thesis using first True nx g by simp
qed

lemma of_shipment_snoc:
  "iw_invoices w' = iw_invoices w @ [z] \<Longrightarrow>
   of_shipment s w' = (if in_ShipmentID z = s then of_shipment s w @ [z] else of_shipment s w)"
  by (simp add: of_shipment_def)

lemma in_of_shipment: "i \<in> set (iw_invoices w) \<Longrightarrow> i \<in> set (of_shipment (in_ShipmentID i) w)"
  by (simp add: of_shipment_def)

lemma number_base_issued:
  assumes "numbers_ok c w" "i \<in> set (iw_invoices w)"
  shows "issued c (iw_trackers w) (number_base (in_InvoiceNumber i))"
proof -
  have "of_shipment (in_ShipmentID i) w \<noteq> []" using in_of_shipment [OF assms(2)] by auto
  then obtain b where b: "issued c (iw_trackers w) b"
      "map in_InvoiceNumber (of_shipment (in_ShipmentID i) w) = map (\<lambda>j. b @ suffix j) [0..<length (of_shipment (in_ShipmentID i) w)]"
    using assms(1) unfolding numbers_ok_def by blast
  from numbers_base [OF b(2) issued_no_dash [OF b(1)] in_of_shipment [OF assms(2)]] b(1) show ?thesis by simp
qed

lemma numbers_ok_unchanged:
  assumes "numbers_ok c w" "advanced (iw_trackers w) tr"
  shows "numbers_ok c (w\<lparr>iw_trackers := tr\<rparr>)"
proof -
  have same: "of_shipment s (w\<lparr>iw_trackers := tr\<rparr>) = of_shipment s w" for s by (simp add: of_shipment_def)
  have fields: "iw_trackers (w\<lparr>iw_trackers := tr\<rparr>) = tr" "iw_invoices (w\<lparr>iw_trackers := tr\<rparr>) = iw_invoices w" by simp_all
  note ok = assms(1) [unfolded numbers_ok_def]
  have "\<exists>b. issued c tr b \<and> map in_InvoiceNumber (of_shipment s w) = map (\<lambda>j. b @ suffix j) [0..<length (of_shipment s w)]"
    if s: "of_shipment s w \<noteq> []" for s
    using ok [THEN conjunct2, THEN conjunct1, rule_format, OF s] issued_advanced [OF _ assms(2)] by blast
  moreover have "tracker_ok tr" using advanced_ok [OF assms(2)] ok by blast
  ultimately show ?thesis
    unfolding numbers_ok_def same fields by (intro conjI allI impI) (assumption | rule ok [THEN conjunct2, THEN conjunct2] | blast)+
qed

text \<open>The base of the number of a new invoice belongs to its shipment alone.\<close>

lemma numbers_ok_snoc:
  assumes ok: "numbers_ok c w" and adv: "advanced (iw_trackers w) tr" and w': "iw_invoices w' = iw_invoices w @ [z]" "iw_trackers w' = tr"
    and b: "issued c tr b" "in_InvoiceNumber z = b @ suffix (length (of_shipment (in_ShipmentID z) w))"
    and mine: "\<And>i. i \<in> set (iw_invoices w) \<Longrightarrow> number_base (in_InvoiceNumber i) = b \<longleftrightarrow> in_ShipmentID i = in_ShipmentID z"
  shows "numbers_ok c w'"
  unfolding numbers_ok_def
proof (intro conjI allI impI ballI)
  show "tracker_ok (iw_trackers w')" using advanced_ok [OF adv] ok w'(2) by (simp add: numbers_ok_def)
next
  fix s assume "of_shipment s w' \<noteq> []"
  show "\<exists>b. issued c (iw_trackers w') b \<and> map in_InvoiceNumber (of_shipment s w') = map (\<lambda>j. b @ suffix j) [0..<length (of_shipment s w')]"
  proof (cases "of_shipment s w = []")
    case True
    then show ?thesis using \<open>of_shipment s w' \<noteq> []\<close> b w' of_shipment_snoc [OF w'(1), of s] by (auto split: if_splits)
  next
    case False
    then obtain b' where b': "issued c (iw_trackers w) b'" "map in_InvoiceNumber (of_shipment s w) = map (\<lambda>j. b' @ suffix j) [0..<length (of_shipment s w)]"
      using ok unfolding numbers_ok_def by blast
    obtain i where i: "i \<in> set (of_shipment s w)" using False by (cases "of_shipment s w") auto
    have "in_ShipmentID z = s \<Longrightarrow> b' = b"
      using numbers_base [OF b'(2) issued_no_dash [OF b'(1)] i] mine [of i] i by (simp add: of_shipment_def)
    then show ?thesis using b' b(2) issued_advanced [OF b'(1) adv] w' of_shipment_snoc [OF w'(1), of s] by (auto intro!: exI [of _ b'])
  qed
next
  fix i j assume ij: "i \<in> set (iw_invoices w')" "j \<in> set (iw_invoices w')" "number_base (in_InvoiceNumber i) = number_base (in_InvoiceNumber j)"
  have z: "number_base (in_InvoiceNumber z) = b" using b(2) number_base_suffix [OF issued_no_dash [OF b(1)]] by simp
  show "in_ShipmentID i = in_ShipmentID j"
  proof (cases "i \<in> set (iw_invoices w) \<and> j \<in> set (iw_invoices w)")
    case True
    then show ?thesis using ok ij(3) unfolding numbers_ok_def by blast
  next
    case False
    then have "i = z \<or> j = z" using ij(1,2) w' by auto
    then show ?thesis
    proof
      assume "i = z"
      then show ?thesis using ij(2,3) z mine [of j] w' by (cases "j = z") auto
    next
      assume "j = z"
      then show ?thesis using ij(1,3) z mine [of i] w' by (cases "i = z") auto
    qed
  qed
qed

lemma ShipmentInvoice_numbers:
  assumes run: "ShipmentInvoice env session s w = (w', reply)" and ids: "ids_fresh w" and ok: "numbers_ok c w" and car: "carriers_ok c w"
  shows "numbers_ok c w' \<and> carriers_ok c w'"
  using run ids
proof (cases rule: ShipmentInvoice_cases)
  case (refused tr)
  then show ?thesis using numbers_ok_unchanged [OF ok] car by (simp add: carriers_ok_def)
next
  case (made z tr shipment lineItems)
  note b = made(10) [unfolded billing_def]
  let ?sh = "(is_Shipment shipment)\<lparr>shp_ShipmentLineItems := lineItems\<rparr>"
  have sh: "shp_ID ?sh = s" using made(3) by simp
  have keys: "\<forall>offer \<in> set (shp_ShipmentOffers ?sh). number_key c (tsp_StandardCarrierAlphaCode (offer_tsp offer), time_Year (shp_CreatedAt ?sh))"
    using car made(2) by (simp add: carriers_ok_def)
  have tok: "tracker_ok (iw_trackers w)" using ok by (simp add: numbers_ok_def)
  have z: "in_ShipmentID z = s" and w': "iw_invoices w' = iw_invoices w @ [z]" using b by simp_all
  from made(6) sh keys tok have "numbers_ok c w'"
  proof (cases rule: createInvoiceNumber_Ret)
    case counted
    then obtain i where i: "i \<in> set (iw_invoices w)" "in_ShipmentID i = s" "i = last (of_shipment s w)"
      using last_in_set [OF counted(1)] by (auto simp: of_shipment_def)
    have base: "issued c (iw_trackers w) (number_base (in_InvoiceNumber i))" by (rule number_base_issued [OF ok i(1)])
    have mine: "number_base (in_InvoiceNumber j) = number_base (in_InvoiceNumber i) \<longleftrightarrow> in_ShipmentID j = s" if j: "j \<in> set (iw_invoices w)" for j
    proof
      assume "number_base (in_InvoiceNumber j) = number_base (in_InvoiceNumber i)"
      then show "in_ShipmentID j = s" using ok i j unfolding numbers_ok_def by blast
    next
      assume js: "in_ShipmentID j = s"
      obtain b' where b': "issued c (iw_trackers w) b'" "map in_InvoiceNumber (of_shipment s w) = map (\<lambda>j. b' @ suffix j) [0..<length (of_shipment s w)]"
        using ok counted(1) unfolding numbers_ok_def by blast
      show "number_base (in_InvoiceNumber j) = number_base (in_InvoiceNumber i)"
        using numbers_base [OF b'(2) issued_no_dash [OF b'(1)]] i(1,2) j js by (simp add: of_shipment_def)
    qed
    show ?thesis
      by (rule numbers_ok_snoc [OF ok made(7) w' made(8) _ _ mine [folded z]]) (use base counted i z in simp_all)
  next
    case (first k m)
    note nf = next_sequence_facts [OF tok first(3)]
    have new: "issued c tr (base_number k m)" using first(2) nf unfolding issued_def by (intro exI [of _ k] exI [of _ m]) auto
    have mine: "number_base (in_InvoiceNumber j) = base_number k m \<longleftrightarrow> in_ShipmentID j = s" if j: "j \<in> set (iw_invoices w)" for j
    proof -
      have "in_ShipmentID j \<noteq> s" using first(1) j by (auto simp: of_shipment_def filter_empty_conv)
      moreover have "number_base (in_InvoiceNumber j) \<noteq> base_number k m"
      proof
        assume eq: "number_base (in_InvoiceNumber j) = base_number k m"
        from number_base_issued [OF ok j] eq obtain l n p
          where l: "number_key c l" "0 < n" "base_number k m = base_number l n" "iw_trackers w l = Some p" "n \<le> p"
          unfolding issued_def by auto
        from invoice_numbers.told_apart [OF first(2) l(1) nf(1) l(2,3)] l(4,5) nf(2) show False by auto
      qed
      ultimately show ?thesis by simp
    qed
    show ?thesis
      by (rule numbers_ok_snoc [OF ok made(7) w' made(8) new _ mine [folded z]]) (use first z in \<open>simp_all add: suffix_def\<close>)
  qed
  then show ?thesis using car b by (simp add: carriers_ok_def)
qed

lemma invoice_all_numbers:
  "books_ok w \<Longrightarrow> numbers_ok c w \<Longrightarrow> carriers_ok c w \<Longrightarrow> numbers_ok c (invoice_all qs w)"
proof (induction qs arbitrary: w)
  case (Cons q qs)
  obtain env session s where q: "q = (env, session, s)" by (cases q)
  have ids: "ids_fresh w" using Cons.prems(1) by (simp add: books_ok_def)
  note books = ShipmentInvoice_books [OF prod.collapse [symmetric] Cons.prems(1), of env session s]
  note numbers = ShipmentInvoice_numbers [OF prod.collapse [symmetric] ids Cons.prems(2,3), of env session s]
  show ?case using Cons.IH [of "fst (ShipmentInvoice env session s w)"] books numbers q by simp
qed simp

text \<open>Starting without invoices, and with carriers whose codes have neither digits nor a dash and shipments of one
  century, all invoices ever made have different numbers: the first of a shipment has its carrier's code, the year and a
  sequence number, every further one the same with a dash and a count, and no two shipments share the part before it.\<close>

theorem invoice_numbers_distinct:
  assumes "iw_invoices w = []" "books_ok w" "tracker_ok (iw_trackers w)" "carriers_ok c w"
  shows "distinct (map in_InvoiceNumber (iw_invoices (invoice_all qs w))) \<and> numbers_ok c (invoice_all qs w)"
proof -
  have "numbers_ok c w" using assms by (simp add: numbers_ok_def of_shipment_def)
  from invoice_all_numbers [OF assms(2) this assms(4)] numbers_ok_distinct show ?thesis by blast
qed

section \<open>A request that runs\<close>

definition sample_env :: inv_env where
  "sample_env = \<lparr>ev_read = (\<lambda>_. None), ev_save_invoice = (\<lambda>_. ([], None)), ev_save_items = (\<lambda>_. ([], None)), ev_commits = True,
     ev_gex = (\<lambda>_ _. Ret (Some 200)), ev_next_icn = Ret 100000001, ev_now = 1552521600, ev_production = False,
     ev_storer = sample_storer\<lparr>sr_content_type := (\<lambda>_. Ret ''text/plain'')\<rparr>\<rparr>"

definition sample_books :: inv_world where
  "sample_books = \<lparr>iw_store = sample_store, iw_files = Map.empty, iw_shipments = [sample_invoice_shipment],
     iw_line_items = shp_ShipmentLineItems (is_Shipment sample_invoice_shipment), iw_invoices = [], iw_trackers = Map.empty,
     iw_office_users = [7], iw_fresh = 9, iw_sent = []\<rparr>"

lemma sample_books_ok: "books_ok sample_books" "tracker_ok (iw_trackers sample_books)" "carriers_ok 19 sample_books" "iw_invoices sample_books = []"
proof -
  show "books_ok sample_books" 
    by (simp add: books_ok_def ids_fresh_def sample_books_def sample_invoice_shipment_def sample_priced_item_def zero_line_item_def)
  show "tracker_ok (iw_trackers sample_books)" "iw_invoices sample_books = []" by (simp_all add: tracker_ok_def sample_books_def)
  show "carriers_ok 19 sample_books"
    by (simp add: carriers_ok_def number_key_def sample_books_def sample_invoice_shipment_def sample_offer_def sample_tsp_def offer_tsp_def
      sample_shipment_def Shipment.defs time_Year_def year_of_day_def date_of_def epoch_day_def jan1_def is_digit_def)
qed

definition sample_clerk :: Session where
  "sample_clerk = (member_session 200 0)\<lparr>ss_ApplicationName := OfficeApp, ss_OfficeUserID := 7\<rparr>"

lemma sample_fetched:
  "FetchShipmentForInvoice (sample_env\<lparr>ev_commits := b\<rparr>) sample_books 7 = Ret sample_invoice_shipment"
  "FetchInvoicesForShipment (sample_env\<lparr>ev_commits := b\<rparr>) sample_books 7 = Ret []" "FetchOfficeUserByID sample_books 7 = Ret 7"
  by (simp_all add: FetchShipmentForInvoice_def FetchInvoicesForShipment_def FetchOfficeUserByID_def reading_def sample_env_def sample_books_def
    sample_invoice_shipment_def sample_shipment_def Shipment.defs billable_def sample_priced_item_def zero_line_item_def zero_item_def)

lemma sample_numbered:
  "\<exists>w1 y. CreateInvoice (sample_env\<lparr>ev_commits := b\<rparr>) 7 (is_Shipment sample_invoice_shipment) sample_books = (w1, Some y, [], None) \<and> in_ID y = 9"
  by (simp add: CreateInvoice_def createInvoiceNumber_def FetchInvoicesForShipment_def reading_def generateBaseInvoiceNumber_def create_invoice_def
    bad_def Let_def sample_env_def sample_books_def sample_invoice_shipment_def sample_shipment_def Shipment.defs sample_offer_def sample_tsp_def
    offer_tsp_def uuid_Nil_def time_Year_def year_of_day_def date_of_def epoch_day_def jan1_def next_sequence_def)

lemma sample_processed: "0 < in_ID y \<Longrightarrow> \<exists>w2 y2 edi. ProcessInvoice (sample_env\<lparr>ev_commits := b\<rparr>) y sample_invoice_shipment w1 = (w2, Ret (y2, Some edi, [], None))"
proof -
  assume "0 < in_ID y"
  then obtain invoice where g: "Generate858C sample_invoice_shipment (in_ID y) (in_InvoiceNumber y) False (Ret 100000001) 1552521600 = Ret invoice"
    using sample_generated_at by blast
  obtain rs where "Segments invoice = Ret rs" using Generate858C_arrays [OF g] sample_units by auto
  then have "EDIString invoice = Ret (WriteAll rs)" by (simp add: EDIString_def)
  with g have "generateAndSendInvoiceData (sample_env\<lparr>ev_commits := b\<rparr>) y sample_invoice_shipment w1 = (w1\<lparr>iw_sent := iw_sent w1 @ [gex_body (WriteAll rs)]\<rparr>, Ret (Some (WriteAll rs), None))"
    by (simp add: generateAndSendInvoiceData_def SendToGex_def sample_env_def)
  then show ?thesis by (simp add: ProcessInvoice_def UpdateInvoiceSubmitted_def Let_def sample_env_def bad_def)
qed

lemma sample_uploaded: "\<exists>st fs up verrs err. CreateUploadForDocument (ev_storer (sample_env\<lparr>ev_commits := b\<rparr>)) p None u n edi AllowedTypesText ws = Ret ((st, fs), up, verrs, err)"
  by (auto simp: CreateUploadForDocument_def sample_env_def sample_storer_def Let_def split: prod.splits option.splits)

lemma sample_stored: "\<exists>w3 r. StoreInvoice858C (sample_env\<lparr>ev_commits := b\<rparr>) edi y u w = (w3, Ret r)"
proof -
  obtain w1 z e where d: "DeleteInvoiceUpload (sample_env\<lparr>ev_commits := b\<rparr>) y w = (w1, z, e)" by (metis prod_cases3)
  obtain st fs up verrs err where "CreateUploadForDocument (ev_storer (sample_env\<lparr>ev_commits := b\<rparr>)) (edi_path (sample_env\<lparr>ev_commits := b\<rparr>) (in_ID y)) None u
      (edi_path (sample_env\<lparr>ev_commits := b\<rparr>) (in_ID y)) edi AllowedTypesText (iw_store w1, iw_files w1) = Ret ((st, fs), up, verrs, err)"
    using sample_uploaded by blast
  with d show ?thesis by (auto simp: StoreInvoice858C_def Let_def split: prod.splits option.splits)
qed

lemma sample_request: "\<exists>w' i. ShipmentInvoice (sample_env\<lparr>ev_commits := b\<rparr>) sample_clerk 7 sample_books = (w', Reply 200 i)"
proof -
  obtain w1 y where c: "CreateInvoice (sample_env\<lparr>ev_commits := b\<rparr>) 7 (is_Shipment sample_invoice_shipment) sample_books = (w1, Some y, [], None)" "in_ID y = 9"
    using sample_numbered by blast
  obtain w2 y2 edi where p: "ProcessInvoice (sample_env\<lparr>ev_commits := b\<rparr>) y sample_invoice_shipment w1 = (w2, Ret (y2, Some edi, [], None))"
    using sample_processed [of y b w1] c(2) by auto
  obtain w3 r where s: "StoreInvoice858C (sample_env\<lparr>ev_commits := b\<rparr>) edi y2 (ss_UserID sample_clerk) w2 = (w3, Ret r)" using sample_stored by blast
  have "invoice_approved (sample_env\<lparr>ev_commits := b\<rparr>) sample_clerk sample_invoice_shipment 7 sample_books = (w3, Reply 200 (fst r))"
    using c p s by (simp add: invoice_approved_def invoice_processed_def bad_def)
  moreover have "IsOfficeUser sample_clerk" "ss_OfficeUserID sample_clerk = 7"
    by (simp_all add: sample_clerk_def IsOfficeUser_def uuid_Nil_def)
  moreover have "shp_Status (is_Shipment sample_invoice_shipment) = ShipmentStatusDELIVERED" by (simp add: sample_invoice_shipment_def)
  ultimately show ?thesis by (simp add: ShipmentInvoice_def sample_fetched)
qed

theorem invoiced_once_witness:
  "books_ok (invoice_all [(sample_env, sample_clerk, 7), (sample_env, sample_clerk, 7)] sample_books)
   \<and> progress sample_books (invoice_all [(sample_env, sample_clerk, 7), (sample_env, sample_clerk, 7)] sample_books)"
  by (rule invoiced_once [OF sample_books_ok(1)])

theorem shipment_billed_witness:
  "(\<exists>w' i z. ShipmentInvoice sample_env sample_clerk 7 sample_books = (w', Reply 200 i) \<and> iw_invoices w' = [z]
     \<and> in_Status z = InvoiceStatusSUBMITTED \<and> in_ShipmentID z = 7 \<and> map li_InvoiceID (iw_line_items w') = [Some 9, Some 9])
   \<and> (\<exists>w' i z. ShipmentInvoice (sample_env\<lparr>ev_commits := False\<rparr>) sample_clerk 7 sample_books = (w', Reply 200 i) \<and> iw_invoices w' = [z]
     \<and> in_Status z \<noteq> InvoiceStatusSUBMISSIONFAILURE \<and> iw_line_items w' = iw_line_items sample_books)"
proof -
  have ids: "ids_fresh sample_books" using sample_books_ok(1) by (simp add: books_ok_def)
  obtain w' i where run: "ShipmentInvoice sample_env sample_clerk 7 sample_books = (w', Reply 200 i)"
    using sample_request [of True] by (auto simp: sample_env_def)
  have commits: "ev_commits sample_env" by (simp add: sample_env_def)
  from shipment_billed [OF run ids] commits obtain z where z: "iw_invoices w' = iw_invoices sample_books @ [z]" "in_ID z = iw_fresh sample_books"
      "in_ShipmentID z = 7" "in_Status z = InvoiceStatusSUBMITTED"
      "iw_line_items w' = map (\<lambda>li. if billable 7 li then li\<lparr>li_InvoiceID := Some (in_ID z)\<rparr> else li) (iw_line_items sample_books)"
    by auto
  have "map li_InvoiceID (iw_line_items w') = [Some 9, Some 9]" unfolding z(5)
    by (simp add: z(2) sample_books_def sample_invoice_shipment_def billable_def sample_priced_item_def zero_line_item_def zero_item_def)
  moreover obtain w2 i2 where run2: "ShipmentInvoice (sample_env\<lparr>ev_commits := False\<rparr>) sample_clerk 7 sample_books = (w2, Reply 200 i2)"
    using sample_request [of False] by auto
  ultimately show ?thesis using run z(1,3,4) sample_books_ok(4) shipment_billed [OF run2 ids] by auto
qed

theorem invoice_numbers_distinct_witness:
  "distinct (map in_InvoiceNumber (iw_invoices (invoice_all [(sample_env, sample_clerk, 7)] sample_books)))"
  using invoice_numbers_distinct [OF sample_books_ok(4,1,2,3)] by blast

end
