(* ===== verification/ElectronicOrders.thy ===== *)
theory ElectronicOrders
  imports PPMHandlers "HOL-Library.Multiset"
begin

text \<open>
  The orders API of the services' personnel systems (\<open>pkg/handlers/ordersapi\<close>, \<open>pkg/models/electronic_order.go\<close>,
  \<open>pkg/models/electronic_orders_revision.go\<close>, \<open>pkg/models/client_cert.go\<close>): the rights of a client certificate, sets of
  orders and their revisions, posting a revision by orders number or by identifier, and the three ways of reading.
  The database's answers, the person lookup and the clock of one request are an environment.
\<close>

section \<open>Certificates, orders, revisions\<close>

record ClientCert =
  cc_AllowOrdersAPI :: bool
  cc_AllowAirForceOrdersRead :: bool
  cc_AllowAirForceOrdersWrite :: bool
  cc_AllowArmyOrdersRead :: bool
  cc_AllowArmyOrdersWrite :: bool
  cc_AllowCoastGuardOrdersRead :: bool
  cc_AllowCoastGuardOrdersWrite :: bool
  cc_AllowMarineCorpsOrdersRead :: bool
  cc_AllowMarineCorpsOrdersWrite :: bool
  cc_AllowNavyOrdersRead :: bool
  cc_AllowNavyOrdersWrite :: bool

definition IssuerArmy :: string where "IssuerArmy = ''army''"
definition IssuerNavy :: string where "IssuerNavy = ''navy''"
definition IssuerAirForce :: string where "IssuerAirForce = ''air-force''"
definition IssuerMarineCorps :: string where "IssuerMarineCorps = ''marine-corps''"
definition IssuerCoastGuard :: string where "IssuerCoastGuard = ''coast-guard''"

lemmas issuer_defs = IssuerArmy_def IssuerNavy_def IssuerAirForce_def IssuerMarineCorps_def IssuerCoastGuard_def

definition verifyOrdersReadAccess :: "string \<Rightarrow> ClientCert \<Rightarrow> bool" where
  "verifyOrdersReadAccess issuer cert =
     (if issuer = IssuerAirForce then cc_AllowAirForceOrdersRead cert
      else if issuer = IssuerArmy then cc_AllowArmyOrdersRead cert
      else if issuer = IssuerCoastGuard then cc_AllowCoastGuardOrdersRead cert
      else if issuer = IssuerMarineCorps then cc_AllowMarineCorpsOrdersRead cert
      else if issuer = IssuerNavy then cc_AllowNavyOrdersRead cert
      else False)"

definition verifyOrdersWriteAccess :: "string \<Rightarrow> ClientCert \<Rightarrow> bool" where
  "verifyOrdersWriteAccess issuer cert =
     (if issuer = IssuerAirForce then cc_AllowAirForceOrdersWrite cert
      else if issuer = IssuerArmy then cc_AllowArmyOrdersWrite cert
      else if issuer = IssuerCoastGuard then cc_AllowCoastGuardOrdersWrite cert
      else if issuer = IssuerMarineCorps then cc_AllowMarineCorpsOrdersWrite cert
      else if issuer = IssuerNavy then cc_AllowNavyOrdersWrite cert
      else False)"

definition GetAllowedOrdersIssuersRead :: "ClientCert \<Rightarrow> string list" where
  "GetAllowedOrdersIssuersRead c =
     (if cc_AllowAirForceOrdersRead c then [IssuerAirForce] else [])
     @ (if cc_AllowArmyOrdersRead c then [IssuerArmy] else [])
     @ (if cc_AllowCoastGuardOrdersRead c then [IssuerCoastGuard] else [])
     @ (if cc_AllowMarineCorpsOrdersRead c then [IssuerMarineCorps] else [])
     @ (if cc_AllowNavyOrdersRead c then [IssuerNavy] else [])"

record ElectronicOrdersRevision =
  eor_ID :: uuid
  eor_ElectronicOrderID :: uuid
  eor_SeqNum :: int
  eor_GivenName :: string
  eor_MiddleName :: "string option"
  eor_FamilyName :: string
  eor_NameSuffix :: "string option"
  eor_Affiliation :: string
  eor_Paygrade :: string
  eor_Title :: "string option"
  eor_Status :: string
  eor_DateIssued :: gotime
  eor_NoCostMove :: bool
  eor_TdyEnRoute :: bool
  eor_TourType :: string
  eor_OrdersType :: string
  eor_HasDependents :: bool
  eor_LosingUIC :: "string option"
  eor_LosingUnitName :: "string option"
  eor_LosingUnitCity :: "string option"
  eor_LosingUnitLocality :: "string option"
  eor_LosingUnitCountry :: "string option"
  eor_LosingUnitPostalCode :: "string option"
  eor_GainingUIC :: "string option"
  eor_GainingUnitName :: "string option"
  eor_GainingUnitCity :: "string option"
  eor_GainingUnitLocality :: "string option"
  eor_GainingUnitCountry :: "string option"
  eor_GainingUnitPostalCode :: "string option"
  eor_ReportNoEarlierThan :: "gotime option"
  eor_ReportNoLaterThan :: "gotime option"
  eor_HhgTAC :: "string option"
  eor_HhgSDN :: "string option"
  eor_HhgLOA :: "string option"
  eor_NtsTAC :: "string option"
  eor_NtsSDN :: "string option"
  eor_NtsLOA :: "string option"
  eor_PovShipmentTAC :: "string option"
  eor_PovShipmentSDN :: "string option"
  eor_PovShipmentLOA :: "string option"
  eor_PovStorageTAC :: "string option"
  eor_PovStorageSDN :: "string option"
  eor_PovStorageLOA :: "string option"
  eor_UbTAC :: "string option"
  eor_UbSDN :: "string option"
  eor_UbLOA :: "string option"
  eor_Comments :: "string option"

record ElectronicOrder =
  eo_ID :: uuid
  eo_OrdersNumber :: string
  eo_Edipi :: string
  eo_Issuer :: string
  eo_Revisions :: "ElectronicOrdersRevision list"

section \<open>Messages\<close>

text \<open>A revision as it is sent; what the schema requires is present.\<close>

record UnitPayload =
  un_Uic :: "string option"
  un_Name :: "string option"
  un_City :: "string option"
  un_Locality :: "string option"
  un_Country :: "string option"
  un_PostalCode :: "string option"

record Accounting =
  ac_Tac :: "string option"
  ac_Sdn :: "string option"
  ac_Loa :: "string option"

record Member =
  me_GivenName :: string
  me_MiddleName :: "string option"
  me_FamilyName :: string
  me_Suffix :: "string option"
  me_Affiliation :: string
  me_Rank :: string
  me_Title :: "string option"

record Revision =
  rv_SeqNum :: int
  rv_Member :: Member
  rv_Status :: string
  rv_DateIssued :: "gotime option"
  rv_NoCostMove :: bool
  rv_TdyEnRoute :: bool
  rv_TourType :: string
  rv_OrdersType :: string
  rv_HasDependents :: bool
  rv_LosingUnit :: "UnitPayload option"
  rv_GainingUnit :: "UnitPayload option"
  rv_ReportNoEarlierThan :: "gotime option"
  rv_ReportNoLaterThan :: "gotime option"
  rv_PcsAccounting :: "Accounting option"
  rv_NtsAccounting :: "Accounting option"
  rv_PovShipmentAccounting :: "Accounting option"
  rv_PovStorageAccounting :: "Accounting option"
  rv_UbAccounting :: "Accounting option"
  rv_Comments :: "string option"

record Orders =
  os_UUID :: uuid
  os_OrdersNum :: string
  os_Edipi :: string
  os_Issuer :: string
  os_Revisions :: "Revision list"

definition TourTypeAccompanied :: string where
  "TourTypeAccompanied = ''accompanied''"

definition no_unit :: UnitPayload where
  "no_unit = \<lparr>un_Uic = None, un_Name = None, un_City = None, un_Locality = None, un_Country = None, un_PostalCode = None\<rparr>"

definition no_accounting :: Accounting where
  "no_accounting = \<lparr>ac_Tac = None, ac_Sdn = None, ac_Loa = None\<rparr>"

text \<open>The fields of a group that is not sent stay nil.\<close>

definition unit_or_nil :: "UnitPayload option \<Rightarrow> UnitPayload" where
  "unit_or_nil u = (case u of None \<Rightarrow> no_unit | Some u \<Rightarrow> u)"

definition accounting_or_nil :: "Accounting option \<Rightarrow> Accounting" where
  "accounting_or_nil a = (case a of None \<Rightarrow> no_accounting | Some a \<Rightarrow> a)"

definition toElectronicOrdersRevision :: "gotime \<Rightarrow> ElectronicOrder \<Rightarrow> Revision \<Rightarrow> ElectronicOrdersRevision" where
  "toElectronicOrdersRevision now orders revision =
     (let losing = unit_or_nil (rv_LosingUnit revision); gaining = unit_or_nil (rv_GainingUnit revision);
          hhg = accounting_or_nil (rv_PcsAccounting revision); nts = accounting_or_nil (rv_NtsAccounting revision);
          povShipment = accounting_or_nil (rv_PovShipmentAccounting revision); povStorage = accounting_or_nil (rv_PovStorageAccounting revision);
          ub = accounting_or_nil (rv_UbAccounting revision)
      in \<lparr>eor_ID = uuid_Nil, eor_ElectronicOrderID = eo_ID orders, eor_SeqNum = rv_SeqNum revision,
        eor_GivenName = me_GivenName (rv_Member revision), eor_MiddleName = me_MiddleName (rv_Member revision),
        eor_FamilyName = me_FamilyName (rv_Member revision), eor_NameSuffix = me_Suffix (rv_Member revision),
        eor_Affiliation = me_Affiliation (rv_Member revision), eor_Paygrade = me_Rank (rv_Member revision), eor_Title = me_Title (rv_Member revision),
        eor_Status = rv_Status revision, eor_DateIssued = (case rv_DateIssued revision of None \<Rightarrow> now | Some d \<Rightarrow> d),
        eor_NoCostMove = rv_NoCostMove revision, eor_TdyEnRoute = rv_TdyEnRoute revision,
        eor_TourType = (if rv_TourType revision = '''' then TourTypeAccompanied else rv_TourType revision),
        eor_OrdersType = rv_OrdersType revision, eor_HasDependents = rv_HasDependents revision,
        eor_LosingUIC = un_Uic losing, eor_LosingUnitName = un_Name losing, eor_LosingUnitCity = un_City losing,
        eor_LosingUnitLocality = un_Locality losing, eor_LosingUnitCountry = un_Country losing, eor_LosingUnitPostalCode = un_PostalCode losing,
        eor_GainingUIC = un_Uic gaining, eor_GainingUnitName = un_Name gaining, eor_GainingUnitCity = un_City gaining,
        eor_GainingUnitLocality = un_Locality gaining, eor_GainingUnitCountry = un_Country gaining, eor_GainingUnitPostalCode = un_PostalCode gaining,
        eor_ReportNoEarlierThan = rv_ReportNoEarlierThan revision, eor_ReportNoLaterThan = rv_ReportNoLaterThan revision,
        eor_HhgTAC = ac_Tac hhg, eor_HhgSDN = ac_Sdn hhg, eor_HhgLOA = ac_Loa hhg,
        eor_NtsTAC = ac_Tac nts, eor_NtsSDN = ac_Sdn nts, eor_NtsLOA = ac_Loa nts,
        eor_PovShipmentTAC = ac_Tac povShipment, eor_PovShipmentSDN = ac_Sdn povShipment, eor_PovShipmentLOA = ac_Loa povShipment,
        eor_PovStorageTAC = ac_Tac povStorage, eor_PovStorageSDN = ac_Sdn povStorage, eor_PovStorageLOA = ac_Loa povStorage,
        eor_UbTAC = ac_Tac ub, eor_UbSDN = ac_Sdn ub, eor_UbLOA = ac_Loa ub, eor_Comments = rv_Comments revision\<rparr>)"

text \<open>\<open>FmtDatePtr\<close> and \<open>FmtDateTimePtr\<close>: the zero time is not sent.\<close>

definition FmtDatePtr :: "gotime option \<Rightarrow> gotime option" where
  "FmtDatePtr d = (if d = Some zero_time then None else d)"

definition payloadForElectronicOrdersRevisionModel :: "ElectronicOrdersRevision \<Rightarrow> Revision" where
  "payloadForElectronicOrdersRevisionModel r =
     \<lparr>rv_SeqNum = eor_SeqNum r,
      rv_Member = \<lparr>me_GivenName = eor_GivenName r, me_MiddleName = eor_MiddleName r, me_FamilyName = eor_FamilyName r,
        me_Suffix = eor_NameSuffix r, me_Affiliation = eor_Affiliation r, me_Rank = eor_Paygrade r, me_Title = eor_Title r\<rparr>,
      rv_Status = eor_Status r, rv_DateIssued = FmtDatePtr (Some (eor_DateIssued r)), rv_NoCostMove = eor_NoCostMove r,
      rv_TdyEnRoute = eor_TdyEnRoute r, rv_TourType = eor_TourType r, rv_OrdersType = eor_OrdersType r,
      rv_HasDependents = eor_HasDependents r,
      rv_LosingUnit = Some \<lparr>un_Uic = eor_LosingUIC r, un_Name = eor_LosingUnitName r, un_City = eor_LosingUnitCity r,
        un_Locality = eor_LosingUnitLocality r, un_Country = eor_LosingUnitCountry r, un_PostalCode = eor_LosingUnitPostalCode r\<rparr>,
      rv_GainingUnit = Some \<lparr>un_Uic = eor_GainingUIC r, un_Name = eor_GainingUnitName r, un_City = eor_GainingUnitCity r,
        un_Locality = eor_GainingUnitLocality r, un_Country = eor_GainingUnitCountry r, un_PostalCode = eor_GainingUnitPostalCode r\<rparr>,
      rv_ReportNoEarlierThan = FmtDatePtr (eor_ReportNoEarlierThan r), rv_ReportNoLaterThan = FmtDatePtr (eor_ReportNoLaterThan r),
      rv_PcsAccounting = Some \<lparr>ac_Tac = eor_HhgTAC r, ac_Sdn = eor_HhgSDN r, ac_Loa = eor_HhgLOA r\<rparr>,
      rv_NtsAccounting = Some \<lparr>ac_Tac = eor_NtsTAC r, ac_Sdn = eor_NtsSDN r, ac_Loa = eor_NtsLOA r\<rparr>,
      rv_PovShipmentAccounting = Some \<lparr>ac_Tac = eor_PovShipmentTAC r, ac_Sdn = eor_PovShipmentSDN r, ac_Loa = eor_PovShipmentLOA r\<rparr>,
      rv_PovStorageAccounting = Some \<lparr>ac_Tac = eor_PovStorageTAC r, ac_Sdn = eor_PovStorageSDN r, ac_Loa = eor_PovStorageLOA r\<rparr>,
      rv_UbAccounting = Some \<lparr>ac_Tac = eor_UbTAC r, ac_Sdn = eor_UbSDN r, ac_Loa = eor_UbLOA r\<rparr>,
      rv_Comments = eor_Comments r\<rparr>"

definition payloadForElectronicOrderModel :: "ElectronicOrder \<Rightarrow> Orders" where
  "payloadForElectronicOrderModel order = \<lparr>os_UUID = eo_ID order, os_OrdersNum = eo_OrdersNumber order, os_Edipi = eo_Edipi order,
     os_Issuer = eo_Issuer order, os_Revisions = map payloadForElectronicOrdersRevisionModel (eo_Revisions order)\<rparr>"

section \<open>The store\<close>

text \<open>Two tables: sets of orders, stored without their revisions, and the revisions.  A set of orders is read with its
  revisions in the order of their sequence numbers.\<close>

record orders_world =
  ow_orders :: "ElectronicOrder list"
  ow_revisions :: "ElectronicOrdersRevision list"
  ow_fresh :: uuid

record orders_env =
  oe_read :: "string \<Rightarrow> string option"
  oe_save_order :: "ElectronicOrder \<Rightarrow> verrs \<times> goerr option"
  oe_save_revision :: "ElectronicOrdersRevision \<Rightarrow> verrs \<times> goerr option"
  oe_commits :: bool
  oe_person :: "string \<Rightarrow> string \<Rightarrow> string \<Rightarrow> (string \<times> nat) result"
  oe_now :: gotime

definition load_order :: "orders_world \<Rightarrow> ElectronicOrder \<Rightarrow> ElectronicOrder" where
  "load_order w x = x\<lparr>eo_Revisions := sort_key eor_SeqNum (filter (\<lambda>r. eor_ElectronicOrderID r = eo_ID x) (ow_revisions w))\<rparr>"

definition zero_order :: ElectronicOrder where
  "zero_order = \<lparr>eo_ID = uuid_Nil, eo_OrdersNumber = '''', eo_Edipi = '''', eo_Issuer = '''', eo_Revisions = []\<rparr>"

text \<open>An unexpected error of this read is dropped: the zero value is returned without an error.\<close>

definition FetchElectronicOrderByID :: "orders_env \<Rightarrow> orders_world \<Rightarrow> uuid \<Rightarrow> ElectronicOrder result" where
  "FetchElectronicOrderByID env w i = (case oe_read env ''order by id'' of
      Some _ \<Rightarrow> Ret zero_order
    | None \<Rightarrow> (case find (\<lambda>x. eo_ID x = i) (ow_orders w) of None \<Rightarrow> Fail ErrFetchNotFound | Some x \<Rightarrow> Ret (load_order w x)))"

definition FetchElectronicOrderByIssuerAndOrdersNum :: "orders_env \<Rightarrow> orders_world \<Rightarrow> string \<Rightarrow> string \<Rightarrow> ElectronicOrder result" where
  "FetchElectronicOrderByIssuerAndOrdersNum env w issuer ordersNum = (case oe_read env ''order by number'' of
      Some m \<Rightarrow> Fail (PqError m)
    | None \<Rightarrow> (case find (\<lambda>x. eo_OrdersNumber x = ordersNum \<and> eo_Issuer x = issuer) (ow_orders w) of
          None \<Rightarrow> Fail ErrFetchNotFound | Some x \<Rightarrow> Ret (load_order w x)))"

definition FetchElectronicOrdersByEdipiAndIssuers :: "orders_env \<Rightarrow> orders_world \<Rightarrow> string \<Rightarrow> string list \<Rightarrow> ElectronicOrder list result" where
  "FetchElectronicOrdersByEdipiAndIssuers env w edipi issuers = (case oe_read env ''orders by edipi'' of
      Some m \<Rightarrow> Fail (PqError m)
    | None \<Rightarrow> Ret (map (load_order w) (filter (\<lambda>x. eo_Edipi x = edipi \<and> eo_Issuer x \<in> set issuers) (ow_orders w))))"

definition CreateElectronicOrdersRevision ::
    "orders_env \<Rightarrow> ElectronicOrdersRevision \<Rightarrow> orders_world \<Rightarrow> orders_world \<times> ElectronicOrdersRevision \<times> verrs \<times> goerr option" where
  "CreateElectronicOrdersRevision env revision w = (case oe_save_revision env revision of (verrs, err) \<Rightarrow>
     if verrs \<noteq> [] \<or> err \<noteq> None then (w, revision, verrs, err)
     else (let r = revision\<lparr>eor_ID := ow_fresh w\<rparr> in (w\<lparr>ow_fresh := ow_fresh w + 1, ow_revisions := ow_revisions w @ [r]\<rparr>, r, [], None)))"

definition CreateElectronicOrder :: "orders_env \<Rightarrow> ElectronicOrder \<Rightarrow> orders_world \<Rightarrow> orders_world \<times> ElectronicOrder \<times> verrs \<times> goerr option" where
  "CreateElectronicOrder env order w = (case oe_save_order env order of (verrs, err) \<Rightarrow>
     if verrs \<noteq> [] \<or> err \<noteq> None then (w, order, verrs, err)
     else (let x = order\<lparr>eo_ID := ow_fresh w\<rparr> in (w\<lparr>ow_fresh := ow_fresh w + 1, ow_orders := ow_orders w @ [x]\<rparr>, x, [], None)))"

text \<open>One transaction, whose own error is dropped: what could not be committed is reported as created.\<close>

definition CreateElectronicOrderWithRevision :: "orders_env \<Rightarrow> ElectronicOrder \<Rightarrow> ElectronicOrdersRevision \<Rightarrow> orders_world
    \<Rightarrow> orders_world \<times> ElectronicOrder \<times> ElectronicOrdersRevision \<times> verrs \<times> goerr option" where
  "CreateElectronicOrderWithRevision env order firstRevision w = (case CreateElectronicOrder env order w of
     (w1, order, verrs, err) \<Rightarrow>
       if verrs \<noteq> [] \<or> err \<noteq> None then (w, order, firstRevision, verrs, err)
       else (case CreateElectronicOrdersRevision env (firstRevision\<lparr>eor_ElectronicOrderID := eo_ID order\<rparr>) w1 of
           (w2, firstRevision, verrs, err) \<Rightarrow>
             if verrs \<noteq> [] \<or> err \<noteq> None then (w, order, firstRevision, verrs, err)
             else (if oe_commits env then w2 else w, order, firstRevision, [], None)))"

section \<open>The handlers\<close>

definition error_reply :: "goerr \<Rightarrow> 'a reply" where
  "error_reply e = Refusal (ErrorResponse (ResponseForError (Some e)))"

text \<open>What every handler asks of the certificate first.\<close>

definition with_certificate :: "ClientCert option \<Rightarrow> goerr \<Rightarrow> (ClientCert \<Rightarrow> 's \<times> 'a reply) \<Rightarrow> 's \<Rightarrow> 's \<times> 'a reply" where
  "with_certificate clientCert forbidden k w = (case clientCert of
      None \<Rightarrow> (w, error_reply (Wrap ''No client certificate provided'' ErrUserUnauthorized))
    | Some cert \<Rightarrow> if \<not> cc_AllowOrdersAPI cert then (w, error_reply (Wrap ''Not permitted to access this API'' forbidden)) else k cert)"

definition GetOrders :: "orders_env \<Rightarrow> ClientCert option \<Rightarrow> uuid \<Rightarrow> orders_world \<Rightarrow> orders_world \<times> Orders reply" where
  "GetOrders env clientCert i w = with_certificate clientCert ErrFetchForbidden (\<lambda>cert.
     (case FetchElectronicOrderByID env w i of
        Panic \<Rightarrow> (w, Crashed) | Fail e \<Rightarrow> (w, error_reply e)
      | Ret orders \<Rightarrow>
          if \<not> verifyOrdersReadAccess (eo_Issuer orders) cert
          then (w, error_reply (Wrap ''Not permitted to read Orders from this issuer'' ErrFetchForbidden))
          else (w, Reply 200 (payloadForElectronicOrderModel orders)))) w"

definition GetOrdersByIssuerAndOrdersNum :: "orders_env \<Rightarrow> ClientCert option \<Rightarrow> string \<Rightarrow> string \<Rightarrow> orders_world \<Rightarrow> orders_world \<times> Orders reply" where
  "GetOrdersByIssuerAndOrdersNum env clientCert issuer ordersNum w = with_certificate clientCert ErrFetchForbidden (\<lambda>cert.
     if \<not> verifyOrdersReadAccess issuer cert then (w, error_reply (Wrap ''Not permitted to read orders from this issuer'' ErrFetchForbidden))
     else (case FetchElectronicOrderByIssuerAndOrdersNum env w issuer ordersNum of
        Panic \<Rightarrow> (w, Crashed) | Fail e \<Rightarrow> (w, error_reply e)
      | Ret orders \<Rightarrow> (w, Reply 200 (payloadForElectronicOrderModel orders)))) w"

definition IndexOrdersForMember :: "orders_env \<Rightarrow> ClientCert option \<Rightarrow> string \<Rightarrow> orders_world \<Rightarrow> orders_world \<times> Orders list reply" where
  "IndexOrdersForMember env clientCert edipi w = with_certificate clientCert ErrFetchForbidden (\<lambda>cert.
     (let allowedIssuers = GetAllowedOrdersIssuersRead cert in
      if allowedIssuers = [] then (w, error_reply (Wrap ''Not permitted to read any Orders'' ErrFetchForbidden))
      else (case FetchElectronicOrdersByEdipiAndIssuers env w edipi allowedIssuers of
          Panic \<Rightarrow> (w, Crashed)
        | Fail e \<Rightarrow> if e = ErrFetchNotFound then (w, Reply 200 []) else (w, error_reply e)
        | Ret orders \<Rightarrow> (w, Reply 200 (map payloadForElectronicOrderModel orders))))) w"

definition conflict_text :: string where
  "conflict_text = ''Cannot POST Revision: a Revision with that SeqNum already exists in those Orders''"

text \<open>Adding a revision to orders that exist.\<close>

definition amend_orders :: "orders_env \<Rightarrow> ElectronicOrder \<Rightarrow> Revision \<Rightarrow> orders_world \<Rightarrow> orders_world \<times> Orders reply" where
  "amend_orders env orders revision w =
     (if list_ex (\<lambda>r. eor_SeqNum r = rv_SeqNum revision) (eo_Revisions orders) then (w, error_reply (Wrap conflict_text ErrWriteConflict))
      else (case CreateElectronicOrdersRevision env (toElectronicOrdersRevision (oe_now env) orders revision) w of
          (w', newRevision, verrs, err) \<Rightarrow>
            if verrs \<noteq> [] \<or> err \<noteq> None then (w', Refusal (ResponseForVErrors verrs err))
            else (w', Reply 201 (payloadForElectronicOrderModel (orders\<lparr>eo_Revisions := eo_Revisions orders @ [newRevision]\<rparr>)))))"

definition PostRevisionToOrders :: "orders_env \<Rightarrow> ClientCert option \<Rightarrow> uuid \<Rightarrow> Revision \<Rightarrow> orders_world \<Rightarrow> orders_world \<times> Orders reply" where
  "PostRevisionToOrders env clientCert i revision w = with_certificate clientCert ErrWriteForbidden (\<lambda>cert.
     (case FetchElectronicOrderByID env w i of
        Panic \<Rightarrow> (w, Crashed) | Fail e \<Rightarrow> (w, error_reply e)
      | Ret orders \<Rightarrow>
          if \<not> verifyOrdersWriteAccess (eo_Issuer orders) cert
          then (w, error_reply (Wrap ''Not permitted to write Orders from this issuer'' ErrWriteForbidden))
          else amend_orders env orders revision w)) w"

text \<open>The member: nine digits are a social security number that is looked up, ten are the EDIPI; any other length is a
  bad request (\<open>None\<close>), and an answer of the lookup that is not one of the four leaves the EDIPI empty.\<close>

definition member_edipi :: "orders_env \<Rightarrow> string \<Rightarrow> Revision \<Rightarrow> string option result" where
  "member_edipi env memberID revision =
     (if length memberID = 9 then
        obind (oe_person env memberID (me_FamilyName (rv_Member revision)) (me_GivenName (rv_Member revision))) (\<lambda>answer.
          if fst answer = ''PMB'' \<or> fst answer = ''PMC'' then Ret (Some (zero_padded 10 (snd answer)))
          else if fst answer = ''PAB'' then Fail (Wrap ''DMDC IWS matched multiple EDIPIs for this SSN'' ErrFetchNotFound)
          else if fst answer = ''PNB'' then Fail (Wrap ''DMDC IWS matched no EDIPI for this SSN'' ErrFetchNotFound)
          else Ret (Some ''''))
      else if length memberID = 10 then Ret (Some memberID)
      else Ret None)"

definition create_orders :: "orders_env \<Rightarrow> string \<Rightarrow> string \<Rightarrow> string \<Rightarrow> Revision \<Rightarrow> orders_world \<Rightarrow> orders_world \<times> Orders reply" where
  "create_orders env issuer ordersNum edipi revision w =
     (let orders = \<lparr>eo_ID = uuid_Nil, eo_OrdersNumber = ordersNum, eo_Edipi = edipi, eo_Issuer = issuer, eo_Revisions = []\<rparr> in
      case CreateElectronicOrderWithRevision env orders (toElectronicOrdersRevision (oe_now env) orders revision) w of
        (w', orders, newRevision, verrs, err) \<Rightarrow>
          if verrs \<noteq> [] \<or> err \<noteq> None then (w', Refusal (ResponseForVErrors verrs err))
          else (w', Reply 201 (payloadForElectronicOrderModel (orders\<lparr>eo_Revisions := eo_Revisions orders @ [newRevision]\<rparr>))))"

definition PostRevision :: "orders_env \<Rightarrow> ClientCert option \<Rightarrow> string \<Rightarrow> string \<Rightarrow> string \<Rightarrow> Revision \<Rightarrow> orders_world \<Rightarrow> orders_world \<times> Orders reply" where
  "PostRevision env clientCert memberID issuer ordersNum revision w = with_certificate clientCert ErrWriteForbidden (\<lambda>cert.
     if \<not> verifyOrdersWriteAccess issuer cert then (w, error_reply (Wrap ''Not permitted to write Orders from this issuer'' ErrWriteForbidden))
     else (case member_edipi env memberID revision of
        Panic \<Rightarrow> (w, Crashed) | Fail e \<Rightarrow> (w, error_reply e)
      | Ret None \<Rightarrow> (w, Bare 400)
      | Ret (Some edipi) \<Rightarrow>
          (case FetchElectronicOrderByIssuerAndOrdersNum env w issuer ordersNum of
             Panic \<Rightarrow> (w, Crashed)
           | Fail e \<Rightarrow> if e = ErrFetchNotFound then create_orders env issuer ordersNum edipi revision w else (w, error_reply e)
           | Ret orders \<Rightarrow>
               if eo_Edipi orders \<noteq> edipi
               then (w, error_reply (Wrap ''Cannot POST Revision: the existing orders are issued to another EDIPI'' ErrWriteConflict))
               else amend_orders env orders revision w))) w"

section \<open>What a post changes\<close>

definition orders_ok :: "orders_world \<Rightarrow> bool" where
  "orders_ok w \<longleftrightarrow> distinct (map eo_ID (ow_orders w)) \<and> (\<forall>x \<in> set (ow_orders w). eo_ID x < ow_fresh w)
     \<and> distinct (map (\<lambda>x. (eo_Issuer x, eo_OrdersNumber x)) (ow_orders w))
     \<and> distinct (map (\<lambda>r. (eor_ElectronicOrderID r, eor_SeqNum r)) (ow_revisions w))
     \<and> (\<forall>r \<in> set (ow_revisions w). \<exists>x \<in> set (ow_orders w). eo_ID x = eor_ElectronicOrderID r)
     \<and> (\<forall>x \<in> set (ow_orders w). \<exists>r \<in> set (ow_revisions w). eor_ElectronicOrderID r = eo_ID x)"

text \<open>The two changes there are: a revision more of orders that exist, or new orders with their first revision.\<close>

definition amended :: "orders_env \<Rightarrow> ClientCert \<Rightarrow> Revision \<Rightarrow> ElectronicOrder \<Rightarrow> orders_world \<Rightarrow> orders_world \<Rightarrow> bool" where
  "amended env cert revision x w w' \<longleftrightarrow> x \<in> set (ow_orders w) \<and> verifyOrdersWriteAccess (eo_Issuer x) cert
     \<and> (\<forall>r \<in> set (ow_revisions w). eor_ElectronicOrderID r = eo_ID x \<longrightarrow> eor_SeqNum r \<noteq> rv_SeqNum revision)
     \<and> w' = w\<lparr>ow_fresh := ow_fresh w + 1,
          ow_revisions := ow_revisions w @ [(toElectronicOrdersRevision (oe_now env) x revision)\<lparr>eor_ID := ow_fresh w\<rparr>]\<rparr>"

definition created :: "orders_env \<Rightarrow> ClientCert \<Rightarrow> Revision \<Rightarrow> ElectronicOrder \<Rightarrow> orders_world \<Rightarrow> orders_world \<Rightarrow> bool" where
  "created env cert revision x w w' \<longleftrightarrow> verifyOrdersWriteAccess (eo_Issuer x) cert \<and> eo_ID x = ow_fresh w \<and> eo_Revisions x = []
     \<and> (\<forall>y \<in> set (ow_orders w). eo_OrdersNumber y \<noteq> eo_OrdersNumber x \<or> eo_Issuer y \<noteq> eo_Issuer x)
     \<and> w' = w\<lparr>ow_fresh := ow_fresh w + 2, ow_orders := ow_orders w @ [x],
          ow_revisions := ow_revisions w @ [(toElectronicOrdersRevision (oe_now env) x revision)\<lparr>eor_ID := ow_fresh w + 1\<rparr>]\<rparr>"

definition changes :: "orders_env \<Rightarrow> ClientCert option \<Rightarrow> orders_world \<Rightarrow> orders_world \<Rightarrow> bool" where
  "changes env clientCert w w' \<longleftrightarrow> w' = w \<or> (\<exists>cert revision x. clientCert = Some cert \<and> cc_AllowOrdersAPI cert
     \<and> (amended env cert revision x w w' \<or> created env cert revision x w w'))"

lemma set_load_order [simp]: "set (eo_Revisions (load_order w x)) = {r \<in> set (ow_revisions w). eor_ElectronicOrderID r = eo_ID x}"
  by (simp add: load_order_def)

lemma load_order_fields [simp]:
  "eo_ID (load_order w x) = eo_ID x" "eo_Issuer (load_order w x) = eo_Issuer x" "eo_Edipi (load_order w x) = eo_Edipi x"
  "eo_OrdersNumber (load_order w x) = eo_OrdersNumber x"
  by (simp_all add: load_order_def)

lemma toElectronicOrdersRevision_order:
  "eo_ID x = eo_ID y \<Longrightarrow> toElectronicOrdersRevision now x revision = toElectronicOrdersRevision now y revision"
  by (simp add: toElectronicOrdersRevision_def)

lemma amend_orders_cases:
  assumes "amend_orders env (load_order w x) revision w = (w', reply)" "x \<in> set (ow_orders w)" "verifyOrdersWriteAccess (eo_Issuer x) cert"
  shows "w' = w \<and> (\<forall>p. reply \<noteq> Reply 201 p) \<or> amended env cert revision x w w'
    \<and> reply = Reply 201 (payloadForElectronicOrderModel ((load_order w x)\<lparr>eo_Revisions := eo_Revisions (load_order w x)
        @ [(toElectronicOrdersRevision (oe_now env) x revision)\<lparr>eor_ID := ow_fresh w\<rparr>]\<rparr>))"
proof -
  have same: "toElectronicOrdersRevision (oe_now env) (load_order w x) revision = toElectronicOrdersRevision (oe_now env) x revision"
    by (rule toElectronicOrdersRevision_order) simp
  show ?thesis using assms unfolding amend_orders_def same
    by (auto simp: amended_def CreateElectronicOrdersRevision_def Let_def list_ex_iff error_reply_def split: if_splits prod.splits)
qed

definition new_orders :: "orders_world \<Rightarrow> string \<Rightarrow> string \<Rightarrow> string \<Rightarrow> ElectronicOrder" where
  "new_orders w issuer ordersNum edipi =
     \<lparr>eo_ID = ow_fresh w, eo_OrdersNumber = ordersNum, eo_Edipi = edipi, eo_Issuer = issuer, eo_Revisions = []\<rparr>"

lemma create_orders_cases:
  assumes "create_orders env issuer ordersNum edipi revision w = (w', reply)" "verifyOrdersWriteAccess issuer cert"
    and "\<forall>y \<in> set (ow_orders w). eo_OrdersNumber y \<noteq> ordersNum \<or> eo_Issuer y \<noteq> issuer"
  shows "w' = w \<and> (\<forall>p. reply = Reply 201 p \<longrightarrow> \<not> oe_commits env) \<or> created env cert revision (new_orders w issuer ordersNum edipi) w w'
    \<and> reply = Reply 201 (payloadForElectronicOrderModel ((new_orders w issuer ordersNum edipi)\<lparr>eo_Revisions :=
        [(toElectronicOrdersRevision (oe_now env) (new_orders w issuer ordersNum edipi) revision)\<lparr>eor_ID := ow_fresh w + 1\<rparr>]\<rparr>))"
proof -
  let ?nil = "\<lparr>eo_ID = uuid_Nil, eo_OrdersNumber = ordersNum, eo_Edipi = edipi, eo_Issuer = issuer, eo_Revisions = []\<rparr>"
  have r: "(toElectronicOrdersRevision (oe_now env) ?nil revision)\<lparr>eor_ElectronicOrderID := ow_fresh w\<rparr>
      = toElectronicOrdersRevision (oe_now env) (new_orders w issuer ordersNum edipi) revision"
    by (simp add: toElectronicOrdersRevision_def new_orders_def Let_def)
  show ?thesis using assms r
    by (auto simp: create_orders_def CreateElectronicOrderWithRevision_def CreateElectronicOrder_def CreateElectronicOrdersRevision_def
      created_def new_orders_def Let_def split: if_splits prod.splits)
qed

lemma with_certificate_cases:
  assumes "with_certificate clientCert forbidden k w = (w', reply)"
  obtains (refused) e where "w' = w" "reply = error_reply e"
  | (cert) cert where "clientCert = Some cert" "cc_AllowOrdersAPI cert" "k cert = (w', reply)"
  using assms by (auto simp: with_certificate_def split: option.splits if_splits)

lemma error_reply_no_reply [simp]: "error_reply e \<noteq> Reply n p" "Reply n p \<noteq> error_reply e"
  by (simp_all add: error_reply_def)

lemma find_order: "find P xs = Some x \<Longrightarrow> x \<in> set xs \<and> P x"
  by (auto simp: find_Some_iff)

lemma PostRevisionToOrders_cases:
  assumes "PostRevisionToOrders env clientCert i revision w = (w', reply)"
  obtains (same) "w' = w" "\<And>p. reply \<noteq> Reply 201 p"
  | (amended) cert x where "clientCert = Some cert" "cc_AllowOrdersAPI cert" "eo_ID x = i" "amended env cert revision x w w'"
      "reply = Reply 201 (payloadForElectronicOrderModel ((load_order w x)\<lparr>eo_Revisions := eo_Revisions (load_order w x)
          @ [(toElectronicOrdersRevision (oe_now env) x revision)\<lparr>eor_ID := ow_fresh w\<rparr>]\<rparr>))"
  using assms unfolding PostRevisionToOrders_def
proof (cases rule: with_certificate_cases)
  case (cert cert)
  show thesis
  proof (cases "\<exists>x. find (\<lambda>x. eo_ID x = i) (ow_orders w) = Some x \<and> oe_read env ''order by id'' = None \<and> verifyOrdersWriteAccess (eo_Issuer x) cert")
    case True
    then obtain x where f: "find (\<lambda>x. eo_ID x = i) (ow_orders w) = Some x" "oe_read env ''order by id'' = None"
        "verifyOrdersWriteAccess (eo_Issuer x) cert" by blast
    then have run: "amend_orders env (load_order w x) revision w = (w', reply)"
      using cert(3) by (simp add: FetchElectronicOrderByID_def)
    from amend_orders_cases [OF run find_order [OF f(1), THEN conjunct1] f(3)] show thesis
      using same amended [OF cert(1,2) find_order [OF f(1), THEN conjunct2]] by blast
  next
    case False
    have "\<not> verifyOrdersWriteAccess (eo_Issuer zero_order) cert" by (simp add: zero_order_def verifyOrdersWriteAccess_def issuer_defs)
    with cert(3) False show thesis by (intro same) (auto simp: FetchElectronicOrderByID_def split: option.splits if_splits)
  qed
qed (use same in auto)

lemma PostRevision_cases:
  assumes "PostRevision env clientCert memberID issuer ordersNum revision w = (w', reply)"
  obtains (same) "w' = w" "\<And>p. reply = Reply 201 p \<Longrightarrow> \<not> oe_commits env"
  | (amended) cert x where "clientCert = Some cert" "cc_AllowOrdersAPI cert" "eo_Issuer x = issuer" "eo_OrdersNumber x = ordersNum"
      "amended env cert revision x w w'"
      "reply = Reply 201 (payloadForElectronicOrderModel ((load_order w x)\<lparr>eo_Revisions := eo_Revisions (load_order w x)
          @ [(toElectronicOrdersRevision (oe_now env) x revision)\<lparr>eor_ID := ow_fresh w\<rparr>]\<rparr>))"
  | (created) cert x where "clientCert = Some cert" "cc_AllowOrdersAPI cert" "eo_Issuer x = issuer" "eo_OrdersNumber x = ordersNum"
      "created env cert revision x w w'"
      "reply = Reply 201 (payloadForElectronicOrderModel (x\<lparr>eo_Revisions :=
          [(toElectronicOrdersRevision (oe_now env) x revision)\<lparr>eor_ID := ow_fresh w + 1\<rparr>]\<rparr>))"
  using assms unfolding PostRevision_def
proof (cases rule: with_certificate_cases)
  case (cert cert)
  show thesis
  proof (cases "\<exists>edipi. member_edipi env memberID revision = Ret (Some edipi) \<and> verifyOrdersWriteAccess issuer cert \<and> oe_read env ''order by number'' = None")
    case False
    then show thesis using cert(3)
      by (intro same) (auto simp: FetchElectronicOrderByIssuerAndOrdersNum_def create_orders_def error_reply_def split: if_splits outcome.splits option.splits)
  next
    case True
    then obtain edipi where e: "member_edipi env memberID revision = Ret (Some edipi)" "verifyOrdersWriteAccess issuer cert"
        "oe_read env ''order by number'' = None" by blast
    show thesis
    proof (cases "find (\<lambda>x. eo_OrdersNumber x = ordersNum \<and> eo_Issuer x = issuer) (ow_orders w)")
      case None
      then have new: "\<forall>y \<in> set (ow_orders w). eo_OrdersNumber y \<noteq> ordersNum \<or> eo_Issuer y \<noteq> issuer" by (auto simp: find_None_iff)
      have run: "create_orders env issuer ordersNum edipi revision w = (w', reply)"
        using cert(3) e None by (simp add: FetchElectronicOrderByIssuerAndOrdersNum_def)
      have fields: "eo_Issuer (new_orders w issuer ordersNum edipi) = issuer" "eo_OrdersNumber (new_orders w issuer ordersNum edipi) = ordersNum"
        by (simp_all add: new_orders_def)
      from create_orders_cases [OF run e(2) new] show thesis using same created [OF cert(1,2) fields] by blast
    next
      case (Some x)
      note x = find_order [OF Some]
      show thesis
      proof (cases "eo_Edipi x = edipi")
        case True
        then have run: "amend_orders env (load_order w x) revision w = (w', reply)"
          using cert(3) e Some by (simp add: FetchElectronicOrderByIssuerAndOrdersNum_def)
        have w: "verifyOrdersWriteAccess (eo_Issuer x) cert" using x e(2) by simp
        from amend_orders_cases [OF run _ w] x show thesis using same amended [OF cert(1,2), of x] by blast
      next
        case False
        then show thesis using cert(3) e Some by (intro same) (auto simp: FetchElectronicOrderByIssuerAndOrdersNum_def)
      qed
    qed
  qed
qed (use same in auto)

section \<open>Any number of requests\<close>

datatype orders_request = PostByNumber string string string Revision | PostByID uuid Revision

fun post :: "orders_env \<Rightarrow> ClientCert option \<Rightarrow> orders_request \<Rightarrow> orders_world \<Rightarrow> orders_world" where
  "post env clientCert (PostByNumber memberID issuer ordersNum revision) w = fst (PostRevision env clientCert memberID issuer ordersNum revision w)"
| "post env clientCert (PostByID i revision) w = fst (PostRevisionToOrders env clientCert i revision w)"

fun post_all :: "(orders_env \<times> ClientCert option \<times> orders_request) list \<Rightarrow> orders_world \<Rightarrow> orders_world" where
  "post_all [] w = w"
| "post_all (q # qs) w = (case q of (env, clientCert, request) \<Rightarrow> post_all qs (post env clientCert request w))"

lemma post_changes: "changes env clientCert w (post env clientCert request w)"
proof (cases request)
  case (PostByNumber memberID issuer ordersNum revision)
  obtain w' reply where run: "PostRevision env clientCert memberID issuer ordersNum revision w = (w', reply)" by fastforce
  then have w': "post env clientCert request w = w'" using PostByNumber by simp
  from run show ?thesis unfolding w' by (cases rule: PostRevision_cases) (auto simp: changes_def)
next
  case (PostByID i revision)
  obtain w' reply where run: "PostRevisionToOrders env clientCert i revision w = (w', reply)" by fastforce
  then have w': "post env clientCert request w = w'" using PostByID by simp
  from run show ?thesis unfolding w' by (cases rule: PostRevisionToOrders_cases) (auto simp: changes_def)
qed

lemma toElectronicOrdersRevision_fields [simp]:
  "eor_ElectronicOrderID (toElectronicOrdersRevision now x revision) = eo_ID x"
  "eor_SeqNum (toElectronicOrdersRevision now x revision) = rv_SeqNum revision"
  by (simp_all add: toElectronicOrdersRevision_def Let_def)

text \<open>Nothing is ever changed or taken away.\<close>

definition history_kept :: "orders_world \<Rightarrow> orders_world \<Rightarrow> bool" where
  "history_kept w w' \<longleftrightarrow> (\<exists>more. ow_orders w' = ow_orders w @ more) \<and> (\<exists>more. ow_revisions w' = ow_revisions w @ more)"

lemma history_kept_trans: "history_kept w w1 \<Longrightarrow> history_kept w1 w2 \<Longrightarrow> history_kept w w2"
  by (auto simp: history_kept_def)

lemma changes_ok:
  assumes "changes env clientCert w w'" "orders_ok w"
  shows "orders_ok w' \<and> history_kept w w'"
proof -
  consider (same) "w' = w" | (amended) cert revision x where "amended env cert revision x w w'"
    | (created) cert revision x where "created env cert revision x w w'"
    using assms(1) by (auto simp: changes_def)
  then show ?thesis
  proof cases
    case same
    with assms(2) show ?thesis by (simp add: history_kept_def)
  next
    case (amended cert revision x)
    then have w': "ow_orders w' = ow_orders w" "ow_fresh w' = ow_fresh w + 1"
        "ow_revisions w' = ow_revisions w @ [(toElectronicOrdersRevision (oe_now env) x revision)\<lparr>eor_ID := ow_fresh w\<rparr>]"
      by (auto simp: amended_def)
    have x: "x \<in> set (ow_orders w)" "\<forall>r \<in> set (ow_revisions w). eor_ElectronicOrderID r = eo_ID x \<longrightarrow> eor_SeqNum r \<noteq> rv_SeqNum revision"
      using amended by (auto simp: amended_def)
    have "orders_ok w'" unfolding orders_ok_def w'
      using assms(2) x by (auto simp: orders_ok_def less_Suc_eq)
    then show ?thesis using w' by (simp add: history_kept_def)
  next
    case (created cert revision x)
    then have w': "ow_orders w' = ow_orders w @ [x]" "ow_fresh w' = ow_fresh w + 2" "eo_ID x = ow_fresh w"
        "ow_revisions w' = ow_revisions w @ [(toElectronicOrdersRevision (oe_now env) x revision)\<lparr>eor_ID := ow_fresh w + 1\<rparr>]"
      and new: "\<forall>y \<in> set (ow_orders w). eo_OrdersNumber y \<noteq> eo_OrdersNumber x \<or> eo_Issuer y \<noteq> eo_Issuer x"
      by (auto simp: created_def)
    have fresh: "\<forall>y \<in> set (ow_orders w). eo_ID y < ow_fresh w" using assms(2) by (simp add: orders_ok_def)
    have "\<forall>r \<in> set (ow_revisions w). eor_ElectronicOrderID r \<noteq> ow_fresh w" using assms(2) fresh by (fastforce simp: orders_ok_def)
    then have "orders_ok w'" unfolding orders_ok_def w'(1,2,4)
      using assms(2) new fresh w'(3) by (fastforce simp: orders_ok_def)
    then show ?thesis using w' by (simp add: history_kept_def)
  qed
qed

lemma post_all_ok: "orders_ok w \<Longrightarrow> orders_ok (post_all qs w) \<and> history_kept w (post_all qs w)"
proof (induction qs arbitrary: w)
  case (Cons q qs)
  obtain env clientCert request where q: "q = (env, clientCert, request)" by (cases q)
  note step = changes_ok [OF post_changes [of env clientCert w request] Cons.prems]
  then show ?case using Cons.IH [of "post env clientCert request w"] history_kept_trans q by auto
qed (simp add: history_kept_def)

text \<open>C36: through any sequence of posts by whatever certificates, an issuer has one set of orders per orders number, a
  set of orders one revision per sequence number and at least one, every revision belongs to a set of orders, and
  neither orders nor revisions are ever changed or removed: a correction is a further revision.\<close>

theorem orders_history:
  assumes "orders_ok w"
  shows "orders_ok (post_all qs w) \<and> history_kept w (post_all qs w)"
  using post_all_ok [OF assms] .

text \<open>The rights a certificate gives: for every issuer one to read and one to write, both void without the right to use the
  API.\<close>

definition read_rights :: "(string \<times> (ClientCert \<Rightarrow> bool)) list" where
  "read_rights = [(''army'', cc_AllowArmyOrdersRead), (''navy'', cc_AllowNavyOrdersRead), (''air-force'', cc_AllowAirForceOrdersRead),
     (''marine-corps'', cc_AllowMarineCorpsOrdersRead), (''coast-guard'', cc_AllowCoastGuardOrdersRead)]"

definition write_rights :: "(string \<times> (ClientCert \<Rightarrow> bool)) list" where
  "write_rights = [(''army'', cc_AllowArmyOrdersWrite), (''navy'', cc_AllowNavyOrdersWrite), (''air-force'', cc_AllowAirForceOrdersWrite),
     (''marine-corps'', cc_AllowMarineCorpsOrdersWrite), (''coast-guard'', cc_AllowCoastGuardOrdersWrite)]"

definition may :: "(string \<times> (ClientCert \<Rightarrow> bool)) list \<Rightarrow> ClientCert option \<Rightarrow> string \<Rightarrow> bool" where
  "may rights clientCert issuer \<longleftrightarrow> (case clientCert of None \<Rightarrow> False
     | Some cert \<Rightarrow> cc_AllowOrdersAPI cert \<and> list_ex (\<lambda>(i, right). i = issuer \<and> right cert) rights)"

lemma may_read: "may read_rights (Some cert) issuer \<longleftrightarrow> cc_AllowOrdersAPI cert \<and> verifyOrdersReadAccess issuer cert"
  by (auto simp: may_def read_rights_def verifyOrdersReadAccess_def issuer_defs)

lemma may_write: "may write_rights (Some cert) issuer \<longleftrightarrow> cc_AllowOrdersAPI cert \<and> verifyOrdersWriteAccess issuer cert"
  by (auto simp: may_def write_rights_def verifyOrdersWriteAccess_def issuer_defs)

lemma may_None [simp]: "\<not> may rights None issuer"
  by (simp add: may_def)

lemma allowed_issuers: "issuer \<in> set (GetAllowedOrdersIssuersRead cert) \<longleftrightarrow> verifyOrdersReadAccess issuer cert"
  by (auto simp: GetAllowedOrdersIssuersRead_def verifyOrdersReadAccess_def issuer_defs)

lemma changes_rights:
  assumes "changes env clientCert w w'"
  shows "x \<in> set (ow_orders w') - set (ow_orders w) \<Longrightarrow> may write_rights clientCert (eo_Issuer x)"
    "r \<in> set (ow_revisions w') - set (ow_revisions w) \<Longrightarrow>
       \<exists>x \<in> set (ow_orders w'). eor_ElectronicOrderID r = eo_ID x \<and> may write_rights clientCert (eo_Issuer x)"
  using assms by (auto simp: changes_def amended_def created_def may_write)

text \<open>The database answers every read, accepts every row and commits.\<close>

definition answers :: "orders_env \<Rightarrow> bool" where
  "answers env \<longleftrightarrow> (\<forall>what. oe_read env what = None) \<and> (\<forall>x. oe_save_order env x = ([], None))
     \<and> (\<forall>r. oe_save_revision env r = ([], None)) \<and> oe_commits env"

lemma find_by_ID:
  assumes "distinct (map eo_ID xs)" "x \<in> set xs"
  shows "find (\<lambda>y. eo_ID y = eo_ID x) xs = Some x"
  using assms by (induction xs) (auto simp: image_iff)

lemma find_by_number:
  "distinct (map (\<lambda>x. (eo_Issuer x, eo_OrdersNumber x)) xs) \<Longrightarrow> x \<in> set xs \<Longrightarrow>
     find (\<lambda>y. eo_OrdersNumber y = eo_OrdersNumber x \<and> eo_Issuer y = eo_Issuer x) xs = Some x"
  by (induction xs) (auto simp: image_iff)

lemma reads_answered:
  assumes "orders_ok w" "answers env" "x \<in> set (ow_orders w)"
  shows "(\<exists>p. GetOrders env clientCert (eo_ID x) w = (w, Reply 200 p)) \<longleftrightarrow> may read_rights clientCert (eo_Issuer x)"
    "(\<exists>p. GetOrdersByIssuerAndOrdersNum env clientCert (eo_Issuer x) (eo_OrdersNumber x) w = (w, Reply 200 p))
      \<longleftrightarrow> may read_rights clientCert (eo_Issuer x)"
proof -
  have f: "find (\<lambda>y. eo_ID y = eo_ID x) (ow_orders w) = Some x"
    "find (\<lambda>y. eo_OrdersNumber y = eo_OrdersNumber x \<and> eo_Issuer y = eo_Issuer x) (ow_orders w) = Some x"
    using assms(1,3) by (auto simp: orders_ok_def intro: find_by_ID find_by_number)
  show "(\<exists>p. GetOrders env clientCert (eo_ID x) w = (w, Reply 200 p)) \<longleftrightarrow> may read_rights clientCert (eo_Issuer x)"
    using assms(2) f
    by (cases clientCert) (auto simp: GetOrders_def with_certificate_def FetchElectronicOrderByID_def answers_def may_read)
  show "(\<exists>p. GetOrdersByIssuerAndOrdersNum env clientCert (eo_Issuer x) (eo_OrdersNumber x) w = (w, Reply 200 p))
      \<longleftrightarrow> may read_rights clientCert (eo_Issuer x)"
    using assms(2) f
    by (cases clientCert)
      (auto simp: GetOrdersByIssuerAndOrdersNum_def with_certificate_def FetchElectronicOrderByIssuerAndOrdersNum_def answers_def may_read)
qed

lemma index_answered:
  assumes "answers env"
  shows "IndexOrdersForMember env clientCert edipi w = (w, Reply 200 ps) \<longleftrightarrow> (\<exists>issuer. may read_rights clientCert issuer)
    \<and> ps = map (\<lambda>x. payloadForElectronicOrderModel (load_order w x))
        (filter (\<lambda>x. eo_Edipi x = edipi \<and> may read_rights clientCert (eo_Issuer x)) (ow_orders w))"
proof (cases clientCert)
  case (Some cert)
  show ?thesis
  proof (cases "cc_AllowOrdersAPI cert")
    case True
    have "GetAllowedOrdersIssuersRead cert \<noteq> [] \<longleftrightarrow> (\<exists>issuer. may read_rights (Some cert) issuer)"
      using True allowed_issuers [of _ cert] by (cases "GetAllowedOrdersIssuersRead cert") (auto simp: may_read)
    then show ?thesis using True assms Some
      by (auto simp: IndexOrdersForMember_def with_certificate_def FetchElectronicOrdersByEdipiAndIssuers_def answers_def allowed_issuers
          may_read Let_def)
  qed (use Some in \<open>auto simp: IndexOrdersForMember_def with_certificate_def may_read\<close>)
qed (auto simp: IndexOrdersForMember_def with_certificate_def)

lemma posts_answered:
  assumes "orders_ok w" "answers env"
  shows "x \<in> set (ow_orders w) \<Longrightarrow> \<forall>r \<in> set (ow_revisions w). eor_ElectronicOrderID r = eo_ID x \<longrightarrow> eor_SeqNum r \<noteq> rv_SeqNum revision \<Longrightarrow>
      (\<exists>w' p. PostRevisionToOrders env clientCert (eo_ID x) revision w = (w', Reply 201 p)) \<longleftrightarrow> may write_rights clientCert (eo_Issuer x)"
    "\<forall>y \<in> set (ow_orders w). eo_OrdersNumber y \<noteq> ordersNum \<or> eo_Issuer y \<noteq> issuer \<Longrightarrow> length memberID = 10 \<Longrightarrow>
      (\<exists>w' p. PostRevision env clientCert memberID issuer ordersNum revision w = (w', Reply 201 p)) \<longleftrightarrow> may write_rights clientCert issuer"
proof -
  assume x: "x \<in> set (ow_orders w)"
    and free: "\<forall>r \<in> set (ow_revisions w). eor_ElectronicOrderID r = eo_ID x \<longrightarrow> eor_SeqNum r \<noteq> rv_SeqNum revision"
  have f: "find (\<lambda>y. eo_ID y = eo_ID x) (ow_orders w) = Some x"
    using assms(1) x by (auto simp: orders_ok_def intro: find_by_ID)
  show "(\<exists>w' p. PostRevisionToOrders env clientCert (eo_ID x) revision w = (w', Reply 201 p)) \<longleftrightarrow> may write_rights clientCert (eo_Issuer x)"
    using assms(2) f free
    by (cases clientCert) (auto simp: PostRevisionToOrders_def with_certificate_def FetchElectronicOrderByID_def answers_def may_write
        amend_orders_def CreateElectronicOrdersRevision_def list_ex_iff Let_def)
next
  assume new: "\<forall>y \<in> set (ow_orders w). eo_OrdersNumber y \<noteq> ordersNum \<or> eo_Issuer y \<noteq> issuer" and m: "length memberID = 10"
  then have f: "find (\<lambda>y. eo_OrdersNumber y = ordersNum \<and> eo_Issuer y = issuer) (ow_orders w) = None" by (auto simp: find_None_iff)
  show "(\<exists>w' p. PostRevision env clientCert memberID issuer ordersNum revision w = (w', Reply 201 p)) \<longleftrightarrow> may write_rights clientCert issuer"
    using assms(2) f m
    by (cases clientCert) (auto simp: PostRevision_def with_certificate_def member_edipi_def FetchElectronicOrderByIssuerAndOrdersNum_def
        answers_def may_write create_orders_def CreateElectronicOrderWithRevision_def CreateElectronicOrder_def
        CreateElectronicOrdersRevision_def Let_def)
qed

text \<open>C37: whatever the database answers, a certificate adds to the orders only of issuers it has the right to write for, and
  what it reads, in any of the three ways, are orders of issuers it has the right to read; without the right to use the API
  it does neither.  When the database answers and accepts, these rights are also enough: orders are read by identifier and by
  number exactly when the right for their issuer is there, the index lists exactly the member's orders with that right,
  and a revision with a free sequence number, or of new orders of a member given by EDIPI, is created exactly with it.\<close>

theorem orders_guarded:
  assumes "orders_ok w"
  shows "(\<forall>x \<in> set (ow_orders (post env clientCert request w)) - set (ow_orders w). may write_rights clientCert (eo_Issuer x))
    \<and> (\<forall>r \<in> set (ow_revisions (post env clientCert request w)) - set (ow_revisions w).
        \<exists>x \<in> set (ow_orders (post env clientCert request w)). eor_ElectronicOrderID r = eo_ID x \<and> may write_rights clientCert (eo_Issuer x))
    \<and> (GetOrders env clientCert i w = (w1, Reply 200 p) \<longrightarrow> may read_rights clientCert (os_Issuer p))
    \<and> (GetOrdersByIssuerAndOrdersNum env clientCert issuer ordersNum w = (w2, Reply 200 p2) \<longrightarrow> may read_rights clientCert (os_Issuer p2))
    \<and> (IndexOrdersForMember env clientCert edipi w = (w3, Reply 200 ps) \<longrightarrow>
        (\<forall>p \<in> set ps. may read_rights clientCert (os_Issuer p) \<and> os_Edipi p = edipi))
    \<and> (answers env \<longrightarrow>
        (\<forall>x \<in> set (ow_orders w).
          ((\<exists>p. GetOrders env clientCert (eo_ID x) w = (w, Reply 200 p)) \<longleftrightarrow> may read_rights clientCert (eo_Issuer x))
          \<and> ((\<exists>p. GetOrdersByIssuerAndOrdersNum env clientCert (eo_Issuer x) (eo_OrdersNumber x) w = (w, Reply 200 p))
              \<longleftrightarrow> may read_rights clientCert (eo_Issuer x))
          \<and> ((\<forall>r \<in> set (ow_revisions w). eor_ElectronicOrderID r = eo_ID x \<longrightarrow> eor_SeqNum r \<noteq> rv_SeqNum revision) \<longrightarrow>
              ((\<exists>w' p. PostRevisionToOrders env clientCert (eo_ID x) revision w = (w', Reply 201 p))
                \<longleftrightarrow> may write_rights clientCert (eo_Issuer x))))
        \<and> (\<forall>ps. IndexOrdersForMember env clientCert edipi w = (w, Reply 200 ps) \<longleftrightarrow> (\<exists>issuer. may read_rights clientCert issuer)
            \<and> ps = map (\<lambda>x. payloadForElectronicOrderModel (load_order w x))
                (filter (\<lambda>x. eo_Edipi x = edipi \<and> may read_rights clientCert (eo_Issuer x)) (ow_orders w)))
        \<and> ((\<forall>y \<in> set (ow_orders w). eo_OrdersNumber y \<noteq> ordersNum \<or> eo_Issuer y \<noteq> issuer) \<and> length memberID = 10 \<longrightarrow>
            ((\<exists>w' p. PostRevision env clientCert memberID issuer ordersNum revision w = (w', Reply 201 p))
              \<longleftrightarrow> may write_rights clientCert issuer)))"
proof -
  have "may read_rights clientCert (os_Issuer p)" if "GetOrders env clientCert i w = (w1, Reply 200 p)"
    using that unfolding GetOrders_def
    by (cases rule: with_certificate_cases) (auto simp: payloadForElectronicOrderModel_def may_read split: outcome.splits if_splits)
  moreover have "may read_rights clientCert (os_Issuer p2)"
    if "GetOrdersByIssuerAndOrdersNum env clientCert issuer ordersNum w = (w2, Reply 200 p2)"
    using that unfolding GetOrdersByIssuerAndOrdersNum_def
    by (cases rule: with_certificate_cases) (auto simp: payloadForElectronicOrderModel_def FetchElectronicOrderByIssuerAndOrdersNum_def
        may_read dest!: find_order split: outcome.splits option.splits if_splits)
  moreover have "\<forall>p \<in> set ps. may read_rights clientCert (os_Issuer p) \<and> os_Edipi p = edipi"
    if "IndexOrdersForMember env clientCert edipi w = (w3, Reply 200 ps)"
    using that unfolding IndexOrdersForMember_def
    by (cases rule: with_certificate_cases) (auto simp: payloadForElectronicOrderModel_def FetchElectronicOrdersByEdipiAndIssuers_def Let_def
        allowed_issuers may_read split: outcome.splits option.splits if_splits)
  ultimately show ?thesis
    apply (intro conjI impI ballI allI)
    subgoal for x by (rule changes_rights(1) [OF post_changes])
    subgoal for r by (rule changes_rights(2) [OF post_changes])
    subgoal by blast
    subgoal by blast
    subgoal for q by blast
    subgoal for q by blast
    subgoal for x by (rule reads_answered(1) [OF assms])
    subgoal for x by (rule reads_answered(2) [OF assms])
    subgoal for x by (rule posts_answered(1) [OF assms]) simp_all
    subgoal for ps by (rule index_answered)
    subgoal by (rule posts_answered(2) [OF assms]) simp_all
    done
qed

section \<open>What was posted is read back\<close>

text \<open>A revision as it comes back: the defaults filled in, every group present, zero dates left out.\<close>

definition as_sent :: "gotime \<Rightarrow> Revision \<Rightarrow> Revision" where
  "as_sent now revision = revision\<lparr>
     rv_DateIssued := FmtDatePtr (Some (case rv_DateIssued revision of None \<Rightarrow> now | Some d \<Rightarrow> d)),
     rv_TourType := (if rv_TourType revision = '''' then ''accompanied'' else rv_TourType revision),
     rv_LosingUnit := Some (unit_or_nil (rv_LosingUnit revision)), rv_GainingUnit := Some (unit_or_nil (rv_GainingUnit revision)),
     rv_ReportNoEarlierThan := FmtDatePtr (rv_ReportNoEarlierThan revision), rv_ReportNoLaterThan := FmtDatePtr (rv_ReportNoLaterThan revision),
     rv_PcsAccounting := Some (accounting_or_nil (rv_PcsAccounting revision)), rv_NtsAccounting := Some (accounting_or_nil (rv_NtsAccounting revision)),
     rv_PovShipmentAccounting := Some (accounting_or_nil (rv_PovShipmentAccounting revision)),
     rv_PovStorageAccounting := Some (accounting_or_nil (rv_PovStorageAccounting revision)),
     rv_UbAccounting := Some (accounting_or_nil (rv_UbAccounting revision))\<rparr>"

lemma payload_of_sent:
  "payloadForElectronicOrdersRevisionModel ((toElectronicOrdersRevision now x revision)\<lparr>eor_ID := i\<rparr>) = as_sent now revision"
  by (simp add: payloadForElectronicOrdersRevisionModel_def toElectronicOrdersRevision_def as_sent_def Let_def TourTypeAccompanied_def)

lemma payload_SeqNum [simp]: "rv_SeqNum (payloadForElectronicOrdersRevisionModel r) = eor_SeqNum r"
  by (simp add: payloadForElectronicOrdersRevisionModel_def)

lemma payload_fields [simp]:
  "os_UUID (payloadForElectronicOrderModel x) = eo_ID x" "os_Issuer (payloadForElectronicOrderModel x) = eo_Issuer x"
  "os_OrdersNum (payloadForElectronicOrderModel x) = eo_OrdersNumber x" "os_Edipi (payloadForElectronicOrderModel x) = eo_Edipi x"
  "os_Revisions (payloadForElectronicOrderModel x) = map payloadForElectronicOrdersRevisionModel (eo_Revisions x)"
  by (simp_all add: payloadForElectronicOrderModel_def)

lemma distinct_map_filter_key:
  "distinct (map (\<lambda>r. (f r, g r)) xs) \<Longrightarrow> distinct (map g (filter (\<lambda>r. f r = k) xs))"
  by (induction xs) (auto simp: image_iff)

lemma loaded_revisions:
  assumes "orders_ok w"
  shows "sorted (map eor_SeqNum (eo_Revisions (load_order w x)))" "distinct (map eor_SeqNum (eo_Revisions (load_order w x)))"
proof -
  show "sorted (map eor_SeqNum (eo_Revisions (load_order w x)))" by (simp add: load_order_def)
  let ?rs = "filter (\<lambda>r. eor_ElectronicOrderID r = eo_ID x) (ow_revisions w)"
  have "distinct (map eor_SeqNum ?rs)" using assms by (intro distinct_map_filter_key) (simp add: orders_ok_def)
  moreover have "mset (map eor_SeqNum (sort_key eor_SeqNum ?rs)) = mset (map eor_SeqNum ?rs)" by simp
  ultimately show "distinct (map eor_SeqNum (eo_Revisions (load_order w x)))"
    unfolding load_order_def using mset_eq_imp_distinct_iff by fastforce
qed

text \<open>What both posts come to: afterwards the store has the orders, and with them the revisions in the reply.\<close>

lemma posted_loaded:
  assumes "amended env cert revision x w w'
      \<and> p = payloadForElectronicOrderModel ((load_order w x)\<lparr>eo_Revisions := eo_Revisions (load_order w x)
          @ [(toElectronicOrdersRevision (oe_now env) x revision)\<lparr>eor_ID := ow_fresh w\<rparr>]\<rparr>)
    \<or> created env cert revision x w w' \<and> p = payloadForElectronicOrderModel (x\<lparr>eo_Revisions :=
          [(toElectronicOrdersRevision (oe_now env) x revision)\<lparr>eor_ID := ow_fresh w + 1\<rparr>]\<rparr>)" and ok: "orders_ok w"
  shows "x \<in> set (ow_orders w') \<and> os_UUID p = eo_ID x \<and> os_Issuer p = eo_Issuer x \<and> os_OrdersNum p = eo_OrdersNumber x \<and> os_Edipi p = eo_Edipi x
    \<and> as_sent (oe_now env) revision \<in> set (os_Revisions p)
    \<and> mset (os_Revisions p) = mset (map payloadForElectronicOrdersRevisionModel (eo_Revisions (load_order w' x)))"
  using assms(1)
proof
  assume a: "amended env cert revision x w w' \<and> p = payloadForElectronicOrderModel ((load_order w x)\<lparr>eo_Revisions := eo_Revisions (load_order w x)
          @ [(toElectronicOrdersRevision (oe_now env) x revision)\<lparr>eor_ID := ow_fresh w\<rparr>]\<rparr>)"
  then show ?thesis by (auto simp: amended_def payload_of_sent load_order_def)
next
  assume c: "created env cert revision x w w' \<and> p = payloadForElectronicOrderModel (x\<lparr>eo_Revisions :=
          [(toElectronicOrdersRevision (oe_now env) x revision)\<lparr>eor_ID := ow_fresh w + 1\<rparr>]\<rparr>)"
  have "filter (\<lambda>r. eor_ElectronicOrderID r = ow_fresh w) (ow_revisions w) = []"
    using ok by (fastforce simp: orders_ok_def filter_empty_conv)
  with c show ?thesis by (auto simp: created_def payload_of_sent load_order_def)
qed

text \<open>C38: a revision that was posted under an orders number and committed is read back with the orders as it was sent, with
  the defaults the schema names filled in, together with all earlier revisions, in the order of their sequence numbers, each of
  which occurs once; the reply to the post has the same revisions in the order they came.\<close>

theorem posted_revision_read_back:
  assumes ok: "orders_ok w" and run: "PostRevision env clientCert memberID issuer ordersNum revision w = (w', Reply 201 p)"
    and commits: "oe_commits env" and reads: "oe_read env' ''order by id'' = None"
    and reader: "cc_AllowOrdersAPI cert" "verifyOrdersReadAccess issuer cert"
  shows "\<exists>q. GetOrders env' (Some cert) (os_UUID p) w' = (w', Reply 200 q) \<and> os_Issuer q = issuer \<and> os_OrdersNum q = ordersNum
    \<and> os_Edipi q = os_Edipi p \<and> mset (os_Revisions q) = mset (os_Revisions p) \<and> as_sent (oe_now env) revision \<in> set (os_Revisions q)
    \<and> sorted (map rv_SeqNum (os_Revisions q)) \<and> distinct (map rv_SeqNum (os_Revisions q))"
proof -
  from run obtain x cert' where x: "eo_Issuer x = issuer" "eo_OrdersNumber x = ordersNum"
    and change: "amended env cert' revision x w w'
        \<and> p = payloadForElectronicOrderModel ((load_order w x)\<lparr>eo_Revisions := eo_Revisions (load_order w x)
            @ [(toElectronicOrdersRevision (oe_now env) x revision)\<lparr>eor_ID := ow_fresh w\<rparr>]\<rparr>)
      \<or> created env cert' revision x w w' \<and> p = payloadForElectronicOrderModel (x\<lparr>eo_Revisions :=
            [(toElectronicOrdersRevision (oe_now env) x revision)\<lparr>eor_ID := ow_fresh w + 1\<rparr>]\<rparr>)"
    and ch: "clientCert = Some cert'" "cc_AllowOrdersAPI cert'"
    using commits by (cases rule: PostRevision_cases) auto
  note l = posted_loaded [OF change ok]
  have "changes env clientCert w w'" using change ch by (auto simp: changes_def)
  then have ok': "orders_ok w'" using changes_ok ok by blast
  then have "find (\<lambda>y. eo_ID y = eo_ID x) (ow_orders w') = Some x" using l by (intro find_by_ID) (auto simp: orders_ok_def)
  moreover have uuid: "os_UUID p = eo_ID x" using l by blast
  ultimately have get: "GetOrders env' (Some cert) (os_UUID p) w' = (w', Reply 200 (payloadForElectronicOrderModel (load_order w' x)))"
    unfolding uuid using reads reader x(1) by (simp add: GetOrders_def with_certificate_def FetchElectronicOrderByID_def)
  have "as_sent (oe_now env) revision \<in> set (map payloadForElectronicOrdersRevisionModel (eo_Revisions (load_order w' x)))"
    using l mset_eq_setD by metis
  moreover have "rv_SeqNum \<circ> payloadForElectronicOrdersRevisionModel = eor_SeqNum" by (intro ext) simp
  ultimately show ?thesis using get l x loaded_revisions [OF ok', of x]
    by (intro exI [of _ "payloadForElectronicOrderModel (load_order w' x)"]) simp
qed

section \<open>Requests that run\<close>

definition sample_revision :: "int \<Rightarrow> Revision" where
  "sample_revision n = \<lparr>rv_SeqNum = n, rv_Member = \<lparr>me_GivenName = ''Ann'', me_MiddleName = None, me_FamilyName = ''Lee'', me_Suffix = None,
       me_Affiliation = ''army'', me_Rank = ''e-5'', me_Title = None\<rparr>,
     rv_Status = ''authorized'', rv_DateIssued = None, rv_NoCostMove = False, rv_TdyEnRoute = False, rv_TourType = '''', rv_OrdersType = ''separation'',
     rv_HasDependents = True, rv_LosingUnit = None, rv_GainingUnit = None, rv_ReportNoEarlierThan = None, rv_ReportNoLaterThan = Some 5,
     rv_PcsAccounting = Some \<lparr>ac_Tac = Some ''F67C'', ac_Sdn = None, ac_Loa = None\<rparr>, rv_NtsAccounting = None, rv_PovShipmentAccounting = None,
     rv_PovStorageAccounting = None, rv_UbAccounting = None, rv_Comments = None\<rparr>"

definition army_cert :: ClientCert where
  "army_cert = \<lparr>cc_AllowOrdersAPI = True, cc_AllowAirForceOrdersRead = False, cc_AllowAirForceOrdersWrite = False,
     cc_AllowArmyOrdersRead = True, cc_AllowArmyOrdersWrite = True, cc_AllowCoastGuardOrdersRead = False, cc_AllowCoastGuardOrdersWrite = False,
     cc_AllowMarineCorpsOrdersRead = False, cc_AllowMarineCorpsOrdersWrite = False, cc_AllowNavyOrdersRead = False, cc_AllowNavyOrdersWrite = False\<rparr>"

definition sample_orders_env :: orders_env where
  "sample_orders_env = \<lparr>oe_read = (\<lambda>_. None), oe_save_order = (\<lambda>_. ([], None)), oe_save_revision = (\<lambda>_. ([], None)), oe_commits = True,
     oe_person = (\<lambda>_ _ _. Ret (''PNB'', 0)), oe_now = 1552521600\<rparr>"

definition no_orders :: orders_world where
  "no_orders = \<lparr>ow_orders = [], ow_revisions = [], ow_fresh = 5\<rparr>"

lemma no_orders_ok: "orders_ok no_orders"
  by (simp add: orders_ok_def no_orders_def)

lemma sample_post: "\<exists>w' p. PostRevision sample_orders_env (Some army_cert) ''1234567890'' ''army'' ''N1'' (sample_revision 3) no_orders = (w', Reply 201 p)"
  by (simp add: PostRevision_def with_certificate_def army_cert_def verifyOrdersWriteAccess_def issuer_defs member_edipi_def
    FetchElectronicOrderByIssuerAndOrdersNum_def sample_orders_env_def no_orders_def create_orders_def CreateElectronicOrderWithRevision_def
    CreateElectronicOrder_def CreateElectronicOrdersRevision_def Let_def)

theorem orders_history_witness:
  "orders_ok (post_all [(sample_orders_env, Some army_cert, PostByNumber ''1234567890'' ''army'' ''N1'' (sample_revision 3)),
      (sample_orders_env, Some army_cert, PostByID 5 (sample_revision 2))] no_orders)"
  using orders_history [OF no_orders_ok] by blast

text \<open>Orders of the army: its certificate reads and amends them, one with all rights but that to use the API does not, and one
  with all the other rights does not.\<close>

definition navy_cert :: ClientCert where
  "navy_cert = \<lparr>cc_AllowOrdersAPI = True, cc_AllowAirForceOrdersRead = True, cc_AllowAirForceOrdersWrite = True,
     cc_AllowArmyOrdersRead = False, cc_AllowArmyOrdersWrite = False, cc_AllowCoastGuardOrdersRead = True, cc_AllowCoastGuardOrdersWrite = True,
     cc_AllowMarineCorpsOrdersRead = True, cc_AllowMarineCorpsOrdersWrite = True, cc_AllowNavyOrdersRead = True, cc_AllowNavyOrdersWrite = True\<rparr>"

definition army_orders :: ElectronicOrder where
  "army_orders = \<lparr>eo_ID = 5, eo_OrdersNumber = ''N1'', eo_Edipi = ''1234567890'', eo_Issuer = ''army'', eo_Revisions = []\<rparr>"

definition posted_orders :: orders_world where
  "posted_orders = \<lparr>ow_orders = [army_orders], ow_revisions = [toElectronicOrdersRevision 9 army_orders (sample_revision 3)], ow_fresh = 7\<rparr>"

theorem orders_guarded_witness:
  "ow_orders (post sample_orders_env None (PostByNumber ''1234567890'' ''army'' ''N2'' (sample_revision 3)) posted_orders) = [army_orders]
   \<and> (\<exists>p. GetOrders sample_orders_env (Some army_cert) 5 posted_orders = (posted_orders, Reply 200 p))
   \<and> \<not> (\<exists>p. GetOrders sample_orders_env (Some (army_cert\<lparr>cc_AllowOrdersAPI := False\<rparr>)) 5 posted_orders = (posted_orders, Reply 200 p))
   \<and> (\<exists>w' p. PostRevisionToOrders sample_orders_env (Some army_cert) 5 (sample_revision 4) posted_orders = (w', Reply 201 p))
   \<and> \<not> (\<exists>w' p. PostRevisionToOrders sample_orders_env (Some navy_cert) 5 (sample_revision 4) posted_orders = (w', Reply 201 p))
   \<and> IndexOrdersForMember sample_orders_env (Some navy_cert) ''1234567890'' posted_orders = (posted_orders, Reply 200 [])"
proof -
  have ok: "orders_ok posted_orders" by (simp add: orders_ok_def posted_orders_def army_orders_def)
  have env: "answers sample_orders_env" by (simp add: answers_def sample_orders_env_def)
  have m: "may read_rights (Some army_cert) ''army''" "may write_rights (Some army_cert) ''army''" "\<not> may rights None issuer"
    "\<not> may read_rights (Some (army_cert\<lparr>cc_AllowOrdersAPI := False\<rparr>)) ''army''" "\<not> may write_rights (Some navy_cert) ''army''"
    "\<not> may read_rights (Some navy_cert) ''army''" "may read_rights (Some navy_cert) ''navy''" for rights issuer
    by (simp_all add: may_def read_rights_def write_rights_def army_cert_def navy_cert_def)
  have x: "ow_orders posted_orders = [army_orders]" "eo_ID army_orders = 5" "eo_Issuer army_orders = ''army''"
    and free: "\<forall>r \<in> set (ow_revisions posted_orders). eor_SeqNum r \<noteq> rv_SeqNum (sample_revision 4)"
    by (simp_all add: posted_orders_def army_orders_def sample_revision_def)
  note g = orders_guarded [OF ok, of sample_orders_env]
  have "ow_orders (post sample_orders_env None (PostByNumber ''1234567890'' ''army'' ''N2'' (sample_revision 3)) posted_orders) = [army_orders]"
    by (simp add: x(1) PostRevision_def with_certificate_def)
  moreover have "(\<exists>p. GetOrders sample_orders_env (Some army_cert) 5 posted_orders = (posted_orders, Reply 200 p))
      \<and> (\<exists>w' p. PostRevisionToOrders sample_orders_env (Some army_cert) 5 (sample_revision 4) posted_orders = (w', Reply 201 p))"
    using g [of "Some army_cert"] env m x free by auto
  moreover have "\<not> (\<exists>p. GetOrders sample_orders_env (Some (army_cert\<lparr>cc_AllowOrdersAPI := False\<rparr>)) 5 posted_orders = (posted_orders, Reply 200 p))"
    using g [of "Some (army_cert\<lparr>cc_AllowOrdersAPI := False\<rparr>)"] env m x by auto
  moreover have "\<not> (\<exists>w' p. PostRevisionToOrders sample_orders_env (Some navy_cert) 5 (sample_revision 4) posted_orders = (w', Reply 201 p))"
    using g [of "Some navy_cert"] env m x free by auto
  moreover have "IndexOrdersForMember sample_orders_env (Some navy_cert) ''1234567890'' posted_orders = (posted_orders, Reply 200 [])"
    using g [of "Some navy_cert"] env m x by (auto simp: filter_empty_conv)
  ultimately show ?thesis by blast
qed

theorem posted_revision_read_back_witness:
  "\<exists>w' p q. PostRevision sample_orders_env (Some army_cert) ''1234567890'' ''army'' ''N1'' (sample_revision 3) no_orders = (w', Reply 201 p)
     \<and> GetOrders sample_orders_env (Some army_cert) (os_UUID p) w' = (w', Reply 200 q) \<and> as_sent 1552521600 (sample_revision 3) \<in> set (os_Revisions q)"
proof -
  obtain w' p where run: "PostRevision sample_orders_env (Some army_cert) ''1234567890'' ''army'' ''N1'' (sample_revision 3) no_orders = (w', Reply 201 p)"
    using sample_post by blast
  have env: "oe_commits sample_orders_env" "oe_read sample_orders_env ''order by id'' = None" "oe_now sample_orders_env = 1552521600"
    by (simp_all add: sample_orders_env_def)
  have cert: "cc_AllowOrdersAPI army_cert" "verifyOrdersReadAccess ''army'' army_cert"
    by (simp_all add: army_cert_def verifyOrdersReadAccess_def issuer_defs)
  from posted_revision_read_back [OF no_orders_ok run env(1,2) cert] run env(3) show ?thesis by auto
qed

end
