(* ===== verification/Login.thy ===== *)
theory Login
  imports Access WorksheetFormats
begin

text \<open>
  Logging in and out (\<open>pkg/auth/authentication/auth.go\<close>, \<open>pkg/models/user.go\<close>), the session cookie and the middlewares
  in front of every handler (\<open>pkg/auth/cookie.go\<close>).  Login.gov, the signature of the cookie (a JSON web token), the
  hash of the state and the answers of the database are parameters of one request.
\<close>

section \<open>Users and their roles\<close>

record User =
  us_ID :: uuid
  us_LoginGovUUID :: uuid
  us_LoginGovEmail :: string
  us_Disabled :: bool

record OfficeUser =
  ou_ID :: uuid
  ou_UserID :: "uuid option"
  ou_LastName :: string
  ou_FirstName :: string
  ou_MiddleInitials :: "string option"
  ou_Email :: string
  ou_Telephone :: string
  ou_TransportationOfficeID :: uuid
  ou_Disabled :: bool

record TspUser =
  tu_ID :: uuid
  tu_UserID :: "uuid option"
  tu_LastName :: string
  tu_FirstName :: string
  tu_MiddleInitials :: "string option"
  tu_Email :: string
  tu_Telephone :: string
  tu_TransportationServiceProviderID :: uuid
  tu_Disabled :: bool

record AdminUser =
  au_ID :: uuid
  au_UserID :: "uuid option"
  au_Role :: string
  au_Email :: string
  au_FirstName :: string
  au_LastName :: string
  au_OrganizationID :: "uuid option"
  au_Disabled :: bool

record DpsUser =
  du_ID :: uuid
  du_LoginGovEmail :: string
  du_Disabled :: bool

record UserIdentity =
  ui_ID :: uuid
  ui_Disabled :: bool
  ui_Email :: string
  ui_ServiceMemberID :: "uuid option"
  ui_ServiceMemberFirstName :: "string option"
  ui_ServiceMemberLastName :: "string option"
  ui_ServiceMemberMiddle :: "string option"
  ui_OfficeUserID :: "uuid option"
  ui_OfficeUserFirstName :: "string option"
  ui_OfficeUserLastName :: "string option"
  ui_OfficeUserMiddle :: "string option"
  ui_OfficeDisabled :: "bool option"
  ui_TspUserID :: "uuid option"
  ui_TspUserFirstName :: "string option"
  ui_TspUserLastName :: "string option"
  ui_TspUserMiddle :: "string option"
  ui_TspDisabled :: "bool option"
  ui_AdminUserID :: "uuid option"
  ui_AdminUserRole :: "string option"
  ui_AdminUserFirstName :: "string option"
  ui_AdminUserLastName :: "string option"
  ui_AdminUserDisabled :: "bool option"
  ui_DpsUserID :: "uuid option"
  ui_DpsDisabled :: "bool option"

record login_world =
  lw_users :: "User list"
  lw_members :: "ServiceMember list"
  lw_office_users :: "OfficeUser list"
  lw_tsp_users :: "TspUser list"
  lw_admin_users :: "AdminUser list"
  lw_dps_users :: "DpsUser list"
  lw_fresh :: uuid

text \<open>\<open>le_admin_verrs\<close> is the pointer that \<open>ValidateAndSave\<close> returns for an administrator; \<open>le_uuid\<close> parses an
  identifier, as \<open>uuid.FromString\<close> and the database do; \<open>le_token\<close> and \<open>le_profile\<close> are the two calls of Login.gov (the
  token for a code; the user's identifier and address for a token); \<open>le_sign\<close> signs a session until a time and \<open>le_claims\<close>
  reads a signed session at a time.\<close>

record login_env =
  le_read :: "string \<Rightarrow> string option"
  le_save :: "string \<Rightarrow> goerr option"
  le_create_user :: "User \<Rightarrow> verrs \<times> goerr option"
  le_admin_verrs :: "verrs option"
  le_uuid :: "string \<Rightarrow> uuid option"
  le_landing_parses :: bool
  le_sha :: "string \<Rightarrow> string"
  le_provider_found :: bool
  le_token :: "string \<Rightarrow> string result"
  le_profile :: "string \<Rightarrow> (string \<times> string) result"
  le_now :: int
  le_sign :: "int \<Rightarrow> Session \<Rightarrow> string option"
  le_claims :: "int \<Rightarrow> string \<Rightarrow> Session option"
  le_authorization :: "(string \<times> string) result"
  le_logout_url :: "string \<Rightarrow> string \<Rightarrow> string"
  le_protocol :: string
  le_port :: int
  le_noSessionTimeout :: bool

definition ToLower :: "string \<Rightarrow> string" where
  "ToLower = map lower_char"

section \<open>Identities\<close>

definition left_join :: "'a list \<Rightarrow> 'a option list" where
  "left_join rows = (if rows = [] then [None] else map Some rows)"

definition identity_of :: "User \<Rightarrow> ServiceMember option \<Rightarrow> OfficeUser option \<Rightarrow> TspUser option \<Rightarrow> AdminUser option \<Rightarrow> DpsUser option \<Rightarrow> UserIdentity" where
  "identity_of u sm ou tu au du =
     \<lparr>ui_ID = us_ID u, ui_Disabled = us_Disabled u, ui_Email = us_LoginGovEmail u,
      ui_ServiceMemberID = map_option sm_ID sm, ui_ServiceMemberFirstName = Option.bind sm sm_FirstName,
      ui_ServiceMemberLastName = Option.bind sm sm_LastName, ui_ServiceMemberMiddle = Option.bind sm sm_MiddleName,
      ui_OfficeUserID = map_option ou_ID ou, ui_OfficeUserFirstName = map_option ou_FirstName ou,
      ui_OfficeUserLastName = map_option ou_LastName ou, ui_OfficeUserMiddle = Option.bind ou ou_MiddleInitials,
      ui_OfficeDisabled = map_option ou_Disabled ou,
      ui_TspUserID = map_option tu_ID tu, ui_TspUserFirstName = map_option tu_FirstName tu,
      ui_TspUserLastName = map_option tu_LastName tu, ui_TspUserMiddle = Option.bind tu tu_MiddleInitials,
      ui_TspDisabled = map_option tu_Disabled tu,
      ui_AdminUserID = map_option au_ID au, ui_AdminUserRole = map_option au_Role au,
      ui_AdminUserFirstName = map_option au_FirstName au, ui_AdminUserLastName = map_option au_LastName au,
      ui_AdminUserDisabled = map_option au_Disabled au,
      ui_DpsUserID = map_option du_ID du, ui_DpsDisabled = map_option du_Disabled du\<rparr>"

definition identities :: "login_world \<Rightarrow> uuid \<Rightarrow> UserIdentity list" where
  "identities w loginGovUUID = concat (map (\<lambda>u.
     concat (map (\<lambda>sm. concat (map (\<lambda>ou. concat (map (\<lambda>tu. concat (map (\<lambda>au. map (\<lambda>du. identity_of u sm ou tu au du)
       (left_join (filter (\<lambda>d. du_LoginGovEmail d = us_LoginGovEmail u) (lw_dps_users w))))
       (left_join (filter (\<lambda>a. au_UserID a = Some (us_ID u)) (lw_admin_users w)))))
       (left_join (filter (\<lambda>t. tu_UserID t = Some (us_ID u)) (lw_tsp_users w)))))
       (left_join (filter (\<lambda>f. ou_UserID f = Some (us_ID u)) (lw_office_users w)))))
       (left_join (filter (\<lambda>m. sm_UserID m = us_ID u) (lw_members w)))))
     (filter (\<lambda>u. us_LoginGovUUID u = loginGovUUID) (lw_users w)))"

definition FetchUserIdentity :: "login_env \<Rightarrow> login_world \<Rightarrow> string \<Rightarrow> UserIdentity result" where
  "FetchUserIdentity env w loginGovID = (case le_read env ''identity'' of
      Some m \<Rightarrow> Fail (PqError m)
    | None \<Rightarrow> (case le_uuid env loginGovID of
        None \<Rightarrow> Fail (PqError ''invalid input syntax for uuid'')
      | Some i \<Rightarrow> (case identities w i of [] \<Rightarrow> Fail ErrFetchNotFound | x # _ \<Rightarrow> Ret x)))"

definition firstValue :: "string option list \<Rightarrow> string" where
  "firstValue vals = (case filter (\<lambda>v. v \<noteq> None) vals of [] \<Rightarrow> '''' | v # _ \<Rightarrow> the v)"

definition FirstName :: "UserIdentity \<Rightarrow> string" where
  "FirstName ui = firstValue [ui_ServiceMemberFirstName ui, ui_OfficeUserFirstName ui, ui_TspUserFirstName ui]"

definition LastName :: "UserIdentity \<Rightarrow> string" where
  "LastName ui = firstValue [ui_ServiceMemberLastName ui, ui_OfficeUserLastName ui, ui_TspUserLastName ui]"

definition Middle :: "UserIdentity \<Rightarrow> string" where
  "Middle ui = firstValue [ui_ServiceMemberMiddle ui, ui_OfficeUserMiddle ui, ui_TspUserMiddle ui]"

definition FetchOfficeUserByEmail :: "login_env \<Rightarrow> login_world \<Rightarrow> string \<Rightarrow> OfficeUser result" where
  "FetchOfficeUserByEmail env w email = (case le_read env ''office users'' of
      Some m \<Rightarrow> Fail (PqError m)
    | None \<Rightarrow> (case filter (\<lambda>x. ToLower (ou_Email x) = ToLower email) (lw_office_users w) of [] \<Rightarrow> Fail ErrFetchNotFound | x # _ \<Rightarrow> Ret x))"

definition FetchTspUserByEmail :: "login_env \<Rightarrow> login_world \<Rightarrow> string \<Rightarrow> TspUser result" where
  "FetchTspUserByEmail env w email = (case le_read env ''tsp users'' of
      Some m \<Rightarrow> Fail (PqError m)
    | None \<Rightarrow> (case filter (\<lambda>x. ToLower (tu_Email x) = ToLower email) (lw_tsp_users w) of [] \<Rightarrow> Fail ErrFetchNotFound | x # _ \<Rightarrow> Ret x))"

text \<open>The query builder's \<open>FetchOne\<close> with a filter on the address: no row is the driver's error.\<close>

definition fetch_admin :: "login_env \<Rightarrow> login_world \<Rightarrow> string \<Rightarrow> AdminUser result" where
  "fetch_admin env w email = (case le_read env ''admin users'' of
      Some m \<Rightarrow> Fail (PqError m)
    | None \<Rightarrow> first_row (filter (\<lambda>x. au_Email x = email) (lw_admin_users w)))"

definition CreateUser :: "login_env \<Rightarrow> login_world \<Rightarrow> string \<Rightarrow> string \<Rightarrow> login_world \<times> User result" where
  "CreateUser env w loginGovID email = (case le_uuid env loginGovID of
      None \<Rightarrow> (w, Fail (ErrMsg ''uuid: incorrect UUID length''))
    | Some lgu \<Rightarrow>
       (let newUser = \<lparr>us_ID = lw_fresh w, us_LoginGovUUID = lgu, us_LoginGovEmail = ToLower email, us_Disabled = False\<rparr> in
        case le_create_user env newUser of (verrs, err) \<Rightarrow>
          if verrs \<noteq> [] then (w, Fail (ErrMsg ''validation''))
          else (case err of
              Some e \<Rightarrow> (w, Fail (Wrap ''Unable to create user'' e))
            | None \<Rightarrow> (w\<lparr>lw_users := lw_users w @ [newUser], lw_fresh := Suc (lw_fresh w)\<rparr>, Ret newUser))))"

section \<open>Cookies\<close>

record Cookie =
  ck_Name :: string
  ck_Value :: string
  ck_MaxAge :: int

text \<open>An answer: its status, the address it redirects to or its body, and its \<open>Set-Cookie\<close> headers.\<close>

record http_reply =
  rp_Code :: nat
  rp_Body :: string
  rp_Cookies :: "Cookie list"

definition application_text :: "Application \<Rightarrow> string" where
  "application_text a = (case a of TspApp \<Rightarrow> ''tsp'' | OfficeApp \<Rightarrow> ''office'' | MilApp \<Rightarrow> ''mil'' | AdminApp \<Rightarrow> ''admin'')"

definition session_cookie_name :: "Application \<Rightarrow> string" where
  "session_cookie_name a = application_text a @ ''_session_token''"

definition StateCookieName :: "Session \<Rightarrow> string" where
  "StateCookieName s = application_text (ss_ApplicationName s) @ ''_lg_state''"

definition DeleteCookie :: "string \<Rightarrow> Cookie list \<Rightarrow> Cookie list" where
  "DeleteCookie name cookies = cookies @ [\<lparr>ck_Name = name, ck_Value = ''blank'', ck_MaxAge = - 1\<rparr>]"

definition DeleteCSRFCookies :: "Cookie list \<Rightarrow> Cookie list" where
  "DeleteCSRFCookies cookies = DeleteCookie ''_gorilla_csrf'' (DeleteCookie ''masked_gorilla_csrf'' cookies)"

definition WriteMaskedCSRFCookie :: "string \<Rightarrow> Cookie list \<Rightarrow> Cookie list" where
  "WriteMaskedCSRFCookie token cookies = cookies @ [\<lparr>ck_Name = ''masked_gorilla_csrf'', ck_Value = token, ck_MaxAge = 0\<rparr>]"

definition session_expiry :: "login_env \<Rightarrow> int" where
  "session_expiry env = (if le_noSessionTimeout env then 253370808000 else le_now env + 15 * 60)"

definition session_max_age :: "login_env \<Rightarrow> int" where
  "session_max_age env = (if le_noSessionTimeout env then 99999999 else 15 * 60)"

definition session_cookie :: "login_env \<Rightarrow> Session \<Rightarrow> Cookie" where
  "session_cookie env s =
     (let blank = \<lparr>ck_Name = session_cookie_name (ss_ApplicationName s), ck_Value = ''blank'', ck_MaxAge = - 1\<rparr> in
      if ss_IDToken s \<noteq> '''' \<and> ss_UserID s \<noteq> uuid_Nil
      then (case le_sign env (session_expiry env) s of
          None \<Rightarrow> blank
        | Some ss \<Rightarrow> blank\<lparr>ck_Value := ss, ck_MaxAge := session_max_age env\<rparr>)
      else blank)"

text \<open>\<open>Header().Set\<close>: the session cookie replaces every cookie set so far.\<close>

definition WriteSessionCookie :: "login_env \<Rightarrow> Session \<Rightarrow> Cookie list \<Rightarrow> Cookie list" where
  "WriteSessionCookie env s cookies = [session_cookie env s]"

definition sessionClaimsFromRequest :: "login_env \<Rightarrow> Application \<Rightarrow> (string \<times> string) list \<Rightarrow> Session option" where
  "sessionClaimsFromRequest env appName sent =
     Option.bind (map_of sent (session_cookie_name appName)) (le_claims env (le_now env))"

record ApplicationServername =
  MilServername :: string
  OfficeServername :: string
  TspServername :: string
  AdminServername :: string

definition EqualFold :: "string \<Rightarrow> string \<Rightarrow> bool" where
  "EqualFold s t \<longleftrightarrow> ToLower s = ToLower t"

definition ApplicationName :: "string \<Rightarrow> ApplicationServername \<Rightarrow> Application result" where
  "ApplicationName hostname appnames =
     (if EqualFold hostname (MilServername appnames) then Ret MilApp
      else if EqualFold hostname (OfficeServername appnames) then Ret OfficeApp
      else if EqualFold hostname (TspServername appnames) then Ret TspApp
      else if EqualFold hostname (AdminServername appnames) then Ret AdminApp
      else Fail (Wrap ''is invalid'' (ErrMsg ''invalid hostname'')))"

definition new_session :: Session where
  "new_session = \<lparr>ss_ApplicationName = MilApp, ss_Hostname = '''', ss_IDToken = '''', ss_UserID = uuid_Nil, ss_Email = '''',
     ss_FirstName = '''', ss_Middle = '''', ss_LastName = '''', ss_ServiceMemberID = uuid_Nil, ss_OfficeUserID = uuid_Nil,
     ss_TspUserID = uuid_Nil, ss_AdminUserID = uuid_Nil, ss_AdminUserRole = '''', ss_DpsUserID = uuid_Nil\<rparr>"

text \<open>The session of a request and the cookies the middleware has set when the next handler runs; a host that is none of
  the servers is a 400.  (The zero value of the application's name is never read: the name is set from the host.)\<close>

definition SessionCookieMiddleware ::
    "login_env \<Rightarrow> ApplicationServername \<Rightarrow> string \<Rightarrow> (string \<times> string) list \<Rightarrow> (nat, Session \<times> Cookie list) outcome" where
  "SessionCookieMiddleware env appnames host sent =
     (let hostname = takeWhile (\<lambda>c. c \<noteq> CHR '':'') host in
      case ApplicationName hostname appnames of
        Ret appName \<Rightarrow>
          (let session = (case sessionClaimsFromRequest env appName sent of Some s \<Rightarrow> s | None \<Rightarrow> new_session)
                 \<lparr>ss_ApplicationName := appName, ss_Hostname := ToLower hostname\<rparr>
           in Ret (session, WriteSessionCookie env session []))
      | _ \<Rightarrow> Fail 400)"

section \<open>The middlewares in front of the handlers\<close>

definition UserAuthMiddleware :: "Session option \<Rightarrow> (nat, unit) outcome" where
  "UserAuthMiddleware session = (case session of
      None \<Rightarrow> Fail 401
    | Some s \<Rightarrow>
        if ss_UserID s = uuid_Nil then Fail 401
        else if IsOfficeApp s \<and> \<not> IsOfficeUser s then Fail 401
        else if IsTspApp s \<and> \<not> IsTspUser s then Fail 401
        else if IsAdminApp s \<and> \<not> IsAdminUser s then Fail 401
        else Ret ())"

definition AdminAuthMiddleware :: "Session option \<Rightarrow> (nat, unit) outcome" where
  "AdminAuthMiddleware session = (case session of
      None \<Rightarrow> Fail 403
    | Some s \<Rightarrow> if \<not> IsAdminUser s then Fail 403 else Ret ())"

section \<open>Logging in\<close>

definition landingURL :: "login_env \<Rightarrow> Session \<Rightarrow> string" where
  "landingURL env s = le_protocol env @ ''://'' @ ss_Hostname s @ '':'' @ go_itoa (le_port env) @ ''/''"

definition http_Error :: "nat \<Rightarrow> Cookie list \<Rightarrow> http_reply" where
  "http_Error code cookies = \<lparr>rp_Code = code, rp_Body = '''', rp_Cookies = cookies\<rparr>"

definition http_Redirect :: "nat \<Rightarrow> string \<Rightarrow> Cookie list \<Rightarrow> http_reply" where
  "http_Redirect code url cookies = \<lparr>rp_Code = code, rp_Body = url, rp_Cookies = cookies\<rparr>"

text \<open>A step of the authorisation reads and writes the tables and the session, or answers with a status.\<close>

type_synonym authorization = "login_world \<Rightarrow> Session \<Rightarrow> login_world \<times> (nat, Session) outcome"

definition and_authorize :: "authorization \<Rightarrow> authorization \<Rightarrow> authorization" where
  "and_authorize f g w s = (case f w s of (w', Ret s') \<Rightarrow> g w' s' | r \<Rightarrow> r)"

definition link_office_user :: "uuid \<Rightarrow> uuid \<Rightarrow> login_world \<Rightarrow> login_world" where
  "link_office_user role user w = w\<lparr>lw_office_users := map (\<lambda>x. if ou_ID x = role then x\<lparr>ou_UserID := Some user\<rparr> else x) (lw_office_users w)\<rparr>"

definition link_tsp_user :: "uuid \<Rightarrow> uuid \<Rightarrow> login_world \<Rightarrow> login_world" where
  "link_tsp_user role user w = w\<lparr>lw_tsp_users := map (\<lambda>x. if tu_ID x = role then x\<lparr>tu_UserID := Some user\<rparr> else x) (lw_tsp_users w)\<rparr>"

definition link_admin_user :: "uuid \<Rightarrow> uuid \<Rightarrow> login_world \<Rightarrow> login_world" where
  "link_admin_user role user w = w\<lparr>lw_admin_users := map (\<lambda>x. if au_ID x = role then x\<lparr>au_UserID := Some user\<rparr> else x) (lw_admin_users w)\<rparr>"

definition known_office_user :: "login_env \<Rightarrow> UserIdentity \<Rightarrow> authorization" where
  "known_office_user env ui w s =
     (if \<not> IsOfficeApp s then (w, Ret s)
      else if ui_OfficeDisabled ui = Some True then (w, Fail 403)
      else case ui_OfficeUserID ui of
          Some i \<Rightarrow> (w, Ret (s\<lparr>ss_OfficeUserID := i\<rparr>))
        | None \<Rightarrow> (case FetchOfficeUserByEmail env w (ss_Email s) of
              Fail e \<Rightarrow> (w, Fail (if e = ErrFetchNotFound then 401 else 500))
            | Panic \<Rightarrow> (w, Panic)
            | Ret officeUser \<Rightarrow>
                if le_save env ''office user'' \<noteq> None then (w, Fail 500)
                else (link_office_user (ou_ID officeUser) (ui_ID ui) w, Ret (s\<lparr>ss_OfficeUserID := ou_ID officeUser\<rparr>))))"

definition known_tsp_user :: "login_env \<Rightarrow> UserIdentity \<Rightarrow> authorization" where
  "known_tsp_user env ui w s =
     (if \<not> IsTspApp s then (w, Ret s)
      else if ui_TspDisabled ui = Some True then (w, Fail 403)
      else case ui_TspUserID ui of
          Some i \<Rightarrow> (w, Ret (s\<lparr>ss_TspUserID := i\<rparr>))
        | None \<Rightarrow> (case FetchTspUserByEmail env w (ss_Email s) of
              Fail e \<Rightarrow> (w, Fail (if e = ErrFetchNotFound then 401 else 500))
            | Panic \<Rightarrow> (w, Panic)
            | Ret tspUser \<Rightarrow>
                if le_save env ''tsp user'' \<noteq> None then (w, Fail 500)
                else (link_tsp_user (tu_ID tspUser) (ui_ID ui) w, Ret (s\<lparr>ss_TspUserID := tu_ID tspUser\<rparr>))))"

text \<open>The administrator is saved when validation finds nothing; the pointer to what it found decides the answer.\<close>

definition known_admin_user :: "login_env \<Rightarrow> UserIdentity \<Rightarrow> authorization" where
  "known_admin_user env ui w s =
     (if \<not> IsAdminApp s then (w, Ret s)
      else if ui_AdminUserDisabled ui = Some True then (w, Fail 403)
      else case ui_AdminUserID ui of
          Some i \<Rightarrow> (case ui_AdminUserRole ui of
              None \<Rightarrow> (w, Panic)
            | Some role \<Rightarrow> (w, Ret (s\<lparr>ss_AdminUserID := i, ss_AdminUserRole := role\<rparr>)))
        | None \<Rightarrow> (case fetch_admin env w (ToLower (ui_Email ui)) of
              Fail e \<Rightarrow> (w, Fail (if e = ErrFetchNotFound then 403 else 500))
            | Panic \<Rightarrow> (w, Panic)
            | Ret adminUser \<Rightarrow>
                if le_save env ''admin user'' \<noteq> None then (w, Fail 500)
                else
                  let w' = (if le_admin_verrs env \<in> {None, Some []} then link_admin_user (au_ID adminUser) (ui_ID ui) w else w)
                  in if le_admin_verrs env \<noteq> None then (w', Fail 500)
                     else (w', Ret (s\<lparr>ss_AdminUserID := au_ID adminUser, ss_AdminUserRole := au_Role adminUser\<rparr>))))"

definition known_user_session :: "UserIdentity \<Rightarrow> Session \<Rightarrow> Session" where
  "known_user_session ui s =
     (let s = s\<lparr>ss_UserID := ui_ID ui\<rparr>;
          s = (case ui_ServiceMemberID ui of Some i \<Rightarrow> s\<lparr>ss_ServiceMemberID := i\<rparr> | None \<Rightarrow> s)
      in case ui_DpsUserID ui of
           Some i \<Rightarrow> if ui_DpsDisabled ui = Some False then s\<lparr>ss_DpsUserID := i\<rparr> else s
         | None \<Rightarrow> s)"

definition authorize_roles :: "login_env \<Rightarrow> UserIdentity \<Rightarrow> authorization" where
  "authorize_roles env ui = and_authorize (known_office_user env ui) (and_authorize (known_tsp_user env ui) (known_admin_user env ui))"

definition authorizeKnownUser :: "login_env \<Rightarrow> UserIdentity \<Rightarrow> authorization" where
  "authorizeKnownUser env ui w s =
     (if ui_Disabled ui then (w, Fail 403)
      else and_authorize (authorize_roles env ui)
             (\<lambda>w s. (w, Ret (s\<lparr>ss_FirstName := FirstName ui, ss_LastName := LastName ui, ss_Middle := Middle ui\<rparr>)))
             w (known_user_session ui s))"

text \<open>Someone whose identifier is in no row of \<open>users\<close>: the role with their address must exist and be enabled in the apps of
  the office, the TSPs and the administrators.\<close>

definition unknown_office_user :: "login_env \<Rightarrow> login_world \<Rightarrow> Session \<Rightarrow> (nat, OfficeUser option) outcome" where
  "unknown_office_user env w s =
     (if \<not> IsOfficeApp s then Ret None
      else case FetchOfficeUserByEmail env w (ss_Email s) of
          Fail e \<Rightarrow> Fail (if e = ErrFetchNotFound then 401 else 500)
        | Panic \<Rightarrow> Panic
        | Ret officeUser \<Rightarrow> if ou_Disabled officeUser then Fail 403 else Ret (Some officeUser))"

definition unknown_tsp_user :: "login_env \<Rightarrow> login_world \<Rightarrow> Session \<Rightarrow> (nat, TspUser option) outcome" where
  "unknown_tsp_user env w s =
     (if \<not> IsTspApp s then Ret None
      else case FetchTspUserByEmail env w (ss_Email s) of
          Fail e \<Rightarrow> Fail (if e = ErrFetchNotFound then 401 else 500)
        | Panic \<Rightarrow> Panic
        | Ret tspUser \<Rightarrow> if tu_Disabled tspUser then Fail 403 else Ret (Some tspUser))"

definition unknown_admin_user :: "login_env \<Rightarrow> login_world \<Rightarrow> Session \<Rightarrow> (nat, AdminUser option) outcome" where
  "unknown_admin_user env w s =
     (if \<not> IsAdminApp s then Ret None
      else case fetch_admin env w (ToLower (ss_Email s)) of
          Fail e \<Rightarrow> Fail (if e = ErrFetchNotFound then 401 else 500)
        | Panic \<Rightarrow> Panic
        | Ret adminUser \<Rightarrow> if au_Disabled adminUser then Fail 403 else Ret (Some adminUser))"

definition link_new_user ::
    "login_env \<Rightarrow> uuid \<Rightarrow> OfficeUser option \<Rightarrow> TspUser option \<Rightarrow> AdminUser option \<Rightarrow> authorization" where
  "link_new_user env user officeUser tspUser adminUser w s =
     (if IsOfficeApp s \<and> officeUser \<noteq> None then
        if le_save env ''office user'' \<noteq> None then (w, Fail 500)
        else (link_office_user (ou_ID (the officeUser)) user w, Ret (s\<lparr>ss_OfficeUserID := ou_ID (the officeUser)\<rparr>))
      else if IsTspApp s \<and> tspUser \<noteq> None then
        if le_save env ''tsp user'' \<noteq> None then (w, Fail 500)
        else (link_tsp_user (tu_ID (the tspUser)) user w, Ret (s\<lparr>ss_TspUserID := tu_ID (the tspUser)\<rparr>))
      else if IsAdminApp s \<and> (case adminUser of None \<Rightarrow> False | Some a \<Rightarrow> au_ID a \<noteq> uuid_Nil) then
        if le_save env ''admin user'' \<noteq> None then (w, Fail 500)
        else (link_admin_user (au_ID (the adminUser)) user w, Ret (s\<lparr>ss_AdminUserID := au_ID (the adminUser)\<rparr>))
      else (w, Ret s))"

definition authorizeUnknownUser :: "login_env \<Rightarrow> string \<Rightarrow> string \<Rightarrow> authorization" where
  "authorizeUnknownUser env userID email w s =
     (case obind (unknown_office_user env w s) (\<lambda>ou. obind (unknown_tsp_user env w s) (\<lambda>tu.
           obind (unknown_admin_user env w s) (\<lambda>au. Ret (ou, tu, au)))) of
        Fail code \<Rightarrow> (w, Fail code)
      | Panic \<Rightarrow> (w, Panic)
      | Ret (ou, tu, au) \<Rightarrow> (case CreateUser env w userID email of
            (w', Ret user) \<Rightarrow> link_new_user env (us_ID user) ou tu au w' (s\<lparr>ss_UserID := us_ID user\<rparr>)
          | (w', Panic) \<Rightarrow> (w', Panic)
          | (w', Fail _) \<Rightarrow> (w', Fail 500)))"

definition finish_login :: "login_env \<Rightarrow> string \<Rightarrow> Cookie list \<Rightarrow> login_world \<times> (nat, Session) outcome \<Rightarrow> (goerr, login_world \<times> http_reply) outcome" where
  "finish_login env url cookies r = (case r of
      (w, Ret s) \<Rightarrow> Ret (w, http_Redirect 307 url (WriteSessionCookie env s cookies))
    | (w, Fail code) \<Rightarrow> Ret (w, http_Error code cookies)
    | (w, Panic) \<Rightarrow> Panic)"

text \<open>The query of the callback; a parameter that is absent is empty.\<close>

record callback_query =
  cq_error :: string
  cq_state :: string
  cq_code :: string

definition with_error :: "string \<Rightarrow> string \<Rightarrow> string" where
  "with_error url e = url @ ''?error='' @ e"

definition sign_in :: "login_env \<Rightarrow> login_world \<Rightarrow> Session \<Rightarrow> Cookie list \<Rightarrow> string \<Rightarrow> string \<times> string \<times> string
    \<Rightarrow> (goerr, login_world \<times> http_reply) outcome" where
  "sign_in env w s cookies url profile = (case profile of (idToken, userID, email) \<Rightarrow>
     let s = s\<lparr>ss_IDToken := idToken, ss_Email := email\<rparr> in
     case FetchUserIdentity env w userID of
       Ret ui \<Rightarrow> finish_login env url cookies (authorizeKnownUser env ui w s)
     | Fail e \<Rightarrow>
         if e = ErrFetchNotFound then finish_login env (landingURL env s) cookies (authorizeUnknownUser env userID email w s)
         else Ret (w, http_Error 500 cookies)
     | Panic \<Rightarrow> Panic)"

definition ask_provider :: "login_env \<Rightarrow> string \<Rightarrow> (nat, string \<times> string \<times> string) outcome" where
  "ask_provider env code =
     (if \<not> le_provider_found env then Fail 500
      else obind (map_fail (\<lambda>_. 401) (le_token env code)) (\<lambda>idToken.
        obind (map_fail (\<lambda>_. 500) (le_profile env idToken)) (\<lambda>(userID, email). Ret (idToken, userID, email))))"

definition CallbackHandler ::
    "login_env \<Rightarrow> login_world \<Rightarrow> Session option \<Rightarrow> Cookie list \<Rightarrow> (string \<times> string) list \<Rightarrow> callback_query
     \<Rightarrow> (goerr, login_world \<times> http_reply) outcome" where
  "CallbackHandler env w session cookies sent q = (case session of
      None \<Rightarrow> Ret (w, http_Error 500 cookies)
    | Some s \<Rightarrow>
        let url = landingURL env s in
        if \<not> le_landing_parses env then Ret (w, http_Error 500 cookies)
        else if cq_error q \<noteq> '''' then
          Ret (w, http_Redirect 308
            (if cq_error q = ''access_denied'' then url
             else if cq_error q = ''invalid_request'' then with_error url ''INVALID_REQUEST''
             else with_error url ''UNKNOWN_ERROR'') cookies)
        else (case map_of sent (StateCookieName s) of
            None \<Rightarrow> Ret (w, http_Error 500 cookies)
          | Some h \<Rightarrow>
              if h \<noteq> le_sha env (cq_state q) then
                Ret (w, http_Redirect 307 (with_error url ''SIGNIN_ERROR'')
                  (DeleteCookie (StateCookieName s) (WriteSessionCookie env (s\<lparr>ss_IDToken := '''', ss_UserID := uuid_Nil\<rparr>) cookies)))
              else (case ask_provider env (cq_code q) of
                  Fail code \<Rightarrow> Ret (w, http_Error code cookies)
                | Panic \<Rightarrow> Panic
                | Ret profile \<Rightarrow> sign_in env w s cookies url profile)))"

text \<open>\<open>le_authorization\<close> is the address of Login.gov with the nonce sent along.  Its request asks the session for the
  provider before the handler checks that there is a session.\<close>

definition RedirectHandler :: "login_env \<Rightarrow> Session option \<Rightarrow> Cookie list \<Rightarrow> (goerr, http_reply) outcome" where
  "RedirectHandler env session cookies = (case session of
      Some s \<Rightarrow>
        if ss_UserID s \<noteq> uuid_Nil then Ret (http_Redirect 307 (landingURL env s) cookies)
        else if \<not> le_provider_found env then Ret (http_Error 500 cookies)
        else (case le_authorization env of
            Ret (url, nonce) \<Rightarrow> Ret (http_Redirect 307 url
              (cookies @ [\<lparr>ck_Name = StateCookieName s, ck_Value = le_sha env nonce, ck_MaxAge = 1800\<rparr>]))
          | _ \<Rightarrow> Ret (http_Error 500 cookies))
    | None \<Rightarrow> Panic)"

definition LogoutHandler :: "login_env \<Rightarrow> Session option \<Rightarrow> Cookie list \<Rightarrow> http_reply" where
  "LogoutHandler env session cookies = (case session of
      None \<Rightarrow> http_Redirect 200 '''' cookies
    | Some s \<Rightarrow>
        let url = landingURL env s in
        if ss_IDToken s \<noteq> '''' then
          http_Redirect 200 (if ss_IDToken s = ''devlocal'' then url else le_logout_url env url (ss_IDToken s))
            (DeleteCSRFCookies (WriteSessionCookie env (s\<lparr>ss_IDToken := '''', ss_UserID := uuid_Nil\<rparr>) cookies))
        else http_Redirect 200 url cookies)"

section \<open>Who is logged in\<close>

lemma left_join_iff: "x \<in> set (left_join rows) \<longleftrightarrow> (case x of None \<Rightarrow> rows = [] | Some r \<Rightarrow> r \<in> set rows)"
  by (cases x) (auto simp: left_join_def)

lemma left_join_None: "None \<in> set (left_join rows) \<longleftrightarrow> rows = []"
  by (simp add: left_join_iff)

definition office_role :: "login_world \<Rightarrow> login_world \<Rightarrow> uuid \<Rightarrow> uuid \<Rightarrow> bool" where
  "office_role w w' user role \<longleftrightarrow> role \<in> ou_ID ` set (lw_office_users w) \<and> (\<exists>x \<in> set (lw_office_users w'). ou_ID x = role \<and> ou_UserID x = Some user
     \<and> (ou_Disabled x \<longrightarrow> (\<forall>y \<in> set (lw_office_users w). ou_UserID y \<noteq> Some user)))"

definition tsp_role :: "login_world \<Rightarrow> login_world \<Rightarrow> uuid \<Rightarrow> uuid \<Rightarrow> bool" where
  "tsp_role w w' user role \<longleftrightarrow> role \<in> tu_ID ` set (lw_tsp_users w) \<and> (\<exists>x \<in> set (lw_tsp_users w'). tu_ID x = role \<and> tu_UserID x = Some user
     \<and> (tu_Disabled x \<longrightarrow> (\<forall>y \<in> set (lw_tsp_users w). tu_UserID y \<noteq> Some user)))"

definition admin_role :: "login_world \<Rightarrow> login_world \<Rightarrow> uuid \<Rightarrow> uuid \<Rightarrow> bool" where
  "admin_role w w' user role \<longleftrightarrow> role \<in> au_ID ` set (lw_admin_users w) \<and> (\<exists>x \<in> set (lw_admin_users w'). au_ID x = role \<and> au_UserID x = Some user
     \<and> (au_Disabled x \<longrightarrow> (\<forall>y \<in> set (lw_admin_users w). au_UserID y \<noteq> Some user)))"

text \<open>The session stands for an enabled user with the identifier Login.gov gave, who has the role of the app; the role was
  there before the login, and is enabled unless the login is what tied it to the user.\<close>

definition entitled :: "login_env \<Rightarrow> login_world \<Rightarrow> login_world \<Rightarrow> string \<Rightarrow> Session \<Rightarrow> bool" where
  "entitled env w w' userID t \<longleftrightarrow>
     (\<exists>u \<in> set (lw_users w'). le_uuid env userID = Some (us_LoginGovUUID u) \<and> us_ID u = ss_UserID t \<and> \<not> us_Disabled u)
     \<and> (IsOfficeApp t \<longrightarrow> office_role w w' (ss_UserID t) (ss_OfficeUserID t))
     \<and> (IsTspApp t \<longrightarrow> tsp_role w w' (ss_UserID t) (ss_TspUserID t))
     \<and> (IsAdminApp t \<longrightarrow> admin_role w w' (ss_UserID t) (ss_AdminUserID t))"

lemma in_concat_map: "x \<in> set (concat (map f xs)) \<longleftrightarrow> (\<exists>y \<in> set xs. x \<in> set (f y))"
  by simp

lemma identities_member:
  assumes "ui \<in> set (identities w i)"
  obtains u sm ou tu au du where "u \<in> set (lw_users w)" "us_LoginGovUUID u = i" "ui = identity_of u sm ou tu au du"
    "ou \<in> set (left_join (filter (\<lambda>f. ou_UserID f = Some (us_ID u)) (lw_office_users w)))"
    "tu \<in> set (left_join (filter (\<lambda>t. tu_UserID t = Some (us_ID u)) (lw_tsp_users w)))"
    "au \<in> set (left_join (filter (\<lambda>a. au_UserID a = Some (us_ID u)) (lw_admin_users w)))"
proof -
  from assms have "\<exists>u sm ou tu au du. u \<in> set (lw_users w) \<and> us_LoginGovUUID u = i \<and> ui = identity_of u sm ou tu au du
    \<and> ou \<in> set (left_join (filter (\<lambda>f. ou_UserID f = Some (us_ID u)) (lw_office_users w)))
    \<and> tu \<in> set (left_join (filter (\<lambda>t. tu_UserID t = Some (us_ID u)) (lw_tsp_users w)))
    \<and> au \<in> set (left_join (filter (\<lambda>a. au_UserID a = Some (us_ID u)) (lw_admin_users w)))"
    unfolding identities_def in_concat_map by clarsimp blast
  with that show ?thesis by blast
qed

lemma FetchUserIdentity_Ret:
  assumes "FetchUserIdentity env w userID = Ret ui"
  obtains u sm ou tu au du where "u \<in> set (lw_users w)" "le_uuid env userID = Some (us_LoginGovUUID u)"
    "ui = identity_of u sm ou tu au du"
    "ou \<in> set (left_join (filter (\<lambda>f. ou_UserID f = Some (us_ID u)) (lw_office_users w)))"
    "tu \<in> set (left_join (filter (\<lambda>t. tu_UserID t = Some (us_ID u)) (lw_tsp_users w)))"
    "au \<in> set (left_join (filter (\<lambda>a. au_UserID a = Some (us_ID u)) (lw_admin_users w)))"
proof -
  from assms obtain i where i: "le_uuid env userID = Some i" "ui \<in> set (identities w i)"
    by (auto simp: FetchUserIdentity_def split: option.splits list.splits)
  from i(2) show ?thesis by (rule identities_member) (rule that, auto simp: i(1))
qed

lemma FetchOfficeUserByEmail_Ret: "FetchOfficeUserByEmail env w email = Ret x
    \<Longrightarrow> x \<in> set (lw_office_users w) \<and> ToLower (ou_Email x) = ToLower email"
  by (auto simp: FetchOfficeUserByEmail_def filter_eq_Cons_iff split: option.splits list.splits)

lemma FetchTspUserByEmail_Ret: "FetchTspUserByEmail env w email = Ret x
    \<Longrightarrow> x \<in> set (lw_tsp_users w) \<and> ToLower (tu_Email x) = ToLower email"
  by (auto simp: FetchTspUserByEmail_def filter_eq_Cons_iff split: option.splits list.splits)

lemma fetch_admin_Ret: "fetch_admin env w email = Ret x \<Longrightarrow> x \<in> set (lw_admin_users w) \<and> au_Email x = email"
  by (auto simp: fetch_admin_def dest: first_row_filter_Ret split: option.splits)

lemma office_role_linked: "x \<in> set (lw_office_users w) \<Longrightarrow> x \<in> set (lw_office_users v) \<Longrightarrow> ou_Disabled x \<longrightarrow> (\<forall>y \<in> set (lw_office_users v). ou_UserID y \<noteq> Some user)
    \<Longrightarrow> office_role v (link_office_user (ou_ID x) user w) user (ou_ID x)"
  unfolding office_role_def
  by (rule conjI, simp, rule bexI [of _ "x\<lparr>ou_UserID := Some user\<rparr>"]) (auto simp: link_office_user_def intro!: image_eqI [of _ _ x])

lemma tsp_role_linked: "x \<in> set (lw_tsp_users w) \<Longrightarrow> x \<in> set (lw_tsp_users v) \<Longrightarrow> tu_Disabled x \<longrightarrow> (\<forall>y \<in> set (lw_tsp_users v). tu_UserID y \<noteq> Some user)
    \<Longrightarrow> tsp_role v (link_tsp_user (tu_ID x) user w) user (tu_ID x)"
  unfolding tsp_role_def
  by (rule conjI, simp, rule bexI [of _ "x\<lparr>tu_UserID := Some user\<rparr>"]) (auto simp: link_tsp_user_def intro!: image_eqI [of _ _ x])

lemma admin_role_linked: "x \<in> set (lw_admin_users w) \<Longrightarrow> x \<in> set (lw_admin_users v) \<Longrightarrow> au_Disabled x \<longrightarrow> (\<forall>y \<in> set (lw_admin_users v). au_UserID y \<noteq> Some user)
    \<Longrightarrow> admin_role v (link_admin_user (au_ID x) user w) user (au_ID x)"
  unfolding admin_role_def
  by (rule conjI, simp, rule bexI [of _ "x\<lparr>au_UserID := Some user\<rparr>"]) (auto simp: link_admin_user_def intro!: image_eqI [of _ _ x])

lemma link_users [simp]: "lw_users (link_office_user i j w) = lw_users w" "lw_users (link_tsp_user i j w) = lw_users w"
  "lw_users (link_admin_user i j w) = lw_users w"
  by (simp_all add: link_office_user_def link_tsp_user_def link_admin_user_def)

text \<open>What a step of the authorisation keeps: the users, the app, the user and the token of the session; and the identifiers of
  the roles of the other apps.\<close>

definition keeps_session :: "login_world \<Rightarrow> login_world \<Rightarrow> Session \<Rightarrow> Session \<Rightarrow> bool" where
  "keeps_session w w' s t \<longleftrightarrow> lw_users w' = lw_users w \<and> ss_ApplicationName t = ss_ApplicationName s \<and> ss_UserID t = ss_UserID s
     \<and> ss_IDToken t = ss_IDToken s \<and> ss_Email t = ss_Email s \<and> ss_Hostname t = ss_Hostname s"

lemma app_simps: "IsOfficeApp s \<Longrightarrow> \<not> IsTspApp s \<and> \<not> IsAdminApp s" "IsTspApp s \<Longrightarrow> \<not> IsOfficeApp s \<and> \<not> IsAdminApp s"
  "IsAdminApp s \<Longrightarrow> \<not> IsOfficeApp s \<and> \<not> IsTspApp s"
  by (simp_all add: IsOfficeApp_def IsTspApp_def IsAdminApp_def)

lemma app_cong: "ss_ApplicationName t = ss_ApplicationName s
    \<Longrightarrow> IsOfficeApp t = IsOfficeApp s \<and> IsTspApp t = IsTspApp s \<and> IsAdminApp t = IsAdminApp s"
  by (simp add: IsOfficeApp_def IsTspApp_def IsAdminApp_def)

lemma known_office_user_Ret:
  assumes "known_office_user env ui w s = (w', Ret t)" "ui = identity_of u sm ou tu au du"
    "ou \<in> set (left_join (filter (\<lambda>f. ou_UserID f = Some (us_ID u)) (lw_office_users w)))"
  shows "keeps_session w w' s t \<and> (\<not> IsOfficeApp s \<longrightarrow> w' = w \<and> t = s)
    \<and> (IsOfficeApp s \<longrightarrow> office_role w w' (us_ID u) (ss_OfficeUserID t))"
proof (cases "IsOfficeApp s")
  case True
  show ?thesis
  proof (cases ou)
    case None
    with assms(3) have free: "\<forall>y \<in> set (lw_office_users w). ou_UserID y \<noteq> Some (us_ID u)"
      by (simp add: left_join_None filter_empty_conv)
    from assms(1) True None obtain x where x: "FetchOfficeUserByEmail env w (ss_Email s) = Ret x"
      "w' = link_office_user (ou_ID x) (us_ID u) w" "t = s\<lparr>ss_OfficeUserID := ou_ID x\<rparr>"
      by (auto simp: known_office_user_def assms(2) identity_of_def split: outcome.splits if_splits)
    from FetchOfficeUserByEmail_Ret [OF x(1)] have "office_role w w' (us_ID u) (ou_ID x)"
      unfolding x(2) by (intro office_role_linked) (use free in auto)
    with x True show ?thesis by (simp add: keeps_session_def)
  next
    case (Some x)
    with assms(3) have x: "x \<in> set (lw_office_users w)" "ou_UserID x = Some (us_ID u)" by (simp_all add: left_join_iff)
    from assms(1) True Some have t: "w' = w" "t = s\<lparr>ss_OfficeUserID := ou_ID x\<rparr>" "\<not> ou_Disabled x"
      by (simp_all add: known_office_user_def assms(2) identity_of_def split: if_splits)
    with x True show ?thesis by (auto simp: keeps_session_def office_role_def)
  qed
qed (use assms(1) in \<open>simp add: known_office_user_def keeps_session_def\<close>)

lemma known_tsp_user_Ret:
  assumes "known_tsp_user env ui w s = (w', Ret t)" "ui = identity_of u sm ou tu au du"
    "tu \<in> set (left_join (filter (\<lambda>f. tu_UserID f = Some (us_ID u)) (lw_tsp_users w)))"
  shows "keeps_session w w' s t \<and> (\<not> IsTspApp s \<longrightarrow> w' = w \<and> t = s)
    \<and> (IsTspApp s \<longrightarrow> tsp_role w w' (us_ID u) (ss_TspUserID t))"
proof (cases "IsTspApp s")
  case True
  show ?thesis
  proof (cases tu)
    case None
    with assms(3) have free: "\<forall>y \<in> set (lw_tsp_users w). tu_UserID y \<noteq> Some (us_ID u)"
      by (simp add: left_join_None filter_empty_conv)
    from assms(1) True None obtain x where x: "FetchTspUserByEmail env w (ss_Email s) = Ret x"
      "w' = link_tsp_user (tu_ID x) (us_ID u) w" "t = s\<lparr>ss_TspUserID := tu_ID x\<rparr>"
      by (auto simp: known_tsp_user_def assms(2) identity_of_def split: outcome.splits if_splits)
    from FetchTspUserByEmail_Ret [OF x(1)] have "tsp_role w w' (us_ID u) (tu_ID x)"
      unfolding x(2) by (intro tsp_role_linked) (use free in auto)
    with x True show ?thesis by (simp add: keeps_session_def)
  next
    case (Some x)
    with assms(3) have x: "x \<in> set (lw_tsp_users w)" "tu_UserID x = Some (us_ID u)" by (simp_all add: left_join_iff)
    from assms(1) True Some have t: "w' = w" "t = s\<lparr>ss_TspUserID := tu_ID x\<rparr>" "\<not> tu_Disabled x"
      by (simp_all add: known_tsp_user_def assms(2) identity_of_def split: if_splits)
    with x True show ?thesis by (auto simp: keeps_session_def tsp_role_def)
  qed
qed (use assms(1) in \<open>simp add: known_tsp_user_def keeps_session_def\<close>)

lemma known_admin_user_Ret:
  assumes "known_admin_user env ui w s = (w', Ret t)" "ui = identity_of u sm ou tu au du"
    "au \<in> set (left_join (filter (\<lambda>f. au_UserID f = Some (us_ID u)) (lw_admin_users w)))"
  shows "keeps_session w w' s t \<and> (\<not> IsAdminApp s \<longrightarrow> w' = w \<and> t = s)
    \<and> (IsAdminApp s \<longrightarrow> admin_role w w' (us_ID u) (ss_AdminUserID t))"
proof (cases "IsAdminApp s")
  case True
  show ?thesis
  proof (cases au)
    case None
    with assms(3) have free: "\<forall>y \<in> set (lw_admin_users w). au_UserID y \<noteq> Some (us_ID u)"
      by (simp add: left_join_None filter_empty_conv)
    from assms(1) True None obtain x where x: "fetch_admin env w (ToLower (us_LoginGovEmail u)) = Ret x"
      "w' = link_admin_user (au_ID x) (us_ID u) w" "t = s\<lparr>ss_AdminUserID := au_ID x, ss_AdminUserRole := au_Role x\<rparr>"
      by (auto simp: known_admin_user_def assms(2) identity_of_def Let_def split: outcome.splits if_splits)
    from fetch_admin_Ret [OF x(1)] have "admin_role w w' (us_ID u) (au_ID x)"
      unfolding x(2) by (intro admin_role_linked) (use free in auto)
    with x True show ?thesis by (simp add: keeps_session_def)
  next
    case (Some x)
    with assms(3) have x: "x \<in> set (lw_admin_users w)" "au_UserID x = Some (us_ID u)" by (simp_all add: left_join_iff)
    from assms(1) True Some have t: "w' = w" "t = s\<lparr>ss_AdminUserID := au_ID x, ss_AdminUserRole := au_Role x\<rparr>" "\<not> au_Disabled x"
      by (simp_all add: known_admin_user_def assms(2) identity_of_def split: if_splits)
    with x True show ?thesis by (auto simp: keeps_session_def admin_role_def)
  qed
qed (use assms(1) in \<open>simp add: known_admin_user_def keeps_session_def\<close>)

lemma and_authorize_Ret: "and_authorize f g w s = (w2, Ret t) \<longleftrightarrow> (\<exists>w1 r. f w s = (w1, Ret r) \<and> g w1 r = (w2, Ret t))"
  by (auto simp: and_authorize_def split: prod.splits outcome.splits)

lemma authorize_roles_Ret:
  assumes a: "authorize_roles env ui w s = (w', Ret t)" and ui: "ui = identity_of u sm ou tu au du"
    and ou: "ou \<in> set (left_join (filter (\<lambda>f. ou_UserID f = Some (us_ID u)) (lw_office_users w)))"
    and tu: "tu \<in> set (left_join (filter (\<lambda>f. tu_UserID f = Some (us_ID u)) (lw_tsp_users w)))"
    and au: "au \<in> set (left_join (filter (\<lambda>f. au_UserID f = Some (us_ID u)) (lw_admin_users w)))"
  shows "keeps_session w w' s t \<and> (IsOfficeApp s \<longrightarrow> office_role w w' (us_ID u) (ss_OfficeUserID t))
    \<and> (IsTspApp s \<longrightarrow> tsp_role w w' (us_ID u) (ss_TspUserID t)) \<and> (IsAdminApp s \<longrightarrow> admin_role w w' (us_ID u) (ss_AdminUserID t))"
proof -
  from a obtain w1 s1 w2 s2 where steps: "known_office_user env ui w s = (w1, Ret s1)" "known_tsp_user env ui w1 s1 = (w2, Ret s2)"
    "known_admin_user env ui w2 s2 = (w', Ret t)"
    by (auto simp: authorize_roles_def and_authorize_Ret)
  note o = known_office_user_Ret [OF steps(1) ui ou]
  consider "IsOfficeApp s" | "\<not> IsOfficeApp s" by blast
  then show ?thesis
  proof cases
    case 1
    from o have "keeps_session w w1 s s1" by blast
    then have "IsOfficeApp s1" using 1 app_cong by (metis keeps_session_def)
    with steps(2,3) have "w' = w1 \<and> t = s1"
      using app_simps(1) by (auto simp: known_tsp_user_def known_admin_user_def)
    with o 1 app_simps(1) [OF 1] show ?thesis by blast
  next
    case 2
    with o have e: "w1 = w" "s1 = s" by blast+
    note p = known_tsp_user_Ret [OF steps(2) [unfolded e] ui tu]
    show ?thesis
    proof (cases "IsTspApp s")
      case True
      from p have "keeps_session w w2 s s2" by blast
      then have "IsTspApp s2" using True app_cong by (metis keeps_session_def)
      with steps(3) have "w' = w2 \<and> t = s2" using app_simps(2) by (auto simp: known_admin_user_def)
      with p True app_simps(2) [OF True] show ?thesis by blast
    next
      case False
      with p have e2: "w2 = w" "s2 = s" by blast+
      from known_admin_user_Ret [OF steps(3) [unfolded e2] ui au] 2 False show ?thesis by blast
    qed
  qed
qed

lemma known_user_session_fields: "ss_ApplicationName (known_user_session ui s) = ss_ApplicationName s"
  "ss_UserID (known_user_session ui s) = ui_ID ui" "ss_IDToken (known_user_session ui s) = ss_IDToken s"
  "ss_Email (known_user_session ui s) = ss_Email s" "ss_Hostname (known_user_session ui s) = ss_Hostname s"
  by (simp_all add: known_user_session_def Let_def split: option.splits)

lemma authorizeKnownUser_Ret:
  assumes f: "FetchUserIdentity env w userID = Ret ui" and a: "authorizeKnownUser env ui w s = (w', Ret t)"
  shows "entitled env w w' userID t \<and> ss_ApplicationName t = ss_ApplicationName s \<and> ss_IDToken t = ss_IDToken s
    \<and> ss_Email t = ss_Email s \<and> ss_Hostname t = ss_Hostname s"
  using f
proof (rule FetchUserIdentity_Ret)
  fix u sm ou tu au du
  assume u: "u \<in> set (lw_users w)" "le_uuid env userID = Some (us_LoginGovUUID u)" and ui: "ui = identity_of u sm ou tu au du"
    and rows: "ou \<in> set (left_join (filter (\<lambda>f. ou_UserID f = Some (us_ID u)) (lw_office_users w)))"
    "tu \<in> set (left_join (filter (\<lambda>t. tu_UserID t = Some (us_ID u)) (lw_tsp_users w)))"
    "au \<in> set (left_join (filter (\<lambda>a. au_UserID a = Some (us_ID u)) (lw_admin_users w)))"
  from a obtain v where v: "authorize_roles env ui w (known_user_session ui s) = (w', Ret v)"
    "t = v\<lparr>ss_FirstName := FirstName ui, ss_LastName := LastName ui, ss_Middle := Middle ui\<rparr>" "\<not> us_Disabled u"
    by (auto simp: authorizeKnownUser_def and_authorize_Ret ui identity_of_def split: if_splits)
  from authorize_roles_Ret [OF v(1) ui rows] have keeps: "keeps_session w w' (known_user_session ui s) v"
    and roles: "IsOfficeApp s \<longrightarrow> office_role w w' (us_ID u) (ss_OfficeUserID v)"
      "IsTspApp s \<longrightarrow> tsp_role w w' (us_ID u) (ss_TspUserID v)" "IsAdminApp s \<longrightarrow> admin_role w w' (us_ID u) (ss_AdminUserID v)"
    using app_cong [OF known_user_session_fields(1), of ui s] by blast+
  have t: "ss_ApplicationName t = ss_ApplicationName s" "ss_UserID t = us_ID u" "ss_IDToken t = ss_IDToken s"
    "ss_Email t = ss_Email s" "ss_Hostname t = ss_Hostname s" "lw_users w' = lw_users w"
    using keeps by (simp_all add: v(2) keeps_session_def known_user_session_fields) (simp add: ui identity_of_def)
  have "entitled env w w' userID t"
    unfolding entitled_def using u v(3) roles t app_cong [OF t(1)] by (auto simp: v(2))
  with t show ?thesis by blast
qed

lemma CreateUser_Ret:
  assumes "CreateUser env w userID email = (w', Ret user)"
  shows "w' = w\<lparr>lw_users := lw_users w @ [user], lw_fresh := Suc (lw_fresh w)\<rparr> \<and> le_uuid env userID = Some (us_LoginGovUUID user)
    \<and> us_ID user = lw_fresh w \<and> \<not> us_Disabled user \<and> us_LoginGovEmail user = ToLower email"
  using assms by (auto simp: CreateUser_def Let_def split: option.splits prod.splits if_splits)

definition roles_identified :: "login_world \<Rightarrow> bool" where
  "roles_identified w \<longleftrightarrow> uuid_Nil \<notin> us_ID ` set (lw_users w) \<and> uuid_Nil \<notin> ou_ID ` set (lw_office_users w)
     \<and> uuid_Nil \<notin> tu_ID ` set (lw_tsp_users w) \<and> uuid_Nil \<notin> au_ID ` set (lw_admin_users w)"

lemma unknown_office_user_Ret: "unknown_office_user env w s = Ret r \<Longrightarrow> IsOfficeApp s
    \<Longrightarrow> \<exists>x. r = Some x \<and> x \<in> set (lw_office_users w) \<and> \<not> ou_Disabled x"
  by (auto simp: unknown_office_user_def dest: FetchOfficeUserByEmail_Ret split: outcome.splits if_splits)

lemma unknown_tsp_user_Ret: "unknown_tsp_user env w s = Ret r \<Longrightarrow> IsTspApp s
    \<Longrightarrow> \<exists>x. r = Some x \<and> x \<in> set (lw_tsp_users w) \<and> \<not> tu_Disabled x"
  by (auto simp: unknown_tsp_user_def dest: FetchTspUserByEmail_Ret split: outcome.splits if_splits)

lemma unknown_admin_user_Ret: "unknown_admin_user env w s = Ret r \<Longrightarrow> IsAdminApp s
    \<Longrightarrow> \<exists>x. r = Some x \<and> x \<in> set (lw_admin_users w) \<and> \<not> au_Disabled x"
  by (auto simp: unknown_admin_user_def dest: fetch_admin_Ret split: outcome.splits if_splits)

lemma authorizeUnknownUser_Ret:
  assumes a: "authorizeUnknownUser env userID email w s = (w', Ret t)" and ids: "roles_identified w"
  shows "entitled env w w' userID t \<and> ss_ApplicationName t = ss_ApplicationName s \<and> ss_IDToken t = ss_IDToken s
    \<and> ss_Email t = ss_Email s \<and> ss_Hostname t = ss_Hostname s"
proof -
  from a obtain o' t' a' w1 user where look: "unknown_office_user env w s = Ret o'" "unknown_tsp_user env w s = Ret t'"
    "unknown_admin_user env w s = Ret a'" and c: "CreateUser env w userID email = (w1, Ret user)"
    and l: "link_new_user env (us_ID user) o' t' a' w1 (s\<lparr>ss_UserID := us_ID user\<rparr>) = (w', Ret t)"
    by (auto simp: authorizeUnknownUser_def outcome_simps split: outcome.splits prod.splits)
  from CreateUser_Ret [OF c] have w1: "w1 = w\<lparr>lw_users := lw_users w @ [user], lw_fresh := Suc (lw_fresh w)\<rparr>"
    and u: "le_uuid env userID = Some (us_LoginGovUUID user)" "\<not> us_Disabled user" by blast+
  have keep: "lw_users w' = lw_users w @ [user] \<and> ss_UserID t = us_ID user \<and> ss_ApplicationName t = ss_ApplicationName s
      \<and> ss_IDToken t = ss_IDToken s \<and> ss_Email t = ss_Email s \<and> ss_Hostname t = ss_Hostname s"
    using l by (auto simp: link_new_user_def w1 split: if_splits)
  have "IsOfficeApp s \<longrightarrow> office_role w w' (us_ID user) (ss_OfficeUserID t)"
  proof
    assume app: "IsOfficeApp s"
    from unknown_office_user_Ret [OF look(1) app] obtain x where x: "o' = Some x" "x \<in> set (lw_office_users w)" "\<not> ou_Disabled x" by blast
    with l app have "w' = link_office_user (ou_ID x) (us_ID user) w1" "ss_OfficeUserID t = ou_ID x"
      by (auto simp: link_new_user_def IsOfficeApp_def split: if_splits)
    with x show "office_role w w' (us_ID user) (ss_OfficeUserID t)" by (simp add: office_role_linked w1)
  qed
  moreover have "IsTspApp s \<longrightarrow> tsp_role w w' (us_ID user) (ss_TspUserID t)"
  proof
    assume app: "IsTspApp s"
    from unknown_tsp_user_Ret [OF look(2) app] obtain x where x: "t' = Some x" "x \<in> set (lw_tsp_users w)" "\<not> tu_Disabled x" by blast
    with l app have "w' = link_tsp_user (tu_ID x) (us_ID user) w1" "ss_TspUserID t = tu_ID x"
      by (auto simp: link_new_user_def IsOfficeApp_def IsTspApp_def split: if_splits)
    with x show "tsp_role w w' (us_ID user) (ss_TspUserID t)" by (simp add: tsp_role_linked w1)
  qed
  moreover have "IsAdminApp s \<longrightarrow> admin_role w w' (us_ID user) (ss_AdminUserID t)"
  proof
    assume app: "IsAdminApp s"
    from unknown_admin_user_Ret [OF look(3) app] obtain x where x: "a' = Some x" "x \<in> set (lw_admin_users w)" "\<not> au_Disabled x" by blast
    moreover have "au_ID x \<noteq> uuid_Nil" using x(2) ids by (force simp: roles_identified_def)
    ultimately have "w' = link_admin_user (au_ID x) (us_ID user) w1" "ss_AdminUserID t = au_ID x"
      using l app by (auto simp: link_new_user_def IsOfficeApp_def IsTspApp_def IsAdminApp_def split: if_splits)
    with x show "admin_role w w' (us_ID user) (ss_AdminUserID t)" by (simp add: admin_role_linked w1)
  qed
  ultimately have "entitled env w w' userID t"
    unfolding entitled_def using keep u app_cong [of t s] by auto
  with keep show ?thesis by blast
qed

lemma session_cookie_alive:
  assumes "0 \<le> ck_MaxAge (session_cookie env s)"
  obtains token where "ss_IDToken s \<noteq> ''''" "ss_UserID s \<noteq> uuid_Nil" "le_sign env (session_expiry env) s = Some token"
    "session_cookie env s = \<lparr>ck_Name = session_cookie_name (ss_ApplicationName s), ck_Value = token, ck_MaxAge = session_max_age env\<rparr>"
  using assms by (auto simp: session_cookie_def Let_def split: if_splits option.splits)

lemma finish_login_alive:
  assumes "finish_login env url cookies r = Ret (w', reply)" "c \<in> set (rp_Cookies reply)" "c \<notin> set cookies"
  shows "\<exists>t. r = (w', Ret t) \<and> c = session_cookie env t"
  using assms by (auto simp: finish_login_def http_Redirect_def http_Error_def WriteSessionCookie_def split: prod.splits outcome.splits)

lemma sign_in_alive:
  assumes i: "sign_in env w s cookies url (idToken, userID, email) = Ret (w', reply)" "c \<in> set (rp_Cookies reply)" "c \<notin> set cookies"
    and ids: "roles_identified w"
  shows "\<exists>t. c = session_cookie env t \<and> entitled env w w' userID t \<and> ss_ApplicationName t = ss_ApplicationName s
    \<and> ss_IDToken t = idToken \<and> ss_Email t = email \<and> ss_Hostname t = ss_Hostname s"
proof (cases "FetchUserIdentity env w userID")
  case (Ret ui)
  with i(1) have "finish_login env url cookies (authorizeKnownUser env ui w (s\<lparr>ss_IDToken := idToken, ss_Email := email\<rparr>)) = Ret (w', reply)"
    by (simp add: sign_in_def Let_def)
  from finish_login_alive [OF this i(2,3)] obtain t where
    "authorizeKnownUser env ui w (s\<lparr>ss_IDToken := idToken, ss_Email := email\<rparr>) = (w', Ret t)" "c = session_cookie env t" by blast
  with authorizeKnownUser_Ret [OF Ret this(1)] show ?thesis by auto
next
  case (Fail e)
  with i have e: "e = ErrFetchNotFound"
    by (auto simp: sign_in_def Let_def http_Error_def split: if_splits)
  with i(1) Fail have "finish_login env (landingURL env (s\<lparr>ss_IDToken := idToken, ss_Email := email\<rparr>)) cookies
      (authorizeUnknownUser env userID email w (s\<lparr>ss_IDToken := idToken, ss_Email := email\<rparr>)) = Ret (w', reply)"
    by (simp add: sign_in_def Let_def)
  from finish_login_alive [OF this i(2,3)] obtain t where
    "authorizeUnknownUser env userID email w (s\<lparr>ss_IDToken := idToken, ss_Email := email\<rparr>) = (w', Ret t)" "c = session_cookie env t" by blast
  with authorizeUnknownUser_Ret [OF this(1) ids] show ?thesis by auto
qed (use i in \<open>simp add: sign_in_def Let_def\<close>)

text \<open>A cookie that a callback leaves alive was checked at every stage: the state came back, Login.gov vouched for the
  identifier, and the user behind it is entitled to the session the cookie carries.\<close>

definition vouched :: "login_env \<Rightarrow> login_world \<Rightarrow> login_world \<Rightarrow> (string \<times> string) list \<Rightarrow> callback_query \<Rightarrow> Session \<Rightarrow> Session \<Rightarrow> bool" where
  "vouched env w w' sent q s t \<longleftrightarrow>
     map_of sent (StateCookieName s) = Some (le_sha env (cq_state q)) \<and> cq_error q = ''''
     \<and> le_token env (cq_code q) = Ret (ss_IDToken t)
     \<and> (\<exists>userID. le_profile env (ss_IDToken t) = Ret (userID, ss_Email t) \<and> entitled env w w' userID t)
     \<and> ss_ApplicationName t = ss_ApplicationName s \<and> ss_Hostname t = ss_Hostname s"

lemma login_sound_aux:
  assumes callback: "CallbackHandler env w (Some s) cookies sent q = Ret (w', reply)"
    and c: "c \<in> set (rp_Cookies reply)" "c \<notin> set cookies" "0 \<le> ck_MaxAge c" and ids: "roles_identified w"
  shows "\<exists>t. c = session_cookie env t \<and> vouched env w w' sent q s t \<and> ss_UserID t \<noteq> uuid_Nil"
proof -
  have dead: "ck_MaxAge (session_cookie env (s\<lparr>ss_IDToken := '''', ss_UserID := uuid_Nil\<rparr>)) < 0"
    by (simp add: session_cookie_def Let_def)
  have q: "cq_error q = ''''" "map_of sent (StateCookieName s) = Some (le_sha env (cq_state q))"
    using callback c dead
    by (auto simp: CallbackHandler_def Let_def http_Error_def http_Redirect_def DeleteCookie_def WriteSessionCookie_def
        split: if_splits option.splits outcome.splits)
  with callback c have "\<exists>profile. ask_provider env (cq_code q) = Ret profile
      \<and> sign_in env w s cookies (landingURL env s) profile = Ret (w', reply)"
    by (auto simp: CallbackHandler_def Let_def http_Error_def split: if_splits outcome.splits)
  then obtain idToken userID email where ask: "ask_provider env (cq_code q) = Ret (idToken, userID, email)"
    and i: "sign_in env w s cookies (landingURL env s) (idToken, userID, email) = Ret (w', reply)" by auto
  from ask have p: "le_token env (cq_code q) = Ret idToken" "le_profile env idToken = Ret (userID, email)"
    by (auto simp: ask_provider_def outcome_simps split: if_splits)
  from sign_in_alive [OF i c(1,2) ids] obtain t where t: "c = session_cookie env t" "entitled env w w' userID t"
    "ss_ApplicationName t = ss_ApplicationName s" "ss_IDToken t = idToken" "ss_Email t = email" "ss_Hostname t = ss_Hostname s" by blast
  with c(3) have "ss_UserID t \<noteq> uuid_Nil" using session_cookie_alive by metis
  with t p q show ?thesis unfolding vouched_def by blast
qed

text \<open>C18: whoever leaves the callback of Login.gov with a live session cookie brought back the state that was sent
  along, is vouched for by Login.gov, and is entitled to the session: the user of the session has that identifier and is not
  disabled, and in the apps of the office, the TSPs and the administrators has the role the session names.\<close>

theorem login_sound:
  assumes callback: "CallbackHandler env w (Some s) cookies sent q = Ret (w', reply)"
    and c: "c \<in> set (rp_Cookies reply)" "c \<notin> set cookies" "0 \<le> ck_MaxAge c" and ids: "roles_identified w"
  shows "\<exists>t. c = session_cookie env t \<and> vouched env w w' sent q s t \<and> ss_UserID t \<noteq> uuid_Nil"
  by (rule login_sound_aux [OF assms])

lemma entitled_identified: "entitled env w w' userID t \<Longrightarrow> roles_identified w
    \<Longrightarrow> (IsOfficeApp t \<longrightarrow> IsOfficeUser t) \<and> (IsTspApp t \<longrightarrow> IsTspUser t) \<and> (IsAdminApp t \<longrightarrow> IsAdminUser t)"
  by (auto simp: entitled_def roles_identified_def office_role_def tsp_role_def admin_role_def IsOfficeUser_def IsTspUser_def IsAdminUser_def)

lemma entitled_cong: "entitled env w w' userID (t\<lparr>ss_Hostname := h\<rparr>) = entitled env w w' userID t"
  by (simp add: entitled_def IsOfficeApp_def IsTspApp_def IsAdminApp_def)

text \<open>C19: the cookie of a login opens the next request: within its time, the middleware reads back the session of the
  login, and the middlewares in front of the handlers let it through.\<close>

theorem login_accepted:
  assumes callback: "CallbackHandler env w (Some s) cookies sent q = Ret (w', reply)"
    and c: "c \<in> set (rp_Cookies reply)" "c \<notin> set cookies" "0 \<le> ck_MaxAge c" and ids: "roles_identified w"
    and host: "ApplicationName (takeWhile (\<lambda>x. x \<noteq> CHR '':'') host) appnames = Ret (ss_ApplicationName s)"
    and brought: "map_of brought (ck_Name c) = Some (ck_Value c)"
    and signed: "\<And>t token. le_sign env (session_expiry env) t = Some token \<Longrightarrow> le_claims later (le_now later) token = Some t"
  shows "\<exists>t renewed userID. SessionCookieMiddleware later appnames host brought = Ret (t, renewed)
    \<and> UserAuthMiddleware (Some t) = Ret () \<and> (IsAdminApp t \<longrightarrow> AdminAuthMiddleware (Some t) = Ret ())
    \<and> le_profile env (ss_IDToken t) = Ret (userID, ss_Email t) \<and> entitled env w w' userID t"
proof -
  from login_sound_aux [OF callback c ids] obtain t where t: "c = session_cookie env t" "vouched env w w' sent q s t" by blast
  from c(3) t(1) obtain token where token: "ss_UserID t \<noteq> uuid_Nil" "le_sign env (session_expiry env) t = Some token"
    "ck_Name c = session_cookie_name (ss_ApplicationName t)" "ck_Value c = token"
    by (metis session_cookie_alive Cookie.select_convs(1,2))
  from t(2) obtain userID where app: "ss_ApplicationName t = ss_ApplicationName s"
    and u: "le_profile env (ss_IDToken t) = Ret (userID, ss_Email t)" "entitled env w w' userID t" by (auto simp: vouched_def)
  define t' where "t' = t\<lparr>ss_Hostname := ToLower (takeWhile (\<lambda>x. x \<noteq> CHR '':'') host)\<rparr>"
  have same: "t\<lparr>ss_ApplicationName := ss_ApplicationName s, ss_Hostname := h\<rparr> = t\<lparr>ss_Hostname := h\<rparr>" for h
    by (simp flip: app)
  have m: "SessionCookieMiddleware later appnames host brought = Ret (t', WriteSessionCookie later t' [])"
    using host brought token signed [OF token(2)]
    by (simp add: SessionCookieMiddleware_def Let_def sessionClaimsFromRequest_def app same t'_def)
  have e: "entitled env w w' userID t'" using u(2) by (simp add: t'_def entitled_cong)
  note r = entitled_identified [OF e ids]
  moreover have "ss_UserID t' \<noteq> uuid_Nil" "ss_IDToken t' = ss_IDToken t" "ss_Email t' = ss_Email t" using token(1) by (simp_all add: t'_def)
  ultimately show ?thesis using m u(1) e
    by (intro exI [of _ t'] exI [of _ "WriteSessionCookie later t' []"] exI [of _ userID])
      (auto simp: UserAuthMiddleware_def AdminAuthMiddleware_def)
qed

lemma callback_asked:
  assumes "le_landing_parses env" "cq_error q = ''''" "map_of sent (StateCookieName s) = Some (le_sha env (cq_state q))"
    "ask_provider env (cq_code q) = Ret (idToken, userID, email)"
  shows "CallbackHandler env w (Some s) cookies sent q = sign_in env w s cookies (landingURL env s) (idToken, userID, email)"
  using assms by (simp add: CallbackHandler_def Let_def)

lemma known_office_user_linked:
  assumes office: "IsOfficeApp s" and ui: "\<not> ui_Disabled ui" "ui_OfficeUserID ui = None" "ui_OfficeDisabled ui = None"
    and x: "FetchOfficeUserByEmail env w (ss_Email s) = Ret x" and save: "le_save env ''office user'' = None"
  shows "\<exists>t. authorizeKnownUser env ui w s = (link_office_user (ou_ID x) (ui_ID ui) w, Ret t)
    \<and> ss_UserID t = ui_ID ui \<and> ss_OfficeUserID t = ou_ID x"
proof -
  define v where "v = known_user_session ui s"
  have v: "IsOfficeApp v" "ss_Email v = ss_Email s" "ss_UserID v = ui_ID ui"
    using office by (simp_all add: v_def IsOfficeApp_def known_user_session_fields)
  have "known_office_user env ui w v = (link_office_user (ou_ID x) (ui_ID ui) w, Ret (v\<lparr>ss_OfficeUserID := ou_ID x\<rparr>))"
    using v ui x save by (simp add: known_office_user_def)
  moreover have "\<not> IsTspApp (v\<lparr>ss_OfficeUserID := ou_ID x\<rparr>)" "\<not> IsAdminApp (v\<lparr>ss_OfficeUserID := ou_ID x\<rparr>)"
    using v(1) by (simp_all add: IsOfficeApp_def IsTspApp_def IsAdminApp_def)
  ultimately show ?thesis using ui(1) v(3)
    by (simp add: authorizeKnownUser_def authorize_roles_def and_authorize_def known_tsp_user_def known_admin_user_def flip: v_def)
qed

text \<open>C39: a disabled office user whose record names no login yet is refused at the first login of their Login.gov account, but
  let in when that account is known already (as a service member, say): the record is tied to it and the session carries the
  disabled role.\<close>

theorem disabled_office_user_let_in:
  assumes ok: "le_landing_parses env" "cq_error q = ''''" "map_of sent (StateCookieName s) = Some (le_sha env (cq_state q))"
    "ask_provider env (cq_code q) = Ret (idToken, userID, email)"
    and office: "IsOfficeApp s" and x: "FetchOfficeUserByEmail env w email = Ret x" "ou_Disabled x"
    and save: "le_save env ''office user'' = None"
  shows "(FetchUserIdentity env w userID = Fail ErrFetchNotFound
      \<longrightarrow> CallbackHandler env w (Some s) cookies sent q = Ret (w, http_Error 403 cookies))
    \<and> (\<forall>ui. FetchUserIdentity env w userID = Ret ui \<and> \<not> ui_Disabled ui \<and> ui_OfficeUserID ui = None
      \<longrightarrow> (\<exists>t. CallbackHandler env w (Some s) cookies sent q
             = Ret (link_office_user (ou_ID x) (ui_ID ui) w, http_Redirect 307 (landingURL env s) [session_cookie env t])
           \<and> ss_UserID t = ui_ID ui \<and> ss_OfficeUserID t = ou_ID x))"
proof (intro conjI impI allI)
  define v where "v = s\<lparr>ss_IDToken := idToken, ss_Email := email\<rparr>"
  have v: "IsOfficeApp v" "ss_Email v = email" using office by (simp_all add: v_def IsOfficeApp_def)
  {
    assume "FetchUserIdentity env w userID = Fail ErrFetchNotFound"
    moreover have "unknown_office_user env w v = Fail 403" using v x by (simp add: unknown_office_user_def)
    ultimately show "CallbackHandler env w (Some s) cookies sent q = Ret (w, http_Error 403 cookies)"
      unfolding callback_asked [OF ok] by (simp add: sign_in_def Let_def authorizeUnknownUser_def finish_login_def flip: v_def)
  next
    fix ui
    assume ui: "FetchUserIdentity env w userID = Ret ui \<and> \<not> ui_Disabled ui \<and> ui_OfficeUserID ui = None"
    then have "ui_OfficeDisabled ui = None" by (auto simp: identity_of_def elim!: FetchUserIdentity_Ret)
    with ui obtain t where "authorizeKnownUser env ui w v = (link_office_user (ou_ID x) (ui_ID ui) w, Ret t)"
      "ss_UserID t = ui_ID ui" "ss_OfficeUserID t = ou_ID x"
      using known_office_user_linked [OF v(1) _ _ _ _ save, of ui w x] x(1) v(2) by auto
    with ui show "\<exists>t. CallbackHandler env w (Some s) cookies sent q
             = Ret (link_office_user (ou_ID x) (ui_ID ui) w, http_Redirect 307 (landingURL env s) [session_cookie env t])
           \<and> ss_UserID t = ui_ID ui \<and> ss_OfficeUserID t = ou_ID x"
      unfolding callback_asked [OF ok] by (auto simp: sign_in_def Let_def finish_login_def WriteSessionCookie_def simp flip: v_def)
  }
qed

section \<open>Witnesses\<close>

text \<open>An office user whose record is tied to the account (or, disabled, to none), and the session of the login.\<close>

definition sample_office_user :: OfficeUser where
  "sample_office_user = \<lparr>ou_ID = 5, ou_UserID = Some 1, ou_LastName = ''B'', ou_FirstName = ''A'', ou_MiddleInitials = None,
     ou_Email = ''A@b.mil'', ou_Telephone = '''', ou_TransportationOfficeID = 9, ou_Disabled = False\<rparr>"

definition sample_login_world :: "OfficeUser \<Rightarrow> login_world" where
  "sample_login_world x = \<lparr>lw_users = [\<lparr>us_ID = 1, us_LoginGovUUID = 77, us_LoginGovEmail = ''a@b.mil'', us_Disabled = False\<rparr>],
     lw_members = [], lw_office_users = [x], lw_tsp_users = [], lw_admin_users = [], lw_dps_users = [], lw_fresh = 2\<rparr>"

definition office_visit :: Session where
  "office_visit = new_session\<lparr>ss_ApplicationName := OfficeApp, ss_Hostname := ''office''\<rparr>"

definition sample_logged_in :: Session where
  "sample_logged_in = office_visit\<lparr>ss_IDToken := ''tok'', ss_Email := ''a@b.mil'', ss_UserID := 1, ss_OfficeUserID := 5,
     ss_FirstName := ''A'', ss_LastName := ''B''\<rparr>"

definition sample_login_env :: login_env where
  "sample_login_env = \<lparr>le_read = Map.empty, le_save = Map.empty, le_create_user = (\<lambda>_. ([], None)), le_admin_verrs = Some [],
     le_uuid = (\<lambda>s. if s = ''u'' then Some 77 else None), le_landing_parses = True, le_sha = (\<lambda>s. ''h'' @ s), le_provider_found = True,
     le_token = (\<lambda>_. Ret ''tok''), le_profile = (\<lambda>_. Ret (''u'', ''a@b.mil'')), le_now = 0,
     le_sign = (\<lambda>_ s. if s = sample_logged_in then Some ''jwt'' else None),
     le_claims = (\<lambda>now tok. if tok = ''jwt'' \<and> now \<le> 900 then Some sample_logged_in else None),
     le_authorization = Ret (''login.gov'', ''n''), le_logout_url = (\<lambda>_ _. ''login.gov''), le_protocol = ''https'', le_port = 443,
     le_noSessionTimeout = False\<rparr>"

definition sample_callback :: callback_query where
  "sample_callback = \<lparr>cq_error = '''', cq_state = ''n'', cq_code = ''c''\<rparr>"

definition sample_session_cookie :: Cookie where
  "sample_session_cookie = \<lparr>ck_Name = ''office_session_token'', ck_Value = ''jwt'', ck_MaxAge = 900\<rparr>"

lemma sample_identity: "ou_UserID x \<in> {Some 1, None} \<Longrightarrow> FetchUserIdentity sample_login_env (sample_login_world x) ''u''
    = Ret (identity_of \<lparr>us_ID = 1, us_LoginGovUUID = 77, us_LoginGovEmail = ''a@b.mil'', us_Disabled = False\<rparr> None
        (if ou_UserID x = None then None else Some x) None None None)"
  by (auto simp: FetchUserIdentity_def sample_login_env_def sample_login_world_def identities_def left_join_def)

lemma sample_asked: "ask_provider sample_login_env (cq_code sample_callback) = Ret (''tok'', ''u'', ''a@b.mil'')"
  by (simp add: ask_provider_def sample_login_env_def)

lemma sample_callback_ok: "le_landing_parses sample_login_env" "cq_error sample_callback = ''''"
  "map_of [(''office_lg_state'', ''hn'')] (StateCookieName office_visit) = Some (le_sha sample_login_env (cq_state sample_callback))"
  by (simp_all add: sample_login_env_def sample_callback_def StateCookieName_def office_visit_def application_text_def)

lemma sample_cookie: "session_cookie sample_login_env sample_logged_in = sample_session_cookie"
  by (simp add: session_cookie_def Let_def sample_login_env_def sample_session_cookie_def sample_logged_in_def office_visit_def
      new_session_def session_cookie_name_def application_text_def session_max_age_def uuid_Nil_def)

lemma sample_known: "authorizeKnownUser sample_login_env
      (identity_of \<lparr>us_ID = 1, us_LoginGovUUID = 77, us_LoginGovEmail = ''a@b.mil'', us_Disabled = False\<rparr> None (Some sample_office_user) None None None)
      (sample_login_world sample_office_user) (office_visit\<lparr>ss_IDToken := ''tok'', ss_Email := ''a@b.mil''\<rparr>)
    = (sample_login_world sample_office_user, Ret sample_logged_in)"
  by (simp add: authorizeKnownUser_def authorize_roles_def and_authorize_def known_user_session_def Let_def identity_of_def
      known_office_user_def known_tsp_user_def known_admin_user_def IsOfficeApp_def IsTspApp_def IsAdminApp_def
      office_visit_def new_session_def sample_logged_in_def sample_office_user_def FirstName_def LastName_def Middle_def firstValue_def)

lemma sample_login: "CallbackHandler sample_login_env (sample_login_world sample_office_user) (Some office_visit) [] [(''office_lg_state'', ''hn'')] sample_callback
    = Ret (sample_login_world sample_office_user, http_Redirect 307 (landingURL sample_login_env office_visit) [sample_session_cookie])"
proof -
  have "ou_UserID sample_office_user = Some 1" by (simp add: sample_office_user_def)
  with sample_identity [of sample_office_user]
  have i: "FetchUserIdentity sample_login_env (sample_login_world sample_office_user) ''u''
      = Ret (identity_of \<lparr>us_ID = 1, us_LoginGovUUID = 77, us_LoginGovEmail = ''a@b.mil'', us_Disabled = False\<rparr> None
          (Some sample_office_user) None None None)" by simp
  show ?thesis unfolding callback_asked [OF sample_callback_ok sample_asked]
    by (simp only: sign_in_def Let_def prod.case i outcome.case sample_known finish_login_def WriteSessionCookie_def sample_cookie)
qed

lemma sample_roles: "roles_identified (sample_login_world sample_office_user)"
  by (simp add: roles_identified_def sample_login_world_def sample_office_user_def uuid_Nil_def)

theorem login_sound_witness:
  "\<exists>t. sample_session_cookie = session_cookie sample_login_env t \<and> ss_UserID t \<noteq> uuid_Nil
    \<and> vouched sample_login_env (sample_login_world sample_office_user) (sample_login_world sample_office_user)
        [(''office_lg_state'', ''hn'')] sample_callback office_visit t"
  using login_sound [OF sample_login, of sample_session_cookie] sample_roles
  by (auto simp: http_Redirect_def sample_session_cookie_def)

theorem login_accepted_witness:
  "\<exists>t renewed userID. SessionCookieMiddleware (sample_login_env\<lparr>le_now := 600\<rparr>)
        \<lparr>MilServername = ''my'', OfficeServername = ''office'', TspServername = ''tsp'', AdminServername = ''admin''\<rparr> ''office:443''
        [(''office_session_token'', ''jwt'')] = Ret (t, renewed)
    \<and> UserAuthMiddleware (Some t) = Ret () \<and> entitled sample_login_env (sample_login_world sample_office_user)
        (sample_login_world sample_office_user) userID t"
proof -
  have "ApplicationName (takeWhile (\<lambda>x. x \<noteq> CHR '':'') ''office:443'')
      \<lparr>MilServername = ''my'', OfficeServername = ''office'', TspServername = ''tsp'', AdminServername = ''admin''\<rparr>
      = Ret (ss_ApplicationName office_visit)"
    by code_simp
  moreover have "sample_session_cookie \<in> set (rp_Cookies (http_Redirect 307 (landingURL sample_login_env office_visit) [sample_session_cookie]))"
    "sample_session_cookie \<notin> set []" "0 \<le> ck_MaxAge sample_session_cookie"
    by (simp_all add: http_Redirect_def sample_session_cookie_def)
  moreover have "map_of [(''office_session_token'', ''jwt'')] (ck_Name sample_session_cookie) = Some (ck_Value sample_session_cookie)"
    by (simp add: sample_session_cookie_def)
  moreover have "le_sign sample_login_env (session_expiry sample_login_env) t = Some token
      \<Longrightarrow> le_claims (sample_login_env\<lparr>le_now := 600\<rparr>) (le_now (sample_login_env\<lparr>le_now := 600\<rparr>)) token = Some t" for t token
    by (simp add: sample_login_env_def split: if_splits)
  ultimately show ?thesis
    using login_accepted [OF sample_login _ _ _ sample_roles] by blast
qed

theorem disabled_office_user_let_in_witness:
  "\<exists>t w'. CallbackHandler sample_login_env (sample_login_world (sample_office_user\<lparr>ou_UserID := None, ou_Disabled := True\<rparr>)) (Some office_visit)
       [] [(''office_lg_state'', ''hn'')] sample_callback = Ret (w', http_Redirect 307 (landingURL sample_login_env office_visit) [session_cookie sample_login_env t])
     \<and> ss_UserID t = 1 \<and> ss_OfficeUserID t = 5"
proof -
  define x where "x = sample_office_user\<lparr>ou_UserID := None, ou_Disabled := True\<rparr>"
  have lower: "ToLower ''A@b.mil'' = ToLower ''a@b.mil''" by code_simp
  have f: "FetchOfficeUserByEmail sample_login_env (sample_login_world x) ''a@b.mil'' = Ret x"
    using lower by (simp add: FetchOfficeUserByEmail_def sample_login_env_def sample_login_world_def x_def sample_office_user_def)
  have "ou_Disabled x" "IsOfficeApp office_visit" "le_save sample_login_env ''office user'' = None"
    by (simp_all add: x_def IsOfficeApp_def office_visit_def sample_login_env_def)
  note d = disabled_office_user_let_in [OF sample_callback_ok sample_asked this(2) f this(1,3), of "[]", THEN conjunct2, rule_format]
  from sample_identity [of x] have i: "FetchUserIdentity sample_login_env (sample_login_world x) ''u''
      = Ret (identity_of \<lparr>us_ID = 1, us_LoginGovUUID = 77, us_LoginGovEmail = ''a@b.mil'', us_Disabled = False\<rparr> None None None None None)"
    by (simp add: x_def)
  from d [OF conjI [OF i]] show ?thesis unfolding x_def [symmetric]
    by (auto simp: identity_of_def x_def sample_office_user_def)
qed

end
