(* ===== verification/Dates.thy ===== *)
theory Dates
  imports Errors
begin

text \<open>
  Move dates (\<open>pkg/dates\<close>): the next working day, runs of dates forwards and backwards from a
  day, and the summary of pack, pickup, transit and delivery days of a move.  The holiday calendar
  (package \<open>rickar/cal\<close>) is the parameter \<open>isWorkday\<close>; what the code relies on is \<open>recurring\<close>:
  within a bounded number of days there is a working day.  A loop that never meets a working day
  does not return, which is the value \<open>None\<close>.
\<close>

type_synonym calendar = "gotime \<Rightarrow> bool"

definition recurring :: "nat \<Rightarrow> calendar \<Rightarrow> bool" where
  "recurring K isWorkday \<longleftrightarrow> (\<forall>d. (\<exists>k<K. isWorkday (AddDate d (int k))) \<and> (\<exists>k<K. isWorkday (AddDate d (- int k))))"

section \<open>Loops over days\<close>

partial_function (option) NextDay :: "calendar \<Rightarrow> gotime \<Rightarrow> gotime option" where
  "NextDay P date = (let date = AddDate date 1 in if P date then Some date else NextDay P date)"

definition NextWorkday :: "calendar \<Rightarrow> gotime \<Rightarrow> gotime option" where
  "NextWorkday isWorkday date = NextDay isWorkday date"

definition NextNonWorkday :: "calendar \<Rightarrow> gotime \<Rightarrow> gotime option" where
  "NextNonWorkday isWorkday date = NextDay (\<lambda>d. \<not> isWorkday d) date"

definition NextValidMoveDate :: "gotime \<Rightarrow> calendar \<Rightarrow> gotime option" where
  "NextValidMoveDate d calendar = NextWorkday calendar d"

text \<open>
  The loop of \<open>CreateFutureMoveDates\<close> (step 1) and \<open>CreatePastMoveDates\<close> (step -1): \<open>n\<close> days
  are still to be found, \<open>d\<close> is the next candidate.
\<close>

partial_function (option) walk_days :: "(gotime \<Rightarrow> bool) \<Rightarrow> int \<Rightarrow> nat \<Rightarrow> gotime \<Rightarrow> gotime list option" where
  "walk_days P step n d = (if n = 0 then Some []
     else if P d then Option.bind (walk_days P step (n - 1) (AddDate d step)) (\<lambda>ds. Some (d # ds))
     else walk_days P step n (AddDate d step))"

definition CreateFutureMoveDates ::
    "gotime \<Rightarrow> int \<Rightarrow> bool \<Rightarrow> calendar \<Rightarrow> gotime list result option" where
  "CreateFutureMoveDates startDate numDays includeWeekendsAndHolidays calendar =
     (if numDays < 0 then Some Panic
      else map_option Ret (walk_days (\<lambda>d. includeWeekendsAndHolidays \<or> calendar d) 1 (nat numDays) startDate))"

definition CreatePastMoveDates ::
    "gotime \<Rightarrow> int \<Rightarrow> bool \<Rightarrow> calendar \<Rightarrow> gotime list result option" where
  "CreatePastMoveDates startDate numDays includeWeekendsAndHolidays calendar =
     (if numDays < 0 then Some Panic
      else map_option (\<lambda>ds. Ret (rev ds))
        (walk_days (\<lambda>d. includeWeekendsAndHolidays \<or> calendar d) (- 1) (nat numDays) startDate))"

text \<open>The loop of \<open>CreateValidDatesBetweenTwoDates\<close>, which always ends.\<close>

function days_until :: "(gotime \<Rightarrow> bool) \<Rightarrow> gotime \<Rightarrow> gotime \<Rightarrow> gotime list" where
  "days_until P endDate d =
     (if d < endDate then (if P d then [d] else []) @ days_until P endDate (AddDate d 1) else [])"
  by auto
termination
  by (relation "measure (\<lambda>(P, e, d). nat (e - d))") (auto simp: AddDate_def)

declare days_until.simps [simp del]

definition CreateValidDatesBetweenTwoDates ::
    "gotime \<Rightarrow> gotime \<Rightarrow> bool \<Rightarrow> bool \<Rightarrow> calendar \<Rightarrow> gotime list result" where
  "CreateValidDatesBetweenTwoDates startDate endDate includeWeekendsAndHolidays allowEarlierOrSameEndDate calendar =
     (if startDate > endDate \<or> startDate = endDate
      then (if allowEarlierOrSameEndDate then Ret [] else Fail (ErrMsg ''End date cannot be before or equal to start date''))
      else Ret (days_until (\<lambda>d. includeWeekendsAndHolidays \<or> calendar d) endDate startDate))"

section \<open>The summary of a move\<close>

record MoveDatesSummary =
  ms_MoveDate :: gotime
  ms_PackDays :: "gotime list"
  ms_EstimatedPackDays :: int
  ms_PickupDays :: "gotime list"
  ms_TransitDays :: "gotime list"
  ms_EstimatedTransitDays :: int
  ms_DeliveryDays :: "gotime list"
  ms_ReportDays :: "gotime list"

text \<open>Indexing a slice at its last element panics when it is empty.\<close>

definition last_day :: "gotime list \<Rightarrow> gotime result" where
  "last_day ds = (if ds = [] then Panic else Ret (last ds))"

text \<open>A loop that may not return, followed by code that may panic.\<close>

definition then_run :: "'a result option \<Rightarrow> ('a \<Rightarrow> 'b result option) \<Rightarrow> 'b result option" where
  "then_run m k = Option.bind m (\<lambda>r. case r of Ret x \<Rightarrow> k x | Fail e \<Rightarrow> Some (Fail e) | Panic \<Rightarrow> Some Panic)"

definition CalculateMoveDates ::
    "calendar \<Rightarrow> MoveDatesSummary \<Rightarrow> gotime \<Rightarrow> int \<Rightarrow> int \<Rightarrow> MoveDatesSummary result option" where
  "CalculateMoveDates usCalendar summary moveDate estimatedPackDays estimatedTransitDays =
     then_run (CreatePastMoveDates (AddDate moveDate (- 1)) estimatedPackDays False usCalendar) (\<lambda>packDays.
     then_run (CreateFutureMoveDates moveDate 1 False usCalendar) (\<lambda>pickupDays.
     then_run (Some (last_day pickupDays)) (\<lambda>lastPickup.
     then_run (CreateFutureMoveDates (AddDate lastPickup 1) estimatedTransitDays True usCalendar) (\<lambda>transitDays.
     then_run (Some (last_day transitDays)) (\<lambda>lastTransit.
     then_run (CreateFutureMoveDates (AddDate lastTransit 1) 1 False usCalendar) (\<lambda>deliveryDays.
     Some (Ret (summary\<lparr>ms_MoveDate := moveDate, ms_EstimatedPackDays := estimatedPackDays,
       ms_EstimatedTransitDays := estimatedTransitDays, ms_PackDays := packDays,
       ms_PickupDays := pickupDays, ms_TransitDays := transitDays, ms_DeliveryDays := deliveryDays\<rparr>))))))))"

section \<open>The loops return\<close>

definition run_of :: "int \<Rightarrow> gotime \<Rightarrow> nat \<Rightarrow> gotime list" where
  "run_of step d m = map (\<lambda>i. AddDate d (step * int i)) [0..<m]"

lemma run_of_0 [simp]: "run_of step d 0 = []"
  by (simp add: run_of_def)

lemma run_of_add: "run_of step d (a + b) = run_of step d a @ run_of step (AddDate d (step * int a)) b"
  by (rule nth_equalityI) (auto simp: run_of_def nth_append AddDate_def algebra_simps)

lemma run_of_Suc: "run_of step d (Suc m) = d # run_of step (AddDate d step) m"
  using run_of_add [of step d 1 m] by (simp add: run_of_def AddDate_def)

lemma in_run_of: "x \<in> set (run_of step d m) \<longleftrightarrow> (\<exists>i<m. x = AddDate d (step * int i))"
  by (auto simp: run_of_def)

lemma sorted_run_of: "sorted_wrt (<) (run_of 1 d m)" "sorted_wrt (<) (rev (run_of (- 1) d m))"
  by (auto simp: run_of_def sorted_wrt_iff_nth_less AddDate_def rev_map [symmetric] rev_nth)

text \<open>A step that meets the predicate within a bounded number of days from anywhere.\<close>

definition meets :: "(gotime \<Rightarrow> bool) \<Rightarrow> int \<Rightarrow> bool" where
  "meets P step \<longleftrightarrow> (\<forall>d. \<exists>k. P (AddDate d (step * int k)))"

lemma meets_recurring:
  assumes "recurring K cal"
  shows "meets (\<lambda>d. inc \<or> cal d) 1" "meets (\<lambda>d. inc \<or> cal d) (- 1)"
  using assms by (auto simp: meets_def recurring_def)

lemma meets_first:
  assumes "meets P step"
  obtains k where "P (AddDate d (step * int k))" "\<And>i. i < k \<Longrightarrow> \<not> P (AddDate d (step * int i))"
proof -
  obtain k where "P (AddDate d (step * int k))" using assms unfolding meets_def by blast
  then show thesis
    using that [of "LEAST k. P (AddDate d (step * int k))"]
      LeastI [of "\<lambda>k. P (AddDate d (step * int k))"] not_less_Least [of _ "\<lambda>k. P (AddDate d (step * int k))"]
    by blast
qed

lemma walk_days_skip:
  "(\<And>i. i < k \<Longrightarrow> \<not> P (AddDate d (step * int i))) \<Longrightarrow> n \<noteq> 0
   \<Longrightarrow> walk_days P step n d = walk_days P step n (AddDate d (step * int k))"
proof (induction k)
  case (Suc k)
  then have "walk_days P step n d = walk_days P step n (AddDate d (step * int k))" by simp
  also have "\<dots> = walk_days P step n (AddDate (AddDate d (step * int k)) step)"
    using Suc.prems by (subst walk_days.simps) auto
  finally show ?case by (simp add: AddDate_def algebra_simps)
qed (simp add: AddDate_def)

lemma filter_run_of_none:
  "(\<And>i. i < k \<Longrightarrow> \<not> P (AddDate d (step * int i))) \<Longrightarrow> filter P (run_of step d k) = []"
  by (auto simp: filter_empty_conv in_run_of)

lemma walk_days_total:
  assumes "meets P step"
  shows "\<exists>m. walk_days P step n d = Some (filter P (run_of step d m)) \<and> length (filter P (run_of step d m)) = n
    \<and> (0 < n \<longrightarrow> 0 < m \<and> P (AddDate d (step * (int m - 1)))) \<and> (n = 0 \<longrightarrow> m = 0)"
proof (induction n arbitrary: d)
  case 0
  show ?case by (intro exI [of _ 0]) (simp add: walk_days.simps)
next
  case (Suc n)
  obtain k where k: "P (AddDate d (step * int k))" "\<And>i. i < k \<Longrightarrow> \<not> P (AddDate d (step * int i))"
    using meets_first [OF assms, where d = d] by blast
  let ?e = "AddDate d (step * int k)" and ?f = "AddDate (AddDate d (step * int k)) step"
  obtain m where m: "walk_days P step n ?f = Some (filter P (run_of step ?f m))"
    "length (filter P (run_of step ?f m)) = n" "0 < n \<longrightarrow> 0 < m \<and> P (AddDate ?f (step * (int m - 1)))"
    "n = 0 \<longrightarrow> m = 0"
    using Suc.IH by blast
  have split: "run_of step d (k + Suc m) = run_of step d k @ ?e # run_of step ?f m"
    by (simp only: run_of_add run_of_Suc)
  have "walk_days P step (Suc n) d = walk_days P step (Suc n) ?e"
    using walk_days_skip [where k = k and P = P and step = step and d = d and n = "Suc n"] k(2) by simp
  also have "\<dots> = Some (?e # filter P (run_of step ?f m))"
    using k(1) m(1) by (subst walk_days.simps) simp
  also have "?e # filter P (run_of step ?f m) = filter P (run_of step d (k + Suc m))"
    unfolding split using k by (simp add: filter_run_of_none)
  finally have w: "walk_days P step (Suc n) d = Some (filter P (run_of step d (k + Suc m)))" .
  have l: "length (filter P (run_of step d (k + Suc m))) = Suc n"
    unfolding split using k m(2) by (simp add: filter_run_of_none)
  have "P (AddDate d (step * int (k + m)))"
  proof (cases "n = 0")
    case True
    with m(4) k(1) show ?thesis by simp
  next
    case False
    then have "0 < m" "P (AddDate ?f (step * (int m - 1)))" using m(3) by auto
    moreover have "AddDate ?f (step * (int m - 1)) = AddDate d (step * int (k + m))"
      using \<open>0 < m\<close> by (simp add: AddDate_def algebra_simps of_nat_diff)
    ultimately show ?thesis by simp
  qed
  with w l show ?case by (intro exI [of _ "k + Suc m"]) simp
qed

lemma NextDay_skip:
  "(\<And>i. 0 < i \<Longrightarrow> i < k \<Longrightarrow> \<not> P (AddDate d (int i))) \<Longrightarrow> 0 < k
   \<Longrightarrow> NextDay P d = NextDay P (AddDate d (int (k - 1)))"
proof (induction k)
  case (Suc k)
  show ?case
  proof (cases "k = 0")
    case False
    then have "NextDay P d = NextDay P (AddDate d (int (k - 1)))" using Suc by simp
    also have "\<dots> = NextDay P (AddDate d (int k))"
      using Suc.prems(1) [of k] False
      by (subst NextDay.simps) (auto simp: AddDate_def of_nat_diff algebra_simps Let_def)
    finally show ?thesis by simp
  qed (simp add: AddDate_def)
qed simp

lemma NextDay_total:
  assumes "meets P 1"
  obtains k where "0 < k" "NextDay P d = Some (AddDate d (int k))" "P (AddDate d (int k))"
    "\<And>i. 0 < i \<Longrightarrow> i < k \<Longrightarrow> \<not> P (AddDate d (int i))"
proof -
  obtain j where j: "P (AddDate (AddDate d 1) (1 * int j))" "\<And>i. i < j \<Longrightarrow> \<not> P (AddDate (AddDate d 1) (1 * int i))"
    using meets_first [OF assms, where d = "AddDate d 1"] by blast
  have n: "\<not> P (AddDate d (int i))" if "0 < i" "i < Suc j" for i
    using j(2) [of "i - 1"] that by (simp add: AddDate_def of_nat_diff algebra_simps)
  have p: "P (AddDate d (int (Suc j)))" using j(1) by (simp add: AddDate_def algebra_simps)
  have "NextDay P d = NextDay P (AddDate d (int j))" using NextDay_skip [of "Suc j" P d] n by simp
  also have "\<dots> = Some (AddDate d (int (Suc j)))"
    using p by (subst NextDay.simps) (simp add: AddDate_def Let_def algebra_simps)
  finally show thesis using that [of "Suc j"] p n by blast
qed

lemma days_until_eq: "days_until P e d = filter P (run_of 1 d (nat ((e - d + 86399) div 86400)))"
proof (induction P e d rule: days_until.induct)
  case (1 P e d)
  show ?case
  proof (cases "d < e")
    case True
    define k where "k = nat ((e - AddDate d 1 + 86399) div 86400)"
    have "nat ((e - d + 86399) div 86400) = Suc k"
      using True by (simp add: k_def AddDate_def)
    then show ?thesis
      using True "1.IH" by (subst days_until.simps) (simp add: run_of_Suc k_def)
  next
    case False
    then have "(e - d + 86399) div 86400 \<le> 0" by simp
    then show ?thesis using False by (subst days_until.simps) simp
  qed
qed

lemma create_future_total:
  assumes "recurring K cal" "0 \<le> n"
  obtains m where "CreateFutureMoveDates d n inc cal = Some (Ret (filter (\<lambda>d. inc \<or> cal d) (run_of 1 d m)))"
    "int (length (filter (\<lambda>d. inc \<or> cal d) (run_of 1 d m))) = n"
    "0 < n \<Longrightarrow> 0 < m \<and> (inc \<or> cal (AddDate d (int m - 1)))"
proof -
  obtain m where m: "walk_days (\<lambda>d. inc \<or> cal d) 1 (nat n) d = Some (filter (\<lambda>d. inc \<or> cal d) (run_of 1 d m))"
    "length (filter (\<lambda>d. inc \<or> cal d) (run_of 1 d m)) = nat n"
    "0 < nat n \<longrightarrow> 0 < m \<and> (inc \<or> cal (AddDate d (1 * (int m - 1))))" "nat n = 0 \<longrightarrow> m = 0"
    using walk_days_total [OF meets_recurring(1) [OF assms(1)], of inc "nat n" d] by (elim exE conjE) (rule that)
  show thesis
  proof (rule that [of m])
    show "0 < m \<and> (inc \<or> cal (AddDate d (int m - 1)))" if "0 < n"
      using m(3) that by simp
  qed (use m(1,2) assms(2) in \<open>simp_all add: CreateFutureMoveDates_def\<close>)
qed

lemma create_past_total:
  assumes "recurring K cal" "0 \<le> n"
  obtains m where "CreatePastMoveDates d n inc cal = Some (Ret (rev (filter (\<lambda>d. inc \<or> cal d) (run_of (- 1) d m))))"
    "int (length (filter (\<lambda>d. inc \<or> cal d) (run_of (- 1) d m))) = n"
    "0 < n \<Longrightarrow> 0 < m \<and> (inc \<or> cal (AddDate d (1 - int m)))"
proof -
  obtain m where m: "walk_days (\<lambda>d. inc \<or> cal d) (- 1) (nat n) d = Some (filter (\<lambda>d. inc \<or> cal d) (run_of (- 1) d m))"
    "length (filter (\<lambda>d. inc \<or> cal d) (run_of (- 1) d m)) = nat n"
    "0 < nat n \<longrightarrow> 0 < m \<and> (inc \<or> cal (AddDate d (- 1 * (int m - 1))))" "nat n = 0 \<longrightarrow> m = 0"
    using walk_days_total [OF meets_recurring(2) [OF assms(1)], of inc "nat n" d] by (elim exE conjE) (rule that)
  show thesis
  proof (rule that [of m])
    show "0 < m \<and> (inc \<or> cal (AddDate d (1 - int m)))" if "0 < n"
      using m(3) that by simp
  qed (use m(1,2) assms(2) in \<open>simp_all add: CreatePastMoveDates_def\<close>)
qed

lemma create_future_facts:
  assumes "recurring K cal" "0 \<le> n"
  obtains ds where "CreateFutureMoveDates d n inc cal = Some (Ret ds)" "sorted_wrt (<) ds" "int (length ds) = n"
    "\<forall>x \<in> set ds. d \<le> x \<and> (inc \<or> cal x)"
proof -
  obtain m where m: "CreateFutureMoveDates d n inc cal = Some (Ret (filter (\<lambda>d. inc \<or> cal d) (run_of 1 d m)))"
    "int (length (filter (\<lambda>d. inc \<or> cal d) (run_of 1 d m))) = n"
    using create_future_total [OF assms] by metis
  show thesis
    by (rule that [OF m(1) _ m(2)]) (auto simp: sorted_wrt_filter sorted_run_of in_run_of AddDate_def)
qed

lemma create_past_facts:
  assumes "recurring K cal" "0 \<le> n"
  obtains ds where "CreatePastMoveDates d n inc cal = Some (Ret ds)" "sorted_wrt (<) ds" "int (length ds) = n"
    "\<forall>x \<in> set ds. x \<le> d \<and> (inc \<or> cal x)"
proof -
  obtain m where m: "CreatePastMoveDates d n inc cal = Some (Ret (rev (filter (\<lambda>d. inc \<or> cal d) (run_of (- 1) d m))))"
    "int (length (filter (\<lambda>d. inc \<or> cal d) (run_of (- 1) d m))) = n"
    using create_past_total [OF assms] by metis
  show thesis
  proof (rule that [OF m(1)])
    show "sorted_wrt (<) (rev (filter (\<lambda>d. inc \<or> cal d) (run_of (- 1) d m)))"
      unfolding rev_filter by (simp add: sorted_wrt_filter sorted_run_of)
  qed (use m(2) in \<open>auto simp: in_run_of AddDate_def\<close>)
qed

lemma then_run_Ret [simp]: "then_run (Some (Ret x)) k = k x"
  by (simp add: then_run_def)

lemma then_run_Panic [simp]: "then_run (Some Panic) k = Some Panic"
  by (simp add: then_run_def)

lemma future_negative: "n < 0 \<Longrightarrow> CreateFutureMoveDates d n inc cal = Some Panic"
  by (simp add: CreateFutureMoveDates_def)

lemma past_negative: "n < 0 \<Longrightarrow> CreatePastMoveDates d n inc cal = Some Panic"
  by (simp add: CreatePastMoveDates_def)

lemma length_1: "int (length ds) = 1 \<Longrightarrow> ds = [last ds]"
  by (cases ds rule: rev_cases) auto

text \<open>A calendar with weekends only: day 0 of the epoch is a Thursday, so days 2 and 3 modulo 7 are
  Saturday and Sunday.\<close>

definition weekdays :: calendar where
  "weekdays t \<longleftrightarrow> (t div 86400) mod 7 \<notin> {2, 3}"

lemma recurring_weekdays: "recurring 3 weekdays"
proof -
  have shift: "weekdays (AddDate d j) \<longleftrightarrow> (d div 86400 + j) mod 7 \<notin> {2, 3}" for d j
    by (simp add: weekdays_def AddDate_def add.commute)
  have up: "\<exists>k<3. (n + int k) mod 7 \<notin> {2, 3}" for n :: int
    by (rule exI [of _ "if n mod 7 = 2 then 2 else if n mod 7 = 3 then 1 else 0"]) (auto; presburger)
  have down: "\<exists>k<3. (n + - int k) mod 7 \<notin> {2, 3}" for n :: int
    by (rule exI [of _ "if n mod 7 = 2 then 1 else if n mod 7 = 3 then 2 else 0"]) (auto; presburger)
  show ?thesis unfolding recurring_def shift using up down by blast
qed

text \<open>The packing days and the pickup day, which come before anything that depends on the transit days.\<close>

lemma summary_start:
  assumes "recurring K cal" "0 \<le> pack"
  obtains ps u where "CreatePastMoveDates (AddDate d (- 1)) pack False cal = Some (Ret ps)" "sorted_wrt (<) ps"
    "int (length ps) = pack" "\<forall>x \<in> set ps. x \<le> AddDate d (- 1) \<and> cal x"
    "CreateFutureMoveDates d 1 False cal = Some (Ret [u])" "d \<le> u" "cal u"
proof -
  obtain ps where ps: "CreatePastMoveDates (AddDate d (- 1)) pack False cal = Some (Ret ps)" "sorted_wrt (<) ps"
    "int (length ps) = pack" "\<forall>x \<in> set ps. x \<le> AddDate d (- 1) \<and> (False \<or> cal x)"
    using create_past_facts [OF assms, of "AddDate d (- 1)" False] by blast
  obtain us where us: "CreateFutureMoveDates d 1 False cal = Some (Ret us)"
    "int (length us) = 1" "\<forall>x \<in> set us. d \<le> x \<and> (False \<or> cal x)"
    using create_future_facts [OF assms(1), of 1 d False] by (metis zero_le_one)
  obtain u where "us = [u]" using us(2) by (metis length_1)
  with ps us show thesis by (intro that [of ps u]) auto
qed

lemma summary_without_transit:
  assumes "recurring K cal" "\<not> (0 \<le> pack \<and> 0 < transit)"
  shows "CalculateMoveDates cal s0 d pack transit = Some Panic"
proof (cases "0 \<le> pack")
  case True
  obtain ps u where start: "CreatePastMoveDates (AddDate d (- 1)) pack False cal = Some (Ret ps)"
    "CreateFutureMoveDates d 1 False cal = Some (Ret [u])" using summary_start [OF assms(1) True, of d] by metis
  consider "transit = 0" | "transit < 0" using assms(2) True by linarith
  then show ?thesis
  proof cases
    case 1
    obtain ts where "CreateFutureMoveDates (AddDate u 1) 0 True cal = Some (Ret ts)" "int (length ts) = 0"
      using create_future_facts [OF assms(1), of 0 "AddDate u 1" True] by (metis order_refl)
    with 1 show ?thesis by (simp add: CalculateMoveDates_def start last_day_def)
  qed (simp add: CalculateMoveDates_def start last_day_def future_negative)
qed (simp add: CalculateMoveDates_def past_negative)

lemma summary_with_transit:
  assumes "recurring K cal" "0 \<le> pack" "0 < transit"
  obtains s where "CalculateMoveDates cal s0 d pack transit = Some (Ret s)"
    "sorted_wrt (<) (ms_PackDays s @ ms_PickupDays s @ ms_TransitDays s @ ms_DeliveryDays s)"
    "int (length (ms_PackDays s)) = pack" "length (ms_PickupDays s) = 1"
    "int (length (ms_TransitDays s)) = transit" "length (ms_DeliveryDays s) = 1"
    "\<forall>x \<in> set (ms_PackDays s) \<union> set (ms_PickupDays s) \<union> set (ms_DeliveryDays s). cal x"
    "\<forall>x \<in> set (ms_PackDays s). x < d" "\<forall>x \<in> set (ms_PickupDays s). d \<le> x"
proof -
  obtain ps u where start: "CreatePastMoveDates (AddDate d (- 1)) pack False cal = Some (Ret ps)" "sorted_wrt (<) ps"
    "int (length ps) = pack" "\<forall>x \<in> set ps. x \<le> AddDate d (- 1) \<and> cal x"
    "CreateFutureMoveDates d 1 False cal = Some (Ret [u])" "d \<le> u" "cal u" using summary_start [OF assms(1,2), of d] by metis
  have nonneg: "0 \<le> transit" using assms(3) by simp
  obtain ts where ts: "CreateFutureMoveDates (AddDate u 1) transit True cal = Some (Ret ts)" "sorted_wrt (<) ts"
    "int (length ts) = transit" "\<forall>x \<in> set ts. AddDate u 1 \<le> x"
    using create_future_facts [OF assms(1) nonneg, of "AddDate u 1" True] by metis
  have ne: "ts \<noteq> []" using ts(3) assms(3) by auto
  obtain vs where vs: "CreateFutureMoveDates (AddDate (last ts) 1) 1 False cal = Some (Ret vs)"
    "int (length vs) = 1" "\<forall>x \<in> set vs. AddDate (last ts) 1 \<le> x \<and> (False \<or> cal x)"
    using create_future_facts [OF assms(1), of 1 "AddDate (last ts) 1" False] by (metis zero_le_one)
  obtain v where v: "vs = [v]" using vs(2) by (metis length_1)
  have last: "\<forall>x \<in> set ts. x \<le> last ts"
    using ts(2) ne by (cases ts rule: rev_cases) (auto simp: sorted_wrt_append less_imp_le)
  have u_last: "u < last ts" using bspec [OF ts(4) last_in_set [OF ne]] by (simp add: AddDate_def)
  have sorted: "sorted_wrt (<) (ps @ [u] @ ts @ [v])"
    unfolding sorted_wrt_append using start(2,4,6) ts(2,4) vs(3) last u_last
    by (auto simp: v AddDate_def) (force+)?
  have eq: "CalculateMoveDates cal s0 d pack transit = Some (Ret (s0\<lparr>ms_MoveDate := d,
      ms_EstimatedPackDays := pack, ms_EstimatedTransitDays := transit, ms_PackDays := ps,
      ms_PickupDays := [u], ms_TransitDays := ts, ms_DeliveryDays := [v]\<rparr>))"
    using vs(1) by (simp add: CalculateMoveDates_def start(1,5) last_day_def ts(1) ne v)
  show thesis
    by (rule that [OF eq]) (use start ts(3) vs(3) sorted in \<open>auto simp: v AddDate_def\<close>)
qed

section \<open>Properties\<close>

text \<open>C30: when working days recur, the future and the past run of move dates always return: the
  requested number of allowed days, with no allowed day left out, up to and including the last one
  found, the past run in chronological order.\<close>

theorem move_dates_consecutive:
  assumes "recurring K cal" "0 \<le> n"
  shows "(\<exists>m. CreateFutureMoveDates d n inc cal = Some (Ret (filter (\<lambda>d. inc \<or> cal d) (run_of 1 d m)))
      \<and> int (length (filter (\<lambda>d. inc \<or> cal d) (run_of 1 d m))) = n
      \<and> (0 < n \<longrightarrow> 0 < m \<and> (inc \<or> cal (AddDate d (int m - 1)))))
    \<and> (\<exists>m. CreatePastMoveDates d n inc cal = Some (Ret (filter (\<lambda>d. inc \<or> cal d) (rev (run_of (- 1) d m))))
      \<and> int (length (filter (\<lambda>d. inc \<or> cal d) (run_of (- 1) d m))) = n
      \<and> (0 < n \<longrightarrow> 0 < m \<and> (inc \<or> cal (AddDate d (1 - int m)))))"
  using create_future_total [OF assms, of d inc] create_past_total [OF assms, of d inc]
  by (metis rev_filter)

theorem move_dates_consecutive_witness:
  "\<exists>m. CreateFutureMoveDates 0 5 False weekdays = Some (Ret (filter weekdays (run_of 1 0 m)))"
  using move_dates_consecutive [OF recurring_weekdays, of 5 0 False, THEN conjunct1] by auto

text \<open>C29: the summary of a move panics exactly when the packing days are negative or the transit
  days are not positive; otherwise it returns and its days are in strict chronological order: the
  requested number of working days before the move date, one working pickup day on or after it, the
  transit days, and one working delivery day.\<close>

theorem CalculateMoveDates_ordered:
  assumes "recurring K cal"
  shows "if 0 \<le> pack \<and> 0 < transit
    then (\<exists>s. CalculateMoveDates cal s0 d pack transit = Some (Ret s)
      \<and> sorted_wrt (<) (ms_PackDays s @ ms_PickupDays s @ ms_TransitDays s @ ms_DeliveryDays s)
      \<and> int (length (ms_PackDays s)) = pack \<and> length (ms_PickupDays s) = 1
      \<and> int (length (ms_TransitDays s)) = transit \<and> length (ms_DeliveryDays s) = 1
      \<and> (\<forall>x \<in> set (ms_PackDays s) \<union> set (ms_PickupDays s) \<union> set (ms_DeliveryDays s). cal x)
      \<and> (\<forall>x \<in> set (ms_PackDays s). x < d) \<and> (\<forall>x \<in> set (ms_PickupDays s). d \<le> x))
    else CalculateMoveDates cal s0 d pack transit = Some Panic"
proof (cases "0 \<le> pack \<and> 0 < transit")
  case True
  then show ?thesis using summary_with_transit [OF assms, of pack transit s0 d] by simp metis
qed (use summary_without_transit [OF assms] in auto)

theorem CalculateMoveDates_ordered_witness:
  "\<exists>s. CalculateMoveDates weekdays (MoveDatesSummary.make 0 [] 0 [] [] 0 [] []) 0 2 3 = Some (Ret s)
    \<and> int (length (ms_PackDays s)) = 2"
  using CalculateMoveDates_ordered [OF recurring_weekdays, of 2 3 "MoveDatesSummary.make 0 [] 0 [] [] 0 [] []" 0] by auto

text \<open>The next working day and the next non-working day return when such days recur, are the
  first such day strictly after the date, and the days between two dates are exactly the allowed days
  of the half-open range, an end date that is not later being an error unless it is allowed.\<close>

theorem next_days_least:
  assumes "recurring K cal" "meets (\<lambda>d. \<not> cal d) 1"
  shows "(\<exists>k>0. NextWorkday cal d = Some (AddDate d (int k)) \<and> NextValidMoveDate d cal = Some (AddDate d (int k))
      \<and> cal (AddDate d (int k)) \<and> (\<forall>i. 0 < i \<and> i < k \<longrightarrow> \<not> cal (AddDate d (int i))))
    \<and> (\<exists>k>0. NextNonWorkday cal d = Some (AddDate d (int k))
      \<and> \<not> cal (AddDate d (int k)) \<and> (\<forall>i. 0 < i \<and> i < k \<longrightarrow> cal (AddDate d (int i))))
    \<and> (CreateValidDatesBetweenTwoDates d e inc allow cal =
        (if d < e then Ret (filter (\<lambda>d. inc \<or> cal d) (run_of 1 d (nat ((e - d + 86399) div 86400))))
         else if allow then Ret [] else Fail (ErrMsg ''End date cannot be before or equal to start date'')))"
proof -
  have m: "meets cal 1" using meets_recurring(1) [OF assms(1), of False] by simp
  obtain k where "0 < k" "NextDay cal d = Some (AddDate d (int k))" "cal (AddDate d (int k))"
    "\<And>i. 0 < i \<Longrightarrow> i < k \<Longrightarrow> \<not> cal (AddDate d (int i))" using NextDay_total [OF m, of d] by blast
  moreover obtain j where "0 < j" "NextDay (\<lambda>d. \<not> cal d) d = Some (AddDate d (int j))"
    "\<not> cal (AddDate d (int j))" "\<And>i. 0 < i \<Longrightarrow> i < j \<Longrightarrow> \<not> \<not> cal (AddDate d (int i))"
    using NextDay_total [OF assms(2), of d] by blast
  ultimately show ?thesis
    unfolding NextWorkday_def NextNonWorkday_def NextValidMoveDate_def CreateValidDatesBetweenTwoDates_def days_until_eq
    by (intro conjI exI [of _ k] exI [of _ j]) auto
qed

lemma meets_weekend: "meets (\<lambda>d. \<not> weekdays d) 1"
proof -
  have "\<exists>k. (n + int k) mod 7 \<in> {2, 3}" for n :: int
    by (rule exI [of _ "nat ((2 - n) mod 7)"]) (simp add: mod_simps)
  then have "\<exists>k. (int k + d div 86400) mod 7 \<in> {2, 3}" for d by (subst add.commute)
  then show ?thesis by (simp add: meets_def weekdays_def AddDate_def)
qed

theorem next_days_least_witness:
  "(\<exists>k>0. NextWorkday weekdays 0 = Some (AddDate 0 (int k)))
   \<and> (\<exists>k>0. NextNonWorkday weekdays 0 = Some (AddDate 0 (int k)))"
  using next_days_least [OF recurring_weekdays meets_weekend, of 0 0 True True] by blast

end
