(* ===== verification/TransitTimes.thy ===== *)
theory TransitTimes
  imports Money Errors
begin

text \<open>
  Transit and packing times (\<open>pkg/models/transit_times.go\<close>): the table of domestic transit
  times, its lookup by weight and distance, and the packing days of a weight.  The lemmas compare
  the table with a closed form over 250 mile bands and five weight columns, which shows that the
  rows leave no gap and never disagree.
\<close>

record domesticTransitTime =
  tt_Sequence :: int
  tt_LowMiles :: int
  tt_HighMiles :: int
  tt_LowWeight :: int
  tt_HighWeight :: int
  tt_TransitTime :: int

abbreviation row :: "int \<Rightarrow> int \<Rightarrow> int \<Rightarrow> int \<Rightarrow> int \<Rightarrow> int \<Rightarrow> domesticTransitTime" where
  "row s lm hm lw hw t \<equiv> \<lparr>tt_Sequence = s, tt_LowMiles = lm, tt_HighMiles = hm, tt_LowWeight = lw,
     tt_HighWeight = hw, tt_TransitTime = t\<rparr>"

definition domesticTransitTimes :: "domesticTransitTime list" where
  "domesticTransitTimes =
    [row 117 1 250 1 999 8,
     row 118 1 250 1000 1999 7,
     row 119 1 250 2000 3999 6,
     row 120 1 250 4000 7999 5,
     row 121 1 250 8000 99999 4,
     row 122 251 500 1 999 10,
     row 123 251 500 1000 1999 9,
     row 124 251 500 2000 3999 7,
     row 125 251 500 4000 7999 6,
     row 126 251 500 8000 99999 5,
     row 127 501 750 1 999 12,
     row 128 501 750 1000 1999 11,
     row 129 501 750 2000 3999 9,
     row 130 501 750 4000 7999 8,
     row 131 501 750 8000 99999 7,
     row 132 751 1000 1 999 14,
     row 133 751 1000 1000 1999 12,
     row 134 751 1000 2000 3999 10,
     row 135 751 1000 4000 7999 9,
     row 136 751 1000 8000 99999 8,
     row 80 1001 1250 1 999 15,
     row 81 1001 1250 1000 1999 13,
     row 82 1001 1250 2000 3999 11,
     row 83 1001 1250 4000 7999 10,
     row 84 1001 1250 8000 99999 9,
     row 28 1251 1500 1 999 16,
     row 29 1251 1500 1000 1999 14,
     row 30 1251 1500 2000 3999 12,
     row 31 1251 1500 4000 7999 11,
     row 32 1251 1500 8000 99999 10,
     row 33 1501 1750 1 999 17,
     row 34 1501 1750 1000 1999 15,
     row 35 1501 1750 2000 3999 13,
     row 36 1501 1750 4000 7999 12,
     row 111 1501 1750 8000 99999 11,
     row 112 1751 2000 1 999 18,
     row 113 1751 2000 1000 1999 16,
     row 114 1751 2000 2000 3999 14,
     row 115 1751 2000 4000 7999 13,
     row 116 1751 2000 8000 99999 12,
     row 12 2001 2250 1 999 19,
     row 13 2001 2250 1000 1999 17,
     row 14 2001 2250 2000 3999 15,
     row 15 2001 2250 4000 7999 14,
     row 16 2001 2250 8000 99999 13,
     row 17 2251 2500 1 999 20,
     row 18 2251 2500 1000 1999 18,
     row 19 2251 2500 2000 3999 16,
     row 20 2251 2500 4000 7999 15,
     row 21 2251 2500 8000 99999 14,
     row 22 2501 2750 1 999 21,
     row 23 2501 2750 1000 1999 19,
     row 24 2501 2750 2000 3999 17,
     row 25 2501 2750 4000 7999 16,
     row 26 2501 2750 8000 99999 15,
     row 27 2751 3000 1 999 22,
     row 37 2751 3000 1000 1999 20,
     row 77 2751 3000 2000 3999 18,
     row 78 2751 3000 4000 7999 17,
     row 79 2751 3000 8000 99999 16,
     row 58 3001 3250 1 999 23,
     row 59 3001 3250 1000 1999 21,
     row 60 3001 3250 2000 3999 19,
     row 61 3001 3250 4000 7999 18,
     row 62 3001 3250 8000 99999 17,
     row 63 3251 3500 1 999 24,
     row 64 3251 3500 1000 1999 22,
     row 65 3251 3500 2000 3999 20,
     row 66 3251 3500 4000 7999 19,
     row 67 3251 3500 8000 99999 18,
     row 2 3501 3750 1 999 25,
     row 3 3501 3750 1000 1999 23,
     row 4 3501 3750 2000 3999 21,
     row 5 3501 3750 4000 7999 20,
     row 6 3501 3750 8000 99999 19,
     row 7 3751 4000 1 999 26,
     row 8 3751 4000 1000 1999 24,
     row 9 3751 4000 2000 3999 22,
     row 10 3751 4000 4000 7999 21,
     row 11 3751 4000 8000 99999 20,
     row 38 4001 4250 1 999 27,
     row 39 4001 4250 1000 1999 25,
     row 40 4001 4250 2000 3999 23,
     row 41 4001 4250 4000 7999 22,
     row 42 4001 4250 8000 99999 21,
     row 43 4251 4500 1 999 28,
     row 44 4251 4500 1000 1999 26,
     row 45 4251 4500 2000 3999 24,
     row 46 4251 4500 4000 7999 23,
     row 47 4251 4500 8000 99999 22,
     row 48 4501 4750 1 999 29,
     row 49 4501 4750 1000 1999 27,
     row 50 4501 4750 2000 3999 25,
     row 51 4501 4750 4000 7999 24,
     row 52 4501 4750 8000 99999 23,
     row 53 4751 5000 1 999 30,
     row 54 4751 5000 1000 1999 28,
     row 55 4751 5000 2000 3999 26,
     row 56 4751 5000 4000 7999 25,
     row 57 4751 5000 8000 99999 24,
     row 139 5001 5250 1 999 31,
     row 140 5001 5250 1000 1999 29,
     row 141 5001 5250 2000 3999 27,
     row 85 5001 5250 4000 7999 26,
     row 68 5001 5250 8000 99999 25,
     row 69 5251 5500 1 999 32,
     row 70 5251 5500 1000 1999 30,
     row 71 5251 5500 2000 3999 28,
     row 72 5251 5500 4000 7999 27,
     row 137 5251 5500 8000 99999 26,
     row 138 5501 5750 1 999 33,
     row 73 5501 5750 1000 1999 31,
     row 74 5501 5750 2000 3999 29,
     row 75 5501 5750 4000 7999 28,
     row 76 5501 5750 8000 99999 27,
     row 86 5751 6000 1 999 34,
     row 87 5751 6000 1000 1999 32,
     row 88 5751 6000 2000 3999 30,
     row 89 5751 6000 4000 7999 29,
     row 90 5751 6000 8000 99999 28,
     row 95 6001 6250 1 999 35,
     row 96 6001 6250 1000 1999 33,
     row 97 6001 6250 2000 3999 31,
     row 98 6001 6250 4000 7999 30,
     row 99 6001 6250 8000 99999 29,
     row 100 6251 6500 1 999 36,
     row 101 6251 6500 1000 1999 34,
     row 91 6251 6500 2000 3999 32,
     row 92 6251 6500 4000 7999 31,
     row 93 6251 6500 8000 99999 30,
     row 94 6501 6750 1 999 37,
     row 102 6501 6750 1000 1999 35,
     row 103 6501 6750 2000 3999 33,
     row 104 6501 6750 4000 7999 32,
     row 105 6501 6750 8000 99999 31,
     row 106 6751 7000 1 999 38,
     row 107 6751 7000 1000 1999 36,
     row 108 6751 7000 2000 3999 34,
     row 109 6751 7000 4000 7999 33,
     row 110 6751 7000 8000 99999 32]"

definition tt_covers :: "int \<Rightarrow> int \<Rightarrow> domesticTransitTime \<Rightarrow> bool" where
  "tt_covers pounds miles tt \<longleftrightarrow> tt_LowWeight tt \<le> pounds \<and> tt_HighWeight tt \<ge> pounds
     \<and> tt_LowMiles tt \<le> miles \<and> tt_HighMiles tt \<ge> miles"

definition TransitDays :: "Pound \<Rightarrow> int \<Rightarrow> int result" where
  "TransitDays weight miles = (case find (tt_covers weight miles) domesticTransitTimes of
      Some tt \<Rightarrow> Ret (tt_TransitTime tt)
    | None \<Rightarrow> Fail (ErrMsg ''Could not find transit time for %d lbs and %d miles''))"

definition PoundsPackedPerDay :: int where
  "PoundsPackedPerDay = 5000"

definition PackDays :: "Pound \<Rightarrow> int" where
  "PackDays weight = go_trunc (of_int \<lceil>fl64 (fl64 (of_int weight) / fl64 (of_int PoundsPackedPerDay))\<rceil>)"

section \<open>The closed form of the table\<close>

definition weight_column :: "int \<Rightarrow> nat" where
  "weight_column w = (if w < 1000 then 0 else if w < 2000 then 1 else if w < 4000 then 2 else if w < 8000 then 3 else 4)"

definition mile_band :: "int \<Rightarrow> int" where
  "mile_band m = (m - 1) div 250"

definition band_days :: "int \<Rightarrow> nat \<Rightarrow> int" where
  "band_days b c = b + (if b = 0 then [8, 7, 6, 5, 4] else if b = 1 then [9, 8, 6, 5, 4]
     else if b = 2 then [10, 9, 7, 6, 5] else [11, 9, 7, 6, 5]) ! c"

definition row_regular :: "domesticTransitTime \<Rightarrow> bool" where
  "row_regular r \<longleftrightarrow> mile_band (tt_LowMiles r) = mile_band (tt_HighMiles r) \<and> 1 \<le> tt_LowMiles r \<and> tt_HighMiles r \<le> 7000
     \<and> weight_column (tt_LowWeight r) = weight_column (tt_HighWeight r) \<and> 1 \<le> tt_LowWeight r \<and> tt_HighWeight r \<le> 99999
     \<and> tt_TransitTime r = band_days (mile_band (tt_LowMiles r)) (weight_column (tt_LowWeight r))"

lemma rows_regular: "list_all row_regular domesticTransitTimes"
  by code_simp

definition column_low :: "nat \<Rightarrow> int" where
  "column_low c = [1, 1000, 2000, 4000, 8000] ! c"

definition column_high :: "nat \<Rightarrow> int" where
  "column_high c = [999, 1999, 3999, 7999, 99999] ! c"

lemma rows_complete:
  "list_all (\<lambda>b. list_all (\<lambda>c. list_ex (\<lambda>r. tt_LowMiles r = 250 * b + 1 \<and> tt_HighMiles r = 250 * b + 250
     \<and> tt_LowWeight r = column_low c \<and> tt_HighWeight r = column_high c) domesticTransitTimes) [0, 1, 2, 3, 4])
     [0, 1, 2, 3, 4, 5, 6, 7, 8, 9, 10, 11, 12, 13, 14, 15, 16, 17, 18, 19, 20, 21, 22, 23, 24, 25, 26, 27]"
  by code_simp

lemma covered_row:
  assumes "r \<in> set domesticTransitTimes" "tt_covers w m r"
  shows "1 \<le> w \<and> w \<le> 99999 \<and> 1 \<le> m \<and> m \<le> 7000
    \<and> tt_TransitTime r = band_days (mile_band m) (weight_column w)"
proof -
  have r: "row_regular r" using rows_regular assms(1) by (simp add: list_all_iff)
  have c: "tt_LowWeight r \<le> w" "w \<le> tt_HighWeight r" "tt_LowMiles r \<le> m" "m \<le> tt_HighMiles r"
    using assms(2) by (simp_all add: tt_covers_def)
  have "mile_band (tt_LowMiles r) \<le> mile_band m" "mile_band m \<le> mile_band (tt_HighMiles r)"
    using c by (auto simp: mile_band_def intro: zdiv_mono1)
  moreover have "weight_column (tt_LowWeight r) \<le> weight_column w" "weight_column w \<le> weight_column (tt_HighWeight r)"
    using c by (auto simp: weight_column_def)
  ultimately have "mile_band m = mile_band (tt_LowMiles r)" "weight_column w = weight_column (tt_LowWeight r)"
    using r by (auto simp: row_regular_def)
  with r c show ?thesis by (simp add: row_regular_def)
qed

lemma column_bounds:
  assumes "1 \<le> w" "w \<le> 99999"
  shows "weight_column w \<in> set [0, 1, 2, 3, 4] \<and> column_low (weight_column w) \<le> w \<and> w \<le> column_high (weight_column w)"
  using assms by (auto simp: weight_column_def column_low_def column_high_def)

lemma band_range:
  assumes "1 \<le> m" "m \<le> 7000"
  shows "0 \<le> mile_band m \<and> mile_band m \<le> 27 \<and> 250 * mile_band m + 1 \<le> m \<and> m \<le> 250 * mile_band m + 250"
  using assms by (auto simp: mile_band_def)

lemma band_listed: "0 \<le> b \<Longrightarrow> b \<le> 27 \<Longrightarrow>
  b \<in> set [0, 1, 2, 3, 4, 5, 6, 7, 8, 9, 10, 11, 12, 13, 14, 15, 16, 17, 18, 19, 20, 21, 22, 23, 24, 25, 26, 27 :: int]"
  by simp presburger

lemma row_exists:
  assumes "1 \<le> w" "w \<le> 99999" "1 \<le> m" "m \<le> 7000"
  shows "\<exists>r \<in> set domesticTransitTimes. tt_covers w m r"
proof -
  have b: "0 \<le> mile_band m" "mile_band m \<le> 27" "250 * mile_band m + 1 \<le> m" "m \<le> 250 * mile_band m + 250"
    using band_range [OF assms(3,4)] by auto
  have c: "weight_column w \<in> set [0, 1, 2, 3, 4]" "column_low (weight_column w) \<le> w" "w \<le> column_high (weight_column w)"
    using column_bounds [OF assms(1,2)] by auto
  obtain r where "r \<in> set domesticTransitTimes" "tt_LowMiles r = 250 * mile_band m + 1"
    "tt_HighMiles r = 250 * mile_band m + 250" "tt_LowWeight r = column_low (weight_column w)"
    "tt_HighWeight r = column_high (weight_column w)"
    using rows_complete [unfolded list_all_iff list_ex_iff, THEN bspec, OF band_listed [OF b(1,2)], THEN bspec, OF c(1)] by blast
  with b c show ?thesis by (intro bexI [of _ r]) (simp_all add: tt_covers_def)
qed

lemma TransitDays_eq:
  "TransitDays w m = (if 1 \<le> w \<and> w \<le> 99999 \<and> 1 \<le> m \<and> m \<le> 7000
     then Ret (band_days (mile_band m) (weight_column w))
     else Fail (ErrMsg ''Could not find transit time for %d lbs and %d miles''))"
proof (cases "find (tt_covers w m) domesticTransitTimes")
  case None
  then have "\<not> (1 \<le> w \<and> w \<le> 99999 \<and> 1 \<le> m \<and> m \<le> 7000)"
    using row_exists [of w m] by (auto simp: find_None_iff)
  with None show ?thesis unfolding TransitDays_def by (simp only: option.case if_False)
next
  case (Some r)
  then have "r \<in> set domesticTransitTimes" "tt_covers w m r" by (auto simp: find_Some_iff)
  from covered_row [OF this] Some show ?thesis by (simp add: TransitDays_def)
qed

lemma band_days_mono:
  assumes "0 \<le> b" "b \<le> b'" "c' \<le> c" "c \<le> 4"
  shows "band_days b c \<le> band_days b' c'"
proof -
  have "c \<in> {0, 1, 2, 3, 4}" "c' \<in> {0, 1, 2, 3, 4}" using assms(3,4) by auto
  then show ?thesis using assms(1-3) by (auto simp: band_days_def)
qed

lemma PackDays_ceiling:
  assumes "\<bar>w\<bar> < 2 ^ 52"
  shows "PackDays w = - ((- w) div 5000)"
proof -
  let ?x = "of_int w / of_int 5000 :: rat"
  have "\<lfloor>fl64 (of_int (- w) / of_int 5000)\<rfloor> = (- w) div 5000"
    using assms by (intro floor_fl64_div) auto
  then have c: "\<lceil>fl64 ?x\<rceil> = - ((- w) div 5000)" by (simp add: ceiling_def fl64_uminus)
  have "\<bar>- ((- w) div 5000)\<bar> < 2 ^ 63" using assms by simp
  then have "in64 (- ((- w) div 5000))" by (rule in64_abs)
  moreover have "fl64 (of_int w) = of_int w" "fl64 (of_int 5000) = of_int 5000"
    using assms by (intro fl64_of_int; simp)+
  ultimately show ?thesis
    using c unfolding PackDays_def PoundsPackedPerDay_def by (simp add: go_trunc_of_int del: of_int_minus)
qed

section \<open>Properties\<close>

text \<open>The lookup of a transit time succeeds exactly for 1 to 99999 pounds and 1 to 7000 miles, so
  the rows leave no gap, and every row that covers the weight and the distance gives the same number
  of days, so the answer does not depend on the order of the rows.\<close>

theorem TransitDays_table_consistent:
  "(is_ret (TransitDays weight miles) \<longleftrightarrow> 1 \<le> weight \<and> weight \<le> 99999 \<and> 1 \<le> miles \<and> miles \<le> 7000)
   \<and> (\<forall>r \<in> set domesticTransitTimes. tt_covers weight miles r \<longrightarrow> TransitDays weight miles = Ret (tt_TransitTime r))"
  using covered_row [of _ weight miles] by (auto simp: TransitDays_eq)

theorem TransitDays_table_consistent_witness:
  "TransitDays 500 200 = Ret 8"
proof -
  have "hd domesticTransitTimes \<in> set domesticTransitTimes" "tt_covers 500 200 (hd domesticTransitTimes)"
    by (simp_all add: domesticTransitTimes_def tt_covers_def)
  moreover have "tt_TransitTime (hd domesticTransitTimes) = 8" by (simp add: domesticTransitTimes_def)
  ultimately show ?thesis
    using TransitDays_table_consistent [of 500 200, THEN conjunct2, THEN bspec, of "hd domesticTransitTimes"] by simp
qed

text \<open>A longer distance or a lighter shipment never takes fewer days in transit, and the packing
  days are the number of 5000 pound days, rounded up, as exact arithmetic would round them.\<close>

theorem transit_and_pack_days_mono:
  assumes "TransitDays w m = Ret t" "TransitDays w' m' = Ret t'" "w' \<le> w" "m \<le> m'"
  shows "t \<le> t' \<and> PackDays w = - ((- w) div 5000) \<and> PackDays w' \<le> PackDays w"
proof -
  have r: "1 \<le> w'" "w \<le> 99999" "1 \<le> m" "t = band_days (mile_band m) (weight_column w)"
    "t' = band_days (mile_band m') (weight_column w')"
    using assms(1,2) by (auto simp: TransitDays_eq split: if_splits)
  have "0 \<le> mile_band m" "mile_band m \<le> mile_band m'"
    using r(3) assms(4) by (auto simp: mile_band_def intro: zdiv_mono1)
  moreover have "weight_column w' \<le> weight_column w" "weight_column w \<le> 4"
    using assms(3) by (auto simp: weight_column_def)
  ultimately have "t \<le> t'" by (simp add: r(4,5) band_days_mono)
  moreover have "PackDays w = - ((- w) div 5000)" "PackDays w' = - ((- w') div 5000)"
    using r(1,2) assms(3) by (intro PackDays_ceiling; simp)+
  moreover have "- ((- w') div 5000) \<le> - ((- w) div 5000)" using assms(3) by (simp add: zdiv_mono1)
  ultimately show ?thesis by simp
qed

theorem transit_and_pack_days_mono_witness: "(8::int) \<le> 22 \<and> PackDays 8000 = 2"
  using transit_and_pack_days_mono [of 8000 800 8 500 3000 22]
  by (simp add: TransitDays_eq band_days_def mile_band_def weight_column_def)

end
