(* ===== verification/ShipmentDates.thy ===== *)
theory ShipmentDates
  imports Lifecycle Dates TransitTimes Entitlements
begin

text \<open>
  The dates of a shipment (\<open>pkg/handlers/internalapi/move_dates.go\<close> and \<open>shipments.go\<close>): the summary of a move that
  is planned for a date, what a new pickup date writes into the shipment, and the summary shown of a stored shipment.
  The main result is that the shipment shows the summary it was planned with as long as nothing was surveyed and nothing
  has happened, but for the days between transit and delivery on which no one works.
\<close>

section \<open>The summary of a move\<close>

text \<open>What \<open>FetchMoveForMoveDates\<close> loads; an address that is not set is the zero value.\<close>

record move_plan =
  mp_Rank :: "ServiceMemberRank option"
  mp_DutyStationAddress :: Address
  mp_NewDutyStationAddress :: Address
  mp_HasDependents :: bool
  mp_SpouseHasProGear :: bool
  mp_ReportByDate :: gotime

definition empty_summary :: MoveDatesSummary where
  "empty_summary = \<lparr>ms_MoveDate = zero_time, ms_PackDays = [], ms_EstimatedPackDays = 0, ms_PickupDays = [], ms_TransitDays = [],
     ms_EstimatedTransitDays = 0, ms_DeliveryDays = [], ms_ReportDays = []\<rparr>"

definition planned_days :: "(Address \<Rightarrow> Address \<Rightarrow> int result) \<Rightarrow> move_plan result \<Rightarrow> (move_plan \<times> int \<times> int) result" where
  "planned_days planner fetched = obind fetched (\<lambda>move.
     if mp_DutyStationAddress move = zero_address then Fail (ErrMsg ''DutyStation must have an address'')
     else if mp_NewDutyStationAddress move = zero_address then Fail (ErrMsg ''NewDutyStation must have an address'')
     else obind (planner (mp_DutyStationAddress move) (mp_NewDutyStationAddress move)) (\<lambda>transitDistance.
       obind (deref (mp_Rank move)) (\<lambda>rank.
       obind (GetEntitlement rank (mp_HasDependents move) (mp_SpouseHasProGear move)) (\<lambda>entitlement.
       obind (TransitDays entitlement transitDistance) (\<lambda>estimatedTransitDays.
       Ret (move, PackDays entitlement, estimatedTransitDays))))))"

definition calculateMoveDatesFromMove ::
    "calendar \<Rightarrow> (Address \<Rightarrow> Address \<Rightarrow> int result) \<Rightarrow> move_plan result \<Rightarrow> gotime \<Rightarrow> MoveDatesSummary result option" where
  "calculateMoveDatesFromMove usCalendar planner fetched moveDate =
     then_run (Some (planned_days planner fetched)) (\<lambda>(move, packDays, transitDays).
     then_run (CalculateMoveDates usCalendar empty_summary moveDate packDays transitDays) (\<lambda>summary.
     Some (Ret (summary\<lparr>ms_ReportDays := [mp_ReportByDate move]\<rparr>))))"

text \<open>Indexing a slice at its first element.\<close>

definition first_day :: "gotime list \<Rightarrow> gotime result" where
  "first_day ds = (case ds of [] \<Rightarrow> Panic | d # _ \<Rightarrow> Ret d)"

text \<open>An error of the summary leaves the shipment as it is, without an error.\<close>

definition updateShipmentDatesWithPayload ::
    "calendar \<Rightarrow> (Address \<Rightarrow> Address \<Rightarrow> int result) \<Rightarrow> move_plan result \<Rightarrow> gotime option \<Rightarrow> Shipment \<Rightarrow> Shipment result option" where
  "updateShipmentDatesWithPayload usCalendar planner fetched requestedPickupDate s =
     (case requestedPickupDate of
        None \<Rightarrow> Some (Ret s)
      | Some moveDate \<Rightarrow> Option.bind (calculateMoveDatesFromMove usCalendar planner fetched moveDate) (\<lambda>r. Some (case r of
            Fail _ \<Rightarrow> Ret s
          | Panic \<Rightarrow> Panic
          | Ret summary \<Rightarrow>
              obind (first_day (ms_DeliveryDays summary)) (\<lambda>deliveryDate.
              obind (first_day (ms_PackDays summary)) (\<lambda>packDate.
              Ret (s\<lparr>shp_EstimatedPackDays := Some (int (length (ms_PackDays summary))),
                shp_EstimatedTransitDays := Some (int (length (ms_TransitDays summary))),
                shp_OriginalDeliveryDate := Some deliveryDate, shp_OriginalPackDate := Some packDate\<rparr>))))))"

section \<open>The summary of a shipment\<close>

definition most_current_pack_date :: "calendar \<Rightarrow> Shipment \<Rightarrow> gotime \<Rightarrow> int \<Rightarrow> gotime result option" where
  "most_current_pack_date usCalendar s requested packDays =
     (case (shp_ActualPackDate s, shp_PmSurveyPlannedPackDate s, shp_OriginalPackDate s) of
        (Some d, _, _) \<Rightarrow> Some (Ret d)
      | (None, Some d, _) \<Rightarrow> Some (Ret d)
      | (None, None, Some d) \<Rightarrow> Some (Ret d)
      | _ \<Rightarrow> then_run (CreatePastMoveDates (AddDate requested (- 1)) packDays False usCalendar) (\<lambda>ds. Some (first_day ds)))"

definition most_current_pickup_date :: "Shipment \<Rightarrow> gotime \<Rightarrow> gotime" where
  "most_current_pickup_date s requested =
     (case (shp_ActualPickupDate s, shp_PmSurveyPlannedPickupDate s) of
        (Some d, _) \<Rightarrow> d | (None, Some d) \<Rightarrow> d | _ \<Rightarrow> requested)"

definition most_current_delivery_date :: "calendar \<Rightarrow> Shipment \<Rightarrow> gotime \<Rightarrow> int \<Rightarrow> gotime result option" where
  "most_current_delivery_date usCalendar s requested transitDays =
     (case (shp_ActualDeliveryDate s, shp_PmSurveyPlannedDeliveryDate s, shp_OriginalDeliveryDate s) of
        (Some d, _, _) \<Rightarrow> Some (Ret d)
      | (None, Some d, _) \<Rightarrow> Some (Ret d)
      | (None, None, Some d) \<Rightarrow> Some (Ret d)
      | _ \<Rightarrow> then_run (CreateFutureMoveDates requested transitDays True usCalendar) (\<lambda>estimatedTransitDates.
             then_run (Some (last_day estimatedTransitDates)) (\<lambda>lastDate.
             then_run (CreateFutureMoveDates (AddDate lastDate 1) 1 False usCalendar) (\<lambda>ds. Some (first_day ds)))))"

definition calculateMoveDatesFromShipment :: "calendar \<Rightarrow> Shipment \<Rightarrow> MoveDatesSummary result option" where
  "calculateMoveDatesFromShipment usCalendar s =
     (case (shp_EstimatedPackDays s, shp_RequestedPickupDate s, shp_EstimatedTransitDays s) of
        (None, _, _) \<Rightarrow> Some (Fail (ErrMsg ''Shipment must have EstimatedPackDays''))
      | (_, None, _) \<Rightarrow> Some (Fail (ErrMsg ''Shipment must have a RequestedPickupDate''))
      | (_, _, None) \<Rightarrow> Some (Fail (ErrMsg ''Shipment must have EstimatedTransitDays''))
      | (Some packDays, Some requested, Some transitDays) \<Rightarrow>
          then_run (most_current_pack_date usCalendar s requested packDays) (\<lambda>packDate.
          let pickupDate = most_current_pickup_date s requested in
          then_run (most_current_delivery_date usCalendar s requested transitDays) (\<lambda>deliveryDate.
          then_run (Some (CreateValidDatesBetweenTwoDates packDate pickupDate False True usCalendar)) (\<lambda>packDates.
          then_run (CreateFutureMoveDates pickupDate 1 False usCalendar) (\<lambda>pickupDates.
          then_run (Some (last_day pickupDates)) (\<lambda>lastPickup.
          then_run (Some (CreateValidDatesBetweenTwoDates (AddDate lastPickup 1) deliveryDate True True usCalendar)) (\<lambda>transitDates.
          then_run (CreateFutureMoveDates deliveryDate 1 False usCalendar) (\<lambda>deliveryDates.
          Some (Ret \<lparr>ms_MoveDate = pickupDate, ms_PackDays = packDates, ms_EstimatedPackDays = packDays, ms_PickupDays = pickupDates,
            ms_TransitDays = transitDates, ms_EstimatedTransitDays = transitDays, ms_DeliveryDays = deliveryDates,
            ms_ReportDays = []\<rparr>)))))))))"

section \<open>Runs of days\<close>

lemma rev_run_of: "rev (run_of (- 1) (AddDate d (- 1)) m) = run_of 1 (AddDate d (- int m)) m"
  by (rule nth_equalityI) (auto simp: run_of_def AddDate_def rev_nth algebra_simps of_nat_diff)

lemma then_run_eq: "then_run m k = Some (Ret y) \<longleftrightarrow> (\<exists>x. m = Some (Ret x) \<and> k x = Some (Ret y))"
proof (cases m)
  case (Some r)
  then show ?thesis by (cases r) (auto simp: then_run_def)
qed (simp add: then_run_def)

lemma AddDate_AddDate: "AddDate (AddDate d i) j = AddDate d (i + j)"
  by (simp add: AddDate_def algebra_simps)

lemma between_days: "CreateValidDatesBetweenTwoDates d (AddDate d (int n)) inc True cal = Ret (filter (\<lambda>x. inc \<or> cal x) (run_of 1 d n))"
proof (cases n)
  case (Suc k)
  have "(AddDate d (int n) - d + 86399) div 86400 = int n" by (simp add: AddDate_def)
  moreover have "d < AddDate d (int n)" using Suc by (simp add: AddDate_def)
  ultimately show ?thesis by (simp add: CreateValidDatesBetweenTwoDates_def days_until_eq)
qed (simp add: CreateValidDatesBetweenTwoDates_def AddDate_def)

text \<open>The first working day on or after a day, as a run of one.\<close>

lemma one_future:
  assumes "recurring K cal"
  obtains j where "CreateFutureMoveDates d 1 False cal = Some (Ret [AddDate d (int j)])" "cal (AddDate d (int j))"
    "\<forall>x \<in> set (run_of 1 d j). \<not> cal x"
proof -
  obtain m where m: "CreateFutureMoveDates d 1 False cal = Some (Ret (filter cal (run_of 1 d m)))"
    "int (length (filter cal (run_of 1 d m))) = 1" "0 < m \<and> cal (AddDate d (int m - 1))"
    using create_future_total [OF assms, of 1 d False] by auto
  then obtain j where j: "m = j + 1" by (metis Suc_eq_plus1 gr0_implies_Suc)
  have split: "filter cal (run_of 1 d m) = filter cal (run_of 1 d j) @ [AddDate d (int j)]"
    using m(3) unfolding j run_of_add by (simp add: run_of_def AddDate_def)
  with m(2) have none: "filter cal (run_of 1 d j) = []" by simp
  show thesis
    by (rule that [of j]) (use m(1,3) none split in \<open>auto simp: j filter_empty_conv\<close>)
qed

lemma future_working: "cal d \<Longrightarrow> CreateFutureMoveDates d 1 False cal = Some (Ret [d])"
  by (simp add: CreateFutureMoveDates_def walk_days.simps [of _ _ "Suc 0"] walk_days.simps [of _ _ 0])

lemma future_all: "0 \<le> n \<Longrightarrow> CreateFutureMoveDates d n True cal = Some (Ret (run_of 1 d (nat n)))"
proof -
  have "walk_days (\<lambda>d. True) 1 k d = Some (run_of 1 d k)" for k d
    by (induction k arbitrary: d) (simp_all add: walk_days.simps [of _ _ "Suc _"] walk_days.simps [of _ _ 0] run_of_Suc)
  then show "0 \<le> n \<Longrightarrow> ?thesis" by (simp add: CreateFutureMoveDates_def)
qed

lemma past_days:
  assumes "recurring K cal" "0 < n"
  obtains m where "CreatePastMoveDates (AddDate d (- 1)) n False cal = Some (Ret (filter cal (run_of 1 (AddDate d (- int m)) m)))"
    "0 < m" "cal (AddDate d (- int m))" "int (length (filter cal (run_of 1 (AddDate d (- int m)) m))) = n"
proof -
  obtain m where m: "CreatePastMoveDates (AddDate d (- 1)) n False cal = Some (Ret (rev (filter cal (run_of (- 1) (AddDate d (- 1)) m))))"
    "int (length (filter cal (run_of (- 1) (AddDate d (- 1)) m))) = n" "0 < m \<and> cal (AddDate (AddDate d (- 1)) (1 - int m))"
    using create_past_total [OF assms(1), of n "AddDate d (- 1)" False] assms(2) by auto
  have e: "rev (filter cal (run_of (- 1) (AddDate d (- 1)) m)) = filter cal (run_of 1 (AddDate d (- int m)) m)"
    by (simp only: rev_filter rev_run_of)
  show thesis
    by (rule that [of m]) (use m e [symmetric] in \<open>auto simp: AddDate_AddDate\<close>)
qed

section \<open>The summary is kept\<close>

definition undisturbed :: "Shipment \<Rightarrow> bool" where
  "undisturbed s \<longleftrightarrow> shp_ActualPackDate s = None \<and> shp_PmSurveyPlannedPackDate s = None \<and> shp_ActualPickupDate s = None
     \<and> shp_PmSurveyPlannedPickupDate s = None \<and> shp_ActualDeliveryDate s = None \<and> shp_PmSurveyPlannedDeliveryDate s = None"

lemma CalculateMoveDates_eq:
  assumes "recurring K cal" "0 < pack" "0 < transit"
  obtains m j i where "0 < m" "cal (AddDate d (- int m))" "cal (AddDate d (int j))"
    "cal (AddDate (AddDate d (int j)) (transit + 1 + int i))"
    "\<forall>x \<in> set (run_of 1 (AddDate (AddDate d (int j)) (transit + 1)) i). \<not> cal x"
    "CreateFutureMoveDates d 1 False cal = Some (Ret [AddDate d (int j)])"
    "CalculateMoveDates cal s0 d pack transit = Some (Ret (s0\<lparr>ms_MoveDate := d, ms_EstimatedPackDays := pack,
       ms_EstimatedTransitDays := transit, ms_PackDays := filter cal (run_of 1 (AddDate d (- int m)) m),
       ms_PickupDays := [AddDate d (int j)], ms_TransitDays := run_of 1 (AddDate (AddDate d (int j)) 1) (nat transit),
       ms_DeliveryDays := [AddDate (AddDate d (int j)) (transit + 1 + int i)]\<rparr>))"
proof -
  obtain m where m: "CreatePastMoveDates (AddDate d (- 1)) pack False cal = Some (Ret (filter cal (run_of 1 (AddDate d (- int m)) m)))"
    "0 < m" "cal (AddDate d (- int m))" using past_days [OF assms(1,2), of d] by metis
  obtain j where j: "CreateFutureMoveDates d 1 False cal = Some (Ret [AddDate d (int j)])" "cal (AddDate d (int j))"
    using one_future [OF assms(1), of d] by metis
  define u where "u = AddDate d (int j)"
  have ts: "CreateFutureMoveDates (AddDate u 1) transit True cal = Some (Ret (run_of 1 (AddDate u 1) (nat transit)))"
    using assms(3) by (intro future_all) simp
  have "last_day (run_of 1 (AddDate u 1) (nat transit)) = Ret (AddDate u transit)"
    using assms(3) by (simp add: last_day_def run_of_def last_map AddDate_def)
  moreover obtain i where i: "CreateFutureMoveDates (AddDate u (transit + 1)) 1 False cal = Some (Ret [AddDate (AddDate u (transit + 1)) (int i)])"
    "cal (AddDate (AddDate u (transit + 1)) (int i))" "\<forall>x \<in> set (run_of 1 (AddDate u (transit + 1)) i). \<not> cal x"
    using one_future [OF assms(1), of "AddDate u (transit + 1)"] by metis
  ultimately have "CalculateMoveDates cal s0 d pack transit = Some (Ret (s0\<lparr>ms_MoveDate := d, ms_EstimatedPackDays := pack,
       ms_EstimatedTransitDays := transit, ms_PackDays := filter cal (run_of 1 (AddDate d (- int m)) m),
       ms_PickupDays := [u], ms_TransitDays := run_of 1 (AddDate u 1) (nat transit),
       ms_DeliveryDays := [AddDate u (transit + 1 + int i)]\<rparr>))"
    using m(1) j(1) ts by (simp add: CalculateMoveDates_def last_day_def AddDate_AddDate flip: u_def)
  with m j i show thesis by (intro that [of m j i]) (simp_all add: u_def AddDate_AddDate add.assoc)
qed

lemma summary_positive:
  assumes "recurring K cal" "CalculateMoveDates cal s0 d pack transit = Some (Ret r)"
  shows "0 < transit"
  using summary_without_transit [OF assms(1), of pack transit s0 d] assms(2) by fastforce

text \<open>An entitlement is positive, so there is a day of packing.\<close>

lemma planned_days_positive:
  assumes "planned_days planner fetched = Ret (move, pack, transit)"
  shows "0 < pack"
proof -
  from assms obtain rank w where w: "GetEntitlement rank (mp_HasDependents move) (mp_SpouseHasProGear move) = Ret w" "pack = PackDays w"
    by (auto simp: planned_days_def outcome_simps split: if_splits)
  with GetEntitlement_bounds [where rank = rank and dep = "mp_HasDependents move" and spouse = "mp_SpouseHasProGear move"]
  have b: "0 < w" "w \<le> 20500" by simp_all
  then have "PackDays w = - ((- w) div 5000)" by (intro PackDays_ceiling) simp
  moreover have "(- w) div 5000 < 0" using b(1) by (simp add: neg_imp_zdiv_neg_iff)
  ultimately show ?thesis using w(2) by simp
qed

text \<open>The summary of a stored shipment with the days of a plan.\<close>

lemma shipment_summary:
  assumes cal: "cal (AddDate d (- int m))" "0 < m" "cal (AddDate u (transit + 1 + int i))" "0 < transit"
    and pickup: "CreateFutureMoveDates d 1 False cal = Some (Ret [u])"
    and t: "undisturbed t" "shp_RequestedPickupDate t = Some d" "shp_EstimatedPackDays t = Some pack"
      "shp_EstimatedTransitDays t = Some days" "shp_OriginalPackDate t = Some (AddDate d (- int m))"
      "shp_OriginalDeliveryDate t = Some (AddDate u (transit + 1 + int i))"
  shows "\<exists>shown. calculateMoveDatesFromShipment cal t = Some (Ret shown) \<and> ms_MoveDate shown = d
    \<and> ms_PackDays shown = filter cal (run_of 1 (AddDate d (- int m)) m) \<and> ms_PickupDays shown = [u]
    \<and> ms_TransitDays shown = run_of 1 (AddDate u 1) (nat transit) @ run_of 1 (AddDate u (transit + 1)) i
    \<and> ms_DeliveryDays shown = [AddDate u (transit + 1 + int i)]"
proof -
  have "CreateValidDatesBetweenTwoDates (AddDate d (- int m)) (AddDate (AddDate d (- int m)) (int m)) False True cal
      = Ret (filter cal (run_of 1 (AddDate d (- int m)) m))" by (simp only: between_days simp_thms)
  then have p: "CreateValidDatesBetweenTwoDates (AddDate d (- int m)) d False True cal = Ret (filter cal (run_of 1 (AddDate d (- int m)) m))"
    by (simp add: AddDate_def)
  have e: "AddDate (AddDate u 1) (int (nat transit + i)) = AddDate u (transit + 1 + int i)"
    "run_of 1 (AddDate u 1) (nat transit + i) = run_of 1 (AddDate u 1) (nat transit) @ run_of 1 (AddDate u (transit + 1)) i"
    using cal(4) by (simp add: AddDate_def) (simp add: run_of_add AddDate_AddDate add.commute [of 1] cal(4) less_imp_le)
  have "CreateValidDatesBetweenTwoDates (AddDate u 1) (AddDate (AddDate u 1) (int (nat transit + i))) True True cal
      = Ret (run_of 1 (AddDate u 1) (nat transit + i))" by (subst between_days) simp
  then have q: "CreateValidDatesBetweenTwoDates (AddDate u 1) (AddDate u (transit + 1 + int i)) True True cal
      = Ret (run_of 1 (AddDate u 1) (nat transit) @ run_of 1 (AddDate u (transit + 1)) i)"
    by (simp only: e)
  note t' = t(1) [unfolded undisturbed_def]
  show ?thesis
    using t' t(2-6) pickup p q future_working [of cal "AddDate u (transit + 1 + int i)", OF cal(3)]
    by (simp add: calculateMoveDatesFromShipment_def most_current_pack_date_def most_current_pickup_date_def
        most_current_delivery_date_def last_day_def)
qed

text \<open>C20: a shipment shows the dates it was planned with: once a pickup date has set its days, and while nothing was
  surveyed, packed, picked up or delivered, the summary computed from the stored shipment has the packing, pickup and
  delivery days of the summary of the move, and the same transit days followed by days on which no one works.\<close>

theorem planned_summary_shown:
  assumes cal: "recurring K cal"
    and summary: "calculateMoveDatesFromMove cal planner fetched d = Some (Ret planned)"
    and s: "shp_RequestedPickupDate s = Some d" "undisturbed s"
  shows "\<exists>t shown idle. updateShipmentDatesWithPayload cal planner fetched (Some d) s = Some (Ret t)
    \<and> calculateMoveDatesFromShipment cal t = Some (Ret shown)
    \<and> ms_MoveDate shown = ms_MoveDate planned \<and> ms_PackDays shown = ms_PackDays planned
    \<and> ms_PickupDays shown = ms_PickupDays planned \<and> ms_DeliveryDays shown = ms_DeliveryDays planned
    \<and> ms_TransitDays shown = ms_TransitDays planned @ idle \<and> (\<forall>x \<in> set idle. \<not> cal x)"
proof -
  from summary obtain move pack transit S0 where p: "planned_days planner fetched = Ret (move, pack, transit)"
    and c: "CalculateMoveDates cal empty_summary d pack transit = Some (Ret S0)" and planned: "planned = S0\<lparr>ms_ReportDays := [mp_ReportByDate move]\<rparr>"
    by (auto simp: calculateMoveDatesFromMove_def then_run_eq)
  have pos: "0 < pack" "0 < transit" using planned_days_positive [OF p] summary_positive [OF cal c] by auto
  obtain m j i where m: "0 < m" "cal (AddDate d (- int m))" and i: "cal (AddDate (AddDate d (int j)) (transit + 1 + int i))"
    and idle: "\<forall>x \<in> set (run_of 1 (AddDate (AddDate d (int j)) (transit + 1)) i). \<not> cal x"
    and pickup: "CreateFutureMoveDates d 1 False cal = Some (Ret [AddDate d (int j)])"
    and eq: "CalculateMoveDates cal empty_summary d pack transit = Some (Ret (empty_summary\<lparr>ms_MoveDate := d, ms_EstimatedPackDays := pack,
       ms_EstimatedTransitDays := transit, ms_PackDays := filter cal (run_of 1 (AddDate d (- int m)) m),
       ms_PickupDays := [AddDate d (int j)], ms_TransitDays := run_of 1 (AddDate (AddDate d (int j)) 1) (nat transit),
       ms_DeliveryDays := [AddDate (AddDate d (int j)) (transit + 1 + int i)]\<rparr>))"
    using CalculateMoveDates_eq [OF cal pos, of d empty_summary] by metis
  define u where "u = AddDate d (int j)"
  have S0: "S0 = empty_summary\<lparr>ms_MoveDate := d, ms_EstimatedPackDays := pack,
       ms_EstimatedTransitDays := transit, ms_PackDays := filter cal (run_of 1 (AddDate d (- int m)) m),
       ms_PickupDays := [u], ms_TransitDays := run_of 1 (AddDate u 1) (nat transit),
       ms_DeliveryDays := [AddDate u (transit + 1 + int i)]\<rparr>"
    using c eq by (simp add: u_def)
  have days: "ms_MoveDate planned = d" "ms_PackDays planned = filter cal (run_of 1 (AddDate d (- int m)) m)" "ms_PickupDays planned = [u]"
    "ms_TransitDays planned = run_of 1 (AddDate u 1) (nat transit)" "ms_DeliveryDays planned = [AddDate u (transit + 1 + int i)]"
    by (simp_all add: planned S0)
  obtain k where k: "m = Suc k" using m(1) by (cases m) auto
  have first: "first_day (ms_PackDays planned) = Ret (AddDate d (- int m))"
    using m(2) by (simp add: days first_day_def k run_of_Suc)
  define t where "t = s\<lparr>shp_EstimatedPackDays := Some (int (length (ms_PackDays planned))),
     shp_EstimatedTransitDays := Some (int (length (ms_TransitDays planned))),
     shp_OriginalDeliveryDate := Some (AddDate u (transit + 1 + int i)), shp_OriginalPackDate := Some (AddDate d (- int m))\<rparr>"
  have t: "updateShipmentDatesWithPayload cal planner fetched (Some d) s = Some (Ret t)"
    using summary first by (simp add: updateShipmentDatesWithPayload_def days(5) first_day_def t_def)
  obtain shown where "calculateMoveDatesFromShipment cal t = Some (Ret shown)" "ms_MoveDate shown = d"
    "ms_PackDays shown = filter cal (run_of 1 (AddDate d (- int m)) m)" "ms_PickupDays shown = [u]"
    "ms_TransitDays shown = run_of 1 (AddDate u 1) (nat transit) @ run_of 1 (AddDate u (transit + 1)) i"
    "ms_DeliveryDays shown = [AddDate u (transit + 1 + int i)]"
    using shipment_summary [OF m(2,1) i pos(2) pickup, of t] s by (auto simp: t_def undisturbed_def u_def)
  with t days idle show ?thesis
    by (intro exI [of _ t] exI [of _ shown] exI [of _ "run_of 1 (AddDate u (transit + 1)) i"]) (simp add: u_def)
qed

text \<open>A move planned for Monday, the 5th of January 1970, by a recruit's family over 100 miles.\<close>

definition sample_plan :: move_plan where
  "sample_plan = \<lparr>mp_Rank = Some RankE1, mp_DutyStationAddress = zero_address\<lparr>ad_City := ''A''\<rparr>,
     mp_NewDutyStationAddress = zero_address\<lparr>ad_City := ''B''\<rparr>, mp_HasDependents = True, mp_SpouseHasProGear = False, mp_ReportByDate = 0\<rparr>"

definition sample_monday :: gotime where
  "sample_monday = 4 * 86400"

theorem planned_summary_shown_witness:
  "\<exists>planned t shown idle. calculateMoveDatesFromMove weekdays (\<lambda>_ _. Ret 100) (Ret sample_plan) sample_monday = Some (Ret planned)
    \<and> updateShipmentDatesWithPayload weekdays (\<lambda>_ _. Ret 100) (Ret sample_plan) (Some sample_monday)
        (sample_shipment\<lparr>shp_RequestedPickupDate := Some sample_monday\<rparr>) = Some (Ret t)
    \<and> calculateMoveDatesFromShipment weekdays t = Some (Ret shown) \<and> ms_PackDays shown = ms_PackDays planned
    \<and> ms_TransitDays shown = ms_TransitDays planned @ idle"
proof -
  have "GetEntitlement RankE1 True False = Ret 10000" by code_simp
  moreover have "TransitDays 10000 100 = Ret (band_days 0 4)"
    by (simp add: TransitDays_eq mile_band_def weight_column_def)
  moreover have "PackDays 10000 = 2" using PackDays_ceiling [of 10000] by simp
  ultimately have "\<exists>pack transit. planned_days (\<lambda>_ _. Ret 100) (Ret sample_plan) = Ret (sample_plan, pack, transit) \<and> 0 \<le> pack \<and> 0 < transit"
    by (simp add: planned_days_def sample_plan_def zero_address_def band_days_def)
  then obtain pack transit where p: "planned_days (\<lambda>_ _. Ret 100) (Ret sample_plan) = Ret (sample_plan, pack, transit)" "0 \<le> pack" "0 < transit"
    by blast
  obtain r where "CalculateMoveDates weekdays empty_summary sample_monday pack transit = Some (Ret r)"
    using summary_with_transit [OF recurring_weekdays p(2,3)] by metis
  then have c: "calculateMoveDatesFromMove weekdays (\<lambda>_ _. Ret 100) (Ret sample_plan) sample_monday
      = Some (Ret (r\<lparr>ms_ReportDays := [0]\<rparr>))"
    by (simp add: calculateMoveDatesFromMove_def p(1)) (simp add: sample_plan_def)
  have "undisturbed (sample_shipment\<lparr>shp_RequestedPickupDate := Some sample_monday\<rparr>)"
    by (simp add: undisturbed_def sample_shipment_def Shipment.defs)
  with planned_summary_shown [OF recurring_weekdays c, of "sample_shipment\<lparr>shp_RequestedPickupDate := Some sample_monday\<rparr>"] c
  show ?thesis by auto
qed

end
