(* ===== verification/DeliveryFrame.thy ===== *)
theory DeliveryFrame
  imports Pricing
begin

text \<open>
  Delivering and pricing a shipment (\<open>pkg/services/shipment\<close>) touches the rows of that shipment only: every
  save of the run either appends a row of the shipment or replaces one.
\<close>

text \<open>The rows that are not of shipment \<open>i\<close>: of the shipments, the line items and the storage in transits.\<close>

definition same_elsewhere :: "uuid \<Rightarrow> li_world \<Rightarrow> li_world \<Rightarrow> bool" where
  "same_elsewhere i w w' \<longleftrightarrow> filter (\<lambda>s. shp_ID s \<noteq> i) (lw_shipments w') = filter (\<lambda>s. shp_ID s \<noteq> i) (lw_shipments w)
     \<and> filter (\<lambda>r. li_ShipmentID r \<noteq> i) (lw_line_items w') = filter (\<lambda>r. li_ShipmentID r \<noteq> i) (lw_line_items w)
     \<and> filter (\<lambda>r. si_ShipmentID r \<noteq> i) (lw_sits w') = filter (\<lambda>r. si_ShipmentID r \<noteq> i) (lw_sits w)"

lemma same_elsewhere_refl [simp]: "same_elsewhere i w w"
  by (simp add: same_elsewhere_def)

lemma same_elsewhere_trans: "same_elsewhere i w v \<Longrightarrow> same_elsewhere i v u \<Longrightarrow> same_elsewhere i w u"
  by (simp add: same_elsewhere_def)

text \<open>Replacing rows that are not looked at leaves the others.\<close>

lemma filter_map_same: "(\<And>r. r \<in> set rows \<Longrightarrow> f r = r \<or> \<not> P r \<and> \<not> P (f r)) \<Longrightarrow> filter P (map f rows) = filter P rows"
  by (induction rows) fastforce+

section \<open>The saves\<close>

lemma save_shipment_elsewhere: "save_shipment w s = (w', s', ve, err) \<Longrightarrow> same_elsewhere (shp_ID s) w w'"
  by (auto simp: save_shipment_def same_elsewhere_def intro!: filter_map_same split: if_splits)

lemma save_distance_elsewhere: "save_distance w d = (w', d', ve, err) \<Longrightarrow> same_elsewhere i w w'"
  by (auto simp: save_distance_def same_elsewhere_def Let_def split: if_splits)

lemma create_elsewhere: "create_line_item w g = (w', g', ve, err) \<Longrightarrow> same_elsewhere (li_ShipmentID g) w w' \<and> li_ShipmentID g' = li_ShipmentID g"
  by (auto simp: create_line_item_def same_elsewhere_def Let_def split: if_splits)

text \<open>The rows a list of SITs stands for all belong to the shipment.\<close>

definition own_sits :: "uuid \<Rightarrow> StorageInTransit list \<Rightarrow> StorageInTransit list \<Rightarrow> bool" where
  "own_sits i rows sits \<longleftrightarrow> list_all (\<lambda>sit. si_ShipmentID sit = i
     \<and> list_all (\<lambda>r. si_ID r = si_ID sit \<longrightarrow> si_ShipmentID r = i) rows) sits"

lemma put_sits_elsewhere:
  "own_sits i rows sits \<Longrightarrow>
     filter (\<lambda>r. si_ShipmentID r \<noteq> i) (foldl (\<lambda>rows sit. put_sit sit rows) rows sits) = filter (\<lambda>r. si_ShipmentID r \<noteq> i) rows"
proof (induction sits arbitrary: rows)
  case (Cons sit sits)
  have "own_sits i (put_sit sit rows) sits" using Cons.prems by (auto simp: own_sits_def put_sit_def list_all_iff)
  moreover have "filter (\<lambda>r. si_ShipmentID r \<noteq> i) (put_sit sit rows) = filter (\<lambda>r. si_ShipmentID r \<noteq> i) rows"
    unfolding put_sit_def by (rule filter_map_same) (use Cons.prems in \<open>auto simp: own_sits_def list_all_iff\<close>)
  ultimately show ?case using Cons.IH by simp
qed simp

lemma save_sits_elsewhere: "save_sits sits w = (w', ve, err) \<Longrightarrow> own_sits i (lw_sits w) sits \<Longrightarrow> same_elsewhere i w w'"
  by (auto simp: save_sits_def same_elsewhere_def put_sits_elsewhere split: if_splits)

lemma delivered_own_sits:
  assumes "distinct (map si_ID rows)"
  shows "own_sits i rows (map (delivered_sit t) (FetchStorageInTransitsOnShipment rows i))"
  using assms
  by (auto simp: own_sits_def list_all_iff FetchStorageInTransitsOnShipment_def delivered_sit_def distinct_map inj_on_def)

section \<open>The line items of storage in transit\<close>

lemma createShipmentLineItem_elsewhere:
  assumes "createShipmentLineItem s sit miles now code w = (w', Ret g)"
  shows "same_elsewhere (shp_ID s) w w' \<and> li_ShipmentID g = shp_ID s"
proof -
  obtain it where run: "saveLineItem (sit_line_item s sit miles now it) w = (w', Ret g)"
    using assms by (auto simp: createShipmentLineItem_def run_simps)
  obtain v g' ve err where c: "create_line_item w (sit_line_item s sit miles now it) = (v, g', ve, err)" by (metis prod_cases4)
  have "w' = v" "g = g'" using run c by (auto simp: saveLineItem_def errors_Wrap_def split: if_splits option.splits)
  then show ?thesis using create_elsewhere [OF c] by (simp add: sit_line_item_def)
qed

lemma run_all_elsewhere:
  "run_all (\<lambda>code. wrap_run (m code) (createShipmentLineItem s sit miles now code)) codes w = (w', Ret gs) \<Longrightarrow>
     same_elsewhere (shp_ID s) w w' \<and> list_all (\<lambda>g. li_ShipmentID g = shp_ID s) gs"
proof (induction codes arbitrary: w gs)
  case (Cons code codes)
  then obtain v g hs where "createShipmentLineItem s sit miles now code w = (v, Ret g)" "gs = g # hs"
    "run_all (\<lambda>code. wrap_run (m code) (createShipmentLineItem s sit miles now code)) codes v = (w', Ret hs)"
    by (auto simp: run_simps)
  with createShipmentLineItem_elsewhere Cons.IH show ?case by (fastforce intro: same_elsewhere_trans)
qed (simp add: calc_eq)

lemma save_sit_distance_elsewhere: "save_sit_distance d w = (w', r) \<Longrightarrow> same_elsewhere i w w'"
  by (auto simp: save_sit_distance_def split: prod.splits if_splits dest: save_distance_elsewhere)

lemma sit_distance_elsewhere: "storageInTransitDistance planner sit s w = (w', Ret d) \<Longrightarrow> same_elsewhere i w w'"
  by (auto simp: storageInTransitDistance_def run_simps split: if_splits dest: save_sit_distance_elsewhere)

lemma sit_loop_elsewhere:
  "sit_items_loop planner s now sits w = (w', Ret r) \<Longrightarrow>
     same_elsewhere (shp_ID s) w w' \<and> (case r of None \<Rightarrow> True | Some gs \<Rightarrow> list_all (\<lambda>g. li_ShipmentID g = shp_ID s) gs)"
proof (induction sits arbitrary: w r)
  case (Cons sit sits)
  show ?case
  proof (cases "si_Status sit \<noteq> SITStatusDELIVERED \<and> si_Status sit \<noteq> SITStatusRELEASED")
    case False
    obtain v dcopt where v: "storageInTransitDistance planner sit s w = (v, Ret dcopt)"
      and k: "(case dcopt of None \<Rightarrow> calc (Ret None) | Some d \<Rightarrow>
          run_then (create_sit_items s sit (dc_DistanceMiles d) now) (\<lambda>items.
          run_then (sit_items_loop planner s now sits) (\<lambda>rest. calc (Ret (map_option ((@) items) rest))))) v = (w', Ret r)"
      using Cons.prems False by (auto simp: run_simps)
    note e = sit_distance_elsewhere [OF v, of "shp_ID s"]
    show ?thesis
    proof (cases dcopt)
      case None
      then show ?thesis using k e by (auto simp: calc_eq)
    next
      case (Some d)
      obtain u items rest where u: "create_sit_items s sit (dc_DistanceMiles d) now v = (u, Ret items)"
        and l: "sit_items_loop planner s now sits u = (w', Ret rest)" and r: "r = map_option ((@) items) rest"
        using k Some by (auto simp: run_simps)
      show ?thesis
        using e run_all_elsewhere [OF u [unfolded create_sit_items_def]] Cons.IH [OF l] r
        by (auto split: option.splits intro: same_elsewhere_trans)
    qed
  qed (use Cons in auto)
qed (simp add: calc_eq)

section \<open>Saving the prices\<close>

lemma save_base_elsewhere:
  "save_items (createUniqueShipmentLineItem s) items w = (w', ve, None) \<Longrightarrow> list_all (\<lambda>g. li_ShipmentID g = i) items \<Longrightarrow> same_elsewhere i w w'"
proof (induction items arbitrary: w)
  case (Cons g items)
  obtain v g' where c: "createUniqueShipmentLineItem s w g = (v, g', [], None)" and rest: "save_items (createUniqueShipmentLineItem s) items v = (w', ve, None)"
    using Cons.prems(1) by (rule save_items_Cons_ok)
  have "same_elsewhere i w v" using c Cons.prems(2) by (auto simp: createUnique_ok same_elsewhere_def)
  then show ?case using Cons.IH [OF rest] Cons.prems(2) by (auto intro: same_elsewhere_trans)
qed simp

text \<open>An item of the shipment: unsaved, or a copy of a row.\<close>

definition own_item :: "uuid \<Rightarrow> li_world \<Rightarrow> ShipmentLineItem \<Rightarrow> bool" where
  "own_item i w g \<longleftrightarrow> li_ShipmentID g = i \<and> (li_ID g = uuid_Nil \<or> copy_of_row w g)"

lemma own_item_cong: "own_item i w x \<Longrightarrow> li_ID y = li_ID x \<Longrightarrow> row_key y = row_key x \<Longrightarrow> own_item i w y"
  by (auto simp: own_item_def copy_of_row_def)

lemma own_item_grows: "own_item i w g \<Longrightarrow> (\<And>g. copy_of_row w g \<Longrightarrow> copy_of_row v g) \<Longrightarrow> own_item i v g"
  by (auto simp: own_item_def)

lemma save_line_item_elsewhere:
  assumes "save_line_item w g = (v, g', [], None)" "own_item i w g"
  shows "same_elsewhere i w v \<and> (\<forall>h. copy_of_row w h \<longrightarrow> copy_of_row v h)"
proof (cases "li_ID g = uuid_Nil")
  case True
  then have c: "create_line_item w g = (v, g', [], None)" using assms(1) by (simp add: save_line_item_def)
  then show ?thesis using create_elsewhere [OF c] create_grows [OF c] assms(2) by (auto simp: own_item_def grows_def)
next
  case False
  then have g: "copy_of_row w g" "li_ShipmentID g = i" using assms(2) by (auto simp: own_item_def)
  have v: "v = w\<lparr>lw_line_items := map (\<lambda>r. if li_ID r = li_ID g then g else r) (lw_line_items w)\<rparr>"
    using assms(1) False by (simp add: save_line_item_def update_line_item_ok)
  have "filter (\<lambda>r. li_ShipmentID r \<noteq> i) (lw_line_items v) = filter (\<lambda>r. li_ShipmentID r \<noteq> i) (lw_line_items w)"
    unfolding v by (simp, rule filter_map_same) (use g in \<open>auto simp: copy_of_row_def list_all_iff\<close>)
  then show ?thesis using update_copies [OF g(1)] by (simp add: v same_elsewhere_def)
qed

lemma save_general_elsewhere:
  "save_items save_line_item items w = (w', ve, None) \<Longrightarrow> list_all (own_item i w) items \<Longrightarrow> same_elsewhere i w w'"
proof (induction items arbitrary: w)
  case (Cons g items)
  obtain v g' where c: "save_line_item w g = (v, g', [], None)" and rest: "save_items save_line_item items v = (w', ve, None)"
    using Cons.prems(1) by (rule save_items_Cons_ok)
  have e: "same_elsewhere i w v \<and> (\<forall>h. copy_of_row w h \<longrightarrow> copy_of_row v h)"
    using save_line_item_elsewhere [OF c, of i] Cons.prems(2) by simp
  then have "list_all (own_item i v) items" using Cons.prems(2) by (auto simp: list_all_iff own_item_def)
  with e show ?case using Cons.IH [OF rest] by (blast intro: same_elsewhere_trans)
qed simp

lemma save_and_price_elsewhere:
  assumes "save_and_price s base general d w = (w', s', [], None)"
    "list_all (\<lambda>g. li_ShipmentID g = shp_ID s) base" "list_all (own_item (shp_ID s) w) general"
  shows "same_elsewhere (shp_ID s) w w'"
proof -
  obtain w1 d1 w2 w3 s2 ve3 where
    s1: "save_distance w d = (w1, d1, [], None)" and
    s2: "save_shipment w1 (s\<lparr>shp_ShippingDistance := Some d1, shp_ShippingDistanceID := Some (dc_ID d1)\<rparr>) = (w2, s2, [], None)" and
    s3: "save_items (createUniqueShipmentLineItem s2) base w2 = (w3, ve3, None)" and
    s4: "save_items save_line_item general w3 = (w', [], None)"
    using assms(1) by (auto simp: save_and_price_def Let_def split: prod.splits if_splits)
  have id: "shp_ID s2 = shp_ID s" using save_shipment_rows [OF s2] by auto
  have b: "list_all (\<lambda>i. li_ShipmentID i = shp_ID s2) base" using assms(2) by (simp add: id)
  have g: "list_all (own_item (shp_ID s) w3) general"
    using assms(3) save_distance_rows [OF s1] save_shipment_rows [OF s2] save_base_items [OF s3 b]
    by (auto simp: list_all_iff intro: own_item_grows)
  have "same_elsewhere (shp_ID s) w1 w2" using save_shipment_elsewhere [OF s2] by simp
  with save_distance_elsewhere [OF s1] save_base_elsewhere [OF s3 assms(2)] save_general_elsewhere [OF s4 g]
  show ?thesis by (blast intro: same_elsewhere_trans)
qed

section \<open>The whole delivery\<close>

lemma price_items_elsewhere:
  assumes "price_items db planner now True ShipmentPriceNEW dc cost s w = (w', Ret (s', [], None))" "li_wf w"
    "HandleRunOnShipment db s dc = Ret cost"
  shows "same_elsewhere (shp_ID s) w w'"
proof -
  obtain c base v sititems add where cost: "cost = Some c"
    and base: "CreateBaseShipmentLineItems (lw_items w) now c = Ret base"
    and sit: "CreateStorageInTransitLineItems planner now c w = (v, Ret sititems)"
    and add: "PriceAdditionalRequestsForShipment db v s sititems = Ret add"
    and save: "save_and_price s base add dc v = (w', s', [], None)"
    using assms(1) price_items_parts by blast
  have cs: "cs_Shipment c = s" using HandleRun_Some assms(3) cost by blast
  then have "CreateBaseShipmentLineItems (lw_items w) now \<lparr>cs_Shipment = s, cs_Cost = cs_Cost c\<rparr> = Ret base"
    using base by (metis CostByShipment.surjective old.unit.exhaust)
  then have B: "list_all (\<lambda>g. li_ShipmentID g = shp_ID s) base" using CreateBase_Ret(3) by (fastforce simp: list_all_iff)
  obtain r where loop: "sit_items_loop planner s now (FetchStorageInTransitsOnShipment (lw_sits w) (shp_ID s)) w = (v, Ret r)"
    and r: "sititems = (case r of None \<Rightarrow> [] | Some l \<Rightarrow> l)"
    using sit by (auto simp: CreateStorageInTransitLineItems_def cs run_simps)
  have L: "same_elsewhere (shp_ID s) w v" "list_all (\<lambda>g. li_ShipmentID g = shp_ID s) sititems"
    using sit_loop_elsewhere [OF loop] r by (auto split: option.splits)
  have S: "grows w v" "list_all (sit_item_ok (shp_ID s) v) sititems"
    using sit_loop_run [OF loop assms(2)] r by (auto split: option.splits)
  then have wf: "li_wf v" using assms(2) by (simp add: grows_def)
  have own: "own_item (shp_ID s) v g" if "g \<in> set (FetchApprovedPreapprovalRequestsByShipment v s @ sititems)" for g
    using that L(2) S(2) preapproval_copy [OF wf]
    by (auto simp: own_item_def list_all_iff sit_item_ok_def) (auto simp: FetchApprovedPreapprovalRequestsByShipment_def)
  have "list_all (own_item (shp_ID s) v) (FetchApprovedPreapprovalRequestsByShipment v s @ sititems)"
    unfolding list_all_iff using own by blast
  moreover have "list_all2 (\<lambda>x y. li_ID y = li_ID x \<and> row_key y = row_key x) (FetchApprovedPreapprovalRequestsByShipment v s @ sititems) add"
    using add by (auto simp: PriceAdditionalRequestsForShipment_def dest: mapM_same)
  ultimately have "list_all (own_item (shp_ID s) v) add"
    by (auto simp: list_all_length list_all2_conv_all_nth intro: own_item_cong)
  from save_and_price_elsewhere [OF save B this] L(1) show ?thesis by (blast intro: same_elsewhere_trans)
qed

lemma delivery_elsewhere:
  assumes run: "DeliverAndPriceShipment db planner now t s w = (w', r)" and wf: "li_wf w" "distinct (map si_ID (lw_sits w))"
    and sits: "shp_StorageInTransits s = FetchStorageInTransitsOnShipment (lw_sits w) (shp_ID s)"
  shows "same_elsewhere (shp_ID s) w w'"
proof (cases "w' = w")
  case False
  define d where "d = s\<lparr>shp_Status := ShipmentStatusDELIVERED, shp_ActualDeliveryDate := Some t,
       shp_StorageInTransits := map (delivered_sit t) (shp_StorageInTransits s)\<rparr>"
  obtain w1 w2 s' where s1: "save_shipment w d = (w1, d, [], None)" and s2: "save_sits (shp_StorageInTransits d) w1 = (w2, [], None)"
    and p: "PriceShipment db planner now True ShipmentPriceNEW d w2 = (w', Ret (s', [], None))"
    using run False
    by (auto simp: DeliverAndPriceShipment_def Shipment_Deliver_eq refuse_def accept_def errors_Wrap_def tx_error_def reply_def d_def
        dest: save_shipment_rows split: if_splits prod.splits option.splits outcome.splits)
  have d: "shp_ID d = shp_ID s" by (simp add: d_def)
  have "lw_sits w1 = lw_sits w" using s1 by (auto simp: save_shipment_def split: if_splits)
  then have e2: "same_elsewhere (shp_ID s) w1 w2"
    using save_sits_elsewhere [OF s2] delivered_own_sits [OF wf(2)] sits by (simp add: d_def)
  have "grows w w2" using save_shipment_grows [OF s1] save_sits_grows [OF s2] by (rule grows_trans)
  then have wf2: "li_wf w2" using wf(1) by (simp add: grows_def)
  obtain dc cost where "HandleRunOnShipment db d dc = Ret cost"
    and "price_items db planner now True ShipmentPriceNEW dc cost d w2 = (w', Ret (s', [], None))"
    using PriceShipment_NEW_ok [OF p] by blast
  from price_items_elsewhere [OF this(2) wf2 this(1)] save_shipment_elsewhere [OF s1] e2
  show ?thesis unfolding d by (blast intro: same_elsewhere_trans)
qed simp

end
