(* ===== verification/Shipments.thy ===== *)
theory Shipments
  imports ShipmentDates MoveHandlers Uploads DeliveryFrame
begin

text \<open>
  Shipments as the handlers of the carriers (\<open>pkg/handlers/publicapi/shipments.go\<close>) and of the internal API
  (\<open>pkg/handlers/internalapi/shipments.go\<close>) serve them, with the functions of \<open>pkg/models/shipment.go\<close> they call: reading,
  accepting, surveying, patching, packing and picking up, delivering a shipment, its bill of lading, and creating and
  approving one.  The hook that determines the traffic distribution list before a shipment is saved is not modelled.
  A transaction of this file may fail to commit, which its caller does not notice.
\<close>

section \<open>Reading a shipment\<close>

text \<open>What the database answers to addresses and offers, whether the transactions of this file commit, the error of reading
  the documents of a shipment, the clock, the calendar of working days, the route planner, what is loaded of a move for its
  dates, the account of a carrier's user, and the error of the file storage when it makes the link to a file from its key and
  content type.\<close>

record carrier_env =
  ce_save_address :: "Address \<Rightarrow> verrs \<times> goerr option"
  ce_save_offer :: "ShipmentOffer \<Rightarrow> verrs \<times> goerr option"
  ce_commits :: bool
  ce_documents_error :: "goerr option"
  ce_now :: gotime
  ce_calendar :: calendar
  ce_planner :: "Address \<Rightarrow> Address \<Rightarrow> int result"
  ce_move_plan :: "uuid \<Rightarrow> move_plan result"
  ce_tsp_user_account :: "uuid \<Rightarrow> uuid option"
  ce_presigned_url :: "string \<Rightarrow> string \<Rightarrow> goerr option"

definition load_address :: "tables \<Rightarrow> uuid option \<Rightarrow> Address option" where
  "load_address t i = Option.bind i (\<lambda>i. case find_row ad_ID (tb_addresses t) i of Ret a \<Rightarrow> Some a | _ \<Rightarrow> None)"

text \<open>The associations that are loaded with a shipment; the offers come newest first.\<close>

definition load_shipment :: "tables \<Rightarrow> Shipment \<Rightarrow> Shipment" where
  "load_shipment t s = s\<lparr>shp_ShipmentOffers := rev (filter (\<lambda>o'. of_ShipmentID o' = shp_ID s) (tb_offers t)),
     shp_PickupAddress := load_address t (shp_PickupAddressID s),
     shp_SecondaryPickupAddress := load_address t (shp_SecondaryPickupAddressID s),
     shp_DeliveryAddress := load_address t (shp_DeliveryAddressID s),
     shp_PartialSITDeliveryAddress := load_address t (shp_PartialSITDeliveryAddressID s),
     shp_DestinationAddressOnAcceptance := load_address t (shp_DestinationAddressOnAcceptanceID s)\<rparr>"

definition offers_of :: "tables \<Rightarrow> uuid \<Rightarrow> uuid \<Rightarrow> ShipmentOffer list" where
  "offers_of t tspID shipmentID =
     filter (\<lambda>o'. of_TransportationServiceProviderID o' = tspID \<and> of_ShipmentID o' = shipmentID) (tb_offers t)"

text \<open>The join of shipments and offers must have exactly one row.\<close>

definition FetchShipmentByTSP :: "tables \<Rightarrow> uuid \<Rightarrow> uuid \<Rightarrow> Shipment result" where
  "FetchShipmentByTSP t tspID shipmentID =
     (case concat (map (\<lambda>s. map (\<lambda>_. s) (offers_of t tspID shipmentID)) (filter (\<lambda>s. shp_ID s = shipmentID) (tb_shipments t))) of
        [s] \<Rightarrow> Ret (load_shipment t s) | _ \<Rightarrow> Fail ErrFetchNotFound)"

text \<open>The provider of a carrier's user.\<close>

definition FetchTspUserByID :: "tables \<Rightarrow> uuid \<Rightarrow> uuid result" where
  "FetchTspUserByID t i = (case tb_tsp_users t i of None \<Rightarrow> Fail NoRows | Some tsp \<Rightarrow> Ret tsp)"

definition FetchShipmentForVerifiedTSPUser :: "tables \<Rightarrow> uuid \<Rightarrow> uuid \<Rightarrow> Shipment result" where
  "FetchShipmentForVerifiedTSPUser t tspUserID shipmentID =
     obind (map_fail (\<lambda>_. ErrUserUnauthorized) (FetchTspUserByID t tspUserID)) (\<lambda>tspID.
     map_fail (\<lambda>_. ErrFetchForbidden) (FetchShipmentByTSP t tspID shipmentID))"

definition FetchShipment :: "tables \<Rightarrow> Session \<Rightarrow> uuid \<Rightarrow> Shipment result" where
  "FetchShipment t session i = obind (DocumentHandlers.FetchShipment t session i) (\<lambda>s. Ret (load_shipment t s))"

text \<open>The answer shows a shipment with its provider, if there is one.\<close>

type_synonym shipment_payload = "Shipment \<times> uuid option"

definition payloadForShipmentModel :: "Shipment \<Rightarrow> shipment_payload" where
  "payloadForShipmentModel s = (s, let tspID = CurrentTransportationServiceProviderID s in if tspID \<noteq> uuid_Nil then Some tspID else None)"

section \<open>Saving a shipment\<close>

definition save_address :: "carrier_env \<Rightarrow> (goerr option \<Rightarrow> goerr option) \<Rightarrow> Address \<Rightarrow> Address tx" where
  "save_address env = save (\<lambda>_. ce_save_address env) (write_row ad_ID (\<lambda>i. ad_ID_update (\<lambda>_. i)) tb_addresses_update)"

definition save_offer :: "carrier_env \<Rightarrow> (goerr option \<Rightarrow> goerr option) \<Rightarrow> ShipmentOffer \<Rightarrow> ShipmentOffer tx" where
  "save_offer env = save (\<lambda>_. ce_save_offer env) (write_row of_ID (\<lambda>i. of_ID_update (\<lambda>_. i)) tb_offers_update)"

text \<open>An address of the shipment with its identifier, if it is to be saved.\<close>

definition save_part :: "carrier_env \<Rightarrow> string \<Rightarrow> bool \<Rightarrow> Address option \<Rightarrow> uuid option \<Rightarrow> (Address option \<times> uuid option) tx" where
  "save_part env m wanted a i = (case a of
      Some a \<Rightarrow> if wanted then tx_bind (save_address env (wrapped m) a) (\<lambda>a. tx_return (Some a, Some (ad_ID a)))
        else tx_return (Some a, i)
    | None \<Rightarrow> tx_return (None, i))"

text \<open>The result of \<open>db.Transaction\<close> is dropped: when the commit fails nothing is stored, and no error is returned.\<close>

definition committing :: "carrier_env \<Rightarrow> 'a tx \<Rightarrow> 'a tx" where
  "committing env f w = (case f w of Commit x w' \<Rightarrow> Commit x (if ce_commits env then w' else w) | r \<Rightarrow> r)"

definition SaveShipmentAndAddresses :: "carrier_env \<Rightarrow> Shipment \<Rightarrow> Shipment tx" where
  "SaveShipmentAndAddresses env s = committing env (
     tx_bind (save_part env ''Error saving pickup address'' True (shp_PickupAddress s) (shp_PickupAddressID s)) (\<lambda>(p, pi).
     tx_bind (save_part env ''Error saving delivery address'' (shp_HasDeliveryAddress s) (shp_DeliveryAddress s) (shp_DeliveryAddressID s)) (\<lambda>(d, di).
     tx_bind (save_part env ''Error saving partial SIT delivery address'' (shp_HasPartialSITDeliveryAddress s)
       (shp_PartialSITDeliveryAddress s) (shp_PartialSITDeliveryAddressID s)) (\<lambda>(q, qi).
     tx_bind (save_part env ''Error saving secondary pickup address'' (shp_HasSecondaryPickupAddress s)
       (shp_SecondaryPickupAddress s) (shp_SecondaryPickupAddressID s)) (\<lambda>(r, ri).
     save_shipment_row (wrapped ''Error saving shipment'')
       (s\<lparr>shp_PickupAddress := p, shp_PickupAddressID := pi, shp_DeliveryAddress := d, shp_DeliveryAddressID := di,
          shp_PartialSITDeliveryAddress := q, shp_PartialSITDeliveryAddressID := qi,
          shp_SecondaryPickupAddress := r, shp_SecondaryPickupAddressID := ri\<rparr>))))))"

section \<open>Accepting a shipment\<close>

text \<open>\<open>SaveDestinationAddress\<close> outside of any transaction: the store, the shipment and the error.  Validation errors alone
  give no error; its caller drops them.\<close>

definition SaveDestinationAddress :: "carrier_env \<Rightarrow> Address \<Rightarrow> Shipment \<Rightarrow> store \<Rightarrow> store \<times> Shipment \<times> goerr option" where
  "SaveDestinationAddress env a s w =
     (case save_address env (wrapped ''Error saving shipment'') a w of
        Commit a w' \<Rightarrow> (w', s\<lparr>shp_DestinationAddressOnAcceptance := Some a, shp_DestinationAddressOnAcceptanceID := Some (ad_ID a)\<rparr>, None)
      | Rollback verrs err \<Rightarrow> (w, s\<lparr>shp_DestinationAddressOnAcceptance := Some a\<rparr>, err)
      | Crash \<Rightarrow> (w, s, None))"

definition saveShipmentAndOffer :: "carrier_env \<Rightarrow> Shipment \<Rightarrow> ShipmentOffer \<Rightarrow> store \<Rightarrow> store \<times> verrs \<times> goerr option" where
  "saveShipmentAndOffer env s offer w =
     (case committing env (tx_bind (save_shipment_row (wrapped ''Error changing shipment status to %s'') s)
         (\<lambda>_. save_offer env (wrapped ''Error changing shipment offer status %v'') offer)) w of
        Commit _ w' \<Rightarrow> (w', [], None) | Rollback verrs err \<Rightarrow> (w, verrs, err) | Crash \<Rightarrow> (w, [], None))"

text \<open>The address of a shipment that is accepted: the one of the duty station unless there is a delivery address.\<close>

definition acceptance_address :: "Shipment \<Rightarrow> Address" where
  "acceptance_address s = (case shp_DeliveryAddress s of
      Some a \<Rightarrow> if shp_HasDeliveryAddress s then a else shp_NewDutyStationAddress s
    | None \<Rightarrow> shp_NewDutyStationAddress s)\<lparr>ad_ID := uuid_Nil\<rparr>"

text \<open>What \<open>AcceptShipmentForTSP\<close> returns: the shipment, the offer, the validation errors, which may be nil, and the error.\<close>

definition AcceptShipmentForTSP :: "carrier_env \<Rightarrow> uuid \<Rightarrow> uuid \<Rightarrow> store
    \<Rightarrow> store \<times> Shipment option \<times> ShipmentOffer option \<times> verrs option \<times> goerr option" where
  "AcceptShipmentForTSP env tspID shipmentID w =
     (case FetchShipmentByTSP (st_tables w) tspID shipmentID of
        Fail e \<Rightarrow> (w, None, None, None, Some e)
      | Panic \<Rightarrow> (w, None, None, None, None)
      | Ret shipment \<Rightarrow>
          (case SaveDestinationAddress env (acceptance_address shipment) shipment w of
             (w', s, Some e) \<Rightarrow> (w', Some s, None, None, Some e)
           | (w', s, None) \<Rightarrow>
               (case FetchShipmentOfferByTSP (tb_offers (st_tables w')) tspID shipmentID of
                  Fail e \<Rightarrow> (w', Some s, None, None, Some e)
                | Panic \<Rightarrow> (w', Some s, None, None, None)
                | Ret offer \<Rightarrow>
                    (case Shipment_Accept s of
                       (s, Some e) \<Rightarrow> (w', Some s, Some offer, None, Some e)
                     | (s, None) \<Rightarrow>
                         (case ShipmentOffer_Accept offer of
                            (offer, Some e) \<Rightarrow> (w', Some s, Some offer, None, Some e)
                          | (offer, None) \<Rightarrow>
                              (case saveShipmentAndOffer env s offer w' of
                                 (w2, verrs, err) \<Rightarrow> (w2, Some s, Some offer, Some verrs, err)))))))"

text \<open>The conflict answer reads the status of the shipment and whether the offer was accepted; every other error looks at the
  validation errors first, which panics when there are none.\<close>

definition accept_error :: "ShipmentOffer option \<Rightarrow> verrs option \<Rightarrow> goerr option \<Rightarrow> 'a reply" where
  "accept_error offer verrs err =
     (if err = Some ErrFetchNotFound then Bare 400
      else if err = Some ErrInvalidTransition
      then (case Option.bind offer of_Accepted of None \<Rightarrow> Crashed | Some _ \<Rightarrow> Bare 409)
      else (case verrs of None \<Rightarrow> Crashed | Some v \<Rightarrow> Refusal (ResponseForVErrors v err)))"

definition AcceptShipment :: "carrier_env \<Rightarrow> Session \<Rightarrow> uuid \<Rightarrow> store \<Rightarrow> store \<times> shipment_payload reply" where
  "AcceptShipment env session shipmentID w =
     (case FetchTspUserByID (st_tables w) (ss_TspUserID session) of
        Ret tspID \<Rightarrow> (case AcceptShipmentForTSP env tspID shipmentID w of (w', shipment, offer, verrs, err) \<Rightarrow>
          if err \<noteq> None \<or> (case verrs of None \<Rightarrow> True | Some v \<Rightarrow> v \<noteq> [])
          then (w', accept_error offer verrs err)
          else (case shipment of None \<Rightarrow> (w', Crashed) | Some s \<Rightarrow> (w', Reply 200 (payloadForShipmentModel s))))
      | _ \<Rightarrow> (w, Bare 403))"

section \<open>What a carrier does to a shipment\<close>

text \<open>The user must belong to a provider and the shipment must have been offered to it; \<open>missing\<close> is the answer otherwise.\<close>

definition for_tsp :: "Session \<Rightarrow> uuid \<Rightarrow> nat \<Rightarrow> store \<Rightarrow> (Shipment \<Rightarrow> store \<times> 'a reply) \<Rightarrow> store \<times> 'a reply" where
  "for_tsp session shipmentID missing w k =
     (case FetchTspUserByID (st_tables w) (ss_TspUserID session) of
        Ret tspID \<Rightarrow> (case FetchShipmentByTSP (st_tables w) tspID shipmentID of
            Ret s \<Rightarrow> k s | Fail _ \<Rightarrow> (w, Bare missing) | Panic \<Rightarrow> (w, Crashed))
      | _ \<Rightarrow> (w, Bare 403))"

record transport_payload =
  tp_ActualPackDate :: "gotime option"
  tp_ActualPickupDate :: "gotime option"
  tp_NetWeight :: "Pound option"
  tp_GrossWeight :: "Pound option"
  tp_TareWeight :: "Pound option"

definition TransportShipment :: "Session \<Rightarrow> uuid \<Rightarrow> transport_payload \<Rightarrow> store \<Rightarrow> store \<times> shipment_payload reply" where
  "TransportShipment session shipmentID payload w = for_tsp session shipmentID 400 w (\<lambda>s.
     continue w (obind (deref (tp_ActualPackDate payload)) (\<lambda>d. transition (Shipment_Pack d s))) (\<lambda>s.
     continue w (obind (deref (tp_ActualPickupDate payload)) (\<lambda>d. transition (Shipment_Transport d s))) (\<lambda>s.
     updating (save_shipment_row id (s\<lparr>shp_NetWeight := tp_NetWeight payload,
         shp_GrossWeight := (case tp_GrossWeight payload of None \<Rightarrow> shp_GrossWeight s | g \<Rightarrow> g),
         shp_TareWeight := (case tp_TareWeight payload of None \<Rightarrow> shp_TareWeight s | g \<Rightarrow> g)\<rparr>)) w
       (\<lambda>w' s. (w', Reply 200 (payloadForShipmentModel s))))))"

definition CompletePmSurvey :: "carrier_env \<Rightarrow> Session \<Rightarrow> uuid \<Rightarrow> store \<Rightarrow> store \<times> shipment_payload reply" where
  "CompletePmSurvey env session shipmentID w = for_tsp session shipmentID 400 w (\<lambda>s.
     updating (save_shipment_row (wrapped ''Error saving shipment'') (s\<lparr>shp_PmSurveyCompletedAt := Some (ce_now env)\<rparr>)) w
       (\<lambda>w' s. (w', Reply 200 (payloadForShipmentModel s))))"

text \<open>The tables of the prices and of the line items are those of \<open>Pricing\<close>.\<close>

definition DeliverShipment :: "tariff_db \<Rightarrow> distanceCalculator \<Rightarrow> gotime \<Rightarrow> Session \<Rightarrow> uuid \<Rightarrow> gotime option \<Rightarrow> store
    \<Rightarrow> li_world \<Rightarrow> li_world \<times> shipment_payload reply" where
  "DeliverShipment db planner now session shipmentID actualDeliveryDate w lw =
     (case FetchTspUserByID (st_tables w) (ss_TspUserID session) of
        Ret tspID \<Rightarrow> (case FetchShipmentByTSP (st_tables w) tspID shipmentID of
            Ret s \<Rightarrow>
              (case actualDeliveryDate of
                 None \<Rightarrow> (lw, Crashed)
               | Some d \<Rightarrow>
                   (case DeliverAndPriceShipment db planner now d
                       (s\<lparr>shp_StorageInTransits := FetchStorageInTransitsOnShipment (lw_sits lw) shipmentID\<rparr>) lw of
                      (lw', Ret (s', verrs, err)) \<Rightarrow>
                        if err \<noteq> None \<or> verrs \<noteq> [] then (lw', Refusal (ResponseForVErrors verrs err))
                        else (lw', Reply 200 (payloadForShipmentModel s'))
                    | (lw', _) \<Rightarrow> (lw', Crashed)))
          | Fail _ \<Rightarrow> (lw, Bare 400)
          | Panic \<Rightarrow> (lw, Crashed))
      | _ \<Rightarrow> (lw, Bare 403))"

section \<open>Patching a shipment\<close>

record shipment_patch =
  sp_ActualPickupDate :: "gotime option"
  sp_ActualPackDate :: "gotime option"
  sp_ActualDeliveryDate :: "gotime option"
  sp_RequestedPickupDate :: "gotime option"
  sp_EstimatedPackDays :: "int option"
  sp_EstimatedTransitDays :: "int option"
  sp_WeightEstimate :: "Pound option"
  sp_ProgearWeightEstimate :: "Pound option"
  sp_SpouseProgearWeightEstimate :: "Pound option"
  sp_NetWeight :: "Pound option"
  sp_GrossWeight :: "Pound option"
  sp_TareWeight :: "Pound option"
  sp_PmSurveyConductedDate :: "gotime option"
  sp_PmSurveyPlannedPackDate :: "gotime option"
  sp_PmSurveyPlannedPickupDate :: "gotime option"
  sp_PmSurveyPlannedDeliveryDate :: "gotime option"
  sp_PmSurveyWeightEstimate :: "Pound option"
  sp_PmSurveyProgearWeightEstimate :: "Pound option"
  sp_PmSurveySpouseProgearWeightEstimate :: "Pound option"
  sp_PmSurveyNotes :: "string option"
  sp_PmSurveyMethod :: string
  sp_PickupAddress :: "address_payload option"
  sp_HasSecondaryPickupAddress :: "bool option"
  sp_SecondaryPickupAddress :: "address_payload option"
  sp_HasDeliveryAddress :: "bool option"
  sp_DeliveryAddress :: "address_payload option"
  sp_HasPartialSitDeliveryAddress :: "bool option"
  sp_PartialSitDeliveryAddress :: "address_payload option"

text \<open>A date that is sent as the zero time clears the date.\<close>

definition patched_date :: "gotime option \<Rightarrow> gotime option \<Rightarrow> gotime option" where
  "patched_date sent old = (case sent of None \<Rightarrow> old | Some d \<Rightarrow> if d = zero_time then None else Some d)"

definition patched :: "'a option \<Rightarrow> 'a option \<Rightarrow> 'a option" where
  "patched sent old = (case sent of None \<Rightarrow> old | _ \<Rightarrow> sent)"

definition patched_address :: "address_payload option \<Rightarrow> Address option \<Rightarrow> Address option result" where
  "patched_address sent old = (case sent of
      None \<Rightarrow> Ret old
    | Some p \<Rightarrow> obind (updateAddressWithPayload (case old of None \<Rightarrow> zero_address | Some a \<Rightarrow> a) p) (\<lambda>a. Ret (Some a)))"

definition patched_optional_address :: "bool option \<Rightarrow> address_payload option \<Rightarrow> bool \<Rightarrow> Address option \<Rightarrow> (bool \<times> Address option) result" where
  "patched_optional_address has sent flag old = (case has of
      None \<Rightarrow> Ret (flag, old)
    | Some False \<Rightarrow> Ret (False, None)
    | Some True \<Rightarrow> obind (patched_address sent old) (\<lambda>a. Ret (True, a)))"

definition patched_addresses :: "shipment_patch \<Rightarrow> Shipment \<Rightarrow> Shipment result" where
  "patched_addresses payload s =
     obind (patched_address (sp_PickupAddress payload) (shp_PickupAddress s)) (\<lambda>p.
     obind (patched_optional_address (sp_HasSecondaryPickupAddress payload) (sp_SecondaryPickupAddress payload)
       (shp_HasSecondaryPickupAddress s) (shp_SecondaryPickupAddress s)) (\<lambda>(hr, r).
     obind (patched_optional_address (sp_HasDeliveryAddress payload) (sp_DeliveryAddress payload)
       (shp_HasDeliveryAddress s) (shp_DeliveryAddress s)) (\<lambda>(hd', d).
     obind (patched_optional_address (sp_HasPartialSitDeliveryAddress payload) (sp_PartialSitDeliveryAddress payload)
       (shp_HasPartialSITDeliveryAddress s) (shp_PartialSITDeliveryAddress s)) (\<lambda>(hq, q).
     Ret (s\<lparr>shp_PickupAddress := p, shp_HasSecondaryPickupAddress := hr, shp_SecondaryPickupAddress := r,
       shp_HasDeliveryAddress := hd', shp_DeliveryAddress := d, shp_HasPartialSITDeliveryAddress := hq,
       shp_PartialSITDeliveryAddress := q\<rparr>)))))"

definition patchShipmentWithPayload :: "shipment_patch \<Rightarrow> Shipment \<Rightarrow> Shipment result" where
  "patchShipmentWithPayload payload s = patched_addresses payload (s\<lparr>
     shp_PmSurveyConductedDate := patched_date (sp_PmSurveyConductedDate payload) (shp_PmSurveyConductedDate s),
     shp_PmSurveyPlannedDeliveryDate := patched_date (sp_PmSurveyPlannedDeliveryDate payload) (shp_PmSurveyPlannedDeliveryDate s),
     shp_PmSurveyMethod := (if sp_PmSurveyMethod payload \<noteq> '''' then sp_PmSurveyMethod payload else shp_PmSurveyMethod s),
     shp_PmSurveyPlannedPackDate := patched_date (sp_PmSurveyPlannedPackDate payload) (shp_PmSurveyPlannedPackDate s),
     shp_PmSurveyPlannedPickupDate := patched_date (sp_PmSurveyPlannedPickupDate payload) (shp_PmSurveyPlannedPickupDate s),
     shp_PmSurveyNotes := patched (sp_PmSurveyNotes payload) (shp_PmSurveyNotes s),
     shp_PmSurveyProgearWeightEstimate := patched (sp_PmSurveyProgearWeightEstimate payload) (shp_PmSurveyProgearWeightEstimate s),
     shp_PmSurveySpouseProgearWeightEstimate := patched (sp_PmSurveySpouseProgearWeightEstimate payload) (shp_PmSurveySpouseProgearWeightEstimate s),
     shp_PmSurveyWeightEstimate := patched (sp_PmSurveyWeightEstimate payload) (shp_PmSurveyWeightEstimate s),
     shp_NetWeight := patched (sp_NetWeight payload) (shp_NetWeight s),
     shp_GrossWeight := patched (sp_GrossWeight payload) (shp_GrossWeight s),
     shp_TareWeight := patched (sp_TareWeight payload) (shp_TareWeight s),
     shp_ActualPickupDate := patched_date (sp_ActualPickupDate payload) (shp_ActualPickupDate s),
     shp_ActualPackDate := patched_date (sp_ActualPackDate payload) (shp_ActualPackDate s),
     shp_ActualDeliveryDate := patched_date (sp_ActualDeliveryDate payload) (shp_ActualDeliveryDate s)\<rparr>)"

definition patch_and_save :: "carrier_env \<Rightarrow> shipment_patch \<Rightarrow> store \<Rightarrow> Shipment \<Rightarrow> store \<times> shipment_payload reply" where
  "patch_and_save env payload w s = continue w (patchShipmentWithPayload payload s) (\<lambda>s.
     updating (SaveShipmentAndAddresses env s) w (\<lambda>w' s. (w', Reply 200 (payloadForShipmentModel s))))"

definition PatchShipment :: "carrier_env \<Rightarrow> Session \<Rightarrow> uuid \<Rightarrow> shipment_patch \<Rightarrow> store \<Rightarrow> store \<times> shipment_payload reply" where
  "PatchShipment env session shipmentID payload w =
     (if IsTspUser session then for_tsp session shipmentID 400 w (patch_and_save env payload w)
      else if IsOfficeUser session then
        (case FetchShipment (st_tables w) session shipmentID of
           Ret s \<Rightarrow> patch_and_save env payload w s | Fail _ \<Rightarrow> (w, Bare 400) | Panic \<Rightarrow> (w, Crashed))
      else (w, Bare 400))"

definition GetShipment :: "Session \<Rightarrow> uuid \<Rightarrow> store \<Rightarrow> shipment_payload reply" where
  "GetShipment session shipmentID w =
     (if IsTspUser session then snd (for_tsp session shipmentID 403 w (\<lambda>s. (w, Reply 200 (payloadForShipmentModel s))))
      else if IsOfficeUser session then
        (case FetchShipment (st_tables w) session shipmentID of
           Ret s \<Rightarrow> Reply 200 (payloadForShipmentModel s) | Fail _ \<Rightarrow> Bare 403 | Panic \<Rightarrow> Crashed)
      else if IsServiceMember session then
        (case FetchShipment (st_tables w) session shipmentID of
           Ret s \<Rightarrow> Reply 200 (payloadForShipmentModel s)
         | Fail e \<Rightarrow> if e = ErrFetchForbidden then Bare 403 else Bare 400
         | Panic \<Rightarrow> Crashed)
      else Bare 403)"

section \<open>The bill of lading\<close>

text \<open>The error of the query is returned unless it is the one for no rows.\<close>

definition FetchMoveDocumentsByTypeForShipment :: "carrier_env \<Rightarrow> tables \<Rightarrow> Session \<Rightarrow> MoveDocumentType \<Rightarrow> uuid \<Rightarrow> MoveDocument list result" where
  "FetchMoveDocumentsByTypeForShipment env t session ty shipmentID =
     obind (if IsTspApp session then
         (if ss_TspUserID session = uuid_Nil then Fail ErrFetchForbidden
          else obind (map_fail (\<lambda>_. ErrFetchNotFound) (FetchTspUserByID t (ss_TspUserID session))) (\<lambda>tspID.
            obind (map_fail (\<lambda>_. ErrFetchForbidden) (FetchShipmentByTSP t tspID shipmentID)) (\<lambda>s.
            if shp_ID s \<noteq> shipmentID then Fail ErrFetchForbidden else Ret ())))
       else Ret ()) (\<lambda>_.
     if IsOfficeApp session \<and> ss_OfficeUserID session = uuid_Nil then Fail ErrFetchForbidden
     else (case ce_documents_error env of
         Some e \<Rightarrow> if Cause e \<noteq> NoRows then Fail e else Ret []
       | None \<Rightarrow> Ret (filter (\<lambda>d. md_MoveDocumentType d = ty \<and> md_ShipmentID d = Some shipmentID) (tb_move_documents t))))"

definition AllowedTypesPDF :: "string list" where
  "AllowedTypesPDF = [''application/pdf'']"

text \<open>The values of the form and its rendering (a name and its bytes) are parameters; an error of the template is only
  logged.  The error of looking for earlier documents is dropped.  The answer shows the document with a link to its file
  (\<open>payloadForDocumentModel\<close>); when the link cannot be made the document is stored already.\<close>

definition gbl_uploaded :: "carrier_env \<Rightarrow> storer \<Rightarrow> Session \<Rightarrow> Shipment \<Rightarrow> Move \<Rightarrow> string \<times> string \<Rightarrow> store \<times> files
    \<Rightarrow> (store \<times> files) \<times> MoveDocument reply" where
  "gbl_uploaded env sr session shipment move form ws =
     (case ce_tsp_user_account env (ss_TspUserID session) of
        None \<Rightarrow> (ws, Crashed)
      | Some account \<Rightarrow>
          (case CreateUploadForDocument sr '''' None account (fst form) (snd form) AllowedTypesPDF ws of
             Ret (ws', Some upload, _, _) \<Rightarrow>
               (case CreateMoveDocument move [upload] (Some (shp_ID shipment)) MoveDocumentTypeGOVBILLOFLADING
                   ''Government Bill Of Lading'' (Some '''') SelectedMoveTypeHHG (fst ws') of
                  Ret (w2, Some doc, _, _) \<Rightarrow> ((w2, snd ws'),
                    case ce_presigned_url env (up_StorageKey upload) (up_ContentType upload) of Some _ \<Rightarrow> Bare 500 | None \<Rightarrow> Reply 201 doc)
                | Ret (w2, None, verrs, err) \<Rightarrow> ((w2, snd ws'), Refusal (ResponseForVErrors verrs err))
                | _ \<Rightarrow> (ws', Crashed))
           | Ret (ws', None, verrs, err) \<Rightarrow> (ws', Refusal (ResponseForVErrors verrs err))
           | _ \<Rightarrow> (ws, Crashed)))"

definition CreateGovBillOfLading :: "carrier_env \<Rightarrow> storer \<Rightarrow> (uuid \<Rightarrow> string result) \<Rightarrow> (string \<Rightarrow> (string \<times> string) result)
    \<Rightarrow> Session \<Rightarrow> uuid \<Rightarrow> store \<times> files \<Rightarrow> (store \<times> files) \<times> MoveDocument reply" where
  "CreateGovBillOfLading env sr values create_form session shipmentID ws =
     (case FetchShipmentForVerifiedTSPUser (st_tables (fst ws)) (ss_TspUserID session) shipmentID of
        Fail e \<Rightarrow> (ws, Refusal (ErrorResponse (ResponseForError (Some e))))
      | Panic \<Rightarrow> (ws, Crashed)
      | Ret shipment \<Rightarrow>
          if (case FetchMoveDocumentsByTypeForShipment env (st_tables (fst ws)) session MoveDocumentTypeGOVBILLOFLADING shipmentID of
                Ret docs \<Rightarrow> docs \<noteq> [] | _ \<Rightarrow> False)
          then (ws, Refusal (ErrorResponse (ResponseForCustomErrors (ErrMsg ''there is already a Bill of Lading for this shipment'') 400)))
          else (case obind (find_row mv_ID (tb_moves (st_tables (fst ws))) (shp_MoveID shipment)) (\<lambda>move.
                  obind (FetchOrder (st_tables (fst ws)) (mv_OrdersID move)) (\<lambda>orders. Ret (move, orders))) of
              Fail e \<Rightarrow> (ws, Refusal (ErrorResponse (ResponseForError (Some e))))
            | Panic \<Rightarrow> (ws, Crashed)
            | Ret (move, orders) \<Rightarrow>
                if \<not> IsCompleteForGBL orders
                then (ws, Refusal (ErrorResponse (ResponseForCustomErrors (ErrMsg ''the move is missing some information from the JPPSO. Please contact the JPPSO'') 417)))
                else (case values shipmentID of
                    Ret gbl \<Rightarrow> (case create_form gbl of
                        Ret form \<Rightarrow> gbl_uploaded env sr session shipment (move\<lparr>mv_Orders := orders\<rparr>) form ws
                      | Fail _ \<Rightarrow> (ws, Bare 500)
                      | Panic \<Rightarrow> (ws, Crashed))
                  | Fail _ \<Rightarrow> (ws, Bare 417)
                  | Panic \<Rightarrow> (ws, Crashed))))"

section \<open>The internal API\<close>

text \<open>The answer of the internal API shows the summary of the dates; when it cannot be computed the payload is missing.  A
  handler may not return, as the loops over days may not.\<close>

type_synonym hhg_payload = "(Shipment \<times> MoveDatesSummary option) option"

definition hhg_payload :: "calendar \<Rightarrow> nat \<Rightarrow> Shipment \<Rightarrow> hhg_payload reply option" where
  "hhg_payload usCalendar code s =
     (if shp_RequestedPickupDate s \<noteq> None \<and> shp_EstimatedPackDays s \<noteq> None \<and> shp_EstimatedTransitDays s \<noteq> None
      then Option.bind (calculateMoveDatesFromShipment usCalendar s) (\<lambda>r. Some (case r of
          Ret summary \<Rightarrow> Reply code (Some (s, Some summary)) | Fail _ \<Rightarrow> Reply code None | Panic \<Rightarrow> Crashed))
      else Some (Reply code (Some (s, None))))"

definition save_hhg :: "carrier_env \<Rightarrow> nat \<Rightarrow> Shipment tx \<Rightarrow> store \<Rightarrow> (store \<times> hhg_payload reply) option" where
  "save_hhg env code f w = (case f w of
      Rollback verrs err \<Rightarrow> Some (w, Refusal (ResponseForVErrors verrs err))
    | Crash \<Rightarrow> Some (w, Crashed)
    | Commit s w' \<Rightarrow> map_option (\<lambda>r. (w', r)) (hhg_payload (ce_calendar env) code s))"

definition with_dates :: "carrier_env \<Rightarrow> gotime option \<Rightarrow> Shipment \<Rightarrow> store \<Rightarrow> (Shipment \<Rightarrow> (store \<times> hhg_payload reply) option)
    \<Rightarrow> (store \<times> hhg_payload reply) option" where
  "with_dates env requested s w k =
     Option.bind (updateShipmentDatesWithPayload (ce_calendar env) (ce_planner env) (ce_move_plan env (shp_MoveID s)) requested s) (\<lambda>r.
       case r of Ret s \<Rightarrow> k s | Fail e \<Rightarrow> Some (w, Refusal (ErrorResponse (ResponseForError (Some e)))) | Panic \<Rightarrow> Some (w, Crashed))"

definition new_shipment :: "Shipment \<Rightarrow> shipment_patch \<Rightarrow> uuid \<Rightarrow> uuid \<Rightarrow> Shipment result" where
  "new_shipment zero payload moveID serviceMemberID =
     obind (patched_address (sp_PickupAddress payload) None) (\<lambda>p.
     obind (patched_address (sp_SecondaryPickupAddress payload) None) (\<lambda>r.
     obind (patched_address (sp_DeliveryAddress payload) None) (\<lambda>d.
     obind (patched_address (sp_PartialSitDeliveryAddress payload) None) (\<lambda>q.
     Ret (zero\<lparr>shp_MoveID := moveID, shp_ServiceMemberID := serviceMemberID, shp_Status := ShipmentStatusDRAFT,
       shp_RequestedPickupDate := sp_RequestedPickupDate payload, shp_EstimatedPackDays := sp_EstimatedPackDays payload,
       shp_EstimatedTransitDays := sp_EstimatedTransitDays payload, shp_WeightEstimate := sp_WeightEstimate payload,
       shp_ProgearWeightEstimate := sp_ProgearWeightEstimate payload,
       shp_SpouseProgearWeightEstimate := sp_SpouseProgearWeightEstimate payload, shp_PickupAddress := p,
       shp_HasSecondaryPickupAddress := (sp_HasSecondaryPickupAddress payload = Some True), shp_SecondaryPickupAddress := r,
       shp_HasDeliveryAddress := (sp_HasDeliveryAddress payload = Some True), shp_DeliveryAddress := d,
       shp_HasPartialSITDeliveryAddress := (sp_HasPartialSitDeliveryAddress payload = Some True), shp_PartialSITDeliveryAddress := q,
       shp_Market := Some ''dHHG''\<rparr>)))))"

definition zero_shipment :: Shipment where
  "zero_shipment = Shipment.make uuid_Nil ShipmentStatusDRAFT None None None None None None uuid_Nil uuid_Nil zero_address
     [] [] [] None None None None None None None None None None None None None False None None None None None zero_time False None None None
     False None None None None None None None None None None None None None None None None None ''''"

text \<open>The result of fetching, then the rest, which may not return.\<close>

definition proceed :: "store \<Rightarrow> 'a result \<Rightarrow> ('a \<Rightarrow> (store \<times> 'b reply) option) \<Rightarrow> (store \<times> 'b reply) option" where
  "proceed w r k = (case r of
      Ret x \<Rightarrow> k x | Fail e \<Rightarrow> Some (w, Refusal (ErrorResponse (ResponseForError (Some e)))) | Panic \<Rightarrow> Some (w, Crashed))"

definition CreateShipment :: "carrier_env \<Rightarrow> Session \<Rightarrow> uuid \<Rightarrow> shipment_patch \<Rightarrow> store \<Rightarrow> (store \<times> hhg_payload reply) option" where
  "CreateShipment env session moveID payload w =
     proceed w (obind (FetchMove (st_tables w) session moveID) (\<lambda>move.
       new_shipment zero_shipment payload (mv_ID move) (ss_ServiceMemberID session))) (\<lambda>s.
     with_dates env (sp_RequestedPickupDate payload) s w (\<lambda>s. save_hhg env 201 (SaveShipmentAndAddresses env s) w))"

definition patchShipmentWithPremoveSurveyFields :: "shipment_patch \<Rightarrow> Shipment \<Rightarrow> Shipment" where
  "patchShipmentWithPremoveSurveyFields payload s =
     (if sp_PmSurveyPlannedPackDate payload = None then s
      else s\<lparr>shp_PmSurveyPlannedPackDate := sp_PmSurveyPlannedPackDate payload,
        shp_PmSurveyConductedDate := sp_PmSurveyConductedDate payload,
        shp_PmSurveyPlannedPickupDate := sp_PmSurveyPlannedPickupDate payload,
        shp_PmSurveyPlannedDeliveryDate := sp_PmSurveyPlannedDeliveryDate payload,
        shp_PmSurveyNotes := sp_PmSurveyNotes payload, shp_PmSurveyMethod := sp_PmSurveyMethod payload,
        shp_PmSurveyProgearWeightEstimate := sp_PmSurveyProgearWeightEstimate payload,
        shp_PmSurveySpouseProgearWeightEstimate := sp_PmSurveySpouseProgearWeightEstimate payload,
        shp_PmSurveyWeightEstimate := sp_PmSurveyWeightEstimate payload\<rparr>)"

definition patch_hhg :: "shipment_patch \<Rightarrow> Shipment \<Rightarrow> Shipment result" where
  "patch_hhg payload s = obind (patched_addresses payload (s\<lparr>
     shp_ActualPickupDate := patched (sp_ActualPickupDate payload) (shp_ActualPickupDate s),
     shp_ActualPackDate := patched (sp_ActualPackDate payload) (shp_ActualPackDate s),
     shp_RequestedPickupDate := patched (sp_RequestedPickupDate payload) (shp_RequestedPickupDate s),
     shp_EstimatedPackDays := patched (sp_EstimatedPackDays payload) (shp_EstimatedPackDays s),
     shp_EstimatedTransitDays := patched (sp_EstimatedTransitDays payload) (shp_EstimatedTransitDays s)\<rparr>)) (\<lambda>s.
     Ret (s\<lparr>shp_WeightEstimate := patched (sp_WeightEstimate payload) (shp_WeightEstimate s),
       shp_ProgearWeightEstimate := patched (sp_ProgearWeightEstimate payload) (shp_ProgearWeightEstimate s),
       shp_SpouseProgearWeightEstimate := patched (sp_SpouseProgearWeightEstimate payload) (shp_SpouseProgearWeightEstimate s)\<rparr>))"

definition PatchHHG :: "carrier_env \<Rightarrow> Session \<Rightarrow> uuid \<Rightarrow> shipment_patch \<Rightarrow> store \<Rightarrow> (store \<times> hhg_payload reply) option" where
  "PatchHHG env session shipmentID payload w =
     proceed w (obind (FetchShipment (st_tables w) session shipmentID) (patch_hhg payload)) (\<lambda>s.
     with_dates env (sp_RequestedPickupDate payload) s w (\<lambda>s.
     save_hhg env 200 (SaveShipmentAndAddresses env
       (if IsOfficeUser session then patchShipmentWithPremoveSurveyFields payload s else s)) w))"

definition GetHHG :: "carrier_env \<Rightarrow> Session \<Rightarrow> uuid \<Rightarrow> store \<Rightarrow> hhg_payload reply option" where
  "GetHHG env session shipmentID w =
     map_option snd (proceed w (FetchShipment (st_tables w) session shipmentID) (\<lambda>s.
       map_option (\<lambda>r. (w, r)) (hhg_payload (ce_calendar env) 200 s)))"

definition ApproveHHG :: "carrier_env \<Rightarrow> Session \<Rightarrow> uuid \<Rightarrow> gotime option \<Rightarrow> store \<Rightarrow> (store \<times> hhg_payload reply) option" where
  "ApproveHHG env session shipmentID approveDate w =
     (if \<not> IsOfficeUser session then Some (w, Bare 403)
      else proceed w (obind (FetchShipment (st_tables w) session shipmentID) (\<lambda>s.
          transition (Shipment_Approve (case approveDate of None \<Rightarrow> zero_time | Some d \<Rightarrow> d) s))) (\<lambda>s.
        save_hhg env 200 (save_shipment_row id s) w))"

section \<open>What the handlers guarantee\<close>

lemma one_row: "concat (map (\<lambda>s. map (\<lambda>_. s) ys) xs) = [s] \<Longrightarrow> xs = [s] \<and> (\<exists>y. ys = [y])"
proof -
  assume a: "concat (map (\<lambda>s. map (\<lambda>_. s) ys) xs) = [s]"
  then have "ys \<noteq> []" by (induction xs) auto
  with a show ?thesis by (cases xs; cases ys) (auto split: list.splits)
qed

lemma FetchShipmentByTSP_Ret:
  "FetchShipmentByTSP t tsp i = Ret s \<longleftrightarrow>
     (\<exists>r offer. filter (\<lambda>s. shp_ID s = i) (tb_shipments t) = [r] \<and> offers_of t tsp i = [offer] \<and> s = load_shipment t r)"
  by (auto simp: FetchShipmentByTSP_def split: list.splits dest: one_row)

lemma FetchShipmentByTSP_not_Panic [simp]: "FetchShipmentByTSP t tsp i \<noteq> Panic"
  by (simp add: FetchShipmentByTSP_def split: list.split)

lemma FetchShipmentByTSP_ID: "FetchShipmentByTSP t tsp i = Ret s \<Longrightarrow> shp_ID s = i"
  by (auto simp: FetchShipmentByTSP_Ret load_shipment_def filter_eq_Cons_iff)

lemma FetchTspUserByID_Ret [simp]: "FetchTspUserByID t i = Ret tsp \<longleftrightarrow> tb_tsp_users t i = Some tsp"
  by (simp add: FetchTspUserByID_def split: option.split)

text \<open>Saving a row of a shipment leaves the others.\<close>

definition only_shipment :: "uuid \<Rightarrow> store \<Rightarrow> store \<Rightarrow> bool" where
  "only_shipment i w w' \<longleftrightarrow> filter (\<lambda>s. shp_ID s \<noteq> i) (tb_shipments (st_tables w')) = filter (\<lambda>s. shp_ID s \<noteq> i) (tb_shipments (st_tables w))
     \<and> tb_orders (st_tables w') = tb_orders (st_tables w) \<and> tb_moves (st_tables w') = tb_moves (st_tables w)
     \<and> tb_ppms (st_tables w') = tb_ppms (st_tables w)"

lemma only_shipment_refl [simp]: "only_shipment i w w"
  by (simp add: only_shipment_def)

lemma only_shipment_trans: "only_shipment i w w1 \<Longrightarrow> only_shipment i w1 w2 \<Longrightarrow> only_shipment i w w2"
  by (simp add: only_shipment_def)

lemma filter_replaced: "filter (\<lambda>q. key q \<noteq> key x) (map (\<lambda>q. if key q = key x then x else q) rows) = filter (\<lambda>q. key q \<noteq> key x) rows"
  by (induction rows) auto

lemma save_shipment_row_facts:
  assumes "save_shipment_row wrap s w = Commit s' w'" "shp_ID s \<noteq> uuid_Nil"
  shows "s' = s" "tb_shipments (st_tables w') = map (\<lambda>q. if shp_ID q = shp_ID s then s else q) (tb_shipments (st_tables w))"
    "only_shipment (shp_ID s) w w'" "tb_offers (st_tables w') = tb_offers (st_tables w)"
  using assms by (auto simp: save_shipment_row_def save_Commit write_row_def only_shipment_def filter_replaced)

lemma save_address_facts:
  assumes "save_address env wrap a w = Commit a' w'"
  shows "tb_shipments (st_tables w') = tb_shipments (st_tables w)" "tb_offers (st_tables w') = tb_offers (st_tables w)"
    "only_shipment i w w'" "st_save_shipment w' = st_save_shipment w"
  using assms by (auto simp: save_address_def save_Commit write_row_def only_shipment_def Let_def split: if_splits)

lemma save_offer_facts:
  assumes "save_offer env wrap so w = Commit so' w'"
  shows "tb_shipments (st_tables w') = tb_shipments (st_tables w)" "only_shipment i w w'"
    "of_ID so \<noteq> uuid_Nil \<Longrightarrow> tb_offers (st_tables w') = map (\<lambda>q. if of_ID q = of_ID so then so else q) (tb_offers (st_tables w))"
  using assms by (auto simp: save_offer_def save_Commit write_row_def only_shipment_def Let_def split: if_splits)

lemma save_part_only: "save_part env m wanted a j w = Commit r w' \<Longrightarrow> only_shipment i w w'"
  by (auto simp: save_part_def split: option.splits if_splits dest: save_address_facts(3))

lemma save_part_rows: "save_part env m wanted a j w = Commit r w' \<Longrightarrow> tb_shipments (st_tables w') = tb_shipments (st_tables w)"
  by (auto simp: save_part_def split: option.splits if_splits dest: save_address_facts(1))

lemma committing_Commit: "committing env f w = Commit x w' \<longleftrightarrow> (\<exists>v. f w = Commit x v \<and> w' = (if ce_commits env then v else w))"
  by (auto simp: committing_def split: tx_result.splits)

lemma SaveShipmentAndAddresses_facts:
  assumes "SaveShipmentAndAddresses env s w = Commit s' w'" "shp_ID s \<noteq> uuid_Nil"
  shows "only_shipment (shp_ID s) w w'" "s' \<in> shp_ID -` {shp_ID s}" "shp_Status s' = shp_Status s"
    "shp_ActualDeliveryDate s' = shp_ActualDeliveryDate s" "shp_ActualPickupDate s' = shp_ActualPickupDate s"
    "shp_ActualPackDate s' = shp_ActualPackDate s" "shp_NetWeight s' = shp_NetWeight s"
    "tb_shipments (st_tables w') = (if ce_commits env then map (\<lambda>q. if shp_ID q = shp_ID s then s' else q) (tb_shipments (st_tables w))
       else tb_shipments (st_tables w))"
proof -
  obtain p pi d di q qi r ri w1 w2 w3 w4 v where parts:
      "save_part env ''Error saving pickup address'' True (shp_PickupAddress s) (shp_PickupAddressID s) w = Commit (p, pi) w1"
      "save_part env ''Error saving delivery address'' (shp_HasDeliveryAddress s) (shp_DeliveryAddress s) (shp_DeliveryAddressID s) w1
        = Commit (d, di) w2"
      "save_part env ''Error saving partial SIT delivery address'' (shp_HasPartialSITDeliveryAddress s)
        (shp_PartialSITDeliveryAddress s) (shp_PartialSITDeliveryAddressID s) w2 = Commit (q, qi) w3"
      "save_part env ''Error saving secondary pickup address'' (shp_HasSecondaryPickupAddress s)
        (shp_SecondaryPickupAddress s) (shp_SecondaryPickupAddressID s) w3 = Commit (r, ri) w4"
    and sv: "save_shipment_row (wrapped ''Error saving shipment'')
       (s\<lparr>shp_PickupAddress := p, shp_PickupAddressID := pi, shp_DeliveryAddress := d, shp_DeliveryAddressID := di,
          shp_PartialSITDeliveryAddress := q, shp_PartialSITDeliveryAddressID := qi,
          shp_SecondaryPickupAddress := r, shp_SecondaryPickupAddressID := ri\<rparr>) w4 = Commit s' v"
    and w': "w' = (if ce_commits env then v else w)"
    using assms(1) by (clarsimp simp: SaveShipmentAndAddresses_def committing_Commit split_beta)
  have "only_shipment (shp_ID s) w w4"
    using save_part_only [OF parts(1)] save_part_only [OF parts(2)] save_part_only [OF parts(3)] save_part_only [OF parts(4)]
    by (blast intro: only_shipment_trans)
  moreover have "tb_shipments (st_tables w4) = tb_shipments (st_tables w)"
    using parts [THEN save_part_rows] by simp
  moreover note save_shipment_row_facts [OF sv] assms(2)
  ultimately show "only_shipment (shp_ID s) w w'" "s' \<in> shp_ID -` {shp_ID s}" "shp_Status s' = shp_Status s"
    "shp_ActualDeliveryDate s' = shp_ActualDeliveryDate s" "shp_ActualPickupDate s' = shp_ActualPickupDate s"
    "shp_ActualPackDate s' = shp_ActualPackDate s" "shp_NetWeight s' = shp_NetWeight s"
    "tb_shipments (st_tables w') = (if ce_commits env then map (\<lambda>q. if shp_ID q = shp_ID s then s' else q) (tb_shipments (st_tables w))
       else tb_shipments (st_tables w))"
    by (auto simp: w' intro: only_shipment_trans)
qed

section \<open>Accepting\<close>

lemma SaveDestinationAddress_facts:
  assumes "SaveDestinationAddress env a s w = (w', s', err)"
  shows "tb_shipments (st_tables w') = tb_shipments (st_tables w)" "tb_offers (st_tables w') = tb_offers (st_tables w)"
    "only_shipment i w w'" "shp_ID s' = shp_ID s" "shp_Status s' = shp_Status s" "err \<noteq> Some ErrFetchNotFound" "err \<noteq> Some ErrInvalidTransition"
proof -
  have "err = None \<or> (\<exists>e. err = Some (Wrap ''Error saving shipment'' e))"
    using assms by (auto simp: SaveDestinationAddress_def save_address_def save_def wrapped_def errors_Wrap_def
        split: tx_result.splits prod.splits if_splits)
  then show "err \<noteq> Some ErrFetchNotFound" "err \<noteq> Some ErrInvalidTransition" by auto
  show "tb_shipments (st_tables w') = tb_shipments (st_tables w)" "tb_offers (st_tables w') = tb_offers (st_tables w)"
    "only_shipment i w w'" "shp_ID s' = shp_ID s" "shp_Status s' = shp_Status s"
    using assms by (auto simp: SaveDestinationAddress_def split: tx_result.splits dest: save_address_facts)
qed

lemma accept_refused [simp]:
  "Shipment_Accept s = (s', Some e) \<longleftrightarrow> shp_Status s \<noteq> ShipmentStatusAWARDED \<and> s' = s \<and> e = Wrap ''Accept'' ErrInvalidTransition"
  "ShipmentOffer_Accept so = (so', Some e) \<longleftrightarrow> of_Accepted so \<noteq> None \<and> so' = so \<and> e = Wrap ''Accept'' ErrInvalidTransition"
  by (auto simp: Shipment_Accept_def ShipmentOffer_Accept_def refuse_def accept_def errors_Wrap_def)

text \<open>The call as the rows it finds and what it makes of them.\<close>

lemma AcceptShipmentForTSP_eq:
  assumes fetched: "FetchShipmentByTSP (st_tables w) tspID shipmentID = Ret s" and offer: "offers_of (st_tables w) tspID shipmentID = [offer]"
    and dest: "SaveDestinationAddress env (acceptance_address s) s w = (w1, s1, err)"
  shows "AcceptShipmentForTSP env tspID shipmentID w =
     (case err of Some e \<Rightarrow> (w1, Some s1, None, None, Some e)
      | None \<Rightarrow> if shp_Status s \<noteq> ShipmentStatusAWARDED \<or> of_Accepted offer \<noteq> None
          then (w1, Some (if shp_Status s = ShipmentStatusAWARDED then s1\<lparr>shp_Status := ShipmentStatusACCEPTED\<rparr> else s1), Some offer, None,
            Some (Wrap ''Accept'' ErrInvalidTransition))
          else (case saveShipmentAndOffer env (s1\<lparr>shp_Status := ShipmentStatusACCEPTED\<rparr>) (offer\<lparr>of_Accepted := Some True\<rparr>) w1 of
            (w2, verrs, err) \<Rightarrow> (w2, Some (s1\<lparr>shp_Status := ShipmentStatusACCEPTED\<rparr>), Some (offer\<lparr>of_Accepted := Some True\<rparr>), Some verrs, err)))"
proof -
  have o: "FetchShipmentOfferByTSP (tb_offers (st_tables w1)) tspID shipmentID = Ret offer"
    using offer SaveDestinationAddress_facts(2) [OF dest] by (simp add: FetchShipmentOfferByTSP_def offers_of_def)
  have st: "shp_Status s1 = shp_Status s" using SaveDestinationAddress_facts(5) [OF dest] .
  show ?thesis
    by (cases err) (simp_all add: AcceptShipmentForTSP_def fetched dest o Shipment_Accept_def ShipmentOffer_Accept_def st refuse_def
        accept_def errors_Wrap_def)
qed

lemma saveShipmentAndOffer_saved:
  assumes "saveShipmentAndOffer env s so w = (w', [], None)" "shp_ID s \<noteq> uuid_Nil" "of_ID so \<noteq> uuid_Nil"
  shows "if ce_commits env
    then tb_shipments (st_tables w') = map (\<lambda>q. if shp_ID q = shp_ID s then s else q) (tb_shipments (st_tables w))
      \<and> tb_offers (st_tables w') = map (\<lambda>q. if of_ID q = of_ID so then so else q) (tb_offers (st_tables w))
    else w' = w"
proof -
  obtain s' w1 so' v where c: "save_shipment_row (wrapped ''Error changing shipment status to %s'') s w = Commit s' w1"
    "save_offer env (wrapped ''Error changing shipment offer status %v'') so w1 = Commit so' v"
    "w' = (if ce_commits env then v else w)"
    using assms(1) by (auto simp: saveShipmentAndOffer_def committing_def tx_bind_def save_shipment_row_def save_offer_def save_def wrapped_def errors_Wrap_def
        split: tx_result.splits prod.splits if_splits)
  show ?thesis using save_shipment_row_facts [OF c(1) assms(2)] save_offer_facts [OF c(2)] assms(3) c(3) by simp
qed

lemma saveShipmentAndOffer_only:
  assumes "saveShipmentAndOffer env s so w = (w', verrs, err)" "shp_ID s \<noteq> uuid_Nil"
  shows "only_shipment (shp_ID s) w w'"
proof (cases "w' = w")
  case False
  then obtain s' w1 so' where c: "save_shipment_row (wrapped ''Error changing shipment status to %s'') s w = Commit s' w1"
    "save_offer env (wrapped ''Error changing shipment offer status %v'') so w1 = Commit so' w'"
    using assms(1) by (auto simp: saveShipmentAndOffer_def committing_def tx_bind_def split: tx_result.splits if_splits)
  show ?thesis using save_shipment_row_facts(3) [OF c(1) assms(2)] save_offer_facts(2) [OF c(2)] by (blast intro: only_shipment_trans)
qed simp

text \<open>C21: accepting a shipment succeeds only for one that is awarded and whose offer is unanswered, and then the rows of
  the shipment and of the offer are those that are accepted, if the transaction was committed; when the commit fails the same
  answer is given and neither table has changed.  A shipment that may not be accepted makes the handler panic,
  with both tables as they were: the conflict answer is not reached, since the error of the transition is wrapped.\<close>

theorem accept_shipment_answer:
  assumes user: "tb_tsp_users (st_tables w) (ss_TspUserID session) = Some tspID"
    and fetched: "FetchShipmentByTSP (st_tables w) tspID shipmentID = Ret s" "shipmentID \<noteq> uuid_Nil"
    and offer: "offers_of (st_tables w) tspID shipmentID = [offer]" "of_ID offer \<noteq> uuid_Nil"
    and answer: "AcceptShipment env session shipmentID w = (w', r)"
  shows "(shp_Status s \<noteq> ShipmentStatusAWARDED \<or> of_Accepted offer \<noteq> None \<longrightarrow> r = Crashed
      \<and> tb_shipments (st_tables w') = tb_shipments (st_tables w) \<and> tb_offers (st_tables w') = tb_offers (st_tables w))
    \<and> (\<forall>code t tsp. r = Reply code (t, tsp) \<longrightarrow> code = 200 \<and> shp_Status s = ShipmentStatusAWARDED \<and> of_Accepted offer = None
      \<and> shp_Status t = ShipmentStatusACCEPTED
      \<and> (if ce_commits env
         then tb_shipments (st_tables w') = map (\<lambda>q. if shp_ID q = shipmentID then t else q) (tb_shipments (st_tables w))
           \<and> tb_offers (st_tables w') = map (\<lambda>q. if of_ID q = of_ID offer then offer\<lparr>of_Accepted := Some True\<rparr> else q) (tb_offers (st_tables w))
         else tb_shipments (st_tables w') = tb_shipments (st_tables w) \<and> tb_offers (st_tables w') = tb_offers (st_tables w)))"
proof -
  obtain w1 s1 err where d: "SaveDestinationAddress env (acceptance_address s) s w = (w1, s1, err)" by (metis prod_cases3)
  note f = SaveDestinationAddress_facts [OF d]
  note eq = AcceptShipmentForTSP_eq [OF fetched(1) offer(1) d]
  have i: "shp_ID s = shipmentID" using fetched(1) by (rule FetchShipmentByTSP_ID)
  have u: "FetchTspUserByID (st_tables w) (ss_TspUserID session) = Ret tspID" using user by simp
  show ?thesis
  proof (cases "err = None \<and> shp_Status s = ShipmentStatusAWARDED \<and> of_Accepted offer = None")
    case False
    then have "\<exists>s' so' e. AcceptShipmentForTSP env tspID shipmentID w = (w1, s', so', None, Some e) \<and> e \<noteq> ErrFetchNotFound \<and> e \<noteq> ErrInvalidTransition"
      using f(6,7) by (cases err) (auto simp: eq)
    then have "w' = w1 \<and> r = Crashed" using answer by (auto simp: AcceptShipment_def u accept_error_def)
    then show ?thesis using f(1,2) by simp
  next
    case True
    obtain w2 verrs err' where sv: "saveShipmentAndOffer env (s1\<lparr>shp_Status := ShipmentStatusACCEPTED\<rparr>) (offer\<lparr>of_Accepted := Some True\<rparr>) w1 = (w2, verrs, err')"
      by (metis prod_cases3)
    then have a: "AcceptShipment env session shipmentID w =
        (if err' \<noteq> None \<or> verrs \<noteq> [] then (w2, accept_error (Some (offer\<lparr>of_Accepted := Some True\<rparr>)) (Some verrs) err')
         else (w2, Reply 200 (payloadForShipmentModel (s1\<lparr>shp_Status := ShipmentStatusACCEPTED\<rparr>))))"
      using True by (simp add: AcceptShipment_def u eq)
    have "code = 200 \<and> shp_Status t = ShipmentStatusACCEPTED
      \<and> (if ce_commits env
         then tb_shipments (st_tables w') = map (\<lambda>q. if shp_ID q = shipmentID then t else q) (tb_shipments (st_tables w))
           \<and> tb_offers (st_tables w') = map (\<lambda>q. if of_ID q = of_ID offer then offer\<lparr>of_Accepted := Some True\<rparr> else q) (tb_offers (st_tables w))
         else tb_shipments (st_tables w') = tb_shipments (st_tables w) \<and> tb_offers (st_tables w') = tb_offers (st_tables w))"
      if r: "r = Reply code (t, tsp)" for code t tsp
    proof -
      have e: "err' = None \<and> verrs = []" "w' = w2" "code = 200" "t = s1\<lparr>shp_Status := ShipmentStatusACCEPTED\<rparr>"
        using a answer r by (auto simp: accept_error_def payloadForShipmentModel_def Let_def split: if_splits option.splits)
      show ?thesis using saveShipmentAndOffer_saved [of env "s1\<lparr>shp_Status := ShipmentStatusACCEPTED\<rparr>" "offer\<lparr>of_Accepted := Some True\<rparr>" w1 w2]
          sv e offer(2) fetched(2) f i by simp
    qed
    note ok = this
    show ?thesis
    proof (rule conjI)
      show "shp_Status s \<noteq> ShipmentStatusAWARDED \<or> of_Accepted offer \<noteq> None \<longrightarrow> r = Crashed
        \<and> tb_shipments (st_tables w') = tb_shipments (st_tables w) \<and> tb_offers (st_tables w') = tb_offers (st_tables w)"
        using True by simp
    qed (intro allI impI, drule ok, elim conjE, intro conjI, (assumption | use True in blast)+)
  qed
qed

section \<open>Carriers reach only what was offered to them\<close>

definition offered :: "tables \<Rightarrow> Session \<Rightarrow> uuid \<Rightarrow> bool" where
  "offered t session i \<longleftrightarrow> (\<exists>tsp offer. tb_tsp_users t (ss_TspUserID session) = Some tsp \<and> offers_of t tsp i = [offer])"

lemma for_tsp_cases:
  obtains (refused) r where "for_tsp session i missing w k = (w, r)" "\<And>code x. r \<noteq> Reply code x"
  | (offered) s where "for_tsp session i missing w k = k s" "shp_ID s = i" "offered (st_tables w) session i"
      "\<exists>tsp. tb_tsp_users (st_tables w) (ss_TspUserID session) = Some tsp \<and> FetchShipmentByTSP (st_tables w) tsp i = Ret s"
proof (cases "tb_tsp_users (st_tables w) (ss_TspUserID session)")
  case None
  then show ?thesis by (intro refused [of "Bare 403"]) (auto simp: for_tsp_def FetchTspUserByID_def)
next
  case (Some tsp)
  show ?thesis
  proof (cases "FetchShipmentByTSP (st_tables w) tsp i")
    case (Ret s)
    with Some have "offered (st_tables w) session i" by (auto simp: offered_def FetchShipmentByTSP_Ret)
    with Some Ret show ?thesis by (intro offered [of s]) (auto simp: for_tsp_def FetchTspUserByID_def dest: FetchShipmentByTSP_ID)
  qed (use Some in \<open>auto intro!: refused simp: for_tsp_def FetchTspUserByID_def\<close>)
qed

lemma patched_addresses_fields:
  assumes "patched_addresses p s = Ret t"
  shows "shp_ID t = shp_ID s \<and> shp_Status t = shp_Status s \<and> shp_ActualDeliveryDate t = shp_ActualDeliveryDate s
    \<and> shp_ActualPickupDate t = shp_ActualPickupDate s \<and> shp_ActualPackDate t = shp_ActualPackDate s \<and> shp_NetWeight t = shp_NetWeight s"
  using assms by (clarsimp simp: patched_addresses_def obind_eq_Ret split_beta)

lemma patchShipmentWithPayload_fields:
  assumes "patchShipmentWithPayload p s = Ret t"
  shows "shp_ID t = shp_ID s \<and> shp_Status t = shp_Status s
    \<and> shp_ActualDeliveryDate t = patched_date (sp_ActualDeliveryDate p) (shp_ActualDeliveryDate s)
    \<and> shp_ActualPickupDate t = patched_date (sp_ActualPickupDate p) (shp_ActualPickupDate s)
    \<and> shp_ActualPackDate t = patched_date (sp_ActualPackDate p) (shp_ActualPackDate s)
    \<and> shp_NetWeight t = patched (sp_NetWeight p) (shp_NetWeight s)"
  using patched_addresses_fields [OF assms [unfolded patchShipmentWithPayload_def]] by simp

lemma patch_and_save_only: "shp_ID s = i \<Longrightarrow> i \<noteq> uuid_Nil \<Longrightarrow> only_shipment i w (fst (patch_and_save env p w s))"
  by (cases "patchShipmentWithPayload p s")
    (auto simp: patch_and_save_def updating_def split: tx_result.split
      dest!: patchShipmentWithPayload_fields SaveShipmentAndAddresses_facts(1))

lemma transition_fields:
  "transition (Shipment_Pack d s) = Ret t \<Longrightarrow> shp_ID t = shp_ID s"
  "transition (Shipment_Transport d s) = Ret t \<Longrightarrow> shp_ID t = shp_ID s"
  by (auto simp: Shipment_Pack_def Shipment_Transport_def accept_def refuse_def transition_Ret split: if_splits)

lemma saving_only:
  "shp_ID s = i \<Longrightarrow> i \<noteq> uuid_Nil \<Longrightarrow> only_shipment i w (fst (updating (save_shipment_row wrap s) w (\<lambda>w' s. (w', r s))))"
  by (auto simp: updating_def split: tx_result.split dest: save_shipment_row_facts(3))

lemma for_tsp_only:
  assumes "\<And>s. shp_ID s = i \<Longrightarrow> only_shipment i w (fst (k s))"
  shows "only_shipment i w (fst (for_tsp session i missing w k))"
  by (cases rule: for_tsp_cases [of session i missing w k]) (use assms in auto)

lemma continue_only: "(\<And>x. r = Ret x \<Longrightarrow> only_shipment i w (fst (k x))) \<Longrightarrow> only_shipment i w (fst (continue w r k))"
  by (cases r) auto

lemma TransportShipment_only: "i \<noteq> uuid_Nil \<Longrightarrow> only_shipment i w (fst (TransportShipment session i p w))"
  unfolding TransportShipment_def
  by (intro for_tsp_only continue_only saving_only) (auto simp: obind_eq_Ret dest!: transition_fields)

lemma AcceptShipment_only:
  assumes "i \<noteq> uuid_Nil"
  shows "only_shipment i w (fst (AcceptShipment env session i w))
    \<and> (fst (AcceptShipment env session i w) \<noteq> w \<longrightarrow> offered (st_tables w) session i)"
proof (cases "tb_tsp_users (st_tables w) (ss_TspUserID session)")
  case (Some tsp)
  then have u: "FetchTspUserByID (st_tables w) (ss_TspUserID session) = Ret tsp" by simp
  show ?thesis
  proof (cases "FetchShipmentByTSP (st_tables w) tsp i")
    case (Ret s)
    then obtain offer where o: "offers_of (st_tables w) tsp i = [offer]" by (auto simp: FetchShipmentByTSP_Ret)
    obtain w1 s1 err where d: "SaveDestinationAddress env (acceptance_address s) s w = (w1, s1, err)" by (metis prod_cases3)
    obtain w2 verrs err' where sv: "saveShipmentAndOffer env (s1\<lparr>shp_Status := ShipmentStatusACCEPTED\<rparr>) (offer\<lparr>of_Accepted := Some True\<rparr>) w1 = (w2, verrs, err')"
      by (metis prod_cases3)
    have "only_shipment i w w1" "only_shipment i w1 w2"
      using SaveDestinationAddress_facts [OF d] saveShipmentAndOffer_only [OF sv] FetchShipmentByTSP_ID [OF Ret] assms by auto
    moreover from this have "only_shipment i w w2" by (rule only_shipment_trans)
    moreover have "offered (st_tables w) session i" using Some o by (auto simp: offered_def)
    ultimately show ?thesis
      by (auto simp: AcceptShipment_def u AcceptShipmentForTSP_eq [OF Ret o d] sv split: option.split)
  qed (simp_all add: AcceptShipment_def u AcceptShipmentForTSP_def)
qed (simp add: AcceptShipment_def FetchTspUserByID_def)

lemma FetchShipmentForVerifiedTSPUser_Ret:
  "FetchShipmentForVerifiedTSPUser t user i = Ret s \<longleftrightarrow> (\<exists>tsp. tb_tsp_users t user = Some tsp \<and> FetchShipmentByTSP t tsp i = Ret s)"
  by (auto simp: FetchShipmentForVerifiedTSPUser_def obind_eq_Ret map_fail_eq_Ret)

lemma FetchShipmentForVerifiedTSPUser_not_Panic [simp]: "FetchShipmentForVerifiedTSPUser t user i \<noteq> Panic"
  by (simp add: FetchShipmentForVerifiedTSPUser_def FetchTspUserByID_def map_fail_eq_Panic obind_eq_Panic split: option.split)

lemma DeliverShipment_elsewhere:
  assumes "li_wf lw" "distinct (map si_ID (lw_sits lw))"
  shows "same_elsewhere i lw (fst (DeliverShipment db planner now session i delivered w lw))"
proof (cases "tb_tsp_users (st_tables w) (ss_TspUserID session)")
  case (Some tsp)
  then have u: "FetchTspUserByID (st_tables w) (ss_TspUserID session) = Ret tsp" by simp
  show ?thesis
  proof (cases "FetchShipmentByTSP (st_tables w) tsp i")
    case (Ret s)
    let ?s = "s\<lparr>shp_StorageInTransits := FetchStorageInTransitsOnShipment (lw_sits lw) i\<rparr>"
    have i: "shp_ID s = i" using Ret by (rule FetchShipmentByTSP_ID)
    have "same_elsewhere i lw lw'" if "DeliverAndPriceShipment db planner now d ?s lw = (lw', r)" for d lw' r
      using delivery_elsewhere [OF that assms] i by simp
    then show ?thesis by (auto simp: DeliverShipment_def u Ret split: option.split outcome.split prod.split)
  qed (simp_all add: DeliverShipment_def u)
qed (simp add: DeliverShipment_def FetchTspUserByID_def)

text \<open>Making a bill of lading leaves every shipment, and only adds documents of the one asked for.\<close>

definition only_documents :: "uuid \<Rightarrow> store \<Rightarrow> store \<Rightarrow> bool" where
  "only_documents i w w' \<longleftrightarrow> only_shipment i w w' \<and> tb_shipments (st_tables w') = tb_shipments (st_tables w)
     \<and> tb_offers (st_tables w') = tb_offers (st_tables w)
     \<and> (\<exists>ds. tb_move_documents (st_tables w') = tb_move_documents (st_tables w) @ ds \<and> list_all (\<lambda>d. md_ShipmentID d = Some i) ds)"

lemma only_documents_refl [simp]: "only_documents i w w"
  by (simp add: only_documents_def)

lemma only_documents_trans: "only_documents i w w1 \<Longrightarrow> only_documents i w1 w2 \<Longrightarrow> only_documents i w w2"
  by (auto simp: only_documents_def only_shipment_def)

lemma save_only_documents:
  "save_document wrap d w = Commit d' w' \<Longrightarrow> only_documents i w w'"
  "save_upload wrap u w = Commit u' w' \<Longrightarrow> only_documents i w w'"
  "save_move_document wrap m w = Commit m' w' \<Longrightarrow> md_ID m = uuid_Nil \<Longrightarrow> md_ShipmentID m = Some i \<Longrightarrow> only_documents i w w'"
  by (auto simp: save_document_def save_upload_def save_move_document_def save_Commit write_row_def only_documents_def only_shipment_def
      Let_def split: if_splits)

lemma each_only_documents: "each (\<lambda>u. save_upload wrap (g u)) us w = Commit vs w' \<Longrightarrow> only_documents i w w'"
proof (induction us arbitrary: w vs)
  case (Cons u us)
  then show ?case by (auto dest!: save_only_documents(2) intro: only_documents_trans)
qed simp

lemma CreateMoveDocument_only:
  assumes "CreateMoveDocument m us (Some i) ty title notes SelectedMoveTypeHHG w = Ret (w', doc, verrs, err)"
  shows "only_documents i w w'"
proof (cases "w' = w")
  case False
  then obtain d w1 vs w2 row doc' where c: "save_document (wrapped ''Error creating document for move document'')
      \<lparr>doc_ID = uuid_Nil, doc_ServiceMemberID = or_ServiceMemberID (mv_Orders m)\<rparr> w = Commit d w1"
    "each (\<lambda>upload. save_upload (wrapped ''Error updating upload'') (upload\<lparr>up_DocumentID := Some (doc_ID d)\<rparr>)) us w1 = Commit vs w2"
    "save_move_document (wrapped ''Error creating move document'') row w2 = Commit doc' w'"
    and row: "md_ID row = uuid_Nil" "md_ShipmentID row = Some i"
    using assms by (auto simp: CreateMoveDocument_def transaction_def createMoveDocumentWithoutTransaction_def split: tx_result.splits)
  show ?thesis
    using save_only_documents(1) [OF c(1)] each_only_documents [OF c(2)] save_only_documents(3) [OF c(3) row]
    by (blast intro: only_documents_trans)
qed simp

lemma CreateUploadForDocument_only:
  assumes "CreateUploadForDocument sr key documentID userID name content allowed ws = Ret (ws', upload, verrs, err)"
  shows "only_documents i (fst ws) (fst ws')"
  using assms by (cases ws) (auto simp: CreateUploadForDocument_def only_documents_def only_shipment_def Let_def
      split: if_splits outcome.splits prod.splits option.splits)

lemma gbl_uploaded_only:
  "only_documents (shp_ID s) (fst ws) (fst (fst (gbl_uploaded env sr session s move form ws)))"
proof (cases "ce_tsp_user_account env (ss_TspUserID session)")
  case (Some account)
  show ?thesis
  proof (cases "CreateUploadForDocument sr '''' None account (fst form) (snd form) AllowedTypesPDF ws")
    case (Ret r)
    obtain ws' upload verrs err where r: "r = (ws', upload, verrs, err)" by (metis prod_cases4)
    note o1 = CreateUploadForDocument_only [OF Ret [unfolded r], of "shp_ID s"]
    show ?thesis
    proof (cases upload)
      case up: (Some u)
      show ?thesis
      proof (cases "CreateMoveDocument move [u] (Some (shp_ID s)) MoveDocumentTypeGOVBILLOFLADING ''Government Bill Of Lading''
          (Some '''') SelectedMoveTypeHHG (fst ws')")
        case doc: (Ret q)
        obtain w2 d verrs' err' where q: "q = (w2, d, verrs', err')" by (metis prod_cases4)
        show ?thesis using only_documents_trans [OF o1 CreateMoveDocument_only [OF doc [unfolded q]]]
          by (cases d) (simp_all add: gbl_uploaded_def Some Ret r up doc q)
      qed (use o1 in \<open>simp_all add: gbl_uploaded_def Some Ret r up\<close>)
    qed (use o1 in \<open>simp add: gbl_uploaded_def Some Ret r\<close>)
  qed (simp_all add: gbl_uploaded_def Some)
qed (simp add: gbl_uploaded_def)

lemma CreateGovBillOfLading_only:
  "only_documents i (fst ws) (fst (fst (CreateGovBillOfLading env sr values create_form session i ws)))"
proof (cases "FetchShipmentForVerifiedTSPUser (st_tables (fst ws)) (ss_TspUserID session) i")
  case (Ret s)
  then have i: "shp_ID s = i" by (auto simp: FetchShipmentForVerifiedTSPUser_Ret dest: FetchShipmentByTSP_ID)
  show ?thesis
    using gbl_uploaded_only [of s ws] unfolding i
    by (auto simp: CreateGovBillOfLading_def Ret split: outcome.split prod.split)
qed (simp_all add: CreateGovBillOfLading_def)

text \<open>C22: whatever a carrier's user asks for, a handler changes something only when the shipment asked for was offered exactly
  once to the provider of the user.  Accepting, packing and picking up, surveying and patching change no row of another
  shipment and none of the orders, moves and PPMs; delivering changes no row of another shipment, none of its line items and
  none of its storage in transits, when identifiers are unique; making a bill of lading changes no shipment at all and only adds
  documents of the shipment asked for.\<close>

theorem carriers_guarded:
  assumes "i \<noteq> uuid_Nil" "IsTspUser session"
  shows "(\<forall>w' \<in> {fst (AcceptShipment env session i w), fst (TransportShipment session i transport w),
        fst (CompletePmSurvey env session i w), fst (PatchShipment env session i patch w)}.
      only_shipment i w w' \<and> (w' \<noteq> w \<longrightarrow> offered (st_tables w) session i))
    \<and> (fst (DeliverShipment db planner now session i delivered w lw) \<noteq> lw \<longrightarrow> offered (st_tables w) session i)
    \<and> (li_wf lw \<and> distinct (map si_ID (lw_sits lw)) \<longrightarrow>
        same_elsewhere i lw (fst (DeliverShipment db planner now session i delivered w lw)))
    \<and> (fst (CreateGovBillOfLading env sr values create_form session i ws) \<noteq> ws \<longrightarrow> offered (st_tables (fst ws)) session i)
    \<and> only_documents i (fst ws) (fst (fst (CreateGovBillOfLading env sr values create_form session i ws)))"
proof -
  have "only_shipment i w (fst (CompletePmSurvey env session i w))"
    unfolding CompletePmSurvey_def by (intro for_tsp_only saving_only) (simp_all add: assms(1))
  moreover have "only_shipment i w (fst (PatchShipment env session i patch w))"
    using assms by (auto simp: PatchShipment_def intro: for_tsp_only patch_and_save_only)
  moreover have "fst (for_tsp session i 400 w k) \<noteq> w \<longrightarrow> offered (st_tables w) session i" for k :: "Shipment \<Rightarrow> store \<times> shipment_payload reply"
    by (cases rule: for_tsp_cases [of session i 400 w k]) auto
  moreover have "fst (DeliverShipment db planner now session i delivered w lw) \<noteq> lw \<longrightarrow> offered (st_tables w) session i"
    by (auto simp: DeliverShipment_def offered_def FetchShipmentByTSP_Ret split: outcome.splits)
  moreover have "fst (CreateGovBillOfLading env sr values create_form session i ws) \<noteq> ws \<longrightarrow> offered (st_tables (fst ws)) session i"
    by (cases "FetchShipmentForVerifiedTSPUser (st_tables (fst ws)) (ss_TspUserID session) i")
      (auto simp: CreateGovBillOfLading_def, auto simp: offered_def FetchShipmentForVerifiedTSPUser_Ret FetchShipmentByTSP_Ret)
  ultimately show ?thesis
    using AcceptShipment_only [OF assms(1)] TransportShipment_only [OF assms(1)] assms(2) DeliverShipment_elsewhere CreateGovBillOfLading_only
    by (simp add: TransportShipment_def CompletePmSurvey_def PatchShipment_def)
qed

section \<open>Patching\<close>

lemma FetchShipment_ID: "FetchShipment t session i = Ret s \<Longrightarrow> shp_ID s = i"
  by (auto simp: FetchShipment_def DocumentHandlers.FetchShipment_def obind_eq_Ret find_row_def map_fail_eq_Ret first_row_eq_Ret
      filter_eq_Cons_iff load_shipment_def split: if_splits)

lemma fetched_row:
  "FetchShipmentByTSP t tsp i = Ret s \<Longrightarrow> i \<in> shp_ID ` set (tb_shipments t)"
  "FetchShipment t session i = Ret s \<Longrightarrow> i \<in> shp_ID ` set (tb_shipments t)"
  by (auto simp: FetchShipmentByTSP_Ret filter_eq_Cons_iff FetchShipment_def DocumentHandlers.FetchShipment_def obind_eq_Ret find_row_def
      map_fail_eq_Ret first_row_eq_Ret split: if_splits)

lemma replaced_row: "key x \<in> key ` set rows \<Longrightarrow> x \<in> set (map (\<lambda>q. if key q = key x then x else q) rows)"
  by (induction rows) auto

lemma patch_and_save_answer:
  assumes "patch_and_save env patch w s = (w', Reply code (t, tsp))" "shp_ID s \<noteq> uuid_Nil"
  shows "code = 200 \<and> shp_ID t = shp_ID s
    \<and> tb_shipments (st_tables w') = (if ce_commits env then map (\<lambda>q. if shp_ID q = shp_ID s then t else q) (tb_shipments (st_tables w))
        else tb_shipments (st_tables w))
    \<and> only_shipment (shp_ID s) w w' \<and> shp_Status t = shp_Status s
    \<and> shp_ActualDeliveryDate t = patched_date (sp_ActualDeliveryDate patch) (shp_ActualDeliveryDate s)
    \<and> shp_ActualPickupDate t = patched_date (sp_ActualPickupDate patch) (shp_ActualPickupDate s)"
proof -
  obtain u where u: "patchShipmentWithPayload patch s = Ret u" "SaveShipmentAndAddresses env u w = Commit t w'" "code = 200"
    using assms(1) by (auto simp: patch_and_save_def continue_def updating_def payloadForShipmentModel_def Let_def
        split: outcome.splits tx_result.splits)
  show ?thesis
    using patchShipmentWithPayload_fields [OF u(1)] SaveShipmentAndAddresses_facts [OF u(2)] assms(2) u(3) by auto
qed

text \<open>C40: a patch that is answered has replaced the row of the shipment by the one in the answer, and no other row, if the
  transaction was committed, and none when the commit failed.  It never looks at the status of the shipment: it leaves the
  status and changes the dates of delivery and pickup as it is told, the zero time clearing them; so the stored row of a
  delivered shipment can lose its delivery date, and one that was not delivered can be given one, against the invariant the
  transitions keep.\<close>

theorem patch_ignores_status:
  assumes "PatchShipment env session i patch w = (w', Reply code (t, tsp))" "i \<noteq> uuid_Nil"
  shows "code = 200 \<and> only_shipment i w w'
    \<and> (if ce_commits env
       then t \<in> set (tb_shipments (st_tables w'))
         \<and> tb_shipments (st_tables w') = map (\<lambda>q. if shp_ID q = i then t else q) (tb_shipments (st_tables w))
       else tb_shipments (st_tables w') = tb_shipments (st_tables w))
    \<and> (\<exists>s. shp_ID s = i
    \<and> ((\<exists>tsp. FetchShipmentByTSP (st_tables w) tsp i = Ret s) \<or> FetchShipment (st_tables w) session i = Ret s)
    \<and> shp_Status t = shp_Status s
    \<and> shp_ActualDeliveryDate t = patched_date (sp_ActualDeliveryDate patch) (shp_ActualDeliveryDate s)
    \<and> shp_ActualPickupDate t = patched_date (sp_ActualPickupDate patch) (shp_ActualPickupDate s)
    \<and> (sp_ActualDeliveryDate patch = Some zero_time \<and> shp_Status s = ShipmentStatusDELIVERED \<longrightarrow> \<not> shipment_dates_ok t)
    \<and> (\<forall>d. sp_ActualDeliveryDate patch = Some d \<and> d \<noteq> zero_time \<and> shp_Status s \<noteq> ShipmentStatusDELIVERED \<longrightarrow> \<not> shipment_dates_ok t))"
proof -
  obtain s where s: "shp_ID s = i" "patch_and_save env patch w s = (w', Reply code (t, tsp))"
    "(\<exists>tsp. FetchShipmentByTSP (st_tables w) tsp i = Ret s) \<or> FetchShipment (st_tables w) session i = Ret s"
  proof (cases "IsTspUser session")
    case True
    then have a: "for_tsp session i 400 w (patch_and_save env patch w) = (w', Reply code (t, tsp))"
      using assms(1) by (simp add: PatchShipment_def)
    show ?thesis by (cases rule: for_tsp_cases [of session i 400 w "patch_and_save env patch w"]) (use a that in auto)
  next
    case False
    with assms(1) that show ?thesis
      by (auto simp: PatchShipment_def split: if_splits outcome.splits dest: FetchShipment_ID)
  qed
  have i: "i \<in> shp_ID ` set (tb_shipments (st_tables w))" using s(3) fetched_row by blast
  have p: "code = 200" "shp_ID t = i" "only_shipment i w w'" "shp_Status t = shp_Status s"
    "tb_shipments (st_tables w') = (if ce_commits env then map (\<lambda>q. if shp_ID q = i then t else q) (tb_shipments (st_tables w))
       else tb_shipments (st_tables w))"
    "shp_ActualDeliveryDate t = patched_date (sp_ActualDeliveryDate patch) (shp_ActualDeliveryDate s)"
    "shp_ActualPickupDate t = patched_date (sp_ActualPickupDate patch) (shp_ActualPickupDate s)"
    using patch_and_save_answer [OF s(2)] assms(2) s(1) by auto
  have "t \<in> set (map (\<lambda>q. if shp_ID q = i then t else q) (tb_shipments (st_tables w)))"
    using replaced_row [of shp_ID t] i p(2) by simp
  then have st: "if ce_commits env
       then t \<in> set (tb_shipments (st_tables w'))
         \<and> tb_shipments (st_tables w') = map (\<lambda>q. if shp_ID q = i then t else q) (tb_shipments (st_tables w))
       else tb_shipments (st_tables w') = tb_shipments (st_tables w)"
    using p(5) by simp
  have "(sp_ActualDeliveryDate patch = Some zero_time \<and> shp_Status s = ShipmentStatusDELIVERED \<longrightarrow> \<not> shipment_dates_ok t)
    \<and> (\<forall>d. sp_ActualDeliveryDate patch = Some d \<and> d \<noteq> zero_time \<and> shp_Status s \<noteq> ShipmentStatusDELIVERED \<longrightarrow> \<not> shipment_dates_ok t)"
    using p(4,6) by (auto simp: patched_date_def shipment_dates_ok_def)
  with s(1,3) p(4,6,7) have "\<exists>s. shp_ID s = i
    \<and> ((\<exists>tsp. FetchShipmentByTSP (st_tables w) tsp i = Ret s) \<or> FetchShipment (st_tables w) session i = Ret s)
    \<and> shp_Status t = shp_Status s
    \<and> shp_ActualDeliveryDate t = patched_date (sp_ActualDeliveryDate patch) (shp_ActualDeliveryDate s)
    \<and> shp_ActualPickupDate t = patched_date (sp_ActualPickupDate patch) (shp_ActualPickupDate s)
    \<and> (sp_ActualDeliveryDate patch = Some zero_time \<and> shp_Status s = ShipmentStatusDELIVERED \<longrightarrow> \<not> shipment_dates_ok t)
    \<and> (\<forall>d. sp_ActualDeliveryDate patch = Some d \<and> d \<noteq> zero_time \<and> shp_Status s \<noteq> ShipmentStatusDELIVERED \<longrightarrow> \<not> shipment_dates_ok t)"
    by blast
  with p(1,3) st show ?thesis by blast
qed

section \<open>One bill of lading\<close>

text \<open>The offers and the users of the carriers.\<close>

definition same_offers :: "store \<Rightarrow> store \<Rightarrow> bool" where
  "same_offers w w' \<longleftrightarrow> tb_shipments (st_tables w') = tb_shipments (st_tables w) \<and> tb_offers (st_tables w') = tb_offers (st_tables w)
     \<and> tb_tsp_users (st_tables w') = tb_tsp_users (st_tables w)"

lemma same_offers_trans: "same_offers w w1 \<Longrightarrow> same_offers w1 w2 \<Longrightarrow> same_offers w w2"
  by (simp add: same_offers_def)

lemma save_same_offers:
  "save_document wrap d w = Commit d' w' \<Longrightarrow> same_offers w w'"
  "save_upload wrap u w = Commit u' w' \<Longrightarrow> same_offers w w'"
  "save_move_document wrap m w = Commit m' w' \<Longrightarrow> same_offers w w'"
  by (auto simp: save_document_def save_upload_def save_move_document_def save_Commit write_row_def same_offers_def Let_def split: if_splits)

lemma each_same_offers: "each (\<lambda>u. save_upload wrap (g u)) us w = Commit vs w' \<Longrightarrow> same_offers w w'"
proof (induction us arbitrary: w vs)
  case (Cons u us)
  then show ?case by (auto dest!: save_same_offers intro: same_offers_trans)
qed (simp add: same_offers_def)

lemma CreateMoveDocument_facts:
  assumes "CreateMoveDocument m us (Some i) ty title notes SelectedMoveTypeHHG w = Ret (w', Some doc, verrs, err)"
  shows "same_offers w w' \<and> doc \<in> set (tb_move_documents (st_tables w')) \<and> md_MoveDocumentType doc = ty \<and> md_ShipmentID doc = Some i"
proof -
  obtain d w1 vs w2 row where c: "save_document (wrapped ''Error creating document for move document'')
      \<lparr>doc_ID = uuid_Nil, doc_ServiceMemberID = or_ServiceMemberID (mv_Orders m)\<rparr> w = Commit d w1"
    "each (\<lambda>upload. save_upload (wrapped ''Error updating upload'') (upload\<lparr>up_DocumentID := Some (doc_ID d)\<rparr>)) us w1 = Commit vs w2"
    "save_move_document (wrapped ''Error creating move document'') row w2 = Commit doc w'"
    and row: "md_ID row = uuid_Nil" "md_MoveDocumentType row = ty" "md_ShipmentID row = Some i"
    using assms by (auto simp: CreateMoveDocument_def transaction_Some createMoveDocumentWithoutTransaction_def)
  have "doc \<in> set (tb_move_documents (st_tables w')) \<and> md_MoveDocumentType doc = ty \<and> md_ShipmentID doc = Some i"
    using c(3) row by (auto simp: save_move_document_def save_Commit write_row_def Let_def)
  with same_offers_trans [OF save_same_offers(1) [OF c(1)] same_offers_trans [OF each_same_offers [OF c(2)] save_same_offers(3) [OF c(3)]]]
  show ?thesis by blast
qed

lemma gbl_uploaded_facts:
  assumes "gbl_uploaded env sr session shipment move form ws = (ws', Reply code doc)"
  shows "code = 201 \<and> same_offers (fst ws) (fst ws') \<and> doc \<in> set (tb_move_documents (st_tables (fst ws')))
    \<and> md_MoveDocumentType doc = MoveDocumentTypeGOVBILLOFLADING \<and> md_ShipmentID doc = Some (shp_ID shipment)"
proof -
  obtain account w1 fs upload verrs err w2 verrs' err' where
    up: "CreateUploadForDocument sr '''' None account (fst form) (snd form) AllowedTypesPDF ws = Ret ((w1, fs), Some upload, verrs, err)"
    and doc: "CreateMoveDocument move [upload] (Some (shp_ID shipment)) MoveDocumentTypeGOVBILLOFLADING
        ''Government Bill Of Lading'' (Some '''') SelectedMoveTypeHHG w1 = Ret (w2, Some doc, verrs', err')"
    and r: "code = 201" "fst ws' = w2"
    using assms by (auto simp: gbl_uploaded_def split: option.splits outcome.splits prod.splits if_splits)
  have "same_offers (fst ws) w1"
    using up by (cases ws) (auto simp: CreateUploadForDocument_def same_offers_def Let_def split: if_splits outcome.splits prod.splits option.splits)
  with CreateMoveDocument_facts [OF doc] r show ?thesis using same_offers_trans by simp
qed

lemma same_offers_fetch:
  assumes "same_offers w w'" "FetchShipmentByTSP (st_tables w) tsp i = Ret s"
  shows "\<exists>s'. FetchShipmentByTSP (st_tables w') tsp i = Ret s' \<and> shp_ID s' = i"
proof -
  obtain r offer where "filter (\<lambda>s. shp_ID s = i) (tb_shipments (st_tables w)) = [r]" "offers_of (st_tables w) tsp i = [offer]"
    using assms(2) by (auto simp: FetchShipmentByTSP_Ret)
  with assms(1) have "FetchShipmentByTSP (st_tables w') tsp i = Ret (load_shipment (st_tables w') r)"
    by (simp add: same_offers_def FetchShipmentByTSP_Ret offers_of_def)
  then show ?thesis using FetchShipmentByTSP_ID by blast
qed

text \<open>C23: a bill of lading that was made is stored as a document of the shipment, and from then on the same user can not make
  another one in the app of the carriers, whatever the form: whenever the earlier documents can be read, the handler refuses and
  changes nothing.\<close>

theorem one_bill_of_lading:
  assumes "CreateGovBillOfLading env sr values create_form session i ws = (ws', Reply code doc)" "IsTspApp session" "IsTspUser session"
  shows "code = 201 \<and> doc \<in> set (tb_move_documents (st_tables (fst ws'))) \<and> md_ShipmentID doc = Some i
    \<and> md_MoveDocumentType doc = MoveDocumentTypeGOVBILLOFLADING
    \<and> (ce_documents_error env' = None \<longrightarrow>
        CreateGovBillOfLading env' sr' values' create_form' session i ws' = (ws', Refusal (ErrorResponse
          (ResponseForCustomErrors (ErrMsg ''there is already a Bill of Lading for this shipment'') 400))))"
proof -
  obtain s where s: "FetchShipmentForVerifiedTSPUser (st_tables (fst ws)) (ss_TspUserID session) i = Ret s"
    using assms(1) by (auto simp: CreateGovBillOfLading_def split: outcome.splits)
  then obtain tsp where tsp: "tb_tsp_users (st_tables (fst ws)) (ss_TspUserID session) = Some tsp"
    "FetchShipmentByTSP (st_tables (fst ws)) tsp i = Ret s" by (auto simp: FetchShipmentForVerifiedTSPUser_Ret)
  have "\<exists>move form. gbl_uploaded env sr session s move form ws = (ws', Reply code doc)"
    using assms(1) by (auto simp: CreateGovBillOfLading_def s split: if_splits outcome.splits prod.splits)
  then obtain move form where "gbl_uploaded env sr session s move form ws = (ws', Reply code doc)" by blast
  note g = gbl_uploaded_facts [OF this] FetchShipmentByTSP_ID [OF tsp(2)]
  obtain s' where s': "FetchShipmentByTSP (st_tables (fst ws')) tsp i = Ret s'" "shp_ID s' = i"
    using same_offers_fetch [OF _ tsp(2)] g(1) by blast
  have user: "tb_tsp_users (st_tables (fst ws')) (ss_TspUserID session) = Some tsp" using tsp(1) g(1) by (simp add: same_offers_def)
  then have "FetchMoveDocumentsByTypeForShipment env' (st_tables (fst ws')) session MoveDocumentTypeGOVBILLOFLADING i
      = Ret (filter (\<lambda>d. md_MoveDocumentType d = MoveDocumentTypeGOVBILLOFLADING \<and> md_ShipmentID d = Some i) (tb_move_documents (st_tables (fst ws'))))"
    if "ce_documents_error env' = None"
    using assms(2,3) s' that by (simp add: FetchMoveDocumentsByTypeForShipment_def FetchTspUserByID_def IsTspUser_def IsTspApp_def IsOfficeApp_def)
  moreover have "doc \<in> set (filter (\<lambda>d. md_MoveDocumentType d = MoveDocumentTypeGOVBILLOFLADING \<and> md_ShipmentID d = Some i) (tb_move_documents (st_tables (fst ws'))))"
    using g by simp
  then have "filter (\<lambda>d. md_MoveDocumentType d = MoveDocumentTypeGOVBILLOFLADING \<and> md_ShipmentID d = Some i) (tb_move_documents (st_tables (fst ws'))) \<noteq> []"
    by (metis list.set_intros(1) empty_iff list.set(1))
  ultimately have "CreateGovBillOfLading env' sr' values' create_form' session i ws' = (ws', Refusal (ErrorResponse
        (ResponseForCustomErrors (ErrMsg ''there is already a Bill of Lading for this shipment'') 400)))" if "ce_documents_error env' = None"
    using that user s' FetchShipmentForVerifiedTSPUser_Ret [of "st_tables (fst ws')" "ss_TspUserID session" i s']
    by (simp add: CreateGovBillOfLading_def)
  with g show ?thesis by simp
qed

section \<open>Samples\<close>

definition carrier_session :: Session where
  "carrier_session = (member_session 106 0)\<lparr>ss_ApplicationName := TspApp, ss_TspUserID := 17\<rparr>"

text \<open>The shipment of \<open>sample_store\<close>, awarded to the provider of the user 17.\<close>

definition awarded_shipment :: Shipment where
  "awarded_shipment = sample_shipment\<lparr>shp_Status := ShipmentStatusAWARDED\<rparr>"

definition carried :: "Shipment \<Rightarrow> bool option \<Rightarrow> store" where
  "carried s answered = sample_store\<lparr>st_tables := sample_tables\<lparr>tb_shipments := [s], tb_orders := [complete_orders],
     tb_tsp_users := [17 \<mapsto> 21], tb_offers := [sample_offer\<lparr>of_Accepted := answered\<rparr>]\<rparr>\<rparr>"

definition sample_carrier_env :: carrier_env where
  "sample_carrier_env = \<lparr>ce_save_address = (\<lambda>_. ([], None)), ce_save_offer = (\<lambda>_. ([], None)), ce_commits = True,
     ce_documents_error = None, ce_now = 9, ce_calendar = weekdays,
     ce_planner = (\<lambda>_ _. Ret 100), ce_move_plan = (\<lambda>_. Ret sample_plan), ce_tsp_user_account = (\<lambda>_. Some 106),
     ce_presigned_url = (\<lambda>_ _. None)\<rparr>"

lemma sample_env_fields: "ce_documents_error sample_carrier_env = None" "ce_commits sample_carrier_env"
  by (simp_all add: sample_carrier_env_def)

lemma carried_fetched:
  assumes "shp_ID s = 7"
  shows "tb_tsp_users (st_tables (carried s answered)) (ss_TspUserID carrier_session) = Some 21"
    "FetchShipmentByTSP (st_tables (carried s answered)) 21 7 = Ret (load_shipment (st_tables (carried s answered)) s)"
    "offers_of (st_tables (carried s answered)) 21 7 = [sample_offer\<lparr>of_Accepted := answered\<rparr>]"
    "IsTspUser carrier_session" "IsTspApp carrier_session"
  using assms by (simp_all add: carried_def carrier_session_def FetchShipmentByTSP_Ret offers_of_def sample_offer_def sample_tables_def
      sample_store_def IsTspUser_def IsTspApp_def uuid_Nil_def member_session_def)

lemma awarded_facts: "shp_ID awarded_shipment = 7" "shp_Status awarded_shipment = ShipmentStatusAWARDED"
  by (simp_all add: awarded_shipment_def sample_shipment_def Shipment.defs)

lemma awarded_accepted: "\<exists>t tsp. snd (AcceptShipment sample_carrier_env carrier_session 7 (carried awarded_shipment None)) = Reply 200 (t, tsp)"
proof -
  let ?w = "carried awarded_shipment None"
  let ?s = "load_shipment (st_tables ?w) awarded_shipment"
  obtain w1 s1 where d: "SaveDestinationAddress sample_carrier_env (acceptance_address ?s) ?s ?w = (w1, s1, None)"
    and w1: "st_save_shipment w1 = (\<lambda>_. ([], None))"
    by (simp add: SaveDestinationAddress_def save_address_def save_def sample_carrier_env_def write_row_def Let_def acceptance_address_def
        carried_def sample_store_def split: option.split)
  have "shp_Status ?s = ShipmentStatusAWARDED" by (simp add: load_shipment_def awarded_facts)
  moreover have "\<exists>w2. saveShipmentAndOffer sample_carrier_env (s1\<lparr>shp_Status := ShipmentStatusACCEPTED\<rparr>)
      (sample_offer\<lparr>of_Accepted := None, of_Accepted := Some True\<rparr>) w1 = (w2, [], None)"
    by (simp add: saveShipmentAndOffer_def committing_def save_shipment_row_def save_offer_def save_def w1 sample_carrier_env_def tx_bind_def
        write_row_def Let_def)
  ultimately show ?thesis
    using carried_fetched(1) [OF awarded_facts(1), of None]
    by (auto simp: AcceptShipment_def AcceptShipmentForTSP_eq [OF carried_fetched(2,3) [OF awarded_facts(1)] d]
        FetchTspUserByID_def payloadForShipmentModel_def Let_def)
qed

theorem accept_shipment_answer_witness:
  "snd (AcceptShipment sample_carrier_env carrier_session 7 (carried (awarded_shipment\<lparr>shp_Status := ShipmentStatusACCEPTED\<rparr>) None)) = Crashed
   \<and> (\<exists>t tsp. snd (AcceptShipment sample_carrier_env carrier_session 7 (carried awarded_shipment None)) = Reply 200 (t, tsp)
      \<and> shp_Status t = ShipmentStatusACCEPTED)"
proof -
  have f: "of_ID (sample_offer\<lparr>of_Accepted := None\<rparr>) \<noteq> uuid_Nil" "(7::uuid) \<noteq> uuid_Nil" by (simp_all add: sample_offer_def uuid_Nil_def)
  let ?t = "awarded_shipment\<lparr>shp_Status := ShipmentStatusACCEPTED\<rparr>"
  have t: "shp_ID ?t = 7" "shp_Status (load_shipment T ?t) = ShipmentStatusACCEPTED" for T by (simp_all add: awarded_facts load_shipment_def)
  obtain w1 r where r: "AcceptShipment sample_carrier_env carrier_session 7 (carried ?t None) = (w1, r)" by fastforce
  have "r = Crashed"
    using accept_shipment_answer [OF carried_fetched(1,2) [OF t(1)] f(2) carried_fetched(3) [OF t(1)] f(1) r] by (simp add: t(2))
  moreover obtain w2 t' tsp where a: "AcceptShipment sample_carrier_env carrier_session 7 (carried awarded_shipment None) = (w2, Reply 200 (t', tsp))"
    using awarded_accepted by (metis prod.collapse)
  moreover have "shp_Status t' = ShipmentStatusACCEPTED"
    using accept_shipment_answer [OF carried_fetched(1,2) [OF awarded_facts(1)] f(2) carried_fetched(3) [OF awarded_facts(1)] f(1) a] by simp
  ultimately show ?thesis using r by simp
qed

theorem carriers_guarded_witness:
  "only_shipment 7 (carried awarded_shipment None) (fst (AcceptShipment sample_carrier_env carrier_session 7 (carried awarded_shipment None)))
   \<and> (\<forall>patch. fst (PatchShipment sample_carrier_env carrier_session 8 patch (carried awarded_shipment None)) = carried awarded_shipment None)
   \<and> (\<forall>delivered. same_elsewhere 7 sample_pricing_world (fst (DeliverShipment sample_fuel_db sample_planner 8 carrier_session 7 delivered
      (carried awarded_shipment None) sample_pricing_world)))"
proof -
  have "li_wf sample_pricing_world \<and> distinct (map si_ID (lw_sits sample_pricing_world))"
    by (simp add: li_wf_def sample_pricing_world_def sample_li_world_def sample_base_items_def BaseShipmentLineItemCodes_def zero_item_def)
  moreover
  have "\<not> offered (st_tables (carried awarded_shipment None)) carrier_session 8"
    by (simp add: offered_def carried_def offers_of_def sample_offer_def sample_store_def sample_tables_def carrier_session_def)
  moreover note carriers_guarded [of 7 carrier_session sample_carrier_env "carried awarded_shipment None"]
    carriers_guarded [of 8 carrier_session sample_carrier_env "carried awarded_shipment None"]
    carried_fetched(4) [OF awarded_facts(1)]
  ultimately show ?thesis by (auto simp: uuid_Nil_def)
qed

text \<open>A patch that clears the delivery date.\<close>

definition clearing_patch :: shipment_patch where
  "clearing_patch = shipment_patch.make None None (Some zero_time) None None None None None None None None None None None None None
     None None None None '''' None None None None None None None"

definition delivered_shipment :: Shipment where
  "delivered_shipment = sample_shipment\<lparr>shp_Status := ShipmentStatusDELIVERED, shp_ActualDeliveryDate := Some 9\<rparr>"

lemma delivered_patched:
  "\<exists>t tsp. snd (PatchShipment sample_carrier_env carrier_session 7 clearing_patch (carried delivered_shipment (Some True))) = Reply 200 (t, tsp)"
proof -
  let ?w = "carried delivered_shipment (Some True)"
  have s: "shp_ID delivered_shipment = 7" by (simp add: delivered_shipment_def sample_shipment_def Shipment.defs)
  obtain u where u: "patchShipmentWithPayload clearing_patch (load_shipment (st_tables ?w) delivered_shipment) = Ret u"
    by (simp add: patchShipmentWithPayload_def patched_addresses_def clearing_patch_def shipment_patch.defs patched_address_def
        patched_optional_address_def)
  moreover have "u = load_shipment (st_tables ?w) delivered_shipment\<lparr>shp_ActualDeliveryDate := None\<rparr>"
    using u by (simp add: patchShipmentWithPayload_def patched_addresses_def clearing_patch_def shipment_patch.defs patched_address_def
        patched_optional_address_def patched_date_def patched_def)
  moreover have "load_address t None = None" for t by (simp add: load_address_def)
  ultimately have "\<exists>w' t. SaveShipmentAndAddresses sample_carrier_env u ?w = Commit t w'"
    by (simp add: SaveShipmentAndAddresses_def committing_def sample_carrier_env_def save_part_def tx_bind_def tx_return_def load_shipment_def delivered_shipment_def
        sample_shipment_def Shipment.defs save_shipment_row_def save_def write_row_def Let_def carried_def sample_store_def)
  with u show ?thesis
    using carried_fetched [OF s]
    by (auto simp: PatchShipment_def for_tsp_def FetchTspUserByID_def patch_and_save_def payloadForShipmentModel_def Let_def)
qed

theorem patch_ignores_status_witness:
  "\<exists>w' t tsp. PatchShipment sample_carrier_env carrier_session 7 clearing_patch (carried delivered_shipment (Some True)) = (w', Reply 200 (t, tsp))
    \<and> t \<in> set (tb_shipments (st_tables w')) \<and> shp_ActualDeliveryDate t = None \<and> \<not> shipment_dates_ok t"
proof -
  let ?w = "carried delivered_shipment (Some True)"
  have s: "shp_ID delivered_shipment = 7" by (simp add: delivered_shipment_def sample_shipment_def Shipment.defs)
  obtain w' t tsp where p: "PatchShipment sample_carrier_env carrier_session 7 clearing_patch ?w = (w', Reply 200 (t, tsp))"
    using delivered_patched by (metis prod.collapse)
  have "\<not> FetchShipment (st_tables ?w) carrier_session 7 = Ret q \<or> shp_Status q = ShipmentStatusDELIVERED" for q
    by (auto simp: FetchShipment_def DocumentHandlers.FetchShipment_def obind_eq_Ret carried_def sample_store_def sample_tables_def find_row_def
        load_shipment_def delivered_shipment_def split: if_splits)
  moreover have "\<not> FetchShipmentByTSP (st_tables ?w) j 7 = Ret q \<or> shp_Status q = ShipmentStatusDELIVERED" for q j
    by (auto simp: FetchShipmentByTSP_Ret carried_def sample_store_def sample_tables_def load_shipment_def delivered_shipment_def
        split: if_splits)
  ultimately show ?thesis
    using patch_ignores_status [OF p] p by (auto simp: sample_carrier_env_def clearing_patch_def shipment_patch.defs patched_date_def uuid_Nil_def)
qed

definition pdf_storer :: storer where
  "pdf_storer = sample_storer\<lparr>sr_content_type := \<lambda>_. Ret ''application/pdf''\<rparr>"

lemma bill_made: "\<exists>ws' doc. CreateGovBillOfLading sample_carrier_env pdf_storer (\<lambda>_. Ret ''gbl'') (\<lambda>gbl. Ret (''gbl.pdf'', ''%PDF'')) carrier_session 7
    (carried awarded_shipment (Some True), Map.empty) = (ws', Reply 201 doc)"
proof -
  let ?w = "carried awarded_shipment (Some True)"
  let ?s = "load_shipment (st_tables ?w) awarded_shipment"
  note c = carried_fetched [OF awarded_facts(1)]
  have f: "FetchShipmentForVerifiedTSPUser (st_tables ?w) (ss_TspUserID carrier_session) 7 = Ret ?s"
    using c(1,2) by (simp add: FetchShipmentForVerifiedTSPUser_Ret)
  have d: "FetchMoveDocumentsByTypeForShipment sample_carrier_env (st_tables ?w) carrier_session MoveDocumentTypeGOVBILLOFLADING 7 = Ret []"
    using c by (simp add: FetchMoveDocumentsByTypeForShipment_def FetchTspUserByID_def IsTspUser_def IsTspApp_def IsOfficeApp_def
        load_shipment_def awarded_facts sample_env_fields) (simp add: carried_def sample_store_def sample_tables_def)
  have m: "find_row mv_ID (tb_moves (st_tables ?w)) (shp_MoveID ?s) = Ret sample_move" "mv_OrdersID sample_move = 1" "shp_ID ?s = 7"
    by (simp_all add: carried_def sample_store_def sample_tables_def find_row_def sample_move_def Move.defs load_shipment_def awarded_shipment_def
        sample_shipment_def Shipment.defs)
  have ord: "FetchOrder (st_tables ?w) 1 = Ret complete_orders" "IsCompleteForGBL complete_orders"
    by (simp_all add: FetchOrder_def carried_def sample_store_def sample_tables_def find_row_def complete_orders_def sample_orders_def
        Order.defs IsCompleteForGBL_def)
  obtain w1 fs upload where up: "CreateUploadForDocument pdf_storer '''' None 106 ''gbl.pdf'' ''%PDF'' AllowedTypesPDF (?w, Map.empty)
      = Ret ((w1, fs), Some upload, [], None)" and w1: "st_save_document w1 = (\<lambda>_. ([], None))" "st_save_upload w1 = (\<lambda>_. ([], None))"
      "st_save_move_document w1 = (\<lambda>_. ([], None))"
    by (simp add: CreateUploadForDocument_def pdf_storer_def sample_storer_def AllowedTypesPDF_def Contains_def carried_def sample_store_def
        Let_def)
  have "\<exists>w2 doc. CreateMoveDocument (sample_move\<lparr>mv_Orders := complete_orders\<rparr>) [upload] (Some 7) MoveDocumentTypeGOVBILLOFLADING
      ''Government Bill Of Lading'' (Some '''') SelectedMoveTypeHHG w1 = Ret (w2, Some doc, [], None)"
    by (simp add: CreateMoveDocument_def transaction_Some createMoveDocumentWithoutTransaction_def save_document_def save_upload_def
        save_move_document_def save_Commit write_row_def Let_def w1)
  then obtain w2 doc where doc: "CreateMoveDocument (sample_move\<lparr>mv_Orders := complete_orders\<rparr>) [upload] (Some 7) MoveDocumentTypeGOVBILLOFLADING
      ''Government Bill Of Lading'' (Some '''') SelectedMoveTypeHHG w1 = Ret (w2, Some doc, [], None)" by blast
  have "gbl_uploaded sample_carrier_env pdf_storer carrier_session ?s (sample_move\<lparr>mv_Orders := complete_orders\<rparr>) (''gbl.pdf'', ''%PDF'')
      (?w, Map.empty) = ((w2, fs), Reply 201 doc)"
    by (simp add: gbl_uploaded_def up m(3) doc sample_carrier_env_def)
  then show ?thesis by (simp add: CreateGovBillOfLading_def f d m ord del: One_nat_def)
qed

theorem one_bill_of_lading_witness:
  "\<exists>ws' doc. CreateGovBillOfLading sample_carrier_env pdf_storer (\<lambda>_. Ret ''gbl'') (\<lambda>gbl. Ret (''gbl.pdf'', ''%PDF'')) carrier_session 7
      (carried awarded_shipment (Some True), Map.empty) = (ws', Reply 201 doc) \<and> md_ShipmentID doc = Some 7
    \<and> fst (CreateGovBillOfLading sample_carrier_env pdf_storer (\<lambda>_. Ret ''gbl'') (\<lambda>gbl. Ret (''gbl.pdf'', ''%PDF'')) carrier_session 7 ws') = ws'"
proof -
  obtain ws' doc where "CreateGovBillOfLading sample_carrier_env pdf_storer (\<lambda>_. Ret ''gbl'') (\<lambda>gbl. Ret (''gbl.pdf'', ''%PDF'')) carrier_session 7
      (carried awarded_shipment (Some True), Map.empty) = (ws', Reply 201 doc)" using bill_made by blast
  from one_bill_of_lading [OF this carried_fetched(5,4) [OF awarded_facts(1)],
      of sample_carrier_env pdf_storer "\<lambda>_. Ret ''gbl''" "\<lambda>gbl. Ret (''gbl.pdf'', ''%PDF'')"] this
  show ?thesis by (intro exI [of _ ws'] exI [of _ doc]) (simp add: sample_env_fields)
qed

end
