(* ===== verification/LineItemHandlers.thy ===== *)
theory LineItemHandlers
  imports Shipments
begin

text \<open>
  Line items of a shipment as the public API serves them (\<open>pkg/handlers/publicapi/shipment_line_items.go\<close>): listing,
  creating, updating, deleting and approving them, and pricing them again.  The rows of users, shipments and offers are
  the \<open>tables\<close> a session is checked against; the line items are those of \<open>li_world\<close>.
\<close>

section \<open>Requests\<close>

record dimensions_payload =
  dp_Length :: "int option"
  dp_Width :: "int option"
  dp_Height :: "int option"

record line_item_payload =
  lp_Tariff400ngItemID :: uuid
  lp_Quantity1 :: "int option"
  lp_Quantity2 :: "int option"
  lp_Location :: ShipmentLineItemLocation
  lp_Notes :: string
  lp_ItemDimensions :: "dimensions_payload option"
  lp_CrateDimensions :: "dimensions_payload option"
  lp_Description :: "string option"
  lp_Reason :: "string option"
  lp_EstimateAmountCents :: "int option"
  lp_ActualAmountCents :: "int option"
  lp_Date :: "gotime option"
  lp_Time :: "string option"
  lp_Address :: "address_payload option"

text \<open>\<open>FmtString\<close> gives a pointer to the notes, so that notes that were not sent are empty ones.\<close>

definition base_params :: "line_item_payload \<Rightarrow> Tariff400ngItem \<Rightarrow> BaseShipmentLineItemParams" where
  "base_params p it = \<lparr>bp_Tariff400ngItemID = lp_Tariff400ngItemID p, bp_Tariff400ngItemCode = it_Code it,
     bp_Quantity1 = lp_Quantity1 p, bp_Quantity2 = lp_Quantity2 p, bp_Location = lp_Location p, bp_Notes = Some (lp_Notes p)\<rparr>"

definition given_dimensions :: "dimensions_payload option \<Rightarrow> AdditionalLineItemDimensions option result" where
  "given_dimensions d = (case d of
      None \<Rightarrow> Ret None
    | Some d \<Rightarrow> obind (deref (dp_Length d)) (\<lambda>l. obind (deref (dp_Width d)) (\<lambda>w. obind (deref (dp_Height d)) (\<lambda>h.
        Ret (Some \<lparr>ald_Length = l, ald_Width = w, ald_Height = h\<rparr>)))))"

definition additional_params :: "line_item_payload \<Rightarrow> AdditionalShipmentLineItemParams result" where
  "additional_params p =
     obind (given_dimensions (lp_ItemDimensions p)) (\<lambda>itemDimensions.
     obind (given_dimensions (lp_CrateDimensions p)) (\<lambda>crateDimensions.
     obind (patched_address (lp_Address p) None) (\<lambda>address.
     Ret \<lparr>xp_Description = lp_Description p, xp_ItemDimensions = itemDimensions, xp_CrateDimensions = crateDimensions,
       xp_Reason = lp_Reason p, xp_EstimateAmountCents = lp_EstimateAmountCents p, xp_ActualAmountCents = lp_ActualAmountCents p,
       xp_Date = lp_Date p, xp_Time = lp_Time p, xp_Address = address\<rparr>)))"

section \<open>The handlers\<close>

text \<open>The rest of a handler after a call; an error is answered.\<close>

definition continuing :: "li_world \<Rightarrow> 'a result \<Rightarrow> ('a \<Rightarrow> li_world \<times> 'b reply) \<Rightarrow> li_world \<times> 'b reply" where
  "continuing w r k = (case r of Ret x \<Rightarrow> k x
     | Fail e \<Rightarrow> (w, Refusal (ErrorResponse (ResponseForError (Some e)))) | Panic \<Rightarrow> (w, Crashed))"

lemma continuing_simps [simp]:
  "continuing w (Ret x) k = k x" "continuing w (Fail e) k = (w, Refusal (ErrorResponse (ResponseForError (Some e))))"
  "continuing w Panic k = (w, Crashed)"
  by (simp_all add: continuing_def)

text \<open>A carrier's user must have been offered the shipment; an office user may have any.\<close>

definition with_shipment :: "tables \<Rightarrow> Session \<Rightarrow> uuid \<Rightarrow> li_world \<Rightarrow> (Shipment \<Rightarrow> li_world \<times> 'b reply) \<Rightarrow> li_world \<times> 'b reply" where
  "with_shipment t session shipmentID w k =
     (if IsTspUser session then continuing w (FetchShipmentForVerifiedTSPUser t (ss_TspUserID session) shipmentID) k
      else if IsOfficeUser session then continuing w (FetchShipment t session shipmentID) k
      else (w, Bare 403))"

definition answer_saved :: "(ShipmentLineItem saved) result \<Rightarrow> li_world \<Rightarrow> (li_world \<Rightarrow> ShipmentLineItem \<Rightarrow> li_world \<times> 'b reply) \<Rightarrow> li_world \<times> 'b reply" where
  "answer_saved r w k = continuing w r (\<lambda>(w', li, verrs, err).
     if verrs \<noteq> [] \<or> err \<noteq> None then (w', Refusal (ResponseForVErrors verrs err)) else k w' li)"

definition GetShipmentLineItemsHandler :: "sit_world \<Rightarrow> Session \<Rightarrow> uuid \<Rightarrow> li_world \<Rightarrow> li_world \<times> ShipmentLineItem list reply" where
  "GetShipmentLineItemsHandler sw session shipmentID w =
     (case GetShipmentLineItemsByShipmentID sw shipmentID session w of (w', r) \<Rightarrow> continuing w' r (\<lambda>items. (w', Reply 200 items)))"

definition CreateShipmentLineItemHandler ::
    "gotime \<Rightarrow> tables \<Rightarrow> Session \<Rightarrow> uuid \<Rightarrow> line_item_payload \<Rightarrow> li_world \<Rightarrow> li_world \<times> ShipmentLineItem reply" where
  "CreateShipmentLineItemHandler now t session shipmentID payload w =
     with_shipment t session shipmentID w (\<lambda>shipment.
     continuing w (FetchTariff400ngItem (lw_items w) (lp_Tariff400ngItemID payload)) (\<lambda>tariff400ngItem.
     if \<not> it_RequiresPreApproval tariff400ngItem then (w, Bare 403)
     else continuing w (additional_params payload) (\<lambda>additionalParams.
     answer_saved (CreateShipmentLineItem shipment now w (base_params payload tariff400ngItem) additionalParams) w
       (\<lambda>w' li. (w', Reply 201 li)))))"

text \<open>What an update does to an item that was approved or conditionally approved: with an actual amount it is priced, if the
  shipment is delivered, and approved; without one its price is removed and it is conditionally approved again.\<close>

definition priced_if_delivered :: "tariff_db \<Rightarrow> Shipment \<Rightarrow> ShipmentLineItem \<Rightarrow> ShipmentLineItem result" where
  "priced_if_delivered db shipment li =
     (if shp_Status shipment = ShipmentStatusDELIVERED then PriceAdditionalRequest db shipment li else Ret li)"

definition once_approved :: "ShipmentLineItem \<Rightarrow> bool" where
  "once_approved li \<longleftrightarrow> li_Status li = LineItemStatusCONDITIONALLYAPPROVED \<or> li_Status li = LineItemStatusAPPROVED"

definition approve_updated ::
    "tariff_db \<Rightarrow> gotime \<Rightarrow> Shipment \<Rightarrow> ShipmentLineItem \<Rightarrow> li_world
      \<Rightarrow> (ShipmentLineItem \<Rightarrow> li_world \<times> 'b reply) \<Rightarrow> li_world \<times> 'b reply" where
  "approve_updated db now shipment li w k =
     (if once_approved li \<and> li_ActualAmountCents li \<noteq> None then
        continuing w (priced_if_delivered db shipment li) (\<lambda>li.
        if li_Status li = LineItemStatusCONDITIONALLYAPPROVED then
          (case ShipmentLineItem_Approve now li of (li, None) \<Rightarrow> k li | (_, Some _) \<Rightarrow> (w, Bare 403))
        else k li)
      else k li)"

definition reopen_updated ::
    "gotime \<Rightarrow> Shipment \<Rightarrow> ShipmentLineItem \<Rightarrow> li_world \<Rightarrow> (ShipmentLineItem \<Rightarrow> li_world \<times> 'b reply) \<Rightarrow> li_world \<times> 'b reply" where
  "reopen_updated now shipment li w k =
     (if once_approved li \<and> li_ActualAmountCents li = None then
        let li = (if shp_Status shipment = ShipmentStatusDELIVERED then li\<lparr>li_AmountCents := None, li_AppliedRate := None\<rparr> else li) in
        if li_Status li = LineItemStatusAPPROVED then
          (case ShipmentLineItem_ConditionallyApprove now li of (li, None) \<Rightarrow> k li | (_, Some _) \<Rightarrow> (w, Bare 403))
        else k li
      else k li)"

text \<open>The result of the last save is dropped: the answer shows the item as it is in memory.\<close>

definition update_and_answer :: "nat \<Rightarrow> li_world \<Rightarrow> ShipmentLineItem \<Rightarrow> li_world \<times> ShipmentLineItem reply" where
  "update_and_answer code w li = (fst (update_line_item w li), Reply code li)"

text \<open>An item of the tariff that is not found is the zero one, which requires no approval.\<close>

definition UpdateShipmentLineItemHandler ::
    "tariff_db \<Rightarrow> gotime \<Rightarrow> tables \<Rightarrow> Session \<Rightarrow> uuid \<Rightarrow> line_item_payload \<Rightarrow> li_world \<Rightarrow> li_world \<times> ShipmentLineItem reply" where
  "UpdateShipmentLineItemHandler db now t session lineItemID payload w =
     (case FetchShipmentLineItemByID w (Some lineItemID) of
        (_, Some _) \<Rightarrow> (w, Bare 500)
      | (item, None) \<Rightarrow> with_shipment t session (li_ShipmentID item) w (\<lambda>shipment.
          case FetchTariff400ngItem (lw_items w) (lp_Tariff400ngItemID payload) of
            Ret tariff400ngItem \<Rightarrow>
              if \<not> it_RequiresPreApproval tariff400ngItem then (w, Bare 403)
              else if li_Status item = LineItemStatusAPPROVED
                \<and> \<not> (it_Code tariff400ngItem = ''35A'' \<and> li_EstimateAmountCents item \<noteq> None \<and> li_InvoiceID item = None)
              then (w, Bare 422)
              else continuing w (additional_params payload) (\<lambda>additionalParams.
                answer_saved (UpdateShipmentLineItem w (base_params payload tariff400ngItem) additionalParams item) w (\<lambda>w' li.
                approve_updated db now shipment li w' (\<lambda>li.
                reopen_updated now shipment li w' (update_and_answer 200 w'))))
          | _ \<Rightarrow> (w, Bare 403)))"

definition DeleteShipmentLineItemHandler :: "tables \<Rightarrow> Session \<Rightarrow> uuid \<Rightarrow> li_world \<Rightarrow> li_world \<times> ShipmentLineItem reply" where
  "DeleteShipmentLineItemHandler t session lineItemID w =
     (case FetchShipmentLineItemByID w (Some lineItemID) of
        (_, Some e) \<Rightarrow> (w, Bare (if Cause e = NoRows then 404 else 500))
      | (item, None) \<Rightarrow>
          if \<not> it_RequiresPreApproval (li_Tariff400ngItem item) then (w, Bare 403)
          else with_shipment t session (li_ShipmentID item) w (\<lambda>_.
            case destroy_line_item item w of
              (w', Some e) \<Rightarrow> (w', Refusal (ErrorResponse (ResponseForError (Some e))))
            | (w', None) \<Rightarrow> (w', Reply 200 item)))"

definition ApproveShipmentLineItemHandler ::
    "tariff_db \<Rightarrow> gotime \<Rightarrow> tables \<Rightarrow> Session \<Rightarrow> uuid \<Rightarrow> li_world \<Rightarrow> li_world \<times> ShipmentLineItem reply" where
  "ApproveShipmentLineItemHandler db now t session lineItemID w =
     (case FetchShipmentLineItemByID w (Some lineItemID) of
        (_, Some _) \<Rightarrow> (w, Bare 500)
      | (item, None) \<Rightarrow>
          if \<not> (it_RequiresPreApproval (li_Tariff400ngItem item) \<and> IsOfficeUser session) then (w, Bare 403)
          else continuing w (FetchShipment t session (li_ShipmentID item)) (\<lambda>shipment.
            case (if it_Code (li_Tariff400ngItem item) = ''35A'' \<and> li_EstimateAmountCents item \<noteq> None \<and> li_ActualAmountCents item = None
                then ShipmentLineItem_ConditionallyApprove now item else ShipmentLineItem_Approve now item) of
              (_, Some _) \<Rightarrow> (w, Bare 403)
            | (li, None) \<Rightarrow>
                continuing w (if li_Status li = LineItemStatusAPPROVED then priced_if_delivered db shipment li else Ret li)
                  (update_and_answer 200 w)))"

text \<open>Every error of the service but a forbidden access is answered as one that is not known.\<close>

definition RecalculateShipmentLineItemsHandler ::
    "tariff_db \<Rightarrow> distanceCalculator \<Rightarrow> gotime \<Rightarrow> ShipmentRecalculate list \<Rightarrow> sit_world \<Rightarrow> Session \<Rightarrow> uuid \<Rightarrow> li_world
      \<Rightarrow> li_world \<times> ShipmentLineItem list reply" where
  "RecalculateShipmentLineItemsHandler db planner now rows sw session shipmentID w =
     (case RecalculateShipmentLineItems db planner now rows sw shipmentID session w of (w', r) \<Rightarrow>
       continuing w' (map_fail (\<lambda>e. if e = ErrFetchForbidden then e
           else ErrMsg ''User was authorized but failed to recalculate shipment for id %s'') r) (\<lambda>items. (w', Reply 200 items)))"

section \<open>The rows a request writes\<close>

lemmas world_writes = create_dims_def update_dims_def create_address_def update_address_def LineItems.after_save_def

text \<open>The forms of the item codes write dimensions and addresses only, and leave what identifies the item.\<close>

definition same_items :: "li_world \<Rightarrow> li_world \<Rightarrow> bool" where
  "same_items w w' \<longleftrightarrow> lw_line_items w' = lw_line_items w \<and> lw_fresh w \<le> lw_fresh w' \<and> lw_save_line_item w' = lw_save_line_item w
     \<and> lw_items w' = lw_items w"

lemma same_items_refl [simp]: "same_items w w"
  by (simp add: same_items_def)

lemma same_items_trans: "same_items w w1 \<Longrightarrow> same_items w1 w2 \<Longrightarrow> same_items w w2"
  by (simp add: same_items_def)

definition same_identity :: "ShipmentLineItem \<Rightarrow> ShipmentLineItem \<Rightarrow> bool" where
  "same_identity li li' \<longleftrightarrow> li_ID li' = li_ID li \<and> li_Status li' = li_Status li \<and> li_InvoiceID li' = li_InvoiceID li"

lemma same_identity_refl [simp]: "same_identity li li"
  by (simp add: same_identity_def)

lemma dims_same_items:
  "create_dims w d = (w', d', ve, err) \<Longrightarrow> same_items w w'" "update_dims w d = (w', d', ve, err) \<Longrightarrow> same_items w w'"
  "create_address w a = (w', a', ve, err) \<Longrightarrow> same_items w w'" "update_address w a = (w', a', ve, err) \<Longrightarrow> same_items w w'"
  by (auto simp: world_writes same_items_def Let_def split: if_splits)

definition quiet :: "li_world \<Rightarrow> ShipmentLineItem \<Rightarrow> upsert \<Rightarrow> bool" where
  "quiet w li r \<longleftrightarrow> (\<forall>w' li' ve err. r = Ret (w', li', ve, err) \<longrightarrow> same_items w w' \<and> same_identity li li')"

lemma quiet_Ret: "same_items w w' \<Longrightarrow> same_identity li li' \<Longrightarrow> quiet w li (Ret (w', li', ve, err))"
  by (simp add: quiet_def)

lemma quiet_stop [simp]: "quiet w li (Fail e)" "quiet w li Panic"
  by (simp_all add: quiet_def)

lemma quiet_after_save:
  assumes "\<And>w' x ve err. c = (w', x, ve, err) \<Longrightarrow> same_items w1 w'" "same_items w w1" "\<And>w' x. same_identity li (failed w' x)"
    "\<And>w' x. same_items w w' \<Longrightarrow> quiet w li (k w' x)"
  shows "quiet w li (LineItems.after_save c failed m k)"
proof -
  obtain w' x ve err where c: "c = (w', x, ve, err)" by (metis prod_cases4)
  then have "same_items w w'" using assms(1,2) same_items_trans by blast
  with assms(3,4) show ?thesis by (simp add: c LineItems.after_save_def quiet_Ret)
qed

lemma quiet_bind: "(\<And>x. r = Ret x \<Longrightarrow> quiet w li (k x)) \<Longrightarrow> quiet w li (obind r k)"
  by (cases r) simp_all

lemma create_dims_quiet: "quiet w li (createShipmentLineItemDimensions w p li)"
  unfolding createShipmentLineItemDimensions_def Let_def
  by (intro quiet_bind quiet_after_save quiet_Ret) (erule dims_same_items | assumption | simp add: same_identity_def)+

lemma update_dims_quiet: "quiet w li (updateShipmentLineItemDimensions w p li)"
  unfolding updateShipmentLineItemDimensions_def Let_def
  by (intro quiet_bind quiet_after_save quiet_Ret) (erule dims_same_items | assumption | simp add: same_identity_def)+

lemma quiet_obind:
  assumes "quiet w li r" "\<And>w1 li1 ve err. same_items w w1 \<Longrightarrow> same_identity li li1 \<Longrightarrow> quiet w li (k w1 li1 ve err)"
  shows "quiet w li (obind r (\<lambda>(w1, li1, ve, err). k w1 li1 ve err))"
proof (cases r)
  case (Ret x)
  obtain w1 li1 ve err where "x = (w1, li1, ve, err)" by (metis prod_cases4)
  with assms(1) Ret have "same_items w w1 \<and> same_identity li li1" by (simp add: quiet_def)
  with assms(2) Ret \<open>x = _\<close> show ?thesis by simp
qed simp_all

lemma quiet_if: "(c \<Longrightarrow> quiet w li r) \<Longrightarrow> (\<not> c \<Longrightarrow> quiet w li q) \<Longrightarrow> quiet w li (if c then r else q)"
  by simp

lemma quiet_outcome:
  "(\<And>x. quiet w li (f x)) \<Longrightarrow> (\<And>e. quiet w li (g e)) \<Longrightarrow> quiet w li (case r of Ret x \<Rightarrow> f x | Fail e \<Rightarrow> g e | Panic \<Rightarrow> Panic)"
  by (simp split: outcome.split)

lemma dependency_quiet:
  "quiet w li (upsertItemCode105Dependency w p li)" "quiet w li (upsertItemCode35ADependency w p li)"
  "quiet w li (upsertItemCode226ADependency w p li)" "quiet w li (upsertItemCode125Dependency w p li)"
  "quiet w li (upsertDefaultDependency w b li)"
proof -
  show "quiet w li (upsertItemCode105Dependency w p li)"
    unfolding upsertItemCode105Dependency_def Let_def
    by (intro quiet_if quiet_obind quiet_bind quiet_outcome quiet_Ret)
      (assumption | simp add: same_identity_def create_dims_quiet update_dims_quiet)+
  show "quiet w li (upsertItemCode35ADependency w p li)" "quiet w li (upsertItemCode226ADependency w p li)"
    "quiet w li (upsertDefaultDependency w b li)"
    by (auto simp: upsertItemCode35ADependency_def quantity_35A_def upsertItemCode226ADependency_def upsertDefaultDependency_def
        same_identity_def intro!: quiet_Ret quiet_bind split: option.split)
  show "quiet w li (upsertItemCode125Dependency w p li)"
    unfolding upsertItemCode125Dependency_def Let_def
    by (auto intro!: quiet_Ret quiet_bind quiet_after_save intro: dims_same_items same_items_refl
        simp: same_identity_def split: option.split)
qed

lemma upsert_quiet: "quiet w li (upsertItemCodeDependency w b p li)"
  by (simp add: upsertItemCodeDependency_def Let_def dependency_quiet)

text \<open>Updating an item writes its row only, creating one appends a row with a fresh identifier.\<close>

definition only_item :: "uuid \<Rightarrow> li_world \<Rightarrow> li_world \<Rightarrow> bool" where
  "only_item i w w' \<longleftrightarrow> lw_fresh w \<le> lw_fresh w'
     \<and> ((\<exists>u. li_ID u = i \<and> lw_line_items w' = map (\<lambda>r. if li_ID r = i then u else r) (lw_line_items w))
       \<or> lw_line_items w' = lw_line_items w)"

lemma update_only_item: "update_line_item w li = (w', li', ve, err) \<Longrightarrow> only_item (li_ID li) w w' \<and> li' = li"
  by (auto simp: update_line_item_def only_item_def split: if_splits)

lemma only_item_trans:
  assumes "only_item i w w1" "only_item i w1 w2"
  shows "only_item i w w2"
proof -
  have "map (\<lambda>r. if li_ID r = i then v else r) (map (\<lambda>r. if li_ID r = i then u else r) rs) = map (\<lambda>r. if li_ID r = i then v else r) rs"
    if "li_ID u = i" for u v rs using that by simp
  with assms show ?thesis unfolding only_item_def by (auto simp: comp_def)
qed

lemma quiet_only_item: "same_items w w1 \<Longrightarrow> only_item i w1 w2 \<Longrightarrow> only_item i w w2"
  by (auto simp: same_items_def only_item_def)

lemma UpdateShipmentLineItem_only:
  assumes "UpdateShipmentLineItem w b p item = Ret (w', li, ve, err)"
  shows "only_item (li_ID item) w w' \<and> li_ID li = li_ID item"
proof -
  obtain w1 li1 ve1 err1 where u: "upsertItemCodeDependency w b p item = Ret (w1, li1, ve1, err1)"
    using assms by (auto simp: UpdateShipmentLineItem_def with_dependency_def obind_eq_Ret)
  with upsert_quiet [of w item b p] have q: "same_items w w1" "li_ID li1 = li_ID item"
    by (auto simp: quiet_def same_identity_def)
  define row where "row = (if li_Status li1 \<noteq> LineItemStatusAPPROVED
           then li1\<lparr>li_Tariff400ngItemID := bp_Tariff400ngItemID b,
             li_Quantity2 := (case bp_Quantity2 b of None \<Rightarrow> li_Quantity2 li1 | Some q \<Rightarrow> q),
             li_Location := bp_Location b,
             li_Notes := (case bp_Notes b of None \<Rightarrow> li_Notes li1 | Some n \<Rightarrow> n)\<rparr>
           else li1)"
  have row: "li_ID row = li_ID item" by (simp add: row_def q(2))
  obtain w2 li2 ve2 err2 where s: "update_line_item w1 row = (w2, li2, ve2, err2)" by (metis prod_cases4)
  note o = update_only_item [OF s]
  have "(w' = w \<and> (li = li1 \<or> li = li2)) \<or> (w' = w2 \<and> li = load_line_item w2 li2)"
    using assms s by (cases ve1) (auto simp: UpdateShipmentLineItem_def with_dependency_def u row_def [symmetric] save_and_load_def
        split: if_splits option.splits)
  moreover have "only_item i w w" for i by (simp add: only_item_def)
  moreover have "li_ID (load_line_item v x) = li_ID x" for v x by (simp add: load_line_item_def split: outcome.split)
  moreover have "only_item (li_ID item) w w2" using o row q(1) quiet_only_item by metis
  ultimately show ?thesis using o row q(2) by auto
qed

lemma CreateShipmentLineItem_appends:
  assumes "CreateShipmentLineItem s now w b p = Ret (w', li, ve, err)"
  shows "lw_fresh w \<le> lw_fresh w' \<and> (lw_line_items w' = lw_line_items w
    \<or> (\<exists>u. lw_line_items w' = lw_line_items w @ [u] \<and> lw_fresh w \<le> li_ID u \<and> li_ID u < lw_fresh w'))"
proof -
  obtain w1 li1 ve1 err1 where u: "upsertItemCodeDependency w b p zero_line_item = Ret (w1, li1, ve1, err1)"
    using assms by (auto simp: CreateShipmentLineItem_def with_dependency_def obind_eq_Ret)
  with upsert_quiet [of w zero_line_item b p] have q: "same_items w w1" by (auto simp: quiet_def)
  define row where "row = li1\<lparr>li_ShipmentID := shp_ID s, li_Tariff400ngItemID := bp_Tariff400ngItemID b,
           li_Quantity2 := (case bp_Quantity2 b of None \<Rightarrow> 0 | Some q \<Rightarrow> q),
           li_Location := bp_Location b, li_Notes := (case bp_Notes b of None \<Rightarrow> '''' | Some n \<Rightarrow> n),
           li_SubmittedDate := now, li_Status := LineItemStatusSUBMITTED\<rparr>"
  obtain w2 li2 ve2 err2 where s: "create_line_item w1 row = (w2, li2, ve2, err2)" by (metis prod_cases4)
  moreover have "w' = w \<or> w' = w2"
    using assms s by (cases ve1) (auto simp: CreateShipmentLineItem_def with_dependency_def u row_def [symmetric] save_and_load_def
        split: if_splits option.splits)
  moreover have "lw_fresh w1 \<le> lw_fresh w2 \<and> (lw_line_items w2 = lw_line_items w1
      \<or> (\<exists>u. lw_line_items w2 = lw_line_items w1 @ [u] \<and> lw_fresh w1 \<le> li_ID u \<and> li_ID u < lw_fresh w2))"
    using s by (auto simp: create_line_item_def Let_def split: if_splits)
  ultimately show ?thesis using q by (auto simp: same_items_def)
qed

lemma destroy_line_item_rows:
  assumes "destroy_line_item item w = (w', err)"
  shows "lw_fresh w' = lw_fresh w \<and> (lw_line_items w' = lw_line_items w
    \<or> li_InvoiceID item = None \<and> lw_line_items w' = filter (\<lambda>r. li_ID r \<noteq> li_ID item) (lw_line_items w))"
  using assms by (auto simp: destroy_line_item_def BeforeDestroy_def AfterDestroy_def destroy_dims_def destroy_address_def and_then_def
      split: if_splits option.splits prod.splits)

lemma load_line_item_fields [simp]:
  "li_ID (load_line_item w r) = li_ID r" "li_Status (load_line_item w r) = li_Status r" "li_InvoiceID (load_line_item w r) = li_InvoiceID r"
  "li_ShipmentID (load_line_item w r) = li_ShipmentID r" "li_EstimateAmountCents (load_line_item w r) = li_EstimateAmountCents r"
  "li_ActualAmountCents (load_line_item w r) = li_ActualAmountCents r" "li_Quantity1 (load_line_item w r) = li_Quantity1 r"
  by (simp_all add: load_line_item_def split: outcome.split)

lemma fetched_item:
  assumes "FetchShipmentLineItemByID w (Some i) = (item, None)"
  shows "\<exists>r \<in> set (lw_line_items w). item = load_line_item w r \<and> li_ID r = i \<and> li_ID item = i \<and> li_Status item = li_Status r
    \<and> li_InvoiceID item = li_InvoiceID r \<and> li_ShipmentID item = li_ShipmentID r
    \<and> li_EstimateAmountCents item = li_EstimateAmountCents r \<and> li_ActualAmountCents item = li_ActualAmountCents r"
proof -
  obtain r where "first_row (filter (\<lambda>r. li_ID r = i) (lw_line_items w)) = Ret r" "item = load_line_item w r"
    using assms by (auto simp: FetchShipmentLineItemByID_def errors_Wrap_def first_row_not_Panic split: outcome.splits)
  with first_row_filter_Ret [OF this(1)] show ?thesis by (intro bexI [of _ r]) simp_all
qed

section \<open>Invoiced items are frozen\<close>

lemma with_shipment_keeps: "P w \<Longrightarrow> (\<And>s. P (fst (k s))) \<Longrightarrow> P (fst (with_shipment t session i w k))"
  by (simp add: with_shipment_def continuing_def split: outcome.split)

lemma continuing_keeps: "P w \<Longrightarrow> (\<And>x. r = Ret x \<Longrightarrow> P (fst (k x))) \<Longrightarrow> P (fst (continuing w r k))"
  by (cases r) simp_all

lemma approve_updated_keeps:
  assumes "P w" "\<And>li'. li_ID li' = li_ID li \<Longrightarrow> P (fst (k li'))"
  shows "P (fst (approve_updated db now s li w k))"
proof -
  have priced: "li_ID x = li_ID li" if "priced_if_delivered db s li = Ret x" for x
    using that by (auto simp: priced_if_delivered_def PriceAdditionalRequest_def obind_eq_Ret split: if_splits)
  have "P (fst (case ShipmentLineItem_Approve now x of (li, None) \<Rightarrow> k li | (_, Some _) \<Rightarrow> (w, Bare 403)))"
    if "li_ID x = li_ID li" for x
  proof -
    obtain y e where y: "ShipmentLineItem_Approve now x = (y, e)" by fastforce
    then have "li_ID y = li_ID x" by (auto simp: ShipmentLineItem_Approve_def line_item_now_def refuse_def accept_def split: if_splits)
    then have "P (fst (k y))" using that by (intro assms(2)) simp
    with y assms(1) show ?thesis by (cases e) simp_all
  qed
  note approved = this
  have "P (fst (continuing w (priced_if_delivered db s li) (\<lambda>li. if li_Status li = LineItemStatusCONDITIONALLYAPPROVED
      then (case ShipmentLineItem_Approve now li of (li, None) \<Rightarrow> k li | (_, Some _) \<Rightarrow> (w, Bare 403)) else k li)))"
  proof (rule continuing_keeps)
    fix x
    assume "priced_if_delivered db s li = Ret x"
    note x = priced [OF this]
    from approved [OF x] assms(2) [OF x]
    show "P (fst (if li_Status x = LineItemStatusCONDITIONALLYAPPROVED
      then (case ShipmentLineItem_Approve now x of (li, None) \<Rightarrow> k li | (_, Some _) \<Rightarrow> (w, Bare 403)) else k x))" by simp
  qed (rule assms(1))
  then show ?thesis using assms(2) [of li] by (simp add: approve_updated_def)
qed

lemma reopen_updated_keeps:
  assumes "P w" "\<And>li'. li_ID li' = li_ID li \<Longrightarrow> P (fst (k li'))"
  shows "P (fst (reopen_updated now s li w k))"
proof -
  define x where "x = (if shp_Status s = ShipmentStatusDELIVERED then li\<lparr>li_AmountCents := None, li_AppliedRate := None\<rparr> else li)"
  have x: "li_ID x = li_ID li" by (simp add: x_def)
  obtain y e where y: "ShipmentLineItem_ConditionallyApprove now x = (y, e)" by fastforce
  then have "li_ID y = li_ID x"
    by (auto simp: ShipmentLineItem_ConditionallyApprove_def line_item_now_def refuse_def accept_def split: if_splits)
  then have "P (fst (k y))" "P (fst (k x))" "P (fst (k li))" using x by (auto intro!: assms(2))
  then show ?thesis using y assms(1) by (cases e) (simp_all add: reopen_updated_def x_def [symmetric])
qed

text \<open>Identifiers are distinct and below the fresh one.\<close>

definition items_ok :: "li_world \<Rightarrow> bool" where
  "items_ok w \<longleftrightarrow> distinct (map li_ID (lw_line_items w)) \<and> (\<forall>r \<in> set (lw_line_items w). li_ID r < lw_fresh w)"

lemma map_ID_update: "li_ID u = i \<Longrightarrow> map li_ID (map (\<lambda>r. if li_ID r = i then u else r) rs) = map li_ID rs"
  by (induction rs) auto

lemma items_ok_only: "items_ok w \<Longrightarrow> only_item i w w' \<Longrightarrow> items_ok w'"
  unfolding items_ok_def only_item_def by (force simp del: map_map simp: map_ID_update)

text \<open>A request leaves the rows of all items but one, and the world well formed.\<close>

definition serves :: "uuid \<Rightarrow> li_world \<Rightarrow> li_world \<Rightarrow> bool" where
  "serves i w w' \<longleftrightarrow> (items_ok w \<longrightarrow> items_ok w') \<and> (\<forall>r \<in> set (lw_line_items w). li_ID r \<noteq> i \<longrightarrow> r \<in> set (lw_line_items w'))"

lemma serves_refl [simp]: "serves i w w"
  by (simp add: serves_def)

lemma only_item_serves: "only_item i w w' \<Longrightarrow> serves i w w'"
  using items_ok_only by (auto simp: serves_def only_item_def)

lemma update_serves:
  "serves i w (fst (UpdateShipmentLineItemHandler db now t session i payload w))"
proof (cases "FetchShipmentLineItemByID w (Some i)")
  case (Pair item e)
  show ?thesis
  proof (cases e)
    case None
    with Pair fetched_item have i: "li_ID item = i" by blast
    have saved: "serves i w (fst (approve_updated db now s li w1 (\<lambda>li. reopen_updated now s li w1 (update_and_answer 200 w1))))"
      if "UpdateShipmentLineItem w b p item = Ret (w1, li, ve, err)" for b p w1 li ve err s
    proof -
      note o = UpdateShipmentLineItem_only [OF that]
      have "serves i w w1" using o i only_item_serves by blast
      moreover have "serves i w (fst (update_and_answer 200 w1 x))" if "li_ID x = li_ID li" for x
      proof -
        obtain w2 x2 ve2 err2 where u: "update_line_item w1 x = (w2, x2, ve2, err2)" by (metis prod_cases4)
        have "only_item i w w1" using o i by simp
        moreover have "only_item i w1 w2" using update_only_item [OF u] that o i by simp
        ultimately have "only_item i w w2" by (rule only_item_trans)
        then show ?thesis using u by (simp add: update_and_answer_def only_item_serves)
      qed
      ultimately show ?thesis
        by (intro approve_updated_keeps [where P = "serves i w"] reopen_updated_keeps [where P = "serves i w"]) simp_all
    qed
    have upd: "serves i w w1" if "UpdateShipmentLineItem w b p item = Ret (w1, li, ve, err)" for b p w1 li ve err
      using UpdateShipmentLineItem_only [OF that] i only_item_serves by blast
    have "serves i w (fst (answer_saved (UpdateShipmentLineItem w b p item) w (\<lambda>w1 li.
        approve_updated db now s li w1 (\<lambda>li. reopen_updated now s li w1 (update_and_answer 200 w1)))))" for b p s
      unfolding answer_saved_def
      by (rule continuing_keeps [where P = "serves i w"]) (auto intro!: saved intro: upd)
    then show ?thesis
      by (auto simp: UpdateShipmentLineItemHandler_def Pair None split: outcome.split
          intro!: with_shipment_keeps [where P = "serves i w"] continuing_keeps [where P = "serves i w"])
  qed (simp add: UpdateShipmentLineItemHandler_def Pair)
qed


lemma delete_serves: "serves i w (fst (DeleteShipmentLineItemHandler t session i w))"
proof (cases "FetchShipmentLineItemByID w (Some i)")
  case (Pair item e)
  show ?thesis
  proof (cases e)
    case None
    with Pair fetched_item have i: "li_ID item = i" by blast
    have "serves i w w'" if "destroy_line_item item w = (w', err)" for w' err
      using destroy_line_item_rows [OF that] by (auto simp: serves_def items_ok_def i distinct_map_filter)
    then have "serves i w (fst (case destroy_line_item item w of (w', Some e) \<Rightarrow> (w', Refusal (ErrorResponse (ResponseForError (Some e))))
        | (w', None) \<Rightarrow> (w', Reply 200 item)))" by (auto split: prod.split option.split)
    then show ?thesis
      by (auto simp: DeleteShipmentLineItemHandler_def Pair None intro!: with_shipment_keeps [where P = "serves i w"])
  qed (simp add: DeleteShipmentLineItemHandler_def Pair)
qed

lemma approved_ID:
  "ShipmentLineItem_Approve now x = (y, e) \<Longrightarrow> li_ID y = li_ID x"
  "ShipmentLineItem_ConditionallyApprove now x = (y, e) \<Longrightarrow> li_ID y = li_ID x"
  by (auto simp: ShipmentLineItem_Approve_def ShipmentLineItem_ConditionallyApprove_def line_item_now_def refuse_def accept_def split: if_splits)

lemma priced_ID: "priced_if_delivered db s x = Ret y \<Longrightarrow> li_ID y = li_ID x"
  by (auto simp: priced_if_delivered_def PriceAdditionalRequest_def obind_eq_Ret split: if_splits)

lemma approve_serves: "serves i w (fst (ApproveShipmentLineItemHandler db now t session i w))"
proof (cases "FetchShipmentLineItemByID w (Some i)")
  case (Pair item e)
  show ?thesis
  proof (cases e)
    case None
    with Pair fetched_item have i: "li_ID item = i" by blast
    have up: "serves i w (fst (update_and_answer 200 w x))" if "li_ID x = i" for x
      using update_only_item [of w x] that by (cases "update_line_item w x") (auto simp: update_and_answer_def intro: only_item_serves)
    define c where "c = (if it_Code (li_Tariff400ngItem item) = ''35A'' \<and> li_EstimateAmountCents item \<noteq> None \<and> li_ActualAmountCents item = None
      then ShipmentLineItem_ConditionallyApprove now item else ShipmentLineItem_Approve now item)"
    obtain y ye where y: "c = (y, ye)" by fastforce
    then have "li_ID y = i" using i by (auto simp: c_def dest: approved_ID split: if_splits)
    then have "li_ID x = i" if "(if li_Status y = LineItemStatusAPPROVED then priced_if_delivered db s y else Ret y) = Ret x" for s x
      using that by (auto dest: priced_ID split: if_splits)
    then have "serves i w (fst (continuing w (if li_Status y = LineItemStatusAPPROVED then priced_if_delivered db s y else Ret y)
        (update_and_answer 200 w)))" for s
      using up by (intro continuing_keeps [where P = "serves i w"]) simp_all
    then have "serves i w (fst (case c of (_, Some _) \<Rightarrow> (w, Bare 403)
      | (li, None) \<Rightarrow> continuing w (if li_Status li = LineItemStatusAPPROVED then priced_if_delivered db s li else Ret li)
          (update_and_answer 200 w)))" for s by (cases ye) (simp_all add: y)
    then show ?thesis
      by (simp only: ApproveShipmentLineItemHandler_def Pair None prod.case option.case c_def)
        (auto intro!: continuing_keeps [where P = "serves i w"])
  qed (simp add: ApproveShipmentLineItemHandler_def Pair)
qed

definition extends :: "li_world \<Rightarrow> li_world \<Rightarrow> bool" where
  "extends w w' \<longleftrightarrow> items_ok w' \<and> set (lw_line_items w) \<subseteq> set (lw_line_items w')"

lemma create_extends:
  assumes "items_ok w"
  shows "extends w (fst (CreateShipmentLineItemHandler now t session i payload w))"
proof -
  have w: "extends w w" using assms by (simp add: extends_def)
  have "extends w w'" if "CreateShipmentLineItem s now w b p = Ret (w', li, ve, err)" for w' li ve err s b p
    using CreateShipmentLineItem_appends [OF that] assms by (fastforce simp: items_ok_def extends_def)
  then have "extends w (fst (answer_saved (CreateShipmentLineItem s now w b p) w (\<lambda>w' li. (w', Reply 201 li))))" for s b p
    using w by (auto simp: answer_saved_def continuing_def split: outcome.split)
  then show ?thesis
    unfolding CreateShipmentLineItemHandler_def using w
    by (auto intro!: with_shipment_keeps [where P = "extends w"] continuing_keeps [where P = "extends w"])
qed

text \<open>An item that was invoiced, is approved and has the amount it was approved for.\<close>

definition frozen :: "ShipmentLineItem \<Rightarrow> bool" where
  "frozen r \<longleftrightarrow> li_InvoiceID r \<noteq> None \<and> li_Status r = LineItemStatusAPPROVED
     \<and> (li_EstimateAmountCents r = None \<or> li_ActualAmountCents r \<noteq> None)"

lemma fetch_distinct:
  assumes "items_ok w" "r \<in> set (lw_line_items w)"
  shows "FetchShipmentLineItemByID w (Some (li_ID r)) = (load_line_item w r, None)"
proof -
  have "filter (\<lambda>q. li_ID q = li_ID r) (lw_line_items w) = [r]"
    using assms by (intro filter_single) (auto simp: items_ok_def distinct_map dest: inj_onD)
  then show ?thesis by (simp add: FetchShipmentLineItemByID_def)
qed

lemma frozen_unchanged:
  assumes "items_ok w" "r \<in> set (lw_line_items w)" "frozen r"
  shows "fst (UpdateShipmentLineItemHandler db now t session (li_ID r) payload w) = w"
    "fst (DeleteShipmentLineItemHandler t session (li_ID r) w) = w"
    "fst (ApproveShipmentLineItemHandler db now t session (li_ID r) w) = w"
proof -
  note f = fetch_distinct [OF assms(1,2)]
  show "fst (UpdateShipmentLineItemHandler db now t session (li_ID r) payload w) = w"
    using assms(3) by (auto simp: UpdateShipmentLineItemHandler_def f frozen_def split: outcome.split
        intro!: with_shipment_keeps [where P = "\<lambda>v. v = w"])
  have "destroy_line_item (load_line_item w r) w = (w, Some ErrDestroyForbidden)"
    using assms(3) by (simp add: destroy_line_item_def BeforeDestroy_def frozen_def)
  then show "fst (DeleteShipmentLineItemHandler t session (li_ID r) w) = w"
    by (auto simp: DeleteShipmentLineItemHandler_def f intro!: with_shipment_keeps [where P = "\<lambda>v. v = w"])
  have "\<exists>x m. ShipmentLineItem_Approve now (load_line_item w r) = refuse x m"
    using assms(3) by (auto simp: ShipmentLineItem_Approve_def frozen_def)
  then show "fst (ApproveShipmentLineItemHandler db now t session (li_ID r) w) = w"
    using assms(3) by (auto simp: ApproveShipmentLineItemHandler_def f frozen_def refuse_def errors_Wrap_def
        intro!: continuing_keeps [where P = "\<lambda>v. v = w"])
qed

text \<open>Any requests of any users, each against the users and offers of its time.\<close>

datatype li_request =
    RqCreate gotime tables Session uuid line_item_payload
  | RqUpdate tariff_db gotime tables Session uuid line_item_payload
  | RqDelete tables Session uuid
  | RqApprove tariff_db gotime tables Session uuid

primrec li_serve :: "li_request \<Rightarrow> li_world \<Rightarrow> li_world" where
  "li_serve (RqCreate now t session i payload) w = fst (CreateShipmentLineItemHandler now t session i payload w)"
| "li_serve (RqUpdate db now t session i payload) w = fst (UpdateShipmentLineItemHandler db now t session i payload w)"
| "li_serve (RqDelete t session i) w = fst (DeleteShipmentLineItemHandler t session i w)"
| "li_serve (RqApprove db now t session i) w = fst (ApproveShipmentLineItemHandler db now t session i w)"

lemma li_serve_frozen:
  assumes "items_ok w" "r \<in> set (lw_line_items w)" "frozen r"
  shows "items_ok (li_serve rq w) \<and> r \<in> set (lw_line_items (li_serve rq w))"
proof (cases rq)
  case (RqCreate now t session i payload)
  then show ?thesis using create_extends [OF assms(1), of now t session i payload] assms(2) by (auto simp: extends_def)
next
  case (RqUpdate db now t session i payload)
  then show ?thesis using update_serves [of i w db now t session payload] frozen_unchanged(1) [OF assms, of db now t session payload] assms
    by (cases "li_ID r = i") (auto simp: serves_def)
next
  case (RqDelete t session i)
  then show ?thesis using delete_serves [of i w t session] frozen_unchanged(2) [OF assms, of t session] assms
    by (cases "li_ID r = i") (auto simp: serves_def)
next
  case (RqApprove db now t session i)
  then show ?thesis using approve_serves [of i w db now t session] frozen_unchanged(3) [OF assms, of db now t session] assms
    by (cases "li_ID r = i") (auto simp: serves_def)
qed

text \<open>C24: a line item that was invoiced, is approved and has the amount it was approved for stays as it is, whatever
  requests to create, update, delete or approve line items any users make in any order.\<close>

theorem invoiced_items_frozen:
  assumes "items_ok w" "r \<in> set (lw_line_items w)" "frozen r"
  shows "r \<in> set (lw_line_items (fold li_serve requests w))"
  using assms
proof (induction requests arbitrary: w)
  case (Cons rq requests)
  then show ?case using li_serve_frozen [OF Cons.prems, of rq] by simp
qed simp

section \<open>Who may change line items\<close>

definition may_touch :: "tables \<Rightarrow> Session \<Rightarrow> uuid \<Rightarrow> bool" where
  "may_touch t session i \<longleftrightarrow> (if IsTspUser session then offered t session i else IsOfficeUser session)"

lemma with_shipment_changed: "fst (with_shipment t session i w k) \<noteq> w \<Longrightarrow> may_touch t session i"
  by (cases "FetchShipmentForVerifiedTSPUser t (ss_TspUserID session) i")
    (auto simp: with_shipment_def may_touch_def offered_def FetchShipmentForVerifiedTSPUser_Ret FetchShipmentByTSP_Ret split: if_splits)

definition item_of :: "li_world \<Rightarrow> uuid \<Rightarrow> (ShipmentLineItem \<Rightarrow> bool) \<Rightarrow> bool" where
  "item_of w i P \<longleftrightarrow> (\<exists>r \<in> set (lw_line_items w). li_ID r = i \<and> P (load_line_item w r))"

lemma fetched_item_of: "FetchShipmentLineItemByID w (Some i) = (item, None) \<Longrightarrow> P item \<Longrightarrow> item_of w i P"
  using fetched_item [of w i item] by (auto simp: item_of_def)

text \<open>C25: a request that changes anything was made by a user who may: one of a provider the shipment was offered to, or else
  one of the office; only the office approves, and only items that require approval are deleted or approved.\<close>

theorem line_items_guarded:
  assumes "li_serve request w \<noteq> w"
  shows "case request of
      RqCreate now t session i payload \<Rightarrow> may_touch t session i
    | RqUpdate db now t session i payload \<Rightarrow> item_of w i (\<lambda>item. may_touch t session (li_ShipmentID item))
    | RqDelete t session i \<Rightarrow> item_of w i (\<lambda>item. may_touch t session (li_ShipmentID item) \<and> it_RequiresPreApproval (li_Tariff400ngItem item)
        \<and> li_InvoiceID item = None)
    | RqApprove db now t session i \<Rightarrow> item_of w i (\<lambda>item. IsOfficeUser session \<and> it_RequiresPreApproval (li_Tariff400ngItem item))"
proof (cases request)
  case (RqCreate now t session i payload)
  with assms show ?thesis using with_shipment_changed by (fastforce simp: CreateShipmentLineItemHandler_def)
next
  case (RqUpdate db now t session i payload)
  obtain item e where f: "FetchShipmentLineItemByID w (Some i) = (item, e)" by fastforce
  with assms RqUpdate have "e = None" "may_touch t session (li_ShipmentID item)"
    by (cases e; auto simp: UpdateShipmentLineItemHandler_def dest: with_shipment_changed)+
  with f RqUpdate show ?thesis by (simp add: fetched_item_of)
next
  case (RqDelete t session i)
  obtain item e where f: "FetchShipmentLineItemByID w (Some i) = (item, e)" by fastforce
  have destroyed: "destroy_line_item item w = (w, Some ErrDestroyForbidden)" if "li_InvoiceID item \<noteq> None"
    using that by (simp add: destroy_line_item_def BeforeDestroy_def)
  from assms RqDelete f have "e = None" "it_RequiresPreApproval (li_Tariff400ngItem item)" "may_touch t session (li_ShipmentID item)"
    by (cases e; auto simp: DeleteShipmentLineItemHandler_def split: if_splits dest: with_shipment_changed)+
  moreover have "li_InvoiceID item = None"
  proof (rule ccontr)
    assume "li_InvoiceID item \<noteq> None"
    then have "fst (DeleteShipmentLineItemHandler t session i w) = w"
      using f by (auto simp: DeleteShipmentLineItemHandler_def destroyed \<open>e = None\<close>
          intro!: with_shipment_keeps [where P = "\<lambda>v. v = w"])
    with assms RqDelete show False by simp
  qed
  ultimately show ?thesis using f RqDelete by (simp add: fetched_item_of)
next
  case (RqApprove db now t session i)
  obtain item e where f: "FetchShipmentLineItemByID w (Some i) = (item, e)" by fastforce
  with assms RqApprove have "e = None" "IsOfficeUser session \<and> it_RequiresPreApproval (li_Tariff400ngItem item)"
    by (cases e; auto simp: ApproveShipmentLineItemHandler_def split: if_splits)+
  with f RqApprove show ?thesis by (simp add: fetched_item_of)
qed

section \<open>What the handlers let through\<close>



text \<open>An approval is answered with the approved item even when the database refuses to store it: the row stays as it
  was.\<close>

theorem approval_lost:
  assumes "items_ok w" "r \<in> set (lw_line_items w)" "li_Status r = LineItemStatusSUBMITTED"
    and item: "it_RequiresPreApproval (li_Tariff400ngItem (load_line_item w r))" "li_EstimateAmountCents r = None"
    and access: "IsOfficeUser session" "FetchShipment t session (li_ShipmentID r) = Ret s" "shp_Status s \<noteq> ShipmentStatusDELIVERED"
    and refused: "\<And>x. lw_save_line_item w x \<noteq> ([], None)"
  shows "\<exists>li. ApproveShipmentLineItemHandler db now t session (li_ID r) w = (w, Reply 200 li)
    \<and> li_Status li = LineItemStatusAPPROVED"
proof -
  have "fst (update_line_item w x) = w" for x
    using refused [of x] by (cases "lw_save_line_item w x") (auto simp: update_line_item_def)
  then show ?thesis using assms
    by (simp add: ApproveShipmentLineItemHandler_def fetch_distinct ShipmentLineItem_Approve_def accept_def priced_if_delivered_def
        update_and_answer_def line_item_now_def)
qed

section \<open>Samples\<close>

text \<open>An invoiced item, an approved charge of a third party (35A) and a submitted item of the shipment 7.\<close>

definition tps_item :: Tariff400ngItem where
  "tps_item = zero_item\<lparr>it_ID := 102, it_Code := ''35A'', it_RequiresPreApproval := True\<rparr>"

definition invoiced_item :: ShipmentLineItem where
  "invoiced_item = (sample_item 1 ''105B'' True)\<lparr>li_Status := LineItemStatusAPPROVED, li_InvoiceID := Some 5\<rparr>"

definition tps_charge :: ShipmentLineItem where
  "tps_charge = (sample_item 2 ''35A'' True)\<lparr>li_Tariff400ngItem := tps_item, li_Status := LineItemStatusAPPROVED,
     li_EstimateAmountCents := Some 900, li_ActualAmountCents := Some 500, li_Quantity1 := 50000\<rparr>"

definition line_item_world :: "verrs \<Rightarrow> li_world" where
  "line_item_world answer = sample_li_world\<lparr>lw_items := [tps_item], lw_line_items := [invoiced_item, tps_charge, sample_item 3 ''105B'' True],
     lw_save_line_item := \<lambda>_. (answer, None)\<rparr>"


lemma line_item_world_facts:
  "items_ok (line_item_world a)" "invoiced_item \<in> set (lw_line_items (line_item_world a))"
  "tps_charge \<in> set (lw_line_items (line_item_world a))" "sample_item 3 ''105B'' True \<in> set (lw_line_items (line_item_world a))"
  "frozen invoiced_item"
  by (auto simp: items_ok_def line_item_world_def invoiced_item_def tps_charge_def sample_items frozen_def)

theorem invoiced_items_frozen_witness:
  "invoiced_item \<in> set (lw_line_items (fold li_serve
     [RqDelete (st_tables (carried awarded_shipment None)) carrier_session 1,
      RqDelete (st_tables (carried awarded_shipment None)) carrier_session 3] (line_item_world [])))"
  by (rule invoiced_items_frozen [OF line_item_world_facts(1,2,5)])

theorem line_items_guarded_witness:
  "li_serve (RqDelete (st_tables (carried awarded_shipment None)) (carrier_session\<lparr>ss_TspUserID := 18\<rparr>) 3) (line_item_world [])
     = line_item_world []
   \<and> li_serve (RqDelete (st_tables (carried awarded_shipment None)) carrier_session 3) (line_item_world []) \<noteq> line_item_world []"
proof
  let ?t = "st_tables (carried awarded_shipment None)"
  let ?session = "carrier_session\<lparr>ss_TspUserID := 18\<rparr>"
  have "\<not> may_touch ?t ?session i" for i
    by (auto simp: may_touch_def offered_def carrier_session_def IsTspUser_def uuid_Nil_def carried_def sample_store_def sample_tables_def)
  then show "li_serve (RqDelete ?t ?session 3) (line_item_world []) = line_item_world []"
    using line_items_guarded [of "RqDelete ?t ?session 3" "line_item_world []"] by (auto simp: item_of_def)
  have r: "li_ID (sample_item 3 ''105B'' True) = 3" "li_ShipmentID (sample_item 3 ''105B'' True) = 7" by (simp_all add: sample_item_def)
  have f: "FetchShipmentLineItemByID (line_item_world []) (Some 3) = (load_line_item (line_item_world []) (sample_item 3 ''105B'' True), None)"
    using fetch_distinct [OF line_item_world_facts(1,4)] by (simp only: r)
  have l: "load_line_item (line_item_world []) (sample_item 3 ''105B'' True) = sample_item 3 ''105B'' True"
    by (simp add: load_line_item_def FetchTariff400ngItem_def line_item_world_def tps_item_def sample_item_def)
  have "it_RequiresPreApproval (li_Tariff400ngItem (sample_item 3 ''105B'' True))" by (simp add: sample_item_def)
  moreover obtain s where "FetchShipmentForVerifiedTSPUser ?t (ss_TspUserID carrier_session) 7 = Ret s"
    using carried_fetched(1,2) [OF awarded_facts(1)] by (auto simp: FetchShipmentForVerifiedTSPUser_Ret)
  moreover have "fst (destroy_line_item (sample_item 3 ''105B'' True) (line_item_world [])) \<noteq> line_item_world []"
    by (auto simp: destroy_line_item_def BeforeDestroy_def AfterDestroy_def line_item_world_def sample_items and_then_def invoiced_item_def
        tps_charge_def)
  ultimately show "li_serve (RqDelete ?t carrier_session 3) (line_item_world []) \<noteq> line_item_world []"
    using carried_fetched(4) [OF awarded_facts(1)]
    by (auto simp: DeleteShipmentLineItemHandler_def f l with_shipment_def r split: prod.splits option.splits)
qed


theorem approval_lost_witness:
  "\<exists>li. ApproveShipmentLineItemHandler sample_db 9 (st_tables approvable) office_session 3 (line_item_world [(''Status'', [''?''])])
      = (line_item_world [(''Status'', [''?''])], Reply 200 li) \<and> li_Status li = LineItemStatusAPPROVED"
proof -
  let ?w = "line_item_world [(''Status'', [''?''])]"
  let ?r = "sample_item 3 ''105B'' True"
  have r: "li_Status ?r = LineItemStatusSUBMITTED" "li_EstimateAmountCents ?r = None" "li_ID ?r = 3" "li_ShipmentID ?r = 7"
    by (simp_all add: sample_item_def zero_line_item_def)
  have l: "it_RequiresPreApproval (li_Tariff400ngItem (load_line_item ?w ?r))"
    by (simp add: load_line_item_def FetchTariff400ngItem_def line_item_world_def tps_item_def sample_item_def)
  have o: "IsOfficeUser office_session" "\<not> IsMilApp office_session"
    by (simp_all add: office_session_def IsOfficeUser_def IsMilApp_def uuid_Nil_def)
  obtain m where m: "FetchMove (st_tables approvable) office_session 2 = Ret m" using approvable_fetched by blast
  have "FetchShipment (st_tables approvable) office_session (li_ShipmentID ?r) = Ret (load_shipment (st_tables approvable) sample_shipment)"
    using m o by (simp add: FetchShipment_def DocumentHandlers.FetchShipment_def r find_row_def)
      (simp add: approvable_def sample_store_def sample_tables_def sample_shipment_def Shipment.defs)
  moreover have "shp_Status (load_shipment (st_tables approvable) sample_shipment) \<noteq> ShipmentStatusDELIVERED"
    by (simp add: load_shipment_def sample_shipment_def Shipment.defs)
  moreover have "lw_save_line_item ?w x \<noteq> ([], None)" for x by (simp add: line_item_world_def)
  ultimately show ?thesis
    using approval_lost [OF line_item_world_facts(1,4) r(1) l r(2) o(1)] by (simp add: r)
qed

end
