(* ===== verification/Spec2Isabelle.thy ===== *)
theory Spec2Isabelle
  imports Pricing AwardQueue EDI MoveHandlers Ledger Worksheet Billing ElectronicOrders Login LineItemHandlers
begin

text \<open>
  MilMove: the verified core of the server.

  MilMove plans, books, prices and invoices the moves of service members.  A service member logs in through Login.gov,
  files orders, and asks for a move that is personally procured (a PPM, reimbursed at a share of what the government would
  have paid) or done by a carrier (a household goods shipment, offered to a transportation service provider by the award
  queue, stored on the way if need be, delivered, priced from the 400NG tariff and invoiced through an EDI message).
  Office users approve, carriers act on what they are offered.  The development follows the Go code under \<open>src/pkg\<close>, and
  every definition is translated from the code its theory and the map of the manifest name.

  \<^bold>\<open>How the code is rendered.\<close>  A Go function returns an \<open>outcome\<close>: \<open>Ret\<close> a value, \<open>Fail\<close> an error, or \<open>Panic\<close> (a nil
  pointer that is dereferenced, an index out of range).  A function that may also not return has the type \<open>option\<close>, with
  \<open>None\<close> for no answer; a theorem then says that it answers.  A struct is a record, an enumeration a datatype, a nil pointer
  \<open>None\<close>; an enumeration of strings whose other values the code meets, as the measurement units of the EDI generator, is a
  string with named constants.  Amounts are \<open>int\<close>, and what the code computes in \<open>float64\<close> is computed in binary64 with its rounding (theory
  \<open>Float64\<close>), what it computes in 64-bit integers wraps where the bounds do not exclude it.  The database is a record of
  lists of rows in row order, passed on by every operation; a transaction that fails gives the tables back as they were.  Some
  functions drop the result of \<open>db.Transaction\<close>, so that a commit that fails is answered as a success: the transactions of
  \<open>Invoicing\<close>, \<open>ElectronicOrders\<close> and \<open>Shipments\<close> have an environment that says whether they commit (\<open>ev_commits\<close>,
  \<open>oe_commits\<close>, \<open>ce_commits\<close>); those of \<open>MoveStore\<close>, \<open>LineItems\<close> and \<open>Pricing\<close> are taken to commit when their body succeeds.  What
  the repository does not decide is a parameter, never a definition: the validation and the errors of the database
  (package pop), fresh identifiers, the clock, the route planner, holidays (\<open>rickar/cal\<close>), Login.gov, signatures and hashes,
  the file store, GEX and e-mail.  What a theorem needs of a parameter is a hypothesis of the theorem, and its witness has
  a concrete parameter for which it holds.

  \<^bold>\<open>The theories, from the ground up.\<close>
  \<^item> \<open>Prelude\<close> (outcomes, 64-bit integers, lists), \<open>Float64\<close> (rounding to a binary format, interpreted for binary64 and
    binary32), \<open>Errors\<close> (error values and the status a handler answers with: \<open>pkg/handlers/errors.go\<close>), \<open>Money\<close>
    (\<open>pkg/unit\<close>: cents, millicents, weights, discounts and how they are printed).
  \<^item> \<open>Tariff\<close> and \<open>RateEngine\<close>: the 400NG tables and the cost of a PPM (\<open>pkg/models/tariff400ng_*.go\<close>,
    \<open>pkg/rateengine\<close>).  The cost is an exact sum of discounted parts within stated bounds, and prorated below 1000 pounds,
    where it is at most four cents off that sum.
  \<^item> \<open>Dates\<close>, \<open>TransitTimes\<close>, \<open>Entitlements\<close>: the calendar of a move, transit and packing days, weight entitlements.
    The loops over days return when working days recur, within a number of days that is bounded.
  \<^item> \<open>Records\<close>, \<open>Machines\<close>, \<open>Lifecycle\<close>: the shared rows, and the state machines of reimbursements, PPMs, orders, offers,
    storage in transit, line items, shipments and moves.  Every machine follows its table of edges, most never return to a status,
    and submitting or canceling a move carries over to all it holds.
  \<^item> \<open>Session\<close>, \<open>Login\<close>: the session, the callback of Login.gov, the cookie that carries the session and the middlewares
    in front of the handlers (\<open>pkg/auth\<close>).  A live cookie stands for an enabled user with the role of the app, and opens
    the next request.
  \<^item> \<open>Access\<close>: what a session may fetch (\<open>pkg/models\<close>); the locale \<open>guarded_fetch\<close> is the contract that every fetch keeps and
    the handlers rely on.
  \<^item> \<open>Numbering\<close>: sequence trackers and the numbers made from them (locale \<open>numbering\<close>: GBL, storage and invoice numbers
    are never issued twice).
  \<^item> \<open>StorageService\<close>: the services of storage in transit; who may change the status of a row, and that only its row changes.
  \<^item> \<open>LineItems\<close>, \<open>Pricing\<close>, \<open>DeliveryFrame\<close>: line items and their forms, the pricers, the base items, and delivering, pricing and pricing again a
    shipment as runs over the tables.  A run that fails leaves the tables as they were; one that succeeds has priced every item, and
    has touched no row of another shipment.
  \<^item> \<open>AwardQueue\<close>: quality bands, the round of offers, blackout dates (\<open>pkg/awardqueue\<close>).
  \<^item> \<open>EDI\<close>, \<open>Invoicing\<close>, \<open>Billing\<close>: the X12 segments and the 858C message, the services that create, send and store an
    invoice (an item with an unknown unit makes its writing panic), and what holds through any number of requests whatever GEX, the database and the store answer: a line item is billed once.
  \<^item> \<open>MoveStore\<close>, \<open>Ledger\<close>: saving orders, moves, PPMs and documents as transactions, and the refinement of the row lists to
    finite maps (locale \<open>keyed_table\<close>, interpreted for the ten tables whose rows the transactions save and replace).
  \<^item> \<open>PPMHandlers\<close>, \<open>DocumentHandlers\<close>, \<open>MoveHandlers\<close>, \<open>Uploads\<close>: the handlers of the internal API
    (\<open>pkg/handlers/internalapi\<close>), each with its guards in the order of the code, and who may change what through them.
  \<^item> \<open>ShipmentDates\<close>, \<open>Shipments\<close>: the dates of a shipment, which are shown as they were planned, and the handlers of
    carriers and of the internal API for a shipment (\<open>pkg/handlers/publicapi/shipments.go\<close>, \<open>internalapi/shipments.go\<close>):
    a carrier changes nothing but a shipment it was offered, and a shipment has one bill of lading as long as the earlier ones can
    be read.
  \<^item> \<open>LineItemHandlers\<close>: the handlers of line items (\<open>pkg/handlers/publicapi/shipment_line_items.go\<close>); invoiced items are
    frozen under any sequence of requests.
  \<^item> \<open>WorksheetFormats\<close>, \<open>Worksheet\<close>: the shipment summary worksheet, whose totals are exact sums although they are added in
    floating point.
  \<^item> \<open>ElectronicOrders\<close>: the API through which the services' personnel systems post orders (\<open>pkg/handlers/ordersapi\<close>); posted
    revisions are never lost or changed and are read back as they were sent, and a certificate reaches exactly the orders it has a right to.

  \<^bold>\<open>Loops, fuel and bounds.\<close>  There is no fuel.  The loop of the award queue ends when a provider is found or none is eligible,
  which the code does not bound; it is a \<open>partial_function\<close>, and \<open>attempt_returns\<close> shows that it answers when the database accepts
  its writes (each round raises the offer count of an eligible row, so the rows below a bound run out).  The loops over days are partial
  in the same way.  The bounds on tariff rates, weights and distances under which arithmetic is exact are the definitions
  \<open>bounded_*\<close> of \<open>RateEngine\<close>: rates and charges far above those of the tariff, and far below what binary64 represents exactly.

  \<^bold>\<open>What is not modelled.\<close>  Hooks of the database that only fill in what the code would reject (\<open>Shipment.BeforeSave\<close>,
  \<open>Order.AfterSave\<close>, the determination of the traffic distribution list of a shipment), concurrent requests (every request runs on the
  tables alone; the advisory lock of the award queue is taken to be granted), logging and tracing, the validators of package
  \<open>validate\<close> (what they answer is a parameter), and the parts that are input and output only: the servers and commands (\<open>cmd\<close>),
  configuration, file stores, e-mail, the PDF generator, the person lookup of DMDC, the route planners, generated tables and clients,
  the test data generator, migrations, and the browser's code.  The manifest lists each with its reason.
\<close>

end
